(* ===== verification/Rampage_Prelude.thy ===== *)
theory Rampage_Prelude
  imports Main "HOL-Library.Word" "HOL-Library.FSet" "HOL-Library.Finite_Map"
begin

text \<open>
  Shared vocabulary of the development: machine integers with Rust's saturating and checked
  operations, time stamps, the byte-string predicates of the Rust standard library that the
  contracts use, and the iterator combinators (\<open>max_by_key\<close>, \<open>min_by_key\<close>, \<open>find_map\<close>,
  \<open>try_for_each\<close>) with the laws the component proofs rest on.
\<close>

section \<open>Machine integers\<close>

type_synonym u8 = "8 word"
type_synonym u16 = "16 word"
type_synonym u32 = "32 word"
type_synonym u64 = "64 word"
type_synonym uuid = "128 word"

text \<open>Time stamps are nanoseconds since the epoch; chrono's \<open>Duration\<close> is a difference of them.\<close>

type_synonym datetime = int

named_theorems sat_simps "saturating and checked word arithmetic, read as natural numbers"
named_theorems contract_defs "definitions of the contract predicates"

definition sat_add :: "'a::len word \<Rightarrow> 'a word \<Rightarrow> 'a word" where
  "sat_add a b = (if unat a + unat b < 2 ^ LENGTH('a) then a + b else -1)"

definition sat_sub :: "'a::len word \<Rightarrow> 'a word \<Rightarrow> 'a word" where
  "sat_sub a b = (if b \<le> a then a - b else 0)"

definition sat_mul :: "'a::len word \<Rightarrow> 'a word \<Rightarrow> 'a word" where
  "sat_mul a b = (if unat a * unat b < 2 ^ LENGTH('a) then a * b else -1)"

definition checked_add :: "'a::len word \<Rightarrow> 'a word \<Rightarrow> 'a word option" where
  "checked_add a b = (if unat a + unat b < 2 ^ LENGTH('a) then Some (a + b) else None)"

definition checked_sub :: "'a::len word \<Rightarrow> 'a word \<Rightarrow> 'a word option" where
  "checked_sub a b = (if b \<le> a then Some (a - b) else None)"

definition checked_mul :: "'a::len word \<Rightarrow> 'a word \<Rightarrow> 'a word option" where
  "checked_mul a b = (if unat a * unat b < 2 ^ LENGTH('a) then Some (a * b) else None)"

text \<open>Rust's \<open>div_ceil\<close>: the quotient, plus one when the division leaves a remainder.\<close>

definition div_ceil :: "'a::len word \<Rightarrow> 'a word \<Rightarrow> 'a word" where
  "div_ceil a b = (if a mod b > 0 then a div b + 1 else a div b)"

definition i64_max :: nat where
  "i64_max = 2 ^ 63 - 1"

lemma unat_max_word: "unat (- 1 :: 'a::len word) = 2 ^ LENGTH('a) - 1"
  by (simp add: unsigned_minus_1_eq_mask mask_eq_exp_minus_1)

lemma unat_sat_add [sat_simps]:
  "unat (sat_add a b :: 'a::len word) = min (unat a + unat b) (2 ^ LENGTH('a) - 1)"
  by (auto simp: sat_add_def unat_max_word unat_word_ariths min_def)

lemma unat_sat_sub [sat_simps]: "unat (sat_sub a b) = unat a - unat b"
  by (auto simp: sat_sub_def unat_sub word_le_nat_alt)

lemma unat_sat_mul [sat_simps]:
  "unat (sat_mul a b :: 'a::len word) = min (unat a * unat b) (2 ^ LENGTH('a) - 1)"
proof (cases "unat a * unat b < 2 ^ LENGTH('a)")
  case True
  then have "unat a * unat b \<le> 2 ^ LENGTH('a) - 1" by linarith
  with True show ?thesis by (simp add: sat_mul_def unat_word_ariths)
next
  case False
  then have "2 ^ LENGTH('a) - 1 \<le> unat a * unat b" by linarith
  with False show ?thesis by (simp add: sat_mul_def unat_max_word)
qed

lemma checked_add_Some [sat_simps]:
  "checked_add a b = Some c \<longleftrightarrow> unat a + unat b < 2 ^ LENGTH('a) \<and> c = a + b"
  for a b c :: "'a::len word"
  by (auto simp: checked_add_def)

lemma unat_checked_add: "checked_add a b = Some c \<Longrightarrow> unat c = unat a + unat b"
  by (auto simp: checked_add_def unat_word_ariths split: if_splits)

lemma unat_checked_sub: "checked_sub a b = Some c \<Longrightarrow> unat c = unat a - unat b \<and> b \<le> a"
  by (auto simp: checked_sub_def unat_sub word_le_nat_alt split: if_splits)

lemma unat_checked_mul: "checked_mul a b = Some c \<Longrightarrow> unat c = unat a * unat b"
  by (auto simp: checked_mul_def unat_word_ariths split: if_splits)

lemma sat_sub_le: "sat_sub a b \<le> a"
  by (simp add: word_le_nat_alt sat_simps)

lemma word_of_nat_unat [simp]: "of_nat (unat w) = (w :: 'a::len word)"
  by (metis of_nat_unat ucast_id)

lemma unat_u32_lt: "unat (x :: u32) < 2 ^ 32"
  using unsigned_less [of x] by simp

lemma unat_u64_lt: "unat (x :: u64) < 2 ^ 64"
  using unsigned_less [of x] by simp

lemma unat_ucast_u32 [simp]: "unat (ucast (x :: u32) :: u64) = unat x"
  using unat_u32_lt [of x] by (simp add: unsigned_ucast_eq take_bit_nat_eq_self)

lemma sat_add_0 [simp]: "sat_add a 0 = a" "sat_add 0 a = a"
  by (auto simp: sat_add_def)

text \<open>The ceiling division of two words is the ceiling division of their values.\<close>

lemma nat_ceil_div: "(0::nat) < b \<Longrightarrow>
    (if a mod b > 0 then a div b + 1 else a div b) = (a + b - 1) div b"
proof -
  assume b: "0 < b"
  show ?thesis
  proof (cases "a mod b = 0")
    case True
    then obtain q where "a = b * q" by auto
    moreover have "(b * q + b - 1) div b = q"
      using b by (intro div_nat_eqI) (auto simp: algebra_simps)
    ultimately show ?thesis using b True by simp
  next
    case False
    have "(a + b - 1) div b = a div b + 1"
    proof (rule div_nat_eqI)
      show "b * (a div b + 1) \<le> a + b - 1"
      proof -
        have "b * (a div b) + 1 \<le> a" using False mult_div_mod_eq [of b a] by linarith
        then show ?thesis by (simp add: algebra_simps)
      qed
      show "a + b - 1 < b * Suc (a div b + 1)"
      proof -
        have "a < b * (a div b) + b"
          using mod_less_divisor [OF b, of a] mult_div_mod_eq [of b a] by linarith
        then show ?thesis by (simp add: algebra_simps)
      qed
    qed
    with False show ?thesis by simp
  qed
qed

lemma unat_div_ceil:
  assumes b: "b \<noteq> 0"
  shows "unat (div_ceil a b) = (unat a + unat b - 1) div unat b"
proof -
  from b have b0: "0 < unat b" by (simp add: unat_gt_0)
  have lt: "unat a div unat b + 1 < 2 ^ LENGTH('a)" if r: "0 < unat a mod unat b"
  proof -
    have "1 < unat b" using r b0 by (metis One_nat_def Suc_lessI mod_by_Suc_0 nat_neq_iff)
    then have "unat a div unat b < unat a"
      using r by (metis div_less_dividend gr0I mod_0)
    moreover have "unat a < 2 ^ LENGTH('a)" by (rule unsigned_less)
    ultimately show ?thesis by linarith
  qed
  have "a mod b > 0 \<longleftrightarrow> unat a mod unat b > 0"
    by (simp add: unat_gt_0 [symmetric] unat_mod word_gt_0)
  then have "unat (div_ceil a b) =
      (if unat a mod unat b > 0 then unat a div unat b + 1 else unat a div unat b)"
    using lt by (auto simp: div_ceil_def unat_word_ariths(1) unat_div_distrib)
  then show ?thesis using nat_ceil_div [OF b0, of "unat a"] by simp
qed

section \<open>Time\<close>

definition nanos_per_second :: int where
  "nanos_per_second = 1000000000"

definition seconds :: "int \<Rightarrow> int" where
  "seconds n = n * nanos_per_second"

definition minutes :: "int \<Rightarrow> int" where
  "minutes n = seconds (60 * n)"

text \<open>\<open>num_seconds\<close> truncates towards zero; \<open>timestamp_millis\<close> rounds down.\<close>

definition num_seconds :: "int \<Rightarrow> int" where
  "num_seconds d = (if 0 \<le> d then d div nanos_per_second else - ((- d) div nanos_per_second))"

definition timestamp_millis :: "datetime \<Rightarrow> int" where
  "timestamp_millis t = t div 1000000"

lemma seconds_mono [simp]: "seconds a \<le> seconds b \<longleftrightarrow> a \<le> b"
  by (simp add: seconds_def nanos_per_second_def)

lemma seconds_pos [simp]: "0 < seconds a \<longleftrightarrow> 0 < a"
  by (simp add: seconds_def nanos_per_second_def)

lemma num_seconds_seconds [simp]: "num_seconds (seconds n) = n"
  by (simp add: num_seconds_def seconds_def nanos_per_second_def zdiv_zminus1_eq_if)

lemma num_seconds_le: "num_seconds d \<le> n \<Longrightarrow> 0 \<le> n \<Longrightarrow> d < seconds (n + 1)"
  by (auto simp: num_seconds_def seconds_def nanos_per_second_def split: if_splits)

lemma num_seconds_mono: "d \<le> seconds n \<Longrightarrow> 0 \<le> n \<Longrightarrow> num_seconds d \<le> n"
  by (auto simp: num_seconds_def seconds_def nanos_per_second_def)

section \<open>Byte strings\<close>

text \<open>
  A Rust \<open>String\<close> is its UTF-8 bytes: \<open>len\<close> counts bytes, and the \<open>char\<close> type of HOL is a
  byte. The predicates over Unicode scalar values (\<open>trim\<close>, \<open>is_control\<close>) are written on the
  encoded bytes.
\<close>

definition byte :: "char \<Rightarrow> nat" where
  "byte c = of_char c"

definition is_ascii :: "string \<Rightarrow> bool" where
  "is_ascii s = list_all (\<lambda>c. byte c < 128) s"

definition is_ascii_digit :: "char \<Rightarrow> bool" where
  "is_ascii_digit c = (48 \<le> byte c \<and> byte c \<le> 57)"

definition is_lower_hex_digit :: "char \<Rightarrow> bool" where
  "is_lower_hex_digit c = (is_ascii_digit c \<or> (97 \<le> byte c \<and> byte c \<le> 102))"

definition is_ascii_hexdigit :: "char \<Rightarrow> bool" where
  "is_ascii_hexdigit c =
     (is_lower_hex_digit c \<or> (65 \<le> byte c \<and> byte c \<le> 70))"

definition to_ascii_lowercase :: "string \<Rightarrow> string" where
  "to_ascii_lowercase s =
     map (\<lambda>c. if 65 \<le> byte c \<and> byte c \<le> 90 then char_of (byte c + 32) else c) s"

definition strip_prefix :: "string \<Rightarrow> string \<Rightarrow> string option" where
  "strip_prefix p s = (if take (length p) s = p then Some (drop (length p) s) else None)"

definition starts_with :: "string \<Rightarrow> string \<Rightarrow> bool" where
  "starts_with p s = (take (length p) s = p)"

definition ends_with :: "string \<Rightarrow> string \<Rightarrow> bool" where
  "ends_with p s = (length p \<le> length s \<and> drop (length s - length p) s = p)"

fun str_contains :: "string \<Rightarrow> string \<Rightarrow> bool" where
  "str_contains p [] = (p = [])"
| "str_contains p (c # s) = (starts_with p (c # s) \<or> str_contains p s)"

text \<open>\<open>split\<close> on a set of separator characters: the empty string yields one empty segment.\<close>

fun split_on :: "char set \<Rightarrow> string \<Rightarrow> string list" where
  "split_on seps [] = [[]]"
| "split_on seps (c # s) =
     (if c \<in> seps then [] # split_on seps s
      else (case split_on seps s of [] \<Rightarrow> [[c]] | x # xs \<Rightarrow> (c # x) # xs))"

text \<open>
  \<open>blank s\<close> is \<open>s.trim().is_empty()\<close>: every scalar value has the Unicode property White\_Space.
  The multi-byte cases are U+0085, U+00A0, U+1680, U+2000 to U+200A, U+2028, U+2029, U+202F,
  U+205F and U+3000.
\<close>

definition ws1 :: "nat \<Rightarrow> bool" where
  "ws1 a = ((9 \<le> a \<and> a \<le> 13) \<or> a = 32)"

definition ws2 :: "nat \<Rightarrow> nat \<Rightarrow> bool" where
  "ws2 a b = (a = 194 \<and> (b = 133 \<or> b = 160))"

definition ws3 :: "nat \<Rightarrow> nat \<Rightarrow> nat \<Rightarrow> bool" where
  "ws3 a b c =
     ((a = 225 \<and> b = 154 \<and> c = 128)
    \<or> (a = 226 \<and> b = 128 \<and> ((128 \<le> c \<and> c \<le> 138) \<or> c = 168 \<or> c = 169 \<or> c = 175))
    \<or> (a = 226 \<and> b = 129 \<and> c = 159)
    \<or> (a = 227 \<and> b = 128 \<and> c = 128))"

fun blank :: "string \<Rightarrow> bool" where
  "blank [] = True"
| "blank [a] = ws1 (byte a)"
| "blank [a, b] = (if ws1 (byte a) then blank [b] else ws2 (byte a) (byte b))"
| "blank (a # b # c # s) =
     (if ws1 (byte a) then blank (b # c # s)
      else if ws2 (byte a) (byte b) then blank (c # s)
      else if ws3 (byte a) (byte b) (byte c) then blank s else False)"

text \<open>
  \<open>has_control s\<close> is \<open>s.chars().any(char::is_control)\<close>: general category Cc, that is U+0000 to
  U+001F, U+007F and U+0080 to U+009F (the last encoded with the lead byte 194).
\<close>

fun has_control :: "string \<Rightarrow> bool" where
  "has_control [] = False"
| "has_control [a] = (byte a < 32 \<or> byte a = 127)"
| "has_control (a # b # s) =
     (byte a < 32 \<or> byte a = 127 \<or> (byte a = 194 \<and> 128 \<le> byte b \<and> byte b \<le> 159)
      \<or> has_control (b # s))"

lemma starts_with_append [simp]: "starts_with p (p @ s)"
  by (simp add: starts_with_def)

lemma strip_prefix_append [simp]: "strip_prefix p (p @ s) = Some s"
  by (simp add: strip_prefix_def)

lemma strip_prefix_Some: "strip_prefix p s = Some r \<longleftrightarrow> s = p @ r"
  by (auto simp: strip_prefix_def) (metis append_take_drop_id)

lemma ends_with_append [simp]: "ends_with p (s @ p)"
  by (simp add: ends_with_def)

lemma is_ascii_append [simp]: "is_ascii (a @ b) \<longleftrightarrow> is_ascii a \<and> is_ascii b"
  by (simp add: is_ascii_def)

lemma lower_hex_ascii: "list_all is_lower_hex_digit s \<Longrightarrow> is_ascii s"
  by (auto simp: is_ascii_def is_lower_hex_digit_def is_ascii_digit_def list_all_iff)

lemma length_to_ascii_lowercase [simp]: "length (to_ascii_lowercase s) = length s"
  by (simp add: to_ascii_lowercase_def)

lemma byte_lt [simp]: "byte c < 256"
  using of_char_mod_256 [of c, where 'a = nat] by (metis byte_def mod_less_divisor zero_less_numeral)

lemma byte_char_of [simp]: "n < 256 \<Longrightarrow> byte (char_of n) = n"
  by (simp add: byte_def)

text \<open>No upper-case letter is left after \<open>to_ascii_lowercase\<close>.\<close>

lemma lowercase_no_upper:
  "c \<in> set (to_ascii_lowercase s) \<Longrightarrow> \<not> (65 \<le> byte c \<and> byte c \<le> 90)"
  by (auto simp: to_ascii_lowercase_def)

section \<open>Iterator combinators\<close>

text \<open>\<open>Iterator::max_by_key\<close> returns the last of the maximal elements, \<open>min_by_key\<close> the first
  of the minimal ones.\<close>

fun max_by_key :: "('a \<Rightarrow> 'k::linorder) \<Rightarrow> 'a list \<Rightarrow> 'a option" where
  "max_by_key f [] = None"
| "max_by_key f (x # xs) =
     (case max_by_key f xs of None \<Rightarrow> Some x
      | Some y \<Rightarrow> if f y < f x then Some x else Some y)"

fun min_by_key :: "('a \<Rightarrow> 'k::linorder) \<Rightarrow> 'a list \<Rightarrow> 'a option" where
  "min_by_key f [] = None"
| "min_by_key f (x # xs) =
     (case min_by_key f xs of None \<Rightarrow> Some x
      | Some y \<Rightarrow> if f y < f x then Some y else Some x)"

lemma max_by_key_None [simp]: "max_by_key f xs = None \<longleftrightarrow> xs = []"
  by (cases xs) (auto split: option.splits)

lemma min_by_key_None [simp]: "min_by_key f xs = None \<longleftrightarrow> xs = []"
  by (cases xs) (auto split: option.splits)

lemma max_by_key_in: "max_by_key f xs = Some y \<Longrightarrow> y \<in> set xs"
  by (induction xs arbitrary: y) (auto split: option.splits if_splits)

lemma max_by_key_ge: "max_by_key f xs = Some y \<Longrightarrow> x \<in> set xs \<Longrightarrow> f x \<le> f y"
proof (induction xs arbitrary: y)
  case Nil
  then show ?case by simp
next
  case (Cons z zs)
  show ?case
  proof (cases "max_by_key f zs")
    case None
    with Cons.prems show ?thesis by auto
  next
    case (Some w)
    with Cons.IH have "x \<in> set zs \<Longrightarrow> f x \<le> f w" by blast
    with Cons.prems Some show ?thesis by (auto split: if_splits)
  qed
qed

lemma min_by_key_in: "min_by_key f xs = Some y \<Longrightarrow> y \<in> set xs"
  by (induction xs arbitrary: y) (auto split: option.splits if_splits)

lemma min_by_key_le: "min_by_key f xs = Some y \<Longrightarrow> x \<in> set xs \<Longrightarrow> f y \<le> f x"
proof (induction xs arbitrary: y)
  case Nil
  then show ?case by simp
next
  case (Cons z zs)
  show ?case
  proof (cases "min_by_key f zs")
    case None
    with Cons.prems show ?thesis by auto
  next
    case (Some w)
    with Cons.IH have "x \<in> set zs \<Longrightarrow> f w \<le> f x" by blast
    with Cons.prems Some show ?thesis by (auto split: if_splits)
  qed
qed

declare fcard_fempty [simp] fcard_finsert_if [simp]

lemma list_all_replicate [simp]: "list_all P (replicate n x) \<longleftrightarrow> n = 0 \<or> P x"
  by (auto simp: list_all_iff)

text \<open>\<open>list.find\<close> returns a member that satisfies the predicate.\<close>

lemma find_SomeD: "List.find P xs = Some x \<Longrightarrow> x \<in> set xs \<and> P x"
  by (induction xs) (auto split: if_splits)

section \<open>Transition systems\<close>

text \<open>An invariant that holds at the start and is kept by every step holds in every reachable
  state; a log that every step only extends keeps each of its entries.\<close>

locale invariant_system =
  fixes step :: "'s \<Rightarrow> 's \<Rightarrow> bool"
    and start :: "'s \<Rightarrow> bool"
    and inv :: "'s \<Rightarrow> bool"
  assumes inv_start: "start s \<Longrightarrow> inv s"
    and inv_step: "inv s \<Longrightarrow> step s t \<Longrightarrow> inv t"
begin

lemma inv_steps: "step\<^sup>*\<^sup>* s t \<Longrightarrow> inv s \<Longrightarrow> inv t"
  by (induction rule: rtranclp_induct) (auto intro: inv_step)

lemma inv_reachable: "start s \<Longrightarrow> step\<^sup>*\<^sup>* s t \<Longrightarrow> inv t"
  using inv_start inv_steps by blast

end

locale append_only_log =
  fixes step :: "'s \<Rightarrow> 's \<Rightarrow> bool"
    and log_of :: "'s \<Rightarrow> 'r list"
  assumes step_extends: "step s t \<Longrightarrow> \<exists>ys. log_of t = log_of s @ ys"
begin

lemma log_extends: "step\<^sup>*\<^sup>* s t \<Longrightarrow> \<exists>ys. log_of t = log_of s @ ys"
proof (induction rule: rtranclp_induct)
  case base
  then show ?case by simp
next
  case (step t u)
  then show ?case using step_extends [of t u] by fastforce
qed

lemma entry_kept:
  assumes "step\<^sup>*\<^sup>* s t" and "i < length (log_of s)"
  shows "i < length (log_of t) \<and> log_of t ! i = log_of s ! i"
  using log_extends [OF assms(1)] assms(2) by (auto simp: nth_append)

end

end
