(* ===== verification/Rampage_Protocol.thy ===== *)
theory Rampage_Protocol
  imports Rampage_Prelude
begin

text \<open>
  The versioned contracts of \<open>crates/rampage-protocol/src/lib.rs\<close>: every struct as a record with
  the fields in the source's order (prefixed, since record fields are global), every enum as a
  datatype, every \<open>is_valid\<close>/\<open>is_active_at\<close>/\<open>validate_at\<close> method as an executable predicate, in
  the order of the source. A \<open>BTreeSet\<close> is a finite set, a \<open>BTreeMap\<close> a finite map, a floating
  point number its IEEE bit pattern.
\<close>

type_synonym f64 = "64 word"
type_synonym f32 = "32 word"
type_synonym labels = "(string, string) fmap"

text \<open>A \<open>serde_json::Value\<close>, as the library documents it.\<close>

datatype json = JNull | JBool bool | JPosInt u64 | JNegInt int | JFloat f64 | JString string
  | JArray "json list" | JObject "(string \<times> json) list"

section \<open>Limits\<close>

definition MAX_ARTIFACT_TRANSFER_BYTES :: u64 where
  "MAX_ARTIFACT_TRANSFER_BYTES = 64 * 1024 * 1024"

definition LINK_BENCHMARK_TRANSFER_BYTES :: u64 where
  "LINK_BENCHMARK_TRANSFER_BYTES = 256 * 1024"

definition MAX_SHARDS_PER_SET :: nat where
  "MAX_SHARDS_PER_SET = 256"

definition MAX_MODEL_SESSION_NODES :: u16 where
  "MAX_MODEL_SESSION_NODES = 64"

definition MAX_MODEL_SESSION_BYTES :: u64 where
  "MAX_MODEL_SESSION_BYTES = 16 * 1024 * 1024 * 1024 * 1024"

definition MAX_MODEL_PROMPT_BYTES :: u64 where
  "MAX_MODEL_PROMPT_BYTES = 1024 * 1024"

definition MAX_MODEL_OUTPUT_TOKENS :: u32 where
  "MAX_MODEL_OUTPUT_TOKENS = 32 * 1024"

definition MAX_REMOTE_DESKTOP_FRAME_BYTES :: u64 where
  "MAX_REMOTE_DESKTOP_FRAME_BYTES = 4 * 1024 * 1024"

definition MAX_REMOTE_DESKTOP_INPUT_EVENTS :: nat where
  "MAX_REMOTE_DESKTOP_INPUT_EVENTS = 64"

definition MAX_REMOTE_DESKTOP_DIMENSION :: u32 where
  "MAX_REMOTE_DESKTOP_DIMENSION = 4096"

definition MAX_REMOTE_DESKTOP_FPS :: u16 where
  "MAX_REMOTE_DESKTOP_FPS = 15"

definition MAX_REMOTE_DESKTOP_LEASE_SECONDS :: int where
  "MAX_REMOTE_DESKTOP_LEASE_SECONDS = 30"

definition MAX_RELAY_ENDPOINTS :: nat where
  "MAX_RELAY_ENDPOINTS = 4096"

definition MAX_LEASE_CLOCK_SKEW_SECONDS :: int where
  "MAX_LEASE_CLOCK_SKEW_SECONDS = 5"

definition ARTIFACT_TRANSFER_CHUNK_BYTES :: u32 where
  "ARTIFACT_TRANSFER_CHUNK_BYTES = 4 * 1024 * 1024"

lemmas protocol_limits = MAX_ARTIFACT_TRANSFER_BYTES_def LINK_BENCHMARK_TRANSFER_BYTES_def
  MAX_SHARDS_PER_SET_def MAX_MODEL_SESSION_NODES_def MAX_MODEL_SESSION_BYTES_def
  MAX_MODEL_PROMPT_BYTES_def MAX_MODEL_OUTPUT_TOKENS_def MAX_REMOTE_DESKTOP_FRAME_BYTES_def
  MAX_REMOTE_DESKTOP_INPUT_EVENTS_def MAX_REMOTE_DESKTOP_DIMENSION_def
  MAX_REMOTE_DESKTOP_FPS_def MAX_REMOTE_DESKTOP_LEASE_SECONDS_def MAX_RELAY_ENDPOINTS_def
  MAX_LEASE_CLOCK_SKEW_SECONDS_def ARTIFACT_TRANSFER_CHUNK_BYTES_def

definition lease_has_started :: "datetime \<Rightarrow> datetime \<Rightarrow> bool" where
  "lease_has_started issued_at now = (issued_at \<le> now + seconds MAX_LEASE_CLOCK_SKEW_SECONDS)"

definition is_sha256_digest :: "string \<Rightarrow> bool" where
  "is_sha256_digest value = (case strip_prefix ''sha256:'' value of
       None \<Rightarrow> False
     | Some hex \<Rightarrow> length hex = 64 \<and> list_all is_lower_hex_digit hex)"

section \<open>Enumerations\<close>

datatype resource_class = CpuCompute | GpuCompute | NpuCompute | GpuMemory | RamWorkingSet
  | RamCache | StorageCache | StorageScratch | ProtectedStore | NetworkFetch | NetworkRelay
  | Toolchain | Runtime | Codec | LicensedService

datatype storage_class = Cache | Scratch | Protected

datatype artifact_transfer_operation = Put | Get

datatype device_kind = Desktop | Laptop | Server | SteamDeck | Phone | Tablet | Console

datatype capability_state = Full | LocalReduced | DeterministicOnly | ReadOnly | Blocked

datatype promotion_risk_v1 = R0Configuration | R1AllowlistedSource | R2ProtectedChange
  | R3AuthorityCritical

datatype workload_domain = AiInference | AiEvaluation | Gaming | CreativeProduction
  | SoftwareBuild | ScientificComputing | DataProcessing | Storage | EdgeUtility

datatype execution_pattern = WholeWorkload | IndependentShard | ReplicaPattern
  | StreamingService | ApplicationNativeDistributed | TensorParallel | PipelineParallel

datatype workload_isolation = AllowlistedInProcess | DedicatedProcess | Container | WasmSandbox
  | ExternalService | VendorWorker

datatype workload_capability_status = Shipped | Qualified | Candidate

datatype compute_strategy = MaximumModelSize | SpeedBoost | MaximumThroughput | Efficiency
  | AutonomousBalanced

datatype model_backend = LocalOllama | ExoMlx | VllmRay

datatype model_parallelism = WholeModel | Pipeline | Tensor | Replica | Speculative

datatype model_memory_kind = DedicatedGpu | Unified | Host | Hybrid

datatype model_runtime_status = ShippedLocal | RuntimeCandidateStatus | RuntimeQualified

datatype job_state = Proposed | Admitted | Prepared | Running | Succeeded | Failed | Ambiguous
  | Cancelled | Fenced

datatype workload_trust = NativeTrusted | GeneratedSandboxed | ExternalUntrusted

section \<open>Promotion candidates and canary leases\<close>

record promotion_evidence_gate =
  gate_name :: string
  gate_passed :: bool
  gate_evidence_digest :: string
  gate_independent :: bool

record promotion_candidate =
  pc_schema :: string
  pc_proposal_id :: uuid
  pc_project_id :: uuid
  pc_base_revision :: string
  pc_candidate_digest :: string
  pc_changed_paths :: "string list"
  pc_risk :: promotion_risk_v1
  pc_gates :: "promotion_evidence_gate list"
  pc_requested_at :: datetime
  pc_expires_at :: datetime

definition promotion_candidate_SCHEMA :: string where
  "promotion_candidate_SCHEMA = ''rampage.promotion-candidate.v1''"

definition REQUIRED_GATES :: "string list" where
  "REQUIRED_GATES =
     [''g0_schema_policy_static'', ''g1_deterministic_replay'', ''g2_quality_reliability_cost'',
      ''g3_sealed_holdout'', ''g4_adversarial_security'', ''g5_independent_replication'',
      ''g6_shadow'', ''g7_canary_rollback'']"

definition changed_path_ok :: "string \<Rightarrow> bool" where
  "changed_path_ok path =
     (path \<noteq> [] \<and> length path \<le> 260 \<and> is_ascii path
      \<and> \<not> (hd path = CHR ''/'' \<or> hd path = CHR 0x5C)
      \<and> CHR '':'' \<notin> set path
      \<and> list_all (\<lambda>segment. segment \<noteq> [] \<and> segment \<noteq> ''.'' \<and> segment \<noteq> ''..'')
          (split_on {CHR ''/'', CHR 0x5C} path))"

definition promotion_candidate_is_valid_at :: "promotion_candidate \<Rightarrow> datetime \<Rightarrow> bool" where
  "promotion_candidate_is_valid_at c now =
     (let names = remdups (map gate_name (pc_gates c)) in
      pc_schema c = promotion_candidate_SCHEMA
      \<and> pc_base_revision c \<noteq> [] \<and> length (pc_base_revision c) \<le> 128
      \<and> is_ascii (pc_base_revision c)
      \<and> is_sha256_digest (pc_candidate_digest c)
      \<and> pc_changed_paths c \<noteq> [] \<and> length (pc_changed_paths c) \<le> 32
      \<and> list_all changed_path_ok (pc_changed_paths c)
      \<and> pc_requested_at c \<le> now \<and> now < pc_expires_at c
      \<and> num_seconds (pc_expires_at c - pc_requested_at c) \<le> 1800
      \<and> length (pc_gates c) = length REQUIRED_GATES
      \<and> length names = length REQUIRED_GATES
      \<and> list_all (\<lambda>required. required \<in> set names) REQUIRED_GATES
      \<and> list_all (\<lambda>gate. gate_passed gate \<and> is_sha256_digest (gate_evidence_digest gate)
            \<and> (gate_name gate \<noteq> ''g5_independent_replication'' \<or> gate_independent gate))
          (pc_gates c))"

record promotion_canary_lease =
  can_schema :: string
  can_canary_id :: uuid
  can_proposal_id :: uuid
  can_project_id :: uuid
  can_candidate_digest :: string
  can_risk :: promotion_risk_v1
  can_max_traffic_basis_points :: u16
  can_max_error_regression_basis_points :: u16
  can_max_latency_regression_basis_points :: u16
  can_max_cost_regression_basis_points :: u16
  can_issued_at :: datetime
  can_expires_at :: datetime
  can_nonce :: string
  can_fencing_epoch :: u64
  can_signature :: string

definition promotion_canary_lease_SCHEMA :: string where
  "promotion_canary_lease_SCHEMA = ''rampage.promotion-canary-lease.v1''"

definition canary_is_active_at :: "promotion_canary_lease \<Rightarrow> datetime \<Rightarrow> u64 \<Rightarrow> bool" where
  "canary_is_active_at l now fencing_epoch =
     (can_schema l = promotion_canary_lease_SCHEMA
      \<and> lease_has_started (can_issued_at l) now
      \<and> now < can_expires_at l
      \<and> can_fencing_epoch l = fencing_epoch
      \<and> is_sha256_digest (can_candidate_digest l)
      \<and> 1 \<le> can_max_traffic_basis_points l \<and> can_max_traffic_basis_points l \<le> 1000
      \<and> can_max_error_regression_basis_points l \<le> 500
      \<and> can_max_latency_regression_basis_points l \<le> 1000
      \<and> can_max_cost_regression_basis_points l \<le> 1000
      \<and> can_nonce l \<noteq> [] \<and> length (can_nonce l) \<le> 128 \<and> is_ascii (can_nonce l)
      \<and> can_signature l \<noteq> [])"

section \<open>Workload capabilities and model runtimes\<close>

record workload_capability =
  wc_schema :: string
  wc_adapter :: string
  wc_domain :: workload_domain
  wc_operations :: "string fset"
  wc_execution_patterns :: "execution_pattern fset"
  wc_resource_classes :: "resource_class fset"
  wc_isolation :: workload_isolation
  wc_runtime_digest :: string
  wc_checkpointable :: bool
  wc_preemptible :: bool
  wc_network_allowlist_required :: bool
  wc_status :: workload_capability_status
  wc_qualification_digest :: "string option"

definition workload_capability_SCHEMA :: string where
  "workload_capability_SCHEMA = ''rampage.workload-capability.v1''"

definition workload_capability_is_valid :: "workload_capability \<Rightarrow> bool" where
  "workload_capability_is_valid w =
     (wc_schema w = workload_capability_SCHEMA
      \<and> wc_adapter w \<noteq> [] \<and> length (wc_adapter w) \<le> 128 \<and> is_ascii (wc_adapter w)
      \<and> wc_operations w \<noteq> {||} \<and> fcard (wc_operations w) \<le> 32
      \<and> fBall (wc_operations w) (\<lambda>operation. operation \<noteq> [] \<and> length operation \<le> 64 \<and> is_ascii operation)
      \<and> wc_execution_patterns w \<noteq> {||}
      \<and> wc_resource_classes w \<noteq> {||}
      \<and> wc_runtime_digest w \<noteq> [] \<and> length (wc_runtime_digest w) \<le> 200
      \<and> is_ascii (wc_runtime_digest w)
      \<and> (case wc_status w of
           Qualified \<Rightarrow> (case wc_qualification_digest w of None \<Rightarrow> False | Some d \<Rightarrow> is_sha256_digest d)
         | Shipped \<Rightarrow> wc_qualification_digest w = None
         | Candidate \<Rightarrow> wc_qualification_digest w = None))"

definition authorizes :: "workload_capability \<Rightarrow> string \<Rightarrow> string \<Rightarrow> bool" where
  "authorizes w adapter operation =
     (workload_capability_is_valid w \<and> wc_adapter w = adapter
      \<and> operation |\<in>| wc_operations w \<and> wc_status w \<noteq> Candidate)"

record installed_model =
  im_schema :: string
  im_model_id :: string
  im_artifact_digest :: string
  im_artifact_size_bytes :: u64

definition installed_model_SCHEMA :: string where
  "installed_model_SCHEMA = ''rampage.installed-model.v1''"

definition installed_model_is_valid :: "installed_model \<Rightarrow> bool" where
  "installed_model_is_valid m =
     (im_schema m = installed_model_SCHEMA
      \<and> \<not> blank (im_model_id m) \<and> length (im_model_id m) \<le> 200 \<and> is_ascii (im_model_id m)
      \<and> is_sha256_digest (im_artifact_digest m)
      \<and> im_artifact_size_bytes m > 0
      \<and> im_artifact_size_bytes m \<le> MAX_MODEL_SESSION_BYTES)"

record model_runtime_offer =
  mr_schema :: string
  mr_adapter :: string
  mr_backend :: model_backend
  mr_runtime_version :: string
  mr_runtime_digest :: string
  mr_compatibility_key :: string
  mr_memory_kind :: model_memory_kind
  mr_available_model_bytes :: u64
  mr_supported_parallelism :: "model_parallelism fset"
  mr_status :: model_runtime_status
  mr_installed_models :: "installed_model list"
  mr_certification_digest :: "string option"

definition model_runtime_offer_SCHEMA :: string where
  "model_runtime_offer_SCHEMA = ''rampage.model-runtime-offer.v1''"

definition is_qualified_for_distributed :: "model_runtime_offer \<Rightarrow> bool" where
  "is_qualified_for_distributed r =
     (mr_schema r = model_runtime_offer_SCHEMA
      \<and> mr_status r = RuntimeQualified
      \<and> (case mr_certification_digest r of None \<Rightarrow> False | Some d \<Rightarrow> is_sha256_digest d)
      \<and> is_sha256_digest (mr_runtime_digest r)
      \<and> \<not> blank (mr_compatibility_key r)
      \<and> mr_available_model_bytes r > 0
      \<and> (Pipeline |\<in>| mr_supported_parallelism r \<or> Tensor |\<in>| mr_supported_parallelism r))"

section \<open>Nodes, offers and links\<close>

record node_identity =
  ni_schema :: string
  ni_node_id :: uuid
  ni_owner_id :: uuid
  ni_display_name :: string
  ni_device_kind :: device_kind
  ni_platform :: string
  ni_public_key :: string
  ni_enrolled_at :: datetime
  ni_fencing_epoch :: u64

definition node_identity_SCHEMA :: string where
  "node_identity_SCHEMA = ''rampage.node-identity.v1''"

definition is_valid_for_enrollment :: "node_identity \<Rightarrow> bool" where
  "is_valid_for_enrollment n =
     (ni_schema n = node_identity_SCHEMA
      \<and> ni_node_id n \<noteq> 0
      \<and> ni_owner_id n \<noteq> 0
      \<and> \<not> blank (ni_display_name n) \<and> length (ni_display_name n) \<le> 80
      \<and> \<not> has_control (ni_display_name n)
      \<and> ni_platform n \<noteq> [] \<and> length (ni_platform n) \<le> 100 \<and> is_ascii (ni_platform n)
      \<and> length (ni_public_key n) = 64 \<and> list_all is_ascii_hexdigit (ni_public_key n)
      \<and> ni_fencing_epoch n = 0)"

record resource_quantity =
  rq_class :: resource_class
  rq_capacity :: u64
  rq_available :: u64
  rq_unit :: string
  rq_labels :: labels

record availability =
  av_on_ac_power :: bool
  av_battery_percent :: "u8 option"
  av_thermal_headroom_percent :: u8
  av_foreground_allowed :: bool
  av_owner_idle :: bool

datatype observed_link_path = Direct | OwnerRelay

record link_benchmark =
  lb_schema :: string
  lb_controller_endpoint_id :: string
  lb_observed_at :: datetime
  lb_expires_at :: datetime
  lb_rtt_micros_p50 :: u64
  lb_uplink_bps :: u64
  lb_downlink_bps :: u64
  lb_transfer_bytes :: u64
  lb_samples :: u16
  lb_transport :: string
  lb_observed_path :: "observed_link_path option"

definition link_benchmark_SCHEMA :: string where
  "link_benchmark_SCHEMA = ''rampage.link-benchmark.v1''"

definition link_benchmark_is_valid_for ::
  "link_benchmark \<Rightarrow> string \<Rightarrow> datetime \<Rightarrow> datetime \<Rightarrow> bool" where
  "link_benchmark_is_valid_for b controller_endpoint_id offer_observed_at offer_expires_at =
     (lb_schema b = link_benchmark_SCHEMA
      \<and> lb_controller_endpoint_id b = controller_endpoint_id
      \<and> lb_observed_at b \<le> offer_observed_at
      \<and> lb_expires_at b \<ge> offer_expires_at
      \<and> lb_rtt_micros_p50 b > 0 \<and> lb_uplink_bps b > 0 \<and> lb_downlink_bps b > 0
      \<and> lb_transfer_bytes b = LINK_BENCHMARK_TRANSFER_BYTES
      \<and> lb_samples b \<ge> 3
      \<and> lb_transport b = ''authenticated_quic'')"

record mesh_endpoint =
  me_schema :: string
  me_endpoint_id :: string
  me_direct_addresses :: "string list"
  me_relay_urls :: "string list"
  me_issued_at :: datetime
  me_expires_at :: datetime
  me_signature :: string

definition mesh_endpoint_SCHEMA :: string where
  "mesh_endpoint_SCHEMA = ''rampage.mesh-endpoint.v1''"

record resource_offer =
  ro_schema :: string
  ro_offer_id :: uuid
  ro_node_id :: uuid
  ro_observed_at :: datetime
  ro_expires_at :: datetime
  ro_resources :: "resource_quantity list"
  ro_availability :: availability
  ro_adapters :: "string fset"
  ro_workload_capabilities :: "workload_capability list"
  ro_model_runtimes :: "model_runtime_offer list"
  ro_link_benchmark :: "link_benchmark option"
  ro_mesh_endpoint :: "mesh_endpoint option"
  ro_signature :: string

section \<open>Jobs, shard sets and contract errors\<close>

datatype contract_error = WrongSchema string string | DeadlineExpired | InvalidResourceRange
  | EmptyIdempotencyKey | InvalidShardCount | InvalidSuccessThreshold | DuplicateShardIdentity
  | ShardOwnershipMismatch | UnsafeShardLifecycle | EmptyModelId | InvalidModelSize
  | InvalidContextTokens | InvalidModelNodeCount

record resource_request =
  rr_class :: resource_class
  rr_minimum :: u64
  rr_preferred :: u64
  rr_unit :: string
  rr_required_labels :: labels

record artifact_ref =
  ar_schema :: string
  ar_digest :: string
  ar_size_bytes :: u64
  ar_media_type :: string
  ar_storage_class :: storage_class
  ar_encrypted :: bool

record job_spec =
  js_schema :: string
  js_job_id :: uuid
  js_project_id :: uuid
  js_submitted_by :: uuid
  js_adapter :: string
  js_operation :: string
  js_arguments :: "(string, string) fmap"
  js_inputs :: "artifact_ref list"
  js_requests :: "resource_request list"
  js_trust :: workload_trust
  js_restart_tolerant :: bool
  js_network_allowlist :: "string fset"
  js_deadline :: datetime
  js_idempotency_key :: string

definition job_spec_SCHEMA :: string where
  "job_spec_SCHEMA = ''rampage.job-spec.v1''"

definition job_validate_at :: "job_spec \<Rightarrow> datetime \<Rightarrow> contract_error + unit" where
  "job_validate_at j now =
     (if js_schema j \<noteq> job_spec_SCHEMA then Inl (WrongSchema job_spec_SCHEMA (js_schema j))
      else if js_deadline j \<le> now then Inl DeadlineExpired
      else if blank (js_idempotency_key j) then Inl EmptyIdempotencyKey
      else if list_ex (\<lambda>r. rr_minimum r > rr_preferred r) (js_requests j) then Inl InvalidResourceRange
      else Inr ())"

record shard_set =
  ss_schema :: string
  ss_set_id :: uuid
  ss_project_id :: uuid
  ss_submitted_by :: uuid
  ss_shards :: "job_spec list"
  ss_minimum_successes :: u32
  ss_deadline :: datetime
  ss_idempotency_key :: string

definition shard_set_SCHEMA :: string where
  "shard_set_SCHEMA = ''rampage.shard-set.v1''"

text \<open>The loop of \<open>ShardSetV1::validate_at\<close>, with the two \<open>BTreeSet\<close>s it fills as arguments.\<close>

fun validate_shards ::
  "shard_set \<Rightarrow> datetime \<Rightarrow> uuid list \<Rightarrow> string list \<Rightarrow> job_spec list \<Rightarrow> contract_error + unit" where
  "validate_shards s now job_ids keys [] = Inr ()"
| "validate_shards s now job_ids keys (shard # rest) =
     (case job_validate_at shard now of
        Inl e \<Rightarrow> Inl e
      | Inr _ \<Rightarrow>
          if js_project_id shard \<noteq> ss_project_id s \<or> js_submitted_by shard \<noteq> ss_submitted_by s
          then Inl ShardOwnershipMismatch
          else if \<not> js_restart_tolerant shard \<or> js_deadline shard > ss_deadline s
          then Inl UnsafeShardLifecycle
          else if js_job_id shard \<in> set job_ids \<or> js_idempotency_key shard \<in> set keys
          then Inl DuplicateShardIdentity
          else validate_shards s now (js_job_id shard # job_ids) (js_idempotency_key shard # keys) rest)"

definition shard_set_validate_at :: "shard_set \<Rightarrow> datetime \<Rightarrow> contract_error + unit" where
  "shard_set_validate_at s now =
     (if ss_schema s \<noteq> shard_set_SCHEMA then Inl (WrongSchema shard_set_SCHEMA (ss_schema s))
      else if ss_deadline s \<le> now then Inl DeadlineExpired
      else if blank (ss_idempotency_key s) then Inl EmptyIdempotencyKey
      else if ss_shards s = [] \<or> length (ss_shards s) > MAX_SHARDS_PER_SET then Inl InvalidShardCount
      else if ss_minimum_successes s = 0 \<or> unat (ss_minimum_successes s) > length (ss_shards s)
      then Inl InvalidSuccessThreshold
      else validate_shards s now [] [] (ss_shards s))"

section \<open>Capability leases and receipts\<close>

record capability_lease =
  cl_schema :: string
  cl_lease_id :: uuid
  cl_job_id :: uuid
  cl_node_id :: uuid
  cl_project_id :: uuid
  cl_adapter :: string
  cl_operation :: string
  cl_input_digests :: "string fset"
  cl_granted :: "resource_quantity list"
  cl_network_allowlist :: "string fset"
  cl_issued_at :: datetime
  cl_expires_at :: datetime
  cl_nonce :: string
  cl_fencing_epoch :: u64
  cl_signature :: string

definition capability_lease_SCHEMA :: string where
  "capability_lease_SCHEMA = ''rampage.capability-lease.v1''"

definition lease_is_active_at :: "capability_lease \<Rightarrow> datetime \<Rightarrow> u64 \<Rightarrow> bool" where
  "lease_is_active_at l now current_epoch =
     (cl_schema l = capability_lease_SCHEMA
      \<and> lease_has_started (cl_issued_at l) now
      \<and> now < cl_expires_at l
      \<and> cl_fencing_epoch l = current_epoch
      \<and> cl_signature l \<noteq> [])"

record execution_receipt =
  er_schema :: string
  er_receipt_id :: uuid
  er_lease_id :: uuid
  er_job_id :: uuid
  er_node_id :: uuid
  er_state :: job_state
  er_started_at :: datetime
  er_finished_at :: datetime
  er_outputs :: "artifact_ref list"
  er_metrics :: "(string, f64) fmap"
  er_stdout_digest :: "string option"
  er_stderr_digest :: "string option"
  er_result :: "json option"
  er_signature :: string

section \<open>Model sessions\<close>

record model_session_request =
  ms_schema :: string
  ms_session_id :: uuid
  ms_model_id :: string
  ms_estimated_weight_bytes :: u64
  ms_kv_cache_bytes :: u64
  ms_context_tokens :: u32
  ms_strategy :: compute_strategy
  ms_max_nodes :: u16
  ms_deadline :: datetime
  ms_idempotency_key :: string

definition model_session_request_SCHEMA :: string where
  "model_session_request_SCHEMA = ''rampage.model-session-request.v1''"

definition required_bytes :: "model_session_request \<Rightarrow> u64" where
  "required_bytes r = sat_add (ms_estimated_weight_bytes r) (ms_kv_cache_bytes r)"

definition model_session_validate_at ::
  "model_session_request \<Rightarrow> datetime \<Rightarrow> contract_error + unit" where
  "model_session_validate_at r now =
     (if ms_schema r \<noteq> model_session_request_SCHEMA
      then Inl (WrongSchema model_session_request_SCHEMA (ms_schema r))
      else if ms_deadline r \<le> now then Inl DeadlineExpired
      else if blank (ms_idempotency_key r) then Inl EmptyIdempotencyKey
      else if blank (ms_model_id r) then Inl EmptyModelId
      else if ms_estimated_weight_bytes r = 0 \<or> required_bytes r > MAX_MODEL_SESSION_BYTES
      then Inl InvalidModelSize
      else if ms_context_tokens r = 0 then Inl InvalidContextTokens
      else if ms_max_nodes r = 0 \<or> ms_max_nodes r > MAX_MODEL_SESSION_NODES
      then Inl InvalidModelNodeCount
      else Inr ())"

record model_session_lease =
  ml_schema :: string
  ml_lease_id :: uuid
  ml_session_id :: uuid
  ml_node_id :: uuid
  ml_controller_endpoint_id :: string
  ml_model_id :: string
  ml_model_digest :: string
  ml_backend :: model_backend
  ml_runtime_digest :: string
  ml_parallelism :: model_parallelism
  ml_max_prompt_bytes :: u64
  ml_max_output_tokens :: u32
  ml_issued_at :: datetime
  ml_expires_at :: datetime
  ml_nonce :: string
  ml_fencing_epoch :: u64
  ml_signature :: string

definition model_session_lease_SCHEMA :: string where
  "model_session_lease_SCHEMA = ''rampage.model-session-lease.v1''"

definition model_lease_is_active_at :: "model_session_lease \<Rightarrow> datetime \<Rightarrow> u64 \<Rightarrow> bool" where
  "model_lease_is_active_at l now current_epoch =
     (ml_schema l = model_session_lease_SCHEMA
      \<and> lease_has_started (ml_issued_at l) now
      \<and> now < ml_expires_at l
      \<and> ml_fencing_epoch l = current_epoch
      \<and> ml_backend l = LocalOllama
      \<and> ml_parallelism l = WholeModel
      \<and> ml_controller_endpoint_id l \<noteq> [] \<and> is_ascii (ml_controller_endpoint_id l)
      \<and> \<not> blank (ml_model_id l)
      \<and> is_sha256_digest (ml_model_digest l)
      \<and> \<not> blank (ml_runtime_digest l)
      \<and> ml_nonce l \<noteq> [] \<and> length (ml_nonce l) \<le> 128 \<and> is_ascii (ml_nonce l)
      \<and> ml_max_prompt_bytes l > 0 \<and> ml_max_prompt_bytes l \<le> MAX_MODEL_PROMPT_BYTES
      \<and> ml_max_output_tokens l > 0 \<and> ml_max_output_tokens l \<le> MAX_MODEL_OUTPUT_TOKENS
      \<and> ml_signature l \<noteq> [])"

record model_usage =
  mu_prompt_tokens :: u64
  mu_completion_tokens :: u64

record model_execution_receipt =
  mx_schema :: string
  mx_receipt_id :: uuid
  mx_lease_id :: uuid
  mx_session_id :: uuid
  mx_request_id :: uuid
  mx_node_id :: uuid
  mx_state :: job_state
  mx_started_at :: datetime
  mx_finished_at :: datetime
  mx_output_digest :: string
  mx_output_bytes :: u64
  mx_usage :: "model_usage option"
  mx_error :: "string option"
  mx_signature :: string

section \<open>Remote desktop\<close>

datatype remote_desktop_mode = View | Control

record remote_desktop_lease =
  rd_schema :: string
  rd_lease_id :: uuid
  rd_session_id :: uuid
  rd_node_id :: uuid
  rd_controller_endpoint_id :: string
  rd_mode :: remote_desktop_mode
  rd_max_width :: u32
  rd_max_height :: u32
  rd_max_fps :: u16
  rd_issued_at :: datetime
  rd_expires_at :: datetime
  rd_nonce :: string
  rd_fencing_epoch :: u64
  rd_signature :: string

definition remote_desktop_lease_SCHEMA :: string where
  "remote_desktop_lease_SCHEMA = ''rampage.remote-desktop-lease.v1''"

definition remote_desktop_lease_is_active_at ::
  "remote_desktop_lease \<Rightarrow> datetime \<Rightarrow> u64 \<Rightarrow> bool" where
  "remote_desktop_lease_is_active_at l now current_epoch =
     (rd_schema l = remote_desktop_lease_SCHEMA
      \<and> lease_has_started (rd_issued_at l) now
      \<and> now < rd_expires_at l
      \<and> num_seconds (rd_expires_at l - rd_issued_at l) \<le> MAX_REMOTE_DESKTOP_LEASE_SECONDS
      \<and> rd_fencing_epoch l = current_epoch
      \<and> rd_controller_endpoint_id l \<noteq> [] \<and> is_ascii (rd_controller_endpoint_id l)
      \<and> 1 \<le> rd_max_width l \<and> rd_max_width l \<le> MAX_REMOTE_DESKTOP_DIMENSION
      \<and> 1 \<le> rd_max_height l \<and> rd_max_height l \<le> MAX_REMOTE_DESKTOP_DIMENSION
      \<and> 1 \<le> rd_max_fps l \<and> rd_max_fps l \<le> MAX_REMOTE_DESKTOP_FPS
      \<and> rd_nonce l \<noteq> [] \<and> length (rd_nonce l) \<le> 128 \<and> is_ascii (rd_nonce l)
      \<and> rd_signature l \<noteq> [])"

datatype remote_desktop_action = Frame | Input | Heartbeat | Close

datatype remote_mouse_button = LeftButton | RightButton | MiddleButton

text \<open>The wheel delta is a signed 16-bit integer, read with \<open>sint\<close>.\<close>

datatype remote_input_event = MouseMove u16 u16 | MouseButton remote_mouse_button bool
  | MouseWheel "16 word" | Key u16 bool

fun remote_input_event_is_valid :: "remote_input_event \<Rightarrow> bool" where
  "remote_input_event_is_valid (MouseMove x y) = True"
| "remote_input_event_is_valid (MouseButton button pressed) = True"
| "remote_input_event_is_valid (MouseWheel delta) =
     (sint delta \<noteq> 0 \<and> -1920 \<le> sint delta \<and> sint delta \<le> 1920)"
| "remote_input_event_is_valid (Key virtual_key pressed) =
     (1 \<le> virtual_key \<and> virtual_key \<le> 254)"

record remote_desktop_request =
  rdr_schema :: string
  rdr_request_id :: uuid
  rdr_lease :: remote_desktop_lease
  rdr_action :: remote_desktop_action
  rdr_input_sequence :: "u64 option"
  rdr_events :: "remote_input_event list"

definition remote_desktop_request_SCHEMA :: string where
  "remote_desktop_request_SCHEMA = ''rampage.remote-desktop-request.v1''"

definition remote_desktop_request_is_valid_for ::
  "remote_desktop_request \<Rightarrow> uuid \<Rightarrow> string \<Rightarrow> bool" where
  "remote_desktop_request_is_valid_for r node_id controller_endpoint_id =
     (let input_shape =
        (if rdr_action r = Input then
           rd_mode (rdr_lease r) = Control
           \<and> (case rdr_input_sequence r of None \<Rightarrow> False | Some sequence \<Rightarrow> sequence > 0)
           \<and> rdr_events r \<noteq> [] \<and> length (rdr_events r) \<le> MAX_REMOTE_DESKTOP_INPUT_EVENTS
           \<and> list_all remote_input_event_is_valid (rdr_events r)
         else rdr_input_sequence r = None \<and> rdr_events r = [])
      in rdr_schema r = remote_desktop_request_SCHEMA
         \<and> rd_node_id (rdr_lease r) = node_id
         \<and> rd_controller_endpoint_id (rdr_lease r) = controller_endpoint_id
         \<and> input_shape)"

record remote_desktop_frame =
  rf_sequence :: u64
  rf_captured_at :: datetime
  rf_width :: u32
  rf_height :: u32
  rf_media_type :: string
  rf_payload_size :: u64
  rf_payload_digest :: string

definition remote_desktop_frame_is_valid_for ::
  "remote_desktop_frame \<Rightarrow> remote_desktop_lease \<Rightarrow> bool" where
  "remote_desktop_frame_is_valid_for f lease =
     (rf_sequence f > 0
      \<and> rf_width f > 0 \<and> rf_width f \<le> rd_max_width lease
      \<and> rf_height f > 0 \<and> rf_height f \<le> rd_max_height lease
      \<and> rf_media_type f = ''image/jpeg''
      \<and> rf_payload_size f > 0 \<and> rf_payload_size f \<le> MAX_REMOTE_DESKTOP_FRAME_BYTES
      \<and> is_sha256_digest (rf_payload_digest f))"

section \<open>Enrolment and relay access\<close>

record enrollment_invite =
  ei_schema :: string
  ei_invite_id :: uuid
  ei_enrollment_code :: string
  ei_expires_at :: datetime
  ei_controller_mesh :: "mesh_endpoint option"
  ei_governor_public_key :: "string option"

record enrollment_request =
  en_schema :: string
  en_invite_id :: uuid
  en_enrollment_code :: string
  en_identity :: node_identity
  en_signature :: string

record relay_access_manifest =
  ra_schema :: string
  ra_fabric_id :: string
  ra_generation :: u64
  ra_allowed_endpoint_ids :: "string fset"
  ra_issued_at :: datetime
  ra_expires_at :: datetime
  ra_signature :: string

definition relay_access_manifest_SCHEMA :: string where
  "relay_access_manifest_SCHEMA = ''rampage.relay-access-manifest.v1''"

definition relay_manifest_is_valid_at :: "relay_access_manifest \<Rightarrow> datetime \<Rightarrow> bool" where
  "relay_manifest_is_valid_at m now =
     (ra_schema m = relay_access_manifest_SCHEMA
      \<and> is_sha256_digest (ra_fabric_id m)
      \<and> ra_generation m > 0
      \<and> ra_allowed_endpoint_ids m \<noteq> {||}
      \<and> fcard (ra_allowed_endpoint_ids m) \<le> MAX_RELAY_ENDPOINTS
      \<and> fBall (ra_allowed_endpoint_ids m) (\<lambda>endpoint. length endpoint = 64 \<and> list_all is_ascii_hexdigit endpoint)
      \<and> ra_issued_at m \<le> now
      \<and> ra_expires_at m > now
      \<and> ra_expires_at m - ra_issued_at m \<le> minutes 15
      \<and> ra_signature m \<noteq> [])"

section \<open>Storage leases and artifact transfer\<close>

record storage_lease =
  sl_schema :: string
  sl_lease_id :: uuid
  sl_node_id :: uuid
  sl_digest :: string
  sl_operation :: artifact_transfer_operation
  sl_storage_class :: storage_class
  sl_size_bytes :: u64
  sl_issued_at :: datetime
  sl_expires_at :: datetime
  sl_nonce :: string
  sl_fencing_epoch :: u64
  sl_signature :: string

definition storage_lease_SCHEMA :: string where
  "storage_lease_SCHEMA = ''rampage.storage-lease.v1''"

definition storage_lease_is_active_at :: "storage_lease \<Rightarrow> datetime \<Rightarrow> u64 \<Rightarrow> bool" where
  "storage_lease_is_active_at l now current_epoch =
     (sl_schema l = storage_lease_SCHEMA
      \<and> lease_has_started (sl_issued_at l) now
      \<and> now < sl_expires_at l
      \<and> sl_fencing_epoch l = current_epoch
      \<and> sl_size_bytes l \<le> MAX_ARTIFACT_TRANSFER_BYTES
      \<and> sl_signature l \<noteq> [])"

definition expected_artifact_chunk_size :: "u64 \<Rightarrow> u32 \<Rightarrow> u32 \<Rightarrow> u64 option" where
  "expected_artifact_chunk_size size_bytes chunk_size chunk_index =
     (if size_bytes = 0 \<or> chunk_size = 0 then None
      else case checked_mul (ucast chunk_index) (ucast chunk_size) of
             None \<Rightarrow> None
           | Some offset \<Rightarrow>
               if offset \<ge> size_bytes then None
               else Some (min (size_bytes - offset) (ucast chunk_size)))"

datatype artifact_transfer_action = Begin | Status | PutChunk | Commit | GetChunk | Head

record artifact_transfer_request =
  at_schema :: string
  at_request_id :: uuid
  at_session_id :: uuid
  at_lease :: storage_lease
  at_media_type :: string
  at_action :: artifact_transfer_action
  at_chunk_size :: u32
  at_chunk_index :: "u32 option"
  at_chunk_digest :: "string option"
  at_payload_size :: u64
  at_challenge_nonce :: string

definition artifact_transfer_request_SCHEMA :: string where
  "artifact_transfer_request_SCHEMA = ''rampage.artifact-transfer-request.v2''"

definition unwrap_or :: "'a \<Rightarrow> 'a option \<Rightarrow> 'a" where
  "unwrap_or d x = (case x of None \<Rightarrow> d | Some v \<Rightarrow> v)"

definition artifact_transfer_request_is_valid :: "artifact_transfer_request \<Rightarrow> bool" where
  "artifact_transfer_request_is_valid r =
     (if at_schema r \<noteq> artifact_transfer_request_SCHEMA
         \<or> at_request_id r = 0 \<or> at_session_id r = 0
         \<or> sl_schema (at_lease r) \<noteq> storage_lease_SCHEMA
         \<or> sl_size_bytes (at_lease r) = 0
         \<or> sl_size_bytes (at_lease r) > MAX_ARTIFACT_TRANSFER_BYTES
         \<or> at_media_type r = [] \<or> length (at_media_type r) > 255 \<or> \<not> is_ascii (at_media_type r)
         \<or> at_chunk_size r \<noteq> ARTIFACT_TRANSFER_CHUNK_BYTES
         \<or> at_challenge_nonce r = [] \<or> length (at_challenge_nonce r) > 128
         \<or> \<not> is_ascii (at_challenge_nonce r)
      then False
      else let chunk_count = div_ceil (sl_size_bytes (at_lease r)) (ucast (at_chunk_size r));
               index_ok = (case at_chunk_index r of None \<Rightarrow> False
                           | Some index \<Rightarrow> (ucast index :: u64) < chunk_count)
           in case at_action r of
             PutChunk \<Rightarrow>
               sl_operation (at_lease r) = Put \<and> index_ok
               \<and> (case at_chunk_digest r of None \<Rightarrow> False | Some d \<Rightarrow> is_sha256_digest d)
               \<and> at_payload_size r =
                   unwrap_or 0 (expected_artifact_chunk_size (sl_size_bytes (at_lease r))
                     (at_chunk_size r) (unwrap_or 0 (at_chunk_index r)))
           | GetChunk \<Rightarrow>
               sl_operation (at_lease r) = Get \<and> index_ok
               \<and> at_chunk_digest r = None \<and> at_payload_size r = 0
           | Head \<Rightarrow>
               sl_operation (at_lease r) = Get \<and> at_chunk_index r = None
               \<and> at_chunk_digest r = None \<and> at_payload_size r = 0
           | _ \<Rightarrow>
               sl_operation (at_lease r) = Put \<and> at_chunk_index r = None
               \<and> at_chunk_digest r = None \<and> at_payload_size r = 0)"

record artifact_transfer_progress =
  ap_schema :: string
  ap_session_id :: uuid
  ap_digest :: string
  ap_size_bytes :: u64
  ap_chunk_size :: u32
  ap_chunk_count :: u32
  ap_received_chunks :: "u32 list"
  ap_missing_chunks :: "u32 list"
  ap_complete :: bool

definition artifact_transfer_progress_SCHEMA :: string where
  "artifact_transfer_progress_SCHEMA = ''rampage.artifact-transfer-progress.v1''"

text \<open>\<open>u32::try_from\<close> of a 64-bit value.\<close>

definition u32_try_from :: "u64 \<Rightarrow> u32 option" where
  "u32_try_from x = (if unat x < 2 ^ 32 then Some (ucast x) else None)"

definition artifact_transfer_progress_is_valid :: "artifact_transfer_progress \<Rightarrow> bool" where
  "artifact_transfer_progress_is_valid p =
     (ap_schema p = artifact_transfer_progress_SCHEMA
      \<and> ap_session_id p \<noteq> 0
      \<and> is_sha256_digest (ap_digest p)
      \<and> ap_size_bytes p > 0 \<and> ap_size_bytes p \<le> MAX_ARTIFACT_TRANSFER_BYTES
      \<and> ap_chunk_size p = ARTIFACT_TRANSFER_CHUNK_BYTES
      \<and> ap_chunk_count p =
          unwrap_or 0 (u32_try_from (div_ceil (ap_size_bytes p) (ucast (ap_chunk_size p))))
      \<and> list_all (\<lambda>index. index < ap_chunk_count p) (ap_received_chunks p @ ap_missing_chunks p))"

record artifact_replica_receipt =
  rc_schema :: string
  rc_receipt_id :: uuid
  rc_session_id :: uuid
  rc_lease_id :: uuid
  rc_node_id :: uuid
  rc_digest :: string
  rc_size_bytes :: u64
  rc_storage_class :: storage_class
  rc_challenge_nonce :: string
  rc_verified_at :: datetime
  rc_expires_at :: datetime
  rc_fencing_epoch :: u64
  rc_signature :: string

definition artifact_replica_receipt_SCHEMA :: string where
  "artifact_replica_receipt_SCHEMA = ''rampage.artifact-replica-receipt.v1''"

definition replica_receipt_is_valid_at :: "artifact_replica_receipt \<Rightarrow> datetime \<Rightarrow> bool" where
  "replica_receipt_is_valid_at r now =
     (rc_schema r = artifact_replica_receipt_SCHEMA
      \<and> rc_receipt_id r \<noteq> 0 \<and> rc_session_id r \<noteq> 0 \<and> rc_lease_id r \<noteq> 0 \<and> rc_node_id r \<noteq> 0
      \<and> is_sha256_digest (rc_digest r)
      \<and> rc_size_bytes r > 0 \<and> rc_size_bytes r \<le> MAX_ARTIFACT_TRANSFER_BYTES
      \<and> rc_challenge_nonce r \<noteq> [] \<and> length (rc_challenge_nonce r) \<le> 128
      \<and> is_ascii (rc_challenge_nonce r)
      \<and> rc_verified_at r \<le> now \<and> now < rc_expires_at r
      \<and> rc_expires_at r - rc_verified_at r \<le> minutes 15
      \<and> rc_signature r \<noteq> [])"

end
