(* ===== verification/Rampage_Signing.thy ===== *)
theory Rampage_Signing
  imports Rampage_Protocol
begin

text \<open>
  Signed contracts (\<open>crates/rampage-policy/src/lib.rs\<close>, the \<open>sign_*\<close> and \<open>verify_*\<close> functions).
  SHA-256, hexadecimal coding, Ed25519 and the JSON serialiser are not part of the repository:
  they are the record \<open>crypto\<close>, an argument of every definition that uses them, and
  \<open>crypto_ok\<close> states what their documentation promises.
\<close>

section \<open>Denials\<close>

datatype denial = KillLatch | AdapterDenied | OfferAdapterMismatch | WorkloadCapabilityMismatch
  | OfferResourceMismatch | AdapterResourceDenied | OfferExpired | InvalidJob string | NodeMismatch
  | MobileRequiresRestartTolerance | MobileAdapterDenied | MobileForegroundRequired
  | MobileBatteryDenied | MobileThermalDenied | DeadlineTooFar | AutonomousAuthorityDenied
  | AutopilotNotEnabled | DiagnosticActionDenied | InvalidPromotionEvidence
  | PromotionRiskMismatch | InvalidSignature | InvalidIdentity | InvalidArtifact
  | StorageCapacityDenied | ModelRuntimeDenied | InvalidModelSession | RemoteDesktopDenied
  | InvalidRemoteDesktopLimits

section \<open>The libraries the contracts are signed with\<close>

text \<open>What \<open>serde_json::to_vec\<close> is applied to: one constructor per contract type.\<close>

datatype contract = CCapabilityLease capability_lease | CPromotionCanary promotion_canary_lease
  | CModelSessionLease model_session_lease | CRemoteDesktopLease remote_desktop_lease
  | CStorageLease storage_lease | CResourceOffer resource_offer
  | CReplicaReceipt artifact_replica_receipt | CMeshEndpoint mesh_endpoint
  | CRelayManifest relay_access_manifest | CExecutionReceipt execution_receipt
  | CModelReceipt model_execution_receipt | CEnrollment enrollment_request

record 'sk crypto =
  cr_sha256 :: "string \<Rightarrow> string"
  cr_hex_encode :: "string \<Rightarrow> string"
  cr_hex_decode :: "string \<Rightarrow> string option"
  cr_vk_from_bytes :: "string \<Rightarrow> string option"
  cr_signature_from_slice :: "string \<Rightarrow> string option"
  cr_sign :: "'sk \<Rightarrow> string \<Rightarrow> string"
  cr_verify :: "string \<Rightarrow> string \<Rightarrow> string \<Rightarrow> bool"
  cr_verifying_key :: "'sk \<Rightarrow> string"
  cr_to_json :: "contract \<Rightarrow> string"

text \<open>
  The documented behaviour the code relies on: hexadecimal decoding inverts encoding, which yields
  two lower-case digits per byte; a digest has 32 bytes; a verifying key has 32 bytes and parses;
  a signature has 64 bytes, parses, and verifies under the key of its signer.
\<close>

definition crypto_ok :: "'sk crypto \<Rightarrow> bool" where
  "crypto_ok C \<longleftrightarrow>
     (\<forall>b. cr_hex_decode C (cr_hex_encode C b) = Some b)
     \<and> (\<forall>b. length (cr_hex_encode C b) = 2 * length b)
     \<and> (\<forall>b. list_all is_lower_hex_digit (cr_hex_encode C b))
     \<and> (\<forall>m. length (cr_sha256 C m) = 32)
     \<and> (\<forall>k. length (cr_verifying_key C k) = 32)
     \<and> (\<forall>k. cr_vk_from_bytes C (cr_verifying_key C k) = Some (cr_verifying_key C k))
     \<and> (\<forall>k m. length (cr_sign C k m) = 64)
     \<and> (\<forall>k m. cr_signature_from_slice C (cr_sign C k m) = Some (cr_sign C k m))
     \<and> (\<forall>k m. cr_verify C (cr_verifying_key C k) m (cr_sign C k m))"

named_theorems crypto_laws "the laws of a well-behaved crypto library"

lemma crypto_okD [crypto_laws]:
  assumes "crypto_ok C"
  shows "cr_hex_decode C (cr_hex_encode C b) = Some b"
    and "length (cr_hex_encode C b) = 2 * length b"
    and "list_all is_lower_hex_digit (cr_hex_encode C b)"
    and "length (cr_sha256 C m) = 32"
    and "length (cr_verifying_key C k) = 32"
    and "cr_vk_from_bytes C (cr_verifying_key C k) = Some (cr_verifying_key C k)"
    and "length (cr_sign C k m) = 64"
    and "cr_signature_from_slice C (cr_sign C k m) = Some (cr_sign C k m)"
    and "cr_verify C (cr_verifying_key C k) m (cr_sign C k m)"
  using assms by (simp_all add: crypto_ok_def)

section \<open>Messages and signatures\<close>

definition contract_message :: "'sk crypto \<Rightarrow> contract \<Rightarrow> string" where
  "contract_message C c = cr_sha256 C (cr_to_json C c)"

definition verify_contract_signature ::
  "'sk crypto \<Rightarrow> string \<Rightarrow> string \<Rightarrow> string \<Rightarrow> denial + unit" where
  "verify_contract_signature C public_key signature message =
     (case cr_hex_decode C public_key of None \<Rightarrow> Inl InvalidSignature
      | Some public_key_bytes \<Rightarrow>
        if length public_key_bytes \<noteq> 32 then Inl InvalidSignature
        else case cr_vk_from_bytes C public_key_bytes of None \<Rightarrow> Inl InvalidSignature
        | Some verifying_key \<Rightarrow>
          (case cr_hex_decode C signature of None \<Rightarrow> Inl InvalidSignature
           | Some signature_bytes \<Rightarrow>
             (case cr_signature_from_slice C signature_bytes of None \<Rightarrow> Inl InvalidSignature
              | Some sig \<Rightarrow>
                if cr_verify C verifying_key message sig then Inr () else Inl InvalidSignature)))"

definition sign_hex :: "'sk crypto \<Rightarrow> 'sk \<Rightarrow> string \<Rightarrow> string" where
  "sign_hex C k message = cr_hex_encode C (cr_sign C k message)"

definition public_hex :: "'sk crypto \<Rightarrow> 'sk \<Rightarrow> string" where
  "public_hex C k = cr_hex_encode C (cr_verifying_key C k)"

lemma sign_hex_verifies:
  "crypto_ok C \<Longrightarrow> verify_contract_signature C (public_hex C k) (sign_hex C k m) m = Inr ()"
  by (simp add: verify_contract_signature_def sign_hex_def public_hex_def crypto_laws)

lemma sign_hex_nonempty: "crypto_ok C \<Longrightarrow> sign_hex C k m \<noteq> []"
  using crypto_okD(2) [of C "cr_sign C k m"] crypto_okD(7) [of C k m]
  by (auto simp: sign_hex_def)

lemma verify_contract_signature_cases:
  "verify_contract_signature C pk s m = Inr () \<or> verify_contract_signature C pk s m = Inl InvalidSignature"
  by (simp add: verify_contract_signature_def split: option.split)

text \<open>
  A signable contract has a signature field that can be replaced without touching the rest. The
  message signed is that of the contract with the field cleared, so it does not depend on the
  signature; signing and then verifying with the signer's key succeeds.
\<close>

locale signable =
  fixes wrap :: "'c \<Rightarrow> contract"
    and sig :: "'c \<Rightarrow> string"
    and with_sig :: "string \<Rightarrow> 'c \<Rightarrow> 'c"
  assumes sig_with_sig: "sig (with_sig s c) = s"
    and with_sig_with_sig: "with_sig s (with_sig t c) = with_sig s c"
begin

definition message :: "'sk crypto \<Rightarrow> 'c \<Rightarrow> string" where
  "message C c = contract_message C (wrap (with_sig [] c))"

definition signed :: "'sk crypto \<Rightarrow> 'sk \<Rightarrow> 'c \<Rightarrow> 'c" where
  "signed C k c = with_sig (sign_hex C k (message C c)) c"

lemma message_with_sig: "message C (with_sig s c) = message C c"
  by (simp add: message_def with_sig_with_sig)

lemma signed_verifies:
  assumes "crypto_ok C"
  shows "verify_contract_signature C (public_hex C k) (sig (signed C k c)) (message C (signed C k c)) = Inr ()"
  using sign_hex_verifies [OF assms, of k "message C c"]
  by (simp add: signed_def sig_with_sig message_with_sig)

lemma own_signature_verifies:
  assumes "crypto_ok C" and "sig c = sign_hex C k (message C c)"
  shows "verify_contract_signature C (public_hex C k) (sig c) (message C c) = Inr ()"
  using sign_hex_verifies [OF assms(1)] by (simp add: assms(2))

lemma signed_again: "signed C k (signed C k' c) = signed C k c"
  by (simp add: signed_def with_sig_with_sig message_with_sig)

end

section \<open>Governor-signed contracts\<close>

definition lease_message :: "'sk crypto \<Rightarrow> capability_lease \<Rightarrow> string" where
  "lease_message C lease = cr_sha256 C (cr_to_json C (CCapabilityLease (lease\<lparr>cl_signature := []\<rparr>)))"

definition verify_lease_with_key :: "'sk crypto \<Rightarrow> string \<Rightarrow> capability_lease \<Rightarrow> denial + unit" where
  "verify_lease_with_key C public_key lease =
     verify_contract_signature C public_key (cl_signature lease) (lease_message C lease)"

definition storage_lease_message :: "'sk crypto \<Rightarrow> storage_lease \<Rightarrow> string" where
  "storage_lease_message C lease = contract_message C (CStorageLease (lease\<lparr>sl_signature := []\<rparr>))"

definition verify_storage_lease_with_key ::
  "'sk crypto \<Rightarrow> string \<Rightarrow> storage_lease \<Rightarrow> denial + unit" where
  "verify_storage_lease_with_key C public_key lease =
     verify_contract_signature C public_key (sl_signature lease) (storage_lease_message C lease)"

definition model_session_lease_message :: "'sk crypto \<Rightarrow> model_session_lease \<Rightarrow> string" where
  "model_session_lease_message C lease =
     contract_message C (CModelSessionLease (lease\<lparr>ml_signature := []\<rparr>))"

definition verify_model_session_lease_with_key ::
  "'sk crypto \<Rightarrow> string \<Rightarrow> model_session_lease \<Rightarrow> denial + unit" where
  "verify_model_session_lease_with_key C public_key lease =
     verify_contract_signature C public_key (ml_signature lease) (model_session_lease_message C lease)"

definition remote_desktop_lease_message :: "'sk crypto \<Rightarrow> remote_desktop_lease \<Rightarrow> string" where
  "remote_desktop_lease_message C lease =
     contract_message C (CRemoteDesktopLease (lease\<lparr>rd_signature := []\<rparr>))"

definition verify_remote_desktop_lease_with_key ::
  "'sk crypto \<Rightarrow> string \<Rightarrow> remote_desktop_lease \<Rightarrow> denial + unit" where
  "verify_remote_desktop_lease_with_key C public_key lease =
     verify_contract_signature C public_key (rd_signature lease) (remote_desktop_lease_message C lease)"

definition promotion_canary_message :: "'sk crypto \<Rightarrow> promotion_canary_lease \<Rightarrow> string" where
  "promotion_canary_message C lease =
     contract_message C (CPromotionCanary (lease\<lparr>can_signature := []\<rparr>))"

definition verify_promotion_canary_with_key ::
  "'sk crypto \<Rightarrow> string \<Rightarrow> promotion_canary_lease \<Rightarrow> denial + unit" where
  "verify_promotion_canary_with_key C public_key lease =
     verify_contract_signature C public_key (can_signature lease) (promotion_canary_message C lease)"

definition sign_mesh_endpoint :: "'sk crypto \<Rightarrow> 'sk \<Rightarrow> mesh_endpoint \<Rightarrow> mesh_endpoint" where
  "sign_mesh_endpoint C signing_key endpoint =
     endpoint\<lparr>me_signature :=
       sign_hex C signing_key (contract_message C (CMeshEndpoint (endpoint\<lparr>me_signature := []\<rparr>)))\<rparr>"

definition verify_pinned_mesh_endpoint_with_key ::
  "'sk crypto \<Rightarrow> string \<Rightarrow> mesh_endpoint \<Rightarrow> denial + unit" where
  "verify_pinned_mesh_endpoint_with_key C public_key endpoint =
     (if me_schema endpoint \<noteq> mesh_endpoint_SCHEMA then Inl InvalidSignature
      else verify_contract_signature C public_key (me_signature endpoint)
             (contract_message C (CMeshEndpoint (endpoint\<lparr>me_signature := []\<rparr>))))"

text \<open>The clock is read twice, so the two readings are two arguments.\<close>

definition verify_mesh_endpoint_with_key ::
  "'sk crypto \<Rightarrow> datetime \<Rightarrow> datetime \<Rightarrow> string \<Rightarrow> mesh_endpoint \<Rightarrow> denial + unit" where
  "verify_mesh_endpoint_with_key C now1 now2 public_key endpoint =
     (if me_schema endpoint \<noteq> mesh_endpoint_SCHEMA \<or> me_expires_at endpoint \<le> now1
         \<or> me_issued_at endpoint > now2
      then Inl InvalidSignature
      else verify_pinned_mesh_endpoint_with_key C public_key endpoint)"

definition relay_fabric_id :: "'sk crypto \<Rightarrow> string \<Rightarrow> denial + string" where
  "relay_fabric_id C public_key =
     (case cr_hex_decode C public_key of None \<Rightarrow> Inl InvalidSignature
      | Some public_key_bytes \<Rightarrow>
          if length public_key_bytes \<noteq> 32 then Inl InvalidSignature
          else Inr (''sha256:'' @ cr_hex_encode C (cr_sha256 C public_key_bytes)))"

text \<open>\<open>expect\<close> panics when the Governor's own key has no fabric identifier: \<open>None\<close>.\<close>

definition sign_relay_access_manifest ::
  "'sk crypto \<Rightarrow> 'sk \<Rightarrow> relay_access_manifest \<Rightarrow> relay_access_manifest option" where
  "sign_relay_access_manifest C signing_key manifest =
     (case relay_fabric_id C (public_hex C signing_key) of
        Inl _ \<Rightarrow> None
      | Inr fabric_id \<Rightarrow>
          let m = manifest\<lparr>ra_fabric_id := fabric_id, ra_signature := []\<rparr>
          in Some (m\<lparr>ra_signature := sign_hex C signing_key (contract_message C (CRelayManifest m))\<rparr>))"

definition verify_relay_access_manifest_with_key ::
  "'sk crypto \<Rightarrow> datetime \<Rightarrow> string \<Rightarrow> relay_access_manifest \<Rightarrow> denial + unit" where
  "verify_relay_access_manifest_with_key C now public_key manifest =
     (if \<not> relay_manifest_is_valid_at manifest now then Inl InvalidSignature
      else case relay_fabric_id C public_key of
        Inl e \<Rightarrow> Inl e
      | Inr fabric_id \<Rightarrow>
          if ra_fabric_id manifest \<noteq> fabric_id then Inl InvalidSignature
          else verify_contract_signature C public_key (ra_signature manifest)
                 (contract_message C (CRelayManifest (manifest\<lparr>ra_signature := []\<rparr>))))"

section \<open>Node-signed contracts\<close>

definition sign_offer :: "'sk crypto \<Rightarrow> 'sk \<Rightarrow> resource_offer \<Rightarrow> resource_offer" where
  "sign_offer C signing_key offer =
     offer\<lparr>ro_signature :=
       sign_hex C signing_key (contract_message C (CResourceOffer (offer\<lparr>ro_signature := []\<rparr>)))\<rparr>"

definition verify_offer :: "'sk crypto \<Rightarrow> node_identity \<Rightarrow> resource_offer \<Rightarrow> denial + unit" where
  "verify_offer C identity offer =
     (if ni_node_id identity \<noteq> ro_node_id offer then Inl NodeMismatch
      else verify_contract_signature C (ni_public_key identity) (ro_signature offer)
             (contract_message C (CResourceOffer (offer\<lparr>ro_signature := []\<rparr>))))"

definition sign_artifact_replica_receipt ::
  "'sk crypto \<Rightarrow> 'sk \<Rightarrow> artifact_replica_receipt \<Rightarrow> artifact_replica_receipt" where
  "sign_artifact_replica_receipt C signing_key receipt =
     receipt\<lparr>rc_signature :=
       sign_hex C signing_key (contract_message C (CReplicaReceipt (receipt\<lparr>rc_signature := []\<rparr>)))\<rparr>"

definition verify_artifact_replica_receipt ::
  "'sk crypto \<Rightarrow> datetime \<Rightarrow> node_identity \<Rightarrow> artifact_replica_receipt \<Rightarrow> denial + unit" where
  "verify_artifact_replica_receipt C now identity receipt =
     (if ni_node_id identity \<noteq> rc_node_id receipt \<or> \<not> replica_receipt_is_valid_at receipt now
      then Inl InvalidArtifact
      else verify_contract_signature C (ni_public_key identity) (rc_signature receipt)
             (contract_message C (CReplicaReceipt (receipt\<lparr>rc_signature := []\<rparr>))))"

definition sign_receipt :: "'sk crypto \<Rightarrow> 'sk \<Rightarrow> execution_receipt \<Rightarrow> execution_receipt" where
  "sign_receipt C signing_key receipt =
     receipt\<lparr>er_signature :=
       sign_hex C signing_key (contract_message C (CExecutionReceipt (receipt\<lparr>er_signature := []\<rparr>)))\<rparr>"

definition verify_receipt :: "'sk crypto \<Rightarrow> node_identity \<Rightarrow> execution_receipt \<Rightarrow> denial + unit" where
  "verify_receipt C identity receipt =
     (if ni_node_id identity \<noteq> er_node_id receipt then Inl NodeMismatch
      else verify_contract_signature C (ni_public_key identity) (er_signature receipt)
             (contract_message C (CExecutionReceipt (receipt\<lparr>er_signature := []\<rparr>))))"

definition sign_model_receipt ::
  "'sk crypto \<Rightarrow> 'sk \<Rightarrow> model_execution_receipt \<Rightarrow> model_execution_receipt" where
  "sign_model_receipt C signing_key receipt =
     receipt\<lparr>mx_signature :=
       sign_hex C signing_key (contract_message C (CModelReceipt (receipt\<lparr>mx_signature := []\<rparr>)))\<rparr>"

definition verify_model_receipt ::
  "'sk crypto \<Rightarrow> node_identity \<Rightarrow> model_execution_receipt \<Rightarrow> denial + unit" where
  "verify_model_receipt C identity receipt =
     (if ni_node_id identity \<noteq> mx_node_id receipt then Inl NodeMismatch
      else verify_contract_signature C (ni_public_key identity) (mx_signature receipt)
             (contract_message C (CModelReceipt (receipt\<lparr>mx_signature := []\<rparr>))))"

definition sign_enrollment :: "'sk crypto \<Rightarrow> 'sk \<Rightarrow> enrollment_request \<Rightarrow> enrollment_request" where
  "sign_enrollment C signing_key request =
     request\<lparr>en_signature :=
       sign_hex C signing_key (contract_message C (CEnrollment (request\<lparr>en_signature := []\<rparr>)))\<rparr>"

definition verify_enrollment :: "'sk crypto \<Rightarrow> enrollment_request \<Rightarrow> denial + unit" where
  "verify_enrollment C request =
     (if en_schema request \<noteq> ''rampage.enrollment-request.v1''
         \<or> en_invite_id request = 0
         \<or> length (en_enrollment_code request) \<noteq> 32
         \<or> \<not> list_all is_ascii_hexdigit (en_enrollment_code request)
         \<or> \<not> is_valid_for_enrollment (en_identity request)
      then Inl InvalidIdentity
      else verify_contract_signature C (ni_public_key (en_identity request)) (en_signature request)
             (contract_message C (CEnrollment (request\<lparr>en_signature := []\<rparr>))))"

section \<open>Every contract type is signable\<close>

interpretation lease_sig: signable CCapabilityLease cl_signature "\<lambda>s c. c\<lparr>cl_signature := s\<rparr>"
  by unfold_locales simp_all

interpretation storage_sig: signable CStorageLease sl_signature "\<lambda>s c. c\<lparr>sl_signature := s\<rparr>"
  by unfold_locales simp_all

interpretation model_sig: signable CModelSessionLease ml_signature "\<lambda>s c. c\<lparr>ml_signature := s\<rparr>"
  by unfold_locales simp_all

interpretation desktop_sig: signable CRemoteDesktopLease rd_signature "\<lambda>s c. c\<lparr>rd_signature := s\<rparr>"
  by unfold_locales simp_all

interpretation canary_sig: signable CPromotionCanary can_signature "\<lambda>s c. c\<lparr>can_signature := s\<rparr>"
  by unfold_locales simp_all

interpretation mesh_sig: signable CMeshEndpoint me_signature "\<lambda>s c. c\<lparr>me_signature := s\<rparr>"
  by unfold_locales simp_all

interpretation relay_sig: signable CRelayManifest ra_signature "\<lambda>s c. c\<lparr>ra_signature := s\<rparr>"
  by unfold_locales simp_all

interpretation offer_sig: signable CResourceOffer ro_signature "\<lambda>s c. c\<lparr>ro_signature := s\<rparr>"
  by unfold_locales simp_all

interpretation replica_sig: signable CReplicaReceipt rc_signature "\<lambda>s c. c\<lparr>rc_signature := s\<rparr>"
  by unfold_locales simp_all

interpretation receipt_sig: signable CExecutionReceipt er_signature "\<lambda>s c. c\<lparr>er_signature := s\<rparr>"
  by unfold_locales simp_all

interpretation model_receipt_sig: signable CModelReceipt mx_signature "\<lambda>s c. c\<lparr>mx_signature := s\<rparr>"
  by unfold_locales simp_all

interpretation enrollment_sig: signable CEnrollment en_signature "\<lambda>s c. c\<lparr>en_signature := s\<rparr>"
  by unfold_locales simp_all

text \<open>The interpretations' facts, over the definitions of the source.\<close>

lemmas signed_facts =
  lease_sig.message_with_sig storage_sig.message_with_sig model_sig.message_with_sig
  desktop_sig.message_with_sig canary_sig.message_with_sig mesh_sig.message_with_sig
  relay_sig.message_with_sig offer_sig.message_with_sig replica_sig.message_with_sig
  receipt_sig.message_with_sig model_receipt_sig.message_with_sig
  enrollment_sig.message_with_sig

lemma lease_message_eq: "lease_message C = lease_sig.message C"
  by (simp add: fun_eq_iff lease_message_def lease_sig.message_def contract_message_def)

lemma signed_lease_verifies:
  "crypto_ok C \<Longrightarrow> cl_signature l = sign_hex C k (lease_message C l) \<Longrightarrow>
     verify_lease_with_key C (public_hex C k) l = Inr ()"
  using lease_sig.own_signature_verifies [of C l k]
  by (simp add: verify_lease_with_key_def lease_message_eq)

lemma signed_storage_lease_verifies:
  "crypto_ok C \<Longrightarrow> sl_signature l = sign_hex C k (storage_lease_message C l) \<Longrightarrow>
     verify_storage_lease_with_key C (public_hex C k) l = Inr ()"
  using storage_sig.own_signature_verifies [of C l k]
  by (simp add: verify_storage_lease_with_key_def storage_lease_message_def storage_sig.message_def)

lemma signed_model_lease_verifies:
  "crypto_ok C \<Longrightarrow> ml_signature l = sign_hex C k (model_session_lease_message C l) \<Longrightarrow>
     verify_model_session_lease_with_key C (public_hex C k) l = Inr ()"
  using model_sig.own_signature_verifies [of C l k]
  by (simp add: verify_model_session_lease_with_key_def model_session_lease_message_def model_sig.message_def)

lemma signed_desktop_lease_verifies:
  "crypto_ok C \<Longrightarrow> rd_signature l = sign_hex C k (remote_desktop_lease_message C l) \<Longrightarrow>
     verify_remote_desktop_lease_with_key C (public_hex C k) l = Inr ()"
  using desktop_sig.own_signature_verifies [of C l k]
  by (simp add: verify_remote_desktop_lease_with_key_def remote_desktop_lease_message_def desktop_sig.message_def)

lemma signed_canary_verifies:
  "crypto_ok C \<Longrightarrow> can_signature l = sign_hex C k (promotion_canary_message C l) \<Longrightarrow>
     verify_promotion_canary_with_key C (public_hex C k) l = Inr ()"
  using canary_sig.own_signature_verifies [of C l k]
  by (simp add: verify_promotion_canary_with_key_def promotion_canary_message_def canary_sig.message_def)

lemma relay_fabric_id_public:
  "crypto_ok C \<Longrightarrow> relay_fabric_id C (public_hex C k) =
     Inr (''sha256:'' @ cr_hex_encode C (cr_sha256 C (cr_verifying_key C k)))"
  by (simp add: relay_fabric_id_def public_hex_def crypto_laws)

lemma relay_fabric_id_is_digest:
  "crypto_ok C \<Longrightarrow> relay_fabric_id C pk = Inr d \<Longrightarrow> is_sha256_digest d"
  by (auto simp: relay_fabric_id_def is_sha256_digest_def crypto_laws strip_prefix_def
      split: option.splits if_splits)

section \<open>A concrete library\<close>

text \<open>An executable instance of the library parameter, to evaluate the definitions on concrete
  inputs: real hexadecimal coding, a constant digest and a constant signature.\<close>

definition hex_digit :: "nat \<Rightarrow> char" where
  "hex_digit n = char_of (if n < 10 then 48 + n else 87 + n)"

definition unhex_digit :: "char \<Rightarrow> nat" where
  "unhex_digit c = (if byte c \<le> 57 then byte c - 48 else byte c - 87)"

fun demo_hex_decode :: "string \<Rightarrow> string option" where
  "demo_hex_decode [] = Some []"
| "demo_hex_decode [a] = None"
| "demo_hex_decode (a # b # s) =
     map_option (Cons (char_of (16 * unhex_digit a + unhex_digit b))) (demo_hex_decode s)"

definition demo_hex_encode :: "string \<Rightarrow> string" where
  "demo_hex_encode s = concat (map (\<lambda>c. [hex_digit (byte c div 16), hex_digit (byte c mod 16)]) s)"

definition demo_crypto :: "unit crypto" where
  "demo_crypto = \<lparr>cr_sha256 = (\<lambda>_. replicate 32 (CHR ''d'')), cr_hex_encode = demo_hex_encode,
     cr_hex_decode = demo_hex_decode,
     cr_vk_from_bytes = (\<lambda>b. if length b = 32 then Some b else None),
     cr_signature_from_slice = (\<lambda>b. if length b = 64 then Some b else None),
     cr_sign = (\<lambda>_ _. replicate 64 (CHR ''s'')),
     cr_verify = (\<lambda>pk m s. pk = replicate 32 (CHR ''k'') \<and> s = replicate 64 (CHR ''s'')),
     cr_verifying_key = (\<lambda>_. replicate 32 (CHR ''k'')), cr_to_json = (\<lambda>_. [])\<rparr>"

lemma unhex_hex: "n < 16 \<Longrightarrow> unhex_digit (hex_digit n) = n"
  by (auto simp: unhex_digit_def hex_digit_def)

lemma hex_digit_lower: "n < 16 \<Longrightarrow> is_lower_hex_digit (hex_digit n)"
  by (auto simp: hex_digit_def is_lower_hex_digit_def is_ascii_digit_def)

lemma demo_decode_encode: "demo_hex_decode (demo_hex_encode s) = Some s"
proof (induction s)
  case Nil
  then show ?case by (simp add: demo_hex_encode_def)
next
  case (Cons c s)
  have "byte c div 16 < 16" by (simp add: less_mult_imp_div_less)
  then have "16 * unhex_digit (hex_digit (byte c div 16)) + unhex_digit (hex_digit (byte c mod 16)) = byte c"
    by (simp add: unhex_hex)
  then show ?case using Cons by (simp add: demo_hex_encode_def byte_def)
qed

lemma demo_encode_lower: "list_all is_lower_hex_digit (demo_hex_encode s)"
  by (induction s) (auto simp: demo_hex_encode_def intro!: hex_digit_lower simp: less_mult_imp_div_less)

lemma demo_encode_length: "length (demo_hex_encode s) = 2 * length s"
  by (induction s) (auto simp: demo_hex_encode_def)

lemma demo_crypto_ok: "crypto_ok demo_crypto"
  by (simp add: crypto_ok_def demo_crypto_def demo_decode_encode demo_encode_lower demo_encode_length)

section \<open>Properties of the signatures\<close>

text \<open>
  What a node signs with its own key verifies against its enrolled identity (offers, execution
  and model receipts), and no signature makes a contract of another node pass: the node identifier
  is compared first, and the contract is refused with \<open>NodeMismatch\<close>.
\<close>

theorem node_contracts_bound_to_identity:
  assumes "crypto_ok C" and "ni_public_key identity = public_hex C k"
  shows "verify_offer C identity (sign_offer C k offer) =
      (if ni_node_id identity = ro_node_id offer then Inr () else Inl NodeMismatch)
    \<and> verify_receipt C identity (sign_receipt C k receipt) =
      (if ni_node_id identity = er_node_id receipt then Inr () else Inl NodeMismatch)
    \<and> verify_model_receipt C identity (sign_model_receipt C k mreceipt) =
      (if ni_node_id identity = mx_node_id mreceipt then Inr () else Inl NodeMismatch)"
  using offer_sig.signed_verifies [OF assms(1), of k offer]
    receipt_sig.signed_verifies [OF assms(1), of k receipt]
    model_receipt_sig.signed_verifies [OF assms(1), of k mreceipt]
  by (simp add: assms(2) verify_offer_def sign_offer_def verify_receipt_def sign_receipt_def
      verify_model_receipt_def sign_model_receipt_def
      offer_sig.message_def offer_sig.signed_def receipt_sig.message_def receipt_sig.signed_def
      model_receipt_sig.message_def model_receipt_sig.signed_def)

definition demo_identity :: node_identity where
  "demo_identity = \<lparr>ni_schema = node_identity_SCHEMA, ni_node_id = 7, ni_owner_id = 1,
     ni_display_name = ''worker'', ni_device_kind = Laptop, ni_platform = ''linux'',
     ni_public_key = public_hex demo_crypto (), ni_enrolled_at = 0, ni_fencing_epoch = 0\<rparr>"

definition demo_receipt :: "uuid \<Rightarrow> execution_receipt" where
  "demo_receipt node = \<lparr>er_schema = ''rampage.execution-receipt.v1'', er_receipt_id = 1,
     er_lease_id = 2, er_job_id = 3, er_node_id = node, er_state = Succeeded, er_started_at = 0,
     er_finished_at = 1, er_outputs = [], er_metrics = fmempty, er_stdout_digest = None,
     er_stderr_digest = None, er_result = None, er_signature = []\<rparr>"

theorem node_contracts_bound_to_identity_witness:
  "verify_receipt demo_crypto demo_identity (sign_receipt demo_crypto () (demo_receipt 7)) = Inr ()
   \<and> verify_receipt demo_crypto demo_identity (sign_receipt demo_crypto () (demo_receipt 8)) = Inl NodeMismatch"
proof -
  have pk: "ni_public_key demo_identity = public_hex demo_crypto ()"
    by (simp add: demo_identity_def)
  show ?thesis
    using node_contracts_bound_to_identity [OF demo_crypto_ok pk, where receipt = "demo_receipt 7"]
      node_contracts_bound_to_identity [OF demo_crypto_ok pk, where receipt = "demo_receipt 8"]
    by (simp add: demo_identity_def demo_receipt_def)
qed

text \<open>
  A relay manifest the Governor signs is bound to its fabric: it passes verification with the
  Governor's key at every instant at which it is valid, and verification with any key of another
  fabric (another fabric identifier) is refused.
\<close>

theorem relay_manifest_bound_to_fabric:
  assumes C: "crypto_ok C"
  shows "\<exists>m'. sign_relay_access_manifest C k m = Some m'
    \<and> is_sha256_digest (ra_fabric_id m') \<and> ra_allowed_endpoint_ids m' = ra_allowed_endpoint_ids m
    \<and> (relay_manifest_is_valid_at m' now \<longrightarrow>
        verify_relay_access_manifest_with_key C now (public_hex C k) m' = Inr ())
    \<and> (relay_fabric_id C pk \<noteq> relay_fabric_id C (public_hex C k) \<longrightarrow>
        verify_relay_access_manifest_with_key C now pk m' = Inl InvalidSignature)"
proof -
  obtain d where d: "relay_fabric_id C (public_hex C k) = Inr d"
    using relay_fabric_id_public [OF C] by blast
  define m1 where "m1 = m\<lparr>ra_fabric_id := d, ra_signature := []\<rparr>"
  define m' where "m' = m1\<lparr>ra_signature := sign_hex C k (contract_message C (CRelayManifest m1))\<rparr>"
  have s: "sign_relay_access_manifest C k m = Some m'"
    by (simp add: sign_relay_access_manifest_def d m'_def m1_def)
  have clear: "m'\<lparr>ra_signature := []\<rparr> = m1" by (simp add: m'_def m1_def)
  have v: "verify_contract_signature C (public_hex C k) (ra_signature m')
      (contract_message C (CRelayManifest (m'\<lparr>ra_signature := []\<rparr>))) = Inr ()"
    unfolding clear by (simp add: m'_def sign_hex_verifies [OF C])
  have f: "ra_fabric_id m' = d" by (simp add: m'_def m1_def)
  have e: "relay_fabric_id C pk = Inl x \<Longrightarrow> x = InvalidSignature" for x
    by (auto simp: relay_fabric_id_def split: option.splits if_splits)
  have other: "verify_relay_access_manifest_with_key C now pk m' = Inl InvalidSignature"
    if "relay_fabric_id C pk \<noteq> Inr d"
    using that e by (auto simp: verify_relay_access_manifest_with_key_def f split: sum.splits)
  show ?thesis
    using s v f other relay_fabric_id_is_digest [OF C d]
    by (auto simp: verify_relay_access_manifest_with_key_def d m'_def m1_def)
qed

definition demo_manifest :: relay_access_manifest where
  "demo_manifest = \<lparr>ra_schema = relay_access_manifest_SCHEMA, ra_fabric_id = [], ra_generation = 1,
     ra_allowed_endpoint_ids = {|replicate 64 (CHR ''a'')|}, ra_issued_at = 0,
     ra_expires_at = seconds 60, ra_signature = []\<rparr>"

lemma demo_manifest_valid:
  "sign_relay_access_manifest demo_crypto () demo_manifest = Some m' \<Longrightarrow>
     is_sha256_digest (ra_fabric_id m') \<Longrightarrow> relay_manifest_is_valid_at m' 0"
  using sign_hex_nonempty [OF demo_crypto_ok]
  by (auto simp: relay_manifest_is_valid_at_def sign_relay_access_manifest_def demo_manifest_def
      relay_fabric_id_public [OF demo_crypto_ok] Let_def minutes_def MAX_RELAY_ENDPOINTS_def
      is_ascii_hexdigit_def is_lower_hex_digit_def is_ascii_digit_def byte_def)

theorem relay_manifest_bound_to_fabric_witness:
  "\<exists>m'. sign_relay_access_manifest demo_crypto () demo_manifest = Some m'
     \<and> verify_relay_access_manifest_with_key demo_crypto 0 (public_hex demo_crypto ()) m' = Inr ()
     \<and> verify_relay_access_manifest_with_key demo_crypto 0 ''00'' m' = Inl InvalidSignature"
proof -
  have "relay_fabric_id demo_crypto ''00'' \<noteq> relay_fabric_id demo_crypto (public_hex demo_crypto ())"
    by (simp add: relay_fabric_id_public [OF demo_crypto_ok]) (simp add: relay_fabric_id_def demo_crypto_def)
  then show ?thesis
    using relay_manifest_bound_to_fabric [OF demo_crypto_ok, of "()" demo_manifest 0 "''00''"]
      demo_manifest_valid by blast
qed

end
