(* ===== verification/Rampage_Policy.thy ===== *)
theory Rampage_Policy
  imports Rampage_Signing
begin

text \<open>
  The policy Governor (\<open>crates/rampage-policy/src/lib.rs\<close>): the admission check of a job, the
  authorisation of promotions, canaries, model sessions, remote desktop sessions and storage
  transfers, and the leases it signs. The clock, the fresh identifiers and the nonces the code
  draws are arguments (\<open>now\<close>, \<open>lease_id\<close>, \<open>nonce\<close>).
\<close>

section \<open>Configuration\<close>

datatype risk_class = RC0Configuration | RC1AllowlistedSource | RC2ProtectedChange
  | RC3AuthorityCritical

record governor_config =
  gc_lease_ttl_seconds :: int
  gc_max_job_ttl_seconds :: int
  gc_trusted_adapters :: "string fset"
  gc_mobile_adapters :: "string fset"
  gc_trusted_autopilot_projects :: "uuid fset"
  gc_autonomous_protected_projects :: "uuid fset"
  gc_mobile_min_battery_percent :: u8
  gc_mobile_min_thermal_headroom_percent :: u8
  gc_killed :: bool

definition governor_config_default :: governor_config where
  "governor_config_default =
     \<lparr>gc_lease_ttl_seconds = 120, gc_max_job_ttl_seconds = 3600,
      gc_trusted_adapters = {|''rampage.echo.v1'', ''rampage.hash.v1'', ''rampage.eval-shard.v1'',
        ''rampage.benchmark.v1'', ''rampage.ollama.v1'', ''rampage.artifact-hash.v1'',
        ''rampage.remote-assist.v1''|},
      gc_mobile_adapters = {|''rampage.hash.v1'', ''rampage.eval-shard.v1'', ''rampage.artifact-hash.v1''|},
      gc_trusted_autopilot_projects = {||}, gc_autonomous_protected_projects = {||},
      gc_mobile_min_battery_percent = 40, gc_mobile_min_thermal_headroom_percent = 35,
      gc_killed = False\<rparr>"

record model_session_limits =
  msl_max_prompt_bytes :: u64
  msl_max_output_tokens :: u32

record remote_desktop_limits =
  rdl_max_width :: u32
  rdl_max_height :: u32
  rdl_max_fps :: u16

record 'sk governor =
  gov_config :: governor_config
  gov_signing_key :: 'sk

section \<open>Job admission\<close>

text \<open>The \<open>Display\<close> text of a contract error, which a denial carries.\<close>

fun contract_error_to_string :: "contract_error \<Rightarrow> string" where
  "contract_error_to_string (WrongSchema expected actual) =
     ''unexpected schema '' @ actual @ ''; expected '' @ expected"
| "contract_error_to_string DeadlineExpired = ''deadline has expired''"
| "contract_error_to_string InvalidResourceRange = ''resource request minimum exceeds preferred''"
| "contract_error_to_string EmptyIdempotencyKey = ''idempotency key is empty''"
| "contract_error_to_string InvalidShardCount = ''shard set must contain between 1 and 256 jobs''"
| "contract_error_to_string InvalidSuccessThreshold =
     ''minimum successes must be between 1 and the shard count''"
| "contract_error_to_string DuplicateShardIdentity =
     ''shard identifiers and idempotency keys must be unique''"
| "contract_error_to_string ShardOwnershipMismatch =
     ''every shard must belong to the shard set project and submitter''"
| "contract_error_to_string UnsafeShardLifecycle =
     ''every shard must be restart tolerant and expire no later than its shard set''"
| "contract_error_to_string EmptyModelId = ''model identifier is empty''"
| "contract_error_to_string InvalidModelSize =
     ''model session size is zero or exceeds the protocol limit''"
| "contract_error_to_string InvalidContextTokens = ''model context token count must be positive''"
| "contract_error_to_string InvalidModelNodeCount =
     ''model session node count must be between 1 and 64''"

definition adapter_allows_resource :: "string \<Rightarrow> resource_class \<Rightarrow> bool" where
  "adapter_allows_resource adapter class =
     (if adapter = ''rampage.echo.v1'' \<or> adapter = ''rampage.hash.v1'' \<or> adapter = ''rampage.eval-shard.v1''
      then class \<in> {CpuCompute, RamWorkingSet, RamCache}
      else if adapter = ''rampage.benchmark.v1'' then class = CpuCompute
      else if adapter = ''rampage.ollama.v1''
      then class \<in> {CpuCompute, GpuCompute, GpuMemory, RamWorkingSet, RamCache, StorageCache}
      else if adapter = ''rampage.artifact-hash.v1''
      then class \<in> {CpuCompute, RamWorkingSet, RamCache, StorageCache}
      else False)"

text \<open>An offered resource satisfies a request: class, unit, amount and every required label.\<close>

definition resource_satisfies :: "resource_request \<Rightarrow> resource_quantity \<Rightarrow> bool" where
  "resource_satisfies request resource =
     (rq_class resource = rr_class request \<and> rq_unit resource = rr_unit request
      \<and> rq_available resource \<ge> rr_minimum request
      \<and> fmpred (\<lambda>key value. fmlookup (rq_labels resource) key = Some value) (rr_required_labels request))"

definition device_kind_of :: "resource_offer \<Rightarrow> string option" where
  "device_kind_of offer =
     (case ro_resources offer of [] \<Rightarrow> None
      | resource # _ \<Rightarrow> fmlookup (rq_labels resource) ''device_kind'')"

definition is_mobile_offer :: "resource_offer \<Rightarrow> bool" where
  "is_mobile_offer offer =
     (device_kind_of offer \<in> {Some ''phone'', Some ''tablet'', Some ''console''})"

text \<open>\<open>Option\<close>'s order: \<open>None\<close> is below every \<open>Some\<close>.\<close>

definition battery_below :: "u8 option \<Rightarrow> u8 \<Rightarrow> bool" where
  "battery_below battery limit = (case battery of None \<Rightarrow> True | Some b \<Rightarrow> b < limit)"

definition check_mobile :: "governor_config \<Rightarrow> job_spec \<Rightarrow> resource_offer \<Rightarrow> denial + unit" where
  "check_mobile cfg job offer =
     (if \<not> js_restart_tolerant job then Inl MobileRequiresRestartTolerance
      else if js_adapter job |\<notin>| gc_mobile_adapters cfg then Inl MobileAdapterDenied
      else if \<not> av_foreground_allowed (ro_availability offer) then Inl MobileForegroundRequired
      else if \<not> av_on_ac_power (ro_availability offer)
              \<and> battery_below (av_battery_percent (ro_availability offer)) (gc_mobile_min_battery_percent cfg)
      then Inl MobileBatteryDenied
      else if av_thermal_headroom_percent (ro_availability offer) < gc_mobile_min_thermal_headroom_percent cfg
      then Inl MobileThermalDenied
      else Inr ())"

definition check_job_at ::
  "governor_config \<Rightarrow> job_spec \<Rightarrow> resource_offer \<Rightarrow> uuid \<Rightarrow> datetime \<Rightarrow> denial + unit" where
  "check_job_at cfg job offer selected_node now =
     (if gc_killed cfg then Inl KillLatch
      else case job_validate_at job now of
        Inl error \<Rightarrow> Inl (InvalidJob (contract_error_to_string error))
      | Inr _ \<Rightarrow>
        if js_adapter job |\<notin>| gc_trusted_adapters cfg then Inl AdapterDenied
        else if list_ex (\<lambda>request. \<not> adapter_allows_resource (js_adapter job) (rr_class request)) (js_requests job)
        then Inl AdapterResourceDenied
        else if js_adapter job |\<notin>| ro_adapters offer then Inl OfferAdapterMismatch
        else if ro_workload_capabilities offer \<noteq> []
                \<and> \<not> list_ex (\<lambda>capability. authorizes capability (js_adapter job) (js_operation job))
                      (ro_workload_capabilities offer)
        then Inl WorkloadCapabilityMismatch
        else if list_ex (\<lambda>request. list_all (\<lambda>resource. \<not> resource_satisfies request resource) (ro_resources offer))
                  (js_requests job)
        then Inl OfferResourceMismatch
        else if ro_expires_at offer \<le> now then Inl OfferExpired
        else if ro_node_id offer \<noteq> selected_node then Inl NodeMismatch
        else if js_deadline job > now + seconds (gc_max_job_ttl_seconds cfg) then Inl DeadlineTooFar
        else if is_mobile_offer offer then check_mobile cfg job offer
        else Inr ())"

text \<open>The grant of one request: the labels come from the first offered resource of the class;
  \<open>expect\<close> panics (\<open>None\<close>) when there is none.\<close>

definition grant_request :: "resource_offer \<Rightarrow> resource_request \<Rightarrow> resource_quantity option" where
  "grant_request offer request =
     (case List.find (\<lambda>resource. rq_class resource = rr_class request) (ro_resources offer) of
        None \<Rightarrow> None
      | Some offered \<Rightarrow>
          Some \<lparr>rq_class = rr_class request, rq_capacity = rr_minimum request,
                rq_available = rr_minimum request, rq_unit = rr_unit request,
                rq_labels = rq_labels offered\<rparr>)"

text \<open>The result of an authorisation: \<open>None\<close> is a panic, \<open>Inl\<close> a denial, \<open>Inr\<close> the lease.\<close>

definition authorize_job_at_epoch ::
  "'sk crypto \<Rightarrow> 'sk governor \<Rightarrow> datetime \<Rightarrow> uuid \<Rightarrow> string \<Rightarrow> job_spec \<Rightarrow> resource_offer \<Rightarrow> uuid \<Rightarrow> u64
     \<Rightarrow> (denial + capability_lease) option" where
  "authorize_job_at_epoch C gov now lease_id nonce job offer selected_node fencing_epoch =
     (case check_job_at (gov_config gov) job offer selected_node now of
        Inl e \<Rightarrow> Some (Inl e)
      | Inr _ \<Rightarrow>
        (case those (map (grant_request offer) (js_requests job)) of
           None \<Rightarrow> None
         | Some granted \<Rightarrow>
             let expires_at = min (js_deadline job) (now + seconds (max (gc_lease_ttl_seconds (gov_config gov)) 1));
                 lease = \<lparr>cl_schema = capability_lease_SCHEMA, cl_lease_id = lease_id,
                   cl_job_id = js_job_id job, cl_node_id = selected_node,
                   cl_project_id = js_project_id job, cl_adapter = js_adapter job,
                   cl_operation = js_operation job,
                   cl_input_digests = fset_of_list (map ar_digest (js_inputs job)),
                   cl_granted = granted, cl_network_allowlist = js_network_allowlist job,
                   cl_issued_at = now, cl_expires_at = expires_at, cl_nonce = nonce,
                   cl_fencing_epoch = fencing_epoch, cl_signature = []\<rparr>
             in Some (Inr (lease\<lparr>cl_signature := sign_hex C (gov_signing_key gov) (lease_message C lease)\<rparr>))))"

definition verify_lease :: "'sk crypto \<Rightarrow> 'sk governor \<Rightarrow> capability_lease \<Rightarrow> denial + unit" where
  "verify_lease C gov lease =
     (case cr_hex_decode C (cl_signature lease) of None \<Rightarrow> Inl InvalidSignature
      | Some signature_bytes \<Rightarrow>
        (case cr_signature_from_slice C signature_bytes of None \<Rightarrow> Inl InvalidSignature
         | Some signature \<Rightarrow>
           if cr_verify C (cr_verifying_key C (gov_signing_key gov)) (lease_message C lease) signature
           then Inr () else Inl InvalidSignature))"

section \<open>Promotions\<close>

definition authorize_promotion :: "governor_config \<Rightarrow> uuid \<Rightarrow> risk_class \<Rightarrow> denial + unit" where
  "authorize_promotion cfg project_id risk =
     (case risk of
        RC0Configuration \<Rightarrow> Inr ()
      | RC1AllowlistedSource \<Rightarrow>
          if project_id |\<in>| gc_trusted_autopilot_projects cfg then Inr () else Inl AutopilotNotEnabled
      | RC2ProtectedChange \<Rightarrow>
          if project_id |\<in>| gc_autonomous_protected_projects cfg then Inr ()
          else Inl AutonomousAuthorityDenied
      | RC3AuthorityCritical \<Rightarrow> Inl AutonomousAuthorityDenied)"

definition authorize_diagnostic_action :: "governor_config \<Rightarrow> string \<Rightarrow> denial + unit" where
  "authorize_diagnostic_action cfg action =
     (if gc_killed cfg then Inl KillLatch
      else if action \<in> {''suppress_thermally_constrained_node'', ''suppress_low_battery_node'',
                        ''suppress_unroutable_node''}
      then Inr () else Inl DiagnosticActionDenied)"

fun promotion_risk :: "promotion_risk_v1 \<Rightarrow> risk_class" where
  "promotion_risk R0Configuration = RC0Configuration"
| "promotion_risk R1AllowlistedSource = RC1AllowlistedSource"
| "promotion_risk R2ProtectedChange = RC2ProtectedChange"
| "promotion_risk R3AuthorityCritical = RC3AuthorityCritical"

definition authority_critical_prefixes :: "string list" where
  "authority_critical_prefixes =
     [''crates/rampage-policy/'', ''crates/rampage-protocol/'', ''crates/rampage-controller/'',
      ''crates/rampage-agent/'', ''crates/rampage-mesh/'', ''crates/rampage-storage/'',
      ''policies/'', ''evals/holdouts/'', ''signing/'', ''updater/'',
      ''services/intelligence/src/rampage_intelligence/promotion.py'', ''.github/workflows/'']"

definition normalize_path :: "string \<Rightarrow> string" where
  "normalize_path path =
     to_ascii_lowercase (map (\<lambda>c. if c = CHR 0x5C then CHR ''/'' else c) path)"

definition classify_promotion_paths :: "string list \<Rightarrow> risk_class" where
  "classify_promotion_paths paths =
     (let normalized = map normalize_path paths in
      if list_ex (\<lambda>path. list_ex (\<lambda>p. starts_with p path) authority_critical_prefixes) normalized
      then RC3AuthorityCritical
      else if list_ex (\<lambda>path. ends_with ''pyproject.toml'' path \<or> ends_with ''Cargo.toml'' path
                \<or> ends_with ''package.json'' path \<or> str_contains ''/migrations/'' path
                \<or> starts_with ''contracts/'' path) normalized
      then RC2ProtectedChange
      else if list_all (\<lambda>path. starts_with ''prompts/'' path \<or> starts_with ''routing/'' path
                \<or> starts_with ''cache/'' path) normalized
      then RC0Configuration
      else RC1AllowlistedSource)"

definition authorize_promotion_canary_at_epoch ::
  "'sk crypto \<Rightarrow> 'sk governor \<Rightarrow> datetime \<Rightarrow> uuid \<Rightarrow> string \<Rightarrow> promotion_candidate \<Rightarrow> u64
     \<Rightarrow> denial + promotion_canary_lease" where
  "authorize_promotion_canary_at_epoch C gov now canary_id nonce candidate fencing_epoch =
     (if \<not> promotion_candidate_is_valid_at candidate now then Inl InvalidPromotionEvidence
      else let classified = classify_promotion_paths (pc_changed_paths candidate);
               declared = promotion_risk (pc_risk candidate)
      in if declared \<noteq> classified then Inl PromotionRiskMismatch
      else case authorize_promotion (gov_config gov) (pc_project_id candidate) declared of
        Inl e \<Rightarrow> Inl e
      | Inr _ \<Rightarrow>
        (case (case pc_risk candidate of R0Configuration \<Rightarrow> Inr 1000 | R1AllowlistedSource \<Rightarrow> Inr 500
               | R2ProtectedChange \<Rightarrow> Inr 100 | R3AuthorityCritical \<Rightarrow> Inl AutonomousAuthorityDenied) of
           Inl e \<Rightarrow> Inl e
         | Inr max_traffic_basis_points \<Rightarrow>
           let lease = \<lparr>can_schema = promotion_canary_lease_SCHEMA, can_canary_id = canary_id,
                 can_proposal_id = pc_proposal_id candidate, can_project_id = pc_project_id candidate,
                 can_candidate_digest = pc_candidate_digest candidate, can_risk = pc_risk candidate,
                 can_max_traffic_basis_points = max_traffic_basis_points,
                 can_max_error_regression_basis_points = 100,
                 can_max_latency_regression_basis_points = 500,
                 can_max_cost_regression_basis_points = 500,
                 can_issued_at = now,
                 can_expires_at = min (pc_expires_at candidate) (now + minutes 10),
                 can_nonce = nonce, can_fencing_epoch = fencing_epoch, can_signature = []\<rparr>
           in Inr (lease\<lparr>can_signature := sign_hex C (gov_signing_key gov) (promotion_canary_message C lease)\<rparr>)))"

section \<open>Model sessions\<close>

definition exact_runtime :: "resource_offer \<Rightarrow> model_runtime_offer \<Rightarrow> installed_model \<Rightarrow> bool" where
  "exact_runtime offer runtime model =
     list_ex (\<lambda>candidate. mr_schema candidate = model_runtime_offer_SCHEMA
        \<and> mr_adapter candidate = mr_adapter runtime
        \<and> mr_backend candidate = mr_backend runtime
        \<and> mr_runtime_digest candidate = mr_runtime_digest runtime
        \<and> mr_compatibility_key candidate = mr_compatibility_key runtime
        \<and> mr_status candidate = mr_status runtime
        \<and> model \<in> set (mr_installed_models candidate)) (ro_model_runtimes offer)"

definition authorize_model_session_at_epoch ::
  "'sk crypto \<Rightarrow> 'sk governor \<Rightarrow> datetime \<Rightarrow> uuid \<Rightarrow> uuid \<Rightarrow> string \<Rightarrow> resource_offer
     \<Rightarrow> model_runtime_offer \<Rightarrow> installed_model \<Rightarrow> string \<Rightarrow> model_session_limits \<Rightarrow> u64
     \<Rightarrow> denial + model_session_lease" where
  "authorize_model_session_at_epoch C gov now lease_id session_id nonce offer runtime model
       controller_endpoint_id limits fencing_epoch =
     (if gc_killed (gov_config gov) then Inl KillLatch
      else if ro_expires_at offer \<le> now then Inl OfferExpired
      else if msl_max_prompt_bytes limits = 0 \<or> msl_max_prompt_bytes limits > MAX_MODEL_PROMPT_BYTES
              \<or> msl_max_output_tokens limits = 0 \<or> msl_max_output_tokens limits > MAX_MODEL_OUTPUT_TOKENS
      then Inl InvalidModelSession
      else let guarded_model_bytes = sat_add (im_artifact_size_bytes model) (im_artifact_size_bytes model div 5)
      in if controller_endpoint_id = [] \<or> \<not> is_ascii controller_endpoint_id
            \<or> ro_mesh_endpoint offer = None
            \<or> ''rampage.ollama.v1'' |\<notin>| ro_adapters offer
            \<or> mr_adapter runtime \<noteq> ''rampage.ollama.v1''
            \<or> mr_backend runtime \<noteq> LocalOllama
            \<or> mr_status runtime \<noteq> ShippedLocal
            \<or> WholeModel |\<notin>| mr_supported_parallelism runtime
            \<or> \<not> installed_model_is_valid model
            \<or> mr_available_model_bytes runtime < guarded_model_bytes
            \<or> \<not> exact_runtime offer runtime model
            \<or> \<not> av_foreground_allowed (ro_availability offer)
            \<or> av_thermal_headroom_percent (ro_availability offer) < 15
            \<or> (\<not> av_on_ac_power (ro_availability offer)
                \<and> unwrap_or 100 (av_battery_percent (ro_availability offer)) < 50)
      then Inl ModelRuntimeDenied
      else let lease = \<lparr>ml_schema = model_session_lease_SCHEMA, ml_lease_id = lease_id,
             ml_session_id = session_id, ml_node_id = ro_node_id offer,
             ml_controller_endpoint_id = controller_endpoint_id,
             ml_model_id = im_model_id model, ml_model_digest = im_artifact_digest model,
             ml_backend = mr_backend runtime, ml_runtime_digest = mr_runtime_digest runtime,
             ml_parallelism = WholeModel, ml_max_prompt_bytes = msl_max_prompt_bytes limits,
             ml_max_output_tokens = msl_max_output_tokens limits, ml_issued_at = now,
             ml_expires_at = now + seconds (max (gc_lease_ttl_seconds (gov_config gov)) 1),
             ml_nonce = nonce, ml_fencing_epoch = fencing_epoch, ml_signature = []\<rparr>
        in Inr (lease\<lparr>ml_signature := sign_hex C (gov_signing_key gov) (model_session_lease_message C lease)\<rparr>))"

section \<open>Remote desktop sessions\<close>

definition clamp :: "int \<Rightarrow> int \<Rightarrow> int \<Rightarrow> int" where
  "clamp lo hi x = (if x < lo then lo else if x > hi then hi else x)"

fun remote_desktop_operation :: "remote_desktop_mode \<Rightarrow> string" where
  "remote_desktop_operation View = ''view''"
| "remote_desktop_operation Control = ''control''"

definition authorize_remote_desktop_at_epoch ::
  "'sk crypto \<Rightarrow> 'sk governor \<Rightarrow> datetime \<Rightarrow> uuid \<Rightarrow> string \<Rightarrow> resource_offer \<Rightarrow> string \<Rightarrow> uuid
     \<Rightarrow> remote_desktop_mode \<Rightarrow> remote_desktop_limits \<Rightarrow> u64 \<Rightarrow> denial + remote_desktop_lease" where
  "authorize_remote_desktop_at_epoch C gov now lease_id nonce offer controller_endpoint_id session_id
       mode limits fencing_epoch =
     (if gc_killed (gov_config gov) then Inl KillLatch
      else if ro_expires_at offer \<le> now then Inl OfferExpired
      else if \<not> (1 \<le> rdl_max_width limits \<and> rdl_max_width limits \<le> MAX_REMOTE_DESKTOP_DIMENSION)
              \<or> \<not> (1 \<le> rdl_max_height limits \<and> rdl_max_height limits \<le> MAX_REMOTE_DESKTOP_DIMENSION)
              \<or> \<not> (1 \<le> rdl_max_fps limits \<and> rdl_max_fps limits \<le> MAX_REMOTE_DESKTOP_FPS)
      then Inl InvalidRemoteDesktopLimits
      else let capability_advertised =
             list_ex (\<lambda>capability. wc_status capability = Shipped \<and> workload_capability_is_valid capability
                 \<and> authorizes capability ''rampage.remote-assist.v1'' (remote_desktop_operation mode))
               (ro_workload_capabilities offer)
      in if controller_endpoint_id = [] \<or> \<not> is_ascii controller_endpoint_id
            \<or> ro_mesh_endpoint offer = None
            \<or> ''rampage.remote-assist.v1'' |\<notin>| ro_adapters offer
            \<or> \<not> capability_advertised
            \<or> \<not> av_foreground_allowed (ro_availability offer)
      then Inl RemoteDesktopDenied
      else let lease = \<lparr>rd_schema = remote_desktop_lease_SCHEMA, rd_lease_id = lease_id,
             rd_session_id = session_id, rd_node_id = ro_node_id offer,
             rd_controller_endpoint_id = controller_endpoint_id, rd_mode = mode,
             rd_max_width = rdl_max_width limits, rd_max_height = rdl_max_height limits,
             rd_max_fps = rdl_max_fps limits, rd_issued_at = now,
             rd_expires_at = now + seconds (clamp 1 MAX_REMOTE_DESKTOP_LEASE_SECONDS
               (gc_lease_ttl_seconds (gov_config gov))),
             rd_nonce = nonce, rd_fencing_epoch = fencing_epoch, rd_signature = []\<rparr>
        in Inr (lease\<lparr>rd_signature := sign_hex C (gov_signing_key gov) (remote_desktop_lease_message C lease)\<rparr>))"

section \<open>Storage\<close>

fun required_storage_class :: "storage_class \<Rightarrow> resource_class" where
  "required_storage_class Cache = StorageCache"
| "required_storage_class Scratch = StorageScratch"
| "required_storage_class Protected = ProtectedStore"

definition authorize_storage_at_epoch ::
  "'sk crypto \<Rightarrow> 'sk governor \<Rightarrow> datetime \<Rightarrow> uuid \<Rightarrow> string \<Rightarrow> resource_offer \<Rightarrow> string \<Rightarrow> u64
     \<Rightarrow> storage_class \<Rightarrow> artifact_transfer_operation \<Rightarrow> u64 \<Rightarrow> denial + storage_lease" where
  "authorize_storage_at_epoch C gov now lease_id nonce offer digest size_bytes storage_class operation
       fencing_epoch =
     (if gc_killed (gov_config gov) then Inl KillLatch
      else if ro_expires_at offer \<le> now then Inl OfferExpired
      else let valid_digest = (case strip_prefix ''sha256:'' digest of None \<Rightarrow> False
             | Some value \<Rightarrow> length value = 64 \<and> list_all is_lower_hex_digit value)
      in if \<not> valid_digest \<or> size_bytes > MAX_ARTIFACT_TRANSFER_BYTES then Inl InvalidArtifact
      else if operation = Put
              \<and> \<not> list_ex (\<lambda>resource. rq_class resource = required_storage_class storage_class
                    \<and> rq_available resource \<ge> size_bytes) (ro_resources offer)
      then Inl StorageCapacityDenied
      else let lease = \<lparr>sl_schema = storage_lease_SCHEMA, sl_lease_id = lease_id,
             sl_node_id = ro_node_id offer, sl_digest = digest, sl_operation = operation,
             sl_storage_class = storage_class, sl_size_bytes = size_bytes, sl_issued_at = now,
             sl_expires_at = now + seconds (max (gc_lease_ttl_seconds (gov_config gov)) 1),
             sl_nonce = nonce, sl_fencing_epoch = fencing_epoch, sl_signature = []\<rparr>
        in Inr (lease\<lparr>sl_signature := sign_hex C (gov_signing_key gov) (storage_lease_message C lease)\<rparr>))"

fun device_kind_label :: "device_kind \<Rightarrow> string" where
  "device_kind_label Desktop = ''desktop''"
| "device_kind_label Laptop = ''laptop''"
| "device_kind_label Server = ''server''"
| "device_kind_label SteamDeck = ''steam_deck''"
| "device_kind_label Phone = ''phone''"
| "device_kind_label Tablet = ''tablet''"
| "device_kind_label Console = ''console''"

section \<open>Supporting lemmas\<close>

lemma check_job_at_accepts:
  "check_job_at cfg job offer node now = Inr () \<longleftrightarrow>
     \<not> gc_killed cfg \<and> job_validate_at job now = Inr ()
     \<and> js_adapter job |\<in>| gc_trusted_adapters cfg
     \<and> list_all (\<lambda>r. adapter_allows_resource (js_adapter job) (rr_class r)) (js_requests job)
     \<and> js_adapter job |\<in>| ro_adapters offer
     \<and> (ro_workload_capabilities offer = []
         \<or> list_ex (\<lambda>c. authorizes c (js_adapter job) (js_operation job)) (ro_workload_capabilities offer))
     \<and> list_all (\<lambda>r. list_ex (resource_satisfies r) (ro_resources offer)) (js_requests job)
     \<and> now < ro_expires_at offer \<and> ro_node_id offer = node
     \<and> js_deadline job \<le> now + seconds (gc_max_job_ttl_seconds cfg)
     \<and> (is_mobile_offer offer \<longrightarrow> check_mobile cfg job offer = Inr ())"
  by (auto simp: check_job_at_def list_ex_iff list_all_iff not_le split: sum.split)

lemma those_map_Some:
  "list_all (\<lambda>x. \<exists>y. f x = Some y) xs \<Longrightarrow> \<exists>ys. those (map f xs) = Some ys"
  by (induction xs) auto

lemma those_map_SomeD:
  "those (map f xs) = Some ys \<Longrightarrow> list_all2 (\<lambda>x y. f x = Some y) xs ys"
  by (induction xs arbitrary: ys) (auto split: option.splits)

lemma grant_request_Some:
  "list_ex (resource_satisfies r) (ro_resources offer) \<Longrightarrow> \<exists>g. grant_request offer r = Some g"
  by (auto simp: grant_request_def list_ex_iff resource_satisfies_def find_None_iff split: option.split)

lemma grants_exist:
  "check_job_at cfg job offer node now = Inr () \<Longrightarrow>
     \<exists>gs. those (map (grant_request offer) (js_requests job)) = Some gs"
  by (rule those_map_Some) (auto simp: check_job_at_accepts list_all_iff intro: grant_request_Some)

end
