(* ===== verification/Rampage_Contracts.thy ===== *)
theory Rampage_Contracts
  imports Rampage_Protocol
begin

text \<open>
  What the contract predicates of the protocol guarantee: the exact meaning of an accepted shard
  set, the time and fencing window of an active lease, and the chunk layout of a resumable
  transfer (the chunks of an artifact partition its bytes).
\<close>

section \<open>Shard sets\<close>

definition shard_ok :: "shard_set \<Rightarrow> datetime \<Rightarrow> job_spec \<Rightarrow> bool" where
  "shard_ok s now j =
     (job_validate_at j now = Inr () \<and> js_project_id j = ss_project_id s
      \<and> js_submitted_by j = ss_submitted_by s \<and> js_restart_tolerant j
      \<and> js_deadline j \<le> ss_deadline s)"

lemma validate_shards_iff:
  "validate_shards s now ids keys js = Inr () \<longleftrightarrow>
     list_all (shard_ok s now) js
     \<and> distinct (map js_job_id js) \<and> set (map js_job_id js) \<inter> set ids = {}
     \<and> distinct (map js_idempotency_key js) \<and> set (map js_idempotency_key js) \<inter> set keys = {}"
proof (induction js arbitrary: ids keys)
  case Nil
  then show ?case by simp
next
  case (Cons j js)
  show ?case
    by (auto simp: shard_ok_def Cons.IH split: sum.split)
qed

lemma shard_set_accepted:
  "shard_set_validate_at s now = Inr () \<longleftrightarrow>
     ss_schema s = shard_set_SCHEMA \<and> now < ss_deadline s \<and> \<not> blank (ss_idempotency_key s)
     \<and> 0 < length (ss_shards s) \<and> length (ss_shards s) \<le> MAX_SHARDS_PER_SET
     \<and> 0 < unat (ss_minimum_successes s)
     \<and> unat (ss_minimum_successes s) \<le> length (ss_shards s)
     \<and> list_all (shard_ok s now) (ss_shards s)
     \<and> distinct (map js_job_id (ss_shards s))
     \<and> distinct (map js_idempotency_key (ss_shards s))"
proof -
  have "ss_minimum_successes s = 0 \<longleftrightarrow> \<not> 0 < unat (ss_minimum_successes s)"
    by (simp add: unat_gt_0)
  then show ?thesis
    by (auto simp: shard_set_validate_at_def validate_shards_iff not_le)
qed

lemma job_validate_ok:
  "job_validate_at j now = Inr () \<longleftrightarrow>
     js_schema j = job_spec_SCHEMA \<and> now < js_deadline j \<and> \<not> blank (js_idempotency_key j)
     \<and> list_all (\<lambda>r. rr_minimum r \<le> rr_preferred r) (js_requests j)"
  by (auto simp: job_validate_at_def list_ex_iff list_all_iff not_le not_less)

section \<open>Chunk layout\<close>

text \<open>The product of two widened 32-bit values never overflows 64 bits.\<close>

lemma checked_mul_ucast_u32 [simp]:
  "checked_mul (ucast (i :: u32)) (ucast (c :: u32) :: u64) = Some (ucast i * ucast c)"
proof -
  have "unat i * unat c < 2 ^ 32 * 2 ^ 32"
    by (intro mult_strict_mono unat_u32_lt) auto
  then show ?thesis by (simp add: checked_mul_def)
qed

lemma unat_mult_ucast_u32 [simp]:
  "unat (ucast (i :: u32) * ucast (c :: u32) :: u64) = unat i * unat c"
  using unat_checked_mul [OF checked_mul_ucast_u32 [of i c]] by simp

text \<open>The size of chunk \<open>i\<close>, as a natural number.\<close>

definition chunk_bytes :: "nat \<Rightarrow> nat \<Rightarrow> nat \<Rightarrow> nat" where
  "chunk_bytes sz chunk i = min (sz - i * chunk) chunk"

lemma expected_artifact_chunk_size_eq:
  assumes "sz \<noteq> 0" "chunk \<noteq> 0"
  shows "expected_artifact_chunk_size sz chunk i =
    (if unat i * unat chunk < unat sz
     then Some (of_nat (chunk_bytes (unat sz) (unat chunk) (unat i))) else None)"
proof (cases "unat i * unat chunk < unat sz")
  case True
  let ?off = "ucast i * ucast chunk :: u64"
  have lt: "\<not> sz \<le> ?off" using True by (simp add: word_le_nat_alt)
  then have "?off \<le> sz" by simp
  then have "unat (sz - ?off) = unat sz - unat i * unat chunk"
    by (simp add: unat_sub)
  then have "unat (min (sz - ?off) (ucast chunk)) = chunk_bytes (unat sz) (unat chunk) (unat i)"
    by (simp add: chunk_bytes_def min_def word_le_nat_alt)
  then have "min (sz - ?off) (ucast chunk) =
      of_nat (chunk_bytes (unat sz) (unat chunk) (unat i))"
    by (metis word_of_nat_unat)
  with True lt assms show ?thesis by (simp add: expected_artifact_chunk_size_def)
next
  case False
  with assms show ?thesis
    by (simp add: expected_artifact_chunk_size_def word_le_nat_alt)
qed

text \<open>The chunks below the ceiling of the quotient are non-empty and add up to the whole.\<close>

lemma chunk_bytes_sum:
  assumes "0 < chunk"
  shows "(\<Sum>i<n. chunk_bytes sz chunk i) = min sz (n * chunk)"
  by (induction n) (auto simp: chunk_bytes_def)

lemma chunk_in_range:
  assumes "0 < (chunk::nat)"
  shows "i * chunk < sz \<longleftrightarrow> i < (sz + chunk - 1) div chunk"
proof -
  have "i < (sz + chunk - 1) div chunk \<longleftrightarrow> Suc i * chunk \<le> sz + chunk - 1"
    using assms by (simp add: less_eq_div_iff_mult_less_eq Suc_le_eq [symmetric])
  also have "\<dots> \<longleftrightarrow> i * chunk < sz"
    using assms by auto
  finally show ?thesis ..
qed

lemma ceil_mult_ge: "0 < (chunk::nat) \<Longrightarrow> sz \<le> (sz + chunk - 1) div chunk * chunk"
  using chunk_in_range [of chunk "(sz + chunk - 1) div chunk" sz] by simp

definition chunk_size_or_0 :: "u64 \<Rightarrow> u32 \<Rightarrow> nat \<Rightarrow> nat" where
  "chunk_size_or_0 sz chunk i =
     (case expected_artifact_chunk_size sz chunk (of_nat i) of None \<Rightarrow> 0 | Some b \<Rightarrow> unat b)"

definition chunk_count_nat :: "u64 \<Rightarrow> u32 \<Rightarrow> nat" where
  "chunk_count_nat sz chunk = unat (div_ceil sz (ucast chunk))"

lemma chunk_count_nat_eq:
  assumes "chunk \<noteq> 0"
  shows "chunk_count_nat sz chunk = (unat sz + unat chunk - 1) div unat chunk"
proof -
  have "(ucast chunk :: u64) \<noteq> 0" using assms
    by (metis unat_eq_zero unat_ucast_u32)
  then show ?thesis by (simp add: chunk_count_nat_def unat_div_ceil)
qed

lemma chunk_count_bound:
  assumes "sz \<le> MAX_ARTIFACT_TRANSFER_BYTES" "chunk \<noteq> 0"
  shows "chunk_count_nat sz chunk \<le> 67108864"
proof -
  have sz: "unat sz \<le> 67108864"
    using assms(1) by (simp add: protocol_limits word_le_nat_alt)
  have c: "0 < unat chunk" using assms(2) by (simp add: unat_gt_0)
  have "(unat sz + unat chunk - 1) div unat chunk \<le> unat sz"
    using chunk_in_range [OF c, of "unat sz" "unat sz"] c by (simp add: not_less [symmetric])
  with sz assms(2) show ?thesis by (simp add: chunk_count_nat_eq)
qed

lemma chunk_size_or_0_eq:
  assumes "0 < sz" "sz \<le> MAX_ARTIFACT_TRANSFER_BYTES" "0 < chunk"
    and i: "i < chunk_count_nat sz chunk"
  shows "chunk_size_or_0 sz chunk i = chunk_bytes (unat sz) (unat chunk) i"
    and "i * unat chunk < unat sz"
proof -
  have c0: "chunk \<noteq> 0" "sz \<noteq> 0" using assms(1,3) by (auto simp: word_gt_0)
  then have c: "0 < unat chunk" by (simp add: unat_gt_0)
  have "i < 2 ^ 32" using i chunk_count_bound [OF assms(2) c0(1)] by simp
  then have ui: "unat (of_nat i :: u32) = i"
    by (simp add: unsigned_of_nat take_bit_nat_eq_self)
  show lt: "i * unat chunk < unat sz"
    using i chunk_in_range [OF c] by (simp add: chunk_count_nat_eq [OF c0(1)])
  have "chunk_bytes (unat sz) (unat chunk) i \<le> unat sz" by (simp add: chunk_bytes_def)
  moreover have "unat sz < 2 ^ 64" using unsigned_less [of sz] by simp
  ultimately have "unat (of_nat (chunk_bytes (unat sz) (unat chunk) i) :: u64) =
      chunk_bytes (unat sz) (unat chunk) i"
    by (simp add: unsigned_of_nat take_bit_nat_eq_self)
  then show "chunk_size_or_0 sz chunk i = chunk_bytes (unat sz) (unat chunk) i"
    using lt by (simp add: chunk_size_or_0_def expected_artifact_chunk_size_eq c0 ui)
qed

section \<open>Fenced leases\<close>

text \<open>
  What the five kinds of lease promise their holders: an active lease belongs to the epoch it is
  presented at, has started (up to the clock skew), has not expired, and stays active until it
  expires. Everything a client needs about fencing follows from these laws.
\<close>

locale fenced_lease =
  fixes active_at :: "'l \<Rightarrow> datetime \<Rightarrow> u64 \<Rightarrow> bool"
    and issued_at :: "'l \<Rightarrow> datetime"
    and expires_at :: "'l \<Rightarrow> datetime"
    and epoch_of :: "'l \<Rightarrow> u64"
  assumes active_epoch: "active_at l t e \<Longrightarrow> epoch_of l = e"
    and active_not_expired: "active_at l t e \<Longrightarrow> t < expires_at l"
    and active_started: "active_at l t e \<Longrightarrow> issued_at l \<le> t + seconds MAX_LEASE_CLOCK_SKEW_SECONDS"
    and active_until_expiry: "active_at l t e \<Longrightarrow> t \<le> t' \<Longrightarrow> t' < expires_at l \<Longrightarrow> active_at l t' e"
begin

lemma fenced_by_other_epoch: "active_at l t e \<Longrightarrow> e' \<noteq> e \<Longrightarrow> \<not> active_at l t' e'"
  using active_epoch by blast

lemma expired_forever: "expires_at l \<le> t \<Longrightarrow> \<not> active_at l t' e \<or> t' < t"
  using active_not_expired [of l t' e] by linarith

lemma window: "active_at l t e \<Longrightarrow> expires_at l \<le> issued_at l + d \<Longrightarrow> t < issued_at l + d"
  using active_not_expired [of l t e] by linarith

end

interpretation job_lease: fenced_lease lease_is_active_at cl_issued_at cl_expires_at cl_fencing_epoch
  by unfold_locales (auto simp: lease_is_active_at_def lease_has_started_def)

interpretation canary_lease: fenced_lease canary_is_active_at can_issued_at can_expires_at can_fencing_epoch
  by unfold_locales (auto simp: canary_is_active_at_def lease_has_started_def)

interpretation model_lease: fenced_lease model_lease_is_active_at ml_issued_at ml_expires_at ml_fencing_epoch
  by unfold_locales (auto simp: model_lease_is_active_at_def lease_has_started_def)

interpretation desktop_lease:
  fenced_lease remote_desktop_lease_is_active_at rd_issued_at rd_expires_at rd_fencing_epoch
  by unfold_locales (auto simp: remote_desktop_lease_is_active_at_def lease_has_started_def)

interpretation storage_lease: fenced_lease storage_lease_is_active_at sl_issued_at sl_expires_at sl_fencing_epoch
  by unfold_locales (auto simp: storage_lease_is_active_at_def lease_has_started_def)

section \<open>Properties of the contracts\<close>

text \<open>
  A shard set is accepted exactly when its schema, deadline and key are in order, it has
  between 1 and 256 shards, its success threshold lies between 1 and the shard count, every shard
  is a valid restart-tolerant job of the same project and submitter that expires no later than
  the set, and the job identifiers and the idempotency keys are pairwise distinct.
\<close>

theorem shard_set_validate_exact:
  "shard_set_validate_at s now = Inr () \<longleftrightarrow>
     ss_schema s = shard_set_SCHEMA \<and> now < ss_deadline s \<and> \<not> blank (ss_idempotency_key s)
     \<and> 1 \<le> length (ss_shards s) \<and> length (ss_shards s) \<le> 256
     \<and> 1 \<le> unat (ss_minimum_successes s)
     \<and> unat (ss_minimum_successes s) \<le> length (ss_shards s)
     \<and> list_all (\<lambda>j. job_validate_at j now = Inr () \<and> js_project_id j = ss_project_id s
          \<and> js_submitted_by j = ss_submitted_by s \<and> js_restart_tolerant j
          \<and> js_deadline j \<le> ss_deadline s) (ss_shards s)
     \<and> distinct (map js_job_id (ss_shards s))
     \<and> distinct (map js_idempotency_key (ss_shards s))"
  unfolding shard_set_accepted shard_ok_def [abs_def] protocol_limits
  by (simp add: Suc_le_eq)

text \<open>
  The chunk sizes the transfer protocol expects partition an artifact: every index below the
  ceiling of size over chunk size has a non-empty chunk of at most the chunk size, the next index
  has none, and the sizes add up to the size of the artifact.
\<close>

theorem artifact_chunks_partition:
  assumes "0 < sz" "sz \<le> MAX_ARTIFACT_TRANSFER_BYTES" "0 < chunk"
  shows "(\<Sum>i<chunk_count_nat sz chunk. chunk_size_or_0 sz chunk i) = unat sz
    \<and> (\<forall>i<chunk_count_nat sz chunk.
         0 < chunk_size_or_0 sz chunk i \<and> chunk_size_or_0 sz chunk i \<le> unat chunk)
    \<and> expected_artifact_chunk_size sz chunk (of_nat (chunk_count_nat sz chunk)) = None"
proof (intro conjI allI impI)
  let ?n = "chunk_count_nat sz chunk"
  have c0: "chunk \<noteq> 0" "sz \<noteq> 0" using assms(1,3) by (auto simp: word_gt_0)
  then have c: "0 < unat chunk" by (simp add: unat_gt_0)
  have "(\<Sum>i<?n. chunk_size_or_0 sz chunk i) = (\<Sum>i<?n. chunk_bytes (unat sz) (unat chunk) i)"
    by (intro sum.cong) (simp_all add: chunk_size_or_0_eq [OF assms])
  also have "\<dots> = unat sz"
    using ceil_mult_ge [OF c, of "unat sz"]
    by (simp add: chunk_bytes_sum [OF c] chunk_count_nat_eq [OF c0(1)] min_def)
  finally show "(\<Sum>i<?n. chunk_size_or_0 sz chunk i) = unat sz" .
  have un: "unat (of_nat ?n :: u32) = ?n"
    using chunk_count_bound [OF assms(2) c0(1)]
    by (simp add: unsigned_of_nat take_bit_nat_eq_self)
  show "expected_artifact_chunk_size sz chunk (of_nat ?n) = None"
    using chunk_in_range [OF c, of ?n "unat sz"] un
    by (simp add: expected_artifact_chunk_size_eq c0 chunk_count_nat_eq)
  fix i assume i: "i < ?n"
  then show "0 < chunk_size_or_0 sz chunk i"
    using chunk_size_or_0_eq [OF assms i] c by (simp add: chunk_bytes_def)
  from i show "chunk_size_or_0 sz chunk i \<le> unat chunk"
    using chunk_size_or_0_eq [OF assms i] by (simp add: chunk_bytes_def)
qed

theorem artifact_chunks_partition_witness:
  "(\<Sum>i<chunk_count_nat 10 4. chunk_size_or_0 10 4 i) = 10
   \<and> chunk_count_nat 10 4 = 3 \<and> chunk_size_or_0 10 4 2 = 2"
proof -
  have "0 < (10 :: u64)" "(10 :: u64) \<le> MAX_ARTIFACT_TRANSFER_BYTES" "0 < (4 :: u32)"
    by (simp_all add: protocol_limits)
  from artifact_chunks_partition [OF this]
  have "(\<Sum>i<chunk_count_nat 10 4. chunk_size_or_0 10 4 i) = 10" by simp
  moreover have "chunk_count_nat 10 4 = 3" by (simp add: chunk_count_nat_def div_ceil_def)
  moreover have "chunk_size_or_0 10 4 2 = 2"
    by (simp add: chunk_size_or_0_def expected_artifact_chunk_size_def checked_mul_def)
  ultimately show ?thesis by simp
qed

text \<open>
  Advancing the fencing epoch revokes every kind of lease at once: a job, canary, model,
  remote desktop or storage lease that is active at one epoch is inactive at every other epoch,
  at any time.
\<close>

theorem epoch_change_revokes_leases:
  assumes "e' \<noteq> e"
  shows "(lease_is_active_at job t e \<longrightarrow> \<not> lease_is_active_at job t' e')
    \<and> (canary_is_active_at canary t e \<longrightarrow> \<not> canary_is_active_at canary t' e')
    \<and> (model_lease_is_active_at model t e \<longrightarrow> \<not> model_lease_is_active_at model t' e')
    \<and> (remote_desktop_lease_is_active_at desktop t e \<longrightarrow> \<not> remote_desktop_lease_is_active_at desktop t' e')
    \<and> (storage_lease_is_active_at storage t e \<longrightarrow> \<not> storage_lease_is_active_at storage t' e')"
  by (intro conjI impI)
    (erule job_lease.fenced_by_other_epoch [OF _ assms] canary_lease.fenced_by_other_epoch [OF _ assms]
      model_lease.fenced_by_other_epoch [OF _ assms] desktop_lease.fenced_by_other_epoch [OF _ assms]
      storage_lease.fenced_by_other_epoch [OF _ assms])+

definition demo_storage_lease :: storage_lease where
  "demo_storage_lease = \<lparr>sl_schema = storage_lease_SCHEMA, sl_lease_id = 1, sl_node_id = 7,
     sl_digest = [], sl_operation = Put, sl_storage_class = Cache, sl_size_bytes = 10,
     sl_issued_at = 0, sl_expires_at = seconds 120, sl_nonce = ''n'', sl_fencing_epoch = 3,
     sl_signature = ''s''\<rparr>"

theorem epoch_change_revokes_leases_witness:
  "storage_lease_is_active_at demo_storage_lease 0 3
   \<and> \<not> storage_lease_is_active_at demo_storage_lease 0 4"
proof -
  have "storage_lease_is_active_at demo_storage_lease 0 3"
    by (simp add: storage_lease_is_active_at_def demo_storage_lease_def lease_has_started_def
        protocol_limits)
      (simp add: seconds_def nanos_per_second_def)
  then show ?thesis
    using epoch_change_revokes_leases [of "4 :: u64" 3, where storage = demo_storage_lease and t = 0 and t' = 0]
    by simp
qed

end
