(* ===== verification/Rampage_Governor.thy ===== *)
theory Rampage_Governor
  imports Rampage_Policy Rampage_Contracts
begin

text \<open>
  Correctness of the Governor: what an admitted job, canary, storage, remote desktop or model
  lease guarantees, that the kill latch dominates, that admission never panics, and the two places
  where the promotion classifier and the grant do not do what their text says.
\<close>

section \<open>What an issued job lease looks like\<close>

lemma authorize_job_cases:
  "authorize_job_at_epoch C gov now i n job offer node e = Some (Inr lease) \<Longrightarrow>
     check_job_at (gov_config gov) job offer node now = Inr ()
     \<and> those (map (grant_request offer) (js_requests job)) = Some (cl_granted lease)
     \<and> cl_schema lease = capability_lease_SCHEMA \<and> cl_job_id lease = js_job_id job
     \<and> cl_node_id lease = node \<and> cl_project_id lease = js_project_id job
     \<and> cl_adapter lease = js_adapter job \<and> cl_operation lease = js_operation job
     \<and> cl_input_digests lease = fset_of_list (map ar_digest (js_inputs job))
     \<and> cl_network_allowlist lease = js_network_allowlist job
     \<and> cl_issued_at lease = now \<and> cl_nonce lease = n \<and> cl_fencing_epoch lease = e
     \<and> cl_expires_at lease = min (js_deadline job) (now + seconds (max (gc_lease_ttl_seconds (gov_config gov)) 1))
     \<and> cl_signature lease = sign_hex C (gov_signing_key gov) (lease_message C lease)"
  by (auto simp: authorize_job_at_epoch_def lease_message_def Let_def split: sum.splits option.splits)

lemma verify_lease_eq:
  "crypto_ok C \<Longrightarrow> verify_lease C gov lease = verify_lease_with_key C (public_hex C (gov_signing_key gov)) lease"
  by (simp add: verify_lease_def verify_lease_with_key_def verify_contract_signature_def
      public_hex_def crypto_laws)

lemma job_deadline_future:
  "check_job_at cfg job offer node now = Inr () \<Longrightarrow> now < js_deadline job"
  by (auto simp: check_job_at_accepts job_validate_ok)

lemma expires_after_now:
  "check_job_at cfg job offer node now = Inr () \<Longrightarrow>
     now < min (js_deadline job) (now + seconds (max ttl 1))"
  using job_deadline_future [of cfg job offer node now] by simp

section \<open>Concrete inputs\<close>

definition demo_governor :: "bool \<Rightarrow> unit governor" where
  "demo_governor killed = \<lparr>gov_config = governor_config_default\<lparr>gc_killed := killed\<rparr>, gov_signing_key = ()\<rparr>"

definition demo_cpu :: "string \<Rightarrow> labels \<Rightarrow> resource_quantity" where
  "demo_cpu unit ls = \<lparr>rq_class = CpuCompute, rq_capacity = 8, rq_available = 8, rq_unit = unit, rq_labels = ls\<rparr>"

definition demo_request :: "labels \<Rightarrow> resource_request" where
  "demo_request ls = \<lparr>rr_class = CpuCompute, rr_minimum = 2, rr_preferred = 4, rr_unit = ''core'', rr_required_labels = ls\<rparr>"

definition demo_job :: "resource_request list \<Rightarrow> job_spec" where
  "demo_job reqs = \<lparr>js_schema = job_spec_SCHEMA, js_job_id = 11, js_project_id = 12, js_submitted_by = 13,
     js_adapter = ''rampage.hash.v1'', js_operation = ''hash'', js_arguments = fmempty, js_inputs = [],
     js_requests = reqs, js_trust = NativeTrusted, js_restart_tolerant = True,
     js_network_allowlist = {||}, js_deadline = seconds 600, js_idempotency_key = ''k''\<rparr>"

definition demo_availability :: availability where
  "demo_availability = \<lparr>av_on_ac_power = True, av_battery_percent = None,
     av_thermal_headroom_percent = 80, av_foreground_allowed = True, av_owner_idle = True\<rparr>"

definition demo_mesh :: mesh_endpoint where
  "demo_mesh = \<lparr>me_schema = mesh_endpoint_SCHEMA, me_endpoint_id = ''e'', me_direct_addresses = [],
     me_relay_urls = [], me_issued_at = 0, me_expires_at = seconds 60, me_signature = []\<rparr>"

definition demo_offer :: "resource_quantity list \<Rightarrow> resource_offer" where
  "demo_offer rs = \<lparr>ro_schema = ''rampage.resource-offer.v1'', ro_offer_id = 21, ro_node_id = 7,
     ro_observed_at = 0, ro_expires_at = seconds 30, ro_resources = rs,
     ro_availability = demo_availability,
     ro_adapters = {|''rampage.hash.v1'', ''rampage.remote-assist.v1'', ''rampage.ollama.v1''|},
     ro_workload_capabilities = [], ro_model_runtimes = [], ro_link_benchmark = None,
     ro_mesh_endpoint = Some demo_mesh, ro_signature = []\<rparr>"

lemmas demo_defs = demo_governor_def demo_cpu_def demo_request_def demo_job_def
  demo_availability_def demo_mesh_def demo_offer_def governor_config_default_def

lemmas admission_defs = check_job_at_def job_validate_at_def adapter_allows_resource_def
  resource_satisfies_def is_mobile_offer_def device_kind_of_def check_mobile_def battery_below_def

lemma demo_job_admitted:
  "check_job_at (gov_config (demo_governor False)) (demo_job [demo_request fmempty])
     (demo_offer [demo_cpu ''core'' fmempty]) 7 0 = Inr ()"
  by (simp add: admission_defs demo_defs ws1_def byte_def) (simp add: seconds_def nanos_per_second_def)

section \<open>Job leases\<close>

text \<open>
  Job admission never panics: the \<open>expect\<close> in the grant is unreachable, and the Governor
  answers with exactly the denial of the admission check or with a lease.
\<close>

theorem authorize_job_total:
  "(\<exists>r. authorize_job_at_epoch C gov now i n job offer node e = Some r)
   \<and> (authorize_job_at_epoch C gov now i n job offer node e = Some (Inl d) \<longleftrightarrow>
        check_job_at (gov_config gov) job offer node now = Inl d)"
proof (cases "check_job_at (gov_config gov) job offer node now")
  case (Inl x)
  then show ?thesis by (simp add: authorize_job_at_epoch_def)
next
  case (Inr u)
  then obtain gs where "those (map (grant_request offer) (js_requests job)) = Some gs"
    using grants_exist [of "gov_config gov" job offer node now] by auto
  with Inr show ?thesis by (simp add: authorize_job_at_epoch_def Let_def)
qed

text \<open>
  C26. A job lease is bound to what was admitted: the kill latch is off, the adapter is trusted and
  offered by the selected node, every request is backed by an offered resource of the class, unit,
  amount and labels asked for and granted with exactly its minimum, and the lease expires after
  its issue, no later than the job's deadline, within the lease lifetime and within the maximum
  authority window.
\<close>

theorem job_lease_bounded:
  assumes "authorize_job_at_epoch C gov now i n job offer node e = Some (Inr lease)"
  shows "\<not> gc_killed (gov_config gov)
    \<and> js_adapter job |\<in>| gc_trusted_adapters (gov_config gov) \<and> js_adapter job |\<in>| ro_adapters offer
    \<and> ro_node_id offer = node \<and> cl_node_id lease = node \<and> cl_job_id lease = js_job_id job
    \<and> cl_adapter lease = js_adapter job \<and> cl_operation lease = js_operation job
    \<and> cl_network_allowlist lease = js_network_allowlist job
    \<and> list_all2 (\<lambda>r g. rq_class g = rr_class r \<and> rq_unit g = rr_unit r
         \<and> rq_available g = rr_minimum r \<and> adapter_allows_resource (js_adapter job) (rq_class g)
         \<and> list_ex (resource_satisfies r) (ro_resources offer)) (js_requests job) (cl_granted lease)
    \<and> cl_issued_at lease = now \<and> now < cl_expires_at lease
    \<and> cl_expires_at lease \<le> js_deadline job
    \<and> cl_expires_at lease \<le> now + seconds (max (gc_lease_ttl_seconds (gov_config gov)) 1)
    \<and> cl_expires_at lease \<le> now + seconds (gc_max_job_ttl_seconds (gov_config gov))"
proof -
  note l = authorize_job_cases [OF assms]
  then have chk: "check_job_at (gov_config gov) job offer node now = Inr ()" by blast
  note a = chk [unfolded check_job_at_accepts]
  have "list_all2 (\<lambda>r g. grant_request offer r = Some g) (js_requests job) (cl_granted lease)"
    using l by (blast intro: those_map_SomeD)
  then have "list_all2 (\<lambda>r g. rq_class g = rr_class r \<and> rq_unit g = rr_unit r
       \<and> rq_available g = rr_minimum r \<and> adapter_allows_resource (js_adapter job) (rq_class g)
       \<and> list_ex (resource_satisfies r) (ro_resources offer)) (js_requests job) (cl_granted lease)"
    using a by (elim list.rel_mono_strong)
      (auto simp: grant_request_def list_all_iff split: option.splits)
  moreover have "now < cl_expires_at lease" using expires_after_now [OF chk] l by simp
  moreover have "cl_expires_at lease \<le> js_deadline job" using l by simp
  then have "cl_expires_at lease \<le> now + seconds (gc_max_job_ttl_seconds (gov_config gov))"
    using a by linarith
  ultimately show ?thesis using a l by simp
qed

lemma demo_lease_exists:
  "\<exists>lease. authorize_job_at_epoch demo_crypto (demo_governor False) 0 1 ''n''
     (demo_job [demo_request fmempty]) (demo_offer [demo_cpu ''core'' fmempty]) 7 3 = Some (Inr lease)"
  using demo_job_admitted grants_exist [OF demo_job_admitted]
  by (auto simp: authorize_job_at_epoch_def Let_def)

theorem job_lease_bounded_witness:
  "\<exists>lease. authorize_job_at_epoch demo_crypto (demo_governor False) 0 1 ''n''
     (demo_job [demo_request fmempty]) (demo_offer [demo_cpu ''core'' fmempty]) 7 3 = Some (Inr lease)
     \<and> 0 < cl_expires_at lease \<and> cl_expires_at lease \<le> seconds 120"
proof -
  obtain lease where l: "authorize_job_at_epoch demo_crypto (demo_governor False) 0 1 ''n''
     (demo_job [demo_request fmempty]) (demo_offer [demo_cpu ''core'' fmempty]) 7 3 = Some (Inr lease)"
    using demo_lease_exists by blast
  with job_lease_bounded [OF l] show ?thesis by (auto simp: demo_defs)
qed

text \<open>
  A job lease is authentic and usable: it verifies with the Governor's public key and with the
  Governor itself, and it is active at its epoch at every instant from five seconds before its
  issue (the clock skew) until its expiry, and at no other instant or epoch.
\<close>

theorem job_lease_authentic_window:
  assumes C: "crypto_ok C"
    and l: "authorize_job_at_epoch C gov now i n job offer node e = Some (Inr lease)"
  shows "verify_lease_with_key C (public_hex C (gov_signing_key gov)) lease = Inr ()
    \<and> verify_lease C gov lease = Inr ()
    \<and> (lease_is_active_at lease t e' \<longleftrightarrow>
         e' = e \<and> now - seconds 5 \<le> t \<and> t < cl_expires_at lease)"
  using signed_lease_verifies [OF C, of lease "gov_signing_key gov"] authorize_job_cases [OF l]
    sign_hex_nonempty [OF C, of "gov_signing_key gov" "lease_message C lease"]
  by (auto simp: verify_lease_eq [OF C] lease_is_active_at_def lease_has_started_def protocol_limits)

theorem job_lease_authentic_window_witness:
  "\<exists>lease. authorize_job_at_epoch demo_crypto (demo_governor False) 0 1 ''n''
     (demo_job [demo_request fmempty]) (demo_offer [demo_cpu ''core'' fmempty]) 7 3 = Some (Inr lease)
     \<and> verify_lease demo_crypto (demo_governor False) lease = Inr ()
     \<and> \<not> lease_is_active_at lease 0 4"
proof -
  obtain lease where l: "authorize_job_at_epoch demo_crypto (demo_governor False) 0 1 ''n''
     (demo_job [demo_request fmempty]) (demo_offer [demo_cpu ''core'' fmempty]) 7 3 = Some (Inr lease)"
    using demo_lease_exists by blast
  with job_lease_authentic_window [OF demo_crypto_ok l, of 0 4] show ?thesis by simp
qed

text \<open>
  Mobile safety: whatever the request, a job lease on an offer labelled phone, tablet or console
  is only issued for restart-tolerant work of a mobile adapter, in an explicit foreground session,
  on mains power or with a known battery level at or above the owner's threshold, and with the
  owner's thermal headroom.
\<close>

theorem mobile_lease_safe:
  assumes "authorize_job_at_epoch C gov now i n job offer node e = Some (Inr lease)"
    and "device_kind_of offer = Some (device_kind_label kind)"
    and "kind = Phone \<or> kind = Tablet \<or> kind = Console"
  shows "js_restart_tolerant job \<and> cl_adapter lease |\<in>| gc_mobile_adapters (gov_config gov)
    \<and> av_foreground_allowed (ro_availability offer)
    \<and> (av_on_ac_power (ro_availability offer) \<or>
        (\<exists>b. av_battery_percent (ro_availability offer) = Some b
             \<and> gc_mobile_min_battery_percent (gov_config gov) \<le> b))
    \<and> gc_mobile_min_thermal_headroom_percent (gov_config gov)
        \<le> av_thermal_headroom_percent (ro_availability offer)"
proof -
  have "is_mobile_offer offer" using assms(2,3) by (auto simp: is_mobile_offer_def)
  then have "check_mobile (gov_config gov) job offer = Inr ()"
    using authorize_job_cases [OF assms(1)] by (simp add: check_job_at_accepts)
  then show ?thesis
    using authorize_job_cases [OF assms(1)]
    by (auto simp: check_mobile_def battery_below_def not_less split: if_splits option.splits)
qed

definition demo_phone_labels :: labels where
  "demo_phone_labels = fmap_of_list [(''device_kind'', ''phone'')]"

lemma demo_phone_admitted:
  "check_job_at (gov_config (demo_governor False)) (demo_job [demo_request fmempty])
     (demo_offer [demo_cpu ''core'' demo_phone_labels]) 7 0 = Inr ()"
  by (simp add: admission_defs demo_defs demo_phone_labels_def ws1_def byte_def)
    (simp add: seconds_def nanos_per_second_def)

theorem mobile_lease_safe_witness:
  "js_adapter (demo_job [demo_request fmempty]) |\<in>| gc_mobile_adapters (gov_config (demo_governor False))
   \<and> device_kind_of (demo_offer [demo_cpu ''core'' demo_phone_labels]) = Some (device_kind_label Phone)"
proof -
  have d: "device_kind_of (demo_offer [demo_cpu ''core'' demo_phone_labels]) = Some (device_kind_label Phone)"
    by (simp add: device_kind_of_def demo_offer_def demo_cpu_def demo_phone_labels_def)
  obtain lease where l: "authorize_job_at_epoch demo_crypto (demo_governor False) 0 1 ''n''
     (demo_job [demo_request fmempty]) (demo_offer [demo_cpu ''core'' demo_phone_labels]) 7 3 = Some (Inr lease)"
    using demo_phone_admitted grants_exist [OF demo_phone_admitted]
    by (auto simp: authorize_job_at_epoch_def Let_def)
  have "cl_adapter lease |\<in>| gc_mobile_adapters (gov_config (demo_governor False))"
    using mobile_lease_safe [OF l d] by simp
  with d authorize_job_cases [OF l] show ?thesis by simp
qed

section \<open>The kill latch\<close>

text \<open>
  With the owner's kill latch set, no job, model session, remote desktop session, storage
  transfer or diagnostic action is authorised, whatever the request: each is refused with
  \<open>KillLatch\<close> before any other check.
\<close>

theorem kill_latch_dominates:
  assumes "gc_killed (gov_config gov)"
  shows "authorize_job_at_epoch C gov now i n job offer node e = Some (Inl KillLatch)
    \<and> authorize_model_session_at_epoch C gov now i sid n offer runtime model ep mlimits e = Inl KillLatch
    \<and> authorize_remote_desktop_at_epoch C gov now i n offer ep sid mode dlimits e = Inl KillLatch
    \<and> authorize_storage_at_epoch C gov now i n offer digest bytes class operation e = Inl KillLatch
    \<and> authorize_diagnostic_action (gov_config gov) action = Inl KillLatch"
  using assms
  by (simp add: authorize_job_at_epoch_def check_job_at_def authorize_model_session_at_epoch_def
      authorize_remote_desktop_at_epoch_def authorize_storage_at_epoch_def
      authorize_diagnostic_action_def)

theorem kill_latch_dominates_witness:
  "gc_killed (gov_config (demo_governor True))
   \<and> authorize_job_at_epoch demo_crypto (demo_governor True) 0 1 ''n''
       (demo_job []) (demo_offer []) 7 3 = Some (Inl KillLatch)"
proof -
  have k: "gc_killed (gov_config (demo_governor True))" by (simp add: demo_governor_def)
  with kill_latch_dominates [OF k] show ?thesis by blast
qed

section \<open>Promotion canaries\<close>

definition demo_gate :: "string \<Rightarrow> promotion_evidence_gate" where
  "demo_gate name = \<lparr>gate_name = name, gate_passed = True,
     gate_evidence_digest = ''sha256:'' @ replicate 64 (CHR ''a''), gate_independent = True\<rparr>"

definition demo_candidate :: promotion_candidate where
  "demo_candidate = \<lparr>pc_schema = promotion_candidate_SCHEMA, pc_proposal_id = 31, pc_project_id = 12,
     pc_base_revision = ''abc'', pc_candidate_digest = ''sha256:'' @ replicate 64 (CHR ''b''),
     pc_changed_paths = [''prompts/a.txt''], pc_risk = R0Configuration,
     pc_gates = map demo_gate REQUIRED_GATES, pc_requested_at = 0, pc_expires_at = seconds 900\<rparr>"

lemma is_sha256_digest_append:
  "is_sha256_digest (''sha256:'' @ h) \<longleftrightarrow> length h = 64 \<and> list_all is_lower_hex_digit h"
  by (simp add: is_sha256_digest_def strip_prefix_def)

lemma lower_hex_ab: "is_lower_hex_digit (CHR ''a'')" "is_lower_hex_digit (CHR ''b'')"
  by (simp_all add: is_lower_hex_digit_def byte_def)

lemma demo_candidate_valid: "promotion_candidate_is_valid_at demo_candidate 0"
proof -
  have g: "map gate_name (pc_gates demo_candidate) = REQUIRED_GATES"
    by (simp add: demo_candidate_def demo_gate_def comp_def)
  have "list_all (\<lambda>gate. gate_passed gate \<and> is_sha256_digest (gate_evidence_digest gate)
            \<and> (gate_name gate \<noteq> ''g5_independent_replication'' \<or> gate_independent gate))
          (pc_gates demo_candidate)"
    unfolding demo_candidate_def demo_gate_def
    by (simp only: list_all_iff set_map promotion_candidate.simps)
      (auto simp: is_sha256_digest_append lower_hex_ab simp del: append_Cons append_Nil)
  moreover have "is_sha256_digest (pc_candidate_digest demo_candidate)"
    unfolding demo_candidate_def
    by (simp only: promotion_candidate.simps is_sha256_digest_append) (simp add: lower_hex_ab)
  moreover have "list_all changed_path_ok (pc_changed_paths demo_candidate)"
    by (simp add: demo_candidate_def changed_path_ok_def is_ascii_def byte_def)
  moreover have "distinct REQUIRED_GATES" by (simp add: REQUIRED_GATES_def)
  moreover have "length (pc_gates demo_candidate) = length REQUIRED_GATES"
    by (simp add: demo_candidate_def)
  moreover have "0 < seconds 900" by simp
  moreover have "num_seconds (seconds 900) \<le> 1800" by simp
  ultimately show ?thesis
    unfolding promotion_candidate_is_valid_at_def Let_def g
    by (simp add: distinct_remdups_id list_all_iff)
      (simp add: demo_candidate_def is_ascii_def byte_def)
qed

lemma normalize_demo: "classify_promotion_paths [''prompts/a.txt''] = RC0Configuration"
  by (simp add: classify_promotion_paths_def normalize_path_def to_ascii_lowercase_def byte_def
      authority_critical_prefixes_def starts_with_def ends_with_def)

lemma canary_cases:
  "authorize_promotion_canary_at_epoch C gov now i n c e = Inr lease \<Longrightarrow>
     promotion_candidate_is_valid_at c now
     \<and> classify_promotion_paths (pc_changed_paths c) = promotion_risk (pc_risk c)
     \<and> authorize_promotion (gov_config gov) (pc_project_id c) (promotion_risk (pc_risk c)) = Inr ()
     \<and> can_max_traffic_basis_points lease =
         (case pc_risk c of R0Configuration \<Rightarrow> 1000 | R1AllowlistedSource \<Rightarrow> 500 | _ \<Rightarrow> 100)
     \<and> can_schema lease = promotion_canary_lease_SCHEMA \<and> can_risk lease = pc_risk c
     \<and> can_project_id lease = pc_project_id c \<and> can_candidate_digest lease = pc_candidate_digest c
     \<and> can_max_error_regression_basis_points lease = 100
     \<and> can_max_latency_regression_basis_points lease = 500
     \<and> can_max_cost_regression_basis_points lease = 500
     \<and> can_issued_at lease = now \<and> can_expires_at lease = min (pc_expires_at c) (now + minutes 10)
     \<and> can_nonce lease = n \<and> can_fencing_epoch lease = e
     \<and> can_signature lease = sign_hex C (gov_signing_key gov) (promotion_canary_message C lease)"
  by (auto simp: authorize_promotion_canary_at_epoch_def promotion_canary_message_def Let_def
      split: if_splits sum.splits promotion_risk_v1.splits)

lemma demo_canary_exists:
  "\<exists>lease. authorize_promotion_canary_at_epoch demo_crypto (demo_governor killed) 0 1 ''n''
     demo_candidate 3 = Inr lease"
  using demo_candidate_valid normalize_demo
  by (simp add: authorize_promotion_canary_at_epoch_def authorize_promotion_def Let_def)
    (simp add: demo_candidate_def)

text \<open>
  A canary never reaches authority-critical code: its risk is not R3, it equals the
  deterministic classification, no changed path (after normalisation) lies under an
  authority-critical prefix, R1 and R2 changes only run for projects the owner enabled, the traffic
  share falls with the risk, and the lease ends within ten minutes and before the candidate
  expires.
\<close>

theorem canary_within_envelope:
  assumes "authorize_promotion_canary_at_epoch C gov now i n c e = Inr lease"
  shows "can_risk lease \<noteq> R3AuthorityCritical
    \<and> promotion_risk (can_risk lease) = classify_promotion_paths (pc_changed_paths c)
    \<and> list_all (\<lambda>path. \<not> list_ex (\<lambda>p. starts_with p (normalize_path path)) authority_critical_prefixes)
        (pc_changed_paths c)
    \<and> (can_risk lease = R1AllowlistedSource \<longrightarrow>
         pc_project_id c |\<in>| gc_trusted_autopilot_projects (gov_config gov)
         \<and> can_max_traffic_basis_points lease = 500)
    \<and> (can_risk lease = R2ProtectedChange \<longrightarrow>
         pc_project_id c |\<in>| gc_autonomous_protected_projects (gov_config gov)
         \<and> can_max_traffic_basis_points lease = 100)
    \<and> can_max_traffic_basis_points lease \<le> 1000
    \<and> now < can_expires_at lease \<and> can_expires_at lease \<le> now + minutes 10
    \<and> can_expires_at lease \<le> pc_expires_at c"
proof -
  note l = canary_cases [OF assms]
  have r: "pc_risk c \<noteq> R3AuthorityCritical"
    using l by (auto simp: authorize_promotion_def)
  then have "classify_promotion_paths (pc_changed_paths c) \<noteq> RC3AuthorityCritical"
    using l by (cases "pc_risk c") auto
  then have "list_all (\<lambda>path. \<not> list_ex (\<lambda>p. starts_with p (normalize_path path)) authority_critical_prefixes)
        (pc_changed_paths c)"
    by (auto simp: classify_promotion_paths_def list_all_iff list_ex_iff Let_def split: if_splits)
  moreover have "now < pc_expires_at c"
    using l by (simp add: promotion_candidate_is_valid_at_def Let_def)
  then have "now < can_expires_at lease"
    using l by (simp add: minutes_def)
  ultimately show ?thesis
    using l r by (auto simp: authorize_promotion_def split: promotion_risk_v1.splits if_splits)
qed

theorem canary_within_envelope_witness:
  "\<exists>lease. authorize_promotion_canary_at_epoch demo_crypto (demo_governor False) 0 1 ''n''
       demo_candidate 3 = Inr lease \<and> can_risk lease = R0Configuration
     \<and> 0 < can_expires_at lease \<and> can_expires_at lease \<le> minutes 10"
proof -
  obtain lease where l: "authorize_promotion_canary_at_epoch demo_crypto (demo_governor False) 0 1 ''n''
       demo_candidate 3 = Inr lease" using demo_canary_exists by blast
  with canary_within_envelope [OF l] canary_cases [OF l] show ?thesis
    by (simp add: demo_candidate_def)
qed

text \<open>
  An issued canary lease can be used at once: it verifies with the Governor's key and is
  active from its issue until its expiry, at its own epoch only (given a nonce of at most 128
  ASCII characters, as the UUID library prints).
\<close>

theorem canary_lease_active:
  assumes C: "crypto_ok C"
    and l: "authorize_promotion_canary_at_epoch C gov now i n c e = Inr lease"
    and n: "n \<noteq> []" "length n \<le> 128" "is_ascii n"
  shows "verify_promotion_canary_with_key C (public_hex C (gov_signing_key gov)) lease = Inr ()
    \<and> (now \<le> t \<longrightarrow> (canary_is_active_at lease t e' \<longleftrightarrow> e' = e \<and> t < can_expires_at lease))"
proof -
  note x = canary_cases [OF l]
  have d: "is_sha256_digest (pc_candidate_digest c)"
    using x by (simp add: promotion_candidate_is_valid_at_def Let_def)
  have s: "can_signature lease \<noteq> []" using x sign_hex_nonempty [OF C] by simp
  have "verify_promotion_canary_with_key C (public_hex C (gov_signing_key gov)) lease = Inr ()"
    using x by (intro signed_canary_verifies [OF C]) blast
  then show ?thesis
    using x d s n
    by (auto simp: canary_is_active_at_def lease_has_started_def protocol_limits seconds_def
        nanos_per_second_def split: promotion_risk_v1.split)
qed

theorem canary_lease_active_witness:
  "\<exists>lease. authorize_promotion_canary_at_epoch demo_crypto (demo_governor False) 0 1 ''n''
       demo_candidate 3 = Inr lease \<and> canary_is_active_at lease 0 3 \<and> \<not> canary_is_active_at lease 0 4"
proof -
  obtain lease where l: "authorize_promotion_canary_at_epoch demo_crypto (demo_governor False) 0 1 ''n''
       demo_candidate 3 = Inr lease" using demo_canary_exists by blast
  have n: "''n'' \<noteq> []" "length ''n'' \<le> 128" "is_ascii ''n''" by (simp_all add: is_ascii_def byte_def)
  have "0 < can_expires_at lease"
    using canary_cases [OF l] by (simp add: demo_candidate_def minutes_def)
  then show ?thesis
    using l canary_lease_active [OF demo_crypto_ok l n, of 0 3]
      canary_lease_active [OF demo_crypto_ok l n, of 0 4] by auto
qed

text \<open>
  The rule that should make a Cargo manifest a protected change is dead: the paths are
  lower-cased first and then compared with a suffix that has a capital letter, so no path matches
  it, and a change of \<open>Cargo.toml\<close> alone is classified as allowlisted source.
\<close>

theorem cargo_manifest_rule_is_dead:
  "\<not> ends_with ''Cargo.toml'' (normalize_path path)
   \<and> classify_promotion_paths [''Cargo.toml''] = RC1AllowlistedSource
   \<and> classify_promotion_paths [''pyproject.toml''] = RC2ProtectedChange"
proof (intro conjI notI)
  assume "ends_with ''Cargo.toml'' (normalize_path path)"
  then have "CHR ''C'' \<in> set (normalize_path path)"
    unfolding ends_with_def by (metis in_set_dropD list.set_intros(1))
  then show False
    using lowercase_no_upper [of "CHR ''C''"] by (auto simp: normalize_path_def byte_def)
qed (simp_all add: classify_promotion_paths_def normalize_path_def to_ascii_lowercase_def byte_def
      authority_critical_prefixes_def starts_with_def ends_with_def char_of_eq_iff)

text \<open>
  The kill latch does not stop canaries: the Governor signs a canary lease for a valid
  configuration change while its latch is set, unlike every other authorisation.
\<close>

theorem kill_latch_does_not_stop_canaries:
  "\<exists>lease. gc_killed (gov_config (demo_governor True))
     \<and> authorize_promotion_canary_at_epoch demo_crypto (demo_governor True) 0 1 ''n''
         demo_candidate 3 = Inr lease
     \<and> canary_is_active_at lease 0 3"
proof -
  obtain lease where l: "authorize_promotion_canary_at_epoch demo_crypto (demo_governor True) 0 1 ''n''
       demo_candidate 3 = Inr lease" using demo_canary_exists by blast
  note x = canary_cases [OF l]
  have d: "is_sha256_digest (can_candidate_digest lease)"
    using x by (simp add: promotion_candidate_is_valid_at_def Let_def)
  have "can_signature lease \<noteq> []" using x sign_hex_nonempty [OF demo_crypto_ok] by simp
  then have "canary_is_active_at lease 0 3"
    using x d by (simp add: canary_is_active_at_def lease_has_started_def protocol_limits
        minutes_def is_ascii_def byte_def) (simp add: demo_candidate_def seconds_def nanos_per_second_def)
  with l show ?thesis by (auto simp: demo_governor_def)
qed

text \<open>
  The grant may carry the labels of a resource that does not satisfy the request: with two
  offered resources of one class, admission accepts the job because of the second, labelled one,
  while the lease is granted with the labels of the first, which lack the required label.
\<close>

theorem grant_labels_may_miss_requirement:
  "\<exists>lease. authorize_job_at_epoch demo_crypto (demo_governor False) 0 1 ''n''
       (demo_job [demo_request (fmap_of_list [(''zone'', ''a'')])])
       (demo_offer [demo_cpu ''core'' fmempty, demo_cpu ''core'' (fmap_of_list [(''zone'', ''a'')])]) 7 3
         = Some (Inr lease)
     \<and> list_all (\<lambda>g. fmlookup (rq_labels g) ''zone'' = None) (cl_granted lease)
     \<and> cl_granted lease \<noteq> []"
proof -
  let ?job = "demo_job [demo_request (fmap_of_list [(''zone'', ''a'')])]"
  let ?offer = "demo_offer [demo_cpu ''core'' fmempty, demo_cpu ''core'' (fmap_of_list [(''zone'', ''a'')])]"
  have "check_job_at (gov_config (demo_governor False)) ?job ?offer 7 0 = Inr ()"
    by (simp add: admission_defs demo_defs ws1_def byte_def fmpred_iff)
      (simp add: seconds_def nanos_per_second_def)
  from grants_exist [OF this] this obtain lease where
    l: "authorize_job_at_epoch demo_crypto (demo_governor False) 0 1 ''n'' ?job ?offer 7 3 = Some (Inr lease)"
    by (auto simp: authorize_job_at_epoch_def Let_def)
  then have "those (map (grant_request ?offer) (js_requests ?job)) = Some (cl_granted lease)"
    using authorize_job_cases by blast
  then have "cl_granted lease = [demo_cpu ''core'' fmempty\<lparr>rq_capacity := 2, rq_available := 2\<rparr>]"
    by (simp add: demo_job_def demo_offer_def grant_request_def demo_request_def demo_cpu_def)
  with l show ?thesis by (auto simp: demo_cpu_def)
qed

section \<open>Storage, remote desktop and model leases\<close>

lemma storage_cases:
  "authorize_storage_at_epoch C gov now i n offer digest bytes class operation e = Inr lease \<Longrightarrow>
     \<not> gc_killed (gov_config gov) \<and> now < ro_expires_at offer \<and> is_sha256_digest digest
     \<and> bytes \<le> MAX_ARTIFACT_TRANSFER_BYTES
     \<and> (operation = Put \<longrightarrow> list_ex (\<lambda>q. rq_class q = required_storage_class class
           \<and> bytes \<le> rq_available q) (ro_resources offer))
     \<and> sl_schema lease = storage_lease_SCHEMA \<and> sl_node_id lease = ro_node_id offer
     \<and> sl_digest lease = digest \<and> sl_operation lease = operation \<and> sl_storage_class lease = class
     \<and> sl_size_bytes lease = bytes \<and> sl_issued_at lease = now \<and> sl_fencing_epoch lease = e
     \<and> sl_expires_at lease = now + seconds (max (gc_lease_ttl_seconds (gov_config gov)) 1)
     \<and> sl_nonce lease = n
     \<and> sl_signature lease = sign_hex C (gov_signing_key gov) (storage_lease_message C lease)"
  by (auto simp: authorize_storage_at_epoch_def is_sha256_digest_def storage_lease_message_def Let_def
      not_le not_less split: if_splits option.splits)

text \<open>
  A storage lease names one digest, one operation and at most 64 MiB on the node of a live
  offer; a PUT is only leased when the node offers that much free space in the class; the lease
  verifies with the Governor's key and is active until it expires, at its own epoch only.
\<close>

theorem storage_lease_sound:
  assumes C: "crypto_ok C"
    and l: "authorize_storage_at_epoch C gov now i n offer digest bytes class operation e = Inr lease"
  shows "sl_digest lease = digest \<and> is_sha256_digest digest \<and> sl_operation lease = operation
    \<and> sl_node_id lease = ro_node_id offer \<and> sl_size_bytes lease = bytes
    \<and> unat bytes \<le> 64 * 1024 * 1024
    \<and> (operation = Put \<longrightarrow> list_ex (\<lambda>q. rq_class q = required_storage_class class
          \<and> bytes \<le> rq_available q) (ro_resources offer))
    \<and> verify_storage_lease_with_key C (public_hex C (gov_signing_key gov)) lease = Inr ()
    \<and> (storage_lease_is_active_at lease t e' \<longleftrightarrow> e' = e \<and> now - seconds 5 \<le> t
          \<and> t < now + seconds (max (gc_lease_ttl_seconds (gov_config gov)) 1))"
proof -
  note x = storage_cases [OF l]
  have "sl_signature lease \<noteq> []" using x sign_hex_nonempty [OF C] by simp
  moreover have "verify_storage_lease_with_key C (public_hex C (gov_signing_key gov)) lease = Inr ()"
    using x by (intro signed_storage_lease_verifies [OF C]) blast
  moreover have "unat bytes \<le> 64 * 1024 * 1024"
    using x by (simp add: protocol_limits word_le_nat_alt)
  ultimately show ?thesis
    using x by (auto simp: storage_lease_is_active_at_def lease_has_started_def
        MAX_LEASE_CLOCK_SKEW_SECONDS_def)
qed

definition demo_disk :: resource_quantity where
  "demo_disk = \<lparr>rq_class = StorageCache, rq_capacity = 4096, rq_available = 4096, rq_unit = ''byte'', rq_labels = fmempty\<rparr>"

lemma demo_storage_exists:
  "\<exists>lease. authorize_storage_at_epoch demo_crypto (demo_governor False) 0 1 ''n'' (demo_offer [demo_disk])
     (''sha256:'' @ replicate 64 (CHR ''a'')) 1024 Cache Put 3 = Inr lease"
  unfolding authorize_storage_at_epoch_def strip_prefix_append
  by (simp add: Let_def demo_defs demo_disk_def lower_hex_ab protocol_limits)
    (simp add: seconds_def nanos_per_second_def)

theorem storage_lease_sound_witness:
  "\<exists>lease. authorize_storage_at_epoch demo_crypto (demo_governor False) 0 1 ''n'' (demo_offer [demo_disk])
     (''sha256:'' @ replicate 64 (CHR ''a'')) 1024 Cache Put 3 = Inr lease
     \<and> storage_lease_is_active_at lease 0 3 \<and> sl_size_bytes lease = 1024"
proof -
  obtain lease where l: "authorize_storage_at_epoch demo_crypto (demo_governor False) 0 1 ''n''
     (demo_offer [demo_disk]) (''sha256:'' @ replicate 64 (CHR ''a'')) 1024 Cache Put 3 = Inr lease"
    using demo_storage_exists by blast
  from storage_lease_sound [OF demo_crypto_ok l, of 0 3] l show ?thesis
    by (auto simp: seconds_def nanos_per_second_def)
qed

lemma desktop_cases:
  "authorize_remote_desktop_at_epoch C gov now i n offer ep sid mode limits e = Inr lease \<Longrightarrow>
     \<not> gc_killed (gov_config gov) \<and> now < ro_expires_at offer
     \<and> 1 \<le> rdl_max_width limits \<and> rdl_max_width limits \<le> MAX_REMOTE_DESKTOP_DIMENSION
     \<and> 1 \<le> rdl_max_height limits \<and> rdl_max_height limits \<le> MAX_REMOTE_DESKTOP_DIMENSION
     \<and> 1 \<le> rdl_max_fps limits \<and> rdl_max_fps limits \<le> MAX_REMOTE_DESKTOP_FPS
     \<and> ep \<noteq> [] \<and> is_ascii ep \<and> av_foreground_allowed (ro_availability offer)
     \<and> list_ex (\<lambda>c. wc_status c = Shipped
          \<and> authorizes c ''rampage.remote-assist.v1'' (remote_desktop_operation mode)) (ro_workload_capabilities offer)
     \<and> rd_schema lease = remote_desktop_lease_SCHEMA \<and> rd_node_id lease = ro_node_id offer
     \<and> rd_controller_endpoint_id lease = ep \<and> rd_mode lease = mode \<and> rd_session_id lease = sid
     \<and> rd_max_width lease = rdl_max_width limits \<and> rd_max_height lease = rdl_max_height limits
     \<and> rd_max_fps lease = rdl_max_fps limits \<and> rd_issued_at lease = now
     \<and> rd_expires_at lease = now + seconds (clamp 1 MAX_REMOTE_DESKTOP_LEASE_SECONDS (gc_lease_ttl_seconds (gov_config gov)))
     \<and> rd_nonce lease = n \<and> rd_fencing_epoch lease = e
     \<and> rd_signature lease = sign_hex C (gov_signing_key gov) (remote_desktop_lease_message C lease)"
  by (auto simp: authorize_remote_desktop_at_epoch_def remote_desktop_lease_message_def Let_def
      list_ex_iff split: if_splits)

text \<open>
  A remote desktop lease is only issued when the worker advertises a shipped remote-assist
  capability for the requested mode in a foreground session; it lasts between one and thirty
  seconds whatever the configuration, keeps the frame bounds, verifies with the Governor's key and
  is active for exactly that time at its own epoch.
\<close>

theorem remote_desktop_lease_sound:
  assumes C: "crypto_ok C"
    and l: "authorize_remote_desktop_at_epoch C gov now i n offer ep sid mode limits e = Inr lease"
    and n: "n \<noteq> []" "length n \<le> 128" "is_ascii n"
  shows "rd_mode lease = mode \<and> av_foreground_allowed (ro_availability offer)
    \<and> list_ex (\<lambda>c. wc_status c = Shipped
          \<and> authorizes c ''rampage.remote-assist.v1'' (remote_desktop_operation mode)) (ro_workload_capabilities offer)
    \<and> now + seconds 1 \<le> rd_expires_at lease \<and> rd_expires_at lease \<le> now + seconds 30
    \<and> verify_remote_desktop_lease_with_key C (public_hex C (gov_signing_key gov)) lease = Inr ()
    \<and> (remote_desktop_lease_is_active_at lease t e' \<longleftrightarrow>
         e' = e \<and> now - seconds 5 \<le> t \<and> t < rd_expires_at lease)"
proof -
  note x = desktop_cases [OF l]
  let ?ttl = "clamp 1 MAX_REMOTE_DESKTOP_LEASE_SECONDS (gc_lease_ttl_seconds (gov_config gov))"
  have ttl: "1 \<le> ?ttl" "?ttl \<le> 30" by (simp_all add: clamp_def protocol_limits)
  have "num_seconds (rd_expires_at lease - rd_issued_at lease) = ?ttl" using x by simp
  moreover have "rd_signature lease \<noteq> []" using x sign_hex_nonempty [OF C] by simp
  moreover have "verify_remote_desktop_lease_with_key C (public_hex C (gov_signing_key gov)) lease = Inr ()"
    using x by (intro signed_desktop_lease_verifies [OF C]) blast
  ultimately show ?thesis
    using x ttl n
    by (auto simp: remote_desktop_lease_is_active_at_def lease_has_started_def
        MAX_LEASE_CLOCK_SKEW_SECONDS_def MAX_REMOTE_DESKTOP_LEASE_SECONDS_def)
qed

definition demo_assist_capability :: workload_capability where
  "demo_assist_capability = \<lparr>wc_schema = workload_capability_SCHEMA,
     wc_adapter = ''rampage.remote-assist.v1'', wc_domain = EdgeUtility, wc_operations = {|''view''|},
     wc_execution_patterns = {|StreamingService|}, wc_resource_classes = {|Runtime|},
     wc_isolation = DedicatedProcess, wc_runtime_digest = ''r'', wc_checkpointable = False,
     wc_preemptible = True, wc_network_allowlist_required = False, wc_status = Shipped,
     wc_qualification_digest = None\<rparr>"

definition demo_desktop_limits :: remote_desktop_limits where
  "demo_desktop_limits = \<lparr>rdl_max_width = 1280, rdl_max_height = 720, rdl_max_fps = 10\<rparr>"

lemma demo_assist_authorizes: "authorizes demo_assist_capability ''rampage.remote-assist.v1'' ''view''"
  by (simp add: authorizes_def workload_capability_is_valid_def demo_assist_capability_def
      is_ascii_def byte_def)

lemma demo_desktop_exists:
  "\<exists>lease. authorize_remote_desktop_at_epoch demo_crypto (demo_governor False) 0 1 ''n''
     (demo_offer []\<lparr>ro_workload_capabilities := [demo_assist_capability]\<rparr>) ''e'' 5 View
     demo_desktop_limits 3 = Inr lease"
proof -
  have "wc_status demo_assist_capability = Shipped" by (simp add: demo_assist_capability_def)
  moreover have "workload_capability_is_valid demo_assist_capability"
    using demo_assist_authorizes by (simp add: authorizes_def)
  ultimately show ?thesis
    using demo_assist_authorizes
    by (simp add: authorize_remote_desktop_at_epoch_def Let_def demo_defs demo_desktop_limits_def
        protocol_limits is_ascii_def byte_def) (simp add: seconds_def nanos_per_second_def)
qed

theorem remote_desktop_lease_sound_witness:
  "\<exists>lease. authorize_remote_desktop_at_epoch demo_crypto (demo_governor False) 0 1 ''n''
     (demo_offer []\<lparr>ro_workload_capabilities := [demo_assist_capability]\<rparr>) ''e'' 5 View
     demo_desktop_limits 3 = Inr lease \<and> rd_expires_at lease \<le> seconds 30
     \<and> remote_desktop_lease_is_active_at lease 0 3"
proof -
  obtain lease where l: "authorize_remote_desktop_at_epoch demo_crypto (demo_governor False) 0 1 ''n''
     (demo_offer []\<lparr>ro_workload_capabilities := [demo_assist_capability]\<rparr>) ''e'' 5 View
     demo_desktop_limits 3 = Inr lease" using demo_desktop_exists by blast
  have n: "''n'' \<noteq> []" "length ''n'' \<le> 128" "is_ascii ''n''" by (simp_all add: is_ascii_def byte_def)
  from remote_desktop_lease_sound [OF demo_crypto_ok l n, of 0 3] l show ?thesis
    by (auto simp: seconds_def nanos_per_second_def)
qed

text \<open>
  A model session lease names a model that the worker's offer lists under exactly the leased
  runtime, a shipped local runtime whose free memory covers the artifact and a fifth more; it
  carries the requested limits within the protocol's, and verifies with the Governor's key.
\<close>

theorem model_session_lease_sound:
  assumes C: "crypto_ok C"
    and l: "authorize_model_session_at_epoch C gov now i sid n offer runtime model ep limits e = Inr lease"
  shows "exact_runtime offer runtime model \<and> mr_status runtime = ShippedLocal
    \<and> ml_model_id lease = im_model_id model \<and> ml_model_digest lease = im_artifact_digest model
    \<and> ml_runtime_digest lease = mr_runtime_digest runtime \<and> ml_node_id lease = ro_node_id offer
    \<and> unat (im_artifact_size_bytes model) + unat (im_artifact_size_bytes model) div 5
        \<le> unat (mr_available_model_bytes runtime)
    \<and> 0 < ml_max_prompt_bytes lease \<and> ml_max_prompt_bytes lease \<le> MAX_MODEL_PROMPT_BYTES
    \<and> 0 < ml_max_output_tokens lease \<and> ml_max_output_tokens lease \<le> MAX_MODEL_OUTPUT_TOKENS
    \<and> now < ml_expires_at lease
    \<and> verify_model_session_lease_with_key C (public_hex C (gov_signing_key gov)) lease = Inr ()"
proof -
  have x: "exact_runtime offer runtime model" "mr_status runtime = ShippedLocal"
    "installed_model_is_valid model" "ml_model_id lease = im_model_id model"
    "ml_model_digest lease = im_artifact_digest model"
    "ml_runtime_digest lease = mr_runtime_digest runtime" "ml_node_id lease = ro_node_id offer"
    "sat_add (im_artifact_size_bytes model) (im_artifact_size_bytes model div 5)
       \<le> mr_available_model_bytes runtime"
    "0 < ml_max_prompt_bytes lease" "ml_max_prompt_bytes lease \<le> MAX_MODEL_PROMPT_BYTES"
    "0 < ml_max_output_tokens lease" "ml_max_output_tokens lease \<le> MAX_MODEL_OUTPUT_TOKENS"
    "now < ml_expires_at lease"
    "ml_signature lease = sign_hex C (gov_signing_key gov) (model_session_lease_message C lease)"
    using l by (auto simp: authorize_model_session_at_epoch_def model_session_lease_message_def Let_def
        not_le not_less word_gt_0 split: if_splits)
  have b: "unat (im_artifact_size_bytes model) \<le> 17592186044416"
    using x(3) by (simp add: installed_model_is_valid_def protocol_limits word_le_nat_alt)
  have "unat (im_artifact_size_bytes model div 5) = unat (im_artifact_size_bytes model) div 5"
    by (simp add: unat_div_distrib)
  moreover from b have "unat (im_artifact_size_bytes model) + unat (im_artifact_size_bytes model) div 5
      \<le> 2 ^ 64 - 1" by simp
  ultimately have "unat (im_artifact_size_bytes model) + unat (im_artifact_size_bytes model) div 5
      \<le> unat (mr_available_model_bytes runtime)"
    using x(8) by (simp add: word_le_nat_alt sat_simps)
  moreover have "verify_model_session_lease_with_key C (public_hex C (gov_signing_key gov)) lease = Inr ()"
    by (rule signed_model_lease_verifies [OF C x(14)])
  ultimately show ?thesis using x by simp
qed

definition demo_model :: installed_model where
  "demo_model = \<lparr>im_schema = installed_model_SCHEMA, im_model_id = ''qwen3:4b'',
     im_artifact_digest = ''sha256:'' @ replicate 64 (CHR ''a''), im_artifact_size_bytes = 1000\<rparr>"

definition demo_runtime :: model_runtime_offer where
  "demo_runtime = \<lparr>mr_schema = model_runtime_offer_SCHEMA, mr_adapter = ''rampage.ollama.v1'',
     mr_backend = LocalOllama, mr_runtime_version = ''1'', mr_runtime_digest = ''r'',
     mr_compatibility_key = ''k'', mr_memory_kind = Host, mr_available_model_bytes = 1200,
     mr_supported_parallelism = {|WholeModel|}, mr_status = ShippedLocal,
     mr_installed_models = [demo_model], mr_certification_digest = None\<rparr>"

definition demo_model_limits :: model_session_limits where
  "demo_model_limits = \<lparr>msl_max_prompt_bytes = 1000, msl_max_output_tokens = 100\<rparr>"

lemma demo_model_valid: "installed_model_is_valid demo_model"
  unfolding installed_model_is_valid_def demo_model_def
  by (simp only: installed_model.simps is_sha256_digest_append)
    (simp add: lower_hex_ab protocol_limits is_ascii_def byte_def ws1_def ws2_def ws3_def)

theorem model_session_lease_sound_witness:
  "\<exists>lease. authorize_model_session_at_epoch demo_crypto (demo_governor False) 0 1 2 ''n''
     (demo_offer []\<lparr>ro_model_runtimes := [demo_runtime]\<rparr>) demo_runtime demo_model ''e''
     demo_model_limits 3 = Inr lease \<and> ml_model_id lease = ''qwen3:4b''"
proof -
  have "exact_runtime (demo_offer []\<lparr>ro_model_runtimes := [demo_runtime]\<rparr>) demo_runtime demo_model"
    by (simp add: exact_runtime_def demo_runtime_def)
  moreover have "mr_available_model_bytes demo_runtime = 1200" "im_artifact_size_bytes demo_model = 1000"
    "mr_adapter demo_runtime = ''rampage.ollama.v1''" "mr_backend demo_runtime = LocalOllama"
    "mr_status demo_runtime = ShippedLocal" "WholeModel |\<in>| mr_supported_parallelism demo_runtime"
    by (simp_all add: demo_runtime_def demo_model_def)
  ultimately have "\<exists>lease. authorize_model_session_at_epoch demo_crypto (demo_governor False) 0 1 2 ''n''
     (demo_offer []\<lparr>ro_model_runtimes := [demo_runtime]\<rparr>) demo_runtime demo_model ''e''
     demo_model_limits 3 = Inr lease"
    using demo_model_valid
    by (simp add: authorize_model_session_at_epoch_def Let_def demo_governor_def governor_config_default_def
        demo_model_limits_def protocol_limits is_ascii_def byte_def sat_add_def)
      (simp add: demo_offer_def demo_availability_def seconds_def nanos_per_second_def)
  then obtain lease where l: "authorize_model_session_at_epoch demo_crypto (demo_governor False) 0 1 2 ''n''
     (demo_offer []\<lparr>ro_model_runtimes := [demo_runtime]\<rparr>) demo_runtime demo_model ''e''
     demo_model_limits 3 = Inr lease" by blast
  from model_session_lease_sound [OF demo_crypto_ok l] l show ?thesis
    by (auto simp: demo_model_def)
qed

end
