(* ===== verification/Rampage_Ledger.thy ===== *)
theory Rampage_Ledger
  imports Rampage_Protocol
begin

text \<open>
  The append-only, hash-chained evidence ledger (\<open>crates/rampage-ledger/src/lib.rs\<close>). The state is
  the content of the two SQLite tables: \<open>ledger_events\<close> as the list of its rows in key order, with
  the AUTOINCREMENT counter, and \<open>authority_epochs\<close> as a map; \<open>l_poisoned\<close> is the state of the
  mutex. A SQL statement is written as what it does to the tables; an operation that fails rolls
  its transaction back, so it returns an error and no new state. SHA-256 with hexadecimal coding,
  chrono's time formats and serde\_json are the parameter \<open>ledger_lib\<close>.
\<close>

section \<open>Library parameter\<close>

record ledger_lib =
  ll_sha256_hex :: "string \<Rightarrow> string"
  ll_to_rfc3339 :: "datetime \<Rightarrow> string"
  ll_to_rfc3339_nanos :: "datetime \<Rightarrow> string"
  ll_parse_rfc3339 :: "string \<Rightarrow> datetime option"
  ll_json_to_string :: "json \<Rightarrow> string"
  ll_json_from_str :: "string \<Rightarrow> json option"

text \<open>Documented behaviour of the time formats: parsing a printed time gives the time back, and
  the nanosecond format is a text with one \<open>Z\<close>, at its end.\<close>

definition time_format_ok :: "ledger_lib \<Rightarrow> bool" where
  "time_format_ok LB \<longleftrightarrow>
     (\<forall>t. ll_parse_rfc3339 LB (ll_to_rfc3339 LB t) = Some t)
     \<and> (\<forall>t. \<exists>u. ll_to_rfc3339_nanos LB t = u @ ''Z'' \<and> CHR ''Z'' \<notin> set u)"

text \<open>A payload is stable when printing, parsing and printing it again gives the same text.\<close>

definition payload_stable :: "ledger_lib \<Rightarrow> json \<Rightarrow> bool" where
  "payload_stable LB v \<longleftrightarrow>
     (\<exists>w. ll_json_from_str LB (ll_json_to_string LB v) = Some w
          \<and> ll_json_to_string LB w = ll_json_to_string LB v)"

section \<open>State\<close>

record ledger_event =
  le_sequence :: u64
  le_recorded_at :: datetime
  le_event_type :: string
  le_subject_id :: string
  le_payload :: json
  le_previous_hash :: string
  le_event_hash :: string

datatype ledger_error = Database | Serialization | BrokenLink u64 string string
  | HashMismatch u64 | Poisoned | FencingEpochOverflow string

record ledger_row =
  lr_sequence :: u64
  lr_recorded_at :: string
  lr_event_type :: string
  lr_subject_id :: string
  lr_payload_json :: string
  lr_previous_hash :: string
  lr_event_hash :: string

record ledger =
  l_rows :: "ledger_row list"
  l_autoincrement :: u64
  l_epochs :: "string \<rightharpoonup> u64"
  l_poisoned :: bool

definition GENESIS_HASH :: string where
  "GENESIS_HASH = ''GENESIS''"

text \<open>\<open>Ledger::open\<close> on a new database, with the mutex it creates.\<close>

definition open_ledger :: ledger where
  "open_ledger = \<lparr>l_rows = [], l_autoincrement = 0, l_epochs = Map.empty, l_poisoned = False\<rparr>"

definition i64_max_u64 :: u64 where
  "i64_max_u64 = 0x7FFFFFFFFFFFFFFF"

section \<open>Hashing\<close>

text \<open>\<open>u64::to_be_bytes\<close>: the most significant byte first.\<close>

definition to_be_bytes :: "u64 \<Rightarrow> string" where
  "to_be_bytes x = map (\<lambda>i. char_of (unat x div 256 ^ i mod 256)) [7, 6, 5, 4, 3, 2, 1, 0]"

definition hash_preimage ::
  "ledger_lib \<Rightarrow> u64 \<Rightarrow> datetime \<Rightarrow> string \<Rightarrow> string \<Rightarrow> string \<Rightarrow> string \<Rightarrow> string" where
  "hash_preimage LB sequence recorded_at event_type subject_id payload_json previous_hash =
     to_be_bytes sequence @ ll_to_rfc3339_nanos LB recorded_at @ event_type @ [CHR 0x00]
     @ subject_id @ [CHR 0x00] @ payload_json @ [CHR 0x00] @ previous_hash"

definition calculate_hash ::
  "ledger_lib \<Rightarrow> u64 \<Rightarrow> datetime \<Rightarrow> string \<Rightarrow> string \<Rightarrow> string \<Rightarrow> string \<Rightarrow> string" where
  "calculate_hash LB sequence recorded_at event_type subject_id payload_json previous_hash =
     ll_sha256_hex LB (hash_preimage LB sequence recorded_at event_type subject_id payload_json previous_hash)"

section \<open>Appending\<close>

text \<open>\<open>serde_json::to_value\<close> of the payload may fail: the payload argument is then \<open>None\<close>.\<close>

definition append_in_transaction ::
  "ledger_lib \<Rightarrow> datetime \<Rightarrow> string \<Rightarrow> string \<Rightarrow> json option \<Rightarrow> ledger
     \<Rightarrow> ledger_error + (ledger_event \<times> ledger)" where
  "append_in_transaction LB recorded_at event_type subject_id payload st =
     (case payload of None \<Rightarrow> Inl Serialization
      | Some value \<Rightarrow>
        let payload_json = ll_json_to_string LB value;
            previous = (if l_rows st = [] then None else Some (last (l_rows st)));
            sequence = (case previous of None \<Rightarrow> 1 | Some r \<Rightarrow> lr_sequence r + 1);
            previous_hash = (case previous of None \<Rightarrow> GENESIS_HASH | Some r \<Rightarrow> lr_event_hash r);
            event_hash = calculate_hash LB sequence recorded_at event_type subject_id payload_json previous_hash;
            row = \<lparr>lr_sequence = l_autoincrement st + 1, lr_recorded_at = ll_to_rfc3339 LB recorded_at,
              lr_event_type = event_type, lr_subject_id = subject_id, lr_payload_json = payload_json,
              lr_previous_hash = previous_hash, lr_event_hash = event_hash\<rparr>
        in if l_autoincrement st \<ge> i64_max_u64 \<or> event_hash \<in> lr_event_hash ` set (l_rows st)
           then Inl Database
           else Inr (\<lparr>le_sequence = sequence, le_recorded_at = recorded_at, le_event_type = event_type,
                  le_subject_id = subject_id, le_payload = value, le_previous_hash = previous_hash,
                  le_event_hash = event_hash\<rparr>,
                st\<lparr>l_rows := l_rows st @ [row], l_autoincrement := l_autoincrement st + 1\<rparr>))"

definition append_event ::
  "ledger_lib \<Rightarrow> datetime \<Rightarrow> string \<Rightarrow> string \<Rightarrow> json option \<Rightarrow> ledger
     \<Rightarrow> ledger_error + (ledger_event \<times> ledger)" where
  "append_event LB now event_type subject_id payload st =
     (if l_poisoned st then Inl Poisoned
      else append_in_transaction LB now event_type subject_id payload st)"

definition epoch_payload :: "u64 \<Rightarrow> json" where
  "epoch_payload n = JObject [(''fencing_epoch'', JPosInt n)]"

definition advance_fencing_epoch ::
  "ledger_lib \<Rightarrow> datetime \<Rightarrow> string \<Rightarrow> ledger \<Rightarrow> ledger_error + (u64 \<times> ledger)" where
  "advance_fencing_epoch LB now scope st =
     (if l_poisoned st then Inl Poisoned
      else let current = l_epochs st scope;
               next = (case checked_add (case current of None \<Rightarrow> 0 | Some c \<Rightarrow> c) 1 of
                         None \<Rightarrow> None
                       | Some epoch \<Rightarrow> if epoch \<le> i64_max_u64 then Some epoch else None)
      in case next of None \<Rightarrow> Inl (FencingEpochOverflow scope)
         | Some epoch \<Rightarrow>
           (case append_in_transaction LB now ''authority.epoch.advanced'' scope (Some (epoch_payload epoch))
                   (st\<lparr>l_epochs := (l_epochs st)(scope \<mapsto> epoch)\<rparr>) of
              Inl e \<Rightarrow> Inl e
            | Inr (event, st') \<Rightarrow> Inr (epoch, st')))"

definition current_fencing_epoch :: "string \<Rightarrow> ledger \<Rightarrow> ledger_error + u64" where
  "current_fencing_epoch scope st =
     (if l_poisoned st then Inl Poisoned
      else Inr (case l_epochs st scope of None \<Rightarrow> 0 | Some c \<Rightarrow> c))"

section \<open>Queries\<close>

definition event_of_row :: "ledger_lib \<Rightarrow> ledger_row \<Rightarrow> ledger_error + ledger_event" where
  "event_of_row LB row =
     (case ll_parse_rfc3339 LB (lr_recorded_at row) of None \<Rightarrow> Inl Serialization
      | Some recorded_at \<Rightarrow>
        (case ll_json_from_str LB (lr_payload_json row) of None \<Rightarrow> Inl Serialization
         | Some payload \<Rightarrow>
             Inr \<lparr>le_sequence = lr_sequence row, le_recorded_at = recorded_at,
               le_event_type = lr_event_type row, le_subject_id = lr_subject_id row,
               le_payload = payload, le_previous_hash = lr_previous_hash row,
               le_event_hash = lr_event_hash row\<rparr>))"

text \<open>Collecting an iterator of results stops at the first error.\<close>

fun collect_results :: "('e + 'a) list \<Rightarrow> 'e + 'a list" where
  "collect_results [] = Inr []"
| "collect_results (Inl e # rs) = Inl e"
| "collect_results (Inr x # rs) =
     (case collect_results rs of Inl e \<Rightarrow> Inl e | Inr xs \<Rightarrow> Inr (x # xs))"

definition map_result :: "('a \<Rightarrow> 'b) \<Rightarrow> 'e + 'a \<Rightarrow> 'e + 'b" where
  "map_result f r = (case r of Inl e \<Rightarrow> Inl e | Inr x \<Rightarrow> Inr (f x))"

text \<open>\<open>limit.min(10_000)\<close> rows. Binding a 64-bit parameter above \<open>i64::MAX\<close> is a database error.\<close>

definition page_limit :: "u32 \<Rightarrow> nat" where
  "page_limit limit = unat (min limit 10000)"

definition events :: "ledger_lib \<Rightarrow> u64 \<Rightarrow> u32 \<Rightarrow> ledger \<Rightarrow> ledger_error + ledger_event list" where
  "events LB after_sequence limit st =
     (if l_poisoned st then Inl Poisoned
      else if after_sequence > i64_max_u64 then Inl Database
      else collect_results (map (event_of_row LB)
             (take (page_limit limit) (filter (\<lambda>r. lr_sequence r > after_sequence) (l_rows st)))))"

definition latest_events :: "ledger_lib \<Rightarrow> u32 \<Rightarrow> ledger \<Rightarrow> ledger_error + ledger_event list" where
  "latest_events LB limit st =
     (if l_poisoned st then Inl Poisoned
      else map_result rev (collect_results (map (event_of_row LB)
             (take (page_limit limit) (rev (l_rows st))))))"

definition event_at :: "ledger_lib \<Rightarrow> u64 \<Rightarrow> ledger \<Rightarrow> ledger_error + ledger_event option" where
  "event_at LB sequence st =
     (if sequence = 0 then Inr None
      else if l_poisoned st then Inl Poisoned
      else if sequence > i64_max_u64 then Inl Database
      else case List.find (\<lambda>r. lr_sequence r = sequence) (l_rows st) of
        None \<Rightarrow> Inr None
      | Some row \<Rightarrow> map_result Some (event_of_row LB row))"

definition latest_events_of_type ::
  "ledger_lib \<Rightarrow> string \<Rightarrow> u32 \<Rightarrow> ledger \<Rightarrow> ledger_error + ledger_event list" where
  "latest_events_of_type LB event_type limit st =
     (if l_poisoned st then Inl Poisoned
      else map_result rev (collect_results (map (event_of_row LB)
             (take (page_limit limit) (filter (\<lambda>r. lr_event_type r = event_type) (rev (l_rows st)))))))"

definition events_of_type ::
  "ledger_lib \<Rightarrow> string \<Rightarrow> u64 \<Rightarrow> u32 \<Rightarrow> ledger \<Rightarrow> ledger_error + ledger_event list" where
  "events_of_type LB event_type after_sequence limit st =
     (if l_poisoned st then Inl Poisoned
      else if after_sequence > i64_max_u64 then Inl Database
      else collect_results (map (event_of_row LB)
             (take (unat (max 1 (min limit 10000)))
               (filter (\<lambda>r. lr_event_type r = event_type \<and> lr_sequence r > after_sequence) (l_rows st)))))"

definition latest_event_of_type ::
  "ledger_lib \<Rightarrow> string \<Rightarrow> ledger \<Rightarrow> ledger_error + ledger_event option" where
  "latest_event_of_type LB event_type st =
     (if l_poisoned st then Inl Poisoned
      else case List.find (\<lambda>r. lr_event_type r = event_type) (rev (l_rows st)) of
        None \<Rightarrow> Inr None
      | Some row \<Rightarrow> map_result Some (event_of_row LB row))"

definition latest_event_for_subject_of_type ::
  "ledger_lib \<Rightarrow> string \<Rightarrow> string \<Rightarrow> ledger \<Rightarrow> ledger_error + ledger_event option" where
  "latest_event_for_subject_of_type LB subject_id event_type st =
     (if l_poisoned st then Inl Poisoned
      else case List.find (\<lambda>r. lr_subject_id r = subject_id \<and> lr_event_type r = event_type) (rev (l_rows st)) of
        None \<Rightarrow> Inr None
      | Some row \<Rightarrow> map_result Some (event_of_row LB row))"

definition events_for_subject ::
  "ledger_lib \<Rightarrow> string \<Rightarrow> u32 \<Rightarrow> ledger \<Rightarrow> ledger_error + ledger_event list" where
  "events_for_subject LB subject_id limit st =
     (if l_poisoned st then Inl Poisoned
      else collect_results (map (event_of_row LB)
             (take (page_limit limit) (filter (\<lambda>r. lr_subject_id r = subject_id) (l_rows st)))))"

section \<open>Verification\<close>

text \<open>The body of the verification loop: one page of events against the expected hash.\<close>

fun verify_page ::
  "ledger_lib \<Rightarrow> string \<Rightarrow> u64 \<Rightarrow> ledger_event list \<Rightarrow> ledger_error + (string \<times> u64)" where
  "verify_page LB expected_previous verified [] = Inr (expected_previous, verified)"
| "verify_page LB expected_previous verified (event # rest) =
     (if le_previous_hash event \<noteq> expected_previous
      then Inl (BrokenLink (le_sequence event) expected_previous (le_previous_hash event))
      else if calculate_hash LB (le_sequence event) (le_recorded_at event) (le_event_type event)
                (le_subject_id event) (ll_json_to_string LB (le_payload event)) (le_previous_hash event)
              \<noteq> le_event_hash event
      then Inl (HashMismatch (le_sequence event))
      else verify_page LB (le_event_hash event) (verified + 1) rest)"

lemma collect_results_map_Inr [simp]: "collect_results (map Inr xs) = Inr xs"
  by (induction xs) auto

lemma collect_results_InrD: "collect_results rs = Inr xs \<Longrightarrow> rs = map Inr xs"
  by (induction rs arbitrary: xs rule: collect_results.induct) (auto split: sum.splits)

lemma collect_results_Inr: "collect_results rs = Inr xs \<longleftrightarrow> rs = map Inr xs"
  using collect_results_InrD by auto

lemma event_of_row_sequence: "event_of_row LB r = Inr e \<Longrightarrow> le_sequence e = lr_sequence r"
  by (auto simp: event_of_row_def split: option.splits)

lemma events_after:
  assumes "events LB after limit st = Inr evs" and "e \<in> set evs"
  shows "\<exists>r \<in> set (l_rows st). lr_sequence r = le_sequence e \<and> lr_sequence r > after"
proof -
  let ?rs = "take (page_limit limit) (filter (\<lambda>r. lr_sequence r > after) (l_rows st))"
  have "map (event_of_row LB) ?rs = map Inr evs"
    using assms(1) by (auto simp: events_def collect_results_Inr split: if_splits)
  with assms(2) obtain r where "r \<in> set ?rs" "event_of_row LB r = Inr e"
    by (metis (no_types, lifting) imageE image_eqI set_map)
  moreover from this(1) have "r \<in> set (filter (\<lambda>r. lr_sequence r > after) (l_rows st))"
    by (rule in_set_takeD)
  ultimately show ?thesis using event_of_row_sequence [of LB r e] by (intro bexI [of _ r]) auto
qed

text \<open>The loop of \<open>verify_after\<close> ends because the last sequence of a page is beyond the cursor.\<close>

function verify_loop ::
  "ledger_lib \<Rightarrow> ledger \<Rightarrow> u64 \<Rightarrow> string \<Rightarrow> u64 \<Rightarrow> ledger_error + u64" where
  "verify_loop LB st after_sequence expected_previous verified =
     (case events LB after_sequence 10000 st of
        Inl e \<Rightarrow> Inl e
      | Inr evs \<Rightarrow>
          if evs = [] then Inr verified
          else case verify_page LB expected_previous verified evs of
            Inl e \<Rightarrow> Inl e
          | Inr (expected', verified') \<Rightarrow>
              verify_loop LB st (le_sequence (last evs)) expected' verified')"
  by pat_completeness auto
termination
proof (relation "measure (\<lambda>(LB, st, after, _). length (filter (\<lambda>r. lr_sequence r > after) (l_rows st)))")
  fix LB :: ledger_lib and st :: ledger and after :: u64 and expected_previous :: string
    and verified :: u64 and evs and x and expected' :: string and verified' :: u64
  assume e: "events LB after 10000 st = Inr evs" "evs \<noteq> []"
  then obtain r where r: "r \<in> set (l_rows st)" "lr_sequence r = le_sequence (last evs)" "lr_sequence r > after"
    using events_after [OF e(1), of "last evs"] by auto
  have "filter (\<lambda>r. lr_sequence r > le_sequence (last evs)) (l_rows st) =
      filter (\<lambda>r. lr_sequence r > le_sequence (last evs)) (filter (\<lambda>r. lr_sequence r > after) (l_rows st))"
    using r by (auto intro!: filter_cong)
  also have "length \<dots> < length (filter (\<lambda>r. lr_sequence r > after) (l_rows st))"
    using r by (intro length_filter_less [of r]) auto
  finally show "((LB, st, le_sequence (last evs), expected', verified'),
      LB, st, after, expected_previous, verified)
      \<in> measure (\<lambda>(LB, st, after, _). length (filter (\<lambda>r. lr_sequence r > after) (l_rows st)))"
    by simp
qed simp

declare verify_loop.simps [simp del]

definition verify_after :: "ledger_lib \<Rightarrow> u64 \<Rightarrow> string \<Rightarrow> ledger \<Rightarrow> ledger_error + u64" where
  "verify_after LB after_sequence expected_previous st =
     verify_loop LB st after_sequence expected_previous 0"

definition verify_ledger :: "ledger_lib \<Rightarrow> ledger \<Rightarrow> ledger_error + u64" where
  "verify_ledger LB st = verify_after LB 0 GENESIS_HASH st"

end
