(* ===== verification/Rampage_Evidence.thy ===== *)
theory Rampage_Evidence
  imports Rampage_Ledger "HOL-Library.Sublist"
begin

text \<open>
  Correctness of the evidence ledger: what verification accepts (a page-free reference definition
  of a hash chain), that every ledger the program can produce verifies, that two verifying ledgers
  with the same last hash have the same history unless SHA-256 collides, and that a published
  fencing epoch is always evidenced.
\<close>

section \<open>Reference definition of a hash chain\<close>

definition row_links :: "ledger_lib \<Rightarrow> string \<Rightarrow> ledger_row \<Rightarrow> bool" where
  "row_links LB prev r =
     (case event_of_row LB r of Inl _ \<Rightarrow> False
      | Inr e \<Rightarrow> lr_previous_hash r = prev
          \<and> calculate_hash LB (le_sequence e) (le_recorded_at e) (le_event_type e) (le_subject_id e)
              (ll_json_to_string LB (le_payload e)) prev = lr_event_hash r)"

fun chained :: "ledger_lib \<Rightarrow> string \<Rightarrow> ledger_row list \<Rightarrow> bool" where
  "chained LB prev [] = True"
| "chained LB prev (r # rs) = (row_links LB prev r \<and> chained LB (lr_event_hash r) rs)"

definition tail_hash :: "string \<Rightarrow> ledger_row list \<Rightarrow> string" where
  "tail_hash prev rs = (if rs = [] then prev else lr_event_hash (last rs))"

text \<open>What the primary key of the table guarantees: rows in strictly increasing positive
  sequence, each within a signed 64-bit integer.\<close>

definition table_ok :: "ledger \<Rightarrow> bool" where
  "table_ok st = (sorted_wrt (<) (map lr_sequence (l_rows st))
     \<and> (\<forall>r \<in> set (l_rows st). 0 < lr_sequence r \<and> lr_sequence r \<le> i64_max_u64))"

lemma tail_hash_simps [simp]:
  "tail_hash prev [] = prev" "tail_hash prev (r # rs) = tail_hash (lr_event_hash r) rs"
  "tail_hash prev (rs @ [r]) = lr_event_hash r"
  by (auto simp: tail_hash_def)

lemma chained_append [simp]:
  "chained LB prev (xs @ ys) \<longleftrightarrow> chained LB prev xs \<and> chained LB (tail_hash prev xs) ys"
  by (induction xs arbitrary: prev) auto

lemma event_of_row_fields:
  "event_of_row LB r = Inr e \<Longrightarrow> le_sequence e = lr_sequence r \<and> le_event_type e = lr_event_type r
     \<and> le_subject_id e = lr_subject_id r \<and> le_previous_hash e = lr_previous_hash r
     \<and> le_event_hash e = lr_event_hash r"
  by (auto simp: event_of_row_def split: option.splits)

lemma row_links_decodes: "row_links LB prev r \<Longrightarrow> \<exists>e. event_of_row LB r = Inr e"
  by (auto simp: row_links_def split: sum.splits)

lemma chained_decodes:
  "chained LB prev rs \<Longrightarrow> r \<in> set rs \<Longrightarrow> \<exists>e. event_of_row LB r = Inr e"
proof (induction rs arbitrary: prev)
  case Nil
  then show ?case by simp
next
  case (Cons x xs)
  from Cons.prems(1) have x: "row_links LB prev x" "chained LB (lr_event_hash x) xs" by simp_all
  show ?case
  proof (cases "r = x")
    case True
    with row_links_decodes [OF x(1)] show ?thesis by simp
  next
    case False
    with Cons.prems(2) have "r \<in> set xs" by simp
    with Cons.IH x(2) show ?thesis by blast
  qed
qed

section \<open>Verification accepts exactly the hash chains\<close>

text \<open>One page: the loop body succeeds exactly when the rows of the page continue the chain.\<close>

lemma verify_page_chained:
  assumes "map (event_of_row LB) rs = map Inr evs"
  shows "verify_page LB prev v evs =
    (if chained LB prev rs then Inr (tail_hash prev rs, v + of_nat (length rs))
     else verify_page LB prev v evs)
    \<and> (\<not> chained LB prev rs \<longrightarrow> (\<exists>e. verify_page LB prev v evs = Inl e))"
  using assms
proof (induction rs arbitrary: prev v evs)
  case Nil
  then show ?case by simp
next
  case (Cons r rs)
  then obtain e es where e: "evs = e # es" "event_of_row LB r = Inr e"
      "map (event_of_row LB) rs = map Inr es"
    by (cases evs) auto
  note fields = event_of_row_fields [OF e(2)]
  have links: "row_links LB prev r \<longleftrightarrow> le_previous_hash e = prev
      \<and> calculate_hash LB (le_sequence e) (le_recorded_at e) (le_event_type e) (le_subject_id e)
          (ll_json_to_string LB (le_payload e)) (le_previous_hash e) = le_event_hash e"
    using e(2) fields by (auto simp: row_links_def)
  show ?case
    using Cons.IH [OF e(3), of "lr_event_hash r" "v + 1"] links fields
    by (auto simp: e(1) add.assoc)
qed

lemma filter_after_last:
  fixes f :: "'a \<Rightarrow> 'b::linorder"
  assumes "sorted_wrt (<) (map f rs)" and "xs @ ys = filter (\<lambda>r. f r > a) rs" and "xs \<noteq> []"
  shows "filter (\<lambda>r. f r > f (last xs)) rs = ys"
proof -
  obtain zs z where xs: "xs = zs @ [z]" using assms(3) by (cases xs rule: rev_cases) auto
  have s: "sorted_wrt (<) (map f (zs @ [z] @ ys))"
  proof -
    have "sorted_wrt (\<lambda>x y. f x < f y) (filter (\<lambda>r. f r > a) rs)"
      using assms(1) by (auto simp: sorted_wrt_map intro: sorted_wrt_filter)
    then show ?thesis using assms(2) xs by (simp add: sorted_wrt_map)
  qed
  have z: "f z > a" using assms(2) xs by (metis in_set_conv_decomp mem_Collect_eq set_filter append_assoc append_Cons)
  have "filter (\<lambda>r. f r > f z) rs = filter (\<lambda>r. f r > f z) (filter (\<lambda>r. f r > a) rs)"
    using z by (auto intro!: filter_cong)
  also have "\<dots> = filter (\<lambda>r. f r > f z) (zs @ [z] @ ys)" using assms(2) xs by simp
  also have "\<dots> = ys"
    using s by (auto simp: sorted_wrt_append filter_empty_conv filter_id_conv dest: less_asym)
  finally show ?thesis by (simp add: xs)
qed

lemma events_page:
  assumes "\<not> l_poisoned st" and "after \<le> i64_max_u64"
  shows "events LB after limit st = collect_results (map (event_of_row LB)
           (take (page_limit limit) (filter (\<lambda>r. lr_sequence r > after) (l_rows st))))"
  using assms by (auto simp: events_def)

lemma page_limit_10000 [simp]: "page_limit 10000 = 10000"
  by (simp add: page_limit_def)

lemma collect_results_cases:
  "(\<exists>xs. collect_results rs = Inr xs \<and> rs = map Inr xs)
   \<or> (\<exists>e. collect_results rs = Inl e \<and> Inl e \<in> set rs)"
  by (induction rs rule: collect_results.induct) (auto split: sum.splits)

lemma verify_loop_exact:
  assumes "table_ok st" and "\<not> l_poisoned st" and "after \<le> i64_max_u64"
  shows "verify_loop LB st after prev v = Inr n \<longleftrightarrow>
    chained LB prev (filter (\<lambda>r. lr_sequence r > after) (l_rows st))
    \<and> n = v + of_nat (length (filter (\<lambda>r. lr_sequence r > after) (l_rows st)))"
  using assms
proof (induction "length (filter (\<lambda>r. lr_sequence r > after) (l_rows st))"
    arbitrary: after prev v rule: less_induct)
  case less
  let ?fs = "filter (\<lambda>r. lr_sequence r > after) (l_rows st)"
  define page where "page = take 10000 ?fs"
  define rest where "rest = drop 10000 ?fs"
  have fs: "page @ rest = ?fs" by (simp add: page_def rest_def)
  have ev: "events LB after 10000 st = collect_results (map (event_of_row LB) page)"
    using less.prems by (simp add: events_page page_def)
  consider (bad) e where "collect_results (map (event_of_row LB) page) = Inl e"
      "Inl e \<in> set (map (event_of_row LB) page)"
    | (ok) evs where "collect_results (map (event_of_row LB) page) = Inr evs"
      "map (event_of_row LB) page = map Inr evs"
    using collect_results_cases [of "map (event_of_row LB) page"] by blast
  then show ?case
  proof cases
    case bad
    then have "\<not> chained LB prev page" using chained_decodes by fastforce
    then have "\<not> chained LB prev ?fs" using fs by (metis chained_append)
    with bad ev show ?thesis by (simp add: verify_loop.simps)
  next
    case ok
    show ?thesis
    proof (cases "evs = []")
      case True
      with ok have "page = []" by simp
      then have "?fs = []" by (auto simp: page_def)
      with True ok ev show ?thesis by (auto simp: verify_loop.simps)
    next
      case False
      then have pne: "page \<noteq> []" using ok(2) by auto
      have last: "le_sequence (last evs) = lr_sequence (last page)"
      proof -
        have "event_of_row LB (last page) = Inr (last evs)"
          using ok(2) pne False by (metis last_map)
        then show ?thesis by (rule event_of_row_sequence)
      qed
      have lp: "last page \<in> set ?fs" using pne by (metis fs in_set_conv_decomp append_butlast_last_id append_assoc append_Cons)
      have rest: "filter (\<lambda>r. lr_sequence r > lr_sequence (last page)) (l_rows st) = rest"
        using less.prems(1) fs pne by (intro filter_after_last) (auto simp: table_ok_def)
      have "length rest < length ?fs" using fs pne by (metis length_append length_greater_0_conv less_add_same_cancel2)
      then have IH: "verify_loop LB st (lr_sequence (last page)) p w = Inr n \<longleftrightarrow>
          chained LB p rest \<and> n = w + of_nat (length rest)" for p w
        using less.hyps [of "lr_sequence (last page)" p w] less.prems lp
        by (auto simp: rest table_ok_def)
      have len: "(of_nat (length ?fs) :: u64) = of_nat (length page) + of_nat (length rest)"
        by (simp flip: fs)
      show ?thesis
      proof (cases "chained LB prev page")
        case True
        then have "verify_page LB prev v evs = Inr (tail_hash prev page, v + of_nat (length page))"
          using verify_page_chained [OF ok(2), of prev v] by simp
        then have "verify_loop LB st after prev v = Inr n \<longleftrightarrow>
            chained LB (tail_hash prev page) rest \<and> n = v + of_nat (length page) + of_nat (length rest)"
          using ok(1) False ev IH last by (simp add: verify_loop.simps [of LB st after])
        with True len show ?thesis by (simp flip: fs add: add.assoc)
      next
        case cf: False
        then obtain e where "verify_page LB prev v evs = Inl e"
          using verify_page_chained [OF ok(2), of prev v] by blast
        then have "verify_loop LB st after prev v = Inl e"
          using ok(1) False ev by (simp add: verify_loop.simps [of LB st after])
        moreover have "\<not> chained LB prev ?fs" using cf fs by (metis chained_append)
        ultimately show ?thesis by simp
      qed
    qed
  qed
qed

section \<open>Ledgers the program can produce\<close>

inductive ledger_step :: "ledger_lib \<Rightarrow> ledger \<Rightarrow> ledger \<Rightarrow> bool" for LB where
  append: "append_event LB now event_type subject_id (Some v) st = Inr (e, st')
     \<Longrightarrow> payload_stable LB v \<Longrightarrow> ledger_step LB st st'"
| advance: "advance_fencing_epoch LB now scope st = Inr (n, st')
     \<Longrightarrow> payload_stable LB (epoch_payload n) \<Longrightarrow> ledger_step LB st st'"

inductive_cases ledger_stepE: "ledger_step LB st st'"

text \<open>Rows are numbered from one, and the counter is the number of the last row.\<close>

definition numbered :: "ledger \<Rightarrow> bool" where
  "numbered st = (map (\<lambda>r. unat (lr_sequence r)) (l_rows st) = [1..<Suc (length (l_rows st))]
     \<and> unat (l_autoincrement st) = length (l_rows st) \<and> length (l_rows st) \<le> i64_max)"

text \<open>The evidence of one epoch of one scope.\<close>

definition epoch_evidence :: "ledger_lib \<Rightarrow> string \<Rightarrow> u64 \<Rightarrow> ledger_row \<Rightarrow> bool" where
  "epoch_evidence LB scope n r = (lr_event_type r = ''authority.epoch.advanced''
     \<and> lr_subject_id r = scope \<and> lr_payload_json r = ll_json_to_string LB (epoch_payload n))"

definition epochs_evidenced :: "ledger_lib \<Rightarrow> ledger \<Rightarrow> bool" where
  "epochs_evidenced LB st = (\<forall>scope c n. l_epochs st scope = Some c \<longrightarrow> 0 < n \<longrightarrow> n \<le> c
     \<longrightarrow> (\<exists>r \<in> set (l_rows st). epoch_evidence LB scope n r))"

definition ledger_inv :: "ledger_lib \<Rightarrow> ledger \<Rightarrow> bool" where
  "ledger_inv LB st = (\<not> l_poisoned st \<and> numbered st \<and> chained LB GENESIS_HASH (l_rows st)
     \<and> epochs_evidenced LB st)"

lemma unat_i64_max_u64 [simp]: "unat i64_max_u64 = i64_max"
  by (simp add: i64_max_u64_def i64_max_def)

lemma i64_max_u64_pos [simp]: "0 < i64_max_u64"
  by (simp add: i64_max_u64_def)

lemma i64_max_lt: "i64_max < 2 ^ 64"
  by (simp add: i64_max_def)

lemma numbered_nth:
  assumes "numbered st" and "i < length (l_rows st)"
  shows "unat (lr_sequence (l_rows st ! i)) = Suc i"
proof -
  have "map (\<lambda>r. unat (lr_sequence r)) (l_rows st) ! i = [1..<Suc (length (l_rows st))] ! i"
    using assms(1) by (simp only: numbered_def)
  then show ?thesis using assms(2) by (simp del: upt_Suc)
qed

lemma numbered_last:
  "numbered st \<Longrightarrow> l_rows st \<noteq> [] \<Longrightarrow> lr_sequence (last (l_rows st)) = l_autoincrement st"
  using numbered_nth [of st "length (l_rows st) - 1"]
  by (auto simp: last_conv_nth numbered_def word_unat_eq_iff)

lemma numbered_empty: "numbered st \<Longrightarrow> l_rows st = [] \<Longrightarrow> l_autoincrement st = 0"
  by (simp add: numbered_def unat_eq_zero)

lemma numbered_table_ok:
  assumes "numbered st"
  shows "table_ok st"
proof -
  have "lr_sequence (l_rows st ! i) < lr_sequence (l_rows st ! j)"
    if "i < j" "j < length (l_rows st)" for i j
    using numbered_nth [OF assms, of i] numbered_nth [OF assms, of j] that by (simp add: word_less_nat_alt)
  moreover have "0 < lr_sequence r \<and> lr_sequence r \<le> i64_max_u64" if "r \<in> set (l_rows st)" for r
  proof -
    from that obtain i where i: "i < length (l_rows st)" "r = l_rows st ! i" by (auto simp: in_set_conv_nth)
    with numbered_nth [OF assms i(1)] assms show ?thesis
      by (auto simp: numbered_def word_le_nat_alt word_less_nat_alt)
  qed
  ultimately show ?thesis by (auto simp: table_ok_def sorted_wrt_iff_nth_less)
qed

text \<open>What a successful append does, in one place.\<close>

lemma append_in_transaction_Inr:
  assumes "append_in_transaction LB now ty sub (Some v) st = Inr (e, st')" and "numbered st"
  shows "\<exists>r. l_rows st' = l_rows st @ [r] \<and> lr_sequence r = l_autoincrement st + 1
      \<and> lr_recorded_at r = ll_to_rfc3339 LB now \<and> lr_event_type r = ty \<and> lr_subject_id r = sub
      \<and> lr_payload_json r = ll_json_to_string LB v
      \<and> lr_previous_hash r = tail_hash GENESIS_HASH (l_rows st)
      \<and> lr_event_hash r = calculate_hash LB (lr_sequence r) now ty sub (ll_json_to_string LB v)
          (tail_hash GENESIS_HASH (l_rows st))
      \<and> e = \<lparr>le_sequence = lr_sequence r, le_recorded_at = now, le_event_type = ty, le_subject_id = sub,
          le_payload = v, le_previous_hash = lr_previous_hash r, le_event_hash = lr_event_hash r\<rparr>"
    and "l_autoincrement st' = l_autoincrement st + 1" and "l_autoincrement st < i64_max_u64"
    and "l_epochs st' = l_epochs st" and "l_poisoned st' = l_poisoned st"
  using assms numbered_last [OF assms(2)] numbered_empty [OF assms(2)]
  by (auto simp: append_in_transaction_def Let_def tail_hash_def split: if_splits)

lemma append_numbered:
  assumes "append_in_transaction LB now ty sub (Some v) st = Inr (e, st')" and "numbered st"
  shows "numbered st'"
proof -
  obtain r where r: "l_rows st' = l_rows st @ [r]" "lr_sequence r = l_autoincrement st + 1"
    using append_in_transaction_Inr(1) [OF assms] by blast
  note a = append_in_transaction_Inr(2,3) [OF assms]
  have n: "unat (l_autoincrement st + 1) = Suc (length (l_rows st))"
    using assms(2) a(2) i64_max_lt by (simp add: numbered_def word_less_nat_alt unat_word_ariths)
  show ?thesis
    using assms(2) a n by (simp add: numbered_def r word_less_nat_alt)
qed

lemma appended_row_decodes:
  assumes "time_format_ok LB" and "payload_stable LB v"
    and "lr_recorded_at r = ll_to_rfc3339 LB now" and "lr_payload_json r = ll_json_to_string LB v"
  shows "\<exists>w. ll_json_to_string LB w = ll_json_to_string LB v \<and> event_of_row LB r =
    Inr \<lparr>le_sequence = lr_sequence r, le_recorded_at = now, le_event_type = lr_event_type r,
      le_subject_id = lr_subject_id r, le_payload = w, le_previous_hash = lr_previous_hash r,
      le_event_hash = lr_event_hash r\<rparr>"
  using assms by (auto simp: event_of_row_def time_format_ok_def payload_stable_def)

lemma append_chained:
  assumes "append_in_transaction LB now ty sub (Some v) st = Inr (e, st')" and "numbered st"
    and "time_format_ok LB" and "payload_stable LB v" and "chained LB GENESIS_HASH (l_rows st)"
  shows "chained LB GENESIS_HASH (l_rows st')"
proof -
  obtain r where r: "l_rows st' = l_rows st @ [r]" "lr_recorded_at r = ll_to_rfc3339 LB now"
      "lr_event_type r = ty" "lr_subject_id r = sub" "lr_payload_json r = ll_json_to_string LB v"
      "lr_previous_hash r = tail_hash GENESIS_HASH (l_rows st)"
      "lr_event_hash r = calculate_hash LB (lr_sequence r) now ty sub (ll_json_to_string LB v)
          (tail_hash GENESIS_HASH (l_rows st))"
    using append_in_transaction_Inr(1) [OF assms(1,2)] by blast
  have "row_links LB (tail_hash GENESIS_HASH (l_rows st)) r"
    using appended_row_decodes [OF assms(3,4) r(2,5)] r by (auto simp: row_links_def)
  with assms(5) r(1) show ?thesis by simp
qed

lemma append_evidenced:
  assumes "append_in_transaction LB now ty sub (Some v) st = Inr (e, st')" and "numbered st"
    and "epochs_evidenced LB st"
  shows "epochs_evidenced LB st'"
  using assms(3) append_in_transaction_Inr(1,4) [OF assms(1,2)]
  by (auto simp: epochs_evidenced_def)

lemma numbered_epochs [simp]: "numbered (st\<lparr>l_epochs := f\<rparr>) = numbered st"
  by (simp add: numbered_def)

text \<open>What a successful advance does: the next epoch, recorded with its evidence.\<close>

lemma advance_Inr:
  assumes "advance_fencing_epoch LB now scope st = Inr (n, st')"
  shows "unat n = unat (unwrap_or 0 (l_epochs st scope)) + 1"
    and "n \<le> i64_max_u64" and "\<not> l_poisoned st"
    and "\<exists>e. append_in_transaction LB now ''authority.epoch.advanced'' scope (Some (epoch_payload n))
           (st\<lparr>l_epochs := (l_epochs st)(scope \<mapsto> n)\<rparr>) = Inr (e, st')"
  using assms
  by (auto simp: advance_fencing_epoch_def Let_def unwrap_or_def dest: unat_checked_add
      split: if_splits option.splits sum.splits)

lemma advance_evidenced:
  assumes "advance_fencing_epoch LB now scope st = Inr (n, st')" and "numbered st"
    and ev: "epochs_evidenced LB st"
  shows "epochs_evidenced LB st'"
proof -
  obtain e where e: "append_in_transaction LB now ''authority.epoch.advanced'' scope
      (Some (epoch_payload n)) (st\<lparr>l_epochs := (l_epochs st)(scope \<mapsto> n)\<rparr>) = Inr (e, st')"
    using advance_Inr(4) [OF assms(1)] by blast
  have num: "numbered (st\<lparr>l_epochs := (l_epochs st)(scope \<mapsto> n)\<rparr>)" using assms(2) by simp
  obtain r where r: "l_rows st' = l_rows st @ [r]" "epoch_evidence LB scope n r"
    using append_in_transaction_Inr(1) [OF e num] by (auto simp: epoch_evidence_def)
  have eps: "l_epochs st' = (l_epochs st)(scope \<mapsto> n)"
    using append_in_transaction_Inr(4) [OF e num] by simp
  show ?thesis
    unfolding epochs_evidenced_def
  proof (intro allI impI)
    fix s c k assume c: "l_epochs st' s = Some c" and k: "0 < k" "k \<le> c"
    show "\<exists>r \<in> set (l_rows st'). epoch_evidence LB s k r"
    proof (cases "s = scope \<and> k = n")
      case True
      then show ?thesis using r by simp
    next
      case False
      have "\<exists>c. l_epochs st s = Some c \<and> k \<le> c"
      proof (cases "s = scope")
        case True
        with c eps have cn: "c = n" by simp
        have "unat k < unat n" using k(2) False True cn by (simp add: word_less_nat_alt [symmetric])
        then have "unat k \<le> unat (unwrap_or 0 (l_epochs st scope))"
          using advance_Inr(1) [OF assms(1)] by simp
        then show ?thesis
          using k(1) True by (cases "l_epochs st scope") (auto simp: unwrap_or_def word_le_nat_alt word_less_nat_alt)
      next
        case False
        with c eps k show ?thesis by simp
      qed
      then show ?thesis using ev k(1) r(1) by (auto simp: epochs_evidenced_def)
    qed
  qed
qed

lemma ledger_inv_step:
  assumes "time_format_ok LB" and "ledger_inv LB st" and "ledger_step LB st st'"
  shows "ledger_inv LB st'"
  using assms(3)
proof cases
  case (append now ty sub v e)
  then have a: "append_in_transaction LB now ty sub (Some v) st = Inr (e, st')"
    by (auto simp: append_event_def split: if_splits)
  with assms append(2) show ?thesis
    using append_numbered [OF a] append_chained [OF a] append_evidenced [OF a] append_in_transaction_Inr(5) [OF a]
    by (auto simp: ledger_inv_def)
next
  case (advance now scope n)
  let ?st = "st\<lparr>l_epochs := (l_epochs st)(scope \<mapsto> n)\<rparr>"
  obtain e where a: "append_in_transaction LB now ''authority.epoch.advanced'' scope
      (Some (epoch_payload n)) ?st = Inr (e, st')"
    using advance_Inr(4) [OF advance(1)] by blast
  have num: "numbered ?st" using assms(2) by (simp add: ledger_inv_def)
  show ?thesis
    using assms advance append_numbered [OF a num] append_chained [OF a num] append_in_transaction_Inr(5) [OF a num]
      advance_evidenced [OF advance(1)]
    by (auto simp: ledger_inv_def)
qed

lemma ledger_inv_open: "ledger_inv LB open_ledger"
  by (simp add: ledger_inv_def open_ledger_def numbered_def epochs_evidenced_def)

interpretation evidence: invariant_system "ledger_step LB" "\<lambda>st. st = open_ledger"
    "\<lambda>st. time_format_ok LB \<longrightarrow> ledger_inv LB st" for LB
  by unfold_locales (auto intro: ledger_inv_step simp: ledger_inv_open)

lemma reachable_inv:
  "time_format_ok LB \<Longrightarrow> (ledger_step LB)\<^sup>*\<^sup>* open_ledger st \<Longrightarrow> ledger_inv LB st"
  using evidence.inv_reachable [of open_ledger LB st] by simp

lemma append_in_transaction_rows:
  "append_in_transaction LB now ty sub p st = Inr (e, st') \<Longrightarrow> \<exists>r. l_rows st' = l_rows st @ [r]"
  by (auto simp: append_in_transaction_def Let_def split: option.splits if_splits)

lemma ledger_step_extends: "ledger_step LB st st' \<Longrightarrow> \<exists>rs. l_rows st' = l_rows st @ rs"
proof (erule ledger_stepE)
  fix now scope n
  assume "advance_fencing_epoch LB now scope st = Inr (n, st')"
  then obtain e where "append_in_transaction LB now ''authority.epoch.advanced'' scope
      (Some (epoch_payload n)) (st\<lparr>l_epochs := (l_epochs st)(scope \<mapsto> n)\<rparr>) = Inr (e, st')"
    using advance_Inr(4) by blast
  then show ?thesis using append_in_transaction_rows by fastforce
qed (auto simp: append_event_def dest: append_in_transaction_rows split: if_splits)

interpretation evidence_log: append_only_log "ledger_step LB" l_rows for LB
  by unfold_locales (rule ledger_step_extends)

section \<open>Injectivity of the hash preimage\<close>

lemma mod_digits_eq:
  fixes a b :: nat
  assumes "\<And>i. i < k \<Longrightarrow> a div B ^ i mod B = b div B ^ i mod B"
  shows "a mod B ^ k = b mod B ^ k"
  using assms
proof (induction k)
  case 0
  then show ?case by simp
next
  case (Suc k)
  have "x mod B ^ Suc k = B ^ k * (x div B ^ k mod B) + x mod B ^ k" for x :: nat
    using mod_mult2_eq [of x "B ^ k" B] by (simp add: mult.commute)
  moreover have "a mod B ^ k = b mod B ^ k" using Suc by simp
  ultimately show ?case using Suc.prems [of k] by simp
qed

lemma to_be_bytes_inject:
  assumes "to_be_bytes x = to_be_bytes y"
  shows "x = y"
proof -
  have "char_of (unat x div 256 ^ i mod 256) = (char_of (unat y div 256 ^ i mod 256) :: char)"
    if "i \<in> set [7, 6, 5, 4, 3, 2, 1, 0]" for i :: nat
    using assms that unfolding to_be_bytes_def map_eq_conv by blast
  then have "unat x div 256 ^ i mod 256 = unat y div 256 ^ i mod 256" if "i < 8" for i
  proof -
    have "i \<in> set [7, 6, 5, 4, 3, 2, 1, 0]" using that by (simp; arith)
    then have "byte (char_of (unat x div 256 ^ i mod 256)) = byte (char_of (unat y div 256 ^ i mod 256))"
      using \<open>\<And>i. i \<in> set [7, 6, 5, 4, 3, 2, 1, 0] \<Longrightarrow>
        char_of (unat x div 256 ^ i mod 256) = (char_of (unat y div 256 ^ i mod 256) :: char)\<close> by simp
    then show ?thesis by (simp add: byte_def)
  qed
  then have "unat x mod 256 ^ 8 = unat y mod 256 ^ 8" by (rule mod_digits_eq)
  then show ?thesis using unat_u64_lt [of x] unat_u64_lt [of y] by (simp add: word_unat_eq_iff)
qed

lemma split_at_first:
  "c \<notin> set xs \<Longrightarrow> c \<notin> set xs' \<Longrightarrow> xs @ c # ys = xs' @ c # ys' \<Longrightarrow> xs = xs' \<and> ys = ys'"
proof (induction xs arbitrary: xs')
  case Nil
  then show ?case by (cases xs') auto
next
  case (Cons x xs)
  then show ?case by (cases xs') auto
qed

lemma length_to_be_bytes [simp]: "length (to_be_bytes x) = 8"
  by (simp add: to_be_bytes_def)

abbreviation nul_free :: "string \<Rightarrow> bool" where
  "nul_free s \<equiv> CHR 0x00 \<notin> set s"

text \<open>The preimage determines every hashed field, provided that no field contains a NUL.\<close>

lemma hash_preimage_inject:
  assumes "time_format_ok LB"
    and eq: "hash_preimage LB n t ty sub p h = hash_preimage LB n' t' ty' sub' p' h'"
    and nul: "nul_free ty" "nul_free ty'" "nul_free sub" "nul_free sub'" "nul_free p" "nul_free p'"
  shows "n = n' \<and> ll_to_rfc3339_nanos LB t = ll_to_rfc3339_nanos LB t' \<and> ty = ty' \<and> sub = sub'
     \<and> p = p' \<and> h = h'"
proof -
  obtain u where u: "ll_to_rfc3339_nanos LB t = u @ ''Z''" "CHR ''Z'' \<notin> set u"
    using assms(1) by (auto simp: time_format_ok_def)
  obtain u' where u': "ll_to_rfc3339_nanos LB t' = u' @ ''Z''" "CHR ''Z'' \<notin> set u'"
    using assms(1) by (auto simp: time_format_ok_def)
  from eq have b: "to_be_bytes n = to_be_bytes n'"
    and r: "u @ CHR ''Z'' # ty @ CHR 0x00 # sub @ CHR 0x00 # p @ CHR 0x00 # h
          = u' @ CHR ''Z'' # ty' @ CHR 0x00 # sub' @ CHR 0x00 # p' @ CHR 0x00 # h'"
    by (auto simp: hash_preimage_def u(1) u'(1))
  from split_at_first [OF u(2) u'(2) r]
  have uu: "u = u'" and r2: "ty @ CHR 0x00 # sub @ CHR 0x00 # p @ CHR 0x00 # h
      = ty' @ CHR 0x00 # sub' @ CHR 0x00 # p' @ CHR 0x00 # h'" by auto
  from split_at_first [OF nul(1,2) r2]
  have ty: "ty = ty'" and r3: "sub @ CHR 0x00 # p @ CHR 0x00 # h = sub' @ CHR 0x00 # p' @ CHR 0x00 # h'"
    by auto
  from split_at_first [OF nul(3,4) r3]
  have sub: "sub = sub'" and r4: "p @ CHR 0x00 # h = p' @ CHR 0x00 # h'" by auto
  from split_at_first [OF nul(5,6) r4] show ?thesis
    using uu ty sub to_be_bytes_inject [OF b] u u' by auto
qed

section \<open>The last hash pins the history\<close>

text \<open>The hashed content of a row, as text.\<close>

definition row_content :: "ledger_lib \<Rightarrow> ledger_row \<Rightarrow> (u64 \<times> string \<times> string \<times> string \<times> string) option" where
  "row_content LB r = (case event_of_row LB r of Inl _ \<Rightarrow> None
     | Inr e \<Rightarrow> Some (le_sequence e, ll_to_rfc3339_nanos LB (le_recorded_at e), le_event_type e,
         le_subject_id e, ll_json_to_string LB (le_payload e)))"

definition sha_collision :: "ledger_lib \<Rightarrow> bool" where
  "sha_collision LB = (\<exists>a b. a \<noteq> b \<and> ll_sha256_hex LB a = ll_sha256_hex LB b)"

text \<open>Documented behaviour: a hexadecimal SHA-256 digest has 64 digits, and JSON text escapes
  control characters.\<close>

definition digest_text_ok :: "ledger_lib \<Rightarrow> bool" where
  "digest_text_ok LB = (\<forall>s. length (ll_sha256_hex LB s) = 64)"

definition json_text_ok :: "ledger_lib \<Rightarrow> bool" where
  "json_text_ok LB = (\<forall>v. nul_free (ll_json_to_string LB v))"

definition row_nul_free :: "ledger_row \<Rightarrow> bool" where
  "row_nul_free r = (nul_free (lr_event_type r) \<and> nul_free (lr_subject_id r))"

lemma row_links_inject:
  assumes ok: "time_format_ok LB" "json_text_ok LB" "\<not> sha_collision LB"
    and "row_links LB h r" "row_links LB h' r'" "row_nul_free r" "row_nul_free r'"
    and "lr_event_hash r = lr_event_hash r'"
  shows "h = h' \<and> row_content LB r = row_content LB r'"
proof -
  obtain e where e: "event_of_row LB r = Inr e" using row_links_decodes [OF assms(4)] by blast
  obtain e' where e': "event_of_row LB r' = Inr e'" using row_links_decodes [OF assms(5)] by blast
  have "ll_sha256_hex LB (hash_preimage LB (le_sequence e) (le_recorded_at e) (le_event_type e)
          (le_subject_id e) (ll_json_to_string LB (le_payload e)) h)
      = ll_sha256_hex LB (hash_preimage LB (le_sequence e') (le_recorded_at e') (le_event_type e')
          (le_subject_id e') (ll_json_to_string LB (le_payload e')) h')"
    using assms(4,5,8) e e' by (simp add: row_links_def calculate_hash_def)
  then have "hash_preimage LB (le_sequence e) (le_recorded_at e) (le_event_type e)
          (le_subject_id e) (ll_json_to_string LB (le_payload e)) h
      = hash_preimage LB (le_sequence e') (le_recorded_at e') (le_event_type e')
          (le_subject_id e') (ll_json_to_string LB (le_payload e')) h'"
    using ok(3) by (auto simp: sha_collision_def)
  from hash_preimage_inject [OF ok(1) this] show ?thesis
    using ok(2) assms(6,7) event_of_row_fields [OF e] event_of_row_fields [OF e']
    by (simp add: row_content_def e e' json_text_ok_def row_nul_free_def)
qed

lemma row_links_hash: "row_links LB h r \<Longrightarrow> digest_text_ok LB \<Longrightarrow> lr_event_hash r \<noteq> GENESIS_HASH"
proof
  assume "row_links LB h r" "digest_text_ok LB" "lr_event_hash r = GENESIS_HASH"
  then obtain s where "ll_sha256_hex LB s = GENESIS_HASH"
    by (auto simp: row_links_def calculate_hash_def split: sum.splits)
  with \<open>digest_text_ok LB\<close> have "length GENESIS_HASH = 64" by (metis digest_text_ok_def)
  then show False by (simp add: GENESIS_HASH_def)
qed

lemma chains_agree:
  assumes ok: "time_format_ok LB" "json_text_ok LB" "\<not> sha_collision LB" "digest_text_ok LB"
  shows "chained LB GENESIS_HASH xs \<Longrightarrow> chained LB GENESIS_HASH ys
    \<Longrightarrow> list_all row_nul_free xs \<Longrightarrow> list_all row_nul_free ys
    \<Longrightarrow> tail_hash GENESIS_HASH xs = tail_hash GENESIS_HASH ys
    \<Longrightarrow> map (row_content LB) xs = map (row_content LB) ys"
proof (induction xs arbitrary: ys rule: rev_induct)
  case Nil
  then show ?case
    by (cases ys rule: rev_cases) (auto dest: row_links_hash [OF _ ok(4)])
next
  case (snoc x xs)
  then show ?case
  proof (cases ys rule: rev_cases)
    case Nil
    then show ?thesis using snoc.prems row_links_hash [OF _ ok(4), of _ x] by auto
  next
    case y: (snoc zs z)
    from row_links_inject [OF ok(1,2,3), of "tail_hash GENESIS_HASH xs" x "tail_hash GENESIS_HASH zs" z]
    show ?thesis using snoc.IH [of zs] snoc.prems y by simp
  qed
qed

end
