(* ===== verification/Rampage_Audit.thy ===== *)
theory Rampage_Audit
  imports Rampage_Evidence
begin

text \<open>
  The properties of the evidence ledger, stated over the operations of
  \<open>crates/rampage-ledger/src/lib.rs\<close>, with a small concrete library (unary time and number formats,
  a truncating digest) on which their hypotheses hold.
\<close>

section \<open>A concrete library\<close>

definition demo_print_time :: "datetime \<Rightarrow> string" where
  "demo_print_time t = (if t < 0 then CHR ''-'' # replicate (nat (- t)) (CHR ''1'')
     else replicate (nat t) (CHR ''1''))"

definition demo_parse_time :: "string \<Rightarrow> datetime option" where
  "demo_parse_time s = (case s of [] \<Rightarrow> Some 0
     | c # r \<Rightarrow> Some (if c = CHR ''-'' then - int (length r) else int (length s)))"

definition demo_print_json :: "json \<Rightarrow> string" where
  "demo_print_json v = (case v of JObject [(k, JPosInt n)] \<Rightarrow> replicate (unat n) (CHR ''1'')
     | JFloat x \<Rightarrow> CHR ''.'' # replicate (unat x) (CHR ''1'') | _ \<Rightarrow> ''null'')"

text \<open>Reading a number with a fraction is off by one unit in the last place.\<close>

definition demo_parse_json :: "string \<Rightarrow> json option" where
  "demo_parse_json s = (if s = ''null'' then Some JNull
     else case s of [] \<Rightarrow> None
     | c # r \<Rightarrow> if c = CHR ''.'' then Some (JFloat (of_nat (length r + 1)))
         else Some (JObject [(''fencing_epoch'', JPosInt (of_nat (length s)))]))"

definition demo_lib :: ledger_lib where
  "demo_lib = \<lparr>ll_sha256_hex = (\<lambda>s. take 64 (s @ replicate 64 (CHR ''0''))),
     ll_to_rfc3339 = demo_print_time, ll_to_rfc3339_nanos = (\<lambda>t. demo_print_time t @ ''Z''),
     ll_parse_rfc3339 = demo_parse_time, ll_json_to_string = demo_print_json,
     ll_json_from_str = demo_parse_json\<rparr>"

text \<open>The same library with the identity in place of the digest, so that nothing collides.\<close>

definition demo_lib_id :: ledger_lib where
  "demo_lib_id = demo_lib\<lparr>ll_sha256_hex := id\<rparr>"

lemma demo_parse_print [simp]: "demo_parse_time (demo_print_time t) = Some t"
proof (cases "t < 0")
  case True
  then show ?thesis by (simp add: demo_parse_time_def demo_print_time_def)
next
  case False
  then show ?thesis
    by (cases "nat t") (auto simp: demo_parse_time_def demo_print_time_def)
qed

lemma demo_lib_simps [simp]:
  "ll_to_rfc3339 demo_lib = demo_print_time" "ll_to_rfc3339 demo_lib_id = demo_print_time"
  "ll_parse_rfc3339 demo_lib = demo_parse_time" "ll_parse_rfc3339 demo_lib_id = demo_parse_time"
  "ll_json_to_string demo_lib = demo_print_json" "ll_json_to_string demo_lib_id = demo_print_json"
  "ll_json_from_str demo_lib = demo_parse_json" "ll_json_from_str demo_lib_id = demo_parse_json"
  "ll_to_rfc3339_nanos demo_lib t = demo_print_time t @ ''Z''"
  "ll_to_rfc3339_nanos demo_lib_id t = demo_print_time t @ ''Z''"
  by (simp_all add: demo_lib_def demo_lib_id_def)

lemma demo_time_no_Z: "CHR ''Z'' \<notin> set (demo_print_time t)"
  by (simp add: demo_print_time_def)

lemma demo_lib_time: "time_format_ok demo_lib" "time_format_ok demo_lib_id"
  using demo_time_no_Z by (auto simp: time_format_ok_def)

lemma demo_lib_digest: "digest_text_ok demo_lib"
  by (auto simp: digest_text_ok_def demo_lib_def)

lemma demo_lib_json: "json_text_ok demo_lib"
  by (auto simp: json_text_ok_def demo_print_json_def split: json.splits list.splits prod.splits)

lemma demo_lib_id_injective: "\<not> sha_collision demo_lib_id"
  by (simp add: sha_collision_def demo_lib_id_def)

text \<open>One event and one epoch on a new ledger.\<close>

definition demo_row :: ledger_row where
  "demo_row = \<lparr>lr_sequence = 1, lr_recorded_at = [], lr_event_type = ''a'', lr_subject_id = ''b'',
     lr_payload_json = ''null'', lr_previous_hash = ''GENESIS'',
     lr_event_hash = calculate_hash demo_lib 1 0 ''a'' ''b'' ''null'' ''GENESIS''\<rparr>"

definition demo_first :: ledger where
  "demo_first = \<lparr>l_rows = [demo_row], l_autoincrement = 1, l_epochs = Map.empty, l_poisoned = False\<rparr>"

definition demo_event :: ledger_event where
  "demo_event = \<lparr>le_sequence = 1, le_recorded_at = 0, le_event_type = ''a'', le_subject_id = ''b'',
     le_payload = JNull, le_previous_hash = ''GENESIS'', le_event_hash = lr_event_hash demo_row\<rparr>"

lemmas demo_ledger_defs = demo_print_time_def demo_parse_time_def demo_print_json_def
  demo_parse_json_def demo_row_def demo_first_def open_ledger_def GENESIS_HASH_def Let_def

lemma demo_append:
  "append_event demo_lib 0 ''a'' ''b'' (Some JNull) open_ledger = Inr (demo_event, demo_first)"
  by (simp add: append_event_def append_in_transaction_def demo_ledger_defs demo_event_def i64_max_u64_def)

lemma demo_null_stable: "payload_stable demo_lib JNull"
  by (simp add: payload_stable_def demo_ledger_defs)

lemma demo_epoch_stable: "payload_stable demo_lib (epoch_payload 1)"
  by (simp add: payload_stable_def demo_ledger_defs epoch_payload_def)

definition demo_epoch_row :: ledger_row where
  "demo_epoch_row = \<lparr>lr_sequence = 2, lr_recorded_at = [], lr_event_type = ''authority.epoch.advanced'',
     lr_subject_id = ''fabric'', lr_payload_json = ''1'', lr_previous_hash = lr_event_hash demo_row,
     lr_event_hash = calculate_hash demo_lib 2 0 ''authority.epoch.advanced'' ''fabric'' ''1'' (lr_event_hash demo_row)\<rparr>"

definition demo_second :: ledger where
  "demo_second = \<lparr>l_rows = [demo_row, demo_epoch_row], l_autoincrement = 2,
     l_epochs = [''fabric'' \<mapsto> 1], l_poisoned = False\<rparr>"

lemma demo_hashes_differ: "lr_event_hash demo_epoch_row \<noteq> lr_event_hash demo_row"
  by (simp add: demo_epoch_row_def demo_row_def calculate_hash_def hash_preimage_def to_be_bytes_def
      demo_lib_def)

lemma demo_row_sequence [simp]: "lr_sequence demo_row = 1"
  by (simp add: demo_row_def)

lemma one_below_i64_max: "\<not> i64_max_u64 \<le> 1"
  by (simp add: i64_max_u64_def word_le_nat_alt)

lemma demo_advance:
  "advance_fencing_epoch demo_lib 0 ''fabric'' demo_first = Inr (1, demo_second)"
proof -
  have "(1 :: u64) \<le> i64_max_u64" using one_below_i64_max by simp
  then show ?thesis
    using demo_hashes_differ one_below_i64_max
    by (simp add: advance_fencing_epoch_def append_in_transaction_def checked_add_def epoch_payload_def
        demo_first_def demo_second_def demo_epoch_row_def demo_print_json_def demo_print_time_def Let_def)
qed

lemma demo_reachable: "(ledger_step demo_lib)\<^sup>*\<^sup>* open_ledger demo_second"
proof -
  have "ledger_step demo_lib open_ledger demo_first"
    using demo_append demo_null_stable by (rule ledger_step.append)
  moreover have "ledger_step demo_lib demo_first demo_second"
    using demo_advance demo_epoch_stable by (rule ledger_step.advance)
  ultimately show ?thesis by auto
qed

lemma demo_inv: "ledger_inv demo_lib demo_second"
  using demo_lib_time(1) demo_reachable by (rule reachable_inv)

section \<open>Shared lemmas\<close>

lemma filter_positive:
  "table_ok st \<Longrightarrow> filter (\<lambda>r. lr_sequence r > 0) (l_rows st) = l_rows st"
  by (auto simp: table_ok_def filter_id_conv)

lemma verify_ledger_exact:
  assumes "table_ok st" and "\<not> l_poisoned st"
  shows "verify_ledger LB st = Inr n \<longleftrightarrow>
    chained LB GENESIS_HASH (l_rows st) \<and> n = of_nat (length (l_rows st))"
  using verify_loop_exact [OF assms, of 0 LB GENESIS_HASH 0 n] filter_positive [OF assms(1)]
  by (simp add: verify_ledger_def verify_after_def)

lemma numbered_filter:
  assumes "numbered st"
  shows "filter (\<lambda>r. lr_sequence r > a) (l_rows st) = drop (unat a) (l_rows st)"
proof -
  have "l_rows st = take (unat a) (l_rows st) @ drop (unat a) (l_rows st)" by simp
  moreover have "\<forall>r \<in> set (take (unat a) (l_rows st)). \<not> lr_sequence r > a"
    using numbered_nth [OF assms] by (auto simp: set_conv_nth word_less_nat_alt)
  moreover have "\<forall>r \<in> set (drop (unat a) (l_rows st)). lr_sequence r > a"
    using numbered_nth [OF assms] by (auto simp: set_conv_nth word_less_nat_alt)
  ultimately show ?thesis by (metis append_Nil filter_False filter_True filter_append)
qed

lemma chained_collect:
  assumes "chained LB prev rs"
  shows "\<exists>evs. map (event_of_row LB) rs = map Inr evs"
proof -
  have "\<forall>r \<in> set rs. \<exists>e. event_of_row LB r = Inr e" using chained_decodes [OF assms] by blast
  then show ?thesis by (induction rs) (auto simp: Cons_eq_map_conv)
qed

lemma chained_drop:
  "chained LB prev rs \<Longrightarrow> chained LB (tail_hash prev (take k rs)) (drop k rs)"
  using chained_append [of LB prev "take k rs" "drop k rs"] by simp

lemma find_snoc_last:
  "\<not> (\<exists>x \<in> set xs. P x) \<Longrightarrow> P y \<Longrightarrow> List.find P (xs @ [y]) = Some y"
  by (induction xs) auto

section \<open>Properties\<close>



text \<open>
  C28. Every ledger produced from a new database by appends and epoch advances whose payloads survive printing and
  reading back (numbers with a fraction may not) verifies, with the number of its rows as the result, and so does
  verification resumed from the hash of any of its events (a checkpoint); no sequence number ever wraps.
\<close>

theorem reachable_ledger_verifies:
  assumes "time_format_ok LB" and "(ledger_step LB)\<^sup>*\<^sup>* open_ledger st"
  shows "verify_ledger LB st = Inr (of_nat (length (l_rows st)))
    \<and> length (l_rows st) < 2 ^ 63
    \<and> (\<forall>r \<in> set (l_rows st). verify_after LB (lr_sequence r) (lr_event_hash r) st
          = Inr (of_nat (length (l_rows st)) - lr_sequence r))"
proof (intro conjI ballI)
  have inv: "numbered st" "\<not> l_poisoned st" "chained LB GENESIS_HASH (l_rows st)"
    using reachable_inv [OF assms] by (auto simp: ledger_inv_def)
  note tab = numbered_table_ok [OF inv(1)]
  show "verify_ledger LB st = Inr (of_nat (length (l_rows st)))"
    using verify_ledger_exact [OF tab inv(2)] inv(3) by simp
  show "length (l_rows st) < 2 ^ 63" using inv(1) by (simp add: numbered_def i64_max_def)
  fix r assume "r \<in> set (l_rows st)"
  then obtain i where i: "i < length (l_rows st)" "r = l_rows st ! i" by (auto simp: in_set_conv_nth)
  have n: "unat (lr_sequence r) = Suc i" using numbered_nth [OF inv(1)] i by simp
  have le: "lr_sequence r \<le> i64_max_u64" using tab \<open>r \<in> set (l_rows st)\<close> by (simp add: table_ok_def)
  have "tail_hash GENESIS_HASH (take (Suc i) (l_rows st)) = lr_event_hash r"
    using i by (simp add: take_Suc_conv_app_nth)
  then have "chained LB (lr_event_hash r) (drop (Suc i) (l_rows st))"
    using chained_drop [OF inv(3), of "Suc i"] by simp
  moreover have "of_nat (length (l_rows st) - Suc i) = (of_nat (length (l_rows st)) - lr_sequence r :: u64)"
    using i n by (metis Suc_leI of_nat_diff word_of_nat_unat)
  ultimately show "verify_after LB (lr_sequence r) (lr_event_hash r) st
      = Inr (of_nat (length (l_rows st)) - lr_sequence r)"
    using verify_loop_exact [OF tab inv(2) le, of LB "lr_event_hash r" 0] numbered_filter [OF inv(1), of "lr_sequence r"] n
    by (simp add: verify_after_def)
qed

theorem reachable_ledger_verifies_witness:
  "verify_ledger demo_lib demo_second = Inr 2
   \<and> verify_after demo_lib 1 (lr_event_hash demo_row) demo_second = Inr 1"
  using reachable_ledger_verifies [OF demo_lib_time(1) demo_reachable]
  by (simp add: demo_second_def)

text \<open>
  Two ledgers that both verify and end in the same hash have the same history: the same
  number of events and, event by event, the same sequence, time, type, subject and payload text.
  Otherwise two different texts with the same SHA-256 digest exist. Event types and subjects are
  assumed to be free of NUL bytes, which the hash uses as separators.
\<close>

theorem last_hash_pins_history:
  assumes "time_format_ok LB" and "json_text_ok LB" and "digest_text_ok LB"
    and "table_ok st" and "table_ok st'" and "\<not> l_poisoned st" and "\<not> l_poisoned st'"
    and "verify_ledger LB st = Inr n" and "verify_ledger LB st' = Inr n'"
    and "list_all row_nul_free (l_rows st)" and "list_all row_nul_free (l_rows st')"
    and "tail_hash GENESIS_HASH (l_rows st) = tail_hash GENESIS_HASH (l_rows st')"
  shows "(n = n' \<and> map (row_content LB) (l_rows st) = map (row_content LB) (l_rows st'))
    \<or> sha_collision LB"
proof (cases "sha_collision LB")
  case False
  have c: "chained LB GENESIS_HASH (l_rows st)" "n = of_nat (length (l_rows st))"
      "chained LB GENESIS_HASH (l_rows st')" "n' = of_nat (length (l_rows st'))"
    using verify_ledger_exact [OF assms(4,6)] verify_ledger_exact [OF assms(5,7)] assms(8,9) by simp_all
  then have "map (row_content LB) (l_rows st) = map (row_content LB) (l_rows st')"
    using chains_agree [OF assms(1,2) False assms(3) c(1,3) assms(10,11,12)] by simp
  moreover from this have "length (l_rows st) = length (l_rows st')" by (rule map_eq_imp_length_eq)
  ultimately show ?thesis using c(2,4) by simp
qed simp

text \<open>The second row stored with another text of the same payload.\<close>

definition demo_variant :: ledger where
  "demo_variant = demo_second\<lparr>l_rows := [demo_row, demo_epoch_row\<lparr>lr_payload_json := ''x''\<rparr>]\<rparr>"

lemma demo_variant_links:
  "row_links demo_lib h (demo_epoch_row\<lparr>lr_payload_json := ''x''\<rparr>) = row_links demo_lib h demo_epoch_row"
  "row_content demo_lib (demo_epoch_row\<lparr>lr_payload_json := ''x''\<rparr>) = row_content demo_lib demo_epoch_row"
  by (simp_all add: row_links_def row_content_def event_of_row_def demo_epoch_row_def demo_parse_json_def
      demo_parse_time_def)

theorem last_hash_pins_history_witness:
  "l_rows demo_second \<noteq> l_rows demo_variant
   \<and> (map (row_content demo_lib) (l_rows demo_second) = map (row_content demo_lib) (l_rows demo_variant)
      \<or> sha_collision demo_lib)"
proof -
  have inv: "table_ok demo_second" "\<not> l_poisoned demo_second"
      "chained demo_lib GENESIS_HASH (l_rows demo_second)"
    using demo_inv by (auto simp: ledger_inv_def intro: numbered_table_ok)
  then have inv': "table_ok demo_variant" "\<not> l_poisoned demo_variant"
      "chained demo_lib GENESIS_HASH (l_rows demo_variant)"
    by (simp_all add: table_ok_def demo_variant_def demo_second_def demo_variant_links)
  have nul: "list_all row_nul_free (l_rows demo_second)" "list_all row_nul_free (l_rows demo_variant)"
    by (simp_all add: demo_variant_def demo_second_def demo_row_def demo_epoch_row_def row_nul_free_def)
  have v: "verify_ledger demo_lib demo_second = Inr 2" "verify_ledger demo_lib demo_variant = Inr 2"
    using verify_ledger_exact [OF inv(1,2)] verify_ledger_exact [OF inv'(1,2)] inv(3) inv'(3)
    by (simp_all add: demo_variant_def demo_second_def)
  have "tail_hash GENESIS_HASH (l_rows demo_second) = tail_hash GENESIS_HASH (l_rows demo_variant)"
    by (simp add: demo_variant_def demo_second_def)
  moreover have "l_rows demo_second \<noteq> l_rows demo_variant"
    by (simp add: demo_variant_def demo_second_def demo_epoch_row_def)
  ultimately show ?thesis
    using last_hash_pins_history [OF demo_lib_time(1) demo_lib_json demo_lib_digest inv(1) inv'(1) inv(2)
        inv'(2) v nul] by blast
qed

text \<open>
  A fencing epoch is never published without its evidence: in every ledger the program can
  produce, for every scope and every epoch up to the current one the ledger holds an
  \<open>authority.epoch.advanced\<close> event of that scope with that epoch as payload; and no later operation
  removes or alters a recorded event.
\<close>

theorem published_epoch_has_evidence:
  assumes "time_format_ok LB" and "(ledger_step LB)\<^sup>*\<^sup>* open_ledger st"
    and "(ledger_step LB)\<^sup>*\<^sup>* st st'"
    and "current_fencing_epoch scope st = Inr c" and "0 < n" and "n \<le> c"
  shows "\<exists>i < length (l_rows st). epoch_evidence LB scope n (l_rows st ! i)
    \<and> i < length (l_rows st') \<and> l_rows st' ! i = l_rows st ! i"
proof -
  have inv: "epochs_evidenced LB st" using reachable_inv [OF assms(1,2)] by (simp add: ledger_inv_def)
  have "l_epochs st scope = Some c"
    using assms(4,5,6) by (auto simp: current_fencing_epoch_def split: if_splits option.splits)
  with inv assms(5,6) obtain r where "r \<in> set (l_rows st)" "epoch_evidence LB scope n r"
    unfolding epochs_evidenced_def by blast
  then obtain i where "i < length (l_rows st)" "epoch_evidence LB scope n (l_rows st ! i)"
    by (auto simp: in_set_conv_nth)
  with evidence_log.entry_kept [OF assms(3)] show ?thesis by blast
qed

theorem published_epoch_has_evidence_witness:
  "\<exists>i < 2. epoch_evidence demo_lib ''fabric'' 1 (l_rows demo_second ! i)"
proof -
  have "current_fencing_epoch ''fabric'' demo_second = Inr 1"
    by (simp add: current_fencing_epoch_def demo_second_def)
  then have "\<exists>i < length (l_rows demo_second). epoch_evidence demo_lib ''fabric'' 1 (l_rows demo_second ! i)"
    using published_epoch_has_evidence [OF demo_lib_time(1) demo_reachable rtranclp.rtrancl_refl, of "''fabric''" 1 1]
    by auto
  then show ?thesis by (simp add: demo_second_def numeral_2_eq_2)
qed

text \<open>
  Advancing a fencing epoch either fails and changes nothing, or returns the successor of the
  current epoch of that scope, which is then the current epoch, together with one more event, and
  leaves every other scope alone. It overflows exactly at \<open>i64::MAX\<close>, and with room left the only
  other failures are a poisoned lock and a database error.
\<close>

theorem advance_fencing_epoch_exact:
  assumes "numbered st" and "current_fencing_epoch scope st = Inr c"
  shows "(\<forall>n st'. advance_fencing_epoch LB now scope st = Inr (n, st') \<longrightarrow>
        unat n = unat c + 1 \<and> current_fencing_epoch scope st' = Inr n
        \<and> (\<forall>other. other \<noteq> scope \<longrightarrow> current_fencing_epoch other st' = current_fencing_epoch other st)
        \<and> length (l_rows st') = length (l_rows st) + 1 \<and> epoch_evidence LB scope n (last (l_rows st')))
    \<and> (i64_max \<le> unat c \<longrightarrow> advance_fencing_epoch LB now scope st = Inl (FencingEpochOverflow scope))
    \<and> (unat c < i64_max \<longrightarrow> advance_fencing_epoch LB now scope st \<in>
         {Inl Database} \<union> range Inr)"
proof (intro conjI impI allI)
  from assms(2) have np: "\<not> l_poisoned st" and c: "c = unwrap_or 0 (l_epochs st scope)"
    by (auto simp: current_fencing_epoch_def unwrap_or_def split: if_splits)
  { fix n st' assume a: "advance_fencing_epoch LB now scope st = Inr (n, st')"
    let ?st = "st\<lparr>l_epochs := (l_epochs st)(scope \<mapsto> n)\<rparr>"
    obtain e where e: "append_in_transaction LB now ''authority.epoch.advanced'' scope
        (Some (epoch_payload n)) ?st = Inr (e, st')"
      using advance_Inr(4) [OF a] by blast
    have num: "numbered ?st" using assms(1) by simp
    have eps: "l_epochs st' = (l_epochs st)(scope \<mapsto> n)" "\<not> l_poisoned st'"
      using append_in_transaction_Inr(4,5) [OF e num] np by simp_all
    show "unat n = unat c + 1" using advance_Inr(1) [OF a] c by simp
    show "current_fencing_epoch scope st' = Inr n" using eps by (simp add: current_fencing_epoch_def)
    show "length (l_rows st') = length (l_rows st) + 1" "epoch_evidence LB scope n (last (l_rows st'))"
      using append_in_transaction_Inr(1) [OF e num] by (auto simp: epoch_evidence_def)
    fix other assume "other \<noteq> scope"
    then show "current_fencing_epoch other st' = current_fencing_epoch other st"
      using eps np by (simp add: current_fencing_epoch_def) }
  { assume "i64_max \<le> unat c"
    then have "\<not> c + 1 \<le> i64_max_u64" if "unat c + 1 < 2 ^ 64"
      using that by (simp add: word_le_nat_alt unat_word_ariths)
    then show "advance_fencing_epoch LB now scope st = Inl (FencingEpochOverflow scope)"
      using np c by (auto simp: advance_fencing_epoch_def checked_add_def unwrap_or_def Let_def split: option.splits) }
  { assume lt: "unat c < i64_max"
    then have "c + 1 \<le> i64_max_u64" "unat c + 1 < 2 ^ 64"
      using i64_max_lt by (simp_all add: word_le_nat_alt unat_word_ariths)
    then show "advance_fencing_epoch LB now scope st \<in> {Inl Database} \<union> range Inr"
      using np c by (auto simp: advance_fencing_epoch_def checked_add_def unwrap_or_def Let_def
          append_in_transaction_def split: option.splits) }
qed

theorem advance_fencing_epoch_exact_witness:
  "current_fencing_epoch ''fabric'' demo_first = Inr 0
   \<and> current_fencing_epoch ''fabric'' demo_second = Inr 1
   \<and> current_fencing_epoch ''x'' demo_second = Inr 0"
proof -
  have n: "numbered demo_first" by (simp add: numbered_def demo_first_def i64_max_def)
  have c: "current_fencing_epoch s demo_first = Inr 0" for s
    by (simp add: current_fencing_epoch_def demo_first_def)
  from advance_fencing_epoch_exact [OF n c [of "''fabric''"], of demo_lib 0] demo_advance c
  show ?thesis by simp
qed

text \<open>
  Append and lookup round trip: an event appended to a ledger the program can produce is found
  under its sequence number, and by its type and subject as the newest one, with the same time,
  type, subject and hashes and with a payload of the same JSON text; its sequence is one more than
  the number of earlier events.
\<close>

theorem append_lookup_roundtrip:
  assumes "time_format_ok LB" and "(ledger_step LB)\<^sup>*\<^sup>* open_ledger st" and "payload_stable LB v"
    and app: "append_event LB now event_type subject_id (Some v) st = Inr (e, st')"
  shows "\<exists>w. ll_json_to_string LB w = ll_json_to_string LB v
    \<and> event_at LB (le_sequence e) st' = Inr (Some (e\<lparr>le_payload := w\<rparr>))
    \<and> latest_event_of_type LB event_type st' = Inr (Some (e\<lparr>le_payload := w\<rparr>))
    \<and> latest_event_for_subject_of_type LB subject_id event_type st' = Inr (Some (e\<lparr>le_payload := w\<rparr>))
    \<and> unat (le_sequence e) = length (l_rows st) + 1"
proof -
  have inv: "numbered st" "\<not> l_poisoned st" using reachable_inv [OF assms(1,2)] by (auto simp: ledger_inv_def)
  have a: "append_in_transaction LB now event_type subject_id (Some v) st = Inr (e, st')"
    using app inv by (simp add: append_event_def)
  obtain r where r: "l_rows st' = l_rows st @ [r]" "lr_sequence r = l_autoincrement st + 1"
      "lr_recorded_at r = ll_to_rfc3339 LB now" "lr_payload_json r = ll_json_to_string LB v"
      "lr_event_type r = event_type" "lr_subject_id r = subject_id"
      "e = \<lparr>le_sequence = lr_sequence r, le_recorded_at = now, le_event_type = event_type,
          le_subject_id = subject_id, le_payload = v, le_previous_hash = lr_previous_hash r,
          le_event_hash = lr_event_hash r\<rparr>"
    using append_in_transaction_Inr(1) [OF a inv(1)] by blast
  obtain w where w: "ll_json_to_string LB w = ll_json_to_string LB v"
      "event_of_row LB r = Inr (e\<lparr>le_payload := w\<rparr>)"
    using appended_row_decodes [OF assms(1,3) r(3,4)] r(5,6,7) by auto
  note num = append_numbered [OF a inv(1)]
  have seq: "unat (le_sequence e) = length (l_rows st) + 1"
    using numbered_nth [OF num, of "length (l_rows st)"] r(1,7) by (simp add: nth_append)
  have np: "\<not> l_poisoned st'" using append_in_transaction_Inr(5) [OF a inv(1)] inv(2) by simp
  have "table_ok st'" using numbered_table_ok [OF num] .
  then have bounds: "le_sequence e \<noteq> 0" "le_sequence e \<le> i64_max_u64"
    using r(1,7) by (auto simp: table_ok_def)
  have "\<not> (\<exists>x \<in> set (l_rows st). lr_sequence x = le_sequence e)"
    using \<open>table_ok st'\<close> r(1,7) by (fastforce simp: table_ok_def sorted_wrt_append)
  then have "List.find (\<lambda>x. lr_sequence x = le_sequence e) (l_rows st') = Some r"
    using r(1,7) by (simp add: find_snoc_last)
  then show ?thesis
    using w seq np bounds r(1,5,6)
    by (intro exI [of _ w])
      (simp add: event_at_def latest_event_of_type_def latest_event_for_subject_of_type_def map_result_def)
qed

theorem append_lookup_roundtrip_witness:
  "\<exists>w. event_at demo_lib 1 demo_first = Inr (Some (demo_event\<lparr>le_payload := w\<rparr>))
     \<and> demo_print_json w = ''null''"
  using append_lookup_roundtrip [OF demo_lib_time(1) rtranclp.rtrancl_refl demo_null_stable demo_append]
  by (auto simp: demo_print_json_def demo_event_def)

text \<open>
  An event whose payload does not survive printing and reading back (serde\_json without the
  \<open>float_roundtrip\<close> feature may lose one unit in the last place of a number with a fraction) is
  accepted by append and returned as recorded, and from then on the untouched ledger fails its own
  verification.
\<close>

theorem unstable_payload_breaks_verification:
  assumes "numbered st" and "\<not> payload_stable LB v" and "\<not> sha_collision LB"
    and "time_format_ok LB"
    and app: "append_event LB now event_type subject_id (Some v) st = Inr (e, st')"
  shows "\<exists>err. verify_ledger LB st' = Inl err"
proof -
  have np: "\<not> l_poisoned st" and a: "append_in_transaction LB now event_type subject_id (Some v) st = Inr (e, st')"
    using app by (auto simp: append_event_def split: if_splits)
  obtain r where r: "l_rows st' = l_rows st @ [r]" "lr_recorded_at r = ll_to_rfc3339 LB now"
      "lr_event_type r = event_type" "lr_subject_id r = subject_id"
      "lr_payload_json r = ll_json_to_string LB v"
      "lr_event_hash r = calculate_hash LB (lr_sequence r) now event_type subject_id (ll_json_to_string LB v)
          (tail_hash GENESIS_HASH (l_rows st))"
    using append_in_transaction_Inr(1) [OF a assms(1)] by blast
  have "\<not> row_links LB (tail_hash GENESIS_HASH (l_rows st)) r"
  proof (cases "ll_json_from_str LB (ll_json_to_string LB v)")
    case None
    then show ?thesis using r by (auto simp: row_links_def event_of_row_def split: sum.splits option.splits)
  next
    case (Some w)
    with assms(2) have ne: "ll_json_to_string LB w \<noteq> ll_json_to_string LB v"
      by (simp add: payload_stable_def)
    have "ll_parse_rfc3339 LB (ll_to_rfc3339 LB now) = Some now" using assms(4) by (simp add: time_format_ok_def)
    moreover have "hash_preimage LB n t ty sub (ll_json_to_string LB w) h
        \<noteq> hash_preimage LB n t ty sub (ll_json_to_string LB v) h" for n t ty sub h
      using ne by (simp add: hash_preimage_def)
    then have "calculate_hash LB n t ty sub (ll_json_to_string LB w) h
        \<noteq> calculate_hash LB n t ty sub (ll_json_to_string LB v) h" for n t ty sub h
      using assms(3) unfolding calculate_hash_def sha_collision_def by blast
    ultimately show ?thesis
      using r Some by (auto simp: row_links_def event_of_row_def)
  qed
  then have "\<not> chained LB GENESIS_HASH (l_rows st')" by (simp add: r(1))
  moreover have "table_ok st'" "\<not> l_poisoned st'"
    using append_numbered [OF a assms(1)] numbered_table_ok append_in_transaction_Inr(5) [OF a assms(1)] np by auto
  ultimately show ?thesis
    using verify_ledger_exact [of st' LB] by (cases "verify_ledger LB st'") auto
qed

theorem unstable_payload_breaks_verification_witness:
  "\<exists>e st'. append_event demo_lib_id 0 ''benchmark'' ''node'' (Some (JFloat 2)) open_ledger = Inr (e, st')
     \<and> (\<exists>err. verify_ledger demo_lib_id st' = Inl err)"
proof -
  have n: "numbered open_ledger" by (simp add: numbered_def open_ledger_def)
  have u: "\<not> payload_stable demo_lib_id (JFloat 2)"
    by (simp add: payload_stable_def demo_print_json_def demo_parse_json_def)
  obtain e st' where a: "append_event demo_lib_id 0 ''benchmark'' ''node'' (Some (JFloat 2)) open_ledger = Inr (e, st')"
    by (simp add: append_event_def append_in_transaction_def open_ledger_def Let_def i64_max_u64_def)
  with unstable_payload_breaks_verification [OF n u demo_lib_id_injective demo_lib_time(2) a]
  show ?thesis by blast
qed

text \<open>
  The bounded queries return exact windows of the history: in a ledger the program can
  produce, \<open>events\<close> returns the events after the given sequence up to the limit (at most 10,000),
  and \<open>latest_events\<close> the last events of the history in chronological order.
\<close>

theorem event_windows_exact:
  assumes "time_format_ok LB" and "(ledger_step LB)\<^sup>*\<^sup>* open_ledger st"
  shows "\<exists>history. map (event_of_row LB) (l_rows st) = map Inr history
    \<and> (\<forall>after limit. after \<le> i64_max_u64 \<longrightarrow>
         events LB after limit st = Inr (take (page_limit limit) (drop (unat after) history)))
    \<and> (\<forall>limit. latest_events LB limit st = Inr (drop (length history - page_limit limit) history))"
proof -
  have inv: "numbered st" "\<not> l_poisoned st" "chained LB GENESIS_HASH (l_rows st)"
    using reachable_inv [OF assms] by (auto simp: ledger_inv_def)
  obtain history where h: "map (event_of_row LB) (l_rows st) = map Inr history"
    using chained_collect [OF inv(3)] by blast
  have "events LB after limit st = Inr (take (page_limit limit) (drop (unat after) history))"
    if "after \<le> i64_max_u64" for after limit
  proof -
    have "map (event_of_row LB) (take (page_limit limit) (drop (unat after) (l_rows st)))
        = map Inr (take (page_limit limit) (drop (unat after) history))"
      using h by (simp flip: take_map drop_map)
    then show ?thesis using events_page [OF inv(2) that] numbered_filter [OF inv(1)] by simp
  qed
  moreover have "latest_events LB limit st = Inr (drop (length history - page_limit limit) history)" for limit
  proof -
    have "map (event_of_row LB) (take (page_limit limit) (rev (l_rows st)))
        = map Inr (take (page_limit limit) (rev history))"
      using h by (metis rev_map take_map)
    then show ?thesis using inv(2) by (simp add: latest_events_def map_result_def take_rev)
  qed
  ultimately show ?thesis using h by blast
qed

theorem event_windows_exact_witness:
  "\<exists>history. length history = 2 \<and> latest_events demo_lib 1 demo_second = Inr (drop 1 history)"
proof -
  obtain history where h: "map (event_of_row demo_lib) (l_rows demo_second) = map Inr history"
      "latest_events demo_lib 1 demo_second = Inr (drop (length history - page_limit 1) history)"
    using event_windows_exact [OF demo_lib_time(1) demo_reachable] by blast
  from arg_cong [OF h(1), of length] have "length history = 2" by (simp add: demo_second_def)
  with h(2) show ?thesis by (auto simp: page_limit_def)
qed

end
