(* ===== verification/Rampage_Storage.thy ===== *)
theory Rampage_Storage
  imports Rampage_Protocol "HOL-Library.AList"
begin

text \<open>
  The encrypted content-addressed store (\<open>crates/rampage-storage/src/lib.rs\<close>). The state is the
  content of the SQLite index (association lists for the tables that are summed or listed, maps
  for the others) and of the directories \<open>objects\<close> and \<open>tmp/transfers\<close>, with the two mutexes as
  flags. An operation returns its result and the state after it, since files written before an
  error stay on disk while the SQL transaction is rolled back. Writing, renaming and syncing files
  succeeds unless the target is in the way; staging names, the quarantine directory and the
  columns \<open>created_at\<close> and \<open>updated_at\<close> of the index, which nothing reads, are not part of the state.
  SHA-256, AES-GCM, hexadecimal coding and the JSON form of a manifest are the parameter
  \<open>cas_lib\<close>; random nonces and the clock are arguments.
\<close>

section \<open>Results\<close>

text \<open>The question mark operator: continue with the value or return the error.\<close>

definition and_then :: "'e + 'a \<Rightarrow> ('a \<Rightarrow> 'e + 'b) \<Rightarrow> 'e + 'b" where
  "and_then r f = (case r of Inl e \<Rightarrow> Inl e | Inr x \<Rightarrow> f x)"

lemma and_then_simps [simp]: "and_then (Inl e) f = Inl e" "and_then (Inr x) f = f x"
  by (simp_all add: and_then_def)

lemma and_then_Inr: "and_then r f = Inr y \<longleftrightarrow> (\<exists>x. r = Inr x \<and> f x = Inr y)"
  by (cases r) auto

definition ensure :: "bool \<Rightarrow> 'e \<Rightarrow> 'e + unit" where
  "ensure b e = (if b then Inr () else Inl e)"

lemma ensure_Inr [simp]: "ensure b e = Inr u \<longleftrightarrow> b"
  by (simp add: ensure_def)

lemma ensure_True [simp]: "ensure True e = Inr ()"
  by (simp add: ensure_def)

section \<open>Data\<close>

definition DEFAULT_CHUNK_SIZE :: nat where
  "DEFAULT_CHUNK_SIZE = 4 * 1024 * 1024"

definition MAX_MANIFEST_BYTES :: nat where
  "MAX_MANIFEST_BYTES = 1024 * 1024"

definition MAX_ENCRYPTED_CHUNK_BYTES :: nat where
  "MAX_ENCRYPTED_CHUNK_BYTES = DEFAULT_CHUNK_SIZE + 64"

definition RESUMABLE_CHUNK_SIZE :: u32 where
  "RESUMABLE_CHUNK_SIZE = of_nat DEFAULT_CHUNK_SIZE"

record storage_limits =
  cache_bytes :: u64
  scratch_bytes :: u64
  protected_bytes :: u64

fun for_class :: "storage_limits \<Rightarrow> storage_class \<Rightarrow> u64" where
  "for_class l Cache = cache_bytes l"
| "for_class l Scratch = scratch_bytes l"
| "for_class l Protected = protected_bytes l"

record resumable_put_spec =
  rs_session_id :: string
  rs_lease_id :: string
  rs_authority_scope :: string
  rs_fencing_epoch :: u64
  rs_authority_nonce :: string
  rs_expires_at :: datetime
  rs_digest :: string
  rs_size_bytes :: u64
  rs_media_type :: string
  rs_storage_class :: storage_class
  rs_required_replicas :: u8
  rs_chunk_size :: u32

record resumable_put_status =
  st_session_id :: string
  st_digest :: string
  st_size_bytes :: u64
  st_chunk_size :: u32
  st_chunk_count :: u32
  st_received_chunks :: "u32 list"
  st_missing_chunks :: "u32 list"
  st_complete :: bool

record artifact_chunk_layout =
  cl_digest :: string
  cl_size_bytes :: u64
  cl_chunk_count :: u32

record put_options =
  po_media_type :: string
  po_storage_class :: storage_class
  po_required_replicas :: u8

definition put_options_default :: put_options where
  "put_options_default = \<lparr>po_media_type = ''application/octet-stream'', po_storage_class = Cache,
     po_required_replicas = 1\<rparr>"

record chunk_record =
  cr_index :: u32
  cr_nonce :: string
  cr_plaintext_size :: u64
  cr_ciphertext_digest :: string

record manifest =
  mf_schema :: string
  mf_plaintext_digest :: string
  mf_plaintext_size :: u64
  mf_media_type :: string
  mf_storage_class :: storage_class
  mf_required_replicas :: u8
  mf_created_at :: datetime
  mf_chunks :: "chunk_record list"

record artifact_contract =
  ac_artifact :: artifact_ref
  ac_required_replicas :: u8

datatype io_kind = IoNotFound | IoOther

datatype storage_error = Io io_kind | Database | ManifestJson | InvalidManifest | Crypto
  | NotFound string | DigestMismatch | ArtifactConflict | StorageQuotaExceeded | InvalidDigest
  | ProtectedRequiresReplication | InvalidAuthority | ExpiredAuthority | ReplayedAuthorityNonce
  | StaleFencingEpoch u64 u64 | InvalidTransfer | TransferNotFound string | TransferConflict
  | TransferExpired | ChunkOutOfRange | ChunkSizeMismatch | ChunkDigestMismatch
  | TransferIncomplete | Poisoned

text \<open>Library code: the digest as hexadecimal text, authenticated encryption under the store's key
  and a nonce, hexadecimal coding of nonces, and the JSON form of a manifest.\<close>

record cas_lib =
  cl_sha256_hex :: "string \<Rightarrow> string"
  cl_encrypt :: "string \<Rightarrow> string \<Rightarrow> string option"
  cl_decrypt :: "string \<Rightarrow> string \<Rightarrow> string option"
  cl_hex_encode :: "string \<Rightarrow> string"
  cl_hex_decode :: "string \<Rightarrow> string option"
  cl_manifest_to_vec :: "manifest \<Rightarrow> string"
  cl_manifest_from_slice :: "string \<Rightarrow> manifest option"

section \<open>State\<close>

text \<open>A path inside an object or transfer directory: a regular file with its bytes, a symbolic
  link (does it lead to a regular file?) or a directory.\<close>

datatype file_entry = Regular string | Symlink bool | Directory

fun is_file :: "file_entry \<Rightarrow> bool" where
  "is_file (Regular _) = True"
| "is_file (Symlink b) = b"
| "is_file Directory = False"

fun file_exists :: "file_entry \<Rightarrow> bool" where
  "file_exists (Symlink b) = b"
| "file_exists _ = True"

definition is_file_at :: "file_entry option \<Rightarrow> bool" where
  "is_file_at f = (case f of None \<Rightarrow> False | Some e \<Rightarrow> is_file e)"

record object_dir =
  od_manifest :: "file_entry option"
  od_chunks :: "u32 \<rightharpoonup> file_entry"

text \<open>The path of an object: a directory, a file, or a symbolic link (does its target exist, and
  does it hold a manifest file?).\<close>

datatype object_entry = ObjDir object_dir | ObjFile | ObjSymlink bool bool

fun object_exists :: "object_entry \<Rightarrow> bool" where
  "object_exists (ObjSymlink e _) = e"
| "object_exists _ = True"

fun object_has_manifest :: "object_entry \<Rightarrow> bool" where
  "object_has_manifest (ObjDir d) = is_file_at (od_manifest d)"
| "object_has_manifest ObjFile = False"
| "object_has_manifest (ObjSymlink _ m) = m"

record artifact_row =
  aw_size_bytes :: u64
  aw_media_type :: string
  aw_storage_class :: string
  aw_required_replicas :: u8

record durable_put_session =
  ds_lease_id :: string
  ds_authority_scope :: string
  ds_fencing_epoch :: int
  ds_authority_nonce :: string
  ds_expires_at_millis :: int
  ds_digest :: string
  ds_size_bytes :: int
  ds_media_type :: string
  ds_storage_class :: string
  ds_required_replicas :: int
  ds_chunk_size :: int
  ds_chunk_count :: int
  ds_state :: string

record chunk_row =
  cw_plaintext_size :: u64
  cw_plaintext_digest :: string
  cw_nonce :: string
  cw_ciphertext_digest :: string

record cas_store =
  cs_objects :: "string \<rightharpoonup> object_entry"
  cs_transfers :: "string \<rightharpoonup> object_dir"
  cs_artifacts :: "(string \<times> artifact_row) list"
  cs_fences :: "string \<rightharpoonup> int"
  cs_nonces :: "string \<times> string \<rightharpoonup> int"
  cs_sessions :: "(string \<times> durable_put_session) list"
  cs_chunks :: "((string \<times> u32) \<times> chunk_row) list"
  cs_chunk_size :: nat
  cs_limits :: "storage_limits option"
  cs_index_poisoned :: bool
  cs_mutations_poisoned :: bool

definition open_with_limits :: "storage_limits option \<Rightarrow> cas_store" where
  "open_with_limits limits = \<lparr>cs_objects = Map.empty, cs_transfers = Map.empty, cs_artifacts = [],
     cs_fences = Map.empty, cs_nonces = Map.empty, cs_sessions = [], cs_chunks = [],
     cs_chunk_size = DEFAULT_CHUNK_SIZE, cs_limits = limits, cs_index_poisoned = False,
     cs_mutations_poisoned = False\<rparr>"

section \<open>Paths and small helpers\<close>

definition is_lower_hex :: "string \<Rightarrow> bool" where
  "is_lower_hex s = list_all is_lower_hex_digit s"

text \<open>The path functions only check their argument; the path itself is the key of the state.\<close>

definition object_dir_ok :: "string \<Rightarrow> storage_error + unit" where
  "object_dir_ok digest =
     (case strip_prefix ''sha256:'' digest of
        None \<Rightarrow> Inl InvalidDigest
      | Some hash \<Rightarrow> ensure (length hash = 64 \<and> is_lower_hex hash) InvalidDigest)"

definition transfer_dir_ok :: "string \<Rightarrow> storage_error + unit" where
  "transfer_dir_ok session_id = ensure (length session_id = 32 \<and> is_lower_hex session_id) InvalidTransfer"

fun storage_class_name :: "storage_class \<Rightarrow> string" where
  "storage_class_name Cache = ''cache''"
| "storage_class_name Scratch = ''scratch''"
| "storage_class_name Protected = ''protected''"

definition parse_storage_class :: "string \<Rightarrow> storage_error + storage_class" where
  "parse_storage_class s =
     (if s = ''cache'' then Inr Cache else if s = ''scratch'' then Inr Scratch
      else if s = ''protected'' then Inr Protected else Inl InvalidTransfer)"

definition sha256_digest :: "cas_lib \<Rightarrow> string \<Rightarrow> string" where
  "sha256_digest LB bytes = ''sha256:'' @ cl_sha256_hex LB bytes"

definition decode_nonce :: "cas_lib \<Rightarrow> string \<Rightarrow> storage_error + string" where
  "decode_nonce LB encoded =
     (case cl_hex_decode LB encoded of None \<Rightarrow> Inl Crypto
      | Some bytes \<Rightarrow> if length bytes = 12 then Inr bytes else Inl Crypto)"

definition read_regular_file_bounded :: "file_entry option \<Rightarrow> nat \<Rightarrow> storage_error + string" where
  "read_regular_file_bounded f max_bytes =
     (case f of None \<Rightarrow> Inl (Io IoNotFound)
      | Some (Regular bytes) \<Rightarrow> if length bytes > max_bytes then Inl InvalidManifest else Inr bytes
      | Some _ \<Rightarrow> Inl InvalidManifest)"

fun is_repairable_object_error :: "storage_error \<Rightarrow> bool" where
  "is_repairable_object_error DigestMismatch = True"
| "is_repairable_object_error InvalidManifest = True"
| "is_repairable_object_error ManifestJson = True"
| "is_repairable_object_error (NotFound _) = True"
| "is_repairable_object_error (Io IoNotFound) = True"
| "is_repairable_object_error _ = False"

definition chunk_count :: "u64 \<Rightarrow> u32 \<Rightarrow> storage_error + u32" where
  "chunk_count size_bytes chunk_size =
     (if size_bytes = 0 \<or> chunk_size = 0 then Inl InvalidTransfer
      else case u32_try_from (div_ceil size_bytes (ucast chunk_size)) of
        None \<Rightarrow> Inl InvalidTransfer | Some n \<Rightarrow> Inr n)"

definition expected_chunk_size :: "u64 \<Rightarrow> u32 \<Rightarrow> u32 \<Rightarrow> storage_error + u64" where
  "expected_chunk_size size_bytes chunk_size index =
     and_then (chunk_count size_bytes chunk_size) (\<lambda>count.
       if index \<ge> count then Inl ChunkOutOfRange
       else let offset = ucast index * ucast chunk_size :: u64
            in Inr (min (size_bytes - offset) (ucast chunk_size)))"

section \<open>Manifests\<close>

text \<open>The loop of \<open>validate_manifest\<close> over the chunks that remain, from their index and the
  bytes seen so far.\<close>

fun validate_manifest_chunks ::
  "u64 \<Rightarrow> u64 \<Rightarrow> u64 \<Rightarrow> nat \<Rightarrow> chunk_record list \<Rightarrow> storage_error + u64" where
  "validate_manifest_chunks plaintext_size nominal total_bytes expected_index [] = Inr total_bytes"
| "validate_manifest_chunks plaintext_size nominal total_bytes expected_index (chunk # rest) =
     (case checked_sub plaintext_size total_bytes of None \<Rightarrow> Inl InvalidManifest
      | Some remaining \<Rightarrow>
        let is_last = (rest = []);
            expected_size = (if is_last then remaining else nominal)
        in if is_last \<and> remaining > nominal then Inl InvalidManifest
           else if cr_index chunk \<noteq> of_nat expected_index \<or> cr_plaintext_size chunk = 0
              \<or> cr_plaintext_size chunk \<noteq> expected_size \<or> length (cr_nonce chunk) \<noteq> 24
              \<or> \<not> is_lower_hex (cr_nonce chunk) \<or> length (cr_ciphertext_digest chunk) \<noteq> 64
              \<or> \<not> is_lower_hex (cr_ciphertext_digest chunk)
           then Inl InvalidManifest
           else case checked_add total_bytes (cr_plaintext_size chunk) of None \<Rightarrow> Inl InvalidManifest
             | Some total' \<Rightarrow>
                 validate_manifest_chunks plaintext_size nominal total' (expected_index + 1) rest)"

definition validate_manifest :: "string \<Rightarrow> manifest \<Rightarrow> storage_error + unit" where
  "validate_manifest expected_digest m =
     (if mf_schema m \<noteq> ''rampage.cas-manifest.v1'' \<or> mf_plaintext_digest m \<noteq> expected_digest
        \<or> mf_plaintext_size m > MAX_ARTIFACT_TRANSFER_BYTES \<or> mf_media_type m = []
        \<or> length (mf_media_type m) > 255 \<or> \<not> is_ascii (mf_media_type m)
        \<or> mf_required_replicas m = 0
        \<or> (mf_storage_class m = Protected \<and> mf_required_replicas m < 2)
        \<or> (mf_plaintext_size m = 0) \<noteq> (mf_chunks m = [])
      then Inl InvalidManifest
      else let nominal = (case mf_chunks m of [] \<Rightarrow> 0 | c # _ \<Rightarrow> cr_plaintext_size c)
           in if nominal > of_nat DEFAULT_CHUNK_SIZE then Inl InvalidManifest
              else and_then (validate_manifest_chunks (mf_plaintext_size m) nominal 0 0 (mf_chunks m))
                (\<lambda>total_bytes. ensure (total_bytes = mf_plaintext_size m) InvalidManifest))"

definition artifact_contract_from_manifest :: "string \<Rightarrow> manifest \<Rightarrow> artifact_contract" where
  "artifact_contract_from_manifest digest m =
     \<lparr>ac_artifact = \<lparr>ar_schema = ''rampage.artifact-ref.v1'', ar_digest = digest,
        ar_size_bytes = mf_plaintext_size m, ar_media_type = mf_media_type m,
        ar_storage_class = mf_storage_class m, ar_encrypted = True\<rparr>,
      ac_required_replicas = mf_required_replicas m\<rparr>"

definition ensure_artifact_contract ::
  "artifact_contract \<Rightarrow> u64 \<Rightarrow> string \<Rightarrow> storage_class \<Rightarrow> u8 \<Rightarrow> storage_error + unit" where
  "ensure_artifact_contract existing size_bytes media_type class required_replicas =
     ensure (ar_size_bytes (ac_artifact existing) = size_bytes
       \<and> ar_media_type (ac_artifact existing) = media_type
       \<and> ar_storage_class (ac_artifact existing) = class
       \<and> ac_required_replicas existing = required_replicas) ArtifactConflict"

section \<open>Reading objects\<close>

definition read_manifest :: "cas_lib \<Rightarrow> string \<Rightarrow> cas_store \<Rightarrow> storage_error + manifest" where
  "read_manifest LB digest st =
     and_then (object_dir_ok digest) (\<lambda>_.
       case cs_objects st digest of
         None \<Rightarrow> Inl (NotFound digest)
       | Some (ObjDir d) \<Rightarrow>
           if \<not> is_file_at (od_manifest d) then Inl (NotFound digest)
           else and_then (read_regular_file_bounded (od_manifest d) MAX_MANIFEST_BYTES) (\<lambda>bytes.
             case cl_manifest_from_slice LB bytes of None \<Rightarrow> Inl ManifestJson
             | Some m \<Rightarrow> and_then (validate_manifest digest m) (\<lambda>_. Inr m))
       | Some _ \<Rightarrow> Inl InvalidManifest)"

definition chunk_files :: "string \<Rightarrow> cas_store \<Rightarrow> u32 \<rightharpoonup> file_entry" where
  "chunk_files digest st = (case cs_objects st digest of Some (ObjDir d) \<Rightarrow> od_chunks d | _ \<Rightarrow> Map.empty)"

text \<open>Read one chunk file, check its digest, decrypt it and check its length.\<close>

definition open_chunk ::
  "cas_lib \<Rightarrow> (u32 \<rightharpoonup> file_entry) \<Rightarrow> u32 \<Rightarrow> string \<Rightarrow> string \<Rightarrow> u64 \<Rightarrow> storage_error + string" where
  "open_chunk LB files index nonce ciphertext_digest plaintext_size =
     and_then (read_regular_file_bounded (files index) MAX_ENCRYPTED_CHUNK_BYTES) (\<lambda>ciphertext.
       if cl_sha256_hex LB ciphertext \<noteq> ciphertext_digest then Inl DigestMismatch
       else and_then (decode_nonce LB nonce) (\<lambda>n.
         case cl_decrypt LB n ciphertext of None \<Rightarrow> Inl Crypto
         | Some plaintext \<Rightarrow>
             if of_nat (length plaintext) \<noteq> plaintext_size then Inl DigestMismatch else Inr plaintext))"

definition open_record :: "cas_lib \<Rightarrow> (u32 \<rightharpoonup> file_entry) \<Rightarrow> chunk_record \<Rightarrow> storage_error + string" where
  "open_record LB files r =
     open_chunk LB files (cr_index r) (cr_nonce r) (cr_ciphertext_digest r) (cr_plaintext_size r)"

fun read_chunks :: "cas_lib \<Rightarrow> (u32 \<rightharpoonup> file_entry) \<Rightarrow> chunk_record list \<Rightarrow> storage_error + string" where
  "read_chunks LB files [] = Inr []"
| "read_chunks LB files (r # rs) =
     and_then (open_record LB files r) (\<lambda>chunk.
       and_then (read_chunks LB files rs) (\<lambda>plaintext. Inr (chunk @ plaintext)))"

definition get :: "cas_lib \<Rightarrow> string \<Rightarrow> cas_store \<Rightarrow> storage_error + string" where
  "get LB digest st =
     and_then (object_dir_ok digest) (\<lambda>_.
       if \<not> (case cs_objects st digest of None \<Rightarrow> False | Some e \<Rightarrow> object_has_manifest e)
       then Inl (NotFound digest)
       else and_then (read_manifest LB digest st) (\<lambda>m.
         and_then (read_chunks LB (chunk_files digest st) (mf_chunks m)) (\<lambda>plaintext.
           let actual = sha256_digest LB plaintext
           in if actual \<noteq> digest \<or> actual \<noteq> mf_plaintext_digest m then Inl DigestMismatch
              else Inr plaintext)))"

text \<open>The loop of \<open>verify_object\<close>: the bytes seen so far and their count.\<close>

fun verify_chunks ::
  "cas_lib \<Rightarrow> (u32 \<rightharpoonup> file_entry) \<Rightarrow> string \<Rightarrow> u64 \<Rightarrow> chunk_record list \<Rightarrow> storage_error + string \<times> u64" where
  "verify_chunks LB files seen plaintext_size [] = Inr (seen, plaintext_size)"
| "verify_chunks LB files seen plaintext_size (r # rs) =
     and_then (open_record LB files r) (\<lambda>plaintext.
       case checked_add plaintext_size (of_nat (length plaintext)) of None \<Rightarrow> Inl InvalidManifest
       | Some size' \<Rightarrow> verify_chunks LB files (seen @ plaintext) size' rs)"

definition verify_object :: "cas_lib \<Rightarrow> string \<Rightarrow> cas_store \<Rightarrow> storage_error + artifact_contract" where
  "verify_object LB digest st =
     and_then (object_dir_ok digest) (\<lambda>_.
       and_then (read_manifest LB digest st) (\<lambda>m.
         and_then (verify_chunks LB (chunk_files digest st) [] 0 (mf_chunks m)) (\<lambda>(seen, plaintext_size).
           if sha256_digest LB seen \<noteq> digest \<or> plaintext_size \<noteq> mf_plaintext_size m
           then Inl DigestMismatch else Inr (artifact_contract_from_manifest digest m))))"

definition head :: "cas_lib \<Rightarrow> string \<Rightarrow> cas_store \<Rightarrow> storage_error + artifact_ref" where
  "head LB digest st =
     and_then (read_manifest LB digest st) (\<lambda>m.
       let contract = artifact_contract_from_manifest digest m
       in if cs_index_poisoned st then Inl Poisoned
          else case map_of (cs_artifacts st) digest of None \<Rightarrow> Inl (NotFound digest)
          | Some row \<Rightarrow>
              and_then (parse_storage_class (aw_storage_class row)) (\<lambda>class.
                and_then (ensure_artifact_contract contract (aw_size_bytes row) (aw_media_type row) class
                    (aw_required_replicas row)) (\<lambda>_. Inr (ac_artifact contract))))"

definition verify :: "cas_lib \<Rightarrow> string \<Rightarrow> cas_store \<Rightarrow> storage_error + artifact_ref" where
  "verify LB digest st =
     and_then (verify_object LB digest st) (\<lambda>verified.
       and_then (head LB digest st) (\<lambda>_. Inr (ac_artifact verified)))"

definition chunk_layout :: "cas_lib \<Rightarrow> string \<Rightarrow> cas_store \<Rightarrow> storage_error + artifact_chunk_layout" where
  "chunk_layout LB digest st =
     and_then (read_manifest LB digest st) (\<lambda>m.
       Inr \<lparr>cl_digest = mf_plaintext_digest m, cl_size_bytes = mf_plaintext_size m,
         cl_chunk_count = of_nat (length (mf_chunks m))\<rparr>)"

definition get_chunk :: "cas_lib \<Rightarrow> string \<Rightarrow> u32 \<Rightarrow> cas_store \<Rightarrow> storage_error + string" where
  "get_chunk LB digest index st =
     and_then (object_dir_ok digest) (\<lambda>_.
       and_then (read_manifest LB digest st) (\<lambda>m.
         if unat index < length (mf_chunks m) \<and> cr_index (mf_chunks m ! unat index) = index
         then let r = mf_chunks m ! unat index
              in open_chunk LB (chunk_files digest st) index (cr_nonce r) (cr_ciphertext_digest r)
                   (cr_plaintext_size r)
         else Inl ChunkOutOfRange))"

section \<open>Authority\<close>

definition i64_try_from :: "u64 \<Rightarrow> int option" where
  "i64_try_from x = (if unat x \<le> i64_max then Some (uint x) else None)"

definition ensure_epoch_is_current :: "string \<Rightarrow> u64 \<Rightarrow> cas_store \<Rightarrow> storage_error + unit" where
  "ensure_epoch_is_current scope fencing_epoch st =
     (case cs_fences st scope of None \<Rightarrow> Inr ()
      | Some current \<Rightarrow>
          if fencing_epoch < of_int current then Inl (StaleFencingEpoch (of_int current) fencing_epoch)
          else Inr ())"

definition delete_expired_nonces :: "int \<Rightarrow> cas_store \<Rightarrow> cas_store" where
  "delete_expired_nonces now_millis st = st\<lparr>cs_nonces := (\<lambda>k. case cs_nonces st k of None \<Rightarrow> None
     | Some expires \<Rightarrow> if expires \<le> now_millis then None else Some expires)\<rparr>"

definition accept_authority_in_transaction ::
  "string \<Rightarrow> u64 \<Rightarrow> string \<Rightarrow> int \<Rightarrow> int \<Rightarrow> cas_store \<Rightarrow> storage_error + cas_store" where
  "accept_authority_in_transaction scope fencing_epoch nonce expires_at_millis now_millis st =
     and_then (ensure_epoch_is_current scope fencing_epoch st) (\<lambda>_.
       let st1 = delete_expired_nonces now_millis st
       in if cs_nonces st1 (scope, nonce) \<noteq> None then Inl ReplayedAuthorityNonce
          else let st2 = st1\<lparr>cs_nonces := (cs_nonces st1)((scope, nonce) \<mapsto> expires_at_millis)\<rparr>
          in case i64_try_from fencing_epoch of None \<Rightarrow> Inl InvalidAuthority
             | Some epoch \<Rightarrow>
                 Inr (st2\<lparr>cs_fences := (cs_fences st2)(scope \<mapsto>
                   (case cs_fences st2 scope of None \<Rightarrow> epoch | Some old \<Rightarrow> max old epoch))\<rparr>))"

definition accept_authority ::
  "string \<Rightarrow> u64 \<Rightarrow> string \<Rightarrow> datetime \<Rightarrow> datetime \<Rightarrow> cas_store \<Rightarrow> (storage_error + unit) \<times> cas_store" where
  "accept_authority scope fencing_epoch nonce expires_at now st =
     (if scope = [] \<or> length scope > 128 \<or> nonce = [] \<or> length nonce > 128
         \<or> \<not> is_ascii scope \<or> \<not> is_ascii nonce
      then (Inl InvalidAuthority, st)
      else if timestamp_millis expires_at \<le> timestamp_millis now then (Inl ExpiredAuthority, st)
      else if cs_index_poisoned st then (Inl Poisoned, st)
      else case accept_authority_in_transaction scope fencing_epoch nonce (timestamp_millis expires_at)
                  (timestamp_millis now) st of
        Inl e \<Rightarrow> (Inl e, st)
      | Inr st' \<Rightarrow> (Inr (), st'))"

section \<open>Index and quota\<close>

text \<open>\<open>INSERT OR IGNORE\<close>, then the stored row is compared with the artifact; an error rolls back.
  A size beyond a signed 64-bit integer cannot be bound as a parameter.\<close>

definition index_artifact_in_transaction ::
  "artifact_ref \<Rightarrow> u8 \<Rightarrow> cas_store \<Rightarrow> storage_error + cas_store" where
  "index_artifact_in_transaction a required_replicas st =
     (if unat (ar_size_bytes a) > i64_max then Inl Database
      else let row = \<lparr>aw_size_bytes = ar_size_bytes a, aw_media_type = ar_media_type a,
                 aw_storage_class = storage_class_name (ar_storage_class a),
                 aw_required_replicas = required_replicas\<rparr>
      in case map_of (cs_artifacts st) (ar_digest a) of
           None \<Rightarrow> Inr (st\<lparr>cs_artifacts := cs_artifacts st @ [(ar_digest a, row)]\<rparr>)
         | Some indexed \<Rightarrow> if indexed = row then Inr st else Inl ArtifactConflict)"

definition index_artifact ::
  "artifact_ref \<Rightarrow> u8 \<Rightarrow> cas_store \<Rightarrow> storage_error + cas_store" where
  "index_artifact a required_replicas st =
     (if cs_index_poisoned st then Inl Poisoned else index_artifact_in_transaction a required_replicas st)"

text \<open>\<open>SUM\<close> over integers is a database error beyond a signed 64-bit integer.\<close>

definition sql_sum :: "nat list \<Rightarrow> storage_error + u64" where
  "sql_sum ns = (if sum_list ns > i64_max then Inl Database else Inr (of_nat (sum_list ns)))"

definition ensure_storage_capacity ::
  "storage_class \<Rightarrow> u64 \<Rightarrow> string option \<Rightarrow> cas_store \<Rightarrow> storage_error + unit" where
  "ensure_storage_capacity class requested_bytes replacing_digest st =
     (case cs_limits st of None \<Rightarrow> Inr ()
      | Some limits \<Rightarrow>
        let limit = for_class limits class;
            name = storage_class_name class;
            excluded = unwrap_or [] replacing_digest;
            already_indexed = list_ex (\<lambda>(d, row). aw_storage_class row = name \<and> d = excluded) (cs_artifacts st)
        in and_then (sql_sum (map (\<lambda>(d, row). unat (aw_size_bytes row))
               (filter (\<lambda>(d, row). aw_storage_class row = name \<and> d \<noteq> excluded) (cs_artifacts st)))) (\<lambda>used.
           and_then (sql_sum (map (\<lambda>(s, row). nat (ds_size_bytes row))
               (filter (\<lambda>(s, row). ds_storage_class row = name \<and> ds_state row = ''active'') (cs_sessions st)))) (\<lambda>reserved.
             case checked_add used reserved of None \<Rightarrow> Inl StorageQuotaExceeded
             | Some subtotal \<Rightarrow>
               (case checked_add subtotal (if already_indexed then 0 else requested_bytes) of
                  None \<Rightarrow> Inl StorageQuotaExceeded
                | Some full \<Rightarrow> if full > limit then Inl StorageQuotaExceeded else Inr ()))))"

section \<open>Whole-artifact upload\<close>

text \<open>\<open>slice::chunks\<close>; the chunk size is never zero.\<close>

fun chunks_of :: "nat \<Rightarrow> 'a list \<Rightarrow> 'a list list" where
  "chunks_of n [] = []"
| "chunks_of n (x # xs) = (if n = 0 then [] else take n (x # xs) # chunks_of n (drop n (x # xs)))"

text \<open>Encrypt and write the chunks from the given index on; each gets a fresh random nonce.\<close>

fun encrypt_chunks ::
  "cas_lib \<Rightarrow> (nat \<Rightarrow> string option) \<Rightarrow> nat \<Rightarrow> string list
     \<Rightarrow> storage_error + (chunk_record \<times> string) list" where
  "encrypt_chunks LB random index [] = Inr []"
| "encrypt_chunks LB random index (chunk # rest) =
     (case random index of None \<Rightarrow> Inl Crypto
      | Some nonce \<Rightarrow>
        (case cl_encrypt LB nonce chunk of None \<Rightarrow> Inl Crypto
         | Some ciphertext \<Rightarrow>
             and_then (encrypt_chunks LB random (index + 1) rest) (\<lambda>records.
               Inr ((\<lparr>cr_index = of_nat index, cr_nonce = cl_hex_encode LB nonce,
                  cr_plaintext_size = of_nat (length chunk),
                  cr_ciphertext_digest = cl_sha256_hex LB ciphertext\<rparr>, ciphertext) # records))))"

definition files_of :: "(chunk_record \<times> string) list \<Rightarrow> u32 \<rightharpoonup> file_entry" where
  "files_of records = map_of (map (\<lambda>(r, c). (cr_index r, Regular c)) records)"

text \<open>A fault of the disk or the database: staging the new object or renaming it into place fails; the directory cannot
  be synced after the rename, so that the object is there; the index cannot be written. \<open>NoFault\<close> is the run
  without one, which \<open>put\<close> and \<open>commit_resumable_put\<close> name.\<close>

datatype store_fault = NoFault | PromotionFails | SyncFails | IndexFails

lemma no_fault:
  "(NoFault = PromotionFails) = False" "(NoFault = SyncFails) = False" "(NoFault = IndexFails) = False"
  "(False \<or> b) = b" "(False \<and> b) = False" "(if False then x else y) = y"
  by simp_all

definition index_artifact_io ::
  "store_fault \<Rightarrow> artifact_ref \<Rightarrow> u8 \<Rightarrow> cas_store \<Rightarrow> storage_error + cas_store" where
  "index_artifact_io F a required_replicas st =
     (if F = IndexFails then Inl Database else index_artifact a required_replicas st)"

text \<open>The part of \<open>put\<close> after the check for an existing object.\<close>

definition put_new_io ::
  "store_fault \<Rightarrow> cas_lib \<Rightarrow> datetime \<Rightarrow> (nat \<Rightarrow> string option) \<Rightarrow> string \<Rightarrow> put_options \<Rightarrow> cas_store
     \<Rightarrow> (storage_error + artifact_ref) \<times> cas_store" where
  "put_new_io F LB now random plaintext options st =
     (let digest = sha256_digest LB plaintext;
          size_bytes = of_nat (length plaintext) :: u64
      in if cs_index_poisoned st then (Inl Poisoned, st)
      else case ensure_storage_capacity (po_storage_class options) size_bytes (Some digest) st of
        Inl e \<Rightarrow> (Inl e, st)
      | Inr _ \<Rightarrow>
        (case encrypt_chunks LB random 0 (chunks_of (cs_chunk_size st) plaintext) of
           Inl e \<Rightarrow> (Inl e, st)
         | Inr records \<Rightarrow>
           let m = \<lparr>mf_schema = ''rampage.cas-manifest.v1'', mf_plaintext_digest = digest,
                     mf_plaintext_size = size_bytes, mf_media_type = po_media_type options,
                     mf_storage_class = po_storage_class options,
                     mf_required_replicas = po_required_replicas options, mf_created_at = now,
                     mf_chunks = map fst records\<rparr>;
               staged = ObjDir \<lparr>od_manifest = Some (Regular (cl_manifest_to_vec LB m)),
                     od_chunks = files_of records\<rparr>;
               blocked = (case cs_objects st digest of None \<Rightarrow> False | Some e \<Rightarrow> \<not> object_exists e);
               st1 = (case cs_objects st digest of
                        None \<Rightarrow> st\<lparr>cs_objects := (cs_objects st)(digest \<mapsto> staged)\<rparr>
                      | Some _ \<Rightarrow> st)
           in if F = PromotionFails \<or> blocked then (Inl (Io IoOther), st)
              else if F = SyncFails \<and> cs_objects st digest = None then (Inl (Io IoOther), st1)
              else case verify_object LB digest st1 of Inl e \<Rightarrow> (Inl e, st1)
              | Inr committed \<Rightarrow>
                (case ensure_artifact_contract committed size_bytes (po_media_type options)
                        (po_storage_class options) (po_required_replicas options) of
                   Inl e \<Rightarrow> (Inl e, st1)
                 | Inr _ \<Rightarrow>
                   (case index_artifact_io F (ac_artifact committed) (ac_required_replicas committed) st1 of
                      Inl e \<Rightarrow> (Inl e, st1)
                    | Inr st2 \<Rightarrow> (Inr (ac_artifact committed), st2)))))"

definition put_new ::
  "cas_lib \<Rightarrow> datetime \<Rightarrow> (nat \<Rightarrow> string option) \<Rightarrow> string \<Rightarrow> put_options \<Rightarrow> cas_store
     \<Rightarrow> (storage_error + artifact_ref) \<times> cas_store" where
  "put_new = put_new_io NoFault"

lemma put_new_eq:
  "put_new LB now random plaintext options st =
     (let digest = sha256_digest LB plaintext;
          size_bytes = of_nat (length plaintext) :: u64
      in if cs_index_poisoned st then (Inl Poisoned, st)
      else case ensure_storage_capacity (po_storage_class options) size_bytes (Some digest) st of
        Inl e \<Rightarrow> (Inl e, st)
      | Inr _ \<Rightarrow>
        (case encrypt_chunks LB random 0 (chunks_of (cs_chunk_size st) plaintext) of
           Inl e \<Rightarrow> (Inl e, st)
         | Inr records \<Rightarrow>
           let m = \<lparr>mf_schema = ''rampage.cas-manifest.v1'', mf_plaintext_digest = digest,
                     mf_plaintext_size = size_bytes, mf_media_type = po_media_type options,
                     mf_storage_class = po_storage_class options,
                     mf_required_replicas = po_required_replicas options, mf_created_at = now,
                     mf_chunks = map fst records\<rparr>;
               staged = ObjDir \<lparr>od_manifest = Some (Regular (cl_manifest_to_vec LB m)),
                     od_chunks = files_of records\<rparr>;
               blocked = (case cs_objects st digest of None \<Rightarrow> False | Some e \<Rightarrow> \<not> object_exists e);
               st1 = (case cs_objects st digest of
                        None \<Rightarrow> st\<lparr>cs_objects := (cs_objects st)(digest \<mapsto> staged)\<rparr>
                      | Some _ \<Rightarrow> st)
           in if blocked then (Inl (Io IoOther), st)
              else case verify_object LB digest st1 of Inl e \<Rightarrow> (Inl e, st1)
              | Inr committed \<Rightarrow>
                (case ensure_artifact_contract committed size_bytes (po_media_type options)
                        (po_storage_class options) (po_required_replicas options) of
                   Inl e \<Rightarrow> (Inl e, st1)
                 | Inr _ \<Rightarrow>
                   (case index_artifact (ac_artifact committed) (ac_required_replicas committed) st1 of
                      Inl e \<Rightarrow> (Inl e, st1)
                    | Inr st2 \<Rightarrow> (Inr (ac_artifact committed), st2)))))"
  unfolding put_new_def put_new_io_def index_artifact_io_def no_fault by (rule refl)

definition quarantine_object :: "string \<Rightarrow> cas_store \<Rightarrow> cas_store" where
  "quarantine_object digest st = st\<lparr>cs_objects := (cs_objects st)(digest := None)\<rparr>"

definition object_present :: "string \<Rightarrow> cas_store \<Rightarrow> bool" where
  "object_present digest st = (case cs_objects st digest of None \<Rightarrow> False | Some e \<Rightarrow> object_exists e)"

definition put_io ::
  "store_fault \<Rightarrow> cas_lib \<Rightarrow> datetime \<Rightarrow> (nat \<Rightarrow> string option) \<Rightarrow> string \<Rightarrow> put_options \<Rightarrow> cas_store
     \<Rightarrow> (storage_error + artifact_ref) \<times> cas_store" where
  "put_io F LB now random plaintext options st =
     (if cs_mutations_poisoned st then (Inl Poisoned, st)
      else if po_storage_class options = Protected \<and> po_required_replicas options < 2
      then (Inl ProtectedRequiresReplication, st)
      else let digest = sha256_digest LB plaintext
      in case object_dir_ok digest of Inl e \<Rightarrow> (Inl e, st)
      | Inr _ \<Rightarrow>
        if object_present digest st
        then case verify_object LB digest st of
            Inr existing \<Rightarrow>
              (case ensure_artifact_contract existing (of_nat (length plaintext)) (po_media_type options)
                      (po_storage_class options) (po_required_replicas options) of
                 Inl e \<Rightarrow> (Inl e, st)
               | Inr _ \<Rightarrow>
                 (case index_artifact_io F (ac_artifact existing) (po_required_replicas options) st of
                    Inl e \<Rightarrow> (Inl e, st)
                  | Inr st' \<Rightarrow> (Inr (ac_artifact existing), st')))
          | Inl e \<Rightarrow>
              if is_repairable_object_error e
              then put_new_io F LB now random plaintext options (quarantine_object digest st)
              else (Inl e, st)
        else put_new_io F LB now random plaintext options st)"

definition put ::
  "cas_lib \<Rightarrow> datetime \<Rightarrow> (nat \<Rightarrow> string option) \<Rightarrow> string \<Rightarrow> put_options \<Rightarrow> cas_store
     \<Rightarrow> (storage_error + artifact_ref) \<times> cas_store" where
  "put = put_io NoFault"

lemma put_eq:
  "put LB now random plaintext options st =
     (if cs_mutations_poisoned st then (Inl Poisoned, st)
      else if po_storage_class options = Protected \<and> po_required_replicas options < 2
      then (Inl ProtectedRequiresReplication, st)
      else let digest = sha256_digest LB plaintext
      in case object_dir_ok digest of Inl e \<Rightarrow> (Inl e, st)
      | Inr _ \<Rightarrow>
        if object_present digest st
        then case verify_object LB digest st of
            Inr existing \<Rightarrow>
              (case ensure_artifact_contract existing (of_nat (length plaintext)) (po_media_type options)
                      (po_storage_class options) (po_required_replicas options) of
                 Inl e \<Rightarrow> (Inl e, st)
               | Inr _ \<Rightarrow>
                 (case index_artifact (ac_artifact existing) (po_required_replicas options) st of
                    Inl e \<Rightarrow> (Inl e, st)
                  | Inr st' \<Rightarrow> (Inr (ac_artifact existing), st')))
          | Inl e \<Rightarrow>
              if is_repairable_object_error e
              then put_new LB now random plaintext options (quarantine_object digest st)
              else (Inl e, st)
        else put_new LB now random plaintext options st)"
  unfolding put_def put_io_def put_new_def index_artifact_io_def no_fault by (rule refl)

section \<open>Resumable upload\<close>

definition bounded_ascii :: "nat \<Rightarrow> string \<Rightarrow> bool" where
  "bounded_ascii n s = (s \<noteq> [] \<and> length s \<le> n \<and> is_ascii s)"

definition validate_resumable_spec :: "resumable_put_spec \<Rightarrow> storage_error + unit" where
  "validate_resumable_spec spec =
     (if \<not> bounded_ascii 128 (rs_lease_id spec) \<or> \<not> bounded_ascii 128 (rs_authority_scope spec)
        \<or> \<not> bounded_ascii 128 (rs_authority_nonce spec) \<or> \<not> bounded_ascii 255 (rs_media_type spec)
        \<or> rs_size_bytes spec = 0 \<or> rs_size_bytes spec > MAX_ARTIFACT_TRANSFER_BYTES
        \<or> rs_chunk_size spec = 0 \<or> rs_chunk_size spec > RESUMABLE_CHUNK_SIZE
        \<or> rs_required_replicas spec = 0
        \<or> (rs_storage_class spec = Protected \<and> rs_required_replicas spec < 2)
      then Inl InvalidTransfer
      else and_then (transfer_dir_ok (rs_session_id spec)) (\<lambda>_.
        and_then (chunk_count (rs_size_bytes spec) (rs_chunk_size spec)) (\<lambda>_. Inr ())))"

definition ensure_session_contract ::
  "durable_put_session \<Rightarrow> resumable_put_spec \<Rightarrow> int \<Rightarrow> storage_error + unit" where
  "ensure_session_contract existing spec count =
     ensure (ds_authority_scope existing = rs_authority_scope spec
       \<and> ds_digest existing = rs_digest spec
       \<and> ds_size_bytes existing = uint (rs_size_bytes spec)
       \<and> ds_media_type existing = rs_media_type spec
       \<and> ds_storage_class existing = storage_class_name (rs_storage_class spec)
       \<and> ds_required_replicas existing = uint (rs_required_replicas spec)
       \<and> ds_chunk_size existing = uint (rs_chunk_size spec)
       \<and> ds_chunk_count existing = count) TransferConflict"

definition i64_to_u32 :: "int \<Rightarrow> storage_error + u32" where
  "i64_to_u32 n = (if 0 \<le> n \<and> n < 2 ^ 32 then Inr (of_int n) else Inl InvalidTransfer)"

text \<open>The rows of one session in index order.\<close>

definition session_chunks :: "string \<Rightarrow> cas_store \<Rightarrow> (u32 \<times> chunk_row) list" where
  "session_chunks session_id st =
     sort_key fst (map (\<lambda>((_, i), row). (i, row)) (filter (\<lambda>((s, _), _). s = session_id) (cs_chunks st)))"

definition transfer_files :: "string \<Rightarrow> cas_store \<Rightarrow> u32 \<rightharpoonup> file_entry" where
  "transfer_files session_id st =
     (case cs_transfers st session_id of None \<Rightarrow> Map.empty | Some d \<Rightarrow> od_chunks d)"

definition resumable_put_status_of :: "string \<Rightarrow> cas_store \<Rightarrow> storage_error + resumable_put_status" where
  "resumable_put_status_of session_id st =
     and_then (transfer_dir_ok session_id) (\<lambda>_.
       if cs_index_poisoned st then Inl Poisoned
       else case map_of (cs_sessions st) session_id of None \<Rightarrow> Inl (TransferNotFound session_id)
       | Some session \<Rightarrow>
         let received = filter (\<lambda>i. is_file_at (transfer_files session_id st i))
               (map fst (session_chunks session_id st))
         in and_then (i64_to_u32 (ds_chunk_count session)) (\<lambda>count.
           Inr \<lparr>st_session_id = session_id, st_digest = ds_digest session,
             st_size_bytes = of_int (ds_size_bytes session), st_chunk_size = of_int (ds_chunk_size session),
             st_chunk_count = count, st_received_chunks = received,
             st_missing_chunks = filter (\<lambda>i. i \<notin> set received) (map of_nat [0..<unat count]),
             st_complete = (ds_state session = ''complete'')\<rparr>))"

definition update_session :: "string \<Rightarrow> durable_put_session \<Rightarrow> cas_store \<Rightarrow> cas_store" where
  "update_session session_id session st = st\<lparr>cs_sessions := AList.update session_id session (cs_sessions st)\<rparr>"

definition create_transfer_dir :: "string \<Rightarrow> cas_store \<Rightarrow> cas_store" where
  "create_transfer_dir session_id st =
     (case cs_transfers st session_id of
        None \<Rightarrow> st\<lparr>cs_transfers := (cs_transfers st)(session_id \<mapsto> \<lparr>od_manifest = None, od_chunks = Map.empty\<rparr>)\<rparr>
      | Some _ \<Rightarrow> st)"

text \<open>The SQL transaction of \<open>begin_resumable_put\<close>: \<open>None\<close> when the session is complete already.\<close>

definition begin_transaction ::
  "resumable_put_spec \<Rightarrow> int \<Rightarrow> int \<Rightarrow> u32 \<Rightarrow> cas_store \<Rightarrow> storage_error + cas_store option" where
  "begin_transaction spec now_millis epoch count st =
     (let expires_at_millis = timestamp_millis (rs_expires_at spec);
          authority = accept_authority_in_transaction (rs_authority_scope spec) (rs_fencing_epoch spec)
            (rs_authority_nonce spec) expires_at_millis now_millis
      in case map_of (cs_sessions st) (rs_session_id spec) of
        Some existing \<Rightarrow>
          and_then (ensure_session_contract existing spec (uint count)) (\<lambda>_.
            if ds_state existing = ''complete'' then Inr None
            else if ds_lease_id existing \<noteq> rs_lease_id spec
              \<or> ds_authority_nonce existing \<noteq> rs_authority_nonce spec
              \<or> ds_fencing_epoch existing \<noteq> epoch
              \<or> ds_expires_at_millis existing \<noteq> expires_at_millis
            then and_then (authority st) (\<lambda>st'.
              Inr (Some (update_session (rs_session_id spec)
                (existing\<lparr>ds_lease_id := rs_lease_id spec, ds_fencing_epoch := epoch,
                   ds_authority_nonce := rs_authority_nonce spec,
                   ds_expires_at_millis := expires_at_millis\<rparr>) st')))
            else and_then (ensure_epoch_is_current (rs_authority_scope spec) (rs_fencing_epoch spec) st)
              (\<lambda>_. Inr (Some st)))
      | None \<Rightarrow>
          and_then (ensure_storage_capacity (rs_storage_class spec) (rs_size_bytes spec)
              (Some (rs_digest spec)) st) (\<lambda>_.
            and_then (authority st) (\<lambda>st'.
              Inr (Some (update_session (rs_session_id spec)
                \<lparr>ds_lease_id = rs_lease_id spec, ds_authority_scope = rs_authority_scope spec,
                 ds_fencing_epoch = epoch, ds_authority_nonce = rs_authority_nonce spec,
                 ds_expires_at_millis = expires_at_millis, ds_digest = rs_digest spec,
                 ds_size_bytes = uint (rs_size_bytes spec), ds_media_type = rs_media_type spec,
                 ds_storage_class = storage_class_name (rs_storage_class spec),
                 ds_required_replicas = uint (rs_required_replicas spec),
                 ds_chunk_size = uint (rs_chunk_size spec), ds_chunk_count = uint count,
                 ds_state = ''active''\<rparr> st')))))"

definition begin_checked ::
  "resumable_put_spec \<Rightarrow> datetime \<Rightarrow> cas_store \<Rightarrow> storage_error + cas_store option" where
  "begin_checked spec now st =
     and_then (validate_resumable_spec spec) (\<lambda>_.
       and_then (object_dir_ok (rs_digest spec)) (\<lambda>_.
         if timestamp_millis (rs_expires_at spec) \<le> timestamp_millis now then Inl TransferExpired
         else case i64_try_from (rs_fencing_epoch spec) of None \<Rightarrow> Inl InvalidAuthority
         | Some epoch \<Rightarrow>
           (case i64_try_from (rs_size_bytes spec) of None \<Rightarrow> Inl InvalidTransfer
            | Some _ \<Rightarrow>
              and_then (chunk_count (rs_size_bytes spec) (rs_chunk_size spec)) (\<lambda>count.
                if cs_index_poisoned st then Inl Poisoned
                else begin_transaction spec (timestamp_millis now) epoch count st))))"

definition begin_resumable_put ::
  "resumable_put_spec \<Rightarrow> datetime \<Rightarrow> cas_store \<Rightarrow> (storage_error + resumable_put_status) \<times> cas_store" where
  "begin_resumable_put spec now st =
     (if cs_mutations_poisoned st then (Inl Poisoned, st)
      else case begin_checked spec now st of
        Inl e \<Rightarrow> (Inl e, st)
      | Inr None \<Rightarrow> (resumable_put_status_of (rs_session_id spec) st, st)
      | Inr (Some st') \<Rightarrow>
          let st2 = create_transfer_dir (rs_session_id spec) st'
          in (resumable_put_status_of (rs_session_id spec) st2, st2))"

text \<open>Write the ciphertext of a chunk: an existing path is removed first, which fails for a
  directory.\<close>

definition write_transfer_chunk :: "string \<Rightarrow> u32 \<Rightarrow> string \<Rightarrow> cas_store \<Rightarrow> storage_error + cas_store" where
  "write_transfer_chunk session_id index ciphertext st =
     (let st1 = create_transfer_dir session_id st
      in if transfer_files session_id st1 index = Some Directory then Inl (Io IoOther)
         else Inr (st1\<lparr>cs_transfers := (cs_transfers st1)(session_id :=
           map_option (\<lambda>d. d\<lparr>od_chunks := (od_chunks d)(index \<mapsto> Regular ciphertext)\<rparr>)
             (cs_transfers st1 session_id))\<rparr>))"

text \<open>The checks of \<open>put_resumable_chunk\<close> on an active session: \<open>None\<close> when the chunk is stored
  already, else its digest.\<close>

definition check_chunk ::
  "cas_lib \<Rightarrow> string \<Rightarrow> durable_put_session \<Rightarrow> u32 \<Rightarrow> string \<Rightarrow> string \<Rightarrow> datetime \<Rightarrow> cas_store
     \<Rightarrow> storage_error + string option" where
  "check_chunk LB session_id session index declared_digest plaintext now st =
     (if ds_expires_at_millis session \<le> timestamp_millis now then Inl TransferExpired
      else and_then (ensure_epoch_is_current (ds_authority_scope session) (of_int (ds_fencing_epoch session)) st) (\<lambda>_.
        and_then (i64_to_u32 (ds_chunk_count session)) (\<lambda>count.
          if index \<ge> count then Inl ChunkOutOfRange
          else and_then (expected_chunk_size (of_int (ds_size_bytes session)) (of_int (ds_chunk_size session)) index)
            (\<lambda>expected_size.
              if of_nat (length plaintext) \<noteq> expected_size then Inl ChunkSizeMismatch
              else let actual_digest = sha256_digest LB plaintext
              in if actual_digest \<noteq> declared_digest then Inl ChunkDigestMismatch
              else case map_of (cs_chunks st) (session_id, index) of
                None \<Rightarrow> Inr (Some actual_digest)
              | Some row \<Rightarrow>
                if cw_plaintext_size row \<noteq> expected_size \<or> cw_plaintext_digest row \<noteq> actual_digest
                then Inl TransferConflict
                else if is_file_at (transfer_files session_id st index)
                then and_then (read_regular_file_bounded (transfer_files session_id st index)
                       MAX_ENCRYPTED_CHUNK_BYTES) (\<lambda>stored.
                  Inr (if cl_sha256_hex LB stored = cw_ciphertext_digest row then None else Some actual_digest))
                else Inr (Some actual_digest)))))"

definition put_resumable_chunk ::
  "cas_lib \<Rightarrow> string \<Rightarrow> u32 \<Rightarrow> string \<Rightarrow> string \<Rightarrow> datetime \<Rightarrow> string option \<Rightarrow> cas_store
     \<Rightarrow> (storage_error + resumable_put_status) \<times> cas_store" where
  "put_resumable_chunk LB session_id index declared_digest plaintext now random st =
     (case transfer_dir_ok session_id of Inl e \<Rightarrow> (Inl e, st)
      | Inr _ \<Rightarrow>
        if cs_index_poisoned st then (Inl Poisoned, st)
        else case map_of (cs_sessions st) session_id of None \<Rightarrow> (Inl (TransferNotFound session_id), st)
        | Some session \<Rightarrow>
          if ds_state session = ''complete'' then (resumable_put_status_of session_id st, st)
          else case check_chunk LB session_id session index declared_digest plaintext now st of
            Inl e \<Rightarrow> (Inl e, st)
          | Inr None \<Rightarrow> (resumable_put_status_of session_id st, st)
          | Inr (Some actual_digest) \<Rightarrow>
            (case random of None \<Rightarrow> (Inl Crypto, create_transfer_dir session_id st)
             | Some nonce \<Rightarrow>
               (case cl_encrypt LB nonce plaintext of None \<Rightarrow> (Inl Crypto, create_transfer_dir session_id st)
                | Some ciphertext \<Rightarrow>
                  (case write_transfer_chunk session_id index ciphertext st of
                     Inl e \<Rightarrow> (Inl e, create_transfer_dir session_id st)
                   | Inr st1 \<Rightarrow>
                     let st2 = st1\<lparr>cs_chunks := AList.update (session_id, index)
                           \<lparr>cw_plaintext_size = of_nat (length plaintext), cw_plaintext_digest = actual_digest,
                            cw_nonce = cl_hex_encode LB nonce,
                            cw_ciphertext_digest = cl_sha256_hex LB ciphertext\<rparr> (cs_chunks st1)\<rparr>
                     in (resumable_put_status_of session_id st2, st2)))))"

text \<open>The loop of \<open>commit_resumable_put\<close>: chunks in order, without gaps, each authenticated.\<close>

fun commit_chunks ::
  "cas_lib \<Rightarrow> (u32 \<rightharpoonup> file_entry) \<Rightarrow> nat \<Rightarrow> string \<Rightarrow> u64 \<Rightarrow> (u32 \<times> chunk_row) list
     \<Rightarrow> storage_error + (string \<times> u64)" where
  "commit_chunks LB files expected_index seen plaintext_size [] = Inr (seen, plaintext_size)"
| "commit_chunks LB files expected_index seen plaintext_size ((index, row) # rest) =
     (if index \<noteq> of_nat expected_index then Inl TransferIncomplete
      else and_then (open_chunk LB files index (cw_nonce row) (cw_ciphertext_digest row) (cw_plaintext_size row))
        (\<lambda>plaintext.
          if sha256_digest LB plaintext \<noteq> cw_plaintext_digest row then Inl DigestMismatch
          else commit_chunks LB files (expected_index + 1) (seen @ plaintext)
                 (sat_add plaintext_size (of_nat (length plaintext))) rest))"

definition chunk_record_of_row :: "u32 \<times> chunk_row \<Rightarrow> chunk_record" where
  "chunk_record_of_row = (\<lambda>(index, row). \<lparr>cr_index = index, cr_nonce = cw_nonce row,
     cr_plaintext_size = cw_plaintext_size row, cr_ciphertext_digest = cw_ciphertext_digest row\<rparr>)"

text \<open>The manifest of the transfer directory: an earlier attempt's must describe the same content.\<close>

definition transfer_manifest ::
  "cas_lib \<Rightarrow> string \<Rightarrow> manifest \<Rightarrow> file_entry option \<Rightarrow> storage_error + string" where
  "transfer_manifest LB digest m existing =
     (case existing of None \<Rightarrow> Inr (cl_manifest_to_vec LB m)
      | Some f \<Rightarrow>
        if \<not> file_exists f then Inl (Io IoOther)
        else and_then (read_regular_file_bounded existing MAX_MANIFEST_BYTES) (\<lambda>bytes.
          case cl_manifest_from_slice LB bytes of None \<Rightarrow> Inl ManifestJson
          | Some old \<Rightarrow> and_then (validate_manifest digest old) (\<lambda>_.
              if mf_plaintext_digest old \<noteq> mf_plaintext_digest m \<or> mf_plaintext_size old \<noteq> mf_plaintext_size m
                \<or> mf_media_type old \<noteq> mf_media_type m \<or> mf_storage_class old \<noteq> mf_storage_class m
                \<or> mf_required_replicas old \<noteq> mf_required_replicas m \<or> mf_chunks old \<noteq> mf_chunks m
              then Inl TransferConflict else Inr bytes)))"

text \<open>The last part of a commit: the artifact enters the index and the session is complete.\<close>

definition finish_commit_io ::
  "store_fault \<Rightarrow> string \<Rightarrow> durable_put_session \<Rightarrow> artifact_contract \<Rightarrow> storage_class \<Rightarrow> cas_store
     \<Rightarrow> (storage_error + artifact_ref) \<times> cas_store" where
  "finish_commit_io F session_id session existing class st =
     (case and_then (ensure_artifact_contract existing (of_int (ds_size_bytes session)) (ds_media_type session)
             class (of_int (ds_required_replicas session))) (\<lambda>_.
         index_artifact_in_transaction (ac_artifact existing) (ac_required_replicas existing) st) of
        Inl e \<Rightarrow> (Inl e, st)
      | Inr st' \<Rightarrow>
          if F = IndexFails then (Inl Database, st) else
          (Inr (ac_artifact existing), update_session session_id (session\<lparr>ds_state := ''complete''\<rparr>) st'))"

definition finish_commit ::
  "string \<Rightarrow> durable_put_session \<Rightarrow> artifact_contract \<Rightarrow> storage_class \<Rightarrow> cas_store
     \<Rightarrow> (storage_error + artifact_ref) \<times> cas_store" where
  "finish_commit = finish_commit_io NoFault"

lemma finish_commit_eq:
  "finish_commit session_id session existing class st =
     (case and_then (ensure_artifact_contract existing (of_int (ds_size_bytes session)) (ds_media_type session)
             class (of_int (ds_required_replicas session))) (\<lambda>_.
         index_artifact_in_transaction (ac_artifact existing) (ac_required_replicas existing) st) of
        Inl e \<Rightarrow> (Inl e, st)
      | Inr st' \<Rightarrow>
          (Inr (ac_artifact existing), update_session session_id (session\<lparr>ds_state := ''complete''\<rparr>) st'))"
  unfolding finish_commit_def finish_commit_io_def no_fault by (rule refl)

text \<open>The part of a commit after the check for an existing object: the checks that end in the
  manifest text, then the rename of the transfer directory.\<close>

definition commit_checks ::
  "cas_lib \<Rightarrow> string \<Rightarrow> durable_put_session \<Rightarrow> storage_class \<Rightarrow> datetime \<Rightarrow> cas_store
     \<Rightarrow> storage_error + string" where
  "commit_checks LB session_id session class now st =
     (if ds_state session = ''complete'' then Inl DigestMismatch
      else if ds_expires_at_millis session \<le> timestamp_millis now then Inl TransferExpired
      else and_then (ensure_epoch_is_current (ds_authority_scope session) (of_int (ds_fencing_epoch session)) st) (\<lambda>_.
        let records = session_chunks session_id st
        in if int (length records) \<noteq> ds_chunk_count session then Inl TransferIncomplete
           else and_then (commit_chunks LB (transfer_files session_id st) 0 [] 0 records)
             (\<lambda>(seen, plaintext_size).
               if sha256_digest LB seen \<noteq> ds_digest session \<or> plaintext_size \<noteq> of_int (ds_size_bytes session)
               then Inl DigestMismatch
               else transfer_manifest LB (ds_digest session)
                 \<lparr>mf_schema = ''rampage.cas-manifest.v1'', mf_plaintext_digest = ds_digest session,
                  mf_plaintext_size = plaintext_size, mf_media_type = ds_media_type session,
                  mf_storage_class = class, mf_required_replicas = of_int (ds_required_replicas session),
                  mf_created_at = now, mf_chunks = map chunk_record_of_row records\<rparr>
                 (case cs_transfers st session_id of None \<Rightarrow> None | Some d \<Rightarrow> od_manifest d))))"

definition commit_new_io ::
  "store_fault \<Rightarrow> cas_lib \<Rightarrow> string \<Rightarrow> durable_put_session \<Rightarrow> storage_class \<Rightarrow> datetime \<Rightarrow> cas_store
     \<Rightarrow> (storage_error + artifact_ref) \<times> cas_store" where
  "commit_new_io F LB session_id session class now st =
     (case commit_checks LB session_id session class now st of Inl e \<Rightarrow> (Inl e, st)
      | Inr manifest_bytes \<Rightarrow>
        let digest = ds_digest session;
            promoted = \<lparr>od_manifest = Some (Regular manifest_bytes), od_chunks = transfer_files session_id st\<rparr>
        in if F = PromotionFails
           then (Inl (Io IoOther), st\<lparr>cs_transfers := (cs_transfers st)(session_id \<mapsto> promoted)\<rparr>)
           else case cs_objects st digest of
          None \<Rightarrow>
            let st1 = st\<lparr>cs_objects := (cs_objects st)(digest \<mapsto> ObjDir promoted),
                  cs_transfers := (cs_transfers st)(session_id := None)\<rparr>
            in if F = SyncFails then (Inl (Io IoOther), st1)
               else (case verify_object LB digest st1 of Inl e \<Rightarrow> (Inl e, st1)
                | Inr committed \<Rightarrow> finish_commit_io F session_id session committed class st1)
        | Some e \<Rightarrow>
            if object_has_manifest e
            then let st1 = st\<lparr>cs_transfers := (cs_transfers st)(session_id := None)\<rparr>
                 in (case verify_object LB digest st1 of Inl e \<Rightarrow> (Inl e, st1)
                     | Inr committed \<Rightarrow> finish_commit_io F session_id session committed class st1)
            else (Inl (Io IoOther), st\<lparr>cs_transfers := (cs_transfers st)(session_id \<mapsto> promoted)\<rparr>))"

definition commit_new ::
  "cas_lib \<Rightarrow> string \<Rightarrow> durable_put_session \<Rightarrow> storage_class \<Rightarrow> datetime \<Rightarrow> cas_store
     \<Rightarrow> (storage_error + artifact_ref) \<times> cas_store" where
  "commit_new = commit_new_io NoFault"

lemma commit_new_eq:
  "commit_new LB session_id session class now st =
     (case commit_checks LB session_id session class now st of Inl e \<Rightarrow> (Inl e, st)
      | Inr manifest_bytes \<Rightarrow>
        let digest = ds_digest session;
            promoted = \<lparr>od_manifest = Some (Regular manifest_bytes), od_chunks = transfer_files session_id st\<rparr>
        in case cs_objects st digest of
          None \<Rightarrow>
            let st1 = st\<lparr>cs_objects := (cs_objects st)(digest \<mapsto> ObjDir promoted),
                  cs_transfers := (cs_transfers st)(session_id := None)\<rparr>
            in (case verify_object LB digest st1 of Inl e \<Rightarrow> (Inl e, st1)
                | Inr committed \<Rightarrow> finish_commit session_id session committed class st1)
        | Some e \<Rightarrow>
            if object_has_manifest e
            then let st1 = st\<lparr>cs_transfers := (cs_transfers st)(session_id := None)\<rparr>
                 in (case verify_object LB digest st1 of Inl e \<Rightarrow> (Inl e, st1)
                     | Inr committed \<Rightarrow> finish_commit session_id session committed class st1)
            else (Inl (Io IoOther), st\<lparr>cs_transfers := (cs_transfers st)(session_id \<mapsto> promoted)\<rparr>))"
  unfolding commit_new_def commit_new_io_def finish_commit_def no_fault by (rule refl)

definition commit_resumable_put_io ::
  "store_fault \<Rightarrow> cas_lib \<Rightarrow> string \<Rightarrow> datetime \<Rightarrow> cas_store \<Rightarrow> (storage_error + artifact_ref) \<times> cas_store" where
  "commit_resumable_put_io F LB session_id now st =
     (if cs_mutations_poisoned st then (Inl Poisoned, st)
      else case transfer_dir_ok session_id of Inl e \<Rightarrow> (Inl e, st)
      | Inr _ \<Rightarrow>
        if cs_index_poisoned st then (Inl Poisoned, st)
        else case map_of (cs_sessions st) session_id of None \<Rightarrow> (Inl (TransferNotFound session_id), st)
        | Some session \<Rightarrow>
          (case and_then (parse_storage_class (ds_storage_class session)) (\<lambda>class.
                 and_then (object_dir_ok (ds_digest session)) (\<lambda>_. Inr class)) of
             Inl e \<Rightarrow> (Inl e, st)
           | Inr class \<Rightarrow>
             if object_present (ds_digest session) st
             then case verify_object LB (ds_digest session) st of
                 Inr existing \<Rightarrow> finish_commit_io F session_id session existing class st
               | Inl e \<Rightarrow>
                   if is_repairable_object_error e
                   then commit_new_io F LB session_id session class now (quarantine_object (ds_digest session) st)
                   else (Inl e, st)
             else commit_new_io F LB session_id session class now st))"

definition commit_resumable_put ::
  "cas_lib \<Rightarrow> string \<Rightarrow> datetime \<Rightarrow> cas_store \<Rightarrow> (storage_error + artifact_ref) \<times> cas_store" where
  "commit_resumable_put = commit_resumable_put_io NoFault"

lemma commit_resumable_put_eq:
  "commit_resumable_put LB session_id now st =
     (if cs_mutations_poisoned st then (Inl Poisoned, st)
      else case transfer_dir_ok session_id of Inl e \<Rightarrow> (Inl e, st)
      | Inr _ \<Rightarrow>
        if cs_index_poisoned st then (Inl Poisoned, st)
        else case map_of (cs_sessions st) session_id of None \<Rightarrow> (Inl (TransferNotFound session_id), st)
        | Some session \<Rightarrow>
          (case and_then (parse_storage_class (ds_storage_class session)) (\<lambda>class.
                 and_then (object_dir_ok (ds_digest session)) (\<lambda>_. Inr class)) of
             Inl e \<Rightarrow> (Inl e, st)
           | Inr class \<Rightarrow>
             if object_present (ds_digest session) st
             then case verify_object LB (ds_digest session) st of
                 Inr existing \<Rightarrow> finish_commit session_id session existing class st
               | Inl e \<Rightarrow>
                   if is_repairable_object_error e
                   then commit_new LB session_id session class now (quarantine_object (ds_digest session) st)
                   else (Inl e, st)
             else commit_new LB session_id session class now st))"
  unfolding commit_resumable_put_def commit_resumable_put_io_def commit_new_def finish_commit_def no_fault by (rule refl)

end
