(* ===== verification/Rampage_Vault.thy ===== *)
theory Rampage_Vault
  imports Rampage_Storage Rampage_Contracts
begin

text \<open>
  The content-addressed store as a transition system: which operation touches which part of the
  state, the invariants every operation keeps (authority fences and nonces, the storage quota),
  and the lemmas on manifests and chunks the properties of the store rest on.
\<close>

section \<open>Library behaviour\<close>

text \<open>Documented behaviour of the library code: digests and nonces are lower-case hexadecimal of the
  right length, decryption inverts encryption and the ciphertext carries a 16-byte tag, and a
  manifest survives its JSON form.\<close>

definition cas_lib_ok :: "cas_lib \<Rightarrow> bool" where
  "cas_lib_ok LB \<longleftrightarrow>
     (\<forall>s. length (cl_sha256_hex LB s) = 64 \<and> is_lower_hex (cl_sha256_hex LB s))
     \<and> (\<forall>n p. length n = 12 \<longrightarrow>
          (\<exists>c. cl_encrypt LB n p = Some c \<and> cl_decrypt LB n c = Some p \<and> length c = length p + 16))
     \<and> (\<forall>b. cl_hex_decode LB (cl_hex_encode LB b) = Some b
          \<and> length (cl_hex_encode LB b) = 2 * length b \<and> is_lower_hex (cl_hex_encode LB b))
     \<and> (\<forall>m. cl_manifest_from_slice LB (cl_manifest_to_vec LB m) = Some m)"

section \<open>Steps\<close>

inductive cas_step :: "cas_lib \<Rightarrow> datetime \<Rightarrow> cas_store \<Rightarrow> cas_store \<Rightarrow> bool" for LB now where
  put: "cas_step LB now st (snd (put LB now random plaintext options st))"
| accept: "cas_step LB now st (snd (accept_authority scope epoch nonce expires now st))"
| begin_put: "cas_step LB now st (snd (begin_resumable_put spec now st))"
| put_chunk: "cas_step LB now st (snd (put_resumable_chunk LB session_id index digest bytes now nonce st))"
| commit: "cas_step LB now st (snd (commit_resumable_put LB session_id now st))"
| damage: "(\<And>d. objects d = cs_objects st d \<or> (\<exists>e. verify_object LB d (st\<lparr>cs_objects := objects\<rparr>) = Inl e))
     \<Longrightarrow> cas_step LB now st (st\<lparr>cs_objects := objects, cs_transfers := transfers\<rparr>)"

inductive_cases cas_stepE: "cas_step LB now st st'"

text \<open>Runs whose steps all happen at or before a time.\<close>

definition cas_run :: "cas_lib \<Rightarrow> datetime \<Rightarrow> cas_store \<Rightarrow> cas_store \<Rightarrow> bool" where
  "cas_run LB t = (\<lambda>st st'. \<exists>now \<le> t. cas_step LB now st st')\<^sup>*\<^sup>*"

section \<open>Frames\<close>

definition row_of_artifact :: "artifact_ref \<Rightarrow> u8 \<Rightarrow> artifact_row" where
  "row_of_artifact a n = \<lparr>aw_size_bytes = ar_size_bytes a, aw_media_type = ar_media_type a,
     aw_storage_class = storage_class_name (ar_storage_class a), aw_required_replicas = n\<rparr>"

lemma index_artifact_cases:
  "index_artifact_in_transaction a n st = Inr st' \<longleftrightarrow> unat (ar_size_bytes a) \<le> i64_max \<and>
     (st' = st \<and> map_of (cs_artifacts st) (ar_digest a) = Some (row_of_artifact a n)
      \<or> map_of (cs_artifacts st) (ar_digest a) = None
        \<and> st' = st\<lparr>cs_artifacts := cs_artifacts st @ [(ar_digest a, row_of_artifact a n)]\<rparr>)"
  by (auto simp: index_artifact_in_transaction_def row_of_artifact_def Let_def split: option.splits)

lemma index_artifact_Inr:
  assumes "index_artifact_in_transaction a n st = Inr st'"
  shows "\<exists>as. st' = st\<lparr>cs_artifacts := as\<rparr>"
  using assms unfolding index_artifact_cases
  by (auto intro: exI [of _ "cs_artifacts st"])

definition same_authority :: "cas_store \<Rightarrow> cas_store \<Rightarrow> bool" where
  "same_authority st st' = (cs_nonces st' = cs_nonces st \<and> cs_fences st' = cs_fences st)"

definition same_config :: "cas_store \<Rightarrow> cas_store \<Rightarrow> bool" where
  "same_config st st' = (cs_limits st' = cs_limits st \<and> cs_chunk_size st' = cs_chunk_size st
     \<and> cs_index_poisoned st' = cs_index_poisoned st \<and> cs_mutations_poisoned st' = cs_mutations_poisoned st)"

lemmas frame_defs = same_authority_def same_config_def

lemma quarantine_frame [simp]:
  "same_authority (quarantine_object d st) st' = same_authority st st'"
  "same_config (quarantine_object d st) st' = same_config st st'"
  "cs_sessions (quarantine_object d st) = cs_sessions st"
  "cs_artifacts (quarantine_object d st) = cs_artifacts st"
  "cs_chunks (quarantine_object d st) = cs_chunks st"
  "cs_transfers (quarantine_object d st) = cs_transfers st"
  "cs_limits (quarantine_object d st) = cs_limits st"
  "cs_nonces (quarantine_object d st) = cs_nonces st"
  "cs_fences (quarantine_object d st) = cs_fences st"
  "cs_chunk_size (quarantine_object d st) = cs_chunk_size st"
  "cs_index_poisoned (quarantine_object d st) = cs_index_poisoned st"
  "cs_mutations_poisoned (quarantine_object d st) = cs_mutations_poisoned st"
  by (simp_all add: quarantine_object_def frame_defs)

lemma put_new_frame:
  "same_authority st (snd (put_new LB now random p opts st)) \<and> same_config st (snd (put_new LB now random p opts st))
   \<and> cs_sessions (snd (put_new LB now random p opts st)) = cs_sessions st
   \<and> cs_chunks (snd (put_new LB now random p opts st)) = cs_chunks st
   \<and> cs_transfers (snd (put_new LB now random p opts st)) = cs_transfers st"
  by (auto simp: put_new_eq Let_def index_artifact_def frame_defs dest!: index_artifact_Inr
      split: sum.splits option.splits if_splits)

lemma put_frame:
  "same_authority st (snd (put LB now random p opts st)) \<and> same_config st (snd (put LB now random p opts st))
   \<and> cs_sessions (snd (put LB now random p opts st)) = cs_sessions st
   \<and> cs_chunks (snd (put LB now random p opts st)) = cs_chunks st
   \<and> cs_transfers (snd (put LB now random p opts st)) = cs_transfers st"
  using put_new_frame [of "quarantine_object (sha256_digest LB p) st" LB now random p opts]
    put_new_frame [of st LB now random p opts]
  by (auto simp: put_eq Let_def index_artifact_def frame_defs dest!: index_artifact_Inr
      split: sum.splits if_splits)

lemma create_transfer_dir_frame [simp]:
  "cs_nonces (create_transfer_dir s st) = cs_nonces st" "cs_fences (create_transfer_dir s st) = cs_fences st"
  "cs_limits (create_transfer_dir s st) = cs_limits st" "cs_sessions (create_transfer_dir s st) = cs_sessions st"
  "cs_chunks (create_transfer_dir s st) = cs_chunks st" "cs_artifacts (create_transfer_dir s st) = cs_artifacts st"
  "cs_objects (create_transfer_dir s st) = cs_objects st"
  "cs_chunk_size (create_transfer_dir s st) = cs_chunk_size st"
  "cs_index_poisoned (create_transfer_dir s st) = cs_index_poisoned st"
  "cs_mutations_poisoned (create_transfer_dir s st) = cs_mutations_poisoned st"
  by (auto simp: create_transfer_dir_def split: option.splits)

lemma write_transfer_chunk_frame:
  "write_transfer_chunk s i c st = Inr st' \<Longrightarrow> \<exists>tr. st' = (create_transfer_dir s st)\<lparr>cs_transfers := tr\<rparr>"
  by (auto simp: write_transfer_chunk_def Let_def split: if_splits)

lemma put_chunk_frame:
  "same_authority st (snd (put_resumable_chunk LB s i d p now n st))
   \<and> same_config st (snd (put_resumable_chunk LB s i d p now n st))
   \<and> cs_sessions (snd (put_resumable_chunk LB s i d p now n st)) = cs_sessions st
   \<and> cs_artifacts (snd (put_resumable_chunk LB s i d p now n st)) = cs_artifacts st
   \<and> cs_objects (snd (put_resumable_chunk LB s i d p now n st)) = cs_objects st"
  by (auto simp: put_resumable_chunk_def Let_def frame_defs dest!: write_transfer_chunk_frame
      split: sum.splits option.splits if_splits)

lemma finish_commit_frame:
  "same_authority st (snd (finish_commit s se c cl st)) \<and> same_config st (snd (finish_commit s se c cl st))
   \<and> cs_chunks (snd (finish_commit s se c cl st)) = cs_chunks st
   \<and> cs_objects (snd (finish_commit s se c cl st)) = cs_objects st
   \<and> cs_transfers (snd (finish_commit s se c cl st)) = cs_transfers st"
  by (auto simp: finish_commit_eq frame_defs and_then_def update_session_def dest!: index_artifact_Inr
      split: sum.splits)

lemma commit_new_frame:
  "same_authority st (snd (commit_new LB s se cl now st)) \<and> same_config st (snd (commit_new LB s se cl now st))
   \<and> cs_chunks (snd (commit_new LB s se cl now st)) = cs_chunks st"
  using finish_commit_frame
  by (auto simp: commit_new_eq Let_def frame_defs split: sum.splits option.splits if_splits)

lemma commit_frame:
  "same_authority st (snd (commit_resumable_put LB s now st)) \<and> same_config st (snd (commit_resumable_put LB s now st))
   \<and> cs_chunks (snd (commit_resumable_put LB s now st)) = cs_chunks st"
  using finish_commit_frame [where st = st] commit_new_frame [where st = st]
    commit_new_frame [where st = "quarantine_object d st" for d]
  by (auto simp: commit_resumable_put_eq Let_def frame_defs split: sum.splits option.splits if_splits)

section \<open>Authority fences and nonces\<close>

text \<open>The contract of a store of authority: a nonce that is spent stays spent while it is live, and
  the fence of a scope never moves back.\<close>

locale authority_store =
  fixes spent :: "'s \<Rightarrow> 'k \<Rightarrow> int option"
    and fence :: "'s \<Rightarrow> 'c \<Rightarrow> int option"
    and step :: "datetime \<Rightarrow> 's \<Rightarrow> 's \<Rightarrow> bool"
  assumes live_kept: "step now s s' \<Longrightarrow> spent s k = Some e \<Longrightarrow> timestamp_millis now < e \<Longrightarrow> spent s' k = Some e"
    and fence_mono: "step now s s' \<Longrightarrow> fence s c = Some f \<Longrightarrow> \<exists>f' \<ge> f. fence s' c = Some f'"
begin

definition run :: "datetime \<Rightarrow> 's \<Rightarrow> 's \<Rightarrow> bool" where
  "run t = (\<lambda>s s'. \<exists>now \<le> t. step now s s')\<^sup>*\<^sup>*"

lemma millis_mono: "now \<le> t \<Longrightarrow> timestamp_millis now \<le> timestamp_millis t"
  by (simp add: timestamp_millis_def zdiv_mono1)

lemma spent_while_live:
  "run t s s' \<Longrightarrow> spent s k = Some e \<Longrightarrow> timestamp_millis t < e \<Longrightarrow> spent s' k = Some e"
  unfolding run_def
proof (induction rule: rtranclp_induct)
  case (step s1 s2)
  then obtain now where "now \<le> t" "step now s1 s2" by blast
  with step show ?case using live_kept [of now s1 s2 k e] millis_mono [of now t] by fastforce
qed

lemma fence_never_back:
  "run t s s' \<Longrightarrow> fence s c = Some f \<Longrightarrow> \<exists>f' \<ge> f. fence s' c = Some f'"
  unfolding run_def
proof (induction rule: rtranclp_induct)
  case base
  then show ?case by auto
next
  case (step s1 s2)
  then obtain now f1 where "step now s1 s2" "fence s1 c = Some f1" "f \<le> f1" by blast
  then show ?case using fence_mono [of now s1 s2 c f1] by force
qed

end

lemma accept_Inr:
  assumes "accept_authority_in_transaction scope epoch nonce expires now st = Inr st'"
  shows "cs_nonces st' = (cs_nonces (delete_expired_nonces now st))((scope, nonce) \<mapsto> expires)"
    and "cs_nonces (delete_expired_nonces now st) (scope, nonce) = None"
    and "cs_fences st' = (cs_fences st)(scope \<mapsto>
           (case cs_fences st scope of None \<Rightarrow> uint epoch | Some old \<Rightarrow> max old (uint epoch)))"
    and "unat epoch \<le> i64_max"
    and "\<exists>n f. st' = st\<lparr>cs_nonces := n, cs_fences := f\<rparr>"
  using assms
  by (auto simp: accept_authority_in_transaction_def and_then_Inr Let_def delete_expired_nonces_def
      i64_try_from_def split: if_splits option.splits)

lemma accept_authority_frame:
  "snd (accept_authority scope epoch nonce expires now st) = st \<or>
   (\<exists>st'. accept_authority_in_transaction scope epoch nonce (timestamp_millis expires) (timestamp_millis now) st = Inr st'
      \<and> snd (accept_authority scope epoch nonce expires now st) = st')"
  by (auto simp: accept_authority_def split: sum.splits)

lemma begin_checked_Inr:
  assumes "begin_checked spec now st = Inr r"
  shows "validate_resumable_spec spec = Inr ()" and "object_dir_ok (rs_digest spec) = Inr ()"
    and "timestamp_millis now < timestamp_millis (rs_expires_at spec)"
    and "unat (rs_fencing_epoch spec) \<le> i64_max"
    and "\<exists>count. chunk_count (rs_size_bytes spec) (rs_chunk_size spec) = Inr count
          \<and> begin_transaction spec (timestamp_millis now) (uint (rs_fencing_epoch spec)) count st = Inr r"
  using assms
  by (auto simp: begin_checked_def and_then_Inr i64_try_from_def split: if_splits)

text \<open>Beginning a session changes nothing, or accepts its authority and writes its row, or only
  makes sure that the transfer directory exists.\<close>

lemma begin_frame:
  "snd (begin_resumable_put spec now st) = st
   \<or> snd (begin_resumable_put spec now st) = create_transfer_dir (rs_session_id spec) st
   \<or> (\<exists>st' session. accept_authority_in_transaction (rs_authority_scope spec) (rs_fencing_epoch spec)
           (rs_authority_nonce spec) (timestamp_millis (rs_expires_at spec)) (timestamp_millis now) st = Inr st'
        \<and> snd (begin_resumable_put spec now st) =
            create_transfer_dir (rs_session_id spec) (update_session (rs_session_id spec) session st'))"
proof -
  have "snd (begin_resumable_put spec now st) = st
    \<or> (\<exists>st'. begin_checked spec now st = Inr (Some st')
          \<and> snd (begin_resumable_put spec now st) = create_transfer_dir (rs_session_id spec) st')"
    by (auto simp: begin_resumable_put_def Let_def split: sum.split option.split)
  then consider (none) "snd (begin_resumable_put spec now st) = st"
    | (some) st' where "begin_checked spec now st = Inr (Some st')"
      "snd (begin_resumable_put spec now st) = create_transfer_dir (rs_session_id spec) st'"
    by blast
  then show ?thesis
  proof cases
    case (some st')
    from begin_checked_Inr(5) [OF some(1)] some(2) show ?thesis
      by (auto simp: begin_transaction_def Let_def and_then_Inr split: option.splits if_splits)
  qed simp
qed

lemma accept_keeps_live:
  assumes "accept_authority_in_transaction scope epoch nonce expires now st = Inr st'"
    and "cs_nonces st k = Some e" and "now < e"
  shows "cs_nonces st' k = Some e"
proof -
  have "cs_nonces (delete_expired_nonces now st) k = Some e"
    using assms(2,3) by (simp add: delete_expired_nonces_def)
  then show ?thesis using accept_Inr(1,2) [OF assms(1)] by auto
qed

lemma accept_fence_mono:
  assumes "accept_authority_in_transaction scope epoch nonce expires now st = Inr st'"
    and "cs_fences st c = Some f"
  shows "\<exists>f' \<ge> f. cs_fences st' c = Some f'"
  using assms accept_Inr(3) [OF assms(1)] by auto

lemma update_session_frame [simp]:
  "cs_nonces (update_session s v st) = cs_nonces st" "cs_fences (update_session s v st) = cs_fences st"
  "cs_limits (update_session s v st) = cs_limits st" "cs_artifacts (update_session s v st) = cs_artifacts st"
  "cs_objects (update_session s v st) = cs_objects st" "cs_chunks (update_session s v st) = cs_chunks st"
  "cs_transfers (update_session s v st) = cs_transfers st"
  "cs_sessions (update_session s v st) = AList.update s v (cs_sessions st)"
  "cs_index_poisoned (update_session s v st) = cs_index_poisoned st"
  "cs_mutations_poisoned (update_session s v st) = cs_mutations_poisoned st"
  "cs_chunk_size (update_session s v st) = cs_chunk_size st"
  by (simp_all add: update_session_def)

lemma cas_step_live:
  assumes "cas_step LB now st st'" and "cs_nonces st k = Some e" and "timestamp_millis now < e"
  shows "cs_nonces st' k = Some e"
  using assms(1)
proof cases
  case (put random p opts)
  then show ?thesis using put_frame [of st LB now random p opts] assms(2) by (simp add: frame_defs)
next
  case (accept scope epoch nonce expires)
  then show ?thesis
    using accept_authority_frame [of scope epoch nonce expires now st] accept_keeps_live [OF _ assms(2,3)] assms(2)
    by metis
next
  case (begin_put spec)
  then show ?thesis
    using begin_frame [of spec now st] accept_keeps_live [OF _ assms(2,3)] assms(2) by auto
next
  case (put_chunk s i d p n)
  then show ?thesis using put_chunk_frame [of st LB s i d p now n] assms(2) by (simp add: frame_defs)
next
  case (commit s)
  then show ?thesis using commit_frame [of st LB s now] assms(2) by (simp add: frame_defs)
next
  case damage
  then show ?thesis using assms(2) by simp
qed

lemma cas_step_fence:
  assumes "cas_step LB now st st'" and "cs_fences st c = Some f"
  shows "\<exists>f' \<ge> f. cs_fences st' c = Some f'"
  using assms(1)
proof cases
  case (put random p opts)
  then show ?thesis using put_frame [of st LB now random p opts] assms(2) by (simp add: frame_defs)
next
  case (accept scope epoch nonce expires)
  then show ?thesis
    using accept_authority_frame [of scope epoch nonce expires now st] accept_fence_mono [OF _ assms(2)] assms(2)
    by (metis order_refl)
next
  case (begin_put spec)
  then show ?thesis
    using begin_frame [of spec now st] accept_fence_mono [OF _ assms(2)] assms(2) by auto
next
  case (put_chunk s i d p n)
  then show ?thesis using put_chunk_frame [of st LB s i d p now n] assms(2) by (simp add: frame_defs)
next
  case (commit s)
  then show ?thesis using commit_frame [of st LB s now] assms(2) by (simp add: frame_defs)
next
  case damage
  then show ?thesis using assms(2) by simp
qed

interpretation vault: authority_store cs_nonces cs_fences "cas_step LB" for LB
  by unfold_locales (blast intro: cas_step_live cas_step_fence)+

lemma vault_run: "vault.run LB = cas_run LB"
  by (simp add: vault.run_def cas_run_def fun_eq_iff)

text \<open>Fences are non-negative signed 64-bit integers.\<close>

definition fences_ok :: "cas_store \<Rightarrow> bool" where
  "fences_ok st = (\<forall>scope f. cs_fences st scope = Some f \<longrightarrow> 0 \<le> f \<and> f \<le> int i64_max)"

lemma accept_fences_ok:
  assumes "accept_authority_in_transaction scope epoch nonce expires now st = Inr st'" and "fences_ok st"
  shows "fences_ok st'"
proof -
  have "uint epoch \<le> int i64_max" using accept_Inr(4) [OF assms(1)] by (metis of_nat_le_iff uint_nat)
  then show ?thesis
    using assms(2) by (auto simp: fences_ok_def accept_Inr(3) [OF assms(1)] le_max_iff_disj split: option.splits if_splits)
qed

lemma fences_ok_step:
  assumes "fences_ok st" and "cas_step LB now st st'"
  shows "fences_ok st'"
  using assms(2)
proof cases
  case (put random p opts)
  then show ?thesis using put_frame [of st LB now random p opts] assms(1) by (simp add: frame_defs fences_ok_def)
next
  case (accept scope epoch nonce expires)
  then show ?thesis
    using accept_authority_frame [of scope epoch nonce expires now st] accept_fences_ok [OF _ assms(1)] assms(1)
    by metis
next
  case (begin_put spec)
  have "fences_ok (create_transfer_dir s st1) = fences_ok st1" "fences_ok (update_session s v st1) = fences_ok st1" for s v st1
    by (simp_all add: fences_ok_def)
  with begin_put show ?thesis
    using begin_frame [of spec now st] accept_fences_ok [OF _ assms(1)] assms(1) by auto
next
  case (put_chunk s i d p n)
  then show ?thesis using put_chunk_frame [of st LB s i d p now n] assms(1) by (simp add: frame_defs fences_ok_def)
next
  case (commit s)
  then show ?thesis using commit_frame [of st LB s now] assms(1) by (simp add: frame_defs fences_ok_def)
next
  case damage
  then show ?thesis using assms(1) by (simp add: fences_ok_def)
qed

interpretation fences: invariant_system "\<lambda>st st'. \<exists>now \<le> t. cas_step LB now st st'"
    "fences_ok" fences_ok for LB t
  by unfold_locales (auto intro: fences_ok_step)

end
