(* ===== verification/Rampage_Quota.thy ===== *)
theory Rampage_Quota
  imports Rampage_Vault
begin

text \<open>
  The storage quota as an invariant of the store: for every storage class, the bytes of the indexed
  artifacts and of the active uploads whose artifact is not indexed yet stay within the owner's
  limit, and every object on disk that verifies is indexed.
\<close>

section \<open>Accounting\<close>

definition indexed :: "cas_store \<Rightarrow> string \<Rightarrow> bool" where
  "indexed st d = (map_of (cs_artifacts st) d \<noteq> None)"

definition artifact_bytes :: "string \<Rightarrow> string \<times> artifact_row \<Rightarrow> nat" where
  "artifact_bytes name = (\<lambda>(d, row). if aw_storage_class row = name then unat (aw_size_bytes row) else 0)"

definition pending_bytes :: "(string \<Rightarrow> bool) \<Rightarrow> string \<Rightarrow> string \<times> durable_put_session \<Rightarrow> nat" where
  "pending_bytes ix name = (\<lambda>(s, row). if ds_storage_class row = name \<and> ds_state row = ''active''
     \<and> \<not> ix (ds_digest row) then nat (ds_size_bytes row) else 0)"

definition used :: "string \<Rightarrow> cas_store \<Rightarrow> nat" where
  "used name st = sum_list (map (artifact_bytes name) (cs_artifacts st))"

definition pending :: "string \<Rightarrow> cas_store \<Rightarrow> nat" where
  "pending name st = sum_list (map (pending_bytes (indexed st) name) (cs_sessions st))"

definition within_quota :: "cas_store \<Rightarrow> bool" where
  "within_quota st = (case cs_limits st of None \<Rightarrow> True
     | Some l \<Rightarrow> (\<forall>class. used (storage_class_name class) st + pending (storage_class_name class) st
         \<le> unat (for_class l class)))"

definition session_row_ok :: "durable_put_session \<Rightarrow> bool" where
  "session_row_ok row = (ds_state row \<in> {''active'', ''complete''} \<and> 0 \<le> ds_size_bytes row
     \<and> ds_size_bytes row \<le> int i64_max)"

definition vault_inv :: "cas_lib \<Rightarrow> cas_store \<Rightarrow> bool" where
  "vault_inv LB st = (distinct (map fst (cs_sessions st))
     \<and> list_all (\<lambda>(_, row). session_row_ok row) (cs_sessions st)
     \<and> (\<forall>d c. verify_object LB d st = Inr c \<longrightarrow> indexed st d)
     \<and> within_quota st)"

section \<open>Sums over tables\<close>

lemma sum_list_le_with_gap:
  fixes f g :: "'a \<Rightarrow> nat"
  assumes "x \<in> set xs" and "\<And>y. y \<in> set xs \<Longrightarrow> g y \<le> f y" and "g x = 0"
  shows "sum_list (map g xs) + f x \<le> sum_list (map f xs)"
  using assms
proof (induction xs)
  case (Cons y ys)
  show ?case
  proof (cases "x = y")
    case True
    have "sum_list (map g ys) \<le> sum_list (map f ys)" using Cons.prems(2) by (intro sum_list_mono) simp
    with True Cons.prems(3) show ?thesis by simp
  next
    case False
    with Cons show ?thesis using Cons.prems(2) [of y] by fastforce
  qed
qed simp

lemma sum_list_update_new:
  "map_of al k = None \<Longrightarrow> sum_list (map f (AList.update k v al)) = sum_list (map f al) + (f (k, v) :: nat)"
  by (induction al) (auto split: if_splits)

lemma sum_list_update_old:
  "distinct (map fst al) \<Longrightarrow> map_of al k = Some v \<Longrightarrow>
     sum_list (map f (AList.update k v' al)) + f (k, v) = sum_list (map f al) + (f (k, v') :: nat)"
  by (induction al) (auto split: if_splits)

lemma set_AList_update: "set (AList.update k v al) \<subseteq> insert (k, v) (set al)"
  by (induction al) auto

lemma list_all_update:
  "list_all (\<lambda>(_, row). P row) al \<Longrightarrow> P v \<Longrightarrow> list_all (\<lambda>(_, row). P row) (AList.update k v al)"
  using set_AList_update [of k v al] by (fastforce simp: list_all_iff)

lemma storage_class_name_inject [simp]: "storage_class_name a = storage_class_name b \<longleftrightarrow> a = b"
  by (cases a; cases b) simp_all

lemma parse_storage_class_Inr [simp]: "parse_storage_class s = Inr c \<longleftrightarrow> s = storage_class_name c"
  by (cases c) (auto simp: parse_storage_class_def)

lemma pending_le:
  assumes "cs_sessions st' = cs_sessions st" and "\<And>d. indexed st d \<Longrightarrow> indexed st' d"
  shows "pending name st' \<le> pending name st"
  using assms unfolding pending_def
  by (auto intro!: sum_list_mono simp: pending_bytes_def)

section \<open>What the capacity check guarantees\<close>

definition reserved :: "string \<Rightarrow> cas_store \<Rightarrow> nat" where
  "reserved name st = sum_list (map (\<lambda>(s, row). nat (ds_size_bytes row))
     (filter (\<lambda>(s, row). ds_storage_class row = name \<and> ds_state row = ''active'') (cs_sessions st)))"

lemma pending_le_reserved: "pending name st \<le> reserved name st"
proof -
  have "sum_list (map (pending_bytes ix name) xs)
      \<le> sum_list (map (\<lambda>(s, row). nat (ds_size_bytes row))
          (filter (\<lambda>(s, row). ds_storage_class row = name \<and> ds_state row = ''active'') xs))" for ix xs
    by (induction xs) (simp_all add: pending_bytes_def case_prod_beta)
  then show ?thesis by (simp add: pending_def reserved_def)
qed

lemma used_filter:
  "\<not> indexed st d \<Longrightarrow> sum_list (map (\<lambda>(d, row). unat (aw_size_bytes row))
     (filter (\<lambda>(d', row). aw_storage_class row = name \<and> d' \<noteq> d) (cs_artifacts st))) = used name st"
proof -
  have "\<forall>row. (d, row) \<notin> set xs \<Longrightarrow> sum_list (map (\<lambda>(d, row). unat (aw_size_bytes row))
      (filter (\<lambda>(d', row). aw_storage_class row = name \<and> d' \<noteq> d) xs)) = sum_list (map (artifact_bytes name) xs)" for xs
    by (induction xs) (auto simp: artifact_bytes_def)
  moreover assume "\<not> indexed st d"
  then have "\<forall>row. (d, row) \<notin> set (cs_artifacts st)"
    by (auto simp: indexed_def map_of_eq_None_iff image_iff)
  ultimately show ?thesis by (simp add: used_def)
qed

lemma capacity_ok:
  assumes "ensure_storage_capacity class req (Some d) st = Inr ()" and "cs_limits st = Some l"
    and "\<not> indexed st d"
  shows "used (storage_class_name class) st + reserved (storage_class_name class) st + unat req
    \<le> unat (for_class l class)"
proof -
  let ?n = "storage_class_name class"
  have ni: "list_ex (\<lambda>(d', row). aw_storage_class row = ?n \<and> d' = d) (cs_artifacts st) = False"
    using assms(3) by (auto simp: indexed_def map_of_eq_None_iff list_ex_iff image_iff)
  have u: "sql_sum ns = Inr w \<Longrightarrow> unat w = sum_list ns" for ns w
    by (auto simp: sql_sum_def i64_max_def unat_of_nat split: if_splits)
  define us where "us = map (\<lambda>(d, row). unat (aw_size_bytes row))
        (filter (\<lambda>(d', row). aw_storage_class row = ?n \<and> d' \<noteq> d) (cs_artifacts st))"
  define rs where "rs = map (\<lambda>(s, row). nat (ds_size_bytes row))
        (filter (\<lambda>(s, row). ds_storage_class row = ?n \<and> ds_state row = ''active'') (cs_sessions st))"
  have "and_then (sql_sum us) (\<lambda>uw. and_then (sql_sum rs) (\<lambda>rw.
      case checked_add uw rw of None \<Rightarrow> Inl StorageQuotaExceeded
      | Some a \<Rightarrow> (case checked_add a req of None \<Rightarrow> Inl StorageQuotaExceeded
         | Some b \<Rightarrow> if b > for_class l class then Inl StorageQuotaExceeded else Inr ()))) = Inr ()"
    using assms(1)
    unfolding us_def rs_def ensure_storage_capacity_def Let_def unwrap_or_def assms(2) option.case ni if_False .
  then obtain uw rw where sums: "sql_sum us = Inr uw" "sql_sum rs = Inr rw"
      and rest: "(case checked_add uw rw of None \<Rightarrow> Inl StorageQuotaExceeded
      | Some a \<Rightarrow> (case checked_add a req of None \<Rightarrow> Inl StorageQuotaExceeded
         | Some b \<Rightarrow> if b > for_class l class then Inl StorageQuotaExceeded else Inr ())) = Inr ()"
    unfolding and_then_Inr by blast
  from rest have "\<exists>a b. checked_add uw rw = Some a \<and> checked_add a req = Some b \<and> \<not> b > for_class l class"
    by (auto split: option.splits if_splits)
  note w = sums [unfolded us_def rs_def] this
  have "unat uw = used ?n st" "unat rw = reserved ?n st"
    using u [OF w(1)] u [OF w(2)] used_filter [OF assms(3)] by (simp_all add: reserved_def)
  moreover obtain a b where a: "checked_add uw rw = Some a" and b: "checked_add a req = Some b"
      and "b \<le> for_class l class"
    using w(3) by (auto simp: not_less)
  ultimately show ?thesis using unat_checked_add [OF a] unat_checked_add [OF b] by (simp add: word_le_nat_alt)
qed

section \<open>Objects and the invariant\<close>

lemma read_manifest_cong:
  "cs_objects st' d = cs_objects st d \<Longrightarrow> read_manifest LB d st' = read_manifest LB d st"
  by (simp add: read_manifest_def)

lemma verify_object_cong:
  "cs_objects st' d = cs_objects st d \<Longrightarrow> verify_object LB d st' = verify_object LB d st"
  by (simp add: verify_object_def read_manifest_cong [of st' d st] chunk_files_def)

lemma verify_object_Inr:
  assumes "verify_object LB d st = Inr c"
  shows "\<exists>m. read_manifest LB d st = Inr m \<and> c = artifact_contract_from_manifest d m"
  using assms by (auto simp: verify_object_def and_then_Inr split: if_splits prod.splits)

lemma read_manifest_Inr:
  assumes "read_manifest LB d st = Inr m"
  shows "object_dir_ok d = Inr ()" and "validate_manifest d m = Inr ()"
    and "\<exists>dir bytes. cs_objects st d = Some (ObjDir dir) \<and> od_manifest dir = Some (Regular bytes)
      \<and> length bytes \<le> MAX_MANIFEST_BYTES \<and> cl_manifest_from_slice LB bytes = Some m"
  using assms
  by (auto simp: read_manifest_def and_then_Inr read_regular_file_bounded_def
      split: option.splits object_entry.splits file_entry.splits if_splits)

lemma validate_manifest_size:
  assumes "validate_manifest d m = Inr ()"
  shows "mf_plaintext_size m \<le> MAX_ARTIFACT_TRANSFER_BYTES"
proof (rule ccontr)
  assume "\<not> mf_plaintext_size m \<le> MAX_ARTIFACT_TRANSFER_BYTES"
  then show False using assms by (simp add: validate_manifest_def not_le)
qed

lemma read_manifest_size:
  "read_manifest LB d st = Inr m \<Longrightarrow> mf_plaintext_size m \<le> MAX_ARTIFACT_TRANSFER_BYTES"
  by (drule read_manifest_Inr(2)) (rule validate_manifest_size)

lemma size_below_i64: "s \<le> MAX_ARTIFACT_TRANSFER_BYTES \<Longrightarrow> unat s \<le> i64_max"
  by (simp add: word_le_nat_alt protocol_limits i64_max_def)

lemma indexed_append [simp]:
  "indexed (st\<lparr>cs_artifacts := cs_artifacts st @ [(d, row)]\<rparr>) e \<longleftrightarrow> indexed st e \<or> e = d"
  by (auto simp: indexed_def map_add_def split: option.splits)

lemma used_append [simp]:
  "used name (st\<lparr>cs_artifacts := cs_artifacts st @ [(d, row)]\<rparr>) = used name st + artifact_bytes name (d, row)"
  by (simp add: used_def)

text \<open>A change of objects alone, such as a quarantine, keeps the invariant when every object that
  verifies after it is indexed.\<close>

lemma vault_inv_verified: "vault_inv LB st \<Longrightarrow> verify_object LB d st = Inr c \<Longrightarrow> indexed st d"
  unfolding vault_inv_def by blast

lemma vault_inv_objects:
  assumes "vault_inv LB st"
    and "cs_sessions st' = cs_sessions st" "cs_artifacts st' = cs_artifacts st" "cs_limits st' = cs_limits st"
    and "\<And>d c. cs_objects st' d \<noteq> cs_objects st d \<Longrightarrow> verify_object LB d st' = Inr c \<Longrightarrow> indexed st d"
  shows "vault_inv LB st'"
proof -
  have ix: "indexed st' = indexed st" using assms(3) by (simp add: fun_eq_iff indexed_def)
  have "indexed st' d" if "verify_object LB d st' = Inr c" for d c
  proof (cases "cs_objects st' d = cs_objects st d")
    case True
    then have "verify_object LB d st = Inr c" using verify_object_cong [of st' d st LB] that by simp
    then show ?thesis using vault_inv_verified [OF assms(1)] ix by simp
  qed (use assms(5) that ix in auto)
  moreover have "used name st' = used name st" "pending name st' = pending name st" for name
    using assms(2,3) ix by (simp_all add: used_def pending_def)
  then have "within_quota st' = within_quota st" using assms(4) by (simp add: within_quota_def split: option.split)
  ultimately show ?thesis using assms(1,2) by (simp add: vault_inv_def)
qed

lemma vault_inv_quarantine:
  assumes "vault_inv LB st"
  shows "vault_inv LB (quarantine_object d st)"
proof (rule vault_inv_objects [OF assms])
  fix d' c
  assume "cs_objects (quarantine_object d st) d' \<noteq> cs_objects st d'"
    and v: "verify_object LB d' (quarantine_object d st) = Inr c"
  then have "d' = d" by (auto simp: quarantine_object_def split: if_splits)
  with v show "indexed st d'"
    by (auto dest!: verify_object_Inr simp: read_manifest_def and_then_Inr quarantine_object_def)
qed (simp_all)

text \<open>A new artifact within the limits enters the index.\<close>

lemma vault_inv_index:
  assumes inv: "vault_inv LB st" and "\<not> indexed st d" and "aw_storage_class row = storage_class_name cl"
    and room: "\<And>l. cs_limits st = Some l \<Longrightarrow> used (storage_class_name cl) st
        + pending (storage_class_name cl) st' + unat (aw_size_bytes row) \<le> unat (for_class l cl)"
    and le: "\<And>name. pending name st' \<le> pending name st"
    and st': "cs_artifacts st' = cs_artifacts st @ [(d, row)]" "cs_limits st' = cs_limits st"
      "\<And>e. cs_objects st' e = cs_objects st e \<or> e = d"
      "distinct (map fst (cs_sessions st'))" "list_all (\<lambda>(_, row). session_row_ok row) (cs_sessions st')"
  shows "vault_inv LB st'"
proof -
  have ix: "indexed st' e \<longleftrightarrow> indexed st e \<or> e = d" for e
    using st'(1) by (auto simp: indexed_def map_add_def split: option.splits)
  have us: "used name st' = used name st + artifact_bytes name (d, row)" for name
    using st'(1) by (simp add: used_def)
  have "indexed st' e" if "verify_object LB e st' = Inr c" for e c
  proof (cases "e = d")
    case False
    then have "verify_object LB e st = Inr c" using that st'(3) [of e] verify_object_cong [of st' e st LB] by simp
    then show ?thesis using vault_inv_verified [OF inv] ix by simp
  qed (simp add: ix)
  moreover have "used (storage_class_name k) st' + pending (storage_class_name k) st' \<le> unat (for_class l k)"
    if l: "cs_limits st = Some l" for l k
  proof (cases "k = cl")
    case True
    then show ?thesis using room [OF l] us assms(3) by (simp add: artifact_bytes_def)
  next
    case False
    then have "used (storage_class_name k) st' = used (storage_class_name k) st"
      using us assms(3) by (simp add: artifact_bytes_def)
    moreover have "used (storage_class_name k) st + pending (storage_class_name k) st \<le> unat (for_class l k)"
      using inv l by (simp add: vault_inv_def within_quota_def)
    ultimately show ?thesis using le [of "storage_class_name k"] by linarith
  qed
  ultimately show ?thesis
    using st'(2,4,5) unfolding vault_inv_def within_quota_def by (auto split: option.splits)
qed

section \<open>Every operation keeps the invariant\<close>

lemma read_manifest_stored:
  assumes "cs_objects st d = Some (ObjDir dir)" and "od_manifest dir = Some (Regular bytes)"
    and "cl_manifest_from_slice LB bytes = Some m" and "read_manifest LB d st = Inr m'"
  shows "m' = m"
  using read_manifest_Inr(3) [OF assms(4)] assms(1-3) by auto

text \<open>What \<open>put_new\<close> can do to the store: nothing, or write the object; and then it indexes the
  artifact unless the object does not verify or the digest is indexed already.\<close>

lemma put_new_effect:
  fixes options :: put_options
  assumes lib: "cas_lib_ok LB" and absent: "\<not> object_present (sha256_digest LB p) st"
  defines "digest \<equiv> sha256_digest LB p"
  shows "snd (put_new LB now random p options st) = st \<or>
    (\<exists>dir. let st1 = st\<lparr>cs_objects := (cs_objects st)(digest \<mapsto> ObjDir dir)\<rparr> in
      ensure_storage_capacity (po_storage_class options) (of_nat (length p)) (Some digest) st = Inr () \<and>
      (snd (put_new LB now random p options st) = st1 \<and> ((\<exists>e. verify_object LB digest st1 = Inl e) \<or> indexed st digest)
      \<or> (\<not> indexed st digest \<and> (\<exists>row. aw_storage_class row = storage_class_name (po_storage_class options)
            \<and> aw_size_bytes row = of_nat (length p)
            \<and> snd (put_new LB now random p options st) = st1\<lparr>cs_artifacts := cs_artifacts st @ [(digest, row)]\<rparr>))))"
proof (cases "snd (put_new LB now random p options st) = st")
  case False
  define size_bytes where "size_bytes = (of_nat (length p) :: u64)"
  from False obtain records where
    np: "\<not> cs_index_poisoned st"
    and cap: "ensure_storage_capacity (po_storage_class options) size_bytes (Some digest) st = Inr ()"
    and enc: "encrypt_chunks LB random 0 (chunks_of (cs_chunk_size st) p) = Inr records"
    and unblocked: "\<not> (case cs_objects st digest of None \<Rightarrow> False | Some e \<Rightarrow> \<not> object_exists e)"
    unfolding digest_def size_bytes_def by (auto simp: put_new_eq Let_def split: sum.splits if_splits)
  from unblocked absent have none: "cs_objects st digest = None"
    by (auto simp: object_present_def digest_def split: option.splits)
  define m where "m = \<lparr>mf_schema = ''rampage.cas-manifest.v1'', mf_plaintext_digest = digest,
     mf_plaintext_size = size_bytes, mf_media_type = po_media_type options,
     mf_storage_class = po_storage_class options, mf_required_replicas = po_required_replicas options,
     mf_created_at = now, mf_chunks = map fst records\<rparr>"
  define dir where "dir = \<lparr>od_manifest = Some (Regular (cl_manifest_to_vec LB m)), od_chunks = files_of records\<rparr>"
  define st1 where "st1 = st\<lparr>cs_objects := (cs_objects st)(digest \<mapsto> ObjDir dir)\<rparr>"
  have run: "put_new LB now random p options st = (case verify_object LB digest st1 of Inl e \<Rightarrow> (Inl e, st1)
      | Inr committed \<Rightarrow> (case ensure_artifact_contract committed size_bytes (po_media_type options)
            (po_storage_class options) (po_required_replicas options) of Inl e \<Rightarrow> (Inl e, st1)
          | Inr _ \<Rightarrow> (case index_artifact (ac_artifact committed) (ac_required_replicas committed) st1 of
              Inl e \<Rightarrow> (Inl e, st1) | Inr st2 \<Rightarrow> (Inr (ac_artifact committed), st2))))"
    using np cap enc unfolding put_new_eq Let_def m_def dir_def st1_def size_bytes_def digest_def
      none [unfolded digest_def] option.case
    by simp
  show ?thesis
  proof (cases "verify_object LB digest st1")
    case (Inl e)
    then show ?thesis
      using run cap by (auto simp: Let_def st1_def [symmetric] size_bytes_def intro!: exI [of _ dir])
  next
    case (Inr committed)
    then obtain m' where m': "read_manifest LB digest st1 = Inr m'"
        "committed = artifact_contract_from_manifest digest m'"
      using verify_object_Inr by blast
    have "m' = m"
      using lib by (intro read_manifest_stored [OF _ _ _ m'(1), of dir]) (auto simp: st1_def dir_def cas_lib_ok_def)
    then have c: "ensure_artifact_contract committed size_bytes (po_media_type options)
          (po_storage_class options) (po_required_replicas options) = Inr ()"
        "ac_artifact committed = ac_artifact (artifact_contract_from_manifest digest m)"
      by (simp_all add: m'(2) ensure_artifact_contract_def artifact_contract_from_manifest_def m_def)
    have size: "unat size_bytes \<le> i64_max"
      using read_manifest_size [OF m'(1)] \<open>m' = m\<close> size_below_i64 by (simp add: m_def)
    let ?a = "ac_artifact committed" and ?r = "ac_required_replicas committed"
    have ix: "index_artifact ?a ?r st1 = index_artifact_in_transaction ?a ?r st1"
      using np by (simp add: index_artifact_def st1_def)
    show ?thesis
    proof (cases "indexed st digest")
      case True
      have "st2 = st1" if "index_artifact_in_transaction ?a ?r st1 = Inr st2" for st2
        using that True c(2) unfolding index_artifact_cases
        by (auto simp: indexed_def st1_def artifact_contract_from_manifest_def)
      then have "snd (put_new LB now random p options st) = st1"
        using run Inr c(1) ix by (auto split: sum.splits)
      with True cap show ?thesis by (auto simp: Let_def st1_def size_bytes_def intro!: exI [of _ dir])
    next
      case False
      then have "index_artifact_in_transaction ?a ?r st1 =
          Inr (st1\<lparr>cs_artifacts := cs_artifacts st @ [(digest, row_of_artifact ?a ?r)]\<rparr>)"
        unfolding index_artifact_cases
        using size by (auto simp: indexed_def st1_def c(2) artifact_contract_from_manifest_def m_def)
      then have "snd (put_new LB now random p options st) =
          st1\<lparr>cs_artifacts := cs_artifacts st @ [(digest, row_of_artifact ?a ?r)]\<rparr>"
        using run Inr c(1) ix by simp
      moreover have "aw_storage_class (row_of_artifact ?a ?r) = storage_class_name (po_storage_class options)"
          "aw_size_bytes (row_of_artifact ?a ?r) = size_bytes"
        by (simp_all add: row_of_artifact_def c(2) artifact_contract_from_manifest_def m_def)
      ultimately show ?thesis
        using False cap
        by (auto simp: Let_def st1_def size_bytes_def [symmetric] intro!: exI [of _ dir] exI [of _ "row_of_artifact ?a ?r"])
    qed
  qed
qed simp

lemma vault_inv_write_object:
  assumes "vault_inv LB st" and "st1 = st\<lparr>cs_objects := (cs_objects st)(d \<mapsto> ob), cs_transfers := tr\<rparr>"
    and "(\<exists>e. verify_object LB d st1 = Inl e) \<or> indexed st d"
  shows "vault_inv LB st1"
proof (rule vault_inv_objects [OF assms(1)])
  fix d' c assume "cs_objects st1 d' \<noteq> cs_objects st d'" "verify_object LB d' st1 = Inr c"
  then show "indexed st d'" using assms(2,3) by (cases "d' = d") auto
qed (simp_all add: assms(2))

lemma put_new_inv:
  assumes lib: "cas_lib_ok LB" and "\<not> object_present (sha256_digest LB p) st" and inv: "vault_inv LB st"
  shows "vault_inv LB (snd (put_new LB now random p options st))"
proof -
  let ?d = "sha256_digest LB p" and ?name = "storage_class_name (po_storage_class options)"
  let ?st' = "snd (put_new LB now random p options st)"
  from put_new_effect [OF lib assms(2), of now random options] consider
    (same) "?st' = st"
  | (object) dir where "?st' = st\<lparr>cs_objects := (cs_objects st)(?d \<mapsto> ObjDir dir)\<rparr>"
      "(\<exists>e. verify_object LB ?d ?st' = Inl e) \<or> indexed st ?d"
  | (new) dir row where "?st' = st\<lparr>cs_objects := (cs_objects st)(?d \<mapsto> ObjDir dir),
        cs_artifacts := cs_artifacts st @ [(?d, row)]\<rparr>" "\<not> indexed st ?d"
      "aw_storage_class row = ?name" "aw_size_bytes row = of_nat (length p)"
      "ensure_storage_capacity (po_storage_class options) (of_nat (length p)) (Some ?d) st = Inr ()"
    unfolding Let_def by fastforce
  then show ?thesis
  proof cases
    case same
    with inv show ?thesis by simp
  next
    case object
    then show ?thesis
      using vault_inv_write_object [OF inv, where ?st1.0 = ?st' and d = ?d and ob = "ObjDir dir" and tr = "cs_transfers st"]
      by simp
  next
    case new
    show ?thesis
    proof (rule vault_inv_index [OF inv new(2) new(3)])
      show le: "pending name ?st' \<le> pending name st" for name
      proof (rule pending_le)
        fix e assume "indexed st e"
        then show "indexed ?st' e" by (auto simp: new(1) indexed_def)
      qed (simp add: new(1))
      fix l assume "cs_limits st = Some l"
      from capacity_ok [OF new(5) this new(2)] pending_le_reserved [of ?name st] le [of ?name]
      show "used ?name st + pending ?name ?st' + unat (aw_size_bytes row)
          \<le> unat (for_class l (po_storage_class options))"
        by (simp add: new(4))
    qed (use inv in \<open>auto simp: new(1) vault_inv_def\<close>)
  qed
qed

lemma put_inv:
  assumes lib: "cas_lib_ok LB" and inv: "vault_inv LB st"
  shows "vault_inv LB (snd (put LB now random p options st))"
proof -
  let ?d = "sha256_digest LB p"
  have idx: "st' = st" if "verify_object LB ?d st = Inr existing"
      "index_artifact (ac_artifact existing) n st = Inr st'" for existing n st'
  proof -
    have "indexed st ?d" using vault_inv_verified [OF inv that(1)] .
    moreover have "ar_digest (ac_artifact existing) = ?d"
      using verify_object_Inr [OF that(1)] by (auto simp: artifact_contract_from_manifest_def)
    ultimately show ?thesis
      using that(2) unfolding index_artifact_def index_artifact_cases
      by (auto simp: indexed_def index_artifact_cases split: if_splits)
  qed
  have q: "\<not> object_present ?d (quarantine_object ?d st)"
    by (simp add: object_present_def quarantine_object_def)
  show ?thesis
    using inv idx put_new_inv [OF lib _ inv] put_new_inv [OF lib q vault_inv_quarantine [OF inv]]
    by (auto simp: put_eq Let_def split: sum.split)
qed

text \<open>A change of sessions alone.\<close>

lemma vault_inv_sessions:
  assumes inv: "vault_inv LB st"
    and st': "cs_artifacts st' = cs_artifacts st" "cs_limits st' = cs_limits st" "cs_objects st' = cs_objects st"
      "distinct (map fst (cs_sessions st'))" "list_all (\<lambda>(_, row). session_row_ok row) (cs_sessions st')"
    and room: "\<And>l class. cs_limits st = Some l \<Longrightarrow> used (storage_class_name class) st
        + pending (storage_class_name class) st' \<le> unat (for_class l class)"
  shows "vault_inv LB st'"
proof -
  have ix: "indexed st' = indexed st" using st'(1) by (simp add: fun_eq_iff indexed_def)
  have "indexed st' d" if "verify_object LB d st' = Inr c" for d c
    using that verify_object_cong [of st' d st LB] st'(3) vault_inv_verified [OF inv] ix by simp
  moreover have "used name st' = used name st" for name using st'(1) by (simp add: used_def)
  ultimately show ?thesis
    using st' room unfolding vault_inv_def within_quota_def by (auto split: option.splits)
qed

lemma distinct_update_session: "distinct (map fst al) \<Longrightarrow> distinct (map fst (AList.update k v al))"
  by (rule distinct_update)

lemma accept_frame:
  assumes "accept_authority_in_transaction scope epoch nonce expires now st = Inr st'"
  shows "cs_artifacts st' = cs_artifacts st" "cs_limits st' = cs_limits st" "cs_objects st' = cs_objects st"
    "cs_sessions st' = cs_sessions st" "cs_chunks st' = cs_chunks st" "cs_transfers st' = cs_transfers st"
    "cs_index_poisoned st' = cs_index_poisoned st" "cs_mutations_poisoned st' = cs_mutations_poisoned st"
    "cs_chunk_size st' = cs_chunk_size st"
  using accept_Inr(5) [OF assms] by auto

lemma accept_inv:
  assumes "accept_authority_in_transaction scope epoch nonce expires now st = Inr st'" and "vault_inv LB st"
  shows "vault_inv LB st'"
  by (rule vault_inv_objects [OF assms(2)]) (simp_all add: accept_frame [OF assms(1)])

lemma create_transfer_dir_inv: "vault_inv LB st \<Longrightarrow> vault_inv LB (create_transfer_dir s st)"
  by (rule vault_inv_objects [where st = st]) simp_all

lemma renew_session_inv:
  assumes inv: "vault_inv LB st" and old: "map_of (cs_sessions st) s = Some row"
    and "ds_state row' = ds_state row" "ds_size_bytes row' = ds_size_bytes row"
      "ds_storage_class row' = ds_storage_class row" "ds_digest row' = ds_digest row"
  shows "vault_inv LB (update_session s row' st)"
proof (rule vault_inv_sessions [OF inv])
  let ?st' = "update_session s row' st"
  have d: "distinct (map fst (cs_sessions st))" and rows: "list_all (\<lambda>(_, row). session_row_ok row) (cs_sessions st)"
    using inv by (simp_all add: vault_inv_def)
  have "session_row_ok row" using rows map_of_SomeD [OF old] by (auto simp: list_all_iff)
  then have "session_row_ok row'" using assms(3-6) by (simp add: session_row_ok_def)
  with rows show "list_all (\<lambda>(_, row). session_row_ok row) (cs_sessions ?st')" by (simp add: list_all_update)
  show "distinct (map fst (cs_sessions ?st'))" using d by (simp add: distinct_update)
  fix l cl assume l: "cs_limits st = Some l"
  let ?n = "storage_class_name cl"
  have "indexed ?st' = indexed st" by (simp add: fun_eq_iff indexed_def)
  moreover have "pending_bytes (indexed st) ?n (s, row') = pending_bytes (indexed st) ?n (s, row)"
    using assms(3-6) by (simp add: pending_bytes_def)
  ultimately have "pending ?n ?st' = pending ?n st"
    using sum_list_update_old [OF d old, of "pending_bytes (indexed st) ?n" row'] by (simp add: pending_def)
  then show "used ?n st + pending ?n ?st' \<le> unat (for_class l cl)"
    using inv l by (simp add: vault_inv_def within_quota_def)
qed simp_all

lemma new_session_inv:
  assumes inv: "vault_inv LB st" and fresh: "map_of (cs_sessions st) s = None"
    and row: "session_row_ok row" "ds_storage_class row = storage_class_name k" "nat (ds_size_bytes row) = unat req"
    and cap: "ensure_storage_capacity k req (Some (ds_digest row)) st = Inr ()"
  shows "vault_inv LB (update_session s row st)"
proof (rule vault_inv_sessions [OF inv])
  let ?st' = "update_session s row st"
  show "list_all (\<lambda>(_, row). session_row_ok row) (cs_sessions ?st')"
    using inv row(1) by (simp add: list_all_update vault_inv_def)
  show "distinct (map fst (cs_sessions ?st'))" using inv by (simp add: distinct_update vault_inv_def)
  fix l cl assume l: "cs_limits st = Some l"
  let ?n = "storage_class_name cl"
  have "indexed ?st' = indexed st" by (simp add: fun_eq_iff indexed_def)
  then have p: "pending ?n ?st' = pending ?n st + pending_bytes (indexed st) ?n (s, row)"
    using sum_list_update_new [OF fresh] by (simp add: pending_def)
  have q: "used ?n st + pending ?n st \<le> unat (for_class l cl)"
    using inv l by (simp add: vault_inv_def within_quota_def)
  show "used ?n st + pending ?n ?st' \<le> unat (for_class l cl)"
  proof (cases "cl = k \<and> \<not> indexed st (ds_digest row)")
    case True
    then show ?thesis
      using capacity_ok [OF cap l] pending_le_reserved [of ?n st] p row(3) by (simp add: pending_bytes_def)
  next
    case False
    then have "pending_bytes (indexed st) ?n (s, row) = 0" using row(2) by (auto simp: pending_bytes_def)
    with p q show ?thesis by simp
  qed
qed simp_all

lemma capacity_accept:
  assumes "accept_authority_in_transaction scope epoch nonce expires now st = Inr st'"
  shows "ensure_storage_capacity k req d st' = ensure_storage_capacity k req d st"
  unfolding ensure_storage_capacity_def accept_frame [OF assms] ..

lemma begin_transaction_inv:
  assumes inv: "vault_inv LB st" and "begin_transaction spec now epoch count st = Inr (Some st')"
    and size: "unat (rs_size_bytes spec) \<le> i64_max"
  shows "vault_inv LB st'"
proof (cases "map_of (cs_sessions st) (rs_session_id spec)")
  case None
  define row where "row = \<lparr>ds_lease_id = rs_lease_id spec, ds_authority_scope = rs_authority_scope spec,
     ds_fencing_epoch = epoch, ds_authority_nonce = rs_authority_nonce spec,
     ds_expires_at_millis = timestamp_millis (rs_expires_at spec), ds_digest = rs_digest spec,
     ds_size_bytes = uint (rs_size_bytes spec), ds_media_type = rs_media_type spec,
     ds_storage_class = storage_class_name (rs_storage_class spec),
     ds_required_replicas = uint (rs_required_replicas spec),
     ds_chunk_size = uint (rs_chunk_size spec), ds_chunk_count = uint count, ds_state = ''active''\<rparr>"
  from assms(2) have "and_then (ensure_storage_capacity (rs_storage_class spec) (rs_size_bytes spec)
      (Some (rs_digest spec)) st) (\<lambda>_. and_then (accept_authority_in_transaction (rs_authority_scope spec)
        (rs_fencing_epoch spec) (rs_authority_nonce spec) (timestamp_millis (rs_expires_at spec)) now st)
        (\<lambda>st1. Inr (Some (update_session (rs_session_id spec) row st1)))) = Inr (Some st')"
    unfolding begin_transaction_def Let_def row_def None option.case .
  then obtain st1 where
    cap: "ensure_storage_capacity (rs_storage_class spec) (rs_size_bytes spec) (Some (rs_digest spec)) st = Inr ()"
    and a: "accept_authority_in_transaction (rs_authority_scope spec) (rs_fencing_epoch spec) (rs_authority_nonce spec)
        (timestamp_millis (rs_expires_at spec)) now st = Inr st1"
    and st': "st' = update_session (rs_session_id spec) row st1"
    unfolding and_then_Inr by auto
  have row: "ds_state row = ''active''" "ds_size_bytes row = uint (rs_size_bytes spec)"
      "ds_storage_class row = storage_class_name (rs_storage_class spec)" "ds_digest row = rs_digest spec"
    by (simp_all add: row_def)
  have "uint (rs_size_bytes spec) \<le> int i64_max"
    using size by (metis of_nat_le_iff uint_nat)
  then have "session_row_ok row" using row by (simp add: session_row_ok_def)
  then show ?thesis
    using new_session_inv [OF accept_inv [OF a inv], of "rs_session_id spec" row "rs_storage_class spec" "rs_size_bytes spec"]
      capacity_accept [OF a] cap row None accept_frame(4) [OF a] st' by simp
next
  case (Some existing)
  with assms(2) consider "st' = st"
    | st1 where "accept_authority_in_transaction (rs_authority_scope spec) (rs_fencing_epoch spec) (rs_authority_nonce spec)
        (timestamp_millis (rs_expires_at spec)) now st = Inr st1"
      "st' = update_session (rs_session_id spec) (existing\<lparr>ds_lease_id := rs_lease_id spec, ds_fencing_epoch := epoch,
                   ds_authority_nonce := rs_authority_nonce spec,
                   ds_expires_at_millis := timestamp_millis (rs_expires_at spec)\<rparr>) st1"
    by (auto simp: begin_transaction_def Let_def and_then_Inr split: if_splits)
  then show ?thesis
  proof cases
    case (2 st1)
    then show ?thesis
      using renew_session_inv [OF accept_inv [OF 2(1) inv], of "rs_session_id spec" existing] Some accept_frame(4) [OF 2(1)]
      by simp
  qed (simp add: inv)
qed

lemma begin_inv:
  assumes inv: "vault_inv LB st"
  shows "vault_inv LB (snd (begin_resumable_put spec now st))"
proof (cases "begin_checked spec now st")
  case (Inr r)
  show ?thesis
  proof (cases r)
    case (Some st')
    obtain count where "begin_transaction spec (timestamp_millis now) (uint (rs_fencing_epoch spec)) count st = Inr (Some st')"
      using begin_checked_Inr(5) [OF Inr] Some by auto
    moreover have "rs_size_bytes spec \<le> MAX_ARTIFACT_TRANSFER_BYTES"
      using begin_checked_Inr(1) [OF Inr] by (auto simp: validate_resumable_spec_def not_less split: if_splits)
    ultimately have "vault_inv LB st'" using begin_transaction_inv [OF inv] size_below_i64 by blast
    then show ?thesis
      using Inr Some inv by (simp add: begin_resumable_put_def Let_def create_transfer_dir_inv)
  qed (use Inr inv in \<open>simp add: begin_resumable_put_def\<close>)
qed (use inv in \<open>simp add: begin_resumable_put_def\<close>)

lemma transfer_manifest_Inr:
  assumes "cas_lib_ok LB" and "transfer_manifest LB d m existing = Inr bytes"
  shows "\<exists>m'. cl_manifest_from_slice LB bytes = Some m' \<and> mf_plaintext_size m' = mf_plaintext_size m
    \<and> mf_media_type m' = mf_media_type m \<and> mf_storage_class m' = mf_storage_class m
    \<and> mf_required_replicas m' = mf_required_replicas m"
proof (cases existing)
  case None
  with assms show ?thesis by (auto simp: transfer_manifest_def cas_lib_ok_def)
next
  case (Some f)
  with assms(2) show ?thesis
    by (auto simp: transfer_manifest_def and_then_Inr split: if_splits option.splits)
qed

lemma commit_checks_Inr:
  assumes "cas_lib_ok LB" and "commit_checks LB s session k now st = Inr bytes"
  shows "ds_state session \<noteq> ''complete''"
    and "\<exists>m. cl_manifest_from_slice LB bytes = Some m \<and> mf_plaintext_size m = of_int (ds_size_bytes session)
      \<and> mf_media_type m = ds_media_type session \<and> mf_storage_class m = k
      \<and> mf_required_replicas m = of_int (ds_required_replicas session)"
proof -
  show "ds_state session \<noteq> ''complete''" using assms(2) by (auto simp: commit_checks_def)
  obtain m where "transfer_manifest LB (ds_digest session) m
      (case cs_transfers st s of None \<Rightarrow> None | Some d \<Rightarrow> od_manifest d) = Inr bytes"
      "mf_plaintext_size m = of_int (ds_size_bytes session)" "mf_media_type m = ds_media_type session"
      "mf_storage_class m = k" "mf_required_replicas m = of_int (ds_required_replicas session)"
    using assms(2) by (auto simp: commit_checks_def Let_def and_then_Inr split: if_splits prod.splits)
  with transfer_manifest_Inr [OF assms(1)]
  show "\<exists>m. cl_manifest_from_slice LB bytes = Some m \<and> mf_plaintext_size m = of_int (ds_size_bytes session)
      \<and> mf_media_type m = ds_media_type session \<and> mf_storage_class m = k
      \<and> mf_required_replicas m = of_int (ds_required_replicas session)" by fastforce
qed

text \<open>Completing a session whose artifact is indexed already.\<close>

lemma complete_session_inv:
  assumes inv: "vault_inv LB st" and old: "map_of (cs_sessions st) s = Some row" and "indexed st (ds_digest row)"
  shows "vault_inv LB (update_session s (row\<lparr>ds_state := ''complete''\<rparr>) st)"
proof (rule vault_inv_sessions [OF inv])
  let ?row = "row\<lparr>ds_state := ''complete''\<rparr>"
  let ?st' = "update_session s ?row st"
  have d: "distinct (map fst (cs_sessions st))" and rows: "list_all (\<lambda>(_, row). session_row_ok row) (cs_sessions st)"
    using inv by (simp_all add: vault_inv_def)
  have "session_row_ok row" using rows map_of_SomeD [OF old] by (auto simp: list_all_iff)
  then have "session_row_ok ?row" by (simp add: session_row_ok_def)
  with rows show "list_all (\<lambda>(_, row). session_row_ok row) (cs_sessions ?st')" by (simp add: list_all_update)
  show "distinct (map fst (cs_sessions ?st'))" using d by (simp add: distinct_update)
  fix l cl assume l: "cs_limits st = Some l"
  let ?n = "storage_class_name cl"
  have "indexed ?st' = indexed st" by (simp add: fun_eq_iff indexed_def)
  then have "pending ?n ?st' = pending ?n st"
    using sum_list_update_old [OF d old, of "pending_bytes (indexed st) ?n" ?row] assms(3)
    by (simp add: pending_def) (simp add: pending_bytes_def)
  then show "used ?n st + pending ?n ?st' \<le> unat (for_class l cl)"
    using inv l by (simp add: vault_inv_def within_quota_def)
qed simp_all

lemma finish_commit_inv_indexed:
  assumes inv: "vault_inv LB st" and old: "map_of (cs_sessions st) s = Some session"
    and "indexed st (ds_digest session)" and "ar_digest (ac_artifact c) = ds_digest session"
  shows "vault_inv LB (snd (finish_commit s session c k st))"
proof -
  have "st' = st" if "index_artifact_in_transaction (ac_artifact c) n st = Inr st'" for st' n
    using that assms(3,4) unfolding index_artifact_cases by (auto simp: indexed_def)
  then show ?thesis
    using inv complete_session_inv [OF inv old assms(3)]
    by (auto simp: finish_commit_eq and_then_def split: sum.split)
qed

text \<open>Completing a session whose artifact was not indexed: the bytes move from pending to used.\<close>

lemma finish_commit_inv_new:
  assumes inv: "vault_inv LB st" and old: "map_of (cs_sessions st) s = Some session"
    and new: "\<not> indexed st (ds_digest session)" and active: "ds_state session = ''active''"
    and st1: "cs_artifacts st1 = cs_artifacts st" "cs_limits st1 = cs_limits st" "cs_sessions st1 = cs_sessions st"
      "\<And>e. cs_objects st1 e = cs_objects st e \<or> e = ds_digest session"
    and row: "aw_storage_class row = ds_storage_class session" "unat (aw_size_bytes row) = nat (ds_size_bytes session)"
      "ds_storage_class session = storage_class_name k"
  shows "vault_inv LB (update_session s (session\<lparr>ds_state := ''complete''\<rparr>)
    (st1\<lparr>cs_artifacts := cs_artifacts st @ [(ds_digest session, row)]\<rparr>))" (is "vault_inv LB ?st'")
proof (rule vault_inv_index [OF inv new, where row = row and cl = k])
  let ?row = "session\<lparr>ds_state := ''complete''\<rparr>"
  have d: "distinct (map fst (cs_sessions st))" and rows: "list_all (\<lambda>(_, row). session_row_ok row) (cs_sessions st)"
    using inv by (simp_all add: vault_inv_def)
  have "session_row_ok session" using rows map_of_SomeD [OF old] by (auto simp: list_all_iff)
  then have "session_row_ok ?row" by (simp add: session_row_ok_def)
  with rows show "list_all (\<lambda>(_, row). session_row_ok row) (cs_sessions ?st')"
    by (simp add: list_all_update st1)
  show "distinct (map fst (cs_sessions ?st'))" using d by (simp add: distinct_update st1)
  have ix: "indexed ?st' e \<longleftrightarrow> indexed st e \<or> e = ds_digest session" for e
    by (auto simp: indexed_def map_add_def split: option.splits)
  have gap: "pending name ?st' + pending_bytes (indexed st) name (s, session) \<le> pending name st" for name
  proof -
    let ?g = "pending_bytes (indexed ?st') name" and ?f = "pending_bytes (indexed st) name"
    have "?g (s, v) = 0" if "ds_digest v = ds_digest session" for v using that by (simp add: pending_bytes_def ix)
    then have "pending name ?st' = sum_list (map ?g (cs_sessions st))"
      using sum_list_update_old [OF d old, of ?g ?row] by (simp add: pending_def st1)
    moreover have "sum_list (map ?g (cs_sessions st)) + ?f (s, session) \<le> sum_list (map ?f (cs_sessions st))"
    proof (rule sum_list_le_with_gap)
      show "(s, session) \<in> set (cs_sessions st)" using old by (rule map_of_SomeD)
      show "?g y \<le> ?f y" for y by (cases y) (simp add: pending_bytes_def ix)
      show "?g (s, session) = 0" by (simp add: pending_bytes_def ix)
    qed
    ultimately show ?thesis by (simp add: pending_def)
  qed
  show "pending name ?st' \<le> pending name st" for name using gap [of name] by linarith
  fix l assume l: "cs_limits st = Some l"
  let ?n = "storage_class_name k"
  have "pending_bytes (indexed st) ?n (s, session) = unat (aw_size_bytes row)"
    using active new row by (simp add: pending_bytes_def)
  moreover have "used ?n st + pending ?n st \<le> unat (for_class l k)"
    using inv l by (simp add: vault_inv_def within_quota_def)
  ultimately show "used ?n st + pending ?n ?st' + unat (aw_size_bytes row) \<le> unat (for_class l k)"
    using gap [of ?n] by simp
qed (simp_all add: st1 row)

lemma unat_of_int_u64: "0 \<le> n \<Longrightarrow> n \<le> int i64_max \<Longrightarrow> unat (of_int n :: u64) = nat n"
  by (simp add: unat_eq_nat_uint uint_word_of_int i64_max_def)

lemma commit_promote_inv:
  assumes lib: "cas_lib_ok LB" and inv: "vault_inv LB st" and old: "map_of (cs_sessions st) s = Some session"
    and k: "ds_storage_class session = storage_class_name k"
    and checks: "commit_checks LB s session k now st = Inr bytes"
    and none: "cs_objects st (ds_digest session) = None"
    and st1: "st1 = st\<lparr>cs_objects := (cs_objects st)(ds_digest session \<mapsto>
        ObjDir \<lparr>od_manifest = Some (Regular bytes), od_chunks = files\<rparr>), cs_transfers := tr\<rparr>"
    and v: "verify_object LB (ds_digest session) st1 = Inr c"
  shows "vault_inv LB (snd (finish_commit s session c k st1))"
proof (cases "indexed st (ds_digest session)")
  case True
  have "vault_inv LB st1" using vault_inv_write_object [OF inv st1] True by blast
  moreover have "ar_digest (ac_artifact c) = ds_digest session"
    using verify_object_Inr [OF v] by (auto simp: artifact_contract_from_manifest_def)
  ultimately show ?thesis
    using finish_commit_inv_indexed [of LB st1 s session c k] old True by (simp add: st1 indexed_def)
next
  case False
  obtain m where m: "cl_manifest_from_slice LB bytes = Some m"
      "mf_plaintext_size m = of_int (ds_size_bytes session)" "mf_media_type m = ds_media_type session"
      "mf_storage_class m = k" "mf_required_replicas m = of_int (ds_required_replicas session)"
    using commit_checks_Inr(2) [OF lib checks] by blast
  obtain m' where m': "read_manifest LB (ds_digest session) st1 = Inr m'"
      "c = artifact_contract_from_manifest (ds_digest session) m'"
    using verify_object_Inr [OF v] by blast
  have "m' = m"
    by (rule read_manifest_stored [OF _ _ m(1) m'(1),
          where dir = "\<lparr>od_manifest = Some (Regular bytes), od_chunks = files\<rparr>"]) (simp_all add: st1)
  note c = m'(2) [unfolded this]
  have row_ok: "session_row_ok session"
    using inv map_of_SomeD [OF old] by (auto simp: vault_inv_def list_all_iff)
  then have active: "ds_state session = ''active''"
    using commit_checks_Inr(1) [OF lib checks] by (auto simp: session_row_ok_def)
  let ?row = "row_of_artifact (ac_artifact c) (ac_required_replicas c)"
  have "unat (of_int (ds_size_bytes session) :: u64) \<le> i64_max"
    using read_manifest_size [OF m'(1)] \<open>m' = m\<close> m(2) size_below_i64 by simp
  then have "index_artifact_in_transaction (ac_artifact c) (ac_required_replicas c) st1
      = Inr (st1\<lparr>cs_artifacts := cs_artifacts st @ [(ds_digest session, ?row)]\<rparr>)"
    unfolding index_artifact_cases
    using False by (auto simp: indexed_def st1 c artifact_contract_from_manifest_def m(2))
  moreover have "ensure_artifact_contract c (of_int (ds_size_bytes session)) (ds_media_type session) k
      (of_int (ds_required_replicas session)) = Inr ()"
    by (simp add: c ensure_artifact_contract_def artifact_contract_from_manifest_def m)
  ultimately have "snd (finish_commit s session c k st1) = update_session s (session\<lparr>ds_state := ''complete''\<rparr>)
      (st1\<lparr>cs_artifacts := cs_artifacts st @ [(ds_digest session, ?row)]\<rparr>)"
    by (simp add: finish_commit_eq)
  moreover have "vault_inv LB \<dots>"
    using row_ok unat_of_int_u64 [of "ds_size_bytes session"] k
    by (intro finish_commit_inv_new [OF inv old False active])
      (auto simp: st1 row_of_artifact_def c artifact_contract_from_manifest_def m session_row_ok_def)
  ultimately show ?thesis by simp
qed

lemma commit_new_inv:
  assumes lib: "cas_lib_ok LB" and inv: "vault_inv LB st" and old: "map_of (cs_sessions st) s = Some session"
    and k: "ds_storage_class session = storage_class_name k"
    and absent: "\<not> object_present (ds_digest session) st"
  shows "vault_inv LB (snd (commit_new LB s session k now st))"
proof (cases "commit_checks LB s session k now st")
  case (Inl e)
  with inv show ?thesis by (simp add: commit_new_eq)
next
  case (Inr bytes)
  let ?d = "ds_digest session"
  show ?thesis
  proof (cases "cs_objects st ?d")
    case None
    let ?dir = "ObjDir \<lparr>od_manifest = Some (Regular bytes), od_chunks = transfer_files s st\<rparr>"
    define st1 where "st1 = st\<lparr>cs_objects := (cs_objects st)(?d \<mapsto> ?dir), cs_transfers := (cs_transfers st)(s := None)\<rparr>"
    have run: "commit_new LB s session k now st = (case verify_object LB ?d st1 of Inl e \<Rightarrow> (Inl e, st1)
        | Inr committed \<Rightarrow> finish_commit s session committed k st1)"
      unfolding st1_def using Inr None by (simp add: commit_new_eq Let_def)
    show ?thesis
    proof (cases "verify_object LB ?d st1")
      case (Inl e)
      with run show ?thesis using vault_inv_write_object [OF inv st1_def] by simp
    next
      case (Inr c)
      with run show ?thesis
        using commit_promote_inv [OF lib inv old k \<open>commit_checks LB s session k now st = Inr bytes\<close> None st1_def] by simp
    qed
  next
    case (Some e)
    with absent have "\<not> object_exists e" by (simp add: object_present_def)
    then have "verify_object LB ?d (st\<lparr>cs_transfers := tr\<rparr>) \<noteq> Inr c" for tr c
      using Some by (cases e) (auto simp: verify_object_def read_manifest_def and_then_Inr)
    moreover have "vault_inv LB (st\<lparr>cs_transfers := tr\<rparr>)" for tr
      by (rule vault_inv_objects [OF inv]) simp_all
    ultimately show ?thesis
      using Inr Some by (auto simp: commit_new_eq Let_def split: sum.split)
  qed
qed

lemma commit_inv:
  assumes lib: "cas_lib_ok LB" and inv: "vault_inv LB st"
  shows "vault_inv LB (snd (commit_resumable_put LB s now st))"
proof (cases "map_of (cs_sessions st) s")
  case None
  then have "snd (commit_resumable_put LB s now st) = st"
    unfolding commit_resumable_put_eq None option.case by (auto split: sum.split)
  with inv show ?thesis by simp
next
  case old: (Some session)
  let ?d = "ds_digest session" and ?q = "quarantine_object (ds_digest session) st"
  show ?thesis
  proof (cases "and_then (parse_storage_class (ds_storage_class session)) (\<lambda>class.
        and_then (object_dir_ok ?d) (\<lambda>_. Inr class))")
    case (Inl e)
    then have "snd (commit_resumable_put LB s now st) = st"
      using old by (auto simp: commit_resumable_put_eq split: sum.split)
    with inv show ?thesis by simp
  next
    case (Inr k)
    then have k: "ds_storage_class session = storage_class_name k" by (auto simp: and_then_Inr)
    have "\<not> object_present ?d ?q" by (simp add: object_present_def quarantine_object_def)
    then have q: "vault_inv LB (snd (commit_new LB s session k now ?q))"
      using commit_new_inv [OF lib vault_inv_quarantine [OF inv], where s = s and session = session and k = k] old k by simp
    have n: "\<not> object_present ?d st \<Longrightarrow> vault_inv LB (snd (commit_new LB s session k now st))"
      using commit_new_inv [OF lib inv old k] .
    have f: "vault_inv LB (snd (finish_commit s session c k st))" if v: "verify_object LB ?d st = Inr c" for c
      using verify_object_Inr [OF v] vault_inv_verified [OF inv v]
      by (intro finish_commit_inv_indexed [OF inv old]) (auto simp: artifact_contract_from_manifest_def)
    show ?thesis
      using inv q n f Inr old by (auto simp: commit_resumable_put_eq split: sum.split)
  qed
qed

lemma vault_inv_step:
  assumes lib: "cas_lib_ok LB" and inv: "vault_inv LB st" and "cas_step LB now st st'"
  shows "vault_inv LB st'"
  using assms(3)
proof cases
  case put
  then show ?thesis using put_inv [OF lib inv] by simp
next
  case (accept scope epoch nonce expires)
  then show ?thesis
    using accept_authority_frame [of scope epoch nonce expires now st] accept_inv [OF _ inv] inv by metis
next
  case begin_put
  then show ?thesis using begin_inv [OF inv] by simp
next
  case (put_chunk s i d p n)
  show ?thesis
    unfolding put_chunk using put_chunk_frame [of st LB s i d p now n]
    by (intro vault_inv_objects [OF inv]) (simp_all add: same_config_def)
next
  case commit
  then show ?thesis using commit_inv [OF lib inv] by simp
next
  case (damage objects transfers)
  show ?thesis
  proof (rule vault_inv_objects [OF inv])
    fix d c assume "cs_objects st' d \<noteq> cs_objects st d" "verify_object LB d st' = Inr c"
    moreover have "verify_object LB d st' = verify_object LB d (st\<lparr>cs_objects := objects\<rparr>)"
      by (rule verify_object_cong) (simp add: damage)
    ultimately have "objects d \<noteq> cs_objects st d" "verify_object LB d (st\<lparr>cs_objects := objects\<rparr>) = Inr c"
      by (simp_all add: damage(1))
    then show "indexed st d" using damage(2) [of d] by simp
  qed (simp_all add: damage)
qed

lemma vault_inv_open: "vault_inv LB (open_with_limits limits)"
  by (auto simp: vault_inv_def open_with_limits_def within_quota_def used_def pending_def
      dest!: verify_object_Inr read_manifest_Inr(3) split: option.split)

interpretation quota: invariant_system "\<lambda>st st'. \<exists>now. cas_step LB now st st'"
    "\<lambda>st. \<exists>limits. st = open_with_limits limits" "\<lambda>st. cas_lib_ok LB \<longrightarrow> vault_inv LB st" for LB
  by unfold_locales (auto simp: vault_inv_open intro: vault_inv_step)

end
