(* ===== verification/Rampage_Custody.thy ===== *)
theory Rampage_Custody
  imports Rampage_Quota
begin

text \<open>
  Lemmas on chunks, manifests and objects that the properties of the store rest on: the chunk
  arithmetic of the store against the protocol's, what an accepted manifest says, and reading
  back what was encrypted.
\<close>

section \<open>Chunk arithmetic\<close>

lemma chunk_count_Inr:
  assumes "sz \<noteq> 0" "sz \<le> MAX_ARTIFACT_TRANSFER_BYTES" "chunk \<noteq> 0"
  shows "\<exists>n. chunk_count sz chunk = Inr n \<and> unat n = chunk_count_nat sz chunk"
proof -
  have "chunk_count_nat sz chunk < 2 ^ 32" using chunk_count_bound [OF assms(2,3)] by simp
  then show ?thesis
    using assms by (auto simp: chunk_count_def u32_try_from_def chunk_count_nat_def unsigned_ucast_eq take_bit_nat_eq_self)
qed

lemma expected_chunk_size_agrees:
  assumes "sz \<le> MAX_ARTIFACT_TRANSFER_BYTES"
  shows "expected_chunk_size sz chunk i = Inr b \<longleftrightarrow> expected_artifact_chunk_size sz chunk i = Some b"
proof (cases "sz = 0 \<or> chunk = 0")
  case True
  then show ?thesis by (auto simp: expected_chunk_size_def expected_artifact_chunk_size_def chunk_count_def)
next
  case False
  then obtain n where n: "chunk_count sz chunk = Inr n" "unat n = chunk_count_nat sz chunk"
    using chunk_count_Inr [of sz chunk] assms by blast
  have c0: "0 < unat chunk" using False by (simp add: unat_gt_0)
  have lt: "i < n \<longleftrightarrow> unat i * unat chunk < unat sz"
    using chunk_in_range [OF c0, of "unat i" "unat sz"] False n(2)
    by (simp add: word_less_nat_alt chunk_count_nat_eq)
  show ?thesis
    using False n(1) lt
    by (auto simp: expected_chunk_size_def expected_artifact_chunk_size_def Let_def word_le_nat_alt
        word_less_nat_alt not_le)
qed

section \<open>Accepted manifests\<close>

text \<open>The loop accepts the remaining chunks exactly when each has its index, its size and well-formed
  texts: every chunk but the last is nominal, the last holds what is left.\<close>

definition chunk_texts_ok :: "chunk_record \<Rightarrow> bool" where
  "chunk_texts_ok c = (length (cr_nonce c) = 24 \<and> is_lower_hex (cr_nonce c)
     \<and> length (cr_ciphertext_digest c) = 64 \<and> is_lower_hex (cr_ciphertext_digest c))"

fun chunk_sizes_ok :: "nat \<Rightarrow> nat \<Rightarrow> nat \<Rightarrow> chunk_record list \<Rightarrow> bool" where
  "chunk_sizes_ok sz nominal k [] = True"
| "chunk_sizes_ok sz nominal k (c # cs) =
     (cr_index c = of_nat k \<and> chunk_texts_ok c \<and> 0 < unat (cr_plaintext_size c)
      \<and> unat (cr_plaintext_size c) = (if cs = [] then sz else nominal) \<and> unat (cr_plaintext_size c) \<le> nominal
      \<and> chunk_sizes_ok (sz - nominal) nominal (Suc k) cs)"

lemma chunk_sizes_ok_nth:
  "chunk_sizes_ok sz nominal k cs \<Longrightarrow> i < length cs \<Longrightarrow>
     cr_index (cs ! i) = of_nat (k + i) \<and> chunk_texts_ok (cs ! i) \<and> 0 < unat (cr_plaintext_size (cs ! i))
     \<and> unat (cr_plaintext_size (cs ! i)) = (if i + 1 = length cs then sz - i * nominal else nominal)
     \<and> unat (cr_plaintext_size (cs ! i)) \<le> nominal"
proof (induction cs arbitrary: sz k i)
  case (Cons c cs)
  show ?case
  proof (cases i)
    case 0
    with Cons.prems show ?thesis by (auto split: if_splits)
  next
    case (Suc j)
    have "length cs * nominal = nominal + j * nominal" if "Suc j = length cs" using that by (metis mult_Suc)
    moreover have "chunk_sizes_ok (sz - nominal) nominal (Suc k) cs" "j < length cs" using Cons.prems Suc by auto
    ultimately show ?thesis using Cons.IH [of "sz - nominal" "Suc k" j] Suc by simp
  qed
qed simp

lemma chunk_sizes_ok_bounds:
  "chunk_sizes_ok sz nominal k cs \<Longrightarrow> cs \<noteq> [] \<Longrightarrow>
     (length cs - 1) * nominal < sz \<and> sz \<le> length cs * nominal"
proof (induction cs arbitrary: sz k)
  case (Cons c cs)
  show ?case
  proof (cases "cs = []")
    case True
    with Cons.prems show ?thesis by simp
  next
    case False
    with Cons.prems Cons.IH [of "sz - nominal" "Suc k"] show ?thesis
      by (cases cs) (auto simp: algebra_simps)
  qed
qed simp

lemma validate_manifest_chunks_exact:
  assumes "cs \<noteq> []" and "seen \<le> sz"
  shows "validate_manifest_chunks sz nominal seen k cs = Inr t \<longleftrightarrow>
    chunk_sizes_ok (unat sz - unat seen) (unat nominal) k cs \<and> t = sz"
  using assms
proof (induction cs arbitrary: seen k)
  case (Cons c cs)
  have rem: "checked_sub sz seen = Some (sz - seen)" "unat (sz - seen) = unat sz - unat seen"
    using Cons.prems(2) by (simp_all add: checked_sub_def unat_sub)
  show ?case
  proof (cases "cs = []")
    case True
    have "seen + (sz - seen) = sz" "unat seen + unat (sz - seen) < 2 ^ 64"
      using rem(2) Cons.prems(2) unat_u64_lt [of sz] by (simp_all add: word_le_nat_alt)
    then have "checked_add seen (sz - seen) = Some sz" by (simp add: checked_add_def)
    then have "validate_manifest_chunks sz nominal seen k (c # cs) = Inr t \<longleftrightarrow>
        sz - seen \<le> nominal \<and> cr_index c = of_nat k \<and> cr_plaintext_size c \<noteq> 0
        \<and> cr_plaintext_size c = sz - seen \<and> chunk_texts_ok c \<and> t = sz"
      using True rem(1) by (auto simp: chunk_texts_ok_def Let_def)
    also have "\<dots> \<longleftrightarrow> chunk_sizes_ok (unat sz - unat seen) (unat nominal) k (c # cs) \<and> t = sz"
      unfolding word_le_nat_alt word_unat_eq_iff [of "cr_plaintext_size c"] rem(2)
      using True by (auto simp: rem(2))
    finally show ?thesis .
  next
    case False
    let ?p = "cr_plaintext_size c"
    have step: "validate_manifest_chunks sz nominal seen k (c # cs) = Inr t \<longleftrightarrow>
        cr_index c = of_nat k \<and> chunk_texts_ok c \<and> 0 < unat ?p \<and> ?p = nominal \<and>
        (\<exists>seen'. checked_add seen ?p = Some seen' \<and> validate_manifest_chunks sz nominal seen' (Suc k) cs = Inr t)"
      unfolding validate_manifest_chunks.simps rem(1) Let_def option.case chunk_texts_ok_def
      using False by (simp add: unat_gt_0 split: option.split) blast
    show ?thesis
    proof (cases "?p = nominal \<and> unat seen + unat nominal \<le> unat sz")
      case True
      then have "unat seen + unat nominal < 2 ^ 64" using unat_u64_lt [of sz] by linarith
      then obtain seen' where s': "checked_add seen ?p = Some seen'" "unat seen' = unat seen + unat nominal"
        using True unat_checked_add [of seen ?p "seen + nominal"] by (simp add: checked_add_def)
      then have "validate_manifest_chunks sz nominal seen' (Suc k) cs = Inr t \<longleftrightarrow>
          chunk_sizes_ok (unat sz - unat seen - unat nominal) (unat nominal) (Suc k) cs \<and> t = sz"
        using Cons.IH [of seen' "Suc k"] False True by (simp add: word_le_nat_alt diff_diff_add)
      then show ?thesis unfolding step using s'(1) True False by auto
    next
      case no: False
      have "validate_manifest_chunks sz nominal seen' (Suc k) cs \<noteq> Inr t"
        if "checked_add seen nominal = Some seen'" "unat sz < unat seen + unat nominal" for seen'
        using that unat_checked_add [OF that(1)] False
        by (cases cs) (auto simp: checked_sub_def word_le_nat_alt)
      moreover have "\<not> chunk_sizes_ok (unat sz - unat seen - unat nominal) (unat nominal) (Suc k) cs"
        if "unat sz < unat seen + unat nominal"
        using chunk_sizes_ok_bounds [of "unat sz - unat seen - unat nominal" "unat nominal" "Suc k" cs] False that
        by auto
      ultimately show ?thesis unfolding step using no False word_unat_eq_iff [of ?p nominal] by (auto simp: not_le)
    qed
  qed
qed simp

definition manifest_fields_ok :: "string \<Rightarrow> manifest \<Rightarrow> bool" where
  "manifest_fields_ok d m = (mf_schema m = ''rampage.cas-manifest.v1'' \<and> mf_plaintext_digest m = d
     \<and> mf_plaintext_size m \<le> MAX_ARTIFACT_TRANSFER_BYTES \<and> bounded_ascii 255 (mf_media_type m)
     \<and> mf_required_replicas m \<noteq> 0 \<and> (mf_storage_class m = Protected \<longrightarrow> \<not> mf_required_replicas m < 2))"

lemma validate_manifest_exact:
  "validate_manifest d m = Inr () \<longleftrightarrow> manifest_fields_ok d m
     \<and> (if mf_chunks m = [] then mf_plaintext_size m = 0
        else mf_plaintext_size m \<noteq> 0 \<and> unat (cr_plaintext_size (hd (mf_chunks m))) \<le> DEFAULT_CHUNK_SIZE
          \<and> chunk_sizes_ok (unat (mf_plaintext_size m)) (unat (cr_plaintext_size (hd (mf_chunks m)))) 0 (mf_chunks m))"
proof -
  have fields: "(mf_schema m \<noteq> ''rampage.cas-manifest.v1'' \<or> mf_plaintext_digest m \<noteq> d
        \<or> mf_plaintext_size m > MAX_ARTIFACT_TRANSFER_BYTES \<or> mf_media_type m = []
        \<or> length (mf_media_type m) > 255 \<or> \<not> is_ascii (mf_media_type m)
        \<or> mf_required_replicas m = 0
        \<or> (mf_storage_class m = Protected \<and> mf_required_replicas m < 2)
        \<or> (mf_plaintext_size m = 0) \<noteq> (mf_chunks m = []))
      \<longleftrightarrow> \<not> (manifest_fields_ok d m \<and> ((mf_plaintext_size m = 0) = (mf_chunks m = [])))"
    by (auto simp: manifest_fields_ok_def bounded_ascii_def not_less)
  have nominal: "x > of_nat DEFAULT_CHUNK_SIZE \<longleftrightarrow> \<not> unat x \<le> DEFAULT_CHUNK_SIZE" for x :: u64
    by (simp add: word_less_nat_alt DEFAULT_CHUNK_SIZE_def not_le)
  show ?thesis
  proof (cases "mf_chunks m")
    case Nil
    then show ?thesis unfolding validate_manifest_def fields Let_def by (simp add: DEFAULT_CHUNK_SIZE_def)
  next
    case (Cons c cs)
    have "and_then (validate_manifest_chunks (mf_plaintext_size m) (cr_plaintext_size c) 0 0 (c # cs))
          (\<lambda>t. ensure (t = mf_plaintext_size m) InvalidManifest) = Inr ()
        \<longleftrightarrow> chunk_sizes_ok (unat (mf_plaintext_size m)) (unat (cr_plaintext_size c)) 0 (c # cs)"
      unfolding and_then_Inr
      using validate_manifest_chunks_exact [of "c # cs" 0 "mf_plaintext_size m" "cr_plaintext_size c" 0] by simp
    then show ?thesis
      unfolding validate_manifest_def fields Let_def unfolding Cons list.case nominal
      by (simp del: chunk_sizes_ok.simps validate_manifest_chunks.simps)
  qed
qed

lemma chunk_sizes_sum:
  "chunk_sizes_ok sz nominal k cs \<Longrightarrow> cs \<noteq> [] \<Longrightarrow>
     sum_list (map (\<lambda>c. unat (cr_plaintext_size c)) cs) = sz"
proof (induction cs arbitrary: sz k)
  case (Cons c cs)
  show ?case
  proof (cases "cs = []")
    case True
    with Cons.prems show ?thesis by simp
  next
    case False
    with Cons.prems have rest: "chunk_sizes_ok (sz - nominal) nominal (Suc k) cs" by simp
    with Cons.IH [OF rest False] Cons.prems False chunk_sizes_ok_bounds [OF rest False] show ?thesis by auto
  qed
qed simp

lemma manifest_sizes_sum:
  "validate_manifest d m = Inr () \<Longrightarrow>
     sum_list (map (\<lambda>c. unat (cr_plaintext_size c)) (mf_chunks m)) = unat (mf_plaintext_size m)"
  unfolding validate_manifest_exact using chunk_sizes_sum by (auto split: if_splits)

section \<open>Reading objects\<close>

lemma open_record_size: "open_record LB files r = Inr p \<Longrightarrow> of_nat (length p) = cr_plaintext_size r"
  by (auto simp: open_record_def open_chunk_def and_then_Inr split: if_splits option.splits)

text \<open>Verification of the chunks is reading them: same errors, same bytes, and the count is the sum
  of the declared sizes.\<close>

lemma verify_chunks_read:
  "unat n + sum_list (map (\<lambda>c. unat (cr_plaintext_size c)) cs) < 2 ^ 64 \<Longrightarrow>
     verify_chunks LB files seen n cs = and_then (read_chunks LB files cs)
       (\<lambda>p. Inr (seen @ p, n + sum_list (map cr_plaintext_size cs)))"
proof (induction cs arbitrary: seen n)
  case (Cons r rs)
  show ?case
  proof (cases "open_record LB files r")
    case (Inr p)
    have size: "of_nat (length p) = cr_plaintext_size r" using open_record_size [OF Inr] .
    then have ca: "checked_add n (of_nat (length p)) = Some (n + cr_plaintext_size r)"
      using Cons.prems by (simp add: checked_add_def)
    have "unat (n + cr_plaintext_size r) = unat n + unat (cr_plaintext_size r)"
      using unat_checked_add [OF ca] size by simp
    with Cons.prems Cons.IH [of "n + cr_plaintext_size r" "seen @ p"] Inr ca show ?thesis
      by (cases "read_chunks LB files rs") (simp_all add: add.assoc)
  qed simp
qed simp

lemma sum_list_word: "sum_list (map f xs) = of_nat (sum_list (map (\<lambda>x. unat (f x :: u64)) xs))"
  by (induction xs) simp_all

lemma manifest_verify_chunks:
  assumes "validate_manifest d m = Inr ()"
  shows "verify_chunks LB files [] 0 (mf_chunks m) =
    and_then (read_chunks LB files (mf_chunks m)) (\<lambda>p. Inr (p, mf_plaintext_size m))"
proof -
  have "sum_list (map cr_plaintext_size (mf_chunks m)) = mf_plaintext_size m"
    using manifest_sizes_sum [OF assms] sum_list_word [of cr_plaintext_size "mf_chunks m"] by simp
  then show ?thesis
    using verify_chunks_read [of 0 "mf_chunks m" LB files "[]"] manifest_sizes_sum [OF assms]
      unat_u64_lt [of "mf_plaintext_size m"] by simp
qed

lemma verify_object_exact:
  "verify_object LB d st = Inr c \<longleftrightarrow> (\<exists>m p. read_manifest LB d st = Inr m
     \<and> read_chunks LB (chunk_files d st) (mf_chunks m) = Inr p \<and> sha256_digest LB p = d
     \<and> c = artifact_contract_from_manifest d m)"
proof (cases "read_manifest LB d st")
  case (Inl e)
  then show ?thesis by (auto simp: verify_object_def and_then_Inr)
next
  case (Inr m)
  note ok = read_manifest_Inr(1,2) [OF Inr]
  show ?thesis
    unfolding verify_object_def ok Inr and_then_simps manifest_verify_chunks [OF ok(2)]
    by (auto simp: and_then_Inr)
qed

lemma get_exact:
  "get LB d st = Inr p \<longleftrightarrow> (\<exists>m. read_manifest LB d st = Inr m
     \<and> read_chunks LB (chunk_files d st) (mf_chunks m) = Inr p \<and> sha256_digest LB p = d)"
proof (cases "read_manifest LB d st")
  case (Inl e)
  then show ?thesis by (auto simp: get_def and_then_Inr)
next
  case (Inr m)
  note ok = read_manifest_Inr [OF Inr]
  have "mf_plaintext_digest m = d" using ok(2) unfolding validate_manifest_exact manifest_fields_ok_def by blast
  then show ?thesis
    using ok(1,3) Inr by (auto simp: get_def and_then_Inr is_file_at_def Let_def)
qed

section \<open>Reading back what was encrypted\<close>

text \<open>A random supply that never fails: twelve bytes for every chunk.\<close>

definition random_ok :: "(nat \<Rightarrow> string option) \<Rightarrow> bool" where
  "random_ok random = (\<forall>i. \<exists>n. random i = Some n \<and> length n = 12)"

lemma open_encrypted:
  assumes "cas_lib_ok LB" and "length nonce = 12" and "cl_encrypt LB nonce p = Some c"
    and "length p \<le> DEFAULT_CHUNK_SIZE" and "files i = Some (Regular c)"
  shows "open_chunk LB files i (cl_hex_encode LB nonce) (cl_sha256_hex LB c) (of_nat (length p)) = Inr p"
proof -
  have "cl_decrypt LB nonce c = Some p" "length c = length p + 16"
    using assms(1-3) unfolding cas_lib_ok_def by (metis option.inject)+
  moreover have "cl_hex_decode LB (cl_hex_encode LB nonce) = Some nonce" using assms(1) by (simp add: cas_lib_ok_def)
  ultimately show ?thesis
    using assms(2,4,5)
    by (simp add: open_chunk_def read_regular_file_bounded_def MAX_ENCRYPTED_CHUNK_BYTES_def decode_nonce_def)
qed

text \<open>What the encryption loop produces for each chunk.\<close>

definition encrypted_as :: "cas_lib \<Rightarrow> nat \<Rightarrow> string \<Rightarrow> chunk_record \<times> string \<Rightarrow> bool" where
  "encrypted_as LB j p rc = (\<exists>nonce c. length nonce = 12 \<and> cl_encrypt LB nonce p = Some c
     \<and> rc = (\<lparr>cr_index = of_nat j, cr_nonce = cl_hex_encode LB nonce, cr_plaintext_size = of_nat (length p),
         cr_ciphertext_digest = cl_sha256_hex LB c\<rparr>, c))"

lemma encrypt_chunks_ok:
  assumes lib: "cas_lib_ok LB" and rnd: "random_ok random"
  shows "\<exists>records. encrypt_chunks LB random k cs = Inr records \<and> length records = length cs
    \<and> (\<forall>i < length cs. encrypted_as LB (k + i) (cs ! i) (records ! i))"
proof (induction cs arbitrary: k)
  case (Cons p cs)
  obtain nonce where n: "random k = Some nonce" "length nonce = 12" using rnd by (auto simp: random_ok_def)
  obtain c where c: "cl_encrypt LB nonce p = Some c" using lib n(2) unfolding cas_lib_ok_def by blast
  from Cons.IH [of "Suc k"] obtain records where r: "encrypt_chunks LB random (Suc k) cs = Inr records"
      "length records = length cs" "\<forall>i < length cs. encrypted_as LB (Suc k + i) (cs ! i) (records ! i)"
    by blast
  define rc where "rc = (\<lparr>cr_index = of_nat k, cr_nonce = cl_hex_encode LB nonce,
      cr_plaintext_size = of_nat (length p), cr_ciphertext_digest = cl_sha256_hex LB c\<rparr>, c)"
  have "encrypted_as LB k p rc" using n(2) c unfolding encrypted_as_def rc_def by blast
  then have "\<forall>i < length (p # cs). encrypted_as LB (k + i) ((p # cs) ! i) ((rc # records) ! i)"
    using r(3) by (auto simp: less_Suc_eq_0_disj)
  moreover have "encrypt_chunks LB random k (p # cs) = Inr (rc # records)"
    using n(1) c r(1) by (simp add: rc_def)
  ultimately show ?case using r(2) by auto
qed simp

lemma files_of_nth:
  assumes "distinct (map (\<lambda>r. cr_index (fst r)) records)" and "i < length records"
  shows "files_of records (cr_index (fst (records ! i))) = Some (Regular (snd (records ! i)))"
  unfolding files_of_def using assms
  by (intro map_of_is_SomeI) (auto simp: comp_def case_prod_beta in_set_conv_nth image_iff intro!: bexI [of _ "records ! i"])

lemma read_chunks_nth:
  assumes "length ps = length rs" and "\<And>i. i < length rs \<Longrightarrow> open_record LB files (rs ! i) = Inr (ps ! i)"
  shows "read_chunks LB files rs = Inr (concat ps)"
  using assms
proof (induction rs arbitrary: ps)
  case (Cons r rs)
  then obtain q qs where ps: "ps = q # qs" by (cases ps) auto
  have "open_record LB files (rs ! i) = Inr (qs ! i)" if "i < length rs" for i
    using Cons.prems(2) [of "Suc i"] that ps by simp
  then have "read_chunks LB files rs = Inr (concat qs)" using Cons.prems(1) ps by (intro Cons.IH) simp_all
  with Cons.prems(2) [of 0] ps show ?case by simp
qed simp

lemma concat_chunks_of: "0 < n \<Longrightarrow> concat (chunks_of n xs) = xs"
  by (induction n xs rule: chunks_of.induct) (simp_all del: take_Suc_Cons)

lemma chunks_of_bound: "c \<in> set (chunks_of n xs) \<Longrightarrow> length c \<le> n"
  by (induction n xs rule: chunks_of.induct) (auto split: if_splits)

lemma chunks_of_length: "0 < n \<Longrightarrow> length (chunks_of n xs) \<le> length xs"
proof (induction n xs rule: chunks_of.induct)
  case (2 n x xs)
  have "length (drop n (x # xs)) < length (x # xs)" using "2.prems" by simp
  with 2 show ?case by simp
qed simp

lemma chunks_of_Nil [simp]: "0 < n \<Longrightarrow> chunks_of n xs = [] \<longleftrightarrow> xs = []"
  by (cases xs) simp_all

lemma encrypted_as_texts: "cas_lib_ok LB \<Longrightarrow> encrypted_as LB j p rc \<Longrightarrow> chunk_texts_ok (fst rc)"
  by (auto simp: encrypted_as_def chunk_texts_ok_def cas_lib_ok_def)

lemma encrypted_as_fields:
  "encrypted_as LB j p rc \<Longrightarrow> cr_index (fst rc) = of_nat j \<and> cr_plaintext_size (fst rc) = of_nat (length p)"
  by (auto simp: encrypted_as_def)

lemma encrypted_as_opens:
  assumes "cas_lib_ok LB" and "encrypted_as LB j p rc" and "length p \<le> DEFAULT_CHUNK_SIZE"
    and "files (cr_index (fst rc)) = Some (Regular (snd rc))"
  shows "open_record LB files (fst rc) = Inr p"
  using assms open_encrypted [OF assms(1) _ _ assms(3)] by (auto simp: encrypted_as_def open_record_def)

lemma records_sizes:
  assumes lib: "cas_lib_ok LB"
  shows "\<lbrakk>0 < n; length xs < 2 ^ 64; n = nominal \<or> (length xs = nominal \<and> nominal \<le> n); length records = length (chunks_of n xs);
     \<And>i. i < length records \<Longrightarrow> encrypted_as LB (k + i) (chunks_of n xs ! i) (records ! i)\<rbrakk>
    \<Longrightarrow> chunk_sizes_ok (length xs) nominal k (map fst records)"
proof (induction n xs arbitrary: k records rule: chunks_of.induct)
  case (2 n x xs)
  let ?ys = "x # xs"
  have ch: "chunks_of n ?ys = take n ?ys # chunks_of n (drop n ?ys)" using "2.prems"(1) by simp
  obtain rc rest where r: "records = rc # rest" using "2.prems"(4) ch by (cases records) auto
  have e0: "encrypted_as LB k (take n ?ys) rc" using "2.prems"(5) [of 0] ch r by simp
  have es: "encrypted_as LB (Suc k + i) (chunks_of n (drop n ?ys) ! i) (rest ! i)" if "i < length rest" for i
    using "2.prems"(5) [of "Suc i"] ch r that by simp
  have unat: "unat (cr_plaintext_size (fst rc)) = min n (length ?ys)"
    using encrypted_as_fields [OF e0] "2.prems"(2) by (simp add: unat_of_nat min_def)
  have len: "length rest = length (chunks_of n (drop n ?ys))" using "2.prems"(4) ch r by simp
  have last: "rest = [] \<longleftrightarrow> length ?ys \<le> n" using len "2.prems"(1) by auto
  show ?case
  proof (cases "length ?ys \<le> n")
    case True
    then show ?thesis
      using r last encrypted_as_texts [OF lib e0] encrypted_as_fields [OF e0] unat "2.prems"(1,3) by auto
  next
    case False
    then have "nominal = n" using "2.prems"(3) by auto
    moreover have "chunk_sizes_ok (length (drop n ?ys)) nominal (Suc k) (map fst rest)"
      using False "2.prems"(1,2,3) len es by (intro "2.IH") auto
    ultimately show ?thesis
      using r last False encrypted_as_texts [OF lib e0] encrypted_as_fields [OF e0] unat "2.prems"(1) by auto
  qed
qed simp

lemma stored_manifest:
  assumes "object_dir_ok d = Inr ()" and "cs_objects st d = Some (ObjDir dir)"
    and "od_manifest dir = Some (Regular bytes)" and "length bytes \<le> MAX_MANIFEST_BYTES"
    and "cl_manifest_from_slice LB bytes = Some m" and "validate_manifest d m = Inr ()"
  shows "read_manifest LB d st = Inr m"
  using assms by (simp add: read_manifest_def is_file_at_def read_regular_file_bounded_def)

lemma digest_ok: "cas_lib_ok LB \<Longrightarrow> object_dir_ok (sha256_digest LB p) = Inr ()"
  by (simp add: object_dir_ok_def sha256_digest_def strip_prefix_def cas_lib_ok_def)

text \<open>The manifest \<open>put\<close> writes is accepted, and its chunks read back as the plaintext.\<close>

lemma encrypted_manifest_ok:
  assumes lib: "cas_lib_ok LB" and n: "0 < n" "n \<le> DEFAULT_CHUNK_SIZE"
    and size: "length p \<le> unat MAX_ARTIFACT_TRANSFER_BYTES"
    and recs: "length records = length (chunks_of n p)"
      "\<And>i. i < length records \<Longrightarrow> encrypted_as LB i (chunks_of n p ! i) (records ! i)"
    and m: "mf_schema m = ''rampage.cas-manifest.v1''" "mf_plaintext_digest m = d"
      "mf_plaintext_size m = of_nat (length p)" "mf_chunks m = map fst records"
      "bounded_ascii 255 (mf_media_type m)" "mf_required_replicas m \<noteq> 0"
      "mf_storage_class m = Protected \<longrightarrow> \<not> mf_required_replicas m < 2"
  shows "validate_manifest d m = Inr () \<and> read_chunks LB (files_of records) (mf_chunks m) = Inr p"
proof
  have small: "length p < 2 ^ 32" using size by (simp add: protocol_limits)
  have unat: "unat (of_nat (length p) :: u64) = length p" using small by (simp add: unat_of_nat)
  show "validate_manifest d m = Inr ()"
  proof (cases "p = []")
    case True
    with recs(1) m n show ?thesis by (simp add: validate_manifest_exact manifest_fields_ok_def protocol_limits)
  next
    case False
    then have ne: "records \<noteq> []" using recs(1) n(1) by auto
    have e0: "encrypted_as LB 0 (take n p) (hd records)"
      using recs(2) [of 0] ne n(1) False by (cases p) (auto simp: hd_conv_nth)
    have hd: "unat (cr_plaintext_size (hd (map fst records))) = min n (length p)"
      using encrypted_as_fields [OF e0] ne small by (simp add: hd_map unat_of_nat min_def)
    have "chunk_sizes_ok (length p) (min n (length p)) 0 (map fst records)"
      using recs n small by (intro records_sizes [OF lib, of n]) auto
    then show ?thesis
      unfolding validate_manifest_exact manifest_fields_ok_def
      using m ne hd n(2) unat False size by (auto simp: word_le_nat_alt word_unat_eq_iff)
  qed
  have idx: "cr_index (fst (records ! i)) = of_nat i" if "i < length records" for i
    using encrypted_as_fields [OF recs(2) [OF that]] by simp
  have "length records < 2 ^ 32" using recs(1) chunks_of_length [OF n(1), of p] small by linarith
  then have "distinct (map (\<lambda>r. cr_index (fst r)) records)"
    by (auto simp: distinct_conv_nth idx word_unat_eq_iff unat_of_nat)
  then have "open_record LB (files_of records) (map fst records ! i) = Inr (chunks_of n p ! i)"
    if "i < length (map fst records)" for i
    using that recs files_of_nth chunks_of_bound [of "chunks_of n p ! i" n p] n(2)
    by (simp, intro encrypted_as_opens [OF lib recs(2)]) (auto intro: order_trans)
  then show "read_chunks LB (files_of records) (mf_chunks m) = Inr p"
    using read_chunks_nth [of "chunks_of n p" "map fst records" LB "files_of records"] recs(1) m(4)
      concat_chunks_of [OF n(1)] by simp
qed

section \<open>Uploading\<close>

definition put_options_ok :: "put_options \<Rightarrow> bool" where
  "put_options_ok options = (bounded_ascii 255 (po_media_type options) \<and> po_required_replicas options \<noteq> 0
     \<and> (po_storage_class options = Protected \<longrightarrow> \<not> po_required_replicas options < 2))"

definition put_manifest :: "cas_lib \<Rightarrow> datetime \<Rightarrow> string \<Rightarrow> put_options \<Rightarrow> (chunk_record \<times> string) list \<Rightarrow> manifest" where
  "put_manifest LB now p options records = \<lparr>mf_schema = ''rampage.cas-manifest.v1'',
     mf_plaintext_digest = sha256_digest LB p, mf_plaintext_size = of_nat (length p),
     mf_media_type = po_media_type options, mf_storage_class = po_storage_class options,
     mf_required_replicas = po_required_replicas options, mf_created_at = now, mf_chunks = map fst records\<rparr>"

definition put_artifact :: "cas_lib \<Rightarrow> string \<Rightarrow> put_options \<Rightarrow> artifact_ref" where
  "put_artifact LB p options = \<lparr>ar_schema = ''rampage.artifact-ref.v1'', ar_digest = sha256_digest LB p,
     ar_size_bytes = of_nat (length p), ar_media_type = po_media_type options,
     ar_storage_class = po_storage_class options, ar_encrypted = True\<rparr>"

text \<open>The manifest text of an upload fits into the bound on reading it back.\<close>

definition manifest_fits :: "cas_lib \<Rightarrow> datetime \<Rightarrow> (nat \<Rightarrow> string option) \<Rightarrow> string \<Rightarrow> put_options \<Rightarrow> nat \<Rightarrow> bool" where
  "manifest_fits LB now random p options n = (\<forall>records. encrypt_chunks LB random 0 (chunks_of n p) = Inr records
     \<longrightarrow> length (cl_manifest_to_vec LB (put_manifest LB now p options records)) \<le> MAX_MANIFEST_BYTES)"

lemma put_new_succeeds:
  assumes lib: "cas_lib_ok LB" and opts: "put_options_ok options" and rnd: "random_ok random"
    and n: "0 < cs_chunk_size st" "cs_chunk_size st \<le> DEFAULT_CHUNK_SIZE"
    and size: "length p \<le> unat MAX_ARTIFACT_TRANSFER_BYTES"
    and fits: "manifest_fits LB now random p options (cs_chunk_size st)"
    and np: "\<not> cs_index_poisoned st" and none: "cs_objects st (sha256_digest LB p) = None"
    and cap: "ensure_storage_capacity (po_storage_class options) (of_nat (length p)) (Some (sha256_digest LB p)) st = Inr ()"
    and ix: "map_of (cs_artifacts st) (sha256_digest LB p) \<in>
      {None, Some (row_of_artifact (put_artifact LB p options) (po_required_replicas options))}"
  shows "\<exists>st' m. put_new LB now random p options st = (Inr (put_artifact LB p options), st')
    \<and> read_manifest LB (sha256_digest LB p) st' = Inr m
    \<and> read_chunks LB (chunk_files (sha256_digest LB p) st') (mf_chunks m) = Inr p
    \<and> artifact_contract_from_manifest (sha256_digest LB p) m =
        \<lparr>ac_artifact = put_artifact LB p options, ac_required_replicas = po_required_replicas options\<rparr>
    \<and> map_of (cs_artifacts st') (sha256_digest LB p) =
        Some (row_of_artifact (put_artifact LB p options) (po_required_replicas options))
    \<and> \<not> cs_index_poisoned st'"
proof -
  let ?d = "sha256_digest LB p" and ?n = "cs_chunk_size st" and ?a = "put_artifact LB p options"
  let ?r = "po_required_replicas options"
  obtain records where enc: "encrypt_chunks LB random 0 (chunks_of ?n p) = Inr records"
      "length records = length (chunks_of ?n p)"
      "\<And>i. i < length records \<Longrightarrow> encrypted_as LB i (chunks_of ?n p ! i) (records ! i)"
    using encrypt_chunks_ok [OF lib rnd, of 0 "chunks_of ?n p"] by auto
  define m where "m = put_manifest LB now p options records"
  define dir where "dir = \<lparr>od_manifest = Some (Regular (cl_manifest_to_vec LB m)), od_chunks = files_of records\<rparr>"
  define st1 where "st1 = st\<lparr>cs_objects := (cs_objects st)(?d \<mapsto> ObjDir dir)\<rparr>"
  have ok: "validate_manifest ?d m = Inr () \<and> read_chunks LB (files_of records) (mf_chunks m) = Inr p"
    using opts
    by (intro encrypted_manifest_ok [OF lib n size enc(2,3)]) (simp_all add: m_def put_manifest_def put_options_ok_def)
  have read: "read_manifest LB ?d st1 = Inr m"
    using lib ok fits enc(1)
    by (intro stored_manifest [OF digest_ok [OF lib], where dir = dir and bytes = "cl_manifest_to_vec LB m"])
      (simp_all add: st1_def dir_def m_def manifest_fits_def cas_lib_ok_def)
  have chunks: "chunk_files ?d st1 = files_of records" by (simp add: chunk_files_def st1_def dir_def)
  define c where "c = \<lparr>ac_artifact = ?a, ac_required_replicas = ?r\<rparr>"
  have c: "artifact_contract_from_manifest ?d m = c"
    by (simp add: c_def artifact_contract_from_manifest_def m_def put_manifest_def put_artifact_def)
  have v: "verify_object LB ?d st1 = Inr c"
    unfolding verify_object_exact using read ok chunks c by auto
  have small: "unat (ar_size_bytes ?a) \<le> i64_max"
    using size by (simp add: put_artifact_def unat_of_nat protocol_limits i64_max_def)
  obtain st2 where st2: "index_artifact_in_transaction ?a ?r st1 = Inr st2"
      "cs_objects st2 = cs_objects st1" "map_of (cs_artifacts st2) ?d = Some (row_of_artifact ?a ?r)"
      "\<not> cs_index_poisoned st2"
  proof (cases "map_of (cs_artifacts st) ?d")
    case None
    let ?st2 = "st1\<lparr>cs_artifacts := cs_artifacts st1 @ [(?d, row_of_artifact ?a ?r)]\<rparr>"
    have "index_artifact_in_transaction ?a ?r st1 = Inr ?st2"
      unfolding index_artifact_cases using small None by (simp add: st1_def put_artifact_def)
    with None np show ?thesis by (intro that [of ?st2]) (simp_all add: st1_def map_add_def)
  next
    case (Some row)
    then have "index_artifact_in_transaction ?a ?r st1 = Inr st1"
      unfolding index_artifact_cases using small ix by (simp add: st1_def put_artifact_def)
    with Some ix np show ?thesis by (intro that [of st1]) (simp_all add: st1_def)
  qed
  have "put_new LB now random p options st = (Inr ?a, st2)"
    using np cap enc(1) v st2(1)
    unfolding put_new_eq Let_def none option.case m_def dir_def st1_def put_manifest_def
    by (simp add: c_def ensure_artifact_contract_def put_artifact_def index_artifact_def)
  moreover have "read_manifest LB ?d st2 = Inr m" using read read_manifest_cong [of st2 ?d st1] st2(2) by simp
  moreover have "chunk_files ?d st2 = files_of records" using chunks st2(2) by (simp add: chunk_files_def)
  ultimately show ?thesis using ok c st2(3,4) by (auto simp: c_def)
qed

end
