(* ===== verification/Rampage_Resume.thy ===== *)
theory Rampage_Resume
  imports Rampage_Custody "HOL-Library.Multiset"
begin

text \<open>
  The resumable upload: whatever the order in which the chunks of an artifact arrive, and however
  often, each accepted chunk is stored once, and the commit of a complete transfer yields the
  artifact.
\<close>

section \<open>Pieces of a plaintext\<close>

definition piece :: "nat \<Rightarrow> string \<Rightarrow> nat \<Rightarrow> string" where
  "piece ch p i = take ch (drop (i * ch) p)"

lemma length_piece: "length (piece ch p i) = chunk_bytes (length p) ch i"
  by (simp add: piece_def chunk_bytes_def)

lemma concat_pieces: "concat (map (piece ch p) [0..<n]) = take (n * ch) p"
proof (induction n)
  case (Suc n)
  have "take (Suc n * ch) p = take (n * ch) p @ piece ch p n"
    unfolding piece_def by (metis add.commute mult_Suc take_add)
  with Suc show ?case by simp
qed simp

text \<open>The contract of a transfer: an active session for a plaintext of at most 64 MiB, cut into
  pieces of the session's chunk size.\<close>

record transfer =
  t_session :: string
  t_row :: durable_put_session
  t_plain :: string
  t_chunk :: u32
  t_now :: datetime

definition t_count :: "transfer \<Rightarrow> nat" where
  "t_count t = chunk_count_nat (of_nat (length (t_plain t))) (t_chunk t)"

abbreviation t_piece :: "transfer \<Rightarrow> nat \<Rightarrow> string" where
  "t_piece t \<equiv> piece (unat (t_chunk t)) (t_plain t)"

definition transfer_ok :: "cas_lib \<Rightarrow> transfer \<Rightarrow> bool" where
  "transfer_ok LB t = (transfer_dir_ok (t_session t) = Inr ()
     \<and> ds_state (t_row t) = ''active'' \<and> timestamp_millis (t_now t) < ds_expires_at_millis (t_row t)
     \<and> ds_size_bytes (t_row t) = int (length (t_plain t)) \<and> ds_chunk_size (t_row t) = uint (t_chunk t)
     \<and> ds_chunk_count (t_row t) = int (t_count t) \<and> ds_digest (t_row t) = sha256_digest LB (t_plain t)
     \<and> 0 < length (t_plain t) \<and> length (t_plain t) \<le> unat MAX_ARTIFACT_TRANSFER_BYTES
     \<and> 0 < unat (t_chunk t) \<and> unat (t_chunk t) \<le> DEFAULT_CHUNK_SIZE
     \<and> bounded_ascii 255 (ds_media_type (t_row t)))"

lemma transfer_facts:
  assumes "transfer_ok LB t"
  shows "t_count t = (length (t_plain t) + unat (t_chunk t) - 1) div unat (t_chunk t)"
    and "t_count t < 2 ^ 32" and "length (t_plain t) < 2 ^ 32"
    and "unat (of_nat (length (t_plain t)) :: u64) = length (t_plain t)"
    and "concat (map (t_piece t) [0..<t_count t]) = t_plain t"
    and "i < t_count t \<Longrightarrow> 0 < length (t_piece t i)"
    and "length (t_piece t i) \<le> unat (t_chunk t)"
proof -
  have sz: "length (t_plain t) \<le> 67108864" and ch: "0 < unat (t_chunk t)"
    using assms by (simp_all add: transfer_ok_def protocol_limits)
  show small: "length (t_plain t) < 2 ^ 32" using sz by simp
  then show un: "unat (of_nat (length (t_plain t)) :: u64) = length (t_plain t)" by (simp add: unat_of_nat)
  have c0: "t_chunk t \<noteq> 0" using ch by auto
  show cnt: "t_count t = (length (t_plain t) + unat (t_chunk t) - 1) div unat (t_chunk t)"
    using chunk_count_nat_eq [OF c0] un by (simp add: t_count_def)
  have "of_nat (length (t_plain t)) \<le> MAX_ARTIFACT_TRANSFER_BYTES"
    using un sz by (simp add: word_le_nat_alt protocol_limits)
  from chunk_count_bound [OF this c0] show "t_count t < 2 ^ 32" by (simp add: t_count_def)
  have "length (t_plain t) \<le> t_count t * unat (t_chunk t)" unfolding cnt using ch by (rule ceil_mult_ge)
  then show "concat (map (t_piece t) [0..<t_count t]) = t_plain t" by (simp add: concat_pieces)
  show "0 < length (t_piece t i)" if "i < t_count t"
    using that chunk_in_range [OF ch, of i "length (t_plain t)"] ch
    by (simp add: length_piece chunk_bytes_def cnt)
  show "length (t_piece t i) \<le> unat (t_chunk t)" by (simp add: piece_def)
qed

lemma expected_piece_size:
  assumes "transfer_ok LB t" and "i < t_count t"
  shows "expected_chunk_size (of_int (ds_size_bytes (t_row t))) (of_int (ds_chunk_size (t_row t))) (of_nat i)
    = Inr (of_nat (length (t_piece t i)))"
proof -
  note f = transfer_facts [OF assms(1)]
  let ?sz = "of_nat (length (t_plain t)) :: u64"
  have args: "of_int (ds_size_bytes (t_row t)) = ?sz" "of_int (ds_chunk_size (t_row t)) = t_chunk t"
    using assms(1) by (simp_all add: transfer_ok_def)
  have nz: "?sz \<noteq> 0" "t_chunk t \<noteq> 0" "?sz \<le> MAX_ARTIFACT_TRANSFER_BYTES"
    using assms(1) f(4) by (auto simp: transfer_ok_def word_le_nat_alt)
  have ui: "unat (of_nat i :: u32) = i" using assms(2) f(2) by (simp add: unat_of_nat)
  have "i * unat (t_chunk t) < length (t_plain t)"
    using assms(1,2) chunk_in_range [of "unat (t_chunk t)" i "length (t_plain t)"] f(1) by (simp add: transfer_ok_def)
  then have "expected_artifact_chunk_size ?sz (t_chunk t) (of_nat i) =
      Some (of_nat (chunk_bytes (length (t_plain t)) (unat (t_chunk t)) i))"
    using expected_artifact_chunk_size_eq [OF nz(1,2), of "of_nat i"] ui f(4) by simp
  then show ?thesis unfolding args using expected_chunk_size_agrees [OF nz(3)] by (simp add: length_piece)
qed

section \<open>Uploading chunks\<close>

text \<open>A chunk is received when its row and its file hold an encryption of its piece.\<close>

definition received :: "cas_lib \<Rightarrow> string \<Rightarrow> u32 \<Rightarrow> string \<Rightarrow> cas_store \<Rightarrow> bool" where
  "received LB s i q st = (\<exists>nonce c. length nonce = 12 \<and> cl_encrypt LB nonce q = Some c
     \<and> transfer_files s st i = Some (Regular c)
     \<and> map_of (cs_chunks st) (s, i) = Some \<lparr>cw_plaintext_size = of_nat (length q),
         cw_plaintext_digest = sha256_digest LB q, cw_nonce = cl_hex_encode LB nonce,
         cw_ciphertext_digest = cl_sha256_hex LB c\<rparr>)"

text \<open>The state of an upload in progress: the session is the contract's, its fence is current, the
  transfer directory has no manifest yet, and every stored row is a received piece.\<close>

definition uploading :: "cas_lib \<Rightarrow> transfer \<Rightarrow> cas_store \<Rightarrow> bool" where
  "uploading LB t st = (map_of (cs_sessions st) (t_session t) = Some (t_row t)
     \<and> \<not> cs_index_poisoned st \<and> \<not> cs_mutations_poisoned st
     \<and> ensure_epoch_is_current (ds_authority_scope (t_row t)) (of_int (ds_fencing_epoch (t_row t))) st = Inr ()
     \<and> (\<exists>d. cs_transfers st (t_session t) = Some d \<and> od_manifest d = None \<and> (\<forall>i. od_chunks d i \<noteq> Some Directory))
     \<and> distinct (map fst (cs_chunks st))
     \<and> (\<forall>i row. map_of (cs_chunks st) (t_session t, i) = Some row \<longrightarrow>
          unat i < t_count t \<and> received LB (t_session t) i (t_piece t (unat i)) st))"

lemma received_readable:
  assumes "cas_lib_ok LB" and "received LB s i q st" and "length q \<le> DEFAULT_CHUNK_SIZE"
  shows "\<exists>row c. map_of (cs_chunks st) (s, i) = Some row \<and> cw_plaintext_size row = of_nat (length q)
    \<and> cw_plaintext_digest row = sha256_digest LB q
    \<and> transfer_files s st i = Some (Regular c) \<and> length c \<le> MAX_ENCRYPTED_CHUNK_BYTES
    \<and> cw_ciphertext_digest row = cl_sha256_hex LB c
    \<and> open_chunk LB (transfer_files s st) i (cw_nonce row) (cw_ciphertext_digest row) (cw_plaintext_size row) = Inr q"
proof -
  obtain nonce c where r: "length nonce = 12" "cl_encrypt LB nonce q = Some c"
      "transfer_files s st i = Some (Regular c)"
      "map_of (cs_chunks st) (s, i) = Some \<lparr>cw_plaintext_size = of_nat (length q),
         cw_plaintext_digest = sha256_digest LB q, cw_nonce = cl_hex_encode LB nonce,
         cw_ciphertext_digest = cl_sha256_hex LB c\<rparr>"
    using assms(2) by (auto simp: received_def)
  have "length c = length q + 16" using assms(1) r(1,2) unfolding cas_lib_ok_def by (metis option.inject)
  then have "length c \<le> MAX_ENCRYPTED_CHUNK_BYTES" using assms(3) by (simp add: MAX_ENCRYPTED_CHUNK_BYTES_def)
  then show ?thesis
    using r open_encrypted [OF assms(1) r(1,2) assms(3), of "transfer_files s st" i] by simp
qed

lemma status_ok:
  assumes "uploading LB t st" and "transfer_ok LB t"
  shows "\<exists>status. resumable_put_status_of (t_session t) st = Inr status"
proof -
  have "t_count t < 2 ^ 32" using transfer_facts(2) [OF assms(2)] .
  then have "i64_to_u32 (ds_chunk_count (t_row t)) = Inr (of_nat (t_count t))"
    using assms(2) by (simp add: transfer_ok_def i64_to_u32_def)
  then show ?thesis
    using assms by (simp add: resumable_put_status_of_def uploading_def transfer_ok_def Let_def)
qed

text \<open>One upload of a piece succeeds, stores it, and keeps what is stored.\<close>

lemma put_piece:
  assumes lib: "cas_lib_ok LB" and ok: "transfer_ok LB t" and up: "uploading LB t st" and i: "i < t_count t"
    and nonce: "length nonce = 12"
  defines "r \<equiv> put_resumable_chunk LB (t_session t) (of_nat i) (sha256_digest LB (t_piece t i)) (t_piece t i)
      (t_now t) (Some nonce) st"
  shows "(\<exists>status. fst r = Inr status) \<and> uploading LB t (snd r)
    \<and> received LB (t_session t) (of_nat i) (t_piece t i) (snd r)
    \<and> (\<forall>j q. received LB (t_session t) j q st \<longrightarrow> j \<noteq> of_nat i \<longrightarrow> received LB (t_session t) j q (snd r))
    \<and> cs_objects (snd r) = cs_objects st \<and> cs_artifacts (snd r) = cs_artifacts st"
proof -
  let ?s = "t_session t" and ?i = "of_nat i :: u32" and ?q = "t_piece t i" and ?row = "t_row t"
  note f = transfer_facts [OF ok]
  have ui: "unat ?i = i" using i f(2) by (simp add: unat_of_nat)
  have qlen: "length ?q \<le> DEFAULT_CHUNK_SIZE" using f(7) [of i] ok by (simp add: transfer_ok_def)
  have cnt: "i64_to_u32 (ds_chunk_count ?row) = Inr (of_nat (t_count t))"
    using ok f(2) by (simp add: transfer_ok_def i64_to_u32_def)
  have lt: "\<not> ?i \<ge> of_nat (t_count t)" using i f(2) ui by (simp add: word_le_nat_alt unat_of_nat)
  have sess: "map_of (cs_sessions st) ?s = Some ?row" "\<not> cs_index_poisoned st" "ds_state ?row \<noteq> ''complete''"
      "transfer_dir_ok ?s = Inr ()"
    using up ok by (auto simp: uploading_def transfer_ok_def)
  obtain d where d: "cs_transfers st ?s = Some d" "od_manifest d = None" "\<forall>i. od_chunks d i \<noteq> Some Directory"
    using up by (auto simp: uploading_def)
  show ?thesis
  proof (cases "map_of (cs_chunks st) (?s, ?i)")
    case None
    obtain c where c: "cl_encrypt LB nonce ?q = Some c" using lib nonce unfolding cas_lib_ok_def by blast
    define row where "row = \<lparr>cw_plaintext_size = of_nat (length ?q), cw_plaintext_digest = sha256_digest LB ?q,
        cw_nonce = cl_hex_encode LB nonce, cw_ciphertext_digest = cl_sha256_hex LB c\<rparr>"
    define st2 where "st2 = st\<lparr>cs_transfers := (cs_transfers st)(?s \<mapsto> d\<lparr>od_chunks := (od_chunks d)(?i \<mapsto> Regular c)\<rparr>),
        cs_chunks := AList.update (?s, ?i) row (cs_chunks st)\<rparr>"
    have check: "check_chunk LB ?s ?row ?i (sha256_digest LB ?q) ?q (t_now t) st = Inr (Some (sha256_digest LB ?q))"
      using ok up i expected_piece_size [OF ok i] cnt lt None
      unfolding check_chunk_def Let_def None option.case
      by (simp add: transfer_ok_def uploading_def)
    have w: "write_transfer_chunk ?s ?i c st = Inr (st\<lparr>cs_transfers := (cs_transfers st)(?s \<mapsto>
        d\<lparr>od_chunks := (od_chunks d)(?i \<mapsto> Regular c)\<rparr>)\<rparr>)"
      using d by (simp add: write_transfer_chunk_def Let_def create_transfer_dir_def transfer_files_def)
    have r: "r = (resumable_put_status_of ?s st2, st2)"
      unfolding r_def put_resumable_chunk_def using sess check c w by (simp add: st2_def row_def Let_def)
    have files: "transfer_files ?s st2 = (transfer_files ?s st)(?i \<mapsto> Regular c)"
      using d(1) by (simp add: transfer_files_def st2_def)
    have rows: "map_of (cs_chunks st2) = (map_of (cs_chunks st))((?s, ?i) \<mapsto> row)"
      by (simp add: st2_def update_conv')
    have rec: "received LB ?s ?i ?q st2"
      using nonce c files rows by (auto simp: received_def row_def)
    have keep: "received LB ?s j q st2" if "received LB ?s j q st" "j \<noteq> ?i" for j q
      using that files rows by (auto simp: received_def)
    have "unat j < t_count t \<and> received LB ?s j (t_piece t (unat j)) st2"
      if "map_of (cs_chunks st2) (?s, j) = Some row'" for j row'
    proof (cases "j = ?i")
      case True
      then show ?thesis using i ui rec by simp
    next
      case False
      then show ?thesis using that rows up keep by (auto simp: uploading_def)
    qed
    then have "uploading LB t st2"
      using up d by (auto simp: uploading_def st2_def ensure_epoch_is_current_def distinct_update)
    then show ?thesis
      using r rec keep status_ok [OF _ ok, of st2] by (simp add: st2_def)
  next
    case (Some row)
    then have "received LB ?s ?i (t_piece t (unat ?i)) st" using up unfolding uploading_def by blast
    then have rec: "received LB ?s ?i ?q st" unfolding ui .
    from received_readable [OF lib rec qlen] Some obtain c where c: "cw_plaintext_size row = of_nat (length ?q)"
        "cw_plaintext_digest row = sha256_digest LB ?q" "transfer_files ?s st ?i = Some (Regular c)"
        "length c \<le> MAX_ENCRYPTED_CHUNK_BYTES" "cw_ciphertext_digest row = cl_sha256_hex LB c"
      by auto
    have "check_chunk LB ?s ?row ?i (sha256_digest LB ?q) ?q (t_now t) st = Inr None"
      using ok up i expected_piece_size [OF ok i] cnt lt c
      unfolding check_chunk_def Let_def Some option.case
      by (simp add: transfer_ok_def uploading_def is_file_at_def read_regular_file_bounded_def)
    then have "r = (resumable_put_status_of ?s st, st)"
      unfolding r_def put_resumable_chunk_def using sess by simp
    then show ?thesis using rec up status_ok [OF up ok] by simp
  qed
qed

text \<open>Upload pieces in any order, also repeatedly.\<close>

fun upload_all :: "cas_lib \<Rightarrow> transfer \<Rightarrow> (nat \<Rightarrow> string) \<Rightarrow> nat list \<Rightarrow> cas_store \<Rightarrow> cas_store" where
  "upload_all LB t nonces [] st = st"
| "upload_all LB t nonces (i # is) st =
     upload_all LB t nonces is (snd (put_resumable_chunk LB (t_session t) (of_nat i) (sha256_digest LB (t_piece t i))
       (t_piece t i) (t_now t) (Some (nonces (length is))) st))"

lemma upload_all_ok:
  assumes lib: "cas_lib_ok LB" and ok: "transfer_ok LB t" and nonces: "\<And>k. length (nonces k) = 12"
  shows "uploading LB t st \<Longrightarrow> \<forall>i \<in> set is. i < t_count t \<Longrightarrow>
    uploading LB t (upload_all LB t nonces is st)
    \<and> (\<forall>i. i < t_count t \<longrightarrow> (i \<in> set is \<or> received LB (t_session t) (of_nat i) (t_piece t i) st)
        \<longrightarrow> received LB (t_session t) (of_nat i) (t_piece t i) (upload_all LB t nonces is st))
    \<and> cs_objects (upload_all LB t nonces is st) = cs_objects st
    \<and> cs_artifacts (upload_all LB t nonces is st) = cs_artifacts st"
proof (induction "is" arbitrary: st)
  case (Cons i "is")
  let ?st = "snd (put_resumable_chunk LB (t_session t) (of_nat i) (sha256_digest LB (t_piece t i))
       (t_piece t i) (t_now t) (Some (nonces (length is))) st)"
  have i: "i < t_count t" using Cons.prems(2) by simp
  note put = put_piece [OF lib ok Cons.prems(1) i nonces [of "length is"]]
  have inj: "(of_nat j :: u32) = of_nat i \<Longrightarrow> j = i" if "j < t_count t" for j
    using that i transfer_facts(2) [OF ok] by (simp add: word_unat_eq_iff unat_of_nat)
  have keep: "received LB (t_session t) (of_nat j) (t_piece t j) ?st"
    if "j < t_count t" "j = i \<or> received LB (t_session t) (of_nat j) (t_piece t j) st" for j
    using put that inj [OF that(1)] by (cases "j = i") auto
  show ?case using Cons.IH [of ?st] Cons.prems put keep by auto
qed simp

section \<open>Committing\<close>

lemma sorted_distinct_upto:
  fixes xs :: "u32 list"
  assumes "sorted xs" "distinct xs" "set xs = of_nat ` {..<n}" "n < 2 ^ 32"
  shows "xs = map of_nat [0..<n]"
proof (rule sorted_distinct_set_unique [OF assms(1,2)])
  show "sorted (map of_nat [0..<n] :: u32 list)"
    using assms(4) by (auto simp: sorted_iff_nth_mono word_le_nat_alt unat_of_nat)
  show "distinct (map of_nat [0..<n] :: u32 list)"
    using assms(4) by (auto simp: distinct_map inj_on_def word_unat_eq_iff unat_of_nat)
  show "set xs = set (map of_nat [0..<n])" using assms(3) by (auto simp: atLeast0LessThan)
qed

lemma session_chunks_set:
  "set (session_chunks s st) = {(i, row). ((s, i), row) \<in> set (cs_chunks st)}"
  by (auto simp: session_chunks_def image_iff)

lemma session_chunks_distinct:
  assumes "distinct (map fst (cs_chunks st))"
  shows "distinct (map fst (session_chunks s st))"
proof -
  have "distinct (map fst (map (\<lambda>((_, i), row). (i, row)) (filter (\<lambda>((s', _), _). s' = s) xs)))"
    if "distinct (map fst xs)" for xs :: "((string \<times> u32) \<times> chunk_row) list"
    using that by (induction xs) (auto simp: image_iff)
  then have "distinct (map fst (map (\<lambda>((_, i), row). (i, row)) (filter (\<lambda>((s', _), _). s' = s) (cs_chunks st))))"
    using assms by blast
  moreover have "mset (map fst (session_chunks s st)) =
      mset (map fst (map (\<lambda>((_, i), row). (i, row)) (filter (\<lambda>((s', _), _). s' = s) (cs_chunks st))))"
    unfolding session_chunks_def mset_map mset_sort ..
  ultimately show ?thesis by (metis mset_eq_imp_distinct_iff)
qed

lemma session_chunks_complete:
  assumes up: "uploading LB t st" and ok: "transfer_ok LB t"
    and all: "\<forall>i < t_count t. received LB (t_session t) (of_nat i) (t_piece t i) st"
  shows "map fst (session_chunks (t_session t) st) = map of_nat [0..<t_count t]"
    and "(i, row) \<in> set (session_chunks (t_session t) st) \<Longrightarrow> map_of (cs_chunks st) (t_session t, i) = Some row"
proof -
  let ?s = "t_session t"
  have d: "distinct (map fst (cs_chunks st))" using up by (simp add: uploading_def)
  show row: "map_of (cs_chunks st) (?s, i) = Some row" if "(i, row) \<in> set (session_chunks ?s st)" for i row
    using that d by (simp add: session_chunks_set)
  have bound: "unat i < t_count t" if "(i, row) \<in> set (session_chunks ?s st)" for i row
    using row [OF that] up unfolding uploading_def by blast
  have n: "t_count t < 2 ^ 32" by (rule transfer_facts(2) [OF ok])
  have "set (map fst (session_chunks ?s st)) = of_nat ` {..<t_count t}"
  proof (intro set_eqI iffI)
    fix i assume "i \<in> set (map fst (session_chunks ?s st))"
    then obtain row where "(i, row) \<in> set (session_chunks ?s st)" by auto
    with bound have "unat i < t_count t" by blast
    then show "i \<in> of_nat ` {..<t_count t}" by (intro image_eqI [of _ _ "unat i"]) simp_all
  next
    fix i :: u32 assume "i \<in> of_nat ` {..<t_count t}"
    then obtain j where j: "j < t_count t" "i = of_nat j" by auto
    with all [rule_format, OF j(1)] obtain row where "map_of (cs_chunks st) (?s, i) = Some row" by (auto simp: received_def)
    then have "(i, row) \<in> set (session_chunks ?s st)" by (simp add: session_chunks_set map_of_SomeD)
    then show "i \<in> set (map fst (session_chunks ?s st))" by force
  qed
  moreover have "sorted (map fst (session_chunks ?s st))" by (simp add: session_chunks_def)
  ultimately show "map fst (session_chunks ?s st) = map of_nat [0..<t_count t]"
    using sorted_distinct_upto session_chunks_distinct [OF d] n by blast
qed

lemma chunks_of_pieces:
  "0 < ch \<Longrightarrow> chunks_of ch p = map (piece ch p) [0..<(length p + ch - 1) div ch]"
proof (induction ch p rule: chunks_of.induct)
  case (2 ch x xs)
  let ?p = "x # xs"
  let ?m = "(length (drop ch ?p) + ch - 1) div ch"
  have m: "(length ?p + ch - 1) div ch = Suc ?m"
  proof (cases "length ?p \<le> ch")
    case True
    have "(length ?p + ch - 1) div ch = 1" using "2.prems" True by (intro div_nat_eqI) auto
    then show ?thesis using "2.prems" True by simp
  next
    case False
    then have "length ?p + ch - 1 = (length (drop ch ?p) + ch - 1) + ch" by simp
    then show ?thesis using "2.prems" by (metis add.commute add_Suc_right div_add_self2 nat_neq_iff add_0_right One_nat_def)
  qed
  have "map (piece ch ?p) [0..<Suc ?m] = piece ch ?p 0 # map (\<lambda>i. piece ch ?p (Suc i)) [0..<?m]"
    by (subst upt_conv_Cons) (simp_all add: map_Suc_upt [symmetric] del: upt_Suc)
  also have "\<dots> = take ch ?p # map (piece ch (drop ch ?p)) [0..<?m]"
    by (simp add: piece_def add.commute)
  finally show ?case using 2 m by simp
qed simp

lemma commit_chunks_ok:
  "\<lbrakk>length ps = length rows;
    \<And>j. j < length rows \<Longrightarrow> fst (rows ! j) = of_nat (k + j)
      \<and> open_chunk LB files (fst (rows ! j)) (cw_nonce (snd (rows ! j))) (cw_ciphertext_digest (snd (rows ! j)))
          (cw_plaintext_size (snd (rows ! j))) = Inr (ps ! j)
      \<and> cw_plaintext_digest (snd (rows ! j)) = sha256_digest LB (ps ! j);
    unat n + length (concat ps) < 2 ^ 64\<rbrakk>
   \<Longrightarrow> commit_chunks LB files k seen n rows = Inr (seen @ concat ps, n + of_nat (length (concat ps)))"
proof (induction rows arbitrary: k seen n ps)
  case (Cons r rows)
  obtain q qs where ps: "ps = q # qs" using Cons.prems(1) by (cases ps) auto
  obtain i row where r: "r = (i, row)" by (cases r)
  have head: "i = of_nat k" "open_chunk LB files i (cw_nonce row) (cw_ciphertext_digest row) (cw_plaintext_size row) = Inr q"
      "cw_plaintext_digest row = sha256_digest LB q"
    using Cons.prems(2) [of 0] ps r by auto
  have q: "unat (of_nat (length q) :: u64) = length q" using Cons.prems(3) ps by (simp add: unat_of_nat)
  then have sum: "unat (n + of_nat (length q)) = unat n + length q" "sat_add n (of_nat (length q)) = n + of_nat (length q)"
    using Cons.prems(3) ps by (simp_all add: unat_word_ariths sat_add_def)
  have tail: "fst (rows ! j) = of_nat (Suc k + j)
      \<and> open_chunk LB files (fst (rows ! j)) (cw_nonce (snd (rows ! j))) (cw_ciphertext_digest (snd (rows ! j)))
          (cw_plaintext_size (snd (rows ! j))) = Inr (qs ! j)
      \<and> cw_plaintext_digest (snd (rows ! j)) = sha256_digest LB (qs ! j)" if "j < length rows" for j
    using Cons.prems(2) [of "Suc j"] that ps by auto
  have "commit_chunks LB files (Suc k) (seen @ q) (n + of_nat (length q)) rows
      = Inr ((seen @ q) @ concat qs, (n + of_nat (length q)) + of_nat (length (concat qs)))"
  proof (rule Cons.IH)
    show "length qs = length rows" using Cons.prems(1) ps by simp
    show "unat (n + of_nat (length q)) + length (concat qs) < 2 ^ 64" using Cons.prems(3) ps sum(1) by simp
  qed (rule tail)
  then show ?case using r head sum(2) ps by (simp add: add.assoc)
qed simp

definition commit_manifest :: "transfer \<Rightarrow> storage_class \<Rightarrow> cas_store \<Rightarrow> manifest" where
  "commit_manifest t k st = \<lparr>mf_schema = ''rampage.cas-manifest.v1'', mf_plaintext_digest = ds_digest (t_row t),
     mf_plaintext_size = of_int (ds_size_bytes (t_row t)), mf_media_type = ds_media_type (t_row t),
     mf_storage_class = k, mf_required_replicas = of_int (ds_required_replicas (t_row t)),
     mf_created_at = t_now t, mf_chunks = map chunk_record_of_row (session_chunks (t_session t) st)\<rparr>"

text \<open>The rows of a complete transfer, in order, are encryptions of the pieces.\<close>

lemma complete_rows:
  assumes lib: "cas_lib_ok LB" and up: "uploading LB t st" and ok: "transfer_ok LB t"
    and all: "\<forall>i < t_count t. received LB (t_session t) (of_nat i) (t_piece t i) st"
    and i: "i < t_count t"
  defines "rows \<equiv> session_chunks (t_session t) st"
  shows "fst (rows ! i) = of_nat i"
    and "open_chunk LB (transfer_files (t_session t) st) (fst (rows ! i)) (cw_nonce (snd (rows ! i)))
      (cw_ciphertext_digest (snd (rows ! i))) (cw_plaintext_size (snd (rows ! i))) = Inr (t_piece t i)"
    and "cw_plaintext_digest (snd (rows ! i)) = sha256_digest LB (t_piece t i)"
    and "\<exists>c. encrypted_as LB i (t_piece t i) (chunk_record_of_row (rows ! i), c)"
proof -
  let ?s = "t_session t" and ?q = "t_piece t i"
  note complete = session_chunks_complete [OF up ok all]
  have len: "length rows = t_count t" using arg_cong [OF complete(1), of length] by (simp add: rows_def)
  show fst: "fst (rows ! i) = of_nat i"
    using arg_cong [OF complete(1), of "\<lambda>xs. xs ! i"] i len by (simp add: rows_def)
  have "rows ! i \<in> set (session_chunks ?s st)" using i len by (simp add: rows_def)
  then have row: "map_of (cs_chunks st) (?s, of_nat i) = Some (snd (rows ! i))"
    using complete(2) fst by (metis prod.collapse)
  have qlen: "length ?q \<le> DEFAULT_CHUNK_SIZE" using transfer_facts(7) [OF ok, of i] ok by (simp add: transfer_ok_def)
  from received_readable [OF lib all [rule_format, OF i] qlen] row fst
  show "open_chunk LB (transfer_files ?s st) (fst (rows ! i)) (cw_nonce (snd (rows ! i)))
      (cw_ciphertext_digest (snd (rows ! i))) (cw_plaintext_size (snd (rows ! i))) = Inr ?q"
    and "cw_plaintext_digest (snd (rows ! i)) = sha256_digest LB ?q" by auto
  from all [rule_format, OF i] row obtain nonce c where "length nonce = 12" "cl_encrypt LB nonce ?q = Some c"
      "snd (rows ! i) = \<lparr>cw_plaintext_size = of_nat (length ?q), cw_plaintext_digest = sha256_digest LB ?q,
         cw_nonce = cl_hex_encode LB nonce, cw_ciphertext_digest = cl_sha256_hex LB c\<rparr>"
    by (auto simp: received_def)
  then show "\<exists>c. encrypted_as LB i ?q (chunk_record_of_row (rows ! i), c)"
    using fst by (auto simp: encrypted_as_def chunk_record_of_row_def case_prod_beta)
qed

lemma complete_chunks:
  assumes lib: "cas_lib_ok LB" and up: "uploading LB t st" and ok: "transfer_ok LB t"
    and all: "\<forall>i < t_count t. received LB (t_session t) (of_nat i) (t_piece t i) st"
  shows "length (session_chunks (t_session t) st) = t_count t"
    and "commit_chunks LB (transfer_files (t_session t) st) 0 [] 0 (session_chunks (t_session t) st)
      = Inr (t_plain t, of_nat (length (t_plain t)))"
    and "read_chunks LB (transfer_files (t_session t) st) (map chunk_record_of_row (session_chunks (t_session t) st))
      = Inr (t_plain t)"
proof -
  let ?rows = "session_chunks (t_session t) st" and ?files = "transfer_files (t_session t) st"
  let ?ps = "map (t_piece t) [0..<t_count t]"
  note rows = complete_rows [OF lib up ok all]
  note f = transfer_facts [OF ok]
  show len: "length ?rows = t_count t"
    using arg_cong [OF session_chunks_complete(1) [OF up ok all], of length] by simp
  have "commit_chunks LB ?files 0 [] 0 ?rows = Inr ([] @ concat ?ps, 0 + of_nat (length (concat ?ps)))"
    using len rows f(3,5) by (intro commit_chunks_ok) auto
  then show "commit_chunks LB ?files 0 [] 0 ?rows = Inr (t_plain t, of_nat (length (t_plain t)))"
    using f(5) by simp
  have "open_record LB ?files (chunk_record_of_row (?rows ! i)) = Inr (t_piece t i)" if "i < t_count t" for i
    using rows(2) [OF that] by (simp add: open_record_def chunk_record_of_row_def case_prod_beta)
  then show "read_chunks LB ?files (map chunk_record_of_row ?rows) = Inr (t_plain t)"
    using read_chunks_nth [of ?ps "map chunk_record_of_row ?rows" LB ?files] len f(5) by simp
qed

lemma complete_manifest:
  assumes lib: "cas_lib_ok LB" and up: "uploading LB t st" and ok: "transfer_ok LB t"
    and all: "\<forall>i < t_count t. received LB (t_session t) (of_nat i) (t_piece t i) st"
    and r: "of_int (ds_required_replicas (t_row t)) \<noteq> (0 :: u8)"
      "k = Protected \<longrightarrow> \<not> (of_int (ds_required_replicas (t_row t)) :: u8) < 2"
  shows "validate_manifest (ds_digest (t_row t)) (commit_manifest t k st) = Inr ()"
proof -
  let ?rows = "session_chunks (t_session t) st" and ?ch = "unat (t_chunk t)"
  have pieces: "chunks_of ?ch (t_plain t) = map (t_piece t) [0..<t_count t]"
    using chunks_of_pieces [of ?ch "t_plain t"] ok transfer_facts(1) [OF ok] by (simp add: transfer_ok_def)
  have len: "length ?rows = t_count t" by (rule complete_chunks(1) [OF lib up ok all])
  have "\<forall>i. \<exists>c. i < t_count t \<longrightarrow> encrypted_as LB i (t_piece t i) (chunk_record_of_row (?rows ! i), c)"
    using complete_rows(4) [OF lib up ok all] by blast
  then obtain c where c: "\<And>i. i < t_count t \<Longrightarrow> encrypted_as LB i (t_piece t i) (chunk_record_of_row (?rows ! i), c i)"
    by metis
  define records where "records = map (\<lambda>i. (chunk_record_of_row (?rows ! i), c i)) [0..<t_count t]"
  have recs: "length records = length (chunks_of ?ch (t_plain t))"
      "\<And>i. i < length records \<Longrightarrow> encrypted_as LB i (chunks_of ?ch (t_plain t) ! i) (records ! i)"
    using c by (simp_all add: records_def pieces)
  have chunks: "map fst records = map chunk_record_of_row ?rows"
    by (rule nth_equalityI) (simp_all add: records_def len)
  have sz: "of_int (ds_size_bytes (t_row t)) = (of_nat (length (t_plain t)) :: u64)"
    using ok by (simp add: transfer_ok_def)
  have "validate_manifest (ds_digest (t_row t)) (commit_manifest t k st) = Inr ()
      \<and> read_chunks LB (files_of records) (mf_chunks (commit_manifest t k st)) = Inr (t_plain t)"
    using ok r
    by (intro encrypted_manifest_ok [OF lib _ _ _ recs]) (auto simp: commit_manifest_def chunks sz transfer_ok_def)
  then show ?thesis by simp
qed

definition transfer_artifact :: "transfer \<Rightarrow> storage_class \<Rightarrow> artifact_ref" where
  "transfer_artifact t k = \<lparr>ar_schema = ''rampage.artifact-ref.v1'', ar_digest = ds_digest (t_row t),
     ar_size_bytes = of_nat (length (t_plain t)), ar_media_type = ds_media_type (t_row t),
     ar_storage_class = k, ar_encrypted = True\<rparr>"

lemma commit_complete:
  assumes lib: "cas_lib_ok LB" and up: "uploading LB t st" and ok: "transfer_ok LB t"
    and all: "\<forall>i < t_count t. received LB (t_session t) (of_nat i) (t_piece t i) st"
    and r: "of_int (ds_required_replicas (t_row t)) \<noteq> (0 :: u8)"
      "k = Protected \<longrightarrow> \<not> (of_int (ds_required_replicas (t_row t)) :: u8) < 2"
    and k: "ds_storage_class (t_row t) = storage_class_name k"
    and none: "cs_objects st (ds_digest (t_row t)) = None" "map_of (cs_artifacts st) (ds_digest (t_row t)) = None"
    and fits: "length (cl_manifest_to_vec LB (commit_manifest t k st)) \<le> MAX_MANIFEST_BYTES"
  shows "\<exists>st'. commit_resumable_put LB (t_session t) (t_now t) st = (Inr (transfer_artifact t k), st')
    \<and> get LB (ds_digest (t_row t)) st' = Inr (t_plain t)
    \<and> map_of (cs_sessions st') (t_session t) = Some ((t_row t)\<lparr>ds_state := ''complete''\<rparr>)"
proof -
  let ?s = "t_session t" and ?row = "t_row t" and ?d = "ds_digest (t_row t)" and ?m = "commit_manifest t k st"
  let ?bytes = "cl_manifest_to_vec LB ?m"
  note chunks = complete_chunks [OF lib up ok all]
  obtain dir where dir: "cs_transfers st ?s = Some dir" "od_manifest dir = None" using up by (auto simp: uploading_def)
  have d: "?d = sha256_digest LB (t_plain t)" using ok by (simp add: transfer_ok_def)
  have checks: "commit_checks LB ?s ?row k (t_now t) st = Inr ?bytes"
    using up ok chunks dir
    by (simp add: commit_checks_def uploading_def transfer_ok_def Let_def transfer_manifest_def commit_manifest_def)
  define st1 where "st1 = st\<lparr>cs_objects := (cs_objects st)(?d \<mapsto> ObjDir \<lparr>od_manifest = Some (Regular ?bytes),
      od_chunks = transfer_files ?s st\<rparr>), cs_transfers := (cs_transfers st)(?s := None)\<rparr>"
  have read: "read_manifest LB ?d st1 = Inr ?m"
    using digest_ok [OF lib, of "t_plain t"] d lib fits complete_manifest [OF lib up ok all r]
    by (intro stored_manifest [where dir = "\<lparr>od_manifest = Some (Regular ?bytes), od_chunks = transfer_files ?s st\<rparr>"
          and bytes = ?bytes]) (simp_all add: st1_def cas_lib_ok_def)
  have cont: "read_chunks LB (chunk_files ?d st1) (mf_chunks ?m) = Inr (t_plain t)"
    using chunks(3) by (simp add: chunk_files_def st1_def commit_manifest_def)
  define c where "c = artifact_contract_from_manifest ?d ?m"
  have v: "verify_object LB ?d st1 = Inr c" unfolding verify_object_exact c_def using read cont d by auto
  have c: "ac_artifact c = transfer_artifact t k" "ac_required_replicas c = of_int (ds_required_replicas ?row)"
    using ok by (simp_all add: c_def artifact_contract_from_manifest_def commit_manifest_def transfer_artifact_def transfer_ok_def)
  let ?st2 = "st1\<lparr>cs_artifacts := cs_artifacts st1 @ [(?d, row_of_artifact (ac_artifact c) (ac_required_replicas c))]\<rparr>"
  have ix: "index_artifact_in_transaction (ac_artifact c) (ac_required_replicas c) st1 = Inr ?st2"
    unfolding index_artifact_cases
    using none(2) ok transfer_facts(4) [OF ok]
    by (simp add: c(1) transfer_artifact_def st1_def transfer_ok_def protocol_limits i64_max_def)
  let ?st3 = "update_session ?s (?row\<lparr>ds_state := ''complete''\<rparr>) ?st2"
  have ens: "ensure_artifact_contract c (of_int (ds_size_bytes ?row)) (ds_media_type ?row) k
      (of_int (ds_required_replicas ?row)) = Inr ()"
    using c ok by (simp add: ensure_artifact_contract_def transfer_artifact_def transfer_ok_def)
  have fin: "finish_commit ?s ?row c k st1 = (Inr (transfer_artifact t k), ?st3)"
    using ens ix c(1) by (simp add: finish_commit_eq)
  have "commit_new LB ?s ?row k (t_now t) st = (Inr (transfer_artifact t k), ?st3)"
    using checks none(1) v fin by (simp add: commit_new_eq Let_def st1_def)
  moreover have "and_then (parse_storage_class (ds_storage_class ?row)) (\<lambda>class.
      and_then (object_dir_ok ?d) (\<lambda>_. Inr class)) = Inr k"
    using k digest_ok [OF lib, of "t_plain t"] d by (auto simp: and_then_Inr)
  ultimately have "commit_resumable_put LB ?s (t_now t) st = (Inr (transfer_artifact t k), ?st3)"
    using up ok none(1) by (simp add: commit_resumable_put_eq uploading_def transfer_ok_def object_present_def)
  moreover have "get LB ?d ?st3 = Inr (t_plain t)"
    unfolding get_exact using read read_manifest_cong [of ?st3 ?d st1] cont d by (auto simp: chunk_files_def)
  moreover have "map_of (cs_sessions ?st3) ?s = Some (?row\<lparr>ds_state := ''complete''\<rparr>)"
    by (simp add: update_conv')
  ultimately show ?thesis by blast
qed

section \<open>Beginning\<close>

definition session_of_spec :: "resumable_put_spec \<Rightarrow> u32 \<Rightarrow> durable_put_session" where
  "session_of_spec spec chunks = \<lparr>ds_lease_id = rs_lease_id spec, ds_authority_scope = rs_authority_scope spec,
     ds_fencing_epoch = uint (rs_fencing_epoch spec), ds_authority_nonce = rs_authority_nonce spec,
     ds_expires_at_millis = timestamp_millis (rs_expires_at spec), ds_digest = rs_digest spec,
     ds_size_bytes = uint (rs_size_bytes spec), ds_media_type = rs_media_type spec,
     ds_storage_class = storage_class_name (rs_storage_class spec),
     ds_required_replicas = uint (rs_required_replicas spec),
     ds_chunk_size = uint (rs_chunk_size spec), ds_chunk_count = uint chunks, ds_state = ''active''\<rparr>"

definition transfer_of :: "resumable_put_spec \<Rightarrow> string \<Rightarrow> datetime \<Rightarrow> transfer" where
  "transfer_of spec p now = \<lparr>t_session = rs_session_id spec,
     t_row = session_of_spec spec (of_nat (chunk_count_nat (rs_size_bytes spec) (rs_chunk_size spec))),
     t_plain = p, t_chunk = rs_chunk_size spec, t_now = now\<rparr>"

text \<open>A session the store has never seen.\<close>

definition unseen :: "string \<Rightarrow> cas_store \<Rightarrow> bool" where
  "unseen s st = (map_of (cs_sessions st) s = None \<and> cs_transfers st s = None
     \<and> (\<forall>i. map_of (cs_chunks st) (s, i) = None) \<and> distinct (map fst (cs_chunks st)))"

lemma validate_spec_facts:
  assumes "validate_resumable_spec spec = Inr ()"
  shows "bounded_ascii 255 (rs_media_type spec)" "rs_size_bytes spec \<noteq> 0"
    "rs_size_bytes spec \<le> MAX_ARTIFACT_TRANSFER_BYTES" "rs_chunk_size spec \<noteq> 0"
    "rs_chunk_size spec \<le> RESUMABLE_CHUNK_SIZE" "rs_required_replicas spec \<noteq> 0"
    "rs_storage_class spec = Protected \<longrightarrow> \<not> rs_required_replicas spec < 2"
    "transfer_dir_ok (rs_session_id spec) = Inr ()"
  using assms by (auto simp: validate_resumable_spec_def and_then_Inr not_less split: if_splits)

lemma transfer_of_ok:
  assumes v: "validate_resumable_spec spec = Inr ()" and live: "timestamp_millis now < timestamp_millis (rs_expires_at spec)"
    and p: "sha256_digest LB p = rs_digest spec" "length p = unat (rs_size_bytes spec)"
  shows "transfer_ok LB (transfer_of spec p now)"
proof -
  note f = validate_spec_facts [OF v]
  have sz: "of_nat (length p) = rs_size_bytes spec" using p(2) by simp
  have su: "uint (rs_size_bytes spec) = int (length p)" using p(2) by (metis uint_nat)
  have "chunk_count_nat (rs_size_bytes spec) (rs_chunk_size spec) < 2 ^ 32"
    using chunk_count_bound [OF f(3,4)] by simp
  then have cnt: "uint (of_nat (chunk_count_nat (rs_size_bytes spec) (rs_chunk_size spec)) :: u32)
      = int (chunk_count_nat (rs_size_bytes spec) (rs_chunk_size spec))"
    by (simp add: uint_nat unat_of_nat)
  show ?thesis
    unfolding transfer_ok_def t_count_def transfer_of_def session_of_spec_def
    using f live p cnt sz
      su by (simp add: word_le_nat_alt unat_gt_0 RESUMABLE_CHUNK_SIZE_def DEFAULT_CHUNK_SIZE_def)
qed

lemma accept_epoch_current:
  assumes a: "accept_authority_in_transaction scope epoch nonce expires now st = Inr st'" and "fences_ok st"
  shows "ensure_epoch_is_current scope epoch st' = Inr ()"
proof (cases "cs_fences st scope")
  case None
  then show ?thesis by (simp add: ensure_epoch_is_current_def accept_Inr(3) [OF a])
next
  case (Some old)
  have "\<not> epoch < of_int old"
    using a Some by (auto simp: accept_authority_in_transaction_def and_then_Inr ensure_epoch_is_current_def split: if_splits)
  moreover have "unat (of_int old :: u64) = nat old"
    using assms(2) Some by (intro unat_of_int_u64) (auto simp: fences_ok_def)
  ultimately have "nat old \<le> unat epoch" by (simp add: word_less_nat_alt not_less)
  then have "old \<le> uint epoch" by (metis nat_le_iff uint_nat)
  then have "max old (uint epoch) = uint epoch" by (rule max_absorb2)
  then show ?thesis using Some by (simp add: ensure_epoch_is_current_def accept_Inr(3) [OF a])
qed

lemma begin_new_session:
  assumes "begin_resumable_put spec now st = (Inr status, st')" and fresh: "map_of (cs_sessions st) (rs_session_id spec) = None"
  shows "\<exists>st1. accept_authority_in_transaction (rs_authority_scope spec) (rs_fencing_epoch spec)
        (rs_authority_nonce spec) (timestamp_millis (rs_expires_at spec)) (timestamp_millis now) st = Inr st1
      \<and> st' = create_transfer_dir (rs_session_id spec) (update_session (rs_session_id spec)
          (session_of_spec spec (of_nat (chunk_count_nat (rs_size_bytes spec) (rs_chunk_size spec)))) st1)"
    and "validate_resumable_spec spec = Inr ()" and "\<not> cs_mutations_poisoned st" and "\<not> cs_index_poisoned st"
    and "timestamp_millis now < timestamp_millis (rs_expires_at spec)"
proof -
  show np: "\<not> cs_mutations_poisoned st" using assms(1) by (auto simp: begin_resumable_put_def)
  obtain r where r: "begin_checked spec now st = Inr r"
    using assms(1) np by (cases "begin_checked spec now st") (auto simp: begin_resumable_put_def)
  note b = begin_checked_Inr [OF r]
  from b(1,3) show v: "validate_resumable_spec spec = Inr ()"
    and "timestamp_millis now < timestamp_millis (rs_expires_at spec)" by auto
  from b(5) obtain chunks where c: "chunk_count (rs_size_bytes spec) (rs_chunk_size spec) = Inr chunks"
      "begin_transaction spec (timestamp_millis now) (uint (rs_fencing_epoch spec)) chunks st = Inr r" by blast
  obtain n where "chunk_count (rs_size_bytes spec) (rs_chunk_size spec) = Inr n"
      "unat n = chunk_count_nat (rs_size_bytes spec) (rs_chunk_size spec)"
    using chunk_count_Inr validate_spec_facts(2,3,4) [OF v] by blast
  then have cnt: "chunks = of_nat (chunk_count_nat (rs_size_bytes spec) (rs_chunk_size spec))"
    using c(1) by (metis Inr_inject word_of_nat_unat)
  have "and_then (ensure_storage_capacity (rs_storage_class spec) (rs_size_bytes spec)
      (Some (rs_digest spec)) st) (\<lambda>_. and_then (accept_authority_in_transaction (rs_authority_scope spec)
        (rs_fencing_epoch spec) (rs_authority_nonce spec) (timestamp_millis (rs_expires_at spec)) (timestamp_millis now) st)
        (\<lambda>st1. Inr (Some (update_session (rs_session_id spec) (session_of_spec spec chunks) st1)))) = Inr r"
    using c(2) unfolding begin_transaction_def Let_def session_of_spec_def fresh option.case .
  then obtain st1 where st1: "accept_authority_in_transaction (rs_authority_scope spec) (rs_fencing_epoch spec)
        (rs_authority_nonce spec) (timestamp_millis (rs_expires_at spec)) (timestamp_millis now) st = Inr st1"
      "r = Some (update_session (rs_session_id spec) (session_of_spec spec chunks) st1)"
    unfolding and_then_Inr by auto
  then show "\<exists>st1. accept_authority_in_transaction (rs_authority_scope spec) (rs_fencing_epoch spec)
        (rs_authority_nonce spec) (timestamp_millis (rs_expires_at spec)) (timestamp_millis now) st = Inr st1
      \<and> st' = create_transfer_dir (rs_session_id spec) (update_session (rs_session_id spec)
          (session_of_spec spec (of_nat (chunk_count_nat (rs_size_bytes spec) (rs_chunk_size spec)))) st1)"
    using assms(1) np r cnt by (simp add: begin_resumable_put_def Let_def)
  show "\<not> cs_index_poisoned st"
    using r by (auto simp: begin_checked_def and_then_Inr split: if_splits option.splits)
qed

lemma begin_uploading:
  assumes b: "begin_resumable_put spec now st = (Inr status, st')" and fresh: "unseen (rs_session_id spec) st"
    and "fences_ok st"
  shows "uploading LB (transfer_of spec p now) st'" and "cs_objects st' = cs_objects st"
    and "cs_artifacts st' = cs_artifacts st"
proof -
  let ?s = "rs_session_id spec"
  let ?row = "session_of_spec spec (of_nat (chunk_count_nat (rs_size_bytes spec) (rs_chunk_size spec)))"
  have f: "map_of (cs_sessions st) ?s = None" "cs_transfers st ?s = None" "\<forall>i. map_of (cs_chunks st) (?s, i) = None"
      "distinct (map fst (cs_chunks st))"
    using fresh by (simp_all add: unseen_def)
  obtain st1 where st1: "accept_authority_in_transaction (rs_authority_scope spec) (rs_fencing_epoch spec)
        (rs_authority_nonce spec) (timestamp_millis (rs_expires_at spec)) (timestamp_millis now) st = Inr st1"
      "st' = create_transfer_dir ?s (update_session ?s ?row st1)"
    using begin_new_session(1) [OF b f(1)] by blast
  note fr = accept_frame [OF st1(1)]
  show "cs_objects st' = cs_objects st" "cs_artifacts st' = cs_artifacts st" by (simp_all add: st1(2) fr)
  have "ensure_epoch_is_current (rs_authority_scope spec) (rs_fencing_epoch spec) st' = Inr ()"
    using accept_epoch_current [OF st1(1) assms(3)] by (simp add: ensure_epoch_is_current_def st1(2))
  moreover have "cs_transfers st' ?s = Some \<lparr>od_manifest = None, od_chunks = Map.empty\<rparr>"
    using f(2) by (simp add: st1(2) create_transfer_dir_def fr)
  ultimately show "uploading LB (transfer_of spec p now) st'"
    using f begin_new_session(3,4) [OF b f(1)]
    unfolding uploading_def transfer_of_def
    by (simp add: st1(2) fr update_conv' session_of_spec_def)
qed

end
