(* ===== verification/Rampage_Store_Demo.thy ===== *)
theory Rampage_Store_Demo
  imports Rampage_Resume
begin

text \<open>
  A small concrete library for the store: hexadecimal coding of bytes, a tag of sixteen zeros as
  encryption, a digest that only tells the empty text from others, and a unary text form of
  manifests. It satisfies the documented behaviour the properties of the store assume.
\<close>

definition nib :: "nat \<Rightarrow> char" where
  "nib n = (if n < 10 then char_of (48 + n) else char_of (87 + n))"

definition unnib :: "char \<Rightarrow> nat" where
  "unnib c = (if byte c < 58 then byte c - 48 else byte c - 87)"

definition demo_hex_encode :: "string \<Rightarrow> string" where
  "demo_hex_encode b = concat (map (\<lambda>c. [nib (byte c div 16), nib (byte c mod 16)]) b)"

fun demo_hex_decode :: "string \<Rightarrow> string option" where
  "demo_hex_decode [] = Some []"
| "demo_hex_decode [_] = None"
| "demo_hex_decode (a # b # r) = map_option (\<lambda>s. char_of (unnib a * 16 + unnib b) # s) (demo_hex_decode r)"

definition enc_nat :: "nat \<Rightarrow> string" where
  "enc_nat n = replicate n (CHR ''1'') @ ''0''"

fun dec_nat :: "string \<Rightarrow> nat \<times> string" where
  "dec_nat [] = (0, [])"
| "dec_nat (c # r) = (if c = CHR ''1'' then (let (n, r') = dec_nat r in (Suc n, r')) else (0, r))"

fun enc_str :: "string \<Rightarrow> string" where
  "enc_str [] = ''0''"
| "enc_str (c # s) = CHR ''1'' # c # enc_str s"

fun dec_str :: "string \<Rightarrow> string \<times> string" where
  "dec_str [] = ([], [])"
| "dec_str [_] = ([], [])"
| "dec_str (b # c # r) = (if b = CHR ''1'' then (let (s, r') = dec_str r in (c # s, r')) else ([], c # r))"

definition enc_class :: "storage_class \<Rightarrow> string" where
  "enc_class k = enc_nat (case k of Cache \<Rightarrow> 0 | Scratch \<Rightarrow> 1 | Protected \<Rightarrow> 2)"

definition class_of_nat :: "nat \<Rightarrow> storage_class" where
  "class_of_nat n = (if n = 0 then Cache else if n = 1 then Scratch else Protected)"

definition enc_chunk :: "chunk_record \<Rightarrow> string" where
  "enc_chunk c = enc_nat (unat (cr_index c)) @ enc_str (cr_nonce c) @ enc_nat (unat (cr_plaintext_size c))
     @ enc_str (cr_ciphertext_digest c)"

fun dec_chunks :: "nat \<Rightarrow> string \<Rightarrow> chunk_record list" where
  "dec_chunks 0 s = []"
| "dec_chunks (Suc k) s =
     (let (i, r1) = dec_nat s; (n, r2) = dec_str r1; (z, r3) = dec_nat r2; (d, r4) = dec_str r3
      in \<lparr>cr_index = of_nat i, cr_nonce = n, cr_plaintext_size = of_nat z, cr_ciphertext_digest = d\<rparr>
         # dec_chunks k r4)"

definition demo_manifest_to_vec :: "manifest \<Rightarrow> string" where
  "demo_manifest_to_vec m = enc_str (mf_schema m) @ enc_str (mf_plaintext_digest m)
     @ enc_nat (unat (mf_plaintext_size m)) @ enc_str (mf_media_type m) @ enc_class (mf_storage_class m)
     @ enc_nat (unat (mf_required_replicas m)) @ enc_nat (nat (mf_created_at m)) @ enc_nat (nat (- mf_created_at m))
     @ enc_nat (length (mf_chunks m)) @ concat (map enc_chunk (mf_chunks m))"

definition demo_manifest_from_slice :: "string \<Rightarrow> manifest option" where
  "demo_manifest_from_slice s =
     (let (schema, s1) = dec_str s; (digest, s2) = dec_str s1; (sz, s3) = dec_nat s2; (media, s4) = dec_str s3;
          (k, s5) = dec_nat s4; (replicas, s6) = dec_nat s5; (pos, s7) = dec_nat s6; (neg, s8) = dec_nat s7;
          (n, s9) = dec_nat s8
      in Some \<lparr>mf_schema = schema, mf_plaintext_digest = digest, mf_plaintext_size = of_nat sz,
           mf_media_type = media, mf_storage_class = class_of_nat k, mf_required_replicas = of_nat replicas,
           mf_created_at = int pos - int neg, mf_chunks = dec_chunks n s9\<rparr>)"

definition demo_sha :: "string \<Rightarrow> string" where
  "demo_sha s = (if s = [] then CHR ''1'' else CHR ''0'') # replicate 63 (CHR ''0'')"

definition demo_cas :: cas_lib where
  "demo_cas = \<lparr>cl_sha256_hex = demo_sha, cl_encrypt = (\<lambda>n p. Some (p @ replicate 16 (CHR ''0''))),
     cl_decrypt = (\<lambda>n c. Some (take (length c - 16) c)), cl_hex_encode = demo_hex_encode,
     cl_hex_decode = demo_hex_decode, cl_manifest_to_vec = demo_manifest_to_vec,
     cl_manifest_from_slice = demo_manifest_from_slice\<rparr>"

section \<open>It behaves\<close>

lemma byte_nib: "n < 16 \<Longrightarrow> byte (nib n) = (if n < 10 then 48 + n else 87 + n)"
  by (simp add: nib_def)

lemma unnib_nib [simp]: "n < 16 \<Longrightarrow> unnib (nib n) = n"
  by (simp add: unnib_def byte_nib)

lemma nib_lower_hex [simp]: "n < 16 \<Longrightarrow> is_lower_hex_digit (nib n)"
  by (simp add: is_lower_hex_digit_def is_ascii_digit_def byte_nib)

lemma char_of_byte [simp]: "char_of (byte c) = c"
  by (simp add: byte_def)

lemma demo_hex_roundtrip [simp]: "demo_hex_decode (demo_hex_encode b) = Some b"
proof (induction b)
  case (Cons c b)
  have "byte c div 16 < 16" by (rule less_mult_imp_div_less) simp
  then show ?case using Cons by (simp add: demo_hex_encode_def)
qed (simp add: demo_hex_encode_def)

lemma demo_hex_text: "length (demo_hex_encode b) = 2 * length b \<and> is_lower_hex (demo_hex_encode b)"
proof (induction b)
  case (Cons c b)
  have "byte c div 16 < 16" by (rule less_mult_imp_div_less) simp
  then show ?case using Cons by (simp add: demo_hex_encode_def is_lower_hex_def)
qed (simp add: demo_hex_encode_def is_lower_hex_def)

lemma dec_enc_nat [simp]: "dec_nat (enc_nat n @ r) = (n, r)"
  unfolding enc_nat_def by (induction n) simp_all

lemma dec_enc_str [simp]: "dec_str (enc_str s @ r) = (s, r)"
proof (induction s)
  case Nil
  then show ?case by (cases r) simp_all
qed simp

lemma dec_enc_chunks [simp]: "dec_chunks (length cs) (concat (map enc_chunk cs)) = cs"
  by (induction cs) (simp_all add: enc_chunk_def)

lemma class_of_enc [simp]: "dec_nat (enc_class k @ r) = ((case k of Cache \<Rightarrow> 0 | Scratch \<Rightarrow> 1 | Protected \<Rightarrow> 2), r)"
  by (simp add: enc_class_def)

lemma demo_manifest_roundtrip [simp]: "demo_manifest_from_slice (demo_manifest_to_vec m) = Some m"
  by (simp add: demo_manifest_from_slice_def demo_manifest_to_vec_def class_of_nat_def split: storage_class.split)

lemma demo_cas_simps [simp]:
  "cl_sha256_hex demo_cas = demo_sha" "cl_encrypt demo_cas n p = Some (p @ replicate 16 (CHR ''0''))"
  "cl_decrypt demo_cas n c = Some (take (length c - 16) c)" "cl_hex_encode demo_cas = demo_hex_encode"
  "cl_hex_decode demo_cas = demo_hex_decode" "cl_manifest_to_vec demo_cas = demo_manifest_to_vec"
  "cl_manifest_from_slice demo_cas = demo_manifest_from_slice"
  by (simp_all add: demo_cas_def)

lemma demo_cas_ok: "cas_lib_ok demo_cas"
proof -
  have z: "is_lower_hex_digit (CHR ''0'')" "is_lower_hex_digit (CHR ''1'')"
    by (simp_all add: is_lower_hex_digit_def is_ascii_digit_def byte_def)
  then show ?thesis using demo_hex_text by (simp add: cas_lib_ok_def demo_sha_def is_lower_hex_def)
qed

section \<open>A demonstration upload\<close>

definition demo_bytes :: string where
  "demo_bytes = ''ab''"

definition demo_nonce :: string where
  "demo_nonce = replicate 12 (CHR ''n'')"

definition demo_store :: cas_store where
  "demo_store = open_with_limits (Some \<lparr>cache_bytes = 10, scratch_bytes = 0, protected_bytes = 0\<rparr>)"

definition demo_options :: put_options where
  "demo_options = \<lparr>po_media_type = ''t'', po_storage_class = Cache, po_required_replicas = 1\<rparr>"

lemma demo_options_ok: "put_options_ok demo_options"
  by (simp add: put_options_ok_def demo_options_def bounded_ascii_def is_ascii_def byte_def)

lemma demo_random_ok: "random_ok (\<lambda>_. Some demo_nonce)"
  by (simp add: random_ok_def demo_nonce_def)

lemma demo_capacity:
  "ensure_storage_capacity Cache 2 (Some d) demo_store = Inr ()"
  by (simp add: ensure_storage_capacity_def demo_store_def open_with_limits_def sql_sum_def checked_add_def
      i64_max_def unwrap_or_def)

end
