(* ===== verification/Rampage_Store.thy ===== *)
theory Rampage_Store
  imports Rampage_Store_Demo
begin

text \<open>
  The properties of the content-addressed store, stated over the operations of
  \<open>crates/rampage-storage/src/lib.rs\<close>.
\<close>

section \<open>Authority\<close>

lemma accept_authority_Inr:
  assumes "accept_authority scope epoch nonce expires now st = (Inr (), st')"
  shows "accept_authority_in_transaction scope epoch nonce (timestamp_millis expires) (timestamp_millis now) st = Inr st'"
    and "timestamp_millis now < timestamp_millis expires"
  using assms by (auto simp: accept_authority_def split: if_splits sum.splits)

lemma spent_refused:
  assumes "cs_nonces st (scope, nonce) = Some e" and "timestamp_millis now < e"
  shows "fst (accept_authority scope epoch nonce expires now st) \<noteq> Inr ()"
  using assms
  by (auto simp: accept_authority_def accept_authority_in_transaction_def and_then_def Let_def
      delete_expired_nonces_def split: sum.splits)

lemma stale_refused:
  assumes "cs_fences st scope = Some f" and "0 \<le> f" "f \<le> int i64_max" and "int (unat epoch) < f"
  shows "fst (accept_authority scope epoch nonce expires now st) \<noteq> Inr ()"
proof -
  have "unat (of_int f :: u64) = nat f" using assms(2,3) by (rule unat_of_int_u64)
  moreover have "unat epoch < nat f" using assms(4) by linarith
  ultimately have "epoch < of_int f" by (simp add: word_less_nat_alt)
  then have "accept_authority_in_transaction scope epoch nonce e t st = Inl (StaleFencingEpoch (of_int f) epoch)" for e t
    using assms(1) by (simp add: accept_authority_in_transaction_def ensure_epoch_is_current_def)
  then show ?thesis by (simp add: accept_authority_def)
qed

text \<open>
  C29. An authority is accepted at most once and fences only move forward. After a scope, epoch and
  nonce were accepted, and after any run of the store's operations (uploads, sessions, commits,
  other authorities, and damage to the files) at times up to \<open>t\<close>: the same nonce with the same
  expiry is never accepted again, whatever the epoch; a nonce that is still live is not accepted
  under any expiry; and an authority of an older epoch of the scope is not accepted at all.
\<close>

theorem authority_is_one_shot:
  assumes "accept_authority scope epoch nonce expires t0 st = (Inr (), st0)" and "fences_ok st"
    and "cas_run LB t st0 st1"
  shows "fst (accept_authority scope epoch' nonce expires t st1) \<noteq> Inr ()
    \<and> (timestamp_millis t < timestamp_millis expires \<longrightarrow>
         fst (accept_authority scope epoch' nonce expires' t st1) \<noteq> Inr ())
    \<and> (epoch' < epoch \<longrightarrow> fst (accept_authority scope epoch' nonce' expires' t' st1) \<noteq> Inr ())"
proof -
  note a = accept_authority_Inr [OF assms(1)]
  have run: "vault.run LB t st0 st1" using assms(3) by (simp add: vault_run)
  have "cs_nonces st0 (scope, nonce) = Some (timestamp_millis expires)" by (simp add: accept_Inr(1) [OF a(1)])
  then have spent: "fst (accept_authority scope e nonce x t st1) \<noteq> Inr ()"
    if "timestamp_millis t < timestamp_millis expires" for e x
    using vault.spent_while_live [OF run _ that] spent_refused [OF _ that] by blast
  moreover have "fst (accept_authority scope epoch' nonce expires t st1) \<noteq> Inr ()"
    using spent by (cases "timestamp_millis t < timestamp_millis expires") (simp_all add: accept_authority_def)
  moreover have "fst (accept_authority scope epoch' nonce' expires' t' st1) \<noteq> Inr ()" if lt: "epoch' < epoch"
  proof -
    obtain f where f: "cs_fences st0 scope = Some f" "uint epoch \<le> f"
      by (auto simp: accept_Inr(3) [OF a(1)] split: option.splits)
    obtain f' where f': "cs_fences st1 scope = Some f'" "f \<le> f'" using vault.fence_never_back [OF run f(1)] by blast
    have "fences_ok st1"
      using fences.inv_steps [OF assms(3) [unfolded cas_run_def]] accept_fences_ok [OF a(1) assms(2)] by blast
    then have b: "0 \<le> f'" "f' \<le> int i64_max" using f'(1) by (auto simp: fences_ok_def)
    have "int (unat epoch') < uint epoch" using lt by (metis uint_nat of_nat_less_iff word_less_nat_alt)
    then have "int (unat epoch') < f'" using f(2) f'(2) by linarith
    then show ?thesis using stale_refused [OF f'(1) b] by blast
  qed
  ultimately show ?thesis by blast
qed

lemma demo_accept: "\<exists>st0. accept_authority ''s'' 5 ''n'' (seconds 1) 0 demo_store = (Inr (), st0)"
  by (simp add: accept_authority_def accept_authority_in_transaction_def ensure_epoch_is_current_def
      demo_store_def open_with_limits_def delete_expired_nonces_def i64_try_from_def i64_max_def is_ascii_def byte_def
      timestamp_millis_def seconds_def nanos_per_second_def Let_def)

theorem authority_is_one_shot_witness:
  "\<exists>st0. accept_authority ''s'' 5 ''n'' (seconds 1) 0 demo_store = (Inr (), st0)
     \<and> fst (accept_authority ''s'' 5 ''n'' (seconds 1) 0 st0) \<noteq> Inr ()
     \<and> fst (accept_authority ''s'' 4 ''m'' (seconds 9) 0 st0) \<noteq> Inr ()"
proof -
  obtain st0 where a: "accept_authority ''s'' 5 ''n'' (seconds 1) 0 demo_store = (Inr (), st0)"
    using demo_accept by blast
  have f: "fences_ok demo_store" by (simp add: fences_ok_def demo_store_def open_with_limits_def)
  have r: "cas_run demo_cas 0 st0 st0" by (simp add: cas_run_def)
  have "(4 :: u64) < 5" by simp
  then show ?thesis
    using a authority_is_one_shot [OF a f r, of 5] authority_is_one_shot [OF a f r, of 4 "seconds 9" "''m''" 0] by blast
qed

section \<open>Objects\<close>

lemma read_chunks_length:
  "read_chunks LB files cs = Inr p \<Longrightarrow> of_nat (length p) = sum_list (map cr_plaintext_size cs)"
proof (induction cs arbitrary: p)
  case (Cons c cs)
  then show ?case using open_record_size by (fastforce simp: and_then_Inr)
qed simp

lemma manifest_size_word:
  "validate_manifest d m = Inr () \<Longrightarrow> sum_list (map cr_plaintext_size (mf_chunks m)) = mf_plaintext_size m"
  using manifest_sizes_sum [of d m] sum_list_word [of cr_plaintext_size "mf_chunks m"] by simp

text \<open>
  The store and the transfer protocol cut artifacts into the same chunks, and an accepted
  manifest describes exactly that cut: its chunks are numbered from zero, each has the size the
  protocol expects for its index, and the sizes add up to the artifact.
\<close>

theorem manifest_is_protocol_partition:
  assumes "validate_manifest d m = Inr ()" and "mf_chunks m \<noteq> []"
  shows "(\<exists>chunk :: u32. 0 < chunk \<and> chunk \<le> RESUMABLE_CHUNK_SIZE \<and> (\<forall>i < length (mf_chunks m).
        cr_index (mf_chunks m ! i) = of_nat i
        \<and> expected_artifact_chunk_size (mf_plaintext_size m) chunk (of_nat i)
            = Some (cr_plaintext_size (mf_chunks m ! i))
        \<and> expected_chunk_size (mf_plaintext_size m) chunk (of_nat i) = Inr (cr_plaintext_size (mf_chunks m ! i))))
    \<and> (\<Sum>c\<leftarrow>mf_chunks m. unat (cr_plaintext_size c)) = unat (mf_plaintext_size m)"
proof
  show "(\<Sum>c\<leftarrow>mf_chunks m. unat (cr_plaintext_size c)) = unat (mf_plaintext_size m)"
    by (rule manifest_sizes_sum [OF assms(1)])
  let ?cs = "mf_chunks m" and ?sz = "mf_plaintext_size m"
  define nominal where "nominal = unat (cr_plaintext_size (hd ?cs))"
  have v: "?sz \<noteq> 0" "?sz \<le> MAX_ARTIFACT_TRANSFER_BYTES" "nominal \<le> DEFAULT_CHUNK_SIZE"
      "chunk_sizes_ok (unat ?sz) nominal 0 ?cs"
    using assms unfolding validate_manifest_exact manifest_fields_ok_def nominal_def by auto
  have pos: "0 < nominal"
    using chunk_sizes_ok_nth [OF v(4), of 0] assms(2) by (simp add: nominal_def hd_conv_nth)
  define chunk where "chunk = (of_nat nominal :: u32)"
  have uc: "unat chunk = nominal" using v(3) by (simp add: chunk_def unat_of_nat DEFAULT_CHUNK_SIZE_def)
  then have c0: "chunk \<noteq> 0" using pos by auto
  note bounds = chunk_sizes_ok_bounds [OF v(4) assms(2)]
  have small: "length ?cs < 2 ^ 32"
  proof -
    have "length ?cs - 1 \<le> (length ?cs - 1) * nominal" using pos by simp
    then have "length ?cs - 1 < unat ?sz" using bounds by linarith
    then show ?thesis using v(2) by (simp add: word_le_nat_alt protocol_limits)
  qed
  have "cr_index (?cs ! i) = of_nat i \<and> expected_artifact_chunk_size ?sz chunk (of_nat i) = Some (cr_plaintext_size (?cs ! i))"
    if i: "i < length ?cs" for i
  proof -
    have ui: "unat (of_nat i :: u32) = i" using i small by (simp add: unat_of_nat)
    have le: "i * nominal \<le> (length ?cs - 1) * nominal" using i by (intro mult_le_mono1) simp
    then have lt: "i * nominal < unat ?sz" using bounds by linarith
    note nth = chunk_sizes_ok_nth [OF v(4) i]
    have "unat (cr_plaintext_size (?cs ! i)) = chunk_bytes (unat ?sz) nominal i"
    proof (cases "i + 1 = length ?cs")
      case True
      then show ?thesis using nth by (simp add: chunk_bytes_def)
    next
      case False
      then have "(i + 1) * nominal \<le> (length ?cs - 1) * nominal" using i by (intro mult_le_mono1) simp
      then have "i * nominal + nominal < unat ?sz" using bounds by simp
      then show ?thesis using nth False by (simp add: chunk_bytes_def min_def)
    qed
    then have "cr_plaintext_size (?cs ! i) = of_nat (chunk_bytes (unat ?sz) nominal i)"
      by (metis word_of_nat_unat)
    then show ?thesis
      using expected_artifact_chunk_size_eq [OF v(1) c0, of "of_nat i"] nth lt ui uc by simp
  qed
  then show "\<exists>chunk :: u32. 0 < chunk \<and> chunk \<le> RESUMABLE_CHUNK_SIZE \<and> (\<forall>i < length ?cs.
        cr_index (?cs ! i) = of_nat i
        \<and> expected_artifact_chunk_size ?sz chunk (of_nat i) = Some (cr_plaintext_size (?cs ! i))
        \<and> expected_chunk_size ?sz chunk (of_nat i) = Inr (cr_plaintext_size (?cs ! i)))"
    using uc c0 v(3) expected_chunk_size_agrees [OF v(2)]
    by (intro exI [of _ chunk]) (simp add: word_gt_0 word_le_nat_alt RESUMABLE_CHUNK_SIZE_def DEFAULT_CHUNK_SIZE_def)
qed

definition demo_manifest :: manifest where
  "demo_manifest = \<lparr>mf_schema = ''rampage.cas-manifest.v1'', mf_plaintext_digest = ''d'', mf_plaintext_size = 5,
     mf_media_type = ''t'', mf_storage_class = Cache, mf_required_replicas = 1, mf_created_at = 0,
     mf_chunks = [\<lparr>cr_index = 0, cr_nonce = replicate 24 (CHR ''a''), cr_plaintext_size = 3,
                    cr_ciphertext_digest = replicate 64 (CHR ''a'')\<rparr>,
                  \<lparr>cr_index = 1, cr_nonce = replicate 24 (CHR ''a''), cr_plaintext_size = 2,
                    cr_ciphertext_digest = replicate 64 (CHR ''a'')\<rparr>]\<rparr>"

lemma demo_stored_manifest_valid: "validate_manifest ''d'' demo_manifest = Inr ()"
  by (simp add: validate_manifest_exact manifest_fields_ok_def demo_manifest_def bounded_ascii_def is_ascii_def
      byte_def chunk_texts_ok_def is_lower_hex_def is_lower_hex_digit_def is_ascii_digit_def protocol_limits
      DEFAULT_CHUNK_SIZE_def)

theorem manifest_is_protocol_partition_witness:
  "\<exists>chunk :: u32. expected_artifact_chunk_size 5 chunk 0 = Some 3 \<and> expected_artifact_chunk_size 5 chunk 1 = Some 2"
proof -
  have "mf_chunks demo_manifest \<noteq> []" by (simp add: demo_manifest_def)
  from manifest_is_protocol_partition [OF demo_stored_manifest_valid this]
  obtain chunk :: u32 where "\<forall>i < length (mf_chunks demo_manifest).
      expected_artifact_chunk_size (mf_plaintext_size demo_manifest) chunk (of_nat i)
        = Some (cr_plaintext_size (mf_chunks demo_manifest ! i))"
    by blast
  from this [rule_format, of 0] this [rule_format, of 1] show ?thesis
    by (auto simp: demo_manifest_def)
qed

text \<open>Uploading an artifact, and then every way of reading it.\<close>

lemma put_succeeds:
  assumes lib: "cas_lib_ok LB" and opts: "put_options_ok options" and rnd: "random_ok random"
    and n: "0 < cs_chunk_size st" "cs_chunk_size st \<le> DEFAULT_CHUNK_SIZE"
    and size: "length p \<le> unat MAX_ARTIFACT_TRANSFER_BYTES"
    and fits: "manifest_fits LB now random p options (cs_chunk_size st)"
    and np: "\<not> cs_index_poisoned st" "\<not> cs_mutations_poisoned st" and none: "cs_objects st (sha256_digest LB p) = None"
    and cap: "ensure_storage_capacity (po_storage_class options) (of_nat (length p)) (Some (sha256_digest LB p)) st = Inr ()"
    and ix: "map_of (cs_artifacts st) (sha256_digest LB p) \<in>
      {None, Some (row_of_artifact (put_artifact LB p options) (po_required_replicas options))}"
  shows "\<exists>st'. put LB now random p options st = (Inr (put_artifact LB p options), st')
    \<and> get LB (sha256_digest LB p) st' = Inr p
    \<and> verify LB (sha256_digest LB p) st' = Inr (put_artifact LB p options)
    \<and> head LB (sha256_digest LB p) st' = Inr (put_artifact LB p options)"
proof -
  let ?d = "sha256_digest LB p" and ?a = "put_artifact LB p options" and ?r = "po_required_replicas options"
  obtain st' m where st': "put_new LB now random p options st = (Inr ?a, st')"
      "read_manifest LB ?d st' = Inr m" "read_chunks LB (chunk_files ?d st') (mf_chunks m) = Inr p"
      "artifact_contract_from_manifest ?d m = \<lparr>ac_artifact = ?a, ac_required_replicas = ?r\<rparr>"
      "map_of (cs_artifacts st') ?d = Some (row_of_artifact ?a ?r)" "\<not> cs_index_poisoned st'"
    using put_new_succeeds [OF lib opts rnd n size fits np(1) none cap ix] by blast
  have "put LB now random p options st = (Inr ?a, st')"
    using np(2) opts digest_ok [OF lib, of p] none st'(1)
    by (simp add: put_eq object_present_def put_options_ok_def Let_def)
  moreover have "get LB ?d st' = Inr p" unfolding get_exact using st'(2,3) by blast
  moreover have head: "head LB ?d st' = Inr ?a"
    using st'(2,4,5,6)
    by (simp add: head_def Let_def ensure_artifact_contract_def row_of_artifact_def and_then_Inr)
  moreover have "verify_object LB ?d st' = Inr \<lparr>ac_artifact = ?a, ac_required_replicas = ?r\<rparr>"
    unfolding verify_object_exact using st'(2,3,4) by auto
  ultimately show ?thesis by (simp add: verify_def)
qed

lemma demo_fits: "manifest_fits demo_cas 0 (\<lambda>_. Some demo_nonce) demo_bytes demo_options DEFAULT_CHUNK_SIZE"
proof -
  have c: "chunks_of DEFAULT_CHUNK_SIZE demo_bytes = [demo_bytes]"
    by (simp add: demo_bytes_def DEFAULT_CHUNK_SIZE_def)
  have e: "length (enc_str s) = 2 * length s + 1" for s by (induction s) simp_all
  have h: "length (demo_hex_encode demo_nonce) = 24" using demo_hex_text [of demo_nonce] by (simp add: demo_nonce_def)
  show ?thesis
    unfolding manifest_fits_def c
    by (simp add: put_manifest_def demo_manifest_to_vec_def e h enc_nat_def enc_class_def enc_chunk_def
        demo_options_def demo_bytes_def sha256_digest_def demo_sha_def MAX_MANIFEST_BYTES_def)
qed

lemma demo_put:
  "\<exists>st'. put demo_cas 0 (\<lambda>_. Some demo_nonce) demo_bytes demo_options demo_store
       = (Inr (put_artifact demo_cas demo_bytes demo_options), st')
     \<and> get demo_cas (sha256_digest demo_cas demo_bytes) st' = Inr demo_bytes
     \<and> verify demo_cas (sha256_digest demo_cas demo_bytes) st' = Inr (put_artifact demo_cas demo_bytes demo_options)
     \<and> head demo_cas (sha256_digest demo_cas demo_bytes) st' = Inr (put_artifact demo_cas demo_bytes demo_options)"
proof (rule put_succeeds [OF demo_cas_ok demo_options_ok demo_random_ok])
  show "manifest_fits demo_cas 0 (\<lambda>_. Some demo_nonce) demo_bytes demo_options (cs_chunk_size demo_store)"
    using demo_fits by (simp add: demo_store_def open_with_limits_def)
  show "ensure_storage_capacity (po_storage_class demo_options) (of_nat (length demo_bytes))
      (Some (sha256_digest demo_cas demo_bytes)) demo_store = Inr ()"
    using demo_capacity by (simp add: demo_options_def demo_bytes_def)
qed (simp_all add: demo_store_def open_with_limits_def DEFAULT_CHUNK_SIZE_def demo_bytes_def protocol_limits)

text \<open>
  What \<open>get\<close> returns hashes to the digest it was asked for, whatever is on the disk, and
  verification of an object succeeds exactly when \<open>get\<close> can return it; the verified size is the
  number of bytes returned.
\<close>

theorem get_returns_addressed_content:
  "(get LB d st = Inr p \<longrightarrow> sha256_digest LB p = d
      \<and> (\<exists>c. verify_object LB d st = Inr c \<and> ar_size_bytes (ac_artifact c) = of_nat (length p)
           \<and> ar_digest (ac_artifact c) = d))
   \<and> (verify_object LB d st = Inr c \<longrightarrow> (\<exists>p. get LB d st = Inr p))"
proof (intro conjI impI)
  assume g: "get LB d st = Inr p"
  then obtain m where m: "read_manifest LB d st = Inr m"
      "read_chunks LB (chunk_files d st) (mf_chunks m) = Inr p" "sha256_digest LB p = d"
    unfolding get_exact by blast
  show "sha256_digest LB p = d" by (rule m(3))
  let ?c = "artifact_contract_from_manifest d m"
  have "verify_object LB d st = Inr ?c" unfolding verify_object_exact using m by blast
  moreover have "ar_size_bytes (ac_artifact ?c) = of_nat (length p)"
    using read_chunks_length [OF m(2)] manifest_size_word [OF read_manifest_Inr(2) [OF m(1)]]
    by (simp add: artifact_contract_from_manifest_def)
  moreover have "ar_digest (ac_artifact ?c) = d" by (simp add: artifact_contract_from_manifest_def)
  ultimately show "\<exists>c. verify_object LB d st = Inr c \<and> ar_size_bytes (ac_artifact c) = of_nat (length p)
           \<and> ar_digest (ac_artifact c) = d" by blast
next
  assume "verify_object LB d st = Inr c"
  then show "\<exists>p. get LB d st = Inr p" unfolding verify_object_exact get_exact by blast
qed

theorem get_returns_addressed_content_witness:
  "\<exists>st'. get demo_cas (sha256_digest demo_cas demo_bytes) st' = Inr demo_bytes
     \<and> (\<exists>c. verify_object demo_cas (sha256_digest demo_cas demo_bytes) st' = Inr c
          \<and> ar_size_bytes (ac_artifact c) = 2)"
proof -
  obtain st' where g: "get demo_cas (sha256_digest demo_cas demo_bytes) st' = Inr demo_bytes"
    using demo_put by blast
  then show ?thesis
    using get_returns_addressed_content [of demo_cas "sha256_digest demo_cas demo_bytes" st' demo_bytes]
    by (auto simp: demo_bytes_def)
qed

text \<open>
  Upload and download round trip, in full: with working randomness, valid options, at most
  64 MiB, room within the quota, and a manifest text within the limit on reading it, \<open>put\<close> returns
  the artifact reference, and from then on \<open>get\<close> returns the same bytes and \<open>verify\<close> and \<open>head\<close>
  return the same reference.
\<close>

theorem put_get_roundtrip:
  assumes "cas_lib_ok LB" and "put_options_ok options" and "random_ok random"
    and "0 < cs_chunk_size st" "cs_chunk_size st \<le> DEFAULT_CHUNK_SIZE"
    and "length p \<le> unat MAX_ARTIFACT_TRANSFER_BYTES"
    and "manifest_fits LB now random p options (cs_chunk_size st)"
    and "\<not> cs_index_poisoned st" "\<not> cs_mutations_poisoned st" and "cs_objects st (sha256_digest LB p) = None"
    and "ensure_storage_capacity (po_storage_class options) (of_nat (length p)) (Some (sha256_digest LB p)) st = Inr ()"
    and "map_of (cs_artifacts st) (sha256_digest LB p) \<in>
      {None, Some (row_of_artifact (put_artifact LB p options) (po_required_replicas options))}"
  shows "\<exists>st'. put LB now random p options st = (Inr (put_artifact LB p options), st')
    \<and> get LB (sha256_digest LB p) st' = Inr p
    \<and> verify LB (sha256_digest LB p) st' = Inr (put_artifact LB p options)
    \<and> head LB (sha256_digest LB p) st' = Inr (put_artifact LB p options)"
  using assms by (rule put_succeeds)

theorem put_get_roundtrip_witness:
  "\<exists>st'. put demo_cas 0 (\<lambda>_. Some demo_nonce) demo_bytes demo_options demo_store
       = (Inr (put_artifact demo_cas demo_bytes demo_options), st')
     \<and> get demo_cas (sha256_digest demo_cas demo_bytes) st' = Inr demo_bytes"
proof -
  have "manifest_fits demo_cas 0 (\<lambda>_. Some demo_nonce) demo_bytes demo_options (cs_chunk_size demo_store)"
    using demo_fits by (simp add: demo_store_def open_with_limits_def)
  moreover have "ensure_storage_capacity (po_storage_class demo_options) (of_nat (length demo_bytes))
      (Some (sha256_digest demo_cas demo_bytes)) demo_store = Inr ()"
    using demo_capacity by (simp add: demo_options_def demo_bytes_def)
  ultimately show ?thesis
    using put_get_roundtrip [OF demo_cas_ok demo_options_ok demo_random_ok, of demo_store demo_bytes 0]
    by (simp add: demo_store_def open_with_limits_def DEFAULT_CHUNK_SIZE_def demo_bytes_def protocol_limits) blast
qed

section \<open>Quota\<close>

lemma cas_step_limits:
  assumes "cas_step LB now st st'"
  shows "cs_limits st' = cs_limits st"
  using assms
proof cases
  case (put random p opts)
  then show ?thesis using put_frame [of st LB now random p opts] by (simp add: same_config_def)
next
  case (accept scope epoch nonce expires)
  then show ?thesis
    using accept_authority_frame [of scope epoch nonce expires now st] accept_frame(2) by metis
next
  case (begin_put spec)
  then show ?thesis using begin_frame [of spec now st] accept_frame(2) by fastforce
next
  case (put_chunk s i d p n)
  then show ?thesis using put_chunk_frame [of st LB s i d p now n] by (simp add: same_config_def)
next
  case (commit s)
  then show ?thesis using commit_frame [of st LB s now] by (simp add: same_config_def)
qed simp

interpretation limits: invariant_system "\<lambda>st st'. \<exists>now. cas_step LB now st st'"
    "\<lambda>st. cs_limits st = l" "\<lambda>st. cs_limits st = l" for LB l
  by unfold_locales (auto simp: cas_step_limits)

text \<open>
  C30. The owner's storage limits hold in every state the store can reach from an empty one with unchanged limits, by any
  interleaving of uploads, authorities, sessions, chunks, commits and damage to the files, as long as no upload or commit
  meets a fault of the disk or the database while it promotes, syncs or indexes its object: for each storage class, the bytes of
  indexed artifacts and of active sessions for artifacts that are not indexed stay within the limit. And whatever
  \<open>get\<close> can return is indexed, so it is accounted for.
\<close>

theorem quota_holds_in_every_state:
  assumes "cas_lib_ok LB" and "(\<lambda>st st'. \<exists>now. cas_step LB now st st')\<^sup>*\<^sup>* (open_with_limits (Some l)) st"
  shows "used (storage_class_name k) st + pending (storage_class_name k) st \<le> unat (for_class l k)
    \<and> (get LB d st = Inr p \<longrightarrow> indexed st d)"
proof
  have inv: "vault_inv LB st" using quota.inv_reachable [OF _ assms(2)] assms(1) by blast
  have "cs_limits st = Some l"
    using limits.inv_steps [OF assms(2), of "Some l"] by (simp add: open_with_limits_def)
  then show "used (storage_class_name k) st + pending (storage_class_name k) st \<le> unat (for_class l k)"
    using inv by (simp add: vault_inv_def within_quota_def)
  show "get LB d st = Inr p \<longrightarrow> indexed st d"
    using vault_inv_verified [OF inv] unfolding get_exact verify_object_exact by blast
qed

theorem quota_holds_in_every_state_witness:
  "\<exists>st'. get demo_cas (sha256_digest demo_cas demo_bytes) st' = Inr demo_bytes
     \<and> used ''cache'' st' + pending ''cache'' st' \<le> 10 \<and> indexed st' (sha256_digest demo_cas demo_bytes)"
proof -
  let ?l = "\<lparr>cache_bytes = 10, scratch_bytes = 0, protected_bytes = 0\<rparr>"
  obtain st' where p: "put demo_cas 0 (\<lambda>_. Some demo_nonce) demo_bytes demo_options demo_store
      = (Inr (put_artifact demo_cas demo_bytes demo_options), st')"
      and g: "get demo_cas (sha256_digest demo_cas demo_bytes) st' = Inr demo_bytes"
    using demo_put by blast
  have "cas_step demo_cas 0 (open_with_limits (Some ?l)) st'"
    using cas_step.put [of demo_cas 0 demo_store "\<lambda>_. Some demo_nonce" demo_bytes demo_options] p
    by (simp add: demo_store_def)
  then have run: "(\<lambda>st st'. \<exists>now. cas_step demo_cas now st st')\<^sup>*\<^sup>* (open_with_limits (Some ?l)) st'" by blast
  show ?thesis
    using quota_holds_in_every_state [OF demo_cas_ok run, of Cache] g by (intro exI [of _ st']) auto
qed

text \<open>
  The condition on faults is needed. When the directory cannot be synced after the rename, \<open>put\<close> reports an error and leaves the whole
  object behind, readable and in no index. Putting the same content again, into a store with whatever limits and
  contents, finds the object, and indexes it without looking at the limits.
\<close>

lemma verify_object_local:
  "cs_objects st d = cs_objects st' d \<Longrightarrow> verify_object LB d st = verify_object LB d st'"
  "cs_objects st d = cs_objects st' d \<Longrightarrow> get LB d st = get LB d st'"
  by (simp_all add: verify_object_def get_def read_manifest_def chunk_files_def)

lemma interrupted_put_evades_quota:
  assumes "put LB now random p options st = (Inr a, st1)" and "cs_objects st (sha256_digest LB p) = None"
    and "\<not> indexed st (sha256_digest LB p)"
  shows "\<exists>st2. put_io SyncFails LB now random p options st = (Inl (Io IoOther), st2)
     \<and> get LB (sha256_digest LB p) st2 = get LB (sha256_digest LB p) st1 \<and> \<not> indexed st2 (sha256_digest LB p)
     \<and> (\<forall>st3. cs_objects st3 (sha256_digest LB p) = cs_objects st2 (sha256_digest LB p) \<and> \<not> indexed st3 (sha256_digest LB p)
          \<and> \<not> cs_index_poisoned st3 \<and> \<not> cs_mutations_poisoned st3
          \<longrightarrow> put LB now' random' p options st3 = (Inr a, st3\<lparr>cs_artifacts := cs_artifacts st3
                @ [(sha256_digest LB p, row_of_artifact a (po_required_replicas options))]\<rparr>))"
proof -
  let ?d = "sha256_digest LB p"
  have new: "put_new LB now random p options st = (Inr a, st1)" and d: "object_dir_ok ?d = Inr ()"
    and o: "\<not> (po_storage_class options = Protected \<and> po_required_replicas options < 2)" "\<not> cs_mutations_poisoned st"
    using assms(1,2) by (auto simp: put_eq Let_def object_present_def split: if_splits sum.splits)
  obtain records where e: "encrypt_chunks LB random 0 (chunks_of (cs_chunk_size st) p) = Inr records"
    and cap: "ensure_storage_capacity (po_storage_class options) (of_nat (length p)) (Some ?d) st = Inr ()" "\<not> cs_index_poisoned st"
    using new by (auto simp: put_new_eq Let_def split: if_splits sum.splits)
  let ?st2 = "st\<lparr>cs_objects := (cs_objects st)(?d \<mapsto> ObjDir \<lparr>od_manifest = Some (Regular (cl_manifest_to_vec LB
     (put_manifest LB now p options records))), od_chunks = files_of records\<rparr>)\<rparr>"
  obtain c where c: "verify_object LB ?d ?st2 = Inr c" "a = ac_artifact c"
      "ensure_artifact_contract c (of_nat (length p)) (po_media_type options) (po_storage_class options) (po_required_replicas options) = Inr ()"
    and ix: "index_artifact (ac_artifact c) (ac_required_replicas c) ?st2 = Inr st1"
    using new cap by (auto simp: put_new_eq Let_def e assms(2) put_manifest_def split: sum.splits)
  have a: "ar_digest a = ?d" "unat (ar_size_bytes a) \<le> i64_max"
    using c(1,2) ix by (auto simp: verify_object_exact artifact_contract_from_manifest_def index_artifact_def index_artifact_cases split: if_splits)
  have st1: "cs_objects st1 = cs_objects ?st2" using ix by (auto simp: index_artifact_def dest!: index_artifact_Inr split: if_splits)
  have io: "put_io SyncFails LB now random p options st = (Inl (Io IoOther), ?st2)"
    using o d cap e assms(2) by (simp add: put_io_def put_new_io_def Let_def object_present_def put_manifest_def)
  have again: "put LB now' random' p options st3 = (Inr a, st3\<lparr>cs_artifacts := cs_artifacts st3
                @ [(?d, row_of_artifact a (po_required_replicas options))]\<rparr>)"
    if "cs_objects st3 ?d = cs_objects ?st2 ?d" "\<not> indexed st3 ?d" "\<not> cs_index_poisoned st3" "\<not> cs_mutations_poisoned st3" for st3
  proof -
    have "index_artifact a (po_required_replicas options) st3
        = Inr (st3\<lparr>cs_artifacts := cs_artifacts st3 @ [(?d, row_of_artifact a (po_required_replicas options))]\<rparr>)"
      using that a by (auto simp: index_artifact_def index_artifact_cases indexed_def)
    then show ?thesis
      using that o d c verify_object_local(1) [OF that(1), of LB] by (simp add: put_eq Let_def object_present_def)
  qed
  have "\<not> indexed ?st2 ?d" using assms(3) by (simp add: indexed_def)
  then show ?thesis using io again verify_object_local(2) [of st1 ?d ?st2 LB] st1 by (intro exI [of _ ?st2]) simp
qed

section \<open>Resumable uploads\<close>

text \<open>
  C31. Resumable upload round trip: for an artifact that the store has neither as an object nor in its index, after
  \<open>begin_resumable_put\<close> accepted a new session, uploading the pieces of the artifact in any order and with repetitions, each
  with its digest and a fresh nonce, and then committing, all at one reading of the clock and without faults of the disk, returns the artifact,
  provided the text of its manifest has at most 1 MiB; \<open>get\<close> then returns the plaintext and the session is complete.
\<close>

theorem resumable_upload_roundtrip:
  assumes lib: "cas_lib_ok LB" and "fences_ok st" and fresh: "unseen (rs_session_id spec) st"
    and b: "begin_resumable_put spec now st = (Inr status, st0)"
    and p: "sha256_digest LB p = rs_digest spec" "length p = unat (rs_size_bytes spec)"
    and order: "set order = {..<t_count (transfer_of spec p now)}" and nonces: "\<forall>k. length (nonces k) = 12"
    and none: "cs_objects st (rs_digest spec) = None" "map_of (cs_artifacts st) (rs_digest spec) = None"
    and fits: "length (cl_manifest_to_vec LB (commit_manifest (transfer_of spec p now) (rs_storage_class spec)
        (upload_all LB (transfer_of spec p now) nonces order st0))) \<le> MAX_MANIFEST_BYTES"
  shows "\<exists>st'. commit_resumable_put LB (rs_session_id spec) now
        (upload_all LB (transfer_of spec p now) nonces order st0)
      = (Inr (transfer_artifact (transfer_of spec p now) (rs_storage_class spec)), st')
    \<and> get LB (rs_digest spec) st' = Inr p
    \<and> (\<exists>row. map_of (cs_sessions st') (rs_session_id spec) = Some row \<and> ds_state row = ''complete'')"
proof -
  let ?t = "transfer_of spec p now"
  let ?st = "upload_all LB ?t nonces order st0"
  have new: "map_of (cs_sessions st) (rs_session_id spec) = None" using fresh by (simp add: unseen_def)
  note bn = begin_new_session [OF b new]
  note f = validate_spec_facts [OF bn(2)]
  have ok: "transfer_ok LB ?t" by (rule transfer_of_ok [OF bn(2,5) p])
  note begun = begin_uploading(1) [OF b fresh assms(2), of LB p] begin_uploading(2,3) [OF b fresh assms(2)]
  have up: "uploading LB ?t ?st"
      and all: "\<forall>i < t_count ?t. received LB (t_session ?t) (of_nat i) (t_piece ?t i) ?st"
      and same: "cs_objects ?st = cs_objects st" "cs_artifacts ?st = cs_artifacts st"
    using upload_all_ok [OF lib ok _ begun(1)] nonces order begun(2,3) by auto
  have row: "ds_digest (t_row ?t) = rs_digest spec" "t_session ?t = rs_session_id spec" "t_plain ?t = p" "t_now ?t = now"
      "ds_storage_class (t_row ?t) = storage_class_name (rs_storage_class spec)"
      "of_int (ds_required_replicas (t_row ?t)) = rs_required_replicas spec"
    by (simp_all add: transfer_of_def session_of_spec_def)
  from commit_complete [OF lib up ok all _ _ row(5)] none same fits f(6,7)
  show ?thesis unfolding row by auto
qed

lemma length_enc_str [simp]: "length (enc_str s) = 2 * length s + 1"
  by (induction s) simp_all

lemma length_enc_nat [simp]: "length (enc_nat n) = n + 1"
  by (simp add: enc_nat_def)

lemma length_le_sum: "\<forall>x \<in> set xs. 0 < f x \<Longrightarrow> length xs \<le> sum_list (map (f :: _ \<Rightarrow> nat) xs)"
  by (induction xs) auto

lemma length_concat_le: "\<forall>x \<in> set xs. length (f x) \<le> n \<Longrightarrow> length (concat (map f xs)) \<le> n * length xs"
  by (induction xs) auto

lemma demo_manifest_length:
  assumes "validate_manifest d m = Inr ()" and "unat (mf_plaintext_size m) \<le> 2" and "mf_created_at m = 0"
    and "length d \<le> 100"
  shows "length (demo_manifest_to_vec m) \<le> MAX_MANIFEST_BYTES"
proof -
  have f: "manifest_fields_ok d m" using assms(1) by (simp add: validate_manifest_exact)
  let ?cs = "mf_chunks m"
  define nominal where "nominal = (case ?cs of [] \<Rightarrow> 0 | c # _ \<Rightarrow> unat (cr_plaintext_size c))"
  have ok: "chunk_sizes_ok (unat (mf_plaintext_size m)) nominal 0 ?cs"
    using assms(1) by (cases ?cs) (simp_all add: validate_manifest_exact nominal_def)
  have "\<forall>c \<in> set ?cs. 0 < unat (cr_plaintext_size c)"
    using chunk_sizes_ok_nth [OF ok] by (metis in_set_conv_nth)
  from length_le_sum [OF this] have n: "length ?cs \<le> 2" using manifest_sizes_sum [OF assms(1)] assms(2) by simp
  have "length (enc_chunk c) \<le> 200" if c: "c \<in> set ?cs" for c
  proof -
    obtain i where i: "i < length ?cs" "c = ?cs ! i" using c by (auto simp: in_set_conv_nth)
    note nth = chunk_sizes_ok_nth [OF ok i(1), folded i(2)]
    have "unat (cr_index c) \<le> 2" using nth i(1) n by (simp add: unat_of_nat)
    moreover have "unat (cr_plaintext_size c) \<le> 2"
      using member_le_sum_list [of "unat (cr_plaintext_size c)" "map (\<lambda>c. unat (cr_plaintext_size c)) ?cs"] c
        manifest_sizes_sum [OF assms(1)] assms(2) by simp
    ultimately show ?thesis using nth by (simp add: enc_chunk_def chunk_texts_ok_def)
  qed
  then have "length (concat (map enc_chunk ?cs)) \<le> 200 * length ?cs"
    by (intro length_concat_le) blast
  moreover have "unat (mf_required_replicas m) < 256" using unsigned_less [of "mf_required_replicas m"] by simp
  moreover have "length (enc_class (mf_storage_class m)) \<le> 3"
    by (cases "mf_storage_class m") (simp_all add: enc_class_def)
  ultimately show ?thesis
    using f n assms(2,3,4)
    by (simp add: demo_manifest_to_vec_def manifest_fields_ok_def bounded_ascii_def MAX_MANIFEST_BYTES_def)
qed

definition demo_spec :: "string \<Rightarrow> u64 \<Rightarrow> resumable_put_spec" where
  "demo_spec digest n = \<lparr>rs_session_id = replicate 32 (CHR ''a''), rs_lease_id = ''l'', rs_authority_scope = ''s'',
     rs_fencing_epoch = 5, rs_authority_nonce = ''n'', rs_expires_at = seconds 1, rs_digest = digest,
     rs_size_bytes = n, rs_media_type = ''t'', rs_storage_class = Cache, rs_required_replicas = 1, rs_chunk_size = 1\<rparr>"

definition free_store :: cas_store where
  "free_store = open_with_limits None"

lemma demo_spec_valid:
  assumes "0 < n" "n \<le> MAX_ARTIFACT_TRANSFER_BYTES"
  shows "validate_resumable_spec (demo_spec d n) = Inr ()"
proof -
  obtain c where "chunk_count n 1 = Inr c" using chunk_count_Inr [of n 1] assms by auto
  moreover have "transfer_dir_ok (replicate 32 (CHR ''a'')) = Inr ()"
    by (simp add: transfer_dir_ok_def is_lower_hex_def is_lower_hex_digit_def is_ascii_digit_def byte_def)
  moreover have "n \<noteq> 0" "\<not> n > MAX_ARTIFACT_TRANSFER_BYTES" using assms by auto
  ultimately show ?thesis
    by (simp add: validate_resumable_spec_def demo_spec_def bounded_ascii_def is_ascii_def byte_def
        RESUMABLE_CHUNK_SIZE_def DEFAULT_CHUNK_SIZE_def word_le_nat_alt word_less_nat_alt)
qed

lemma demo_begin:
  assumes n: "0 < n" "n \<le> MAX_ARTIFACT_TRANSFER_BYTES" and d: "object_dir_ok d = Inr ()"
  shows "\<exists>status st0. begin_resumable_put (demo_spec d n) 0 free_store = (Inr status, st0)"
proof -
  obtain c where c: "chunk_count n 1 = Inr c" using chunk_count_Inr [of n 1] n by auto
  have ni: "unat n \<le> i64_max" using size_below_i64 [OF n(2)] .
  let ?row = "session_of_spec (demo_spec d n) c"
  obtain st1 where a: "accept_authority_in_transaction ''s'' 5 ''n'' (timestamp_millis (seconds 1)) 0 free_store = Inr st1"
    by (simp add: accept_authority_in_transaction_def ensure_epoch_is_current_def free_store_def
        open_with_limits_def delete_expired_nonces_def i64_try_from_def i64_max_def Let_def)
  have free: "cs_limits free_store = None" "cs_sessions free_store = []" "\<not> cs_index_poisoned free_store"
      "\<not> cs_mutations_poisoned free_store"
    by (simp_all add: free_store_def open_with_limits_def)
  have tx: "begin_transaction (demo_spec d n) 0 5 c free_store
      = Inr (Some (update_session (replicate 32 (CHR ''a'')) ?row st1))"
    using a free
    by (simp add: begin_transaction_def Let_def demo_spec_def ensure_storage_capacity_def session_of_spec_def)
  have "begin_checked (demo_spec d n) 0 free_store = Inr (Some (update_session (replicate 32 (CHR ''a'')) ?row st1))"
    using demo_spec_valid [OF n, of d] d c ni tx free
    by (simp add: begin_checked_def demo_spec_def i64_try_from_def timestamp_millis_def seconds_def
        nanos_per_second_def i64_max_def)
  moreover have "\<exists>status. resumable_put_status_of (replicate 32 (CHR ''a''))
      (create_transfer_dir (replicate 32 (CHR ''a'')) (update_session (replicate 32 (CHR ''a'')) ?row st1)) = Inr status"
    using accept_frame(7) [OF a] uint_bounded [of c] validate_spec_facts(8) [OF demo_spec_valid [OF n, of d]] free
    by (simp add: resumable_put_status_of_def update_conv' Let_def i64_to_u32_def session_of_spec_def demo_spec_def)
  ultimately show ?thesis
    using free by (auto simp: begin_resumable_put_def Let_def demo_spec_def)
qed

lemma free_store_fresh: "unseen s free_store" "fences_ok free_store" "cs_objects free_store d = None"
    "map_of (cs_artifacts free_store) d = None"
  by (simp_all add: unseen_def fences_ok_def free_store_def open_with_limits_def)

theorem resumable_upload_roundtrip_witness:
  "\<exists>status st0 st'. begin_resumable_put (demo_spec (sha256_digest demo_cas ''ab'') 2) 0 free_store = (Inr status, st0)
     \<and> commit_resumable_put demo_cas (replicate 32 (CHR ''a'')) 0
         (upload_all demo_cas (transfer_of (demo_spec (sha256_digest demo_cas ''ab'') 2) ''ab'' 0)
            (\<lambda>_. demo_nonce) [1, 0, 1] st0)
       = (Inr (transfer_artifact (transfer_of (demo_spec (sha256_digest demo_cas ''ab'') 2) ''ab'' 0) Cache), st')
     \<and> get demo_cas (sha256_digest demo_cas ''ab'') st' = Inr ''ab''"
proof -
  let ?d = "sha256_digest demo_cas ''ab''"
  let ?spec = "demo_spec ?d 2"
  let ?t = "transfer_of ?spec ''ab'' 0"
  have n: "0 < (2 :: u64)" "(2 :: u64) \<le> MAX_ARTIFACT_TRANSFER_BYTES" by (simp_all add: protocol_limits)
  obtain status st0 where b: "begin_resumable_put ?spec 0 free_store = (Inr status, st0)"
    using demo_begin [OF n digest_ok [OF demo_cas_ok]] by blast
  define order where "order = [1, 0, 1 :: nat]"
  let ?st = "upload_all demo_cas ?t (\<lambda>_. demo_nonce) order st0"
  have nl: "length demo_nonce = 12" by (simp add: demo_nonce_def)
  have p: "?d = rs_digest ?spec" "length ''ab'' = unat (rs_size_bytes ?spec)" by (simp_all add: demo_spec_def)
  have cnt: "t_count ?t = 2" by (simp add: t_count_def transfer_of_def demo_spec_def chunk_count_nat_def div_ceil_def)
  have order: "set order = {..<t_count ?t}" unfolding cnt order_def by auto
  have fr: "map_of (cs_sessions free_store) (rs_session_id ?spec) = None"
    by (simp add: free_store_def open_with_limits_def)
  note bn = begin_new_session [OF b fr]
  have ok: "transfer_ok demo_cas ?t" by (rule transfer_of_ok [OF bn(2,5) p])
  have up: "uploading demo_cas ?t ?st" and all: "\<forall>i < t_count ?t. received demo_cas (t_session ?t) (of_nat i) (t_piece ?t i) ?st"
    using upload_all_ok [OF demo_cas_ok ok _ begin_uploading(1) [OF b free_store_fresh(1,2)], of "\<lambda>_. demo_nonce" order]
      order nl by blast+
  have "validate_manifest (ds_digest (t_row ?t)) (commit_manifest ?t Cache ?st) = Inr ()"
    by (rule complete_manifest [OF demo_cas_ok up ok all]) (simp_all add: transfer_of_def session_of_spec_def demo_spec_def)
  then have fits: "length (cl_manifest_to_vec demo_cas (commit_manifest ?t (rs_storage_class ?spec) ?st)) \<le> MAX_MANIFEST_BYTES"
    using demo_manifest_length [of "ds_digest (t_row ?t)" "commit_manifest ?t Cache ?st"]
    by (simp add: commit_manifest_def transfer_of_def session_of_spec_def demo_spec_def sha256_digest_def demo_sha_def)
  from resumable_upload_roundtrip [OF demo_cas_ok free_store_fresh(2,1) b p order _ free_store_fresh(3,4) fits] nl
  obtain st' where "commit_resumable_put demo_cas (rs_session_id ?spec) 0 ?st
      = (Inr (transfer_artifact ?t (rs_storage_class ?spec)), st')" "get demo_cas (rs_digest ?spec) st' = Inr ''ab''"
    by blast
  moreover have "rs_session_id ?spec = replicate 32 (CHR ''a'')" "rs_storage_class ?spec = Cache" "rs_digest ?spec = ?d"
    by (simp_all add: demo_spec_def)
  ultimately show ?thesis unfolding order_def [symmetric] using b by metis
qed

text \<open>The commit of a complete transfer whose manifest is too long to be read back.\<close>

lemma commit_oversized:
  assumes lib: "cas_lib_ok LB" and up: "uploading LB t st" and ok: "transfer_ok LB t"
    and all: "\<forall>i < t_count t. received LB (t_session t) (of_nat i) (t_piece t i) st"
    and k: "ds_storage_class (t_row t) = storage_class_name k"
    and none: "cs_objects st (ds_digest (t_row t)) = None"
    and long: "length (cl_manifest_to_vec LB (commit_manifest t k st)) > MAX_MANIFEST_BYTES"
  shows "\<exists>st'. commit_resumable_put LB (t_session t) (t_now t) st = (Inl InvalidManifest, st')
    \<and> cs_objects st' (ds_digest (t_row t)) \<noteq> None \<and> cs_artifacts st' = cs_artifacts st
    \<and> cs_transfers st' (t_session t) = None \<and> (\<forall>now. \<exists>e. fst (commit_resumable_put LB (t_session t) now st') = Inl e)"
proof -
  let ?s = "t_session t" and ?row = "t_row t" and ?d = "ds_digest (t_row t)" and ?m = "commit_manifest t k st"
  let ?bytes = "cl_manifest_to_vec LB ?m"
  note chunks = complete_chunks [OF lib up ok all]
  obtain dir where dir: "cs_transfers st ?s = Some dir" "od_manifest dir = None" using up by (auto simp: uploading_def)
  have dok: "object_dir_ok ?d = Inr ()" using digest_ok [OF lib] ok by (simp add: transfer_ok_def)
  have checks: "commit_checks LB ?s ?row k (t_now t) st = Inr ?bytes"
    using up ok chunks dir
    by (simp add: commit_checks_def uploading_def transfer_ok_def Let_def transfer_manifest_def commit_manifest_def)
  define st1 where "st1 = st\<lparr>cs_objects := (cs_objects st)(?d \<mapsto> ObjDir \<lparr>od_manifest = Some (Regular ?bytes),
      od_chunks = transfer_files ?s st\<rparr>), cs_transfers := (cs_transfers st)(?s := None)\<rparr>"
  have v: "verify_object LB ?d st1 = Inl InvalidManifest"
    using dok long
    by (simp add: verify_object_def read_manifest_def st1_def is_file_at_def read_regular_file_bounded_def)
  have class_ok: "and_then (parse_storage_class (ds_storage_class ?row)) (\<lambda>class.
      and_then (object_dir_ok ?d) (\<lambda>_. Inr class)) = Inr k"
    using k dok by (auto simp: and_then_Inr)
  have "commit_new LB ?s ?row k (t_now t) st = (Inl InvalidManifest, st1)"
    using checks none v by (simp add: commit_new_eq Let_def st1_def)
  then have first: "commit_resumable_put LB ?s (t_now t) st = (Inl InvalidManifest, st1)"
    using up ok none class_ok by (simp add: commit_resumable_put_eq uploading_def transfer_ok_def object_present_def)
  have "\<exists>e. fst (commit_resumable_put LB ?s now st1) = Inl e" for now
  proof -
    let ?q = "quarantine_object ?d st1"
    have rows: "session_chunks ?s ?q = session_chunks ?s st" by (simp add: session_chunks_def st1_def)
    have cnt: "0 < t_count t"
      using transfer_facts(5) [OF ok] ok by (cases "t_count t") (auto simp: transfer_ok_def)
    obtain i row rest where r: "session_chunks ?s st = (i, row) # rest"
      using chunks(1) cnt by (cases "session_chunks ?s st") auto
    have "transfer_files ?s ?q = Map.empty" by (simp add: transfer_files_def st1_def)
    then have "\<exists>e. commit_chunks LB (transfer_files ?s ?q) 0 [] 0 ((i, row) # rest) = Inl e"
      by (simp add: open_chunk_def read_regular_file_bounded_def)
    then have "\<exists>e. commit_checks LB ?s ?row k now ?q = Inl e"
      unfolding commit_checks_def Let_def rows r
      by (auto simp: and_then_def split: sum.split)
    then have "\<exists>e. fst (commit_new LB ?s ?row k now ?q) = Inl e" by (auto simp: commit_new_eq)
    moreover have "object_present ?d st1" by (simp add: object_present_def st1_def)
    moreover have "map_of (cs_sessions st1) ?s = Some ?row" "\<not> cs_index_poisoned st1" "\<not> cs_mutations_poisoned st1"
        "transfer_dir_ok ?s = Inr ()"
      using up ok by (simp_all add: st1_def uploading_def transfer_ok_def)
    ultimately show ?thesis using class_ok v by (simp add: commit_resumable_put_eq)
  qed
  with first show ?thesis by (auto simp: st1_def)
qed

text \<open>
  A transfer may be accepted chunk by chunk and still be impossible to commit: the contract
  allows chunks as small as one byte, and a manifest whose text (at least the nonce and the digest
  of every chunk) is longer than 1 MiB is written but cannot be read back. The commit then fails,
  the object stays on disk without an index entry, the transfer directory is gone, and every later
  commit of the session fails too.
\<close>

theorem fine_chunks_strand_the_upload:
  assumes lib: "cas_lib_ok LB" and "fences_ok st" and fresh: "unseen (rs_session_id spec) st"
    and b: "begin_resumable_put spec now st = (Inr status, st0)"
    and p: "sha256_digest LB p = rs_digest spec" "length p = unat (rs_size_bytes spec)"
    and order: "set order = {..<t_count (transfer_of spec p now)}" and nonces: "\<forall>k. length (nonces k) = 12"
    and none: "cs_objects st (rs_digest spec) = None" "map_of (cs_artifacts st) (rs_digest spec) = None"
    and texts: "\<forall>m. list_all chunk_texts_ok (mf_chunks m) \<longrightarrow> 88 * length (mf_chunks m) \<le> length (cl_manifest_to_vec LB m)"
    and many: "MAX_MANIFEST_BYTES < 88 * t_count (transfer_of spec p now)"
  shows "\<exists>st'. commit_resumable_put LB (rs_session_id spec) now
        (upload_all LB (transfer_of spec p now) nonces order st0) = (Inl InvalidManifest, st')
    \<and> cs_objects st' (rs_digest spec) \<noteq> None \<and> \<not> indexed st' (rs_digest spec)
    \<and> cs_transfers st' (rs_session_id spec) = None
    \<and> (\<forall>later. \<exists>e. fst (commit_resumable_put LB (rs_session_id spec) later st') = Inl e)"
proof -
  let ?t = "transfer_of spec p now"
  let ?st = "upload_all LB ?t nonces order st0"
  have new: "map_of (cs_sessions st) (rs_session_id spec) = None" using fresh by (simp add: unseen_def)
  note bn = begin_new_session [OF b new]
  note f = validate_spec_facts [OF bn(2)]
  have ok: "transfer_ok LB ?t" by (rule transfer_of_ok [OF bn(2,5) p])
  note begun = begin_uploading(1) [OF b fresh assms(2), of LB p] begin_uploading(2,3) [OF b fresh assms(2)]
  have up: "uploading LB ?t ?st"
      and all: "\<forall>i < t_count ?t. received LB (t_session ?t) (of_nat i) (t_piece ?t i) ?st"
      and same: "cs_objects ?st = cs_objects st" "cs_artifacts ?st = cs_artifacts st"
    using upload_all_ok [OF lib ok _ begun(1)] nonces order begun(2,3) by auto
  have row: "ds_digest (t_row ?t) = rs_digest spec" "t_session ?t = rs_session_id spec" "t_now ?t = now"
      "ds_storage_class (t_row ?t) = storage_class_name (rs_storage_class spec)"
      "of_int (ds_required_replicas (t_row ?t)) = rs_required_replicas spec"
    by (simp_all add: transfer_of_def session_of_spec_def)
  let ?m = "commit_manifest ?t (rs_storage_class spec) ?st"
  have "validate_manifest (ds_digest (t_row ?t)) ?m = Inr ()"
    by (rule complete_manifest [OF lib up ok all]) (use f(6,7) row(5) in auto)
  then have "list_all chunk_texts_ok (mf_chunks ?m)"
    using chunk_sizes_ok_nth unfolding validate_manifest_exact by (auto simp: list_all_length split: if_splits)
  moreover have "length (mf_chunks ?m) = t_count ?t"
    using complete_chunks(1) [OF lib up ok all] by (simp add: commit_manifest_def)
  ultimately have "88 * t_count ?t \<le> length (cl_manifest_to_vec LB ?m)" using texts by metis
  then have "length (cl_manifest_to_vec LB ?m) > MAX_MANIFEST_BYTES" using many by linarith
  from commit_oversized [OF lib up ok all row(4) _ this] none same
  show ?thesis unfolding row by (auto simp: indexed_def)
qed

lemma demo_texts_long:
  "list_all chunk_texts_ok (mf_chunks m) \<Longrightarrow> 88 * length (mf_chunks m) \<le> length (cl_manifest_to_vec demo_cas m)"
proof -
  have "list_all chunk_texts_ok cs \<Longrightarrow> 88 * length cs \<le> length (concat (map enc_chunk cs))" for cs
    by (induction cs) (auto simp: enc_chunk_def chunk_texts_ok_def)
  moreover assume "list_all chunk_texts_ok (mf_chunks m)"
  ultimately have "88 * length (mf_chunks m) \<le> length (concat (map enc_chunk (mf_chunks m)))" by blast
  then show ?thesis by (simp add: demo_manifest_to_vec_def)
qed

theorem fine_chunks_strand_the_upload_witness:
  "\<exists>status st0 st'. begin_resumable_put (demo_spec (sha256_digest demo_cas (replicate 12000 (CHR ''a''))) 12000) 0 free_store
       = (Inr status, st0)
     \<and> commit_resumable_put demo_cas (replicate 32 (CHR ''a'')) 0
         (upload_all demo_cas (transfer_of (demo_spec (sha256_digest demo_cas (replicate 12000 (CHR ''a''))) 12000)
            (replicate 12000 (CHR ''a'')) 0) (\<lambda>_. demo_nonce) [0..<12000] st0)
       = (Inl InvalidManifest, st')
     \<and> cs_objects st' (sha256_digest demo_cas (replicate 12000 (CHR ''a''))) \<noteq> None"
proof -
  define p where "p = replicate 12000 (CHR ''a'')"
  let ?d = "sha256_digest demo_cas p"
  let ?spec = "demo_spec ?d 12000"
  let ?t = "transfer_of ?spec p 0"
  have n: "0 < (12000 :: u64)" "(12000 :: u64) \<le> MAX_ARTIFACT_TRANSFER_BYTES" by (simp_all add: protocol_limits)
  obtain status st0 where b: "begin_resumable_put ?spec 0 free_store = (Inr status, st0)"
    using demo_begin [OF n digest_ok [OF demo_cas_ok]] by blast
  define order where "order = [0..<12000 :: nat]"
  have nl: "length demo_nonce = 12" by (simp add: demo_nonce_def)
  have q: "?d = rs_digest ?spec" "length p = unat (rs_size_bytes ?spec)" by (simp_all add: demo_spec_def p_def)
  have cnt: "t_count ?t = 12000"
    by (simp add: t_count_def transfer_of_def demo_spec_def chunk_count_nat_def div_ceil_def p_def)
  have order: "set order = {..<t_count ?t}" unfolding cnt order_def by (simp only: set_upt atLeast0LessThan)
  have many: "MAX_MANIFEST_BYTES < 88 * t_count ?t" unfolding cnt by (simp add: MAX_MANIFEST_BYTES_def)
  have texts: "\<forall>m. list_all chunk_texts_ok (mf_chunks m) \<longrightarrow> 88 * length (mf_chunks m) \<le> length (cl_manifest_to_vec demo_cas m)"
    using demo_texts_long by blast
  have nn: "\<forall>k :: nat. length ((\<lambda>_. demo_nonce) k) = 12" using nl by simp
  from fine_chunks_strand_the_upload [where nonces = "\<lambda>_. demo_nonce", OF demo_cas_ok free_store_fresh(2,1) b q order nn
      free_store_fresh(3,4) texts many]
  obtain st' where "commit_resumable_put demo_cas (rs_session_id ?spec) 0
      (upload_all demo_cas ?t (\<lambda>_. demo_nonce) order st0) = (Inl InvalidManifest, st')"
      "cs_objects st' (rs_digest ?spec) \<noteq> None" by blast
  moreover have "rs_session_id ?spec = replicate 32 (CHR ''a'')" "rs_digest ?spec = ?d" by (simp_all add: demo_spec_def)
  ultimately show ?thesis unfolding order_def [symmetric] p_def [symmetric] using b by metis
qed

section \<open>Uploads that fail late\<close>

text \<open>
  Options that no manifest may carry are only noticed after the object was written: an upload
  that declares zero replicas returns \<open>InvalidManifest\<close>, but the encrypted object stays on disk
  under its digest, outside the index and so outside the quota, and the store cannot return it.
\<close>

theorem invalid_put_leaves_object:
  assumes lib: "cas_lib_ok LB" and rnd: "random_ok random"
    and np: "\<not> cs_index_poisoned st" "\<not> cs_mutations_poisoned st"
    and none: "cs_objects st (sha256_digest LB p) = None" "\<not> indexed st (sha256_digest LB p)"
    and cap: "ensure_storage_capacity (po_storage_class options) (of_nat (length p)) (Some (sha256_digest LB p)) st = Inr ()"
    and bad: "po_required_replicas options = 0" "po_storage_class options \<noteq> Protected"
  shows "\<exists>st'. put LB now random p options st = (Inl InvalidManifest, st')
    \<and> cs_objects st' (sha256_digest LB p) \<noteq> None \<and> \<not> indexed st' (sha256_digest LB p)
    \<and> get LB (sha256_digest LB p) st' = Inl InvalidManifest"
proof -
  let ?d = "sha256_digest LB p"
  obtain records where enc: "encrypt_chunks LB random 0 (chunks_of (cs_chunk_size st) p) = Inr records"
    using encrypt_chunks_ok [OF lib rnd] by blast
  define m where "m = put_manifest LB now p options records"
  define dir where "dir = \<lparr>od_manifest = Some (Regular (cl_manifest_to_vec LB m)), od_chunks = files_of records\<rparr>"
  define st1 where "st1 = st\<lparr>cs_objects := (cs_objects st)(?d \<mapsto> ObjDir dir)\<rparr>"
  have "validate_manifest ?d m = Inl InvalidManifest"
    using bad by (simp add: validate_manifest_def m_def put_manifest_def)
  then have read: "read_manifest LB ?d st1 = Inl InvalidManifest"
    using digest_ok [OF lib, of p] lib
    by (simp add: read_manifest_def st1_def dir_def is_file_at_def read_regular_file_bounded_def cas_lib_ok_def)
  then have v: "verify_object LB ?d st1 = Inl InvalidManifest"
    using digest_ok [OF lib, of p] by (simp add: verify_object_def)
  have "put_new LB now random p options st = (Inl InvalidManifest, st1)"
    using np(1) cap enc v unfolding put_new_eq Let_def none(1) option.case m_def dir_def st1_def put_manifest_def
    by simp
  then have "put LB now random p options st = (Inl InvalidManifest, st1)"
    using np(2) bad digest_ok [OF lib, of p] none(1) by (simp add: put_eq object_present_def Let_def)
  moreover have "get LB ?d st1 = Inl InvalidManifest"
    using read digest_ok [OF lib, of p] by (simp add: get_def st1_def dir_def is_file_at_def)
  ultimately show ?thesis using none(2) by (auto simp: st1_def indexed_def)
qed

theorem invalid_put_leaves_object_witness:
  "\<exists>st'. put demo_cas 0 (\<lambda>_. Some demo_nonce) demo_bytes (demo_options\<lparr>po_required_replicas := 0\<rparr>) demo_store
      = (Inl InvalidManifest, st')
    \<and> cs_objects st' (sha256_digest demo_cas demo_bytes) \<noteq> None \<and> \<not> indexed st' (sha256_digest demo_cas demo_bytes)"
proof -
  let ?o = "demo_options\<lparr>po_required_replicas := 0\<rparr>"
  have "ensure_storage_capacity (po_storage_class ?o) (of_nat (length demo_bytes))
      (Some (sha256_digest demo_cas demo_bytes)) demo_store = Inr ()"
    using demo_capacity by (simp add: demo_options_def demo_bytes_def)
  moreover have "\<not> cs_index_poisoned demo_store" "\<not> cs_mutations_poisoned demo_store"
      "cs_objects demo_store (sha256_digest demo_cas demo_bytes) = None" "\<not> indexed demo_store (sha256_digest demo_cas demo_bytes)"
      "po_required_replicas ?o = 0" "po_storage_class ?o \<noteq> Protected"
    by (simp_all add: demo_store_def open_with_limits_def indexed_def demo_options_def)
  ultimately show ?thesis
    using invalid_put_leaves_object [OF demo_cas_ok demo_random_ok, of demo_store demo_bytes ?o 0] by blast
qed

section \<open>Abandoned sessions\<close>

lemma reserved_ge:
  assumes "(s, row) \<in> set (cs_sessions st)" and "ds_state row = ''active''" and "ds_storage_class row = name"
  shows "nat (ds_size_bytes row) \<le> reserved name st"
proof -
  have "nat (ds_size_bytes row) \<in> set (map (\<lambda>(s, row). nat (ds_size_bytes row))
      (filter (\<lambda>(s, row). ds_storage_class row = name \<and> ds_state row = ''active'') (cs_sessions st)))"
    using assms by force
  then show ?thesis unfolding reserved_def by (rule member_le_sum_list) simp
qed

text \<open>
  An upload session that expired before its commit keeps its reservation: it can no longer be
  committed, nothing releases its bytes, and an upload of new content that would fit without it is
  refused although no live transfer uses the space.
\<close>

theorem expired_session_keeps_reservation:
  assumes row: "map_of (cs_sessions st) s = Some row" "ds_state row = ''active''"
      "ds_storage_class row = storage_class_name k" "ds_expires_at_millis row \<le> timestamp_millis now"
    and ok: "transfer_dir_ok s = Inr ()" "object_dir_ok (ds_digest row) = Inr ()" "cs_objects st (ds_digest row) = None"
      "\<not> cs_index_poisoned st" "\<not> cs_mutations_poisoned st"
    and lib: "cas_lib_ok LB"
    and l: "cs_limits st = Some l" "unat (for_class l k) < nat (ds_size_bytes row) + unat (of_nat (length p) :: u64)"
    and new: "cs_objects st (sha256_digest LB p) = None" "\<not> indexed st (sha256_digest LB p)"
      "po_storage_class options = k" "k \<noteq> Protected \<or> \<not> po_required_replicas options < 2"
  shows "commit_resumable_put LB s now st = (Inl TransferExpired, st)
    \<and> (\<exists>e. put LB now random p options st = (Inl e, st))"
proof
  have "and_then (parse_storage_class (ds_storage_class row)) (\<lambda>class.
      and_then (object_dir_ok (ds_digest row)) (\<lambda>_. Inr class)) = Inr k"
    using row(3) ok(2) by (auto simp: and_then_Inr)
  moreover have "commit_checks LB s row k now st = Inl TransferExpired"
    using row by (simp add: commit_checks_def)
  ultimately show "commit_resumable_put LB s now st = (Inl TransferExpired, st)"
    using row(1) ok by (simp add: commit_resumable_put_eq object_present_def commit_new_eq)
  have "nat (ds_size_bytes row) \<le> reserved (storage_class_name k) st"
    using reserved_ge [OF map_of_SomeD [OF row(1)] row(2,3)] .
  then have "ensure_storage_capacity k (of_nat (length p)) (Some (sha256_digest LB p)) st \<noteq> Inr ()"
    using capacity_ok [OF _ l(1) new(2), of k "of_nat (length p)"] l(2) by linarith
  then obtain e where "ensure_storage_capacity k (of_nat (length p)) (Some (sha256_digest LB p)) st = Inl e"
    by (cases "ensure_storage_capacity k (of_nat (length p)) (Some (sha256_digest LB p)) st") auto
  then have "put_new LB now random p options st = (Inl e, st)"
    using ok(4) new(3) by (simp add: put_new_eq Let_def)
  then show "\<exists>e. put LB now random p options st = (Inl e, st)"
    using ok(5) new digest_ok [OF lib, of p] by (auto simp: put_eq Let_def object_present_def)
qed

definition stale_store :: cas_store where
  "stale_store = demo_store\<lparr>cs_sessions := [(replicate 32 (CHR ''a''),
     (session_of_spec (demo_spec (''sha256:'' @ replicate 64 (CHR ''b'')) 9) 9))]\<rparr>"

theorem expired_session_keeps_reservation_witness:
  "\<exists>e. commit_resumable_put demo_cas (replicate 32 (CHR ''a'')) (seconds 2) stale_store = (Inl TransferExpired, stale_store)
     \<and> put demo_cas (seconds 2) (\<lambda>_. Some demo_nonce) demo_bytes demo_options stale_store = (Inl e, stale_store)"
proof -
  let ?d = "''sha256:'' @ replicate 64 (CHR ''b'')"
  let ?row = "session_of_spec (demo_spec ?d 9) 9"
  have r: "map_of (cs_sessions stale_store) (replicate 32 (CHR ''a'')) = Some ?row" "ds_state ?row = ''active''"
      "ds_storage_class ?row = storage_class_name Cache" "ds_expires_at_millis ?row \<le> timestamp_millis (seconds 2)"
      "nat (ds_size_bytes ?row) = 9" "ds_digest ?row = ?d"
    by (simp_all add: stale_store_def session_of_spec_def demo_spec_def timestamp_millis_def seconds_def nanos_per_second_def)
  have hex: "is_lower_hex_digit (CHR ''a'')" "is_lower_hex_digit (CHR ''b'')"
    by (simp_all add: is_lower_hex_digit_def byte_def)
  have o: "transfer_dir_ok (replicate 32 (CHR ''a'')) = Inr ()" "object_dir_ok ?d = Inr ()"
    using hex by (simp_all add: transfer_dir_ok_def object_dir_ok_def strip_prefix_def is_lower_hex_def)
  have e: "cs_objects stale_store d = None" "\<not> cs_index_poisoned stale_store" "\<not> cs_mutations_poisoned stale_store"
      "cs_limits stale_store = Some \<lparr>cache_bytes = 10, scratch_bytes = 0, protected_bytes = 0\<rparr>" "\<not> indexed stale_store d" for d
    by (simp_all add: stale_store_def demo_store_def open_with_limits_def indexed_def)
  show ?thesis
    using expired_session_keeps_reservation [OF r(1-4) o(1) _ _ e(2,3) demo_cas_ok e(4), where p = demo_bytes and options = demo_options]
      r(5,6) o(2) e(1,5) by (simp add: demo_bytes_def demo_options_def)
qed

end
