(* ===== verification/Rampage_Scheduler.thy ===== *)
theory Rampage_Scheduler
  imports Rampage_Protocol "HOL-Library.Product_Lexorder"
begin

text \<open>
  Admission and deterministic scheduling: the placement half of
  \<open>crates/rampage-controller/src/lib.rs\<close>. An offer is scored against a job under the book of
  reservations (\<open>score_offer_with_admission\<close>), the score is refined with locality and link evidence
  (\<open>score_offer_with_topology\<close>), the best admissible offer is chosen (\<open>choose_offer_*\<close>), and a
  shard set is placed against one evolving book (\<open>plan_shard_set\<close>). Integers keep their width; a
  \<open>sum()\<close> over \<open>u64\<close> wraps as it does in a release build; an \<open>i64\<close> is an \<open>int\<close>, read off its word
  with \<open>sint\<close>. The clock read inside \<open>score_offer\<close> is an argument.
\<close>

section \<open>Text of the reasons\<close>

fun dec_nat :: "nat \<Rightarrow> string" where
  "dec_nat n = (if n < 10 then [char_of (48 + n)] else dec_nat (n div 10) @ [char_of (48 + n mod 10)])"

declare dec_nat.simps [simp del]

definition show_u64 :: "'a::len word \<Rightarrow> string" where
  "show_u64 w = dec_nat (unat w)"

text \<open>The derived \<open>Debug\<close> form of a resource class is its constructor.\<close>

fun resource_class_debug :: "resource_class \<Rightarrow> string" where
  "resource_class_debug CpuCompute = ''CpuCompute''"
| "resource_class_debug GpuCompute = ''GpuCompute''"
| "resource_class_debug NpuCompute = ''NpuCompute''"
| "resource_class_debug GpuMemory = ''GpuMemory''"
| "resource_class_debug RamWorkingSet = ''RamWorkingSet''"
| "resource_class_debug RamCache = ''RamCache''"
| "resource_class_debug StorageCache = ''StorageCache''"
| "resource_class_debug StorageScratch = ''StorageScratch''"
| "resource_class_debug ProtectedStore = ''ProtectedStore''"
| "resource_class_debug NetworkFetch = ''NetworkFetch''"
| "resource_class_debug NetworkRelay = ''NetworkRelay''"
| "resource_class_debug Toolchain = ''Toolchain''"
| "resource_class_debug Runtime = ''Runtime''"
| "resource_class_debug Codec = ''Codec''"
| "resource_class_debug LicensedService = ''LicensedService''"

section \<open>The reversed order\<close>

text \<open>\<open>std::cmp::Reverse\<close>; tuples compare lexicographically.\<close>

datatype 'a reverse = Reverse (unReverse: 'a)

instantiation reverse :: (linorder) linorder
begin

definition less_eq_reverse :: "'a reverse \<Rightarrow> 'a reverse \<Rightarrow> bool" where
  "less_eq_reverse a b = (unReverse b \<le> unReverse a)"

definition less_reverse :: "'a reverse \<Rightarrow> 'a reverse \<Rightarrow> bool" where
  "less_reverse a b = (unReverse b < unReverse a)"

instance
  by standard (auto simp: less_eq_reverse_def less_reverse_def reverse.expand)

end

section \<open>Scores, policies and reservations\<close>

record placement_score =
  ps_node_id :: uuid
  ps_satisfies :: bool
  ps_data_local_inputs :: u32
  ps_missing_input_bytes :: u64
  ps_capacity_headroom :: u64
  ps_capacity_fit_milli :: u64
  ps_link_rtt_micros :: u64
  ps_link_downlink_bps :: u64
  ps_estimated_transfer_millis :: u64
  ps_utility_milli :: int
  ps_topology_confidence :: string
  ps_reason :: string

record admission_policy =
  adm_protected_owner_reserve :: "(resource_class, u64) fmap"
  adm_safety_guardband_percent :: u8

definition admission_policy_default :: admission_policy where
  "admission_policy_default =
     \<lparr>adm_protected_owner_reserve =
        fmap_of_list [(CpuCompute, 1), (RamWorkingSet, 512 * 1024 * 1024)],
      adm_safety_guardband_percent = 10\<rparr>"

record resource_reservation =
  rs_job_id :: uuid
  rs_node_id :: uuid
  rs_class :: resource_class
  rs_amount :: u64
  rs_expires_at :: datetime

record shard_placement =
  sp_job_id :: uuid
  sp_node_id :: uuid
  sp_score :: placement_score

record shard_planning_failure =
  sf_blocked_job_id :: uuid
  sf_planned_shards :: nat
  sf_reason :: string

definition i64_min :: int where
  "i64_min = - (2 ^ 63)"

text \<open>The cast \<open>as i64\<close> of a 64-bit word.\<close>

definition as_i64 :: "u64 \<Rightarrow> int" where
  "as_i64 w = sint w"

definition denied_score :: "uuid \<Rightarrow> string \<Rightarrow> placement_score" where
  "denied_score node_id reason =
     \<lparr>ps_node_id = node_id, ps_satisfies = False, ps_data_local_inputs = 0,
      ps_missing_input_bytes = 0, ps_capacity_headroom = 0, ps_capacity_fit_milli = 0,
      ps_link_rtt_micros = 0, ps_link_downlink_bps = 0, ps_estimated_transfer_millis = 0,
      ps_utility_milli = i64_min, ps_topology_confidence = ''inadmissible'', ps_reason = reason\<rparr>"

section \<open>Hard constraints\<close>

text \<open>Collecting the resources into a \<open>BTreeMap\<close> keyed by class keeps the last one of a class.\<close>

definition offered_resource :: "resource_offer \<Rightarrow> resource_class \<Rightarrow> resource_quantity option" where
  "offered_resource offer c = List.find (\<lambda>r. rq_class r = c) (rev (ro_resources offer))"

definition labels_match :: "resource_request \<Rightarrow> resource_quantity \<Rightarrow> bool" where
  "labels_match request resource =
     fmpred (\<lambda>key value. fmlookup (rq_labels resource) key = Some value) (rr_required_labels request)"

definition pending_amount ::
  "resource_reservation list \<Rightarrow> uuid \<Rightarrow> resource_class \<Rightarrow> datetime \<Rightarrow> u64" where
  "pending_amount reservations node c now =
     foldl sat_add 0 (map rs_amount (filter (\<lambda>r. rs_node_id r = node \<and> rs_class r = c
        \<and> rs_expires_at r > now) reservations))"

definition owner_reserve :: "admission_policy \<Rightarrow> resource_class \<Rightarrow> u64" where
  "owner_reserve policy c = unwrap_or 0 (fmlookup (adm_protected_owner_reserve policy) c)"

definition guardband :: "admission_policy \<Rightarrow> resource_quantity \<Rightarrow> u64" where
  "guardband policy resource =
     sat_mul (rq_capacity resource) (ucast (min (adm_safety_guardband_percent policy) 100)) div 100"

definition admissible_amount ::
  "resource_offer \<Rightarrow> resource_reservation list \<Rightarrow> admission_policy \<Rightarrow> datetime
     \<Rightarrow> resource_class \<Rightarrow> resource_quantity \<Rightarrow> u64" where
  "admissible_amount offer reservations policy now c resource =
     sat_sub (sat_sub (sat_sub (rq_available resource)
       (pending_amount reservations (ro_node_id offer) c now))
       (owner_reserve policy c)) (guardband policy resource)"

definition checked_div :: "u64 \<Rightarrow> u64 \<Rightarrow> u64 option" where
  "checked_div a b = (if b = 0 then None else Some (a div b))"

text \<open>The loop over the requests of a job: the reason of the first one that cannot be met, or the
  accumulated headroom and the worst fit.\<close>

fun score_requests ::
  "resource_offer \<Rightarrow> resource_reservation list \<Rightarrow> admission_policy \<Rightarrow> datetime \<Rightarrow> u64 \<Rightarrow> u64
     \<Rightarrow> resource_request list \<Rightarrow> string + u64 \<times> u64" where
  "score_requests offer reservations policy now headroom fit_milli [] = Inr (headroom, fit_milli)"
| "score_requests offer reservations policy now headroom fit_milli (request # requests) =
     (case offered_resource offer (rr_class request) of
        None \<Rightarrow> Inl (''missing resource '' @ resource_class_debug (rr_class request))
      | Some resource \<Rightarrow>
          let admissible = admissible_amount offer reservations policy now (rr_class request) resource
          in if \<not> labels_match request resource \<or> admissible < rr_minimum request
                \<or> rq_unit resource \<noteq> rr_unit request
             then Inl (''insufficient or incompatible '' @ resource_class_debug (rr_class request))
             else let preferred = max (max (rr_preferred request) (rr_minimum request)) 1;
                      fit = unwrap_or 0 (checked_div (sat_mul admissible 1000) preferred)
                  in score_requests offer reservations policy now
                       (sat_add headroom (admissible - rr_minimum request))
                       (min fit_milli (min fit 4000)) requests)"

definition score_offer_with_admission ::
  "job_spec \<Rightarrow> resource_offer \<Rightarrow> resource_reservation list \<Rightarrow> admission_policy \<Rightarrow> datetime
     \<Rightarrow> placement_score" where
  "score_offer_with_admission job offer reservations policy now =
     (if js_adapter job |\<notin>| ro_adapters offer
      then denied_score (ro_node_id offer) ''required adapter is unavailable''
      else case score_requests offer reservations policy now 0 (- 1) (js_requests job) of
        Inl reason \<Rightarrow> denied_score (ro_node_id offer) reason
      | Inr (headroom, fit_milli) \<Rightarrow>
          let capacity_fit_milli = (if fit_milli = - 1 then 1000 else fit_milli)
          in \<lparr>ps_node_id = ro_node_id offer, ps_satisfies = True, ps_data_local_inputs = 0,
              ps_missing_input_bytes = sum_list (map ar_size_bytes (js_inputs job)),
              ps_capacity_headroom = headroom, ps_capacity_fit_milli = capacity_fit_milli,
              ps_link_rtt_micros = 0, ps_link_downlink_bps = 0, ps_estimated_transfer_millis = 0,
              ps_utility_milli = as_i64 capacity_fit_milli,
              ps_topology_confidence = ''unmeasured'',
              ps_reason = ''whole-workload placement satisfies hard constraints''\<rparr>)"

definition score_offer :: "job_spec \<Rightarrow> resource_offer \<Rightarrow> datetime \<Rightarrow> placement_score" where
  "score_offer job offer now =
     score_offer_with_admission job offer []
       \<lparr>adm_protected_owner_reserve = fmempty, adm_safety_guardband_percent = 0\<rparr> now"

section \<open>Locality and link evidence\<close>

definition usable_link :: "resource_offer \<Rightarrow> datetime \<Rightarrow> link_benchmark option" where
  "usable_link offer now = (case ro_link_benchmark offer of None \<Rightarrow> None
     | Some link \<Rightarrow> if lb_schema link = link_benchmark_SCHEMA \<and> lb_expires_at link > now
                       \<and> lb_downlink_bps link > 0 then Some link else None)"

definition link_evidence :: "resource_offer \<Rightarrow> datetime \<Rightarrow> u64 \<times> u64 \<times> string" where
  "link_evidence offer now =
     (if ro_mesh_endpoint offer = None then (0, - 1, ''controller_local'')
      else case usable_link offer now of
        Some link \<Rightarrow> (lb_rtt_micros_p50 link, lb_downlink_bps link, ''measured'')
      | None \<Rightarrow> (50000, 20000000, ''conservative_fallback''))"

definition staging_millis :: "u64 \<Rightarrow> u64 \<Rightarrow> u64 \<Rightarrow> u64" where
  "staging_millis missing rtt_micros downlink_bps =
     (if missing = 0 then 0
      else sat_add (div_ceil (sat_mul (sat_mul missing 8) 1000) (max downlink_bps 1))
             (div_ceil rtt_micros 1000))"

definition score_offer_with_topology ::
  "job_spec \<Rightarrow> resource_offer \<Rightarrow> resource_reservation list \<Rightarrow> admission_policy \<Rightarrow> datetime
     \<Rightarrow> string fset \<Rightarrow> placement_score" where
  "score_offer_with_topology job offer reservations policy now local_input_digests =
     (let score = score_offer_with_admission job offer reservations policy now in
      if \<not> ps_satisfies score then score
      else let data_local = of_nat (length (filter (\<lambda>i. ar_digest i |\<in>| local_input_digests) (js_inputs job)));
               missing = foldl sat_add 0 (map ar_size_bytes
                 (filter (\<lambda>i. ar_digest i |\<notin>| local_input_digests) (js_inputs job)));
               (rtt_micros, downlink_bps, confidence) = link_evidence offer now;
               transfer = staging_millis missing rtt_micros downlink_bps;
               transfer_penalty = as_i64 (min (div_ceil transfer 10) 10000)
           in score\<lparr>ps_data_local_inputs := data_local, ps_missing_input_bytes := missing,
                ps_link_rtt_micros := rtt_micros, ps_link_downlink_bps := downlink_bps,
                ps_topology_confidence := confidence, ps_estimated_transfer_millis := transfer,
                ps_utility_milli := as_i64 (ps_capacity_fit_milli score) - transfer_penalty,
                ps_reason := ''admissible; '' @ show_u64 data_local @ '' of ''
                  @ dec_nat (length (js_inputs job)) @ '' inputs local; estimated staging ''
                  @ show_u64 transfer @ '' ms; topology '' @ confidence\<rparr>)"

section \<open>Choosing an offer\<close>

type_synonym rank = "int \<times> u32 \<times> u64 \<times> u64 reverse \<times> u64"

definition placement_rank :: "placement_score \<Rightarrow> rank" where
  "placement_rank s =
     (ps_utility_milli s, ps_data_local_inputs s, ps_capacity_fit_milli s,
      Reverse (ps_estimated_transfer_millis s), ps_capacity_headroom s)"

text \<open>The pipeline shared by the three choosers: score, keep the admissible, take the best rank.\<close>

definition choose_best ::
  "(resource_offer \<Rightarrow> placement_score) \<Rightarrow> resource_offer list
     \<Rightarrow> (resource_offer \<times> placement_score) option" where
  "choose_best score offers =
     max_by_key (\<lambda>(_, s). placement_rank s)
       (filter (\<lambda>(_, s). ps_satisfies s) (map (\<lambda>offer. (offer, score offer)) offers))"

definition choose_offer_with_admission ::
  "job_spec \<Rightarrow> resource_offer list \<Rightarrow> resource_reservation list \<Rightarrow> admission_policy \<Rightarrow> datetime
     \<Rightarrow> (resource_offer \<times> placement_score) option" where
  "choose_offer_with_admission job offers reservations policy now =
     choose_best (\<lambda>offer. score_offer_with_admission job offer reservations policy now) offers"

definition choose_offer_with_topology ::
  "job_spec \<Rightarrow> resource_offer list \<Rightarrow> resource_reservation list \<Rightarrow> admission_policy \<Rightarrow> datetime
     \<Rightarrow> (uuid \<rightharpoonup> string fset) \<Rightarrow> (resource_offer \<times> placement_score) option" where
  "choose_offer_with_topology job offers reservations policy now local_inputs_by_node =
     choose_best (\<lambda>offer. score_offer_with_topology job offer reservations policy now
       (unwrap_or {||} (local_inputs_by_node (ro_node_id offer)))) offers"

definition choose_offer ::
  "job_spec \<Rightarrow> resource_offer list \<Rightarrow> datetime \<Rightarrow> (resource_offer \<times> placement_score) option" where
  "choose_offer job offers now = choose_best (\<lambda>offer. score_offer job offer now) offers"

section \<open>Shard sets\<close>

definition shard_reservations ::
  "shard_set \<Rightarrow> job_spec \<Rightarrow> resource_offer \<Rightarrow> resource_reservation list" where
  "shard_reservations sset job offer =
     map (\<lambda>request. \<lparr>rs_job_id = js_job_id job, rs_node_id = ro_node_id offer,
       rs_class = rr_class request, rs_amount = rr_minimum request,
       rs_expires_at = min (ss_deadline sset) (js_deadline job)\<rparr>) (js_requests job)"

definition shard_locality ::
  "(uuid \<times> uuid \<rightharpoonup> string fset) \<Rightarrow> job_spec \<Rightarrow> resource_offer list \<Rightarrow> (uuid \<rightharpoonup> string fset)" where
  "shard_locality local_inputs job offers =
     map_of (rev (map (\<lambda>offer. (ro_node_id offer,
       unwrap_or {||} (local_inputs (js_job_id job, ro_node_id offer)))) offers))"

fun place_shards ::
  "shard_set \<Rightarrow> resource_offer list \<Rightarrow> admission_policy \<Rightarrow> datetime
     \<Rightarrow> (uuid \<times> uuid \<rightharpoonup> string fset) \<Rightarrow> resource_reservation list \<Rightarrow> shard_placement list
     \<Rightarrow> job_spec list \<Rightarrow> shard_planning_failure + shard_placement list" where
  "place_shards sset offers policy now local_inputs provisional placements [] = Inr placements"
| "place_shards sset offers policy now local_inputs provisional placements (job # jobs) =
     (case choose_offer_with_topology job offers provisional policy now
             (shard_locality local_inputs job offers) of
        None \<Rightarrow> Inl \<lparr>sf_blocked_job_id = js_job_id job, sf_planned_shards = length placements,
                  sf_reason = ''no admissible offer after provisional shard reservations''\<rparr>
      | Some (offer, score) \<Rightarrow>
          place_shards sset offers policy now local_inputs
            (provisional @ shard_reservations sset job offer)
            (placements @ [\<lparr>sp_job_id = js_job_id job, sp_node_id = ro_node_id offer, sp_score = score\<rparr>])
            jobs)"

definition plan_shard_set ::
  "shard_set \<Rightarrow> resource_offer list \<Rightarrow> resource_reservation list \<Rightarrow> admission_policy \<Rightarrow> datetime
     \<Rightarrow> (uuid \<times> uuid \<rightharpoonup> string fset) \<Rightarrow> shard_planning_failure + shard_placement list" where
  "plan_shard_set sset offers reservations policy now local_inputs =
     place_shards sset offers policy now local_inputs
       (filter (\<lambda>r. rs_expires_at r > now) reservations) [] (ss_shards sset)"

end
