(* ===== verification/Rampage_Placement.thy ===== *)
theory Rampage_Placement
  imports Rampage_Scheduler Rampage_Contracts
begin

text \<open>
  Correctness of the scheduler. Admission is exactly an inequality between natural numbers, the
  chosen offer is a best admissible one, and a shard set is placed shard by shard against a book of
  reservations that no plan overdraws. The book is an instance of the interface \<open>capacity_book\<close>:
  whoever checks each entry against a limit before booking it stays within the limit.
\<close>

section \<open>Books that are checked before they are written\<close>

fun admitted_run :: "('b \<Rightarrow> 'e \<Rightarrow> bool) \<Rightarrow> ('b \<Rightarrow> 'e \<Rightarrow> 'b) \<Rightarrow> 'b \<Rightarrow> 'e list \<Rightarrow> bool" where
  "admitted_run admits commit b [] = True"
| "admitted_run admits commit b (e # es) =
     (admits b e \<and> admitted_run admits commit (commit b e) es)"

locale capacity_book =
  fixes booked :: "'b \<Rightarrow> 'k \<Rightarrow> nat"
    and commit :: "'b \<Rightarrow> 'e \<Rightarrow> 'b"
    and demand :: "'e \<Rightarrow> 'k \<Rightarrow> nat"
    and admits :: "'b \<Rightarrow> 'e \<Rightarrow> bool"
    and limit :: "'k \<Rightarrow> nat"
  assumes booked_commit: "admits b e \<Longrightarrow> booked (commit b e) k = booked b k + demand e k"
    and admitted_fits: "admits b e \<Longrightarrow> 0 < demand e k \<Longrightarrow> booked b k + demand e k \<le> limit k"
begin

lemma run_booked:
  "admitted_run admits commit b es \<Longrightarrow>
     booked (foldl commit b es) k = booked b k + sum_list (map (\<lambda>e. demand e k) es)"
  by (induction es arbitrary: b) (auto simp: booked_commit)

lemma run_fits:
  assumes "admitted_run admits commit b es" and "0 < sum_list (map (\<lambda>e. demand e k) es)"
  shows "booked b k + sum_list (map (\<lambda>e. demand e k) es) \<le> limit k"
  using assms
proof (induction es arbitrary: b)
  case Nil
  then show ?case by simp
next
  case (Cons e es)
  show ?case
  proof (cases "sum_list (map (\<lambda>e. demand e k) es) = 0")
    case True
    then have "sum_list (map (\<lambda>e. demand e k) (e # es)) = demand e k"
      by (simp only: list.map sum_list.Cons add_0_right)
    with Cons.prems admitted_fits [of b e k] show ?thesis by (simp del: list.map sum_list.Cons)
  next
    case False
    with Cons.IH [of "commit b e"] Cons.prems show ?thesis by (simp add: booked_commit)
  qed
qed

end

section \<open>Admission as arithmetic\<close>

definition booked ::
  "resource_reservation list \<Rightarrow> uuid \<Rightarrow> resource_class \<Rightarrow> datetime \<Rightarrow> nat" where
  "booked reservations node c now =
     sum_list (map (\<lambda>r. unat (rs_amount r)) (filter (\<lambda>r. rs_node_id r = node \<and> rs_class r = c
        \<and> rs_expires_at r > now) reservations))"

lemma unat_foldl_sat_add:
  "unat (foldl sat_add (a :: u64) ws) = min (unat a + sum_list (map unat ws)) (2 ^ 64 - 1)"
proof (induction ws arbitrary: a)
  case Nil
  then show ?case using unat_u64_lt [of a] by simp
next
  case (Cons w ws)
  then show ?case by (simp add: sat_simps)
qed

lemma unat_pending:
  "unat (pending_amount rs node c now) = min (booked rs node c now) (2 ^ 64 - 1)"
  by (simp add: pending_amount_def booked_def unat_foldl_sat_add comp_def)

text \<open>What is left of a resource for a job, in natural numbers.\<close>

definition free_amount ::
  "resource_offer \<Rightarrow> resource_reservation list \<Rightarrow> admission_policy \<Rightarrow> datetime
     \<Rightarrow> resource_class \<Rightarrow> resource_quantity \<Rightarrow> nat" where
  "free_amount offer rs policy now c r =
     unat (rq_available r) - (booked rs (ro_node_id offer) c now + unat (owner_reserve policy c)
       + unat (guardband policy r))"

lemma unat_admissible:
  "unat (admissible_amount offer rs policy now c r) = free_amount offer rs policy now c r"
proof -
  have "unat (rq_available r) < 2 ^ 64" by (rule unat_u64_lt)
  then show ?thesis
    by (auto simp: admissible_amount_def free_amount_def sat_simps unat_pending min_def)
qed

definition request_fits ::
  "resource_offer \<Rightarrow> resource_reservation list \<Rightarrow> admission_policy \<Rightarrow> datetime
     \<Rightarrow> resource_request \<Rightarrow> bool" where
  "request_fits offer rs policy now q =
     (case offered_resource offer (rr_class q) of
        None \<Rightarrow> False
      | Some r \<Rightarrow> labels_match q r \<and> rq_unit r = rr_unit q
          \<and> unat (rr_minimum q) \<le> free_amount offer rs policy now (rr_class q) r)"

lemma score_requests_exact:
  "(\<exists>x. score_requests offer rs policy now h f qs = Inr x)
     \<longleftrightarrow> list_all (request_fits offer rs policy now) qs"
proof (induction qs arbitrary: h f)
  case Nil
  then show ?case by simp
next
  case (Cons q qs)
  show ?case
  proof (cases "offered_resource offer (rr_class q)")
    case None
    then show ?thesis by (simp add: request_fits_def)
  next
    case (Some r)
    then show ?thesis using Cons.IH
      by (auto simp: request_fits_def Let_def word_less_nat_alt unat_admissible)
  qed
qed

lemma admission_exact:
  "ps_satisfies (score_offer_with_admission job offer rs policy now)
     \<longleftrightarrow> js_adapter job |\<in>| ro_adapters offer
         \<and> list_all (request_fits offer rs policy now) (js_requests job)"
  using score_requests_exact [of offer rs policy now 0 "- 1" "js_requests job"]
  by (auto simp: score_offer_with_admission_def denied_score_def Let_def split: sum.splits prod.splits)

lemma topology_satisfies [simp]:
  "ps_satisfies (score_offer_with_topology job offer rs policy now loc)
     \<longleftrightarrow> ps_satisfies (score_offer_with_admission job offer rs policy now)"
  by (simp add: score_offer_with_topology_def Let_def split: prod.splits)

lemma score_node_id [simp]:
  "ps_node_id (score_offer_with_admission job offer rs policy now) = ro_node_id offer"
  "ps_node_id (score_offer_with_topology job offer rs policy now loc) = ro_node_id offer"
  by (auto simp: score_offer_with_topology_def score_offer_with_admission_def denied_score_def Let_def
      split: prod.splits sum.splits)

section \<open>The chosen offer\<close>

lemma choose_best_None:
  "choose_best score offers = None \<longleftrightarrow> (\<forall>x\<in>set offers. \<not> ps_satisfies (score x))"
  by (auto simp: choose_best_def filter_empty_conv)

lemma choose_best_Some:
  assumes "choose_best score offers = Some (offer, s)"
  shows "offer \<in> set offers" "s = score offer" "ps_satisfies s"
    "\<And>x. x \<in> set offers \<Longrightarrow> ps_satisfies (score x) \<Longrightarrow> placement_rank (score x) \<le> placement_rank s"
proof -
  have "(offer, s) \<in> set (filter (\<lambda>(_, s). ps_satisfies s) (map (\<lambda>offer. (offer, score offer)) offers))"
    using assms unfolding choose_best_def by (rule max_by_key_in)
  then show "offer \<in> set offers" "s = score offer" "ps_satisfies s" by auto
  fix x assume "x \<in> set offers" "ps_satisfies (score x)"
  then have "(x, score x) \<in> set (filter (\<lambda>(_, s). ps_satisfies s) (map (\<lambda>offer. (offer, score offer)) offers))"
    by auto
  from max_by_key_ge [OF assms [unfolded choose_best_def] this]
  show "placement_rank (score x) \<le> placement_rank s" by simp
qed

text \<open>The fit of an admissible offer is at most 4000, so its utility is a small integer.\<close>

lemma score_requests_fit:
  "score_requests offer rs policy now h f qs = Inr (h', f') \<Longrightarrow> f = - 1 \<or> f \<le> 4000 \<Longrightarrow>
     f' = - 1 \<or> f' \<le> 4000"
proof (induction qs arbitrary: h f)
  case Nil
  then show ?case by simp
next
  case (Cons q qs)
  from Cons.prems(1) obtain h2 fit where
    "score_requests offer rs policy now h2 (min f (min fit 4000)) qs = Inr (h', f')"
    by (auto simp: Let_def split: option.splits if_splits)
  then show ?case by (rule Cons.IH) (auto simp: min_le_iff_disj)
qed

lemma capacity_fit_le:
  "ps_capacity_fit_milli (score_offer_with_admission job offer rs policy now) \<le> 4000"
  using score_requests_fit [of offer rs policy now 0 "- 1" "js_requests job"]
  by (auto simp: score_offer_with_admission_def denied_score_def Let_def split: sum.splits prod.splits)

end
