(* ===== verification/Rampage_Shards.thy ===== *)
theory Rampage_Shards
  imports Rampage_Placement Rampage_Policy
begin

text \<open>
  The properties of the scheduler: what a shard plan is, that it never overdraws an offer, what
  the Governor makes of a chosen offer, and the one way a batch can still overdraw a node.
\<close>

section \<open>The reference reading of a plan\<close>

type_synonym shard_entry = "job_spec \<times> resource_offer"

definition book_shard ::
  "shard_set \<Rightarrow> resource_reservation list \<Rightarrow> shard_entry \<Rightarrow> resource_reservation list" where
  "book_shard S B e = B @ shard_reservations S (fst e) (snd e)"

definition shard_score ::
  "admission_policy \<Rightarrow> datetime \<Rightarrow> (uuid \<times> uuid \<rightharpoonup> string fset) \<Rightarrow> resource_reservation list
     \<Rightarrow> job_spec \<Rightarrow> resource_offer \<Rightarrow> placement_score" where
  "shard_score policy now loc B job offer = score_offer_with_topology job offer B policy now
     (unwrap_or {||} (loc (js_job_id job, ro_node_id offer)))"

text \<open>The offer of an entry is admissible for its job under the book, and no offer ranks higher.\<close>

definition best_entry ::
  "resource_offer list \<Rightarrow> admission_policy \<Rightarrow> datetime \<Rightarrow> (uuid \<times> uuid \<rightharpoonup> string fset)
     \<Rightarrow> resource_reservation list \<Rightarrow> shard_entry \<Rightarrow> bool" where
  "best_entry offers policy now loc B e =
     (let score = shard_score policy now loc B (fst e) in
      snd e \<in> set offers \<and> ps_satisfies (score (snd e))
      \<and> (\<forall>x\<in>set offers. ps_satisfies (score x) \<longrightarrow> placement_rank (score x) \<le> placement_rank (score (snd e))))"

fun placements_of ::
  "shard_set \<Rightarrow> admission_policy \<Rightarrow> datetime \<Rightarrow> (uuid \<times> uuid \<rightharpoonup> string fset)
     \<Rightarrow> resource_reservation list \<Rightarrow> shard_entry list \<Rightarrow> shard_placement list" where
  "placements_of S policy now loc B [] = []"
| "placements_of S policy now loc B (e # es) =
     \<lparr>sp_job_id = js_job_id (fst e), sp_node_id = ro_node_id (snd e),
      sp_score = shard_score policy now loc B (fst e) (snd e)\<rparr>
     # placements_of S policy now loc (book_shard S B e) es"

lemma length_placements_of [simp]: "length (placements_of S policy now loc B es) = length es"
  by (induction es arbitrary: B) auto

lemma placements_nodes:
  "map sp_node_id (placements_of S policy now loc B es) = map (\<lambda>e. ro_node_id (snd e)) es"
  by (induction es arbitrary: B) auto

lemma shard_locality_eq:
  assumes "offer \<in> set offers"
  shows "unwrap_or {||} (shard_locality loc job offers (ro_node_id offer))
    = unwrap_or {||} (loc (js_job_id job, ro_node_id offer))"
proof -
  let ?f = "\<lambda>n. unwrap_or {||} (loc (js_job_id job, n))"
  have "map_of (rev (map (\<lambda>offer. (ro_node_id offer, ?f (ro_node_id offer))) offers)) n
      = (if n \<in> set (map ro_node_id offers) then Some (?f n) else None)" for n
    by (induction offers) (auto simp: map_add_def split: option.splits)
  with assms show ?thesis by (simp add: shard_locality_def unwrap_or_def)
qed

lemma choose_best_cong:
  assumes "\<And>x. x \<in> set offers \<Longrightarrow> f x = g x"
  shows "choose_best f offers = choose_best g offers"
proof -
  have "map (\<lambda>offer. (offer, f offer)) offers = map (\<lambda>offer. (offer, g offer)) offers"
    using assms by simp
  then show ?thesis by (simp only: choose_best_def)
qed

lemma choose_shard:
  "choose_offer_with_topology job offers B policy now (shard_locality loc job offers)
     = choose_best (shard_score policy now loc B job) offers"
  unfolding choose_offer_with_topology_def
  by (rule choose_best_cong) (simp add: shard_score_def shard_locality_eq)

lemma place_shards_exact:
  "case place_shards S offers policy now loc B acc jobs of
     Inr ps \<Rightarrow> \<exists>es. map fst es = jobs \<and> admitted_run (best_entry offers policy now loc) (book_shard S) B es
         \<and> ps = acc @ placements_of S policy now loc B es
   | Inl f \<Rightarrow> \<exists>es job rest. jobs = map fst es @ job # rest
         \<and> admitted_run (best_entry offers policy now loc) (book_shard S) B es
         \<and> sf_blocked_job_id f = js_job_id job \<and> sf_planned_shards f = length acc + length es
         \<and> (\<forall>x\<in>set offers. \<not> ps_satisfies
              (shard_score policy now loc (foldl (book_shard S) B es) job x))"
proof (induction jobs arbitrary: B acc)
  case Nil
  show ?case by (auto intro: exI [of _ "[]"])
next
  case (Cons job jobs)
  show ?case
  proof (cases "choose_best (shard_score policy now loc B job) offers")
    case None
    then have "place_shards S offers policy now loc B acc (job # jobs) =
        Inl \<lparr>sf_blocked_job_id = js_job_id job, sf_planned_shards = length acc,
              sf_reason = ''no admissible offer after provisional shard reservations''\<rparr>"
      by (simp add: choose_shard)
    moreover from None have "\<forall>x\<in>set offers. \<not> ps_satisfies (shard_score policy now loc B job x)"
      by (simp add: choose_best_None)
    ultimately show ?thesis by (auto intro!: exI [of _ "[]"])
  next
    case (Some p)
    obtain offer s where p: "p = (offer, s)" by (cases p)
    let ?e = "(job, offer)"
    let ?B = "book_shard S B ?e"
    let ?acc = "acc @ [\<lparr>sp_job_id = js_job_id job, sp_node_id = ro_node_id offer, sp_score = s\<rparr>]"
    from choose_best_Some [OF Some [unfolded p]]
    have best: "best_entry offers policy now loc B ?e" and s: "s = shard_score policy now loc B job offer"
      by (auto simp: best_entry_def Let_def)
    have step: "place_shards S offers policy now loc B acc (job # jobs)
        = place_shards S offers policy now loc ?B ?acc jobs"
      using Some p by (simp add: choose_shard book_shard_def)
    show ?thesis
    proof (cases "place_shards S offers policy now loc ?B ?acc jobs")
      case (Inr ps)
      with Cons.IH [of ?B ?acc] obtain es where es: "map fst es = jobs"
        "admitted_run (best_entry offers policy now loc) (book_shard S) ?B es"
        "ps = ?acc @ placements_of S policy now loc ?B es" by auto
      with best s have "map fst (?e # es) = job # jobs
          \<and> admitted_run (best_entry offers policy now loc) (book_shard S) B (?e # es)
          \<and> ps = acc @ placements_of S policy now loc B (?e # es)" by simp
      then show ?thesis unfolding step Inr sum.case by (rule exI)
    next
      case (Inl f)
      with Cons.IH [of ?B ?acc] obtain es j rest where es: "jobs = map fst es @ j # rest"
        "admitted_run (best_entry offers policy now loc) (book_shard S) ?B es"
        "sf_blocked_job_id f = js_job_id j" "sf_planned_shards f = length ?acc + length es"
        "\<forall>x\<in>set offers. \<not> ps_satisfies
              (shard_score policy now loc (foldl (book_shard S) ?B es) j x)" by auto
      with best have "job # jobs = map fst (?e # es) @ j # rest
          \<and> admitted_run (best_entry offers policy now loc) (book_shard S) B (?e # es)
          \<and> sf_blocked_job_id f = js_job_id j \<and> sf_planned_shards f = length acc + length (?e # es)
          \<and> (\<forall>x\<in>set offers. \<not> ps_satisfies
              (shard_score policy now loc (foldl (book_shard S) B (?e # es)) j x))" by simp
      then show ?thesis unfolding step Inl sum.case by (intro exI)
    qed
  qed
qed

section \<open>The book of a plan\<close>

definition demand :: "job_spec \<Rightarrow> resource_class \<Rightarrow> nat" where
  "demand job c = sum_list (map (\<lambda>q. unat (rr_minimum q)) (filter (\<lambda>q. rr_class q = c) (js_requests job)))"

text \<open>What shards may book on a node: what the resource has available, less the owner's reserve and
  the guard band.\<close>

definition node_limit :: "resource_offer list \<Rightarrow> admission_policy \<Rightarrow> uuid \<Rightarrow> resource_class \<Rightarrow> nat" where
  "node_limit offers policy node c =
     (case List.find (\<lambda>x. ro_node_id x = node) offers of None \<Rightarrow> 0
      | Some offer \<Rightarrow> (case offered_resource offer c of None \<Rightarrow> 0
          | Some r \<Rightarrow> unat (rq_available r) - (unat (owner_reserve policy c) + unat (guardband policy r))))"

lemma demand_unique:
  assumes "distinct (map rr_class (js_requests job))" "0 < demand job c"
  shows "\<exists>q\<in>set (js_requests job). rr_class q = c \<and> demand job c = unat (rr_minimum q)"
proof -
  have "filter (\<lambda>q. rr_class q = c) qs = [] \<or> (\<exists>q\<in>set qs. rr_class q = c \<and> filter (\<lambda>q. rr_class q = c) qs = [q])"
    if "distinct (map rr_class qs)" for qs
    using that by (induction qs) (auto simp: filter_empty_conv image_iff)
  from this [OF assms(1)] assms(2) show ?thesis by (auto simp: demand_def)
qed

lemma find_distinct:
  "distinct (map f xs) \<Longrightarrow> x \<in> set xs \<Longrightarrow> List.find (\<lambda>y. f y = f x) xs = Some x"
  by (induction xs) (auto simp: image_iff)

lemma booked_append: "booked (A @ B) node c now = booked A node c now + booked B node c now"
  by (simp add: booked_def)

lemma booked_shard:
  assumes "now < ss_deadline S" "now < js_deadline job"
  shows "booked (shard_reservations S job offer) node c now
    = (if ro_node_id offer = node then demand job c else 0)"
proof -
  have "filter (\<lambda>r. rs_node_id r = node \<and> rs_class r = c \<and> rs_expires_at r > now) (shard_reservations S job offer)
      = (if ro_node_id offer = node
         then map (\<lambda>q. \<lparr>rs_job_id = js_job_id job, rs_node_id = ro_node_id offer, rs_class = rr_class q,
                rs_amount = rr_minimum q, rs_expires_at = min (ss_deadline S) (js_deadline job)\<rparr>)
              (filter (\<lambda>q. rr_class q = c) (js_requests job)) else [])"
    using assms by (simp add: shard_reservations_def filter_map comp_def)
  then show ?thesis by (simp add: booked_def demand_def comp_def)
qed

lemma request_within_limit:
  assumes "request_fits offer B policy now q" "offer \<in> set offers" "distinct (map ro_node_id offers)"
    "0 < unat (rr_minimum q)"
  shows "booked B (ro_node_id offer) (rr_class q) now + unat (rr_minimum q)
    \<le> node_limit offers policy (ro_node_id offer) (rr_class q)"
  using assms by (auto simp: request_fits_def node_limit_def find_distinct free_amount_def split: option.splits)

text \<open>An entry the planner may book: the chosen offer, a live shard and one request per class.\<close>

definition sound_entry ::
  "shard_set \<Rightarrow> resource_offer list \<Rightarrow> admission_policy \<Rightarrow> datetime
     \<Rightarrow> resource_reservation list \<Rightarrow> shard_entry \<Rightarrow> bool" where
  "sound_entry S offers policy now B e =
     (distinct (map ro_node_id offers) \<and> snd e \<in> set offers
      \<and> list_all (request_fits (snd e) B policy now) (js_requests (fst e))
      \<and> distinct (map rr_class (js_requests (fst e)))
      \<and> now < ss_deadline S \<and> now < js_deadline (fst e))"

interpretation shard_book: capacity_book
  "\<lambda>B k. booked B (fst k) (snd k) now"
  "book_shard S"
  "\<lambda>e k. if ro_node_id (snd e) = fst k then demand (fst e) (snd k) else 0"
  "sound_entry S offers policy now"
  "\<lambda>k. node_limit offers policy (fst k) (snd k)"
  for S offers policy now
proof (unfold_locales, goal_cases)
  case (1 B e k)
  then show ?case by (simp add: book_shard_def booked_append sound_entry_def booked_shard)
next
  case (2 B e k)
  then obtain q where q: "q \<in> set (js_requests (fst e))" "rr_class q = snd k"
      "demand (fst e) (snd k) = unat (rr_minimum q)" and node: "ro_node_id (snd e) = fst k"
    using demand_unique [of "fst e" "snd k"] by (auto simp: sound_entry_def split: if_splits)
  with 2 request_within_limit [of "snd e" B policy now q offers] show ?case
    by (auto simp: sound_entry_def list_all_iff)
qed

lemma best_entry_sound:
  assumes "admitted_run (best_entry offers policy now loc) (book_shard S) B es"
    and "distinct (map ro_node_id offers)" "now < ss_deadline S"
    and "\<forall>job\<in>set (map fst es). distinct (map rr_class (js_requests job)) \<and> now < js_deadline job"
  shows "admitted_run (sound_entry S offers policy now) (book_shard S) B es"
  using assms
  by (induction es arbitrary: B)
    (auto simp: best_entry_def sound_entry_def shard_score_def admission_exact Let_def)

text \<open>The amount a list of placements puts on a node.\<close>

definition placed_demand :: "job_spec list \<Rightarrow> shard_placement list \<Rightarrow> uuid \<Rightarrow> resource_class \<Rightarrow> nat" where
  "placed_demand jobs ps node c =
     sum_list (map (\<lambda>(job, p). if sp_node_id p = node then demand job c else 0) (zip jobs ps))"

lemma placed_demand_of:
  "placed_demand (map fst es) (placements_of S policy now loc B es) node c
     = sum_list (map (\<lambda>e. if ro_node_id (snd e) = node then demand (fst e) c else 0) es)"
  by (induction es arbitrary: B) (auto simp: placed_demand_def)

lemma shard_deadlines:
  "shard_set_validate_at S now = Inr () \<Longrightarrow> now < ss_deadline S \<and> (\<forall>job\<in>set (ss_shards S). now < js_deadline job)"
  by (auto simp: shard_set_accepted list_all_iff shard_ok_def job_validate_ok)

lemma booked_live: "booked (filter (\<lambda>r. rs_expires_at r > now) rs) node c now = booked rs node c now"
  by (simp add: booked_def conj_commute conj_left_commute)

section \<open>A concrete fabric\<close>

text \<open>One worker with twenty cores; the default policy keeps one core for the owner and two as guard band.\<close>

definition shard_request :: "u64 \<Rightarrow> resource_request" where
  "shard_request n = \<lparr>rr_class = CpuCompute, rr_minimum = n, rr_preferred = n, rr_unit = ''core'',
     rr_required_labels = fmempty\<rparr>"

definition shard_job :: "uuid \<Rightarrow> string \<Rightarrow> u64 list \<Rightarrow> job_spec" where
  "shard_job i key ns = \<lparr>js_schema = job_spec_SCHEMA, js_job_id = i, js_project_id = 7, js_submitted_by = 8,
     js_adapter = ''rampage.hash.v1'', js_operation = ''hash'', js_arguments = fmempty, js_inputs = [],
     js_requests = map shard_request ns, js_trust = NativeTrusted, js_restart_tolerant = True,
     js_network_allowlist = {||}, js_deadline = 100, js_idempotency_key = key\<rparr>"

definition shard_set_of :: "job_spec list \<Rightarrow> shard_set" where
  "shard_set_of jobs = \<lparr>ss_schema = shard_set_SCHEMA, ss_set_id = 1, ss_project_id = 7, ss_submitted_by = 8,
     ss_shards = jobs, ss_minimum_successes = 1, ss_deadline = 100, ss_idempotency_key = ''set''\<rparr>"

definition shard_offer :: "uuid \<Rightarrow> u64 \<Rightarrow> resource_offer" where
  "shard_offer node n = \<lparr>ro_schema = ''rampage.resource-offer.v1'', ro_offer_id = 3, ro_node_id = node,
     ro_observed_at = 0, ro_expires_at = 100,
     ro_resources = [\<lparr>rq_class = CpuCompute, rq_capacity = n, rq_available = n, rq_unit = ''core'',
       rq_labels = fmempty\<rparr>],
     ro_availability = \<lparr>av_on_ac_power = True, av_battery_percent = None,
       av_thermal_headroom_percent = 50, av_foreground_allowed = True, av_owner_idle = True\<rparr>,
     ro_adapters = {|''rampage.hash.v1''|}, ro_workload_capabilities = [], ro_model_runtimes = [],
     ro_link_benchmark = None, ro_mesh_endpoint = None, ro_signature = ''s''\<rparr>"

lemmas demo_shard_defs = shard_request_def shard_job_def shard_set_of_def shard_offer_def

lemma demo_ids: "js_job_id (shard_job i key ns) = i" "ro_node_id (shard_offer n m) = n"
    "ss_shards (shard_set_of jobs) = jobs" "js_requests (shard_job i key ns) = map shard_request ns"
  by (simp_all add: demo_shard_defs)

lemma place_shards_single:
  assumes "ps_satisfies (score_offer_with_admission job offer B policy now)"
  shows "\<exists>s. place_shards S [offer] policy now loc B acc (job # jobs) =
    place_shards S [offer] policy now loc (B @ shard_reservations S job offer)
      (acc @ [\<lparr>sp_job_id = js_job_id job, sp_node_id = ro_node_id offer, sp_score = s\<rparr>]) jobs"
  using assms by (auto simp: choose_shard choose_best_def shard_score_def)

lemma demo_guardband: "guardband admission_policy_default
    \<lparr>rq_class = CpuCompute, rq_capacity = 20, rq_available = 20, rq_unit = ''core'', rq_labels = fmempty\<rparr> = 2"
  by (simp add: guardband_def admission_policy_default_def sat_mul_def)

lemma demo_owner_reserve: "owner_reserve admission_policy_default CpuCompute = 1"
  by (simp add: owner_reserve_def admission_policy_default_def unwrap_or_def)

lemma shard_demo_fits:
  assumes "list_all (\<lambda>n. unat n + booked B 21 CpuCompute 0 \<le> 17) ns"
  shows "ps_satisfies (score_offer_with_admission (shard_job i key ns) (shard_offer 21 20) B admission_policy_default 0)"
  using assms
  by (auto simp: admission_exact demo_shard_defs request_fits_def offered_resource_def labels_match_def
      free_amount_def demo_guardband demo_owner_reserve list_all_iff)

lemma demo_node_limit: "node_limit [shard_offer 21 20] admission_policy_default 21 CpuCompute = 17"
  by (simp add: node_limit_def demo_shard_defs offered_resource_def demo_guardband demo_owner_reserve)

lemma demo_blank: "\<not> blank ''set''" "\<not> blank ''a''" "\<not> blank ''b''"
  by (simp_all add: ws1_def ws2_def ws3_def byte_def)

section \<open>Properties\<close>

text \<open>
  C32: \<open>plan_shard_set\<close> is all or nothing and deterministic. A plan has one placement per shard, in
  order: each shard is on an admissible offer of highest rank under the live reservations plus the
  minimum demands of the shards before it. A failure names the first shard that no offer admits
  under the book its predecessors leave, and how many were placed before it.
\<close>

theorem shard_plan_exact:
  "case plan_shard_set S offers rs policy now loc of
     Inr ps \<Rightarrow> \<exists>es. map fst es = ss_shards S
         \<and> admitted_run (best_entry offers policy now loc) (book_shard S) (filter (\<lambda>r. rs_expires_at r > now) rs) es
         \<and> ps = placements_of S policy now loc (filter (\<lambda>r. rs_expires_at r > now) rs) es
   | Inl f \<Rightarrow> \<exists>es job rest. ss_shards S = map fst es @ job # rest
         \<and> admitted_run (best_entry offers policy now loc) (book_shard S) (filter (\<lambda>r. rs_expires_at r > now) rs) es
         \<and> sf_blocked_job_id f = js_job_id job \<and> sf_planned_shards f = length es
         \<and> list_all (\<lambda>x. \<not> ps_satisfies (shard_score policy now loc
              (foldl (book_shard S) (filter (\<lambda>r. rs_expires_at r > now) rs) es) job x)) offers"
  using place_shards_exact [where S = S and B = "filter (\<lambda>r. rs_expires_at r > now) rs" and acc = "[]" and jobs = "ss_shards S"
      and offers = offers and policy = policy and now = now and loc = loc]
  by (simp only: plan_shard_set_def append_Nil list.size add_0 list_all_iff)

text \<open>
  C33: a plan never overdraws an offer. For a valid shard set whose shards have one request per
  resource class, over offers of distinct nodes: on every node and class where the plan places a
  demand, the live reservations and all demands placed there are within what the offer has
  available after the owner's reserve and the safety guard band.
\<close>

theorem shard_plan_never_overdraws:
  assumes "shard_set_validate_at S now = Inr ()"
    and "plan_shard_set S offers rs policy now loc = Inr ps"
    and "distinct (map ro_node_id offers)"
    and "\<forall>job\<in>set (ss_shards S). distinct (map rr_class (js_requests job))"
    and "0 < placed_demand (ss_shards S) ps node c"
  shows "booked rs node c now + placed_demand (ss_shards S) ps node c \<le> node_limit offers policy node c"
proof -
  let ?B = "filter (\<lambda>r. rs_expires_at r > now) rs"
  from place_shards_exact [where S = S and B = ?B and acc = "[]" and jobs = "ss_shards S"
      and offers = offers and policy = policy and now = now and loc = loc] assms(2)
  obtain es where es: "map fst es = ss_shards S" "ps = placements_of S policy now loc ?B es"
      and run: "admitted_run (best_entry offers policy now loc) (book_shard S) ?B es"
    by (auto simp: plan_shard_set_def)
  have "admitted_run (sound_entry S offers policy now) (book_shard S) ?B es"
    using best_entry_sound [OF run assms(3)] shard_deadlines [OF assms(1)] assms(4) es(1) by simp
  from shard_book.run_fits [OF this, of "(node, c)", unfolded fst_conv snd_conv] assms(5) es
  show ?thesis by (simp add: placed_demand_of [of es, unfolded es(1)] booked_live)
qed

theorem shard_plan_never_overdraws_witness:
  "\<exists>ps. plan_shard_set (shard_set_of [shard_job 1 ''a'' [10], shard_job 2 ''b'' [5]]) [shard_offer 21 20] []
        admission_policy_default 0 Map.empty = Inr ps
     \<and> placed_demand [shard_job 1 ''a'' [10], shard_job 2 ''b'' [5]] ps 21 CpuCompute = 15
     \<and> booked [] 21 CpuCompute 0 + placed_demand [shard_job 1 ''a'' [10], shard_job 2 ''b'' [5]] ps 21 CpuCompute
         \<le> node_limit [shard_offer 21 20] admission_policy_default 21 CpuCompute"
proof -
  let ?jobs = "[shard_job 1 ''a'' [10], shard_job 2 ''b'' [5]]"
  let ?S = "shard_set_of ?jobs"
  have "\<exists>s1 s2. plan_shard_set ?S [shard_offer 21 20] [] admission_policy_default 0 Map.empty =
      Inr [\<lparr>sp_job_id = 1, sp_node_id = 21, sp_score = s1\<rparr>, \<lparr>sp_job_id = 2, sp_node_id = 21, sp_score = s2\<rparr>]"
  proof -
    have 1: "ps_satisfies (score_offer_with_admission (shard_job 1 ''a'' [10]) (shard_offer 21 20) [] admission_policy_default 0)"
      by (rule shard_demo_fits) (simp add: booked_def)
    have 2: "ps_satisfies (score_offer_with_admission (shard_job 2 ''b'' [5]) (shard_offer 21 20)
        ([] @ shard_reservations ?S (shard_job 1 ''a'' [10]) (shard_offer 21 20)) admission_policy_default 0)"
      by (rule shard_demo_fits) (simp add: booked_def shard_reservations_def demo_shard_defs)
    obtain s1 where e1: "place_shards ?S [shard_offer 21 20] admission_policy_default 0 Map.empty [] [] ?jobs =
        place_shards ?S [shard_offer 21 20] admission_policy_default 0 Map.empty
          ([] @ shard_reservations ?S (shard_job 1 ''a'' [10]) (shard_offer 21 20))
          [\<lparr>sp_job_id = 1, sp_node_id = 21, sp_score = s1\<rparr>] [shard_job 2 ''b'' [5]]"
      using place_shards_single [OF 1, of ?S Map.empty "[]" "[shard_job 2 ''b'' [5]]"]
      unfolding append_Nil demo_ids by blast
    obtain s2 where e2: "place_shards ?S [shard_offer 21 20] admission_policy_default 0 Map.empty
          ([] @ shard_reservations ?S (shard_job 1 ''a'' [10]) (shard_offer 21 20))
          [\<lparr>sp_job_id = 1, sp_node_id = 21, sp_score = s1\<rparr>] [shard_job 2 ''b'' [5]]
        = Inr ([\<lparr>sp_job_id = 1, sp_node_id = 21, sp_score = s1\<rparr>] @ [\<lparr>sp_job_id = 2, sp_node_id = 21, sp_score = s2\<rparr>])"
      using place_shards_single [OF 2, of ?S Map.empty "[\<lparr>sp_job_id = 1, sp_node_id = 21, sp_score = s1\<rparr>]" "[]"]
      unfolding place_shards.simps(1) demo_ids by blast
    have "plan_shard_set ?S [shard_offer 21 20] [] admission_policy_default 0 Map.empty =
        place_shards ?S [shard_offer 21 20] admission_policy_default 0 Map.empty [] [] ?jobs"
      by (simp only: plan_shard_set_def filter.simps demo_ids)
    then show ?thesis unfolding e1 e2 by auto
  qed
  then obtain s1 s2 where plan: "plan_shard_set ?S [shard_offer 21 20] [] admission_policy_default 0 Map.empty =
      Inr [\<lparr>sp_job_id = 1, sp_node_id = 21, sp_score = s1\<rparr>, \<lparr>sp_job_id = 2, sp_node_id = 21, sp_score = s2\<rparr>]"
    by blast
  have placed: "placed_demand ?jobs [\<lparr>sp_job_id = 1, sp_node_id = 21, sp_score = s1\<rparr>,
      \<lparr>sp_job_id = 2, sp_node_id = 21, sp_score = s2\<rparr>] 21 CpuCompute = 15"
    by (simp add: placed_demand_def demand_def demo_shard_defs)
  have valid: "shard_set_validate_at ?S 0 = Inr ()"
    by (simp add: shard_set_accepted demo_shard_defs shard_ok_def job_validate_ok protocol_limits demo_blank del: blank.simps)
  from shard_plan_never_overdraws [OF valid plan, of 21 CpuCompute] placed
  have le: "booked [] 21 CpuCompute 0 + 15 \<le> node_limit [shard_offer 21 20] admission_policy_default 21 CpuCompute"
    by (simp add: demo_ids)
  show ?thesis
    by (rule exI, rule conjI, rule plan, rule conjI, rule placed, unfold placed, rule le)
qed

text \<open>
  The Governor accepts what the scheduler checked. When \<open>choose_offer_with_topology\<close> picks an
  offer for a job, authorising that job on the offer's node never panics on a missing grant and is
  never denied for the offer's adapters, its resources or the node: a denial can only come from the
  kill latch, the job contract, the adapter policy, workload capabilities, expiry, the deadline cap
  or the mobile rules.
\<close>

theorem scheduled_offer_passes_governor_checks:
  assumes "choose_offer_with_topology job offers rs policy now loc = Some (offer, score)"
  shows "\<exists>r. authorize_job_at_epoch C gov now lease_id nonce job offer (ps_node_id score) epoch = Some r
    \<and> r \<notin> {Inl OfferAdapterMismatch, Inl OfferResourceMismatch, Inl NodeMismatch}"
proof -
  from assms choose_best_Some [of _ offers offer score]
  obtain s where s: "ps_satisfies (score_offer_with_admission job offer rs policy now)"
      and node: "ps_node_id score = ro_node_id offer"
    unfolding choose_offer_with_topology_def by (metis score_node_id(2) topology_satisfies)
  have sat: "list_ex (resource_satisfies q) (ro_resources offer)" if "q \<in> set (js_requests job)" for q
    using s that by (fastforce simp: admission_exact list_all_iff request_fits_def offered_resource_def
        resource_satisfies_def labels_match_def free_amount_def list_ex_iff word_le_nat_alt
        split: option.splits dest: find_SomeD)
  have adapter: "js_adapter job |\<in>| ro_adapters offer" using s by (simp add: admission_exact)
  have check: "check_job_at (gov_config gov) job offer (ps_node_id score) now
      \<notin> {Inl OfferAdapterMismatch, Inl OfferResourceMismatch, Inl NodeMismatch}"
    using sat adapter node
    by (auto simp: check_job_at_def check_mobile_def list_ex_iff list_all_iff split: sum.split)
  show ?thesis
  proof (cases "check_job_at (gov_config gov) job offer (ps_node_id score) now")
    case (Inl e)
    with check show ?thesis by (auto simp: authorize_job_at_epoch_def)
  next
    case (Inr u)
    then obtain gs where "those (map (grant_request offer) (js_requests job)) = Some gs"
      using grants_exist by (metis old.unit.exhaust)
    with Inr show ?thesis by (auto simp: authorize_job_at_epoch_def Let_def)
  qed
qed

theorem scheduled_offer_passes_governor_checks_witness:
  "\<exists>score r. choose_offer_with_topology (shard_job 1 ''a'' [10]) [shard_offer 21 20] [] admission_policy_default 0
        Map.empty = Some (shard_offer 21 20, score)
     \<and> authorize_job_at_epoch demo_crypto \<lparr>gov_config = governor_config_default, gov_signing_key = ()\<rparr> 0 1 ''n'' (shard_job 1 ''a'' [10]) (shard_offer 21 20)
         (ps_node_id score) 0 = Some r
     \<and> r \<notin> {Inl OfferAdapterMismatch, Inl OfferResourceMismatch, Inl NodeMismatch}"
proof -
  let ?job = "shard_job 1 ''a'' [10]"
  have "ps_satisfies (score_offer_with_admission ?job (shard_offer 21 20) [] admission_policy_default 0)"
    by (rule shard_demo_fits) (simp add: booked_def)
  then obtain score where c: "choose_offer_with_topology ?job [shard_offer 21 20] [] admission_policy_default 0
      Map.empty = Some (shard_offer 21 20, score)"
    by (simp add: choose_offer_with_topology_def choose_best_def)
  from scheduled_offer_passes_governor_checks [OF c] c show ?thesis by blast
qed

text \<open>
  A batch can still overdraw a node. The comment on \<open>plan_shard_set\<close> promises that the
  provisional reservations prevent overcommitting an offer, but the requests of one job are checked
  one by one against the same book: a single shard with two requests for ten cores each is placed on
  a worker that has seventeen to give.
\<close>

theorem repeated_class_overdraws_offer:
  "\<exists>S ps. shard_set_validate_at S 0 = Inr ()
     \<and> plan_shard_set S [shard_offer 21 20] [] admission_policy_default 0 Map.empty = Inr ps
     \<and> placed_demand (ss_shards S) ps 21 CpuCompute = 20
     \<and> node_limit [shard_offer 21 20] admission_policy_default 21 CpuCompute = 17"
proof -
  let ?jobs = "[shard_job 1 ''a'' [10, 10]]"
  let ?S = "shard_set_of ?jobs"
  have 1: "ps_satisfies (score_offer_with_admission (shard_job 1 ''a'' [10, 10]) (shard_offer 21 20) [] admission_policy_default 0)"
    by (rule shard_demo_fits) (simp add: booked_def)
  obtain s where "place_shards ?S [shard_offer 21 20] admission_policy_default 0 Map.empty [] [] ?jobs =
      Inr [\<lparr>sp_job_id = 1, sp_node_id = 21, sp_score = s\<rparr>]"
    using place_shards_single [OF 1, of ?S Map.empty "[]" "[]"] unfolding place_shards.simps(1) append_Nil demo_ids by blast
  then have plan: "plan_shard_set ?S [shard_offer 21 20] [] admission_policy_default 0 Map.empty =
      Inr [\<lparr>sp_job_id = 1, sp_node_id = 21, sp_score = s\<rparr>]"
    by (simp only: plan_shard_set_def filter.simps demo_ids)
  have placed: "placed_demand (ss_shards ?S) [\<lparr>sp_job_id = 1, sp_node_id = 21, sp_score = s\<rparr>] 21 CpuCompute = 20"
    by (simp add: placed_demand_def demand_def demo_shard_defs)
  have valid: "shard_set_validate_at ?S 0 = Inr ()"
    by (simp add: shard_set_accepted demo_shard_defs shard_ok_def job_validate_ok protocol_limits demo_blank del: blank.simps)
  show ?thesis using valid plan placed demo_node_limit by (intro exI conjI)
qed

end
