(* ===== verification/Rampage_Sessions.thy ===== *)
theory Rampage_Sessions
  imports Rampage_Scheduler "HOL-Library.List_Lexorder" "HOL-Library.Char_ord"
begin

text \<open>
  The model-session planner of \<open>crates/rampage-controller/src/lib.rs\<close>: the live offers are grouped by
  compatible runtime, one group (or node) is selected by the requested strategy, and the model is
  split over it. \<open>None\<close> is a panic (the index \<open>ranked[0].1[0]\<close> on an empty group).
\<close>

section \<open>Plans\<close>

datatype model_plan_state = Ready | QualificationRequired | CapacityBlocked

record model_node_placement =
  mp_node_id :: uuid
  mp_rank :: u16
  mp_assigned_bytes :: u64
  mp_available_model_bytes :: u64
  mp_role :: string
  mp_topology_confidence :: string

record model_session_plan =
  pl_schema :: string
  pl_session_id :: uuid
  pl_strategy :: compute_strategy
  pl_state :: model_plan_state
  pl_backend :: "model_backend option"
  pl_parallelism :: "model_parallelism option"
  pl_distributed :: bool
  pl_required_bytes :: u64
  pl_observed_fabric_bytes :: u64
  pl_maximum_supported_bytes :: u64
  pl_predicted_speedup_milli :: u64
  pl_placements :: "model_node_placement list"
  pl_blockers :: "string list"
  pl_warnings :: "string list"
  pl_proposed_local_endpoint :: "string option"
  pl_execution_authority :: string
  pl_reason :: string

definition model_session_plan_SCHEMA :: string where
  "model_session_plan_SCHEMA = ''rampage.model-session-plan.v1''"

record runtime_candidate =
  rn_offer :: resource_offer
  rn_runtime :: model_runtime_offer
  rn_available_bytes :: u64

section \<open>Capacity and topology of a candidate\<close>

definition resource_available :: "resource_offer \<Rightarrow> resource_class \<Rightarrow> u64" where
  "resource_available offer c =
     (case List.find (\<lambda>r. rq_class r = c \<and> rq_unit r = ''byte'') (ro_resources offer) of
        None \<Rightarrow> 0 | Some r \<Rightarrow> rq_available r)"

definition observed_model_memory :: "resource_offer \<Rightarrow> u64" where
  "observed_model_memory offer =
     max (resource_available offer GpuMemory) (resource_available offer RamWorkingSet)"

definition runtime_capacity :: "resource_offer \<Rightarrow> model_runtime_offer \<Rightarrow> u64" where
  "runtime_capacity offer runtime =
     (let observed = (case mr_memory_kind runtime of
            DedicatedGpu \<Rightarrow> resource_available offer GpuMemory
          | Hybrid \<Rightarrow> sat_add (resource_available offer GpuMemory) (resource_available offer RamWorkingSet)
          | _ \<Rightarrow> resource_available offer RamWorkingSet)
      in min (mr_available_model_bytes runtime) observed)"

definition topology_confidence :: "resource_offer \<Rightarrow> string" where
  "topology_confidence offer =
     (if ro_mesh_endpoint offer = None then ''controller_local''
      else if ro_link_benchmark offer \<noteq> None then ''measured'' else ''unmeasured'')"

definition topology_ready :: "runtime_candidate \<Rightarrow> bool" where
  "topology_ready candidate =
     (ro_mesh_endpoint (rn_offer candidate) = None
      \<or> (case ro_link_benchmark (rn_offer candidate) of None \<Rightarrow> False
         | Some link \<Rightarrow> lb_rtt_micros_p50 link \<le> 25000 \<and> lb_uplink_bps link \<ge> 250000000
             \<and> lb_downlink_bps link \<ge> 250000000))"

definition speed_topology_ready :: "runtime_candidate \<Rightarrow> bool" where
  "speed_topology_ready candidate =
     (ro_mesh_endpoint (rn_offer candidate) = None
      \<or> (case ro_link_benchmark (rn_offer candidate) of None \<Rightarrow> False
         | Some link \<Rightarrow> lb_rtt_micros_p50 link \<le> 5000 \<and> lb_uplink_bps link \<ge> 1000000000
             \<and> lb_downlink_bps link \<ge> 1000000000))"

definition candidate_links :: "runtime_candidate list \<Rightarrow> link_benchmark list" where
  "candidate_links candidates = List.map_filter (\<lambda>c. ro_link_benchmark (rn_offer c)) candidates"

definition predicted_tensor_speedup_milli :: "runtime_candidate list \<Rightarrow> u64" where
  "predicted_tensor_speedup_milli candidates =
     (if length candidates < 2 \<or> \<not> list_all speed_topology_ready candidates then 1000
      else let worst_rtt = foldr max (map lb_rtt_micros_p50 (candidate_links candidates)) 0;
               slowest_link = foldr min (map (\<lambda>link. min (lb_uplink_bps link) (lb_downlink_bps link))
                 (candidate_links candidates)) (- 1);
               efficiency_milli = (if worst_rtt \<le> 1000 \<and> slowest_link \<ge> 10000000000 then 850
                 else if worst_rtt \<le> 2500 \<and> slowest_link \<ge> 2500000000 then 650 else 400)
           in max (sat_mul (of_nat (length candidates)) efficiency_milli) 1000)"

section \<open>Splitting a model over a pipeline\<close>

text \<open>The product is taken in 128 bits, where it cannot saturate; the quotient is cut to 64 bits.\<close>

definition proportional_share :: "u64 \<Rightarrow> u64 \<Rightarrow> u64 \<Rightarrow> u64" where
  "proportional_share required available total_bytes =
     ucast (sat_mul (ucast required) (ucast available) div (ucast (max total_bytes 1) :: 128 word))"

definition candidate_total :: "runtime_candidate list \<Rightarrow> u64" where
  "candidate_total candidates = sum_list (map rn_available_bytes candidates)"

definition pipeline_placement :: "nat \<Rightarrow> runtime_candidate \<Rightarrow> u64 \<Rightarrow> model_node_placement" where
  "pipeline_placement index candidate assigned =
     \<lparr>mp_node_id = ro_node_id (rn_offer candidate), mp_rank = of_nat index, mp_assigned_bytes = assigned,
      mp_available_model_bytes = rn_available_bytes candidate,
      mp_role = (if index = 0 then ''coordinator_rank'' else ''model_rank''),
      mp_topology_confidence = topology_confidence (rn_offer candidate)\<rparr>"

fun allocate_loop ::
  "u64 \<Rightarrow> u64 \<Rightarrow> nat \<Rightarrow> u64 \<Rightarrow> runtime_candidate list \<Rightarrow> model_node_placement list" where
  "allocate_loop required total_bytes index remaining [] = []"
| "allocate_loop required total_bytes index remaining (candidate # rest) =
     (let assigned = (if rest = [] then min remaining (rn_available_bytes candidate)
            else min (min (proportional_share required (rn_available_bytes candidate) total_bytes)
                       (rn_available_bytes candidate)) remaining)
      in pipeline_placement index candidate assigned
         # allocate_loop required total_bytes (Suc index) (sat_sub remaining assigned) rest)"

definition allocate_pipeline :: "runtime_candidate list \<Rightarrow> u64 \<Rightarrow> model_node_placement list" where
  "allocate_pipeline candidates required =
     allocate_loop required (candidate_total candidates) 0 required candidates"

section \<open>Grouping the runtimes\<close>

text \<open>The derived order of the backends is the order of their declaration.\<close>

fun backend_index :: "model_backend \<Rightarrow> nat" where
  "backend_index LocalOllama = 0"
| "backend_index ExoMlx = 1"
| "backend_index VllmRay = 2"

instantiation model_backend :: linorder
begin

definition less_eq_model_backend :: "model_backend \<Rightarrow> model_backend \<Rightarrow> bool" where
  "less_eq_model_backend a b = (backend_index a \<le> backend_index b)"

definition less_model_backend :: "model_backend \<Rightarrow> model_backend \<Rightarrow> bool" where
  "less_model_backend a b = (backend_index a < backend_index b)"

instance
proof
  fix a b :: model_backend
  assume "a \<le> b" "b \<le> a"
  then show "a = b" by (cases a; cases b) (auto simp: less_eq_model_backend_def)
qed (auto simp: less_eq_model_backend_def less_model_backend_def)

end

type_synonym group_key = "model_backend \<times> string"
type_synonym runtime_group = "group_key \<times> runtime_candidate list"

definition session_live_offer :: "datetime \<Rightarrow> resource_offer \<Rightarrow> bool" where
  "session_live_offer now offer =
     (ro_expires_at offer > now
      \<and> av_foreground_allowed (ro_availability offer)
      \<and> av_thermal_headroom_percent (ro_availability offer) \<ge> 15
      \<and> (av_on_ac_power (ro_availability offer)
          \<or> unwrap_or 100 (av_battery_percent (ro_availability offer)) \<ge> 50))"

definition offer_candidates :: "resource_offer \<Rightarrow> (group_key \<times> runtime_candidate) list" where
  "offer_candidates offer =
     map (\<lambda>runtime. ((mr_backend runtime, mr_compatibility_key runtime),
            \<lparr>rn_offer = offer, rn_runtime = runtime, rn_available_bytes = runtime_capacity offer runtime\<rparr>))
       (filter (\<lambda>runtime. \<not> (mr_schema runtime \<noteq> model_runtime_offer_SCHEMA
              \<or> mr_available_model_bytes runtime = 0 \<or> mr_adapter runtime |\<notin>| ro_adapters offer)
            \<and> runtime_capacity offer runtime \<noteq> 0) (ro_model_runtimes offer))"

text \<open>The groups, in the order of the \<open>BTreeMap\<close>: each sorted by falling capacity and cut to the
  requested number of nodes.\<close>

definition runtime_groups :: "u16 \<Rightarrow> resource_offer list \<Rightarrow> runtime_group list" where
  "runtime_groups max_nodes live_offers =
     (let candidates = concat (map offer_candidates live_offers) in
      map (\<lambda>key. (key, take (unat max_nodes) (sort_key (\<lambda>c. Reverse (rn_available_bytes c))
             (map snd (filter (\<lambda>kc. fst kc = key) candidates)))))
        (sorted_list_of_set (set (map fst candidates))))"

definition ranked_groups :: "runtime_group list \<Rightarrow> runtime_group list" where
  "ranked_groups groups = sort_key (\<lambda>(_, candidates). Reverse (candidate_total candidates)) groups"

section \<open>Selecting by strategy\<close>

type_synonym selection = "group_key \<times> runtime_candidate list \<times> model_parallelism \<times> u64"

definition fits :: "u64 \<Rightarrow> runtime_candidate \<Rightarrow> bool" where
  "fits required candidate = (rn_available_bytes candidate \<ge> required)"

definition select_maximum_model_size :: "runtime_group list \<Rightarrow> selection" where
  "select_maximum_model_size ranked =
     (let (key, candidates) = hd ranked in
      (key, candidates,
       (if length candidates > 1
           \<and> list_all (\<lambda>c. Pipeline |\<in>| mr_supported_parallelism (rn_runtime c)) candidates
        then Pipeline else WholeModel), 1000))"

text \<open>The two bests of the \<open>SpeedBoost\<close> loop, updated by one group.\<close>

definition better_single ::
  "u64 \<Rightarrow> (group_key \<times> runtime_candidate) option \<Rightarrow> runtime_group \<Rightarrow> (group_key \<times> runtime_candidate) option" where
  "better_single required best grp =
     (case List.find (fits required) (snd grp) of
        None \<Rightarrow> best
      | Some candidate \<Rightarrow>
          (case best of None \<Rightarrow> Some (fst grp, candidate)
           | Some (key, current) \<Rightarrow>
               if rn_available_bytes candidate > rn_available_bytes current
               then Some (fst grp, candidate) else best))"

definition better_distributed ::
  "u64 \<Rightarrow> (group_key \<times> runtime_candidate list \<times> u64) option \<Rightarrow> runtime_group
     \<Rightarrow> (group_key \<times> runtime_candidate list \<times> u64) option" where
  "better_distributed required best grp =
     (let candidates = snd grp in
      if length candidates > 1
         \<and> list_all (\<lambda>c. Tensor |\<in>| mr_supported_parallelism (rn_runtime c)
              \<and> is_qualified_for_distributed (rn_runtime c)) candidates
      then let speedup = predicted_tensor_speedup_milli candidates;
               shard_bytes = div_ceil required (of_nat (length candidates))
           in if speedup > 1100 \<and> list_all (fits shard_bytes) candidates
                 \<and> (case best of None \<Rightarrow> True | Some (_, _, current) \<Rightarrow> speedup > current)
              then Some (fst grp, candidates, speedup) else best
      else best)"

definition select_speed_boost :: "u64 \<Rightarrow> runtime_group list \<Rightarrow> selection" where
  "select_speed_boost required ranked =
     (case foldl (better_distributed required) None ranked of
        Some (key, candidates, speedup) \<Rightarrow> (key, candidates, Tensor, speedup)
      | None \<Rightarrow>
         (case foldl (better_single required) None ranked of
            Some (key, candidate) \<Rightarrow> (key, [candidate], WholeModel, 1000)
          | None \<Rightarrow> (fst (hd ranked), snd (hd ranked), Pipeline, 1000)))"

definition select_maximum_throughput :: "u64 \<Rightarrow> runtime_group list \<Rightarrow> selection" where
  "select_maximum_throughput required ranked =
     (let replicas = map (\<lambda>(key, candidates). (key, filter (fits required) candidates)) ranked;
          best = unwrap_or (hd ranked) (max_by_key (\<lambda>(_, candidates). length candidates) replicas);
          best = (if snd best = [] then hd ranked else best)
      in (fst best, snd best, Replica, of_nat (max (length (snd best)) 1) * 1000))"

definition select_efficiency :: "u64 \<Rightarrow> runtime_group list \<Rightarrow> selection option" where
  "select_efficiency required ranked =
     (case min_by_key (\<lambda>(_, candidate). rn_available_bytes candidate)
             (concat (map (\<lambda>(key, candidates). map (Pair key) (filter (fits required) candidates)) ranked)) of
        Some (key, candidate) \<Rightarrow> Some (key, [candidate], WholeModel, 1000)
      | None \<Rightarrow>
          (case snd (hd ranked) of [] \<Rightarrow> None
           | candidate # _ \<Rightarrow> Some (fst (hd ranked), [candidate], WholeModel, 1000)))"

fun find_whole :: "u64 \<Rightarrow> runtime_group list \<Rightarrow> (group_key \<times> runtime_candidate) option" where
  "find_whole required [] = None"
| "find_whole required ((key, candidates) # groups) =
     (case List.find (fits required) candidates of
        Some candidate \<Rightarrow> Some (key, candidate)
      | None \<Rightarrow> find_whole required groups)"

definition select_balanced :: "u64 \<Rightarrow> runtime_group list \<Rightarrow> selection" where
  "select_balanced required ranked =
     (case find_whole required ranked of
        Some (key, candidate) \<Rightarrow> (key, [candidate], WholeModel, 1000)
      | None \<Rightarrow> (fst (hd ranked), snd (hd ranked), Pipeline, 1000))"

fun select_runtime :: "compute_strategy \<Rightarrow> u64 \<Rightarrow> runtime_group list \<Rightarrow> selection option" where
  "select_runtime MaximumModelSize required ranked = Some (select_maximum_model_size ranked)"
| "select_runtime SpeedBoost required ranked = Some (select_speed_boost required ranked)"
| "select_runtime MaximumThroughput required ranked = Some (select_maximum_throughput required ranked)"
| "select_runtime Efficiency required ranked = select_efficiency required ranked"
| "select_runtime AutonomousBalanced required ranked = Some (select_balanced required ranked)"

section \<open>From a selection to a plan\<close>

definition maximum_supported :: "model_parallelism \<Rightarrow> runtime_candidate list \<Rightarrow> u64" where
  "maximum_supported parallelism selected =
     (if parallelism = Replica then foldr max (map rn_available_bytes selected) 0
      else candidate_total selected)"

definition capacity_fits :: "model_parallelism \<Rightarrow> u64 \<Rightarrow> runtime_candidate list \<Rightarrow> bool" where
  "capacity_fits parallelism required selected =
     (if parallelism = Replica \<or> parallelism = WholeModel then list_ex (fits required) selected
      else if parallelism = Tensor
      then list_all (fits (div_ceil required (of_nat (max (length selected) 1)))) selected
      else maximum_supported parallelism selected \<ge> required)"

definition plan_distributed :: "model_parallelism \<Rightarrow> runtime_candidate list \<Rightarrow> bool" where
  "plan_distributed parallelism selected = (length selected > 1 \<and> parallelism \<noteq> Replica)"

definition plan_qualified :: "model_parallelism \<Rightarrow> runtime_candidate list \<Rightarrow> bool" where
  "plan_qualified parallelism selected =
     (if plan_distributed parallelism selected
      then list_all (\<lambda>c. is_qualified_for_distributed (rn_runtime c) \<and> topology_ready c) selected
      else list_all (\<lambda>c. mr_status (rn_runtime c) = ShippedLocal \<or> mr_status (rn_runtime c) = RuntimeQualified)
             selected)"

definition model_placement :: "string \<Rightarrow> nat \<times> runtime_candidate \<Rightarrow> u64 \<Rightarrow> model_node_placement" where
  "model_placement role ic assigned =
     \<lparr>mp_node_id = ro_node_id (rn_offer (snd ic)), mp_rank = of_nat (fst ic), mp_assigned_bytes = assigned,
      mp_available_model_bytes = rn_available_bytes (snd ic), mp_role = role,
      mp_topology_confidence = topology_confidence (rn_offer (snd ic))\<rparr>"

definition plan_placements ::
  "model_parallelism \<Rightarrow> u64 \<Rightarrow> runtime_candidate list \<Rightarrow> model_node_placement list" where
  "plan_placements parallelism required selected =
     (if parallelism = Replica
      then map (\<lambda>ic. model_placement ''replica'' ic required)
             (filter (\<lambda>ic. fits required (snd ic)) (enumerate 0 selected))
      else if parallelism = Tensor
      then map (\<lambda>ic. model_placement (if fst ic = 0 then ''coordinator_rank'' else ''tensor_rank'') ic
                (div_ceil required (of_nat (max (length selected) 1))))
             (enumerate 0 selected)
      else allocate_pipeline selected required)"

text \<open>\<open>{:.2}\<close> of a number of thousandths: every predicted speedup is a multiple of 50.\<close>

definition show_milli :: "u64 \<Rightarrow> string" where
  "show_milli w = (let h = unat w mod 1000 div 10 in
     dec_nat (unat w div 1000) @ ''.'' @ dec_nat (h div 10) @ dec_nat (h mod 10))"

definition plan_reason :: "compute_strategy \<Rightarrow> model_plan_state \<Rightarrow> bool \<Rightarrow> u64 \<Rightarrow> string" where
  "plan_reason strategy state distributed speedup =
     (case state of
        CapacityBlocked \<Rightarrow> ''No compatible placement can fit the requested model and KV cache.''
      | QualificationRequired \<Rightarrow> ''The capacity fits in theory, but backend or topology evidence is incomplete.''
      | Ready \<Rightarrow> (case strategy of
            MaximumModelSize \<Rightarrow> ''Largest compatible qualified memory group selected for model fit.''
          | SpeedBoost \<Rightarrow>
              if distributed
              then ''Low-latency tensor group passed the conservative '' @ show_milli speedup @ ''x speedup gate.''
              else ''Fastest safe whole-model node selected; slower links were excluded.''
          | MaximumThroughput \<Rightarrow>
              ''Independent whole-model replicas selected for concurrent request throughput.''
          | Efficiency \<Rightarrow> ''Smallest qualified whole-model placement that fits was selected.''
          | AutonomousBalanced \<Rightarrow>
              ''A qualified whole-model placement was preferred before distributed complexity.''))"

definition no_runtime_plan :: "model_session_request \<Rightarrow> u64 \<Rightarrow> model_session_plan" where
  "no_runtime_plan request observed =
     \<lparr>pl_schema = model_session_plan_SCHEMA, pl_session_id = ms_session_id request,
      pl_strategy = ms_strategy request, pl_state = CapacityBlocked, pl_backend = None,
      pl_parallelism = None, pl_distributed = False, pl_required_bytes = required_bytes request,
      pl_observed_fabric_bytes = observed, pl_maximum_supported_bytes = 0,
      pl_predicted_speedup_milli = 1000, pl_placements = [],
      pl_blockers = [''No signed model runtime profiles are advertised; install or qualify a governed backend bundle.''],
      pl_warnings = (if observed > 0 then [''Raw RAM/VRAM is visible, but memory is not combinable without one compatible distributed runtime.''] else []),
      pl_proposed_local_endpoint = None, pl_execution_authority = ''none_preview_only'',
      pl_reason = ''The fabric has resources but no compatible model runtime group.''\<rparr>"

definition plan_of_selection :: "model_session_request \<Rightarrow> u64 \<Rightarrow> selection \<Rightarrow> model_session_plan" where
  "plan_of_selection request observed selection =
     (let (key, selected, parallelism, speedup) = selection;
          required = required_bytes request;
          supported = maximum_supported parallelism selected;
          fit = capacity_fits parallelism required selected;
          distributed = plan_distributed parallelism selected;
          qualified = plan_qualified parallelism selected;
          state = (if \<not> fit then CapacityBlocked else if qualified then Ready else QualificationRequired)
      in \<lparr>pl_schema = model_session_plan_SCHEMA, pl_session_id = ms_session_id request,
          pl_strategy = ms_strategy request, pl_state = state, pl_backend = Some (fst key),
          pl_parallelism = Some parallelism, pl_distributed = distributed, pl_required_bytes = required,
          pl_observed_fabric_bytes = observed, pl_maximum_supported_bytes = supported,
          pl_predicted_speedup_milli = speedup,
          pl_placements = plan_placements parallelism required
            (if parallelism = WholeModel then take 1 selected else selected),
          pl_blockers =
            (if \<not> fit then [''The best compatible runtime group exposes '' @ show_u64 supported
               @ '' bytes, below the requested '' @ show_u64 required @ '' bytes.''] else [])
            @ (if distributed \<and> \<not> qualified then [''Distributed launch is fenced until every selected runtime and measured topology has a valid qualification digest.''] else []),
          pl_warnings =
            (if ms_strategy request = SpeedBoost \<and> speedup = 1000 then [''No distributed topology cleared the speedup gate; the plan avoids claiming that more nodes are faster.''] else [])
            @ (if parallelism = Replica then [''Replica placement increases concurrent throughput; it does not make one model request faster or larger.''] else []),
          pl_proposed_local_endpoint = None, pl_execution_authority = ''none_preview_only'',
          pl_reason = plan_reason (ms_strategy request) state distributed speedup\<rparr>)"

definition plan_model_session ::
  "model_session_request \<Rightarrow> resource_offer list \<Rightarrow> datetime \<Rightarrow> model_session_plan option" where
  "plan_model_session request offers now =
     (let live_offers = filter (session_live_offer now) offers;
          observed = sum_list (map observed_model_memory live_offers);
          groups = runtime_groups (ms_max_nodes request) live_offers
      in if groups = [] then Some (no_runtime_plan request observed)
         else map_option (plan_of_selection request observed)
                (select_runtime (ms_strategy request) (required_bytes request) (ranked_groups groups)))"

end
