(* ===== verification/Rampage_Session_Plans.thy ===== *)
theory Rampage_Session_Plans
  imports Rampage_Sessions Rampage_Contracts
begin

text \<open>
  Correctness of the model-session planner: how much of the model a pipeline really carries, that a
  valid request is always answered, and what a plan in state \<open>Ready\<close> promises.
\<close>

section \<open>The arithmetic of a pipeline\<close>

abbreviation avail :: "runtime_candidate \<Rightarrow> nat" where
  "avail c \<equiv> unat (rn_available_bytes c)"

abbreviation assigned :: "model_node_placement \<Rightarrow> nat" where
  "assigned p \<equiv> unat (mp_assigned_bytes p)"

definition group_bytes :: "runtime_candidate list \<Rightarrow> nat" where
  "group_bytes cs = sum_list (map avail cs)"

lemma unat_ucast_128 [simp]: "unat (ucast (x :: u64) :: 128 word) = unat x"
proof -
  have "unat x < 2 ^ 128" using unat_u64_lt [of x] by simp
  then show ?thesis by (simp add: unsigned_ucast_eq take_bit_nat_eq_self)
qed

lemma unat_proportional_share:
  assumes "a \<le> t" "0 < t"
  shows "unat (proportional_share r a t) = unat r * unat a div unat t"
proof -
  have "unat r * unat a < 2 ^ 64 * 2 ^ 64"
    by (intro mult_strict_mono unat_u64_lt) auto
  then have prod: "unat (sat_mul (ucast r) (ucast a) :: 128 word) = unat r * unat a"
    by (simp add: sat_simps)
  have "1 \<le> t" using assms(2) by (simp add: word_le_nat_alt word_less_nat_alt)
  then have t: "max t 1 = t" by (rule max_absorb1)
  have "unat r * unat a div unat t \<le> unat r"
  proof -
    have "unat r * unat a \<le> unat r * unat t" using assms(1) by (simp add: word_le_nat_alt)
    then have "unat r * unat a div unat t \<le> unat r * unat t div unat t" by (rule div_le_mono)
    then show ?thesis using assms(2) by (simp add: word_less_nat_alt)
  qed
  then have "unat r * unat a div unat t < 2 ^ 64" using unat_u64_lt [of r] by simp
  then show ?thesis
    by (simp add: proportional_share_def t unsigned_ucast_eq unat_div_distrib prod take_bit_nat_eq_self)
qed

lemma allocate_loop_shape:
  "map mp_node_id (allocate_loop r t i rem cs) = map (\<lambda>c. ro_node_id (rn_offer c)) cs"
  "map mp_available_model_bytes (allocate_loop r t i rem cs) = map rn_available_bytes cs"
  by (induction cs arbitrary: i rem) (auto simp: Let_def pipeline_placement_def)

lemma length_allocate_loop [simp]: "length (allocate_loop r t i rem cs) = length cs"
  using allocate_loop_shape(2) [of r t i rem cs] by (metis length_map)

lemma allocate_loop_le:
  "p \<in> set (allocate_loop r t i rem cs) \<Longrightarrow> mp_assigned_bytes p \<le> mp_available_model_bytes p"
  by (induction cs arbitrary: i rem) (auto simp: Let_def pipeline_placement_def min_le_iff_disj split: if_splits)

lemma allocate_loop_sum: "sum_list (map assigned (allocate_loop r t i rem cs)) \<le> unat rem"
proof (induction cs arbitrary: i rem)
  case Nil
  then show ?case by simp
next
  case (Cons c cs)
  define x where "x = (if cs = [] then min rem (rn_available_bytes c)
    else min (min (proportional_share r (rn_available_bytes c) t) (rn_available_bytes c)) rem)"
  have "x \<le> rem" by (simp add: x_def)
  then have "unat x \<le> unat rem" by (simp add: word_le_nat_alt)
  with Cons.IH [of "Suc i" "sat_sub rem x"] show ?case
    by (simp add: x_def [symmetric] Let_def pipeline_placement_def sat_simps)
qed

lemma share_step:
  fixes T :: nat
  assumes "T * m \<le> R * S + k * (T - 1)" "0 < T" "a \<le> S"
  shows "T * (m - R * a div T) \<le> R * (S - a) + Suc k * (T - 1)"
proof -
  have "R * a < T * (R * a div T) + T"
    using assms(2) by (metis add.commute mult.commute dividend_less_times_div)
  then have "R * a \<le> T * (R * a div T) + (T - 1)" using assms(2) by linarith
  moreover have "R * S = R * (S - a) + R * a" using assms(3) by (simp add: diff_mult_distrib2)
  moreover have "T * (m - R * a div T) = T * m - T * (R * a div T)" by (rule diff_mult_distrib2)
  moreover have "Suc k * (T - 1) = k * (T - 1) + (T - 1)" by simp
  ultimately show ?thesis using assms(1) by linarith
qed

lemma allocate_loop_shortfall:
  assumes "cs \<noteq> []" "0 < t" "r \<le> t" "\<forall>c\<in>set cs. rn_available_bytes c \<le> t"
    and "unat t * unat rem \<le> unat r * group_bytes cs + k * (unat t - 1)"
  shows "unat t * (unat rem - sum_list (map assigned (allocate_loop r t i rem cs)))
    \<le> (k + length cs - 1) * (unat t - 1)"
  using assms
proof (induction cs arbitrary: i rem k)
  case Nil
  then show ?case by simp
next
  case (Cons c cs)
  have t: "0 < unat t" "unat r \<le> unat t"
    using Cons.prems(2,3) by (simp_all add: word_less_nat_alt word_le_nat_alt)
  show ?case
  proof (cases "cs = []")
    case True
    have "unat t * unat rem \<le> unat t * avail c + k * (unat t - 1)"
    proof -
      have one: "group_bytes (c # cs) = avail c" using True by (simp add: group_bytes_def)
      show ?thesis using Cons.prems(5) [unfolded one] mult_le_mono1 [OF t(2), of "avail c"] by linarith
    qed
    moreover have "unat t * (unat rem - min (unat rem) (avail c)) = unat t * unat rem - unat t * min (unat rem) (avail c)"
      by (simp add: diff_mult_distrib2)
    ultimately show ?thesis using True
      by (auto simp: Let_def pipeline_placement_def min_def word_le_nat_alt diff_mult_distrib2)
  next
    case False
    let ?s = "proportional_share r (rn_available_bytes c) t"
    define x where "x = min (min ?s (rn_available_bytes c)) rem"
    have s: "unat ?s = unat r * avail c div unat t"
      using Cons.prems(2,4) by (simp add: unat_proportional_share)
    have "unat r * avail c div unat t \<le> unat t * avail c div unat t"
      using t by (intro div_le_mono mult_le_mono1)
    then have "unat ?s \<le> avail c" using s t(1) by simp
    then have x: "unat x = min (unat r * avail c div unat t) (unat rem)"
      by (auto simp: x_def min_def word_le_nat_alt s)
    have "unat t * (unat rem - unat x) \<le> unat r * group_bytes cs + Suc k * (unat t - 1)"
    proof -
      have "unat t * (unat rem - unat r * avail c div unat t)
          \<le> unat r * (group_bytes (c # cs) - avail c) + Suc k * (unat t - 1)"
        using Cons.prems(5) t(1) by (rule share_step) (simp add: group_bytes_def)
      moreover have "unat rem - unat x = unat rem - unat r * avail c div unat t" by (simp add: x)
      ultimately show ?thesis by (simp add: group_bytes_def)
    qed
    then have "unat t * (unat (sat_sub rem x) - sum_list (map assigned (allocate_loop r t (Suc i) (sat_sub rem x) cs)))
        \<le> (Suc k + length cs - 1) * (unat t - 1)"
      using Cons.IH [OF False Cons.prems(2,3), of "sat_sub rem x" "Suc k"] Cons.prems(4) by (simp add: sat_simps)
    then show ?thesis using False
      by (simp add: x_def [symmetric] Let_def pipeline_placement_def sat_simps diff_diff_eq)
  qed
qed

lemma candidate_total_nat:
  assumes "group_bytes cs < 2 ^ 64"
  shows "unat (candidate_total cs) = group_bytes cs"
  using assms
proof (induction cs)
  case Nil
  then show ?case by (simp add: candidate_total_def group_bytes_def)
next
  case (Cons c cs)
  then have "group_bytes cs < 2 ^ 64" by (simp add: group_bytes_def)
  with Cons show ?case
    by (simp add: candidate_total_def group_bytes_def unat_word_ariths)
qed

lemma avail_le_group: "c \<in> set cs \<Longrightarrow> avail c \<le> group_bytes cs"
  by (auto simp: group_bytes_def intro: member_le_sum_list)

lemma allocate_pipeline_shortfall:
  assumes "cs \<noteq> []" "group_bytes cs < 2 ^ 64" "unat r \<le> group_bytes cs"
  shows "unat r < sum_list (map assigned (allocate_pipeline cs r)) + length cs"
proof (cases "group_bytes cs = 0")
  case True
  with assms show ?thesis by simp
next
  case False
  let ?t = "candidate_total cs"
  let ?sum = "sum_list (map assigned (allocate_pipeline cs r))"
  have t: "unat ?t = group_bytes cs" by (rule candidate_total_nat [OF assms(2)])
  have "unat ?t * (unat r - ?sum) \<le> (0 + length cs - 1) * (unat ?t - 1)"
    unfolding allocate_pipeline_def
    by (rule allocate_loop_shortfall [OF assms(1)])
      (use False assms t avail_le_group in \<open>auto simp: word_less_nat_alt word_le_nat_alt\<close>)
  also have "\<dots> \<le> (length cs - 1) * unat ?t" by simp
  finally have "unat r - ?sum \<le> length cs - 1"
    using False t by (simp add: mult.commute)
  with assms(1) show ?thesis by (cases cs) auto
qed

section \<open>Where a selection comes from\<close>

text \<open>A candidate of a group: a runtime that a live offer advertises under the key, with the capacity
  the offer's memory leaves it.\<close>

definition candidate_of :: "resource_offer list \<Rightarrow> group_key \<Rightarrow> runtime_candidate \<Rightarrow> bool" where
  "candidate_of live key c =
     (rn_offer c \<in> set live \<and> rn_runtime c \<in> set (ro_model_runtimes (rn_offer c))
      \<and> (mr_backend (rn_runtime c), mr_compatibility_key (rn_runtime c)) = key
      \<and> mr_adapter (rn_runtime c) |\<in>| ro_adapters (rn_offer c)
      \<and> rn_available_bytes c = runtime_capacity (rn_offer c) (rn_runtime c)
      \<and> rn_available_bytes c \<noteq> 0)"

definition sound_group :: "resource_offer list \<Rightarrow> runtime_group \<Rightarrow> bool" where
  "sound_group live g = (snd g \<noteq> [] \<and> length (snd g) < 2 ^ 16
     \<and> (\<forall>c\<in>set (snd g). candidate_of live (fst g) c
          \<and> rn_available_bytes c \<le> rn_available_bytes (hd (snd g))))"

lemma offer_candidates_sound:
  "(key, c) \<in> set (offer_candidates x) \<Longrightarrow> x \<in> set live \<Longrightarrow> candidate_of live key c"
  by (auto simp: offer_candidates_def candidate_of_def)

lemma hd_of_sorted_take:
  assumes "c \<in> set (take n (sort_key (\<lambda>c. Reverse (f c)) cs))"
  shows "f c \<le> f (hd (take n (sort_key (\<lambda>c. Reverse (f c)) cs)))"
proof -
  let ?cs = "take n (sort_key (\<lambda>c. Reverse (f c)) cs)"
  have "sorted (map (\<lambda>c. Reverse (f c)) ?cs)"
    by (metis sorted_sort_key sorted_wrt_take take_map)
  with assms show ?thesis by (cases ?cs) (auto simp: less_eq_reverse_def)
qed

lemma runtime_groups_sound:
  assumes "0 < n" "g \<in> set (runtime_groups n live)"
  shows "sound_group live g"
proof -
  let ?cs = "concat (map offer_candidates live)"
  from assms(2) obtain key where key: "key \<in> fst ` set ?cs" and g: "g = (key, take (unat n)
      (sort_key (\<lambda>c. Reverse (rn_available_bytes c)) (map snd (filter (\<lambda>kc. fst kc = key) ?cs))))"
    by (auto simp: runtime_groups_def Let_def)
  have "snd g \<noteq> []"
  proof -
    have "sort_key (\<lambda>c. Reverse (rn_available_bytes c)) (map snd (filter (\<lambda>kc. fst kc = key) ?cs)) \<noteq> []"
      using key by (fastforce simp: set_empty [symmetric] simp del: set_empty)
    with assms(1) g show ?thesis by (simp add: unat_gt_0 word_neq_0_conv)
  qed
  moreover have "candidate_of live (fst g) c" if "c \<in> set (snd g)" for c
  proof -
    from that g obtain x where "x \<in> set live" "(fst g, c) \<in> set (offer_candidates x)"
      by (auto dest!: in_set_takeD)
    then show ?thesis by (rule offer_candidates_sound [rotated])
  qed
  moreover have "rn_available_bytes c \<le> rn_available_bytes (hd (snd g))" if "c \<in> set (snd g)" for c
    using that unfolding g snd_conv by (rule hd_of_sorted_take)
  moreover have "length (snd g) < 2 ^ 16"
  proof -
    have "length (snd g) \<le> unat n" using g by simp
    moreover have "unat n < 2 ^ 16" using unsigned_less [of n] by simp
    ultimately show ?thesis by linarith
  qed
  ultimately show ?thesis by (simp add: sound_group_def)
qed

lemma foldl_keeps:
  "P a \<Longrightarrow> (\<And>s x. P s \<Longrightarrow> x \<in> set xs \<Longrightarrow> P (f s x)) \<Longrightarrow> P (foldl f a xs)"
  by (induction xs arbitrary: a) auto

lemma best_single_from:
  assumes "foldl (better_single r) None gs = Some (key, c)"
  shows "\<exists>cs. (key, cs) \<in> set gs \<and> c \<in> set cs"
proof -
  have "\<forall>key c. foldl (better_single r) None gs = Some (key, c) \<longrightarrow> (\<exists>cs. (key, cs) \<in> set gs \<and> c \<in> set cs)"
  proof (rule foldl_keeps)
    fix best g
    assume "\<forall>key c. best = Some (key, c) \<longrightarrow> (\<exists>cs. (key, cs) \<in> set gs \<and> c \<in> set cs)" "g \<in> set gs"
    then show "\<forall>key c. better_single r best g = Some (key, c) \<longrightarrow> (\<exists>cs. (key, cs) \<in> set gs \<and> c \<in> set cs)"
      by (cases g) (auto simp: better_single_def split: option.splits if_splits dest!: find_SomeD)
  qed simp
  with assms show ?thesis by blast
qed

lemma best_distributed_from:
  assumes "foldl (better_distributed r) None gs = Some (key, cs, speedup)"
  shows "(key, cs) \<in> set gs"
proof -
  have "\<forall>key cs speedup. foldl (better_distributed r) None gs = Some (key, cs, speedup) \<longrightarrow> (key, cs) \<in> set gs"
  proof (rule foldl_keeps)
    fix best :: "(group_key \<times> runtime_candidate list \<times> u64) option" and g
    assume "\<forall>key cs speedup. best = Some (key, cs, speedup) \<longrightarrow> (key, cs) \<in> set gs" "g \<in> set gs"
    then show "\<forall>key cs speedup. better_distributed r best g = Some (key, cs, speedup) \<longrightarrow> (key, cs) \<in> set gs"
      by (cases g) (auto simp: better_distributed_def Let_def split: if_splits)
  qed simp
  with assms show ?thesis by blast
qed

lemma find_whole_from:
  "find_whole r gs = Some (key, c) \<Longrightarrow> \<exists>cs. (key, cs) \<in> set gs \<and> c \<in> set cs"
  by (induction gs) (auto split: option.splits dest!: find_SomeD)

text \<open>What every strategy returns: some candidates of one group; a pipeline or a tensor group takes
  the group whole.\<close>

definition selected_from :: "runtime_group list \<Rightarrow> selection \<Rightarrow> bool" where
  "selected_from gs sel = (case sel of (key, cs, par, speedup) \<Rightarrow>
     cs \<noteq> [] \<and> (\<exists>grp. (key, grp) \<in> set gs \<and> set cs \<subseteq> set grp
            \<and> (par = Pipeline \<or> par = Tensor \<longrightarrow> cs = grp)
            \<and> (par = WholeModel \<longrightarrow> cs = grp \<or> (\<exists>c. cs = [c])))
     \<and> par \<in> {WholeModel, Pipeline, Tensor, Replica})"

lemma select_speed_boost_from:
  assumes "gs \<noteq> []" "\<forall>g\<in>set gs. snd g \<noteq> []"
  shows "selected_from gs (select_speed_boost r gs)"
proof -
  have hd: "(fst (hd gs), snd (hd gs)) \<in> set gs" "snd (hd gs) \<noteq> []" using assms by simp_all
  show ?thesis
  proof (cases "foldl (better_distributed r) None gs")
    case (Some x)
    obtain key cs sp where "x = (key, cs, sp)" by (cases x)
    with Some best_distributed_from [of r gs key cs sp] assms(2) show ?thesis
      by (force simp: selected_from_def select_speed_boost_def)
  next
    case None
    then show ?thesis
      using hd best_single_from [of r gs]
      by (fastforce simp: selected_from_def select_speed_boost_def split: option.split)
  qed
qed

lemma select_throughput_from:
  assumes "gs \<noteq> []" "\<forall>g\<in>set gs. snd g \<noteq> []"
  shows "selected_from gs (select_maximum_throughput r gs)"
proof -
  let ?rs = "map (\<lambda>(key, candidates). (key, filter (fits r) candidates)) gs"
  obtain k0 g0 where k0: "hd gs = (k0, g0)" by (cases "hd gs")
  with assms hd_in_set [OF assms(1)] have hd: "(k0, g0) \<in> set gs" "g0 \<noteq> []" by auto
  have "max_by_key (\<lambda>(_, candidates). length candidates) ?rs \<noteq> None" using assms(1) by simp
  then obtain k cs where best: "max_by_key (\<lambda>(_, candidates). length candidates) ?rs = Some (k, cs)"
    by (auto simp del: max_by_key_None)
  then have "(k, cs) \<in> set ?rs" by (rule max_by_key_in)
  then obtain grp where grp: "(k, grp) \<in> set gs" "cs = filter (fits r) grp" by auto
  show ?thesis
  proof (cases "cs = []")
    case True
    then have "\<exists>sp. select_maximum_throughput r gs = (k0, g0, Replica, sp)"
      by (simp add: select_maximum_throughput_def Let_def unwrap_or_def best k0)
    with hd show ?thesis unfolding selected_from_def by auto
  next
    case False
    then have "\<exists>sp. select_maximum_throughput r gs = (k, cs, Replica, sp)"
      by (simp add: select_maximum_throughput_def Let_def unwrap_or_def best)
    moreover have "set cs \<subseteq> set grp" using grp(2) by auto
    ultimately show ?thesis using False grp(1) unfolding selected_from_def by auto
  qed
qed

lemma select_runtime_from:
  assumes "gs \<noteq> []" "\<forall>g\<in>set gs. snd g \<noteq> []"
  shows "\<exists>sel. select_runtime strategy r gs = Some sel \<and> selected_from gs sel"
proof -
  have hd: "(fst (hd gs), snd (hd gs)) \<in> set gs" "snd (hd gs) \<noteq> []" using assms by simp_all
  show ?thesis
  proof (cases strategy)
    case MaximumModelSize
    with hd show ?thesis
      by (fastforce simp: selected_from_def select_maximum_model_size_def split: prod.split)
  next
    case SpeedBoost
    with assms select_speed_boost_from show ?thesis by simp
  next
    case MaximumThroughput
    with assms select_throughput_from show ?thesis by simp
  next
    case Efficiency
    let ?all = "concat (map (\<lambda>(key, candidates). map (Pair key) (filter (fits r) candidates)) gs)"
    show ?thesis
    proof (cases "min_by_key (\<lambda>(_, candidate). rn_available_bytes candidate) ?all")
      case None
      obtain c cs where "snd (hd gs) = c # cs" using hd(2) by (cases "snd (hd gs)") auto
      with None hd(1) Efficiency show ?thesis
        by (force simp: selected_from_def select_efficiency_def simp del: min_by_key_None)
    next
      case (Some kc)
      obtain k c where kc: "kc = (k, c)" by (cases kc)
      from min_by_key_in [OF Some] kc obtain cs where "(k, cs) \<in> set gs" "c \<in> set cs" by auto
      with Some kc Efficiency show ?thesis
        by (auto simp: selected_from_def select_efficiency_def)
    qed
  next
    case AutonomousBalanced
    with hd show ?thesis
      by (fastforce simp: selected_from_def select_balanced_def split: option.split dest: find_whole_from)
  qed
qed

section \<open>What the placements carry\<close>

lemma enumerate_mem: "ic \<in> set (enumerate n cs) \<Longrightarrow> snd ic \<in> set cs"
  by (cases ic) (auto simp: in_set_enumerate_eq)

lemma allocate_loop_from:
  "p \<in> set (allocate_loop r t i rem cs) \<Longrightarrow>
     \<exists>c\<in>set cs. mp_node_id p = ro_node_id (rn_offer c) \<and> mp_available_model_bytes p = rn_available_bytes c"
  by (induction cs arbitrary: i rem) (auto simp: Let_def pipeline_placement_def)

text \<open>Every placement belongs to a selected candidate and asks for no more than it has.\<close>

lemma plan_placements_from:
  assumes "p \<in> set (plan_placements par r cs)" "par = Tensor \<Longrightarrow> capacity_fits par r cs"
  shows "\<exists>c\<in>set cs. mp_node_id p = ro_node_id (rn_offer c) \<and> mp_available_model_bytes p = rn_available_bytes c
    \<and> mp_assigned_bytes p \<le> rn_available_bytes c"
proof (cases "par = Replica \<or> par = Tensor")
  case True
  then show ?thesis using assms
    by (fastforce simp: plan_placements_def model_placement_def capacity_fits_def fits_def list_all_iff
        dest: enumerate_mem split: if_splits)
next
  case False
  with assms(1) have "p \<in> set (allocate_loop r (candidate_total cs) 0 r cs)"
    by (simp add: plan_placements_def allocate_pipeline_def)
  from allocate_loop_from [OF this] allocate_loop_le [OF this] show ?thesis by auto
qed

lemma tensor_shards_cover:
  assumes "cs \<noteq> []" "length cs < 2 ^ 16"
  shows "unat r \<le> sum_list (map assigned (plan_placements Tensor r cs))"
proof -
  let ?n = "of_nat (length cs) :: u64"
  have n: "unat ?n = length cs" using assms(2) by (simp add: unat_of_nat take_bit_nat_eq_self)
  have "?n \<noteq> 0" using assms(1) n by (metis length_0_conv unat_0)
  then have "unat (div_ceil r ?n) = (unat r + length cs - 1) div length cs"
    using n by (simp add: unat_div_ceil)
  moreover have "max (length cs) 1 = length cs" using assms(1) by (cases cs) auto
  ultimately have "map assigned (plan_placements Tensor r cs)
      = replicate (length cs) ((unat r + length cs - 1) div length cs)"
    by (simp add: plan_placements_def model_placement_def comp_def map_replicate_const)
  then have "sum_list (map assigned (plan_placements Tensor r cs))
      = length cs * ((unat r + length cs - 1) div length cs)" by (simp add: sum_list_replicate)
  moreover have "unat r \<le> (unat r + length cs - 1) div length cs * length cs"
    using assms(1) by (intro ceil_mult_ge) simp
  ultimately show ?thesis by (simp add: mult.commute)
qed

lemma whole_model_placement:
  assumes "fits r c"
  shows "map assigned (plan_placements WholeModel r [c]) = [unat r]"
  using assms by (simp add: plan_placements_def allocate_pipeline_def pipeline_placement_def fits_def min_absorb1)

text \<open>The bytes of the model the placements of a plan hold, by parallelism.\<close>

definition plan_carries :: "model_session_plan \<Rightarrow> bool" where
  "plan_carries plan =
     (let r = unat (pl_required_bytes plan); ps = pl_placements plan in
      case pl_parallelism plan of
        None \<Rightarrow> False
      | Some WholeModel \<Rightarrow> map assigned ps = [r]
      | Some Replica \<Rightarrow> list_all (\<lambda>p. assigned p = r) ps
      | Some Tensor \<Rightarrow> r \<le> sum_list (map assigned ps)
      | Some _ \<Rightarrow> r < sum_list (map assigned ps) + length ps)"

definition backed_by :: "datetime \<Rightarrow> resource_offer list \<Rightarrow> model_session_plan \<Rightarrow> model_node_placement \<Rightarrow> bool" where
  "backed_by now offers plan p =
     (\<exists>offer\<in>set offers. \<exists>runtime\<in>set (ro_model_runtimes offer).
        session_live_offer now offer \<and> mp_node_id p = ro_node_id offer
        \<and> pl_backend plan = Some (mr_backend runtime) \<and> mr_adapter runtime |\<in>| ro_adapters offer
        \<and> mp_available_model_bytes p = runtime_capacity offer runtime
        \<and> mp_assigned_bytes p \<le> mp_available_model_bytes p
        \<and> (if pl_distributed plan then is_qualified_for_distributed runtime
           else mr_status runtime = ShippedLocal \<or> mr_status runtime = RuntimeQualified))"

lemma ready_selection:
  assumes sel: "selected_from gs (key, cs, par, sp)" and gs: "\<forall>g\<in>set gs. sound_group live g"
    and wrap: "\<forall>g\<in>set gs. group_bytes (snd g) < 2 ^ 64"
    and fit: "capacity_fits par r cs"
  shows "plan_placements par r (if par = WholeModel then take 1 cs else cs) \<noteq> []
    \<and> (case par of WholeModel \<Rightarrow> map assigned (plan_placements par r (take 1 cs)) = [unat r]
       | Replica \<Rightarrow> list_all (\<lambda>p. assigned p = unat r) (plan_placements par r cs)
       | Tensor \<Rightarrow> unat r \<le> sum_list (map assigned (plan_placements par r cs))
       | _ \<Rightarrow> unat r < sum_list (map assigned (plan_placements par r cs)) + length (plan_placements par r cs))"
proof -
  from sel obtain grp where grp: "(key, grp) \<in> set gs" "set cs \<subseteq> set grp" "cs \<noteq> []"
      "par = Pipeline \<or> par = Tensor \<longrightarrow> cs = grp" "par = WholeModel \<longrightarrow> cs = grp \<or> (\<exists>c. cs = [c])"
      and par: "par \<in> {WholeModel, Pipeline, Tensor, Replica}"
    by (auto simp: selected_from_def)
  from gs grp(1) have sound: "sound_group live (key, grp)" by blast
  consider "par = WholeModel" | "par = Pipeline" | "par = Tensor" | "par = Replica" using par by blast
  then show ?thesis
  proof cases
    case 1
    then have "fits r (hd cs)" "take 1 cs = [hd cs]"
      using fit grp(3,5) sound
      by (auto simp: capacity_fits_def list_ex_iff fits_def sound_group_def hd_conv_nth take_Suc intro: order_trans)
    with 1 show ?thesis using whole_model_placement [of r "hd cs"] by (auto simp del: take_Suc)
  next
    case 2
    with grp(4) have cs: "cs = grp" by simp
    have bytes: "group_bytes cs < 2 ^ 64" using wrap grp(1) cs by force
    have "unat r \<le> group_bytes cs" using fit 2 candidate_total_nat [OF bytes]
      by (simp add: capacity_fits_def maximum_supported_def word_le_nat_alt)
    note short = allocate_pipeline_shortfall [OF grp(3) bytes this]
    have len: "length (allocate_pipeline cs r) = length cs" by (simp add: allocate_pipeline_def)
    then have "allocate_pipeline cs r \<noteq> []" using grp(3) by force
    with short len 2 show ?thesis by (simp add: plan_placements_def)
  next
    case 3
    with grp(4) have cs: "cs = grp" by simp
    from sound cs have "length cs < 2 ^ 16" by (simp add: sound_group_def)
    from tensor_shards_cover [OF grp(3) this, of r] 3 grp(3) show ?thesis
      by (auto simp: plan_placements_def enumerate_eq_zip)
  next
    case 4
    then show ?thesis using fit
      by (auto simp: plan_placements_def model_placement_def capacity_fits_def list_all_iff list_ex_iff
          filter_empty_conv in_set_conv_nth enumerate_eq_zip set_zip) blast
  qed
qed

lemma plan_backed:
  assumes sel: "selected_from gs (key, cs, par, sp)" and gs: "\<forall>g\<in>set gs. sound_group (filter (session_live_offer now) offers) g"
    and ready: "pl_state (plan_of_selection q observed (key, cs, par, sp)) = Ready"
    and p: "p \<in> set (pl_placements (plan_of_selection q observed (key, cs, par, sp)))"
  shows "backed_by now offers (plan_of_selection q observed (key, cs, par, sp)) p"
proof -
  let ?plan = "plan_of_selection q observed (key, cs, par, sp)"
  let ?r = "required_bytes q"
  from ready have fit: "capacity_fits par ?r cs" and qual: "plan_qualified par cs"
    by (simp_all add: plan_of_selection_def Let_def split: if_splits)
  let ?cs = "if par = WholeModel then take 1 cs else cs"
  have "p \<in> set (plan_placements par ?r ?cs)" using p by (simp add: plan_of_selection_def Let_def)
  then obtain c where "c \<in> set ?cs" and pc: "mp_node_id p = ro_node_id (rn_offer c)"
      "mp_available_model_bytes p = rn_available_bytes c" "mp_assigned_bytes p \<le> rn_available_bytes c"
    using plan_placements_from [of p par ?r ?cs] fit by auto
  then have c: "c \<in> set cs" by (auto split: if_splits dest: in_set_takeD)
  with sel gs have "candidate_of (filter (session_live_offer now) offers) key c"
    by (fastforce simp: selected_from_def sound_group_def)
  moreover have "if plan_distributed par cs then is_qualified_for_distributed (rn_runtime c)
      else mr_status (rn_runtime c) = ShippedLocal \<or> mr_status (rn_runtime c) = RuntimeQualified"
    using qual c by (auto simp: plan_qualified_def list_all_iff)
  ultimately show ?thesis using pc
    by (auto simp: backed_by_def candidate_of_def plan_of_selection_def Let_def
        intro!: bexI [of _ "rn_offer c"] bexI [of _ "rn_runtime c"])
qed

section \<open>Properties\<close>

text \<open>
  C34: the planner answers every valid request (it never panics), and a plan in state \<open>Ready\<close> keeps
  its promises, provided no runtime group advertises 2 to the 64 bytes of memory: there is a
  placement; every placement is on a live, powered and cool offer with a runtime of the planned
  backend, asks for no more than that runtime has, and the runtime is qualified for distribution
  when the plan is distributed; and the placements carry the model (whole, per replica, or in
  tensor shards; a pipeline may miss fewer bytes than it has stages).
\<close>

theorem ready_plan_keeps_promises:
  assumes "model_session_validate_at request now = Inr ()"
    and "\<forall>g\<in>set (runtime_groups (ms_max_nodes request) (filter (session_live_offer now) offers)).
           group_bytes (snd g) < 2 ^ 64"
  shows "\<exists>plan. plan_model_session request offers now = Some plan
    \<and> (pl_state plan = Ready \<longrightarrow>
         pl_placements plan \<noteq> [] \<and> list_all (backed_by now offers plan) (pl_placements plan) \<and> plan_carries plan)"
proof -
  let ?live = "filter (session_live_offer now) offers"
  let ?gs = "runtime_groups (ms_max_nodes request) ?live"
  have "0 < ms_max_nodes request"
    using assms(1) by (auto simp: model_session_validate_at_def word_gt_0 split: if_splits)
  then have sound: "\<forall>g\<in>set (ranked_groups ?gs). sound_group ?live g"
    by (auto simp: ranked_groups_def intro: runtime_groups_sound)
  have wrap: "\<forall>g\<in>set (ranked_groups ?gs). group_bytes (snd g) < 2 ^ 64"
    using assms(2) by (simp add: ranked_groups_def)
  show ?thesis
  proof (cases "?gs = []")
    case True
    then show ?thesis by (simp add: plan_model_session_def no_runtime_plan_def Let_def)
  next
    case False
    then have "ranked_groups ?gs \<noteq> []" by (metis ranked_groups_def length_0_conv length_sort)
    from select_runtime_from [OF this, of "ms_strategy request" "required_bytes request"] sound
    obtain key cs par sp where sel: "select_runtime (ms_strategy request) (required_bytes request) (ranked_groups ?gs)
        = Some (key, cs, par, sp)" and from_: "selected_from (ranked_groups ?gs) (key, cs, par, sp)"
      by (auto simp: sound_group_def)
    let ?plan = "plan_of_selection request (sum_list (map observed_model_memory ?live)) (key, cs, par, sp)"
    have plan: "plan_model_session request offers now = Some ?plan"
      using False sel by (simp add: plan_model_session_def Let_def)
    have "pl_placements ?plan \<noteq> [] \<and> list_all (backed_by now offers ?plan) (pl_placements ?plan) \<and> plan_carries ?plan"
      if ready: "pl_state ?plan = Ready"
    proof -
      from ready have fit: "capacity_fits par (required_bytes request) cs"
        by (simp add: plan_of_selection_def Let_def split: if_splits)
      have "par \<in> {WholeModel, Pipeline, Tensor, Replica}" using from_ by (simp add: selected_from_def)
      then have "pl_placements ?plan \<noteq> [] \<and> plan_carries ?plan"
        using ready_selection [OF from_ sound wrap fit]
        by (auto simp: plan_of_selection_def plan_carries_def Let_def)
      with plan_backed [OF from_ sound ready] show ?thesis by (simp add: list_all_iff)
    qed
    with plan show ?thesis by blast
  qed
qed

text \<open>
  How a pipeline splits a model. Over candidates whose memory holds the model, the stages are
  the candidates in order, each within its memory; together they hold at most the model, and the
  bytes that the rounding of the shares leaves unassigned are fewer than the stages.
\<close>

theorem pipeline_split_bounds:
  assumes "candidates \<noteq> []" and "group_bytes candidates < 2 ^ 64"
    and "unat required \<le> group_bytes candidates"
  shows "map mp_node_id (allocate_pipeline candidates required) = map (\<lambda>c. ro_node_id (rn_offer c)) candidates
    \<and> list_all2 (\<lambda>p c. mp_assigned_bytes p \<le> rn_available_bytes c) (allocate_pipeline candidates required) candidates
    \<and> sum_list (map assigned (allocate_pipeline candidates required)) \<le> unat required
    \<and> unat required < sum_list (map assigned (allocate_pipeline candidates required)) + length candidates"
proof -
  have "list_all2 (\<lambda>p c. mp_assigned_bytes p \<le> rn_available_bytes c)
      (allocate_loop required t i rem cs) cs" for t i rem cs
    by (induction cs arbitrary: i rem) (auto simp: Let_def pipeline_placement_def min_le_iff_disj)
  then show ?thesis
    using allocate_loop_shape(1) allocate_loop_sum allocate_pipeline_shortfall [OF assms]
    by (auto simp: allocate_pipeline_def)
qed

section \<open>A concrete fabric\<close>

definition demo_runtime :: "model_backend \<Rightarrow> model_parallelism \<Rightarrow> model_runtime_status \<Rightarrow> u64 \<Rightarrow> model_runtime_offer" where
  "demo_runtime backend par status n = \<lparr>mr_schema = model_runtime_offer_SCHEMA, mr_adapter = ''rt'',
     mr_backend = backend, mr_runtime_version = ''1'', mr_runtime_digest = ''sha256:'' @ replicate 64 CHR ''a'',
     mr_compatibility_key = ''k'', mr_memory_kind = Host, mr_available_model_bytes = n,
     mr_supported_parallelism = {|par|}, mr_status = status, mr_installed_models = [],
     mr_certification_digest = Some (''sha256:'' @ replicate 64 CHR ''b'')\<rparr>"

definition demo_node :: "uuid \<Rightarrow> model_runtime_offer \<Rightarrow> resource_offer" where
  "demo_node node runtime = \<lparr>ro_schema = ''rampage.resource-offer.v1'', ro_offer_id = 3, ro_node_id = node,
     ro_observed_at = 0, ro_expires_at = 100,
     ro_resources = [\<lparr>rq_class = RamWorkingSet, rq_capacity = 1000, rq_available = 1000, rq_unit = ''byte'',
       rq_labels = fmempty\<rparr>],
     ro_availability = \<lparr>av_on_ac_power = True, av_battery_percent = None,
       av_thermal_headroom_percent = 50, av_foreground_allowed = True, av_owner_idle = True\<rparr>,
     ro_adapters = {|''rt''|}, ro_workload_capabilities = [], ro_model_runtimes = [runtime],
     ro_link_benchmark = None, ro_mesh_endpoint = None, ro_signature = ''s''\<rparr>"

definition demo_session :: "u64 \<Rightarrow> model_session_request" where
  "demo_session n = \<lparr>ms_schema = model_session_request_SCHEMA, ms_session_id = 1, ms_model_id = ''m'',
     ms_estimated_weight_bytes = n, ms_kv_cache_bytes = 0, ms_context_tokens = 1,
     ms_strategy = AutonomousBalanced, ms_max_nodes = 4, ms_deadline = 100, ms_idempotency_key = ''k''\<rparr>"

lemma demo_offer_candidates:
  assumes "0 < n" "n \<le> 1000"
  shows "offer_candidates (demo_node node (demo_runtime b par st n)) =
    [((b, ''k''), \<lparr>rn_offer = demo_node node (demo_runtime b par st n), rn_runtime = demo_runtime b par st n,
        rn_available_bytes = n\<rparr>)]"
  using assms by (auto simp: offer_candidates_def demo_node_def demo_runtime_def runtime_capacity_def
      resource_available_def min_def)

lemma demo_live: "session_live_offer 0 (demo_node node runtime)"
  by (simp add: session_live_offer_def demo_node_def)

lemma demo_session_simps: "required_bytes (demo_session n) = n" "ms_max_nodes (demo_session n) = 4"
    "ms_strategy (demo_session n) = AutonomousBalanced"
  by (simp_all add: demo_session_def required_bytes_def)

lemma demo_session_valid: "model_session_validate_at (demo_session 100) 0 = Inr ()"
  by (simp add: model_session_validate_at_def demo_session_def required_bytes_def protocol_limits ws1_def byte_def)

theorem ready_plan_keeps_promises_witness:
  "\<exists>plan. plan_model_session (demo_session 100) [demo_node 7 (demo_runtime LocalOllama WholeModel ShippedLocal 500)] 0 = Some plan
     \<and> pl_state plan = Ready \<and> pl_placements plan \<noteq> []
     \<and> list_all (backed_by 0 [demo_node 7 (demo_runtime LocalOllama WholeModel ShippedLocal 500)] plan) (pl_placements plan)
     \<and> plan_carries plan"
proof -
  let ?o = "demo_node 7 (demo_runtime LocalOllama WholeModel ShippedLocal 500)"
  let ?c = "\<lparr>rn_offer = ?o, rn_runtime = demo_runtime LocalOllama WholeModel ShippedLocal 500,
      rn_available_bytes = (500 :: u64)\<rparr>"
  have groups: "runtime_groups 4 [?o] = [((LocalOllama, ''k''), [?c])]"
    by (simp add: runtime_groups_def demo_offer_candidates)
  have "plan_model_session (demo_session 100) [?o] 0 =
      Some (plan_of_selection (demo_session 100) (observed_model_memory ?o) ((LocalOllama, ''k''), [?c], WholeModel, 1000))"
    by (simp add: plan_model_session_def Let_def demo_session_simps groups demo_live
        ranked_groups_def select_balanced_def fits_def)
  moreover have "pl_state (plan_of_selection (demo_session 100) (observed_model_memory ?o)
      ((LocalOllama, ''k''), [?c], WholeModel, 1000)) = Ready"
    by (simp add: plan_of_selection_def Let_def demo_session_simps capacity_fits_def fits_def
        plan_qualified_def plan_distributed_def demo_runtime_def)
  moreover have "\<exists>plan. plan_model_session (demo_session 100) [?o] 0 = Some plan
    \<and> (pl_state plan = Ready \<longrightarrow>
         pl_placements plan \<noteq> [] \<and> list_all (backed_by 0 [?o] plan) (pl_placements plan) \<and> plan_carries plan)"
    using groups by (intro ready_plan_keeps_promises demo_session_valid) (simp add: demo_session_simps demo_live group_bytes_def)
  ultimately show ?thesis by auto
qed

definition demo_stage :: "u64 \<Rightarrow> runtime_candidate" where
  "demo_stage n = \<lparr>rn_offer = demo_node 7 (demo_runtime ExoMlx Pipeline RuntimeQualified n),
     rn_runtime = demo_runtime ExoMlx Pipeline RuntimeQualified n, rn_available_bytes = n\<rparr>"

lemma demo_stage_bytes [simp]: "rn_available_bytes (demo_stage n) = n" "ro_node_id (rn_offer (demo_stage n)) = 7"
  by (simp_all add: demo_stage_def demo_node_def)

theorem pipeline_split_bounds_witness:
  "unat (50 :: u64) \<le> group_bytes [demo_stage 40, demo_stage 20]
   \<and> sum_list (map assigned (allocate_pipeline [demo_stage 40, demo_stage 20] 50)) \<le> 50
   \<and> 50 < sum_list (map assigned (allocate_pipeline [demo_stage 40, demo_stage 20] 50)) + 2"
proof -
  have "group_bytes [demo_stage 40, demo_stage 20] = 60" by (simp add: group_bytes_def)
  then show ?thesis using pipeline_split_bounds [of "[demo_stage 40, demo_stage 20]" 50] by simp
qed

text \<open>
  A pipeline that fits can lose bytes of the model. Three stages of one byte hold three bytes, so
  a model of two fits; but the rounded shares of the first two stages are zero and the last stage
  takes one byte: the split leaves one byte of the model without a stage.
\<close>

theorem pipeline_split_loses_bytes:
  "\<exists>cs required. unat required \<le> group_bytes cs \<and> capacity_fits Pipeline required cs
     \<and> sum_list (map assigned (allocate_pipeline cs required)) < unat required"
proof -
  let ?cs = "[demo_stage 1, demo_stage 1, demo_stage 1]"
  have total: "candidate_total ?cs = 3" by (simp add: candidate_total_def)
  have "proportional_share 2 1 3 = 0"
    by (simp add: proportional_share_def sat_mul_def max_def word_le_nat_alt)
  then have "sum_list (map assigned (allocate_pipeline ?cs 2)) = 1"
    by (simp add: allocate_pipeline_def total Let_def pipeline_placement_def min_def sat_sub_def word_le_nat_alt)
  moreover have "unat (2 :: u64) \<le> group_bytes ?cs" by (simp add: group_bytes_def)
  moreover have "capacity_fits Pipeline 2 ?cs"
    by (simp add: capacity_fits_def maximum_supported_def total)
  ultimately show ?thesis by (intro exI [of _ ?cs] exI [of _ 2]) simp
qed

text \<open>
  The balanced strategy plans pipelines that no runtime supports. When no single node holds the
  model, it falls back to \<open>Pipeline\<close> without looking at \<open>supported_parallelism\<close>; two qualified
  runtimes that support tensor parallelism only give a plan in state \<open>Ready\<close>.
\<close>

theorem balanced_plans_unsupported_pipeline:
  "\<exists>request offers plan. model_session_validate_at request 0 = Inr ()
     \<and> plan_model_session request offers 0 = Some plan
     \<and> pl_state plan = Ready \<and> pl_parallelism plan = Some Pipeline
     \<and> list_all (\<lambda>offer. list_all (\<lambda>r. mr_supported_parallelism r = {|Tensor|}) (ro_model_runtimes offer)) offers"
proof -
  let ?rt = "demo_runtime VllmRay Tensor RuntimeQualified 60"
  let ?c = "\<lambda>n. \<lparr>rn_offer = demo_node n ?rt, rn_runtime = ?rt, rn_available_bytes = (60 :: u64)\<rparr>"
  let ?os = "[demo_node 7 ?rt, demo_node 8 ?rt]"
  have groups: "runtime_groups 4 ?os = [((VllmRay, ''k''), [?c 7, ?c 8])]"
    by (simp add: runtime_groups_def demo_offer_candidates)
  let ?plan = "plan_of_selection (demo_session 100) (sum_list (map observed_model_memory ?os))
      ((VllmRay, ''k''), [?c 7, ?c 8], Pipeline, 1000)"
  have "plan_model_session (demo_session 100) ?os 0 = Some ?plan"
    by (simp add: plan_model_session_def Let_def demo_session_simps groups demo_live
        ranked_groups_def select_balanced_def fits_def)
  moreover have "capacity_fits Pipeline 100 [?c 7, ?c 8]"
    by (simp add: capacity_fits_def maximum_supported_def candidate_total_def)
  moreover have "plan_qualified Pipeline [?c 7, ?c 8]"
    by (simp add: plan_qualified_def plan_distributed_def is_qualified_for_distributed_def demo_runtime_def
        is_sha256_digest_def is_lower_hex_digit_def topology_ready_def demo_node_def byte_def ws1_def
        strip_prefix_def)
  ultimately show ?thesis using demo_session_valid
    by (intro exI [of _ "demo_session 100"] exI [of _ ?os] exI [of _ ?plan])
      (simp add: plan_of_selection_def Let_def demo_session_simps demo_node_def demo_runtime_def)
qed

end
