(* ===== verification/Rampage_Net.thy ===== *)
theory Rampage_Net
  imports Rampage_Prelude
begin

text \<open>
  The parts of Rust's \<open>std::net\<close> the mesh and the relay use: IP and socket addresses, the textual
  parser behind \<open>str::parse\<close> (greedy numbers with a digit limit, no leading zero in an IPv4 octet,
  one \<open>::\<close> in an IPv6 address, an embedded IPv4 tail, a scope id in brackets), and the address
  classes.
\<close>

datatype ip_addr = V4 u8 u8 u8 u8 | V6 "u16 list"

record socket_addr =
  sa_ip :: ip_addr
  sa_scope_id :: u32
  sa_port :: u16

fun is_loopback :: "ip_addr \<Rightarrow> bool" where
  "is_loopback (V4 a b c d) = (a = 127)"
| "is_loopback (V6 gs) = (gs = [0, 0, 0, 0, 0, 0, 0, 1])"

fun is_unspecified :: "ip_addr \<Rightarrow> bool" where
  "is_unspecified (V4 a b c d) = (a = 0 \<and> b = 0 \<and> c = 0 \<and> d = 0)"
| "is_unspecified (V6 gs) = (gs = [0, 0, 0, 0, 0, 0, 0, 0])"

fun is_link_local_v4 :: "ip_addr \<Rightarrow> bool" where
  "is_link_local_v4 (V4 a b c d) = (a = 169 \<and> b = 254)"
| "is_link_local_v4 (V6 gs) = False"

section \<open>The address parser\<close>

type_synonym 'a parser = "string \<Rightarrow> ('a \<times> string) option"

definition digit_value :: "nat \<Rightarrow> char \<Rightarrow> nat option" where
  "digit_value radix c =
     (let b = byte c;
          v = (if 48 \<le> b \<and> b \<le> 57 then Some (b - 48)
               else if 97 \<le> b \<and> b \<le> 122 then Some (b - 87)
               else if 65 \<le> b \<and> b \<le> 90 then Some (b - 55) else None)
      in case v of None \<Rightarrow> None | Some n \<Rightarrow> if n < radix then Some n else None)"

definition digits_value :: "nat \<Rightarrow> string \<Rightarrow> nat" where
  "digits_value radix ds =
     foldl (\<lambda>n c. n * radix + (case digit_value radix c of None \<Rightarrow> 0 | Some d \<Rightarrow> d)) 0 ds"

text \<open>\<open>read_number\<close>: all leading digits; \<open>None\<close> for \<open>max_digits\<close> is no limit, and \<open>bound\<close> is the
  largest value of the integer type.\<close>

definition read_number :: "nat \<Rightarrow> nat option \<Rightarrow> bool \<Rightarrow> nat \<Rightarrow> nat parser" where
  "read_number radix max_digits allow_zero_prefix bound s =
     (let ds = takeWhile (\<lambda>c. digit_value radix c \<noteq> None) s in
      if ds = [] \<or> (case max_digits of None \<Rightarrow> False | Some m \<Rightarrow> m < length ds)
         \<or> (\<not> allow_zero_prefix \<and> hd ds = CHR ''0'' \<and> 1 < length ds)
         \<or> bound < digits_value radix ds
      then None else Some (digits_value radix ds, drop (length ds) s))"

definition read_given_char :: "char \<Rightarrow> unit parser" where
  "read_given_char c s = (case s of [] \<Rightarrow> None | d # r \<Rightarrow> if d = c then Some ((), r) else None)"

definition read_separator :: "char \<Rightarrow> nat \<Rightarrow> 'a parser \<Rightarrow> 'a parser" where
  "read_separator sep index inner s =
     (if 0 < index then (case read_given_char sep s of None \<Rightarrow> None | Some (_, r) \<Rightarrow> inner r) else inner s)"

definition read_octet :: "nat parser" where
  "read_octet = read_number 10 (Some 3) False 255"

definition read_ipv4_addr :: "ip_addr parser" where
  "read_ipv4_addr s =
     (case read_separator CHR ''.'' 0 read_octet s of None \<Rightarrow> None | Some (a, s) \<Rightarrow>
     (case read_separator CHR ''.'' 1 read_octet s of None \<Rightarrow> None | Some (b, s) \<Rightarrow>
     (case read_separator CHR ''.'' 2 read_octet s of None \<Rightarrow> None | Some (c, s) \<Rightarrow>
     (case read_separator CHR ''.'' 3 read_octet s of None \<Rightarrow> None | Some (d, s) \<Rightarrow>
        Some (V4 (of_nat a) (of_nat b) (of_nat c) (of_nat d), s)))))"

text \<open>The two groups of an embedded IPv4 address.\<close>

fun v4_groups :: "ip_addr \<Rightarrow> u16 list" where
  "v4_groups (V4 a b c d) = [ucast a * 256 + ucast b, ucast c * 256 + ucast d]"
| "v4_groups (V6 gs) = []"

text \<open>\<open>read_groups\<close> fills at most \<open>limit\<close> groups, \<open>fuel\<close> of which are left; the flag says that the
  last two came from an IPv4 address.\<close>

fun read_groups :: "nat \<Rightarrow> nat \<Rightarrow> u16 list \<Rightarrow> string \<Rightarrow> (u16 list \<times> bool) \<times> string" where
  "read_groups limit 0 gs s = ((gs, False), s)"
| "read_groups limit (Suc fuel) gs s =
     (case (if length gs < limit - 1 then read_separator CHR '':'' (length gs) read_ipv4_addr s else None) of
        Some (v4, r) \<Rightarrow> ((gs @ v4_groups v4, True), r)
      | None \<Rightarrow>
         (case read_separator CHR '':'' (length gs) (read_number 16 (Some 4) True 65535) s of
            Some (g, r) \<Rightarrow> read_groups limit fuel (gs @ [of_nat g]) r
          | None \<Rightarrow> ((gs, False), s)))"

definition read_ipv6_addr :: "ip_addr parser" where
  "read_ipv6_addr s =
     (case read_groups 8 8 [] s of ((head, head_ipv4), r) \<Rightarrow>
        if length head = 8 then Some (V6 head, r)
        else if head_ipv4 then None
        else (case read_given_char CHR '':'' r of None \<Rightarrow> None | Some (_, r) \<Rightarrow>
             (case read_given_char CHR '':'' r of None \<Rightarrow> None | Some (_, r) \<Rightarrow>
                let limit = 8 - (length head + 1) in
                (case read_groups limit limit [] r of ((tail, _), r) \<Rightarrow>
                   Some (V6 (head @ replicate (8 - length head - length tail) 0 @ tail), r)))))"

definition read_ip_addr :: "ip_addr parser" where
  "read_ip_addr s = (case read_ipv4_addr s of Some x \<Rightarrow> Some x | None \<Rightarrow> read_ipv6_addr s)"

definition read_port :: "nat parser" where
  "read_port s = (case read_given_char CHR '':'' s of None \<Rightarrow> None
     | Some (_, r) \<Rightarrow> read_number 10 None True 65535 r)"

definition read_scope_id :: "nat parser" where
  "read_scope_id s = (case read_given_char CHR ''%'' s of None \<Rightarrow> None
     | Some (_, r) \<Rightarrow> read_number 10 None True 4294967295 r)"

definition read_socket_addr_v4 :: "socket_addr parser" where
  "read_socket_addr_v4 s =
     (case read_ipv4_addr s of None \<Rightarrow> None | Some (ip, r) \<Rightarrow>
     (case read_port r of None \<Rightarrow> None | Some (port, r) \<Rightarrow>
        Some (\<lparr>sa_ip = ip, sa_scope_id = 0, sa_port = of_nat port\<rparr>, r)))"

definition read_socket_addr_v6 :: "socket_addr parser" where
  "read_socket_addr_v6 s =
     (case read_given_char CHR ''['' s of None \<Rightarrow> None | Some (_, r) \<Rightarrow>
     (case read_ipv6_addr r of None \<Rightarrow> None | Some (ip, r) \<Rightarrow>
       (case (case read_scope_id r of None \<Rightarrow> (0, r) | Some x \<Rightarrow> x) of (scope, r) \<Rightarrow>
       (case read_given_char CHR '']'' r of None \<Rightarrow> None | Some (_, r) \<Rightarrow>
       (case read_port r of None \<Rightarrow> None | Some (port, r) \<Rightarrow>
          Some (\<lparr>sa_ip = ip, sa_scope_id = of_nat scope, sa_port = of_nat port\<rparr>, r))))))"

definition read_socket_addr :: "socket_addr parser" where
  "read_socket_addr s = (case read_socket_addr_v4 s of Some x \<Rightarrow> Some x | None \<Rightarrow> read_socket_addr_v6 s)"

text \<open>\<open>parse_with\<close> accepts only when the whole text is read.\<close>

definition parse_with :: "'a parser \<Rightarrow> string \<Rightarrow> 'a option" where
  "parse_with p s = (case p s of Some (x, []) \<Rightarrow> Some x | _ \<Rightarrow> None)"

definition parse_ip :: "string \<Rightarrow> ip_addr option" where
  "parse_ip = parse_with read_ip_addr"

definition parse_socket_addr :: "string \<Rightarrow> socket_addr option" where
  "parse_socket_addr = parse_with read_socket_addr"

end
