(* ===== verification/Rampage_Text.thy ===== *)
theory Rampage_Text
  imports Rampage_Protocol
begin

text \<open>
  Text and JSON as the Rust standard library and \<open>serde_json\<close> read them, on the UTF-8 bytes of a
  string: trimming, well-formedness, separators, decimal and UUID parsing, and the accessors of
  \<open>serde_json::Value\<close>.
\<close>

section \<open>Text\<close>

fun trim_start :: "string \<Rightarrow> string" where
  "trim_start (a # b # c # s) =
     (if ws1 (byte a) then trim_start (b # c # s)
      else if ws2 (byte a) (byte b) then trim_start (c # s)
      else if ws3 (byte a) (byte b) (byte c) then trim_start s else a # b # c # s)"
| "trim_start [a, b] =
     (if ws1 (byte a) then trim_start [b] else if ws2 (byte a) (byte b) then [] else [a, b])"
| "trim_start [a] = (if ws1 (byte a) then [] else [a])"
| "trim_start [] = []"

text \<open>On the reversed bytes, the same scan from the end.\<close>

fun trim_end_rev :: "string \<Rightarrow> string" where
  "trim_end_rev (c # b # a # s) =
     (if ws1 (byte c) then trim_end_rev (b # a # s)
      else if ws2 (byte b) (byte c) then trim_end_rev (a # s)
      else if ws3 (byte a) (byte b) (byte c) then trim_end_rev s else c # b # a # s)"
| "trim_end_rev [c, b] =
     (if ws1 (byte c) then trim_end_rev [b] else if ws2 (byte b) (byte c) then [] else [c, b])"
| "trim_end_rev [c] = (if ws1 (byte c) then [] else [c])"
| "trim_end_rev [] = []"

definition trim :: "string \<Rightarrow> string" where
  "trim s = trim_start (rev (trim_end_rev (rev s)))"

text \<open>Well-formed UTF-8 (\<open>String::from_utf8\<close>), by the table of the Unicode standard.\<close>

definition cont :: "char \<Rightarrow> bool" where
  "cont c = (128 \<le> byte c \<and> byte c \<le> 191)"

fun utf8_ok :: "string \<Rightarrow> bool" where
  "utf8_ok [] = True"
| "utf8_ok (a # s) =
     (if byte a < 128 then utf8_ok s
      else if 194 \<le> byte a \<and> byte a \<le> 223
      then (case s of b # s' \<Rightarrow> cont b \<and> utf8_ok s' | _ \<Rightarrow> False)
      else if 224 \<le> byte a \<and> byte a \<le> 239
      then (case s of b # c # s' \<Rightarrow>
              (if byte a = 224 then 160 \<le> byte b \<and> byte b \<le> 191
               else if byte a = 237 then 128 \<le> byte b \<and> byte b \<le> 159 else cont b)
              \<and> cont c \<and> utf8_ok s' | _ \<Rightarrow> False)
      else if 240 \<le> byte a \<and> byte a \<le> 244
      then (case s of b # c # d # s' \<Rightarrow>
              (if byte a = 240 then 144 \<le> byte b \<and> byte b \<le> 191
               else if byte a = 244 then 128 \<le> byte b \<and> byte b \<le> 143 else cont b)
              \<and> cont c \<and> cont d \<and> utf8_ok s' | _ \<Rightarrow> False)
      else False)"

definition trim_start_char :: "char \<Rightarrow> string \<Rightarrow> string" where
  "trim_start_char c s = dropWhile (\<lambda>d. d = c) s"

definition trim_end_char :: "char \<Rightarrow> string \<Rightarrow> string" where
  "trim_end_char c s = rev (dropWhile (\<lambda>d. d = c) (rev s))"

section \<open>Separators and numbers\<close>

text \<open>\<open>str::split_once\<close> on a one-byte separator: the parts before and after its first
  occurrence.\<close>

fun split_once :: "char \<Rightarrow> string \<Rightarrow> (string \<times> string) option" where
  "split_once c [] = None"
| "split_once c (d # s) =
     (if d = c then Some ([], s) else map_option (\<lambda>(a, b). (d # a, b)) (split_once c s))"

text \<open>\<open>str::parse\<close> of an unsigned integer: an optional plus sign, then decimal digits only, at
  least one, and a value in range.\<close>

definition parse_unsigned :: "nat \<Rightarrow> string \<Rightarrow> nat option" where
  "parse_unsigned bound s =
     (let ds = (case s of CHR ''+'' # r \<Rightarrow> r | _ \<Rightarrow> s);
          n = foldl (\<lambda>n c. n * 10 + (byte c - 48)) 0 ds
      in if ds = [] \<or> \<not> list_all is_ascii_digit ds \<or> bound < n then None else Some n)"

definition parse_u64 :: "string \<Rightarrow> u64 option" where
  "parse_u64 s = map_option of_nat (parse_unsigned (2 ^ 64 - 1) s)"

definition parse_u32 :: "string \<Rightarrow> u32 option" where
  "parse_u32 s = map_option of_nat (parse_unsigned (2 ^ 32 - 1) s)"

section \<open>JSON values\<close>

fun json_get :: "string \<Rightarrow> json \<Rightarrow> json option" where
  "json_get k (JObject kvs) = map_of kvs k"
| "json_get k _ = None"

fun json_as_str :: "json \<Rightarrow> string option" where
  "json_as_str (JString s) = Some s"
| "json_as_str _ = None"

definition json_str :: "string \<Rightarrow> json \<Rightarrow> string option" where
  "json_str k v = Option.bind (json_get k v) json_as_str"

text \<open>\<open>Option<&str>::is_none_or(str::is_empty)\<close>.\<close>

definition absent_or_empty :: "string option \<Rightarrow> bool" where
  "absent_or_empty v = (case v of None \<Rightarrow> True | Some s \<Rightarrow> s = [])"

definition eq_ignore_ascii_case :: "string \<Rightarrow> string \<Rightarrow> bool" where
  "eq_ignore_ascii_case a b = (to_ascii_lowercase a = to_ascii_lowercase b)"

end
