(* ===== verification/Rampage_Relay.thy ===== *)
theory Rampage_Relay
  imports Rampage_Net Rampage_Signing Rampage_Text
begin

text \<open>
  The owner relay (\<open>crates/rampage-relay/src/lib.rs\<close>): validation of its configuration, the cached
  Governor-signed access manifest, and the admission and accounting of client connections. The URL
  parser (\<open>reqwest\<close>, \<open>iroh\<close>), the JSON reader and the cryptography are parameters; the file
  system and the HTTP answer of the controller are the record \<open>relay_world\<close>, one per call. Paths are
  strings; an \<open>Instant\<close> is an integer number of nanoseconds. The mutex around the connection table
  makes \<open>admit\<close> and \<open>release\<close> atomic.
\<close>

section \<open>Configuration\<close>

definition relay_MAX_MANIFEST_BYTES :: u64 where
  "relay_MAX_MANIFEST_BYTES = 1024 * 1024"

definition MAX_TOKEN_BYTES :: u64 where
  "MAX_TOKEN_BYTES = 512"

definition MIN_RATE_BYTES_PER_SECOND :: u32 where
  "MIN_RATE_BYTES_PER_SECOND = 1024 * 1024"

definition MAX_RATE_BYTES_PER_SECOND :: u32 where
  "MAX_RATE_BYTES_PER_SECOND = 1024 * 1024 * 1024"

datatype relay_access_source = ControllerLoopback string string | SignedFile string

record manual_tls_config =
  tls_https_bind_addr :: socket_addr
  tls_certificate_path :: string
  tls_private_key_path :: string

record owner_relay_config =
  oc_schema :: string
  oc_public_url :: string
  oc_http_bind_addr :: socket_addr
  oc_tls :: "manual_tls_config option"
  oc_quic_bind_addr :: "socket_addr option"
  oc_metrics_bind_addr :: "socket_addr option"
  oc_governor_public_key :: string
  oc_access_source :: relay_access_source
  oc_snapshot_cache_seconds :: u64
  oc_client_rx_bytes_per_second :: u32
  oc_client_rx_max_burst_bytes :: u32
  oc_key_cache_capacity :: nat
  oc_max_connections_per_endpoint :: u16
  oc_max_total_connections :: u32

definition owner_relay_config_SCHEMA :: string where
  "owner_relay_config_SCHEMA = ''rampage.owner-relay-config.v1''"

definition reverse_proxy ::
  "string \<Rightarrow> string \<Rightarrow> string \<Rightarrow> string \<Rightarrow> socket_addr \<Rightarrow> owner_relay_config" where
  "reverse_proxy public_url governor_public_key controller_manifest_url controller_token_file http_bind_addr =
     \<lparr>oc_schema = owner_relay_config_SCHEMA, oc_public_url = public_url,
      oc_http_bind_addr = http_bind_addr, oc_tls = None, oc_quic_bind_addr = None,
      oc_metrics_bind_addr = None, oc_governor_public_key = governor_public_key,
      oc_access_source = ControllerLoopback controller_manifest_url controller_token_file,
      oc_snapshot_cache_seconds = 5, oc_client_rx_bytes_per_second = 64 * 1024 * 1024,
      oc_client_rx_max_burst_bytes = 128 * 1024 * 1024, oc_key_cache_capacity = 4096,
      oc_max_connections_per_endpoint = 8, oc_max_total_connections = 1024\<rparr>"

text \<open>A parsed URL, as \<open>reqwest::Url\<close> exposes it, and the two parsers.\<close>

record url =
  url_scheme :: string
  url_username :: string
  url_password :: "string option"
  url_host_str :: "string option"
  url_path :: string
  url_query :: "string option"
  url_fragment :: "string option"

record url_lib =
  ul_parse :: "string \<Rightarrow> url option"
  ul_relay_url :: "string \<Rightarrow> bool"

datatype relay_error = RelayError string | ControllerDenied nat

definition require :: "bool \<Rightarrow> string \<Rightarrow> relay_error + unit" where
  "require ok msg = (if ok then Inr () else Inl (RelayError msg))"

fun all_required :: "(bool \<times> string) list \<Rightarrow> relay_error + unit" where
  "all_required [] = Inr ()"
| "all_required ((ok, msg) # rest) = (if ok then all_required rest else Inl (RelayError msg))"

definition validate_governor_key :: "string \<Rightarrow> relay_error + unit" where
  "validate_governor_key public_key =
     require (length public_key = 64 \<and> list_all is_ascii_hexdigit public_key)
       ''Governor public key must be 32-byte lowercase or uppercase hex''"

definition access_source_validate :: "url_lib \<Rightarrow> relay_access_source \<Rightarrow> relay_error + unit" where
  "access_source_validate U source =
     (case source of
        ControllerLoopback url token_file \<Rightarrow>
          (case ul_parse U url of
             None \<Rightarrow> Inl (RelayError ''invalid controller manifest URL'')
           | Some parsed \<Rightarrow>
               if \<not> (url_scheme parsed = ''http'' \<or> url_scheme parsed = ''https'')
               then Inl (RelayError ''controller manifest URL must use HTTP or HTTPS'')
               else (case url_host_str parsed of
                   None \<Rightarrow> Inl (RelayError ''controller manifest URL is missing a host'')
                 | Some host \<Rightarrow>
                    (case parse_ip (trim_end_char CHR '']'' (trim_start_char CHR ''['' host)) of
                       None \<Rightarrow> Inl (RelayError ''controller manifest host must be an explicit loopback IP'')
                     | Some ip \<Rightarrow>
                         all_required
                           [(is_loopback ip, ''controller manifest URL must be loopback-only''),
                            (url_path parsed = ''/v1/mesh/relay-access'' \<and> url_username parsed = []
                              \<and> url_password parsed = None \<and> url_query parsed = None
                              \<and> url_fragment parsed = None,
                             ''controller manifest URL must be the exact protected relay-access route''),
                            (token_file \<noteq> [], ''controller token file path is empty'')])))
      | SignedFile path \<Rightarrow> require (path \<noteq> []) ''manifest file path is empty'')"

definition relay_config_validate :: "url_lib \<Rightarrow> owner_relay_config \<Rightarrow> relay_error + unit" where
  "relay_config_validate U c =
     (if oc_schema c \<noteq> owner_relay_config_SCHEMA then Inl (RelayError ''unsupported relay config schema'')
      else case validate_governor_key (oc_governor_public_key c) of Inl e \<Rightarrow> Inl e
      | Inr _ \<Rightarrow>
       (case ul_parse U (oc_public_url c) of
          None \<Rightarrow> Inl (RelayError ''invalid public relay URL'')
        | Some public_url \<Rightarrow>
           (case all_required
              [(url_scheme public_url = ''https'', ''public relay URL must use HTTPS''),
               (url_username public_url = [] \<and> url_password public_url = None
                 \<and> url_query public_url = None \<and> url_fragment public_url = None,
                ''public relay URL cannot embed credentials, query parameters, or fragments''),
               (ul_relay_url U (oc_public_url c), ''public relay URL is not accepted by the mesh transport''),
               (is_loopback (sa_ip (oc_http_bind_addr c)),
                ''the plaintext relay listener must remain loopback-only''),
               (oc_tls c = None \<longrightarrow> oc_quic_bind_addr c = None,
                ''QUIC address discovery requires built-in TLS''),
               ((case oc_tls c of None \<Rightarrow> True | Some tls \<Rightarrow> tls_https_bind_addr tls \<noteq> oc_http_bind_addr c),
                ''HTTP and HTTPS relay listeners must use different sockets''),
               ((case oc_metrics_bind_addr c of None \<Rightarrow> True | Some metrics \<Rightarrow> is_loopback (sa_ip metrics)),
                ''relay metrics must remain loopback-only''),
               (1 \<le> oc_snapshot_cache_seconds c \<and> oc_snapshot_cache_seconds c \<le> 30,
                ''snapshot cache must be between 1 and 30 seconds''),
               (MIN_RATE_BYTES_PER_SECOND \<le> oc_client_rx_bytes_per_second c
                 \<and> oc_client_rx_bytes_per_second c \<le> MAX_RATE_BYTES_PER_SECOND,
                ''per-client relay rate must be between one MiB/s and one GiB/s''),
               (oc_client_rx_max_burst_bytes c \<ge> oc_client_rx_bytes_per_second c
                 \<and> oc_client_rx_max_burst_bytes c \<le> sat_mul (oc_client_rx_bytes_per_second c) 4,
                ''relay burst must be between one and four seconds of the configured client rate''),
               (128 \<le> oc_key_cache_capacity c \<and> oc_key_cache_capacity c \<le> 65536,
                ''relay key cache must contain between 128 and 65536 entries''),
               (1 \<le> oc_max_connections_per_endpoint c \<and> oc_max_connections_per_endpoint c \<le> 64,
                ''per-endpoint connection limit must be between 1 and 64''),
               (1 \<le> oc_max_total_connections c \<and> oc_max_total_connections c \<le> 65536
                 \<and> oc_max_total_connections c \<ge> ucast (oc_max_connections_per_endpoint c),
                ''total relay connection limit is invalid'')] of
              Inl e \<Rightarrow> Inl e
            | Inr _ \<Rightarrow> access_source_validate U (oc_access_source c))))"

section \<open>Files and the controller's answer\<close>

text \<open>What opening a path shows: whether it is a regular file, its reported length, and the bytes that
  reading it yields (\<open>None\<close> on a read error); the file may change between the two.\<close>

datatype file_view = Missing | NoMetadata | FileNode bool u64 "string option"

record http_response =
  hr_status :: nat
  hr_content_length :: "u64 option"
  hr_chunks :: "string option list"

record relay_world =
  rw_now :: datetime
  rw_instant :: int
  rw_file :: "string \<Rightarrow> file_view"
  rw_http :: "string \<Rightarrow> string \<Rightarrow> http_response option"
  rw_manifest_from_json :: "string \<Rightarrow> relay_access_manifest option"

definition read_bounded_file ::
  "relay_world \<Rightarrow> string \<Rightarrow> string \<Rightarrow> u64 \<Rightarrow> relay_error + string" where
  "read_bounded_file w path label max_bytes =
     (case rw_file w path of
        Missing \<Rightarrow> Inl (RelayError (''could not open '' @ label))
      | NoMetadata \<Rightarrow> Inl (RelayError (''could not inspect '' @ label))
      | FileNode is_file len contents \<Rightarrow>
          if \<not> (is_file \<and> len \<le> max_bytes)
          then Inl (RelayError (label @ '' is not a bounded regular file''))
          else (case map_option (take (unat max_bytes + 1)) contents of
              None \<Rightarrow> Inl (RelayError (''could not read '' @ label))
            | Some bytes \<Rightarrow>
                if length bytes \<le> unat max_bytes then Inr bytes
                else Inl (RelayError (label @ '' is oversized''))))"

fun read_bounded_response :: "string \<Rightarrow> string \<Rightarrow> string option list \<Rightarrow> relay_error + string" where
  "read_bounded_response label bytes [] = Inr bytes"
| "read_bounded_response label bytes (None # chunks) = Inl (RelayError (''could not read '' @ label))"
| "read_bounded_response label bytes (Some chunk # chunks) =
     (if length bytes + length chunk \<le> unat relay_MAX_MANIFEST_BYTES
      then read_bounded_response label (bytes @ chunk) chunks
      else Inl (RelayError (label @ '' is oversized'')))"

definition fetch_authorization :: "relay_world \<Rightarrow> relay_access_source \<Rightarrow> relay_error + string" where
  "fetch_authorization w source =
     (case source of
        SignedFile path \<Rightarrow>
          read_bounded_file w path ''signed relay access manifest'' relay_MAX_MANIFEST_BYTES
      | ControllerLoopback url token_file \<Rightarrow>
         (case read_bounded_file w token_file ''controller token file'' MAX_TOKEN_BYTES of
            Inl e \<Rightarrow> Inl e
          | Inr raw \<Rightarrow>
              if \<not> utf8_ok raw then Inl (RelayError ''controller token file is not UTF-8'')
              else let token = trim raw in
              if \<not> (token \<noteq> [] \<and> length token \<le> 512)
              then Inl (RelayError ''controller token file is empty or oversized'')
              else (case rw_http w url token of
                  None \<Rightarrow> Inl (RelayError ''could not fetch controller relay authorization'')
                | Some response \<Rightarrow>
                    if \<not> (200 \<le> hr_status response \<and> hr_status response < 300)
                    then Inl (ControllerDenied (hr_status response))
                    else if \<not> ((case hr_content_length response of None \<Rightarrow> 0 | Some n \<Rightarrow> n) \<le> relay_MAX_MANIFEST_BYTES)
                    then Inl (RelayError ''controller relay authorization is oversized'')
                    else read_bounded_response ''controller relay authorization'' [] (hr_chunks response))))"

section \<open>Access control\<close>

record active_connections =
  ac_total :: u32
  ac_by_endpoint :: "(string, u16) fmap"

record signed_manifest_access =
  ma_source :: relay_access_source
  ma_governor_public_key :: string
  ma_cache_duration :: int
  ma_cache :: "(int \<times> relay_access_manifest) option"
  ma_active :: active_connections
  ma_max_per_endpoint :: u16
  ma_max_total :: u32

definition manifest_access_new ::
  "url_lib \<Rightarrow> owner_relay_config \<Rightarrow> relay_error + signed_manifest_access" where
  "manifest_access_new U config =
     (case relay_config_validate U config of Inl e \<Rightarrow> Inl e
      | Inr _ \<Rightarrow> Inr \<lparr>ma_source = oc_access_source config,
          ma_governor_public_key = oc_governor_public_key config,
          ma_cache_duration = seconds (uint (oc_snapshot_cache_seconds config)), ma_cache = None,
          ma_active = \<lparr>ac_total = 0, ac_by_endpoint = fmempty\<rparr>,
          ma_max_per_endpoint = oc_max_connections_per_endpoint config,
          ma_max_total = oc_max_total_connections config\<rparr>)"

definition cached_manifest ::
  "'sk crypto \<Rightarrow> relay_world \<Rightarrow> signed_manifest_access \<Rightarrow> relay_access_manifest option" where
  "cached_manifest C w s =
     (case ma_cache s of None \<Rightarrow> None
      | Some (fetched_at, manifest) \<Rightarrow>
          if max 0 (rw_instant w - fetched_at) < ma_cache_duration s
             \<and> verify_relay_access_manifest_with_key C (rw_now w) (ma_governor_public_key s) manifest = Inr ()
          then Some manifest else None)"

definition load_manifest ::
  "'sk crypto \<Rightarrow> relay_world \<Rightarrow> signed_manifest_access
     \<Rightarrow> (relay_error + relay_access_manifest) \<times> signed_manifest_access" where
  "load_manifest C w s =
     (case cached_manifest C w s of
        Some manifest \<Rightarrow> (Inr manifest, s)
      | None \<Rightarrow>
         (case fetch_authorization w (ma_source s) of
            Inl e \<Rightarrow> (Inl e, s)
          | Inr bytes \<Rightarrow>
             (case rw_manifest_from_json w bytes of
                None \<Rightarrow> (Inl (RelayError ''relay authorization JSON is invalid''), s)
              | Some manifest \<Rightarrow>
                  if verify_relay_access_manifest_with_key C (rw_now w) (ma_governor_public_key s) manifest \<noteq> Inr ()
                  then (Inl (RelayError ''relay authorization signature, scope, or expiry is invalid''), s)
                  else (Inr manifest, s\<lparr>ma_cache := Some (rw_instant w, manifest)\<rparr>))))"

definition endpoint_count :: "active_connections \<Rightarrow> string \<Rightarrow> u16" where
  "endpoint_count active endpoint_id =
     (case fmlookup (ac_by_endpoint active) endpoint_id of None \<Rightarrow> 0 | Some n \<Rightarrow> n)"

definition admit ::
  "'sk crypto \<Rightarrow> relay_world \<Rightarrow> signed_manifest_access \<Rightarrow> string
     \<Rightarrow> (string + unit) \<times> signed_manifest_access" where
  "admit C w s endpoint_id =
     (case load_manifest C w s of
        (Inl _, s) \<Rightarrow> (Inl ''relay authorization is unavailable or invalid'', s)
      | (Inr manifest, s) \<Rightarrow>
          if endpoint_id |\<notin>| ra_allowed_endpoint_ids manifest
          then (Inl ''endpoint is not enrolled in this Rampage fabric'', s)
          else let active = ma_active s; n = endpoint_count active endpoint_id in
          if ac_total active \<ge> ma_max_total s \<or> n \<ge> ma_max_per_endpoint s
          then (Inl ''relay connection threshold reached'', s)
          else (Inr (), s\<lparr>ma_active := \<lparr>ac_total = ac_total active + 1,
                  ac_by_endpoint = fmupd endpoint_id (n + 1) (ac_by_endpoint active)\<rparr>\<rparr>))"

definition release :: "signed_manifest_access \<Rightarrow> string \<Rightarrow> signed_manifest_access" where
  "release s endpoint_id =
     (let active = ma_active s in
      case fmlookup (ac_by_endpoint active) endpoint_id of
        None \<Rightarrow> s
      | Some n \<Rightarrow> s\<lparr>ma_active := \<lparr>ac_total = sat_sub (ac_total active) 1,
          ac_by_endpoint = (if n \<le> 1 then fmdrop endpoint_id (ac_by_endpoint active)
                            else fmupd endpoint_id (n - 1) (ac_by_endpoint active))\<rparr>\<rparr>)"

datatype access = Allow | Deny string

definition on_connect ::
  "'sk crypto \<Rightarrow> relay_world \<Rightarrow> signed_manifest_access \<Rightarrow> string \<Rightarrow> access \<times> signed_manifest_access" where
  "on_connect C w s endpoint_id =
     (case admit C w s endpoint_id of
        (Inr _, s) \<Rightarrow> (Allow, s)
      | (Inl reason, s) \<Rightarrow> (Deny reason, s))"

definition on_disconnect :: "signed_manifest_access \<Rightarrow> string \<Rightarrow> signed_manifest_access" where
  "on_disconnect s endpoint_id = release s endpoint_id"

text \<open>The checks of \<open>spawn_owner_relay\<close> before the server is built: the relay does not start without
  a fresh authorisation.\<close>

definition validate_files :: "relay_world \<Rightarrow> owner_relay_config \<Rightarrow> relay_error + unit" where
  "validate_files w c =
     (let is_file = (\<lambda>path. case rw_file w path of FileNode f _ _ \<Rightarrow> f | _ \<Rightarrow> False) in
      all_required
        [((case oc_tls c of None \<Rightarrow> True | Some tls \<Rightarrow> is_file (tls_certificate_path tls)),
          ''TLS certificate is not a file''),
         ((case oc_tls c of None \<Rightarrow> True | Some tls \<Rightarrow> is_file (tls_private_key_path tls)),
          ''TLS private key is not a file''),
         ((case oc_access_source c of SignedFile path \<Rightarrow> is_file path | _ \<Rightarrow> True),
          ''signed relay access manifest is not a file'')])"

definition start_owner_relay ::
  "'sk crypto \<Rightarrow> url_lib \<Rightarrow> relay_world \<Rightarrow> owner_relay_config \<Rightarrow> relay_error + signed_manifest_access" where
  "start_owner_relay C U w config =
     (case relay_config_validate U config of Inl e \<Rightarrow> Inl e
      | Inr _ \<Rightarrow>
       (case validate_files w config of Inl e \<Rightarrow> Inl e
        | Inr _ \<Rightarrow>
         (case manifest_access_new U config of Inl e \<Rightarrow> Inl e
          | Inr s \<Rightarrow>
           (case load_manifest C w s of
              (Inl _, _) \<Rightarrow> Inl (RelayError ''refusing to start without fresh Governor-signed relay authorization'')
            | (Inr _, s) \<Rightarrow> Inr s))))"

end
