(* ===== verification/Rampage_Relay_Access.thy ===== *)
theory Rampage_Relay_Access
  imports Rampage_Relay "HOL-Library.Multiset"
begin

text \<open>
  Correctness of the relay's access control. The specification of the connection table is a
  multiset of live connections with two bounds; the table of counters simulates it step by step,
  and so both bounds hold in every state the relay can reach. An admission always rests on a
  manifest of the Governor's that is verified at that moment and no older than the cache allows.
\<close>

section \<open>The abstract table\<close>

locale connection_table =
  fixes tracks :: "'s \<Rightarrow> 'e multiset \<Rightarrow> bool"
    and connect :: "'s \<Rightarrow> 'e \<Rightarrow> 's option"
    and disconnect :: "'s \<Rightarrow> 'e \<Rightarrow> 's"
    and max_total :: nat
    and max_per :: nat
  assumes connect_tracks: "tracks s M \<Longrightarrow> connect s e = Some s' \<Longrightarrow> tracks s' (add_mset e M)"
    and connect_bounded: "tracks s M \<Longrightarrow> connect s e = Some s' \<Longrightarrow> size M < max_total \<and> count M e < max_per"
    and disconnect_tracks: "tracks s M \<Longrightarrow> tracks (disconnect s e) (M - {#e#})"
begin

definition within :: "'e multiset \<Rightarrow> bool" where
  "within M \<longleftrightarrow> size M \<le> max_total \<and> (\<forall>e. count M e \<le> max_per)"

lemma within_empty: "within {#}"
  by (simp add: within_def)

lemma connect_within: "tracks s M \<Longrightarrow> within M \<Longrightarrow> connect s e = Some s' \<Longrightarrow> within (add_mset e M)"
  using connect_bounded by (fastforce simp: within_def)

lemma disconnect_within:
  assumes "within M"
  shows "within (M - {#e#})"
proof -
  have "size (M - {#e#}) \<le> size M" by (intro size_mset_mono) simp
  with assms show ?thesis by (auto simp: within_def intro: le_trans [OF diff_le_self])
qed

end

section \<open>The counters simulate the table\<close>

definition tracks :: "signed_manifest_access \<Rightarrow> string multiset \<Rightarrow> bool" where
  "tracks s M \<longleftrightarrow> (\<forall>e. count M e = unat (endpoint_count (ma_active s) e))
     \<and> (\<forall>e. fmlookup (ac_by_endpoint (ma_active s)) e \<noteq> Some 0)
     \<and> size M = unat (ac_total (ma_active s))"

lemma load_manifest_frame:
  assumes "load_manifest C w s = (r, s')"
  shows "ma_active s' = ma_active s" "ma_source s' = ma_source s"
    "ma_governor_public_key s' = ma_governor_public_key s" "ma_cache_duration s' = ma_cache_duration s"
    "ma_max_per_endpoint s' = ma_max_per_endpoint s" "ma_max_total s' = ma_max_total s"
  using assms by (auto simp: load_manifest_def split: option.splits sum.splits if_splits)

lemma unat_suc_below:
  assumes "(a :: 'a::len word) < b"
  shows "unat (a + 1) = unat a + 1"
proof -
  have "unat b < 2 ^ LENGTH('a)" by (rule unsigned_less)
  moreover have "unat a < unat b" using assms by (simp add: word_less_nat_alt)
  ultimately have "unat a + 1 < 2 ^ LENGTH('a)" by linarith
  then show ?thesis by (simp add: unat_word_ariths)
qed

text \<open>The table after a connection was admitted.\<close>

definition counted_in :: "signed_manifest_access \<Rightarrow> string \<Rightarrow> signed_manifest_access option" where
  "counted_in s e =
     (let active = ma_active s; n = endpoint_count active e in
      if ac_total active \<ge> ma_max_total s \<or> n \<ge> ma_max_per_endpoint s then None
      else Some (s\<lparr>ma_active := \<lparr>ac_total = ac_total active + 1,
             ac_by_endpoint = fmupd e (n + 1) (ac_by_endpoint active)\<rparr>\<rparr>))"

lemma on_connect_cases:
  "case on_connect C w s e of
     (Allow, s') \<Rightarrow> \<exists>m s1. load_manifest C w s = (Inr m, s1) \<and> e |\<in>| ra_allowed_endpoint_ids m
       \<and> counted_in s1 e = Some s'
   | (Deny _, s') \<Rightarrow> ma_active s' = ma_active s"
proof (cases "load_manifest C w s")
  case (Pair r s1)
  note frame = load_manifest_frame [OF Pair]
  show ?thesis
  proof (cases r)
    case (Inl x)
    with Pair frame show ?thesis by (simp add: on_connect_def admit_def)
  next
    case (Inr m)
    with Pair frame show ?thesis
      by (auto simp: on_connect_def admit_def counted_in_def Let_def)
  qed
qed

lemma counted_in_tracks:
  assumes "tracks s M" "counted_in s e = Some s'"
  shows "tracks s' (add_mset e M)" "size M < unat (ma_max_total s)" "count M e < unat (ma_max_per_endpoint s)"
proof -
  let ?a = "ma_active s"
  from assms(2) have lt: "ac_total ?a < ma_max_total s" "endpoint_count ?a e < ma_max_per_endpoint s"
    and s': "s' = s\<lparr>ma_active := \<lparr>ac_total = ac_total ?a + 1,
             ac_by_endpoint = fmupd e (endpoint_count ?a e + 1) (ac_by_endpoint ?a)\<rparr>\<rparr>"
    by (auto simp: counted_in_def Let_def not_le split: if_splits)
  show "size M < unat (ma_max_total s)" "count M e < unat (ma_max_per_endpoint s)"
    using assms(1) lt by (simp_all add: tracks_def word_less_nat_alt)
  have n: "unat (endpoint_count ?a e + 1) = unat (endpoint_count ?a e) + 1"
    and t: "unat (ac_total ?a + 1) = unat (ac_total ?a) + 1" using lt by (auto dest: unat_suc_below)
  have "endpoint_count ?a e + 1 \<noteq> 0" using n by (metis Suc_eq_plus1 nat.distinct(1) unat_0)
  with assms(1) n t show "tracks s' (add_mset e M)"
    by (auto simp: tracks_def s' endpoint_count_def)
qed

lemma release_tracks:
  assumes "tracks s M"
  shows "tracks (release s e) (M - {#e#})"
proof (cases "fmlookup (ac_by_endpoint (ma_active s)) e")
  case None
  then have "count M e = 0" using assms by (simp add: tracks_def endpoint_count_def)
  then have "M - {#e#} = M" by (simp add: count_eq_zero_iff)
  with None assms show ?thesis by (simp add: release_def Let_def)
next
  case (Some n)
  with assms have n: "n \<noteq> 0" "count M e = unat n" by (auto simp: tracks_def endpoint_count_def)
  then have mem: "e \<in># M" by (metis count_greater_zero_iff unat_gt_0)
  then have sz: "size (M - {#e#}) = size M - 1" by (simp add: size_Diff_singleton)
  have "0 < size M" using mem by (metis nonempty_has_size empty_not_add_mset multi_member_split)
  have sub: "unat (n - 1) = unat n - 1" using n(1) by (simp add: unat_minus_one)
  show ?thesis
  proof (cases "n \<le> 1")
    case True
    with n(1) have "unat n = 1" by (simp add: word_le_nat_alt le_Suc_eq unat_eq_zero)
    with Some True assms n sz show ?thesis
      by (auto simp: tracks_def release_def Let_def endpoint_count_def sat_simps)
  next
    case False
    then have "n - 1 \<noteq> 0" by auto
    with Some False assms n sz sub show ?thesis
      by (auto simp: tracks_def release_def Let_def endpoint_count_def sat_simps)
  qed
qed

text \<open>The counters of a running relay implement the table with the relay's own bounds.\<close>

interpretation relay_table: connection_table
  "\<lambda>s M. tracks s M \<and> ma_max_total s = t \<and> ma_max_per_endpoint s = p"
  counted_in release "unat t" "unat p"
  for t p
proof (unfold_locales, goal_cases)
  case (1 s M e s')
  then show ?case using counted_in_tracks(1) [of s M e s']
    by (auto simp: counted_in_def Let_def split: if_splits)
next
  case (2 s M e s')
  then show ?case using counted_in_tracks(2,3) [of s M e s'] by auto
next
  case (3 s M e)
  then show ?case using release_tracks [of s M e] by (auto simp: release_def Let_def split: option.splits)
qed

section \<open>Reachable relays\<close>

inductive relay_step :: "'sk crypto \<Rightarrow> signed_manifest_access \<Rightarrow> signed_manifest_access \<Rightarrow> bool"
  for C where
  connect: "relay_step C s (snd (on_connect C w s e))"
| disconnect: "relay_step C s (on_disconnect s e)"

definition relay_inv :: "u32 \<Rightarrow> u16 \<Rightarrow> signed_manifest_access \<Rightarrow> bool" where
  "relay_inv t p s \<longleftrightarrow> (\<exists>M. tracks s M \<and> ma_max_total s = t \<and> ma_max_per_endpoint s = p
     \<and> size M \<le> unat t \<and> (\<forall>e. count M e \<le> unat p))"

lemma tracks_same_table: "ma_active s' = ma_active s \<Longrightarrow> tracks s M \<Longrightarrow> tracks s' M"
  by (simp add: tracks_def)

lemma on_connect_limits:
  "ma_max_total (snd (on_connect C w s e)) = ma_max_total s"
  "ma_max_per_endpoint (snd (on_connect C w s e)) = ma_max_per_endpoint s"
proof -
  obtain r s1 where l: "load_manifest C w s = (r, s1)" by (cases "load_manifest C w s")
  note frame = load_manifest_frame [OF l]
  show "ma_max_total (snd (on_connect C w s e)) = ma_max_total s"
    "ma_max_per_endpoint (snd (on_connect C w s e)) = ma_max_per_endpoint s"
    by (cases r; simp add: on_connect_def admit_def Let_def l frame)+
qed

lemma relay_inv_step:
  assumes "relay_inv t p s" "relay_step C s s'"
  shows "relay_inv t p s'"
  using assms(2)
proof cases
  case (connect w e)
  from assms(1) obtain M where M: "tracks s M" "ma_max_total s = t" "ma_max_per_endpoint s = p"
      "relay_table.within t p M"
    by (auto simp: relay_inv_def relay_table.within_def)
  obtain a s2 where oc: "on_connect C w s e = (a, s2)" by (cases "on_connect C w s e")
  show ?thesis
  proof (cases a)
    case Allow
    with on_connect_cases [of C w s e] oc obtain m s1 where
      l: "load_manifest C w s = (Inr m, s1)" and c: "counted_in s1 e = Some s2" by auto
    note frame = load_manifest_frame [OF l]
    have t1: "tracks s1 M \<and> ma_max_total s1 = t \<and> ma_max_per_endpoint s1 = p"
      using M frame tracks_same_table by auto
    from relay_table.connect_tracks [OF t1 c] relay_table.connect_within [OF t1 M(4) c] connect oc
    show ?thesis unfolding relay_inv_def relay_table.within_def by auto
  next
    case (Deny r)
    with on_connect_cases [of C w s e] oc have "ma_active s2 = ma_active s" by simp
    with M tracks_same_table [of s2 s M] on_connect_limits [of C w s e] connect oc show ?thesis
      unfolding relay_inv_def relay_table.within_def by auto
  qed
next
  case (disconnect e)
  from assms(1) obtain M where M: "tracks s M \<and> ma_max_total s = t \<and> ma_max_per_endpoint s = p"
      "relay_table.within t p M"
    by (auto simp: relay_inv_def relay_table.within_def)
  from relay_table.disconnect_tracks [OF M(1), of e] relay_table.disconnect_within [OF M(2), of e] disconnect
  show ?thesis unfolding relay_inv_def relay_table.within_def on_disconnect_def by auto
qed

interpretation relay_runs: invariant_system "relay_step C"
  "\<lambda>s. ma_active s = \<lparr>ac_total = 0, ac_by_endpoint = fmempty\<rparr> \<and> ma_max_total s = t \<and> ma_max_per_endpoint s = p"
  "relay_inv t p"
  for C t p
proof (unfold_locales, goal_cases)
  case (1 s)
  then have "tracks s {#}" by (simp add: tracks_def endpoint_count_def)
  with 1 show ?case by (auto simp: relay_inv_def)
next
  case (2 s s')
  then show ?case by (rule relay_inv_step)
qed

lemma start_owner_relay_Inr:
  assumes "start_owner_relay C U w config = Inr s"
  shows "relay_config_validate U config = Inr ()"
    "ma_active s = \<lparr>ac_total = 0, ac_by_endpoint = fmempty\<rparr>"
    "ma_max_total s = oc_max_total_connections config"
    "ma_max_per_endpoint s = oc_max_connections_per_endpoint config"
    "ma_cache_duration s = seconds (uint (oc_snapshot_cache_seconds config))"
    "ma_governor_public_key s = oc_governor_public_key config"
proof -
  from assms obtain s0 m where new: "manifest_access_new U config = Inr s0" and l: "load_manifest C w s0 = (Inr m, s)"
    and v: "relay_config_validate U config = Inr ()"
    by (auto simp: start_owner_relay_def split: sum.splits prod.splits)
  show "relay_config_validate U config = Inr ()" by (rule v)
  from new v have s0: "s0 = \<lparr>ma_source = oc_access_source config,
          ma_governor_public_key = oc_governor_public_key config,
          ma_cache_duration = seconds (uint (oc_snapshot_cache_seconds config)), ma_cache = None,
          ma_active = \<lparr>ac_total = 0, ac_by_endpoint = fmempty\<rparr>,
          ma_max_per_endpoint = oc_max_connections_per_endpoint config,
          ma_max_total = oc_max_total_connections config\<rparr>"
    by (simp add: manifest_access_new_def)
  from load_manifest_frame [OF l] s0 show "ma_active s = \<lparr>ac_total = 0, ac_by_endpoint = fmempty\<rparr>"
    "ma_max_total s = oc_max_total_connections config"
    "ma_max_per_endpoint s = oc_max_connections_per_endpoint config"
    "ma_cache_duration s = seconds (uint (oc_snapshot_cache_seconds config))"
    "ma_governor_public_key s = oc_governor_public_key config" by simp_all
qed

lemma all_required_Inr: "all_required cs = Inr () \<longleftrightarrow> list_all fst cs"
  by (induction cs rule: all_required.induct) auto

lemma config_limits:
  assumes "relay_config_validate U config = Inr ()"
  shows "oc_max_total_connections config \<le> 65536" "oc_max_connections_per_endpoint config \<le> 64"
    "1 \<le> oc_snapshot_cache_seconds config" "oc_snapshot_cache_seconds config \<le> 30"
  using assms by (auto simp: relay_config_validate_def all_required_Inr simp del: all_required.simps
      split: if_splits sum.splits option.splits)

section \<open>A concrete relay\<close>

definition relay_endpoint :: string where
  "relay_endpoint = replicate 64 (CHR ''a'')"

definition relay_manifest :: relay_access_manifest where
  "relay_manifest = (case sign_relay_access_manifest demo_crypto () demo_manifest of Some m \<Rightarrow> m)"

definition relay_demo_world :: relay_world where
  "relay_demo_world = \<lparr>rw_now = 0, rw_instant = 0, rw_file = (\<lambda>_. FileNode True 1 (Some ''x'')),
     rw_http = (\<lambda>_ _. None), rw_manifest_from_json = (\<lambda>_. Some relay_manifest)\<rparr>"

definition relay_demo :: signed_manifest_access where
  "relay_demo = \<lparr>ma_source = SignedFile ''m'', ma_governor_public_key = public_hex demo_crypto (),
     ma_cache_duration = seconds 5, ma_cache = None,
     ma_active = \<lparr>ac_total = 0, ac_by_endpoint = fmempty\<rparr>, ma_max_per_endpoint = 8, ma_max_total = 1024\<rparr>"

lemma signed_manifest_verifies:
  assumes "sign_relay_access_manifest demo_crypto () m = Some m'" "relay_manifest_is_valid_at m' now"
  shows "verify_relay_access_manifest_with_key demo_crypto now (public_hex demo_crypto ()) m' = Inr ()"
  using assms sign_hex_verifies [OF demo_crypto_ok]
  by (auto simp: verify_relay_access_manifest_with_key_def sign_relay_access_manifest_def
      relay_fabric_id_public [OF demo_crypto_ok] Let_def)

lemma relay_manifest_facts:
  "verify_relay_access_manifest_with_key demo_crypto 0 (public_hex demo_crypto ()) relay_manifest = Inr ()"
  "relay_endpoint |\<in>| ra_allowed_endpoint_ids relay_manifest"
proof -
  obtain m where m: "sign_relay_access_manifest demo_crypto () demo_manifest = Some m"
    by (simp add: sign_relay_access_manifest_def relay_fabric_id_public [OF demo_crypto_ok] Let_def)
  then have "is_sha256_digest (ra_fabric_id m)" "ra_allowed_endpoint_ids m = {|relay_endpoint|}"
    using relay_fabric_id_is_digest [OF demo_crypto_ok]
    by (auto simp: sign_relay_access_manifest_def Let_def demo_manifest_def relay_endpoint_def split: sum.splits)
  with m signed_manifest_verifies [OF m] demo_manifest_valid [OF m]
  show "verify_relay_access_manifest_with_key demo_crypto 0 (public_hex demo_crypto ()) relay_manifest = Inr ()"
    "relay_endpoint |\<in>| ra_allowed_endpoint_ids relay_manifest"
    by (simp_all add: relay_manifest_def)
qed

lemma demo_admits: "\<exists>s. on_connect demo_crypto relay_demo_world relay_demo relay_endpoint = (Allow, s)"
proof -
  have "load_manifest demo_crypto relay_demo_world relay_demo
      = (Inr relay_manifest, relay_demo\<lparr>ma_cache := Some (0, relay_manifest)\<rparr>)"
    using relay_manifest_facts(1)
    by (simp add: load_manifest_def cached_manifest_def relay_demo_def relay_demo_world_def
        fetch_authorization_def read_bounded_file_def relay_MAX_MANIFEST_BYTES_def)
  then show ?thesis using relay_manifest_facts(2)
    by (simp add: on_connect_def admit_def Let_def endpoint_count_def relay_demo_def)
qed

lemma demo_tracks: "tracks relay_demo {#}"
  by (simp add: tracks_def endpoint_count_def relay_demo_def)

definition relay_demo_url :: url_lib where
  "relay_demo_url = \<lparr>ul_parse = (\<lambda>_. Some \<lparr>url_scheme = ''https'', url_username = [], url_password = None,
     url_host_str = None, url_path = [], url_query = None, url_fragment = None\<rparr>), ul_relay_url = (\<lambda>_. True)\<rparr>"

definition relay_demo_config :: owner_relay_config where
  "relay_demo_config = (reverse_proxy ''https://r'' (public_hex demo_crypto ()) [] []
      \<lparr>sa_ip = V4 127 0 0 1, sa_scope_id = 0, sa_port = 1\<rparr>)\<lparr>oc_access_source := SignedFile ''m''\<rparr>"

lemma demo_config_valid: "relay_config_validate relay_demo_url relay_demo_config = Inr ()"
proof -
  have "length (public_hex demo_crypto ()) = 64" "list_all is_ascii_hexdigit (public_hex demo_crypto ())"
    using crypto_okD(2,3,5) [OF demo_crypto_ok] by (auto simp: public_hex_def list_all_iff is_ascii_hexdigit_def)
  then show ?thesis
    by (simp add: relay_config_validate_def relay_demo_config_def reverse_proxy_def validate_governor_key_def
        require_def relay_demo_url_def MIN_RATE_BYTES_PER_SECOND_def MAX_RATE_BYTES_PER_SECOND_def
        sat_mul_def access_source_validate_def)
qed

lemma demo_starts: "\<exists>s. start_owner_relay demo_crypto relay_demo_url relay_demo_world relay_demo_config = Inr s"
proof -
  have new: "manifest_access_new relay_demo_url relay_demo_config = Inr relay_demo"
    by (simp add: manifest_access_new_def demo_config_valid relay_demo_def)
      (simp add: relay_demo_config_def reverse_proxy_def)
  have "validate_files relay_demo_world relay_demo_config = Inr ()"
    by (simp add: validate_files_def relay_demo_world_def relay_demo_config_def reverse_proxy_def Let_def)
  moreover have "\<exists>s. load_manifest demo_crypto relay_demo_world relay_demo = (Inr relay_manifest, s)"
    using relay_manifest_facts(1)
    by (simp add: load_manifest_def cached_manifest_def relay_demo_def relay_demo_world_def
        fetch_authorization_def read_bounded_file_def relay_MAX_MANIFEST_BYTES_def)
  ultimately show ?thesis using new demo_config_valid by (auto simp: start_owner_relay_def)
qed

section \<open>Properties\<close>

text \<open>
  C35: the relay's counters refine a multiset of live connections. When they track \<open>M\<close>, admitting
  \<open>e\<close> means both bounds had room, and afterwards they track \<open>M\<close> with one more \<open>e\<close>; a refusal
  leaves them tracking \<open>M\<close>; and a disconnection of \<open>e\<close>, also of an endpoint that holds no
  connection, leaves them tracking \<open>M\<close> less one \<open>e\<close>.
\<close>

theorem relay_counters_refine_connections:
  assumes "tracks s M"
  shows "(case on_connect C w s e of
      (Allow, s') \<Rightarrow> size M < unat (ma_max_total s) \<and> count M e < unat (ma_max_per_endpoint s)
        \<and> tracks s' (add_mset e M)
    | (Deny reason, s') \<Rightarrow> tracks s' M) \<and> tracks (on_disconnect s e) (M - {#e#})"
proof (rule conjI)
  obtain a s' where oc: "on_connect C w s e = (a, s')" by (cases "on_connect C w s e")
  show "case on_connect C w s e of
      (Allow, s') \<Rightarrow> size M < unat (ma_max_total s) \<and> count M e < unat (ma_max_per_endpoint s)
        \<and> tracks s' (add_mset e M)
    | (Deny reason, s') \<Rightarrow> tracks s' M"
  proof (cases a)
    case Allow
    with on_connect_cases [of C w s e] oc obtain m s1 where
      l: "load_manifest C w s = (Inr m, s1)" and c: "counted_in s1 e = Some s'" by auto
    note frame = load_manifest_frame [OF l]
    have "tracks s1 M" using frame(1) assms by (rule tracks_same_table)
    from counted_in_tracks [OF this c] frame Allow oc show ?thesis by simp
  next
    case (Deny r)
    with on_connect_cases [of C w s e] oc assms tracks_same_table [of s' s M] show ?thesis by simp
  qed
  show "tracks (on_disconnect s e) (M - {#e#})" unfolding on_disconnect_def by (rule release_tracks [OF assms])
qed

theorem relay_counters_refine_connections_witness:
  "\<exists>s. on_connect demo_crypto relay_demo_world relay_demo relay_endpoint = (Allow, s)
     \<and> tracks relay_demo {#} \<and> tracks s {#relay_endpoint#} \<and> tracks (on_disconnect s relay_endpoint) {#}"
proof -
  obtain s where s: "on_connect demo_crypto relay_demo_world relay_demo relay_endpoint = (Allow, s)"
    using demo_admits by blast
  with relay_counters_refine_connections [OF demo_tracks, where C = demo_crypto and w = relay_demo_world and e = relay_endpoint]
  have t: "tracks s {#relay_endpoint#}" by simp
  from s t demo_tracks relay_counters_refine_connections [OF t, where C = demo_crypto and w = relay_demo_world and e = relay_endpoint]
  show ?thesis by auto
qed

text \<open>
  In every state a started relay reaches, by connections and disconnections in any order, the
  counters track a multiset of live connections within the configured limits, which a valid
  configuration keeps to at most 65,536 connections in all and 64 per endpoint.
\<close>

theorem relay_connection_limits_hold:
  assumes "start_owner_relay C U w config = Inr s0" and "(relay_step C)\<^sup>*\<^sup>* s0 s"
  shows "\<exists>M. tracks s M \<and> size M \<le> unat (oc_max_total_connections config) \<and> size M \<le> 65536
    \<and> (\<forall>e. count M e \<le> unat (oc_max_connections_per_endpoint config) \<and> count M e \<le> 64)"
proof -
  note start = start_owner_relay_Inr [OF assms(1)]
  have "relay_inv (oc_max_total_connections config) (oc_max_connections_per_endpoint config) s"
    using start by (intro relay_runs.inv_reachable [OF _ assms(2)]) simp
  then obtain M where M: "tracks s M" "size M \<le> unat (oc_max_total_connections config)"
      "\<forall>e. count M e \<le> unat (oc_max_connections_per_endpoint config)"
    by (auto simp: relay_inv_def)
  have "unat (oc_max_total_connections config) \<le> 65536" "unat (oc_max_connections_per_endpoint config) \<le> 64"
    using config_limits [OF start(1)] by (simp_all add: word_le_nat_alt)
  with M show ?thesis by (meson le_trans)
qed

theorem relay_connection_limits_hold_witness:
  "\<exists>s0 s M. start_owner_relay demo_crypto relay_demo_url relay_demo_world relay_demo_config = Inr s0
     \<and> (relay_step demo_crypto)\<^sup>*\<^sup>* s0 s \<and> tracks s M \<and> size M \<le> 65536"
proof -
  obtain s0 where s0: "start_owner_relay demo_crypto relay_demo_url relay_demo_world relay_demo_config = Inr s0"
    using demo_starts by blast
  have step: "(relay_step demo_crypto)\<^sup>*\<^sup>* s0 (snd (on_connect demo_crypto relay_demo_world s0 relay_endpoint))"
    by (intro r_into_rtranclp relay_step.connect)
  from relay_connection_limits_hold [OF s0 step] s0 step show ?thesis by blast
qed

text \<open>
  An admission rests on current authority. When a relay with a positive cache duration admits an
  endpoint, the manifest it keeps verifies at this moment under the Governor's key, lists the
  endpoint, and was fetched less than the cache duration ago. So an endpoint that is revoked at the
  source is shut out once the cached manifest is that old or no longer verifies.
\<close>

theorem relay_admits_on_current_manifest:
  assumes "0 < ma_cache_duration s" and "on_connect C w s e = (Allow, s')"
  shows "\<exists>fetched m. ma_cache s' = Some (fetched, m)
    \<and> max 0 (rw_instant w - fetched) < ma_cache_duration s
    \<and> verify_relay_access_manifest_with_key C (rw_now w) (ma_governor_public_key s) m = Inr ()
    \<and> e |\<in>| ra_allowed_endpoint_ids m
    \<and> (ma_cache s = Some (fetched, m) \<or> fetched = rw_instant w)"
proof -
  from on_connect_cases [of C w s e] assms(2) obtain m s1 where
    l: "load_manifest C w s = (Inr m, s1)" and e: "e |\<in>| ra_allowed_endpoint_ids m"
    and c: "counted_in s1 e = Some s'" by auto
  have cache: "ma_cache s' = ma_cache s1"
    using c by (auto simp: counted_in_def Let_def split: if_splits)
  show ?thesis
  proof (cases "cached_manifest C w s")
    case (Some m')
    with l have "m' = m" "s1 = s" by (auto simp: load_manifest_def)
    with Some cache e show ?thesis
      by (auto simp: cached_manifest_def split: option.splits if_splits)
  next
    case None
    with l cache e assms(1) show ?thesis
      by (auto simp: load_manifest_def split: sum.splits option.splits if_splits)
  qed
qed

theorem relay_admits_on_current_manifest_witness:
  "\<exists>s fetched m. on_connect demo_crypto relay_demo_world relay_demo relay_endpoint = (Allow, s)
     \<and> ma_cache s = Some (fetched, m)
     \<and> verify_relay_access_manifest_with_key demo_crypto 0 (public_hex demo_crypto ()) m = Inr ()
     \<and> relay_endpoint |\<in>| ra_allowed_endpoint_ids m"
proof -
  obtain s where s: "on_connect demo_crypto relay_demo_world relay_demo relay_endpoint = (Allow, s)"
    using demo_admits by blast
  have "0 < ma_cache_duration relay_demo" by (simp add: relay_demo_def)
  from relay_admits_on_current_manifest [OF this s] s show ?thesis
    by (auto simp: relay_demo_def relay_demo_world_def)
qed

end
