(* ===== verification/Rampage_Mesh.thy ===== *)
theory Rampage_Mesh
  imports Rampage_Net Rampage_Protocol "HOL-Library.Product_Lexorder"
begin

text \<open>
  The peer mesh (\<open>crates/rampage-mesh/src/lib.rs\<close>): configuration and peer authorisation, the routes
  of a signed endpoint record, and the framed request/response protocols for control, models, remote
  desktops and artifacts. A QUIC stream is its byte string: a client hands the peer the bytes it
  wrote and reads the bytes of the answer (\<open>None\<close> when connecting fails). \<open>serde_json\<close> is a codec
  per message type, SHA-256 with hexadecimal a function, and \<open>iroh\<close>'s endpoint identifiers and relay
  URLs two parsers: parameters of the definitions that use them.
\<close>

section \<open>Configuration\<close>

datatype mesh_error = MeshWrongSchema | MissingRelay | InvalidRelay string | PeerDenied
  | InvalidEndpointRecord | MismatchedResponse | OversizedResponse | InvalidArtifactHeader
  | ArtifactSizeMismatch | ArtifactRejected string | InvalidModelFrame | ModelRejected string
  | InvalidRemoteDesktopMessage | RemoteDesktopRejected string
  | Transport | InvalidJson | DeadlineExceeded int | MeshMessage string

datatype mesh_mode = LocalOnly | PrivateRelay "string list"

record mesh_config =
  mc_schema :: string
  mc_mode :: mesh_mode
  mc_allowed_peer_keys :: "string fset"

definition mesh_config_default :: mesh_config where
  "mesh_config_default =
     \<lparr>mc_schema = ''rampage.mesh-config.v1'', mc_mode = LocalOnly, mc_allowed_peer_keys = {||}\<rparr>"

fun validate_relay_urls :: "(string \<Rightarrow> 'r option) \<Rightarrow> string list \<Rightarrow> mesh_error + unit" where
  "validate_relay_urls parse_relay [] = Inr ()"
| "validate_relay_urls parse_relay (url # urls) =
     (if \<not> starts_with ''https://'' url \<or> parse_relay url = None then Inl (InvalidRelay url)
      else validate_relay_urls parse_relay urls)"

definition mesh_config_validate :: "(string \<Rightarrow> 'r option) \<Rightarrow> mesh_config \<Rightarrow> mesh_error + unit" where
  "mesh_config_validate parse_relay c =
     (if mc_schema c \<noteq> ''rampage.mesh-config.v1'' then Inl MeshWrongSchema
      else case mc_mode c of
        LocalOnly \<Rightarrow> Inr ()
      | PrivateRelay urls \<Rightarrow>
          if urls = [] then Inl MissingRelay else validate_relay_urls parse_relay urls)"

definition authorize_peer :: "mesh_config \<Rightarrow> string \<Rightarrow> mesh_error + unit" where
  "authorize_peer c authenticated_public_key =
     (if authenticated_public_key |\<in>| mc_allowed_peer_keys c then Inr () else Inl PeerDenied)"

datatype 'r relay_mode = Disabled | CustomRelays "'r list"

fun parse_relays :: "(string \<Rightarrow> 'r option) \<Rightarrow> string list \<Rightarrow> mesh_error + 'r list" where
  "parse_relays parse_relay [] = Inr []"
| "parse_relays parse_relay (url # urls) =
     (case parse_relay url of None \<Rightarrow> Inl (InvalidRelay url)
      | Some r \<Rightarrow> (case parse_relays parse_relay urls of Inl e \<Rightarrow> Inl e | Inr rs \<Rightarrow> Inr (r # rs)))"

definition relay_mode :: "(string \<Rightarrow> 'r option) \<Rightarrow> mesh_config \<Rightarrow> mesh_error + 'r relay_mode" where
  "relay_mode parse_relay c =
     (case mesh_config_validate parse_relay c of Inl e \<Rightarrow> Inl e
      | Inr _ \<Rightarrow>
       (case mc_mode c of
          LocalOnly \<Rightarrow> Inr Disabled
        | PrivateRelay urls \<Rightarrow> map_sum id CustomRelays (parse_relays parse_relay urls)))"

section \<open>Routes of an endpoint record\<close>

datatype 'r transport_addr = Ip socket_addr | Relay 'r

record ('i, 'r) endpoint_addr =
  ea_id :: 'i
  ea_addrs :: "'r transport_addr list"

record ('i, 'r) endpoint_lib =
  el_parse_id :: "string \<Rightarrow> 'i option"
  el_parse_relay :: "string \<Rightarrow> 'r option"

definition endpoint_record_shape_is_valid :: "mesh_endpoint \<Rightarrow> bool" where
  "endpoint_record_shape_is_valid r =
     (length (me_direct_addresses r) \<le> 16 \<and> length (me_relay_urls r) \<le> 16
      \<and> \<not> list_ex (\<lambda>address. 2048 < length address) (me_direct_addresses r @ me_relay_urls r))"

fun parse_all :: "(string \<Rightarrow> 'a option) \<Rightarrow> string list \<Rightarrow> mesh_error + 'a list" where
  "parse_all p [] = Inr []"
| "parse_all p (s # ss) =
     (case p s of None \<Rightarrow> Inl InvalidEndpointRecord
      | Some x \<Rightarrow> (case parse_all p ss of Inl e \<Rightarrow> Inl e | Inr xs \<Rightarrow> Inr (x # xs)))"

definition endpoint_addr_from_record_inner ::
  "('i, 'r) endpoint_lib \<Rightarrow> mesh_endpoint \<Rightarrow> mesh_error + ('i, 'r) endpoint_addr" where
  "endpoint_addr_from_record_inner E r =
     (if \<not> endpoint_record_shape_is_valid r then Inl InvalidEndpointRecord
      else case el_parse_id E (me_endpoint_id r) of None \<Rightarrow> Inl InvalidEndpointRecord
      | Some endpoint_id \<Rightarrow>
       (case parse_all parse_socket_addr (me_direct_addresses r) of Inl e \<Rightarrow> Inl e
        | Inr direct \<Rightarrow>
         (case parse_all (el_parse_relay E) (me_relay_urls r) of Inl e \<Rightarrow> Inl e
          | Inr relays \<Rightarrow>
              let addresses = map Ip direct @ map Relay relays in
              if addresses = [] then Inl InvalidEndpointRecord
              else Inr \<lparr>ea_id = endpoint_id, ea_addrs = addresses\<rparr>)))"

definition direct_route_priority :: "socket_addr \<Rightarrow> nat" where
  "direct_route_priority address =
     (case sa_ip address of
        V4 a b c d \<Rightarrow>
          if a = 192 \<and> b = 168 then 0
          else if a = 10 then 1
          else if a = 172 \<and> 16 \<le> b \<and> b \<le> 31 then 2
          else if a = 100 \<and> 64 \<le> b \<and> b \<le> 127 then 5
          else if is_loopback (V4 a b c d) \<or> is_unspecified (V4 a b c d) \<or> is_link_local_v4 (V4 a b c d) then 6
          else 4
      | V6 gs \<Rightarrow> if is_loopback (V6 gs) \<or> is_unspecified (V6 gs) then 6 else 3)"

definition direct_routes :: "socket_addr list \<Rightarrow> socket_addr list" where
  "direct_routes addresses =
     map (\<lambda>(_, _, address). address)
       (sort_key (\<lambda>(priority, position, _). (priority, position))
         (map (\<lambda>(position, address). (direct_route_priority address, position, address)) (enumerate 0 addresses)))"

definition endpoint_addr_candidates_inner ::
  "('i, 'r) endpoint_lib \<Rightarrow> mesh_endpoint \<Rightarrow> mesh_error + ('i, 'r) endpoint_addr list" where
  "endpoint_addr_candidates_inner E r =
     (if \<not> endpoint_record_shape_is_valid r then Inl InvalidEndpointRecord
      else case el_parse_id E (me_endpoint_id r) of None \<Rightarrow> Inl InvalidEndpointRecord
      | Some endpoint_id \<Rightarrow>
       (case parse_all parse_socket_addr (me_direct_addresses r) of Inl e \<Rightarrow> Inl e
        | Inr direct \<Rightarrow>
         (case parse_all (el_parse_relay E) (me_relay_urls r) of Inl e \<Rightarrow> Inl e
          | Inr relays \<Rightarrow>
              let candidates = map (\<lambda>a. \<lparr>ea_id = endpoint_id, ea_addrs = [a]\<rparr>)
                    (map Ip (direct_routes direct) @ map Relay relays) in
              if candidates = [] then Inl InvalidEndpointRecord else Inr candidates)))"

definition record_is_fresh :: "mesh_endpoint \<Rightarrow> datetime \<Rightarrow> bool" where
  "record_is_fresh r now = (me_schema r = mesh_endpoint_SCHEMA \<and> now < me_expires_at r)"

definition endpoint_addr_from_record ::
  "('i, 'r) endpoint_lib \<Rightarrow> datetime \<Rightarrow> mesh_endpoint \<Rightarrow> mesh_error + ('i, 'r) endpoint_addr" where
  "endpoint_addr_from_record E now r =
     (if \<not> record_is_fresh r now then Inl InvalidEndpointRecord else endpoint_addr_from_record_inner E r)"

definition endpoint_addr_candidates_from_record ::
  "('i, 'r) endpoint_lib \<Rightarrow> datetime \<Rightarrow> mesh_endpoint \<Rightarrow> mesh_error + ('i, 'r) endpoint_addr list" where
  "endpoint_addr_candidates_from_record E now r =
     (if \<not> record_is_fresh r now then Inl InvalidEndpointRecord else endpoint_addr_candidates_inner E r)"

definition endpoint_addr_from_pinned_record ::
  "('i, 'r) endpoint_lib \<Rightarrow> mesh_endpoint \<Rightarrow> mesh_error + ('i, 'r) endpoint_addr" where
  "endpoint_addr_from_pinned_record E r =
     (if me_schema r \<noteq> mesh_endpoint_SCHEMA then Inl InvalidEndpointRecord
      else endpoint_addr_from_record_inner E r)"

definition endpoint_addr_candidates_from_pinned_record ::
  "('i, 'r) endpoint_lib \<Rightarrow> mesh_endpoint \<Rightarrow> mesh_error + ('i, 'r) endpoint_addr list" where
  "endpoint_addr_candidates_from_pinned_record E r =
     (if me_schema r \<noteq> mesh_endpoint_SCHEMA then Inl InvalidEndpointRecord
      else endpoint_addr_candidates_inner E r)"

section \<open>Messages\<close>

record mesh_control_request =
  cq_schema :: string
  cq_request_id :: uuid
  cq_method :: string
  cq_path :: string
  cq_body :: "json option"

definition mesh_control_request_SCHEMA :: string where
  "mesh_control_request_SCHEMA = ''rampage.mesh-control-request.v1''"

record mesh_control_response =
  cs_schema :: string
  cs_request_id :: uuid
  cs_status :: u16
  cs_body :: json

definition mesh_control_response_SCHEMA :: string where
  "mesh_control_response_SCHEMA = ''rampage.mesh-control-response.v1''"

record model_chat_message =
  cm_role :: string
  cm_content :: string

record model_invocation_request =
  mi_schema :: string
  mi_request_id :: uuid
  mi_lease :: model_session_lease
  mi_messages :: "model_chat_message list"
  mi_max_output_tokens :: u32
  mi_stream :: bool
  mi_temperature :: "f32 option"
  mi_top_p :: "f32 option"

definition model_invocation_request_SCHEMA :: string where
  "model_invocation_request_SCHEMA = ''rampage.model-invocation-request.v1''"

definition prompt_bytes :: "model_invocation_request \<Rightarrow> u64" where
  "prompt_bytes r = foldl (\<lambda>total_bytes m. sat_add (sat_add total_bytes (of_nat (length (cm_role m))))
     (of_nat (length (cm_content m)))) 0 (mi_messages r)"

text \<open>A finite \<open>f32\<close> between zero and a positive bound, on the bit patterns: the non-negative floats are
  ordered like their patterns, and minus zero equals zero.\<close>

definition f32_between_0_and :: "f32 \<Rightarrow> f32 \<Rightarrow> bool" where
  "f32_between_0_and hi v = (v = 0x80000000 \<or> v \<le> hi)"

definition model_invocation_is_valid_for :: "model_invocation_request \<Rightarrow> uuid \<Rightarrow> string \<Rightarrow> bool" where
  "model_invocation_is_valid_for r node_id controller_endpoint_id =
     (mi_schema r = model_invocation_request_SCHEMA
      \<and> ml_node_id (mi_lease r) = node_id
      \<and> ml_controller_endpoint_id (mi_lease r) = controller_endpoint_id
      \<and> mi_messages r \<noteq> [] \<and> length (mi_messages r) \<le> 256
      \<and> list_all (\<lambda>m. cm_role m \<in> {''system'', ''user'', ''assistant''} \<and> cm_content m \<noteq> []) (mi_messages r)
      \<and> prompt_bytes r \<le> ml_max_prompt_bytes (mi_lease r)
      \<and> mi_max_output_tokens r > 0
      \<and> mi_max_output_tokens r \<le> ml_max_output_tokens (mi_lease r)
      \<and> (case mi_temperature r of None \<Rightarrow> True | Some v \<Rightarrow> f32_between_0_and 0x40000000 v)
      \<and> (case mi_top_p r of None \<Rightarrow> True | Some v \<Rightarrow> f32_between_0_and 0x3F800000 v))"

datatype model_invocation_frame_kind = Delta | FrameComplete | FrameError

record model_invocation_frame =
  mf_schema :: string
  mf_request_id :: uuid
  mf_sequence :: u64
  mf_kind :: model_invocation_frame_kind
  mf_content :: string
  mf_finish_reason :: "string option"
  mf_error :: "string option"
  mf_receipt :: "model_execution_receipt option"

definition model_invocation_frame_SCHEMA :: string where
  "model_invocation_frame_SCHEMA = ''rampage.model-invocation-frame.v1''"

record remote_desktop_response =
  rdp_schema :: string
  rdp_request_id :: uuid
  rdp_status :: u16
  rdp_frame :: "remote_desktop_frame option"
  rdp_applied_events :: u16
  rdp_error :: "string option"

definition remote_desktop_response_SCHEMA :: string where
  "remote_desktop_response_SCHEMA = ''rampage.remote-desktop-response.v1''"

record artifact_transfer_response =
  as_schema :: string
  as_request_id :: uuid
  as_status :: u16
  as_artifact :: "artifact_ref option"
  as_progress :: "artifact_transfer_progress option"
  as_chunk_index :: "u32 option"
  as_chunk_digest :: "string option"
  as_payload_size :: u64
  as_replica_receipt :: "artifact_replica_receipt option"
  as_error :: "string option"

definition artifact_transfer_response_SCHEMA :: string where
  "artifact_transfer_response_SCHEMA = ''rampage.artifact-transfer-response.v2''"

section \<open>Framing\<close>

definition MAX_ARTIFACT_HEADER_BYTES :: nat where
  "MAX_ARTIFACT_HEADER_BYTES = 64 * 1024"

record 'a codec =
  to_vec :: "'a \<Rightarrow> string"
  from_slice :: "string \<Rightarrow> 'a option"

definition be_bytes4 :: "nat \<Rightarrow> string" where
  "be_bytes4 n = [char_of (n div 2 ^ 24 mod 256), char_of (n div 2 ^ 16 mod 256),
     char_of (n div 2 ^ 8 mod 256), char_of (n mod 256)]"

definition of_be_bytes4 :: "string \<Rightarrow> nat" where
  "of_be_bytes4 s = foldl (\<lambda>n c. n * 256 + byte c) 0 s"

definition read_exact :: "nat \<Rightarrow> string \<Rightarrow> mesh_error + string \<times> string" where
  "read_exact n s = (if length s < n then Inl Transport else Inr (take n s, drop n s))"

definition write_header :: "'a codec \<Rightarrow> 'a \<Rightarrow> mesh_error + string" where
  "write_header K v =
     (let encoded = to_vec K v in
      if length encoded \<le> MAX_ARTIFACT_HEADER_BYTES then Inr (be_bytes4 (length encoded) @ encoded)
      else Inl InvalidArtifactHeader)"

definition read_header :: "'a codec \<Rightarrow> string \<Rightarrow> mesh_error + 'a \<times> string" where
  "read_header K s =
     (case read_exact 4 s of Inl e \<Rightarrow> Inl e
      | Inr (length_bytes, s) \<Rightarrow>
          let n = of_be_bytes4 length_bytes in
          if \<not> n \<le> MAX_ARTIFACT_HEADER_BYTES then Inl InvalidArtifactHeader
          else (case read_exact n s of Inl e \<Rightarrow> Inl e
              | Inr (encoded, s) \<Rightarrow>
                 (case from_slice K encoded of None \<Rightarrow> Inl InvalidJson | Some v \<Rightarrow> Inr (v, s))))"

text \<open>\<open>(200..300).contains(&status)\<close>.\<close>

definition is_success :: "u16 \<Rightarrow> bool" where
  "is_success status = (200 \<le> status \<and> status < 300)"

type_synonym peer = "string \<Rightarrow> string option"

section \<open>Control requests\<close>

definition control_request_on_connection ::
  "mesh_control_request codec \<Rightarrow> mesh_control_response codec \<Rightarrow> peer \<Rightarrow> mesh_control_request
     \<Rightarrow> mesh_error + mesh_control_response" where
  "control_request_on_connection KQ KS peer request =
     (if cq_schema request \<noteq> mesh_control_request_SCHEMA
      then Inl (MeshMessage ''unsupported mesh control request schema'')
      else let encoded = to_vec KQ request in
      if \<not> length encoded \<le> 1024 * 1024 then Inl (MeshMessage ''mesh control request is too large'')
      else (case peer encoded of None \<Rightarrow> Inl Transport
          | Some response_bytes \<Rightarrow>
              if \<not> length response_bytes \<le> 1024 * 1024 then Inl OversizedResponse
              else (case from_slice KS response_bytes of None \<Rightarrow> Inl InvalidJson
                  | Some response \<Rightarrow>
                      if cs_schema response \<noteq> mesh_control_response_SCHEMA
                         \<or> cs_request_id response \<noteq> cq_request_id request
                      then Inl MismatchedResponse else Inr response)))"

definition CONTROL_REQUEST_DEADLINE :: int where
  "CONTROL_REQUEST_DEADLINE = seconds 15"

text \<open>The clock of one control request: how long connecting takes and whether it succeeds, the time
  elapsed when it returns, and how long the exchange takes. A closed connection carries its code
  and reason.\<close>

record control_timing =
  ct_connect_time :: int
  ct_connected :: bool
  ct_elapsed :: int
  ct_exchange_time :: int

type_synonym closing = "(nat \<times> string) option"

definition control_request_with_policy ::
  "mesh_control_request codec \<Rightarrow> mesh_control_response codec \<Rightarrow> peer \<Rightarrow> control_timing
     \<Rightarrow> mesh_control_request \<Rightarrow> int \<Rightarrow> bool \<Rightarrow> (mesh_error + mesh_control_response) \<times> closing" where
  "control_request_with_policy KQ KS peer T request deadline close_on_success =
     (let deadline_error = DeadlineExceeded deadline in
      if \<not> (deadline \<noteq> 0 \<and> deadline \<le> CONTROL_REQUEST_DEADLINE)
      then (Inl (MeshMessage ''mesh control deadline must be positive and no greater than 15 seconds''), None)
      else if deadline < ct_connect_time T then (Inl deadline_error, None)
      else if \<not> ct_connected T then (Inl Transport, None)
      else let remaining = max 0 (deadline - ct_elapsed T) in
      if remaining = 0 then (Inl deadline_error, Some (1, ''control deadline''))
      else if remaining < ct_exchange_time T then (Inl deadline_error, Some (1, ''control deadline''))
      else (case control_request_on_connection KQ KS peer request of
          Inr response \<Rightarrow> (Inr response, if close_on_success then Some (0, ''one-shot complete'') else None)
        | Inl e \<Rightarrow> (Inl e, Some (1, ''control failed''))))"

section \<open>Model streams\<close>

definition read_model_request ::
  "model_invocation_request codec \<Rightarrow> string \<Rightarrow> mesh_error + model_invocation_request \<times> string" where
  "read_model_request K s =
     (case read_header K s of Inl e \<Rightarrow> Inl e
      | Inr (request, s) \<Rightarrow>
          if mi_schema request = model_invocation_request_SCHEMA then Inr (request, s) else Inl InvalidModelFrame)"

definition write_model_frame :: "model_invocation_frame codec \<Rightarrow> model_invocation_frame \<Rightarrow> mesh_error + string" where
  "write_model_frame K frame =
     (if mf_schema frame = model_invocation_frame_SCHEMA then write_header K frame else Inl InvalidModelFrame)"

record model_response_stream =
  rst_receive :: string
  rst_request_id :: uuid

definition next_frame ::
  "model_invocation_frame codec \<Rightarrow> model_response_stream \<Rightarrow> mesh_error + model_invocation_frame \<times> model_response_stream" where
  "next_frame K stream =
     (case read_header K (rst_receive stream) of Inl e \<Rightarrow> Inl e
      | Inr (frame, s) \<Rightarrow>
          if mf_schema frame = model_invocation_frame_SCHEMA \<and> mf_request_id frame = rst_request_id stream
          then Inr (frame, stream\<lparr>rst_receive := s\<rparr>) else Inl InvalidModelFrame)"

definition invoke_model ::
  "model_invocation_request codec \<Rightarrow> peer \<Rightarrow> model_invocation_request \<Rightarrow> mesh_error + model_response_stream" where
  "invoke_model K peer request =
     (if mi_schema request \<noteq> model_invocation_request_SCHEMA then Inl InvalidModelFrame
      else case write_header K request of Inl e \<Rightarrow> Inl e
      | Inr bytes \<Rightarrow>
       (case peer bytes of None \<Rightarrow> Inl Transport
        | Some receive \<Rightarrow> Inr \<lparr>rst_receive = receive, rst_request_id = mi_request_id request\<rparr>))"

section \<open>Remote desktop\<close>

definition read_remote_desktop_request ::
  "remote_desktop_request codec \<Rightarrow> string \<Rightarrow> mesh_error + remote_desktop_request \<times> string" where
  "read_remote_desktop_request K s =
     (case read_header K s of Inl e \<Rightarrow> Inl e
      | Inr (request, s) \<Rightarrow>
          if rdr_schema request = remote_desktop_request_SCHEMA then Inr (request, s)
          else Inl InvalidRemoteDesktopMessage)"

definition frame_payload_size :: "remote_desktop_response \<Rightarrow> u64" where
  "frame_payload_size response = (case rdp_frame response of None \<Rightarrow> 0 | Some frame \<Rightarrow> rf_payload_size frame)"

definition write_remote_desktop_response ::
  "remote_desktop_response codec \<Rightarrow> remote_desktop_response \<Rightarrow> string \<Rightarrow> mesh_error + string" where
  "write_remote_desktop_response K response payload =
     (if \<not> (rdp_schema response = remote_desktop_response_SCHEMA
            \<and> frame_payload_size response = of_nat (length payload)
            \<and> frame_payload_size response \<le> MAX_REMOTE_DESKTOP_FRAME_BYTES)
      then Inl InvalidRemoteDesktopMessage
      else case write_header K response of Inl e \<Rightarrow> Inl e | Inr bytes \<Rightarrow> Inr (bytes @ payload))"

definition remote_desktop_exchange ::
  "(string \<Rightarrow> string) \<Rightarrow> remote_desktop_request codec \<Rightarrow> remote_desktop_response codec \<Rightarrow> peer
     \<Rightarrow> remote_desktop_request \<Rightarrow> mesh_error + remote_desktop_response \<times> string" where
  "remote_desktop_exchange sha256_hex KQ KS peer request =
     (if rdr_schema request \<noteq> remote_desktop_request_SCHEMA then Inl InvalidRemoteDesktopMessage
      else case write_header KQ request of Inl e \<Rightarrow> Inl e
      | Inr bytes \<Rightarrow>
      case peer bytes of None \<Rightarrow> Inl Transport
      | Some receive \<Rightarrow>
      case read_header KS receive of Inl e \<Rightarrow> Inl e
      | Inr (response, receive) \<Rightarrow>
        if \<not> (rdp_schema response = remote_desktop_response_SCHEMA \<and> rdp_request_id response = rdr_request_id request)
        then Inl InvalidRemoteDesktopMessage
        else if \<not> frame_payload_size response \<le> MAX_REMOTE_DESKTOP_FRAME_BYTES
        then Inl InvalidRemoteDesktopMessage
        else (case read_exact (unat (frame_payload_size response)) receive of Inl e \<Rightarrow> Inl e
          | Inr (payload, _) \<Rightarrow>
              if \<not> is_success (rdp_status response)
              then (if payload \<noteq> [] then Inl InvalidRemoteDesktopMessage
                    else Inl (RemoteDesktopRejected (unwrap_or ''unknown error'' (rdp_error response))))
              else (case rdp_frame response of
                  Some frame \<Rightarrow>
                    if remote_desktop_frame_is_valid_for frame (rdr_lease request)
                       \<and> rf_payload_digest frame = ''sha256:'' @ sha256_hex payload
                    then Inr (response, payload) else Inl InvalidRemoteDesktopMessage
                | None \<Rightarrow>
                    if payload = [] then Inr (response, payload) else Inl InvalidRemoteDesktopMessage)))"

section \<open>Artifacts\<close>

definition read_artifact_request ::
  "artifact_transfer_request codec \<Rightarrow> string \<Rightarrow> mesh_error + artifact_transfer_request \<times> string" where
  "read_artifact_request K s =
     (case read_header K s of Inl e \<Rightarrow> Inl e
      | Inr (request, s) \<Rightarrow>
          if \<not> artifact_transfer_request_is_valid request then Inl InvalidArtifactHeader
          else if at_action request = PutChunk
          then (case read_exact (unat (at_payload_size request)) s of Inl e \<Rightarrow> Inl e
              | Inr (payload, _) \<Rightarrow> Inr (request, payload))
          else Inr (request, []))"

definition write_artifact_response ::
  "artifact_transfer_response codec \<Rightarrow> artifact_transfer_response \<Rightarrow> string \<Rightarrow> mesh_error + string" where
  "write_artifact_response K response payload =
     (if \<not> (as_payload_size response = of_nat (length payload)
            \<and> as_payload_size response \<le> ucast ARTIFACT_TRANSFER_CHUNK_BYTES)
      then Inl ArtifactSizeMismatch
      else case write_header K response of Inl e \<Rightarrow> Inl e | Inr bytes \<Rightarrow> Inr (bytes @ payload))"

definition artifact_request ::
  "artifact_transfer_request codec \<Rightarrow> artifact_transfer_response codec \<Rightarrow> peer
     \<Rightarrow> artifact_transfer_request \<Rightarrow> string \<Rightarrow> mesh_error + artifact_transfer_response \<times> string" where
  "artifact_request KQ KS peer request payload =
     (if \<not> artifact_transfer_request_is_valid request then Inl InvalidArtifactHeader
      else let expected = (if at_action request = PutChunk then at_payload_size request else 0) in
      if of_nat (length payload) \<noteq> expected then Inl ArtifactSizeMismatch
      else case write_header KQ request of Inl e \<Rightarrow> Inl e
      | Inr bytes \<Rightarrow>
      case peer (bytes @ payload) of None \<Rightarrow> Inl Transport
      | Some receive \<Rightarrow>
      case read_header KS receive of Inl e \<Rightarrow> Inl e
      | Inr (response, receive) \<Rightarrow>
        if \<not> (as_schema response = artifact_transfer_response_SCHEMA
              \<and> as_request_id response = at_request_id request
              \<and> as_payload_size response \<le> ucast ARTIFACT_TRANSFER_CHUNK_BYTES)
        then Inl MismatchedResponse
        else if \<not> is_success (as_status response)
        then Inl (ArtifactRejected (unwrap_or ''unknown error'' (as_error response)))
        else (case read_exact (unat (as_payload_size response)) receive of Inl e \<Rightarrow> Inl e
          | Inr (response_payload, _) \<Rightarrow> Inr (response, response_payload)))"

record artifact_transfer_context =
  tc_lease :: storage_lease
  tc_media_type :: string
  tc_session_id :: uuid
  tc_challenge_nonce :: string

definition context_request ::
  "artifact_transfer_context \<Rightarrow> uuid \<Rightarrow> artifact_transfer_action \<Rightarrow> u32 option \<Rightarrow> string option \<Rightarrow> u64
     \<Rightarrow> artifact_transfer_request" where
  "context_request c request_id action index digest payload_size =
     \<lparr>at_schema = artifact_transfer_request_SCHEMA, at_request_id = request_id,
      at_session_id = tc_session_id c, at_lease = tc_lease c, at_media_type = tc_media_type c,
      at_action = action, at_chunk_size = ARTIFACT_TRANSFER_CHUNK_BYTES, at_chunk_index = index,
      at_chunk_digest = digest, at_payload_size = payload_size, at_challenge_nonce = tc_challenge_nonce c\<rparr>"

definition required_field :: "'a option \<Rightarrow> mesh_error + 'a" where
  "required_field x = (case x of None \<Rightarrow> Inl InvalidArtifactHeader | Some v \<Rightarrow> Inr v)"

type_synonym artifact_exchange =
  "artifact_transfer_request \<Rightarrow> string \<Rightarrow> mesh_error + artifact_transfer_response \<times> string"

definition artifact_put ::
  "artifact_exchange \<Rightarrow> artifact_transfer_context \<Rightarrow> uuid \<Rightarrow> mesh_error + artifact_transfer_progress" where
  "artifact_put exchange c request_id =
     (if sl_operation (tc_lease c) \<noteq> Put then Inl InvalidArtifactHeader
      else case exchange (context_request c request_id Begin None None 0) [] of Inl e \<Rightarrow> Inl e
      | Inr (response, payload) \<Rightarrow>
          if payload \<noteq> [] then Inl ArtifactSizeMismatch else required_field (as_progress response))"

definition artifact_put_chunk ::
  "artifact_exchange \<Rightarrow> artifact_transfer_context \<Rightarrow> uuid \<Rightarrow> u32 \<Rightarrow> string \<Rightarrow> string
     \<Rightarrow> mesh_error + artifact_transfer_progress" where
  "artifact_put_chunk exchange c request_id index digest chunk =
     (if sl_operation (tc_lease c) \<noteq> Put then Inl InvalidArtifactHeader
      else case exchange (context_request c request_id PutChunk (Some index) (Some digest)
                 (of_nat (length chunk))) chunk of Inl e \<Rightarrow> Inl e
      | Inr (response, payload) \<Rightarrow>
          if payload \<noteq> [] then Inl ArtifactSizeMismatch else required_field (as_progress response))"

definition stored_artifact ::
  "artifact_transfer_response \<Rightarrow> mesh_error + artifact_ref \<times> artifact_replica_receipt" where
  "stored_artifact response =
     (case required_field (as_artifact response) of Inl e \<Rightarrow> Inl e
      | Inr artifact \<Rightarrow>
       (case required_field (as_replica_receipt response) of Inl e \<Rightarrow> Inl e
        | Inr receipt \<Rightarrow> Inr (artifact, receipt)))"

definition artifact_commit ::
  "artifact_exchange \<Rightarrow> artifact_transfer_context \<Rightarrow> uuid
     \<Rightarrow> mesh_error + artifact_ref \<times> artifact_replica_receipt" where
  "artifact_commit exchange c request_id =
     (if sl_operation (tc_lease c) \<noteq> Put then Inl InvalidArtifactHeader
      else case exchange (context_request c request_id Commit None None 0) [] of Inl e \<Rightarrow> Inl e
      | Inr (response, payload) \<Rightarrow>
          if payload \<noteq> [] then Inl ArtifactSizeMismatch else stored_artifact response)"

definition artifact_get_chunk ::
  "artifact_exchange \<Rightarrow> artifact_transfer_context \<Rightarrow> uuid \<Rightarrow> u32
     \<Rightarrow> mesh_error + artifact_ref \<times> string \<times> string" where
  "artifact_get_chunk exchange c request_id index =
     (if sl_operation (tc_lease c) \<noteq> Get then Inl InvalidArtifactHeader
      else case exchange (context_request c request_id GetChunk (Some index) None 0) [] of Inl e \<Rightarrow> Inl e
      | Inr (response, payload) \<Rightarrow>
          if \<not> (as_chunk_index response = Some index \<and> as_chunk_digest response \<noteq> None
                \<and> as_payload_size response = of_nat (length payload))
          then Inl ArtifactSizeMismatch
          else (case required_field (as_artifact response) of Inl e \<Rightarrow> Inl e
              | Inr artifact \<Rightarrow>
               (case required_field (as_chunk_digest response) of Inl e \<Rightarrow> Inl e
                | Inr digest \<Rightarrow> Inr (artifact, digest, payload))))"

definition artifact_head ::
  "artifact_exchange \<Rightarrow> artifact_transfer_context \<Rightarrow> uuid
     \<Rightarrow> mesh_error + artifact_ref \<times> artifact_replica_receipt" where
  "artifact_head exchange c request_id =
     (if sl_operation (tc_lease c) \<noteq> Get then Inl InvalidArtifactHeader
      else case exchange (context_request c request_id Head None None 0) [] of Inl e \<Rightarrow> Inl e
      | Inr (response, payload) \<Rightarrow>
          if payload \<noteq> [] then Inl ArtifactSizeMismatch else stored_artifact response)"

end
