(* ===== verification/Rampage_Wire.thy ===== *)
theory Rampage_Wire
  imports Rampage_Mesh "HOL-Library.Multiset"
begin

text \<open>
  Correctness of the mesh: frames survive the wire, an artifact exchange returns exactly what the
  server answered, a remote-desktop client believes nothing the lease and the digest do not bear
  out, and the single-route candidates of an endpoint record are its routes in order of preference.
\<close>

section \<open>Frames\<close>

lemma length_be_bytes4 [simp]: "length (be_bytes4 n) = 4"
  by (simp add: be_bytes4_def)

lemma of_be_bytes4:
  assumes "n < 2 ^ 32"
  shows "of_be_bytes4 (be_bytes4 n) = n"
proof -
  define q1 q2 q3 where "q1 = n div 256" and "q2 = q1 div 256" and "q3 = q2 div 256"
  have "n div 2 ^ 8 = q1" "n div 2 ^ 16 = q2" "n div 2 ^ 24 = q3"
    by (simp_all add: q1_def q2_def q3_def div_mult2_eq [symmetric])
  then have "of_be_bytes4 (be_bytes4 n) = ((q3 mod 256 * 256 + q2 mod 256) * 256 + q1 mod 256) * 256 + n mod 256"
    by (simp add: of_be_bytes4_def be_bytes4_def byte_def)
  moreover have "q3 < 256" using assms by (simp add: q1_def q2_def q3_def div_mult2_eq [symmetric] less_mult_imp_div_less)
  moreover have "q3 * 256 + q2 mod 256 = q2" "q2 * 256 + q1 mod 256 = q1" "q1 * 256 + n mod 256 = n"
    by (simp_all add: q1_def q2_def q3_def)
  ultimately show ?thesis by simp
qed

lemma read_exact_append [simp]: "length a = n \<Longrightarrow> read_exact n (a @ b) = Inr (a, b)"
  by (simp add: read_exact_def)

lemma header_roundtrip:
  assumes "from_slice K (to_vec K v) = Some v" "write_header K v = Inr bytes"
  shows "read_header K (bytes @ rest) = Inr (v, rest)"
proof -
  let ?e = "to_vec K v"
  from assms(2) have le: "length ?e \<le> MAX_ARTIFACT_HEADER_BYTES" and bytes: "bytes = be_bytes4 (length ?e) @ ?e"
    by (auto simp: write_header_def Let_def split: if_splits)
  then have "of_be_bytes4 (be_bytes4 (length ?e)) = length ?e"
    by (intro of_be_bytes4) (simp add: MAX_ARTIFACT_HEADER_BYTES_def)
  with le bytes assms(1) show ?thesis by (simp add: read_header_def Let_def)
qed

section \<open>Routes\<close>

lemma insort_key_lex:
  assumes "\<forall>y\<in>set ys. fst (snd x) < fst (snd y)"
  shows "insort_key (\<lambda>(p, i, _). (p :: nat, i :: nat)) x ys = insort_key fst x ys"
  using assms by (induction ys) (auto simp: less_eq_prod_def split: prod.splits)

lemma sort_key_lex:
  "sort_key (\<lambda>(p, i, _). (p, i)) (map (\<lambda>(i, a). (f a :: nat, i, a)) (enumerate n xs))
     = sort_key fst (map (\<lambda>(i, a). (f a, i, a)) (enumerate n xs))"
proof (induction xs arbitrary: n)
  case Nil
  then show ?case by simp
next
  case (Cons x xs)
  have "\<forall>y\<in>set (sort_key fst (map (\<lambda>(i, a). (f a, i, a)) (enumerate (Suc n) xs))). fst (snd (f x, n, x)) < fst (snd y)"
    by (auto simp: in_set_enumerate_eq)
  from insort_key_lex [OF this] Cons.IH show ?case by simp
qed

lemma map_insort_key: "map g (insort_key (\<lambda>x. f (g x)) x ys) = insort_key f (g x) (map g ys)"
  by (induction ys) auto

lemma map_sort_key: "map g (sort_key (\<lambda>x. f (g x)) xs) = sort_key f (map g xs)"
  by (induction xs) (auto simp: map_insort_key)

lemma insort_key_eq: "\<forall>y\<in>insert x (set ys). f y = g y \<Longrightarrow> insort_key f x ys = insort_key g x ys"
  by (induction ys) auto

lemma sort_key_eq: "\<forall>y\<in>set xs. f y = g y \<Longrightarrow> sort_key f xs = sort_key g xs"
  by (induction xs) (auto intro!: insort_key_eq)

text \<open>Sorting by priority and position is the stable sort by priority.\<close>

lemma direct_routes_stable: "direct_routes addresses = sort_key direct_route_priority addresses"
proof -
  let ?t = "\<lambda>(i, a). (direct_route_priority a, i :: nat, a)"
  have "sort_key fst (map ?t (enumerate 0 addresses))
      = sort_key (\<lambda>x. direct_route_priority (snd (snd x))) (map ?t (enumerate 0 addresses))"
    by (rule sort_key_eq) auto
  moreover have "(\<lambda>(_ :: nat, _ :: nat, address :: socket_addr). address) = (\<lambda>x. snd (snd x))"
    by (auto simp: fun_eq_iff)
  moreover have "map (snd \<circ> snd) (map ?t (enumerate n xs)) = xs" for n and xs :: "socket_addr list"
    by (induction xs arbitrary: n) auto
  ultimately show ?thesis
    using map_sort_key [of "snd \<circ> snd" direct_route_priority "map ?t (enumerate 0 addresses)"]
    by (simp add: direct_routes_def sort_key_lex comp_def)
qed

fun route_priority :: "'r transport_addr \<Rightarrow> nat" where
  "route_priority (Ip address) = direct_route_priority address"
| "route_priority (Relay relay) = 7"

lemma direct_route_priority_le: "direct_route_priority a \<le> 6"
  by (simp add: direct_route_priority_def split: ip_addr.split)

lemma routes_sorted:
  "sorted (map route_priority (map Ip (direct_routes ds) @ map Relay rs))"
proof -
  have d: "map route_priority (map Ip xs) = map direct_route_priority xs" for xs by simp
  have r: "map route_priority (map Relay rs) = replicate (length rs) 7" by (simp add: map_replicate_const comp_def)
  have "sorted (replicate n (7::nat))" for n by (induction n) auto
  moreover have "x \<le> 7" if "x \<in> set (map direct_route_priority (direct_routes ds))" for x
    using that direct_route_priority_le by (fastforce intro: le_trans [of _ 6])
  ultimately show ?thesis unfolding map_append d r
    by (auto simp: sorted_append direct_routes_stable)
qed

section \<open>A server at the other end\<close>

text \<open>The peer that serves artifacts with a handler: it reads the request and writes the answer, and
  drops the connection when either is refused.\<close>

definition serve_artifacts ::
  "artifact_transfer_request codec \<Rightarrow> artifact_transfer_response codec
     \<Rightarrow> (artifact_transfer_request \<Rightarrow> string \<Rightarrow> artifact_transfer_response \<times> string) \<Rightarrow> peer" where
  "serve_artifacts KQ KS handler bytes =
     (case read_artifact_request KQ bytes of
        Inl _ \<Rightarrow> None
      | Inr (request, payload) \<Rightarrow>
         (case write_artifact_response KS (fst (handler request payload)) (snd (handler request payload)) of
            Inl _ \<Rightarrow> None | Inr answer \<Rightarrow> Some answer))"

lemma unat_of_nat_len:
  assumes "(of_nat n :: u64) = w" "n < 2 ^ 64"
  shows "unat w = n"
proof -
  have "unat (of_nat n :: u64) = n" using assms(2) by (simp add: unat_of_nat take_bit_nat_eq_self)
  with assms(1) show ?thesis by simp
qed

lemma read_sent_request:
  assumes "artifact_transfer_request_is_valid request"
    and "from_slice KQ (to_vec KQ request) = Some request" "write_header KQ request = Inr bytes"
    and "length payload < 2 ^ 64"
    and "of_nat (length payload) = (if at_action request = PutChunk then at_payload_size request else 0)"
  shows "read_artifact_request KQ (bytes @ payload) = Inr (request, payload)"
proof -
  note h = header_roundtrip [OF assms(2,3), of payload]
  show ?thesis
  proof (cases "at_action request = PutChunk")
    case True
    with assms(4,5) have "unat (at_payload_size request) = length payload" by (auto dest: unat_of_nat_len)
    with True h assms(1) show ?thesis by (simp add: read_artifact_request_def read_exact_def)
  next
    case False
    with assms(4,5) have "payload = []" using unat_of_nat_len [of "length payload" 0] by simp
    with False h assms(1) show ?thesis by (simp add: read_artifact_request_def)
  qed
qed

section \<open>Properties\<close>

text \<open>
  The route candidates of an endpoint record are its routes. Expanding a fresh record succeeds
  exactly when resolving it does, with the same error; each candidate carries one route under the
  signed endpoint identity; together they are the routes of the resolved address, sorted by the
  preference of private networks, with relays last; and routes of equal preference keep their order.
\<close>

theorem route_candidates_exact:
  "case endpoint_addr_from_record E now r of
     Inl e \<Rightarrow> endpoint_addr_candidates_from_record E now r = Inl e
   | Inr a \<Rightarrow> \<exists>cs. endpoint_addr_candidates_from_record E now r = Inr cs \<and> cs \<noteq> []
       \<and> list_all (\<lambda>c. ea_id c = ea_id a \<and> length (ea_addrs c) = 1) cs
       \<and> concat (map ea_addrs cs) = sort_key route_priority (ea_addrs a)"
proof -
  have sorted_routes: "map Ip (direct_routes ds) @ map Relay rs = sort_key route_priority (map Ip ds @ map Relay rs)"
    for ds and rs :: "'b list"
  proof -
    have "sort_key route_priority (map Ip ds @ map Relay rs) = map Ip (direct_routes ds) @ map Relay rs"
    proof (rule properties_for_sort_key)
      show "mset (map Ip (direct_routes ds) @ map Relay rs) = mset (map Ip ds @ map Relay rs)"
        by (simp add: direct_routes_stable)
      show "sorted (map route_priority (map Ip (direct_routes ds) @ map Relay rs))" by (rule routes_sorted)
    next
      fix k :: "'b transport_addr"
      have "filter (\<lambda>a. p = direct_route_priority a) (direct_routes ds) = filter (\<lambda>a. p = direct_route_priority a) ds" for p
        using sort_key_stable [of direct_route_priority p ds] by (simp add: direct_routes_stable eq_commute)
      then show "filter (\<lambda>x. route_priority k = route_priority x) (map Ip (direct_routes ds) @ map Relay rs)
          = filter (\<lambda>x. route_priority k = route_priority x) (map Ip ds @ map Relay rs)"
        by (simp add: filter_map comp_def)
    qed
    then show ?thesis ..
  qed
  have single: "concat (map ea_addrs (map (\<lambda>a. \<lparr>ea_id = i, ea_addrs = [a]\<rparr>) as)) = as" for i :: 'a and as :: "'b transport_addr list"
    by (induction as) auto
  show ?thesis
  proof (cases "endpoint_addr_from_record E now r")
    case (Inl e)
    then show ?thesis
      by (auto simp: endpoint_addr_from_record_def endpoint_addr_candidates_from_record_def
          endpoint_addr_from_record_inner_def endpoint_addr_candidates_inner_def Let_def direct_routes_stable
          split: option.splits sum.splits if_splits)
  next
    case (Inr a)
    then obtain i ds rs where fresh: "record_is_fresh r now" "endpoint_record_shape_is_valid r"
      and parsed: "el_parse_id E (me_endpoint_id r) = Some i" "parse_all parse_socket_addr (me_direct_addresses r) = Inr ds"
        "parse_all (el_parse_relay E) (me_relay_urls r) = Inr rs"
      and a: "map Ip ds @ map Relay rs \<noteq> []" "a = \<lparr>ea_id = i, ea_addrs = map Ip ds @ map Relay rs\<rparr>"
      by (auto simp: endpoint_addr_from_record_def endpoint_addr_from_record_inner_def Let_def
          split: option.splits sum.splits if_splits)
    let ?routes = "map Ip (direct_routes ds) @ map Relay rs"
    let ?cs = "map (\<lambda>x. \<lparr>ea_id = i, ea_addrs = [x]\<rparr>) ?routes"
    have "?routes \<noteq> []" using a(1) by (simp add: direct_routes_stable) (metis length_0_conv length_sort)
    then have "endpoint_addr_candidates_from_record E now r = Inr ?cs"
      using fresh parsed
      by (simp add: endpoint_addr_candidates_from_record_def endpoint_addr_candidates_inner_def Let_def del: map_append)
    moreover have "concat (map ea_addrs ?cs) = sort_key route_priority (ea_addrs a)"
      unfolding single a(2) by (simp add: sorted_routes)
    moreover have "list_all (\<lambda>c. ea_id c = ea_id a \<and> length (ea_addrs c) = 1) ?cs"
      unfolding a(2) list_all_iff set_map by auto
    moreover have "?cs \<noteq> []" using \<open>?routes \<noteq> []\<close> by simp
    ultimately show ?thesis unfolding Inr sum.case by blast
  qed
qed

text \<open>
  An artifact exchange is faithful. When a client sends a valid request with its payload to a
  peer that serves artifacts, the handler sees exactly that request and payload, and the client gets
  back exactly the handler's response and payload, provided the answer is a success for this
  request, its size field counts the payload (at most one chunk), both headers fit their 64 KiB, and
  the JSON codec returns the two messages it wrote.
\<close>

theorem artifact_exchange_faithful:
  assumes "artifact_transfer_request_is_valid request"
    and "of_nat (length payload) = (if at_action request = PutChunk then at_payload_size request else 0)"
    and "length payload < 2 ^ 64"
    and "handler request payload = (response, answer)"
    and "as_schema response = artifact_transfer_response_SCHEMA" "as_request_id response = at_request_id request"
    and "is_success (as_status response)"
    and "as_payload_size response = of_nat (length answer)" "length answer \<le> unat ARTIFACT_TRANSFER_CHUNK_BYTES"
    and "length (to_vec KQ request) \<le> MAX_ARTIFACT_HEADER_BYTES" "length (to_vec KS response) \<le> MAX_ARTIFACT_HEADER_BYTES"
    and "from_slice KQ (to_vec KQ request) = Some request" "from_slice KS (to_vec KS response) = Some response"
  shows "artifact_request KQ KS (serve_artifacts KQ KS handler) request payload = Inr (response, answer)"
proof -
  obtain qb where qb: "write_header KQ request = Inr qb" using assms(10) by (simp add: write_header_def Let_def)
  obtain sb where sb: "write_header KS response = Inr sb" using assms(11) by (simp add: write_header_def Let_def)
  have small: "length answer < 2 ^ 64" using assms(9) by (simp add: protocol_limits)
  then have size: "unat (as_payload_size response) = length answer"
    using unat_of_nat_len [OF assms(8) [symmetric]] by simp
  then have le: "as_payload_size response \<le> ucast ARTIFACT_TRANSFER_CHUNK_BYTES"
    using assms(9) by (simp add: word_le_nat_alt)
  have "serve_artifacts KQ KS handler (qb @ payload) = Some (sb @ answer)"
    using read_sent_request [OF assms(1,12) qb assms(3,2)] assms(4,8) le sb
    by (simp add: serve_artifacts_def write_artifact_response_def)
  moreover have "read_header KS (sb @ answer) = Inr (response, answer)"
    by (rule header_roundtrip [OF assms(13) sb])
  ultimately show ?thesis using assms(1,2,5,6,7) le size qb
    by (simp add: artifact_request_def Let_def read_exact_def)
qed

definition wire_lease :: storage_lease where
  "wire_lease = \<lparr>sl_schema = storage_lease_SCHEMA, sl_lease_id = 1, sl_node_id = 2, sl_digest = ''d'',
     sl_operation = Put, sl_storage_class = Cache, sl_size_bytes = 3, sl_issued_at = 0, sl_expires_at = 9,
     sl_nonce = ''n'', sl_fencing_epoch = 1, sl_signature = ''s''\<rparr>"

definition wire_request :: artifact_transfer_request where
  "wire_request = context_request \<lparr>tc_lease = wire_lease, tc_media_type = ''t'', tc_session_id = 5,
     tc_challenge_nonce = ''c''\<rparr> 4 PutChunk (Some 0) (Some (''sha256:'' @ replicate 64 CHR ''a'')) 3"

definition wire_response :: artifact_transfer_response where
  "wire_response = \<lparr>as_schema = artifact_transfer_response_SCHEMA, as_request_id = 4, as_status = 200,
     as_artifact = None, as_progress = None, as_chunk_index = None, as_chunk_digest = None,
     as_payload_size = 2, as_replica_receipt = None, as_error = None\<rparr>"

definition wire_codec :: "'a \<Rightarrow> 'a codec" where
  "wire_codec v = \<lparr>to_vec = (\<lambda>_. ''x''), from_slice = (\<lambda>s. if s = ''x'' then Some v else None)\<rparr>"

lemma wire_request_valid: "artifact_transfer_request_is_valid wire_request"
  by (simp add: artifact_transfer_request_is_valid_def wire_request_def context_request_def wire_lease_def
      protocol_limits div_ceil_def expected_artifact_chunk_size_def checked_mul_def unwrap_or_def Let_def
      is_sha256_digest_def strip_prefix_def is_lower_hex_digit_def byte_def is_ascii_def)

theorem artifact_exchange_faithful_witness:
  "artifact_request (wire_codec wire_request) (wire_codec wire_response)
     (serve_artifacts (wire_codec wire_request) (wire_codec wire_response) (\<lambda>_ p. (wire_response, tl p)))
     wire_request ''abc'' = Inr (wire_response, ''bc'')"
  by (rule artifact_exchange_faithful [OF wire_request_valid])
    (simp_all add: wire_request_def wire_response_def context_request_def wire_codec_def is_success_def
      protocol_limits MAX_ARTIFACT_HEADER_BYTES_def)

text \<open>
  C36: a remote-desktop client trusts no peer. Whatever bytes the peer answers, when the exchange
  succeeds the response is a success for this very request; without a frame there is no payload; and
  a frame fits the dimensions the lease grants, is a JPEG of at most 4 MiB, and its digest and size
  are those of the payload returned.
\<close>

theorem remote_desktop_client_trusts_no_peer:
  assumes "remote_desktop_exchange sha256_hex KQ KS peer request = Inr (response, payload)"
  shows "rdp_request_id response = rdr_request_id request \<and> is_success (rdp_status response)
    \<and> (case rdp_frame response of
         None \<Rightarrow> payload = []
       | Some frame \<Rightarrow> rf_width frame \<le> rd_max_width (rdr_lease request)
           \<and> rf_height frame \<le> rd_max_height (rdr_lease request)
           \<and> rf_media_type frame = ''image/jpeg''
           \<and> rf_payload_digest frame = ''sha256:'' @ sha256_hex payload
           \<and> length payload = unat (rf_payload_size frame) \<and> length payload \<le> 4194304)"
  using assms
  by (auto simp: remote_desktop_exchange_def frame_payload_size_def remote_desktop_frame_is_valid_for_def
      read_exact_def protocol_limits word_le_nat_alt split: if_splits option.splits sum.splits prod.splits)

definition wire_desktop :: remote_desktop_request where
  "wire_desktop = \<lparr>rdr_schema = remote_desktop_request_SCHEMA, rdr_request_id = 4,
     rdr_lease = \<lparr>rd_schema = remote_desktop_lease_SCHEMA, rd_lease_id = 1, rd_session_id = 2, rd_node_id = 3,
       rd_controller_endpoint_id = ''e'', rd_mode = View, rd_max_width = 640, rd_max_height = 480,
       rd_max_fps = 5, rd_issued_at = 0, rd_expires_at = 9, rd_nonce = ''n'', rd_fencing_epoch = 1,
       rd_signature = ''s''\<rparr>,
     rdr_action = Frame, rdr_input_sequence = None, rdr_events = []\<rparr>"

definition wire_screen :: remote_desktop_response where
  "wire_screen = \<lparr>rdp_schema = remote_desktop_response_SCHEMA, rdp_request_id = 4, rdp_status = 200,
     rdp_frame = Some \<lparr>rf_sequence = 1, rf_captured_at = 0, rf_width = 320, rf_height = 200,
       rf_media_type = ''image/jpeg'', rf_payload_size = 2,
       rf_payload_digest = ''sha256:'' @ replicate 64 CHR ''a''\<rparr>,
     rdp_applied_events = 0, rdp_error = None\<rparr>"

theorem remote_desktop_client_trusts_no_peer_witness:
  "\<exists>answer. remote_desktop_exchange (\<lambda>_. replicate 64 CHR ''a'') (wire_codec wire_desktop) (wire_codec wire_screen)
       (\<lambda>_. Some answer) wire_desktop = Inr (wire_screen, ''hi'')
     \<and> rdp_request_id wire_screen = rdr_request_id wire_desktop \<and> is_success (rdp_status wire_screen)"
proof -
  obtain hb where hb: "write_header (wire_codec wire_screen) wire_screen = Inr hb"
    by (simp add: write_header_def Let_def wire_codec_def MAX_ARTIFACT_HEADER_BYTES_def)
  have "read_header (wire_codec wire_screen) (hb @ ''hi'') = Inr (wire_screen, ''hi'')"
    by (rule header_roundtrip [OF _ hb]) (simp add: wire_codec_def)
  then have e: "remote_desktop_exchange (\<lambda>_. replicate 64 CHR ''a'') (wire_codec wire_desktop) (wire_codec wire_screen)
       (\<lambda>_. Some (hb @ ''hi'')) wire_desktop = Inr (wire_screen, ''hi'')"
    by (simp add: remote_desktop_exchange_def write_header_def Let_def MAX_ARTIFACT_HEADER_BYTES_def)
      (simp add: wire_codec_def wire_desktop_def wire_screen_def frame_payload_size_def read_exact_def
        is_success_def remote_desktop_frame_is_valid_for_def protocol_limits is_sha256_digest_def
        strip_prefix_def is_lower_hex_digit_def byte_def)
  from remote_desktop_client_trusts_no_peer [OF e] e show ?thesis by blast
qed

end
