(* ===== verification/Rampage_Setup.thy ===== *)
theory Rampage_Setup
  imports Rampage_Text "HOL-Library.AList"
begin

text \<open>
  The runtime directory of the desktop application (\<open>apps/desktop/src-tauri/src/lib.rs\<close>): the marker
  and credential files that decide whether a machine is being set up, owns a fabric or works for
  one, and the commands that move it between those roles. The directory is a value: an association
  list of entries in directory order, and for every name which operations the operating system
  refuses. A command that calls \<open>app.restart()\<close> does not return; the result \<open>Restarts\<close> stands for it.
  The JSON reader, the hexadecimal decoder and the key derivation are parameters.
\<close>

section \<open>The file system under the runtime directory\<close>

datatype link_target = Broken | ToFile string | ToDir

datatype dir_entry = RFile string | RDir | RLink link_target | RSpecial

datatype root_kind = RootMissing | RootBrokenLink | RootDir | RootLinkToDir | RootOther

datatype fs_op = OpCreate | OpWrite | OpRead | OpRemove | OpRename

datatype os_error = OsNotFound | OsAlreadyExists | OsOther

record runtime_dir =
  rd_is_absolute :: bool
  rd_file_name :: "string option"
  rd_parent_name :: "string option"
  rd_root :: root_kind
  rd_entries :: "(string \<times> dir_entry) list"
  rd_mkdir_denied :: bool
  rd_denied :: "fs_op \<Rightarrow> string \<Rightarrow> bool"
  rd_display :: "string \<Rightarrow> string"
  rd_error_text :: "os_error \<Rightarrow> string"

definition root_is_dir :: "runtime_dir \<Rightarrow> bool" where
  "root_is_dir d = (rd_root d = RootDir \<or> rd_root d = RootLinkToDir)"

definition entry :: "runtime_dir \<Rightarrow> string \<Rightarrow> dir_entry option" where
  "entry d name = (if root_is_dir d then map_of (rd_entries d) name else None)"

fun follows_to_file :: "dir_entry \<Rightarrow> bool" where
  "follows_to_file (RFile _) = True"
| "follows_to_file (RLink (ToFile _)) = True"
| "follows_to_file _ = False"

fun follows_to_something :: "dir_entry \<Rightarrow> bool" where
  "follows_to_something (RLink Broken) = False"
| "follows_to_something _ = True"

definition path_is_file :: "runtime_dir \<Rightarrow> string \<Rightarrow> bool" where
  "path_is_file d name = (case entry d name of None \<Rightarrow> False | Some e \<Rightarrow> follows_to_file e)"

definition path_exists :: "runtime_dir \<Rightarrow> string \<Rightarrow> bool" where
  "path_exists d name = (case entry d name of None \<Rightarrow> False | Some e \<Rightarrow> follows_to_something e)"

definition put_entry :: "string \<Rightarrow> dir_entry \<Rightarrow> runtime_dir \<Rightarrow> runtime_dir" where
  "put_entry name e d = d\<lparr>rd_entries := AList.update name e (rd_entries d)\<rparr>"

definition drop_entry :: "string \<Rightarrow> runtime_dir \<Rightarrow> runtime_dir" where
  "drop_entry name d = d\<lparr>rd_entries := AList.delete name (rd_entries d)\<rparr>"

definition create_dir_all :: "runtime_dir \<Rightarrow> (os_error + unit) \<times> runtime_dir" where
  "create_dir_all d =
     (if root_is_dir d then (Inr (), d)
      else if rd_root d \<noteq> RootMissing \<or> rd_mkdir_denied d then (Inl OsOther, d)
      else (Inr (), d\<lparr>rd_root := RootDir, rd_entries := []\<rparr>))"

text \<open>\<open>fs::remove_file\<close> removes the entry itself, not what a link leads to.\<close>

definition remove_file :: "string \<Rightarrow> runtime_dir \<Rightarrow> (os_error + unit) \<times> runtime_dir" where
  "remove_file name d =
     (case entry d name of
        None \<Rightarrow> (Inl OsNotFound, d)
      | Some e \<Rightarrow>
          if e = RDir \<or> rd_denied d OpRemove name then (Inl OsOther, d)
          else (Inr (), drop_entry name d))"

definition remove_dir_all :: "string \<Rightarrow> runtime_dir \<Rightarrow> (os_error + unit) \<times> runtime_dir" where
  "remove_dir_all name d =
     (if rd_denied d OpRemove name then (Inl OsOther, d) else (Inr (), drop_entry name d))"

text \<open>\<open>OpenOptions::create_new\<close> followed by \<open>write_all\<close> and \<open>sync_all\<close>: any entry of the name,
  even a broken link, makes the creation fail; a failing write leaves the new file behind, empty.\<close>

definition create_new_file :: "string \<Rightarrow> string \<Rightarrow> runtime_dir \<Rightarrow> (os_error + unit) \<times> runtime_dir" where
  "create_new_file name bytes d =
     (if \<not> root_is_dir d then (Inl OsNotFound, d)
      else if entry d name \<noteq> None then (Inl OsAlreadyExists, d)
      else if rd_denied d OpCreate name then (Inl OsOther, d)
      else if rd_denied d OpWrite name then (Inl OsOther, put_entry name (RFile []) d)
      else (Inr (), put_entry name (RFile bytes) d))"

definition rename_file :: "string \<Rightarrow> string \<Rightarrow> runtime_dir \<Rightarrow> (os_error + unit) \<times> runtime_dir" where
  "rename_file from to d =
     (case entry d from of
        None \<Rightarrow> (Inl OsNotFound, d)
      | Some e \<Rightarrow>
          if rd_denied d OpRename to \<or> entry d to = Some RDir then (Inl OsOther, d)
          else (Inr (), put_entry to e (drop_entry from d)))"

section \<open>Names and limits\<close>

definition OWNER_FABRIC_MARKER :: string where
  "OWNER_FABRIC_MARKER = ''owner-fabric-v1.ready''"

definition OWNER_CONFIRMED_MARKER :: string where
  "OWNER_CONFIRMED_MARKER = ''owner-confirmed-v1.ready''"

definition SETUP_REQUIRED_MARKER :: string where
  "SETUP_REQUIRED_MARKER = ''setup-required-v1.ready''"

definition WORKER_PAIRING_INTENT_MARKER :: string where
  "WORKER_PAIRING_INTENT_MARKER = ''worker-pairing-v1.pending''"

definition REMOTE_ASSIST_POLICY_FILE :: string where
  "REMOTE_ASSIST_POLICY_FILE = ''remote-assist-policy.json''"

definition REMOTE_ASSIST_ACTIVE_FILE :: string where
  "REMOTE_ASSIST_ACTIVE_FILE = ''remote-assist-active.json''"

definition FIREWALL_MARKER_FILE :: string where
  "FIREWALL_MARKER_FILE = ''firewall-private-v2.ready''"

definition LEAVE_FABRIC_CONFIRMATION :: string where
  "LEAVE_FABRIC_CONFIRMATION = ''LEAVE FABRIC''"

definition FACTORY_RESET_CONFIRMATION :: string where
  "FACTORY_RESET_CONFIRMATION = ''RESET RAMPAGE''"

lemmas marker_names = OWNER_FABRIC_MARKER_def OWNER_CONFIRMED_MARKER_def SETUP_REQUIRED_MARKER_def
  WORKER_PAIRING_INTENT_MARKER_def REMOTE_ASSIST_POLICY_FILE_def REMOTE_ASSIST_ACTIVE_FILE_def
  FIREWALL_MARKER_FILE_def

definition line_feed :: string where
  "line_feed = [CHR 0x0A]"

definition setup_required_bytes :: string where
  "setup_required_bytes = ''rampage.setup-required.v1'' @ line_feed"

definition worker_pairing_bytes :: string where
  "worker_pairing_bytes = ''rampage.worker-pairing.v1'' @ line_feed"

section \<open>Parameters\<close>

record controller_pin_disk =
  pd_schema :: string
  pd_endpoint_id :: string
  pd_governor_public_key :: string

record remote_assist_policy_disk =
  pp_schema :: string
  pp_enabled :: bool

record remote_assist_active_disk =
  ra_active_schema :: string
  ra_active_session_id :: string
  ra_active_mode :: string
  ra_active_controller_endpoint_id :: string
  ra_active_updated_at :: datetime
  ra_active_expires_at :: datetime

record desktop_lib =
  dl_json :: "string \<Rightarrow> string + json"
  dl_pin :: "string \<Rightarrow> string + controller_pin_disk"
  dl_policy :: "string \<Rightarrow> remote_assist_policy_disk option"
  dl_policy_bytes :: "bool \<Rightarrow> string"
  dl_active :: "string \<Rightarrow> remote_assist_active_disk option"
  dl_hex_decode :: "string \<Rightarrow> string + string"
  dl_public_key_hex :: "string \<Rightarrow> string"
  dl_utf8_error :: "string \<Rightarrow> string"

type_synonym 'a io = "(string + 'a) \<times> runtime_dir"

datatype outcome = Returns | Restarts

section \<open>Markers and bounded reads\<close>

definition write_new_marker :: "string \<Rightarrow> string \<Rightarrow> runtime_dir \<Rightarrow> unit io" where
  "write_new_marker name bytes d =
     (case create_new_file name bytes d of
        (Inr _, d) \<Rightarrow> (Inr (), d)
      | (Inl OsAlreadyExists, d) \<Rightarrow> (Inr (), d)
      | (Inl e, d) \<Rightarrow> (Inl (rd_error_text d e), d))"

definition read_bounded_regular_file :: "string \<Rightarrow> nat \<Rightarrow> string \<Rightarrow> runtime_dir \<Rightarrow> string + string" where
  "read_bounded_regular_file name limit label d =
     (case entry d name of
        None \<Rightarrow> Inl (''could not inspect '' @ label @ '' path: '' @ rd_error_text d OsNotFound)
      | Some (RFile contents) \<Rightarrow>
          if rd_denied d OpRead name
          then Inl (''could not open '' @ label @ '': '' @ rd_error_text d OsOther)
          else if limit < length contents then Inl (label @ '' is not a bounded regular file'')
          else let bytes = take (limit + 1) contents in
               if limit < length bytes then Inl (label @ '' exceeds its size limit'') else Inr bytes
      | Some _ \<Rightarrow> Inl (label @ '' is not a regular non-symlink file''))"

definition setup_required :: "runtime_dir \<Rightarrow> bool" where
  "setup_required d = path_is_file d SETUP_REQUIRED_MARKER"

definition fabric_state_files :: "string list" where
  "fabric_state_files = [SETUP_REQUIRED_MARKER, OWNER_FABRIC_MARKER, ''remote-invite.json'',
     ''agent.controller-pin.json'', ''agent.enrolled'', ''agent.identity.json'', ''agent.key'',
     ''controller.token'', ''controller.db'', ''governor.key'', ''mesh.key'', ''storage.key'']"

definition ensure_neutral_first_run :: "runtime_dir \<Rightarrow> bool io" where
  "ensure_neutral_first_run d =
     (case create_dir_all d of
        (Inl e, d) \<Rightarrow> (Inl (rd_error_text d e), d)
      | (Inr _, d) \<Rightarrow>
          if list_ex (path_exists d) fabric_state_files then (Inr False, d)
          else (case write_new_marker SETUP_REQUIRED_MARKER setup_required_bytes d of
                  (Inl e, d) \<Rightarrow> (Inl e, d)
                | (Inr _, d) \<Rightarrow> (Inr True, d)))"

definition worker_enrollment_exists :: "runtime_dir \<Rightarrow> bool" where
  "worker_enrollment_exists d =
     (\<not> path_is_file d SETUP_REQUIRED_MARKER
      \<and> \<not> path_is_file d OWNER_FABRIC_MARKER
      \<and> (path_is_file d ''remote-invite.json'' \<or> path_is_file d ''agent.controller-pin.json''))"

definition fabric_role_at :: "runtime_dir \<Rightarrow> string" where
  "fabric_role_at d =
     (if setup_required d then ''setup''
      else if worker_enrollment_exists d then ''worker''
      else ''owner'')"

section \<open>Consistency of the enrollment files\<close>

definition validate_owner_local_enrollment :: "desktop_lib \<Rightarrow> runtime_dir \<Rightarrow> string + unit" where
  "validate_owner_local_enrollment L d =
     (case read_bounded_regular_file ''agent.controller-pin.json'' (64 * 1024) ''local controller pin'' d of
        Inl e \<Rightarrow> Inl e
      | Inr pin_bytes \<Rightarrow>
     case dl_pin L pin_bytes of
        Inl e \<Rightarrow> Inl (''local controller pin is invalid: '' @ e)
      | Inr pin \<Rightarrow>
     if pd_schema pin \<noteq> ''rampage.pinned-controller.v1''
     then Inl ''local controller pin has an unexpected schema''
     else case read_bounded_regular_file ''agent.enrolled'' (4 * 1024) ''local enrollment marker'' d of
        Inl e \<Rightarrow> Inl e
      | Inr enrollment \<Rightarrow>
     if \<not> utf8_ok enrollment then Inl (''local enrollment marker is invalid UTF-8: '' @ dl_utf8_error L enrollment)
     else if trim enrollment \<noteq> pd_endpoint_id pin
     then Inl ''local enrollment marker does not match its pinned controller''
     else case read_bounded_regular_file ''governor.key'' 128 ''local governor key'' d of
        Inl e \<Rightarrow> Inl e
      | Inr governor_secret \<Rightarrow>
     if \<not> utf8_ok governor_secret then Inl (''local governor key is invalid UTF-8: '' @ dl_utf8_error L governor_secret)
     else case dl_hex_decode L (trim governor_secret) of
        Inl e \<Rightarrow> Inl (''local governor key is invalid: '' @ e)
      | Inr governor_bytes \<Rightarrow>
     if length governor_bytes \<noteq> 32 then Inl ''local governor key must contain exactly 32 bytes''
     else if \<not> eq_ignore_ascii_case (pd_governor_public_key pin) (dl_public_key_hex L governor_bytes)
     then Inl ''local agent is pinned to a different owner controller''
     else Inr ())"

definition enrollment_file_state :: "desktop_lib \<Rightarrow> runtime_dir \<Rightarrow> string \<times> string list" where
  "enrollment_file_state L d =
     (let setup = setup_required d;
          owner = path_is_file d OWNER_FABRIC_MARKER;
          invite = path_is_file d ''remote-invite.json'';
          pin = path_is_file d ''agent.controller-pin.json'';
          enrolled = path_is_file d ''agent.enrolled'';
          identity = path_is_file d ''agent.identity.json'';
          key = path_is_file d ''agent.key''
      in if setup then
           (if owner \<or> invite \<or> pin \<or> enrolled \<or> identity \<or> key
            then (''cleanup_required'',
                  [''Setup mode still contains fabric credentials; run Reset Rampage again.''])
            else (''ready_to_configure'', []))
         else if owner then
           (if invite
            then (''repair_required'', [''Owner runtime still contains a pending worker invitation.''])
            else if pin then
              (if \<not> enrolled \<or> \<not> identity \<or> \<not> key
               then (''repair_required'', [''The owner'' @ [CHR 0x27] @ ''s local worker identity is incomplete.''])
               else case validate_owner_local_enrollment L d of
                      Inl e \<Rightarrow> (''repair_required'',
                        [''The owner'' @ [CHR 0x27] @ ''s local worker identity is inconsistent: '' @ e @ ''.''])
                    | Inr _ \<Rightarrow> (''owner_active'', []))
            else if enrolled
            then (''repair_required'',
                  [''The owner has an enrollment marker without a pinned local controller.''])
            else (''owner_active'', []))
         else if pin then
           (if \<not> enrolled \<or> \<not> identity \<or> \<not> key
            then (''repair_required'',
                  [''The paired-worker identity is incomplete or was interrupted during an update.''])
            else (''worker_paired'', []))
         else if invite then (''enrollment_pending'', [])
         else if enrolled \<or> identity \<or> key
         then (''repair_required'', [''Local worker identity exists without a pinned owner.''])
         else (''owner_starting'', []))"

record recovery_status_view =
  rv_schema :: string
  rv_version :: string
  rv_role :: string
  rv_state :: string
  rv_healthy :: bool
  rv_issues :: "string list"
  rv_can_leave_fabric :: bool
  rv_can_factory_reset :: bool

definition CARGO_PKG_VERSION :: string where
  "CARGO_PKG_VERSION = ''0.3.1''"

definition recovery_status_at :: "desktop_lib \<Rightarrow> runtime_dir \<Rightarrow> recovery_status_view" where
  "recovery_status_at L d =
     (let role = fabric_role_at d; (state, issues) = enrollment_file_state L d in
      \<lparr>rv_schema = ''rampage.recovery-status.v1'', rv_version = CARGO_PKG_VERSION, rv_role = role,
       rv_state = state, rv_healthy = (issues = []), rv_issues = issues,
       rv_can_leave_fabric = (role = ''worker''), rv_can_factory_reset = True\<rparr>)"

section \<open>Reset and preparation\<close>

definition validate_runtime_reset_target :: "runtime_dir \<Rightarrow> string + unit" where
  "validate_runtime_reset_target d =
     (if \<not> rd_is_absolute d
         \<or> rd_file_name d \<noteq> Some ''runtime''
         \<or> (case rd_parent_name d of None \<Rightarrow> True
            | Some value \<Rightarrow> \<not> eq_ignore_ascii_case value ''ai.obtuse.rampage'')
      then Inl ''refusing to reset a path outside the Rampage runtime directory''
      else if rd_root d = RootLinkToDir \<or> rd_root d = RootOther
      then Inl ''Rampage runtime path is not a regular directory''
      else Inr ())"

definition remove_runtime_entry :: "string \<Rightarrow> runtime_dir \<Rightarrow> unit io" where
  "remove_runtime_entry name d =
     (case entry d name of
        None \<Rightarrow> (Inl (rd_error_text d OsNotFound), d)
      | Some RDir \<Rightarrow>
          (case remove_dir_all name d of (Inl e, d) \<Rightarrow> (Inl (rd_error_text d e), d) | (Inr _, d) \<Rightarrow> (Inr (), d))
      | Some RSpecial \<Rightarrow> (Inl (''refusing to reset unsupported runtime entry '' @ rd_display d name), d)
      | Some _ \<Rightarrow>
          (case remove_file name d of (Inl e, d) \<Rightarrow> (Inl (rd_error_text d e), d) | (Inr _, d) \<Rightarrow> (Inr (), d)))"

fun remove_entries :: "string list \<Rightarrow> runtime_dir \<Rightarrow> unit io" where
  "remove_entries [] d = (Inr (), d)"
| "remove_entries (name # names) d =
     (case remove_runtime_entry name d of
        (Inl e, d) \<Rightarrow> (Inl e, d)
      | (Inr _, d) \<Rightarrow> remove_entries names d)"

definition reset_runtime_to_setup :: "runtime_dir \<Rightarrow> unit io" where
  "reset_runtime_to_setup d =
     (case validate_runtime_reset_target d of
        Inl e \<Rightarrow> (Inl e, d)
      | Inr _ \<Rightarrow>
     case create_dir_all d of
        (Inl e, d) \<Rightarrow> (Inl (rd_error_text d e), d)
      | (Inr _, d) \<Rightarrow>
     case remove_entries (map fst (rd_entries d)) d of
        (Inl e, d) \<Rightarrow> (Inl e, d)
      | (Inr _, d) \<Rightarrow> write_new_marker SETUP_REQUIRED_MARKER setup_required_bytes d)"

definition stale_credential_files :: "string list" where
  "stale_credential_files = [''remote-invite.json'', ''agent.controller-pin.json'', ''agent.enrolled'',
     ''agent.identity.json'', ''agent.key'', REMOTE_ASSIST_POLICY_FILE, REMOTE_ASSIST_ACTIVE_FILE]"

fun remove_stale :: "string list \<Rightarrow> nat \<Rightarrow> runtime_dir \<Rightarrow> nat io" where
  "remove_stale [] removed d = (Inr removed, d)"
| "remove_stale (name # names) removed d =
     (case entry d name of
        None \<Rightarrow> remove_stale names removed d
      | Some (RFile _) \<Rightarrow>
          (case remove_file name d of
             (Inl e, d) \<Rightarrow>
               (Inl (''could not remove stale pairing entry '' @ rd_display d name @ '': '' @ rd_error_text d e), d)
           | (Inr _, d) \<Rightarrow> remove_stale names (removed + 1) d)
      | Some _ \<Rightarrow> (Inl (''refusing to replace non-regular stale pairing entry '' @ rd_display d name), d))"

definition remove_stale_worker_credentials_in_setup :: "runtime_dir \<Rightarrow> nat io" where
  "remove_stale_worker_credentials_in_setup d =
     (if \<not> setup_required d then (Inr 0, d) else remove_stale stale_credential_files 0 d)"

text \<open>\<open>reset_for_pairing\<close> is the arm of an unconfirmed owner; on Windows it carries the firewall
  marker over the reset.\<close>

definition reset_for_pairing :: "bool \<Rightarrow> runtime_dir \<Rightarrow> unit io" where
  "reset_for_pairing windows d =
     (let firewall_marker =
            (if windows
             then (case read_bounded_regular_file FIREWALL_MARKER_FILE 4096
                          ''private-network firewall marker'' d of Inl _ \<Rightarrow> None | Inr b \<Rightarrow> Some b)
             else None)
      in case reset_runtime_to_setup d of
           (Inl e, d) \<Rightarrow> (Inl e, d)
         | (Inr _, d) \<Rightarrow>
             (case firewall_marker of None \<Rightarrow> (Inr (), d)
              | Some marker \<Rightarrow> write_new_marker FIREWALL_MARKER_FILE marker d))"

definition write_pairing_intent :: "runtime_dir \<Rightarrow> unit io" where
  "write_pairing_intent d =
     (case remove_stale_worker_credentials_in_setup d of
        (Inl e, d) \<Rightarrow> (Inl e, d)
      | (Inr _, d) \<Rightarrow>
          (case read_bounded_regular_file WORKER_PAIRING_INTENT_MARKER 128 ''worker pairing intent'' d of
             Inr bytes \<Rightarrow>
               if bytes = worker_pairing_bytes then (Inr (), d)
               else (Inl ''worker pairing intent has unexpected contents; use Fix Rampage before retrying'', d)
           | Inl _ \<Rightarrow>
               if path_exists d WORKER_PAIRING_INTENT_MARKER
               then (Inl ''worker pairing intent is not a bounded regular file; use Fix Rampage before retrying'', d)
               else write_new_marker WORKER_PAIRING_INTENT_MARKER worker_pairing_bytes d))"

definition prepare_worker_pairing_files :: "bool \<Rightarrow> runtime_dir \<Rightarrow> unit io" where
  "prepare_worker_pairing_files windows d =
     (let role = fabric_role_at d in
      if role = ''worker'' then (Inl ''this machine is already enrolled as a worker'', d)
      else if role = ''owner'' \<and> path_is_file d OWNER_CONFIRMED_MARKER
      then (Inl ''this machine owns a configured fabric; use Reset Rampage before joining another owner'', d)
      else if role = ''owner'' then
        (case reset_for_pairing windows d of
           (Inl e, d) \<Rightarrow> (Inl e, d)
         | (Inr _, d) \<Rightarrow> write_pairing_intent d)
      else if role = ''setup'' then write_pairing_intent d
      else (Inl (''Rampage could not determine this machine'' @ [CHR 0x27] @ ''s fabric role''), d))"

section \<open>The enrollment transaction\<close>

definition invite_is_signed :: "json \<Rightarrow> bool" where
  "invite_is_signed parsed =
     (json_str ''schema'' parsed = Some ''rampage.enrollment-invite.v1''
      \<and> \<not> absent_or_empty (Option.bind (json_get ''controller_mesh'' parsed) (json_str ''signature''))
      \<and> \<not> absent_or_empty (json_str ''governor_public_key'' parsed))"

text \<open>The write closure: a protected temporary file, then a rename onto the destination; a failure
  removes the temporary file. \<open>token\<close> is the fresh 64-digit hexadecimal token.\<close>

definition write_invite :: "string \<Rightarrow> string \<Rightarrow> runtime_dir \<Rightarrow> unit io" where
  "write_invite token invitation d =
     (let temporary = ''remote-invite.'' @ take 16 token @ ''.tmp'' in
      case (case create_new_file temporary invitation d of
              (Inl e, d') \<Rightarrow>
                (Inl ((if entry d temporary \<noteq> None \<or> rd_denied d OpCreate temporary \<or> \<not> root_is_dir d
                       then ''could not create the protected enrollment file: ''
                       else ''could not write the enrollment file: '') @ rd_error_text d e), d')
            | (Inr _, d) \<Rightarrow>
                (case rename_file temporary ''remote-invite.json'' d of
                   (Inl e, d) \<Rightarrow> (Inl (''could not activate the enrollment file: '' @ rd_error_text d e), d)
                 | (Inr _, d) \<Rightarrow> (Inr (), d))) of
        (Inl e, d) \<Rightarrow> (Inl e, snd (remove_file temporary d))
      | (Inr _, d) \<Rightarrow> (Inr (), d))"

definition commit_enrollment :: "runtime_dir \<Rightarrow> unit io" where
  "commit_enrollment d =
     (case (if path_is_file d SETUP_REQUIRED_MARKER then remove_file SETUP_REQUIRED_MARKER d
            else (Inr (), d)) of
        (Inl e, d) \<Rightarrow>
          (Inl (''could not leave setup mode after enrollment: '' @ rd_error_text d e),
           snd (remove_file ''remote-invite.json'' d))
      | (Inr _, d) \<Rightarrow>
          (case remove_file WORKER_PAIRING_INTENT_MARKER d of
             (Inl e, d) \<Rightarrow>
               (Inl (''could not commit the protected pairing transaction: '' @ rd_error_text d e),
                snd (write_new_marker SETUP_REQUIRED_MARKER setup_required_bytes
                       (snd (remove_file ''remote-invite.json'' d))))
           | (Inr _, d) \<Rightarrow> (Inr (), d)))"

definition persist_remote_invite_at :: "desktop_lib \<Rightarrow> string \<Rightarrow> string \<Rightarrow> runtime_dir \<Rightarrow> unit io" where
  "persist_remote_invite_at L token invitation d =
     (case dl_json L invitation of
        Inl e \<Rightarrow> (Inl (''invite is not valid JSON: '' @ e), d)
      | Inr parsed \<Rightarrow>
     if \<not> invite_is_signed parsed
     then (Inl ''invite is missing its signed Rampage mesh endpoint'', d)
     else case create_dir_all d of
        (Inl e, d) \<Rightarrow> (Inl (rd_error_text d e), d)
      | (Inr _, d) \<Rightarrow>
     if \<not> setup_required d \<or> \<not> path_is_file d WORKER_PAIRING_INTENT_MARKER
     then (Inl ''the protected nearby-pairing transaction is not active; start Join my fabric again'', d)
     else case remove_stale_worker_credentials_in_setup d of
        (Inl e, d) \<Rightarrow> (Inl e, d)
      | (Inr _, d) \<Rightarrow>
     if path_exists d ''remote-invite.json'' \<or> path_exists d ''agent.controller-pin.json''
     then (Inl ''this machine is already enrolled; remove it from the current fabric before enrolling again'', d)
     else case write_invite token invitation d of
        (Inl e, d) \<Rightarrow> (Inl e, d)
      | (Inr _, d) \<Rightarrow> commit_enrollment d)"

section \<open>Commands\<close>

definition repair_connection :: "desktop_lib \<Rightarrow> runtime_dir \<Rightarrow> outcome io" where
  "repair_connection L d =
     (if snd (enrollment_file_state L d) \<noteq> []
      then (Inl ''Enrollment files are inconsistent; use Leave fabric or Reset Rampage.'', d)
      else (Inr Restarts, d))"

text \<open>\<open>stopped\<close> is the result of stopping the sidecar processes, \<open>autostart\<close> of switching the
  autostart entry off.\<close>

definition leave_fabric :: "string + nat \<Rightarrow> string \<Rightarrow> runtime_dir \<Rightarrow> outcome io" where
  "leave_fabric stopped confirmation d =
     (if confirmation \<noteq> LEAVE_FABRIC_CONFIRMATION
      then (Inl ''exact LEAVE FABRIC confirmation is required'', d)
      else if fabric_role_at d \<noteq> ''worker''
      then (Inl ''Leave fabric is available only on a paired worker'', d)
      else case stopped of Inl e \<Rightarrow> (Inl e, d)
      | Inr _ \<Rightarrow>
          (case reset_runtime_to_setup d of (Inl e, d) \<Rightarrow> (Inl e, d) | (Inr _, d) \<Rightarrow> (Inr Restarts, d)))"

definition factory_reset ::
  "string + nat \<Rightarrow> string + unit \<Rightarrow> string \<Rightarrow> runtime_dir \<Rightarrow> outcome io" where
  "factory_reset stopped autostart confirmation d =
     (if confirmation \<noteq> FACTORY_RESET_CONFIRMATION
      then (Inl ''exact RESET RAMPAGE confirmation is required'', d)
      else case stopped of Inl e \<Rightarrow> (Inl e, d)
      | Inr _ \<Rightarrow>
      case autostart of Inl e \<Rightarrow> (Inl e, d)
      | Inr _ \<Rightarrow>
          (case reset_runtime_to_setup d of (Inl e, d) \<Rightarrow> (Inl e, d) | (Inr _, d) \<Rightarrow> (Inr Restarts, d)))"

definition activate_owner_fabric :: "runtime_dir \<Rightarrow> outcome io" where
  "activate_owner_fabric d =
     (if worker_enrollment_exists d then (Inl ''this device is still paired as a worker'', d)
      else if path_is_file d SETUP_REQUIRED_MARKER then
        (case write_new_marker OWNER_FABRIC_MARKER (''rampage.owner-fabric.v1'' @ line_feed) d of
           (Inl e, d) \<Rightarrow> (Inl e, d)
         | (Inr _, d) \<Rightarrow>
        (case write_new_marker OWNER_CONFIRMED_MARKER (''rampage.owner-confirmed.v1'' @ line_feed) d of
           (Inl e, d) \<Rightarrow> (Inl e, snd (remove_file OWNER_FABRIC_MARKER d))
         | (Inr _, d) \<Rightarrow>
        (case remove_file SETUP_REQUIRED_MARKER d of
           (Inl e, d) \<Rightarrow>
             (Inl (''could not activate the owner fabric: '' @ rd_error_text d e),
              snd (remove_file OWNER_CONFIRMED_MARKER (snd (remove_file OWNER_FABRIC_MARKER d))))
         | (Inr _, d) \<Rightarrow> (Inr Restarts, d))))
      else (Inr Returns, d))"

definition confirm_owner_fabric :: "runtime_dir \<Rightarrow> outcome io" where
  "confirm_owner_fabric d =
     (if fabric_role_at d \<noteq> ''owner'' \<or> \<not> path_is_file d OWNER_FABRIC_MARKER
      then (Inl ''only an active owner fabric can be confirmed'', d)
      else case write_new_marker OWNER_CONFIRMED_MARKER (''rampage.owner-confirmed.v1'' @ line_feed) d of
             (Inl e, d) \<Rightarrow> (Inl e, d) | (Inr _, d) \<Rightarrow> (Inr Returns, d))"

definition cancel_pairing_intent :: "runtime_dir \<Rightarrow> outcome io" where
  "cancel_pairing_intent d =
     (case remove_file WORKER_PAIRING_INTENT_MARKER d of
        (Inr _, d) \<Rightarrow> (Inr Returns, d)
      | (Inl OsNotFound, d) \<Rightarrow> (Inr Returns, d)
      | (Inl e, d) \<Rightarrow> (Inl (''could not cancel the pairing transaction: '' @ rd_error_text d e), d))"

text \<open>The part \<open>begin_pairing\<close> and \<open>join_remote\<close> share: refuse a confirmed owner, stop an
  unconfirmed one, prepare the files.\<close>

definition enter_pairing :: "bool \<Rightarrow> string + nat \<Rightarrow> runtime_dir \<Rightarrow> unit io" where
  "enter_pairing windows stopped d =
     (if fabric_role_at d = ''owner'' \<and> path_is_file d OWNER_CONFIRMED_MARKER
      then (Inl ''this machine owns a configured fabric; use Reset Rampage before joining another owner'', d)
      else case (if fabric_role_at d = ''owner'' then stopped else Inr 0) of
        Inl e \<Rightarrow> (Inl e, d)
      | Inr _ \<Rightarrow> prepare_worker_pairing_files windows d)"

definition join_remote ::
  "desktop_lib \<Rightarrow> bool \<Rightarrow> string + nat \<Rightarrow> string \<Rightarrow> string \<Rightarrow> runtime_dir \<Rightarrow> outcome io" where
  "join_remote L windows stopped token invitation d =
     (case enter_pairing windows stopped d of
        (Inl e, d) \<Rightarrow> (Inl e, d)
      | (Inr _, d) \<Rightarrow>
          (case persist_remote_invite_at L token invitation d of
             (Inl e, d) \<Rightarrow> (Inl e, d) | (Inr _, d) \<Rightarrow> (Inr Restarts, d)))"

definition remove_active_file :: "runtime_dir \<Rightarrow> outcome io" where
  "remove_active_file d =
     (case remove_file REMOTE_ASSIST_ACTIVE_FILE d of
        (Inr _, d) \<Rightarrow> (Inr Returns, d)
      | (Inl OsNotFound, d) \<Rightarrow> (Inr Returns, d)
      | (Inl e, d) \<Rightarrow> (Inl (rd_error_text d e), d))"

definition local_stop :: "runtime_dir \<Rightarrow> outcome io" where
  "local_stop d =
     (case create_dir_all d of
        (Inl e, d) \<Rightarrow> (Inl (rd_error_text d e), d)
      | (Inr _, d) \<Rightarrow>
          (case write_new_marker ''KILL'' (''owner-stop-v1'' @ line_feed) d of
             (Inl e, d) \<Rightarrow> (Inl e, d)
           | (Inr _, d) \<Rightarrow> remove_active_file d))"

section \<open>Launch\<close>

text \<open>The decision at the start of \<open>launch_fabric\<close>: wait for the setup, start the worker, or mark the
  directory as an owner and start the controller.\<close>

datatype launch = LaunchSetup | LaunchWorker | LaunchOwner

definition launch_fabric_role :: "runtime_dir \<Rightarrow> launch io" where
  "launch_fabric_role d =
     (case create_dir_all d of
        (Inl e, d) \<Rightarrow> (Inl (rd_error_text d e), d)
      | (Inr _, d) \<Rightarrow>
     (case ensure_neutral_first_run d of
        (Inl e, d) \<Rightarrow> (Inl e, d)
      | (Inr _, d) \<Rightarrow>
          if setup_required d then (Inr LaunchSetup, d)
          else if worker_enrollment_exists d then (Inr LaunchWorker, d)
          else (case write_new_marker OWNER_FABRIC_MARKER (''rampage.owner-fabric.v1'' @ line_feed) d of
                  (Inl e, d) \<Rightarrow> (Inl e, d) | (Inr _, d) \<Rightarrow> (Inr LaunchOwner, d))))"

section \<open>Remote Assist\<close>

definition remote_assist_enabled_at :: "desktop_lib \<Rightarrow> runtime_dir \<Rightarrow> bool" where
  "remote_assist_enabled_at L d =
     (case read_bounded_regular_file REMOTE_ASSIST_POLICY_FILE (4 * 1024) ''Remote Assist policy'' d of
        Inl _ \<Rightarrow> False
      | Inr bytes \<Rightarrow>
          (case dl_policy L bytes of None \<Rightarrow> False
           | Some policy \<Rightarrow> pp_schema policy = ''rampage.remote-assist-policy.v1'' \<and> pp_enabled policy))"

definition remote_assist_active_at ::
  "desktop_lib \<Rightarrow> datetime \<Rightarrow> runtime_dir \<Rightarrow> remote_assist_active_disk option" where
  "remote_assist_active_at L now d =
     (case read_bounded_regular_file REMOTE_ASSIST_ACTIVE_FILE (16 * 1024) ''Remote Assist activity'' d of
        Inl _ \<Rightarrow> None
      | Inr bytes \<Rightarrow>
          (case dl_active L bytes of None \<Rightarrow> None
           | Some active \<Rightarrow>
               if ra_active_schema active = ''rampage.remote-assist-active.v1''
                  \<and> ra_active_session_id active \<noteq> []
                  \<and> ra_active_controller_endpoint_id active \<noteq> []
                  \<and> (ra_active_mode active = ''view'' \<or> ra_active_mode active = ''control'')
                  \<and> ra_active_updated_at active \<le> now + seconds 5
                  \<and> ra_active_expires_at active > now
                  \<and> ra_active_expires_at active - ra_active_updated_at active \<le> seconds 35
               then Some active else None))"

record remote_assist_status_view =
  rs_supported :: bool
  rs_enabled :: bool
  rs_active :: bool
  rs_session_id :: "string option"
  rs_mode :: "string option"
  rs_view_expires_at :: "datetime option"

definition remote_assist_status ::
  "desktop_lib \<Rightarrow> bool \<Rightarrow> datetime \<Rightarrow> runtime_dir \<Rightarrow> remote_assist_status_view" where
  "remote_assist_status L windows now d =
     (let supported = (windows \<and> worker_enrollment_exists d);
          enabled = (supported \<and> remote_assist_enabled_at L d);
          active = (if enabled then remote_assist_active_at L now d else None)
      in \<lparr>rs_supported = supported, rs_enabled = enabled, rs_active = (active \<noteq> None),
          rs_session_id = map_option ra_active_session_id active,
          rs_mode = map_option ra_active_mode active,
          rs_view_expires_at = map_option ra_active_expires_at active\<rparr>)"

text \<open>Writing the policy creates or truncates the file: a failing write leaves it empty. A dangling
  link passes the check, since \<open>exists\<close> is false for it, and the write creates what it leads to.\<close>

definition write_policy :: "string \<Rightarrow> runtime_dir \<Rightarrow> unit io" where
  "write_policy payload d =
     (let name = REMOTE_ASSIST_POLICY_FILE;
          file = (case entry d name of Some (RLink _) \<Rightarrow> (\<lambda>bytes. RLink (ToFile bytes)) | _ \<Rightarrow> RFile) in
      if path_exists d name \<and> (case entry d name of Some (RFile _) \<Rightarrow> False | _ \<Rightarrow> True)
      then (Inl ''Remote Assist policy path is not a regular non-symlink file'', d)
      else if rd_denied d OpCreate name then (Inl (rd_error_text d OsOther), d)
      else if rd_denied d OpWrite name then (Inl (rd_error_text d OsOther), put_entry name (file []) d)
      else (Inr (), put_entry name (file payload) d))"

definition set_remote_assist_enabled ::
  "desktop_lib \<Rightarrow> bool \<Rightarrow> datetime \<Rightarrow> bool \<Rightarrow> runtime_dir \<Rightarrow> remote_assist_status_view io" where
  "set_remote_assist_enabled L windows now enabled d =
     (if \<not> windows then (Inl ''Remote Assist is currently qualified only on Windows workers'', d)
      else if \<not> worker_enrollment_exists d
      then (Inl ''Remote Assist can only be enabled on a paired worker'', d)
      else case create_dir_all d of
        (Inl e, d) \<Rightarrow> (Inl (rd_error_text d e), d)
      | (Inr _, d) \<Rightarrow>
      (case write_policy (dl_policy_bytes L enabled) d of
        (Inl e, d) \<Rightarrow> (Inl e, d)
      | (Inr _, d) \<Rightarrow>
      (case (if enabled then (Inr Returns, d) else remove_active_file d) of
        (Inl e, d) \<Rightarrow> (Inl e, d)
      | (Inr _, d) \<Rightarrow> (Inr (remote_assist_status L windows now d), d))))"

end
