(* ===== verification/Rampage_Pairing.thy ===== *)
theory Rampage_Pairing
  imports Rampage_Setup Rampage_Net "HOL-Library.Char_ord" "HOL-Library.List_Lexorder"
    "HOL-Library.Product_Lexorder"
begin

text \<open>
  Pairing over the local network (\<open>apps/desktop/src-tauri/src/pairing.rs\<close>). The owner keeps a table of
  pending requests behind one mutex; each datagram it receives is one step of \<open>owner_receive\<close>, each
  click of the owner one of \<open>open_owner_window\<close>, \<open>owner_window\<close>, \<open>approve\<close>, \<open>reject\<close>. The worker
  runs a loop whose iterations are \<open>worker_step\<close>. X25519, HKDF, AES-GCM, SHA-256, base64, the JSON codec
  of the datagrams, the random bytes, the clock and the network interfaces are parameters. Times are
  milliseconds in a \<open>u64\<close>. A poisoned mutex is a flag of the state.
\<close>

section \<open>Limits\<close>

definition PAIRING_SCHEMA :: string where
  "PAIRING_SCHEMA = ''rampage.lan-pairing.v1''"

definition PAIRING_PORT :: u16 where
  "PAIRING_PORT = 47839"

type_synonym ipv4 = "u8 \<times> u8 \<times> u8 \<times> u8"

definition PAIRING_MULTICAST :: ipv4 where
  "PAIRING_MULTICAST = (239, 255, 73, 82)"

definition BROADCAST :: ipv4 where
  "BROADCAST = (255, 255, 255, 255)"

definition PAIRING_WINDOW_MS :: u64 where
  "PAIRING_WINDOW_MS = 365 * 24 * 60 * 60 * 1000"

definition WORKER_WAIT_MS :: u64 where
  "WORKER_WAIT_MS = 15 * 60 * 1000"

definition MAX_DATAGRAM_BYTES :: nat where
  "MAX_DATAGRAM_BYTES = 8 * 1024"

definition MAX_INVITATION_BYTES :: nat where
  "MAX_INVITATION_BYTES = 5 * 1024"

definition MAX_APPROVAL_CHUNK_CHARS :: nat where
  "MAX_APPROVAL_CHUNK_CHARS = 640"

definition MAX_APPROVAL_CHUNKS :: nat where
  "MAX_APPROVAL_CHUNKS = 16"

definition MAX_APPROVAL_CIPHERTEXT_CHARS :: nat where
  "MAX_APPROVAL_CIPHERTEXT_CHARS = 7 * 1024"

definition MAX_PENDING_REQUESTS :: nat where
  "MAX_PENDING_REQUESTS = 16"

definition MAX_NEW_REQUESTS_PER_IP_PER_MINUTE :: nat where
  "MAX_NEW_REQUESTS_PER_IP_PER_MINUTE = 5"

lemmas pairing_limits = MAX_DATAGRAM_BYTES_def MAX_INVITATION_BYTES_def MAX_APPROVAL_CHUNK_CHARS_def
  MAX_APPROVAL_CHUNKS_def MAX_APPROVAL_CIPHERTEXT_CHARS_def MAX_PENDING_REQUESTS_def
  MAX_NEW_REQUESTS_PER_IP_PER_MINUTE_def

section \<open>Messages and state\<close>

datatype pairing_datagram =
    Hello (hello_schema: string) (hello_request_id: string) (hello_device_name: string)
      (hello_device_kind: string) (hello_public_key: string) (hello_issued_at: u64) (hello_expires_at: u64)
  | Challenge string string string string u64
  | Approval string string string string
  | ApprovalChunk string string string u16 u16 string
  | Rejected string string string
  | EnrollmentComplete string string string string

datatype pairing_request_state = AwaitingApproval | Approved | Completed

fun request_state_str :: "pairing_request_state \<Rightarrow> string" where
  "request_state_str AwaitingApproval = ''awaiting_approval''"
| "request_state_str Approved = ''approved''"
| "request_state_str Completed = ''completed''"

record pending_pair =
  pp_request_id :: string
  pp_device_name :: string
  pp_device_kind :: string
  pp_peer_addr :: socket_addr
  pp_peer_public_key :: string
  pp_verification_code :: string
  pp_key :: string
  pp_aad :: string
  pp_expires_at_ms :: u64
  pp_challenge_payload :: string
  pp_approval_payloads :: "string list option"
  pp_state :: pairing_request_state

record pairing_request_view =
  pv_request_id :: string
  pv_device_name :: string
  pv_device_kind :: string
  pv_verification_code :: string
  pv_expires_at_ms :: u64
  pv_state :: string

definition view_of :: "pending_pair \<Rightarrow> pairing_request_view" where
  "view_of value = \<lparr>pv_request_id = pp_request_id value, pv_device_name = pp_device_name value,
     pv_device_kind = pp_device_kind value, pv_verification_code = pp_verification_code value,
     pv_expires_at_ms = pp_expires_at_ms value, pv_state = request_state_str (pp_state value)\<rparr>"

record pairing_window_view =
  pw_schema :: string
  pw_open :: bool
  pw_open_until_ms :: u64
  pw_requests :: "pairing_request_view list"

datatype worker_pairing_view = Idle
  | Searching string u64
  | WaitingApproval string string string u64
  | WorkerApproved string string
  | WorkerFailed string

record pairing_inner =
  pi_owner_socket :: bool
  pi_owner_name :: string
  pi_owner_open_until_ms :: u64
  pi_owner_notifier :: bool
  pi_owner_attention_active :: bool
  pi_pending :: "(string, pending_pair) fmap"
  pi_attempts :: "(ip_addr, u64 list) fmap"
  pi_worker_generation :: u64
  pi_worker :: worker_pairing_view
  pi_poisoned :: bool

definition lock_poisoned :: string where
  "lock_poisoned = ''pairing state lock poisoned''"

record pairing_lib =
  pl_public :: "string \<Rightarrow> string"
  pl_diffie_hellman :: "string \<Rightarrow> string \<Rightarrow> string"
  pl_hkdf_expand :: "string \<Rightarrow> string \<Rightarrow> string \<Rightarrow> nat \<Rightarrow> string option"
  pl_sha256 :: "string \<Rightarrow> string"
  pl_seal :: "string \<Rightarrow> string \<Rightarrow> string \<Rightarrow> string \<Rightarrow> string option"
  pl_open :: "string \<Rightarrow> string \<Rightarrow> string \<Rightarrow> string \<Rightarrow> string option"
  pl_b64 :: "string \<Rightarrow> string"
  pl_unb64 :: "string \<Rightarrow> string option"
  pl_to_vec :: "pairing_datagram \<Rightarrow> string + string"
  pl_from_slice :: "string \<Rightarrow> pairing_datagram option"

section \<open>Reassembly of an approval\<close>

record approval_assembly =
  aa_nonce :: string
  aa_chunk_count :: nat
  aa_chunks :: "string option list"
  aa_encoded_len :: nat

definition assembly_new :: "string \<Rightarrow> nat \<Rightarrow> approval_assembly option" where
  "assembly_new nonce chunk_count =
     (if 1 \<le> chunk_count \<and> chunk_count \<le> MAX_APPROVAL_CHUNKS
      then Some \<lparr>aa_nonce = nonce, aa_chunk_count = chunk_count,
                 aa_chunks = replicate chunk_count None, aa_encoded_len = 0\<rparr>
      else None)"

definition assembly_complete :: "approval_assembly \<Rightarrow> string option" where
  "assembly_complete a = map_option concat (those (aa_chunks a))"

definition is_base64_char :: "char \<Rightarrow> bool" where
  "is_base64_char c =
     (is_ascii_digit c \<or> (65 \<le> byte c \<and> byte c \<le> 90) \<or> (97 \<le> byte c \<and> byte c \<le> 122)
      \<or> c = CHR ''+'' \<or> c = CHR ''/'' \<or> c = CHR ''='')"

definition assembly_push ::
  "nat \<Rightarrow> string \<Rightarrow> approval_assembly \<Rightarrow> (string + string option) \<times> approval_assembly" where
  "assembly_push index chunk a =
     (if aa_chunk_count a \<le> index \<or> chunk = [] \<or> length chunk > MAX_APPROVAL_CHUNK_CHARS
         \<or> \<not> list_all is_base64_char chunk
      then (Inr None, a)
      else case aa_chunks a ! index of
        Some existing \<Rightarrow> (Inr (if existing = chunk then assembly_complete a else None), a)
      | None \<Rightarrow>
          if aa_encoded_len a + length chunk > MAX_APPROVAL_CIPHERTEXT_CHARS
          then (Inl ''encrypted pairing approval exceeds its bounded reassembly limit'', a)
          else let a' = a\<lparr>aa_encoded_len := aa_encoded_len a + length chunk,
                          aa_chunks := (aa_chunks a)[index := Some chunk]\<rparr>
               in (Inr (assembly_complete a'), a'))"

section \<open>Owner state\<close>

definition fresh_attempts :: "u64 \<Rightarrow> u64 list \<Rightarrow> u64 list" where
  "fresh_attempts now attempts = dropWhile (\<lambda>timestamp. sat_add timestamp 60000 \<le> now) attempts"

definition retain_values :: "('v \<Rightarrow> bool) \<Rightarrow> ('k, 'v) fmap \<Rightarrow> ('k, 'v) fmap" where
  "retain_values p m = fmfilter (\<lambda>k. case fmlookup m k of None \<Rightarrow> False | Some v \<Rightarrow> p v) m"

definition prune_owner_state :: "u64 \<Rightarrow> pairing_inner \<Rightarrow> pairing_inner" where
  "prune_owner_state now inner =
     (let pending = retain_values (\<lambda>p. pp_expires_at_ms p > now) (pi_pending inner);
          attempts = retain_values (\<lambda>a. a \<noteq> []) (fmmap (fresh_attempts now) (pi_attempts inner))
      in inner\<lparr>pi_attempts := attempts,
               pi_pending := (if pi_owner_open_until_ms inner \<le> now then fmempty else pending)\<rparr>)"

definition admit_source_attempt ::
  "(ip_addr, u64 list) fmap \<Rightarrow> ip_addr \<Rightarrow> u64 \<Rightarrow> bool \<times> (ip_addr, u64 list) fmap" where
  "admit_source_attempt attempts source now =
     (let mine = fresh_attempts now (case fmlookup attempts source of None \<Rightarrow> [] | Some a \<Rightarrow> a) in
      if length mine \<ge> MAX_NEW_REQUESTS_PER_IP_PER_MINUTE then (False, fmupd source mine attempts)
      else (True, fmupd source (mine @ [now]) attempts))"

definition valid_request_id :: "string \<Rightarrow> bool" where
  "valid_request_id value = (length value = 32 \<and> list_all is_ascii_hexdigit value)"

definition bounded_label :: "string \<Rightarrow> string \<Rightarrow> string + string" where
  "bounded_label value label =
     (let trimmed = trim value in
      if trimmed = [] \<or> length trimmed > 64 \<or> has_control trimmed
      then Inl (label @ '' must contain 1 to 64 visible characters'') else Inr trimmed)"

definition decode_32 :: "pairing_lib \<Rightarrow> string \<Rightarrow> string + string" where
  "decode_32 P value =
     (case pl_unb64 P value of
        None \<Rightarrow> Inl ''pairing public key is not valid base64''
      | Some decoded \<Rightarrow>
          if length decoded = 32 then Inr decoded else Inl ''pairing public key has the wrong size'')"

definition owner_view :: "pairing_inner \<Rightarrow> pairing_request_view list" where
  "owner_view inner =
     sort_key pv_request_id
       (map (\<lambda>id. view_of (the (fmlookup (pi_pending inner) id))) (sorted_list_of_fset (fmdom (pi_pending inner))))"

definition awaits_approval :: "pairing_inner \<Rightarrow> bool" where
  "awaits_approval inner =
     fBex (fmran (pi_pending inner)) (\<lambda>request. pp_state request = AwaitingApproval)"

text \<open>The second component of a successful result says whether the notifier is told that nothing
  waits any more.\<close>

definition owner_window ::
  "u64 \<Rightarrow> pairing_inner \<Rightarrow> (string + pairing_window_view \<times> bool) \<times> pairing_inner" where
  "owner_window now inner =
     (if pi_poisoned inner then (Inl lock_poisoned, inner)
      else let inner = prune_owner_state now inner;
               requests = owner_view inner;
               clear = (pi_owner_attention_active inner \<and> \<not> awaits_approval inner);
               inner = (if clear then inner\<lparr>pi_owner_attention_active := False\<rparr> else inner)
           in (Inr (\<lparr>pw_schema = ''rampage.pairing-window.v1'', pw_open = (pi_owner_open_until_ms inner > now),
                    pw_open_until_ms = pi_owner_open_until_ms inner, pw_requests = requests\<rparr>,
                    clear \<and> pi_owner_notifier inner), inner))"

text \<open>\<open>bound\<close> is the result of binding the socket, the two times are those of the two readings of the
  clock.\<close>

definition open_owner_window ::
  "string + unit \<Rightarrow> u64 \<Rightarrow> u64 \<Rightarrow> string \<Rightarrow> pairing_inner
     \<Rightarrow> (string + pairing_window_view \<times> bool) \<times> pairing_inner" where
  "open_owner_window bound now now' owner_name inner =
     (case bounded_label owner_name ''owner name'' of
        Inl e \<Rightarrow> (Inl e, inner)
      | Inr owner_name \<Rightarrow>
     if pi_poisoned inner then (Inl lock_poisoned, inner)
     else case (if pi_owner_socket inner then Inr inner
                else case bound of Inl e \<Rightarrow> Inl e
                     | Inr _ \<Rightarrow> Inr (inner\<lparr>pi_owner_socket := True, pi_owner_notifier := True\<rparr>)) of
        Inl e \<Rightarrow> (Inl e, inner)
      | Inr inner \<Rightarrow>
          owner_window now'
            (prune_owner_state now
               (inner\<lparr>pi_owner_name := owner_name,
                      pi_owner_open_until_ms := sat_add now PAIRING_WINDOW_MS\<rparr>)))"

definition deactivate_owner_window :: "pairing_inner \<Rightarrow> (string + bool) \<times> pairing_inner" where
  "deactivate_owner_window inner =
     (if pi_poisoned inner then (Inl lock_poisoned, inner)
      else (Inr (pi_owner_notifier inner),
            inner\<lparr>pi_owner_open_until_ms := 0, pi_pending := fmempty, pi_attempts := fmempty,
                  pi_owner_attention_active := False\<rparr>))"

section \<open>Key agreement\<close>

definition pairing_transcript :: "string \<Rightarrow> string \<Rightarrow> string \<Rightarrow> string" where
  "pairing_transcript request_id worker_public owner_public =
     ''rampage.lan-pairing.transcript.v1'' @ [CHR 0x00] @ request_id @ [CHR 0x00] @ worker_public @ owner_public"

text \<open>\<open>u32::from_be_bytes(code) % 10_000\<close>, printed with four digits.\<close>

definition code_digits :: "string \<Rightarrow> string" where
  "code_digits code_bytes =
     (let n = foldl (\<lambda>n c. n * 256 + byte c) 0 code_bytes mod 10000 in
      map (\<lambda>k. char_of (48 + n div k mod 10)) [1000, 100, 10, 1])"

definition derive_material :: "pairing_lib \<Rightarrow> string \<Rightarrow> string \<Rightarrow> string + string \<times> string \<times> string" where
  "derive_material P shared transcript =
     (case pl_hkdf_expand P ''rampage-lan-pairing-v1'' shared (''invite-key'' @ [CHR 0x00] @ transcript) 32 of
        None \<Rightarrow> Inl ''could not derive pairing encryption key''
      | Some encryption_key \<Rightarrow>
     case pl_hkdf_expand P ''rampage-lan-pairing-v1'' shared (''verification-code'' @ [CHR 0x00] @ transcript) 4 of
        None \<Rightarrow> Inl ''could not derive pairing verification code''
      | Some code_bytes \<Rightarrow> Inr (encryption_key, code_digits code_bytes, pl_sha256 P transcript))"

text \<open>\<open>entropy\<close> is the answer of the system's random source: \<open>None\<close> when it is unavailable.\<close>

definition fresh_bytes :: "string option \<Rightarrow> string + string" where
  "fresh_bytes entropy =
     (case entropy of None \<Rightarrow> Inl ''system randomness is unavailable'' | Some bytes \<Rightarrow> Inr bytes)"

definition encrypt_payload ::
  "pairing_lib \<Rightarrow> string option \<Rightarrow> string \<Rightarrow> string \<Rightarrow> string \<Rightarrow> string + string \<times> string" where
  "encrypt_payload P entropy key aad plaintext =
     (if length key \<noteq> 32 then Inl ''could not initialize pairing encryption''
      else case fresh_bytes entropy of
        Inl e \<Rightarrow> Inl e
      | Inr nonce \<Rightarrow>
     case pl_seal P key nonce aad plaintext of
        None \<Rightarrow> Inl ''could not encrypt pairing payload''
      | Some ciphertext \<Rightarrow> Inr (pl_b64 P nonce, pl_b64 P ciphertext))"

definition decrypt_payload :: "pairing_lib \<Rightarrow> string \<Rightarrow> string \<Rightarrow> string \<Rightarrow> string \<Rightarrow> string + string" where
  "decrypt_payload P key aad nonce ciphertext =
     (case pl_unb64 P nonce of
        None \<Rightarrow> Inl ''pairing approval nonce is invalid''
      | Some nonce \<Rightarrow>
     if length nonce \<noteq> 12 then Inl ''pairing approval nonce has the wrong size''
     else case pl_unb64 P ciphertext of
        None \<Rightarrow> Inl ''pairing approval ciphertext is invalid''
      | Some ciphertext \<Rightarrow>
     if length key \<noteq> 32 then Inl ''could not initialize pairing decryption''
     else case pl_open P key nonce aad ciphertext of
        None \<Rightarrow> Inl ''pairing payload could not be authenticated''
      | Some plaintext \<Rightarrow> Inr plaintext)"

definition decrypt_approval :: "pairing_lib \<Rightarrow> string \<Rightarrow> string \<Rightarrow> string \<Rightarrow> string \<Rightarrow> string + string" where
  "decrypt_approval P key aad nonce ciphertext =
     (case decrypt_payload P key aad nonce ciphertext of
        Inl e \<Rightarrow> Inl e
      | Inr plaintext \<Rightarrow> if utf8_ok plaintext then Inr plaintext else Inl ''pairing approval is not UTF-8'')"

definition encrypted_completion ::
  "pairing_lib \<Rightarrow> string option \<Rightarrow> string \<Rightarrow> string \<Rightarrow> string \<Rightarrow> string + string" where
  "encrypted_completion P entropy request_id key aad =
     (case encrypt_payload P entropy key aad ''enrollment-complete'' of
        Inl e \<Rightarrow> Inl e
      | Inr (nonce, ciphertext) \<Rightarrow> pl_to_vec P (EnrollmentComplete PAIRING_SCHEMA request_id nonce ciphertext))"

section \<open>Approval and rejection\<close>

text \<open>\<open>slice::chunks\<close>.\<close>

fun chunks_by :: "nat \<Rightarrow> string \<Rightarrow> string list" where
  "chunks_by n s = (if n = 0 \<or> s = [] then [] else take n s # chunks_by n (drop n s))"

declare chunks_by.simps [simp del]

fun chunk_payloads ::
  "pairing_lib \<Rightarrow> string \<Rightarrow> string \<Rightarrow> u16 \<Rightarrow> nat \<Rightarrow> string list \<Rightarrow> string + string list" where
  "chunk_payloads P request_id nonce chunk_count index [] = Inr []"
| "chunk_payloads P request_id nonce chunk_count index (chunk # chunks) =
     (if \<not> index < 2 ^ 16 then Inl ''pairing fragment index overflow''
      else case pl_to_vec P (ApprovalChunk PAIRING_SCHEMA request_id nonce (of_nat index) chunk_count chunk) of
        Inl e \<Rightarrow> Inl e
      | Inr payload \<Rightarrow>
          if length payload > 1024 then Inl ''encrypted pairing fragment exceeds its safe UDP size''
          else (case chunk_payloads P request_id nonce chunk_count (index + 1) chunks of
                  Inl e \<Rightarrow> Inl e
                | Inr payloads \<Rightarrow> Inr (payload # payloads)))"

definition encrypted_approval_chunks ::
  "pairing_lib \<Rightarrow> string option \<Rightarrow> pending_pair \<Rightarrow> string \<Rightarrow> string + string list" where
  "encrypted_approval_chunks P entropy pending invitation =
     (if length invitation > MAX_INVITATION_BYTES then Inl ''invite exceeds the pairing payload limit''
      else case encrypt_payload P entropy (pp_key pending) (pp_aad pending) invitation of
        Inl e \<Rightarrow> Inl e
      | Inr (nonce, ciphertext) \<Rightarrow>
          if length ciphertext > MAX_APPROVAL_CIPHERTEXT_CHARS
          then Inl ''encrypted invite exceeds the pairing reassembly limit''
          else let chunks = chunks_by MAX_APPROVAL_CHUNK_CHARS ciphertext in
          if chunks = [] \<or> length chunks > MAX_APPROVAL_CHUNKS
          then Inl ''encrypted invite requires too many pairing fragments''
          else if \<not> length chunks < 2 ^ 16 then Inl ''too many pairing fragments''
          else chunk_payloads P (pp_request_id pending) nonce (of_nat (length chunks)) 0 chunks)"

text \<open>The datagrams to send and the view of the request; sending them is the caller's business.\<close>

definition approve ::
  "pairing_lib \<Rightarrow> string option \<Rightarrow> u64 \<Rightarrow> string \<Rightarrow> string \<Rightarrow> pairing_inner
     \<Rightarrow> (string + socket_addr \<times> string list \<times> pairing_request_view) \<times> pairing_inner" where
  "approve P entropy now request_id invitation inner =
     (if pi_poisoned inner then (Inl lock_poisoned, inner)
      else let inner = prune_owner_state now inner in
      if \<not> pi_owner_socket inner then (Inl ''pairing window is not open'', inner)
      else case fmlookup (pi_pending inner) request_id of
        None \<Rightarrow> (Inl ''pairing request expired or is unknown'', inner)
      | Some pending \<Rightarrow>
     case encrypted_approval_chunks P entropy pending invitation of
        Inl e \<Rightarrow> (Inl e, inner)
      | Inr payloads \<Rightarrow>
          let pending = pending\<lparr>pp_approval_payloads := Some payloads, pp_state := Approved\<rparr>
          in (Inr (pp_peer_addr pending, payloads, view_of pending),
              inner\<lparr>pi_pending := fmupd request_id pending (pi_pending inner)\<rparr>))"

definition reject ::
  "pairing_lib \<Rightarrow> string \<Rightarrow> pairing_inner \<Rightarrow> (string + socket_addr \<times> string) \<times> pairing_inner" where
  "reject P request_id inner =
     (if pi_poisoned inner then (Inl lock_poisoned, inner)
      else if \<not> pi_owner_socket inner then (Inl ''pairing window is not open'', inner)
      else case fmlookup (pi_pending inner) request_id of
        None \<Rightarrow> (Inl ''pairing request expired or is unknown'', inner)
      | Some pending \<Rightarrow>
          let inner = inner\<lparr>pi_pending := fmdrop request_id (pi_pending inner)\<rparr> in
          case pl_to_vec P (Rejected PAIRING_SCHEMA request_id ''The owner declined this device.'') of
            Inl e \<Rightarrow> (Inl e, inner)
          | Inr payload \<Rightarrow> (Inr (pp_peer_addr pending, payload), inner))"

section \<open>Interfaces and destinations\<close>

record ifv4_addr =
  if_ip :: ipv4
  if_broadcast :: "ipv4 option"

record interface_info =
  in_oper_up :: bool
  in_loopback :: bool
  in_p2p :: bool
  in_link_local :: bool
  in_v4 :: "ifv4_addr option"

fun dedup_by_key :: "('a \<Rightarrow> 'k) \<Rightarrow> 'a list \<Rightarrow> 'a list" where
  "dedup_by_key f (x # y # xs) =
     (if f x = f y then dedup_by_key f (x # xs) else x # dedup_by_key f (y # xs))"
| "dedup_by_key f xs = xs"

definition active_ipv4_interfaces :: "interface_info list \<Rightarrow> ifv4_addr list" where
  "active_ipv4_interfaces interfaces =
     dedup_by_key if_ip (sort_key if_ip
       (List.map_filter (\<lambda>i. case in_v4 i of None \<Rightarrow> None
                        | Some a \<Rightarrow> if if_ip a \<noteq> (0, 0, 0, 0) then Some a else None)
          (filter (\<lambda>i. in_oper_up i \<and> \<not> in_loopback i \<and> \<not> in_p2p i \<and> \<not> in_link_local i) interfaces)))"

definition source_is_local_on :: "ip_addr \<Rightarrow> ifv4_addr list \<Rightarrow> bool" where
  "source_is_local_on source interfaces =
     (case source of V6 _ \<Rightarrow> False
      | V4 a b c d \<Rightarrow> list_ex (\<lambda>interface. if_ip interface = (a, b, c, d)) interfaces)"

definition pairing_destinations_for :: "ifv4_addr list \<Rightarrow> (ipv4 \<times> u16) list" where
  "pairing_destinations_for interfaces =
     map (\<lambda>address. (address, PAIRING_PORT))
       (remdups_adj (sort ([BROADCAST, PAIRING_MULTICAST] @ List.map_filter if_broadcast interfaces)))"

section \<open>The owner's receive loop\<close>

text \<open>One request not seen before: the key agreement, the challenge and the new table entry.
  \<open>None\<close> is a \<open>continue\<close> of the loop.\<close>

definition new_request ::
  "pairing_lib \<Rightarrow> u64 \<Rightarrow> string option \<Rightarrow> pairing_datagram \<Rightarrow> string \<Rightarrow> socket_addr \<Rightarrow> pairing_inner
     \<Rightarrow> pending_pair option" where
  "new_request P now entropy hello peer_public source inner =
     (case fresh_bytes entropy of
        Inl _ \<Rightarrow> None
      | Inr owner_secret \<Rightarrow>
          let owner_public = pl_public P owner_secret;
              shared = pl_diffie_hellman P owner_secret peer_public;
              transcript = pairing_transcript (hello_request_id hello) peer_public owner_public
          in case derive_material P shared transcript of
               Inl _ \<Rightarrow> None
             | Inr (key, verification_code, aad) \<Rightarrow>
                 let effective_expiry = min (sat_add now WORKER_WAIT_MS) (pi_owner_open_until_ms inner)
                 in case pl_to_vec P (Challenge PAIRING_SCHEMA (hello_request_id hello) (pi_owner_name inner)
                                       (pl_b64 P owner_public) effective_expiry) of
                      Inl _ \<Rightarrow> None
                    | Inr challenge_payload \<Rightarrow>
                        Some \<lparr>pp_request_id = hello_request_id hello, pp_device_name = hello_device_name hello,
                          pp_device_kind = hello_device_kind hello, pp_peer_addr = source,
                          pp_peer_public_key = hello_public_key hello, pp_verification_code = verification_code,
                          pp_key = key, pp_aad = aad, pp_expires_at_ms = effective_expiry,
                          pp_challenge_payload = challenge_payload, pp_approval_payloads = None,
                          pp_state = AwaitingApproval\<rparr>)"

definition receive_completion ::
  "pairing_lib \<Rightarrow> u64 \<Rightarrow> string \<Rightarrow> string \<Rightarrow> string \<Rightarrow> string \<Rightarrow> socket_addr \<Rightarrow> pairing_inner \<Rightarrow> pairing_inner" where
  "receive_completion P now schema request_id nonce ciphertext source inner =
     (if schema \<noteq> PAIRING_SCHEMA \<or> \<not> valid_request_id request_id \<or> pi_poisoned inner then inner
      else let inner = prune_owner_state now inner in
      case fmlookup (pi_pending inner) request_id of
        None \<Rightarrow> inner
      | Some pending \<Rightarrow>
          if pp_peer_addr pending \<noteq> source \<or> pp_state pending \<noteq> Approved then inner
          else if decrypt_payload P (pp_key pending) (pp_aad pending) nonce ciphertext = Inr ''enrollment-complete''
          then inner\<lparr>pi_pending := fmupd request_id (pending\<lparr>pp_state := Completed\<rparr>) (pi_pending inner)\<rparr>
          else inner)"

definition receive_hello ::
  "pairing_lib \<Rightarrow> ifv4_addr list \<Rightarrow> u64 \<Rightarrow> string option \<Rightarrow> pairing_datagram \<Rightarrow> socket_addr \<Rightarrow> pairing_inner
     \<Rightarrow> (string list \<times> pairing_request_view option) \<times> pairing_inner" where
  "receive_hello P interfaces now entropy hello source inner =
     (let request_id = hello_request_id hello in
      if hello_schema hello \<noteq> PAIRING_SCHEMA \<or> \<not> valid_request_id request_id
         \<or> isl (bounded_label (hello_device_name hello) ''device name'')
         \<or> hello_device_kind hello \<noteq> ''desktop''
         \<or> source_is_local_on (sa_ip source) interfaces
      then (([], None), inner)
      else case decode_32 P (hello_public_key hello) of
        Inl _ \<Rightarrow> (([], None), inner)
      | Inr peer_public \<Rightarrow>
     if pi_poisoned inner then (([], None), inner)
     else let inner = prune_owner_state now inner in
     if pi_owner_open_until_ms inner \<le> now then (([], None), inner)
     else case fmlookup (pi_pending inner) request_id of
        Some existing \<Rightarrow>
          if pp_peer_public_key existing \<noteq> hello_public_key hello
             \<or> sa_ip (pp_peer_addr existing) \<noteq> sa_ip source
          then (([], None), inner)
          else ((case pp_approval_payloads existing of
                   Some payloads \<Rightarrow> payloads | None \<Rightarrow> [pp_challenge_payload existing], None),
                inner\<lparr>pi_pending := fmupd request_id (existing\<lparr>pp_peer_addr := source\<rparr>) (pi_pending inner)\<rparr>)
      | None \<Rightarrow>
          if fcard (fmdom (pi_pending inner)) \<ge> MAX_PENDING_REQUESTS then (([], None), inner)
          else let (admitted, attempts) = admit_source_attempt (pi_attempts inner) (sa_ip source) now;
                   inner = inner\<lparr>pi_attempts := attempts\<rparr> in
          if \<not> admitted then (([], None), inner)
          else case new_request P now entropy hello peer_public source inner of
            None \<Rightarrow> (([], None), inner)
          | Some pending \<Rightarrow>
              (([pp_challenge_payload pending], Some (view_of pending)),
               inner\<lparr>pi_pending := fmupd request_id pending (pi_pending inner),
                     pi_owner_attention_active := True\<rparr>))"

text \<open>One iteration: the payloads sent back to \<open>source\<close>, the request shown to the owner, the state.\<close>

definition owner_receive ::
  "pairing_lib \<Rightarrow> ifv4_addr list \<Rightarrow> u64 \<Rightarrow> string option \<Rightarrow> string \<Rightarrow> socket_addr \<Rightarrow> pairing_inner
     \<Rightarrow> (string list \<times> pairing_request_view option) \<times> pairing_inner" where
  "owner_receive P interfaces now entropy bytes source inner =
     (if length bytes = 0 \<or> length bytes > MAX_DATAGRAM_BYTES then (([], None), inner)
      else case pl_from_slice P bytes of
        None \<Rightarrow> (([], None), inner)
      | Some (EnrollmentComplete schema request_id nonce ciphertext) \<Rightarrow>
          (([], None), receive_completion P now schema request_id nonce ciphertext source inner)
      | Some (Hello s i n k e t u) \<Rightarrow>
          receive_hello P interfaces now entropy (Hello s i n k e t u) source inner
      | Some _ \<Rightarrow> (([], None), inner))"

section \<open>The worker\<close>

definition worker_status :: "pairing_inner \<Rightarrow> string + worker_pairing_view" where
  "worker_status inner = (if pi_poisoned inner then Inl lock_poisoned else Inr (pi_worker inner))"

definition cancel_worker :: "pairing_inner \<Rightarrow> (string + unit) \<times> pairing_inner" where
  "cancel_worker inner =
     (if pi_poisoned inner then (Inl lock_poisoned, inner)
      else (Inr (), inner\<lparr>pi_worker_generation := sat_add (pi_worker_generation inner) 1, pi_worker := Idle\<rparr>))"

definition set_worker_status ::
  "u64 \<Rightarrow> worker_pairing_view \<Rightarrow> pairing_inner \<Rightarrow> (string + unit) \<times> pairing_inner" where
  "set_worker_status generation status inner =
     (if pi_poisoned inner then (Inl lock_poisoned, inner)
      else (Inr (), if pi_worker_generation inner = generation then inner\<lparr>pi_worker := status\<rparr> else inner))"

definition generation_is_current :: "u64 \<Rightarrow> pairing_inner \<Rightarrow> string + bool" where
  "generation_is_current generation inner =
     (if pi_poisoned inner then Inl lock_poisoned else Inr (pi_worker_generation inner = generation))"

record worker_session =
  ws_generation :: u64
  ws_request_id :: string
  ws_secret :: string
  ws_expires_at_ms :: u64
  ws_selected_owner :: "(socket_addr \<times> string \<times> string \<times> string) option"
  ws_approval_assembly :: "approval_assembly option"

text \<open>\<open>begin_worker\<close> up to the spawned loop: the view it returns, and the session of a new loop. \<open>request_id\<close>
  is the hexadecimal text of sixteen fresh bytes, \<open>secret\<close> the loop's fresh secret.\<close>

definition begin_worker ::
  "string + string \<Rightarrow> string \<Rightarrow> u64 \<Rightarrow> string \<Rightarrow> pairing_inner
     \<Rightarrow> (string + worker_pairing_view \<times> worker_session option) \<times> pairing_inner" where
  "begin_worker request_id secret now device_name inner =
     (case bounded_label device_name ''device name'' of
        Inl e \<Rightarrow> (Inl e, inner)
      | Inr device_name \<Rightarrow>
     case deactivate_owner_window inner of
        (Inl e, inner) \<Rightarrow> (Inl e, inner)
      | (Inr _, inner) \<Rightarrow>
     case pi_worker inner of
        Searching a b \<Rightarrow> (Inr (Searching a b, None), inner)
      | WaitingApproval a b c t \<Rightarrow> (Inr (WaitingApproval a b c t, None), inner)
      | _ \<Rightarrow>
          let generation = sat_add (pi_worker_generation inner) 1;
              inner = inner\<lparr>pi_worker_generation := generation\<rparr>
          in case request_id of
               Inl e \<Rightarrow> (Inl e, inner)
             | Inr request_id \<Rightarrow>
                 let expires_at_ms = sat_add now WORKER_WAIT_MS;
                     inner = snd (set_worker_status generation (Searching request_id expires_at_ms) inner)
                 in (Inr (pi_worker inner,
                      Some \<lparr>ws_generation = generation, ws_request_id = request_id, ws_secret = secret,
                            ws_expires_at_ms = expires_at_ms, ws_selected_owner = None,
                            ws_approval_assembly = None\<rparr>), inner))"

definition worker_hello :: "pairing_lib \<Rightarrow> worker_session \<Rightarrow> string \<Rightarrow> u64 \<Rightarrow> string + string" where
  "worker_hello P w device_name now =
     pl_to_vec P (Hello PAIRING_SCHEMA (ws_request_id w) device_name ''desktop''
       (pl_b64 P (pl_public P (ws_secret w))) now (ws_expires_at_ms w))"

text \<open>What an iteration does: go on, leave the loop, fail with a message, or restart the application
  after a completed enrollment (with the completion datagram sent three times).\<close>

datatype worker_result = WContinue worker_session | WReturn | WFail string | WRestart string

record worker_env =
  we_token :: string
  we_entropy :: "string option"
  we_send :: "string + unit"

definition finish_worker_enrollment ::
  "pairing_lib \<Rightarrow> desktop_lib \<Rightarrow> worker_env \<Rightarrow> worker_session \<Rightarrow> string \<Rightarrow> string \<Rightarrow> string \<Rightarrow> string \<Rightarrow> string
     \<Rightarrow> pairing_inner \<times> runtime_dir \<Rightarrow> worker_result \<times> pairing_inner \<times> runtime_dir" where
  "finish_worker_enrollment P L env w owner_name key aad nonce ciphertext st =
     (let (inner, d) = st in
      case decrypt_approval P key aad nonce ciphertext of
        Inl e \<Rightarrow> (WFail e, inner, d)
      | Inr invitation \<Rightarrow>
     case persist_remote_invite_at L (we_token env) invitation d of
        (Inl e, d) \<Rightarrow> (WFail e, inner, d)
      | (Inr _, d) \<Rightarrow>
     case encrypted_completion P (we_entropy env) (ws_request_id w) key aad of
        Inl e \<Rightarrow> (WFail e, inner, d)
      | Inr completion \<Rightarrow>
     case we_send env of
        Inl e \<Rightarrow> (WFail (''could not confirm secure enrollment: '' @ e), inner, d)
      | Inr _ \<Rightarrow>
     case set_worker_status (ws_generation w) (WorkerApproved (ws_request_id w) owner_name) inner of
        (Inl e, inner) \<Rightarrow> (WFail e, inner, d)
      | (Inr _, inner) \<Rightarrow> (WRestart completion, inner, d))"

definition worker_challenge ::
  "pairing_lib \<Rightarrow> worker_session \<Rightarrow> string \<Rightarrow> string \<Rightarrow> socket_addr \<Rightarrow> pairing_inner \<Rightarrow> worker_result \<times> pairing_inner" where
  "worker_challenge P w owner_name public_key source inner =
     (case decode_32 P public_key of
        Inl _ \<Rightarrow> (WContinue w, inner)
      | Inr owner_public \<Rightarrow>
     if (case ws_selected_owner w of None \<Rightarrow> False | Some (selected_addr, _) \<Rightarrow> selected_addr \<noteq> source)
     then (WContinue w, inner)
     else let shared = pl_diffie_hellman P (ws_secret w) owner_public;
              transcript = pairing_transcript (ws_request_id w) (pl_public P (ws_secret w)) owner_public in
     case derive_material P shared transcript of
        Inl e \<Rightarrow> (WFail e, inner)
      | Inr (key, verification_code, aad) \<Rightarrow>
     case bounded_label owner_name ''owner name'' of
        Inl e \<Rightarrow> (WFail e, inner)
      | Inr owner_name \<Rightarrow>
     case set_worker_status (ws_generation w)
            (WaitingApproval (ws_request_id w) owner_name verification_code (ws_expires_at_ms w)) inner of
        (Inl e, inner) \<Rightarrow> (WFail e, inner)
      | (Inr _, inner) \<Rightarrow>
          (WContinue (w\<lparr>ws_selected_owner := Some (source, key, aad, owner_name)\<rparr>), inner))"

text \<open>The assembly a fragment goes to: \<open>None\<close> is a \<open>continue\<close>.\<close>

definition fragment_assembly ::
  "string \<Rightarrow> u16 \<Rightarrow> nat \<Rightarrow> approval_assembly option \<Rightarrow> approval_assembly option" where
  "fragment_assembly nonce chunk_index chunk_count assembly =
     (case assembly of
        Some a \<Rightarrow> if aa_nonce a \<noteq> nonce \<or> aa_chunk_count a \<noteq> chunk_count then None else Some a
      | None \<Rightarrow> if chunk_index \<noteq> 0 then None else assembly_new nonce chunk_count)"

definition worker_fragment ::
  "pairing_lib \<Rightarrow> desktop_lib \<Rightarrow> worker_env \<Rightarrow> worker_session \<Rightarrow> string \<Rightarrow> string \<Rightarrow> string
     \<Rightarrow> string \<Rightarrow> u16 \<Rightarrow> u16 \<Rightarrow> string \<Rightarrow> pairing_inner \<times> runtime_dir
     \<Rightarrow> worker_result \<times> pairing_inner \<times> runtime_dir" where
  "worker_fragment P L env w owner_name key aad nonce chunk_index chunk_count chunk st =
     (case fragment_assembly nonce chunk_index (unat chunk_count) (ws_approval_assembly w) of
        None \<Rightarrow> (WContinue w, st)
      | Some a \<Rightarrow>
          (case assembly_push (unat chunk_index) chunk a of
             (Inl e, a) \<Rightarrow> (WFail e, st)
           | (Inr None, a) \<Rightarrow> (WContinue (w\<lparr>ws_approval_assembly := Some a\<rparr>), st)
           | (Inr (Some ciphertext), a) \<Rightarrow>
               finish_worker_enrollment P L env (w\<lparr>ws_approval_assembly := Some a\<rparr>) owner_name key aad nonce
                 ciphertext st))"

definition worker_receive ::
  "pairing_lib \<Rightarrow> desktop_lib \<Rightarrow> worker_env \<Rightarrow> string \<Rightarrow> socket_addr \<Rightarrow> worker_session
     \<Rightarrow> pairing_inner \<times> runtime_dir \<Rightarrow> worker_result \<times> pairing_inner \<times> runtime_dir" where
  "worker_receive P L env bytes source w st =
     (let ignore = (WContinue w, st);
          mine = (\<lambda>schema response_id. schema = PAIRING_SCHEMA \<and> response_id = ws_request_id w) in
      if length bytes = 0 \<or> length bytes > MAX_DATAGRAM_BYTES then ignore
      else case pl_from_slice P bytes of
        None \<Rightarrow> ignore
      | Some (Challenge schema response_id owner_name public_key _) \<Rightarrow>
          if mine schema response_id
          then (case worker_challenge P w owner_name public_key source (fst st) of (r, inner) \<Rightarrow> (r, inner, snd st))
          else ignore
      | Some (Approval schema response_id nonce ciphertext) \<Rightarrow>
          if mine schema response_id then
            (case ws_selected_owner w of None \<Rightarrow> ignore
             | Some (owner_addr, key, aad, owner_name) \<Rightarrow>
                 if owner_addr \<noteq> source then ignore
                 else finish_worker_enrollment P L env w owner_name key aad nonce ciphertext st)
          else ignore
      | Some (ApprovalChunk schema response_id nonce chunk_index chunk_count chunk) \<Rightarrow>
          if mine schema response_id then
            (case ws_selected_owner w of None \<Rightarrow> ignore
             | Some (owner_addr, key, aad, owner_name) \<Rightarrow>
                 if owner_addr \<noteq> source then ignore
                 else worker_fragment P L env w owner_name key aad nonce chunk_index chunk_count chunk st)
          else ignore
      | Some (Rejected schema response_id reason) \<Rightarrow>
          if mine schema response_id then
            (case ws_selected_owner w of None \<Rightarrow> ignore
             | Some (owner_addr, _) \<Rightarrow> if owner_addr \<noteq> source then ignore else (WFail reason, st))
          else ignore
      | Some _ \<Rightarrow> ignore)"

text \<open>One iteration of \<open>worker_pairing_loop\<close>: \<open>None\<close> is a tick of the interval, which sends the greeting
  to every destination and changes nothing here; \<open>Some\<close> is a received datagram.\<close>

definition worker_step ::
  "pairing_lib \<Rightarrow> desktop_lib \<Rightarrow> worker_env \<Rightarrow> u64 \<Rightarrow> (string \<times> socket_addr) option \<Rightarrow> worker_session
     \<Rightarrow> pairing_inner \<times> runtime_dir \<Rightarrow> worker_result \<times> pairing_inner \<times> runtime_dir" where
  "worker_step P L env now event w st =
     (case generation_is_current (ws_generation w) (fst st) of
        Inl e \<Rightarrow> (WFail e, st)
      | Inr current \<Rightarrow>
          if \<not> current then (WReturn, st)
          else if now \<ge> ws_expires_at_ms w
          then (WFail ''No owner approved this laptop within fifteen minutes. Try again beside the owner PC.'', st)
          else case event of
            None \<Rightarrow> (WContinue w, st)
          | Some (bytes, source) \<Rightarrow> worker_receive P L env bytes source w st)"

text \<open>The loop over the events it sees, each with the clock and the environment of its iteration, and
  the task that \<open>begin_worker\<close> spawns: a failure of the loop becomes the worker's status.\<close>

fun worker_pairing_loop ::
  "pairing_lib \<Rightarrow> desktop_lib \<Rightarrow> (worker_env \<times> u64 \<times> (string \<times> socket_addr) option) list \<Rightarrow> worker_session
     \<Rightarrow> pairing_inner \<times> runtime_dir \<Rightarrow> worker_result \<times> pairing_inner \<times> runtime_dir" where
  "worker_pairing_loop P L [] w st = (WContinue w, st)"
| "worker_pairing_loop P L ((env, now, event) # events) w st =
     (case worker_step P L env now event w st of
        (WContinue w, st) \<Rightarrow> worker_pairing_loop P L events w st
      | (r, st) \<Rightarrow> (r, st))"

definition conclude_worker ::
  "worker_session \<Rightarrow> worker_result \<times> pairing_inner \<times> runtime_dir \<Rightarrow> pairing_inner \<times> runtime_dir" where
  "conclude_worker w out =
     (case out of
        (WFail error, inner, d) \<Rightarrow> (snd (set_worker_status (ws_generation w) (WorkerFailed error) inner), d)
      | (_, st) \<Rightarrow> st)"

section \<open>The owner's events\<close>

datatype owner_event =
    OwnerOpen "string + unit" u64 u64 string
  | OwnerLook u64
  | OwnerApprove "string option" u64 string string
  | OwnerReject string
  | OwnerReceive "ifv4_addr list" u64 "string option" string socket_addr
  | OwnerDeactivate

fun owner_event_step :: "pairing_lib \<Rightarrow> owner_event \<Rightarrow> pairing_inner \<Rightarrow> pairing_inner" where
  "owner_event_step P (OwnerOpen bound now now' name) inner = snd (open_owner_window bound now now' name inner)"
| "owner_event_step P (OwnerLook now) inner = snd (owner_window now inner)"
| "owner_event_step P (OwnerApprove entropy now request_id invitation) inner =
     snd (approve P entropy now request_id invitation inner)"
| "owner_event_step P (OwnerReject request_id) inner = snd (reject P request_id inner)"
| "owner_event_step P (OwnerReceive interfaces now entropy bytes source) inner =
     snd (owner_receive P interfaces now entropy bytes source inner)"
| "owner_event_step P OwnerDeactivate inner = snd (deactivate_owner_window inner)"

definition pairing_default :: pairing_inner where
  "pairing_default = \<lparr>pi_owner_socket = False, pi_owner_name = [], pi_owner_open_until_ms = 0,
     pi_owner_notifier = False, pi_owner_attention_active = False, pi_pending = fmempty,
     pi_attempts = fmempty, pi_worker_generation = 0, pi_worker = Idle, pi_poisoned = False\<rparr>"

end
