(* ===== verification/Rampage_Enrollment.thy ===== *)
theory Rampage_Enrollment
  imports Rampage_Setup
begin

text \<open>
  The roles of a machine. The enrollment transaction either commits, and the machine is a worker
  holding exactly the invitation, or leaves the role as it was, unless its rollback is refused; a confirmed owner keeps its role
  under every command but the confirmed factory reset; a reset that meets no obstacle leaves a
  neutral directory, and one that fails half-way may turn a worker into an owner.
\<close>

section \<open>Reading a changed directory\<close>

named_theorems fs_simps "what the directory holds after an operation"

lemma root_is_dir_put [fs_simps]: "root_is_dir (put_entry n e d) = root_is_dir d"
  and root_is_dir_drop [fs_simps]: "root_is_dir (drop_entry n d) = root_is_dir d"
  by (simp_all add: root_is_dir_def put_entry_def drop_entry_def)

lemma rd_denied_put [fs_simps]: "rd_denied (put_entry n e d) = rd_denied d"
  and rd_denied_drop [fs_simps]: "rd_denied (drop_entry n d) = rd_denied d"
  by (simp_all add: put_entry_def drop_entry_def)

lemma entry_put [fs_simps]:
  "root_is_dir d \<Longrightarrow> entry (put_entry n e d) m = (if m = n then Some e else entry d m)"
  by (auto simp: entry_def root_is_dir_def put_entry_def update_conv')

lemma entry_drop [fs_simps]: "entry (drop_entry n d) m = (if m = n then None else entry d m)"
  by (auto simp: entry_def root_is_dir_def drop_entry_def delete_conv')

lemma entry_Some_root: "entry d n = Some e \<Longrightarrow> root_is_dir d"
  by (auto simp: entry_def split: if_splits)

lemma path_is_file_root: "path_is_file d n \<Longrightarrow> root_is_dir d"
  by (auto simp: path_is_file_def dest: entry_Some_root split: option.splits)

lemma path_is_file_cong: "entry d n = entry d' n \<Longrightarrow> path_is_file d n = path_is_file d' n"
  by (simp add: path_is_file_def)

lemma path_is_file_exists: "path_is_file d n \<Longrightarrow> path_exists d n"
  by (auto simp: path_is_file_def path_exists_def split: option.splits elim!: follows_to_file.elims)

text \<open>What no operation on other names changes: the root, the refusals, and the entry of \<open>n\<close>.\<close>

definition keeps :: "string \<Rightarrow> runtime_dir \<Rightarrow> runtime_dir \<Rightarrow> bool" where
  "keeps n d d' \<longleftrightarrow> root_is_dir d' = root_is_dir d \<and> rd_denied d' = rd_denied d \<and> entry d' n = entry d n"

lemma keeps_refl [simp]: "keeps n d d"
  by (simp add: keeps_def)

lemma keeps_trans: "keeps n a b \<Longrightarrow> keeps n b c \<Longrightarrow> keeps n a c"
  by (simp add: keeps_def)

lemma keeps_file: "keeps n d d' \<Longrightarrow> path_is_file d' n = path_is_file d n"
  by (simp add: keeps_def path_is_file_def)

lemma keeps_put: "m \<noteq> n \<Longrightarrow> root_is_dir d \<Longrightarrow> keeps n d (put_entry m e d)"
  by (simp add: keeps_def fs_simps)

lemma keeps_drop: "m \<noteq> n \<Longrightarrow> keeps n d (drop_entry m d)"
  by (simp add: keeps_def fs_simps)

lemma keeps_remove_file: "m \<noteq> n \<Longrightarrow> keeps n d (snd (remove_file m d))"
  by (auto simp: remove_file_def keeps_drop split: option.splits)

lemma keeps_create_new: "m \<noteq> n \<Longrightarrow> keeps n d (snd (create_new_file m b d))"
  by (auto simp: create_new_file_def keeps_put)

lemma keeps_write_new_marker: "m \<noteq> n \<Longrightarrow> keeps n d (snd (write_new_marker m b d))"
  using keeps_create_new [of m n d b]
  by (auto simp: write_new_marker_def split: prod.splits sum.splits os_error.splits)

lemma keeps_rename: "a \<noteq> n \<Longrightarrow> b \<noteq> n \<Longrightarrow> keeps n d (snd (rename_file a b d))"
  by (auto simp: rename_file_def keeps_def fs_simps dest: entry_Some_root split: option.splits)

text \<open>Creating a file never removes one.\<close>

lemma create_new_file_mono: "path_is_file d n \<Longrightarrow> path_is_file (snd (create_new_file m b d)) n"
proof -
  assume f: "path_is_file d n"
  have root: "root_is_dir d" by (rule path_is_file_root [OF f])
  show ?thesis using f root
    by (auto simp: create_new_file_def path_is_file_def fs_simps)
qed

lemma write_new_marker_mono: "path_is_file d n \<Longrightarrow> path_is_file (snd (write_new_marker m b d)) n"
  using create_new_file_mono [of d n m b]
  by (auto simp: write_new_marker_def split: prod.splits sum.splits os_error.splits)

lemma write_new_marker_creates:
  "root_is_dir d \<Longrightarrow> entry d n = None \<Longrightarrow> \<not> rd_denied d OpCreate n
     \<Longrightarrow> path_is_file (snd (write_new_marker n b d)) n"
  by (auto simp: write_new_marker_def create_new_file_def path_is_file_def fs_simps split: prod.splits)

section \<open>The enrollment transaction\<close>

lemma remove_file_ok: "remove_file n d = (Inr u, d') \<Longrightarrow> d' = drop_entry n d"
  by (auto simp: remove_file_def split: option.splits if_splits)

lemma remove_file_failed: "remove_file n d = (Inl e, d') \<Longrightarrow> d' = d"
  by (auto simp: remove_file_def split: option.splits if_splits)

lemma keeps_remove_stale:
  "n \<notin> set names \<Longrightarrow> keeps n d (snd (remove_stale names k d))"
proof (induction names k d rule: remove_stale.induct)
  case (2 name names removed d)
  have "keeps n d (snd (remove_file name d))" using 2(3) by (intro keeps_remove_file) auto
  then show ?case
    using 2 by (auto split: option.splits dir_entry.splits prod.splits sum.splits intro: keeps_trans)
qed simp

lemma remove_stale_Cons_ok:
  assumes "remove_stale (name # names) k d = (Inr j, d')"
  obtains k1 d1 where "remove_stale names k1 d1 = (Inr j, d')" "entry d1 name = None"
proof (cases "entry d name")
  case None
  with assms show ?thesis using that by simp
next
  case (Some e)
  with assms obtain b d1 where "e = RFile b" "remove_file name d = (Inr (), d1)"
    "remove_stale names (k + 1) d1 = (Inr j, d')"
    by (auto split: dir_entry.splits prod.splits sum.splits)
  moreover then have "d1 = drop_entry name d" by (auto dest: remove_file_ok)
  ultimately show ?thesis using that [of "k + 1" d1] by (simp add: fs_simps)
qed

lemma remove_stale_cleans:
  "remove_stale names k d = (Inr j, d') \<Longrightarrow> n \<in> set names \<Longrightarrow> entry d' n = None"
proof (induction names arbitrary: k d)
  case (Cons name names)
  from Cons.prems(1) obtain k1 d1 where r: "remove_stale names k1 d1 = (Inr j, d')"
    and e: "entry d1 name = None" by (rule remove_stale_Cons_ok)
  show ?case
  proof (cases "n \<in> set names")
    case True
    then show ?thesis by (rule Cons.IH [OF r])
  next
    case False
    with keeps_remove_stale [OF False, of d1 k1] r e Cons.prems(2) show ?thesis
      by (simp add: keeps_def)
  qed
qed simp

abbreviation invite_temp :: "string \<Rightarrow> string" where
  "invite_temp token \<equiv> ''remote-invite.'' @ take 16 token @ ''.tmp''"

lemma invite_temp_fresh [simp]: "invite_temp token \<noteq> ''remote-invite.json''"
  by (cases "take 16 token") auto

lemma keeps_write_invite:
  assumes "n \<noteq> invite_temp token" "n \<noteq> ''remote-invite.json''"
  shows "keeps n d (snd (write_invite token invitation d))"
proof -
  obtain r1 d1 where c: "create_new_file (invite_temp token) invitation d = (r1, d1)" by fastforce
  have k1: "keeps n d d1" using keeps_create_new [of "invite_temp token" n d invitation] assms(1) c by simp
  obtain r2 d2 where m: "rename_file (invite_temp token) ''remote-invite.json'' d1 = (r2, d2)" by fastforce
  have k2: "keeps n d1 d2"
    using keeps_rename [of "invite_temp token" n "''remote-invite.json''" d1] assms m by simp
  have k3: "keeps n x (snd (remove_file (invite_temp token) x))" for x
    using keeps_remove_file [of "invite_temp token" n x] assms(1) by simp
  show ?thesis
    unfolding write_invite_def Let_def c prod.case
    using k1 k2 k3 m by (auto split: sum.splits intro: keeps_trans)
qed

lemma write_invite_ok:
  assumes "write_invite token invitation d = (Inr u, d')"
  shows "entry d' ''remote-invite.json'' = Some (RFile invitation)"
proof -
  obtain d1 where c: "create_new_file (invite_temp token) invitation d = (Inr (), d1)"
    and m: "rename_file (invite_temp token) ''remote-invite.json'' d1 = (Inr (), d')"
    using assms unfolding write_invite_def Let_def
    by (auto split: prod.splits sum.splits)
  from c have d1: "d1 = put_entry (invite_temp token) (RFile invitation) d" and root: "root_is_dir d"
    by (auto simp: create_new_file_def split: if_splits)
  then have "entry d1 (invite_temp token) = Some (RFile invitation)" by (simp add: fs_simps)
  with m root d1 show ?thesis
    by (auto simp: rename_file_def fs_simps split: if_splits)
qed

text \<open>The rollback fails when the system refuses to remove the intent and then to create the marker.\<close>

abbreviation rollback_refused :: "runtime_dir \<Rightarrow> bool" where
  "rollback_refused d \<equiv> rd_denied d OpRemove WORKER_PAIRING_INTENT_MARKER \<and> rd_denied d OpCreate SETUP_REQUIRED_MARKER"

lemma remove_file_refused:
  "remove_file n d = (Inl e, d') \<Longrightarrow> path_is_file d n \<Longrightarrow> rd_denied d OpRemove n"
  by (auto simp: remove_file_def path_is_file_def split: option.splits if_splits)

lemma write_new_marker_refused:
  "root_is_dir d \<Longrightarrow> entry d n = None \<Longrightarrow> rd_denied d OpCreate n \<Longrightarrow> snd (write_new_marker n b d) = d"
  by (simp add: write_new_marker_def create_new_file_def)

lemma commit_enrollment_cases:
  assumes marker: "path_is_file d SETUP_REQUIRED_MARKER" and intent: "path_is_file d WORKER_PAIRING_INTENT_MARKER"
    and run: "commit_enrollment d = (result, d')"
  shows "case result of
       Inl _ \<Rightarrow> path_is_file d' SETUP_REQUIRED_MARKER
         \<or> rollback_refused d \<and> d' = snd (remove_file ''remote-invite.json'' (drop_entry SETUP_REQUIRED_MARKER d))
     | Inr _ \<Rightarrow> d' = drop_entry WORKER_PAIRING_INTENT_MARKER (drop_entry SETUP_REQUIRED_MARKER d)"
proof -
  have root: "root_is_dir d" using marker by (rule path_is_file_root)
  have neq: "''remote-invite.json'' \<noteq> SETUP_REQUIRED_MARKER"
    "WORKER_PAIRING_INTENT_MARKER \<noteq> SETUP_REQUIRED_MARKER" by (simp_all add: marker_names)
  obtain r1 d1 where s1: "remove_file SETUP_REQUIRED_MARKER d = (r1, d1)" by fastforce
  show ?thesis
  proof (cases r1)
    case (Inl e)
    with s1 have "d1 = d" using remove_file_failed by metis
    with run s1 Inl marker keeps_file [OF keeps_remove_file [OF neq(1), of d]] show ?thesis
      by (auto simp: commit_enrollment_def)
  next
    case (Inr u)
    with s1 have d1: "d1 = drop_entry SETUP_REQUIRED_MARKER d" using remove_file_ok by metis
    obtain r2 d2 where s2: "remove_file WORKER_PAIRING_INTENT_MARKER d1 = (r2, d2)" by fastforce
    show ?thesis
    proof (cases r2)
      case (Inl e)
      then have "d2 = d1" using s2 remove_file_failed by metis
      moreover define d3 where "d3 = snd (remove_file ''remote-invite.json'' d1)"
      ultimately have d': "result = Inl (''could not commit the protected pairing transaction: '' @ rd_error_text d1 e)"
        "d' = snd (write_new_marker SETUP_REQUIRED_MARKER setup_required_bytes d3)"
        using run marker s1 s2 Inr Inl by (auto simp: commit_enrollment_def)
      have "path_is_file d1 WORKER_PAIRING_INTENT_MARKER"
        using intent keeps_file [OF keeps_drop, of SETUP_REQUIRED_MARKER WORKER_PAIRING_INTENT_MARKER d] neq d1 by simp
      then have refused: "rd_denied d OpRemove WORKER_PAIRING_INTENT_MARKER"
        using remove_file_refused [of WORKER_PAIRING_INTENT_MARKER d1 e d2] s2 Inl d1 by (simp add: fs_simps)
      have k: "keeps SETUP_REQUIRED_MARKER d1 d3" unfolding d3_def by (rule keeps_remove_file [OF neq(1)])
      then have d3: "root_is_dir d3" "entry d3 SETUP_REQUIRED_MARKER = None" "rd_denied d3 = rd_denied d"
        using root d1 by (auto simp: keeps_def fs_simps)
      show ?thesis
      proof (cases "rd_denied d OpCreate SETUP_REQUIRED_MARKER")
        case True
        then have "d' = d3" unfolding d'(2) using d3 by (simp add: write_new_marker_refused)
        then show ?thesis using True refused d'(1) d1 d3_def by simp
      next
        case False
        then show ?thesis using write_new_marker_creates [OF d3(1,2)] d3(3) d' by simp
      qed
    next
      case (Inr v)
      then have "d2 = drop_entry WORKER_PAIRING_INTENT_MARKER d1" using s2 remove_file_ok by metis
      with run marker s1 s2 \<open>r1 = Inr u\<close> Inr d1 show ?thesis by (auto simp: commit_enrollment_def)
    qed
  qed
qed

lemma create_dir_all_files: "create_dir_all d = (r, d') \<Longrightarrow> path_is_file d' n = path_is_file d n"
  by (auto simp: create_dir_all_def path_is_file_def entry_def root_is_dir_def split: if_splits)

lemma create_dir_all_role: "create_dir_all d = (r, d') \<Longrightarrow> fabric_role_at d' = fabric_role_at d"
  by (simp add: fabric_role_at_def setup_required_def worker_enrollment_exists_def create_dir_all_files)

lemma role_setup [simp]: "fabric_role_at d = ''setup'' \<longleftrightarrow> setup_required d"
  by (simp add: fabric_role_at_def)

text \<open>The transaction past its guards: in setup mode, with the stale credentials gone.\<close>

lemma invite_written_and_committed:
  assumes marker: "path_is_file d SETUP_REQUIRED_MARKER"
    and intent: "path_is_file d WORKER_PAIRING_INTENT_MARKER"
    and clean: "\<forall>n\<in>set stale_credential_files. entry d n = None"
    and owner: "\<not> path_is_file d OWNER_FABRIC_MARKER"
    and written: "write_invite token invitation d = (Inr u, d1)"
    and run: "commit_enrollment d1 = (result, d')"
  shows "case result of Inl _ \<Rightarrow> setup_required d' \<or> rollback_refused d
         \<and> fabric_role_at d' = (if rd_denied d OpRemove ''remote-invite.json'' then ''worker'' else ''owner'')
     | Inr _ \<Rightarrow> fabric_role_at d' = ''worker'' \<and> entry d' ''remote-invite.json'' = Some (RFile invitation)
         \<and> enrollment_file_state L d' = (''enrollment_pending'', [])
         \<and> entry d' WORKER_PAIRING_INTENT_MARKER = None"
proof -
  have k: "keeps n d d1" if "n \<noteq> ''remote-invite.json''" "hd n \<noteq> CHR ''r''" for n
  proof -
    have "n \<noteq> invite_temp token" using that(2) by auto
    then show ?thesis using keeps_write_invite [of n token d invitation] that(1) written by simp
  qed
  have km: "keeps SETUP_REQUIRED_MARKER d d1" "keeps OWNER_FABRIC_MARKER d d1"
    "keeps ''agent.controller-pin.json'' d d1" "keeps ''agent.enrolled'' d d1"
    "keeps ''agent.identity.json'' d d1" "keeps ''agent.key'' d d1" "keeps WORKER_PAIRING_INTENT_MARKER d d1"
    by (auto intro!: k simp: marker_names)
  have m1: "path_is_file d1 SETUP_REQUIRED_MARKER" using marker keeps_file [OF km(1)] by simp
  have i1: "path_is_file d1 WORKER_PAIRING_INTENT_MARKER" using intent keeps_file [OF km(7)] by simp
  have den: "rd_denied d1 = rd_denied d" using km(1) by (simp add: keeps_def)
  note commit = commit_enrollment_cases [OF m1 i1 run]
  note inv1 = write_invite_ok [OF written]
  show ?thesis
  proof (cases result)
    case (Inl e)
    have "fabric_role_at d2 = (if rd_denied d OpRemove ''remote-invite.json'' then ''worker'' else ''owner'')"
      if "d2 = snd (remove_file ''remote-invite.json'' (drop_entry SETUP_REQUIRED_MARKER d1))" for d2
      using inv1 clean owner km that den
      by (auto simp: remove_file_def fabric_role_at_def setup_required_def worker_enrollment_exists_def
          path_is_file_def fs_simps keeps_def stale_credential_files_def marker_names)
    then show ?thesis using commit Inl den by (auto simp: setup_required_def)
  next
    case (Inr v)
    with commit have d': "d' = drop_entry WORKER_PAIRING_INTENT_MARKER (drop_entry SETUP_REQUIRED_MARKER d1)"
      by simp
    have inv: "entry d' ''remote-invite.json'' = Some (RFile invitation)"
      using inv1 by (simp add: d' fs_simps marker_names)
    have none: "\<not> path_is_file d' SETUP_REQUIRED_MARKER" "\<not> path_is_file d' OWNER_FABRIC_MARKER"
      "\<not> path_is_file d' ''agent.controller-pin.json''" "\<not> path_is_file d' ''agent.enrolled''"
      "\<not> path_is_file d' ''agent.identity.json''" "\<not> path_is_file d' ''agent.key''"
      using clean owner km
      by (auto simp: path_is_file_def d' fs_simps keeps_def stale_credential_files_def marker_names)
    have "path_is_file d' ''remote-invite.json''" by (simp add: path_is_file_def inv)
    with none inv Inr show ?thesis
      by (simp add: fabric_role_at_def setup_required_def worker_enrollment_exists_def
          enrollment_file_state_def Let_def d' fs_simps)
  qed
qed

text \<open>
  C40. The enrollment transaction is all or nothing, but for one failure of its rollback. Suppose the
  directory carries no owner marker. If \<open>persist_remote_invite_at\<close> succeeds, the machine was in setup
  mode with an active pairing intent, the invitation parsed and carries its signed endpoint, and the
  machine is now a worker whose invite file holds exactly the invitation, with a consistent directory
  and the intent consumed. If it fails, at whatever step and whatever the system refuses, the role of
  the machine is what it was, unless the system refused both to remove the pairing intent and to
  create the setup marker again: then the machine, which was in setup mode, is an owner, or a worker
  if the invitation could not be removed either.
\<close>

theorem enrollment_is_atomic:
  assumes owner: "\<not> path_is_file d OWNER_FABRIC_MARKER"
    and run: "persist_remote_invite_at L token invitation d = (result, d')"
  shows "case result of
       Inl _ \<Rightarrow> fabric_role_at d' = fabric_role_at d
         \<or> rd_denied d OpRemove WORKER_PAIRING_INTENT_MARKER \<and> rd_denied d OpCreate SETUP_REQUIRED_MARKER
           \<and> fabric_role_at d = ''setup''
           \<and> fabric_role_at d' = (if rd_denied d OpRemove ''remote-invite.json'' then ''worker'' else ''owner'')
     | Inr _ \<Rightarrow> (\<exists>parsed. dl_json L invitation = Inr parsed \<and> invite_is_signed parsed)
         \<and> fabric_role_at d = ''setup'' \<and> path_is_file d WORKER_PAIRING_INTENT_MARKER
         \<and> fabric_role_at d' = ''worker''
         \<and> entry d' ''remote-invite.json'' = Some (RFile invitation)
         \<and> enrollment_file_state L d' = (''enrollment_pending'', [])
         \<and> entry d' WORKER_PAIRING_INTENT_MARKER = None"
proof (cases "(\<exists>parsed. dl_json L invitation = Inr parsed \<and> invite_is_signed parsed)
    \<and> setup_required d \<and> path_is_file d WORKER_PAIRING_INTENT_MARKER")
  case False
  obtain r0 d0 where c: "create_dir_all d = (r0, d0)" by fastforce
  then have "result \<noteq> Inr () \<and> (d' = d \<or> d' = d0)"
    using False run create_dir_all_files [OF c]
    unfolding persist_remote_invite_at_def c prod.case setup_required_def
    by (auto split: sum.splits if_splits)
  then show ?thesis using create_dir_all_role [OF c] by (cases result) auto
next
  case True
  then obtain parsed where parsed: "dl_json L invitation = Inr parsed" "invite_is_signed parsed" by auto
  have marker: "path_is_file d SETUP_REQUIRED_MARKER" using True by (simp add: setup_required_def)
  have active: "path_is_file d WORKER_PAIRING_INTENT_MARKER" using True by simp
  have cd: "create_dir_all d = (Inr (), d)"
    using path_is_file_root [OF marker] by (simp add: create_dir_all_def)
  obtain r1 d1 where s1: "remove_stale stale_credential_files 0 d = (r1, d1)" by fastforce
  have k1: "keeps SETUP_REQUIRED_MARKER d d1" "keeps OWNER_FABRIC_MARKER d d1" "keeps WORKER_PAIRING_INTENT_MARKER d d1"
    using keeps_remove_stale [of _ stale_credential_files d 0] s1
    by (auto simp: stale_credential_files_def marker_names)
  obtain r2 d2 where s2: "write_invite token invitation d1 = (r2, d2)" by fastforce
  have k2: "keeps SETUP_REQUIRED_MARKER d1 d2"
    using keeps_write_invite [of SETUP_REQUIRED_MARKER token d1 invitation] s2 by (auto simp: marker_names)
  have early: "setup_required d1" "setup_required d2"
    using marker keeps_file [OF k1(1)] keeps_file [OF k2] by (simp_all add: setup_required_def)
  have eq: "(result, d') = (case r1 of Inl e \<Rightarrow> (Inl e, d1) | Inr _ \<Rightarrow>
      if path_exists d1 ''remote-invite.json'' \<or> path_exists d1 ''agent.controller-pin.json''
      then (Inl ''this machine is already enrolled; remove it from the current fabric before enrolling again'', d1)
      else case r2 of Inl e \<Rightarrow> (Inl e, d2) | Inr _ \<Rightarrow> commit_enrollment d2)"
    using run True parsed
    by (cases r1; cases r2)
       (auto simp: persist_remote_invite_at_def cd remove_stale_worker_credentials_in_setup_def s1 s2)
  have den: "rd_denied d1 = rd_denied d" using k1(1) by (simp add: keeps_def)
  have settled: "case result of Inl _ \<Rightarrow> setup_required d' \<or> rollback_refused d1
         \<and> fabric_role_at d' = (if rd_denied d1 OpRemove ''remote-invite.json'' then ''worker'' else ''owner'')
     | Inr _ \<Rightarrow> fabric_role_at d' = ''worker'' \<and> entry d' ''remote-invite.json'' = Some (RFile invitation)
         \<and> enrollment_file_state L d' = (''enrollment_pending'', [])
         \<and> entry d' WORKER_PAIRING_INTENT_MARKER = None"
  proof (cases "isl r1 \<or> isl r2 \<or> path_exists d1 ''remote-invite.json'' \<or> path_exists d1 ''agent.controller-pin.json''")
    case True
    then show ?thesis using eq early by (auto split: sum.splits if_splits)
  next
    case False
    then obtain j u where r: "r1 = Inr j" "r2 = Inr u" by (metis sum.collapse(2))
    show ?thesis
    proof (rule invite_written_and_committed)
      show "path_is_file d1 SETUP_REQUIRED_MARKER" "path_is_file d1 WORKER_PAIRING_INTENT_MARKER"
        "\<not> path_is_file d1 OWNER_FABRIC_MARKER"
        using early(1) active owner keeps_file [OF k1(2)] keeps_file [OF k1(3)] by (auto simp: setup_required_def)
      show "\<forall>n\<in>set stale_credential_files. entry d1 n = None"
        using remove_stale_cleans s1 r by blast
      show "write_invite token invitation d1 = (Inr u, d2)" using s2 r by simp
      show "commit_enrollment d2 = (result, d')" using eq r False by simp
    qed
  qed
  have same: "fabric_role_at d' = fabric_role_at d" if "setup_required d'"
    using that True by (simp add: fabric_role_at_def)
  show ?thesis
  proof (cases result)
    case (Inl e)
    then show ?thesis using settled same True den by (cases "setup_required d'") simp_all
  next
    case (Inr u)
    then show ?thesis using settled True by simp
  qed
qed

section \<open>Commands\<close>

datatype command = CmdActivate | CmdConfirm | CmdCancel | CmdBegin "string + nat"
  | CmdJoin "string + nat" string string | CmdPersist string string | CmdLeave "string + nat" string
  | CmdReset "string + nat" "string + unit" string | CmdStop | CmdAssist datetime bool | CmdLaunch
  | CmdRepair

fun run_command :: "desktop_lib \<Rightarrow> bool \<Rightarrow> command \<Rightarrow> runtime_dir \<Rightarrow> runtime_dir" where
  "run_command L windows CmdActivate d = snd (activate_owner_fabric d)"
| "run_command L windows CmdConfirm d = snd (confirm_owner_fabric d)"
| "run_command L windows CmdCancel d = snd (cancel_pairing_intent d)"
| "run_command L windows (CmdBegin stopped) d = snd (enter_pairing windows stopped d)"
| "run_command L windows (CmdJoin stopped token invitation) d =
     snd (join_remote L windows stopped token invitation d)"
| "run_command L windows (CmdPersist token invitation) d = snd (persist_remote_invite_at L token invitation d)"
| "run_command L windows (CmdLeave stopped confirmation) d = snd (leave_fabric stopped confirmation d)"
| "run_command L windows (CmdReset stopped autostart confirmation) d =
     snd (factory_reset stopped autostart confirmation d)"
| "run_command L windows CmdStop d = snd (local_stop d)"
| "run_command L windows (CmdAssist now enabled) d = snd (set_remote_assist_enabled L windows now enabled d)"
| "run_command L windows CmdLaunch d = snd (launch_fabric_role d)"
| "run_command L windows CmdRepair d = snd (repair_connection L d)"

fun resets_factory :: "command \<Rightarrow> bool" where
  "resets_factory (CmdReset stopped autostart confirmation) = (confirmation = FACTORY_RESET_CONFIRMATION)"
| "resets_factory _ = False"

definition confirmed_owner :: "runtime_dir \<Rightarrow> bool" where
  "confirmed_owner d \<longleftrightarrow> path_is_file d OWNER_FABRIC_MARKER \<and> path_is_file d OWNER_CONFIRMED_MARKER
     \<and> \<not> path_is_file d SETUP_REQUIRED_MARKER"

lemma confirmed_owner_role:
  assumes "confirmed_owner d"
  shows "fabric_role_at d = ''owner''" "\<not> worker_enrollment_exists d" "\<not> setup_required d"
    "create_dir_all d = (Inr (), d)"
  using assms path_is_file_root [of d OWNER_FABRIC_MARKER]
  by (auto simp: confirmed_owner_def fabric_role_at_def setup_required_def worker_enrollment_exists_def
      create_dir_all_def)

lemma confirmed_owner_keeps:
  assumes "confirmed_owner d" "keeps OWNER_FABRIC_MARKER d d'" "keeps OWNER_CONFIRMED_MARKER d d'"
    "keeps SETUP_REQUIRED_MARKER d d'"
  shows "confirmed_owner d'"
  using assms by (simp add: confirmed_owner_def keeps_file)

lemma confirmed_owner_marker:
  "confirmed_owner d \<Longrightarrow> m \<noteq> SETUP_REQUIRED_MARKER \<Longrightarrow> confirmed_owner (snd (write_new_marker m b d))"
  using keeps_file [OF keeps_write_new_marker [of m SETUP_REQUIRED_MARKER d b]]
  by (auto simp: confirmed_owner_def write_new_marker_mono)

lemma confirmed_owner_remove:
  assumes "confirmed_owner d" "m \<notin> {SETUP_REQUIRED_MARKER, OWNER_FABRIC_MARKER, OWNER_CONFIRMED_MARKER}"
  shows "confirmed_owner (snd (remove_file m d))"
  by (rule confirmed_owner_keeps [OF assms(1)]) (use assms(2) in \<open>auto intro: keeps_remove_file\<close>)

lemma confirmed_owner_command:
  assumes c: "confirmed_owner d" and safe: "\<not> resets_factory cmd"
  shows "confirmed_owner (run_command L windows cmd d)"
proof -
  note role = confirmed_owner_role [OF c]
  have conf: "path_is_file d OWNER_CONFIRMED_MARKER" "path_exists d OWNER_FABRIC_MARKER"
    using c by (auto simp: confirmed_owner_def intro: path_is_file_exists)
  have mark: "confirmed_owner d'" if "write_new_marker m b d = (r, d')" "m \<noteq> SETUP_REQUIRED_MARKER" for m b r d'
    using confirmed_owner_marker [OF c that(2), of b] that(1) by simp
  have rem: "confirmed_owner d'" if "remove_file m d0 = (r, d')" "confirmed_owner d0"
    "m = WORKER_PAIRING_INTENT_MARKER \<or> m = REMOTE_ASSIST_ACTIVE_FILE" for m d0 r d'
    using confirmed_owner_remove [OF that(2), of m] that(1,3) by (auto simp: marker_names)
  show ?thesis
  proof (cases cmd)
    case CmdActivate
    then show ?thesis using c role by (simp add: activate_owner_fabric_def confirmed_owner_def)
  next
    case CmdConfirm
    then show ?thesis using c mark
      by (auto simp: confirm_owner_fabric_def marker_names split: prod.splits sum.splits)
  next
    case CmdCancel
    then show ?thesis using c rem
      by (auto simp: cancel_pairing_intent_def split: prod.splits sum.splits os_error.splits)
  next
    case (CmdBegin stopped)
    then show ?thesis using c role conf by (simp add: enter_pairing_def)
  next
    case (CmdJoin stopped token invitation)
    then show ?thesis using c role conf by (simp add: enter_pairing_def join_remote_def)
  next
    case (CmdPersist token invitation)
    then show ?thesis using c role
      by (auto simp: persist_remote_invite_at_def split: sum.splits)
  next
    case (CmdLeave stopped confirmation)
    then show ?thesis using c role by (simp add: leave_fabric_def)
  next
    case (CmdReset stopped autostart confirmation)
    then show ?thesis using c safe by (simp add: factory_reset_def)
  next
    case CmdStop
    then show ?thesis using c role mark rem
      by (auto simp: local_stop_def remove_active_file_def marker_names
          split: prod.splits sum.splits os_error.splits)
  next
    case (CmdAssist now enabled)
    then show ?thesis using c role by (simp add: set_remote_assist_enabled_def)
  next
    case CmdLaunch
    have "ensure_neutral_first_run d = (Inr False, d)"
      using role conf by (simp add: ensure_neutral_first_run_def fabric_state_files_def)
    then show ?thesis using CmdLaunch c role mark
      by (auto simp: launch_fabric_role_def marker_names split: prod.splits sum.splits)
  next
    case CmdRepair
    then show ?thesis using c by (simp add: repair_connection_def)
  qed
qed

text \<open>
  A confirmed owner stays an owner. From a directory with the owner marker, the owner's
  confirmation and no setup marker, no sequence of commands (activation, confirmation, pairing,
  joining, a persisted invitation, leaving, stopping, Remote Assist, launching, repairing, or a
  reset without its exact confirmation), under any refusals of the file system, changes that; only
  the confirmed factory reset does.
\<close>

theorem confirmed_owner_needs_factory_reset:
  assumes "confirmed_owner d" and "\<not> list_ex resets_factory commands"
  shows "confirmed_owner (fold (run_command L windows) commands d)
     \<and> fabric_role_at (fold (run_command L windows) commands d) = ''owner''"
proof -
  have "confirmed_owner (fold (run_command L windows) commands d)"
    using assms by (induction commands arbitrary: d) (auto simp: confirmed_owner_command)
  then show ?thesis using confirmed_owner_role(1) by blast
qed

section \<open>Reset\<close>

lemma remove_runtime_entry_ok:
  assumes "entry d n = Some e" "e \<noteq> RSpecial" "\<not> rd_denied d OpRemove n"
  shows "remove_runtime_entry n d = (Inr (), drop_entry n d)"
  using assms by (cases e) (auto simp: remove_runtime_entry_def remove_file_def remove_dir_all_def)

lemma remove_entries_ok:
  assumes "root_is_dir d" "rd_entries d = es" "distinct (map fst es)"
    and "list_all (\<lambda>(n, e). e \<noteq> RSpecial \<and> \<not> rd_denied d OpRemove n) es"
  shows "remove_entries (map fst es) d = (Inr (), d\<lparr>rd_entries := []\<rparr>)"
  using assms
proof (induction es arbitrary: d)
  case (Cons p es)
  obtain n e where p: "p = (n, e)" by fastforce
  have "entry d n = Some e" using Cons.prems(1,2) p by (simp add: entry_def)
  then have step: "remove_runtime_entry n d = (Inr (), drop_entry n d)"
    using Cons.prems(4) p by (intro remove_runtime_entry_ok) auto
  have rest: "rd_entries (drop_entry n d) = es"
    using Cons.prems(2,3) p by (auto simp: drop_entry_def delete_notin_dom dom_map_of_conv_image_fst image_iff)
  have "remove_entries (map fst es) (drop_entry n d) = (Inr (), (drop_entry n d)\<lparr>rd_entries := []\<rparr>)"
    using Cons.prems p rest by (intro Cons.IH) (auto simp: fs_simps)
  then show ?case using p step by (simp add: drop_entry_def)
qed simp

text \<open>
  A reset that meets no obstacle is complete: in the runtime directory proper, with nothing the
  system refuses to remove and no special file, \<open>reset_runtime_to_setup\<close> succeeds and leaves exactly
  the setup marker, so the machine is in the consistent state \<open>ready_to_configure\<close> and the next launch
  waits for the owner's choice.
\<close>

theorem reset_leaves_only_the_setup_marker:
  assumes "validate_runtime_reset_target d = Inr ()" "rd_root d = RootDir" "distinct (map fst (rd_entries d))"
    and "list_all (\<lambda>(n, e). e \<noteq> RSpecial \<and> \<not> rd_denied d OpRemove n) (rd_entries d)"
    and "\<not> rd_denied d OpCreate SETUP_REQUIRED_MARKER" "\<not> rd_denied d OpWrite SETUP_REQUIRED_MARKER"
  shows "\<exists>d'. reset_runtime_to_setup d = (Inr (), d')
     \<and> rd_entries d' = [(SETUP_REQUIRED_MARKER, RFile setup_required_bytes)]
     \<and> enrollment_file_state L d' = (''ready_to_configure'', [])
     \<and> launch_fabric_role d' = (Inr LaunchSetup, d')"
proof -
  have root: "root_is_dir d" using assms(2) by (simp add: root_is_dir_def)
  define d' where "d' = put_entry SETUP_REQUIRED_MARKER (RFile setup_required_bytes) (d\<lparr>rd_entries := []\<rparr>)"
  have empty: "root_is_dir (d\<lparr>rd_entries := []\<rparr>)" "entry (d\<lparr>rd_entries := []\<rparr>) n = None" for n
    using root by (simp_all add: root_is_dir_def entry_def)
  have run: "reset_runtime_to_setup d = (Inr (), d')"
    using assms(1,5,6) remove_entries_ok [OF root refl assms(3,4)] root empty
    by (simp add: reset_runtime_to_setup_def create_dir_all_def write_new_marker_def create_new_file_def d'_def)
  have es: "rd_entries d' = [(SETUP_REQUIRED_MARKER, RFile setup_required_bytes)]"
    by (simp add: d'_def put_entry_def)
  have rd: "root_is_dir d'" using empty by (simp add: d'_def fs_simps)
  have only: "path_is_file d' n \<longleftrightarrow> n = SETUP_REQUIRED_MARKER" for n
    using empty by (simp add: d'_def path_is_file_def fs_simps)
  have "enrollment_file_state L d' = (''ready_to_configure'', [])"
    by (simp add: enrollment_file_state_def setup_required_def only marker_names)
  moreover have "launch_fabric_role d' = (Inr LaunchSetup, d')"
    using path_is_file_exists [of d' SETUP_REQUIRED_MARKER] rd
    by (simp add: launch_fabric_role_def create_dir_all_def ensure_neutral_first_run_def
        fabric_state_files_def setup_required_def only)
  ultimately show ?thesis using run es by blast
qed

section \<open>Concrete directories\<close>

definition runtime_with :: "(string \<times> dir_entry) list \<Rightarrow> (fs_op \<Rightarrow> string \<Rightarrow> bool) \<Rightarrow> runtime_dir" where
  "runtime_with es denied = \<lparr>rd_is_absolute = True, rd_file_name = Some ''runtime'',
     rd_parent_name = Some ''ai.obtuse.rampage'', rd_root = RootDir, rd_entries = es,
     rd_mkdir_denied = False, rd_denied = denied, rd_display = (\<lambda>n. n),
     rd_error_text = (\<lambda>e. ''denied'')\<rparr>"

definition signed_invite :: json where
  "signed_invite = JObject [(''schema'', JString ''rampage.enrollment-invite.v1''),
     (''controller_mesh'', JObject [(''signature'', JString ''ab'')]),
     (''governor_public_key'', JString ''cd'')]"

definition demo_desktop :: desktop_lib where
  "demo_desktop = \<lparr>dl_json = (\<lambda>s. if s = ''invite'' then Inr signed_invite else Inl ''syntax''),
     dl_pin = (\<lambda>_. Inl ''pin''), dl_policy = (\<lambda>_. None), dl_policy_bytes = (\<lambda>_. []),
     dl_active = (\<lambda>_. None), dl_hex_decode = (\<lambda>_. Inl ''hex''), dl_public_key_hex = (\<lambda>_. []),
     dl_utf8_error = (\<lambda>_. [])\<rparr>"

definition pairing_runtime :: runtime_dir where
  "pairing_runtime = runtime_with [(SETUP_REQUIRED_MARKER, RFile setup_required_bytes),
     (WORKER_PAIRING_INTENT_MARKER, RFile worker_pairing_bytes), (''agent.key'', RFile ''old'')] (\<lambda>_ _. False)"

definition owner_runtime :: runtime_dir where
  "owner_runtime = runtime_with [(OWNER_FABRIC_MARKER, RFile []), (OWNER_CONFIRMED_MARKER, RFile [])] (\<lambda>_ _. False)"

lemma pairing_runtime_enrols:
  "persist_remote_invite_at demo_desktop ''0123456789abcdef'' ''invite'' pairing_runtime
     = (Inr (), runtime_with [(''remote-invite.json'', RFile ''invite'')] (\<lambda>_ _. False))"
  by (simp add: persist_remote_invite_at_def demo_desktop_def invite_is_signed_def signed_invite_def
      json_str_def absent_or_empty_def pairing_runtime_def runtime_with_def create_dir_all_def
      root_is_dir_def setup_required_def path_is_file_def path_exists_def entry_def marker_names
      remove_stale_worker_credentials_in_setup_def stale_credential_files_def remove_file_def
      drop_entry_def write_invite_def create_new_file_def put_entry_def rename_file_def
      commit_enrollment_def AList.delete_eq)

theorem enrollment_is_atomic_witness:
  "fabric_role_at pairing_runtime = ''setup''
   \<and> fabric_role_at (snd (persist_remote_invite_at demo_desktop ''0123456789abcdef'' ''invite'' pairing_runtime))
       = ''worker''"
  using enrollment_is_atomic [OF _ pairing_runtime_enrols]
  by (simp add: pairing_runtime_enrols)
     (simp add: pairing_runtime_def runtime_with_def path_is_file_def entry_def root_is_dir_def marker_names
       setup_required_def)

text \<open>The exception happens: with the intent and the setup marker refused, a machine in setup mode that
  failed to enroll is an owner.\<close>

lemma refused_rollback_makes_an_owner:
  "let d = runtime_with [(SETUP_REQUIRED_MARKER, RFile setup_required_bytes),
             (WORKER_PAIRING_INTENT_MARKER, RFile worker_pairing_bytes)]
             (\<lambda>op n. op = OpRemove \<and> n = WORKER_PAIRING_INTENT_MARKER \<or> op = OpCreate \<and> n = SETUP_REQUIRED_MARKER);
       (result, d') = persist_remote_invite_at demo_desktop ''0123456789abcdef'' ''invite'' d
   in fabric_role_at d = ''setup'' \<and> isl result \<and> fabric_role_at d' = ''owner''"
  by (simp add: persist_remote_invite_at_def demo_desktop_def invite_is_signed_def signed_invite_def
      json_str_def absent_or_empty_def runtime_with_def create_dir_all_def
      root_is_dir_def setup_required_def path_is_file_def path_exists_def entry_def marker_names
      remove_stale_worker_credentials_in_setup_def stale_credential_files_def remove_file_def
      drop_entry_def write_invite_def create_new_file_def put_entry_def rename_file_def write_new_marker_def
      commit_enrollment_def AList.delete_eq fabric_role_at_def worker_enrollment_exists_def)

theorem confirmed_owner_needs_factory_reset_witness:
  "confirmed_owner owner_runtime
   \<and> fabric_role_at (fold (run_command demo_desktop True)
       [CmdLaunch, CmdJoin (Inr 0) [] ''invite'', CmdReset (Inr 0) (Inr ()) ''yes'', CmdStop] owner_runtime) = ''owner''"
proof -
  have c: "confirmed_owner owner_runtime"
    by (simp add: confirmed_owner_def owner_runtime_def runtime_with_def path_is_file_def entry_def
        root_is_dir_def marker_names)
  show ?thesis
    using c confirmed_owner_needs_factory_reset [OF c, of
        "[CmdLaunch, CmdJoin (Inr 0) [] ''invite'', CmdReset (Inr 0) (Inr ()) ''yes'', CmdStop]"
        demo_desktop True]
    by (simp add: FACTORY_RESET_CONFIRMATION_def)
qed

theorem reset_leaves_only_the_setup_marker_witness:
  "\<exists>d'. reset_runtime_to_setup pairing_runtime = (Inr (), d')
     \<and> rd_entries d' = [(SETUP_REQUIRED_MARKER, RFile setup_required_bytes)]
     \<and> enrollment_file_state demo_desktop d' = (''ready_to_configure'', [])
     \<and> launch_fabric_role d' = (Inr LaunchSetup, d')"
  by (rule reset_leaves_only_the_setup_marker)
     (simp_all add: pairing_runtime_def runtime_with_def validate_runtime_reset_target_def
       eq_ignore_ascii_case_def to_ascii_lowercase_def byte_def marker_names)

text \<open>
  Leaving the fabric is not fail-safe. On a paired worker whose \<open>cas\<close> directory cannot be
  removed, \<open>leave_fabric\<close> reports the error after it has deleted the pinned controller but before it
  writes the setup marker; the rest of the identity is left, so the directory is no longer neutral,
  the machine reports the role of an owner, and the next launch starts it as one.
\<close>

theorem failed_leave_makes_an_owner:
  "let d = runtime_with [(''agent.controller-pin.json'', RFile []), (''cas'', RDir), (''agent.key'', RFile [])]
             (\<lambda>op n. op = OpRemove \<and> n = ''cas'');
       (result, d') = leave_fabric (Inr 1) LEAVE_FABRIC_CONFIRMATION d
   in fabric_role_at d = ''worker'' \<and> result = Inl ''denied'' \<and> fabric_role_at d' = ''owner''
      \<and> fst (launch_fabric_role d') = Inr LaunchOwner"
  by (simp add: leave_fabric_def runtime_with_def fabric_role_at_def setup_required_def
      worker_enrollment_exists_def path_is_file_def path_exists_def entry_def root_is_dir_def marker_names
      reset_runtime_to_setup_def validate_runtime_reset_target_def eq_ignore_ascii_case_def
      to_ascii_lowercase_def byte_def create_dir_all_def remove_runtime_entry_def remove_file_def
      remove_dir_all_def drop_entry_def AList.delete_eq launch_fabric_role_def ensure_neutral_first_run_def
      fabric_state_files_def write_new_marker_def create_new_file_def put_entry_def)

end
