(* ===== verification/Rampage_Pairing_Flow.thy ===== *)
theory Rampage_Pairing_Flow
  imports Rampage_Pairing Rampage_Enrollment Rampage_Signing
begin

text \<open>
  What pairing promises. The owner's table stays bounded and well formed in every reachable state and
  nothing leaves \<open>AwaitingApproval\<close> unless the owner approved it; the two sides derive the same key and
  show the same code; the fragments of an approval, delivered again after any loss, complete the
  enrollment; fragments of a second approval cannot.
\<close>

section \<open>The documented behaviour of the libraries\<close>

definition pairing_lib_ok :: "pairing_lib \<Rightarrow> bool" where
  "pairing_lib_ok P \<longleftrightarrow>
     (\<forall>b. pl_unb64 P (pl_b64 P b) = Some b)
     \<and> (\<forall>b. list_all is_base64_char (pl_b64 P b))
     \<and> (\<forall>m v. pl_to_vec P m = Inr v \<longrightarrow> v \<noteq> [] \<and> pl_from_slice P v = Some m)
     \<and> (\<forall>k n a m c. pl_seal P k n a m = Some c \<longrightarrow> pl_open P k n a c = Some m)
     \<and> (\<forall>a b. pl_diffie_hellman P a (pl_public P b) = pl_diffie_hellman P b (pl_public P a))
     \<and> (\<forall>a. length (pl_public P a) = 32)
     \<and> (\<forall>salt ikm info n out. pl_hkdf_expand P salt ikm info n = Some out \<longrightarrow> length out = n)"

section \<open>Reassembly\<close>

definition assembly_wf :: "approval_assembly \<Rightarrow> bool" where
  "assembly_wf a \<longleftrightarrow> length (aa_chunks a) = aa_chunk_count a
     \<and> aa_encoded_len a = sum_list (map (\<lambda>c. case c of None \<Rightarrow> 0 | Some s \<Rightarrow> length s) (aa_chunks a))"

text \<open>An assembly that holds some of the fragments \<open>parts\<close> and nothing else.\<close>

definition holds_part_of :: "string \<Rightarrow> string list \<Rightarrow> approval_assembly \<Rightarrow> bool" where
  "holds_part_of nonce parts a \<longleftrightarrow> assembly_wf a \<and> aa_nonce a = nonce \<and> aa_chunk_count a = length parts
     \<and> (\<forall>i < length parts. aa_chunks a ! i = None \<or> aa_chunks a ! i = Some (parts ! i))"

lemma those_eq_Some: "those xs = Some ys \<longleftrightarrow> xs = map Some ys"
  by (induction xs arbitrary: ys) (auto split: option.splits)

lemma chunks_by_Nil [simp]: "chunks_by n [] = []"
  by (simp add: chunks_by.simps)

lemma concat_chunks_by: "0 < n \<Longrightarrow> concat (chunks_by n s) = s"
  by (induction n s rule: chunks_by.induct) (subst chunks_by.simps, auto)

lemma chunks_by_elem:
  "c \<in> set (chunks_by n s) \<Longrightarrow> c \<noteq> [] \<and> length c \<le> n \<and> set c \<subseteq> set s"
proof (induction n s rule: chunks_by.induct)
  case (1 n s)
  show ?case
  proof (cases "n = 0 \<or> s = []")
    case True
    with 1(2) show ?thesis by (simp add: chunks_by.simps)
  next
    case False
    then have "chunks_by n s = take n s # chunks_by n (drop n s)" by (subst chunks_by.simps) simp
    with 1 False show ?thesis by (auto dest: in_set_takeD in_set_dropD)
  qed
qed

abbreviation part_len :: "string option \<Rightarrow> nat" where
  "part_len c \<equiv> (case c of None \<Rightarrow> 0 | Some s \<Rightarrow> length s)"

text \<open>The fragments of one approval, as the worker accepts them.\<close>

definition fragments_ok :: "string list \<Rightarrow> bool" where
  "fragments_ok parts \<longleftrightarrow> parts \<noteq> [] \<and> length parts \<le> MAX_APPROVAL_CHUNKS
     \<and> sum_list (map length parts) \<le> MAX_APPROVAL_CIPHERTEXT_CHARS
     \<and> (\<forall>c\<in>set parts. c \<noteq> [] \<and> length c \<le> MAX_APPROVAL_CHUNK_CHARS \<and> list_all is_base64_char c)"

lemma holds_part_of_len:
  assumes "holds_part_of nonce parts a"
  shows "aa_encoded_len a \<le> sum_list (map length parts)"
proof -
  have len: "length (aa_chunks a) = length parts"
    using assms by (simp add: holds_part_of_def assembly_wf_def)
  have "list_all2 (\<le>) (map part_len (aa_chunks a)) (map length parts)"
    using assms len by (fastforce simp: list_all2_conv_all_nth holds_part_of_def)
  then have "sum_list (map part_len (aa_chunks a)) \<le> sum_list (map length parts)"
    by (induction rule: list_all2_induct) auto
  then show ?thesis using assms by (simp add: holds_part_of_def assembly_wf_def)
qed

lemma assembly_complete_part:
  assumes "holds_part_of nonce parts a"
  shows "assembly_complete a =
    (if \<forall>j<length parts. aa_chunks a ! j \<noteq> None then Some (concat parts) else None)"
proof (cases "\<forall>j<length parts. aa_chunks a ! j \<noteq> None")
  case True
  then have "aa_chunks a = map Some parts"
    using assms by (intro nth_equalityI) (fastforce simp: holds_part_of_def assembly_wf_def)+
  then show ?thesis using True those_eq_Some [of "aa_chunks a" parts] by (simp add: assembly_complete_def)
next
  case False
  then obtain j where "j < length (aa_chunks a)" "aa_chunks a ! j = None"
    using assms by (auto simp: holds_part_of_def assembly_wf_def)
  then have "None \<in> set (aa_chunks a)" by (metis nth_mem)
  then have "those (aa_chunks a) \<noteq> Some ys" for ys
    by (auto simp: those_eq_Some)
  then have "those (aa_chunks a) = None" by (meson option.exhaust)
  then show ?thesis using False by (simp add: assembly_complete_def)
qed

lemma push_part:
  assumes part: "holds_part_of nonce parts a" and ok: "fragments_ok parts" and i: "i < length parts"
  obtains a' where "assembly_push i (parts ! i) a = (Inr (assembly_complete a'), a')"
    and "holds_part_of nonce parts a'"
    and "\<forall>j<length parts. aa_chunks a' ! j \<noteq> None \<longleftrightarrow> aa_chunks a ! j \<noteq> None \<or> j = i"
proof -
  have len: "length (aa_chunks a) = length parts" "aa_chunk_count a = length parts"
    using part by (simp_all add: holds_part_of_def assembly_wf_def)
  have c: "parts ! i \<noteq> []" "length (parts ! i) \<le> MAX_APPROVAL_CHUNK_CHARS"
    "list_all is_base64_char (parts ! i)"
    using ok i nth_mem [OF i] by (auto simp: fragments_ok_def)
  show ?thesis
  proof (cases "aa_chunks a ! i")
    case (Some x)
    then have "x = parts ! i" using part i by (auto simp: holds_part_of_def)
    then show ?thesis
      using that [of a] Some c i len part by (auto simp: assembly_push_def)
  next
    case None
    define a' where "a' = a\<lparr>aa_encoded_len := aa_encoded_len a + length (parts ! i),
        aa_chunks := (aa_chunks a)[i := Some (parts ! i)]\<rparr>"
    have "map part_len ((aa_chunks a)[i := Some (parts ! i)])
        = (map part_len (aa_chunks a))[i := length (parts ! i)]"
      by (simp add: map_update)
    then have "assembly_wf a'"
      using part None i len
      by (simp add: holds_part_of_def assembly_wf_def a'_def sum_list_update)
    then have part': "holds_part_of nonce parts a'"
      using part i len by (auto simp: holds_part_of_def a'_def nth_list_update)
    have "aa_encoded_len a + length (parts ! i) \<le> MAX_APPROVAL_CIPHERTEXT_CHARS"
      using holds_part_of_len [OF part'] ok by (simp add: a'_def fragments_ok_def)
    then have "assembly_push i (parts ! i) a = (Inr (assembly_complete a'), a')"
      using None c i len by (simp add: assembly_push_def a'_def Let_def)
    then show ?thesis
      using that [of a'] part' i len by (auto simp: a'_def nth_list_update)
  qed
qed

lemma assembly_new_part:
  assumes "fragments_ok parts"
  obtains a where "assembly_new nonce (length parts) = Some a" "holds_part_of nonce parts a"
proof -
  have "1 \<le> length parts" using assms by (cases parts) (auto simp: fragments_ok_def)
  then show ?thesis
    using that assms
    by (auto simp: assembly_new_def fragments_ok_def holds_part_of_def assembly_wf_def)
qed

section \<open>The fragments the owner sends\<close>

lemma chunk_payloads_nth:
  assumes "chunk_payloads P rid nonce cnt index chunks = Inr ps"
  shows "length ps = length chunks
    \<and> (\<forall>i<length chunks. pl_to_vec P (ApprovalChunk PAIRING_SCHEMA rid nonce (of_nat (index + i)) cnt (chunks ! i))
          = Inr (ps ! i) \<and> length (ps ! i) \<le> 1024)"
  using assms
proof (induction P rid nonce cnt index chunks arbitrary: ps rule: chunk_payloads.induct)
  case (2 P rid nonce cnt index chunk chunks)
  from 2(2) obtain payload payloads where
    v: "pl_to_vec P (ApprovalChunk PAIRING_SCHEMA rid nonce (of_nat index) cnt chunk) = Inr payload"
    and l: "length payload \<le> 1024" and i: "index < 2 ^ 16"
    and r: "chunk_payloads P rid nonce cnt (index + 1) chunks = Inr payloads"
    and ps: "ps = payload # payloads"
    by (auto split: if_splits sum.splits)
  from 2(1) [OF _ v _ r] i l have ih: "length payloads = length chunks"
    "\<forall>j<length chunks. pl_to_vec P (ApprovalChunk PAIRING_SCHEMA rid nonce (of_nat (index + 1 + j)) cnt (chunks ! j))
          = Inr (payloads ! j) \<and> length (payloads ! j) \<le> 1024"
    by auto
  show ?case
  proof (intro conjI allI impI)
    show "length ps = length (chunk # chunks)" using ih ps by simp
  next
    fix j assume "j < length (chunk # chunks)"
    then show "pl_to_vec P (ApprovalChunk PAIRING_SCHEMA rid nonce (of_nat (index + j)) cnt ((chunk # chunks) ! j))
        = Inr (ps ! j)" "length (ps ! j) \<le> 1024"
      using ih(2) v l ps by (cases j; simp)+
  qed
qed simp

text \<open>An approval under way: the fragments \<open>parts\<close> of the ciphertext and the datagrams that carry them.\<close>

definition approval_fragments :: "pairing_lib \<Rightarrow> string \<Rightarrow> string \<Rightarrow> string list \<Rightarrow> string list \<Rightarrow> bool" where
  "approval_fragments P request_id nonce parts payloads \<longleftrightarrow> fragments_ok parts
     \<and> length payloads = length parts
     \<and> (\<forall>i<length parts. payloads ! i \<noteq> [] \<and> length (payloads ! i) \<le> MAX_DATAGRAM_BYTES
         \<and> pl_from_slice P (payloads ! i)
           = Some (ApprovalChunk PAIRING_SCHEMA request_id nonce (of_nat i) (of_nat (length parts)) (parts ! i)))"

lemma encrypted_approval_chunks_fragments:
  assumes P: "pairing_lib_ok P"
    and run: "encrypted_approval_chunks P (Some n) pending invitation = Inr payloads"
  obtains ciphertext where
    "pl_seal P (pp_key pending) n (pp_aad pending) invitation = Some ciphertext"
    "approval_fragments P (pp_request_id pending) (pl_b64 P n)
       (chunks_by MAX_APPROVAL_CHUNK_CHARS (pl_b64 P ciphertext)) payloads"
    "length (pp_key pending) = 32"
proof -
  from run obtain c where k: "length (pp_key pending) = 32"
    and c: "pl_seal P (pp_key pending) n (pp_aad pending) invitation = Some c"
    by (auto simp: encrypted_approval_chunks_def encrypt_payload_def fresh_bytes_def
        split: if_splits option.splits sum.splits)
  define parts where "parts = chunks_by MAX_APPROVAL_CHUNK_CHARS (pl_b64 P c)"
  have enc: "encrypt_payload P (Some n) (pp_key pending) (pp_aad pending) invitation = Inr (pl_b64 P n, pl_b64 P c)"
    using k c by (simp add: encrypt_payload_def fresh_bytes_def)
  have ne: "parts \<noteq> []" "length parts \<le> MAX_APPROVAL_CHUNKS"
      "length (pl_b64 P c) \<le> MAX_APPROVAL_CIPHERTEXT_CHARS"
    and ps: "chunk_payloads P (pp_request_id pending) (pl_b64 P n) (of_nat (length parts)) 0 parts = Inr payloads"
    using run enc unfolding encrypted_approval_chunks_def parts_def
    by (auto simp: Let_def not_less split: if_splits)
  have "concat parts = pl_b64 P c"
    unfolding parts_def by (rule concat_chunks_by) (simp add: pairing_limits)
  then have "sum_list (map length parts) \<le> MAX_APPROVAL_CIPHERTEXT_CHARS"
    using ne(3) by (metis length_concat)
  then have ok: "fragments_ok parts"
    using ne P unfolding fragments_ok_def
    by (auto simp: parts_def pairing_lib_ok_def list_all_iff dest!: chunks_by_elem)
  note nth = chunk_payloads_nth [OF ps]
  have vec: "payloads ! i \<noteq> [] \<and> length (payloads ! i) \<le> MAX_DATAGRAM_BYTES
      \<and> pl_from_slice P (payloads ! i) = Some (ApprovalChunk PAIRING_SCHEMA (pp_request_id pending) (pl_b64 P n)
          (of_nat i) (of_nat (length parts)) (parts ! i))" if "i < length parts" for i
  proof -
    from nth that have "pl_to_vec P (ApprovalChunk PAIRING_SCHEMA (pp_request_id pending) (pl_b64 P n)
        (of_nat i) (of_nat (length parts)) (parts ! i)) = Inr (payloads ! i)" "length (payloads ! i) \<le> 1024"
      by auto
    with P show ?thesis unfolding pairing_lib_ok_def by (fastforce simp: pairing_limits)
  qed
  have "approval_fragments P (pp_request_id pending) (pl_b64 P n) parts payloads"
    using ok nth vec unfolding approval_fragments_def by blast
  then show ?thesis using that c k unfolding parts_def by blast
qed

section \<open>Delivery\<close>

text \<open>The worker while the approval is under way: it has selected this owner and its assembly is empty
  or holds fragments of this approval.\<close>

definition receiving :: "string \<Rightarrow> string list \<Rightarrow> worker_session \<Rightarrow> worker_session \<Rightarrow> bool" where
  "receiving nonce parts w0 w \<longleftrightarrow>
     w = w0\<lparr>ws_approval_assembly := ws_approval_assembly w\<rparr>
     \<and> (case ws_approval_assembly w of None \<Rightarrow> True | Some a \<Rightarrow> holds_part_of nonce parts a)"

definition received :: "nat \<Rightarrow> worker_session \<Rightarrow> bool" where
  "received k w \<longleftrightarrow> (\<forall>i<k. case ws_approval_assembly w of None \<Rightarrow> False | Some a \<Rightarrow> aa_chunks a ! i \<noteq> None)"

lemma received_0 [simp]: "received 0 w"
  by (simp add: received_def)

lemma unat_of_nat_small: "n \<le> MAX_APPROVAL_CHUNKS \<Longrightarrow> unat (of_nat n :: u16) = n"
  by (simp add: pairing_limits unat_of_nat take_bit_nat_eq_self)

lemma fragment_for_receiver:
  assumes frag: "fragments_ok parts" and i: "i < length parts"
    and rec: "case assembly of None \<Rightarrow> True | Some a \<Rightarrow> holds_part_of nonce parts a"
    and first: "assembly = None \<Longrightarrow> i = 0"
  obtains a where "fragment_assembly nonce (of_nat i) (length parts) assembly = Some a"
    "holds_part_of nonce parts a"
    "\<And>x. assembly = Some x \<Longrightarrow> a = x"
proof (cases assembly)
  case None
  obtain a where "assembly_new nonce (length parts) = Some a" "holds_part_of nonce parts a"
    by (rule assembly_new_part [OF frag])
  with None first show ?thesis using that by (simp add: fragment_assembly_def)
next
  case (Some x)
  with rec show ?thesis using that by (simp add: fragment_assembly_def holds_part_of_def)
qed

text \<open>One genuine fragment: it is stored, or ignored because the anchoring fragment is missing, or it
  completes the ciphertext.\<close>

lemma deliver_fragment:
  assumes frags: "approval_fragments P (ws_request_id w0) nonce parts payloads" and i: "i < length parts"
    and sel: "ws_selected_owner w0 = Some (source, key, aad, owner_name)"
    and live: "\<not> pi_poisoned inner" "pi_worker_generation inner = ws_generation w0" "now < ws_expires_at_ms w0"
    and rec: "receiving nonce parts w0 w"
  obtains (stored) w' where "worker_step P L env now (Some (payloads ! i, source)) w (inner, d) = (WContinue w', inner, d)"
      "receiving nonce parts w0 w'" "\<And>k. received k w \<Longrightarrow> k \<le> length parts \<Longrightarrow> received k w'"
      "ws_approval_assembly w \<noteq> None \<or> i = 0 \<Longrightarrow> received i w
        \<Longrightarrow> received (Suc i) w' \<and> \<not> received (length parts) w'"
  | (completed) w' where "worker_step P L env now (Some (payloads ! i, source)) w (inner, d)
        = finish_worker_enrollment P L env w' owner_name key aad nonce (concat parts) (inner, d)"
      "receiving nonce parts w0 w'"
proof -
  have w: "ws_selected_owner w = Some (source, key, aad, owner_name)" "ws_request_id w = ws_request_id w0"
    "ws_generation w = ws_generation w0" "ws_expires_at_ms w = ws_expires_at_ms w0"
    using rec sel unfolding receiving_def by (metis worker_session.select_convs worker_session.update_convs(6)
        worker_session.surjective)+
  have ok: "fragments_ok parts" "length parts \<le> MAX_APPROVAL_CHUNKS"
    using frags by (auto simp: approval_fragments_def fragments_ok_def)
  have idx: "unat (of_nat i :: u16) = i" "unat (of_nat (length parts) :: u16) = length parts"
    using ok i by (auto intro!: unat_of_nat_small)
  have step: "worker_step P L env now (Some (payloads ! i, source)) w (inner, d)
      = worker_fragment P L env w owner_name key aad nonce (of_nat i) (of_nat (length parts)) (parts ! i) (inner, d)"
    using frags i w live
    by (auto simp: worker_step_def generation_is_current_def worker_receive_def approval_fragments_def
        Let_def not_le)
  show ?thesis
  proof (cases "ws_approval_assembly w = None \<and> i \<noteq> 0")
    case True
    then have "(of_nat i :: u16) \<noteq> 0" using idx(1) by auto
    with True have "fragment_assembly nonce (of_nat i) (length parts) (ws_approval_assembly w) = None"
      by (simp add: fragment_assembly_def)
    then show ?thesis using stored [of w] rec True step idx by (simp add: worker_fragment_def)
  next
    case False
    obtain a where a: "fragment_assembly nonce (of_nat i) (length parts) (ws_approval_assembly w) = Some a"
      "holds_part_of nonce parts a" "\<And>x. ws_approval_assembly w = Some x \<Longrightarrow> a = x"
      by (rule fragment_for_receiver [OF ok(1) i, where assembly = "ws_approval_assembly w" and nonce = nonce])
        (use rec False in \<open>auto simp: receiving_def\<close>)
    obtain a' where a': "assembly_push i (parts ! i) a = (Inr (assembly_complete a'), a')"
      "holds_part_of nonce parts a'"
      "\<forall>j<length parts. aa_chunks a' ! j \<noteq> None \<longleftrightarrow> aa_chunks a ! j \<noteq> None \<or> j = i"
      by (rule push_part [OF a(2) ok(1) i])
    define w' where "w' = w\<lparr>ws_approval_assembly := Some a'\<rparr>"
    have rec': "receiving nonce parts w0 w'"
      using rec a'(2) unfolding receiving_def w'_def by (auto dest: arg_cong [where f = "ws_approval_assembly_update (\<lambda>_. Some a')"])
    have mono: "received k w'" if "received k w" "k \<le> length parts" for k
      using that a'(3) a(3) by (auto simp: received_def w'_def split: option.splits)
    have suc: "received (Suc i) w'" if "received i w"
    proof -
      have "received i w'" using mono that i by simp
      then show ?thesis using a'(3) i by (auto simp: received_def w'_def less_Suc_eq)
    qed
    have full: "received (length parts) w' \<longleftrightarrow> (\<forall>j<length parts. aa_chunks a' ! j \<noteq> None)"
      by (simp add: received_def w'_def)
    show ?thesis
    proof (cases "received (length parts) w'")
      case True
      then have "assembly_complete a' = Some (concat parts)"
        using assembly_complete_part [OF a'(2)] full by simp
      then show ?thesis
        using completed [of w'] rec' a(1) a'(1) idx step by (simp add: worker_fragment_def w'_def)
    next
      case notfull: False
      then have "assembly_complete a' = None" using assembly_complete_part [OF a'(2)] full by auto
      then show ?thesis
        using stored [of w'] rec' a(1) a'(1) idx step mono suc notfull
        by (simp add: worker_fragment_def w'_def)
    qed
  qed
qed

lemma finish_enrolls:
  assumes P: "pairing_lib_ok P" and key: "length key = 32" and n: "length n = 12"
    and sealed: "pl_seal P key n aad invitation = Some c" and utf8: "utf8_ok invitation"
    and persist: "persist_remote_invite_at L (we_token env) invitation d = (Inr (), d')"
    and completion: "encrypted_completion P (we_entropy env) (ws_request_id w) key aad = Inr completion"
    and send: "we_send env = Inr ()"
    and live: "\<not> pi_poisoned inner" "pi_worker_generation inner = ws_generation w"
  shows "finish_worker_enrollment P L env w owner_name key aad (pl_b64 P n) (pl_b64 P c) (inner, d)
    = (WRestart completion, inner\<lparr>pi_worker := WorkerApproved (ws_request_id w) owner_name\<rparr>, d')"
proof -
  have "decrypt_approval P key aad (pl_b64 P n) (pl_b64 P c) = Inr invitation"
    using P key n sealed utf8
    by (auto simp: decrypt_approval_def decrypt_payload_def pairing_lib_ok_def)
  then show ?thesis
    using persist completion send live by (simp add: finish_worker_enrollment_def set_worker_status_def)
qed

lemma receiving_fields:
  assumes "receiving nonce parts w0 w"
  shows "ws_request_id w = ws_request_id w0" "ws_generation w = ws_generation w0"
  using assms unfolding receiving_def
  by (metis worker_session.select_convs worker_session.update_convs(6) worker_session.surjective)+

text \<open>From a worker that has the first \<open>k\<close> fragments, the remaining ones in order complete the approval.\<close>

lemma deliver_rest:
  assumes fr: "approval_fragments P (ws_request_id w) nonce parts payloads"
    and sel: "ws_selected_owner w = Some (source, key, aad, owner_name)"
    and live: "\<not> pi_poisoned inner" "pi_worker_generation inner = ws_generation w" "now < ws_expires_at_ms w"
    and fin: "\<And>w1. receiving nonce parts w w1
      \<Longrightarrow> finish_worker_enrollment P L env w1 owner_name key aad nonce (concat parts) (inner, d) = goal"
    and stops: "\<forall>w1. fst goal \<noteq> WContinue w1"
  shows "k < length parts \<Longrightarrow> receiving nonce parts w w1 \<Longrightarrow> received k w1
    \<Longrightarrow> worker_pairing_loop P L (map (\<lambda>p. (env, now, Some (p, source))) (drop k payloads)) w1 (inner, d) = goal"
proof (induction "length parts - k" arbitrary: k w1 rule: less_induct)
  case less
  have "length payloads = length parts" using fr by (simp add: approval_fragments_def)
  then have dk: "drop k payloads = payloads ! k # drop (Suc k) payloads"
    using less.prems(1) by (simp add: Cons_nth_drop_Suc [symmetric])
  have anchored: "ws_approval_assembly w1 \<noteq> None \<or> k = 0"
    using less.prems(3) by (cases k) (auto simp: received_def split: option.splits)
  show ?case
  proof (rule deliver_fragment [OF fr less.prems(1) sel live less.prems(2), of L env d])
    fix w2 assume s: "worker_step P L env now (Some (payloads ! k, source)) w1 (inner, d) = (WContinue w2, inner, d)"
      and r: "receiving nonce parts w w2"
      and nxt: "ws_approval_assembly w1 \<noteq> None \<or> k = 0 \<Longrightarrow> received k w1
        \<Longrightarrow> received (Suc k) w2 \<and> \<not> received (length parts) w2"
    have got: "received (Suc k) w2" "\<not> received (length parts) w2"
      using nxt [OF anchored less.prems(3)] by auto
    then have "Suc k < length parts" using less.prems(1) by (metis Suc_lessI)
    then show ?thesis using less.hyps [of "Suc k" w2] r s dk got by simp
  next
    fix w2 assume "worker_step P L env now (Some (payloads ! k, source)) w1 (inner, d)
        = finish_worker_enrollment P L env w2 owner_name key aad nonce (concat parts) (inner, d)"
      "receiving nonce parts w w2"
    then show ?thesis using fin stops dk by (cases goal; cases "fst goal") auto
  qed
qed

text \<open>The same after any genuine fragments have been delivered already.\<close>

lemma deliver_again:
  assumes fr: "approval_fragments P (ws_request_id w) nonce parts payloads"
    and sel: "ws_selected_owner w = Some (source, key, aad, owner_name)"
    and live: "\<not> pi_poisoned inner" "pi_worker_generation inner = ws_generation w" "now < ws_expires_at_ms w"
    and fin: "\<And>w1. receiving nonce parts w w1
      \<Longrightarrow> finish_worker_enrollment P L env w1 owner_name key aad nonce (concat parts) (inner, d) = goal"
    and stops: "\<forall>w1. fst goal \<noteq> WContinue w1"
  shows "set lossy \<subseteq> set payloads \<Longrightarrow> receiving nonce parts w w1
    \<Longrightarrow> worker_pairing_loop P L (map (\<lambda>p. (env, now, Some (p, source))) (lossy @ payloads)) w1 (inner, d) = goal"
proof (induction lossy arbitrary: w1)
  case Nil
  have "0 < length parts" using fr by (auto simp: approval_fragments_def fragments_ok_def)
  then show ?case using deliver_rest [OF fr sel live fin stops, of 0 w1] Nil by simp
next
  case (Cons p ps)
  have "length payloads = length parts" using fr by (simp add: approval_fragments_def)
  then obtain i where i: "i < length parts" "p = payloads ! i"
    using Cons.prems(1) by (auto simp: in_set_conv_nth)
  show ?case
  proof (rule deliver_fragment [OF fr i(1) sel live Cons.prems(2), of L env d])
    fix w2 assume "worker_step P L env now (Some (payloads ! i, source)) w1 (inner, d) = (WContinue w2, inner, d)"
      "receiving nonce parts w w2"
    then show ?thesis using Cons i by simp
  next
    fix w2 assume "worker_step P L env now (Some (payloads ! i, source)) w1 (inner, d)
        = finish_worker_enrollment P L env w2 owner_name key aad nonce (concat parts) (inner, d)"
      "receiving nonce parts w w2"
    then show ?thesis using fin stops i by (cases goal; cases "fst goal") auto
  qed
qed

text \<open>
  C39. An approval gets through. Let the owner have approved a request, so that \<open>payloads\<close> are the
  datagrams it stores and sends again for every greeting, and let the worker of that request have
  selected this owner and hold the same key. Whatever fragments reached the worker before, in any
  order, with any lost and any repeated, one complete delivery enrols it: the invitation the owner
  sealed is the one that is persisted, and the worker confirms and restarts.
\<close>

theorem redelivered_approval_enrolls:
  assumes P: "pairing_lib_ok P" and n: "length n = 12" and utf8: "utf8_ok invitation"
    and chunks: "encrypted_approval_chunks P (Some n) pending invitation = Inr payloads"
    and sel: "ws_selected_owner w = Some (source, pp_key pending, pp_aad pending, owner_name)"
      "ws_request_id w = pp_request_id pending" "ws_approval_assembly w = None"
    and live: "\<not> pi_poisoned inner" "pi_worker_generation inner = ws_generation w" "now < ws_expires_at_ms w"
    and persist: "persist_remote_invite_at L (we_token env) invitation d = (Inr (), d')"
    and completion: "encrypted_completion P (we_entropy env) (ws_request_id w) (pp_key pending) (pp_aad pending)
        = Inr completion"
    and send: "we_send env = Inr ()"
    and lossy: "set lossy \<subseteq> set payloads"
  shows "worker_pairing_loop P L (map (\<lambda>p. (env, now, Some (p, source))) (lossy @ payloads)) w (inner, d)
     = (WRestart completion, inner\<lparr>pi_worker := WorkerApproved (ws_request_id w) owner_name\<rparr>, d')"
proof -
  let ?goal = "(WRestart completion, inner\<lparr>pi_worker := WorkerApproved (ws_request_id w) owner_name\<rparr>, d')"
  obtain c where c: "pl_seal P (pp_key pending) n (pp_aad pending) invitation = Some c"
    and frags: "approval_fragments P (pp_request_id pending) (pl_b64 P n)
       (chunks_by MAX_APPROVAL_CHUNK_CHARS (pl_b64 P c)) payloads"
    and key: "length (pp_key pending) = 32"
    by (rule encrypted_approval_chunks_fragments [OF P chunks])
  define parts where "parts = chunks_by MAX_APPROVAL_CHUNK_CHARS (pl_b64 P c)"
  have conc: "concat parts = pl_b64 P c"
    unfolding parts_def by (rule concat_chunks_by) (simp add: pairing_limits)
  have fr: "approval_fragments P (ws_request_id w) (pl_b64 P n) parts payloads"
    using frags sel(2) by (simp add: parts_def)
  have fin: "finish_worker_enrollment P L env w1 owner_name (pp_key pending) (pp_aad pending) (pl_b64 P n)
      (concat parts) (inner, d) = ?goal" if "receiving (pl_b64 P n) parts w w1" for w1
    using finish_enrolls [OF P key n c utf8 persist _ send live(1), of w1 completion owner_name]
      completion live(2) receiving_fields [OF that] by (simp add: conc)
  have "receiving (pl_b64 P n) parts w w" using sel(3) by (simp add: receiving_def)
  then show ?thesis
    using deliver_again [OF fr sel(1) live fin _ lossy] by simp
qed

section \<open>Key agreement\<close>

lemma new_request_fields:
  assumes "new_request P now entropy hello peer_public source inner = Some p"
  obtains owner_secret where "entropy = Some owner_secret"
    "derive_material P (pl_diffie_hellman P owner_secret peer_public)
       (pairing_transcript (hello_request_id hello) peer_public (pl_public P owner_secret))
       = Inr (pp_key p, pp_verification_code p, pp_aad p)"
    "pl_to_vec P (Challenge PAIRING_SCHEMA (hello_request_id hello) (pi_owner_name inner)
       (pl_b64 P (pl_public P owner_secret)) (pp_expires_at_ms p)) = Inr (pp_challenge_payload p)"
    "pp_request_id p = hello_request_id hello" "pp_device_kind p = hello_device_kind hello"
    "pp_state p = AwaitingApproval" "pp_approval_payloads p = None"
    "pp_expires_at_ms p = min (sat_add now WORKER_WAIT_MS) (pi_owner_open_until_ms inner)"
  using assms that
  by (auto simp: new_request_def fresh_bytes_def Let_def split: option.splits sum.splits)

lemma prune_owner_name [simp]: "pi_owner_name (prune_owner_state now inner) = pi_owner_name inner"
  by (simp add: prune_owner_state_def Let_def)

text \<open>A greeting that shows the owner something new has made a new entry.\<close>

lemma receive_hello_new:
  assumes "receive_hello P interfaces now entropy hello source inner = ((payloads, Some view), inner')"
  obtains peer_public p inner0 where "decode_32 P (hello_public_key hello) = Inr peer_public"
    "new_request P now entropy hello peer_public source inner0 = Some p"
    "pi_owner_name inner0 = pi_owner_name inner"
    "payloads = [pp_challenge_payload p]" "view = view_of p"
    "fmlookup (pi_pending inner') (hello_request_id hello) = Some p"
proof -
  obtain admitted attempts where adm: "admit_source_attempt (pi_attempts (prune_owner_state now inner)) (sa_ip source) now
      = (admitted, attempts)" by fastforce
  show ?thesis
    using assms that
    unfolding receive_hello_def Let_def adm
    by (auto split: if_splits sum.splits option.splits)
qed

text \<open>
  The handshake agrees. If the worker's greeting makes the owner show a new request, then the
  challenge the owner answers with leads the worker that sent the greeting to exactly the owner's
  key and associated data for that request, and to the verification code the owner is shown.
\<close>

theorem handshake_agrees:
  assumes P: "pairing_lib_ok P"
    and hello: "worker_hello P w device_name t = Inr greeting"
    and owner: "owner_receive P interfaces now entropy greeting source inner = (([challenge], Some view), inner')"
    and small: "length challenge \<le> MAX_DATAGRAM_BYTES"
    and name: "bounded_label (pi_owner_name inner) ''owner name'' = Inr owner_name"
    and fresh: "ws_selected_owner w = None"
    and live: "\<not> pi_poisoned winner" "pi_worker_generation winner = ws_generation w"
  shows "\<exists>pending. fmlookup (pi_pending inner') (ws_request_id w) = Some pending
     \<and> view = view_of pending \<and> pp_state pending = AwaitingApproval
     \<and> worker_receive P L env challenge owner_addr w (winner, d)
       = (WContinue (w\<lparr>ws_selected_owner := Some (owner_addr, pp_key pending, pp_aad pending, owner_name)\<rparr>),
          winner\<lparr>pi_worker := WaitingApproval (ws_request_id w) owner_name (pp_verification_code pending)
                    (ws_expires_at_ms w)\<rparr>, d)"
proof -
  let ?h = "Hello PAIRING_SCHEMA (ws_request_id w) device_name ''desktop''
    (pl_b64 P (pl_public P (ws_secret w))) t (ws_expires_at_ms w)"
  have g: "pl_from_slice P greeting = Some ?h"
    using P hello by (auto simp: pairing_lib_ok_def worker_hello_def)
  have rh: "receive_hello P interfaces now entropy ?h source inner = (([challenge], Some view), inner')"
    using owner g by (auto simp: owner_receive_def split: if_splits)
  obtain peer_public p inner0 where dec: "decode_32 P (hello_public_key ?h) = Inr peer_public"
    and new: "new_request P now entropy ?h peer_public source inner0 = Some p"
    and nm: "pi_owner_name inner0 = pi_owner_name inner" and ch: "[challenge] = [pp_challenge_payload p]"
    and v: "view = view_of p" and tab: "fmlookup (pi_pending inner') (hello_request_id ?h) = Some p"
    by (rule receive_hello_new [OF rh])
  have peer: "peer_public = pl_public P (ws_secret w)"
    using dec P by (auto simp: decode_32_def pairing_lib_ok_def split: if_splits)
  obtain s where der: "derive_material P (pl_diffie_hellman P s peer_public)
       (pairing_transcript (hello_request_id ?h) peer_public (pl_public P s))
       = Inr (pp_key p, pp_verification_code p, pp_aad p)"
    and vec: "pl_to_vec P (Challenge PAIRING_SCHEMA (hello_request_id ?h) (pi_owner_name inner0)
       (pl_b64 P (pl_public P s)) (pp_expires_at_ms p)) = Inr (pp_challenge_payload p)"
    and st: "pp_state p = AwaitingApproval"
    by (rule new_request_fields [OF new])
  have c: "challenge \<noteq> []" "pl_from_slice P challenge = Some (Challenge PAIRING_SCHEMA (ws_request_id w)
      (pi_owner_name inner) (pl_b64 P (pl_public P s)) (pp_expires_at_ms p))"
    using P vec ch nm by (auto simp: pairing_lib_ok_def)
  have "decode_32 P (pl_b64 P (pl_public P s)) = Inr (pl_public P s)"
    using P by (simp add: decode_32_def pairing_lib_ok_def)
  moreover have "pl_diffie_hellman P (ws_secret w) (pl_public P s) = pl_diffie_hellman P s peer_public"
    using P by (simp add: peer pairing_lib_ok_def)
  ultimately have "worker_challenge P w (pi_owner_name inner) (pl_b64 P (pl_public P s)) owner_addr winner
      = (WContinue (w\<lparr>ws_selected_owner := Some (owner_addr, pp_key p, pp_aad p, owner_name)\<rparr>),
         winner\<lparr>pi_worker := WaitingApproval (ws_request_id w) owner_name (pp_verification_code p)
                    (ws_expires_at_ms w)\<rparr>)"
    using der name fresh live by (simp add: worker_challenge_def set_worker_status_def Let_def peer)
  then show ?thesis
    using c small v tab st by (simp add: worker_receive_def Let_def)
qed

section \<open>The owner's table\<close>

inductive owner_run :: "pairing_lib \<Rightarrow> owner_event list \<Rightarrow> pairing_inner \<Rightarrow> bool" for P where
  start: "owner_run P [] pairing_default"
| event: "owner_run P es inner \<Longrightarrow> owner_run P (es @ [e]) (owner_event_step P e inner)"

lemma retain_values_lookup: "fmlookup (retain_values q m) k = Some v \<longleftrightarrow> fmlookup m k = Some v \<and> q v"
  by (auto simp: retain_values_def)

lemma prune_lookup:
  "fmlookup (pi_pending (prune_owner_state now inner)) k = Some p \<Longrightarrow> fmlookup (pi_pending inner) k = Some p"
  by (auto simp: prune_owner_state_def Let_def retain_values_lookup split: if_splits)

lemma retain_values_dom: "fmdom (retain_values q m) |\<subseteq>| fmdom m"
  by (auto simp: retain_values_def)

lemma prune_card: "fcard (fmdom (pi_pending (prune_owner_state now inner))) \<le> fcard (fmdom (pi_pending inner))"
  using fcard_mono [OF retain_values_dom] by (auto simp: prune_owner_state_def Let_def)

text \<open>What an event may do to an entry of the table, as a contract on a property of entries and of the
  events so far.\<close>

locale pending_entries =
  fixes P :: pairing_lib and Q :: "owner_event list \<Rightarrow> string \<Rightarrow> pending_pair \<Rightarrow> bool"
  assumes lasts: "Q es k p \<Longrightarrow> Q (es @ [e]) k p"
    and arrives: "new_request P now entropy hello peer_public source inner = Some p
      \<Longrightarrow> valid_request_id (hello_request_id hello) \<Longrightarrow> hello_device_kind hello = ''desktop''
      \<Longrightarrow> Q es (hello_request_id hello) p"
    and moves: "Q es k p \<Longrightarrow> Q es k (p\<lparr>pp_peer_addr := address\<rparr>)"
    and approves: "Q es k p \<Longrightarrow> Q (es @ [OwnerApprove entropy now k invitation]) k
      (p\<lparr>pp_approval_payloads := Some payloads, pp_state := Approved\<rparr>)"
    and completes: "Q es k p \<Longrightarrow> pp_state p = Approved \<Longrightarrow> Q es k (p\<lparr>pp_state := Completed\<rparr>)"
begin

definition all_entries :: "owner_event list \<Rightarrow> pairing_inner \<Rightarrow> bool" where
  "all_entries es inner \<longleftrightarrow> (\<forall>k p. fmlookup (pi_pending inner) k = Some p \<longrightarrow> Q es k p)"

lemma all_prune: "all_entries es inner \<Longrightarrow> all_entries es (prune_owner_state now inner)"
  by (auto simp: all_entries_def dest: prune_lookup)

lemma all_lasts: "all_entries es inner \<Longrightarrow> all_entries (es @ [e]) inner"
  by (auto simp: all_entries_def lasts)

lemma all_update: "all_entries es inner \<Longrightarrow> Q es k p
    \<Longrightarrow> all_entries es (inner\<lparr>pi_pending := fmupd k p (pi_pending inner)\<rparr>)"
  by (auto simp: all_entries_def)

lemma all_window: "all_entries es inner \<Longrightarrow> all_entries es (snd (owner_window now inner))"
  using all_prune [of es inner now] by (auto simp: owner_window_def Let_def all_entries_def)

lemma all_open: "all_entries es inner \<Longrightarrow> all_entries es (snd (open_owner_window bound now now' name inner))"
proof -
  assume a: "all_entries es inner"
  have "all_entries es (snd (owner_window now' (prune_owner_state now x)))" if "pi_pending x = pi_pending inner" for x
  proof -
    have "all_entries es x" using a that by (simp add: all_entries_def)
    then show ?thesis by (intro all_window all_prune)
  qed
  then show ?thesis using a by (auto simp: open_owner_window_def split: sum.splits)
qed

lemma all_approve:
  assumes "all_entries es inner"
  shows "all_entries (es @ [OwnerApprove entropy now k invitation]) (snd (approve P entropy now k invitation inner))"
proof -
  have a: "all_entries es (prune_owner_state now inner)" by (rule all_prune [OF assms])
  have q: "Q (es @ [OwnerApprove entropy now k invitation]) k (p\<lparr>pp_approval_payloads := Some ps, pp_state := Approved\<rparr>)"
    if "fmlookup (pi_pending (prune_owner_state now inner)) k = Some p" for p ps
    using a that by (intro approves) (simp add: all_entries_def)
  note lasts_a = all_lasts [OF a, of "OwnerApprove entropy now k invitation"]
  note lasts_i = all_lasts [OF assms, of "OwnerApprove entropy now k invitation"]
  show ?thesis
    using lasts_a lasts_i all_update [OF lasts_a q]
    by (auto simp: approve_def Let_def split: option.splits sum.splits)
qed

lemma all_reject: "all_entries es inner \<Longrightarrow> all_entries es (snd (reject P k inner))"
  by (auto simp: reject_def Let_def all_entries_def split: option.splits sum.splits)

lemma all_completion:
  assumes "all_entries es inner"
  shows "all_entries es (receive_completion P now schema k nonce ciphertext source inner)"
proof -
  have a: "all_entries es (prune_owner_state now inner)" by (rule all_prune [OF assms])
  have q: "Q es k (p\<lparr>pp_state := Completed\<rparr>)"
    if "fmlookup (pi_pending (prune_owner_state now inner)) k = Some p" "pp_state p = Approved" for p
    using a that by (intro completes) (simp_all add: all_entries_def)
  show ?thesis
    using assms a all_update [OF a q] by (auto simp: receive_completion_def Let_def split: option.splits)
qed

lemma all_hello:
  assumes "all_entries es inner"
  shows "all_entries es (snd (receive_hello P interfaces now entropy hello source inner))"
proof -
  have a: "all_entries es (prune_owner_state now inner)" by (rule all_prune [OF assms])
  obtain admitted attempts where adm: "admit_source_attempt (pi_attempts (prune_owner_state now inner)) (sa_ip source) now
      = (admitted, attempts)" by fastforce
  have a': "all_entries es ((prune_owner_state now inner)\<lparr>pi_attempts := attempts\<rparr>)"
    using a by (simp add: all_entries_def)
  have q: "Q es k (p\<lparr>pp_peer_addr := source\<rparr>)"
    if "fmlookup (pi_pending (prune_owner_state now inner)) k = Some p" for k p
    using a that by (intro moves) (simp add: all_entries_def)
  show ?thesis
    unfolding receive_hello_def Let_def adm
    using assms a a' q arrives
    by (auto simp: all_entries_def split: sum.splits option.splits)
qed

lemma all_step:
  assumes "all_entries es inner"
  shows "all_entries (es @ [e]) (owner_event_step P e inner)"
proof (cases e)
  case (OwnerApprove entropy now k invitation)
  then show ?thesis using all_approve [OF assms] by simp
next
  case (OwnerReceive interfaces now entropy bytes source)
  have "all_entries es (snd (owner_receive P interfaces now entropy bytes source inner))"
    using assms all_completion [OF assms] all_hello [OF assms]
    by (auto simp: owner_receive_def split: option.splits pairing_datagram.splits)
  then show ?thesis using OwnerReceive by (simp add: all_lasts)
next
  case OwnerDeactivate
  then show ?thesis using all_lasts [OF assms]
    by (auto simp: deactivate_owner_window_def all_entries_def)
qed (use assms in \<open>simp_all add: all_lasts all_open all_window all_reject\<close>)

lemma every_entry: "owner_run P es inner \<Longrightarrow> fmlookup (pi_pending inner) k = Some p \<Longrightarrow> Q es k p"
proof -
  assume "owner_run P es inner"
  then have "all_entries es inner"
  proof induction
    case start
    show ?case by (simp add: all_entries_def pairing_default_def)
  qed (rule all_step)
  then show "fmlookup (pi_pending inner) k = Some p \<Longrightarrow> Q es k p" by (simp add: all_entries_def)
qed

end

definition pending_ok :: "string \<Rightarrow> pending_pair \<Rightarrow> bool" where
  "pending_ok k p \<longleftrightarrow> pp_request_id p = k \<and> valid_request_id k \<and> pp_device_kind p = ''desktop''
     \<and> (pp_state p = AwaitingApproval \<longleftrightarrow> pp_approval_payloads p = None)
     \<and> length (pp_verification_code p) = 4 \<and> list_all is_ascii_digit (pp_verification_code p)"

lemma code_digits_ok: "length (code_digits b) = 4 \<and> list_all is_ascii_digit (code_digits b)"
proof -
  have "is_ascii_digit (char_of (48 + n mod 10))" for n :: nat
    using mod_less_divisor [of 10 n] by (simp add: is_ascii_digit_def)
  then have "list_all is_ascii_digit (map (\<lambda>k. char_of (48 + m div k mod 10)) ks)" for m :: nat and ks
    by (induction ks) simp_all
  then show ?thesis unfolding code_digits_def Let_def by (intro conjI) (simp, blast)
qed

lemma derive_material_code:
  "derive_material P shared transcript = Inr (key, code, aad) \<Longrightarrow> length code = 4 \<and> list_all is_ascii_digit code"
  by (auto simp: derive_material_def code_digits_ok split: option.splits)

definition was_approved :: "owner_event list \<Rightarrow> string \<Rightarrow> pending_pair \<Rightarrow> bool" where
  "was_approved es k p \<longleftrightarrow> pp_state p = AwaitingApproval
     \<or> list_ex (\<lambda>e. case e of OwnerApprove _ _ request _ \<Rightarrow> request = k | _ \<Rightarrow> False) es"

interpretation wf_entries: pending_entries P "\<lambda>_. pending_ok" for P
proof unfold_locales
  fix now entropy hello peer_public source inner p
  assume "new_request P now entropy hello peer_public source inner = Some p"
    "valid_request_id (hello_request_id hello)" "hello_device_kind hello = ''desktop''"
  then show "pending_ok (hello_request_id hello) p"
    by (elim new_request_fields) (auto simp: pending_ok_def dest: derive_material_code)
qed (auto simp: pending_ok_def)

interpretation vetted_entries: pending_entries P was_approved for P
proof unfold_locales
  fix es now entropy hello peer_public source inner p
  assume "new_request P now entropy hello peer_public source inner = Some p"
  then show "was_approved es (hello_request_id hello) p"
    by (elim new_request_fields) (simp add: was_approved_def)
qed (auto simp: was_approved_def)

lemma fresh_attempts_len: "length (fresh_attempts now a) \<le> length a"
  by (simp add: fresh_attempts_def length_dropWhile_le)

definition attempts_bounded :: "(ip_addr, u64 list) fmap \<Rightarrow> bool" where
  "attempts_bounded m \<longleftrightarrow> (\<forall>ip a. fmlookup m ip = Some a \<longrightarrow> length a \<le> MAX_NEW_REQUESTS_PER_IP_PER_MINUTE)"

lemma attempts_prune:
  assumes "attempts_bounded (pi_attempts inner)"
  shows "attempts_bounded (pi_attempts (prune_owner_state now inner))"
proof -
  have "length (fresh_attempts now a) \<le> MAX_NEW_REQUESTS_PER_IP_PER_MINUTE"
    if "fmlookup (pi_attempts inner) ip = Some a" for ip a
    using assms that fresh_attempts_len [of now a] by (fastforce simp: attempts_bounded_def)
  then show ?thesis
    by (auto simp: attempts_bounded_def prune_owner_state_def Let_def retain_values_lookup)
qed

lemma attempts_admit:
  assumes "attempts_bounded m" "admit_source_attempt m source now = (ok, m')"
  shows "attempts_bounded m'"
proof -
  define mine where "mine = fresh_attempts now (case fmlookup m source of None \<Rightarrow> [] | Some a \<Rightarrow> a)"
  have "length mine \<le> MAX_NEW_REQUESTS_PER_IP_PER_MINUTE"
    using assms(1) fresh_attempts_len [of now "case fmlookup m source of None \<Rightarrow> [] | Some a \<Rightarrow> a"]
    by (fastforce simp: mine_def attempts_bounded_def split: option.splits)
  moreover have "m' = fmupd source mine m \<or> m' = fmupd source (mine @ [now]) m \<and> length mine < MAX_NEW_REQUESTS_PER_IP_PER_MINUTE"
    using assms(2) by (auto simp: admit_source_attempt_def Let_def mine_def split: if_splits)
  ultimately show ?thesis using assms(1) by (auto simp: attempts_bounded_def split: if_splits)
qed

text \<open>The table and the counters stay within their limits.\<close>

definition bounded :: "pairing_inner \<Rightarrow> bool" where
  "bounded inner \<longleftrightarrow> fcard (fmdom (pi_pending inner)) \<le> MAX_PENDING_REQUESTS \<and> attempts_bounded (pi_attempts inner)"

lemma bounded_prune: "bounded inner \<Longrightarrow> bounded (prune_owner_state now inner)"
  using prune_card [of now inner] by (auto simp: bounded_def attempts_prune)

lemma bounded_cong:
  "bounded inner \<Longrightarrow> fmdom (pi_pending x) |\<subseteq>| fmdom (pi_pending inner) \<Longrightarrow> pi_attempts x = pi_attempts inner \<Longrightarrow> bounded x"
  using fcard_mono [of "fmdom (pi_pending x)" "fmdom (pi_pending inner)"] by (auto simp: bounded_def)

lemma bounded_same:
  "bounded inner \<Longrightarrow> pi_pending x = pi_pending inner \<Longrightarrow> pi_attempts x = pi_attempts inner \<Longrightarrow> bounded x"
  by (simp add: bounded_def)

lemma bounded_upd:
  "bounded inner \<Longrightarrow> fmlookup (pi_pending inner) k = Some p
     \<Longrightarrow> bounded (inner\<lparr>pi_pending := fmupd k p' (pi_pending inner)\<rparr>)"
  by (rule bounded_cong) (auto dest: fmdomI)

lemma bounded_window: "bounded inner \<Longrightarrow> bounded (snd (owner_window now inner))"
  using bounded_prune [of inner now] by (auto simp: owner_window_def Let_def bounded_def)

lemma bounded_hello:
  assumes "bounded inner"
  shows "bounded (snd (receive_hello P interfaces now entropy hello source inner))"
proof -
  define i1 where "i1 = prune_owner_state now inner"
  have b: "bounded i1" unfolding i1_def by (rule bounded_prune [OF assms])
  obtain ok m where adm: "admit_source_attempt (pi_attempts i1) (sa_ip source) now = (ok, m)" by fastforce
  have m: "attempts_bounded m" using b adm attempts_admit by (auto simp: bounded_def)
  have b1: "bounded (i1\<lparr>pi_attempts := m\<rparr>)" using b m by (simp add: bounded_def)
  have ins: "bounded (i1\<lparr>pi_attempts := m, pi_pending := fmupd k p (pi_pending i1), pi_owner_attention_active := True\<rparr>)"
    if "\<not> MAX_PENDING_REQUESTS \<le> fcard (fmdom (pi_pending i1))" for k p
    using that m fcard_finsert_le [of "fmdom (pi_pending i1)" k] by (auto simp: bounded_def fcard_finsert_if)
  have re: "bounded (i1\<lparr>pi_pending := fmupd k p' (pi_pending i1)\<rparr>)"
    if "fmlookup (pi_pending i1) k = Some p" for k p p'
    by (rule bounded_upd [OF b that])
  show ?thesis
    unfolding receive_hello_def Let_def i1_def [symmetric] adm
    using assms b b1 ins re by (auto split: sum.splits option.splits)
qed

lemma bounded_step: "bounded inner \<Longrightarrow> bounded (owner_event_step P e inner)"
proof -
  assume b: "bounded inner"
  note p = bounded_prune [OF b]
  show ?thesis
  proof (cases e)
    case (OwnerOpen bound now now' name)
    have "bounded (snd (owner_window now' (prune_owner_state now x)))"
      if "pi_pending x = pi_pending inner" "pi_attempts x = pi_attempts inner" for x
      using bounded_same [OF b that] by (intro bounded_window bounded_prune)
    then show ?thesis using OwnerOpen b by (auto simp: open_owner_window_def split: sum.splits)
  next
    case (OwnerApprove entropy now k invitation)
    show ?thesis using OwnerApprove b p bounded_upd [OF p]
      by (auto simp: approve_def Let_def split: option.splits sum.splits)
  next
    case (OwnerReject k)
    have "bounded (inner\<lparr>pi_pending := fmdrop k (pi_pending inner)\<rparr>)"
      by (rule bounded_cong [OF b]) auto
    then show ?thesis using OwnerReject b by (auto simp: reject_def Let_def split: option.splits sum.splits)
  next
    case (OwnerReceive interfaces now entropy bytes source)
    have "bounded (receive_completion P now schema k nonce ciphertext source inner)" for schema k nonce ciphertext
      using b p bounded_upd [OF p] by (auto simp: receive_completion_def Let_def split: option.splits)
    then show ?thesis using OwnerReceive b bounded_hello [OF b]
      by (auto simp: owner_receive_def split: option.splits pairing_datagram.splits)
  next
    case (OwnerLook now)
    then show ?thesis using bounded_window [OF b] by simp
  next
    case OwnerDeactivate
    then show ?thesis using b by (auto simp: deactivate_owner_window_def bounded_def attempts_bounded_def)
  qed
qed

text \<open>
  The owner's inbox is bounded and well formed. In every state the owner's listener can reach, by
  any datagrams from the network interleaved with any actions of the owner, at most sixteen requests
  are pending, no address has more than five recorded attempts, and every entry is filed under its
  own well-formed identifier, is a desktop, shows a four-digit code, and holds approval datagrams
  exactly when it has left the state \<open>AwaitingApproval\<close>.
\<close>

theorem owner_inbox_bounded:
  assumes "owner_run P es inner"
  shows "fcard (fmdom (pi_pending inner)) \<le> 16
     \<and> (\<forall>ip a. fmlookup (pi_attempts inner) ip = Some a \<longrightarrow> length a \<le> 5)
     \<and> (\<forall>k p. fmlookup (pi_pending inner) k = Some p \<longrightarrow> pending_ok k p)"
proof -
  have "bounded inner" using assms
  proof induction
    case start
    show ?case by (simp add: bounded_def attempts_bounded_def pairing_default_def)
  qed (rule bounded_step)
  then show ?thesis
    using wf_entries.every_entry [OF assms] by (simp add: bounded_def attempts_bounded_def pairing_limits)
qed

text \<open>
  No machine is let in without the owner. In every reachable state of the owner, a request that
  is no longer awaiting approval was approved by name: the owner's \<open>approve\<close> for exactly that request
  is among the events, whatever datagrams were received.
\<close>

theorem no_approval_without_owner:
  assumes "owner_run P es inner" and "fmlookup (pi_pending inner) request_id = Some p"
    and "pp_state p \<noteq> AwaitingApproval \<or> pp_approval_payloads p \<noteq> None"
  shows "list_ex (\<lambda>e. case e of OwnerApprove _ _ request _ \<Rightarrow> request = request_id | _ \<Rightarrow> False) es"
  using vetted_entries.every_entry [OF assms(1,2)] wf_entries.every_entry [OF assms(1,2)] assms(3)
  by (auto simp: was_approved_def pending_ok_def)

section \<open>A second approval\<close>

text \<open>
  A second approval strands the worker. Once a worker holds a fragment of one approval, a
  fragment of any other approval of the same request, which carries a fresh nonce, is ignored: the
  session is unchanged, and since the owner now repeats only the new approval, the worker waits until
  its fifteen minutes are over.
\<close>

theorem second_approval_ignored:
  assumes "ws_selected_owner w = Some (source, key, aad, owner_name)" "ws_approval_assembly w = Some a"
    and "aa_nonce a \<noteq> nonce"
    and "pl_from_slice P bytes = Some (ApprovalChunk schema request_id nonce i count chunk)"
    and "\<not> pi_poisoned inner" "pi_worker_generation inner = ws_generation w" "now < ws_expires_at_ms w"
  shows "worker_step P L env now (Some (bytes, source)) w (inner, d) = (WContinue w, inner, d)"
  using assms
  by (simp add: worker_step_def generation_is_current_def worker_receive_def worker_fragment_def
      fragment_assembly_def Let_def not_le)

section \<open>A concrete pairing\<close>

definition demo_request :: string where
  "demo_request = replicate 32 (CHR ''a'')"

definition demo_nonce :: string where
  "demo_nonce = replicate 12 (CHR ''n'')"

definition laptop_secret :: string where
  "laptop_secret = replicate 32 (CHR ''w'')"

definition owner_secret :: string where
  "owner_secret = replicate 32 (CHR ''o'')"

definition demo_hello :: pairing_datagram where
  "demo_hello = Hello PAIRING_SCHEMA demo_request ''Laptop'' ''desktop'' (demo_hex_encode laptop_secret) 0 900000"

definition demo_challenge :: pairing_datagram where
  "demo_challenge = Challenge PAIRING_SCHEMA demo_request ''Owner'' (demo_hex_encode owner_secret) 900000"

definition demo_chunk :: pairing_datagram where
  "demo_chunk = ApprovalChunk PAIRING_SCHEMA demo_request (demo_hex_encode demo_nonce) 0 1 (demo_hex_encode ''invite'')"

definition demo_complete :: pairing_datagram where
  "demo_complete = EnrollmentComplete PAIRING_SCHEMA demo_request (demo_hex_encode demo_nonce)
     (demo_hex_encode ''enrollment-complete'')"

definition demo_pairing :: pairing_lib where
  "demo_pairing = \<lparr>pl_public = (\<lambda>s. take 32 (s @ replicate 32 (CHR ''k''))),
     pl_diffie_hellman = (\<lambda>_ _. replicate 32 (CHR ''z'')),
     pl_hkdf_expand = (\<lambda>_ ikm _ n. Some (take n (ikm @ replicate n (CHR ''x'')))),
     pl_sha256 = (\<lambda>_. replicate 32 (CHR ''d'')),
     pl_seal = (\<lambda>_ _ _ m. Some m), pl_open = (\<lambda>_ _ _ c. Some c),
     pl_b64 = demo_hex_encode, pl_unb64 = demo_hex_decode,
     pl_to_vec = (\<lambda>m. if m = demo_hello then Inr ''1'' else if m = demo_challenge then Inr ''2''
        else if m = demo_chunk then Inr ''3'' else if m = demo_complete then Inr ''4'' else Inl ''message''),
     pl_from_slice = (\<lambda>v. if v = ''1'' then Some demo_hello else if v = ''2'' then Some demo_challenge
        else if v = ''3'' then Some demo_chunk else if v = ''4'' then Some demo_complete else None)\<rparr>"

lemma demo_pairing_ok: "pairing_lib_ok demo_pairing"
proof -
  have "list_all is_base64_char (demo_hex_encode b)" for b
    using demo_encode_lower [of b]
    by (auto simp: list_all_iff is_base64_char_def is_lower_hex_digit_def)
  then show ?thesis
    by (auto simp: pairing_lib_ok_def demo_pairing_def demo_decode_encode split: if_splits)
qed

definition demo_owner :: pairing_inner where
  "demo_owner = pairing_default\<lparr>pi_owner_socket := True, pi_owner_notifier := True, pi_owner_name := ''Owner'',
     pi_owner_open_until_ms := 31536000000\<rparr>"

definition demo_source :: socket_addr where
  "demo_source = \<lparr>sa_ip = V4 192 168 0 7, sa_scope_id = 0, sa_port = 50000\<rparr>"

definition demo_pending :: pending_pair where
  "demo_pending = \<lparr>pp_request_id = demo_request, pp_device_name = ''Laptop'', pp_device_kind = ''desktop'',
     pp_peer_addr = demo_source, pp_peer_public_key = demo_hex_encode laptop_secret,
     pp_verification_code = code_digits (replicate 4 (CHR ''z'')), pp_key = replicate 32 (CHR ''z''),
     pp_aad = replicate 32 (CHR ''d''), pp_expires_at_ms = 900000, pp_challenge_payload = ''2'',
     pp_approval_payloads = None, pp_state = AwaitingApproval\<rparr>"

definition demo_worker :: worker_session where
  "demo_worker = \<lparr>ws_generation = 0, ws_request_id = demo_request, ws_secret = laptop_secret,
     ws_expires_at_ms = 900000, ws_selected_owner = None, ws_approval_assembly = None\<rparr>"

lemma demo_hello_payload: "worker_hello demo_pairing demo_worker ''Laptop'' 0 = Inr ''1''"
  by (simp add: worker_hello_def demo_pairing_def demo_worker_def demo_hello_def laptop_secret_def)

lemma demo_labels: "bounded_label ''Laptop'' label = Inr ''Laptop''" "bounded_label ''Owner'' label = Inr ''Owner''"
  by (simp_all add: bounded_label_def trim_def byte_def ws1_def ws2_def ws3_def)

lemma retain_values_empty [simp]: "retain_values q fmempty = fmempty"
  by (intro fmap_ext) (simp add: retain_values_def)

lemma prune_default: "prune_owner_state 0 demo_owner = demo_owner"
  by (simp add: prune_owner_state_def demo_owner_def pairing_default_def Let_def)

lemma demo_owner_opens: "owner_event_step demo_pairing (OwnerOpen (Inr ()) 0 0 ''Owner'') pairing_default = demo_owner"
proof -
  have "owner_event_step demo_pairing (OwnerOpen (Inr ()) 0 0 ''Owner'') pairing_default
      = snd (owner_window 0 (prune_owner_state 0 demo_owner))"
    by (simp add: open_owner_window_def demo_labels demo_owner_def pairing_default_def PAIRING_WINDOW_MS_def)
  also have "\<dots> = snd (owner_window 0 demo_owner)" by (simp only: prune_default)
  also have "\<dots> = demo_owner"
    unfolding owner_window_def Let_def prune_default by (simp add: demo_owner_def pairing_default_def)
  finally show ?thesis .
qed

lemma demo_new_request:
  "new_request demo_pairing 0 (Some owner_secret) demo_hello laptop_secret demo_source
     (demo_owner\<lparr>pi_attempts := m\<rparr>) = Some demo_pending"
proof -
  have wait: "min WORKER_WAIT_MS 31536000000 = (900000 :: u64)"
    by (simp add: WORKER_WAIT_MS_def min_def)
  have key: "derive_material demo_pairing shared transcript
      = Inr (take 32 (shared @ replicate 32 (CHR ''x'')), code_digits (take 4 (shared @ replicate 4 (CHR ''x''))),
             replicate 32 (CHR ''d''))" for shared transcript
    by (simp add: derive_material_def demo_pairing_def)
  have vec: "pl_to_vec demo_pairing demo_challenge = Inr ''2''"
    by (simp add: demo_pairing_def demo_challenge_def demo_hello_def)
  have "pl_diffie_hellman demo_pairing a b = replicate 32 (CHR ''z'')" for a b by (simp add: demo_pairing_def)
  moreover have "pl_public demo_pairing owner_secret = owner_secret"
    by (simp add: demo_pairing_def owner_secret_def)
  moreover have "pl_b64 demo_pairing = demo_hex_encode" by (simp add: demo_pairing_def)
  moreover have "hello_request_id demo_hello = demo_request" "hello_public_key demo_hello = demo_hex_encode laptop_secret"
    "hello_device_name demo_hello = ''Laptop''" "hello_device_kind demo_hello = ''desktop''"
    by (simp_all add: demo_hello_def)
  ultimately show ?thesis
    using vec unfolding new_request_def fresh_bytes_def Let_def option.case sum.case key
    by (simp add: wait demo_owner_def demo_challenge_def demo_pending_def)
qed

definition demo_inbox :: pairing_inner where
  "demo_inbox = demo_owner\<lparr>pi_attempts := fmupd (sa_ip demo_source) [0] fmempty,
     pi_pending := fmupd demo_request demo_pending fmempty, pi_owner_attention_active := True\<rparr>"

lemma demo_owner_receives:
  "owner_receive demo_pairing [] 0 (Some owner_secret) ''1'' demo_source demo_owner
     = (([''2''], Some (view_of demo_pending)), demo_inbox)"
proof -
  have dec: "decode_32 demo_pairing (hello_public_key demo_hello) = Inr laptop_secret"
    by (simp add: decode_32_def demo_hello_def demo_pairing_def demo_decode_encode laptop_secret_def)
  have id: "valid_request_id demo_request"
    by (simp add: valid_request_id_def demo_request_def is_ascii_hexdigit_def is_lower_hex_digit_def byte_def)
  have adm: "admit_source_attempt fmempty (sa_ip demo_source) 0 = (True, fmupd (sa_ip demo_source) [0] fmempty)"
    by (simp add: admit_source_attempt_def fresh_attempts_def pairing_limits)
  have sel: "pi_poisoned demo_owner = False" "pi_owner_open_until_ms demo_owner = 31536000000"
    "pi_pending demo_owner = fmempty" "pi_attempts demo_owner = fmempty" "pp_challenge_payload demo_pending = ''2''"
    "hello_schema demo_hello = PAIRING_SCHEMA" "hello_request_id demo_hello = demo_request"
    "hello_device_name demo_hello = ''Laptop''" "hello_device_kind demo_hello = ''desktop''"
    by (simp_all add: demo_owner_def pairing_default_def demo_pending_def demo_hello_def)
  have "receive_hello demo_pairing [] 0 (Some owner_secret) demo_hello demo_source demo_owner
    = (([''2''], Some (view_of demo_pending)), demo_inbox)"
    unfolding demo_inbox_def receive_hello_def Let_def prune_default dec sum.case
    using id demo_new_request adm
    by (simp add: sel demo_labels source_is_local_on_def MAX_PENDING_REQUESTS_def split: ip_addr.split)
  moreover have "pl_from_slice demo_pairing ''1'' = Some demo_hello" by (simp add: demo_pairing_def)
  ultimately show ?thesis
    by (simp add: owner_receive_def demo_hello_def pairing_limits)
qed

definition demo_env :: worker_env where
  "demo_env = \<lparr>we_token = ''0123456789abcdef'', we_entropy = Some demo_nonce, we_send = Inr ()\<rparr>"

definition selected_worker :: worker_session where
  "selected_worker = demo_worker\<lparr>ws_selected_owner := Some (demo_source, replicate 32 (CHR ''z''),
     replicate 32 (CHR ''d''), ''Owner'')\<rparr>"

lemma demo_chunks: "encrypted_approval_chunks demo_pairing (Some demo_nonce) demo_pending ''invite'' = Inr [''3'']"
proof -
  have len: "length (demo_hex_encode ''invite'') = 12" by (simp add: demo_encode_length)
  then have "chunks_by 640 (demo_hex_encode ''invite'') = [demo_hex_encode ''invite'']"
    by (subst chunks_by.simps) auto
  moreover have "pl_to_vec demo_pairing demo_chunk = Inr ''3''"
    by (simp add: demo_pairing_def demo_chunk_def demo_hello_def demo_challenge_def)
  moreover have "encrypt_payload demo_pairing (Some demo_nonce) (pp_key demo_pending) (pp_aad demo_pending) ''invite''
      = Inr (demo_hex_encode demo_nonce, demo_hex_encode ''invite'')"
    by (simp add: encrypt_payload_def demo_pending_def fresh_bytes_def demo_pairing_def)
  moreover have "pp_request_id demo_pending = demo_request" by (simp add: demo_pending_def)
  ultimately show ?thesis
    using len by (simp add: encrypted_approval_chunks_def pairing_limits demo_chunk_def)
qed

lemma demo_completion:
  "encrypted_completion demo_pairing (we_entropy demo_env) demo_request (replicate 32 (CHR ''z''))
     (replicate 32 (CHR ''d'')) = Inr ''4''"
proof -
  have "pl_to_vec demo_pairing demo_complete = Inr ''4''"
    by (simp add: demo_pairing_def demo_complete_def demo_chunk_def demo_hello_def demo_challenge_def)
  moreover have "encrypt_payload demo_pairing (Some demo_nonce) (replicate 32 (CHR ''z''))
      (replicate 32 (CHR ''d'')) ''enrollment-complete''
      = Inr (demo_hex_encode demo_nonce, demo_hex_encode ''enrollment-complete'')"
    by (simp add: encrypt_payload_def fresh_bytes_def demo_pairing_def)
  ultimately show ?thesis by (simp add: encrypted_completion_def demo_env_def demo_complete_def)
qed

theorem redelivered_approval_enrolls_witness:
  "worker_pairing_loop demo_pairing demo_desktop
     (map (\<lambda>p. (demo_env, 5, Some (p, demo_source))) ([''3''] @ [''3''])) selected_worker
     (pairing_default, pairing_runtime)
   = (WRestart ''4'', pairing_default\<lparr>pi_worker := WorkerApproved demo_request ''Owner''\<rparr>,
      runtime_with [(''remote-invite.json'', RFile ''invite'')] (\<lambda>_ _. False))"
proof -
  have w: "ws_selected_owner selected_worker = Some (demo_source, pp_key demo_pending, pp_aad demo_pending, ''Owner'')"
    "ws_request_id selected_worker = pp_request_id demo_pending" "ws_approval_assembly selected_worker = None"
    "ws_request_id selected_worker = demo_request" "ws_expires_at_ms selected_worker = 900000"
    "ws_generation selected_worker = 0" "pp_key demo_pending = replicate 32 (CHR ''z'')"
    "pp_aad demo_pending = replicate 32 (CHR ''d'')"
    by (simp_all add: selected_worker_def demo_worker_def demo_pending_def)
  have utf8: "utf8_ok ''invite''" by (simp add: byte_def)
  have n: "length demo_nonce = 12" by (simp add: demo_nonce_def)
  have persist: "persist_remote_invite_at demo_desktop (we_token demo_env) ''invite'' pairing_runtime
      = (Inr (), runtime_with [(''remote-invite.json'', RFile ''invite'')] (\<lambda>_ _. False))"
    using pairing_runtime_enrols by (simp add: demo_env_def)
  have "worker_pairing_loop demo_pairing demo_desktop
     (map (\<lambda>p. (demo_env, 5, Some (p, demo_source))) ([''3''] @ [''3''])) selected_worker
     (pairing_default, pairing_runtime)
   = (WRestart ''4'', pairing_default\<lparr>pi_worker := WorkerApproved (ws_request_id selected_worker) ''Owner''\<rparr>,
      runtime_with [(''remote-invite.json'', RFile ''invite'')] (\<lambda>_ _. False))"
    by (rule redelivered_approval_enrolls [OF demo_pairing_ok n utf8 demo_chunks w(1,2,3) _ _ _ persist])
       (use demo_completion w in \<open>simp_all add: pairing_default_def demo_env_def\<close>)
  then show ?thesis by (simp only: w(4))
qed

lemma demo_inbox_holds: "fmlookup (pi_pending demo_inbox) demo_request = Some demo_pending"
  by (simp add: demo_inbox_def)

theorem handshake_agrees_witness:
  "\<exists>pending. fmlookup (pi_pending demo_inbox) demo_request = Some pending
     \<and> owner_receive demo_pairing [] 0 (Some owner_secret) ''1'' demo_source demo_owner
       = (([''2''], Some (view_of pending)), demo_inbox)
     \<and> fst (worker_receive demo_pairing demo_desktop demo_env ''2'' demo_source demo_worker (pairing_default, pairing_runtime))
       = WContinue (demo_worker\<lparr>ws_selected_owner := Some (demo_source, pp_key pending, pp_aad pending, ''Owner'')\<rparr>)"
proof -
  have nm: "bounded_label (pi_owner_name demo_owner) ''owner name'' = Inr ''Owner''"
    using demo_labels by (simp add: demo_owner_def)
  have rid: "ws_request_id demo_worker = demo_request" by (simp add: demo_worker_def)
  obtain pending where "fmlookup (pi_pending demo_inbox) (ws_request_id demo_worker) = Some pending"
    "worker_receive demo_pairing demo_desktop demo_env ''2'' demo_source demo_worker (pairing_default, pairing_runtime)
       = (WContinue (demo_worker\<lparr>ws_selected_owner := Some (demo_source, pp_key pending, pp_aad pending, ''Owner'')\<rparr>),
          pairing_default\<lparr>pi_worker := WaitingApproval (ws_request_id demo_worker) ''Owner''
            (pp_verification_code pending) (ws_expires_at_ms demo_worker)\<rparr>, pairing_runtime)"
    using handshake_agrees [OF demo_pairing_ok demo_hello_payload demo_owner_receives _ nm, where winner = pairing_default
        and L = demo_desktop and env = demo_env and owner_addr = demo_source and d = pairing_runtime]
    by (auto simp: pairing_limits demo_worker_def pairing_default_def)
  then show ?thesis using rid demo_inbox_holds demo_owner_receives by auto
qed

definition demo_events :: "owner_event list" where
  "demo_events = [OwnerOpen (Inr ()) 0 0 ''Owner'', OwnerReceive [] 0 (Some owner_secret) ''1'' demo_source]"

lemma demo_run: "owner_run demo_pairing demo_events demo_inbox"
proof -
  have "owner_run demo_pairing [OwnerOpen (Inr ()) 0 0 ''Owner''] demo_owner"
    using owner_run.event [OF owner_run.start, of demo_pairing "OwnerOpen (Inr ()) 0 0 ''Owner''"] demo_owner_opens
    by simp
  from owner_run.event [OF this, of "OwnerReceive [] 0 (Some owner_secret) ''1'' demo_source"]
  show ?thesis by (simp add: demo_events_def demo_owner_receives)
qed

theorem owner_inbox_bounded_witness:
  "owner_run demo_pairing demo_events demo_inbox
   \<and> fcard (fmdom (pi_pending demo_inbox)) \<le> 16 \<and> pending_ok demo_request demo_pending"
  using owner_inbox_bounded [OF demo_run] demo_run demo_inbox_holds by blast

definition demo_approval :: owner_event where
  "demo_approval = OwnerApprove (Some demo_nonce) 0 demo_request ''invite''"

lemma demo_approves:
  "fmlookup (pi_pending (owner_event_step demo_pairing demo_approval demo_inbox)) demo_request
     = Some (demo_pending\<lparr>pp_approval_payloads := Some [''3''], pp_state := Approved\<rparr>)"
proof -
  have "pi_owner_open_until_ms demo_inbox = 31536000000" "pp_expires_at_ms demo_pending = 900000"
    by (simp_all add: demo_inbox_def demo_owner_def demo_pending_def)
  then have "fmlookup (pi_pending (prune_owner_state 0 demo_inbox)) demo_request = Some demo_pending"
    by (simp add: prune_owner_state_def Let_def retain_values_lookup demo_inbox_holds)
  moreover have "\<not> pi_poisoned demo_inbox" "pi_owner_socket (prune_owner_state 0 demo_inbox)"
    by (simp_all add: prune_owner_state_def Let_def demo_inbox_def demo_owner_def pairing_default_def)
  ultimately show ?thesis
    by (simp add: demo_approval_def approve_def Let_def demo_chunks)
qed

theorem no_approval_without_owner_witness:
  "owner_run demo_pairing (demo_events @ [demo_approval]) (owner_event_step demo_pairing demo_approval demo_inbox)
   \<and> list_ex (\<lambda>e. case e of OwnerApprove _ _ request _ \<Rightarrow> request = demo_request | _ \<Rightarrow> False)
       (demo_events @ [demo_approval])"
proof -
  have r: "owner_run demo_pairing (demo_events @ [demo_approval]) (owner_event_step demo_pairing demo_approval demo_inbox)"
    by (rule owner_run.event [OF demo_run])
  from no_approval_without_owner [OF r demo_approves] r show ?thesis by simp
qed

theorem second_approval_ignored_witness:
  "worker_step demo_pairing demo_desktop demo_env 5 (Some (''3'', demo_source))
     (selected_worker\<lparr>ws_approval_assembly := Some \<lparr>aa_nonce = ''AA'', aa_chunk_count = 1, aa_chunks = [None],
        aa_encoded_len = 0\<rparr>\<rparr>) (pairing_default, pairing_runtime)
   = (WContinue (selected_worker\<lparr>ws_approval_assembly := Some \<lparr>aa_nonce = ''AA'', aa_chunk_count = 1,
        aa_chunks = [None], aa_encoded_len = 0\<rparr>\<rparr>), pairing_default, pairing_runtime)"
proof (rule second_approval_ignored)
  show "pl_from_slice demo_pairing ''3'' = Some (ApprovalChunk PAIRING_SCHEMA demo_request
      (demo_hex_encode demo_nonce) 0 1 (demo_hex_encode ''invite''))"
    by (simp add: demo_pairing_def demo_chunk_def)
  have "length (demo_hex_encode demo_nonce) = 24" by (simp add: demo_encode_length demo_nonce_def)
  then have "demo_hex_encode demo_nonce \<noteq> ''AA''" by auto
  then show "aa_nonce \<lparr>aa_nonce = ''AA'', aa_chunk_count = 1, aa_chunks = [None], aa_encoded_len = 0\<rparr>
      \<noteq> demo_hex_encode demo_nonce"
    by simp
qed (simp_all add: selected_worker_def demo_worker_def pairing_default_def)

end
