(* ===== verification/Rampage_Worker.thy ===== *)
theory Rampage_Worker
  imports Rampage_Signing Rampage_Storage Rampage_Text
begin

text \<open>
  The worker's execution of one claim (\<open>crates/rampage-agent/src/lib.rs\<close>): the checks of the lease, the
  durable acceptance of its nonce, the adapters and the signed receipt. The store is the content store
  of \<open>Rampage_Storage\<close>, threaded through. Floating-point arithmetic and its text form, the text of
  foreign errors, the JSON printer and the HTTP client of the local model server are parameters; the
  clock readings, random bytes and identifiers of one run are the record \<open>run_env\<close>.
\<close>

record work_claim =
  wk_schema :: string
  wk_job :: job_spec
  wk_lease :: capability_lease
  wk_governor_public_key :: string

definition work_claim_SCHEMA :: string where
  "work_claim_SCHEMA = ''rampage.work-claim.v1''"

datatype execution_error = ClaimWrongSchema | WrongNode | LeaseMismatch | InactiveLease | InvalidLease
  | AuthorityState string | UnsupportedAdapter | MissingArgument string | InvalidArgument string
  | BackendUnavailable string

fun execution_error_text :: "execution_error \<Rightarrow> string" where
  "execution_error_text ClaimWrongSchema = ''unsupported work-claim schema''"
| "execution_error_text WrongNode = ''claim is addressed to another node''"
| "execution_error_text LeaseMismatch = ''job and lease do not describe the same authority''"
| "execution_error_text InactiveLease = ''lease is expired or fenced''"
| "execution_error_text InvalidLease = ''lease signature is invalid''"
| "execution_error_text (AuthorityState s) = ''durable authority state rejected the lease: '' @ s"
| "execution_error_text UnsupportedAdapter = ''adapter or operation is not implemented by this worker''"
| "execution_error_text (MissingArgument a) = ''required argument '' @ a @ '' is absent''"
| "execution_error_text (InvalidArgument a) = ''adapter argument is invalid: '' @ a"
| "execution_error_text (BackendUnavailable s) = ''local adapter backend is unavailable: '' @ s"

record float_ops =
  fo_parse :: "string \<Rightarrow> f64 option"
  fo_zero :: f64
  fo_epsilon :: f64
  fo_thousand :: f64
  fo_add :: "f64 \<Rightarrow> f64 \<Rightarrow> f64"
  fo_mul :: "f64 \<Rightarrow> f64 \<Rightarrow> f64"
  fo_div :: "f64 \<Rightarrow> f64 \<Rightarrow> f64"
  fo_max :: "f64 \<Rightarrow> f64 \<Rightarrow> f64"
  fo_of_int :: "int \<Rightarrow> f64"
  fo_round_u64 :: "f64 \<Rightarrow> u64"
  fo_show12 :: "f64 \<Rightarrow> string"

record 'sk worker_lib =
  wl_crypto :: "'sk crypto"
  wl_cas :: cas_lib
  wl_float :: float_ops
  wl_error_text :: "storage_error \<Rightarrow> string"
  wl_json_text :: "json \<Rightarrow> string"
  wl_ollama :: "string \<Rightarrow> string \<Rightarrow> u32 \<Rightarrow> string + json"

record run_env =
  re_now :: datetime
  re_authority_now :: datetime
  re_started_at :: datetime
  re_put_now :: datetime
  re_finished_at :: datetime
  re_random :: "nat \<Rightarrow> string option"
  re_receipt_id :: uuid
  re_elapsed_seconds :: f64
  re_lane_panics :: bool

record adapter_output =
  ao_text :: string
  ao_artifacts :: "artifact_ref list"

definition adapter_text :: "string \<Rightarrow> adapter_output" where
  "adapter_text value = \<lparr>ao_text = value, ao_artifacts = []\<rparr>"

section \<open>Adapters\<close>

definition argument :: "work_claim \<Rightarrow> string \<Rightarrow> execution_error + string" where
  "argument claim name =
     (case fmlookup (js_arguments (wk_job claim)) name of None \<Rightarrow> Inl (MissingArgument name) | Some v \<Rightarrow> Inr v)"

definition run_hash :: "'sk worker_lib \<Rightarrow> work_claim \<Rightarrow> execution_error + adapter_output" where
  "run_hash W claim =
     (case argument claim ''value'' of Inl e \<Rightarrow> Inl e
      | Inr value \<Rightarrow> Inr (adapter_text (cr_hex_encode (wl_crypto W) (cr_sha256 (wl_crypto W) value))))"

fun score_loop :: "float_ops \<Rightarrow> string list \<Rightarrow> f64 \<Rightarrow> u64 \<Rightarrow> execution_error + f64 \<times> u64" where
  "score_loop F [] acc n = Inr (acc, n)"
| "score_loop F (value # values) acc n =
     (case fo_parse F (trim value) of
        None \<Rightarrow> Inl UnsupportedAdapter
      | Some x \<Rightarrow> score_loop F values (fo_add F acc x) (n + 1))"

definition run_score :: "'sk worker_lib \<Rightarrow> work_claim \<Rightarrow> execution_error + adapter_output" where
  "run_score W claim =
     (case argument claim ''values'' of
        Inl e \<Rightarrow> Inl e
      | Inr values \<Rightarrow>
     case score_loop (wl_float W) (split_on {CHR '',''} values) (fo_zero (wl_float W)) 0 of
        Inl e \<Rightarrow> Inl e
      | Inr (total_value, n) \<Rightarrow>
          if n = 0 then Inl (MissingArgument ''values'')
          else Inr (adapter_text (fo_show12 (wl_float W) (fo_div (wl_float W) total_value (fo_of_int (wl_float W) (uint n))))))"

definition MAX_LANES :: u64 where
  "MAX_LANES = 64"

definition MAX_ITERATIONS_PER_LANE :: u64 where
  "MAX_ITERATIONS_PER_LANE = 20000000"

definition MAX_TOTAL_ITERATIONS :: u64 where
  "MAX_TOTAL_ITERATIONS = 400000000"

definition le_bytes8 :: "nat \<Rightarrow> string" where
  "le_bytes8 n = map (\<lambda>i. char_of (n div 256 ^ i mod 256)) [0..<8]"

definition uuid_bytes :: "uuid \<Rightarrow> string" where
  "uuid_bytes u = map (\<lambda>i. char_of (unat u div 256 ^ i mod 256)) (rev [0..<16])"

text \<open>The chain of one lane: \<open>n\<close> iterations counted up from \<open>iteration\<close>.\<close>

fun lane_chain :: "(string \<Rightarrow> string) \<Rightarrow> nat \<Rightarrow> nat \<Rightarrow> nat \<Rightarrow> string \<Rightarrow> string" where
  "lane_chain sha256 lane iteration 0 digest = digest"
| "lane_chain sha256 lane iteration (Suc n) digest =
     lane_chain sha256 lane (iteration + 1) n (sha256 (digest @ le_bytes8 lane @ le_bytes8 iteration))"

definition lane_digest :: "(string \<Rightarrow> string) \<Rightarrow> uuid \<Rightarrow> nat \<Rightarrow> nat \<Rightarrow> string" where
  "lane_digest sha256 job_id iterations lane =
     lane_chain sha256 lane 0 iterations
       (sha256 (''rampage.cpu-benchmark.v1'' @ [CHR 0x00] @ uuid_bytes job_id @ le_bytes8 lane))"

definition benchmark_lanes :: "work_claim \<Rightarrow> execution_error + u64" where
  "benchmark_lanes claim =
     (case List.find (\<lambda>r. rq_class r = CpuCompute \<and> rq_unit r = ''logical_core'') (cl_granted (wk_lease claim)) of
        None \<Rightarrow> Inl (InvalidArgument ''benchmark CPU grant'')
      | Some r \<Rightarrow>
          if 1 \<le> rq_available r \<and> rq_available r \<le> MAX_LANES then Inr (rq_available r)
          else Inl (InvalidArgument ''benchmark CPU grant''))"

definition benchmark_iterations :: "work_claim \<Rightarrow> u64 \<Rightarrow> execution_error + u64" where
  "benchmark_iterations claim lanes =
     (case argument claim ''iterations_per_lane'' of
        Inl e \<Rightarrow> Inl e
      | Inr text \<Rightarrow>
     case parse_u64 text of
        None \<Rightarrow> Inl (InvalidArgument ''iterations_per_lane'')
      | Some n \<Rightarrow>
          if \<not> (1 \<le> n \<and> n \<le> MAX_ITERATIONS_PER_LANE) \<or> sat_mul lanes n > MAX_TOTAL_ITERATIONS
          then Inl (InvalidArgument ''iterations_per_lane'') else Inr n)"

definition benchmark_report :: "'sk worker_lib \<Rightarrow> run_env \<Rightarrow> uuid \<Rightarrow> u64 \<Rightarrow> u64 \<Rightarrow> json" where
  "benchmark_report W env job_id lanes n =
     (let F = wl_float W; C = wl_crypto W;
          total_hashes = sat_mul lanes n;
          elapsed_seconds = fo_max F (re_elapsed_seconds env) (fo_epsilon F);
          hashes_per_second = fo_round_u64 F (fo_div F (fo_of_int F (uint total_hashes)) elapsed_seconds);
          lane_digests = map (lane_digest (cr_sha256 C) job_id (unat n)) [0..<unat lanes];
          result_digest = ''sha256:'' @ cr_hex_encode C (cr_sha256 C
            (''rampage.cpu-benchmark-result.v1'' @ [CHR 0x00] @ concat lane_digests))
      in JObject [(''elapsed_ms'', JFloat (fo_mul F (re_elapsed_seconds env) (fo_thousand F))),
           (''hashes_per_second'', JPosInt hashes_per_second), (''iterations_per_lane'', JPosInt n),
           (''lanes'', JPosInt lanes), (''result_digest'', JString result_digest),
           (''schema'', JString ''rampage.cpu-benchmark-result.v1''), (''total_hashes'', JPosInt total_hashes)])"

definition run_cpu_benchmark :: "'sk worker_lib \<Rightarrow> run_env \<Rightarrow> work_claim \<Rightarrow> execution_error + string" where
  "run_cpu_benchmark W env claim =
     (case benchmark_lanes claim of
        Inl e \<Rightarrow> Inl e
      | Inr lanes \<Rightarrow>
     case benchmark_iterations claim lanes of
        Inl e \<Rightarrow> Inl e
      | Inr n \<Rightarrow>
          if re_lane_panics env then Inl (BackendUnavailable ''benchmark worker thread panicked'')
          else Inr (wl_json_text W (benchmark_report W env (js_job_id (wk_job claim)) lanes n)))"

definition is_model_char :: "char \<Rightarrow> bool" where
  "is_model_char c =
     (is_ascii_digit c \<or> (65 \<le> byte c \<and> byte c \<le> 90) \<or> (97 \<le> byte c \<and> byte c \<le> 122)
      \<or> c \<in> set ''.:_/-'')"

definition required_ollama_response :: "json \<Rightarrow> execution_error + string" where
  "required_ollama_response body =
     (case json_str ''response'' body of
        None \<Rightarrow> Inl (BackendUnavailable ''Ollama completed without user-visible answer text'')
      | Some value \<Rightarrow>
          if trim value = [] then Inl (BackendUnavailable ''Ollama completed without user-visible answer text'')
          else Inr value)"

definition run_ollama :: "'sk worker_lib \<Rightarrow> work_claim \<Rightarrow> execution_error + string" where
  "run_ollama W claim =
     (case argument claim ''model'' of
        Inl e \<Rightarrow> Inl e
      | Inr model \<Rightarrow>
     case argument claim ''prompt'' of
        Inl e \<Rightarrow> Inl e
      | Inr prompt \<Rightarrow>
     if model = [] \<or> length model > 200 \<or> \<not> list_all is_model_char model then Inl (InvalidArgument ''model'')
     else if length prompt > 128 * 1024 then Inl (InvalidArgument ''prompt'')
     else case (case fmlookup (js_arguments (wk_job claim)) ''max_tokens'' of
                  None \<Rightarrow> Some 512 | Some text \<Rightarrow> parse_u32 text) of
        None \<Rightarrow> Inl (InvalidArgument ''max_tokens'')
      | Some num_predict \<Rightarrow>
     case wl_ollama W model prompt (min (max num_predict 1) 4096) of
        Inl e \<Rightarrow> Inl (BackendUnavailable e)
      | Inr body \<Rightarrow> required_ollama_response body)"

definition hash_artifact_report :: "artifact_ref \<Rightarrow> string \<Rightarrow> json" where
  "hash_artifact_report input observed_digest =
     JObject [(''input_digest'', JString (ar_digest input)), (''input_size_bytes'', JPosInt (ar_size_bytes input)),
       (''observed_digest'', JString observed_digest), (''schema'', JString ''rampage.artifact-hash-result.v1'')]"

definition run_hash_artifact ::
  "'sk worker_lib \<Rightarrow> run_env \<Rightarrow> work_claim \<Rightarrow> cas_store option
     \<Rightarrow> (execution_error + adapter_output) \<times> cas_store option" where
  "run_hash_artifact W env claim store =
     (case store of
        None \<Rightarrow> (Inl (BackendUnavailable ''artifact store is unavailable''), store)
      | Some st \<Rightarrow>
     case js_inputs (wk_job claim) of
        [input] \<Rightarrow>
          (case head (wl_cas W) (ar_digest input) st of
             Inl e \<Rightarrow> (Inl (BackendUnavailable (wl_error_text W e)), store)
           | Inr stored \<Rightarrow>
          if ar_size_bytes stored \<noteq> ar_size_bytes input \<or> ar_media_type stored \<noteq> ar_media_type input
          then (Inl (InvalidArgument ''input artifact metadata''), store)
          else case get (wl_cas W) (ar_digest input) st of
             Inl e \<Rightarrow> (Inl (BackendUnavailable (wl_error_text W e)), store)
           | Inr payload \<Rightarrow>
          let observed_digest = ''sha256:'' @ cl_sha256_hex (wl_cas W) payload in
          if observed_digest \<noteq> ar_digest input
          then (Inl (InvalidArgument ''input artifact digest''), store)
          else let report = wl_json_text W (hash_artifact_report input observed_digest) in
          case put (wl_cas W) (re_put_now env) (re_random env) report
                 \<lparr>po_media_type = ''application/json'', po_storage_class = Cache, po_required_replicas = 1\<rparr> st of
             (Inl e, st) \<Rightarrow> (Inl (BackendUnavailable (wl_error_text W e)), Some st)
           | (Inr output, st) \<Rightarrow> (Inr \<lparr>ao_text = report, ao_artifacts = [output]\<rparr>, Some st))
      | _ \<Rightarrow> (Inl (MissingArgument ''one input artifact''), store))"

definition run_adapter ::
  "'sk worker_lib \<Rightarrow> run_env \<Rightarrow> work_claim \<Rightarrow> cas_store option
     \<Rightarrow> (execution_error + adapter_output) \<times> cas_store option" where
  "run_adapter W env claim store =
     (let adapter = js_adapter (wk_job claim); operation = js_operation (wk_job claim) in
      if adapter = ''rampage.echo.v1'' \<and> operation = ''echo''
      then (map_sum id adapter_text (argument claim ''value''), store)
      else if adapter = ''rampage.hash.v1'' \<and> operation = ''hash'' then (run_hash W claim, store)
      else if adapter = ''rampage.eval-shard.v1'' \<and> operation = ''score'' then (run_score W claim, store)
      else if adapter = ''rampage.benchmark.v1'' \<and> operation = ''sha256_chain''
      then (map_sum id adapter_text (run_cpu_benchmark W env claim), store)
      else if adapter = ''rampage.ollama.v1'' \<and> operation = ''generate''
      then (map_sum id adapter_text (run_ollama W claim), store)
      else if adapter = ''rampage.artifact-hash.v1'' \<and> operation = ''hash_artifact''
      then run_hash_artifact W env claim store
      else (Inl UnsupportedAdapter, store))"

section \<open>Execution\<close>

text \<open>The checks before anything is consumed, in the order of the source.\<close>

definition check_claim ::
  "'sk worker_lib \<Rightarrow> work_claim \<Rightarrow> uuid \<Rightarrow> u64 \<Rightarrow> datetime \<Rightarrow> execution_error + unit" where
  "check_claim W claim node_id fencing_epoch now =
     (let lease = wk_lease claim; job = wk_job claim in
      if wk_schema claim \<noteq> work_claim_SCHEMA then Inl ClaimWrongSchema
      else if cl_node_id lease \<noteq> node_id then Inl WrongNode
      else if cl_job_id lease \<noteq> js_job_id job \<or> cl_project_id lease \<noteq> js_project_id job
              \<or> cl_adapter lease \<noteq> js_adapter job \<or> cl_operation lease \<noteq> js_operation job
      then Inl LeaseMismatch
      else case verify_lease_with_key (wl_crypto W) (wk_governor_public_key claim) lease of
        Inl _ \<Rightarrow> Inl InvalidLease
      | Inr _ \<Rightarrow> if \<not> lease_is_active_at lease now fencing_epoch then Inl InactiveLease else Inr ())"

definition num_microseconds :: "int \<Rightarrow> int" where
  "num_microseconds d =
     (let us = (if 0 \<le> d then d div 1000 else - ((- d) div 1000))
      in if - (2 ^ 63) \<le> us \<and> us < 2 ^ 63 then us else 0)"

definition digest_text :: "'sk worker_lib \<Rightarrow> string \<Rightarrow> string" where
  "digest_text W text = ''sha256:'' @ cr_hex_encode (wl_crypto W) (cr_sha256 (wl_crypto W) text)"

definition unsigned_receipt ::
  "'sk worker_lib \<Rightarrow> run_env \<Rightarrow> work_claim \<Rightarrow> uuid \<Rightarrow> execution_error + adapter_output \<Rightarrow> execution_receipt" where
  "unsigned_receipt W env claim node_id execution =
     (let F = wl_float W;
          output_bytes = (case execution of Inl _ \<Rightarrow> 0 | Inr output \<Rightarrow> int (length (ao_text output)))
      in \<lparr>er_schema = ''rampage.execution-receipt.v1'', er_receipt_id = re_receipt_id env,
          er_lease_id = cl_lease_id (wk_lease claim), er_job_id = js_job_id (wk_job claim), er_node_id = node_id,
          er_state = (case execution of Inl _ \<Rightarrow> Failed | Inr _ \<Rightarrow> Succeeded),
          er_started_at = re_started_at env, er_finished_at = re_finished_at env,
          er_outputs = (case execution of Inl _ \<Rightarrow> [] | Inr output \<Rightarrow> ao_artifacts output),
          er_metrics = fmap_of_list [(''wall_time_ms'',
             fo_div F (fo_of_int F (num_microseconds (re_finished_at env - re_started_at env))) (fo_thousand F)),
             (''output_bytes'', fo_of_int F output_bytes)],
          er_stdout_digest = (case execution of Inl _ \<Rightarrow> None | Inr output \<Rightarrow> Some (digest_text W (ao_text output))),
          er_stderr_digest = (case execution of Inl e \<Rightarrow> Some (digest_text W (execution_error_text e)) | Inr _ \<Rightarrow> None),
          er_result = (case execution of Inl _ \<Rightarrow> None | Inr output \<Rightarrow> Some (JString (ao_text output))),
          er_signature = []\<rparr>)"

definition execute_claim_inner ::
  "'sk worker_lib \<Rightarrow> run_env \<Rightarrow> work_claim \<Rightarrow> uuid \<Rightarrow> u64 \<Rightarrow> 'sk \<Rightarrow> cas_store option
     \<Rightarrow> (execution_error + execution_receipt) \<times> cas_store option" where
  "execute_claim_inner W env claim node_id fencing_epoch signing_key store =
     (case check_claim W claim node_id fencing_epoch (re_now env) of
        Inl e \<Rightarrow> (Inl e, store)
      | Inr _ \<Rightarrow>
     case (case store of
             None \<Rightarrow> (Inr (), None)
           | Some st \<Rightarrow>
               (case accept_authority ''governor'' (cl_fencing_epoch (wk_lease claim)) (cl_nonce (wk_lease claim))
                       (cl_expires_at (wk_lease claim)) (re_authority_now env) st of
                  (Inl e, st) \<Rightarrow> (Inl (AuthorityState (wl_error_text W e)), Some st)
                | (Inr _, st) \<Rightarrow> (Inr (), Some st))) of
        (Inl e, store) \<Rightarrow> (Inl e, store)
      | (Inr _, store) \<Rightarrow>
          (case run_adapter W env claim store of
             (execution, store) \<Rightarrow>
               (Inr (sign_receipt (wl_crypto W) signing_key (unsigned_receipt W env claim node_id execution)), store)))"

definition execute_claim ::
  "'sk worker_lib \<Rightarrow> run_env \<Rightarrow> work_claim \<Rightarrow> uuid \<Rightarrow> u64 \<Rightarrow> 'sk \<Rightarrow> execution_error + execution_receipt" where
  "execute_claim W env claim node_id fencing_epoch signing_key =
     fst (execute_claim_inner W env claim node_id fencing_epoch signing_key None)"

definition execute_claim_with_store ::
  "'sk worker_lib \<Rightarrow> run_env \<Rightarrow> work_claim \<Rightarrow> uuid \<Rightarrow> u64 \<Rightarrow> 'sk \<Rightarrow> cas_store
     \<Rightarrow> (execution_error + execution_receipt) \<times> cas_store" where
  "execute_claim_with_store W env claim node_id fencing_epoch signing_key st =
     (case execute_claim_inner W env claim node_id fencing_epoch signing_key (Some st) of
        (r, Some st') \<Rightarrow> (r, st')
      | (r, None) \<Rightarrow> (r, st))"

end
