(* ===== verification/Rampage_Execution.thy ===== *)
theory Rampage_Execution
  imports Rampage_Worker Rampage_Store
begin

text \<open>
  What a worker's execution guarantees: no claim runs without authority for this node and this job, a
  lease is spent by the execution and never runs again, the receipt verifies under the identity of the
  node, and the benchmark's work is bounded. The key that vouches for the lease comes with the claim.
\<close>

section \<open>What a receipt proves\<close>

lemma check_claim_Inr:
  assumes "check_claim W claim node_id fencing_epoch now = Inr u"
  shows "wk_schema claim = work_claim_SCHEMA" "cl_node_id (wk_lease claim) = node_id"
    "cl_job_id (wk_lease claim) = js_job_id (wk_job claim)"
    "cl_project_id (wk_lease claim) = js_project_id (wk_job claim)"
    "cl_adapter (wk_lease claim) = js_adapter (wk_job claim)"
    "cl_operation (wk_lease claim) = js_operation (wk_job claim)"
    "verify_lease_with_key (wl_crypto W) (wk_governor_public_key claim) (wk_lease claim) = Inr ()"
    "lease_is_active_at (wk_lease claim) now fencing_epoch"
  using assms by (auto simp: check_claim_def Let_def split: if_splits sum.splits)

text \<open>An execution that returns a receipt: the checks passed, the nonce was accepted, the adapter ran.\<close>

lemma execute_with_store_Inr:
  assumes "execute_claim_with_store W env claim node_id fencing_epoch signing_key st = (Inr receipt, st')"
  obtains st0 execution where "check_claim W claim node_id fencing_epoch (re_now env) = Inr ()"
    "accept_authority ''governor'' (cl_fencing_epoch (wk_lease claim)) (cl_nonce (wk_lease claim))
       (cl_expires_at (wk_lease claim)) (re_authority_now env) st = (Inr (), st0)"
    "run_adapter W env claim (Some st0) = (execution, Some st')
     \<or> run_adapter W env claim (Some st0) = (execution, None) \<and> st' = st"
    "receipt = sign_receipt (wl_crypto W) signing_key (unsigned_receipt W env claim node_id execution)"
  using assms that
  by (fastforce simp: execute_claim_with_store_def execute_claim_inner_def split: sum.splits prod.splits option.splits)

lemma run_hash_artifact_store:
  assumes "run_hash_artifact W env claim (Some st) = (execution, store)"
  obtains st' where "store = Some st'" "cs_nonces st' = cs_nonces st"
proof -
  have frame: "cs_nonces (snd (put (wl_cas W) now random p opts st)) = cs_nonces st" for now random p opts
    using put_frame [of st "wl_cas W" now random p opts] by (simp add: same_authority_def)
  show ?thesis
    using assms that frame
    by (fastforce simp: run_hash_artifact_def Let_def split: list.splits sum.splits if_splits prod.splits
        dest: arg_cong [where f = snd])
qed

lemma run_adapter_store:
  assumes "run_adapter W env claim (Some st) = (execution, store)"
  obtains st' where "store = Some st'" "cs_nonces st' = cs_nonces st"
  using assms that
  by (auto simp: run_adapter_def Let_def split: if_splits elim: run_hash_artifact_store)

lemma execution_spends_nonce:
  assumes "execute_claim_with_store W env claim node_id fencing_epoch signing_key st = (Inr receipt, st')"
  shows "cs_nonces st' (''governor'', cl_nonce (wk_lease claim)) = Some (timestamp_millis (cl_expires_at (wk_lease claim)))"
proof -
  obtain st0 execution where acc: "accept_authority ''governor'' (cl_fencing_epoch (wk_lease claim)) (cl_nonce (wk_lease claim))
       (cl_expires_at (wk_lease claim)) (re_authority_now env) st = (Inr (), st0)"
    and run: "run_adapter W env claim (Some st0) = (execution, Some st')
     \<or> run_adapter W env claim (Some st0) = (execution, None) \<and> st' = st"
    using assms by (rule execute_with_store_Inr)
  have "cs_nonces st0 (''governor'', cl_nonce (wk_lease claim)) = Some (timestamp_millis (cl_expires_at (wk_lease claim)))"
    using accept_Inr(1) [OF accept_authority_Inr(1) [OF acc]] by simp
  then show ?thesis using run by (auto elim: run_adapter_store)
qed

text \<open>
  C37. A lease runs at most once. After a worker has executed a claim against its store, and after any
  further operations of the store (uploads, other claims, other authorities, damaged files) at times
  up to the reading of the clock, executing a claim with the same lease fails, under whatever epoch
  and for whatever node: the nonce stays consumed until the lease has expired.
\<close>

theorem claim_executes_at_most_once:
  assumes "execute_claim_with_store W env claim node_id fencing_epoch signing_key st = (Inr receipt, st1)"
    and "cas_run (wl_cas W) (re_authority_now env') st1 st2"
    and "wk_lease claim' = wk_lease claim"
  shows "\<exists>error. fst (execute_claim_with_store W env' claim' node_id' fencing_epoch' signing_key' st2) = Inl error"
proof (rule ccontr)
  assume "\<not> ?thesis"
  then obtain receipt' st3 where
    again: "execute_claim_with_store W env' claim' node_id' fencing_epoch' signing_key' st2 = (Inr receipt', st3)"
    by (metis obj_sumE prod.exhaust_sel)
  obtain st0 where acc: "accept_authority ''governor'' (cl_fencing_epoch (wk_lease claim)) (cl_nonce (wk_lease claim))
       (cl_expires_at (wk_lease claim)) (re_authority_now env') st2 = (Inr (), st0)"
    using again assms(3) by (metis execute_with_store_Inr)
  have live: "timestamp_millis (re_authority_now env') < timestamp_millis (cl_expires_at (wk_lease claim))"
    by (rule accept_authority_Inr(2) [OF acc])
  have run: "vault.run (wl_cas W) (re_authority_now env') st1 st2" using assms(2) by (simp add: vault_run)
  have "cs_nonces st2 (''governor'', cl_nonce (wk_lease claim)) = Some (timestamp_millis (cl_expires_at (wk_lease claim)))"
    by (rule vault.spent_while_live [OF run execution_spends_nonce [OF assms(1)] live])
  from spent_refused [OF this live] acc show False by (metis fst_conv)
qed

text \<open>
  A receipt is evidence. When an execution returns a receipt, the claim was addressed to this
  node, its lease describes the job and verified and was active at the epoch; the receipt names that
  lease, job and node, reports success exactly when the adapter succeeded, carries the digest of what
  the adapter printed or of the error, and verifies under the identity the node is enrolled with.
\<close>

theorem receipt_is_evidence:
  assumes "crypto_ok (wl_crypto W)" and "ni_public_key identity = public_hex (wl_crypto W) signing_key"
    and "ni_node_id identity = node_id"
    and "execute_claim_inner W env claim node_id fencing_epoch signing_key store = (Inr receipt, store')"
  shows "check_claim W claim node_id fencing_epoch (re_now env) = Inr ()
     \<and> verify_receipt (wl_crypto W) identity receipt = Inr ()
     \<and> er_lease_id receipt = cl_lease_id (wk_lease claim) \<and> er_job_id receipt = js_job_id (wk_job claim)
     \<and> (\<exists>store0 execution. run_adapter W env claim store0 = (execution, store')
         \<and> (case execution of
              Inl e \<Rightarrow> er_state receipt = Failed \<and> er_result receipt = None
                \<and> er_stderr_digest receipt = Some (digest_text W (execution_error_text e))
            | Inr output \<Rightarrow> er_state receipt = Succeeded \<and> er_result receipt = Some (JString (ao_text output))
                \<and> er_stdout_digest receipt = Some (digest_text W (ao_text output))
                \<and> er_outputs receipt = ao_artifacts output))"
proof -
  obtain store0 execution where chk: "check_claim W claim node_id fencing_epoch (re_now env) = Inr ()"
    and run: "run_adapter W env claim store0 = (execution, store')"
    and rec: "receipt = sign_receipt (wl_crypto W) signing_key (unsigned_receipt W env claim node_id execution)"
    using assms(4) by (fastforce simp: execute_claim_inner_def split: sum.splits prod.splits option.splits)
  have "verify_receipt (wl_crypto W) identity receipt = Inr ()"
    using receipt_sig.signed_verifies [OF assms(1), of signing_key "unsigned_receipt W env claim node_id execution"]
    by (simp add: rec assms(2,3) verify_receipt_def sign_receipt_def receipt_sig.message_def receipt_sig.signed_def
        unsigned_receipt_def Let_def)
  moreover have "er_lease_id receipt = cl_lease_id (wk_lease claim) \<and> er_job_id receipt = js_job_id (wk_job claim)
     \<and> (case execution of
              Inl e \<Rightarrow> er_state receipt = Failed \<and> er_result receipt = None
                \<and> er_stderr_digest receipt = Some (digest_text W (execution_error_text e))
            | Inr output \<Rightarrow> er_state receipt = Succeeded \<and> er_result receipt = Some (JString (ao_text output))
                \<and> er_stdout_digest receipt = Some (digest_text W (ao_text output))
                \<and> er_outputs receipt = ao_artifacts output)"
    by (cases execution) (simp_all add: rec sign_receipt_def unsigned_receipt_def Let_def)
  ultimately show ?thesis using chk run by blast
qed

section \<open>The benchmark\<close>

text \<open>The loop of a lane is a fold over its iteration numbers.\<close>

lemma lane_chain_fold:
  "lane_chain sha256 lane i n digest
     = foldl (\<lambda>d k. sha256 (d @ le_bytes8 lane @ le_bytes8 k)) digest [i..<i + n]"
proof (induction n arbitrary: i digest)
  case (Suc n)
  have "[i..<i + Suc n] = i # [Suc i..<Suc i + n]" by (simp add: upt_conv_Cons)
  then show ?case using Suc by simp
qed simp

text \<open>
  The benchmark's work is bounded by the grant. When the benchmark adapter returns a report, the
  lease grants it between one and 64 logical cores, it ran that many lanes, each of between one and
  twenty million iterations and together at most four hundred million, and each lane's digest is the
  iterated hash over exactly those iterations.
\<close>

theorem benchmark_work_bounded:
  assumes "run_cpu_benchmark W env claim = Inr text"
  shows "\<exists>grant lanes n. grant \<in> set (cl_granted (wk_lease claim)) \<and> rq_class grant = CpuCompute
     \<and> rq_available grant = lanes \<and> 1 \<le> unat lanes \<and> unat lanes \<le> 64
     \<and> 1 \<le> unat n \<and> unat n \<le> 20000000 \<and> unat lanes * unat n \<le> 400000000
     \<and> text = wl_json_text W (benchmark_report W env (js_job_id (wk_job claim)) lanes n)
     \<and> lane_digest (cr_sha256 (wl_crypto W)) (js_job_id (wk_job claim)) (unat n) lane
       = foldl (\<lambda>d k. cr_sha256 (wl_crypto W) (d @ le_bytes8 lane @ le_bytes8 k))
           (cr_sha256 (wl_crypto W) (''rampage.cpu-benchmark.v1'' @ [CHR 0x00] @ uuid_bytes (js_job_id (wk_job claim))
              @ le_bytes8 lane)) [0..<unat n]"
proof -
  from assms obtain lanes n where lanes: "benchmark_lanes claim = Inr lanes"
    and iters: "benchmark_iterations claim lanes = Inr n"
    and report: "text = wl_json_text W (benchmark_report W env (js_job_id (wk_job claim)) lanes n)"
    by (auto simp: run_cpu_benchmark_def split: sum.splits if_splits)
  from lanes obtain grant where g: "grant \<in> set (cl_granted (wk_lease claim))" "rq_class grant = CpuCompute"
    "rq_available grant = lanes" "1 \<le> lanes" "lanes \<le> MAX_LANES"
    by (auto simp: benchmark_lanes_def find_Some_iff split: option.splits if_splits) (metis nth_mem)
  from iters have n: "1 \<le> n" "n \<le> MAX_ITERATIONS_PER_LANE" "sat_mul lanes n \<le> MAX_TOTAL_ITERATIONS"
    by (auto simp: benchmark_iterations_def not_less split: sum.splits option.splits if_splits)
  have "min (unat lanes * unat n) (2 ^ 64 - 1) \<le> 400000000"
    using n(3) by (simp add: word_le_nat_alt unat_sat_mul MAX_TOTAL_ITERATIONS_def)
  then have "unat lanes * unat n \<le> 400000000" by (simp add: min_def split: if_splits)
  moreover have "1 \<le> unat lanes" "unat lanes \<le> 64" "1 \<le> unat n" "unat n \<le> 20000000"
    using g(4,5) n(1,2) by (simp_all add: word_le_nat_alt MAX_LANES_def MAX_ITERATIONS_PER_LANE_def)
  ultimately show ?thesis
    using g report by (fastforce simp: lane_digest_def lane_chain_fold)
qed

section \<open>Whose authority\<close>

text \<open>
  The claim brings its own authority. Whatever key the worker has pinned for its Governor, a claim
  whose lease is signed by any key at all passes every check when it also carries that key as
  \<open>governor_public_key\<close> and otherwise describes the job, this node and a current validity, and it
  passes under its own fencing epoch, the one the callers supply.
\<close>

theorem any_signer_may_vouch:
  assumes "crypto_ok (wl_crypto W)"
    and "wk_schema claim = work_claim_SCHEMA" "cl_node_id lease = node_id"
    and "cl_job_id lease = js_job_id (wk_job claim)" "cl_project_id lease = js_project_id (wk_job claim)"
    and "cl_adapter lease = js_adapter (wk_job claim)" "cl_operation lease = js_operation (wk_job claim)"
    and "cl_schema lease = capability_lease_SCHEMA" "lease_has_started (cl_issued_at lease) now"
      "now < cl_expires_at lease"
    and "cl_signature lease = sign_hex (wl_crypto W) k (lease_message (wl_crypto W) lease)"
  shows "check_claim W (claim\<lparr>wk_lease := lease, wk_governor_public_key := public_hex (wl_crypto W) k\<rparr>)
     node_id (cl_fencing_epoch lease) now = Inr ()"
proof -
  have "verify_lease_with_key (wl_crypto W) (public_hex (wl_crypto W) k) lease = Inr ()"
    using assms(1,11) by (intro signed_lease_verifies) auto
  moreover have "cl_signature lease \<noteq> []"
    using assms(1,11) by (auto simp: sign_hex_def crypto_laws dest: arg_cong [where f = length])
  ultimately show ?thesis
    using assms by (simp add: check_claim_def lease_is_active_at_def)
qed

section \<open>A concrete worker\<close>

definition demo_float :: float_ops where
  "demo_float = \<lparr>fo_parse = (\<lambda>_. Some 0), fo_zero = 0, fo_epsilon = 0, fo_thousand = 0, fo_add = (\<lambda>a _. a),
     fo_mul = (\<lambda>a _. a), fo_div = (\<lambda>a _. a), fo_max = (\<lambda>a _. a), fo_of_int = (\<lambda>_. 0),
     fo_round_u64 = (\<lambda>_. 0), fo_show12 = (\<lambda>_. ''0.0'')\<rparr>"

definition demo_worker_lib :: "unit worker_lib" where
  "demo_worker_lib = \<lparr>wl_crypto = demo_crypto, wl_cas = demo_cas, wl_float = demo_float,
     wl_error_text = (\<lambda>_. ''refused''), wl_json_text = (\<lambda>_. ''report''), wl_ollama = (\<lambda>_ _ _. Inl ''offline'')\<rparr>"

definition demo_run :: run_env where
  "demo_run = \<lparr>re_now = 0, re_authority_now = 0, re_started_at = 0, re_put_now = 0, re_finished_at = 1000,
     re_random = (\<lambda>_. None), re_receipt_id = 9, re_elapsed_seconds = 0, re_lane_panics = False\<rparr>"

definition demo_work :: "string \<Rightarrow> string \<Rightarrow> (string, string) fmap \<Rightarrow> work_claim" where
  "demo_work adapter operation arguments =
     \<lparr>wk_schema = work_claim_SCHEMA,
      wk_job = \<lparr>js_schema = job_spec_SCHEMA, js_job_id = 3, js_project_id = 4, js_submitted_by = 5,
        js_adapter = adapter, js_operation = operation, js_arguments = arguments, js_inputs = [],
        js_requests = [], js_trust = NativeTrusted, js_restart_tolerant = True, js_network_allowlist = {||},
        js_deadline = seconds 60, js_idempotency_key = ''k''\<rparr>,
      wk_lease = \<lparr>cl_schema = capability_lease_SCHEMA, cl_lease_id = 2, cl_job_id = 3, cl_node_id = 7,
        cl_project_id = 4, cl_adapter = adapter, cl_operation = operation, cl_input_digests = {||},
        cl_granted = [\<lparr>rq_class = CpuCompute, rq_capacity = 2, rq_available = 2, rq_unit = ''logical_core'',
          rq_labels = fmempty\<rparr>],
        cl_network_allowlist = {||}, cl_issued_at = 0, cl_expires_at = seconds 60, cl_nonce = ''n'',
        cl_fencing_epoch = 1, cl_signature = sign_hex demo_crypto () []\<rparr>,
      wk_governor_public_key = public_hex demo_crypto ()\<rparr>"

definition demo_echo :: work_claim where
  "demo_echo = demo_work ''rampage.echo.v1'' ''echo'' (fmap_of_list [(''value'', ''hi'')])"

lemma demo_echo_signed:
  "cl_signature (wk_lease demo_echo) = sign_hex demo_crypto () (lease_message demo_crypto (wk_lease demo_echo))"
  by (simp add: demo_echo_def demo_work_def sign_hex_def demo_crypto_def)

theorem any_signer_may_vouch_witness:
  "check_claim demo_worker_lib
     (demo_echo\<lparr>wk_lease := wk_lease demo_echo, wk_governor_public_key := public_hex demo_crypto ()\<rparr>) 7 1 0 = Inr ()"
proof -
  have c: "crypto_ok (wl_crypto demo_worker_lib)" by (simp add: demo_worker_lib_def demo_crypto_ok)
  have C: "wl_crypto demo_worker_lib = demo_crypto" by (simp add: demo_worker_lib_def)
  have e: "cl_fencing_epoch (wk_lease demo_echo) = 1" by (simp add: demo_echo_def demo_work_def)
  have "check_claim demo_worker_lib
     (demo_echo\<lparr>wk_lease := wk_lease demo_echo, wk_governor_public_key := public_hex (wl_crypto demo_worker_lib) ()\<rparr>) 7
     (cl_fencing_epoch (wk_lease demo_echo)) 0 = Inr ()"
    by (rule any_signer_may_vouch [OF c])
       (use demo_echo_signed in \<open>simp_all add: C demo_echo_def demo_work_def lease_has_started_def seconds_def
          nanos_per_second_def protocol_limits\<close>)
  then show ?thesis by (simp add: C e)
qed

lemma demo_echo_checks: "check_claim demo_worker_lib demo_echo 7 1 0 = Inr ()"
proof -
  have "verify_lease_with_key demo_crypto (public_hex demo_crypto ()) (wk_lease demo_echo) = Inr ()"
    using signed_lease_verifies [OF demo_crypto_ok demo_echo_signed] .
  moreover have "cl_signature (wk_lease demo_echo) \<noteq> []"
    using crypto_okD(2) [OF demo_crypto_ok, of "cr_sign demo_crypto () []"] crypto_okD(7) [OF demo_crypto_ok]
    by (auto simp: demo_echo_def demo_work_def sign_hex_def)
  ultimately show ?thesis
    by (simp add: check_claim_def demo_worker_lib_def Let_def)
       (simp add: demo_echo_def demo_work_def lease_is_active_at_def lease_has_started_def
         seconds_def nanos_per_second_def protocol_limits)
qed

lemma demo_echo_runs:
  "\<exists>receipt st1. execute_claim_with_store demo_worker_lib demo_run demo_echo 7 1 () demo_store = (Inr receipt, st1)"
proof -
  have lease: "cl_fencing_epoch (wk_lease demo_echo) = 1" "cl_nonce (wk_lease demo_echo) = ''n''"
    "cl_expires_at (wk_lease demo_echo) = seconds 60"
    by (simp_all add: demo_echo_def demo_work_def)
  obtain st0 where "accept_authority ''governor'' 1 ''n'' (seconds 60) 0 demo_store = (Inr (), st0)"
    by (simp add: accept_authority_def accept_authority_in_transaction_def ensure_epoch_is_current_def
        demo_store_def open_with_limits_def delete_expired_nonces_def i64_try_from_def i64_max_def is_ascii_def byte_def
        timestamp_millis_def seconds_def nanos_per_second_def Let_def)
  moreover have "run_adapter demo_worker_lib demo_run demo_echo (Some st) = (Inr (adapter_text ''hi''), Some st)" for st
    by (simp add: run_adapter_def demo_echo_def demo_work_def argument_def)
  moreover have "re_now demo_run = 0" "re_authority_now demo_run = 0" by (simp_all add: demo_run_def)
  ultimately show ?thesis
    using demo_echo_checks by (simp add: execute_claim_with_store_def execute_claim_inner_def lease)
qed

theorem claim_executes_at_most_once_witness:
  "\<exists>receipt st1 error. execute_claim_with_store demo_worker_lib demo_run demo_echo 7 1 () demo_store = (Inr receipt, st1)
     \<and> fst (execute_claim_with_store demo_worker_lib demo_run demo_echo 7 1 () st1) = Inl error"
proof -
  obtain receipt st1 where x: "execute_claim_with_store demo_worker_lib demo_run demo_echo 7 1 () demo_store = (Inr receipt, st1)"
    using demo_echo_runs by blast
  have "cas_run (wl_cas demo_worker_lib) (re_authority_now demo_run) st1 st1" by (simp add: cas_run_def)
  from claim_executes_at_most_once [OF x this refl] x show ?thesis by blast
qed

theorem receipt_is_evidence_witness:
  "\<exists>receipt st1. execute_claim_inner demo_worker_lib demo_run demo_echo 7 1 () (Some demo_store) = (Inr receipt, st1)
     \<and> verify_receipt demo_crypto demo_identity receipt = Inr ()"
proof -
  obtain receipt st1 where x: "execute_claim_inner demo_worker_lib demo_run demo_echo 7 1 () (Some demo_store) = (Inr receipt, st1)"
    using demo_echo_runs by (auto simp: execute_claim_with_store_def split: prod.splits option.splits)
  have "crypto_ok (wl_crypto demo_worker_lib)" "ni_public_key demo_identity = public_hex (wl_crypto demo_worker_lib) ()"
    "ni_node_id demo_identity = 7"
    by (simp_all add: demo_worker_lib_def demo_crypto_ok demo_identity_def)
  from receipt_is_evidence [OF this x] x show ?thesis by (auto simp: demo_worker_lib_def)
qed

theorem benchmark_work_bounded_witness:
  "\<exists>lanes n. run_cpu_benchmark demo_worker_lib demo_run
       (demo_work ''rampage.benchmark.v1'' ''sha256_chain'' (fmap_of_list [(''iterations_per_lane'', ''5'')])) = Inr ''report''
     \<and> unat lanes * unat n \<le> 400000000 \<and> 1 \<le> unat (lanes :: u64) \<and> 1 \<le> unat (n :: u64)"
proof -
  have p: "parse_u64 ''5'' = Some 5"
    by (simp add: parse_u64_def parse_unsigned_def is_ascii_digit_def byte_def)
  have m: "sat_mul 2 5 = (10 :: u64)" by (simp add: sat_mul_def)
  have r: "run_cpu_benchmark demo_worker_lib demo_run
      (demo_work ''rampage.benchmark.v1'' ''sha256_chain'' (fmap_of_list [(''iterations_per_lane'', ''5'')])) = Inr ''report''"
    by (simp add: run_cpu_benchmark_def benchmark_lanes_def benchmark_iterations_def argument_def demo_work_def
        demo_run_def demo_worker_lib_def p m MAX_LANES_def MAX_ITERATIONS_PER_LANE_def MAX_TOTAL_ITERATIONS_def)
  from benchmark_work_bounded [OF r] r show ?thesis by blast
qed

end
