(* ===== verification/Rampage_Edge.thy ===== *)
theory Rampage_Edge
  imports Rampage_Worker Rampage_Mesh
begin

text \<open>
  The foreground contributor of a phone or tablet (\<open>crates/rampage-edge/src/lib.rs\<close>): the owner's
  conditions on the telemetry, the first enrollment with its pinned controller, the signed offer of a
  pulse, the execution of a claim and the outbox of receipts. The data directory is the record
  \<open>edge_disk\<close>: a JSON file is absent, holds a value, or cannot be read as one. What the controller
  answers to each request of a call, the clock, identifiers and random bytes are parameters, as are
  the cryptography, the address and UUID parsers, the lengths of printed JSON values and the texts of
  foreign errors.
\<close>

section \<open>Telemetry\<close>

definition MINIMUM_BATTERY_PERCENT :: u8 where
  "MINIMUM_BATTERY_PERCENT = 40"

definition MINIMUM_THERMAL_HEADROOM_PERCENT :: u8 where
  "MINIMUM_THERMAL_HEADROOM_PERCENT = 35"

definition OFFER_TTL_SECONDS :: int where
  "OFFER_TTL_SECONDS = 20"

definition edge_MAX_INVITATION_BYTES :: nat where
  "edge_MAX_INVITATION_BYTES = 256 * 1024"

record edge_telemetry =
  et_platform :: string
  et_device_kind :: string
  et_foreground :: bool
  et_donation_requested :: bool
  et_battery_percent :: u8
  et_on_external_power :: bool
  et_low_power_mode :: bool
  et_thermal_headroom_percent :: u8

definition eligible :: "edge_telemetry \<Rightarrow> bool" where
  "eligible t =
     (et_foreground t \<and> et_donation_requested t \<and> \<not> et_low_power_mode t
      \<and> (et_on_external_power t \<or> et_battery_percent t \<ge> MINIMUM_BATTERY_PERCENT)
      \<and> et_thermal_headroom_percent t \<ge> MINIMUM_THERMAL_HEADROOM_PERCENT
      \<and> (et_device_kind t = ''phone'' \<or> et_device_kind t = ''tablet'')
      \<and> (et_platform t = ''android'' \<or> et_platform t = ''ios''))"

definition edge_denial :: "edge_telemetry \<Rightarrow> string option" where
  "edge_denial t =
     (if \<not> (et_platform t = ''android'' \<or> et_platform t = ''ios'') then Some ''unsupported mobile platform''
      else if \<not> (et_device_kind t = ''phone'' \<or> et_device_kind t = ''tablet'')
      then Some ''native device class is not phone or tablet''
      else if \<not> et_foreground t \<or> \<not> et_donation_requested t then Some ''foreground donation is not active''
      else if et_low_power_mode t then Some ''low-power mode is active''
      else if \<not> et_on_external_power t \<and> et_battery_percent t < MINIMUM_BATTERY_PERCENT
      then Some ''battery reserve is below the owner floor''
      else if et_thermal_headroom_percent t < MINIMUM_THERMAL_HEADROOM_PERCENT
      then Some ''thermal headroom is below the owner floor''
      else None)"

definition denial_text :: "edge_telemetry \<Rightarrow> string" where
  "denial_text t = (case edge_denial t of None \<Rightarrow> ''edge policy denied'' | Some e \<Rightarrow> e)"

section \<open>State\<close>

record edge_session_snapshot =
  xs_node_id :: uuid
  xs_controller_endpoint_id :: string
  xs_enrolled :: bool
  xs_eligible :: bool
  xs_offer_expires_at :: "datetime option"
  xs_receipts_submitted :: u64
  xs_last_result :: string

record pinned_controller =
  pc_schema :: string
  pc_endpoint :: mesh_endpoint
  pc_governor_public_key :: string
  pc_enrolled_at :: datetime

record persistent_identity =
  pd_identity_schema :: string
  pd_identity :: node_identity

datatype 'a stored = Absent | Stored 'a | Unreadable string

record edge_disk =
  ed_kill :: bool
  ed_pin :: "pinned_controller stored"
  ed_identity :: "persistent_identity stored"
  ed_outbox :: "execution_receipt stored"
  ed_write_error :: "string \<Rightarrow> string option"
  ed_remove_error :: "string option"

record 'sk edge_worker =
  ew_signing_key :: 'sk
  ew_identity :: node_identity
  ew_authority_store :: cas_store
  ew_controller_endpoint_id :: string
  ew_receipts_submitted :: u64
  ew_offer_expires_at :: "datetime option"
  ew_last_result :: string

record ('sk, 'i, 'r) edge_lib =
  xl_worker :: "'sk worker_lib"
  xl_endpoint :: "('i, 'r) endpoint_lib"
  xl_key :: "string \<Rightarrow> 'sk"
  xl_parse_invitation :: "string \<Rightarrow> string + enrollment_invite"
  xl_parse_uuid :: "string \<Rightarrow> string + uuid"
  xl_parse_claim :: "json \<Rightarrow> string + work_claim option"
  xl_uuid_text :: "uuid \<Rightarrow> string"
  xl_mesh_text :: "mesh_error \<Rightarrow> string"
  xl_reject_text :: "u16 \<Rightarrow> json \<Rightarrow> string"
  xl_pin_bytes :: "pinned_controller \<Rightarrow> nat"
  xl_identity_bytes :: "persistent_identity \<Rightarrow> nat"
  xl_receipt_bytes :: "execution_receipt \<Rightarrow> nat"

abbreviation xl_crypto :: "('sk, 'i, 'r) edge_lib \<Rightarrow> 'sk crypto" where
  "xl_crypto X \<equiv> wl_crypto (xl_worker X)"

section \<open>Files\<close>

fun file_present :: "'a stored \<Rightarrow> bool" where
  "file_present Absent = False"
| "file_present _ = True"

text \<open>The content of a file, and the content with the bound of the contributor: a file written by
  \<open>write_json_atomic\<close> has the length \<open>size_of\<close> gives for its value, and is refused beyond \<open>max_bytes\<close>. A
  file of another origin that is too long is \<open>Unreadable\<close> with that error.\<close>

fun read_stored :: "'a stored \<Rightarrow> string + 'a" where
  "read_stored (Stored v) = Inr v"
| "read_stored (Unreadable e) = Inl e"
| "read_stored Absent = Inl ''not found''"

fun read_json :: "('a \<Rightarrow> nat) \<Rightarrow> nat \<Rightarrow> 'a stored \<Rightarrow> string + 'a" where
  "read_json size_of max_bytes (Stored v) =
     (if size_of v \<le> max_bytes then Inr v else Inl ''bounded JSON input is invalid'')"
| "read_json size_of max_bytes (Unreadable e) = Inl e"
| "read_json size_of max_bytes Absent = Inl ''not found''"

definition read_optional_json :: "('a \<Rightarrow> nat) \<Rightarrow> nat \<Rightarrow> 'a stored \<Rightarrow> string + 'a option" where
  "read_optional_json size_of max_bytes f =
     (if \<not> file_present f then Inr None else map_sum id Some (read_json size_of max_bytes f))"

text \<open>\<open>load_or_create_secret\<close>: the bytes of an existing file, or fresh bytes that are written.
  \<open>entropy\<close> is the answer of the random source, \<open>write_error\<close> that of the file system, \<open>hex_error\<close> the
  text of a decoding error. The second component is what the file holds afterwards.\<close>

definition load_or_create_secret ::
  "'sk crypto \<Rightarrow> string \<Rightarrow> string option \<Rightarrow> string + string \<Rightarrow> string option
     \<Rightarrow> (string + string) \<times> string option" where
  "load_or_create_secret C hex_error existing entropy write_error =
     (case existing of
        Some contents \<Rightarrow>
          (case cr_hex_decode C (trim contents) of
             None \<Rightarrow> (Inl hex_error, existing)
           | Some bytes \<Rightarrow>
               if length bytes = 32 then (Inr bytes, existing)
               else (Inl ''edge secret must contain exactly 32 bytes'', existing))
      | None \<Rightarrow>
          (case entropy of
             Inl e \<Rightarrow> (Inl e, None)
           | Inr bytes \<Rightarrow>
               (case write_error of
                  Some e \<Rightarrow> (Inl e, Some [])
                | None \<Rightarrow> (Inr bytes, Some (cr_hex_encode C bytes)))))"

section \<open>Invitations and pins\<close>

definition parse_invitation :: "('sk, 'i, 'r) edge_lib \<Rightarrow> string \<Rightarrow> string + enrollment_invite" where
  "parse_invitation X value =
     (if length value > edge_MAX_INVITATION_BYTES then Inl ''invitation exceeds 256 KiB''
      else xl_parse_invitation X value)"

definition parse_enrollment_code :: "('sk, 'i, 'r) edge_lib \<Rightarrow> string \<Rightarrow> string + uuid \<times> string" where
  "parse_enrollment_code X value =
     (case split_once CHR ''.'' value of
        None \<Rightarrow> Inl ''enrollment code has an invalid shape''
      | Some (invite_id, secret) \<Rightarrow>
          if \<not> (length secret = 32 \<and> list_all is_ascii_hexdigit secret)
          then Inl ''enrollment secret must contain exactly 32 hexadecimal characters''
          else (case xl_parse_uuid X invite_id of Inl e \<Rightarrow> Inl e | Inr parsed \<Rightarrow> Inr (parsed, secret)))"

definition parse_device_kind :: "string \<Rightarrow> string + device_kind" where
  "parse_device_kind value =
     (if value = ''phone'' then Inr Phone else if value = ''tablet'' then Inr Tablet
      else Inl ''native device class must be phone or tablet'')"

fun edge_device_kind_label :: "device_kind \<Rightarrow> string" where
  "edge_device_kind_label Phone = ''phone''"
| "edge_device_kind_label Tablet = ''tablet''"
| "edge_device_kind_label _ = ''unsupported''"

text \<open>The three times are the readings of the clock: for the invitation and, in the policy crate, twice
  for the endpoint.\<close>

definition validate_fresh_invitation ::
  "('sk, 'i, 'r) edge_lib \<Rightarrow> datetime \<Rightarrow> datetime \<Rightarrow> datetime \<Rightarrow> enrollment_invite \<Rightarrow> string + unit" where
  "validate_fresh_invitation X now now1 now2 invite =
     (if \<not> (ei_schema invite = ''rampage.enrollment-invite.v1'' \<and> ei_expires_at invite > now)
      then Inl ''invitation is expired or has an unsupported schema''
      else case ei_controller_mesh invite of
        None \<Rightarrow> Inl ''invitation omitted its controller mesh endpoint''
      | Some endpoint \<Rightarrow>
     case ei_governor_public_key invite of
        None \<Rightarrow> Inl ''invitation omitted its Governor public key''
      | Some governor_key \<Rightarrow>
     case verify_mesh_endpoint_with_key (xl_crypto X) now1 now2 governor_key endpoint of
        Inl _ \<Rightarrow> Inl ''invitation controller endpoint signature is invalid''
      | Inr _ \<Rightarrow>
     case parse_enrollment_code X (ei_enrollment_code invite) of
        Inl e \<Rightarrow> Inl e
      | Inr (code_id, secret) \<Rightarrow>
          if code_id = ei_invite_id invite \<and> length secret \<ge> 32 then Inr ()
          else Inl ''enrollment code is malformed'')"

definition validate_pin :: "('sk, 'i, 'r) edge_lib \<Rightarrow> pinned_controller \<Rightarrow> string + unit" where
  "validate_pin X pin =
     (if pc_schema pin \<noteq> ''rampage.pinned-controller.v1'' then Inl ''unsupported controller pin schema''
      else if \<not> (length (me_endpoint_id (pc_endpoint pin)) = 64
                 \<and> list_all is_ascii_hexdigit (me_endpoint_id (pc_endpoint pin))
                 \<and> length (pc_governor_public_key pin) = 64
                 \<and> list_all is_ascii_hexdigit (pc_governor_public_key pin))
      then Inl ''controller pin contains a malformed identity''
      else case verify_pinned_mesh_endpoint_with_key (xl_crypto X) (pc_governor_public_key pin) (pc_endpoint pin) of
        Inl _ \<Rightarrow> Inl ''stored controller route signature is invalid''
      | Inr _ \<Rightarrow>
     case endpoint_addr_from_pinned_record (xl_endpoint X) (pc_endpoint pin) of
        Inl e \<Rightarrow> Inl (xl_mesh_text X e)
      | Inr _ \<Rightarrow> Inr ())"

definition edge_mesh_config :: "('sk, 'i, 'r) edge_lib \<Rightarrow> mesh_endpoint \<Rightarrow> string + mesh_config" where
  "edge_mesh_config X r =
     (let config = \<lparr>mc_schema = ''rampage.mesh-config.v1'',
            mc_mode = (if me_relay_urls r = [] then LocalOnly else PrivateRelay (me_relay_urls r)),
            mc_allowed_peer_keys = {|me_endpoint_id r|}\<rparr>
      in case mesh_config_validate (el_parse_relay (xl_endpoint X)) config of
           Inl e \<Rightarrow> Inl (xl_mesh_text X e) | Inr _ \<Rightarrow> Inr config)"

section \<open>Requests\<close>

definition post_json :: "('sk, 'i, 'r) edge_lib \<Rightarrow> string + mesh_control_response \<Rightarrow> string + unit" where
  "post_json X answer =
     (case answer of
        Inl e \<Rightarrow> Inl e
      | Inr response \<Rightarrow>
          if is_success (cs_status response) then Inr ()
          else Inl (xl_reject_text X (cs_status response) (cs_body response)))"

definition get_claim ::
  "('sk, 'i, 'r) edge_lib \<Rightarrow> string + mesh_control_response \<Rightarrow> string + work_claim option" where
  "get_claim X answer =
     (case answer of
        Inl e \<Rightarrow> Inl e
      | Inr response \<Rightarrow>
          if is_success (cs_status response) then xl_parse_claim X (cs_body response)
          else Inl (xl_reject_text X (cs_status response) (cs_body response)))"

definition enrollment_request_of ::
  "('sk, 'i, 'r) edge_lib \<Rightarrow> 'sk \<Rightarrow> node_identity \<Rightarrow> enrollment_invite \<Rightarrow> string + enrollment_request" where
  "enrollment_request_of X signing_key identity invitation =
     (case parse_enrollment_code X (ei_enrollment_code invitation) of
        Inl e \<Rightarrow> Inl e
      | Inr (invite_id, secret) \<Rightarrow>
          if invite_id \<noteq> ei_invite_id invitation then Inl ''invitation id and enrollment code differ''
          else Inr (sign_enrollment (xl_crypto X) signing_key
            \<lparr>en_schema = ''rampage.enrollment-request.v1'', en_invite_id = invite_id, en_enrollment_code = secret,
             en_identity = identity, en_signature = []\<rparr>))"

text \<open>\<open>answer\<close> is the controller's answer to the signed request.\<close>

definition enroll ::
  "('sk, 'i, 'r) edge_lib \<Rightarrow> (enrollment_request \<Rightarrow> string + mesh_control_response) \<Rightarrow> 'sk \<Rightarrow> node_identity
     \<Rightarrow> enrollment_invite \<Rightarrow> string + unit" where
  "enroll X answer signing_key identity invitation =
     (case enrollment_request_of X signing_key identity invitation of
        Inl e \<Rightarrow> Inl e
      | Inr request \<Rightarrow> post_json X (answer request))"

section \<open>Opening\<close>

record open_env =
  oe_mkdir :: "string + unit"
  oe_secret :: "string + string"
  oe_now :: datetime
  oe_now1 :: datetime
  oe_now2 :: datetime
  oe_pinned_now :: datetime
  oe_identity_now :: datetime
  oe_node_id :: uuid
  oe_owner_id :: uuid
  oe_bind :: "string + unit"
  oe_store :: "string + cas_store"
  oe_enroll :: "enrollment_request \<Rightarrow> string + mesh_control_response"

definition pin_for_open ::
  "('sk, 'i, 'r) edge_lib \<Rightarrow> open_env \<Rightarrow> pinned_controller option \<Rightarrow> enrollment_invite option
     \<Rightarrow> string + pinned_controller" where
  "pin_for_open X env existing_pin invitation =
     (case existing_pin of
        Some pin \<Rightarrow> (case validate_pin X pin of Inl e \<Rightarrow> Inl e | Inr _ \<Rightarrow> Inr pin)
      | None \<Rightarrow>
          (case invitation of
             None \<Rightarrow> Inl ''a fresh signed invitation is required for first enrollment''
           | Some invite \<Rightarrow>
               (case validate_fresh_invitation X (oe_now env) (oe_now1 env) (oe_now2 env) invite of
                  Inl e \<Rightarrow> Inl e
                | Inr _ \<Rightarrow>
                    Inr \<lparr>pc_schema = ''rampage.pinned-controller.v1'', pc_endpoint = the (ei_controller_mesh invite),
                         pc_governor_public_key = the (ei_governor_public_key invite),
                         pc_enrolled_at = oe_pinned_now env\<rparr>)))"

definition identity_for_open ::
  "('sk, 'i, 'r) edge_lib \<Rightarrow> open_env \<Rightarrow> 'sk \<Rightarrow> persistent_identity option \<Rightarrow> string \<Rightarrow> device_kind
     \<Rightarrow> edge_telemetry \<Rightarrow> string + node_identity" where
  "identity_for_open X env signing_key existing_identity display_name device_kind telemetry =
     (case existing_identity of
        Some persistent \<Rightarrow>
          if pd_identity_schema persistent \<noteq> ''rampage.persistent-edge-identity.v1''
          then Inl ''unsupported identity schema''
          else if ni_public_key (pd_identity persistent) \<noteq> public_hex (xl_crypto X) signing_key
          then Inl ''edge identity key mismatch''
          else if ni_device_kind (pd_identity persistent) \<noteq> device_kind
          then Inl ''native device class changed after enrollment''
          else if ni_platform (pd_identity persistent) \<noteq> et_platform telemetry
          then Inl ''native platform changed after enrollment''
          else Inr (pd_identity persistent)
      | None \<Rightarrow>
          Inr \<lparr>ni_schema = ''rampage.node-identity.v1'', ni_node_id = oe_node_id env, ni_owner_id = oe_owner_id env,
               ni_display_name = display_name, ni_device_kind = device_kind, ni_platform = et_platform telemetry,
               ni_public_key = public_hex (xl_crypto X) signing_key, ni_enrolled_at = oe_identity_now env,
               ni_fencing_epoch = 0\<rparr>)"

definition write_pin :: "pinned_controller \<Rightarrow> edge_disk \<Rightarrow> (string + unit) \<times> edge_disk" where
  "write_pin pin disk =
     (case ed_write_error disk ''controller-pin.json'' of
        Some e \<Rightarrow> (Inl e, disk) | None \<Rightarrow> (Inr (), disk\<lparr>ed_pin := Stored pin\<rparr>))"

definition write_identity :: "node_identity \<Rightarrow> edge_disk \<Rightarrow> (string + unit) \<times> edge_disk" where
  "write_identity identity disk =
     (case ed_write_error disk ''identity.json'' of
        Some e \<Rightarrow> (Inl e, disk)
      | None \<Rightarrow> (Inr (), disk\<lparr>ed_identity :=
          Stored \<lparr>pd_identity_schema = ''rampage.persistent-edge-identity.v1'', pd_identity = identity\<rparr>\<rparr>))"

text \<open>The last part of \<open>open\<close>: enroll unless both files are there, then write them.\<close>

definition enroll_and_persist ::
  "('sk, 'i, 'r) edge_lib \<Rightarrow> open_env \<Rightarrow> pinned_controller \<Rightarrow> enrollment_invite option \<Rightarrow> 'sk edge_worker
     \<Rightarrow> edge_disk \<Rightarrow> (string + 'sk edge_worker) \<times> edge_disk" where
  "enroll_and_persist X env pin invitation worker disk =
     (if file_present (ed_pin disk) \<and> file_present (ed_identity disk) then (Inr worker, disk)
      else case invitation of
        None \<Rightarrow> (Inl ''first enrollment requires the invitation secret'', disk)
      | Some invite \<Rightarrow>
     case enroll X (oe_enroll env) (ew_signing_key worker) (ew_identity worker) invite of
        Inl e \<Rightarrow> (Inl e, disk)
      | Inr _ \<Rightarrow>
     case write_pin pin disk of
        (Inl e, disk) \<Rightarrow> (Inl e, disk)
      | (Inr _, disk) \<Rightarrow>
     case write_identity (ew_identity worker) disk of
        (Inl e, disk) \<Rightarrow> (Inl e, disk)
      | (Inr _, disk) \<Rightarrow> (Inr worker, disk))"

definition single_line :: "string \<Rightarrow> bool" where
  "single_line s = (CHR 0x0D \<notin> set s \<and> CHR 0x0A \<notin> set s)"

text \<open>\<open>open\<close> in three steps: the records the data directory and the caller supply, the pin and the
  identity made of them, and the connection with the controller.\<close>

definition open_records ::
  "('sk, 'i, 'r) edge_lib \<Rightarrow> string option \<Rightarrow> edge_disk
     \<Rightarrow> string + (pinned_controller option \<times> persistent_identity option \<times> enrollment_invite option)" where
  "open_records X invitation_json disk =
     (case read_optional_json (xl_pin_bytes X) (64 * 1024) (ed_pin disk) of
        Inl e \<Rightarrow> Inl e
      | Inr existing_pin \<Rightarrow>
     case read_optional_json (xl_identity_bytes X) (64 * 1024) (ed_identity disk) of
        Inl e \<Rightarrow> Inl e
      | Inr existing_identity \<Rightarrow>
     case invitation_json of
        None \<Rightarrow> Inr (existing_pin, existing_identity, None)
      | Some v \<Rightarrow>
          map_sum id (\<lambda>invite. (existing_pin, existing_identity, Some invite)) (parse_invitation X v))"

definition open_state ::
  "('sk, 'i, 'r) edge_lib \<Rightarrow> open_env \<Rightarrow> 'sk \<Rightarrow> string option \<Rightarrow> string \<Rightarrow> edge_telemetry \<Rightarrow> edge_disk
     \<Rightarrow> string + (pinned_controller \<times> node_identity \<times> enrollment_invite option)" where
  "open_state X env signing_key invitation_json display_name telemetry disk =
     (case open_records X invitation_json disk of
        Inl e \<Rightarrow> Inl e
      | Inr (existing_pin, existing_identity, invitation) \<Rightarrow>
     case pin_for_open X env existing_pin invitation of
        Inl e \<Rightarrow> Inl e
      | Inr pin \<Rightarrow>
     case parse_device_kind (et_device_kind telemetry) of
        Inl e \<Rightarrow> Inl e
      | Inr device_kind \<Rightarrow>
          map_sum id (\<lambda>identity. (pin, identity, invitation))
            (identity_for_open X env signing_key existing_identity display_name device_kind telemetry))"

definition open_connected ::
  "('sk, 'i, 'r) edge_lib \<Rightarrow> open_env \<Rightarrow> 'sk \<Rightarrow> pinned_controller \<Rightarrow> node_identity
     \<Rightarrow> string + 'sk edge_worker" where
  "open_connected X env signing_key pin identity =
     (case edge_mesh_config X (pc_endpoint pin) of
        Inl e \<Rightarrow> Inl e
      | Inr _ \<Rightarrow>
     case oe_bind env of
        Inl e \<Rightarrow> Inl e
      | Inr _ \<Rightarrow>
     case endpoint_addr_from_pinned_record (xl_endpoint X) (pc_endpoint pin) of
        Inl e \<Rightarrow> Inl (xl_mesh_text X e)
      | Inr _ \<Rightarrow>
          map_sum id (\<lambda>store.
            \<lparr>ew_signing_key = signing_key, ew_identity = identity, ew_authority_store = store,
             ew_controller_endpoint_id = me_endpoint_id (pc_endpoint pin), ew_receipts_submitted = 0,
             ew_offer_expires_at = None, ew_last_result = ''ready''\<rparr>) (oe_store env))"

text \<open>What is checked before the data directory is read.\<close>

definition open_denial :: "open_env \<Rightarrow> string \<Rightarrow> edge_telemetry \<Rightarrow> edge_disk \<Rightarrow> string option" where
  "open_denial env display_name telemetry disk =
     (if \<not> eligible telemetry then Some (denial_text telemetry)
      else if \<not> (display_name \<noteq> [] \<and> length display_name \<le> 80 \<and> single_line display_name)
      then Some ''display name must contain 1 to 80 single-line characters''
      else case oe_mkdir env of
        Inl e \<Rightarrow> Some e
      | Inr _ \<Rightarrow> if ed_kill disk then Some ''local edge STOP latch is active'' else None)"

definition open_worker ::
  "('sk, 'i, 'r) edge_lib \<Rightarrow> open_env \<Rightarrow> string option \<Rightarrow> string \<Rightarrow> edge_telemetry \<Rightarrow> edge_disk
     \<Rightarrow> (string + 'sk edge_worker) \<times> edge_disk" where
  "open_worker X env invitation_json display_name telemetry disk =
     (case open_denial env (trim display_name) telemetry disk of
        Some e \<Rightarrow> (Inl e, disk)
      | None \<Rightarrow>
     case oe_secret env of
        Inl e \<Rightarrow> (Inl e, disk)
      | Inr secret \<Rightarrow>
     case open_state X env (xl_key X secret) invitation_json (trim display_name) telemetry disk of
        Inl e \<Rightarrow> (Inl e, disk)
      | Inr (pin, identity, invitation) \<Rightarrow>
     case open_connected X env (xl_key X secret) pin identity of
        Inl e \<Rightarrow> (Inl e, disk)
      | Inr worker \<Rightarrow> enroll_and_persist X env pin invitation worker disk)"

section \<open>Offers\<close>

definition edge_adapters :: "string list" where
  "edge_adapters = [''rampage.eval-shard.v1'', ''rampage.hash.v1'']"

definition edge_capability :: "string \<Rightarrow> workload_domain \<Rightarrow> string \<Rightarrow> workload_capability" where
  "edge_capability adapter domain operation =
     \<lparr>wc_schema = workload_capability_SCHEMA, wc_adapter = adapter, wc_domain = domain,
      wc_operations = {|operation|}, wc_execution_patterns = {|IndependentShard|},
      wc_resource_classes = {|CpuCompute|}, wc_isolation = AllowlistedInProcess,
      wc_runtime_digest = ''shipped-edge:0.3.1'', wc_checkpointable = False, wc_preemptible = True,
      wc_network_allowlist_required = False, wc_status = Shipped, wc_qualification_digest = None\<rparr>"

text \<open>\<open>None\<close> is the \<open>unreachable!\<close> of the source.\<close>

definition edge_capabilities :: "string list \<Rightarrow> workload_capability list option" where
  "edge_capabilities adapters =
     those (map (\<lambda>adapter.
       if adapter = ''rampage.hash.v1'' then Some (edge_capability adapter DataProcessing ''hash'')
       else if adapter = ''rampage.eval-shard.v1'' then Some (edge_capability adapter AiEvaluation ''score'')
       else None) adapters)"

record offer_env =
  fe_now :: datetime
  fe_threads :: u64
  fe_offer_id :: uuid
  fe_endpoint_id :: string
  fe_direct_addresses :: "string list"
  fe_relay_urls :: "string list"

definition edge_endpoint :: "('sk, 'i, 'r) edge_lib \<Rightarrow> offer_env \<Rightarrow> 'sk \<Rightarrow> mesh_endpoint" where
  "edge_endpoint X env signing_key =
     sign_mesh_endpoint (xl_crypto X) signing_key
       \<lparr>me_schema = mesh_endpoint_SCHEMA, me_endpoint_id = fe_endpoint_id env,
        me_direct_addresses = fe_direct_addresses env, me_relay_urls = fe_relay_urls env,
        me_issued_at = fe_now env, me_expires_at = fe_now env + seconds OFFER_TTL_SECONDS, me_signature = []\<rparr>"

definition make_offer ::
  "('sk, 'i, 'r) edge_lib \<Rightarrow> offer_env \<Rightarrow> 'sk edge_worker \<Rightarrow> edge_telemetry \<Rightarrow> resource_offer option" where
  "make_offer X env worker telemetry =
     map_option (\<lambda>capabilities.
       sign_offer (xl_crypto X) (ew_signing_key worker)
         \<lparr>ro_schema = ''rampage.resource-offer.v1'', ro_offer_id = fe_offer_id env,
          ro_node_id = ni_node_id (ew_identity worker), ro_observed_at = fe_now env,
          ro_expires_at = fe_now env + seconds OFFER_TTL_SECONDS,
          ro_resources = [\<lparr>rq_class = CpuCompute, rq_capacity = fe_threads env,
             rq_available = max (sat_sub (fe_threads env) 1) 1, rq_unit = ''logical_core'',
             rq_labels = fmap_of_list [(''device_kind'', et_device_kind telemetry),
               (''platform'', et_platform telemetry), (''edge_session'', ''foreground''),
               (''protected_storage'', ''false'')]\<rparr>],
          ro_availability = \<lparr>av_on_ac_power = et_on_external_power telemetry,
             av_battery_percent = Some (et_battery_percent telemetry),
             av_thermal_headroom_percent = et_thermal_headroom_percent telemetry,
             av_foreground_allowed = (et_foreground telemetry \<and> et_donation_requested telemetry),
             av_owner_idle = True\<rparr>,
          ro_adapters = fset_of_list edge_adapters, ro_workload_capabilities = capabilities,
          ro_model_runtimes = [], ro_link_benchmark = None,
          ro_mesh_endpoint = Some (edge_endpoint X env (ew_signing_key worker)), ro_signature = []\<rparr>)
       (edge_capabilities edge_adapters)"

section \<open>The pulse\<close>

definition snapshot :: "'sk edge_worker \<Rightarrow> bool \<Rightarrow> edge_session_snapshot" where
  "snapshot worker ok =
     \<lparr>xs_node_id = ni_node_id (ew_identity worker), xs_controller_endpoint_id = ew_controller_endpoint_id worker,
      xs_enrolled = True, xs_eligible = ok, xs_offer_expires_at = ew_offer_expires_at worker,
      xs_receipts_submitted = ew_receipts_submitted worker, xs_last_result = ew_last_result worker\<rparr>"

record pulse_env =
  pe_offer :: offer_env
  pe_run :: run_env
  pe_post_receipt :: "execution_receipt \<Rightarrow> bool \<Rightarrow> string + mesh_control_response"
  pe_post_offer :: "resource_offer \<Rightarrow> string + mesh_control_response"
  pe_get_claim :: "string + mesh_control_response"

definition remove_outbox :: "edge_disk \<Rightarrow> (string + unit) \<times> edge_disk" where
  "remove_outbox disk =
     (case ed_remove_error disk of Some e \<Rightarrow> (Inl e, disk) | None \<Rightarrow> (Inr (), disk\<lparr>ed_outbox := Absent\<rparr>))"

text \<open>The flag of \<open>pe_post_receipt\<close> tells the first submission of a pulse, from the outbox, from the
  second, of a receipt the pulse produced.\<close>

definition flush_receipt_outbox ::
  "('sk, 'i, 'r) edge_lib \<Rightarrow> pulse_env \<Rightarrow> 'sk edge_worker \<Rightarrow> edge_disk
     \<Rightarrow> (string + unit) \<times> 'sk edge_worker \<times> edge_disk" where
  "flush_receipt_outbox X env worker disk =
     (if \<not> file_present (ed_outbox disk) then (Inr (), worker, disk)
      else case read_json (xl_receipt_bytes X) (1024 * 1024) (ed_outbox disk) of
        Inl e \<Rightarrow> (Inl e, worker, disk)
      | Inr receipt \<Rightarrow>
     case post_json X (pe_post_receipt env receipt True) of
        Inl e \<Rightarrow> (Inl e, worker, disk)
      | Inr _ \<Rightarrow>
     case remove_outbox disk of
        (Inl e, disk) \<Rightarrow> (Inl e, worker, disk)
      | (Inr _, disk) \<Rightarrow>
          (Inr (), worker\<lparr>ew_receipts_submitted := sat_add (ew_receipts_submitted worker) 1\<rparr>, disk))"

definition persist_and_submit_receipt ::
  "('sk, 'i, 'r) edge_lib \<Rightarrow> pulse_env \<Rightarrow> execution_receipt \<Rightarrow> edge_disk \<Rightarrow> (string + unit) \<times> edge_disk" where
  "persist_and_submit_receipt X env receipt disk =
     (case ed_write_error disk ''receipt-outbox.json'' of
        Some e \<Rightarrow> (Inl e, disk)
      | None \<Rightarrow>
          let disk = disk\<lparr>ed_outbox := Stored receipt\<rparr> in
          case post_json X (pe_post_receipt env receipt False) of
            Inl e \<Rightarrow> (Inl e, disk)
          | Inr _ \<Rightarrow> remove_outbox disk)"

definition run_claim ::
  "('sk, 'i, 'r) edge_lib \<Rightarrow> pulse_env \<Rightarrow> work_claim \<Rightarrow> 'sk edge_worker \<Rightarrow> edge_disk
     \<Rightarrow> (string + unit) \<times> 'sk edge_worker \<times> edge_disk" where
  "run_claim X env claim worker disk =
     (case execute_claim_with_store (xl_worker X) (pe_run env) claim (ni_node_id (ew_identity worker))
             (cl_fencing_epoch (wk_lease claim)) (ew_signing_key worker) (ew_authority_store worker) of
        (Inl e, store) \<Rightarrow> (Inl (execution_error_text e), worker\<lparr>ew_authority_store := store\<rparr>, disk)
      | (Inr receipt, store) \<Rightarrow>
          let worker = worker\<lparr>ew_authority_store := store\<rparr> in
          case persist_and_submit_receipt X env receipt disk of
            (Inl e, disk) \<Rightarrow> (Inl e, worker, disk)
          | (Inr _, disk) \<Rightarrow>
              (Inr (), worker\<lparr>ew_receipts_submitted := sat_add (ew_receipts_submitted worker) 1,
                 ew_last_result := ''receipt '' @ xl_uuid_text X (er_receipt_id receipt) @ '' submitted''\<rparr>, disk))"

definition pulse_denial :: "edge_telemetry \<Rightarrow> 'sk edge_worker \<Rightarrow> edge_disk \<Rightarrow> string option" where
  "pulse_denial telemetry worker disk =
     (if ed_kill disk then Some ''local edge STOP latch is active''
      else if \<not> eligible telemetry then Some (denial_text telemetry)
      else if \<not> (edge_device_kind_label (ni_device_kind (ew_identity worker)) = et_device_kind telemetry
                 \<and> ni_platform (ew_identity worker) = et_platform telemetry)
      then Some ''native telemetry does not match the enrolled identity''
      else None)"

text \<open>\<open>None\<close> as a result is the panic of \<open>edge_capabilities\<close>.\<close>

definition pulse ::
  "('sk, 'i, 'r) edge_lib \<Rightarrow> pulse_env \<Rightarrow> edge_telemetry \<Rightarrow> 'sk edge_worker \<Rightarrow> edge_disk
     \<Rightarrow> (string + edge_session_snapshot) option \<times> 'sk edge_worker \<times> edge_disk" where
  "pulse X env telemetry worker disk =
     (case pulse_denial telemetry worker disk of
        Some e \<Rightarrow> (Some (Inl e), worker, disk)
      | None \<Rightarrow>
     case flush_receipt_outbox X env worker disk of
        (Inl e, worker, disk) \<Rightarrow> (Some (Inl e), worker, disk)
      | (Inr _, worker, disk) \<Rightarrow>
     case make_offer X (pe_offer env) worker telemetry of
        None \<Rightarrow> (None, worker, disk)
      | Some offer \<Rightarrow>
     case post_json X (pe_post_offer env offer) of
        Inl e \<Rightarrow> (Some (Inl e), worker, disk)
      | Inr _ \<Rightarrow>
          let worker = worker\<lparr>ew_offer_expires_at := Some (ro_expires_at offer)\<rparr> in
          case get_claim X (pe_get_claim env) of
            Inl e \<Rightarrow> (Some (Inl e), worker, disk)
          | Inr None \<Rightarrow>
              let worker = worker\<lparr>ew_last_result := ''eligible; no admitted work waiting''\<rparr>
              in (Some (Inr (snapshot worker True)), worker, disk)
          | Inr (Some claim) \<Rightarrow>
              (case run_claim X env claim worker disk of
                 (Inl e, worker, disk) \<Rightarrow> (Some (Inl e), worker, disk)
               | (Inr _, worker, disk) \<Rightarrow> (Some (Inr (snapshot worker True)), worker, disk)))"

end
