(* ===== verification/Rampage_Edge_Runtime.thy ===== *)
theory Rampage_Edge_Runtime
  imports Rampage_Edge Rampage_Governor Rampage_Execution
begin

text \<open>
  The contributor of a phone or tablet: what it offers is what the Governor admits from a mobile
  device, its controller is pinned by the first enrollment the controller accepted, and a receipt it
  produced is delivered or kept once it has been written, whatever the sequence of pulses. The last section shows the other
  side of that: a receipt the controller refuses stops the contributor.
\<close>

section \<open>Telemetry and offers\<close>

lemma eligible_iff_no_denial: "eligible t \<longleftrightarrow> edge_denial t = None"
  by (auto simp: eligible_def edge_denial_def not_le split: if_splits)

definition edge_operation :: "string \<Rightarrow> string" where
  "edge_operation adapter = (if adapter = ''rampage.hash.v1'' then ''hash'' else ''score'')"

lemma edge_capability_authorizes:
  "authorizes (edge_capability ''rampage.hash.v1'' d ''hash'') ''rampage.hash.v1'' ''hash''"
  "authorizes (edge_capability ''rampage.eval-shard.v1'' d ''score'') ''rampage.eval-shard.v1'' ''score''"
  by (simp_all add: authorizes_def workload_capability_is_valid_def edge_capability_def is_ascii_def byte_def)

lemma edge_capabilities_total:
  "edge_capabilities edge_adapters =
     Some [edge_capability ''rampage.eval-shard.v1'' AiEvaluation (edge_operation ''rampage.eval-shard.v1''),
           edge_capability ''rampage.hash.v1'' DataProcessing (edge_operation ''rampage.hash.v1'')]"
  by (simp add: edge_capabilities_def edge_adapters_def edge_operation_def)

lemma make_offer_shape:
  assumes "make_offer X env w t = Some offer"
  shows "ro_node_id offer = ni_node_id (ew_identity w)"
    and "ro_expires_at offer = fe_now env + seconds 20"
    and "fset (ro_adapters offer) = set edge_adapters"
    and "ro_workload_capabilities offer = the (edge_capabilities edge_adapters)"
    and "\<exists>q. ro_resources offer = [q] \<and> rq_class q = CpuCompute \<and> rq_unit q = ''logical_core''
           \<and> rq_available q = max (sat_sub (fe_threads env) 1) 1
           \<and> fmlookup (rq_labels q) ''device_kind'' = Some (et_device_kind t)"
    and "av_foreground_allowed (ro_availability offer) \<longleftrightarrow> et_foreground t \<and> et_donation_requested t"
    and "av_on_ac_power (ro_availability offer) = et_on_external_power t"
    and "av_battery_percent (ro_availability offer) = Some (et_battery_percent t)"
    and "av_thermal_headroom_percent (ro_availability offer) = et_thermal_headroom_percent t"
  using assms by (auto simp: make_offer_def sign_offer_def OFFER_TTL_SECONDS_def fset_of_list.rep_eq)

text \<open>The jobs a phone is meant for: one of its two adapters with the adapter's operation, restart
  tolerant, and nothing but processor cores, at most what the offer leaves free.\<close>

definition edge_job :: "u64 \<Rightarrow> job_spec \<Rightarrow> bool" where
  "edge_job threads job \<longleftrightarrow>
     js_adapter job \<in> set edge_adapters \<and> js_operation job = edge_operation (js_adapter job)
     \<and> js_restart_tolerant job
     \<and> list_all (\<lambda>r. rr_class r = CpuCompute \<and> rr_unit r = ''logical_core'' \<and> rr_required_labels r = fmempty
          \<and> rr_minimum r \<le> max (sat_sub threads 1) 1) (js_requests job)"

lemma edge_offer_check_mobile:
  assumes "eligible t" "make_offer X env w t = Some offer" "edge_job (fe_threads env) job"
  shows "check_mobile governor_config_default job offer = Inr ()"
  using assms(1,3) make_offer_shape(6-9)[OF assms(2)]
  by (auto simp: check_mobile_def edge_job_def eligible_def edge_adapters_def governor_config_default_def
      battery_below_def MINIMUM_BATTERY_PERCENT_def MINIMUM_THERMAL_HEADROOM_PERCENT_def not_less)

lemma edge_offer_authorizes:
  assumes "make_offer X env w t = Some offer" "edge_job threads job"
  shows "list_ex (\<lambda>c. authorizes c (js_adapter job) (js_operation job)) (ro_workload_capabilities offer)"
  using assms(2) make_offer_shape(4)[OF assms(1)] unfolding edge_capabilities_total
  by (auto simp: edge_job_def edge_adapters_def edge_operation_def edge_capability_authorizes)

lemma edge_offer_satisfies:
  assumes "make_offer X env w t = Some offer" "edge_job (fe_threads env) job"
  shows "list_all (\<lambda>r. list_ex (resource_satisfies r) (ro_resources offer)) (js_requests job)"
  using assms(2) make_offer_shape(5)[OF assms(1)]
  by (auto simp: edge_job_def resource_satisfies_def list_all_iff)

lemma edge_offer_verifies:
  assumes "crypto_ok (xl_crypto X)" "make_offer X env w t = Some offer"
    "ni_public_key (ew_identity w) = public_hex (xl_crypto X) (ew_signing_key w)"
  shows "verify_offer (xl_crypto X) (ew_identity w) offer = Inr ()"
  using assms make_offer_shape(1)[OF assms(2)]
  by (auto simp: verify_offer_def make_offer_def sign_offer_def sign_hex_verifies)

text \<open>
  The phone and the Governor agree on what a mobile device may do. An offer made while the
  owner's conditions hold carries a signature that verifies under the enrolled identity, and the
  default Governor admits on it, until the offer's twenty seconds are over, every valid job of the
  two shipped adapters that tolerates a restart and asks for no more than the free cores.
\<close>

theorem edge_offer_is_admitted:
  assumes "crypto_ok (xl_crypto X)" "ni_public_key (ew_identity w) = public_hex (xl_crypto X) (ew_signing_key w)"
    and "eligible t" "make_offer X env w t = Some offer"
    and "edge_job (fe_threads env) job" "job_validate_at job now = Inr ()"
    and "now < fe_now env + seconds 20" "js_deadline job \<le> now + seconds 3600"
  shows "verify_offer (xl_crypto X) (ew_identity w) offer = Inr ()
    \<and> check_job_at governor_config_default job offer (ni_node_id (ew_identity w)) now = Inr ()"
proof -
  have "js_adapter job |\<in>| ro_adapters offer"
    using assms(5) make_offer_shape(3)[OF assms(4)] by (simp add: edge_job_def)
  moreover have "js_adapter job |\<in>| gc_trusted_adapters governor_config_default"
    and "list_all (\<lambda>r. adapter_allows_resource (js_adapter job) (rr_class r)) (js_requests job)"
    using assms(5) by (auto simp: edge_job_def edge_adapters_def governor_config_default_def
        adapter_allows_resource_def list_all_iff)
  ultimately show ?thesis
    using assms edge_offer_check_mobile[OF assms(3-5)] edge_offer_authorizes[OF assms(4,5)]
      edge_offer_satisfies[OF assms(4,5)] edge_offer_verifies[OF assms(1,4,2)] make_offer_shape(1,2)[OF assms(4)]
    by (simp add: check_job_at_accepts) (simp add: governor_config_default_def)
qed

section \<open>Pinning\<close>

lemma map_sum_eq_Inr: "map_sum f g r = Inr y \<longleftrightarrow> (\<exists>x. r = Inr x \<and> y = g x)"
  by (cases r) auto

lemma write_pin_Inr: "write_pin pin disk = (Inr u, disk') \<longleftrightarrow>
    ed_write_error disk ''controller-pin.json'' = None \<and> disk' = disk\<lparr>ed_pin := Stored pin\<rparr>"
  by (auto simp: write_pin_def split: option.splits)

lemma write_pin_Inl: "write_pin pin disk = (Inl e, disk') \<Longrightarrow> disk' = disk"
  by (auto simp: write_pin_def split: option.splits)

lemma write_identity_Inr: "write_identity i disk = (Inr u, disk') \<longleftrightarrow>
    ed_write_error disk ''identity.json'' = None
    \<and> disk' = disk\<lparr>ed_identity := Stored \<lparr>pd_identity_schema = ''rampage.persistent-edge-identity.v1'', pd_identity = i\<rparr>\<rparr>"
  by (auto simp: write_identity_def split: option.splits)

lemma write_identity_Inl: "write_identity i disk = (Inl e, disk') \<Longrightarrow> disk' = disk"
  by (auto simp: write_identity_def split: option.splits)

lemma enroll_and_persist_cases:
  assumes "enroll_and_persist X env pin invitation w disk = (r, disk')"
  obtains (kept) "file_present (ed_pin disk)" "file_present (ed_identity disk)" "r = Inr w" "disk' = disk"
  | (failed) e where "r = Inl e" "disk' = disk"
  | (pinned) e invite where "invitation = Some invite"
      "enroll X (oe_enroll env) (ew_signing_key w) (ew_identity w) invite = Inr ()"
      "r = Inl e" "disk' = disk\<lparr>ed_pin := Stored pin\<rparr>"
  | (enrolled) invite where "invitation = Some invite"
      "enroll X (oe_enroll env) (ew_signing_key w) (ew_identity w) invite = Inr ()" "r = Inr w"
      "disk' = disk\<lparr>ed_pin := Stored pin, ed_identity := Stored
         \<lparr>pd_identity_schema = ''rampage.persistent-edge-identity.v1'', pd_identity = ew_identity w\<rparr>\<rparr>"
  using assms unfolding enroll_and_persist_def
  by (auto split: if_splits option.splits sum.splits prod.splits
      simp: write_pin_Inr write_identity_Inr dest!: write_pin_Inl write_identity_Inl)

lemma open_worker_Inr_state:
  assumes "open_worker X env invite_text name t disk = (r, disk')" "disk' \<noteq> disk \<or> (\<exists>w. r = Inr w)"
  obtains secret pin identity invitation w where
    "oe_secret env = Inr secret"
    "open_state X env (xl_key X secret) invite_text (trim name) t disk = Inr (pin, identity, invitation)"
    "open_connected X env (xl_key X secret) pin identity = Inr w"
    "enroll_and_persist X env pin invitation w disk = (r, disk')"
  using assms unfolding open_worker_def by (auto split: option.splits sum.splits prod.splits)

lemma open_connected_Inr:
  assumes "open_connected X env k pin identity = Inr w"
  shows "ew_signing_key w = k" "ew_identity w = identity"
    "ew_controller_endpoint_id w = me_endpoint_id (pc_endpoint pin)"
  using assms unfolding open_connected_def
  by (auto simp: map_sum_eq_Inr split: sum.splits)

lemma validate_fresh_invitation_parts:
  assumes "validate_fresh_invitation X now now1 now2 invite = Inr ()"
  shows "\<exists>endpoint key. ei_controller_mesh invite = Some endpoint \<and> ei_governor_public_key invite = Some key"
  using assms unfolding validate_fresh_invitation_def
  by (cases "ei_controller_mesh invite"; cases "ei_governor_public_key invite") (simp_all split: if_splits)

lemma open_state_Inr:
  assumes "open_state X env k invite_text name t disk = Inr (pin, identity, invitation)"
  shows "ni_public_key identity = public_hex (xl_crypto X) k"
    and "(ed_pin disk = Stored pin \<and> validate_pin X pin = Inr ())
      \<or> (ed_pin disk = Absent \<and> (\<exists>invite. invitation = Some invite
          \<and> validate_fresh_invitation X (oe_now env) (oe_now1 env) (oe_now2 env) invite = Inr ()
          \<and> ei_controller_mesh invite = Some (pc_endpoint pin)
          \<and> ei_governor_public_key invite = Some (pc_governor_public_key pin)))"
    and "file_present (ed_identity disk) \<Longrightarrow> \<exists>p. ed_identity disk = Stored p \<and> pd_identity p = identity"
proof -
  obtain existing_pin existing_identity device_kind where
      recs: "open_records X invite_text disk = Inr (existing_pin, existing_identity, invitation)"
    and pin: "pin_for_open X env existing_pin invitation = Inr pin"
    and ident: "identity_for_open X env k existing_identity name device_kind t = Inr identity"
    using assms unfolding open_state_def by (auto simp: map_sum_eq_Inr split: sum.splits prod.splits)
  have read: "read_optional_json (xl_pin_bytes X) (64 * 1024) (ed_pin disk) = Inr existing_pin"
    "read_optional_json (xl_identity_bytes X) (64 * 1024) (ed_identity disk) = Inr existing_identity"
    using recs unfolding open_records_def by (auto simp: map_sum_eq_Inr split: sum.splits option.splits)
  show "ni_public_key identity = public_hex (xl_crypto X) k"
    using ident unfolding identity_for_open_def by (auto split: option.splits if_splits)
  show "file_present (ed_identity disk) \<Longrightarrow> \<exists>p. ed_identity disk = Stored p \<and> pd_identity p = identity"
    using ident read(2) unfolding identity_for_open_def read_optional_json_def
    by (cases "ed_identity disk"; cases existing_identity) (auto split: if_splits)
  show "(ed_pin disk = Stored pin \<and> validate_pin X pin = Inr ())
      \<or> (ed_pin disk = Absent \<and> (\<exists>invite. invitation = Some invite
          \<and> validate_fresh_invitation X (oe_now env) (oe_now1 env) (oe_now2 env) invite = Inr ()
          \<and> ei_controller_mesh invite = Some (pc_endpoint pin)
          \<and> ei_governor_public_key invite = Some (pc_governor_public_key pin)))"
  proof (cases existing_pin)
    case None
    then have "ed_pin disk = Absent"
      using read(1) by (cases "ed_pin disk") (auto simp: read_optional_json_def split: if_splits)
    moreover obtain invite where "invitation = Some invite"
      "validate_fresh_invitation X (oe_now env) (oe_now1 env) (oe_now2 env) invite = Inr ()"
      "pc_endpoint pin = the (ei_controller_mesh invite)"
      "pc_governor_public_key pin = the (ei_governor_public_key invite)"
      using pin None unfolding pin_for_open_def by (auto split: option.splits sum.splits)
    ultimately show ?thesis using validate_fresh_invitation_parts by fastforce
  next
    case (Some p)
    then have "ed_pin disk = Stored p"
      using read(1) by (cases "ed_pin disk") (auto simp: read_optional_json_def split: if_splits)
    then show ?thesis using pin Some unfolding pin_for_open_def by (auto split: sum.splits)
  qed
qed

text \<open>
  The controller is pinned once. Opening the contributor never replaces a pin that is there,
  whatever invitation the caller passes, and leaves it alone also when it fails; the directory
  changes only after a controller accepted an enrollment request signed for the identity; and an
  opened contributor speaks to the endpoint of the stored pin under the stored identity, whose key is
  its own.
\<close>

theorem controller_is_pinned_once:
  assumes opened: "open_worker X env invite_text name t disk = (r, disk')"
  shows "(file_present (ed_pin disk) \<longrightarrow> ed_pin disk' = ed_pin disk)
    \<and> (disk' \<noteq> disk \<longrightarrow> (\<exists>k identity invite request answer.
          enrollment_request_of X k identity invite = Inr request
          \<and> oe_enroll env request = Inr answer \<and> is_success (cs_status answer)
          \<and> ni_public_key identity = public_hex (xl_crypto X) k))
    \<and> (\<forall>w. r = Inr w \<longrightarrow> (\<exists>pin p. ed_pin disk' = Stored pin \<and> ed_identity disk' = Stored p
          \<and> ew_controller_endpoint_id w = me_endpoint_id (pc_endpoint pin) \<and> ew_identity w = pd_identity p
          \<and> ni_public_key (ew_identity w) = public_hex (xl_crypto X) (ew_signing_key w)))"
proof (cases "disk' \<noteq> disk \<or> (\<exists>w. r = Inr w)")
  case True
  obtain secret pin identity invitation w where
      st: "open_state X env (xl_key X secret) invite_text (trim name) t disk = Inr (pin, identity, invitation)"
    and conn: "open_connected X env (xl_key X secret) pin identity = Inr w"
    and ep: "enroll_and_persist X env pin invitation w disk = (r, disk')"
    by (rule open_worker_Inr_state[OF opened True])
  note w = open_connected_Inr[OF conn]
  note s = open_state_Inr[OF st]
  have key: "ni_public_key (ew_identity w) = public_hex (xl_crypto X) (ew_signing_key w)"
    using w s(1) by simp
  have accepted: "\<exists>request answer. enrollment_request_of X (ew_signing_key w) (ew_identity w) invite = Inr request
      \<and> oe_enroll env request = Inr answer \<and> is_success (cs_status answer)"
    if "enroll X (oe_enroll env) (ew_signing_key w) (ew_identity w) invite = Inr ()" for invite
    using that unfolding enroll_def post_json_def by (auto split: sum.splits if_splits)
  from ep show ?thesis
  proof (cases rule: enroll_and_persist_cases)
    case kept then show ?thesis using s(2,3) w key by fastforce
  next
    case failed then show ?thesis by simp
  next
    case pinned then show ?thesis using s(2) key accepted by fastforce
  next
    case enrolled then show ?thesis using s(2) w key accepted by fastforce
  qed
qed (use assms in simp)

section \<open>Receipts\<close>

text \<open>The receipt the execution of a pulse produces, whether or not it can be kept afterwards, and the
  receipts whose delivery the controller acknowledges in a pulse: the one of the outbox and the new one.\<close>

definition pulse_receipt ::
  "('sk, 'i, 'r) edge_lib \<Rightarrow> pulse_env \<Rightarrow> edge_telemetry \<Rightarrow> 'sk edge_worker \<Rightarrow> edge_disk \<Rightarrow> execution_receipt option" where
  "pulse_receipt X env t worker disk =
     (if pulse_denial t worker disk \<noteq> None then None
      else case flush_receipt_outbox X env worker disk of
        (Inl _, _, _) \<Rightarrow> None
      | (Inr _, worker, _) \<Rightarrow>
     case make_offer X (pe_offer env) worker t of
        None \<Rightarrow> None
      | Some offer \<Rightarrow>
     case (post_json X (pe_post_offer env offer), get_claim X (pe_get_claim env)) of
        (Inr _, Inr (Some claim)) \<Rightarrow>
          (case execute_claim_with_store (xl_worker X) (pe_run env) claim (ni_node_id (ew_identity worker))
                  (cl_fencing_epoch (wk_lease claim)) (ew_signing_key worker) (ew_authority_store worker) of
             (Inl _, _) \<Rightarrow> None | (Inr receipt, _) \<Rightarrow> Some receipt)
      | _ \<Rightarrow> None)"

definition acknowledged ::
  "('sk, 'i, 'r) edge_lib \<Rightarrow> pulse_env \<Rightarrow> edge_telemetry \<Rightarrow> 'sk edge_worker \<Rightarrow> edge_disk \<Rightarrow> execution_receipt set" where
  "acknowledged X env t worker disk =
     {r. pulse_denial t worker disk = None
        \<and> (read_json (xl_receipt_bytes X) (1024 * 1024) (ed_outbox disk) = Inr r
             \<and> post_json X (pe_post_receipt env r True) = Inr ()
           \<or> pulse_receipt X env t worker disk = Some r \<and> ed_write_error disk ''receipt-outbox.json'' = None
             \<and> post_json X (pe_post_receipt env r False) = Inr ())}"

lemma remove_outbox_disk:
  "remove_outbox disk = (r, disk') \<Longrightarrow> disk' = disk \<or> disk' = disk\<lparr>ed_outbox := Absent\<rparr>"
  "remove_outbox disk = (Inr u, disk') \<Longrightarrow> disk' = disk\<lparr>ed_outbox := Absent\<rparr>"
  by (auto simp: remove_outbox_def split: option.splits)

text \<open>The outbox after its flush: untouched, or emptied after an acknowledged delivery.\<close>

lemma flush_receipt_outbox_cases:
  assumes "flush_receipt_outbox X env w disk = (res, w', disk')"
  obtains (empty) "ed_outbox disk = Absent" "res = Inr ()" "w' = w" "disk' = disk"
  | (stuck) e where "res = Inl e" "w' = w" "disk' = disk"
  | (flushed) r where "ed_outbox disk = Stored r" "xl_receipt_bytes X r \<le> 1024 * 1024"
      "post_json X (pe_post_receipt env r True) = Inr ()" "res = Inr ()" "disk' = disk\<lparr>ed_outbox := Absent\<rparr>"
proof (cases "ed_outbox disk")
  case (Stored r)
  consider (oversized) "\<not> xl_receipt_bytes X r \<le> 1024 * 1024"
    | (refused) e where "xl_receipt_bytes X r \<le> 1024 * 1024" "post_json X (pe_post_receipt env r True) = Inl e"
    | (kept) e where "xl_receipt_bytes X r \<le> 1024 * 1024" "post_json X (pe_post_receipt env r True) = Inr ()"
        "ed_remove_error disk = Some e"
    | (removed) "xl_receipt_bytes X r \<le> 1024 * 1024" "post_json X (pe_post_receipt env r True) = Inr ()"
        "ed_remove_error disk = None"
    by (cases "post_json X (pe_post_receipt env r True)"; cases "ed_remove_error disk") auto
  then show ?thesis
  proof cases
    case oversized
    then show ?thesis using Stored assms stuck by (auto simp: flush_receipt_outbox_def)
  next
    case (refused e)
    with Stored assms have "res = Inl e" "w' = w" "disk' = disk" by (simp_all add: flush_receipt_outbox_def)
    then show ?thesis by (rule stuck)
  next
    case (kept e)
    with Stored assms have "res = Inl e" "w' = w" "disk' = disk"
      by (simp_all add: flush_receipt_outbox_def remove_outbox_def)
    then show ?thesis by (rule stuck)
  next
    case removed
    with Stored assms have "res = Inr ()" "disk' = disk\<lparr>ed_outbox := Absent\<rparr>"
      by (simp_all add: flush_receipt_outbox_def remove_outbox_def)
    then show ?thesis using flushed Stored removed by simp
  qed
next
  case Absent
  with assms have "res = Inr ()" "w' = w" "disk' = disk" by (simp_all add: flush_receipt_outbox_def)
  then show ?thesis using empty Absent by simp
next
  case (Unreadable e)
  with assms have "res = Inl e" "w' = w" "disk' = disk" by (simp_all add: flush_receipt_outbox_def)
  then show ?thesis by (rule stuck)
qed

lemma persist_and_submit_outbox:
  assumes "persist_and_submit_receipt X env r disk = (res, disk')"
    and "ed_write_error disk ''receipt-outbox.json'' = None"
  shows "ed_outbox disk' = Stored r \<or> post_json X (pe_post_receipt env r False) = Inr ()"
  using assms unfolding persist_and_submit_receipt_def remove_outbox_def
  by (auto simp: Let_def split: sum.splits option.splits)

lemma run_claim_outbox:
  assumes "run_claim X env claim w disk = (res, w', disk')"
    and "ed_write_error disk ''receipt-outbox.json'' = None"
    and "execute_claim_with_store (xl_worker X) (pe_run env) claim (ni_node_id (ew_identity w))
           (cl_fencing_epoch (wk_lease claim)) (ew_signing_key w) (ew_authority_store w) = (Inr r, st)"
  shows "ed_outbox disk' = Stored r \<or> post_json X (pe_post_receipt env r False) = Inr ()"
  using assms persist_and_submit_outbox[of X env r disk]
  unfolding run_claim_def by (auto simp: Let_def split: sum.splits prod.splits)

lemma run_claim_no_receipt:
  assumes "run_claim X env claim w disk = (res, w', disk')"
    and "execute_claim_with_store (xl_worker X) (pe_run env) claim (ni_node_id (ew_identity w))
           (cl_fencing_epoch (wk_lease claim)) (ew_signing_key w) (ew_authority_store w) = (Inl e, st)"
  shows "disk' = disk"
  using assms unfolding run_claim_def by auto

text \<open>A pulse past its flush.\<close>

lemma pulse_after_flush:
  assumes "pulse X env t w disk = (res, w', disk')" "pulse_denial t w disk = None"
    and "flush_receipt_outbox X env w disk = (Inr (), w1, disk1)"
    and "ed_write_error disk1 ''receipt-outbox.json'' = None"
  shows "case pulse_receipt X env t w disk of
      None \<Rightarrow> disk' = disk1
    | Some r \<Rightarrow> ed_outbox disk' = Stored r \<or> post_json X (pe_post_receipt env r False) = Inr ()"
proof (cases "make_offer X (pe_offer env) w1 t")
  case None
  then show ?thesis using assms by (simp add: pulse_def pulse_receipt_def)
next
  case (Some offer)
  show ?thesis
  proof (cases "post_json X (pe_post_offer env offer)")
    case (Inl e)
    then show ?thesis using assms Some by (simp add: pulse_def pulse_receipt_def)
  next
    case (Inr u)
    let ?w = "w1\<lparr>ew_offer_expires_at := Some (ro_expires_at offer)\<rparr>"
    show ?thesis
    proof (cases "\<exists>claim. get_claim X (pe_get_claim env) = Inr (Some claim)")
      case False
      then show ?thesis using assms Some Inr
        by (auto simp: pulse_def pulse_receipt_def Let_def split: sum.splits option.splits)
    next
      case True
      then obtain claim where claim: "get_claim X (pe_get_claim env) = Inr (Some claim)" ..
      obtain res2 w2 disk2 where run: "run_claim X env claim ?w disk1 = (res2, w2, disk2)"
        by (cases "run_claim X env claim ?w disk1") auto
      have disk': "disk' = disk2"
        using assms Some Inr claim run by (auto simp: pulse_def Let_def split: sum.splits)
      obtain ex st where ex: "execute_claim_with_store (xl_worker X) (pe_run env) claim (ni_node_id (ew_identity w1))
          (cl_fencing_epoch (wk_lease claim)) (ew_signing_key w1) (ew_authority_store w1) = (ex, st)"
        by (meson surj_pair)
      have receipt: "pulse_receipt X env t w disk = (case ex of Inl _ \<Rightarrow> None | Inr r \<Rightarrow> Some r)"
        using assms Some Inr claim ex by (simp add: pulse_receipt_def)
      show ?thesis
        using run_claim_outbox[OF run assms(4)] run_claim_no_receipt[OF run] ex receipt disk'
        by (auto split: sum.splits)
    qed
  qed
qed

text \<open>A pulse that cannot write the outbox after its execution.\<close>

lemma run_claim_unwritten:
  assumes "execute_claim_with_store (xl_worker X) (pe_run env) claim (ni_node_id (ew_identity w))
           (cl_fencing_epoch (wk_lease claim)) (ew_signing_key w) (ew_authority_store w) = (Inr r, st)"
    and "ed_write_error disk ''receipt-outbox.json'' = Some e"
  shows "run_claim X env claim w disk = (Inl e, w\<lparr>ew_authority_store := st\<rparr>, disk)"
  using assms by (simp add: run_claim_def persist_and_submit_receipt_def)

lemma open_worker_outbox:
  assumes "open_worker X env invite_text name t disk = (r, disk')"
  shows "ed_outbox disk' = ed_outbox disk"
proof (cases "disk' \<noteq> disk \<or> (\<exists>w. r = Inr w)")
  case True
  obtain pin invitation w where "enroll_and_persist X env pin invitation w disk = (r, disk')"
    by (rule open_worker_Inr_state[OF assms True])
  then show ?thesis by (cases rule: enroll_and_persist_cases) auto
qed simp

text \<open>The life of a contributor: pulses with any telemetry and any answers of the controller, openings
  with any invitation, successful or not, and changes of the device in between: the STOP latch, and
  which writes and removals fail. \<open>produced\<close> collects the receipts of executions, \<open>delivered\<close> those the
  controller acknowledged and \<open>unwritten\<close> those of pulses whose write of the outbox failed. An opening
  or a pulse that has begun runs to its end.\<close>

definition unwritten_receipt ::
  "('sk, 'i, 'r) edge_lib \<Rightarrow> pulse_env \<Rightarrow> edge_telemetry \<Rightarrow> 'sk edge_worker \<Rightarrow> edge_disk \<Rightarrow> execution_receipt set" where
  "unwritten_receipt X env t worker disk =
     (if ed_write_error disk ''receipt-outbox.json'' = None then {}
      else set_option (pulse_receipt X env t worker disk))"

inductive edge_run ::
  "('sk, 'i, 'r) edge_lib \<Rightarrow> 'sk edge_worker \<Rightarrow> edge_disk \<Rightarrow> execution_receipt set \<Rightarrow> execution_receipt set
     \<Rightarrow> execution_receipt set \<Rightarrow> bool"
  for X where
  start: "edge_run X w disk {} {} {}"
| pulse: "edge_run X w disk produced delivered unwritten \<Longrightarrow>
    pulse X env t w disk = (res, w', disk') \<Longrightarrow>
    edge_run X w' disk' (produced \<union> set_option (pulse_receipt X env t w disk))
      (delivered \<union> acknowledged X env t w disk) (unwritten \<union> unwritten_receipt X env t w disk)"
| reopen: "edge_run X w disk produced delivered unwritten \<Longrightarrow>
    open_worker X oenv invite_text name t disk = (res, disk') \<Longrightarrow>
    edge_run X (case res of Inl _ \<Rightarrow> w | Inr w' \<Rightarrow> w') disk' produced delivered unwritten"
| device: "edge_run X w disk produced delivered unwritten \<Longrightarrow>
    edge_run X w (disk\<lparr>ed_kill := kill, ed_write_error := writes, ed_remove_error := removal\<rparr>)
      produced delivered unwritten"

lemma pulse_after_flush_unwritten:
  assumes "pulse X env t w disk = (res, w', disk')" "pulse_denial t w disk = None"
    and "flush_receipt_outbox X env w disk = (Inr (), w1, disk1)"
    and "ed_write_error disk1 ''receipt-outbox.json'' = Some e"
  shows "disk' = disk1 \<and> (pulse_receipt X env t w disk \<noteq> None \<longrightarrow> res = Some (Inl e))"
proof (cases "pulse_receipt X env t w disk")
  case None
  then show ?thesis using assms
    by (auto simp: pulse_def pulse_receipt_def Let_def run_claim_def split: sum.splits option.splits prod.splits)
next
  case (Some r)
  then obtain offer claim st where "make_offer X (pe_offer env) w1 t = Some offer"
      "post_json X (pe_post_offer env offer) = Inr ()" "get_claim X (pe_get_claim env) = Inr (Some claim)"
    and ex: "execute_claim_with_store (xl_worker X) (pe_run env) claim (ni_node_id (ew_identity w1))
        (cl_fencing_epoch (wk_lease claim)) (ew_signing_key w1) (ew_authority_store w1) = (Inr r, st)"
    using assms(2,3) by (auto simp: pulse_receipt_def split: option.splits sum.splits prod.splits)
  then show ?thesis
    using assms run_claim_unwritten[of X env claim "w1\<lparr>ew_offer_expires_at := Some (ro_expires_at offer)\<rparr>" r st disk1 e]
    by (auto simp: pulse_def Let_def)
qed

lemma pulse_keeps_receipts:
  assumes "pulse X env t w disk = (res, w', disk')"
    and "ed_outbox disk = Stored r \<or> pulse_receipt X env t w disk = Some r"
  shows "r \<in> acknowledged X env t w disk \<or> ed_outbox disk' = Stored r \<or> r \<in> unwritten_receipt X env t w disk"
proof (cases "pulse_denial t w disk")
  case (Some e)
  then show ?thesis using assms by (auto simp: pulse_def pulse_receipt_def)
next
  case None
  obtain res1 w1 disk1 where f: "flush_receipt_outbox X env w disk = (res1, w1, disk1)"
    by (cases "flush_receipt_outbox X env w disk") auto
  from f have past: "ed_outbox disk = Stored r \<Longrightarrow> res1 = Inr () \<Longrightarrow> r \<in> acknowledged X env t w disk"
    and same: "ed_write_error disk1 = ed_write_error disk"
    using None by (cases rule: flush_receipt_outbox_cases; auto simp: acknowledged_def)+
  show ?thesis
  proof (cases res1)
    case (Inl e)
    from f have "disk1 = disk" using Inl by (cases rule: flush_receipt_outbox_cases) auto
    then show ?thesis using assms f None Inl by (auto simp: pulse_def pulse_receipt_def)
  next
    case (Inr u)
    then have f': "flush_receipt_outbox X env w disk = (Inr (), w1, disk1)" using f by simp
    show ?thesis
    proof (cases "ed_write_error disk ''receipt-outbox.json''")
      case None
      then show ?thesis
        using pulse_after_flush[OF assms(1) \<open>pulse_denial t w disk = None\<close> f'] same past Inr assms(2)
          \<open>pulse_denial t w disk = None\<close>
        by (auto simp: acknowledged_def)
    next
      case (Some e)
      then show ?thesis using past Inr assms(2) by (auto simp: unwritten_receipt_def)
    qed
  qed
qed

text \<open>
  C38. No receipt is lost once the outbox has been written. Whatever sequence of pulses and openings a
  contributor goes through, with the controller unreachable, refusing or accepting, the STOP latch set
  or not and writes and removals failing or not, every receipt one of its executions produced has been
  acknowledged by the controller, is the one in the outbox, or comes from a pulse in which writing the
  outbox failed after the execution.
\<close>

theorem no_receipt_is_lost:
  assumes "edge_run X w disk produced delivered unwritten" and "r \<in> produced"
  shows "r \<in> delivered \<or> ed_outbox disk = Stored r \<or> r \<in> unwritten"
  using assms
proof (induction rule: edge_run.induct)
  case (pulse w disk produced delivered unwritten env t res w' disk')
  then show ?case using pulse_keeps_receipts[OF pulse.hyps(2)] by auto
next
  case (reopen w disk produced delivered unwritten oenv invite_text name t res disk')
  then show ?case using open_worker_outbox[OF reopen.hyps(2)] by auto
qed auto

text \<open>The exception is a loss: a pulse whose execution succeeds and whose write of the outbox fails ends
  with that error, has not posted the receipt and leaves no outbox, while the nonce of the claim is
  spent.\<close>

lemma unwritten_receipt_is_lost:
  assumes "pulse X env t w disk = (res, w', disk')"
    and "pulse_receipt X env t w disk = Some r" "ed_write_error disk ''receipt-outbox.json'' = Some e"
  shows "res = Some (Inl e) \<and> ed_outbox disk' = Absent
    \<and> (ed_outbox disk = Absent \<longrightarrow> acknowledged X env t w disk = {})"
proof -
  have d: "pulse_denial t w disk = None" using assms(2) by (auto simp: pulse_receipt_def split: if_splits)
  obtain res1 w1 disk1 where f: "flush_receipt_outbox X env w disk = (res1, w1, disk1)"
    by (cases "flush_receipt_outbox X env w disk") auto
  have "res1 = Inr ()" using assms(2) d f by (auto simp: pulse_receipt_def split: sum.splits)
  moreover from f this have "ed_outbox disk1 = Absent" "ed_write_error disk1 = ed_write_error disk"
    by (cases rule: flush_receipt_outbox_cases; auto)+
  ultimately show ?thesis
    using pulse_after_flush_unwritten[OF assms(1) d, of w1 disk1 e] f assms(2,3)
    by (auto simp: acknowledged_def)
qed

section \<open>A refused receipt\<close>

text \<open>
  A refused receipt stops the contributor. While the controller refuses the receipt in the
  outbox, every pulse ends with its refusal, and neither the contributor nor its directory changes:
  no offer is made and no work is claimed. The controller refuses with the same status for ever a
  receipt whose assignment is gone, for example after the owner stopped and resumed the fabric.
\<close>

theorem refused_receipt_blocks_contributor:
  assumes "ed_outbox disk = Stored r" "xl_receipt_bytes X r \<le> 1024 * 1024" "pe_post_receipt env r True = Inr answer"
    and "\<not> is_success (cs_status answer)" "pulse_denial t w disk = None"
  shows "pulse X env t w disk = (Some (Inl (xl_reject_text X (cs_status answer) (cs_body answer))), w, disk)"
  using assms by (simp add: pulse_def flush_receipt_outbox_def post_json_def)

section \<open>A concrete phone\<close>

definition demo_edge_lib :: "(unit, unit, unit) edge_lib" where
  "demo_edge_lib = \<lparr>xl_worker = demo_worker_lib,
     xl_endpoint = \<lparr>el_parse_id = (\<lambda>_. Some ()), el_parse_relay = (\<lambda>_. Some ())\<rparr>, xl_key = (\<lambda>_. ()),
     xl_parse_invitation = (\<lambda>_. Inl ''no invitation''), xl_parse_uuid = (\<lambda>_. Inr 1),
     xl_parse_claim = (\<lambda>_. Inr (Some demo_echo)), xl_uuid_text = (\<lambda>_. ''9''), xl_mesh_text = (\<lambda>_. ''mesh''),
     xl_reject_text = (\<lambda>_ _. ''refused''), xl_pin_bytes = (\<lambda>_. 900), xl_identity_bytes = (\<lambda>_. 400),
     xl_receipt_bytes = (\<lambda>_. 1500)\<rparr>"

definition demo_telemetry :: edge_telemetry where
  "demo_telemetry = \<lparr>et_platform = ''android'', et_device_kind = ''phone'', et_foreground = True,
     et_donation_requested = True, et_battery_percent = 75, et_on_external_power = False,
     et_low_power_mode = False, et_thermal_headroom_percent = 80\<rparr>"

definition demo_phone_identity :: node_identity where
  "demo_phone_identity = demo_identity\<lparr>ni_device_kind := Phone, ni_platform := ''android''\<rparr>"

definition demo_phone :: "unit edge_worker" where
  "demo_phone = \<lparr>ew_signing_key = (), ew_identity = demo_phone_identity, ew_authority_store = demo_store,
     ew_controller_endpoint_id = replicate 64 CHR ''e'', ew_receipts_submitted = 0,
     ew_offer_expires_at = None, ew_last_result = ''ready''\<rparr>"

definition demo_controller :: mesh_endpoint where
  "demo_controller = sign_mesh_endpoint demo_crypto ()
     \<lparr>me_schema = mesh_endpoint_SCHEMA, me_endpoint_id = replicate 64 CHR ''e'', me_direct_addresses = [],
      me_relay_urls = [''https://relay''], me_issued_at = 0, me_expires_at = seconds 60, me_signature = []\<rparr>"

definition demo_pin :: pinned_controller where
  "demo_pin = \<lparr>pc_schema = ''rampage.pinned-controller.v1'', pc_endpoint = demo_controller,
     pc_governor_public_key = public_hex demo_crypto (), pc_enrolled_at = 0\<rparr>"

definition demo_edge_disk :: edge_disk where
  "demo_edge_disk = \<lparr>ed_kill = False, ed_pin = Stored demo_pin,
     ed_identity = Stored \<lparr>pd_identity_schema = ''rampage.persistent-edge-identity.v1'', pd_identity = demo_phone_identity\<rparr>,
     ed_outbox = Absent, ed_write_error = (\<lambda>_. None), ed_remove_error = None\<rparr>"

definition demo_open_env :: open_env where
  "demo_open_env = \<lparr>oe_mkdir = Inr (), oe_secret = Inr ''k'', oe_now = 0, oe_now1 = 0, oe_now2 = 0, oe_pinned_now = 0,
     oe_identity_now = 0, oe_node_id = 7, oe_owner_id = 1, oe_bind = Inr (), oe_store = Inr demo_store,
     oe_enroll = (\<lambda>_. Inl ''offline'')\<rparr>"

definition demo_pulse_env :: pulse_env where
  "demo_pulse_env = \<lparr>pe_offer = \<lparr>fe_now = 0, fe_threads = 8, fe_offer_id = 5, fe_endpoint_id = ''e'',
       fe_direct_addresses = [], fe_relay_urls = []\<rparr>, pe_run = demo_run,
     pe_post_receipt = (\<lambda>_ _. Inl ''offline''),
     pe_post_offer = (\<lambda>_. Inr \<lparr>cs_schema = [], cs_request_id = 1, cs_status = 200, cs_body = JNull\<rparr>),
     pe_get_claim = Inr \<lparr>cs_schema = [], cs_request_id = 1, cs_status = 200, cs_body = JNull\<rparr>\<rparr>"

lemma demo_edge_crypto: "wl_crypto demo_worker_lib = demo_crypto" "xl_worker demo_edge_lib = demo_worker_lib"
  by (simp_all add: demo_edge_lib_def demo_worker_lib_def)

lemma demo_phone_key: "ni_public_key (ew_identity demo_phone) = public_hex (xl_crypto demo_edge_lib) (ew_signing_key demo_phone)"
  by (simp add: demo_phone_def demo_phone_identity_def demo_identity_def demo_edge_crypto)

lemma demo_eligible: "eligible demo_telemetry"
  by (simp add: eligible_def demo_telemetry_def MINIMUM_BATTERY_PERCENT_def MINIMUM_THERMAL_HEADROOM_PERCENT_def)

lemma demo_offer_made: "\<exists>offer. make_offer X env w t = Some offer"
  by (simp add: make_offer_def edge_capabilities_total)

lemma demo_no_denial: "pulse_denial demo_telemetry demo_phone (demo_edge_disk\<lparr>ed_outbox := b\<rparr>) = None"
  using demo_eligible
  by (simp add: pulse_denial_def demo_edge_disk_def demo_phone_def demo_phone_identity_def demo_telemetry_def)

definition demo_edge_job :: job_spec where
  "demo_edge_job = demo_job [\<lparr>rr_class = CpuCompute, rr_minimum = 2, rr_preferred = 4, rr_unit = ''logical_core'',
     rr_required_labels = fmempty\<rparr>]"

lemma demo_edge_job_fits: "edge_job 8 demo_edge_job" "job_validate_at demo_edge_job 0 = Inr ()"
    "js_deadline demo_edge_job = seconds 600"
  by (simp_all add: edge_job_def demo_edge_job_def demo_job_def edge_adapters_def edge_operation_def sat_sub_def
      job_validate_at_def ws1_def byte_def max_def word_le_nat_alt)
     (simp_all add: seconds_def nanos_per_second_def)

theorem edge_offer_is_admitted_witness:
  "\<exists>offer. make_offer demo_edge_lib (pe_offer demo_pulse_env) demo_phone demo_telemetry = Some offer
     \<and> check_job_at governor_config_default demo_edge_job offer 7 0 = Inr ()"
proof -
  obtain offer where offer: "make_offer demo_edge_lib (pe_offer demo_pulse_env) demo_phone demo_telemetry = Some offer"
    using demo_offer_made by blast
  have env: "fe_threads (pe_offer demo_pulse_env) = 8" "fe_now (pe_offer demo_pulse_env) = 0"
    by (simp_all add: demo_pulse_env_def)
  have c: "crypto_ok (xl_crypto demo_edge_lib)" by (simp add: demo_edge_crypto demo_crypto_ok)
  have n: "ni_node_id (ew_identity demo_phone) = 7"
    by (simp add: demo_phone_def demo_phone_identity_def demo_identity_def)
  have "check_job_at governor_config_default demo_edge_job offer (ni_node_id (ew_identity demo_phone)) 0 = Inr ()"
    using edge_offer_is_admitted[OF c demo_phone_key demo_eligible offer, of demo_edge_job 0]
    by (simp add: env demo_edge_job_fits seconds_def nanos_per_second_def)
  then show ?thesis using offer n by auto
qed

lemma demo_hexdigits: "is_ascii_hexdigit CHR ''e''" "list_all is_ascii_hexdigit (public_hex demo_crypto ())"
    "length (public_hex demo_crypto ()) = 64"
proof -
  show "list_all is_ascii_hexdigit (public_hex demo_crypto ())"
    using demo_encode_lower[of "replicate 32 CHR ''k''"]
    by (auto simp: public_hex_def demo_crypto_def is_ascii_hexdigit_def list_all_iff)
qed (simp_all add: is_ascii_hexdigit_def is_lower_hex_digit_def byte_def public_hex_def demo_crypto_def demo_encode_length)

lemma demo_controller_shape: "me_schema demo_controller = mesh_endpoint_SCHEMA"
    "me_endpoint_id demo_controller = replicate 64 CHR ''e''" "me_direct_addresses demo_controller = []"
    "me_relay_urls demo_controller = [''https://relay'']"
    "verify_pinned_mesh_endpoint_with_key demo_crypto (public_hex demo_crypto ()) demo_controller = Inr ()"
  by (simp_all add: demo_controller_def sign_mesh_endpoint_def verify_pinned_mesh_endpoint_with_key_def
      sign_hex_verifies demo_crypto_ok)

lemma demo_endpoint_addr:
  "\<exists>a. endpoint_addr_from_pinned_record (xl_endpoint demo_edge_lib) demo_controller = Inr a"
  by (simp add: endpoint_addr_from_pinned_record_def endpoint_addr_from_record_inner_def demo_controller_shape
      endpoint_record_shape_is_valid_def demo_edge_lib_def)

lemma demo_pin_valid: "validate_pin demo_edge_lib demo_pin = Inr ()"
  using demo_endpoint_addr demo_hexdigits
  by (auto simp: validate_pin_def demo_pin_def demo_controller_shape demo_edge_crypto list_all_length)

lemma demo_opens: "\<exists>w. open_worker demo_edge_lib demo_open_env None ''phone'' demo_telemetry demo_edge_disk = (Inr w, demo_edge_disk)"
proof -
  have name: "trim ''phone'' = ''phone''" by (simp add: trim_def ws1_def ws2_def ws3_def byte_def)
  have a: "open_denial demo_open_env ''phone'' demo_telemetry demo_edge_disk = None"
    using demo_eligible by (simp add: open_denial_def single_line_def demo_open_env_def demo_edge_disk_def)
  have b: "open_state demo_edge_lib demo_open_env () None ''phone'' demo_telemetry demo_edge_disk
      = Inr (demo_pin, demo_phone_identity, None)"
    using demo_pin_valid
    by (simp add: open_state_def open_records_def demo_edge_disk_def read_optional_json_def pin_for_open_def
        parse_device_kind_def demo_telemetry_def identity_for_open_def demo_phone_identity_def demo_identity_def
        demo_edge_crypto) (simp add: demo_edge_lib_def)
  obtain w where c: "open_connected demo_edge_lib demo_open_env () demo_pin demo_phone_identity = Inr w"
    using demo_endpoint_addr
    by (auto simp: open_connected_def edge_mesh_config_def mesh_config_validate_def demo_controller_shape demo_pin_def
        demo_open_env_def starts_with_def demo_edge_lib_def)
  have k: "xl_key demo_edge_lib = (\<lambda>_. ())" "oe_secret demo_open_env = Inr ''k''"
    "file_present (ed_pin demo_edge_disk)" "file_present (ed_identity demo_edge_disk)"
    by (simp_all add: demo_edge_lib_def demo_open_env_def demo_edge_disk_def)
  show ?thesis
    by (rule exI[of _ w]) (simp add: open_worker_def name a b c k enroll_and_persist_def)
qed

theorem controller_is_pinned_once_witness:
  "\<exists>w. open_worker demo_edge_lib demo_open_env None ''phone'' demo_telemetry demo_edge_disk = (Inr w, demo_edge_disk)
     \<and> ew_controller_endpoint_id w = replicate 64 CHR ''e''"
proof -
  obtain w where w: "open_worker demo_edge_lib demo_open_env None ''phone'' demo_telemetry demo_edge_disk = (Inr w, demo_edge_disk)"
    using demo_opens by blast
  have "ed_pin demo_edge_disk = Stored demo_pin" by (simp add: demo_edge_disk_def)
  then have "ew_controller_endpoint_id w = me_endpoint_id (pc_endpoint demo_pin)"
    using controller_is_pinned_once[OF w] by auto
  then show ?thesis using w by (simp add: demo_pin_def demo_controller_shape)
qed

lemma demo_pulse_receipt: "\<exists>r. pulse_receipt demo_edge_lib demo_pulse_env demo_telemetry demo_phone demo_edge_disk = Some r"
proof -
  obtain offer where offer: "make_offer demo_edge_lib (pe_offer demo_pulse_env) demo_phone demo_telemetry = Some offer"
    using demo_offer_made by blast
  have d: "pulse_denial demo_telemetry demo_phone demo_edge_disk = None"
    using demo_no_denial[of Absent] by (simp add: demo_edge_disk_def)
  have f: "flush_receipt_outbox demo_edge_lib demo_pulse_env demo_phone demo_edge_disk = (Inr (), demo_phone, demo_edge_disk)"
    by (simp add: flush_receipt_outbox_def demo_edge_disk_def)
  have p: "post_json demo_edge_lib (pe_post_offer demo_pulse_env offer) = Inr ()"
    "get_claim demo_edge_lib (pe_get_claim demo_pulse_env) = Inr (Some demo_echo)"
    by (simp_all add: post_json_def get_claim_def demo_pulse_env_def is_success_def demo_edge_lib_def)
  have w: "ni_node_id (ew_identity demo_phone) = 7" "ew_authority_store demo_phone = demo_store" "pe_run demo_pulse_env = demo_run"
    "cl_fencing_epoch (wk_lease demo_echo) = 1" "ew_signing_key demo_phone = ()"
    by (simp_all add: demo_phone_def demo_phone_identity_def demo_identity_def demo_pulse_env_def demo_echo_def demo_work_def)
  obtain r st where "execute_claim_with_store demo_worker_lib demo_run demo_echo 7 1 () demo_store = (Inr r, st)"
    using demo_echo_runs by blast
  then show ?thesis by (simp add: pulse_receipt_def d f offer p w demo_edge_crypto)
qed

theorem no_receipt_is_lost_witness:
  "\<exists>r w disk produced. edge_run demo_edge_lib w disk produced {} {} \<and> r \<in> produced \<and> ed_outbox disk = Stored r"
proof -
  obtain r where r: "pulse_receipt demo_edge_lib demo_pulse_env demo_telemetry demo_phone demo_edge_disk = Some r"
    using demo_pulse_receipt by blast
  obtain res w disk where p: "pulse demo_edge_lib demo_pulse_env demo_telemetry demo_phone demo_edge_disk = (res, w, disk)"
    by (cases "pulse demo_edge_lib demo_pulse_env demo_telemetry demo_phone demo_edge_disk") auto
  have "acknowledged demo_edge_lib demo_pulse_env demo_telemetry demo_phone demo_edge_disk = {}"
    by (auto simp: acknowledged_def post_json_def demo_pulse_env_def)
  moreover have "unwritten_receipt demo_edge_lib demo_pulse_env demo_telemetry demo_phone demo_edge_disk = {}"
    by (simp add: unwritten_receipt_def demo_edge_disk_def)
  ultimately have run: "edge_run demo_edge_lib w disk {r} {} {}"
    using edge_run.pulse[OF edge_run.start p] r by simp
  from no_receipt_is_lost[OF run, of r] show ?thesis using run by blast
qed

theorem refused_receipt_blocks_contributor_witness:
  "pulse demo_edge_lib (demo_pulse_env\<lparr>pe_post_receipt :=
       (\<lambda>_ _. Inr \<lparr>cs_schema = [], cs_request_id = 1, cs_status = 409, cs_body = JNull\<rparr>)\<rparr>)
     demo_telemetry demo_phone (demo_edge_disk\<lparr>ed_outbox := Stored (demo_receipt 7)\<rparr>)
   = (Some (Inl ''refused''), demo_phone, demo_edge_disk\<lparr>ed_outbox := Stored (demo_receipt 7)\<rparr>)"
proof -
  have x: "xl_reject_text demo_edge_lib = (\<lambda>_ _. ''refused'')" "xl_receipt_bytes demo_edge_lib = (\<lambda>_. 1500)"
    by (simp_all add: demo_edge_lib_def)
  show ?thesis
    using refused_receipt_blocks_contributor[where X = demo_edge_lib and r = "demo_receipt 7"
      and answer = "\<lparr>cs_schema = [], cs_request_id = 1, cs_status = 409, cs_body = JNull\<rparr>"
      and env = "demo_pulse_env\<lparr>pe_post_receipt := (\<lambda>_ _. Inr \<lparr>cs_schema = [], cs_request_id = 1, cs_status = 409, cs_body = JNull\<rparr>)\<rparr>"
      and disk = "demo_edge_disk\<lparr>ed_outbox := Stored (demo_receipt 7)\<rparr>", OF _ _ _ _ demo_no_denial]
    by (simp add: x is_success_def)
qed

end
