(* ===== verification/Rampage_Control.thy ===== *)
theory Rampage_Control
  imports Rampage_Policy Rampage_Ledger Rampage_Scheduler Rampage_Mesh Rampage_Worker
begin

text \<open>
  The state of the controller daemon (\<open>crates/rampage-controller/src/main.rs\<close>) and its handlers for
  invitations, enrollment, revocation, offers, and the owner's stop and resume. A handler maps the
  state to an answer, a rejection (status, error text, further fields of the JSON body) or a result,
  and the next state; what it changed before a rejection stays changed, as in the source. Each
  \<open>HashMap\<close> behind its lock is a finite map. Handlers that hold the admission gate are serialised by
  it; the others touch one map at a time. A poisoned lock (a panic while it is held) is not modelled.
  The clock of a handler is a function from the number of its reading to the time.
\<close>

section \<open>Answers and handlers\<close>

datatype http_reject = Reject (reject_status: u16) (reject_text: string) (reject_fields: "(string \<times> json) list")

type_synonym clock = "nat \<Rightarrow> datetime"

type_synonym ('s, 'e, 'a) action = "'s \<Rightarrow> ('e + 'a) \<times> 's"

type_synonym ('s, 'a) handler = "('s, http_reject, 'a) action"

definition answer :: "'a \<Rightarrow> ('s, 'e, 'a) action" where
  "answer x s = (Inr x, s)"

definition refuse :: "u16 \<Rightarrow> string \<Rightarrow> ('s, 'a) handler" where
  "refuse status text s = (Inl (Reject status text []), s)"

definition bind_h :: "('s, 'e, 'a) action \<Rightarrow> ('a \<Rightarrow> ('s, 'e, 'b) action) \<Rightarrow> ('s, 'e, 'b) action" where
  "bind_h m f s = (case m s of (Inl e, s') \<Rightarrow> (Inl e, s') | (Inr x, s') \<Rightarrow> f x s')"

definition require :: "bool \<Rightarrow> u16 \<Rightarrow> string \<Rightarrow> ('s, unit) handler" where
  "require b status text = (if b then answer () else refuse status text)"

definition modify :: "('s \<Rightarrow> 's) \<Rightarrow> ('s, 'e, unit) action" where
  "modify f s = (Inr (), f s)"

definition from_option :: "'a option \<Rightarrow> u16 \<Rightarrow> string \<Rightarrow> ('s, 'a) handler" where
  "from_option r status text = (case r of None \<Rightarrow> refuse status text | Some x \<Rightarrow> answer x)"

definition from_result :: "('e \<Rightarrow> string) \<Rightarrow> u16 \<Rightarrow> 'e + 'a \<Rightarrow> ('s, 'a) handler" where
  "from_result show_error status r = (case r of Inl e \<Rightarrow> refuse status (show_error e) | Inr x \<Rightarrow> answer x)"

text \<open>\<open>?\<close> on a result that does not involve the state, and \<open>map_err\<close>.\<close>

definition lift :: "'e + 'a \<Rightarrow> ('s, 'e, 'a) action" where
  "lift r s = (r, s)"

definition map_error :: "('e \<Rightarrow> 'f) \<Rightarrow> ('s, 'e, 'a) action \<Rightarrow> ('s, 'f, 'a) action" where
  "map_error f m s = (case m s of (r, s') \<Rightarrow> (map_sum f id r, s'))"

text \<open>Reading the state.\<close>

definition with_state :: "('s \<Rightarrow> ('s, 'e, 'a) action) \<Rightarrow> ('s, 'e, 'a) action" where
  "with_state f s = f s s"

lemma bind_h_simps [simp]:
  "bind_h (answer x) f = f x" "bind_h (refuse status text) f = refuse status text"
  by (simp_all add: bind_h_def answer_def refuse_def fun_eq_iff)

lemma bind_h_Inr:
  "bind_h m f s = (Inr y, s') \<longleftrightarrow> (\<exists>x s1. m s = (Inr x, s1) \<and> f x s1 = (Inr y, s'))"
  by (auto simp: bind_h_def split: prod.splits sum.splits)

lemma bind_h_Inl:
  "bind_h m f s = (Inl e, s') \<longleftrightarrow> m s = (Inl e, s') \<or> (\<exists>x s1. m s = (Inr x, s1) \<and> f x s1 = (Inl e, s'))"
  by (auto simp: bind_h_def split: prod.splits sum.splits)

lemma handler_atoms:
  "answer x s = (r, s') \<longleftrightarrow> r = Inr x \<and> s' = s"
  "refuse status text s = (r', s') \<longleftrightarrow> r' = Inl (Reject status text []) \<and> s' = s"
  "modify f s = (ru, s') \<longleftrightarrow> ru = Inr () \<and> s' = f s"
  by (auto simp: answer_def refuse_def modify_def)

lemma require_iff:
  "require b status text s = (r, s') \<longleftrightarrow> s' = s \<and> r = (if b then Inr () else Inl (Reject status text []))"
  by (auto simp: require_def answer_def refuse_def)

lemma from_option_iff:
  "from_option v status text s = (r, s') \<longleftrightarrow>
     s' = s \<and> r = (case v of None \<Rightarrow> Inl (Reject status text []) | Some x \<Rightarrow> Inr x)"
  by (auto simp: from_option_def answer_def refuse_def split: option.splits)

lemma from_result_iff:
  "from_result sh status v s = (r, s') \<longleftrightarrow>
     s' = s \<and> r = (case v of Inl e \<Rightarrow> Inl (Reject status (sh e) []) | Inr x \<Rightarrow> Inr x)"
  by (auto simp: from_result_def answer_def refuse_def split: sum.splits)

text \<open>A handler keeps a property of the state when it holds afterwards wherever it held before,
  also when the handler rejects.\<close>

definition keeps_prop :: "('s \<Rightarrow> bool) \<Rightarrow> ('s, 'e, 'a) action \<Rightarrow> bool" where
  "keeps_prop I m \<longleftrightarrow> (\<forall>s. I s \<longrightarrow> I (snd (m s)))"

named_theorems handler_keeps "rules that compose invariant preservation along a handler"

lemma keeps_bind [handler_keeps]:
  "keeps_prop I m \<Longrightarrow> (\<And>x. keeps_prop I (f x)) \<Longrightarrow> keeps_prop I (bind_h m f)"
  by (fastforce simp: keeps_prop_def bind_h_def split: prod.splits sum.splits)

lemma keeps_atoms [handler_keeps]:
  "keeps_prop I (answer x)" "keeps_prop I (refuse status text)" "keeps_prop I (require b status text)"
  "keeps_prop I (from_option v status text)" "keeps_prop I (from_result sh status w)"
  by (auto simp: keeps_prop_def answer_def refuse_def require_def from_option_def from_result_def
      split: option.splits sum.splits)

lemma keeps_modify [handler_keeps]: "(\<And>s. I s \<Longrightarrow> I (f s)) \<Longrightarrow> keeps_prop I (modify f)"
  by (simp add: keeps_prop_def modify_def)

lemma keeps_with_state [handler_keeps]: "(\<And>s. I s \<Longrightarrow> I (snd (f s s))) \<Longrightarrow> keeps_prop I (with_state f)"
  by (simp add: keeps_prop_def with_state_def)

lemma keeps_lift [handler_keeps]: "keeps_prop I (lift r)"
  by (simp add: keeps_prop_def lift_def)

lemma keeps_map_error [handler_keeps]: "keeps_prop I m \<Longrightarrow> keeps_prop I (map_error f m)"
  by (auto simp: keeps_prop_def map_error_def split: prod.splits)

lemma keeps_if [handler_keeps]:
  "keeps_prop I m \<Longrightarrow> keeps_prop I n \<Longrightarrow> keeps_prop I (if b then m else n)"
  by simp

lemma keepsD: "keeps_prop I m \<Longrightarrow> m s = (r, s') \<Longrightarrow> I s \<Longrightarrow> I s'"
  unfolding keeps_prop_def by (metis snd_conv)

section \<open>State\<close>

record invite_record =
  iv_secret_hash :: string
  iv_expires_at :: datetime

record assignment =
  as_job :: job_spec
  as_lease :: capability_lease
  as_claimed :: bool

record shard_set_record =
  sr_spec :: shard_set
  sr_leases :: "capability_lease list"

record remote_desktop_session =
  rv_lease :: remote_desktop_lease
  rv_control_started :: bool

text \<open>The kill latch is a path: nothing there, a regular file, or something else.\<close>

datatype latch = NoLatch | LatchFile | LatchOther

record 'sk controller =
  kc_ledger :: ledger
  kc_governor :: "'sk governor"
  kc_offers :: "(uuid, resource_offer) fmap"
  kc_offer_evidence_recorded_at :: "(uuid, datetime) fmap"
  kc_nodes :: "(uuid, node_identity) fmap"
  kc_invites :: "(uuid, invite_record) fmap"
  kc_assignments :: "(uuid, assignment) fmap"
  kc_idempotency :: "(string, uuid) fmap"
  kc_local_enrollment_enabled :: bool
  kc_kill_latch :: latch
  kc_stop_marker :: "string option"
  kc_reservations :: "resource_reservation list"
  kc_admission_policy :: admission_policy
  kc_completed_receipts :: "(uuid, uuid) fmap"
  kc_shard_sets :: "(uuid, shard_set_record) fmap"
  kc_artifact_replicas :: "(string \<times> uuid, artifact_ref) fmap"
  kc_replica_evidence :: "(string \<times> uuid, artifact_replica_receipt) fmap"
  kc_artifact_store :: cas_store
  kc_fencing_epoch :: u64
  kc_model_cancellations :: "(uuid, bool) fmap"
  kc_excluded_nodes :: "uuid fset"
  kc_remote_desktop_sessions :: "(uuid, remote_desktop_session) fmap"

text \<open>serde's conversion of a type to and from a JSON value.\<close>

record 'a value_codec =
  vc_to :: "'a \<Rightarrow> json"
  vc_from :: "json \<Rightarrow> 'a option"

text \<open>The parameters: the libraries, the iteration orders of two maps, the controller's own endpoint, and
  the texts of foreign errors.\<close>

record 'sk control_lib =
  kl_crypto :: "'sk crypto"
  kl_ledger :: ledger_lib
  kl_cas :: cas_lib
  kl_uuid_text :: "uuid \<Rightarrow> string"
  kl_parse_uuid :: "string \<Rightarrow> uuid option"
  kl_time_text :: "datetime \<Rightarrow> string"
  kl_identity :: "node_identity value_codec"
  kl_job :: "job_spec value_codec"
  kl_lease :: "capability_lease value_codec"
  kl_shard_set :: "shard_set value_codec"
  kl_receipt :: "execution_receipt value_codec"
  kl_artifact :: "artifact_ref value_codec"
  kl_replica_receipt :: "artifact_replica_receipt value_codec"
  kl_offer :: "resource_offer value_codec"
  kl_benchmark :: "link_benchmark value_codec"
  kl_claim :: "work_claim value_codec"
  kl_score :: "placement_score value_codec"
  kl_storage_lease :: "storage_lease value_codec"
  kl_assignment_order :: "(uuid, assignment) fmap \<Rightarrow> uuid list"
  kl_offer_order :: "(uuid, resource_offer) fmap \<Rightarrow> uuid list"
  kl_endpoint_id :: string
  kl_direct_addresses :: "string list"
  kl_relay_urls :: "string list"
  kl_ledger_text :: "ledger_error \<Rightarrow> string"
  kl_store_text :: "storage_error \<Rightarrow> string"
  kl_mesh_text :: "mesh_error \<Rightarrow> string"

text \<open>\<open>Display\<close> of \<open>Denial\<close> in the policy crate.\<close>

fun denial_to_string :: "denial \<Rightarrow> string" where
  "denial_to_string KillLatch = ''owner kill latch is active''"
| "denial_to_string AdapterDenied = ''adapter is not allowlisted''"
| "denial_to_string OfferAdapterMismatch = ''selected offer does not advertise the requested adapter''"
| "denial_to_string WorkloadCapabilityMismatch =
     ''selected offer does not advertise an executable capability for this operation''"
| "denial_to_string OfferResourceMismatch = ''selected offer does not satisfy the requested resource contract''"
| "denial_to_string AdapterResourceDenied = ''adapter is not permitted to request this resource class''"
| "denial_to_string OfferExpired = ''offer has expired''"
| "denial_to_string (InvalidJob e) = ''job contract is invalid: '' @ e"
| "denial_to_string NodeMismatch = ''offer and selected node differ''"
| "denial_to_string MobileRequiresRestartTolerance = ''mobile work must be restart tolerant''"
| "denial_to_string MobileAdapterDenied = ''adapter is not eligible for mobile execution''"
| "denial_to_string MobileForegroundRequired = ''mobile work requires an explicit foreground donation session''"
| "denial_to_string MobileBatteryDenied = ''mobile battery policy denies this work''"
| "denial_to_string MobileThermalDenied = ''mobile thermal headroom is below the owner safety threshold''"
| "denial_to_string DeadlineTooFar = ''job deadline exceeds the maximum authority window''"
| "denial_to_string AutonomousAuthorityDenied =
     ''risk class is outside the owner-defined autonomous authority envelope''"
| "denial_to_string AutopilotNotEnabled = ''autopilot is not enabled for this project''"
| "denial_to_string DiagnosticActionDenied = ''diagnostic action is outside the deterministic operational envelope''"
| "denial_to_string InvalidPromotionEvidence = ''promotion evidence is incomplete, stale, ambiguous, or malformed''"
| "denial_to_string PromotionRiskMismatch =
     ''declared promotion risk does not match deterministic path classification''"
| "denial_to_string InvalidSignature = ''lease signature is invalid''"
| "denial_to_string InvalidIdentity = ''node identity is malformed or outside enrollment limits''"
| "denial_to_string InvalidArtifact = ''artifact digest or size is invalid''"
| "denial_to_string StorageCapacityDenied = ''node did not offer enough storage in the requested class''"
| "denial_to_string ModelRuntimeDenied =
     ''model session does not target an exact shipped local runtime and installed model''"
| "denial_to_string InvalidModelSession = ''model session limits are invalid''"
| "denial_to_string RemoteDesktopDenied =
     ''remote desktop request is outside the worker's explicit advertised capability''"
| "denial_to_string InvalidRemoteDesktopLimits = ''remote desktop limits are invalid''"

definition hash_secret :: "'sk control_lib \<Rightarrow> string \<Rightarrow> string" where
  "hash_secret K secret = cr_hex_encode (kl_crypto K) (cr_sha256 (kl_crypto K) secret)"

text \<open>\<open>ledger.append(...).map_err(internal_error)?\<close> at the time the ledger reads.\<close>

definition record_event ::
  "'sk control_lib \<Rightarrow> datetime \<Rightarrow> string \<Rightarrow> string \<Rightarrow> json \<Rightarrow> ('sk controller, unit) handler" where
  "record_event K now event_type subject_id payload s =
     (case append_event (kl_ledger K) now event_type subject_id (Some payload) (kc_ledger s) of
        Inl e \<Rightarrow> (Inl (Reject 500 (kl_ledger_text K e) []), s)
      | Inr (_, ledger) \<Rightarrow> (Inr (), s\<lparr>kc_ledger := ledger\<rparr>))"

definition kill_latch_is_file :: "'sk controller \<Rightarrow> bool" where
  "kill_latch_is_file s = (kc_kill_latch s = LatchFile)"

end
