(* ===== verification/Rampage_Membership.thy ===== *)
theory Rampage_Membership
  imports Rampage_Control
begin

text \<open>
  Handlers of the controller daemon for the members of the fabric: invitations and enrollment,
  revocation, offers of resources, and the owner's stop and resume.
\<close>

section \<open>Invitations and enrollment\<close>

definition controller_mesh_record :: "'sk control_lib \<Rightarrow> datetime \<Rightarrow> datetime \<Rightarrow> 'sk controller \<Rightarrow> mesh_endpoint" where
  "controller_mesh_record K issued_at expires_at s =
     sign_mesh_endpoint (kl_crypto K) (gov_signing_key (kc_governor s))
       \<lparr>me_schema = mesh_endpoint_SCHEMA, me_endpoint_id = kl_endpoint_id K,
        me_direct_addresses = kl_direct_addresses K, me_relay_urls = kl_relay_urls K,
        me_issued_at = issued_at, me_expires_at = expires_at, me_signature = []\<rparr>"

definition store_invite :: "uuid \<Rightarrow> invite_record \<Rightarrow> ('sk controller, unit) handler" where
  "store_invite invite_id record = modify (\<lambda>s. s\<lparr>kc_invites := fmupd invite_id record (kc_invites s)\<rparr>)"

definition create_invite ::
  "'sk control_lib \<Rightarrow> clock \<Rightarrow> uuid \<Rightarrow> string \<Rightarrow> ('sk controller, enrollment_invite) handler" where
  "create_invite K T invite_id secret =
     with_state (\<lambda>s0.
     bind_h (require (kc_local_enrollment_enabled s0) 403 ''local enrollment is disabled on non-loopback binds'') (\<lambda>_.
     let expires_at = T 0 + seconds 600 in
     bind_h (store_invite invite_id \<lparr>iv_secret_hash = hash_secret K secret, iv_expires_at = expires_at\<rparr>) (\<lambda>_.
     bind_h (record_event K (T 1) ''enrollment.invite.created'' (kl_uuid_text K invite_id)
        (JObject [(''expires_at'', JString (kl_time_text K expires_at)),
                  (''secret_hash'', JString (hash_secret K secret))])) (\<lambda>_.
     answer \<lparr>ei_schema = ''rampage.enrollment-invite.v1'', ei_invite_id = invite_id,
       ei_enrollment_code = kl_uuid_text K invite_id @ ''.'' @ secret, ei_expires_at = expires_at,
       ei_controller_mesh = Some (controller_mesh_record K (T 2) expires_at s0),
       ei_governor_public_key = Some (public_hex (kl_crypto K) (gov_signing_key (kc_governor s0)))\<rparr>))))"

text \<open>\<open>invites.remove\<close>: the record is gone whatever the checks on it say afterwards.\<close>

definition take_invite :: "uuid \<Rightarrow> ('sk controller, invite_record) handler" where
  "take_invite invite_id s =
     from_option (fmlookup (kc_invites s) invite_id) 401 ''unknown or already consumed invite''
       (s\<lparr>kc_invites := fmdrop invite_id (kc_invites s)\<rparr>)"

definition store_identity :: "node_identity \<Rightarrow> ('sk controller, unit) handler" where
  "store_identity identity = modify (\<lambda>s. s\<lparr>kc_nodes := fmupd (ni_node_id identity) identity (kc_nodes s)\<rparr>)"

definition enroll_node ::
  "'sk control_lib \<Rightarrow> clock \<Rightarrow> enrollment_request \<Rightarrow> ('sk controller, uuid \<times> u64) handler" where
  "enroll_node K T request =
     bind_h (require (en_schema request = ''rampage.enrollment-request.v1'') 400 ''unsupported enrollment schema'') (\<lambda>_.
     bind_h (from_result denial_to_string 401 (verify_enrollment (kl_crypto K) request)) (\<lambda>_.
     bind_h (take_invite (en_invite_id request)) (\<lambda>record.
     bind_h (require (T 0 < iv_expires_at record \<and> iv_secret_hash record = hash_secret K (en_enrollment_code request))
        401 ''expired or invalid enrollment code'') (\<lambda>_.
     let identity = en_identity request in
     bind_h (record_event K (T 1) ''enrollment.invite.consumed'' (kl_uuid_text K (en_invite_id request))
        (JObject [(''node_id'', JString (kl_uuid_text K (ni_node_id identity)))])) (\<lambda>_.
     bind_h (store_identity identity) (\<lambda>_.
     bind_h (record_event K (T 2) ''node.enrolled'' (kl_uuid_text K (ni_node_id identity))
        (vc_to (kl_identity K) identity)) (\<lambda>_.
     answer (ni_node_id identity, ni_fencing_epoch identity))))))))"

section \<open>Revocation\<close>

definition drop_assignments_of :: "uuid \<Rightarrow> (uuid, assignment) fmap \<Rightarrow> (uuid, assignment) fmap" where
  "drop_assignments_of node_id m = fmfilter (\<lambda>k. case fmlookup m k of
     Some a \<Rightarrow> cl_node_id (as_lease a) \<noteq> node_id | None \<Rightarrow> False) m"

definition drop_shard_sets_of :: "uuid \<Rightarrow> (uuid, shard_set_record) fmap \<Rightarrow> (uuid, shard_set_record) fmap" where
  "drop_shard_sets_of node_id m = fmfilter (\<lambda>k. case fmlookup m k of
     Some r \<Rightarrow> list_all (\<lambda>lease. cl_node_id lease \<noteq> node_id) (sr_leases r) | None \<Rightarrow> False) m"

definition drop_replicas_of :: "uuid \<Rightarrow> (string \<times> uuid, 'a) fmap \<Rightarrow> (string \<times> uuid, 'a) fmap" where
  "drop_replicas_of node_id m = fmfilter (\<lambda>(_, replica_node). replica_node \<noteq> node_id) m"

definition remote_sessions_of :: "uuid \<Rightarrow> 'sk controller \<Rightarrow> uuid fset" where
  "remote_sessions_of node_id s = ffilter (\<lambda>k. case fmlookup (kc_remote_desktop_sessions s) k of
     Some session \<Rightarrow> rd_node_id (rv_lease session) = node_id | None \<Rightarrow> False) (fmdom (kc_remote_desktop_sessions s))"

definition forget_node :: "uuid \<Rightarrow> 'sk controller \<Rightarrow> 'sk controller" where
  "forget_node node_id s = s\<lparr>kc_nodes := fmdrop node_id (kc_nodes s), kc_offers := fmdrop node_id (kc_offers s),
     kc_assignments := drop_assignments_of node_id (kc_assignments s),
     kc_reservations := filter (\<lambda>r. rs_node_id r \<noteq> node_id) (kc_reservations s),
     kc_shard_sets := drop_shard_sets_of node_id (kc_shard_sets s),
     kc_remote_desktop_sessions :=
       fmfilter (\<lambda>k. k |\<notin>| remote_sessions_of node_id s) (kc_remote_desktop_sessions s),
     kc_artifact_replicas := drop_replicas_of node_id (kc_artifact_replicas s),
     kc_replica_evidence := drop_replicas_of node_id (kc_replica_evidence s),
     kc_model_cancellations := fmmap (\<lambda>_. True) (kc_model_cancellations s)\<rparr>"

section \<open>The diagnostic report\<close>

text \<open>What the report finds is a parameter: the error of reading the evidence, the constraints it derives and
  whether they differ from the ones in force, the report and whether its digest differs from the last one.\<close>

record diagnostics =
  dg_read_error :: "string option"
  dg_constraints_digest :: string
  dg_constraints :: json
  dg_excluded :: "uuid fset"
  dg_constraints_changed :: bool
  dg_report_digest :: string
  dg_report :: json
  dg_report_changed :: bool

definition refresh_diagnostics ::
  "'sk control_lib \<Rightarrow> clock \<Rightarrow> diagnostics \<Rightarrow> ('sk controller, string, unit) action" where
  "refresh_diagnostics K T D =
     bind_h (case dg_read_error D of Some e \<Rightarrow> lift (Inl e) | None \<Rightarrow> answer ()) (\<lambda>_.
     bind_h (if dg_constraints_changed D
        then bind_h (map_error (\<lambda>e. ''autonomous constraint evidence write failed: '' @ reject_text e)
               (record_event K (T 0) ''diagnostic.autonomy.applied'' (dg_constraints_digest D) (dg_constraints D))) (\<lambda>_.
             modify (\<lambda>s. s\<lparr>kc_excluded_nodes := dg_excluded D\<rparr>))
        else answer ()) (\<lambda>_.
     if dg_report_changed D
     then map_error (\<lambda>e. ''diagnostic evidence write failed: '' @ reject_text e)
            (record_event K (T 1) ''diagnostic.self_scan.completed'' (dg_report_digest D) (dg_report D))
     else answer ()))"

section \<open>The revocation\<close>

text \<open>The clock gives the time of the event and of its append, then the times of the refresh.\<close>

definition revoke_node ::
  "'sk control_lib \<Rightarrow> clock \<Rightarrow> diagnostics \<Rightarrow> uuid \<Rightarrow> string \<Rightarrow> ('sk controller, nat) handler" where
  "revoke_node K T D node_id confirmation =
     bind_h (require (confirmation = ''FORGET '' @ kl_uuid_text K node_id) 403
        ''exact device revocation confirmation is required'') (\<lambda>_.
     with_state (\<lambda>s0.
     bind_h (from_option (fmlookup (kc_nodes s0) node_id) 404 ''node is not enrolled'') (\<lambda>identity.
     let closed = fcard (remote_sessions_of node_id s0) in
     bind_h (record_event K (T 1) ''node.revoked'' (kl_uuid_text K node_id)
        (JObject [(''display_name'', JString (ni_display_name identity)),
          (''node_id'', JString (kl_uuid_text K node_id)), (''public_key'', JString (ni_public_key identity)),
          (''remote_assist_sessions_closed'', JPosInt (of_nat closed)),
          (''revoked_at'', JString (kl_time_text K (T 0)))])) (\<lambda>_.
     bind_h (modify (forget_node node_id)) (\<lambda>_.
     bind_h (map_error (\<lambda>e. Reject 500 e []) (refresh_diagnostics K (\<lambda>n. T (2 + n)) D)) (\<lambda>_.
     answer closed))))))"

section \<open>Offers\<close>

definition OFFER_EVIDENCE_INTERVAL :: int where
  "OFFER_EVIDENCE_INTERVAL = seconds 3600"

definition should_record_offer_evidence :: "datetime option \<Rightarrow> datetime \<Rightarrow> bool" where
  "should_record_offer_evidence recorded_at now =
     (case recorded_at of None \<Rightarrow> True | Some t \<Rightarrow> now - t \<ge> OFFER_EVIDENCE_INTERVAL)"

definition validate_offer_identity_binding :: "node_identity \<Rightarrow> resource_offer \<Rightarrow> string + unit" where
  "validate_offer_identity_binding identity offer =
     (if ro_resources offer = [] then Inl ''resource offer must contain at least one exact resource''
      else if list_ex (\<lambda>r. fmlookup (rq_labels r) ''device_kind'' \<noteq> Some (device_kind_label (ni_device_kind identity)))
                (ro_resources offer)
      then Inl ''resource device class does not match the enrolled native identity''
      else if ni_device_kind identity \<in> {Phone, Tablet, Console} \<and> av_battery_percent (ro_availability offer) = None
      then Inl ''edge offers must include a native battery observation''
      else Inr ())"

definition available_bytes :: "resource_offer \<Rightarrow> resource_class \<Rightarrow> u64" where
  "available_bytes offer class =
     (case List.find (\<lambda>r. rq_class r = class \<and> rq_unit r = ''byte'') (ro_resources offer) of
        None \<Rightarrow> 0 | Some r \<Rightarrow> rq_available r)"

definition runtime_capacity_from_offer :: "resource_offer \<Rightarrow> model_runtime_offer \<Rightarrow> u64" where
  "runtime_capacity_from_offer offer runtime =
     min (mr_available_model_bytes runtime)
       (case mr_memory_kind runtime of
          DedicatedGpu \<Rightarrow> available_bytes offer GpuMemory
        | Unified \<Rightarrow> available_bytes offer RamWorkingSet
        | Host \<Rightarrow> available_bytes offer RamWorkingSet
        | Hybrid \<Rightarrow> sat_add (available_bytes offer GpuMemory) (available_bytes offer RamWorkingSet))"

text \<open>The loops that fill a \<open>BTreeSet\<close> and stop at the first element that was there already.\<close>

fun capabilities_ok :: "resource_offer \<Rightarrow> string list \<Rightarrow> workload_capability list \<Rightarrow> bool" where
  "capabilities_ok offer seen [] = True"
| "capabilities_ok offer seen (c # cs) =
     (workload_capability_is_valid c \<and> wc_adapter c |\<in>| ro_adapters offer \<and> wc_adapter c \<notin> set seen
      \<and> capabilities_ok offer (wc_adapter c # seen) cs)"

fun models_ok :: "string list \<Rightarrow> installed_model list \<Rightarrow> bool" where
  "models_ok seen [] = True"
| "models_ok seen (m # ms) =
     (installed_model_is_valid m \<and> im_model_id m \<notin> set seen \<and> models_ok (im_model_id m # seen) ms)"

definition runtime_profile_ok :: "resource_offer \<Rightarrow> (model_backend \<times> string) list \<Rightarrow> model_runtime_offer \<Rightarrow> bool" where
  "runtime_profile_ok offer seen r =
     (mr_schema r = model_runtime_offer_SCHEMA \<and> trim (mr_adapter r) \<noteq> [] \<and> trim (mr_runtime_version r) \<noteq> []
      \<and> trim (mr_runtime_digest r) \<noteq> [] \<and> trim (mr_compatibility_key r) \<noteq> [] \<and> mr_available_model_bytes r \<noteq> 0
      \<and> mr_available_model_bytes r \<le> runtime_capacity_from_offer offer r \<and> mr_adapter r |\<in>| ro_adapters offer
      \<and> length (mr_installed_models r) \<le> 128 \<and> (mr_backend r, mr_compatibility_key r) \<notin> set seen)"

definition runtime_status_ok :: "model_runtime_offer \<Rightarrow> bool" where
  "runtime_status_ok r =
     (case mr_status r of
        ShippedLocal \<Rightarrow> mr_backend r = LocalOllama \<and> mr_adapter r = ''rampage.ollama.v1''
          \<and> starts_with ''shipped-local:'' (mr_runtime_digest r) \<and> WholeModel |\<in>| mr_supported_parallelism r
          \<and> mr_certification_digest r = None
      | RuntimeQualified \<Rightarrow> mr_installed_models r = [] \<and> is_qualified_for_distributed r
      | RuntimeCandidateStatus \<Rightarrow> mr_installed_models r = [])"

fun validate_runtimes ::
  "resource_offer \<Rightarrow> (model_backend \<times> string) list \<Rightarrow> model_runtime_offer list \<Rightarrow> string + unit" where
  "validate_runtimes offer seen [] = Inr ()"
| "validate_runtimes offer seen (r # rs) =
     (if \<not> runtime_profile_ok offer seen r
      then Inl ''offer contains a malformed or contradictory model-runtime profile''
      else if \<not> models_ok [] (mr_installed_models r)
      then Inl ''offer contains a malformed or duplicate installed model''
      else if \<not> runtime_status_ok r
      then Inl ''model runtime status, backend, topology, or installed-model authority is inconsistent''
      else validate_runtimes offer ((mr_backend r, mr_compatibility_key r) # seen) rs)"

definition validate_model_runtime_contracts :: "resource_offer \<Rightarrow> string + unit" where
  "validate_model_runtime_contracts offer =
     (if length (ro_workload_capabilities offer) > 64
      then Inl ''offer contains too many workload-capability profiles''
      else if \<not> capabilities_ok offer [] (ro_workload_capabilities offer)
      then Inl ''offer contains a malformed or duplicate workload capability''
      else if length (ro_model_runtimes offer) > 16
      then Inl ''offer exceeds the 16 model-runtime profile limit''
      else validate_runtimes offer [] (ro_model_runtimes offer))"

definition check_offer_endpoint ::
  "'sk control_lib \<Rightarrow> clock \<Rightarrow> node_identity \<Rightarrow> resource_offer \<Rightarrow> ('sk controller, unit) handler" where
  "check_offer_endpoint K T identity offer =
     (case ro_mesh_endpoint offer of
        None \<Rightarrow> answer ()
      | Some endpoint \<Rightarrow>
     bind_h (require (me_endpoint_id endpoint = ni_public_key identity) 401
        ''worker endpoint and enrolled identity differ'') (\<lambda>_.
     bind_h (from_result denial_to_string 401
        (verify_mesh_endpoint_with_key (kl_crypto K) (T 1) (T 2) (ni_public_key identity) endpoint)) (\<lambda>_.
     require (me_expires_at endpoint = ro_expires_at offer) 400
        ''worker endpoint and resource offer expiries differ'')))"

definition check_offer ::
  "'sk control_lib \<Rightarrow> clock \<Rightarrow> resource_offer \<Rightarrow> ('sk controller, unit) handler" where
  "check_offer K T offer =
     bind_h (require (ro_signature offer \<noteq> [] \<and> T 0 < ro_expires_at offer) 400 ''invalid or expired offer'') (\<lambda>_.
     with_state (\<lambda>s.
     bind_h (from_option (fmlookup (kc_nodes s) (ro_node_id offer)) 401 ''node is not enrolled'') (\<lambda>identity.
     bind_h (from_result denial_to_string 401 (verify_offer (kl_crypto K) identity offer)) (\<lambda>_.
     bind_h (from_result id 401 (validate_offer_identity_binding identity offer)) (\<lambda>_.
     bind_h (from_result id 400 (validate_model_runtime_contracts offer)) (\<lambda>_.
     bind_h (require (case ro_link_benchmark offer of None \<Rightarrow> True
          | Some b \<Rightarrow> link_benchmark_is_valid_for b (kl_endpoint_id K) (ro_observed_at offer) (ro_expires_at offer))
        400 ''link benchmark is stale, malformed, or targets another controller'') (\<lambda>_.
     check_offer_endpoint K T identity offer)))))))"

definition record_offer_evidence ::
  "'sk control_lib \<Rightarrow> clock \<Rightarrow> resource_offer \<Rightarrow> ('sk controller, unit) handler" where
  "record_offer_evidence K T offer =
     with_state (\<lambda>s.
     if \<not> should_record_offer_evidence (fmlookup (kc_offer_evidence_recorded_at s) (ro_node_id offer)) (T 3) then answer ()
     else
     bind_h (case ro_link_benchmark offer of
               None \<Rightarrow> answer ()
             | Some benchmark \<Rightarrow> record_event K (T 4) ''network.benchmark.recorded''
                 (kl_uuid_text K (ro_node_id offer)) (vc_to (kl_benchmark K) benchmark)) (\<lambda>_.
     bind_h (record_event K (T 5) ''resource.offer.registered'' (kl_uuid_text K (ro_node_id offer))
        (vc_to (kl_offer K) offer)) (\<lambda>_.
     modify (\<lambda>s. s\<lparr>kc_offer_evidence_recorded_at :=
        fmupd (ro_node_id offer) (T 3) (kc_offer_evidence_recorded_at s)\<rparr>))))"

text \<open>The handler holds no lock from the reading of the registry of nodes to the storing of the offer, so other
  handlers may run between its checks and \<open>store_offer\<close>; \<open>register_offer\<close> is the run without such a handler.\<close>

definition store_offer :: "resource_offer \<Rightarrow> ('sk controller, unit) handler" where
  "store_offer offer = modify (\<lambda>s. s\<lparr>kc_offers := fmupd (ro_node_id offer) offer (kc_offers s)\<rparr>)"

definition register_offer ::
  "'sk control_lib \<Rightarrow> clock \<Rightarrow> resource_offer \<Rightarrow> ('sk controller, uuid \<times> datetime) handler" where
  "register_offer K T offer =
     bind_h (check_offer K T offer) (\<lambda>_.
     bind_h (record_offer_evidence K T offer) (\<lambda>_.
     bind_h (store_offer offer) (\<lambda>_.
     answer (ro_offer_id offer, T 6))))"

section \<open>Stop and resume\<close>

text \<open>The answers of the file system during a stop or a resume. A failure of a write comes before or after the
  file is there: \<open>xe_latch_left\<close> says that the latch exists, \<open>xe_marker_left\<close> what is left of the marker, where
  \<open>None\<close> is a marker that could not be opened.\<close>

record latch_env =
  xe_create_latch :: "string option"
  xe_latch_left :: bool
  xe_write_marker :: "string option"
  xe_marker_left :: "string option"
  xe_remove_marker :: "string option"
  xe_remove_latch :: "string option"

definition read_stop_epoch_marker :: "'sk controller \<Rightarrow> u64 option" where
  "read_stop_epoch_marker s = (case kc_stop_marker s of None \<Rightarrow> None | Some text \<Rightarrow> parse_u64 (trim text))"

definition write_stop_epoch_marker :: "latch_env \<Rightarrow> u64 \<Rightarrow> ('sk controller, unit) handler" where
  "write_stop_epoch_marker env fencing_epoch =
     (case xe_write_marker env of
        Some e \<Rightarrow> bind_h (modify (\<lambda>s. case xe_marker_left env of
             None \<Rightarrow> s | Some text \<Rightarrow> s\<lparr>kc_stop_marker := Some text\<rparr>)) (\<lambda>_. refuse 500 e)
      | None \<Rightarrow> modify (\<lambda>s. s\<lparr>kc_stop_marker := Some (show_u64 fencing_epoch @ [CHR 0x0A])\<rparr>))"

text \<open>\<open>create_new\<close> fails when the path exists; that failure is ignored.\<close>

definition set_kill_latch :: "latch_env \<Rightarrow> ('sk controller, unit) handler" where
  "set_kill_latch env =
     with_state (\<lambda>s.
     if kill_latch_is_file s then answer ()
     else if kc_kill_latch s = LatchOther then answer ()
     else case xe_create_latch env of
        Some e \<Rightarrow> bind_h (modify (\<lambda>s. if xe_latch_left env then s\<lparr>kc_kill_latch := LatchFile\<rparr> else s)) (\<lambda>_. refuse 500 e)
      | None \<Rightarrow> modify (\<lambda>s. s\<lparr>kc_kill_latch := LatchFile\<rparr>))"

definition advance_epoch :: "'sk control_lib \<Rightarrow> datetime \<Rightarrow> ('sk controller, u64) handler" where
  "advance_epoch K now s =
     (case advance_fencing_epoch (kl_ledger K) now ''controller'' (kc_ledger s) of
        Inl e \<Rightarrow> (Inl (Reject 500 (kl_ledger_text K e) []), s)
      | Inr (epoch, ledger) \<Rightarrow> (Inr epoch, s\<lparr>kc_ledger := ledger, kc_fencing_epoch := epoch\<rparr>))"

text \<open>The result says whether the stop was a repetition, and the epoch.\<close>

definition local_stop ::
  "'sk control_lib \<Rightarrow> clock \<Rightarrow> latch_env \<Rightarrow> ('sk controller, bool \<times> u64) handler" where
  "local_stop K T env =
     with_state (\<lambda>s0.
     if kill_latch_is_file s0 \<and> read_stop_epoch_marker s0 = Some (kc_fencing_epoch s0)
     then answer (True, kc_fencing_epoch s0)
     else
     bind_h (set_kill_latch env) (\<lambda>_.
     bind_h (advance_epoch K (T 0)) (\<lambda>fencing_epoch.
     bind_h (write_stop_epoch_marker env fencing_epoch) (\<lambda>_.
     bind_h (modify (\<lambda>s. s\<lparr>kc_model_cancellations := fmmap (\<lambda>_. True) (kc_model_cancellations s),
        kc_remote_desktop_sessions := fmempty\<rparr>)) (\<lambda>_.
     bind_h (record_event K (T 1) ''fabric.owner_stop'' ''local-fabric''
        (JObject [(''fencing_epoch'', JPosInt fencing_epoch),
          (''remote_assist_sessions_closed'', JPosInt (of_nat (fcard (fmdom (kc_remote_desktop_sessions s0))))),
          (''source'', JString ''local-api'')])) (\<lambda>_.
     answer (False, fencing_epoch)))))))"

definition remove_stop_marker :: "latch_env \<Rightarrow> ('sk controller, unit) handler" where
  "remove_stop_marker env =
     with_state (\<lambda>s.
     if kc_stop_marker s = None then answer ()
     else case xe_remove_marker env of
        Some e \<Rightarrow> refuse 500 e
      | None \<Rightarrow> modify (\<lambda>s. s\<lparr>kc_stop_marker := None\<rparr>))"

definition remove_kill_latch :: "latch_env \<Rightarrow> ('sk controller, unit) handler" where
  "remove_kill_latch env =
     with_state (\<lambda>s.
     if \<not> kill_latch_is_file s then answer ()
     else case xe_remove_latch env of
        Some e \<Rightarrow> refuse 500 e
      | None \<Rightarrow> modify (\<lambda>s. s\<lparr>kc_kill_latch := NoLatch\<rparr>))"

definition local_resume ::
  "'sk control_lib \<Rightarrow> clock \<Rightarrow> latch_env \<Rightarrow> string \<Rightarrow> ('sk controller, u64) handler" where
  "local_resume K T env confirmation =
     bind_h (require (confirmation = ''OWNER_RESUME'') 403 ''exact owner resume confirmation is required'') (\<lambda>_.
     bind_h (remove_stop_marker env) (\<lambda>_.
     bind_h (remove_kill_latch env) (\<lambda>_.
     bind_h (record_event K (T 0) ''fabric.owner_resume'' ''local-fabric''
        (JObject [(''explicit_confirmation'', JBool True), (''source'', JString ''local-api'')])) (\<lambda>_.
     with_state (\<lambda>s. answer (kc_fencing_epoch s))))))"

end
