(* ===== verification/Rampage_Jobs.thy ===== *)
theory Rampage_Jobs
  imports Rampage_Membership
begin

text \<open>
  The life of a job in the controller daemon (\<open>crates/rampage-controller/src/main.rs\<close>): submission of a
  job or of a shard set with the staging of its inputs, the claim of the work by a worker, and the
  receipt. A status of 0 stands for a request whose handler panics, so that no answer is sent.
\<close>

section \<open>Placement inputs\<close>

definition values_in_order :: "('k, 'v) fmap \<Rightarrow> 'k list \<Rightarrow> 'v list" where
  "values_in_order m ks = List.map_filter (fmlookup m) ks"

definition placement_offers :: "'sk control_lib \<Rightarrow> 'sk controller \<Rightarrow> resource_offer list" where
  "placement_offers K s =
     filter (\<lambda>offer. ro_node_id offer |\<notin>| kc_excluded_nodes s)
       (values_in_order (kc_offers s) (kl_offer_order K (kc_offers s)))"

definition local_inputs :: "'sk controller \<Rightarrow> job_spec \<Rightarrow> resource_offer \<Rightarrow> string fset" where
  "local_inputs s job offer =
     (if ro_mesh_endpoint offer = None then fset_of_list (map ar_digest (js_inputs job))
      else fset_of_list (map ar_digest (filter
        (\<lambda>input. fmlookup (kc_artifact_replicas s) (ar_digest input, ro_node_id offer) \<noteq> None) (js_inputs job))))"

definition input_locality ::
  "'sk controller \<Rightarrow> resource_offer list \<Rightarrow> job_spec \<Rightarrow> (uuid \<rightharpoonup> string fset)" where
  "input_locality s offers job = map_of (rev (map (\<lambda>offer. (ro_node_id offer, local_inputs s job offer)) offers))"

definition shard_input_locality ::
  "'sk controller \<Rightarrow> resource_offer list \<Rightarrow> shard_set \<Rightarrow> (uuid \<times> uuid \<rightharpoonup> string fset)" where
  "shard_input_locality s offers sset =
     map_of (rev (concat (map (\<lambda>job. map (\<lambda>offer. ((js_job_id job, ro_node_id offer), local_inputs s job offer)) offers)
       (ss_shards sset))))"

section \<open>Staging of inputs\<close>

text \<open>\<open>Uuid::from_bytes\<close>, and the identifier of a transfer session, a hash marked as a version 5 UUID.\<close>

definition uuid_from_bytes :: "string \<Rightarrow> uuid" where
  "uuid_from_bytes bytes = of_nat (foldl (\<lambda>n c. 256 * n + of_char c) 0 bytes)"

definition mark_byte :: "nat \<Rightarrow> nat \<Rightarrow> nat \<Rightarrow> string \<Rightarrow> string" where
  "mark_byte i m v bytes = bytes[i := char_of (of_char (bytes ! i) mod m + v)]"

fun operation_bytes :: "artifact_transfer_operation \<Rightarrow> string" where
  "operation_bytes Put = ''put''"
| "operation_bytes Get = ''get''"

definition artifact_transfer_session_id ::
  "'sk control_lib \<Rightarrow> uuid \<Rightarrow> string \<Rightarrow> artifact_transfer_operation \<Rightarrow> uuid" where
  "artifact_transfer_session_id K node_id digest operation =
     uuid_from_bytes (mark_byte 8 64 128 (mark_byte 6 16 80 (take 16 (cr_sha256 (kl_crypto K)
       (''rampage.artifact-transfer-session.v1'' @ [CHR 0x00] @ uuid_bytes node_id @ [CHR 0x00] @ digest
        @ [CHR 0x00] @ operation_bytes operation)))))"

text \<open>One transfer: the clock, the Governor's identifiers, the identifiers and challenges of its requests,
  and what the remote node answers to each of them.\<close>

record stage_env =
  sg_now :: datetime
  sg_append_now :: datetime
  sg_verify_now :: datetime
  sg_recorded_now :: datetime
  sg_lease_id :: uuid
  sg_nonce :: string
  sg_request :: "nat \<Rightarrow> uuid"
  sg_challenge :: "nat \<Rightarrow> string"
  sg_begin :: artifact_exchange
  sg_chunk :: "u32 \<Rightarrow> artifact_exchange"
  sg_commit :: artifact_exchange

record replication_outcome =
  rp_artifact :: artifact_ref
  rp_receipt :: artifact_replica_receipt
  rp_lease_id :: uuid
  rp_session_id :: uuid
  rp_resumed_chunks :: nat
  rp_chunk_count :: u32

definition verify_replica_evidence ::
  "'sk control_lib \<Rightarrow> datetime \<Rightarrow> 'sk controller \<Rightarrow> resource_offer \<Rightarrow> storage_lease \<Rightarrow> uuid \<Rightarrow> string
     \<Rightarrow> artifact_replica_receipt \<Rightarrow> string + unit" where
  "verify_replica_evidence K now s offer lease session_id challenge_nonce receipt =
     (case fmlookup (kc_nodes s) (ro_node_id offer) of
        None \<Rightarrow> Inl ''replica node identity is unavailable''
      | Some identity \<Rightarrow>
     case verify_artifact_replica_receipt (kl_crypto K) now identity receipt of
        Inl e \<Rightarrow> Inl (denial_to_string e)
      | Inr _ \<Rightarrow>
          if rc_session_id receipt = session_id \<and> rc_lease_id receipt = sl_lease_id lease
             \<and> rc_node_id receipt = ro_node_id offer \<and> rc_digest receipt = sl_digest lease
             \<and> rc_size_bytes receipt = sl_size_bytes lease \<and> rc_storage_class receipt = sl_storage_class lease
             \<and> rc_challenge_nonce receipt = challenge_nonce \<and> rc_fencing_epoch receipt = sl_fencing_epoch lease
          then Inr () else Inl ''replica receipt is not bound to the exact transfer authority'')"

definition transfer_context :: "stage_env \<Rightarrow> storage_lease \<Rightarrow> artifact_ref \<Rightarrow> uuid \<Rightarrow> nat \<Rightarrow> artifact_transfer_context" where
  "transfer_context env lease source session_id n =
     \<lparr>tc_lease = lease, tc_media_type = ar_media_type source, tc_session_id = session_id,
      tc_challenge_nonce = sg_challenge env n\<rparr>"

text \<open>The loop over the chunks the remote node is missing; \<open>n\<close> numbers the requests.\<close>

fun send_chunks ::
  "'sk control_lib \<Rightarrow> stage_env \<Rightarrow> storage_lease \<Rightarrow> artifact_ref \<Rightarrow> uuid \<Rightarrow> cas_store \<Rightarrow> nat \<Rightarrow> u32 list
     \<Rightarrow> string + unit" where
  "send_chunks K env lease source session_id store n [] = Inr ()"
| "send_chunks K env lease source session_id store n (index # rest) =
     (case get_chunk (kl_cas K) (ar_digest source) index store of
        Inl e \<Rightarrow> Inl (kl_store_text K e)
      | Inr chunk \<Rightarrow>
     case artifact_put_chunk (sg_chunk env index) (transfer_context env lease source session_id n) (sg_request env n) index
            (''sha256:'' @ cr_hex_encode (kl_crypto K) (cr_sha256 (kl_crypto K) chunk)) chunk of
        Inl e \<Rightarrow> Inl (kl_mesh_text K e)
      | Inr updated \<Rightarrow>
          if artifact_transfer_progress_is_valid updated \<and> ap_session_id updated = session_id
             \<and> ap_digest updated = ar_digest source
          then send_chunks K env lease source session_id store (n + 1) rest
          else Inl ''remote transfer progress changed its content binding'')"

definition begin_transfer ::
  "'sk control_lib \<Rightarrow> stage_env \<Rightarrow> storage_lease \<Rightarrow> artifact_ref \<Rightarrow> uuid \<Rightarrow> string + artifact_transfer_progress" where
  "begin_transfer K env lease source session_id =
     (case artifact_put (sg_begin env) (transfer_context env lease source session_id 0) (sg_request env 0) of
        Inl e \<Rightarrow> Inl (kl_mesh_text K e)
      | Inr progress \<Rightarrow>
          if artifact_transfer_progress_is_valid progress \<and> ap_session_id progress = session_id
             \<and> ap_digest progress = ar_digest source \<and> ap_size_bytes progress = ar_size_bytes source
          then Inr progress else Inl ''remote transfer progress is malformed or mismatched'')"

definition commit_transfer ::
  "'sk control_lib \<Rightarrow> stage_env \<Rightarrow> storage_lease \<Rightarrow> artifact_ref \<Rightarrow> storage_class \<Rightarrow> uuid \<Rightarrow> nat
     \<Rightarrow> string + artifact_ref \<times> artifact_replica_receipt" where
  "commit_transfer K env lease source class session_id n =
     (case artifact_commit (sg_commit env) (transfer_context env lease source session_id n) (sg_request env n) of
        Inl e \<Rightarrow> Inl (kl_mesh_text K e)
      | Inr (artifact, receipt) \<Rightarrow>
          if ar_digest artifact = ar_digest source \<and> ar_size_bytes artifact = ar_size_bytes source
             \<and> ar_media_type artifact = ar_media_type source \<and> ar_storage_class artifact = class
             \<and> ar_encrypted artifact
          then Inr (artifact, receipt) else Inl ''remote artifact does not match the source contract'')"

definition transfer_replica ::
  "'sk control_lib \<Rightarrow> stage_env \<Rightarrow> 'sk controller \<Rightarrow> resource_offer \<Rightarrow> storage_lease \<Rightarrow> artifact_ref \<Rightarrow> storage_class
     \<Rightarrow> string + replication_outcome" where
  "transfer_replica K env s offer lease source class =
     (let session_id = artifact_transfer_session_id K (ro_node_id offer) (ar_digest source) Put in
      and_then (begin_transfer K env lease source session_id) (\<lambda>progress.
      and_then (send_chunks K env lease source session_id (kc_artifact_store s) 1 (ap_missing_chunks progress)) (\<lambda>_.
      let n = 1 + length (ap_missing_chunks progress) in
      and_then (commit_transfer K env lease source class session_id n) (\<lambda>(artifact, receipt).
      and_then (verify_replica_evidence K (sg_verify_now env) s offer lease session_id (sg_challenge env n) receipt) (\<lambda>_.
      Inr \<lparr>rp_artifact = artifact, rp_receipt = receipt, rp_lease_id = sl_lease_id lease, rp_session_id = session_id,
           rp_resumed_chunks = length (ap_received_chunks progress), rp_chunk_count = ap_chunk_count progress\<rparr>)))))"

definition replicate_to_offer ::
  "'sk control_lib \<Rightarrow> stage_env \<Rightarrow> resource_offer \<Rightarrow> artifact_ref \<Rightarrow> storage_class
     \<Rightarrow> ('sk controller, string, replication_outcome) action" where
  "replicate_to_offer K env offer source class =
     with_state (\<lambda>s.
     bind_h (lift (map_sum denial_to_string id (authorize_storage_at_epoch (kl_crypto K) (kc_governor s) (sg_now env)
        (sg_lease_id env) (sg_nonce env) offer (ar_digest source) (ar_size_bytes source) class Put (kc_fencing_epoch s)))) (\<lambda>lease.
     bind_h (map_error reject_text (record_event K (sg_append_now env) ''storage.lease.issued''
        (kl_uuid_text K (sl_lease_id lease)) (vc_to (kl_storage_lease K) lease))) (\<lambda>_.
     lift (transfer_replica K env s offer lease source class))))"

definition staged_payload :: "'sk control_lib \<Rightarrow> resource_offer \<Rightarrow> job_spec \<Rightarrow> replication_outcome \<Rightarrow> json" where
  "staged_payload K offer job outcome =
     JObject [(''artifact'', vc_to (kl_artifact K) (rp_artifact outcome)),
       (''chunk_count'', JPosInt (ucast (rp_chunk_count outcome))), (''job_id'', JString (kl_uuid_text K (js_job_id job))),
       (''node_id'', JString (kl_uuid_text K (ro_node_id offer))),
       (''replica_receipt'', vc_to (kl_replica_receipt K) (rp_receipt outcome)),
       (''resumed_chunks'', JPosInt (of_nat (rp_resumed_chunks outcome))),
       (''storage_lease_id'', JString (kl_uuid_text K (rp_lease_id outcome))),
       (''transfer_session_id'', JString (kl_uuid_text K (rp_session_id outcome)))]"

definition stage_input ::
  "'sk control_lib \<Rightarrow> ('i, 'r) endpoint_lib \<Rightarrow> stage_env \<Rightarrow> resource_offer \<Rightarrow> job_spec \<Rightarrow> artifact_ref
     \<Rightarrow> ('sk controller, unit) handler" where
  "stage_input K E env offer job input =
     with_state (\<lambda>s.
     bind_h (from_result (\<lambda>e. ''job input is unavailable: '' @ kl_store_text K e) 400
        (head (kl_cas K) (ar_digest input) (kc_artifact_store s))) (\<lambda>local_ref.
     bind_h (require (ar_size_bytes local_ref = ar_size_bytes input \<and> ar_media_type local_ref = ar_media_type input
          \<and> ar_storage_class local_ref = ar_storage_class input)
        400 ''job input metadata does not match the controller CAS'') (\<lambda>_.
     case ro_mesh_endpoint offer of
        None \<Rightarrow> answer ()
      | Some endpoint_record \<Rightarrow>
     if fmlookup (kc_artifact_replicas s) (ar_digest input, ro_node_id offer) \<noteq> None then answer ()
     else
     bind_h (from_result (kl_mesh_text K) 409 (endpoint_addr_from_record E (sg_now env) endpoint_record)) (\<lambda>_.
     bind_h (map_error (\<lambda>e. Reject 502 (''input staging failed: '' @ e) [])
        (replicate_to_offer K env offer local_ref (ar_storage_class input))) (\<lambda>outcome.
     let key = (ar_digest (rp_artifact outcome), ro_node_id offer) in
     bind_h (modify (\<lambda>s. s\<lparr>kc_artifact_replicas := fmupd key (rp_artifact outcome) (kc_artifact_replicas s),
        kc_replica_evidence := fmupd key (rp_receipt outcome) (kc_replica_evidence s)\<rparr>)) (\<lambda>_.
     record_event K (sg_recorded_now env) ''artifact.input.staged'' (ar_digest (rp_artifact outcome))
        (staged_payload K offer job outcome)))))))"

fun stage_inputs ::
  "'sk control_lib \<Rightarrow> ('i, 'r) endpoint_lib \<Rightarrow> (nat \<Rightarrow> stage_env) \<Rightarrow> nat \<Rightarrow> resource_offer \<Rightarrow> job_spec
     \<Rightarrow> artifact_ref list \<Rightarrow> ('sk controller, unit) handler" where
  "stage_inputs K E envs n offer job [] = answer ()"
| "stage_inputs K E envs n offer job (input # rest) =
     bind_h (stage_input K E (envs n) offer job input) (\<lambda>_. stage_inputs K E envs (n + 1) offer job rest)"

definition stage_job_inputs ::
  "'sk control_lib \<Rightarrow> ('i, 'r) endpoint_lib \<Rightarrow> (nat \<Rightarrow> stage_env) \<Rightarrow> resource_offer \<Rightarrow> job_spec
     \<Rightarrow> ('sk controller, unit) handler" where
  "stage_job_inputs K E envs offer job = stage_inputs K E envs 0 offer job (js_inputs job)"

section \<open>Submission of a job\<close>

record job_env =
  jb_lease_id :: uuid
  jb_nonce :: string
  jb_stage :: "nat \<Rightarrow> stage_env"

definition job_reservations :: "job_spec \<Rightarrow> uuid \<Rightarrow> datetime \<Rightarrow> resource_reservation list" where
  "job_reservations job node_id expires_at =
     map (\<lambda>request. \<lparr>rs_job_id = js_job_id job, rs_node_id = node_id, rs_class = rr_class request,
       rs_amount = rr_minimum request, rs_expires_at = expires_at\<rparr>) (js_requests job)"

definition assign :: "job_spec \<Rightarrow> capability_lease \<Rightarrow> uuid \<Rightarrow> 'sk controller \<Rightarrow> 'sk controller" where
  "assign job lease node_id s =
     s\<lparr>kc_idempotency := fmupd (js_idempotency_key job) (js_job_id job) (kc_idempotency s),
       kc_assignments := fmupd (js_job_id job) \<lparr>as_job = job, as_lease = lease, as_claimed = False\<rparr> (kc_assignments s),
       kc_reservations := kc_reservations s @ job_reservations job node_id (cl_expires_at lease)\<rparr>"

text \<open>\<open>retain\<close> reads the clock for each entry; here once.\<close>

definition drop_expired_reservations :: "datetime \<Rightarrow> 'sk controller \<Rightarrow> 'sk controller" where
  "drop_expired_reservations now s =
     s\<lparr>kc_reservations := filter (\<lambda>r. now < resource_reservation.rs_expires_at r) (kc_reservations s)\<rparr>"

definition existing_assignment :: "job_spec \<Rightarrow> 'sk controller \<Rightarrow> assignment option" where
  "existing_assignment job s =
     Option.bind (fmlookup (kc_idempotency s) (js_idempotency_key job)) (fmlookup (kc_assignments s))"

text \<open>The Governor's answer; \<open>None\<close> is its panic.\<close>

definition authorize_or_refuse ::
  "'sk control_lib \<Rightarrow> datetime \<Rightarrow> uuid \<Rightarrow> string \<Rightarrow> (denial \<Rightarrow> http_reject) \<Rightarrow> job_spec \<Rightarrow> resource_offer \<Rightarrow> uuid
     \<Rightarrow> ('sk controller, capability_lease) handler" where
  "authorize_or_refuse K now lease_id nonce rejection job offer node_id =
     with_state (\<lambda>s.
     case authorize_job_at_epoch (kl_crypto K) (kc_governor s) now lease_id nonce job offer node_id (kc_fencing_epoch s) of
        None \<Rightarrow> refuse 0 ''panic''
      | Some r \<Rightarrow> lift (map_sum rejection id r))"

definition admit_job ::
  "'sk control_lib \<Rightarrow> ('i, 'r) endpoint_lib \<Rightarrow> clock \<Rightarrow> job_env \<Rightarrow> job_spec \<Rightarrow> resource_offer \<Rightarrow> placement_score
     \<Rightarrow> ('sk controller, bool \<times> capability_lease) handler" where
  "admit_job K E T J job offer score =
     bind_h (authorize_or_refuse K (T 4) (jb_lease_id J) (jb_nonce J) (\<lambda>e. Reject 403 (denial_to_string e) [])
        job offer (ro_node_id offer)) (\<lambda>lease.
     bind_h (stage_job_inputs K E (jb_stage J) offer job) (\<lambda>_.
     bind_h (record_event K (T 5) ''lease.issued'' (kl_uuid_text K (js_job_id job))
        (JObject [(''lease'', vc_to (kl_lease K) lease), (''placement'', vc_to (kl_score K) score)])) (\<lambda>_.
     bind_h (modify (drop_expired_reservations (T 6))) (\<lambda>_.
     bind_h (modify (assign job lease (cl_node_id lease))) (\<lambda>_. answer (True, lease))))))"

text \<open>The part of the handler that runs under the admission gate. The first component of the result tells a new
  lease (202) from the replay of an old one (200).\<close>

definition submit_job_gated ::
  "'sk control_lib \<Rightarrow> ('i, 'r) endpoint_lib \<Rightarrow> clock \<Rightarrow> job_env \<Rightarrow> job_spec
     \<Rightarrow> ('sk controller, bool \<times> capability_lease) handler" where
  "submit_job_gated K E T J job =
     with_state (\<lambda>s.
     case existing_assignment job s of
        Some existing \<Rightarrow>
          bind_h (require (vc_to (kl_job K) (as_job existing) = vc_to (kl_job K) job) 409
             ''job idempotency key is already bound to other data'') (\<lambda>_. answer (False, as_lease existing))
      | None \<Rightarrow>
     bind_h (record_event K (T 1) ''job.proposed'' (kl_uuid_text K (js_job_id job)) (vc_to (kl_job K) job)) (\<lambda>_.
     let offers = placement_offers K s in
     case choose_offer_with_topology job offers (kc_reservations s) (kc_admission_policy s) (T 2)
            (input_locality s offers job) of
        None \<Rightarrow>
          bind_h (record_event K (T 3) ''job.blocked'' (kl_uuid_text K (js_job_id job))
             (JObject [(''reason'', JString ''no admissible offer'')])) (\<lambda>_. refuse 409 ''no admissible offer'')
      | Some (offer, score) \<Rightarrow> admit_job K E T J job offer score))"

text \<open>The latch and the job are checked before the handler waits for the gate, and not again after it; in between
  other handlers may run. \<open>submit_job\<close> is the run in which the gate is free.\<close>

definition submit_job ::
  "'sk control_lib \<Rightarrow> ('i, 'r) endpoint_lib \<Rightarrow> clock \<Rightarrow> job_env \<Rightarrow> job_spec
     \<Rightarrow> ('sk controller, bool \<times> capability_lease) handler" where
  "submit_job K E T J job =
     with_state (\<lambda>s.
     bind_h (require (\<not> kill_latch_is_file s) 423 ''owner kill latch is active'') (\<lambda>_.
     bind_h (from_result contract_error_to_string 400 (job_validate_at job (T 0))) (\<lambda>_.
     submit_job_gated K E T J job)))"

section \<open>Submission of a shard set\<close>

text \<open>\<open>find\<close> over the values of the map, in its iteration order.\<close>

definition existing_shard_set :: "shard_set \<Rightarrow> shard_set_record list \<Rightarrow> shard_set_record option" where
  "existing_shard_set sset records =
     List.find (\<lambda>record. ss_idempotency_key (sr_spec record) = ss_idempotency_key sset) records"

definition shard_key_conflict :: "shard_set \<Rightarrow> 'sk controller \<Rightarrow> bool" where
  "shard_key_conflict sset s =
     list_ex (\<lambda>job. case fmlookup (kc_idempotency s) (js_idempotency_key job) of
        None \<Rightarrow> False | Some existing_job_id \<Rightarrow> existing_job_id \<noteq> js_job_id job) (ss_shards sset)"

definition offer_of :: "resource_offer list \<Rightarrow> uuid \<Rightarrow> resource_offer option" where
  "offer_of offers node_id = List.find (\<lambda>offer. ro_node_id offer = node_id) offers"

fun check_shards ::
  "'sk control_lib \<Rightarrow> 'sk governor \<Rightarrow> (nat \<Rightarrow> datetime) \<Rightarrow> nat \<Rightarrow> resource_offer list \<Rightarrow> (job_spec \<times> shard_placement) list
     \<Rightarrow> http_reject + unit" where
  "check_shards K gov T n offers [] = Inr ()"
| "check_shards K gov T n offers ((job, placement) # rest) =
     (case offer_of offers (sp_node_id placement) of
        None \<Rightarrow> Inl (Reject 409 ''planned offer disappeared before admission'' [])
      | Some offer \<Rightarrow>
     case check_job_at (gov_config gov) job offer (sp_node_id placement) (T n) of
        Inl e \<Rightarrow> Inl (Reject 403 (denial_to_string e) 
          [(''authority_issued'', JBool False), (''blocked_job_id'', JString (kl_uuid_text K (js_job_id job)))])
      | Inr _ \<Rightarrow> check_shards K gov T (n + 1) offers rest)"

fun stage_shards ::
  "'sk control_lib \<Rightarrow> ('i, 'r) endpoint_lib \<Rightarrow> (nat \<Rightarrow> job_env) \<Rightarrow> nat \<Rightarrow> resource_offer list
     \<Rightarrow> (job_spec \<times> shard_placement) list \<Rightarrow> ('sk controller, unit) handler" where
  "stage_shards K E J n offers [] = answer ()"
| "stage_shards K E J n offers ((job, placement) # rest) =
     bind_h (from_option (offer_of offers (sp_node_id placement)) 0 ''panic'') (\<lambda>offer.
     bind_h (stage_job_inputs K E (jb_stage (J n)) offer job) (\<lambda>_.
     stage_shards K E J (n + 1) offers rest))"

fun lease_shards ::
  "'sk control_lib \<Rightarrow> (nat \<Rightarrow> datetime) \<Rightarrow> (nat \<Rightarrow> job_env) \<Rightarrow> nat \<Rightarrow> resource_offer list
     \<Rightarrow> (job_spec \<times> shard_placement) list \<Rightarrow> ('sk controller, capability_lease list) handler" where
  "lease_shards K T J n offers [] = answer []"
| "lease_shards K T J n offers ((job, placement) # rest) =
     bind_h (from_option (offer_of offers (sp_node_id placement)) 0 ''panic'') (\<lambda>offer.
     bind_h (authorize_or_refuse K (T n) (jb_lease_id (J n)) (jb_nonce (J n))
        (\<lambda>e. Reject 409 (''authority changed during staging: '' @ denial_to_string e)
           [(''authority_persisted'', JBool False), (''blocked_job_id'', JString (kl_uuid_text K (js_job_id job)))])
        job offer (sp_node_id placement)) (\<lambda>lease.
     bind_h (lease_shards K T J (n + 1) offers rest) (\<lambda>leases. answer (lease # leases))))"

fun assign_all :: "(job_spec \<times> capability_lease \<times> shard_placement) list \<Rightarrow> 'sk controller \<Rightarrow> 'sk controller" where
  "assign_all [] s = s"
| "assign_all ((job, lease, placement) # rest) s = assign_all rest (assign job lease (sp_node_id placement) s)"

text \<open>The clocks of the handler: its own reading, those of the checks and those of the authorisations.\<close>

record shard_env =
  sn_now :: datetime
  sn_check :: "nat \<Rightarrow> datetime"
  sn_authorize :: "nat \<Rightarrow> datetime"
  sn_append :: datetime
  sn_jobs :: "nat \<Rightarrow> job_env"
  sn_order :: "(uuid, shard_set_record) fmap \<Rightarrow> uuid list"

definition admit_shards ::
  "'sk control_lib \<Rightarrow> ('i, 'r) endpoint_lib \<Rightarrow> shard_env \<Rightarrow> json \<Rightarrow> shard_set \<Rightarrow> resource_offer list
     \<Rightarrow> shard_placement list \<Rightarrow> ('sk controller, bool \<times> capability_lease list) handler" where
  "admit_shards K E env placements_json sset offers placements =
     with_state (\<lambda>s.
     bind_h (lift (check_shards K (kc_governor s) (sn_check env) 0 offers (zip (ss_shards sset) placements))) (\<lambda>_.
     bind_h (stage_shards K E (sn_jobs env) 0 offers (zip (ss_shards sset) placements)) (\<lambda>_.
     bind_h (lease_shards K (sn_authorize env) (sn_jobs env) 0 offers (zip (ss_shards sset) placements)) (\<lambda>leases.
     bind_h (record_event K (sn_append env) ''shard_set.admitted'' (kl_uuid_text K (ss_set_id sset))
        (JObject [(''leases'', JArray (map (vc_to (kl_lease K)) leases)), (''placements'', placements_json),
          (''set'', vc_to (kl_shard_set K) sset)])) (\<lambda>_.
     bind_h (modify (drop_expired_reservations (sn_now env))) (\<lambda>_.
     bind_h (modify (assign_all (zip (ss_shards sset) (zip leases placements)))) (\<lambda>_.
     bind_h (modify (\<lambda>s. s\<lparr>kc_shard_sets := fmupd (ss_set_id sset) \<lparr>sr_spec = sset, sr_leases = leases\<rparr>
        (kc_shard_sets s)\<rparr>)) (\<lambda>_.
     answer (True, leases)))))))))"

text \<open>The part of the handler under the admission gate. \<open>placements_json\<close> is serde's value of the placements,
  which goes into the evidence.\<close>

definition submit_shard_set_gated ::
  "'sk control_lib \<Rightarrow> ('i, 'r) endpoint_lib \<Rightarrow> shard_env \<Rightarrow> (shard_placement list \<Rightarrow> json) \<Rightarrow> shard_set
     \<Rightarrow> ('sk controller, bool \<times> capability_lease list) handler" where
  "submit_shard_set_gated K E env placements_json sset =
     with_state (\<lambda>s.
     case existing_shard_set sset (values_in_order (kc_shard_sets s) (sn_order env (kc_shard_sets s))) of
        Some existing \<Rightarrow>
          bind_h (require (vc_to (kl_shard_set K) (sr_spec existing) = vc_to (kl_shard_set K) sset) 409
             ''shard-set idempotency key is already bound to other data'') (\<lambda>_. answer (False, sr_leases existing))
      | None \<Rightarrow>
     bind_h (require (\<not> shard_key_conflict sset s) 409 ''a shard idempotency key is already bound to another job'') (\<lambda>_.
     let offers = placement_offers K s in
     case plan_shard_set sset offers (kc_reservations s) (kc_admission_policy s) (sn_now env)
            (shard_input_locality s offers sset) of
        Inl failure \<Rightarrow> lift (Inl (Reject 409 (sf_reason failure)
          [(''authority_issued'', JBool False), (''blocked_job_id'', JString (kl_uuid_text K (sf_blocked_job_id failure))),
           (''planned_shards'', JPosInt (of_nat (sf_planned_shards failure)))]))
      | Inr placements \<Rightarrow> admit_shards K E env (placements_json placements) sset offers placements))"

text \<open>Latch and shard set are checked before the handler waits for the gate, as for a job.\<close>

definition submit_shard_set ::
  "'sk control_lib \<Rightarrow> ('i, 'r) endpoint_lib \<Rightarrow> shard_env \<Rightarrow> (shard_placement list \<Rightarrow> json) \<Rightarrow> shard_set
     \<Rightarrow> ('sk controller, bool \<times> capability_lease list) handler" where
  "submit_shard_set K E env placements_json sset =
     with_state (\<lambda>s.
     bind_h (require (\<not> kill_latch_is_file s) 423 ''owner kill latch is active'') (\<lambda>_.
     bind_h (from_result contract_error_to_string 400 (shard_set_validate_at sset (sn_now env))) (\<lambda>_.
     submit_shard_set_gated K E env placements_json sset)))"

section \<open>Claims and receipts\<close>

definition claimable :: "uuid \<Rightarrow> datetime \<Rightarrow> 'sk controller \<Rightarrow> assignment \<Rightarrow> bool" where
  "claimable node_id now s a =
     (\<not> as_claimed a \<and> cl_node_id (as_lease a) = node_id \<and> lease_is_active_at (as_lease a) now (kc_fencing_epoch s))"

definition next_claim :: "'sk control_lib \<Rightarrow> uuid \<Rightarrow> datetime \<Rightarrow> 'sk controller \<Rightarrow> (uuid \<times> assignment) option" where
  "next_claim K node_id now s =
     min_by_key (\<lambda>(_, a). cl_issued_at (as_lease a))
       (filter (\<lambda>(_, a). claimable node_id now s a)
         (List.map_filter (\<lambda>k. map_option (Pair k) (fmlookup (kc_assignments s) k))
           (kl_assignment_order K (kc_assignments s))))"

definition work_claim_of :: "'sk control_lib \<Rightarrow> 'sk controller \<Rightarrow> assignment \<Rightarrow> work_claim" where
  "work_claim_of K s a =
     \<lparr>wk_schema = work_claim_SCHEMA, wk_job = as_job a, wk_lease = as_lease a,
      wk_governor_public_key = public_hex (kl_crypto K) (gov_signing_key (kc_governor s))\<rparr>"

definition claim_work ::
  "'sk control_lib \<Rightarrow> clock \<Rightarrow> bool \<Rightarrow> uuid \<Rightarrow> ('sk controller, work_claim option) handler" where
  "claim_work K T gate_busy node_id =
     bind_h (require (\<not> gate_busy) 503 ''admission reconciliation is busy; retry claim'') (\<lambda>_.
     with_state (\<lambda>s.
     bind_h (require (\<not> kill_latch_is_file s) 423 ''owner kill latch is active'') (\<lambda>_.
     bind_h (require (node_id |\<in>| fmdom (kc_nodes s)) 401 ''node is not enrolled'') (\<lambda>_.
     case next_claim K node_id (T 0) s of
        None \<Rightarrow> answer None
      | Some (k, a) \<Rightarrow>
     bind_h (modify (\<lambda>s. s\<lparr>kc_assignments := fmupd k (a\<lparr>as_claimed := True\<rparr>) (kc_assignments s)\<rparr>)) (\<lambda>_.
     bind_h (record_event K (T 1) ''job.claimed'' (kl_uuid_text K (js_job_id (as_job a)))
        (vc_to (kl_claim K) (work_claim_of K s a))) (\<lambda>_.
     answer (Some (work_claim_of K s a))))))))"

definition receipt_shape_ok :: "execution_receipt \<Rightarrow> bool" where
  "receipt_shape_ok r =
     (er_schema r = ''rampage.execution-receipt.v1'' \<and> er_state r \<in> {Succeeded, Failed}
      \<and> er_started_at r \<le> er_finished_at r)"

definition receipt_matches :: "execution_receipt \<Rightarrow> assignment \<Rightarrow> u64 \<Rightarrow> bool" where
  "receipt_matches r a epoch =
     (cl_lease_id (as_lease a) = er_lease_id r \<and> cl_node_id (as_lease a) = er_node_id r \<and> as_claimed a
      \<and> cl_fencing_epoch (as_lease a) = epoch
      \<and> cl_issued_at (as_lease a) \<le> er_started_at r \<and> er_started_at r \<le> cl_expires_at (as_lease a))"

definition output_ok :: "artifact_ref \<Rightarrow> bool" where
  "output_ok a =
     ((case strip_prefix ''sha256:'' (ar_digest a) of None \<Rightarrow> False
       | Some v \<Rightarrow> length v = 64 \<and> list_all is_ascii_hexdigit v)
      \<and> ar_schema a = ''rampage.artifact-ref.v1'' \<and> ar_encrypted a \<and> ar_size_bytes a \<le> MAX_ARTIFACT_TRANSFER_BYTES)"

fun record_outputs ::
  "'sk control_lib \<Rightarrow> clock \<Rightarrow> nat \<Rightarrow> execution_receipt \<Rightarrow> artifact_ref list \<Rightarrow> ('sk controller, unit) handler" where
  "record_outputs K T n r [] = answer ()"
| "record_outputs K T n r (output # rest) =
     bind_h (modify (\<lambda>s. s\<lparr>kc_artifact_replicas :=
        fmupd (ar_digest output, er_node_id r) output (kc_artifact_replicas s)\<rparr>)) (\<lambda>_.
     bind_h (record_event K (T n) ''artifact.output.recorded'' (ar_digest output)
        (JObject [(''artifact'', vc_to (kl_artifact K) output), (''job_id'', JString (kl_uuid_text K (er_job_id r))),
          (''node_id'', JString (kl_uuid_text K (er_node_id r)))])) (\<lambda>_.
     record_outputs K T (n + 1) r rest))"

definition complete_job :: "execution_receipt \<Rightarrow> assignment \<Rightarrow> 'sk controller \<Rightarrow> 'sk controller" where
  "complete_job r a s = s\<lparr>kc_assignments := fmdrop (er_job_id r) (kc_assignments s),
     kc_idempotency := fmdrop (js_idempotency_key (as_job a)) (kc_idempotency s),
     kc_reservations := filter (\<lambda>x. rs_job_id x \<noteq> er_job_id r) (kc_reservations s)\<rparr>"

definition accept_receipt ::
  "'sk control_lib \<Rightarrow> clock \<Rightarrow> execution_receipt \<Rightarrow> assignment \<Rightarrow> ('sk controller, bool) handler" where
  "accept_receipt K T r a =
     bind_h (modify (complete_job r a)) (\<lambda>_.
     bind_h (record_event K (T 0) ''job.receipted'' (kl_uuid_text K (er_job_id r)) (vc_to (kl_receipt K) r)) (\<lambda>_.
     bind_h (modify (\<lambda>s. s\<lparr>kc_completed_receipts := fmupd (er_receipt_id r) (er_job_id r) (kc_completed_receipts s)\<rparr>)) (\<lambda>_.
     bind_h (record_outputs K T 1 r (er_outputs r)) (\<lambda>_. answer False))))"

text \<open>The part after the handler took the gate.\<close>

definition settle_receipt ::
  "'sk control_lib \<Rightarrow> clock \<Rightarrow> execution_receipt \<Rightarrow> ('sk controller, bool) handler" where
  "settle_receipt K T r =
     with_state (\<lambda>s.
     bind_h (require (\<not> kill_latch_is_file s) 423 ''owner kill latch is active'') (\<lambda>_.
     bind_h (from_option (fmlookup (kc_assignments s) (er_job_id r)) 409 ''receipt has no active assignment'') (\<lambda>a.
     bind_h (require (receipt_matches r a (kc_fencing_epoch s)) 409
        ''receipt does not match the current claimed lease authority'') (\<lambda>_.
     bind_h (require (list_all output_ok (er_outputs r)) 400 ''receipt contains an invalid output artifact'') (\<lambda>_.
     accept_receipt K T r a)))))"

text \<open>The result is \<open>True\<close> for a repetition of an accepted receipt.\<close>

definition submit_receipt ::
  "'sk control_lib \<Rightarrow> clock \<Rightarrow> bool \<Rightarrow> execution_receipt \<Rightarrow> ('sk controller, bool) handler" where
  "submit_receipt K T gate_busy r =
     bind_h (require (receipt_shape_ok r) 400 ''invalid terminal execution receipt'') (\<lambda>_.
     with_state (\<lambda>s.
     bind_h (from_option (fmlookup (kc_nodes s) (er_node_id r)) 401 ''node is not enrolled'') (\<lambda>identity.
     bind_h (from_result denial_to_string 401 (verify_receipt (kl_crypto K) identity r)) (\<lambda>_.
     if fmlookup (kc_completed_receipts s) (er_receipt_id r) = Some (er_job_id r) then answer True
     else
     bind_h (require (\<not> gate_busy) 503 ''admission reconciliation is busy; retry receipt'') (\<lambda>_.
     settle_receipt K T r)))))"

end
