(* ===== verification/Rampage_Gateway.thy ===== *)
theory Rampage_Gateway
  imports Rampage_Jobs
begin

text \<open>
  The gateway through which remote workers reach the controller
  (\<open>crates/rampage-controller/src/main.rs\<close>, \<open>serve_mesh_gateway\<close> and below). A request arrives on a mesh
  connection whose peer, an endpoint identifier, is authenticated by the transport. The gateway admits six
  routes, each bound to the identity of the peer, and forwards the request to the controller's own
  HTTP interface with the local token; the answer goes back bounded to one MiB.
\<close>

section \<open>Authorisation of a remote request\<close>

record link_probe_request =
  lq_node_id :: uuid
  lq_nonce :: uuid
  lq_upload_base64 :: string
  lq_download_bytes :: u64

text \<open>Further parameters: serde on two more types, base64, the token, what \<open>/health\<close> reports of
  the build and the mesh, and what axum answers to a body it cannot read.\<close>

record gateway_lib =
  gl_request :: "string \<Rightarrow> mesh_control_request option"
  gl_enrollment :: "enrollment_request value_codec"
  gl_probe :: "link_probe_request value_codec"
  gl_base64_decode :: "string \<Rightarrow> string option"
  gl_base64_encode :: "string \<Rightarrow> string"
  gl_local_api_token :: string
  gl_version :: string
  gl_mesh_mode :: string
  gl_mesh_sockets :: "string list"
  gl_body_rejection :: "u16 \<times> string"

definition require_mesh_node :: "'sk controller \<Rightarrow> string \<Rightarrow> uuid \<Rightarrow> string + unit" where
  "require_mesh_node s peer node_id =
     (case fmlookup (kc_nodes s) node_id of
        Some identity \<Rightarrow>
          if ni_public_key identity = peer then Inr () else Inl ''remote worker is not enrolled for this node id''
      | None \<Rightarrow> Inl ''remote worker is not enrolled for this node id'')"

definition body_as :: "'a value_codec \<Rightarrow> string \<Rightarrow> json option \<Rightarrow> string + 'a" where
  "body_as c what body =
     (case body of
        None \<Rightarrow> Inl (what @ '' body is missing'')
      | Some v \<Rightarrow> (case vc_from c v of None \<Rightarrow> Inl (what @ '' body is invalid'') | Some x \<Rightarrow> Inr x))"

definition claim_path :: string where
  "claim_path = ''/v1/work/claim?node_id=''"

definition claim_node :: "'sk control_lib \<Rightarrow> string \<Rightarrow> uuid option" where
  "claim_node K path = Option.bind (strip_prefix claim_path path) (kl_parse_uuid K)"

definition authorize_mesh_control ::
  "'sk control_lib \<Rightarrow> gateway_lib \<Rightarrow> 'sk controller \<Rightarrow> string \<Rightarrow> mesh_control_request \<Rightarrow> string + unit" where
  "authorize_mesh_control K G s peer request =
     (let route = (cq_method request, cq_path request) in
      if str_contains ''..'' (cq_path request) \<or> CHR 0x25 \<in> set (cq_path request) \<or> CHR 0x23 \<in> set (cq_path request)
      then Inl ''mesh path is not canonical''
      else if route = (''GET'', ''/health'') then Inr ()
      else if route = (''POST'', ''/v1/nodes/enroll'') then
        and_then (body_as (gl_enrollment G) ''enrollment'' (cq_body request)) (\<lambda>enrollment.
        if ni_public_key (en_identity enrollment) = peer then Inr ()
        else Inl ''transport identity and enrollment identity differ'')
      else if route = (''POST'', ''/v1/offers'') then
        and_then (body_as (kl_offer K) ''offer'' (cq_body request)) (\<lambda>offer.
        if ro_mesh_endpoint offer = None then Inl ''remote worker offer requires a signed mesh endpoint''
        else require_mesh_node s peer (ro_node_id offer))
      else if route = (''POST'', ''/v1/receipts'') then
        and_then (body_as (kl_receipt K) ''receipt'' (cq_body request)) (\<lambda>receipt.
        require_mesh_node s peer (er_node_id receipt))
      else if route = (''POST'', ''/v1/benchmarks/link'') then
        and_then (body_as (gl_probe G) ''link probe'' (cq_body request)) (\<lambda>probe.
        require_mesh_node s peer (lq_node_id probe))
      else if cq_method request = ''GET'' \<and> starts_with claim_path (cq_path request) then
        (case claim_node K (cq_path request) of
           None \<Rightarrow> Inl ''claim node id is invalid''
         | Some node_id \<Rightarrow> require_mesh_node s peer node_id)
      else Inl ''route is not exposed to remote workers'')"

section \<open>The exposed routes of the controller\<close>

definition link_probe :: "'sk control_lib \<Rightarrow> gateway_lib \<Rightarrow> link_probe_request \<Rightarrow> ('sk controller, json) handler" where
  "link_probe K G request =
     bind_h (from_option (gl_base64_decode G (lq_upload_base64 request)) 400 ''link probe upload is not valid base64'') (\<lambda>upload.
     bind_h (require (length upload \<le> unat LINK_BENCHMARK_TRANSFER_BYTES
          \<and> lq_download_bytes request \<le> LINK_BENCHMARK_TRANSFER_BYTES)
        413 ''link probe exceeds the bounded transfer size'') (\<lambda>_.
     let download = replicate (unat (lq_download_bytes request)) (CHR 0xA5);
         digest = (\<lambda>b. cr_hex_encode (kl_crypto K) (cr_sha256 (kl_crypto K) b))
     in answer (JObject [(''download_base64'', JString (gl_base64_encode G download)),
          (''download_sha256'', JString (digest download)), (''node_id'', JString (kl_uuid_text K (lq_node_id request))),
          (''nonce'', JString (kl_uuid_text K (lq_nonce request))), (''schema'', JString ''rampage.link-probe-response.v1''),
          (''upload_bytes'', JPosInt (of_nat (length upload))), (''upload_sha256'', JString (digest upload))])))"

definition health :: "'sk control_lib \<Rightarrow> gateway_lib \<Rightarrow> datetime \<Rightarrow> 'sk controller \<Rightarrow> json" where
  "health K G now s =
     JObject [(''service'', JString ''rampage-controller''), (''version'', JString (gl_version G)),
       (''status'', JString (if kill_latch_is_file s then ''stopped'' else ''ready'')),
       (''authority'', JString ''non-agentic-governor''), (''kill_latch'', JBool (kill_latch_is_file s)),
       (''mesh_mode'', JString (gl_mesh_mode G)), (''mesh_endpoint_id'', JString (kl_endpoint_id K)),
       (''mesh_sockets'', JArray (map JString (gl_mesh_sockets G))),
       (''fencing_epoch'', JPosInt (kc_fencing_epoch s)), (''generated_at'', JString (kl_time_text K now))]"

fun job_state_text :: "job_state \<Rightarrow> string" where
  "job_state_text Proposed = ''proposed''"
| "job_state_text Admitted = ''admitted''"
| "job_state_text Prepared = ''prepared''"
| "job_state_text Running = ''running''"
| "job_state_text Succeeded = ''succeeded''"
| "job_state_text Failed = ''failed''"
| "job_state_text Ambiguous = ''ambiguous''"
| "job_state_text Cancelled = ''cancelled''"
| "job_state_text Fenced = ''fenced''"

text \<open>The answers of the routes as status and JSON body, sent as text.\<close>

fun rejection_body :: "http_reject \<Rightarrow> json" where
  "rejection_body (Reject status text extra) = JObject ((''error'', JString text) # extra)"

definition respond ::
  "'sk control_lib \<Rightarrow> ('a \<Rightarrow> u16 \<times> json) \<Rightarrow> ('s, 'a) handler \<Rightarrow> 's \<Rightarrow> (u16 \<times> string) \<times> 's" where
  "respond K f h s = (case h s of
     (Inl e, s') \<Rightarrow> ((reject_status e, ll_json_to_string (kl_ledger K) (rejection_body e)), s')
   | (Inr x, s') \<Rightarrow> (map_prod id (ll_json_to_string (kl_ledger K)) (f x), s'))"

definition enrolled_body :: "'sk control_lib \<Rightarrow> uuid \<times> u64 \<Rightarrow> u16 \<times> json" where
  "enrolled_body K r = (201, JObject [(''fencing_epoch'', JPosInt (snd r)), (''node_id'', JString (kl_uuid_text K (fst r)))])"

definition registered_body :: "'sk control_lib \<Rightarrow> uuid \<times> datetime \<Rightarrow> u16 \<times> json" where
  "registered_body K r =
     (201, JObject [(''controller_time'', JString (kl_time_text K (snd r))), (''offer_id'', JString (kl_uuid_text K (fst r)))])"

definition claim_body :: "'sk control_lib \<Rightarrow> work_claim option \<Rightarrow> u16 \<times> json" where
  "claim_body K r = (200, case r of None \<Rightarrow> JNull | Some claim \<Rightarrow> vc_to (kl_claim K) claim)"

definition receipt_body :: "'sk control_lib \<Rightarrow> execution_receipt \<Rightarrow> bool \<Rightarrow> u16 \<times> json" where
  "receipt_body K r duplicate =
     (let common = [(''receipt_id'', JString (kl_uuid_text K (er_receipt_id r))),
            (''state'', JString (job_state_text (er_state r)))]
      in if duplicate then (200, JObject ((''duplicate'', JBool True) # common)) else (202, JObject common))"

text \<open>The router, on the routes remote workers can reach: the body is read back from its text, and
  the handler of the route runs. What any other route does is the parameter \<open>other\<close>.\<close>

definition read_body ::
  "'sk control_lib \<Rightarrow> gateway_lib \<Rightarrow> 'a value_codec \<Rightarrow> json option
     \<Rightarrow> ('a \<Rightarrow> 'sk controller \<Rightarrow> (u16 \<times> string) \<times> 'sk controller) \<Rightarrow> 'sk controller \<Rightarrow> (u16 \<times> string) \<times> 'sk controller" where
  "read_body K G c body f s =
     (case Option.bind (Option.bind body (\<lambda>v. ll_json_from_str (kl_ledger K) (ll_json_to_string (kl_ledger K) v)))
             (vc_from c) of
        None \<Rightarrow> (gl_body_rejection G, s)
      | Some x \<Rightarrow> f x s)"

definition require_local_token :: "'sk crypto \<Rightarrow> string \<Rightarrow> string option \<Rightarrow> bool" where
  "require_local_token C expected supplied =
     (cr_sha256 C expected = cr_sha256 C (case supplied of None \<Rightarrow> [] | Some t \<Rightarrow> t))"

type_synonym 'sk service = "string \<Rightarrow> string \<Rightarrow> json option \<Rightarrow> 'sk controller \<Rightarrow> (u16 \<times> string) \<times> 'sk controller"

definition protected_route ::
  "'sk control_lib \<Rightarrow> gateway_lib \<Rightarrow> clock \<Rightarrow> bool \<Rightarrow> 'sk service \<Rightarrow> 'sk service" where
  "protected_route K G T gate_busy other meth path body =
     (if (meth, path) = (''POST'', ''/v1/nodes/enroll'') then
        read_body K G (gl_enrollment G) body (\<lambda>r. respond K (enrolled_body K) (enroll_node K T r))
      else if (meth, path) = (''POST'', ''/v1/offers'') then
        read_body K G (kl_offer K) body (\<lambda>offer. respond K (registered_body K) (register_offer K T offer))
      else if (meth, path) = (''POST'', ''/v1/receipts'') then
        read_body K G (kl_receipt K) body (\<lambda>r. respond K (receipt_body K r) (submit_receipt K T gate_busy r))
      else if (meth, path) = (''POST'', ''/v1/benchmarks/link'') then
        read_body K G (gl_probe G) body (\<lambda>r. respond K (Pair 200) (link_probe K G r))
      else if meth = ''GET'' \<and> starts_with claim_path path then
        (case claim_node K path of
           None \<Rightarrow> (\<lambda>s. (gl_body_rejection G, s))
         | Some node_id \<Rightarrow> respond K (claim_body K) (claim_work K T gate_busy node_id))
      else other meth path body)"

definition local_service ::
  "'sk control_lib \<Rightarrow> gateway_lib \<Rightarrow> clock \<Rightarrow> bool \<Rightarrow> 'sk service \<Rightarrow> string option \<Rightarrow> 'sk service" where
  "local_service K G T gate_busy other token meth path body s =
     (if (meth, path) = (''GET'', ''/health'') then ((200, ll_json_to_string (kl_ledger K) (health K G (T 0) s)), s)
      else if \<not> require_local_token (kl_crypto K) (gl_local_api_token G) token
      then ((401, ll_json_to_string (kl_ledger K) (JObject [(''error'', JString ''valid local Rampage token required'')])), s)
      else protected_route K G T gate_busy other meth path body s)"

section \<open>Forwarding\<close>

definition mesh_error_response :: "uuid \<Rightarrow> u16 \<Rightarrow> string \<Rightarrow> mesh_control_response" where
  "mesh_error_response request_id status message =
     \<lparr>cs_schema = mesh_control_response_SCHEMA, cs_request_id = request_id, cs_status = status,
      cs_body = JObject [(''error'', JString message)]\<rparr>"

definition append_bounded_bytes :: "string \<Rightarrow> string \<Rightarrow> nat \<Rightarrow> string option" where
  "append_bounded_bytes buffer chunk limit =
     (if length buffer + length chunk \<le> limit then Some (buffer @ chunk) else None)"

text \<open>The answer on the local connection: the length it declares, its chunks, and whether reading
  breaks off after them.\<close>

record local_answer =
  la_content_length :: "u64 option"
  la_chunks :: "string list"
  la_broken :: bool

fun read_bounded :: "nat \<Rightarrow> bool \<Rightarrow> string \<Rightarrow> string list \<Rightarrow> string option" where
  "read_bounded limit broken buffer [] = (if broken then None else Some buffer)"
| "read_bounded limit broken buffer (chunk # rest) =
     (case append_bounded_bytes buffer chunk limit of
        None \<Rightarrow> None | Some buffer \<Rightarrow> read_bounded limit broken buffer rest)"

definition MAX_RESPONSE_BYTES :: nat where
  "MAX_RESPONSE_BYTES = 1024 * 1024"

definition bounded_mesh_controller_response :: "local_answer \<Rightarrow> string option" where
  "bounded_mesh_controller_response a =
     (if unat (case la_content_length a of None \<Rightarrow> 0 | Some n \<Rightarrow> n) \<le> MAX_RESPONSE_BYTES
      then read_bounded MAX_RESPONSE_BYTES (la_broken a) [] (la_chunks a) else None)"

text \<open>The local connection: whether the request reaches the controller, and how the text of the answer
  comes back, if it does.\<close>

record local_http =
  lh_sent :: bool
  lh_receive :: "string \<Rightarrow> local_answer option"

definition forward_answer ::
  "'sk control_lib \<Rightarrow> local_http \<Rightarrow> uuid \<Rightarrow> u16 \<times> string \<Rightarrow> mesh_control_response" where
  "forward_answer K H request_id response =
     (case lh_receive H (snd response) of
        None \<Rightarrow> mesh_error_response request_id 502 ''local controller unavailable''
      | Some a \<Rightarrow>
     case bounded_mesh_controller_response a of
        None \<Rightarrow> mesh_error_response request_id 502 ''controller response exceeded one MiB''
      | Some bytes \<Rightarrow>
          \<lparr>cs_schema = mesh_control_response_SCHEMA, cs_request_id = request_id, cs_status = fst response,
           cs_body = (case ll_json_from_str (kl_ledger K) bytes of
             None \<Rightarrow> JObject [(''error'', JString ''controller returned non-JSON'')] | Some v \<Rightarrow> v)\<rparr>)"

text \<open>A denial is recorded; a failure to record it is ignored.\<close>

definition deny_mesh_control ::
  "'sk control_lib \<Rightarrow> datetime \<Rightarrow> string \<Rightarrow> mesh_control_request \<Rightarrow> string \<Rightarrow> 'sk controller
     \<Rightarrow> mesh_control_response \<times> 'sk controller" where
  "deny_mesh_control K now peer request reason s =
     (mesh_error_response (cq_request_id request) 403 reason,
      snd (record_event K now ''mesh.request.denied'' peer
        (JObject [(''method'', JString (cq_method request)), (''path'', JString (cq_path request)),
          (''reason'', JString reason)]) s))"

definition process_mesh_control ::
  "'sk control_lib \<Rightarrow> gateway_lib \<Rightarrow> clock \<Rightarrow> bool \<Rightarrow> 'sk service \<Rightarrow> local_http \<Rightarrow> string \<Rightarrow> mesh_control_request
     \<Rightarrow> 'sk controller \<Rightarrow> mesh_control_response \<times> 'sk controller" where
  "process_mesh_control K G T gate_busy other H peer request s =
     (if cq_schema request \<noteq> mesh_control_request_SCHEMA
      then (mesh_error_response (cq_request_id request) 400 ''unsupported mesh control schema'', s)
      else case authorize_mesh_control K G s peer request of
        Inl reason \<Rightarrow> deny_mesh_control K (T 0) peer request reason s
      | Inr _ \<Rightarrow>
          if cq_method request \<notin> {''GET'', ''POST''}
          then (mesh_error_response (cq_request_id request) 405 ''mesh method is not allowlisted'', s)
          else if \<not> lh_sent H
          then (mesh_error_response (cq_request_id request) 502 ''local controller unavailable'', s)
          else case local_service K G (\<lambda>n. T (n + 1)) gate_busy other (Some (gl_local_api_token G)) (cq_method request)
                 (cq_path request) (cq_body request) s of
            (response, s') \<Rightarrow> (forward_answer K H (cq_request_id request) response, s'))"

text \<open>One stream of a gateway connection; \<open>None\<close> is a message over one MiB.\<close>

definition serve_mesh_stream ::
  "'sk control_lib \<Rightarrow> gateway_lib \<Rightarrow> clock \<Rightarrow> bool \<Rightarrow> 'sk service \<Rightarrow> local_http \<Rightarrow> string \<Rightarrow> string option
     \<Rightarrow> 'sk controller \<Rightarrow> mesh_control_response \<times> 'sk controller" where
  "serve_mesh_stream K G T gate_busy other H peer received s =
     (case received of
        None \<Rightarrow> (mesh_error_response 0 413 ''mesh control request exceeds one MiB'', s)
      | Some bytes \<Rightarrow>
     case gl_request G bytes of
        None \<Rightarrow> (mesh_error_response 0 400 ''invalid mesh control request'', s)
      | Some request \<Rightarrow> process_mesh_control K G T gate_busy other H peer request s)"

end
