(* ===== verification/Rampage_Handlers.thy ===== *)
theory Rampage_Handlers
  imports Rampage_Gateway
begin

text \<open>
  Reasoning about the handlers of the controller daemon: weakest preconditions, computed along the
  handlers by simplification, and what each of the larger operations leaves alone.
\<close>

section \<open>Weakest preconditions\<close>

text \<open>\<open>Q\<close> is required of an answer, \<open>E\<close> of a rejection.\<close>

definition wp :: "('s, 'e, 'a) action \<Rightarrow> ('a \<Rightarrow> 's \<Rightarrow> bool) \<Rightarrow> ('e \<Rightarrow> 's \<Rightarrow> bool) \<Rightarrow> 's \<Rightarrow> bool" where
  "wp m Q E s = (case m s of (Inl e, s') \<Rightarrow> E e s' | (Inr x, s') \<Rightarrow> Q x s')"

named_theorems wp_simps "equations that compute weakest preconditions"

lemma wp_atoms [wp_simps]:
  "wp (answer x) Q E = Q x"
  "wp (refuse status text) Q2 E2 s = E2 (Reject status text []) s"
  "wp (modify f) Q3 E3 s = Q3 () (f s)"
  "wp (lift r) Q4 E4 s = (case r of Inl e \<Rightarrow> E4 e s | Inr y \<Rightarrow> Q4 y s)"
  "wp (with_state g) Q5 E5 s = wp (g s) Q5 E5 s"
  by (auto simp: wp_def answer_def refuse_def modify_def lift_def with_state_def fun_eq_iff split: sum.splits)

lemma wp_require [wp_simps]:
  "wp (require b status text) Q E s = (if b then Q () s else E (Reject status text []) s)"
  by (simp add: require_def wp_simps)

lemma wp_from_option [wp_simps]:
  "wp (from_option v status text) Q E s = (case v of None \<Rightarrow> E (Reject status text []) s | Some x \<Rightarrow> Q x s)"
  by (simp add: from_option_def wp_simps split: option.splits)

lemma wp_from_result [wp_simps]:
  "wp (from_result sh status v) Q E s = (case v of Inl e \<Rightarrow> E (Reject status (sh e) []) s | Inr x \<Rightarrow> Q x s)"
  by (simp add: from_result_def wp_simps split: sum.splits)

lemma wp_bind [wp_simps]: "wp (bind_h m f) Q E = wp m (\<lambda>x. wp (f x) Q E) E"
  by (auto simp: wp_def bind_h_def fun_eq_iff split: prod.splits sum.splits)

lemma wp_map_error [wp_simps]: "wp (map_error f m) Q E s = wp m Q (\<lambda>e. E (f e)) s"
  by (auto simp: wp_def map_error_def split: prod.splits sum.splits)

lemma wp_if [wp_simps]: "wp (if b then m else n) Q E s = (if b then wp m Q E s else wp n Q E s)"
  by simp

lemma wp_mono:
  "wp m Q E s \<Longrightarrow> (\<And>x s'. Q x s' \<Longrightarrow> Q' x s') \<Longrightarrow> (\<And>e s'. E e s' \<Longrightarrow> E' e s') \<Longrightarrow> wp m Q' E' s"
  by (auto simp: wp_def split: prod.splits sum.splits)

lemma wp_run: "wp m Q E s \<Longrightarrow> m s = (Inr x, s') \<Longrightarrow> Q x s'" "wp m Q E s \<Longrightarrow> m s = (Inl e, s') \<Longrightarrow> E e s'"
  by (simp_all add: wp_def)

lemma wp_snd: "wp m (\<lambda>_. I) (\<lambda>_. I) s \<longleftrightarrow> I (snd (m s))"
  by (auto simp: wp_def split: prod.splits sum.splits)

lemma wp_keeps: "keeps_prop I m \<longleftrightarrow> (\<forall>s. I s \<longrightarrow> wp m (\<lambda>_. I) (\<lambda>_. I) s)"
  by (simp add: keeps_prop_def wp_snd)

text \<open>A fact the handler keeps is carried along.\<close>

lemma wp_carry:
  assumes "wp m Q E s" and "keeps_prop I m" and "I s"
  shows "wp m (\<lambda>x s'. Q x s' \<and> I s') (\<lambda>e s'. E e s' \<and> I s') s"
proof -
  have "I (snd (m s))" using assms(2,3) by (auto simp: keeps_prop_def)
  with assms(1) show ?thesis by (auto simp: wp_def split: prod.splits sum.splits)
qed

lemma keeps_with_state_all: "(\<And>s0. keeps_prop I (f s0)) \<Longrightarrow> keeps_prop I (with_state f)"
  by (simp add: keeps_prop_def with_state_def)

text \<open>Recording an event changes the ledger only, or nothing.\<close>

definition appended :: "'sk control_lib \<Rightarrow> datetime \<Rightarrow> string \<Rightarrow> string \<Rightarrow> json \<Rightarrow> ledger \<Rightarrow> ledger \<Rightarrow> bool" where
  "appended K now event_type subject_id payload st st' =
     (\<exists>e. append_event (kl_ledger K) now event_type subject_id (Some payload) st = Inr (e, st'))"

lemma wp_record_event [wp_simps]:
  "wp (record_event K now t subj v) Q E s \<longleftrightarrow>
     (\<forall>st'. appended K now t subj v (kc_ledger s) st' \<longrightarrow> Q () (s\<lparr>kc_ledger := st'\<rparr>))
     \<and> (\<forall>err. append_event (kl_ledger K) now t subj (Some v) (kc_ledger s) = Inl err
          \<longrightarrow> E (Reject 500 (kl_ledger_text K err) []) s)"
  by (auto simp: wp_def record_event_def appended_def split: sum.splits)

lemma keeps_record_event:
  "(\<And>s st'. I s \<Longrightarrow> appended K now t subj v (kc_ledger s) st' \<Longrightarrow> I (s\<lparr>kc_ledger := st'\<rparr>))
     \<Longrightarrow> keeps_prop I (record_event K now t subj v)"
  by (simp add: wp_keeps wp_simps)

text \<open>The files of the stop: a fact that does not depend on them is kept, whatever the file system does.\<close>

lemma keeps_stop_files:
  "(\<And>s x. I s \<Longrightarrow> I (s\<lparr>kc_kill_latch := x\<rparr>)) \<Longrightarrow> keeps_prop I (set_kill_latch env)"
  "(\<And>s x. I s \<Longrightarrow> I (s\<lparr>kc_stop_marker := x\<rparr>)) \<Longrightarrow> keeps_prop I (write_stop_epoch_marker env e)"
  unfolding wp_keeps set_kill_latch_def write_stop_epoch_marker_def by (auto simp: wp_simps split: option.split)

section \<open>What staging leaves alone\<close>

text \<open>Everything but the ledger and the replicas.\<close>

definition authority_state :: "'sk controller \<Rightarrow> 'sk controller" where
  "authority_state s = s\<lparr>kc_ledger := open_ledger, kc_artifact_replicas := fmempty, kc_replica_evidence := fmempty\<rparr>"

lemma authority_state_eqD:
  assumes "authority_state s = authority_state s'"
  shows "kc_governor s = kc_governor s'" "kc_offers s = kc_offers s'" "kc_nodes s = kc_nodes s'"
    "kc_invites s = kc_invites s'" "kc_assignments s = kc_assignments s'" "kc_idempotency s = kc_idempotency s'"
    "kc_kill_latch s = kc_kill_latch s'" "kc_reservations s = kc_reservations s'"
    "kc_completed_receipts s = kc_completed_receipts s'" "kc_shard_sets s = kc_shard_sets s'"
    "kc_fencing_epoch s = kc_fencing_epoch s'" "kc_stop_marker s = kc_stop_marker s'"
    "kc_admission_policy s = kc_admission_policy s'" "kc_excluded_nodes s = kc_excluded_nodes s'"
  using assms by (auto simp: authority_state_def dest: arg_cong [of _ _ kc_governor] arg_cong [of _ _ kc_offers]
      arg_cong [of _ _ kc_nodes] arg_cong [of _ _ kc_invites] arg_cong [of _ _ kc_assignments]
      arg_cong [of _ _ kc_idempotency] arg_cong [of _ _ kc_kill_latch] arg_cong [of _ _ kc_reservations]
      arg_cong [of _ _ kc_completed_receipts] arg_cong [of _ _ kc_shard_sets] arg_cong [of _ _ kc_fencing_epoch]
      arg_cong [of _ _ kc_stop_marker] arg_cong [of _ _ kc_admission_policy] arg_cong [of _ _ kc_excluded_nodes])

lemma authority_state_updates [simp]:
  "authority_state (s\<lparr>kc_ledger := l\<rparr>) = authority_state s"
  "authority_state (s\<lparr>kc_artifact_replicas := r, kc_replica_evidence := e\<rparr>) = authority_state s"
  "authority_state (s\<lparr>kc_artifact_replicas := r\<rparr>) = authority_state s"
  by (simp_all add: authority_state_def)

lemma wp_replicate_to_offer:
  assumes "\<And>lease st'. authorize_storage_at_epoch (kl_crypto K) (kc_governor s) (sg_now env)
        (sg_lease_id env) (sg_nonce env) offer (ar_digest source) (ar_size_bytes source) class Put (kc_fencing_epoch s) = Inr lease
      \<Longrightarrow> appended K (sg_append_now env) ''storage.lease.issued'' (kl_uuid_text K (sl_lease_id lease))
            (vc_to (kl_storage_lease K) lease) (kc_ledger s) st'
      \<Longrightarrow> (case transfer_replica K env s offer lease source class of
             Inl e \<Rightarrow> E e (s\<lparr>kc_ledger := st'\<rparr>) | Inr x \<Rightarrow> Q x (s\<lparr>kc_ledger := st'\<rparr>))"
    and "\<And>e. E e s"
  shows "wp (replicate_to_offer K env offer source class) Q E s"
proof (cases "authorize_storage_at_epoch (kl_crypto K) (kc_governor s) (sg_now env)
    (sg_lease_id env) (sg_nonce env) offer (ar_digest source) (ar_size_bytes source) class Put (kc_fencing_epoch s)")
  case (Inl e)
  then show ?thesis by (simp add: replicate_to_offer_def wp_simps assms(2))
next
  case (Inr lease)
  then show ?thesis using assms(1) [OF Inr] by (simp add: replicate_to_offer_def wp_simps assms(2))
qed

lemma frame_stage_input: "keeps_prop (\<lambda>s. authority_state s = c) (stage_input K E env offer job input)"
  unfolding wp_keeps
proof (intro allI impI)
  fix s :: "'a controller"
  assume [simp]: "authority_state s = c"
  show "wp (stage_input K E env offer job input) (\<lambda>_ s. authority_state s = c) (\<lambda>_ s. authority_state s = c) s"
    unfolding stage_input_def
    by (auto simp: wp_simps Let_def split: sum.splits option.splits intro!: wp_replicate_to_offer)
qed

lemma frame_stage_inputs: "keeps_prop (\<lambda>s. authority_state s = c) (stage_inputs K E envs n offer job inputs)"
  by (induction inputs arbitrary: n) (auto intro!: handler_keeps frame_stage_input)

lemma frame_stage_job_inputs: "keeps_prop (\<lambda>s. authority_state s = c) (stage_job_inputs K E envs offer job)"
  unfolding stage_job_inputs_def by (rule frame_stage_inputs)

lemma frame_stage_shards: "keeps_prop (\<lambda>s. authority_state s = c) (stage_shards K E J n offers jobs)"
  by (induction jobs arbitrary: n) (auto intro!: handler_keeps frame_stage_job_inputs)

lemma frame_wp:
  assumes "keeps_prop (\<lambda>s. authority_state s = authority_state s0) m" "authority_state s = authority_state s0"
    and "\<And>x s'. authority_state s' = authority_state s0 \<Longrightarrow> Q x s'"
    and "\<And>e s'. authority_state s' = authority_state s0 \<Longrightarrow> E e s'"
  shows "wp m Q E s"
  using assms unfolding wp_keeps by (blast intro: wp_mono)

section \<open>Issuing leases\<close>

text \<open>The Governor answers without changing the state.\<close>

lemma wp_authorize_or_refuse:
  "wp (authorize_or_refuse K now i n rejection job offer node_id) Q E s \<longleftrightarrow>
     (case authorize_job_at_epoch (kl_crypto K) (kc_governor s) now i n job offer node_id (kc_fencing_epoch s) of
        None \<Rightarrow> E (Reject 0 ''panic'' []) s
      | Some (Inl d) \<Rightarrow> E (rejection d) s
      | Some (Inr lease) \<Rightarrow> Q lease s)"
  by (auto simp: authorize_or_refuse_def wp_simps split: option.splits sum.splits)

definition issued_for :: "'sk control_lib \<Rightarrow> 'sk controller \<Rightarrow> job_spec \<Rightarrow> uuid \<Rightarrow> capability_lease \<Rightarrow> bool" where
  "issued_for K s job node_id lease \<longleftrightarrow>
     (\<exists>now i n offer. authorize_job_at_epoch (kl_crypto K) (kc_governor s) now i n job offer node_id (kc_fencing_epoch s)
        = Some (Inr lease) \<and> ro_node_id offer = node_id)"

lemma wp_lease_shards:
  assumes "\<And>leases. list_all2 (\<lambda>(job, p) lease. issued_for K s job (sp_node_id p) lease
        \<and> (\<exists>offer. offer_of offers (sp_node_id p) = Some offer)) jobs leases \<Longrightarrow> Q leases s"
    and "\<And>e. E e s"
  shows "wp (lease_shards K T J n offers jobs) Q E s"
  using assms(1)
proof (induction jobs arbitrary: n Q)
  case Nil
  then show ?case by (simp add: wp_simps)
next
  case (Cons jp rest)
  obtain job p where [simp]: "jp = (job, p)" by force
  show ?case
  proof (cases "offer_of offers (sp_node_id p)")
    case None
    then show ?thesis by (simp add: wp_simps assms(2))
  next
    case (Some offer)
    then have o: "ro_node_id offer = sp_node_id p" by (auto simp: offer_of_def find_Some_iff)
    show ?thesis
    proof (cases "authorize_job_at_epoch (kl_crypto K) (kc_governor s) (T n) (jb_lease_id (J n)) (jb_nonce (J n)) job offer
        (sp_node_id p) (kc_fencing_epoch s)")
      case None
      then show ?thesis using Some by (simp add: wp_simps wp_authorize_or_refuse assms(2))
    next
      case s: (Some r)
      show ?thesis
      proof (cases r)
        case (Inl d)
        then show ?thesis using Some s by (simp add: wp_simps wp_authorize_or_refuse assms(2))
      next
        case (Inr lease)
        then have "issued_for K s job (sp_node_id p) lease" using s o by (auto simp: issued_for_def)
        then have "wp (lease_shards K T J (Suc n) offers rest) (\<lambda>leases. Q (lease # leases)) E s"
          using Some by (intro Cons.IH Cons.prems) simp
        then show ?thesis using Some s Inr by (simp add: wp_simps wp_authorize_or_refuse)
      qed
    qed
  qed
qed

text \<open>What the two submissions do once an offer, or a plan, is chosen: the obligations are the staging,
  the evidence, and the assignments made from it.\<close>

lemma wp_admit_job:
  assumes "\<And>lease. issued_for K s job (ro_node_id offer) lease \<Longrightarrow>
      wp (stage_job_inputs K EL (jb_stage J) offer job)
        (\<lambda>_ s'. (\<forall>st'. appended K (T 5) ''lease.issued'' (kl_uuid_text K (js_job_id job))
             (JObject [(''lease'', vc_to (kl_lease K) lease), (''placement'', vc_to (kl_score K) score)]) (kc_ledger s') st'
             \<longrightarrow> Q (True, lease) (assign job lease (cl_node_id lease) (drop_expired_reservations (T 6) (s'\<lparr>kc_ledger := st'\<rparr>))))
           \<and> (\<forall>err. E (Reject 500 err []) s')) E s"
    and "\<And>e. E e s"
  shows "wp (admit_job K EL T J job offer score) Q E s"
proof (cases "authorize_job_at_epoch (kl_crypto K) (kc_governor s) (T 4) (jb_lease_id J) (jb_nonce J) job offer
    (ro_node_id offer) (kc_fencing_epoch s)")
  case None
  then show ?thesis by (simp add: admit_job_def wp_bind wp_authorize_or_refuse assms(2))
next
  case (Some r)
  show ?thesis
  proof (cases r)
    case (Inl d)
    then show ?thesis using Some by (simp add: admit_job_def wp_bind wp_authorize_or_refuse assms(2))
  next
    case (Inr lease)
    then have "issued_for K s job (ro_node_id offer) lease" using Some by (auto simp: issued_for_def)
    from assms(1) [OF this] show ?thesis
      using Some Inr by (simp add: admit_job_def wp_bind wp_authorize_or_refuse) (erule wp_mono; simp add: wp_simps)
  qed
qed

lemma wp_admit_shards:
  assumes "wp (stage_shards K EL (sn_jobs env) 0 offers (zip (ss_shards sset) placements))
      (\<lambda>_ s'. (\<forall>leases. list_all2 (\<lambda>(job, p) lease. issued_for K s' job (sp_node_id p) lease
               \<and> (\<exists>offer. offer_of offers (sp_node_id p) = Some offer)) (zip (ss_shards sset) placements) leases
           \<longrightarrow> (\<forall>st'. appended K (sn_append env) ''shard_set.admitted'' (kl_uuid_text K (ss_set_id sset))
                (JObject [(''leases'', JArray (map (vc_to (kl_lease K)) leases)), (''placements'', pj),
                  (''set'', vc_to (kl_shard_set K) sset)]) (kc_ledger s') st'
              \<longrightarrow> (let s'' = assign_all (zip (ss_shards sset) (zip leases placements))
                     (drop_expired_reservations (sn_now env) (s'\<lparr>kc_ledger := st'\<rparr>))
                   in Q (True, leases) (s''\<lparr>kc_shard_sets := fmupd (ss_set_id sset) \<lparr>sr_spec = sset, sr_leases = leases\<rparr>
                        (kc_shard_sets s'')\<rparr>))))
         \<and> (\<forall>e. E e s')) E s"
    and "\<And>e. E e s"
  shows "wp (admit_shards K EL env pj sset offers placements) Q E s"
proof (cases "check_shards K (kc_governor s) (sn_check env) 0 offers (zip (ss_shards sset) placements)")
  case (Inl e)
  then show ?thesis by (simp add: admit_shards_def wp_simps assms(2))
next
  case (Inr u)
  show ?thesis
    unfolding admit_shards_def using Inr
    by (simp add: wp_simps) (rule wp_mono [OF assms(1)]; auto simp: wp_simps Let_def intro!: wp_lease_shards)
qed

end
