(* ===== verification/Rampage_Lifecycle.thy ===== *)
theory Rampage_Lifecycle
  imports Rampage_Handlers Rampage_Evidence Rampage_Governor Rampage_Placement
begin

text \<open>
  The controller daemon as a state machine: its steps are the runs of its handlers, answered or
  rejected. The invariant of its states, and what the owner's stop, a claim and a receipt guarantee.
\<close>

section \<open>Steps\<close>

definition stored_epoch :: "ledger \<Rightarrow> u64" where
  "stored_epoch st = unwrap_or 0 (l_epochs st ''controller'')"

text \<open>Handlers of artifacts, model sessions and remote desktops: whatever they do to the rest of the state, they leave
  this part alone.\<close>

definition authority_kept :: "'sk controller \<Rightarrow> 'sk controller \<Rightarrow> bool" where
  "authority_kept s s' \<longleftrightarrow> kc_governor s' = kc_governor s \<and> kc_nodes s' = kc_nodes s \<and> kc_offers s' = kc_offers s
     \<and> kc_assignments s' = kc_assignments s \<and> kc_shard_sets s' = kc_shard_sets s
     \<and> kc_fencing_epoch s' = kc_fencing_epoch s \<and> stored_epoch (kc_ledger s') = stored_epoch (kc_ledger s)"

text \<open>
  The handlers that take the admission gate exclude each other. The others interleave with them and with each
  other: what such a handler does between two locks is a step of its own. A job, a shard set and a receipt pass
  their first checks before the gate is taken, and the part under the gate runs in whatever state it finds.
\<close>

inductive handler_step :: "'sk control_lib \<Rightarrow> ('i, 'r) endpoint_lib \<Rightarrow> 'sk controller \<Rightarrow> 'sk controller \<Rightarrow> bool"
  for K :: "'sk control_lib" and E :: "('i, 'r) endpoint_lib" where
  step_invite: "create_invite K T i secret s = (r, s') \<Longrightarrow> handler_step K E s s'"
| step_enroll: "enroll_node K T q s = (r, s') \<Longrightarrow> handler_step K E s s'"
| step_revoke: "revoke_node K T D n c s = (r, s') \<Longrightarrow> handler_step K E s s'"
| step_offer: "register_offer K T offer s = (r, s') \<Longrightarrow> handler_step K E s s'"
| step_stop: "local_stop K T env s = (r, s') \<Longrightarrow> handler_step K E s s'"
| step_resume: "local_resume K T env c s = (r, s') \<Longrightarrow> handler_step K E s s'"
| step_job: "submit_job K E T J job s = (r, s') \<Longrightarrow> handler_step K E s s'"
| step_shards: "submit_shard_set K E senv pj sset s = (r, s') \<Longrightarrow> handler_step K E s s'"
| step_claim: "claim_work K T busy n s = (r, s') \<Longrightarrow> handler_step K E s s'"
| step_receipt: "submit_receipt K T busy er s = (r, s') \<Longrightarrow> handler_step K E s s'"
| step_record: "record_event K now t subj v s = (r, s') \<Longrightarrow> handler_step K E s s'"
| step_diagnostics: "refresh_diagnostics K T D s = (r, s') \<Longrightarrow> handler_step K E s s'"
| step_store_invite: "store_invite i record s = (r, s') \<Longrightarrow> handler_step K E s s'"
| step_take_invite: "take_invite i s = (r, s') \<Longrightarrow> handler_step K E s s'"
| step_store_identity: "verify_enrollment (kl_crypto K) q = Inr () \<Longrightarrow> store_identity (en_identity q) s = (r, s')
    \<Longrightarrow> handler_step K E s s'"
| step_offer_evidence: "record_offer_evidence K T offer s = (r, s') \<Longrightarrow> handler_step K E s s'"
| step_job_gated: "job_validate_at job now = Inr () \<Longrightarrow> submit_job_gated K E T J job s = (r, s') \<Longrightarrow> handler_step K E s s'"
| step_shards_gated: "shard_set_validate_at sset (sn_now senv) = Inr () \<Longrightarrow> submit_shard_set_gated K E senv pj sset s = (r, s')
    \<Longrightarrow> handler_step K E s s'"
| step_other: "authority_kept s s' \<Longrightarrow> handler_step K E s s'"
| step_settle: "receipt_shape_ok er \<Longrightarrow> settle_receipt K T er s = (r, s') \<Longrightarrow> handler_step K E s s'"

text \<open>The last section of \<open>register_offer\<close>: the offer passed its checks in some state, not necessarily this one.\<close>

inductive controller_step :: "'sk control_lib \<Rightarrow> ('i, 'r) endpoint_lib \<Rightarrow> 'sk controller \<Rightarrow> 'sk controller \<Rightarrow> bool"
  for K :: "'sk control_lib" and E :: "('i, 'r) endpoint_lib" where
  step_handler: "handler_step K E s s' \<Longrightarrow> controller_step K E s s'"
| step_store_offer: "check_offer K T offer s0 = (Inr (), s0) \<Longrightarrow> store_offer offer s = (r, s') \<Longrightarrow> controller_step K E s s'"

text \<open>A daemon that starts on a ledger without restored authority.\<close>

definition fresh_controller :: "'sk controller \<Rightarrow> bool" where
  "fresh_controller s \<longleftrightarrow> kc_nodes s = fmempty \<and> kc_offers s = fmempty \<and> kc_invites s = fmempty
     \<and> kc_assignments s = fmempty \<and> kc_idempotency s = fmempty \<and> kc_shard_sets s = fmempty
     \<and> kc_completed_receipts s = fmempty \<and> kc_artifact_replicas s = fmempty \<and> kc_replica_evidence s = fmempty
     \<and> kc_fencing_epoch s = stored_epoch (kc_ledger s)"

text \<open>The runs of the daemon, with the states they went through: the offer that is stored passed its checks in one of them.\<close>

inductive daemon_run :: "'sk control_lib \<Rightarrow> ('i, 'r) endpoint_lib \<Rightarrow> 'sk controller set \<Rightarrow> 'sk controller \<Rightarrow> bool"
  for K :: "'sk control_lib" and E :: "('i, 'r) endpoint_lib" where
  run_start: "fresh_controller s \<Longrightarrow> daemon_run K E {s} s"
| run_handler: "daemon_run K E H s \<Longrightarrow> handler_step K E s s' \<Longrightarrow> daemon_run K E (insert s' H) s'"
| run_store_offer: "daemon_run K E H s \<Longrightarrow> s0 \<in> H \<Longrightarrow> check_offer K T offer s0 = (Inr (), s0)
    \<Longrightarrow> store_offer offer s = (r, s') \<Longrightarrow> daemon_run K E (insert s' H) s'"

section \<open>The invariant\<close>

definition issued_lease :: "'sk control_lib \<Rightarrow> 'sk controller \<Rightarrow> job_spec \<Rightarrow> capability_lease \<Rightarrow> bool" where
  "issued_lease K s job lease \<longleftrightarrow>
     (\<exists>now i n offer e. authorize_job_at_epoch (kl_crypto K) (kc_governor s) now i n job offer (cl_node_id lease) e
        = Some (Inr lease) \<and> e \<le> kc_fencing_epoch s)"

text \<open>\<open>V\<close> are the nodes whose offers may be stored and whose leases may be issued.\<close>

definition nodes_ok :: "uuid set \<Rightarrow> 'sk controller \<Rightarrow> bool" where
  "nodes_ok V s \<longleftrightarrow> (\<forall>k i. fmlookup (kc_nodes s) k = Some i \<longrightarrow> ni_node_id i = k)
     \<and> (\<forall>k offer. fmlookup (kc_offers s) k = Some offer \<longrightarrow> ro_node_id offer = k \<and> k \<in> V)"

definition assignments_ok :: "'sk control_lib \<Rightarrow> uuid set \<Rightarrow> 'sk controller \<Rightarrow> bool" where
  "assignments_ok K V s \<longleftrightarrow> (\<forall>k a. fmlookup (kc_assignments s) k = Some a \<longrightarrow>
     js_job_id (as_job a) = k \<and> issued_lease K s (as_job a) (as_lease a) \<and> cl_node_id (as_lease a) \<in> V)"

definition shard_sets_ok :: "'sk control_lib \<Rightarrow> uuid set \<Rightarrow> 'sk controller \<Rightarrow> bool" where
  "shard_sets_ok K V s \<longleftrightarrow> (\<forall>k r. fmlookup (kc_shard_sets s) k = Some r \<longrightarrow>
     ss_set_id (sr_spec r) = k
     \<and> (\<forall>lease \<in> set (sr_leases r). cl_node_id lease \<in> V
          \<and> (\<exists>job \<in> set (ss_shards (sr_spec r)). issued_lease K s job lease)))"

definition epoch_ok :: "'sk controller \<Rightarrow> bool" where
  "epoch_ok s \<longleftrightarrow> kc_fencing_epoch s = stored_epoch (kc_ledger s)"

definition controller_ok :: "'sk control_lib \<Rightarrow> uuid set \<Rightarrow> 'sk controller \<Rightarrow> bool" where
  "controller_ok K V s \<longleftrightarrow> nodes_ok V s \<and> assignments_ok K V s \<and> shard_sets_ok K V s \<and> epoch_ok s"

lemmas controller_ok_defs = controller_ok_def nodes_ok_def assignments_ok_def shard_sets_ok_def epoch_ok_def

lemma append_epochs:
  "append_in_transaction LB now t subj v st = Inr (e, st') \<Longrightarrow> l_epochs st' = l_epochs st"
  by (auto simp: append_in_transaction_def Let_def split: option.splits if_splits)

lemma appended_epoch: "appended K now t subj v st st' \<Longrightarrow> stored_epoch st' = stored_epoch st"
  by (auto simp: appended_def append_event_def stored_epoch_def dest: append_epochs split: if_splits)

lemma issued_lease_cong:
  "kc_governor s' = kc_governor s \<Longrightarrow> kc_fencing_epoch s \<le> kc_fencing_epoch s'
     \<Longrightarrow> issued_lease K s job lease \<Longrightarrow> issued_lease K s' job lease"
  unfolding issued_lease_def by (metis order_trans)

lemma issued_lease_job: "issued_lease K s job lease \<Longrightarrow> cl_job_id lease = js_job_id job"
  by (auto simp: issued_lease_def dest: authorize_job_cases)

lemma issued_for_lease: "issued_for K s job node lease \<Longrightarrow> issued_lease K s job lease \<and> cl_node_id lease = node"
proof (unfold issued_for_def, elim exE conjE)
  fix now i n offer
  assume a: "authorize_job_at_epoch (kl_crypto K) (kc_governor s) now i n job offer node (kc_fencing_epoch s) = Some (Inr lease)"
  then have n: "cl_node_id lease = node" using authorize_job_cases by blast
  with a have "issued_lease K s job lease" unfolding issued_lease_def by blast
  with n show ?thesis by simp
qed

text \<open>The invariant looks at the registry, the offers, the assignments, the shard sets, the epoch and the
  Governor, and is closed under shrinking the offers, assignments and shard sets.\<close>

lemma controller_ok_mono:
  assumes ok: "controller_ok K V s"
    and "kc_governor s' = kc_governor s" "kc_fencing_epoch s' = kc_fencing_epoch s"
    and "stored_epoch (kc_ledger s') = stored_epoch (kc_ledger s)" "kc_nodes s' = kc_nodes s"
    and o: "\<And>k x. fmlookup (kc_offers s') k = Some x \<Longrightarrow> fmlookup (kc_offers s) k = Some x"
    and a: "\<And>k x. fmlookup (kc_assignments s') k = Some x \<Longrightarrow>
           \<exists>y. fmlookup (kc_assignments s) k = Some y \<and> as_job y = as_job x \<and> as_lease y = as_lease x"
    and r: "\<And>k x. fmlookup (kc_shard_sets s') k = Some x \<Longrightarrow> fmlookup (kc_shard_sets s) k = Some x"
  shows "controller_ok K V s'"
proof -
  have i: "issued_lease K s' = issued_lease K s" by (simp add: issued_lease_def assms fun_eq_iff)
  have "nodes_ok V s'" using ok o unfolding controller_ok_def nodes_ok_def assms(5) by blast
  moreover have "assignments_ok K V s'"
    using ok a unfolding controller_ok_def assignments_ok_def assms(5) i by metis
  moreover have "shard_sets_ok K V s'"
    using ok r unfolding controller_ok_def shard_sets_ok_def assms(5) i by blast
  ultimately show ?thesis using ok by (simp add: controller_ok_def epoch_ok_def assms)
qed

lemma controller_ok_appended [simp]:
  "controller_ok K V s \<Longrightarrow> appended K now t subj v (kc_ledger s) st' \<Longrightarrow> controller_ok K V (s\<lparr>kc_ledger := st'\<rparr>)"
  by (rule controller_ok_mono) (auto dest: appended_epoch)

lemma keeps_ok_record [handler_keeps]: "keeps_prop (controller_ok K V) (record_event K now t subj v)"
  by (intro keeps_record_event) simp

lemma authority_state_ok:
  "controller_ok K V s \<Longrightarrow> authority_state s' = authority_state s
     \<Longrightarrow> stored_epoch (kc_ledger s') = stored_epoch (kc_ledger s) \<Longrightarrow> controller_ok K V s'"
  using controller_ok_mono [of K V s s'] by (simp add: authority_state_eqD [of s' s])

text \<open>Staging adds evidence only.\<close>

lemma stage_input_epoch:
  "keeps_prop (\<lambda>s. stored_epoch (kc_ledger s) = e) (stage_input K E env offer job input)"
  unfolding wp_keeps
proof (intro allI impI)
  fix s :: "'a controller"
  assume [simp]: "stored_epoch (kc_ledger s) = e"
  show "wp (stage_input K E env offer job input) (\<lambda>_ s. stored_epoch (kc_ledger s) = e)
      (\<lambda>_ s. stored_epoch (kc_ledger s) = e) s"
    unfolding stage_input_def
    by (auto simp: wp_simps Let_def appended_epoch split: sum.splits option.splits intro!: wp_replicate_to_offer)
qed

lemma stage_job_inputs_epoch:
  "keeps_prop (\<lambda>s. stored_epoch (kc_ledger s) = e) (stage_job_inputs K E envs offer job)"
proof -
  have "keeps_prop (\<lambda>s. stored_epoch (kc_ledger s) = e) (stage_inputs K E envs n offer job inputs)" for n inputs
    by (induction inputs arbitrary: n) (auto intro!: handler_keeps stage_input_epoch)
  then show ?thesis by (simp add: stage_job_inputs_def)
qed

lemma stage_shards_epoch:
  "keeps_prop (\<lambda>s. stored_epoch (kc_ledger s) = e) (stage_shards K E J n offers jobs)"
  by (induction jobs arbitrary: n) (auto intro!: handler_keeps stage_job_inputs_epoch)

text \<open>Both facts together, from a state the staging starts in.\<close>

definition same_authority :: "'sk controller \<Rightarrow> 'sk controller \<Rightarrow> bool" where
  "same_authority s s' \<longleftrightarrow> authority_state s' = authority_state s
     \<and> stored_epoch (kc_ledger s') = stored_epoch (kc_ledger s)"

lemma same_authority_refl [simp]: "same_authority s s"
  by (simp add: same_authority_def)

lemma same_authority_ok: "same_authority s s' \<Longrightarrow> controller_ok K V s \<Longrightarrow> controller_ok K V s'"
  by (auto simp: same_authority_def intro: authority_state_ok)

lemma same_authority_eqs:
  assumes "same_authority s s'"
  shows "kc_governor s' = kc_governor s" "kc_offers s' = kc_offers s" "kc_nodes s' = kc_nodes s"
    "kc_assignments s' = kc_assignments s" "kc_shard_sets s' = kc_shard_sets s"
    "kc_fencing_epoch s' = kc_fencing_epoch s" "kc_reservations s' = kc_reservations s"
    "kc_idempotency s' = kc_idempotency s"
  using assms authority_state_eqD [of s' s] by (simp_all add: same_authority_def)

lemma same_authority_appended:
  "same_authority s s' \<Longrightarrow> appended K now t subj v (kc_ledger s') st' \<Longrightarrow> same_authority s (s'\<lparr>kc_ledger := st'\<rparr>)"
  by (auto simp: same_authority_def dest: appended_epoch)

lemma same_authority_keeps:
  assumes "\<And>c. keeps_prop (\<lambda>s. authority_state s = c) m" "\<And>e. keeps_prop (\<lambda>s. stored_epoch (kc_ledger s) = e) m"
  shows "keeps_prop (same_authority s0) m"
  using assms unfolding keeps_prop_def same_authority_def by metis

lemma stage_keeps_authority:
  "keeps_prop (same_authority s0) (stage_job_inputs K E envs offer job)"
  "keeps_prop (same_authority s0) (stage_shards K E J n offers jobs)"
  by (intro same_authority_keeps frame_stage_job_inputs stage_job_inputs_epoch frame_stage_shards stage_shards_epoch)+

lemma wp_same_authority:
  assumes "keeps_prop (same_authority s0) m" "same_authority s0 s"
    and "\<And>x s'. same_authority s0 s' \<Longrightarrow> Q x s'" and "\<And>e s'. same_authority s0 s' \<Longrightarrow> E e s'"
  shows "wp m Q E s"
  using assms unfolding wp_keeps by (blast intro: wp_mono)

section \<open>The members\<close>

lemma ok_store_invite: "keeps_prop (controller_ok K V) (store_invite i record)"
  unfolding store_invite_def by (intro handler_keeps) (erule controller_ok_mono; simp)

lemma ok_create_invite: "keeps_prop (controller_ok K V) (create_invite K T i secret)"
  unfolding create_invite_def Let_def by (intro handler_keeps keeps_with_state_all ok_store_invite)

lemma ok_take_invite: "keeps_prop (controller_ok K V) (take_invite i)"
  unfolding keeps_prop_def take_invite_def
  by (auto simp: from_option_def answer_def refuse_def split: option.splits elim!: controller_ok_mono)

lemma ok_store_identity: "keeps_prop (controller_ok K V) (store_identity d)"
proof -
  have "controller_ok K V (s\<lparr>kc_nodes := fmupd (ni_node_id d) d (kc_nodes s)\<rparr>)" if "controller_ok K V s" for s
  proof -
    let ?s = "s\<lparr>kc_nodes := fmupd (ni_node_id d) d (kc_nodes s)\<rparr>"
    have i: "issued_lease K ?s = issued_lease K s" by (simp add: issued_lease_def fun_eq_iff)
    show ?thesis using that unfolding controller_ok_defs i by simp
  qed
  then show ?thesis unfolding store_identity_def by (intro handler_keeps)
qed

lemma ok_enroll_node: "keeps_prop (controller_ok K V) (enroll_node K T q)"
  unfolding enroll_node_def Let_def by (intro handler_keeps ok_take_invite ok_store_identity)

lemma lookup_drop_of:
  "fmlookup (drop_assignments_of n m) k = Some a \<longleftrightarrow> fmlookup m k = Some a \<and> cl_node_id (as_lease a) \<noteq> n"
  "fmlookup (drop_shard_sets_of n m2) k = Some r \<longleftrightarrow>
     fmlookup m2 k = Some r \<and> (\<forall>lease \<in> set (sr_leases r). cl_node_id lease \<noteq> n)"
  by (auto simp: drop_assignments_of_def drop_shard_sets_of_def list_all_iff split: option.splits if_splits)

lemma ok_forget_node: "controller_ok K V s \<Longrightarrow> controller_ok K V (forget_node n s)"
proof -
  assume ok: "controller_ok K V s"
  have i: "issued_lease K (forget_node n s) = issued_lease K s"
    by (simp add: issued_lease_def fun_eq_iff forget_node_def)
  have "nodes_ok V (forget_node n s)" using ok by (auto simp: controller_ok_def nodes_ok_def forget_node_def split: if_splits)
  moreover have "assignments_ok K V (forget_node n s)"
    using ok unfolding controller_ok_def assignments_ok_def i by (auto simp: forget_node_def lookup_drop_of)
  moreover have "shard_sets_ok K V (forget_node n s)"
    using ok unfolding controller_ok_def shard_sets_ok_def i by (fastforce simp: forget_node_def lookup_drop_of)
  ultimately show ?thesis using ok by (simp add: controller_ok_def epoch_ok_def forget_node_def)
qed

text \<open>The refresh of the diagnostics changes the ledger and the excluded nodes.\<close>

lemma keeps_refresh_diagnostics:
  assumes "\<And>now t subj v. t \<in> {''diagnostic.autonomy.applied'', ''diagnostic.self_scan.completed''}
      \<Longrightarrow> keeps_prop I (record_event K now t subj v)"
    and "\<And>s x. I s \<Longrightarrow> I (s\<lparr>kc_excluded_nodes := x\<rparr>)"
  shows "keeps_prop I (refresh_diagnostics K T D)"
  unfolding refresh_diagnostics_def using assms
  by (intro handler_keeps) (auto split: option.split intro!: handler_keeps)

lemma ok_refresh_diagnostics [handler_keeps]: "keeps_prop (controller_ok K V) (refresh_diagnostics K T D)"
  by (intro keeps_refresh_diagnostics keeps_ok_record) (erule controller_ok_mono; simp)

lemma ok_revoke_node: "keeps_prop (controller_ok K V) (revoke_node K T D n c)"
  unfolding revoke_node_def Let_def by (intro handler_keeps keeps_with_state_all ok_forget_node)

lemma wp_check_offer:
  assumes "\<And>identity. fmlookup (kc_nodes s) (ro_node_id offer) = Some identity
      \<Longrightarrow> verify_offer (kl_crypto K) identity offer = Inr () \<Longrightarrow> T 0 < ro_expires_at offer \<Longrightarrow> Q () s"
    and "\<And>e. E e s"
  shows "wp (check_offer K T offer) Q E s"
proof -
  have ep: "wp (check_offer_endpoint K T identity offer) Q E s" if "Q () s" for identity
    unfolding check_offer_endpoint_def using that assms(2)
    by (auto simp: wp_simps split: option.splits sum.splits)
  show ?thesis
    unfolding check_offer_def by (auto simp: wp_simps assms split: option.splits sum.splits intro!: ep)
qed

lemma check_offer_state: "snd (check_offer K T offer s) = s"
  using wp_check_offer [of s offer K T "\<lambda>_ s'. s' = s" "\<lambda>_ s'. s' = s"] by (auto simp: wp_def split: prod.splits sum.splits)

lemma checked_offer:
  assumes "check_offer K T offer s = (Inr (), s')"
  shows "\<exists>i. fmlookup (kc_nodes s) (ro_node_id offer) = Some i \<and> verify_offer (kl_crypto K) i offer = Inr ()"
proof -
  have "wp (check_offer K T offer) (\<lambda>_ _. \<exists>i. fmlookup (kc_nodes s) (ro_node_id offer) = Some i
      \<and> verify_offer (kl_crypto K) i offer = Inr ()) (\<lambda>_ _. True) s"
    by (rule wp_check_offer) auto
  from wp_run(1) [OF this assms] show ?thesis .
qed

lemma ok_offer_evidence: "keeps_prop (controller_ok K V) (record_offer_evidence K T offer)"
  unfolding record_offer_evidence_def
  by (intro handler_keeps keeps_with_state_all)
    (auto split: option.splits intro!: handler_keeps elim: controller_ok_mono)

lemma ok_store_offer: "ro_node_id offer \<in> V \<Longrightarrow> keeps_prop (controller_ok K V) (store_offer offer)"
proof -
  assume V: "ro_node_id offer \<in> V"
  have "controller_ok K V (s\<lparr>kc_offers := fmupd (ro_node_id offer) offer (kc_offers s)\<rparr>)" if "controller_ok K V s" for s
  proof -
    let ?s = "s\<lparr>kc_offers := fmupd (ro_node_id offer) offer (kc_offers s)\<rparr>"
    have i: "issued_lease K ?s = issued_lease K s" by (simp add: issued_lease_def fun_eq_iff)
    show ?thesis using that V unfolding controller_ok_defs i by simp
  qed
  then show ?thesis unfolding store_offer_def by (intro handler_keeps)
qed

text \<open>The offers a state lets pass.\<close>

definition vouched :: "'sk control_lib \<Rightarrow> 'sk controller \<Rightarrow> uuid set" where
  "vouched K s = {ro_node_id offer | offer. \<exists>T. check_offer K T offer s = (Inr (), s)}"

lemma ok_register_offer:
  assumes ok: "controller_ok K V s" and V: "vouched K s \<subseteq> V"
  shows "controller_ok K V (snd (register_offer K T offer s))"
proof (cases "fst (check_offer K T offer s)")
  case (Inl e)
  then have "register_offer K T offer s = (Inl e, s)"
    using check_offer_state [of K T offer s] by (cases "check_offer K T offer s") (simp add: register_offer_def bind_h_def)
  then show ?thesis using ok by simp
next
  case (Inr u)
  then have c: "check_offer K T offer s = (Inr (), s)"
    using check_offer_state [of K T offer s] by (cases "check_offer K T offer s") simp
  then have "ro_node_id offer \<in> V" using V by (auto simp: vouched_def)
  then have "keeps_prop (controller_ok K V) (bind_h (record_offer_evidence K T offer) (\<lambda>_.
      bind_h (store_offer offer) (\<lambda>_. answer (ro_offer_id offer, T 6))))"
    by (intro handler_keeps ok_offer_evidence ok_store_offer)
  then show ?thesis using ok by (simp add: register_offer_def bind_h_def [of "check_offer K T offer"] c keeps_prop_def)
qed

section \<open>Stop and resume\<close>

lemma advance_epoch_strict:
  assumes "advance_epoch K now s = (Inr e, s')" "epoch_ok s"
  obtains st' where "s' = s\<lparr>kc_ledger := st', kc_fencing_epoch := e\<rparr>" "stored_epoch st' = e" "kc_fencing_epoch s < e"
proof -
  obtain st' where a: "advance_fencing_epoch (kl_ledger K) now ''controller'' (kc_ledger s) = Inr (e, st')"
    and s': "s' = s\<lparr>kc_ledger := st', kc_fencing_epoch := e\<rparr>"
    using assms(1) by (auto simp: advance_epoch_def split: sum.splits)
  have "unat e = unat (kc_fencing_epoch s) + 1"
    using advance_Inr(1) [OF a] assms(2) by (simp add: epoch_ok_def stored_epoch_def)
  then have less: "kc_fencing_epoch s < e" by (simp add: word_less_nat_alt)
  obtain ev where "append_in_transaction (kl_ledger K) now ''authority.epoch.advanced'' ''controller'' (Some (epoch_payload e))
      ((kc_ledger s)\<lparr>l_epochs := (l_epochs (kc_ledger s))(''controller'' \<mapsto> e)\<rparr>) = Inr (ev, st')"
    using advance_Inr(4) [OF a] by blast
  then have "l_epochs st' = (l_epochs (kc_ledger s))(''controller'' \<mapsto> e)" by (auto dest: append_epochs)
  then have "stored_epoch st' = e" by (simp add: stored_epoch_def unwrap_or_def)
  then show thesis using s' less by (intro that)
qed

lemma ok_advance_epoch: "keeps_prop (controller_ok K V) (advance_epoch K now)"
  unfolding keeps_prop_def
proof (intro allI impI)
  fix s assume ok: "controller_ok K V s"
  obtain r s' where a: "advance_epoch K now s = (r, s')" by force
  show "controller_ok K V (snd (advance_epoch K now s))"
  proof (cases r)
    case (Inl e)
    then show ?thesis using a ok by (auto simp: advance_epoch_def split: sum.splits)
  next
    case (Inr e)
    obtain st' where s': "s' = s\<lparr>kc_ledger := st', kc_fencing_epoch := e\<rparr>" "stored_epoch st' = e" "kc_fencing_epoch s < e"
      using advance_epoch_strict [OF a [unfolded Inr]] ok by (auto simp: controller_ok_def)
    have i: "issued_lease K s' job lease" if "issued_lease K s job lease" for job lease
      using that s' by (intro issued_lease_cong [of s' s]) auto
    have "nodes_ok V s'" "epoch_ok s'" using ok s' by (simp_all add: controller_ok_defs)
    moreover have eq: "kc_nodes s' = kc_nodes s" "kc_assignments s' = kc_assignments s" "kc_shard_sets s' = kc_shard_sets s"
      by (simp_all add: s'(1))
    have "assignments_ok K V s'" using ok i unfolding controller_ok_def assignments_ok_def eq by blast
    moreover have "shard_sets_ok K V s'" using ok i unfolding controller_ok_def shard_sets_ok_def eq by blast
    ultimately show ?thesis using a by (simp add: controller_ok_def)
  qed
qed

lemma ok_local_stop: "keeps_prop (controller_ok K V) (local_stop K T env)"
  unfolding local_stop_def
  by (intro handler_keeps keeps_with_state_all ok_advance_epoch keeps_stop_files) (auto elim: controller_ok_mono)

lemma ok_local_resume: "keeps_prop (controller_ok K V) (local_resume K T env c)"
proof -
  have "keeps_prop (controller_ok K V) (remove_stop_marker env)" "keeps_prop (controller_ok K V) (remove_kill_latch env)"
    unfolding remove_stop_marker_def remove_kill_latch_def
    by (intro handler_keeps keeps_with_state_all; auto split: option.splits intro!: handler_keeps elim: controller_ok_mono)+
  then show ?thesis
    unfolding local_resume_def by (intro handler_keeps keeps_with_state_all)
qed

section \<open>Submission\<close>

lemma placement_offer_enrolled:
  assumes "controller_ok K V s" "offer \<in> set (placement_offers K s)"
  shows "ro_node_id offer \<in> V"
proof -
  obtain k where "fmlookup (kc_offers s) k = Some offer"
    using assms(2) by (auto simp: placement_offers_def values_in_order_def List.map_filter_def)
  then show ?thesis using assms(1) by (auto simp: controller_ok_def nodes_ok_def)
qed

lemma chosen_offer_enrolled:
  assumes "controller_ok K V s" "choose_offer_with_topology job (placement_offers K s) rs policy now loc = Some (offer, score)"
  shows "ro_node_id offer \<in> V"
  using choose_best_Some [OF assms(2) [unfolded choose_offer_with_topology_def]] assms(1)
  by (auto intro: placement_offer_enrolled)

lemma ok_assign:
  assumes "controller_ok K V s" "issued_lease K s job lease" "cl_node_id lease \<in> V"
  shows "controller_ok K V (assign job lease n s)"
proof -
  have i: "issued_lease K (assign job lease n s) = issued_lease K s"
    by (simp add: issued_lease_def fun_eq_iff assign_def)
  show ?thesis using assms unfolding controller_ok_defs i by (auto simp: assign_def)
qed

lemma assign_frame [simp]:
  "kc_nodes (assign job lease n s) = kc_nodes s" "kc_governor (assign job lease n s) = kc_governor s"
  "kc_fencing_epoch (assign job lease n s) = kc_fencing_epoch s" "kc_shard_sets (assign job lease n s) = kc_shard_sets s"
  "kc_ledger (assign job lease n s) = kc_ledger s" "kc_invites (assign job lease n s) = kc_invites s"
  "kc_completed_receipts (assign job lease n s) = kc_completed_receipts s"
  "kc_artifact_replicas (assign job lease n s) = kc_artifact_replicas s"
  "kc_assignments (assign job lease n s) =
     fmupd (js_job_id job) \<lparr>as_job = job, as_lease = lease, as_claimed = False\<rparr> (kc_assignments s)"
  by (simp_all add: assign_def)

lemma drop_expired_frame [simp]:
  "kc_nodes (drop_expired_reservations now s) = kc_nodes s" "kc_governor (drop_expired_reservations now s) = kc_governor s"
  "kc_fencing_epoch (drop_expired_reservations now s) = kc_fencing_epoch s"
  "kc_shard_sets (drop_expired_reservations now s) = kc_shard_sets s"
  "kc_ledger (drop_expired_reservations now s) = kc_ledger s" "kc_invites (drop_expired_reservations now s) = kc_invites s"
  "kc_completed_receipts (drop_expired_reservations now s) = kc_completed_receipts s"
  "kc_artifact_replicas (drop_expired_reservations now s) = kc_artifact_replicas s"
  "kc_assignments (drop_expired_reservations now s) = kc_assignments s"
  "kc_offers (drop_expired_reservations now s) = kc_offers s"
  by (simp_all add: drop_expired_reservations_def)

lemma issued_lease_frame:
  "kc_governor s' = kc_governor s \<Longrightarrow> kc_fencing_epoch s' = kc_fencing_epoch s \<Longrightarrow> issued_lease K s' = issued_lease K s"
  by (simp add: issued_lease_def fun_eq_iff)

lemma ok_drop_expired: "controller_ok K V s \<Longrightarrow> controller_ok K V (drop_expired_reservations now s)"
  by (erule controller_ok_mono) auto

lemma appended_twice_ok [intro]:
  assumes "controller_ok K V s" "appended K now t subj v (kc_ledger s) st" "appended K now' t' subj' v' st st'"
  shows "controller_ok K V (s\<lparr>kc_ledger := st'\<rparr>)"
  using controller_ok_appended [OF controller_ok_appended [OF assms(1,2)], of now' t' subj' v' st'] assms(3) by simp

lemma ok_admit_job:
  assumes s: "controller_ok K V s0" "same_authority s0 s" "ro_node_id offer \<in> V"
  shows "wp (admit_job K E T J job offer score) (\<lambda>_. controller_ok K V) (\<lambda>_. controller_ok K V) s"
proof (rule wp_admit_job)
  note ok = same_authority_ok [OF _ s(1)]
  show "controller_ok K V s" by (rule ok [OF s(2)])
  fix lease assume "issued_for K s job (ro_node_id offer) lease"
  then have l: "issued_lease K s job lease" "cl_node_id lease = ro_node_id offer" using issued_for_lease by blast+
  show "wp (stage_job_inputs K E (jb_stage J) offer job)
        (\<lambda>_ s'. (\<forall>st'. appended K (T 5) ''lease.issued'' (kl_uuid_text K (js_job_id job))
             (JObject [(''lease'', vc_to (kl_lease K) lease), (''placement'', vc_to (kl_score K) score)]) (kc_ledger s') st'
             \<longrightarrow> controller_ok K V (assign job lease (cl_node_id lease) (drop_expired_reservations (T 6) (s'\<lparr>kc_ledger := st'\<rparr>))))
           \<and> (\<forall>err. controller_ok K V s')) (\<lambda>_. controller_ok K V) s"
  proof (rule wp_same_authority [OF stage_keeps_authority(1) s(2)])
    fix s' assume s': "same_authority s0 s'"
    note eqs = same_authority_eqs [OF s'] same_authority_eqs [OF s(2)]
    have "issued_lease K (drop_expired_reservations (T 6) (s'\<lparr>kc_ledger := st'\<rparr>)) = issued_lease K s" for st'
      by (rule issued_lease_frame) (simp_all add: eqs)
    then show "(\<forall>st'. appended K (T 5) ''lease.issued'' (kl_uuid_text K (js_job_id job))
             (JObject [(''lease'', vc_to (kl_lease K) lease), (''placement'', vc_to (kl_score K) score)]) (kc_ledger s') st'
             \<longrightarrow> controller_ok K V (assign job lease (cl_node_id lease) (drop_expired_reservations (T 6) (s'\<lparr>kc_ledger := st'\<rparr>))))
           \<and> (\<forall>err. controller_ok K V s')"
      using l s(3) eqs ok [OF s'] by (auto intro!: ok_assign ok_drop_expired)
  qed (rule ok)
qed

lemma ok_submit_job_gated: "keeps_prop (controller_ok K V) (submit_job_gated K E T J job)"
  unfolding wp_keeps
proof (intro allI impI)
  fix s assume ok: "controller_ok K V s"
  have adm: "wp (admit_job K E T J job offer score) (\<lambda>_. controller_ok K V) (\<lambda>_. controller_ok K V) (s\<lparr>kc_ledger := st'\<rparr>)"
    if "choose_offer_with_topology job (placement_offers K s) rs policy now loc = Some (offer, score)"
      and "appended K t ty sub v (kc_ledger s) st'" for offer score rs policy now loc st' t ty sub v
    using ok_admit_job [OF ok same_authority_appended [OF same_authority_refl that(2)] chosen_offer_enrolled [OF ok that(1)]] .
  show "wp (submit_job_gated K E T J job) (\<lambda>_. controller_ok K V) (\<lambda>_. controller_ok K V) s"
    unfolding submit_job_gated_def Let_def
    using ok by (auto simp: wp_simps split: option.split sum.split intro: adm)
qed

lemma ok_submit_job: "keeps_prop (controller_ok K V) (submit_job K E T J job)"
  unfolding submit_job_def by (intro handler_keeps keeps_with_state_all ok_submit_job_gated)

lemma ok_assign_all:
  assumes "controller_ok K V s" "\<And>job lease p. (job, lease, p) \<in> set xs \<Longrightarrow>
      issued_lease K s job lease \<and> cl_node_id lease \<in> V"
  shows "controller_ok K V (assign_all xs s)"
  using assms
proof (induction xs arbitrary: s)
  case Nil
  then show ?case by simp
next
  case (Cons x xs)
  obtain job lease p where x: "x = (job, lease, p)" by (cases x) auto
  have i: "issued_lease K (assign job lease (sp_node_id p) s) = issued_lease K s" by (rule issued_lease_frame) simp_all
  have "controller_ok K V (assign job lease (sp_node_id p) s)" using Cons.prems by (intro ok_assign) (auto simp: x)
  then have "controller_ok K V (assign_all xs (assign job lease (sp_node_id p) s))"
    using Cons.prems(2) by (intro Cons.IH) (auto simp: i)
  then show ?case by (simp add: x)
qed

lemma assign_all_frame [simp]:
  "kc_nodes (assign_all xs s) = kc_nodes s" "kc_governor (assign_all xs s) = kc_governor s"
  "kc_fencing_epoch (assign_all xs s) = kc_fencing_epoch s" "kc_shard_sets (assign_all xs s) = kc_shard_sets s"
  "kc_ledger (assign_all xs s) = kc_ledger s" "kc_invites (assign_all xs s) = kc_invites s"
  "kc_completed_receipts (assign_all xs s) = kc_completed_receipts s"
  "kc_artifact_replicas (assign_all xs s) = kc_artifact_replicas s"
  by (induction xs s rule: assign_all.induct) simp_all

lemma ok_shard_set:
  assumes "controller_ok K V s" "ss_set_id (sr_spec r) = k"
    and "\<And>lease. lease \<in> set (sr_leases r) \<Longrightarrow> cl_node_id lease \<in> V
          \<and> (\<exists>job \<in> set (ss_shards (sr_spec r)). issued_lease K s job lease)"
  shows "controller_ok K V (s\<lparr>kc_shard_sets := fmupd k r (kc_shard_sets s)\<rparr>)"
proof -
  let ?s = "s\<lparr>kc_shard_sets := fmupd k r (kc_shard_sets s)\<rparr>"
  have i: "issued_lease K ?s = issued_lease K s" by (rule issued_lease_frame) simp_all
  show ?thesis using assms unfolding controller_ok_defs i by auto
qed

text \<open>The triples of a plan: shard, lease, placement.\<close>

lemma zip_leases:
  assumes "list_all2 (\<lambda>(job, p) lease. P job p lease) (zip shards placements) leases"
  shows "(job, lease, p) \<in> set (zip shards (zip leases placements)) \<Longrightarrow> P job p lease \<and> job \<in> set shards"
    and "lease \<in> set leases \<Longrightarrow> \<exists>job p. job \<in> set shards \<and> P job p lease"
proof -
  have l: "length leases = min (length shards) (length placements)"
    using list_all2_lengthD [OF assms] by simp
  have n: "\<And>i. i < length leases \<Longrightarrow> P (shards ! i) (placements ! i) (leases ! i)"
    using list_all2_nthD2 [OF assms] l by simp
  show "(job, lease, p) \<in> set (zip shards (zip leases placements)) \<Longrightarrow> P job p lease \<and> job \<in> set shards"
    using n l by (auto simp: set_zip)
  show "lease \<in> set leases \<Longrightarrow> \<exists>job p. job \<in> set shards \<and> P job p lease"
    using n l by (auto simp: in_set_conv_nth)
qed

lemma ok_admit_shards:
  assumes ok: "controller_ok K V s"
    and offers: "\<And>offer. offer \<in> set offers \<Longrightarrow> ro_node_id offer \<in> V"
  shows "wp (admit_shards K E env pj sset offers placements) (\<lambda>_. controller_ok K V) (\<lambda>_. controller_ok K V) s"
proof (rule wp_admit_shards)
  note ok' = same_authority_ok [OF _ ok]
  show "controller_ok K V s" by (rule ok)
  let ?goal = "\<lambda>s'. (\<forall>leases. list_all2 (\<lambda>(job, p) lease. issued_for K s' job (sp_node_id p) lease
               \<and> (\<exists>offer. offer_of offers (sp_node_id p) = Some offer)) (zip (ss_shards sset) placements) leases
           \<longrightarrow> (\<forall>st'. appended K (sn_append env) ''shard_set.admitted'' (kl_uuid_text K (ss_set_id sset))
                (JObject [(''leases'', JArray (map (vc_to (kl_lease K)) leases)), (''placements'', pj),
                  (''set'', vc_to (kl_shard_set K) sset)]) (kc_ledger s') st'
              \<longrightarrow> (let s'' = assign_all (zip (ss_shards sset) (zip leases placements))
                     (drop_expired_reservations (sn_now env) (s'\<lparr>kc_ledger := st'\<rparr>))
                   in controller_ok K V (s''\<lparr>kc_shard_sets := fmupd (ss_set_id sset) \<lparr>sr_spec = sset, sr_leases = leases\<rparr>
                        (kc_shard_sets s'')\<rparr>))))
         \<and> (\<forall>e::http_reject. controller_ok K V s')"
  show "wp (stage_shards K E (sn_jobs env) 0 offers (zip (ss_shards sset) placements)) (\<lambda>_ s'. ?goal s') (\<lambda>_. controller_ok K V) s"
  proof (rule wp_same_authority [OF stage_keeps_authority(2) same_authority_refl])
    fix s' assume s': "same_authority s s'"
    note eqs = same_authority_eqs [OF s']
    have node: "cl_node_id lease \<in> V \<and> issued_lease K s' job lease"
      if "issued_for K s' job (sp_node_id p) lease" "offer_of offers (sp_node_id p) = Some offer" for job p lease offer
      using issued_for_lease [OF that(1)] that(2) offers [of offer] eqs by (auto simp: offer_of_def find_Some_iff)
    show "?goal s'"
    proof (intro conjI allI impI, unfold Let_def)
      fix leases st'
      assume l: "list_all2 (\<lambda>(job, p) lease. issued_for K s' job (sp_node_id p) lease
               \<and> (\<exists>offer. offer_of offers (sp_node_id p) = Some offer)) (zip (ss_shards sset) placements) leases"
        and a: "appended K (sn_append env) ''shard_set.admitted'' (kl_uuid_text K (ss_set_id sset))
                (JObject [(''leases'', JArray (map (vc_to (kl_lease K)) leases)), (''placements'', pj),
                  (''set'', vc_to (kl_shard_set K) sset)]) (kc_ledger s') st'"
      let ?s1 = "drop_expired_reservations (sn_now env) (s'\<lparr>kc_ledger := st'\<rparr>)"
      let ?s2 = "assign_all (zip (ss_shards sset) (zip leases placements)) ?s1"
      have i1: "issued_lease K ?s1 = issued_lease K s'" and i2: "issued_lease K ?s2 = issued_lease K s'"
        by (rule issued_lease_frame; simp)+
      have "controller_ok K V ?s2"
      proof (rule ok_assign_all)
        show "controller_ok K V ?s1" using ok' [OF s'] a by (intro ok_drop_expired) simp
        fix job lease p assume "(job, lease, p) \<in> set (zip (ss_shards sset) (zip leases placements))"
        from zip_leases(1) [OF l this] show "issued_lease K ?s1 job lease \<and> cl_node_id lease \<in> V"
          unfolding i1 using node [of job p lease] by auto
      qed
      then show "controller_ok K V (?s2\<lparr>kc_shard_sets := fmupd (ss_set_id sset) \<lparr>sr_spec = sset, sr_leases = leases\<rparr>
                        (kc_shard_sets ?s2)\<rparr>)"
      proof (rule ok_shard_set)
        fix lease assume "lease \<in> set (sr_leases \<lparr>sr_spec = sset, sr_leases = leases\<rparr>)"
        then have "lease \<in> set leases" by simp
        from zip_leases(2) [OF l this] obtain job and p :: shard_placement and offer where j: "job \<in> set (ss_shards sset)"
            and f: "issued_for K s' job (sp_node_id p) lease" "offer_of offers (sp_node_id p) = Some offer" by blast
        from node [OF f] j show "cl_node_id lease \<in> V \<and>
            (\<exists>job\<in>set (ss_shards (sr_spec \<lparr>sr_spec = sset, sr_leases = leases\<rparr>)). issued_lease K ?s2 job lease)"
          unfolding i2 by auto
      qed simp
    qed (use ok' [OF s'] in simp)
  qed (rule ok')
qed

lemma ok_submit_shard_set_gated: "keeps_prop (controller_ok K V) (submit_shard_set_gated K E env pj sset)"
  unfolding wp_keeps
proof (intro allI impI)
  fix s assume ok: "controller_ok K V s"
  have "wp (admit_shards K E env x sset (placement_offers K s) ps) (\<lambda>_. controller_ok K V) (\<lambda>_. controller_ok K V) s" for x ps
    using ok placement_offer_enrolled [OF ok] by (rule ok_admit_shards)
  then show "wp (submit_shard_set_gated K E env pj sset) (\<lambda>_. controller_ok K V) (\<lambda>_. controller_ok K V) s"
    unfolding submit_shard_set_gated_def Let_def using ok by (auto simp: wp_simps split: option.split sum.split)
qed

lemma ok_submit_shard_set: "keeps_prop (controller_ok K V) (submit_shard_set K E env pj sset)"
  unfolding submit_shard_set_def by (intro handler_keeps keeps_with_state_all ok_submit_shard_set_gated)

section \<open>Claims and receipts\<close>

lemma next_claim_sound:
  "next_claim K n now s = Some (k, a) \<Longrightarrow> fmlookup (kc_assignments s) k = Some a \<and> claimable n now s a"
  unfolding next_claim_def by (drule min_by_key_in) (auto simp: List.map_filter_def)

lemma ok_claim_work: "keeps_prop (controller_ok K V) (claim_work K T busy n)"
  unfolding wp_keeps
proof (intro allI impI)
  fix s assume ok: "controller_ok K V s"
  have up: "controller_ok K V (s\<lparr>kc_assignments := fmupd k (a\<lparr>as_claimed := True\<rparr>) (kc_assignments s)\<rparr>)"
    if "next_claim K n (T 0) s = Some (k, a)" for k a
    using next_claim_sound [OF that] by (intro controller_ok_mono [OF ok]) (auto split: if_splits)
  show "wp (claim_work K T busy n) (\<lambda>_. controller_ok K V) (\<lambda>_. controller_ok K V) s"
    unfolding claim_work_def using ok up controller_ok_appended [OF up]
    by (auto simp: wp_simps split: option.split)
qed

lemma ok_settle_receipt: "keeps_prop (controller_ok K V) (settle_receipt K T r)"
proof -
  have out: "keeps_prop (controller_ok K V) (record_outputs K T n r outputs)" for n outputs
    by (induction outputs arbitrary: n) (auto intro!: handler_keeps elim: controller_ok_mono)
  have "controller_ok K V (complete_job r a s)" if "controller_ok K V s" for s a
    using that by (rule controller_ok_mono) (auto simp: complete_job_def split: if_splits)
  then have "keeps_prop (controller_ok K V) (accept_receipt K T r a)" for a
    unfolding accept_receipt_def by (intro handler_keeps out) (auto elim: controller_ok_mono)
  then show ?thesis
    unfolding settle_receipt_def by (intro handler_keeps keeps_with_state_all)
qed

lemma ok_submit_receipt: "keeps_prop (controller_ok K V) (submit_receipt K T busy r)"
  unfolding submit_receipt_def by (intro handler_keeps keeps_with_state_all ok_settle_receipt)

lemma ok_authority_kept: "authority_kept s s' \<Longrightarrow> controller_ok K V s \<Longrightarrow> controller_ok K V s'"
  by (rule controller_ok_mono [of K V s s']) (auto simp: authority_kept_def)

lemmas controller_keeps = ok_create_invite ok_enroll_node ok_revoke_node ok_local_stop ok_local_resume ok_submit_job
  ok_submit_shard_set ok_claim_work ok_submit_receipt keeps_ok_record ok_refresh_diagnostics ok_store_invite ok_take_invite
  ok_store_identity ok_offer_evidence ok_submit_job_gated ok_submit_shard_set_gated ok_settle_receipt

lemma ok_handler_step:
  "handler_step K E s s' \<Longrightarrow> vouched K s \<subseteq> V \<Longrightarrow> controller_ok K V s \<Longrightarrow> controller_ok K V s'"
proof (induction rule: handler_step.induct)
  case (step_offer T offer s r s')
  then show ?case using ok_register_offer [of K V s T offer] by simp
qed (auto intro: controller_keeps [THEN keepsD] ok_authority_kept)

lemma controller_ok_step: "controller_step K E s s' \<Longrightarrow> controller_ok K UNIV s \<Longrightarrow> controller_ok K UNIV s'"
  by (induction rule: controller_step.induct) (auto intro: ok_handler_step keepsD [OF ok_store_offer])

interpretation daemon: invariant_system "controller_step K E" fresh_controller "controller_ok K UNIV" for K E
  by unfold_locales (simp add: fresh_controller_def controller_ok_defs, rule controller_ok_step)

text \<open>A run of the daemon: every node with an offer or a lease was vouched for in one of its states.\<close>

lemma controller_ok_weaken: "controller_ok K V s \<Longrightarrow> V \<subseteq> W \<Longrightarrow> controller_ok K W s"
  unfolding controller_ok_defs by blast

lemma daemon_run_ok: "daemon_run K E H s \<Longrightarrow> s \<in> H \<and> controller_ok K (\<Union> (vouched K ` H)) s"
proof (induction rule: daemon_run.induct)
  case (run_start s)
  then show ?case by (simp add: fresh_controller_def controller_ok_defs)
next
  case (run_handler H s s')
  then have "controller_ok K (\<Union> (vouched K ` H)) s'" by (intro ok_handler_step [OF run_handler(2)]) auto
  then show ?case by (auto elim: controller_ok_weaken)
next
  case (run_store_offer H s s0 T offer r s')
  then have "ro_node_id offer \<in> \<Union> (vouched K ` H)" by (auto simp: vouched_def)
  then have "controller_ok K (\<Union> (vouched K ` H)) s'"
    using run_store_offer by (intro keepsD [OF ok_store_offer run_store_offer(4)]) auto
  then show ?case by (auto elim: controller_ok_weaken)
qed

lemma handler_steps_run:
  "(handler_step K E)\<^sup>*\<^sup>* s0 s \<Longrightarrow> fresh_controller s0 \<Longrightarrow> \<exists>H. daemon_run K E H s"
  by (induction rule: rtranclp_induct) (auto intro: daemon_run.intros)

section \<open>Epochs only grow\<close>

lemma keeps_field:
  assumes "\<And>c. keeps_prop (\<lambda>s. authority_state s = c) m" "\<And>s s'. authority_state s = authority_state s' \<Longrightarrow> f s = f s'"
  shows "keeps_prop (\<lambda>s. f s = x) m"
  using assms unfolding keeps_prop_def by metis

lemma keeps_both: "keeps_prop I m \<Longrightarrow> keeps_prop J m \<Longrightarrow> keeps_prop (\<lambda>s. I s \<and> J s) m"
  by (simp add: keeps_prop_def)

lemma epoch_record [handler_keeps]: "keeps_prop (\<lambda>s. kc_fencing_epoch s = e) (record_event K now t subj v)"
  by (intro keeps_record_event) simp

lemma epoch_stage [handler_keeps]:
  "keeps_prop (\<lambda>s. kc_fencing_epoch s = e) (stage_job_inputs K E envs offer job)"
  "keeps_prop (\<lambda>s. kc_fencing_epoch s = e) (stage_shards K E J n offers jobs)"
  using keeps_field [where f = kc_fencing_epoch, OF frame_stage_job_inputs]
    keeps_field [where f = kc_fencing_epoch, OF frame_stage_shards] authority_state_eqD(11) by blast+

lemma epoch_authorize [handler_keeps]:
  "keeps_prop (\<lambda>s. kc_fencing_epoch s = e) (authorize_or_refuse K now i n rejection job offer node)"
  unfolding wp_keeps by (auto simp: wp_authorize_or_refuse split: option.split sum.split)

lemma epoch_lease_shards [handler_keeps]: "keeps_prop (\<lambda>s. kc_fencing_epoch s = e) (lease_shards K T J n offers jobs)"
  by (induction jobs arbitrary: n) (auto intro!: handler_keeps)

lemma epoch_refresh: "keeps_prop (\<lambda>s. kc_fencing_epoch s = e) (refresh_diagnostics K T D)"
  by (intro keeps_refresh_diagnostics handler_keeps) simp

lemma epoch_sections:
  "keeps_prop (\<lambda>s. kc_fencing_epoch s = e) (store_invite i record)"
  "keeps_prop (\<lambda>s. kc_fencing_epoch s = e) (take_invite i)"
  "keeps_prop (\<lambda>s. kc_fencing_epoch s = e) (store_identity d)"
  "keeps_prop (\<lambda>s. kc_fencing_epoch s = e) (store_offer offer)"
  unfolding store_invite_def store_identity_def store_offer_def keeps_prop_def take_invite_def
  by (auto simp: from_option_def answer_def refuse_def modify_def split: option.splits)

lemma epoch_members:
  "keeps_prop (\<lambda>s. kc_fencing_epoch s = e) (create_invite K T i secret)"
  "keeps_prop (\<lambda>s. kc_fencing_epoch s = e) (enroll_node K T q)"
  "keeps_prop (\<lambda>s. kc_fencing_epoch s = e) (revoke_node K T D n c)"
  "keeps_prop (\<lambda>s. kc_fencing_epoch s = e) (local_resume K T env c)"
proof -
  have "keeps_prop (\<lambda>s. kc_fencing_epoch s = e) (remove_stop_marker env)"
    "keeps_prop (\<lambda>s. kc_fencing_epoch s = e) (remove_kill_latch env)"
    unfolding remove_stop_marker_def remove_kill_latch_def
    by (intro handler_keeps keeps_with_state_all; auto split: option.splits intro!: handler_keeps)+
  note keeps = handler_keeps keeps_with_state_all epoch_sections this
  show "keeps_prop (\<lambda>s. kc_fencing_epoch s = e) (create_invite K T i secret)"
    unfolding create_invite_def Let_def by (intro keeps)
  show "keeps_prop (\<lambda>s. kc_fencing_epoch s = e) (enroll_node K T q)"
    unfolding enroll_node_def Let_def by (intro keeps)
  show "keeps_prop (\<lambda>s. kc_fencing_epoch s = e) (revoke_node K T D n c)"
    unfolding revoke_node_def Let_def by (intro keeps epoch_refresh) (simp add: forget_node_def)
  show "keeps_prop (\<lambda>s. kc_fencing_epoch s = e) (local_resume K T env c)"
    unfolding local_resume_def by (intro keeps)
qed

lemma epoch_work:
  "keeps_prop (\<lambda>s. kc_fencing_epoch s = e) (register_offer K T offer)"
  "keeps_prop (\<lambda>s. kc_fencing_epoch s = e) (submit_job K EL T J job)"
  "keeps_prop (\<lambda>s. kc_fencing_epoch s = e) (submit_shard_set K EL env pj sset)"
  "keeps_prop (\<lambda>s. kc_fencing_epoch s = e) (claim_work K T busy n)"
  "keeps_prop (\<lambda>s. kc_fencing_epoch s = e) (submit_receipt K T busy r)"
  "keeps_prop (\<lambda>s. kc_fencing_epoch s = e) (record_offer_evidence K T offer)"
  "keeps_prop (\<lambda>s. kc_fencing_epoch s = e) (submit_job_gated K EL T J job)"
  "keeps_prop (\<lambda>s. kc_fencing_epoch s = e) (submit_shard_set_gated K EL env pj sset)"
  "keeps_prop (\<lambda>s. kc_fencing_epoch s = e) (settle_receipt K T r)"
proof -
  have out: "keeps_prop (\<lambda>s. kc_fencing_epoch s = e) (record_outputs K T n r outputs)" for n outputs
    by (induction outputs arbitrary: n) (auto intro!: handler_keeps)
  show ev: "keeps_prop (\<lambda>s. kc_fencing_epoch s = e) (record_offer_evidence K T offer)"
    unfolding record_offer_evidence_def
    by (intro handler_keeps keeps_with_state_all) (auto split: option.splits intro!: handler_keeps)
  have "keeps_prop (\<lambda>s. kc_fencing_epoch s = e) (check_offer K T offer)" unfolding wp_keeps by (auto intro: wp_check_offer)
  with ev show "keeps_prop (\<lambda>s. kc_fencing_epoch s = e) (register_offer K T offer)"
    unfolding register_offer_def by (intro handler_keeps epoch_sections)
  have "keeps_prop (\<lambda>s. kc_fencing_epoch s = e) (admit_job K EL T J job offer score)" for offer score
    unfolding admit_job_def by (intro handler_keeps) auto
  then show job: "keeps_prop (\<lambda>s. kc_fencing_epoch s = e) (submit_job_gated K EL T J job)"
    unfolding submit_job_gated_def Let_def
    by (intro handler_keeps keeps_with_state_all) (auto split: option.splits intro!: handler_keeps)
  show "keeps_prop (\<lambda>s. kc_fencing_epoch s = e) (submit_job K EL T J job)"
    unfolding submit_job_def by (intro handler_keeps keeps_with_state_all job)
  have "keeps_prop (\<lambda>s. kc_fencing_epoch s = e) (admit_shards K EL env x sset offers ps)" for x offers ps
    unfolding admit_shards_def by (intro handler_keeps keeps_with_state_all) auto
  then show shards: "keeps_prop (\<lambda>s. kc_fencing_epoch s = e) (submit_shard_set_gated K EL env pj sset)"
    unfolding submit_shard_set_gated_def Let_def
    by (intro handler_keeps keeps_with_state_all) (auto split: option.splits sum.splits intro!: handler_keeps)
  show "keeps_prop (\<lambda>s. kc_fencing_epoch s = e) (submit_shard_set K EL env pj sset)"
    unfolding submit_shard_set_def by (intro handler_keeps keeps_with_state_all shards)
  show "keeps_prop (\<lambda>s. kc_fencing_epoch s = e) (claim_work K T busy n)"
    unfolding claim_work_def by (intro handler_keeps keeps_with_state_all) (auto split: option.splits intro!: handler_keeps)
  show settle: "keeps_prop (\<lambda>s. kc_fencing_epoch s = e) (settle_receipt K T r)"
    unfolding settle_receipt_def accept_receipt_def complete_job_def
    by (intro handler_keeps keeps_with_state_all out) auto
  show "keeps_prop (\<lambda>s. kc_fencing_epoch s = e) (submit_receipt K T busy r)"
    unfolding submit_receipt_def by (intro handler_keeps keeps_with_state_all settle)
qed

lemma stop_epoch:
  assumes "local_stop K T env s = (r, s')" "controller_ok K UNIV s"
  shows "kc_fencing_epoch s \<le> kc_fencing_epoch s'"
proof -
  let ?e = "kc_fencing_epoch s"
  have latch: "keeps_prop (\<lambda>s. controller_ok K UNIV s \<and> ?e \<le> kc_fencing_epoch s) (set_kill_latch env)"
    by (intro keeps_stop_files) (auto elim: controller_ok_mono)
  have marker: "keeps_prop (\<lambda>s. controller_ok K UNIV s \<and> ?e \<le> kc_fencing_epoch s) (write_stop_epoch_marker env x)" for x
    by (intro keeps_stop_files) (auto elim: controller_ok_mono)
  have adv: "keeps_prop (\<lambda>s. controller_ok K UNIV s \<and> ?e \<le> kc_fencing_epoch s) (advance_epoch K now)" for now
    unfolding keeps_prop_def
  proof (intro allI impI)
    fix s1 assume s1: "controller_ok K UNIV s1 \<and> ?e \<le> kc_fencing_epoch s1"
    obtain r s2 where a: "advance_epoch K now s1 = (r, s2)" by force
    have "?e \<le> kc_fencing_epoch s2"
    proof (cases r)
      case (Inl x)
      then show ?thesis using a s1 by (auto simp: advance_epoch_def split: sum.splits)
    next
      case (Inr e)
      then obtain st' where "s2 = s1\<lparr>kc_ledger := st', kc_fencing_epoch := e\<rparr>" "kc_fencing_epoch s1 < e"
        using advance_epoch_strict [of K now s1 e s2] a s1 by (auto simp: controller_ok_def)
      then show ?thesis using s1 order_trans [of "kc_fencing_epoch s" "kc_fencing_epoch s1" e] by (simp add: less_imp_le)
    qed
    then show "controller_ok K UNIV (snd (advance_epoch K now s1)) \<and> ?e \<le> kc_fencing_epoch (snd (advance_epoch K now s1))"
      using keepsD [OF ok_advance_epoch a] s1 a by simp
  qed
  have rec: "keeps_prop (\<lambda>s. controller_ok K UNIV s \<and> ?e \<le> kc_fencing_epoch s) (record_event K now t subj v)" for now t subj v
    by (intro keeps_record_event) simp
  have "keeps_prop (\<lambda>s. controller_ok K UNIV s \<and> ?e \<le> kc_fencing_epoch s) (local_stop K T env)"
    unfolding local_stop_def
    by (intro handler_keeps keeps_with_state_all latch marker adv rec) (auto elim: controller_ok_mono)
  from keepsD [OF this assms(1)] assms(2) show ?thesis by simp
qed

lemmas epoch_keeps = epoch_members epoch_work epoch_record epoch_refresh epoch_sections

lemma keeps_epoch_le:
  assumes "\<And>e. keeps_prop (\<lambda>s. kc_fencing_epoch s = e) m" "m s = (r, s')"
  shows "kc_fencing_epoch s \<le> kc_fencing_epoch s'"
  using keepsD [OF assms(1,2)] by force

lemma epoch_handler_step: "handler_step K E s s' \<Longrightarrow> controller_ok K UNIV s \<Longrightarrow> kc_fencing_epoch s \<le> kc_fencing_epoch s'"
proof (induction rule: handler_step.induct)
  case (step_stop T env s r s')
  then show ?case by (rule stop_epoch)
qed (auto intro: epoch_keeps [THEN keeps_epoch_le] simp: authority_kept_def)

lemma epoch_step: "controller_step K E s s' \<Longrightarrow> controller_ok K UNIV s \<Longrightarrow> kc_fencing_epoch s \<le> kc_fencing_epoch s'"
  by (induction rule: controller_step.induct) (auto intro: epoch_handler_step keeps_epoch_le [OF epoch_sections(4)])

lemma epoch_steps:
  "(controller_step K E)\<^sup>*\<^sup>* s s' \<Longrightarrow> controller_ok K UNIV s \<Longrightarrow> controller_ok K UNIV s' \<and> kc_fencing_epoch s \<le> kc_fencing_epoch s'"
  by (induction rule: rtranclp_induct) (auto dest: epoch_step controller_ok_step intro: order_trans)

lemma record_event_Inr:
  "record_event K now t subj v s = (Inr x, s') \<longleftrightarrow> (\<exists>st'. appended K now t subj v (kc_ledger s) st' \<and> s' = s\<lparr>kc_ledger := st'\<rparr>)"
  by (auto simp: record_event_def appended_def split: sum.splits)

text \<open>What a stop that is not a repetition has done when it answers.\<close>

lemma stop_answer:
  assumes r: "local_stop K T env s = (Inr (False, e), s')" and ok: "controller_ok K UNIV s"
  shows "kc_fencing_epoch s < e" "kc_fencing_epoch s' = e" "kc_assignments s' = kc_assignments s"
    "kc_kill_latch s \<noteq> LatchOther \<Longrightarrow> kc_kill_latch s' = LatchFile"
proof -
  obtain s1 s2 where a: "set_kill_latch env s = (Inr (), s1)" "advance_epoch K (T 0) s1 = (Inr e, s2)"
    and s': "kc_fencing_epoch s' = kc_fencing_epoch s2" "kc_assignments s' = kc_assignments s2" "kc_kill_latch s' = kc_kill_latch s2"
    using r unfolding local_stop_def
    by (auto simp: with_state_def bind_h_Inr handler_atoms write_stop_epoch_marker_def record_event_Inr
        split: if_splits option.splits)
  have s1: "kc_fencing_epoch s1 = kc_fencing_epoch s" "kc_assignments s1 = kc_assignments s" "epoch_ok s1"
    "kc_kill_latch s \<noteq> LatchOther \<Longrightarrow> kc_kill_latch s1 = LatchFile"
    using a(1) ok unfolding set_kill_latch_def
    by (auto simp: with_state_def bind_h_Inr handler_atoms kill_latch_is_file_def controller_ok_def epoch_ok_def split: if_splits option.splits)
  obtain st' where "s2 = s1\<lparr>kc_ledger := st', kc_fencing_epoch := e\<rparr>" "kc_fencing_epoch s1 < e"
    using advance_epoch_strict [OF a(2) s1(3)] by blast
  then show "kc_fencing_epoch s < e" "kc_fencing_epoch s' = e" "kc_assignments s' = kc_assignments s"
    "kc_kill_latch s \<noteq> LatchOther \<Longrightarrow> kc_kill_latch s' = LatchFile"
    using s' s1 by simp_all
qed

text \<open>With the latch set, nothing is submitted, claimed or accepted.\<close>

lemma stopped_refuses:
  assumes "kill_latch_is_file s"
  shows "submit_job K E T J job s = (Inl (Reject 423 ''owner kill latch is active'' []), s)"
    "submit_shard_set K E env pj sset s = (Inl (Reject 423 ''owner kill latch is active'' []), s)"
    "claim_work K T False n s = (Inl (Reject 423 ''owner kill latch is active'' []), s)"
    "snd (submit_receipt K T busy r s) = s" "fst (submit_receipt K T busy r s) \<noteq> Inr False"
proof -
  show "submit_job K E T J job s = (Inl (Reject 423 ''owner kill latch is active'' []), s)"
    using assms by (simp add: submit_job_def with_state_def require_def refuse_def bind_h_def)
  show "submit_shard_set K E env pj sset s = (Inl (Reject 423 ''owner kill latch is active'' []), s)"
    using assms by (simp add: submit_shard_set_def with_state_def require_def refuse_def bind_h_def)
  show "claim_work K T False n s = (Inl (Reject 423 ''owner kill latch is active'' []), s)"
    using assms by (simp add: claim_work_def with_state_def require_def refuse_def bind_h_def answer_def)
  have "wp (submit_receipt K T busy r) (\<lambda>x s'. s' = s \<and> x) (\<lambda>_ s'. s' = s) s"
    unfolding submit_receipt_def settle_receipt_def using assms by (auto simp: wp_simps split: option.split sum.split)
  then show "snd (submit_receipt K T busy r s) = s" "fst (submit_receipt K T busy r s) \<noteq> Inr False"
    by (auto simp: wp_def split: prod.splits sum.splits)
qed

end
