(* ===== verification/Rampage_Restore.thy ===== *)
theory Rampage_Restore
  imports Rampage_Jobs
begin

text \<open>
  The restart of the controller daemon (\<open>restore_state\<close> in \<open>crates/rampage-controller/src/main.rs\<close>): the maps of the
  state are rebuilt from the events of the ledger, read page by page for each event type and replayed in the order of
  their sequence numbers.
\<close>

section \<open>Reading the events\<close>

datatype restore_error = RestoreLedger ledger_error | RestorePayload

definition restore_event_types :: "string list" where
  "restore_event_types = [''node.enrolled'', ''node.revoked'', ''enrollment.invite.created'',
     ''enrollment.invite.consumed'', ''job.proposed'', ''lease.issued'', ''shard_set.admitted'', ''job.claimed'',
     ''job.receipted'', ''artifact.replicated'', ''artifact.input.staged'', ''artifact.output.recorded'',
     ''artifact.replica.verified'', ''artifact.repaired'', ''artifact.replica.invalidated'']"

lemma events_of_type_after:
  assumes "events_of_type LB event_type after limit st = Inr evs" and "e \<in> set evs"
  shows "\<exists>r \<in> set (l_rows st). lr_sequence r = le_sequence e \<and> lr_sequence r > after"
proof -
  let ?p = "\<lambda>r. lr_event_type r = event_type \<and> lr_sequence r > after"
  define n where "n = unat (max 1 (min limit 10000))"
  have "collect_results (map (event_of_row LB) (take n (filter ?p (l_rows st)))) = Inr evs"
    using assms(1) unfolding events_of_type_def n_def [symmetric] by (simp split: if_splits)
  then have m: "map (event_of_row LB) (take n (filter ?p (l_rows st))) = map Inr evs"
    by (simp only: collect_results_Inr)
  have "(Inr e :: ledger_error + ledger_event) \<in> set (map Inr evs)" using assms(2) by simp
  then have "Inr e \<in> event_of_row LB ` set (take n (filter ?p (l_rows st)))"
    by (simp only: m [symmetric] set_map)
  then obtain r where "r \<in> set (take n (filter ?p (l_rows st)))" "event_of_row LB r = Inr e" by (auto dest: sym)
  moreover from this(1) have "r \<in> set (filter ?p (l_rows st))" by (rule in_set_takeD)
  ultimately show ?thesis using event_of_row_sequence [of LB r e] by (intro bexI [of _ r]) auto
qed

text \<open>The loop over the pages of one type ends, because the last sequence of a page is beyond the cursor.\<close>

function read_pages ::
  "ledger_lib \<Rightarrow> ledger \<Rightarrow> string \<Rightarrow> u64 \<Rightarrow> ledger_error + ledger_event list" where
  "read_pages LB st event_type after_sequence =
     (case events_of_type LB event_type after_sequence 10000 st of
        Inl e \<Rightarrow> Inl e
      | Inr page \<Rightarrow>
          if page = [] then Inr []
          else map_result (\<lambda>rest. page @ rest) (read_pages LB st event_type (le_sequence (last page))))"
  by pat_completeness auto
termination
proof (relation "measure (\<lambda>(LB, st, _, after). length (filter (\<lambda>r. lr_sequence r > after) (l_rows st)))")
  fix LB :: ledger_lib and st :: ledger and event_type :: string and after :: u64 and page
  assume e: "events_of_type LB event_type after 10000 st = Inr page" "page \<noteq> []"
  then obtain r where r: "r \<in> set (l_rows st)" "lr_sequence r = le_sequence (last page)" "lr_sequence r > after"
    using events_of_type_after [OF e(1), of "last page"] by auto
  have "filter (\<lambda>r. lr_sequence r > le_sequence (last page)) (l_rows st) =
      filter (\<lambda>r. lr_sequence r > le_sequence (last page)) (filter (\<lambda>r. lr_sequence r > after) (l_rows st))"
    using r by (auto intro!: filter_cong)
  also have "length \<dots> < length (filter (\<lambda>r. lr_sequence r > after) (l_rows st))"
    using r by (intro length_filter_less [of r]) auto
  finally show "((LB, st, event_type, le_sequence (last page)), LB, st, event_type, after)
      \<in> measure (\<lambda>(LB, st, _, after). length (filter (\<lambda>r. lr_sequence r > after) (l_rows st)))"
    by simp
qed simp

declare read_pages.simps [simp del]

definition restore_events :: "ledger_lib \<Rightarrow> ledger \<Rightarrow> ledger_error + ledger_event list" where
  "restore_events LB st =
     map_result (\<lambda>pages. sort_key le_sequence (concat pages))
       (collect_results (map (\<lambda>event_type. read_pages LB st event_type 0) restore_event_types))"

section \<open>Replaying an event\<close>

record restored =
  ra_nodes :: "(uuid, node_identity) fmap"
  ra_offers :: "(uuid, resource_offer) fmap"
  ra_invites :: "(uuid, invite_record) fmap"
  ra_proposed_jobs :: "(uuid, job_spec) fmap"
  ra_assignments :: "(uuid, assignment) fmap"
  ra_completed_receipts :: "(uuid, uuid) fmap"
  ra_shard_sets :: "(uuid, shard_set_record) fmap"
  ra_artifact_replicas :: "(string \<times> uuid, artifact_ref) fmap"
  ra_replica_evidence :: "(string \<times> uuid, artifact_replica_receipt) fmap"

definition restored_empty :: restored where
  "restored_empty = \<lparr>ra_nodes = fmempty, ra_offers = fmempty, ra_invites = fmempty, ra_proposed_jobs = fmempty,
     ra_assignments = fmempty, ra_completed_receipts = fmempty, ra_shard_sets = fmempty,
     ra_artifact_replicas = fmempty, ra_replica_evidence = fmempty\<rparr>"

text \<open>A replay knows the time of the restart, the time the signature checks read, and the epoch.\<close>

record replay_env =
  rn_now :: datetime
  rn_verify_now :: datetime
  rn_epoch :: u64

definition parse_payload :: "'a value_codec \<Rightarrow> json \<Rightarrow> restore_error + 'a" where
  "parse_payload c v = (case vc_from c v of None \<Rightarrow> Inl RestorePayload | Some x \<Rightarrow> Inr x)"

definition replay_enrolled :: "'sk control_lib \<Rightarrow> json \<Rightarrow> restored \<Rightarrow> restore_error + restored" where
  "replay_enrolled K payload acc =
     map_sum id (\<lambda>identity. acc\<lparr>ra_nodes := fmupd (ni_node_id identity) identity (ra_nodes acc)\<rparr>)
       (parse_payload (kl_identity K) payload)"

definition replay_revoked :: "'sk control_lib \<Rightarrow> string \<Rightarrow> restored \<Rightarrow> restored" where
  "replay_revoked K subject_id acc =
     (case kl_parse_uuid K subject_id of
        None \<Rightarrow> acc
      | Some node_id \<Rightarrow> acc\<lparr>ra_nodes := fmdrop node_id (ra_nodes acc), ra_offers := fmdrop node_id (ra_offers acc),
          ra_assignments := drop_assignments_of node_id (ra_assignments acc),
          ra_shard_sets := drop_shard_sets_of node_id (ra_shard_sets acc),
          ra_artifact_replicas := drop_replicas_of node_id (ra_artifact_replicas acc),
          ra_replica_evidence := drop_replicas_of node_id (ra_replica_evidence acc)\<rparr>)"

definition replay_invite_created ::
  "'sk control_lib \<Rightarrow> replay_env \<Rightarrow> string \<Rightarrow> json \<Rightarrow> restored \<Rightarrow> restore_error + restored" where
  "replay_invite_created K env subject_id payload acc =
     (case (json_str ''secret_hash'' payload, json_str ''expires_at'' payload) of
        (Some secret_hash, Some expires_text) \<Rightarrow>
          (case (ll_parse_rfc3339 (kl_ledger K) expires_text, kl_parse_uuid K subject_id) of
             (Some expires_at, Some invite_id) \<Rightarrow>
               Inr (if rn_now env < expires_at
                    then acc\<lparr>ra_invites := fmupd invite_id
                           \<lparr>iv_secret_hash = secret_hash, iv_expires_at = expires_at\<rparr> (ra_invites acc)\<rparr>
                    else acc)
           | _ \<Rightarrow> Inl RestorePayload)
      | _ \<Rightarrow> Inr acc)"

definition replay_invite_consumed :: "'sk control_lib \<Rightarrow> string \<Rightarrow> restored \<Rightarrow> restored" where
  "replay_invite_consumed K subject_id acc =
     (case kl_parse_uuid K subject_id of
        None \<Rightarrow> acc | Some invite_id \<Rightarrow> acc\<lparr>ra_invites := fmdrop invite_id (ra_invites acc)\<rparr>)"

definition replay_proposed :: "'sk control_lib \<Rightarrow> json \<Rightarrow> restored \<Rightarrow> restore_error + restored" where
  "replay_proposed K payload acc =
     map_sum id (\<lambda>job. acc\<lparr>ra_proposed_jobs := fmupd (js_job_id job) job (ra_proposed_jobs acc)\<rparr>)
       (parse_payload (kl_job K) payload)"

definition lease_is_live :: "replay_env \<Rightarrow> capability_lease \<Rightarrow> bool" where
  "lease_is_live env lease = (rn_now env < cl_expires_at lease \<and> cl_fencing_epoch lease = rn_epoch env)"

definition replay_lease :: "replay_env \<Rightarrow> (uuid \<rightharpoonup> job_spec) \<Rightarrow> capability_lease \<Rightarrow> restored \<Rightarrow> restored" where
  "replay_lease env jobs lease acc =
     (if lease_is_live env lease
      then (case jobs (cl_job_id lease) of
              None \<Rightarrow> acc
            | Some job \<Rightarrow> acc\<lparr>ra_assignments := fmupd (cl_job_id lease)
                \<lparr>as_job = job, as_lease = lease, as_claimed = False\<rparr> (ra_assignments acc)\<rparr>)
      else acc)"

definition replay_issued :: "'sk control_lib \<Rightarrow> replay_env \<Rightarrow> json \<Rightarrow> restored \<Rightarrow> restore_error + restored" where
  "replay_issued K env payload acc =
     (case json_get ''lease'' payload of
        None \<Rightarrow> Inr acc
      | Some value \<Rightarrow>
          map_sum id (\<lambda>lease. replay_lease env (fmlookup (ra_proposed_jobs acc)) lease acc)
            (parse_payload (kl_lease K) value))"

fun parse_leases :: "'sk control_lib \<Rightarrow> json \<Rightarrow> restore_error + capability_lease list" where
  "parse_leases K (JArray values) = collect_results (map (parse_payload (kl_lease K)) values)"
| "parse_leases K _ = Inl RestorePayload"

definition replay_admitted :: "'sk control_lib \<Rightarrow> replay_env \<Rightarrow> json \<Rightarrow> restored \<Rightarrow> restore_error + restored" where
  "replay_admitted K env payload acc =
     (case (json_get ''set'' payload, json_get ''leases'' payload) of
        (Some set_value, Some leases_value) \<Rightarrow>
          and_then (parse_payload (kl_shard_set K) set_value) (\<lambda>sset.
          and_then (parse_leases K leases_value) (\<lambda>leases.
          let jobs = map_of (rev (map (\<lambda>job. (js_job_id job, job)) (ss_shards sset)));
              acc = foldl (\<lambda>acc lease. replay_lease env jobs lease acc) acc leases
          in Inr (acc\<lparr>ra_shard_sets := fmupd (ss_set_id sset) \<lparr>sr_spec = sset, sr_leases = leases\<rparr>
                   (ra_shard_sets acc)\<rparr>)))
      | _ \<Rightarrow> Inr acc)"

definition replay_claimed :: "'sk control_lib \<Rightarrow> string \<Rightarrow> restored \<Rightarrow> restored" where
  "replay_claimed K subject_id acc =
     (case Option.bind (kl_parse_uuid K subject_id) (\<lambda>job_id.
             map_option (Pair job_id) (fmlookup (ra_assignments acc) job_id)) of
        None \<Rightarrow> acc
      | Some (job_id, a) \<Rightarrow> acc\<lparr>ra_assignments := fmupd job_id (a\<lparr>as_claimed := True\<rparr>) (ra_assignments acc)\<rparr>)"

definition replay_receipted :: "'sk control_lib \<Rightarrow> string \<Rightarrow> json \<Rightarrow> restored \<Rightarrow> restored" where
  "replay_receipted K subject_id payload acc =
     (case kl_parse_uuid K subject_id of
        None \<Rightarrow> acc
      | Some job_id \<Rightarrow>
          let acc = acc\<lparr>ra_assignments := fmdrop job_id (ra_assignments acc)\<rparr> in
          (case vc_from (kl_receipt K) payload of
             None \<Rightarrow> acc
           | Some receipt \<Rightarrow> acc\<lparr>ra_completed_receipts :=
               fmupd (er_receipt_id receipt) (er_job_id receipt) (ra_completed_receipts acc)\<rparr>))"

definition payload_uuid :: "'sk control_lib \<Rightarrow> string \<Rightarrow> json \<Rightarrow> uuid option" where
  "payload_uuid K key payload = Option.bind (json_str key payload) (kl_parse_uuid K)"

definition replica_receipt_ok ::
  "'sk control_lib \<Rightarrow> replay_env \<Rightarrow> uuid \<Rightarrow> artifact_ref \<Rightarrow> restored \<Rightarrow> artifact_replica_receipt \<Rightarrow> bool" where
  "replica_receipt_ok K env node_id artifact acc receipt =
     (rc_node_id receipt = node_id \<and> rc_digest receipt = ar_digest artifact
      \<and> rc_size_bytes receipt = ar_size_bytes artifact
      \<and> (case fmlookup (ra_nodes acc) node_id of
           None \<Rightarrow> False
         | Some identity \<Rightarrow>
             verify_artifact_replica_receipt (kl_crypto K) (rn_verify_now env) identity receipt = Inr ()))"

definition replay_replica ::
  "'sk control_lib \<Rightarrow> replay_env \<Rightarrow> json \<Rightarrow> restored \<Rightarrow> restore_error + restored" where
  "replay_replica K env payload acc =
     (case (payload_uuid K ''node_id'' payload, json_get ''artifact'' payload) of
        (Some node_id, Some value) \<Rightarrow>
          map_sum id (\<lambda>artifact.
            let key = (ar_digest artifact, node_id);
                acc = acc\<lparr>ra_artifact_replicas := fmupd key artifact (ra_artifact_replicas acc)\<rparr>
            in (case Option.bind (json_get ''replica_receipt'' payload) (vc_from (kl_replica_receipt K)) of
                  None \<Rightarrow> acc
                | Some receipt \<Rightarrow>
                    if replica_receipt_ok K env node_id artifact acc receipt
                    then acc\<lparr>ra_replica_evidence := fmupd key receipt (ra_replica_evidence acc)\<rparr>
                    else acc)) (parse_payload (kl_artifact K) value)
      | _ \<Rightarrow> Inr acc)"

definition replay_invalidated :: "'sk control_lib \<Rightarrow> json \<Rightarrow> restored \<Rightarrow> restored" where
  "replay_invalidated K payload acc =
     (case (payload_uuid K ''node_id'' payload, json_str ''digest'' payload) of
        (Some node_id, Some digest) \<Rightarrow>
          acc\<lparr>ra_replica_evidence := fmdrop (digest, node_id) (ra_replica_evidence acc)\<rparr>
      | _ \<Rightarrow> acc)"

definition replica_event_types :: "string list" where
  "replica_event_types = [''artifact.replicated'', ''artifact.input.staged'', ''artifact.output.recorded'',
     ''artifact.replica.verified'', ''artifact.repaired'']"

definition replay_event ::
  "'sk control_lib \<Rightarrow> replay_env \<Rightarrow> ledger_event \<Rightarrow> restored \<Rightarrow> restore_error + restored" where
  "replay_event K env event acc =
     (let t = le_event_type event; subject = le_subject_id event; payload = le_payload event in
      if t = ''node.enrolled'' then replay_enrolled K payload acc
      else if t = ''node.revoked'' then Inr (replay_revoked K subject acc)
      else if t = ''enrollment.invite.created'' then replay_invite_created K env subject payload acc
      else if t = ''enrollment.invite.consumed'' then Inr (replay_invite_consumed K subject acc)
      else if t = ''job.proposed'' then replay_proposed K payload acc
      else if t = ''lease.issued'' then replay_issued K env payload acc
      else if t = ''shard_set.admitted'' then replay_admitted K env payload acc
      else if t = ''job.claimed'' then Inr (replay_claimed K subject acc)
      else if t = ''job.receipted'' then Inr (replay_receipted K subject payload acc)
      else if t \<in> set replica_event_types then replay_replica K env payload acc
      else if t = ''artifact.replica.invalidated'' then Inr (replay_invalidated K payload acc)
      else Inr acc)"

fun replay ::
  "'sk control_lib \<Rightarrow> replay_env \<Rightarrow> ledger_event list \<Rightarrow> restored \<Rightarrow> restore_error + restored" where
  "replay K env [] acc = Inr acc"
| "replay K env (event # rest) acc = and_then (replay_event K env event acc) (replay K env rest)"

section \<open>Restoring the state\<close>

definition restore_authority :: "'sk control_lib \<Rightarrow> replay_env \<Rightarrow> ledger \<Rightarrow> restore_error + restored" where
  "restore_authority K env st =
     and_then (map_sum RestoreLedger id (restore_events (kl_ledger K) st)) (\<lambda>events. replay K env events restored_empty)"

text \<open>The newest offer of each node. The nodes are visited in some order; each touches its own entry only.\<close>

fun restore_offers ::
  "'sk control_lib \<Rightarrow> replay_env \<Rightarrow> ledger \<Rightarrow> uuid list \<Rightarrow> restored \<Rightarrow> restore_error + restored" where
  "restore_offers K env st [] acc = Inr acc"
| "restore_offers K env st (node_id # rest) acc =
     (case latest_event_for_subject_of_type (kl_ledger K) (kl_uuid_text K node_id) ''resource.offer.registered'' st of
        Inl e \<Rightarrow> Inl (RestoreLedger e)
      | Inr None \<Rightarrow> restore_offers K env st rest acc
      | Inr (Some event) \<Rightarrow>
          and_then (parse_payload (kl_offer K) (le_payload event)) (\<lambda>offer.
          restore_offers K env st rest
            (if ro_node_id offer = node_id \<and> rn_now env < ro_expires_at offer
             then acc\<lparr>ra_offers := fmupd node_id offer (ra_offers acc)\<rparr> else acc)))"

definition restored_idempotency :: "'sk control_lib \<Rightarrow> (uuid, assignment) fmap \<Rightarrow> (string, uuid) fmap" where
  "restored_idempotency K m =
     fmap_of_list (rev (map (\<lambda>a. (js_idempotency_key (as_job a), js_job_id (as_job a)))
       (values_in_order m (kl_assignment_order K m))))"

definition restored_reservations :: "'sk control_lib \<Rightarrow> (uuid, assignment) fmap \<Rightarrow> resource_reservation list" where
  "restored_reservations K m =
     concat (map (\<lambda>a. job_reservations (as_job a) (cl_node_id (as_lease a)) (cl_expires_at (as_lease a)))
       (values_in_order m (kl_assignment_order K m)))"

definition restore_state ::
  "'sk control_lib \<Rightarrow> replay_env \<Rightarrow> ledger
     \<Rightarrow> restore_error + restored \<times> (string, uuid) fmap \<times> resource_reservation list" where
  "restore_state K env st =
     and_then (restore_authority K env st) (\<lambda>acc.
     and_then (restore_offers K env st (sorted_list_of_fset (fmdom (ra_nodes acc))) acc) (\<lambda>acc.
     Inr (acc, restored_idempotency K (ra_assignments acc), restored_reservations K (ra_assignments acc))))"

end
