(* ===== verification/Rampage_Replay.thy ===== *)
theory Rampage_Replay
  imports Rampage_Restore Rampage_Handlers Rampage_Evidence "HOL-Library.Multiset"
begin

text \<open>
  How a restart of the controller daemon reads its ledger. JSON text is read back up to the rounding of
  fractions; the events are read page by page, each once and in order; and replaying them is a fold to
  which every recorded event adds one step.
\<close>

section \<open>JSON text\<close>

text \<open>\<open>serde_json\<close> reads back what it printed, except that a number with a fraction may be rounded. A value of
  the library has objects with strictly increasing keys.\<close>

fun str_less :: "string \<Rightarrow> string \<Rightarrow> bool" where
  "str_less [] bs = (bs \<noteq> [])"
| "str_less (a # as) [] = False"
| "str_less (a # as) (b # bs) = (byte a < byte b \<or> a = b \<and> str_less as bs)"

fun json_value :: "json \<Rightarrow> bool" where
  "json_value (JArray vs) = (\<forall>v \<in> set vs. json_value v)"
| "json_value (JObject kvs) = (sorted_wrt str_less (map fst kvs) \<and> (\<forall>kv \<in> set kvs. json_value (snd kv)))"
| "json_value _ = True"

fun float_free :: "json \<Rightarrow> bool" where
  "float_free (JArray vs) = (\<forall>v \<in> set vs. float_free v)"
| "float_free (JObject kvs) = (\<forall>kv \<in> set kvs. float_free (snd kv))"
| "float_free (JFloat x) = False"
| "float_free _ = True"

inductive json_similar :: "json \<Rightarrow> json \<Rightarrow> bool" where
  similar_refl: "json_similar v v"
| similar_float: "json_similar (JFloat x) w"
| similar_array: "list_all2 json_similar vs ws \<Longrightarrow> json_similar (JArray vs) (JArray ws)"
| similar_object: "list_all2 (rel_prod (=) json_similar) kvs kws \<Longrightarrow> json_similar (JObject kvs) (JObject kws)"

inductive_cases similar_objectE: "json_similar (JObject kvs) w"

definition json_reads_back :: "ledger_lib \<Rightarrow> bool" where
  "json_reads_back LB \<longleftrightarrow> (\<forall>v. json_value v \<longrightarrow>
     (\<exists>w. ll_json_from_str LB (ll_json_to_string LB v) = Some w \<and> json_similar v w))"

lemma list_all2_eqI: "list_all2 (\<lambda>x y. P x y) xs ys \<Longrightarrow> (\<And>x y. x \<in> set xs \<Longrightarrow> P x y \<Longrightarrow> y = x) \<Longrightarrow> ys = xs"
  by (induction rule: list_all2_induct) auto

lemma similar_float_free: "json_similar v w \<Longrightarrow> float_free v \<Longrightarrow> w = v"
proof (induction rule: json_similar.induct)
  case (similar_array vs ws)
  then show ?case by (auto intro: list_all2_eqI)
next
  case (similar_object kvs kws)
  have "kws = kvs"
    using similar_object.IH
    by (rule list_all2_eqI) (use similar_object.prems in \<open>auto simp: rel_prod_conv\<close>)
  then show ?case by simp
qed auto

lemma similar_get:
  assumes "json_similar v w" "json_get k v = Some x"
  shows "\<exists>x'. json_get k w = Some x' \<and> json_similar x x'"
proof -
  obtain kvs where v: "v = JObject kvs" using assms(2) by (cases v) auto
  have *: "\<exists>x'. map_of kws k = Some x' \<and> json_similar x x'"
    if "list_all2 (rel_prod (=) json_similar) kvs kws" "map_of kvs k = Some x" for kws
    using that by (induction rule: list_all2_induct) (auto simp: rel_prod_conv split: if_splits)
  show ?thesis using assms * unfolding v by (auto elim!: similar_objectE intro: json_similar.intros)
qed

lemma similar_get_exact:
  "json_similar v w \<Longrightarrow> json_get k v = Some x \<Longrightarrow> float_free x \<Longrightarrow> json_get k w = Some x"
  using similar_get similar_float_free by blast

lemma similar_str:
  assumes "json_similar v w" "json_get k v = Some (JString x)"
  shows "json_str k w = Some x"
  using similar_get_exact [OF assms] by (simp add: json_str_def)

section \<open>The log is read once, in order\<close>

definition relevant :: "ledger_row \<Rightarrow> bool" where
  "relevant r \<longleftrightarrow> lr_event_type r \<in> set restore_event_types"

definition decoded :: "ledger_lib \<Rightarrow> ledger_row \<Rightarrow> ledger_event" where
  "decoded LB r = (case event_of_row LB r of Inr e \<Rightarrow> e)"

definition log_ok :: "ledger_lib \<Rightarrow> ledger \<Rightarrow> bool" where
  "log_ok LB st \<longleftrightarrow> \<not> l_poisoned st \<and> numbered st
     \<and> (\<forall>r \<in> set (l_rows st). relevant r \<longrightarrow> event_of_row LB r = Inr (decoded LB r))"

definition replayed_events :: "ledger_lib \<Rightarrow> ledger \<Rightarrow> ledger_event list" where
  "replayed_events LB st = map (decoded LB) (filter relevant (l_rows st))"

text \<open>Paging through one type gives its rows beyond the cursor.\<close>

lemma read_pages_exact:
  assumes "log_ok LB st" "t \<in> set restore_event_types" "after \<le> i64_max_u64"
  shows "read_pages LB st t after =
    Inr (map (decoded LB) (filter (\<lambda>r. lr_event_type r = t \<and> lr_sequence r > after) (l_rows st)))"
  using assms(3)
proof (induction "length (filter (\<lambda>r. lr_event_type r = t \<and> lr_sequence r > after) (l_rows st))"
    arbitrary: after rule: less_induct)
  case less
  let ?rows = "\<lambda>after. filter (\<lambda>r. lr_event_type r = t \<and> lr_sequence r > after) (l_rows st)"
  define n :: nat where "n = 10000"
  let ?page = "take n (?rows after)"
  have n: "unat (max 1 (min (10000 :: u32) 10000)) = n" "0 < n" by (simp_all add: n_def)
  have dec: "map (event_of_row LB) xs = map Inr (map (decoded LB) xs)" if "set xs \<subseteq> set (?rows after)" for xs
    using that assms(1,2) by (auto simp: log_ok_def relevant_def)
  have page: "events_of_type LB t after 10000 st = Inr (map (decoded LB) ?page)"
  proof -
    have "collect_results (map (event_of_row LB) ?page) = Inr (map (decoded LB) ?page)"
      unfolding dec [OF set_take_subset] by (rule collect_results_map_Inr)
    moreover have "\<not> l_poisoned st" "\<not> i64_max_u64 < after" using assms(1) less.prems by (auto simp: log_ok_def)
    ultimately show ?thesis unfolding events_of_type_def n(1) by (simp only: if_False)
  qed
  show ?case
  proof (cases "?rows after = []")
    case True
    then show ?thesis using page by (simp add: read_pages.simps [of LB st t after])
  next
    case False
    then have ne: "?page \<noteq> []" using n(2) by simp
    let ?last = "last ?page"
    have l: "?last \<in> set (?rows after)" using ne by (meson last_in_set in_set_takeD)
    have seq: "le_sequence (last (map (decoded LB) ?page)) = lr_sequence ?last"
      using ne dec [of "[?last]"] l by (simp add: last_map event_of_row_sequence)
    have ok: "table_ok st" using assms(1) numbered_table_ok by (simp add: log_ok_def)
    have rest: "?rows (lr_sequence ?last) = drop n (?rows after)"
    proof -
      have s: "sorted_wrt (<) (map lr_sequence (filter (\<lambda>r. lr_event_type r = t) (l_rows st)))"
        using ok by (simp add: table_ok_def sorted_wrt_map sorted_wrt_filter)
      have "filter (\<lambda>r. lr_sequence r > lr_sequence ?last) (filter (\<lambda>r. lr_event_type r = t) (l_rows st)) = drop n (?rows after)"
        by (rule filter_after_last [OF s _ ne]) (simp add: conj_commute)
      then show ?thesis by (simp add: conj_commute)
    qed
    have "length (?rows (lr_sequence ?last)) < length (?rows after)" unfolding rest using False n(2) by simp
    moreover have "lr_sequence ?last \<le> i64_max_u64" using ok l by (auto simp: table_ok_def)
    ultimately have "read_pages LB st t (lr_sequence ?last) = Inr (map (decoded LB) (?rows (lr_sequence ?last)))"
      by (rule less.hyps)
    then have "read_pages LB st t after = Inr (map (decoded LB) ?page @ map (decoded LB) (drop n (?rows after)))"
      using page ne by (simp add: read_pages.simps [of LB st t after] seq rest map_result_def)
    also have "map (decoded LB) ?page @ map (decoded LB) (drop n (?rows after)) = map (decoded LB) (?rows after)"
      by (simp flip: map_append)
    finally show ?thesis .
  qed
qed

text \<open>Sorting the pages of all types by sequence gives the log back.\<close>

lemma sort_classes:
  fixes f :: "'a \<Rightarrow> 'k :: linorder"
  assumes "sorted_wrt (<) (map f xs)" "distinct ts"
  shows "sort_key f (concat (map (\<lambda>t. filter (\<lambda>x. g x = t) xs) ts)) = filter (\<lambda>x. g x \<in> set ts) xs"
proof (rule sort_key_inj_key_eq)
  show "mset (concat (map (\<lambda>t. filter (\<lambda>x. g x = t) xs) ts)) = mset (filter (\<lambda>x. g x \<in> set ts) xs)"
    using assms(2)
  proof (induction ts)
    case (Cons t ts)
    have "filter_mset (\<lambda>x. g x \<in> set (t # ts)) (mset xs) =
        filter_mset (\<lambda>x. g x = t) (mset xs) + filter_mset (\<lambda>x. g x \<in> set ts) (mset xs)"
      using Cons.prems by (intro multiset_eqI) auto
    with Cons show ?case by simp
  qed simp
  have "inj_on f (set xs)" using assms(1) by (auto simp: strict_sorted_iff distinct_map)
  then show "inj_on f (set (concat (map (\<lambda>t. filter (\<lambda>x. g x = t) xs) ts)))" by (rule inj_on_subset) auto
  show "sorted (map f (filter (\<lambda>x. g x \<in> set ts) xs))"
    using assms(1) by (simp add: strict_sorted_iff sorted_filter)
qed

lemma restore_events_exact:
  assumes "log_ok LB st"
  shows "restore_events LB st = Inr (replayed_events LB st)"
proof -
  let ?cls = "\<lambda>t. filter (\<lambda>r. lr_event_type r = t) (l_rows st)"
  have ok: "table_ok st" using assms numbered_table_ok by (simp add: log_ok_def)
  have "filter (\<lambda>r. lr_event_type r = t \<and> lr_sequence r > 0) (l_rows st) = ?cls t" for t
    using ok by (auto simp: table_ok_def intro: filter_cong)
  then have "map (\<lambda>t. read_pages LB st t 0) restore_event_types = map Inr (map (\<lambda>t. map (decoded LB) (?cls t)) restore_event_types)"
    using read_pages_exact [OF assms, of _ 0] by simp
  then have 1: "restore_events LB st = Inr (sort_key le_sequence (concat (map (\<lambda>t. map (decoded LB) (?cls t)) restore_event_types)))"
    unfolding restore_events_def by (simp only: collect_results_map_Inr map_result_def sum.case)
  have "concat (map (\<lambda>t. map (decoded LB) (?cls t)) restore_event_types) = map (decoded LB) (concat (map ?cls restore_event_types))"
    by (simp add: map_concat comp_def)
  moreover have "sort_key le_sequence (map (decoded LB) rs) = map (decoded LB) (sort_key lr_sequence rs)"
    if "\<forall>r \<in> set rs. le_sequence (decoded LB r) = lr_sequence r" for rs
    using that
  proof (induction rs)
    case (Cons r rs)
    have "insort_key le_sequence (decoded LB r) (map (decoded LB) ys) = map (decoded LB) (insort_key lr_sequence r ys)"
      if "\<forall>y \<in> set (r # ys). le_sequence (decoded LB y) = lr_sequence y" for ys
      using that by (induction ys) auto
    with Cons show ?case by simp
  qed simp
  moreover have "\<forall>r \<in> set (concat (map ?cls restore_event_types)). le_sequence (decoded LB r) = lr_sequence r"
    using assms by (auto simp: log_ok_def relevant_def intro!: event_of_row_sequence)
  moreover have "sort_key lr_sequence (concat (map ?cls restore_event_types)) = filter relevant (l_rows st)"
    using sort_classes [of lr_sequence "l_rows st" restore_event_types lr_event_type] ok
    by (simp add: table_ok_def relevant_def [abs_def] restore_event_types_def)
  ultimately show ?thesis using 1 by (simp add: replayed_events_def)
qed

section \<open>Replay is a fold\<close>

definition authority :: "'sk control_lib \<Rightarrow> replay_env \<Rightarrow> ledger \<Rightarrow> restore_error + restored" where
  "authority K env st = replay K env (replayed_events (kl_ledger K) st) restored_empty"

lemma restore_authority_exact: "log_ok (kl_ledger K) st \<Longrightarrow> restore_authority K env st = authority K env st"
  by (simp add: restore_authority_def restore_events_exact authority_def and_then_def)

lemma replay_snoc: "replay K env (xs @ [e]) acc = and_then (replay K env xs acc) (replay_event K env e)"
  by (induction xs arbitrary: acc) (auto simp: and_then_def split: sum.splits)

text \<open>Recording an event adds a row, and the row decodes to the event.\<close>

lemma appended_row:
  assumes "appended K now t subj v st st'" "log_ok (kl_ledger K) st"
  obtains r where "l_rows st' = l_rows st @ [r]" "lr_event_type r = t" "lr_subject_id r = subj" "numbered st'" "\<not> l_poisoned st'"
    "lr_recorded_at r = ll_to_rfc3339 (kl_ledger K) now" "lr_payload_json r = ll_json_to_string (kl_ledger K) v"
proof -
  obtain e where a: "append_in_transaction (kl_ledger K) now t subj (Some v) st = Inr (e, st')" and p: "\<not> l_poisoned st"
    using assms(1) by (auto simp: appended_def append_event_def split: if_splits)
  have n: "numbered st" using assms(2) by (simp add: log_ok_def)
  have "\<not> l_poisoned st'" using a p by (auto simp: append_in_transaction_def Let_def split: if_splits)
  with append_in_transaction_Inr(1) [OF a n] append_numbered [OF a n] that show thesis by blast
qed

lemma log_ok_irrelevant:
  assumes "l_rows st' = l_rows st @ [r]" "\<not> relevant r" "numbered st'" "\<not> l_poisoned st'" "log_ok LB st"
  shows "log_ok LB st'" "replayed_events LB st' = replayed_events LB st"
  using assms by (auto simp: log_ok_def replayed_events_def)

lemma append_irrelevant:
  assumes "appended K now t subj v st st'" "log_ok (kl_ledger K) st" "t \<notin> set restore_event_types"
  shows "log_ok (kl_ledger K) st'" "authority K env st' = authority K env st"
proof -
  obtain r where r: "l_rows st' = l_rows st @ [r]" "lr_event_type r = t" "numbered st'" "\<not> l_poisoned st'"
    using appended_row [OF assms(1,2)] by metis
  have "\<not> relevant r" using assms(3) by (simp add: relevant_def r)
  from log_ok_irrelevant [OF r(1) this r(3,4) assms(2)]
  show "log_ok (kl_ledger K) st'" "authority K env st' = authority K env st" by (simp_all add: authority_def)
qed

lemma append_relevant:
  assumes "appended K now t subj v st st'" "log_ok (kl_ledger K) st" "t \<in> set restore_event_types"
    and lib: "time_format_ok (kl_ledger K)" "json_reads_back (kl_ledger K)" "json_value v"
  obtains e where "log_ok (kl_ledger K) st'" "\<And>env. authority K env st' = and_then (authority K env st) (replay_event K env e)"
    "le_event_type e = t" "le_subject_id e = subj" "json_similar v (le_payload e)"
proof -
  let ?LB = "kl_ledger K"
  obtain r where r: "l_rows st' = l_rows st @ [r]" "lr_event_type r = t" "lr_subject_id r = subj" "numbered st'" "\<not> l_poisoned st'"
    "lr_recorded_at r = ll_to_rfc3339 ?LB now" "lr_payload_json r = ll_json_to_string ?LB v"
    using appended_row [OF assms(1,2)] .
  obtain w where w: "ll_json_from_str ?LB (ll_json_to_string ?LB v) = Some w" "json_similar v w"
    using lib by (auto simp: json_reads_back_def)
  obtain e where e: "event_of_row ?LB r = Inr e" "le_payload e = w" "le_event_type e = t" "le_subject_id e = subj"
    using lib(1) w(1) by (auto simp: event_of_row_def r time_format_ok_def)
  have d: "decoded ?LB r = e" by (simp add: decoded_def e)
  have rel: "relevant r" using assms(3) by (simp add: relevant_def r)
  have "log_ok ?LB st'" using assms(2) r(1,4,5) e d by (auto simp: log_ok_def)
  moreover have "authority K env st' = and_then (authority K env st) (replay_event K env e)" for env
    by (simp add: authority_def replayed_events_def r(1) rel d replay_snoc)
  ultimately show thesis using e w(2) by (intro that) auto
qed

lemma advance_irrelevant:
  assumes "advance_fencing_epoch (kl_ledger K) now scope st = Inr (n, st')" "log_ok (kl_ledger K) st"
  shows "log_ok (kl_ledger K) st'" "authority K env st' = authority K env st"
proof -
  let ?st = "st\<lparr>l_epochs := (l_epochs st)(scope \<mapsto> n)\<rparr>"
  obtain e where "append_in_transaction (kl_ledger K) now ''authority.epoch.advanced'' scope (Some (epoch_payload n)) ?st = Inr (e, st')"
    using advance_Inr(4) [OF assms(1)] by blast
  then have "appended K now ''authority.epoch.advanced'' scope (epoch_payload n) ?st st'"
    using assms(2) by (auto simp: appended_def append_event_def log_ok_def)
  moreover have "log_ok (kl_ledger K) ?st" "authority K env ?st = authority K env st"
    using assms(2) by (simp_all add: log_ok_def authority_def replayed_events_def)
  ultimately show "log_ok (kl_ledger K) st'" "authority K env st' = authority K env st"
    using append_irrelevant [of K now "''authority.epoch.advanced''"] by (auto simp: restore_event_types_def)
qed

end
