(* ===== verification/Rampage_Artifacts.thy ===== *)
theory Rampage_Artifacts
  imports Rampage_Jobs Rampage_Gateway "HOL-Library.List_Lexorder" "HOL-Library.Char_ord" "HOL-Library.Product_Lexorder"
begin

text \<open>
  Artifacts in the controller daemon (\<open>crates/rampage-controller/src/main.rs\<close>): storing and reading local
  artifacts, replicating one to a worker, retrieving one from a worker, the possession proof of a replica, and the
  cycle that probes stale replicas of protected artifacts and repairs those with too few.
\<close>

section \<open>Local artifacts\<close>

record artifact_put_request =
  aq_data_base64 :: string
  aq_media_type :: string
  aq_storage_class :: storage_class

record put_env =
  pt_now :: datetime
  pt_random :: "nat \<Rightarrow> string option"
  pt_append_now :: datetime

text \<open>\<open>internal_error\<close> of a store operation, whose state is the controller's store.\<close>

definition on_store ::
  "'sk control_lib \<Rightarrow> (cas_store \<Rightarrow> (storage_error + 'a) \<times> cas_store) \<Rightarrow> ('sk controller, 'a) handler" where
  "on_store K f s =
     (case f (kc_artifact_store s) of
        (Inl e, store) \<Rightarrow> (Inl (Reject 500 (kl_store_text K e) []), s\<lparr>kc_artifact_store := store\<rparr>)
      | (Inr v, store) \<Rightarrow> (Inr v, s\<lparr>kc_artifact_store := store\<rparr>))"

definition put_artifact_handler ::
  "'sk control_lib \<Rightarrow> gateway_lib \<Rightarrow> put_env \<Rightarrow> artifact_put_request \<Rightarrow> ('sk controller, artifact_ref) handler" where
  "put_artifact_handler K G env request =
     with_state (\<lambda>s.
     bind_h (require (\<not> kill_latch_is_file s) 423 ''owner kill latch is active'') (\<lambda>_.
     bind_h (require (aq_storage_class request \<noteq> Protected) 400
        ''protected artifacts require a remote replica; put as cache or scratch, then replicate as protected'') (\<lambda>_.
     bind_h (from_option (gl_base64_decode G (aq_data_base64 request)) 400 ''artifact payload is not valid base64'') (\<lambda>payload.
     bind_h (require (length payload \<le> unat MAX_ARTIFACT_TRANSFER_BYTES) 413 ''artifact exceeds the 64 MiB transfer limit'') (\<lambda>_.
     bind_h (on_store K (put (kl_cas K) (pt_now env) (pt_random env) payload
        \<lparr>po_media_type = aq_media_type request, po_storage_class = aq_storage_class request, po_required_replicas = 1\<rparr>)) (\<lambda>artifact.
     bind_h (record_event K (pt_append_now env) ''artifact.stored.local'' (ar_digest artifact) (vc_to (kl_artifact K) artifact)) (\<lambda>_.
     answer artifact)))))))"

definition get_artifact :: "'sk control_lib \<Rightarrow> string \<Rightarrow> ('sk controller, artifact_ref \<times> string) handler" where
  "get_artifact K digest =
     with_state (\<lambda>s.
     bind_h (from_result (kl_store_text K) 404 (head (kl_cas K) digest (kc_artifact_store s))) (\<lambda>artifact.
     bind_h (from_result (kl_store_text K) 500 (get (kl_cas K) digest (kc_artifact_store s))) (\<lambda>payload.
     answer (artifact, payload))))"

section \<open>Replication\<close>

definition remote_offer ::
  "'sk control_lib \<Rightarrow> ('i, 'r) endpoint_lib \<Rightarrow> datetime \<Rightarrow> datetime \<Rightarrow> uuid
     \<Rightarrow> ('sk controller, resource_offer \<times> ('i, 'r) endpoint_addr) handler" where
  "remote_offer K E now endpoint_now node_id =
     with_state (\<lambda>s.
     bind_h (from_option (case fmlookup (kc_offers s) node_id of
               None \<Rightarrow> None | Some offer \<Rightarrow> if ro_expires_at offer > now then Some offer else None)
        409 ''node has no current resource offer'') (\<lambda>offer.
     bind_h (from_option (ro_mesh_endpoint offer) 409 ''node does not advertise an authenticated mesh endpoint'') (\<lambda>endpoint_record.
     bind_h (from_result (kl_mesh_text K) 409 (endpoint_addr_from_record E endpoint_now endpoint_record)) (\<lambda>endpoint.
     answer (offer, endpoint)))))"

record artifact_replicate_request =
  aj_digest :: string
  aj_node_id :: uuid
  aj_media_type :: string
  aj_storage_class :: storage_class

definition replica_payload :: "'sk control_lib \<Rightarrow> uuid \<Rightarrow> replication_outcome \<Rightarrow> (string \<times> json) list" where
  "replica_payload K node_id outcome =
     [(''artifact'', vc_to (kl_artifact K) (rp_artifact outcome)), (''chunk_count'', JPosInt (ucast (rp_chunk_count outcome))),
      (''node_id'', JString (kl_uuid_text K node_id)), (''replica_receipt'', vc_to (kl_replica_receipt K) (rp_receipt outcome)),
      (''resumed_chunks'', JPosInt (of_nat (rp_resumed_chunks outcome))),
      (''storage_lease_id'', JString (kl_uuid_text K (rp_lease_id outcome))),
      (''transfer_session_id'', JString (kl_uuid_text K (rp_session_id outcome)))]"

text \<open>The two registries after a replica was verified.\<close>

definition note_replica :: "string \<times> uuid \<Rightarrow> artifact_ref \<Rightarrow> artifact_replica_receipt \<Rightarrow> 'sk controller \<Rightarrow> 'sk controller" where
  "note_replica key artifact receipt s =
     s\<lparr>kc_artifact_replicas := fmupd key artifact (kc_artifact_replicas s),
       kc_replica_evidence := fmupd key receipt (kc_replica_evidence s)\<rparr>"

definition replicate_artifact ::
  "'sk control_lib \<Rightarrow> ('i, 'r) endpoint_lib \<Rightarrow> datetime \<Rightarrow> datetime \<Rightarrow> stage_env \<Rightarrow> artifact_replicate_request
     \<Rightarrow> ('sk controller, replication_outcome) handler" where
  "replicate_artifact K E now endpoint_now env request =
     with_state (\<lambda>s.
     bind_h (require (\<not> kill_latch_is_file s) 423 ''owner kill latch is active'') (\<lambda>_.
     bind_h (from_result (kl_store_text K) 404 (head (kl_cas K) (aj_digest request) (kc_artifact_store s))) (\<lambda>source.
     bind_h (require (aj_media_type request = ar_media_type source) 400
        ''replica media type must match the source artifact'') (\<lambda>_.
     bind_h (remote_offer K E now endpoint_now (aj_node_id request)) (\<lambda>(offer, _).
     bind_h (map_error (\<lambda>e. Reject 502 e []) (replicate_to_offer K env offer source (aj_storage_class request))) (\<lambda>outcome.
     bind_h (modify (note_replica (ar_digest (rp_artifact outcome), aj_node_id request) (rp_artifact outcome) (rp_receipt outcome))) (\<lambda>_.
     bind_h (record_event K (sg_recorded_now env) ''artifact.replicated'' (ar_digest (rp_artifact outcome))
        (JObject (replica_payload K (aj_node_id request) outcome))) (\<lambda>_.
     answer outcome))))))))"

section \<open>The possession proof\<close>

record probe_env =
  pb_endpoint_now :: datetime
  pb_now :: datetime
  pb_append_now :: datetime
  pb_verify_now :: datetime
  pb_lease_id :: uuid
  pb_nonce :: string
  pb_request :: uuid
  pb_challenge :: string
  pb_exchange :: artifact_exchange

definition storage_lease_for ::
  "'sk control_lib \<Rightarrow> datetime \<Rightarrow> uuid \<Rightarrow> string \<Rightarrow> resource_offer \<Rightarrow> artifact_ref \<Rightarrow> 'sk controller \<Rightarrow> denial + storage_lease" where
  "storage_lease_for K now lease_id nonce offer artifact s =
     authorize_storage_at_epoch (kl_crypto K) (kc_governor s) now lease_id nonce offer (ar_digest artifact)
       (ar_size_bytes artifact) (ar_storage_class artifact) Get (kc_fencing_epoch s)"

definition same_contract :: "artifact_ref \<Rightarrow> artifact_ref \<Rightarrow> bool" where
  "same_contract remote artifact =
     (ar_digest remote = ar_digest artifact \<and> ar_size_bytes remote = ar_size_bytes artifact
      \<and> ar_media_type remote = ar_media_type artifact \<and> ar_storage_class remote = ar_storage_class artifact
      \<and> ar_encrypted remote)"

definition probe_replica ::
  "'sk control_lib \<Rightarrow> ('i, 'r) endpoint_lib \<Rightarrow> probe_env \<Rightarrow> resource_offer \<Rightarrow> artifact_ref
     \<Rightarrow> ('sk controller, string, artifact_replica_receipt) action" where
  "probe_replica K E env offer artifact =
     with_state (\<lambda>s.
     case ro_mesh_endpoint offer of
        None \<Rightarrow> lift (Inl ''replica has no signed mesh endpoint'')
      | Some endpoint_record \<Rightarrow>
     bind_h (lift (map_sum (kl_mesh_text K) id (endpoint_addr_from_record E (pb_endpoint_now env) endpoint_record))) (\<lambda>_.
     bind_h (lift (map_sum denial_to_string id (storage_lease_for K (pb_now env) (pb_lease_id env) (pb_nonce env) offer artifact s))) (\<lambda>lease.
     bind_h (map_error reject_text (record_event K (pb_append_now env) ''storage.lease.issued''
        (kl_uuid_text K (sl_lease_id lease)) (vc_to (kl_storage_lease K) lease))) (\<lambda>_.
     let session_id = artifact_transfer_session_id K (ro_node_id offer) (ar_digest artifact) Get
     in bind_h (lift (map_sum (kl_mesh_text K) id (artifact_head (pb_exchange env)
          \<lparr>tc_lease = lease, tc_media_type = ar_media_type artifact, tc_session_id = session_id,
           tc_challenge_nonce = pb_challenge env\<rparr> (pb_request env)))) (\<lambda>(remote, receipt).
     bind_h (lift (if same_contract remote artifact then Inr ()
        else Inl ''replica probe returned a different artifact contract'')) (\<lambda>_.
     bind_h (lift (verify_replica_evidence K (pb_verify_now env) s offer lease session_id (pb_challenge env) receipt)) (\<lambda>_.
     answer receipt)))))))"

section \<open>Retrieval\<close>

definition required_for :: "storage_class \<Rightarrow> u8" where
  "required_for cls = (if cls = Protected then 2 else 1)"

definition retrieval_sink_contract :: "artifact_ref \<Rightarrow> artifact_ref option \<Rightarrow> string + storage_class \<times> u8" where
  "retrieval_sink_contract remote local_ref =
     (case local_ref of
        Some l \<Rightarrow>
          if ar_digest l \<noteq> ar_digest remote \<or> ar_size_bytes l \<noteq> ar_size_bytes remote
             \<or> ar_media_type l \<noteq> ar_media_type remote \<or> \<not> ar_encrypted l
          then Inl ''local content address conflicts with the remote artifact contract''
          else Inr (ar_storage_class l, required_for (ar_storage_class l))
      | None \<Rightarrow> Inr (ar_storage_class remote, required_for (ar_storage_class remote)))"

text \<open>One retrieval: clock readings, identifiers, random bytes and the worker's answers, numbered by chunk.\<close>

record retrieve_env =
  rt_now :: datetime
  rt_endpoint_now :: datetime
  rt_lease_now :: "nat \<Rightarrow> datetime"
  rt_lease_id :: "nat \<Rightarrow> uuid"
  rt_nonce :: "nat \<Rightarrow> string"
  rt_append_now :: "nat \<Rightarrow> datetime"
  rt_begin_now :: "nat \<Rightarrow> datetime"
  rt_request :: "nat \<Rightarrow> uuid"
  rt_challenge :: "nat \<Rightarrow> string"
  rt_exchange :: "nat \<Rightarrow> artifact_exchange"
  rt_chunk_now :: "nat \<Rightarrow> datetime"
  rt_random :: "nat \<Rightarrow> string option"
  rt_commit_now :: datetime
  rt_probe :: probe_env
  rt_recorded_now :: datetime

definition issue_retrieval_lease ::
  "'sk control_lib \<Rightarrow> retrieve_env \<Rightarrow> nat \<Rightarrow> resource_offer \<Rightarrow> artifact_ref \<Rightarrow> ('sk controller, storage_lease) handler" where
  "issue_retrieval_lease K env n offer artifact =
     with_state (\<lambda>s.
     bind_h (from_result denial_to_string 403
        (storage_lease_for K (rt_lease_now env n) (rt_lease_id env n) (rt_nonce env n) offer artifact s)) (\<lambda>lease.
     bind_h (record_event K (rt_append_now env n) ''storage.lease.issued'' (kl_uuid_text K (sl_lease_id lease))
        (vc_to (kl_storage_lease K) lease)) (\<lambda>_.
     answer lease)))"

definition simple_text :: "'sk control_lib \<Rightarrow> uuid \<Rightarrow> string" where
  "simple_text K u = cr_hex_encode (kl_crypto K) (uuid_bytes u)"

definition retrieval_spec ::
  "'sk control_lib \<Rightarrow> uuid \<Rightarrow> artifact_ref \<Rightarrow> storage_class \<times> u8 \<Rightarrow> storage_lease \<Rightarrow> resumable_put_spec" where
  "retrieval_spec K session_id artifact sink lease =
     \<lparr>rs_session_id = simple_text K session_id, rs_lease_id = simple_text K (sl_lease_id lease),
      rs_authority_scope = ''governor'', rs_fencing_epoch = sl_fencing_epoch lease, rs_authority_nonce = sl_nonce lease,
      rs_expires_at = sl_expires_at lease, rs_digest = ar_digest artifact, rs_size_bytes = ar_size_bytes artifact,
      rs_media_type = ar_media_type artifact, rs_storage_class = fst sink, rs_required_replicas = snd sink,
      rs_chunk_size = ARTIFACT_TRANSFER_CHUNK_BYTES\<rparr>"

text \<open>The loop over the missing chunks: every chunk but the first is fetched under a lease of its own.\<close>

fun fetch_chunks ::
  "'sk control_lib \<Rightarrow> retrieve_env \<Rightarrow> resource_offer \<Rightarrow> artifact_ref \<Rightarrow> storage_class \<times> u8 \<Rightarrow> uuid \<Rightarrow> storage_lease \<Rightarrow> nat
     \<Rightarrow> u32 list \<Rightarrow> ('sk controller, uuid list) handler" where
  "fetch_chunks K env offer artifact sink session_id lease position [] = answer []"
| "fetch_chunks K env offer artifact sink session_id lease position (index # rest) =
     bind_h (if position > 0 then issue_retrieval_lease K env position offer artifact else answer lease) (\<lambda>lease.
     bind_h (from_result (kl_mesh_text K) 502 (artifact_get_chunk (rt_exchange env position)
        \<lparr>tc_lease = lease, tc_media_type = ar_media_type artifact, tc_session_id = session_id,
         tc_challenge_nonce = rt_challenge env position\<rparr> (rt_request env position) index)) (\<lambda>(stored, chunk_digest, chunk).
     bind_h (require (same_contract stored artifact) 502 ''remote chunk changed the artifact contract'') (\<lambda>_.
     bind_h (on_store K (begin_resumable_put (retrieval_spec K session_id artifact sink lease) (rt_begin_now env (Suc position)))) (\<lambda>_.
     bind_h (on_store K (put_resumable_chunk (kl_cas K) (simple_text K session_id) index chunk_digest chunk
        (rt_chunk_now env position) (rt_random env position))) (\<lambda>_.
     bind_h (fetch_chunks K env offer artifact sink session_id lease (Suc position) rest) (\<lambda>lease_ids.
     answer (sl_lease_id lease # lease_ids)))))))"

definition retrieved_payload ::
  "'sk control_lib \<Rightarrow> uuid \<Rightarrow> artifact_ref \<Rightarrow> uuid list \<Rightarrow> uuid \<Rightarrow> nat \<Rightarrow> artifact_replica_receipt \<Rightarrow> json" where
  "retrieved_payload K node_id artifact lease_ids session_id resumed receipt =
     JObject [(''artifact'', vc_to (kl_artifact K) artifact), (''node_id'', JString (kl_uuid_text K node_id)),
       (''replica_receipt'', vc_to (kl_replica_receipt K) receipt), (''resumed_chunks'', JPosInt (of_nat resumed)),
       (''storage_lease_ids'', JArray (map (\<lambda>u. JString (kl_uuid_text K u)) lease_ids)),
       (''transfer_session_id'', JString (kl_uuid_text K session_id))]"

definition retrieve_from ::
  "'sk control_lib \<Rightarrow> ('i, 'r) endpoint_lib \<Rightarrow> retrieve_env \<Rightarrow> uuid \<Rightarrow> resource_offer \<Rightarrow> artifact_ref \<Rightarrow> storage_class \<times> u8
     \<Rightarrow> ('sk controller, artifact_ref \<times> string) handler" where
  "retrieve_from K E env node_id offer artifact sink =
     (let session_id = artifact_transfer_session_id K node_id (ar_digest artifact) Get in
      bind_h (issue_retrieval_lease K env 0 offer artifact) (\<lambda>lease.
      bind_h (on_store K (begin_resumable_put (retrieval_spec K session_id artifact sink lease) (rt_begin_now env 0))) (\<lambda>progress.
      bind_h (fetch_chunks K env offer artifact sink session_id lease 0 (st_missing_chunks progress)) (\<lambda>lease_ids.
      bind_h (on_store K (commit_resumable_put (kl_cas K) (simple_text K session_id) (rt_commit_now env))) (\<lambda>local_ref.
      bind_h (require (ar_digest local_ref = ar_digest artifact) 502 ''retrieved artifact failed content-address verification'') (\<lambda>_.
      bind_h (map_error (\<lambda>e. Reject 502 (''replica possession proof failed: '' @ e) []) (probe_replica K E (rt_probe env) offer artifact)) (\<lambda>receipt.
      bind_h (modify (\<lambda>s. s\<lparr>kc_replica_evidence := fmupd (ar_digest artifact, node_id) receipt (kc_replica_evidence s)\<rparr>)) (\<lambda>_.
      with_state (\<lambda>s.
      bind_h (from_result (kl_store_text K) 500 (get (kl_cas K) (ar_digest local_ref) (kc_artifact_store s))) (\<lambda>payload.
      bind_h (record_event K (rt_recorded_now env) ''artifact.retrieved'' (ar_digest local_ref)
         (retrieved_payload K node_id local_ref lease_ids session_id (length (st_received_chunks progress)) receipt)) (\<lambda>_.
      answer (local_ref, payload))))))))))))"

definition retrieve_artifact ::
  "'sk control_lib \<Rightarrow> ('i, 'r) endpoint_lib \<Rightarrow> retrieve_env \<Rightarrow> string \<Rightarrow> uuid \<Rightarrow> ('sk controller, artifact_ref \<times> string) handler" where
  "retrieve_artifact K E env digest node_id =
     with_state (\<lambda>s.
     bind_h (require (\<not> kill_latch_is_file s) 423 ''owner kill latch is active'') (\<lambda>_.
     bind_h (from_option (fmlookup (kc_artifact_replicas s) (digest, node_id)) 404
        ''no verified replica is recorded for that node'') (\<lambda>artifact.
     bind_h (remote_offer K E (rt_now env) (rt_endpoint_now env) node_id) (\<lambda>(offer, _).
     bind_h (from_result id 409 (retrieval_sink_contract artifact
        (case head (kl_cas K) (ar_digest artifact) (kc_artifact_store s) of Inl _ \<Rightarrow> None | Inr l \<Rightarrow> Some l))) (\<lambda>sink.
     retrieve_from K E env node_id offer artifact sink)))))"

section \<open>Which replicas a cycle probes\<close>

text \<open>A recorded replica: its key in the registry and the artifact.\<close>

type_synonym recorded_replica = "(string \<times> uuid) \<times> artifact_ref"

definition MAX_AUTONOMOUS_REPAIRS_PER_CYCLE :: nat where
  "MAX_AUTONOMOUS_REPAIRS_PER_CYCLE = 4"

definition MAX_REPLICA_PROBES_PER_CYCLE :: nat where
  "MAX_REPLICA_PROBES_PER_CYCLE = 4"

definition MAX_REPLICA_VERIFICATION_BYTES_PER_CYCLE :: u64 where
  "MAX_REPLICA_VERIFICATION_BYTES_PER_CYCLE = 128 * 1024 * 1024"

text \<open>The \<open>BTreeSet\<close> of selected keys is a list without repetition; the loop reads the candidates cyclically.\<close>

fun select_loop :: "recorded_replica list \<Rightarrow> u64 \<Rightarrow> (string \<times> uuid) list \<Rightarrow> (string \<times> uuid) list" where
  "select_loop [] bytes selected = selected"
| "select_loop ((key, artifact) # rest) bytes selected =
     (if length selected \<ge> MAX_REPLICA_PROBES_PER_CYCLE then selected
      else case checked_add bytes (ar_size_bytes artifact) of
         None \<Rightarrow> select_loop rest bytes selected
       | Some next_bytes \<Rightarrow>
           if next_bytes > MAX_REPLICA_VERIFICATION_BYTES_PER_CYCLE \<and> selected \<noteq> []
           then select_loop rest bytes selected
           else select_loop rest next_bytes (List.insert key selected))"

definition select_replica_probes :: "recorded_replica list \<Rightarrow> u64 \<Rightarrow> (string \<times> uuid) list" where
  "select_replica_probes candidates cursor =
     (if candidates = [] then []
      else select_loop (rotate (unat cursor mod length candidates) candidates) 0 [])"

section \<open>The reconciliation cycle\<close>

definition has_fresh_receipt :: "datetime \<Rightarrow> (string \<times> uuid, artifact_replica_receipt) fmap \<Rightarrow> string \<times> uuid \<Rightarrow> bool" where
  "has_fresh_receipt now evidence key =
     (case fmlookup evidence key of None \<Rightarrow> False | Some receipt \<Rightarrow> replica_receipt_is_valid_at receipt now)"

definition protected_replicas :: "'sk controller \<Rightarrow> recorded_replica list" where
  "protected_replicas s =
     filter (\<lambda>(_, artifact). ar_storage_class artifact = Protected)
       (List.map_filter (\<lambda>key. map_option (Pair key) (fmlookup (kc_artifact_replicas s) key))
          (sorted_list_of_fset (fmdom (kc_artifact_replicas s))))"

text \<open>The \<open>BTreeMap\<close> from a digest to the artifact of its first entry and to the nodes, in order.\<close>

definition by_digest :: "recorded_replica list \<Rightarrow> (string \<times> artifact_ref \<times> uuid list) list" where
  "by_digest replicas =
     map (\<lambda>digest. let own = filter (\<lambda>((d, _), _). d = digest) replicas
          in (digest, snd (hd own), map (\<lambda>((_, node_id), _). node_id) own))
       (remdups (map (\<lambda>((digest, _), _). digest) replicas))"

definition current_mesh_offers :: "'sk control_lib \<Rightarrow> datetime \<Rightarrow> 'sk controller \<Rightarrow> resource_offer list" where
  "current_mesh_offers K now s =
     filter (\<lambda>offer. ro_expires_at offer > now \<and> ro_mesh_endpoint offer \<noteq> None)
       (values_in_order (kc_offers s) (kl_offer_order K (kc_offers s)))"

text \<open>One cycle: its clock reading, and for each replica or repair the readings and answers it meets.\<close>

record cycle_env =
  cy_now :: datetime
  cy_probe :: "string \<times> uuid \<Rightarrow> probe_env"
  cy_endpoint_now :: "string \<times> uuid \<Rightarrow> datetime"
  cy_repair :: "string \<times> uuid \<Rightarrow> stage_env"
  cy_event_now :: "string \<times> uuid \<Rightarrow> datetime"
  cy_blocked_now :: "string \<Rightarrow> datetime"

text \<open>A \<open>match\<close> on the result of an action, and an event of the cycle, whose error is a text.\<close>

definition attempt :: "('s, 'e, 'a) action \<Rightarrow> ('s, 'f, 'e + 'a) action" where
  "attempt m s = (case m s of (r, s') \<Rightarrow> (Inr r, s'))"

definition cycle_event :: "'sk control_lib \<Rightarrow> datetime \<Rightarrow> string \<Rightarrow> string \<Rightarrow> (string \<times> json) list \<Rightarrow> ('sk controller, string, unit) action" where
  "cycle_event K now event_type digest entries =
     map_error reject_text (record_event K now event_type digest (JObject entries))"

definition invalidate_replica ::
  "'sk control_lib \<Rightarrow> datetime \<Rightarrow> string \<Rightarrow> uuid \<Rightarrow> string \<Rightarrow> ('sk controller, string, unit) action" where
  "invalidate_replica K now digest node_id reason =
     bind_h (modify (\<lambda>s. s\<lparr>kc_replica_evidence := fmdrop (digest, node_id) (kc_replica_evidence s)\<rparr>)) (\<lambda>_.
     cycle_event K now ''artifact.replica.invalidated'' digest
       [(''digest'', JString digest), (''node_id'', JString (kl_uuid_text K node_id)), (''reason'', JString reason)])"

definition probe_and_note ::
  "'sk control_lib \<Rightarrow> ('i, 'r) endpoint_lib \<Rightarrow> cycle_env \<Rightarrow> string \<Rightarrow> artifact_ref \<Rightarrow> uuid \<Rightarrow> resource_offer \<Rightarrow> uuid list
     \<Rightarrow> ('sk controller, string, uuid list) action" where
  "probe_and_note K E env digest artifact node_id offer verified =
     bind_h (attempt (probe_replica K E (cy_probe env (digest, node_id)) offer artifact)) (\<lambda>result.
     case result of
        Inl e \<Rightarrow> bind_h (invalidate_replica K (cy_event_now env (digest, node_id)) digest node_id e) (\<lambda>_. answer verified)
      | Inr receipt \<Rightarrow>
          bind_h (modify (\<lambda>s. s\<lparr>kc_replica_evidence := fmupd (digest, node_id) receipt (kc_replica_evidence s)\<rparr>)) (\<lambda>_.
          bind_h (cycle_event K (cy_event_now env (digest, node_id)) ''artifact.replica.verified'' digest
            [(''artifact'', vc_to (kl_artifact K) artifact), (''node_id'', JString (kl_uuid_text K node_id)),
             (''replica_receipt'', vc_to (kl_replica_receipt K) receipt)]) (\<lambda>_.
          answer (List.insert node_id verified))))"

fun probe_nodes ::
  "'sk control_lib \<Rightarrow> ('i, 'r) endpoint_lib \<Rightarrow> cycle_env \<Rightarrow> resource_offer list \<Rightarrow> (string \<times> uuid) list \<Rightarrow> string \<Rightarrow> artifact_ref
     \<Rightarrow> uuid list \<Rightarrow> uuid list \<Rightarrow> ('sk controller, string, uuid list) action" where
  "probe_nodes K E env offers selected digest artifact [] verified = answer verified"
| "probe_nodes K E env offers selected digest artifact (node_id # rest) verified =
     bind_h (if (digest, node_id) \<notin> set selected then answer verified
        else case find (\<lambda>offer. ro_node_id offer = node_id) offers of
           None \<Rightarrow> answer verified
         | Some offer \<Rightarrow> probe_and_note K E env digest artifact node_id offer verified) (\<lambda>verified.
     probe_nodes K E env offers selected digest artifact rest verified)"

text \<open>One attempt to place a further replica; \<open>None\<close> when it was not placed.\<close>

definition repair_on ::
  "'sk control_lib \<Rightarrow> ('i, 'r) endpoint_lib \<Rightarrow> cycle_env \<Rightarrow> string \<Rightarrow> artifact_ref \<Rightarrow> resource_offer
     \<Rightarrow> ('sk controller, string, uuid option) action" where
  "repair_on K E env digest source offer =
     (let key = (digest, ro_node_id offer) in
      case ro_mesh_endpoint offer of None \<Rightarrow> answer None
      | Some endpoint_record \<Rightarrow>
      case endpoint_addr_from_record E (cy_endpoint_now env key) endpoint_record of Inl _ \<Rightarrow> answer None
      | Inr _ \<Rightarrow>
      bind_h (attempt (replicate_to_offer K (cy_repair env key) offer source Protected)) (\<lambda>result.
      case result of
         Inl e \<Rightarrow> bind_h (cycle_event K (cy_event_now env key) ''artifact.repair.attempt_failed'' digest
             [(''node_id'', JString (kl_uuid_text K (ro_node_id offer))), (''reason'', JString e)]) (\<lambda>_. answer None)
       | Inr outcome \<Rightarrow>
           bind_h (modify (note_replica key (rp_artifact outcome) (rp_receipt outcome))) (\<lambda>_.
           bind_h (cycle_event K (cy_event_now env key) ''artifact.repaired'' digest
             (insort_key fst (''autonomous_threshold'', JString ''fewer_than_two_fresh_independent_receipts'')
                (replica_payload K (ro_node_id offer) outcome))) (\<lambda>_.
           answer (Some (ro_node_id offer))))))"

fun repair_nodes ::
  "'sk control_lib \<Rightarrow> ('i, 'r) endpoint_lib \<Rightarrow> cycle_env \<Rightarrow> string \<Rightarrow> artifact_ref \<Rightarrow> resource_offer list \<Rightarrow> uuid list \<Rightarrow> nat
     \<Rightarrow> ('sk controller, string, nat) action" where
  "repair_nodes K E env digest source [] verified repairs = answer repairs"
| "repair_nodes K E env digest source (offer # rest) verified repairs =
     (if length verified \<ge> 2 \<or> repairs \<ge> MAX_AUTONOMOUS_REPAIRS_PER_CYCLE then answer repairs
      else bind_h (repair_on K E env digest source offer) (\<lambda>placed.
        case placed of
           None \<Rightarrow> repair_nodes K E env digest source rest verified repairs
         | Some node_id \<Rightarrow> repair_nodes K E env digest source rest (List.insert node_id verified) (Suc repairs)))"

definition reconcile_digest ::
  "'sk control_lib \<Rightarrow> ('i, 'r) endpoint_lib \<Rightarrow> cycle_env \<Rightarrow> resource_offer list \<Rightarrow> (string \<times> uuid, artifact_replica_receipt) fmap
     \<Rightarrow> (string \<times> uuid) list \<Rightarrow> string \<times> artifact_ref \<times> uuid list \<Rightarrow> nat \<Rightarrow> ('sk controller, string, nat) action" where
  "reconcile_digest K E env offers evidence selected entry repairs =
     (case entry of (digest, artifact, nodes) \<Rightarrow>
      let verified = filter (\<lambda>node_id. has_fresh_receipt (cy_now env) evidence (digest, node_id)) nodes;
          verification_complete = list_all (\<lambda>node_id. node_id \<in> set verified \<or> (digest, node_id) \<in> set selected) nodes
      in bind_h (probe_nodes K E env offers selected digest artifact nodes verified) (\<lambda>verified.
         if \<not> verification_complete \<or> length verified \<ge> 2 \<or> repairs \<ge> MAX_AUTONOMOUS_REPAIRS_PER_CYCLE
         then answer repairs
         else with_state (\<lambda>s.
           case head (kl_cas K) digest (kc_artifact_store s) of
              Inl e \<Rightarrow> bind_h (cycle_event K (cy_blocked_now env digest) ''artifact.repair.blocked'' digest
                  [(''reason'', JString (''local source unavailable: '' @ kl_store_text K e))]) (\<lambda>_. answer repairs)
            | Inr source \<Rightarrow>
                repair_nodes K E env digest source (filter (\<lambda>offer. ro_node_id offer \<notin> set nodes) offers) verified repairs)))"

fun reconcile_all ::
  "'sk control_lib \<Rightarrow> ('i, 'r) endpoint_lib \<Rightarrow> cycle_env \<Rightarrow> resource_offer list \<Rightarrow> (string \<times> uuid, artifact_replica_receipt) fmap
     \<Rightarrow> (string \<times> uuid) list \<Rightarrow> (string \<times> artifact_ref \<times> uuid list) list \<Rightarrow> nat \<Rightarrow> ('sk controller, string, nat) action" where
  "reconcile_all K E env offers evidence selected [] repairs = answer repairs"
| "reconcile_all K E env offers evidence selected (entry # rest) repairs =
     bind_h (reconcile_digest K E env offers evidence selected entry repairs) (\<lambda>repairs.
     reconcile_all K E env offers evidence selected rest repairs)"

text \<open>\<open>cursor\<close> is the value \<open>fetch_add\<close> read; \<open>next_cursor\<close> is what it leaves behind.\<close>

definition stale_replicas :: "datetime \<Rightarrow> 'sk controller \<Rightarrow> recorded_replica list" where
  "stale_replicas now s =
     filter (\<lambda>(key, _). \<not> has_fresh_receipt now (kc_replica_evidence s) key) (protected_replicas s)"

definition next_cursor :: "'sk controller \<Rightarrow> u64 \<Rightarrow> u64" where
  "next_cursor s cursor = (if kill_latch_is_file s then cursor else cursor + of_nat MAX_REPLICA_PROBES_PER_CYCLE)"

definition reconcile_protected_artifacts ::
  "'sk control_lib \<Rightarrow> ('i, 'r) endpoint_lib \<Rightarrow> cycle_env \<Rightarrow> u64 \<Rightarrow> ('sk controller, string, unit) action" where
  "reconcile_protected_artifacts K E env cursor =
     with_state (\<lambda>s.
     if kill_latch_is_file s then answer ()
     else bind_h (reconcile_all K E env (current_mesh_offers K (cy_now env) s) (kc_replica_evidence s)
            (select_replica_probes (stale_replicas (cy_now env) s) cursor) (by_digest (protected_replicas s)) 0) (\<lambda>_.
          answer ()))"

end
