(* ===== verification/Rampage_Recovery.thy ===== *)
theory Rampage_Recovery
  imports Rampage_Lifecycle Rampage_Replay Rampage_Artifacts
begin

text \<open>
  What a restart of the controller daemon recovers: every handler changes the maps of the daemon exactly as
  the replay of the events it records does, so the restored maps are those the daemon had.
\<close>

section \<open>The libraries\<close>

text \<open>What the recovery relies on. Identities, jobs, shard sets, leases and artifact references have no
  fractions; a receipt may carry them in its metrics. The law of the receipts is about those that were read from
  JSON: a metric that is not a number would be written as null and not be read again, but no JSON text has one.\<close>

definition codec_ok :: "'a value_codec \<Rightarrow> bool" where
  "codec_ok c \<longleftrightarrow> (\<forall>x. json_value (vc_to c x) \<and> vc_from c (vc_to c x) = Some x)"

definition codec_exact :: "'a value_codec \<Rightarrow> bool" where
  "codec_exact c \<longleftrightarrow> codec_ok c \<and> (\<forall>x. float_free (vc_to c x))"

definition receipt_codec_ok :: "execution_receipt value_codec \<Rightarrow> bool" where
  "receipt_codec_ok c \<longleftrightarrow> (\<forall>v r. vc_from c v = Some r \<longrightarrow> json_value (vc_to c r) \<and>
     (\<forall>w. json_similar (vc_to c r) w \<longrightarrow>
        (\<exists>r'. vc_from c w = Some r' \<and> er_receipt_id r' = er_receipt_id r \<and> er_job_id r' = er_job_id r)))"

definition recovery_lib :: "'sk control_lib \<Rightarrow> bool" where
  "recovery_lib K \<longleftrightarrow> time_format_ok (kl_ledger K) \<and> json_reads_back (kl_ledger K)
     \<and> (\<forall>t. ll_parse_rfc3339 (kl_ledger K) (kl_time_text K t) = Some t)
     \<and> (\<forall>u. kl_parse_uuid K (kl_uuid_text K u) = Some u)
     \<and> codec_exact (kl_identity K) \<and> codec_exact (kl_lease K) \<and> codec_exact (kl_artifact K)
     \<and> codec_exact (kl_job K) \<and> codec_exact (kl_shard_set K) \<and> receipt_codec_ok (kl_receipt K)
     \<and> (\<forall>x. json_value (vc_to (kl_claim K) x)) \<and> (\<forall>x. json_value (vc_to (kl_score K) x))
     \<and> (\<forall>x. json_value (vc_to (kl_replica_receipt K) x))"

lemma recovery_libD:
  assumes "recovery_lib K"
  shows "time_format_ok (kl_ledger K)" "json_reads_back (kl_ledger K)"
    "ll_parse_rfc3339 (kl_ledger K) (kl_time_text K t) = Some t" "kl_parse_uuid K (kl_uuid_text K u) = Some u"
    "vc_from (kl_identity K) (vc_to (kl_identity K) i) = Some i" "json_value (vc_to (kl_identity K) i)"
    "float_free (vc_to (kl_identity K) i)"
    "vc_from (kl_lease K) (vc_to (kl_lease K) l) = Some l" "json_value (vc_to (kl_lease K) l)"
    "float_free (vc_to (kl_lease K) l)"
    "vc_from (kl_artifact K) (vc_to (kl_artifact K) a) = Some a" "json_value (vc_to (kl_artifact K) a)"
    "float_free (vc_to (kl_artifact K) a)"
    "vc_from (kl_job K) (vc_to (kl_job K) j) = Some j" "json_value (vc_to (kl_job K) j)" "float_free (vc_to (kl_job K) j)"
    "vc_from (kl_shard_set K) (vc_to (kl_shard_set K) ss) = Some ss" "json_value (vc_to (kl_shard_set K) ss)"
    "float_free (vc_to (kl_shard_set K) ss)"
    "json_value (vc_to (kl_claim K) c)" "json_value (vc_to (kl_score K) sc)"
    "json_value (vc_to (kl_replica_receipt K) rc)"
    "vc_from (kl_receipt K) v = Some r \<Longrightarrow> json_value (vc_to (kl_receipt K) r)"
    "vc_from (kl_receipt K) v = Some r \<Longrightarrow> json_similar (vc_to (kl_receipt K) r) w \<Longrightarrow>
       \<exists>r'. vc_from (kl_receipt K) w = Some r' \<and> er_receipt_id r' = er_receipt_id r \<and> er_job_id r' = er_job_id r"
  using assms by (simp_all add: recovery_lib_def codec_exact_def codec_ok_def) (auto simp: receipt_codec_ok_def)

section \<open>Agreement of the maps with a replay\<close>

definition live_assignments :: "replay_env \<Rightarrow> (uuid, assignment) fmap \<Rightarrow> (uuid, assignment) fmap" where
  "live_assignments env m = fmfilter (\<lambda>k. case fmlookup m k of
     Some a \<Rightarrow> lease_is_live env (as_lease a) | None \<Rightarrow> False) m"

lemma live_lookup:
  "fmlookup (live_assignments env m) k =
     Option.bind (fmlookup m k) (\<lambda>a. if lease_is_live env (as_lease a) then Some a else None)"
  by (auto simp: live_assignments_def split: option.splits)

lemma live_updates:
  "live_assignments env (fmdrop k m) = fmdrop k (live_assignments env m)"
  "live_assignments env (drop_assignments_of n m) = drop_assignments_of n (live_assignments env m)"
  "k |\<notin>| fmdom m \<Longrightarrow> live_assignments env (fmupd k a m) =
     (if lease_is_live env (as_lease a) then fmupd k a (live_assignments env m) else live_assignments env m)"
proof -
  show "live_assignments env (fmdrop k m) = fmdrop k (live_assignments env m)"
    by (rule fmap_ext) (auto simp: live_lookup)
  show "live_assignments env (drop_assignments_of n m) = drop_assignments_of n (live_assignments env m)"
    by (rule fmap_ext) (auto simp: live_lookup drop_assignments_of_def split: option.splits bind_splits)
  show "k |\<notin>| fmdom m \<Longrightarrow> live_assignments env (fmupd k a m) =
     (if lease_is_live env (as_lease a) then fmupd k a (live_assignments env m) else live_assignments env m)"
    by (rule fmap_ext) (auto simp: live_lookup fmdom_notD)
qed

definition agrees :: "replay_env \<Rightarrow> 'sk controller \<Rightarrow> restored \<Rightarrow> bool" where
  "agrees env s acc \<longleftrightarrow> ra_nodes acc = kc_nodes s \<and> ra_shard_sets acc = kc_shard_sets s
     \<and> ra_completed_receipts acc = kc_completed_receipts s \<and> ra_artifact_replicas acc = kc_artifact_replicas s
     \<and> ra_assignments acc = live_assignments env (kc_assignments s)
     \<and> (\<forall>i r. fmlookup (kc_invites s) i = Some r \<longrightarrow> rn_now env < iv_expires_at r \<longrightarrow> fmlookup (ra_invites acc) i = Some r)"

text \<open>\<open>jobs\<close> are jobs whose proposal is recorded.\<close>

definition recovers :: "'sk control_lib \<Rightarrow> job_spec set \<Rightarrow> 'sk controller \<Rightarrow> bool" where
  "recovers K jobs s \<longleftrightarrow> log_ok (kl_ledger K) (kc_ledger s) \<and>
     (\<forall>env. \<exists>acc. authority K env (kc_ledger s) = Inr acc \<and> agrees env s acc
        \<and> (\<forall>job \<in> jobs. fmlookup (ra_proposed_jobs acc) (js_job_id job) = Some job))"

lemma recovers_less: "recovers K jobs s \<Longrightarrow> recovers K {} s"
  by (auto simp: recovers_def)

text \<open>An event that is not replayed changes nothing.\<close>

lemma agrees_same:
  "agrees env s acc \<Longrightarrow> kc_nodes s' = kc_nodes s \<Longrightarrow> kc_shard_sets s' = kc_shard_sets s
     \<Longrightarrow> kc_completed_receipts s' = kc_completed_receipts s \<Longrightarrow> kc_artifact_replicas s' = kc_artifact_replicas s
     \<Longrightarrow> kc_assignments s' = kc_assignments s
     \<Longrightarrow> (\<And>i r. fmlookup (kc_invites s') i = Some r \<Longrightarrow> fmlookup (kc_invites s) i = Some r) \<Longrightarrow> agrees env s' acc"
  by (auto simp: agrees_def)

lemma recovers_same:
  assumes "recovers K jobs s" "kc_ledger s' = kc_ledger s" "kc_nodes s' = kc_nodes s" "kc_shard_sets s' = kc_shard_sets s"
    "kc_completed_receipts s' = kc_completed_receipts s" "kc_artifact_replicas s' = kc_artifact_replicas s"
    "kc_assignments s' = kc_assignments s" "\<And>i r. fmlookup (kc_invites s') i = Some r \<Longrightarrow> fmlookup (kc_invites s) i = Some r"
  shows "recovers K jobs s'"
  using assms(1) agrees_same [OF _ assms(3-8)] unfolding recovers_def assms(2) by metis

lemma recovers_irrelevant:
  assumes "recovers K jobs s" "appended K now t subj v (kc_ledger s) st'" "t \<notin> set restore_event_types"
  shows "recovers K jobs (s\<lparr>kc_ledger := st'\<rparr>)"
proof -
  have "log_ok (kl_ledger K) (kc_ledger s)" using assms(1) by (simp add: recovers_def)
  note st' = append_irrelevant [OF assms(2) this assms(3)]
  have "agrees env (s\<lparr>kc_ledger := st'\<rparr>) = agrees env s" for env by (simp add: agrees_def fun_eq_iff)
  then show ?thesis using assms(1) st' by (simp add: recovers_def)
qed

text \<open>An event that is replayed carries the agreement to the state its handler makes.\<close>

lemma recovers_relevant:
  assumes K: "recovery_lib K" and s: "recovers K jobs s" and a: "appended K now t subj v (kc_ledger s) st'"
    and t: "t \<in> set restore_event_types" and v: "json_value v"
    and step: "\<And>env acc e. agrees env s acc \<Longrightarrow> (\<And>job. job \<in> jobs \<Longrightarrow> fmlookup (ra_proposed_jobs acc) (js_job_id job) = Some job)
        \<Longrightarrow> le_event_type e = t \<Longrightarrow> le_subject_id e = subj \<Longrightarrow> json_similar v (le_payload e)
        \<Longrightarrow> \<exists>acc'. replay_event K env e acc = Inr acc' \<and> agrees env s' acc'
             \<and> (\<forall>job \<in> jobs'. fmlookup (ra_proposed_jobs acc') (js_job_id job) = Some job)"
    and s': "kc_ledger s' = st'"
  shows "recovers K jobs' s'"
proof -
  have "log_ok (kl_ledger K) (kc_ledger s)" using s by (simp add: recovers_def)
  then obtain e where l: "log_ok (kl_ledger K) st'"
      and e: "\<And>env. authority K env st' = and_then (authority K env (kc_ledger s)) (replay_event K env e)"
        "le_event_type e = t" "le_subject_id e = subj" "json_similar v (le_payload e)"
    using append_relevant [OF a _ t recovery_libD(1,2) [OF K] v] by blast
  have "\<exists>acc'. authority K env st' = Inr acc' \<and> agrees env s' acc'
      \<and> (\<forall>job \<in> jobs'. fmlookup (ra_proposed_jobs acc') (js_job_id job) = Some job)" for env
  proof -
    obtain acc where "authority K env (kc_ledger s) = Inr acc" "agrees env s acc"
        "\<forall>job \<in> jobs. fmlookup (ra_proposed_jobs acc) (js_job_id job) = Some job"
      using s by (auto simp: recovers_def)
    with step [OF this(2) _ e(2-4)] show ?thesis by (simp add: e(1) and_then_def)
  qed
  then show ?thesis using l by (simp add: recovers_def s')
qed

section \<open>The events of the members\<close>

lemma replay_event_types:
  "le_event_type e = ''node.enrolled'' \<Longrightarrow> replay_event K env e acc = replay_enrolled K (le_payload e) acc"
  "le_event_type e = ''node.revoked'' \<Longrightarrow> replay_event K env e acc = Inr (replay_revoked K (le_subject_id e) acc)"
  "le_event_type e = ''enrollment.invite.created'' \<Longrightarrow>
     replay_event K env e acc = replay_invite_created K env (le_subject_id e) (le_payload e) acc"
  "le_event_type e = ''enrollment.invite.consumed'' \<Longrightarrow>
     replay_event K env e acc = Inr (replay_invite_consumed K (le_subject_id e) acc)"
  "le_event_type e = ''job.proposed'' \<Longrightarrow> replay_event K env e acc = replay_proposed K (le_payload e) acc"
  "le_event_type e = ''lease.issued'' \<Longrightarrow> replay_event K env e acc = replay_issued K env (le_payload e) acc"
  "le_event_type e = ''shard_set.admitted'' \<Longrightarrow> replay_event K env e acc = replay_admitted K env (le_payload e) acc"
  "le_event_type e = ''job.claimed'' \<Longrightarrow> replay_event K env e acc = Inr (replay_claimed K (le_subject_id e) acc)"
  "le_event_type e = ''job.receipted'' \<Longrightarrow>
     replay_event K env e acc = Inr (replay_receipted K (le_subject_id e) (le_payload e) acc)"
  "le_event_type e \<in> set replica_event_types \<Longrightarrow> replay_event K env e acc = replay_replica K env (le_payload e) acc"
  by (auto simp: replay_event_def Let_def replica_event_types_def)

lemma restore_types:
  "''node.enrolled'' \<in> set restore_event_types" "''node.revoked'' \<in> set restore_event_types"
  "''enrollment.invite.created'' \<in> set restore_event_types" "''enrollment.invite.consumed'' \<in> set restore_event_types"
  "''job.proposed'' \<in> set restore_event_types" "''lease.issued'' \<in> set restore_event_types"
  "''shard_set.admitted'' \<in> set restore_event_types" "''job.claimed'' \<in> set restore_event_types"
  "''job.receipted'' \<in> set restore_event_types" "''artifact.input.staged'' \<in> set restore_event_types"
  "''artifact.output.recorded'' \<in> set restore_event_types"
  by (simp_all add: restore_event_types_def)

lemma other_types:
  "''mesh.request.denied'' \<notin> set restore_event_types" "''network.benchmark.recorded'' \<notin> set restore_event_types"
  "''resource.offer.registered'' \<notin> set restore_event_types" "''fabric.owner_stop'' \<notin> set restore_event_types"
  "''fabric.owner_resume'' \<notin> set restore_event_types" "''storage.lease.issued'' \<notin> set restore_event_types"
  "''job.blocked'' \<notin> set restore_event_types" "''diagnostic.autonomy.applied'' \<notin> set restore_event_types"
  "''diagnostic.self_scan.completed'' \<notin> set restore_event_types" "''artifact.stored.local'' \<notin> set restore_event_types"
  "''artifact.retrieved'' \<notin> set restore_event_types"
  by (simp_all add: restore_event_types_def)

text \<open>A handler is durable when the maps are recoverable after an answer, and after a rejection that does not
  report a failure of the ledger or the file system.\<close>

definition durable :: "'sk control_lib \<Rightarrow> job_spec set \<Rightarrow> ('sk controller, 'a) handler \<Rightarrow> 'sk controller \<Rightarrow> bool" where
  "durable K jobs m s \<longleftrightarrow> wp m (\<lambda>_. recovers K jobs) (\<lambda>e s. reject_status e \<noteq> 500 \<longrightarrow> recovers K jobs s) s"

lemma durable_bind:
  "durable K jobs m s \<Longrightarrow> (\<And>x s'. recovers K jobs s' \<Longrightarrow> durable K jobs (f x) s') \<Longrightarrow> durable K jobs (bind_h m f) s"
  unfolding durable_def wp_bind by (rule wp_mono)

lemma durable_atoms:
  "recovers K jobs s \<Longrightarrow> durable K jobs (answer x) s"
  "recovers K jobs s \<Longrightarrow> durable K jobs (from_option v status text) s"
  by (simp_all add: durable_def wp_simps split: option.split)

lemma durable_create_invite:
  assumes K: "recovery_lib K" and s: "recovers K {} s"
  shows "durable K {} (create_invite K T i secret) s"
proof -
  let ?r = "\<lparr>iv_secret_hash = hash_secret K secret, iv_expires_at = T 0 + seconds 600\<rparr>"
  let ?v = "JObject [(''expires_at'', JString (kl_time_text K (T 0 + seconds 600))), (''secret_hash'', JString (hash_secret K secret))]"
  have "recovers K {} (s\<lparr>kc_invites := fmupd i ?r (kc_invites s), kc_ledger := st'\<rparr>)"
    if "appended K (T 1) ''enrollment.invite.created'' (kl_uuid_text K i) ?v (kc_ledger s) st'" for st'
  proof (rule recovers_relevant [OF K s that restore_types(3)])
    fix env acc and e :: ledger_event
    assume acc: "agrees env s acc" and e: "le_event_type e = ''enrollment.invite.created''" "le_subject_id e = kl_uuid_text K i"
      "json_similar ?v (le_payload e)"
    have "json_str ''secret_hash'' (le_payload e) = Some (hash_secret K secret)"
      "json_str ''expires_at'' (le_payload e) = Some (kl_time_text K (T 0 + seconds 600))"
      by (rule similar_str [OF e(3)]; simp)+
    then show "\<exists>acc'. replay_event K env e acc = Inr acc' \<and>
        agrees env (s\<lparr>kc_invites := fmupd i ?r (kc_invites s), kc_ledger := st'\<rparr>) acc' \<and>
        (\<forall>job \<in> {}. fmlookup (ra_proposed_jobs acc') (js_job_id job) = Some job)"
      using acc by (auto simp: replay_event_types e(1,2) replay_invite_created_def recovery_libD [OF K] agrees_def)
  qed (simp_all add: byte_def)
  then show ?thesis
    unfolding durable_def create_invite_def store_invite_def Let_def using s by (auto simp: wp_simps)
qed

lemma durable_enroll_node:
  assumes K: "recovery_lib K" and s: "recovers K {} s"
  shows "durable K {} (enroll_node K T q) s"
proof -
  let ?i = "en_invite_id q" and ?d = "en_identity q"
  let ?v = "JObject [(''node_id'', JString (kl_uuid_text K (ni_node_id ?d)))]"
  let ?s0 = "s\<lparr>kc_invites := fmdrop ?i (kc_invites s)\<rparr>"
  have s0: "recovers K {} ?s0" by (rule recovers_same [OF s]) (auto split: if_splits)
  have s1: "recovers K {} (?s0\<lparr>kc_ledger := st'\<rparr>)"
    if "appended K (T 1) ''enrollment.invite.consumed'' (kl_uuid_text K ?i) ?v (kc_ledger s) st'" for st'
  proof (rule recovers_relevant [OF K s that restore_types(4)])
    fix env acc and e :: ledger_event
    assume "agrees env s acc" "le_event_type e = ''enrollment.invite.consumed''" "le_subject_id e = kl_uuid_text K ?i"
    then show "\<exists>acc'. replay_event K env e acc = Inr acc' \<and> agrees env (?s0\<lparr>kc_ledger := st'\<rparr>) acc' \<and>
        (\<forall>job \<in> {}. fmlookup (ra_proposed_jobs acc') (js_job_id job) = Some job)"
      by (auto simp: replay_event_types replay_invite_consumed_def recovery_libD [OF K] agrees_def)
  qed simp_all
  have s2: "recovers K {} (s'\<lparr>kc_nodes := fmupd (ni_node_id ?d) ?d (kc_nodes s'), kc_ledger := st''\<rparr>)"
    if "recovers K {} s'"
      "appended K (T 2) ''node.enrolled'' (kl_uuid_text K (ni_node_id ?d)) (vc_to (kl_identity K) ?d) (kc_ledger s') st''" for s' st''
  proof (rule recovers_relevant [OF K that(1,2) restore_types(1)])
    fix env acc and e :: ledger_event
    assume acc: "agrees env s' acc" and e: "le_event_type e = ''node.enrolled''" "json_similar (vc_to (kl_identity K) ?d) (le_payload e)"
    have "le_payload e = vc_to (kl_identity K) ?d" using similar_float_free [OF e(2)] recovery_libD(7) [OF K] by simp
    then show "\<exists>acc'. replay_event K env e acc = Inr acc' \<and>
        agrees env (s'\<lparr>kc_nodes := fmupd (ni_node_id ?d) ?d (kc_nodes s'), kc_ledger := st''\<rparr>) acc' \<and>
        (\<forall>job \<in> {}. fmlookup (ra_proposed_jobs acc') (js_job_id job) = Some job)"
      using acc by (auto simp: replay_event_types e(1) replay_enrolled_def parse_payload_def recovery_libD [OF K] agrees_def)
  qed (simp_all add: recovery_libD [OF K])
  have s12: "recovers K {} (?s0\<lparr>kc_nodes := fmupd (ni_node_id ?d) ?d (kc_nodes s), kc_ledger := st''\<rparr>)"
    if "appended K (T 1) ''enrollment.invite.consumed'' (kl_uuid_text K ?i) ?v (kc_ledger s) st'"
      "appended K (T 2) ''node.enrolled'' (kl_uuid_text K (ni_node_id ?d)) (vc_to (kl_identity K) ?d) st' st''" for st' st''
    using s2 [OF s1 [OF that(1)]] that(2) by simp
  have take: "take_invite ?i s = (case fmlookup (kc_invites s) ?i of
      None \<Rightarrow> (Inl (Reject 401 ''unknown or already consumed invite'' []), ?s0) | Some r \<Rightarrow> (Inr r, ?s0))"
    by (simp add: take_invite_def from_option_def answer_def refuse_def split: option.split)
  have "wp (take_invite ?i) Q E s = (case fmlookup (kc_invites s) ?i of
      None \<Rightarrow> E (Reject 401 ''unknown or already consumed invite'' []) ?s0 | Some r \<Rightarrow> Q r ?s0)" for Q E
    by (simp add: wp_def take split: option.split)
  then show ?thesis
    unfolding durable_def enroll_node_def store_identity_def Let_def
    using s s0 by (auto simp: wp_simps simp del: One_nat_def split: sum.split option.split intro: s12)
qed

text \<open>Handlers that record nothing the restart replays.\<close>

lemma keeps_recovers_record [handler_keeps]:
  "t \<notin> set restore_event_types \<Longrightarrow> keeps_prop (recovers K jobs) (record_event K now t subj v)"
  by (intro keeps_record_event) (rule recovers_irrelevant)

lemma durable_keeps: "keeps_prop (recovers K jobs) m \<Longrightarrow> recovers K jobs s \<Longrightarrow> durable K jobs m s"
  unfolding durable_def wp_keeps by (blast intro: wp_mono)

lemma recovers_refresh [handler_keeps]: "keeps_prop (recovers K jobs) (refresh_diagnostics K T D)"
  by (intro keeps_refresh_diagnostics) (auto simp: other_types intro!: handler_keeps elim: recovers_same)

lemma durable_revoke_node:
  assumes K: "recovery_lib K" and s: "recovers K {} s"
  shows "durable K {} (revoke_node K T D n c) s"
proof -
  have "recovers K {} (forget_node n (s\<lparr>kc_ledger := st'\<rparr>))"
    if "appended K (T 1) ''node.revoked'' (kl_uuid_text K n) v (kc_ledger s) st'" "json_value v" for st' v
  proof (rule recovers_relevant [OF K s that(1) restore_types(2) that(2)])
    fix env acc and e :: ledger_event
    assume acc: "agrees env s acc" and e: "le_event_type e = ''node.revoked''" "le_subject_id e = kl_uuid_text K n"
    then show "\<exists>acc'. replay_event K env e acc = Inr acc' \<and> agrees env (forget_node n (s\<lparr>kc_ledger := st'\<rparr>)) acc' \<and>
        (\<forall>job \<in> {}. fmlookup (ra_proposed_jobs acc') (js_job_id job) = Some job)"
      by (simp add: replay_event_types replay_revoked_def recovery_libD [OF K] agrees_def forget_node_def live_updates)
  qed (simp add: forget_node_def)
  then have "durable K {} (bind_h (map_error (\<lambda>e. Reject 500 e []) (refresh_diagnostics K T' D)) (\<lambda>_. answer x))
      (forget_node n (s\<lparr>kc_ledger := st'\<rparr>))"
    if "appended K (T 1) ''node.revoked'' (kl_uuid_text K n) v (kc_ledger s) st'" "json_value v" for st' v T' x
    using that by (intro durable_keeps handler_keeps recovers_refresh) blast
  then show ?thesis
    unfolding durable_def revoke_node_def Let_def using s
    by (auto simp: wp_bind wp_atoms wp_require wp_from_option wp_record_event byte_def split: option.split)
qed

lemma recovers_store_offer: "keeps_prop (recovers K jobs) (store_offer offer)"
  unfolding store_offer_def by (intro handler_keeps) (auto elim: recovers_same)

lemma recovers_offer_evidence: "keeps_prop (recovers K jobs) (record_offer_evidence K T offer)"
  unfolding record_offer_evidence_def
  by (intro handler_keeps keeps_with_state_all)
    (auto simp: other_types split: option.splits intro!: handler_keeps elim: recovers_same)

lemma recovers_register_offer: "keeps_prop (recovers K jobs) (register_offer K T offer)"
proof -
  have "keeps_prop (recovers K jobs) (check_offer K T offer)"
    unfolding wp_keeps by (auto intro: wp_check_offer)
  then show ?thesis
    unfolding register_offer_def by (intro handler_keeps recovers_offer_evidence recovers_store_offer)
qed

lemma recovers_local_stop: "keeps_prop (recovers K jobs) (local_stop K T env)"
proof -
  have "keeps_prop (recovers K jobs) (advance_epoch K now)" for now
    unfolding keeps_prop_def
  proof (intro allI impI)
    fix s assume s: "recovers K jobs s"
    show "recovers K jobs (snd (advance_epoch K now s))"
    proof (cases "advance_fencing_epoch (kl_ledger K) now ''controller'' (kc_ledger s)")
      case (Inl e)
      then show ?thesis using s by (simp add: advance_epoch_def)
    next
      case (Inr p)
      obtain n st' where p: "p = (n, st')" by force
      have "log_ok (kl_ledger K) (kc_ledger s)" using s by (simp add: recovers_def)
      note st' = advance_irrelevant [OF Inr [unfolded p] this]
      have "agrees env (s\<lparr>kc_ledger := st', kc_fencing_epoch := n\<rparr>) = agrees env s" for env by (simp add: agrees_def fun_eq_iff)
      then show ?thesis using s st' Inr p by (simp add: advance_epoch_def recovers_def)
    qed
  qed
  then show ?thesis
    unfolding local_stop_def
    by (intro handler_keeps keeps_with_state_all keeps_stop_files) (auto simp: other_types elim: recovers_same)
qed

lemma recovers_local_resume: "keeps_prop (recovers K jobs) (local_resume K T env c)"
proof -
  have "keeps_prop (recovers K jobs) (remove_stop_marker env)" "keeps_prop (recovers K jobs) (remove_kill_latch env)"
    unfolding remove_stop_marker_def remove_kill_latch_def
    by (intro handler_keeps keeps_with_state_all; auto split: option.splits intro!: handler_keeps elim: recovers_same)+
  then show ?thesis
    unfolding local_resume_def by (intro handler_keeps keeps_with_state_all) (auto simp: other_types)
qed

section \<open>Staging and outputs\<close>

text \<open>A recorded replica is replayed under the digest of its artifact and its node.\<close>

lemma replay_replica_recorded:
  assumes K: "recovery_lib K" and v: "json_similar v w"
    "json_get ''node_id'' v = Some (JString (kl_uuid_text K n))"
    "json_get ''artifact'' v = Some (vc_to (kl_artifact K) a)"
  obtains acc' where "replay_replica K env w acc = Inr acc'"
    "ra_nodes acc' = ra_nodes acc" "ra_shard_sets acc' = ra_shard_sets acc" "ra_assignments acc' = ra_assignments acc"
    "ra_completed_receipts acc' = ra_completed_receipts acc" "ra_invites acc' = ra_invites acc"
    "ra_proposed_jobs acc' = ra_proposed_jobs acc"
    "ra_artifact_replicas acc' = fmupd (ar_digest a, n) a (ra_artifact_replicas acc)"
proof -
  have "payload_uuid K ''node_id'' w = Some n"
    using similar_str [OF v(1,2)] by (simp add: payload_uuid_def recovery_libD [OF K])
  moreover have "json_get ''artifact'' w = Some (vc_to (kl_artifact K) a)"
    using similar_get_exact [OF v(1,3)] recovery_libD(13) [OF K] by simp
  ultimately have "\<exists>acc'. replay_replica K env w acc = Inr acc'
      \<and> ra_nodes acc' = ra_nodes acc \<and> ra_shard_sets acc' = ra_shard_sets acc \<and> ra_assignments acc' = ra_assignments acc
      \<and> ra_completed_receipts acc' = ra_completed_receipts acc \<and> ra_invites acc' = ra_invites acc
      \<and> ra_proposed_jobs acc' = ra_proposed_jobs acc
      \<and> ra_artifact_replicas acc' = fmupd (ar_digest a, n) a (ra_artifact_replicas acc)"
    by (simp add: replay_replica_def parse_payload_def recovery_libD [OF K] Let_def split: option.split)
  then show thesis using that by blast
qed

lemma recovers_replica:
  assumes K: "recovery_lib K" and s: "recovers K jobs s"
    and a: "appended K now t subj v (kc_ledger s) st'" "t \<in> set replica_event_types" "json_value v"
    and v: "json_get ''node_id'' v = Some (JString (kl_uuid_text K n))"
      "json_get ''artifact'' v = Some (vc_to (kl_artifact K) a)"
  shows "recovers K jobs (s\<lparr>kc_artifact_replicas := fmupd (ar_digest a, n) a (kc_artifact_replicas s), kc_ledger := st'\<rparr>)"
proof (rule recovers_relevant [OF K s a(1) _ a(3)])
  show "t \<in> set restore_event_types" using a(2) by (auto simp: restore_event_types_def replica_event_types_def)
  fix env acc and e :: ledger_event
  assume acc: "agrees env s acc" "\<And>job. job \<in> jobs \<Longrightarrow> fmlookup (ra_proposed_jobs acc) (js_job_id job) = Some job"
    and e: "le_event_type e = t" "json_similar v (le_payload e)"
  obtain acc' where "replay_replica K env (le_payload e) acc = Inr acc'"
    "ra_nodes acc' = ra_nodes acc" "ra_shard_sets acc' = ra_shard_sets acc" "ra_assignments acc' = ra_assignments acc"
    "ra_completed_receipts acc' = ra_completed_receipts acc" "ra_invites acc' = ra_invites acc"
    "ra_proposed_jobs acc' = ra_proposed_jobs acc"
    "ra_artifact_replicas acc' = fmupd (ar_digest a, n) a (ra_artifact_replicas acc)"
    using replay_replica_recorded [OF K e(2) v] .
  then show "\<exists>acc'. replay_event K env e acc = Inr acc' \<and>
      agrees env (s\<lparr>kc_artifact_replicas := fmupd (ar_digest a, n) a (kc_artifact_replicas s), kc_ledger := st'\<rparr>) acc' \<and>
      (\<forall>job \<in> jobs. fmlookup (ra_proposed_jobs acc') (js_job_id job) = Some job)"
    using acc e(1) a(2) by (simp add: replay_event_types agrees_def)
qed simp

lemma recovers_staged:
  assumes K: "recovery_lib K" and s: "recovers K jobs s"
    and l: "appended K t1 ''storage.lease.issued'' subj v (kc_ledger s) st1"
    and a: "appended K t2 ''artifact.input.staged'' (ar_digest (rp_artifact outcome)) (staged_payload K offer job outcome) st1 st2"
  shows "recovers K jobs (s\<lparr>kc_artifact_replicas :=
        fmupd (ar_digest (rp_artifact outcome), ro_node_id offer) (rp_artifact outcome) (kc_artifact_replicas s),
      kc_replica_evidence := ev, kc_ledger := st2\<rparr>)"
proof -
  let ?s1 = "s\<lparr>kc_ledger := st1\<rparr>"
  have s1: "recovers K jobs ?s1" by (rule recovers_irrelevant [OF s l other_types(6)])
  have "json_value (staged_payload K offer job outcome)"
    unfolding staged_payload_def by (simp add: recovery_libD [OF K] byte_def)
  moreover have "json_get ''node_id'' (staged_payload K offer job outcome) = Some (JString (kl_uuid_text K (ro_node_id offer)))"
    "json_get ''artifact'' (staged_payload K offer job outcome) = Some (vc_to (kl_artifact K) (rp_artifact outcome))"
    by (simp_all add: staged_payload_def)
  ultimately have "recovers K jobs (?s1\<lparr>kc_artifact_replicas := fmupd (ar_digest (rp_artifact outcome), ro_node_id offer)
      (rp_artifact outcome) (kc_artifact_replicas ?s1), kc_ledger := st2\<rparr>)"
    using a by (intro recovers_replica [OF K s1]) (auto simp: replica_event_types_def)
  then show ?thesis by (rule recovers_same) simp_all
qed

lemma durable_stage_input:
  assumes K: "recovery_lib K" and s: "recovers K jobs s"
  shows "durable K jobs (stage_input K E env offer job input) s"
proof -
  let ?f = "\<lambda>outcome. let key = (ar_digest (rp_artifact outcome), ro_node_id offer) in
     bind_h (modify (\<lambda>s. s\<lparr>kc_artifact_replicas := fmupd key (rp_artifact outcome) (kc_artifact_replicas s),
        kc_replica_evidence := fmupd key (rp_receipt outcome) (kc_replica_evidence s)\<rparr>)) (\<lambda>_.
     record_event K (sg_recorded_now env) ''artifact.input.staged'' (ar_digest (rp_artifact outcome))
        (staged_payload K offer job outcome))"
  have "durable K jobs (bind_h (map_error (\<lambda>e. Reject 502 (''input staging failed: '' @ e) [])
        (replicate_to_offer K env offer source cls)) ?f) s" for source cls
    unfolding durable_def wp_bind wp_map_error
  proof (rule wp_replicate_to_offer)
    fix lease st1
    assume l: "appended K (sg_append_now env) ''storage.lease.issued'' (kl_uuid_text K (sl_lease_id lease))
        (vc_to (kl_storage_lease K) lease) (kc_ledger s) st1"
    have "recovers K jobs (s\<lparr>kc_ledger := st1\<rparr>)" by (rule recovers_irrelevant [OF s l other_types(6)])
    then show "case transfer_replica K env s offer lease source cls of
        Inl e \<Rightarrow> reject_status (Reject 502 (''input staging failed: '' @ e) []) \<noteq> 500 \<longrightarrow> recovers K jobs (s\<lparr>kc_ledger := st1\<rparr>)
      | Inr x \<Rightarrow> wp (?f x) (\<lambda>_. recovers K jobs) (\<lambda>e s. reject_status e \<noteq> 500 \<longrightarrow> recovers K jobs s) (s\<lparr>kc_ledger := st1\<rparr>)"
      using recovers_staged [OF K s l] by (auto simp: Let_def wp_simps split: sum.split)
  qed (use s in simp)
  then show ?thesis
    unfolding stage_input_def durable_def using s
    by (auto simp: wp_simps durable_def split: sum.split option.split)
qed

lemma durable_stage_job_inputs:
  assumes K: "recovery_lib K" and s: "recovers K jobs s"
  shows "durable K jobs (stage_job_inputs K E envs offer job) s"
proof -
  have "durable K jobs (stage_inputs K E envs n offer job inputs) s" for n inputs
    using s by (induction inputs arbitrary: n s) (auto intro!: durable_bind durable_atoms durable_stage_input [OF K])
  then show ?thesis by (simp add: stage_job_inputs_def)
qed

lemma durable_stage_shards:
  assumes K: "recovery_lib K" and s: "recovers K jobs s"
  shows "durable K jobs (stage_shards K E J n offers shards) s"
  using s by (induction shards arbitrary: n s) (auto intro!: durable_bind durable_atoms durable_stage_job_inputs [OF K])

section \<open>Submission\<close>

lemma recovers_proposed:
  assumes K: "recovery_lib K" and s: "recovers K {} s"
    and a: "appended K now ''job.proposed'' subj (vc_to (kl_job K) job) (kc_ledger s) st'"
  shows "recovers K {job} (s\<lparr>kc_ledger := st'\<rparr>)"
proof (rule recovers_relevant [OF K s a restore_types(5)])
  fix env acc and e :: ledger_event
  assume acc: "agrees env s acc" and e: "le_event_type e = ''job.proposed''" "json_similar (vc_to (kl_job K) job) (le_payload e)"
  have "le_payload e = vc_to (kl_job K) job" using similar_float_free [OF e(2) recovery_libD(16) [OF K]] .
  then show "\<exists>acc'. replay_event K env e acc = Inr acc' \<and> agrees env (s\<lparr>kc_ledger := st'\<rparr>) acc' \<and>
      (\<forall>job \<in> {job}. fmlookup (ra_proposed_jobs acc') (js_job_id job) = Some job)"
    using acc by (simp add: replay_event_types e(1) replay_proposed_def parse_payload_def recovery_libD [OF K] agrees_def)
qed (simp_all add: recovery_libD [OF K])

lemma recovers_issued:
  assumes K: "recovery_lib K" and s: "recovers K {job} s"
    and a: "appended K now ''lease.issued'' subj (JObject [(''lease'', vc_to (kl_lease K) lease), (''placement'', vc_to (kl_score K) score)])
        (kc_ledger s) st'"
    and j: "js_job_id job |\<notin>| fmdom (kc_assignments s)" "cl_job_id lease = js_job_id job"
  shows "recovers K {} (assign job lease n (drop_expired_reservations t (s\<lparr>kc_ledger := st'\<rparr>)))"
proof (rule recovers_relevant [OF K s a restore_types(6)])
  fix env acc and e :: ledger_event
  assume acc: "agrees env s acc" "\<And>j. j \<in> {job} \<Longrightarrow> fmlookup (ra_proposed_jobs acc) (js_job_id j) = Some j"
    and e: "le_event_type e = ''lease.issued''"
      "json_similar (JObject [(''lease'', vc_to (kl_lease K) lease), (''placement'', vc_to (kl_score K) score)]) (le_payload e)"
  have "json_get ''lease'' (le_payload e) = Some (vc_to (kl_lease K) lease)"
    by (rule similar_get_exact [OF e(2)]) (simp_all add: recovery_libD [OF K])
  moreover have "fmlookup (ra_proposed_jobs acc) (js_job_id job) = Some job" using acc(2) by simp
  ultimately show "\<exists>acc'. replay_event K env e acc = Inr acc' \<and>
      agrees env (assign job lease n (drop_expired_reservations t (s\<lparr>kc_ledger := st'\<rparr>))) acc' \<and>
      (\<forall>job \<in> {}. fmlookup (ra_proposed_jobs acc') (js_job_id job) = Some job)"
    using acc(1) j by (simp add: replay_event_types e(1) replay_issued_def parse_payload_def recovery_libD [OF K] replay_lease_def
        agrees_def live_updates)
qed (simp_all add: recovery_libD [OF K] byte_def)

lemma durable_admit_job:
  assumes K: "recovery_lib K" and s: "recovers K {job} s" and j: "js_job_id job |\<notin>| fmdom (kc_assignments s)"
  shows "durable K {} (admit_job K E T J job offer score) s"
  unfolding durable_def
proof (rule wp_admit_job)
  show "reject_status e \<noteq> 500 \<longrightarrow> recovers K {} s" for e using recovers_less [OF s] by simp
  fix lease assume "issued_for K s job (ro_node_id offer) lease"
  then have l: "cl_job_id lease = js_job_id job" using issued_for_lease issued_lease_job by blast
  have st: "wp (stage_job_inputs K E (jb_stage J) offer job)
      (\<lambda>x s'. recovers K {job} s' \<and> authority_state s' = authority_state s)
      (\<lambda>e s'. (reject_status e \<noteq> 500 \<longrightarrow> recovers K {job} s') \<and> authority_state s' = authority_state s) s"
    using durable_stage_job_inputs [OF K s] unfolding durable_def
    by (rule wp_carry) (rule frame_stage_job_inputs, simp)
  have j': "js_job_id job |\<notin>| fmdom (kc_assignments s')" if "authority_state s' = authority_state s" for s'
    using authority_state_eqD(5) [OF that] j by simp
  show "wp (stage_job_inputs K E (jb_stage J) offer job)
      (\<lambda>_ s'. (\<forall>st'. appended K (T 5) ''lease.issued'' (kl_uuid_text K (js_job_id job))
           (JObject [(''lease'', vc_to (kl_lease K) lease), (''placement'', vc_to (kl_score K) score)]) (kc_ledger s') st'
           \<longrightarrow> recovers K {} (assign job lease (cl_node_id lease) (drop_expired_reservations (T 6) (s'\<lparr>kc_ledger := st'\<rparr>))))
         \<and> (\<forall>err. reject_status (Reject 500 err []) \<noteq> 500 \<longrightarrow> recovers K {} s'))
      (\<lambda>e s. reject_status e \<noteq> 500 \<longrightarrow> recovers K {} s) s"
    by (rule wp_mono [OF st]) (auto intro: recovers_issued [OF K _ _ j' l] recovers_less)
qed

definition job_is_new :: "job_spec \<Rightarrow> 'sk controller \<Rightarrow> bool" where
  "job_is_new job s \<longleftrightarrow> existing_assignment job s \<noteq> None \<or> js_job_id job |\<notin>| fmdom (kc_assignments s)"

lemma durable_submit_job_gated:
  assumes K: "recovery_lib K" and s: "recovers K {} s" and j: "job_is_new job s"
  shows "durable K {} (submit_job_gated K E T J job) s"
proof -
  have adm: "wp (admit_job K E T J job offer score) (\<lambda>_. recovers K {}) (\<lambda>e s. reject_status e \<noteq> 500 \<longrightarrow> recovers K {} s)
      (s\<lparr>kc_ledger := st'\<rparr>)"
    if "existing_assignment job s = None"
      "appended K (T 1) ''job.proposed'' (kl_uuid_text K (js_job_id job)) (vc_to (kl_job K) job) (kc_ledger s) st'" for offer score st'
    using durable_admit_job [OF K recovers_proposed [OF K s that(2)]] that(1) j by (simp add: durable_def job_is_new_def)
  have blk: "recovers K {} (s\<lparr>kc_ledger := st''\<rparr>)"
    if "appended K (T 1) ''job.proposed'' (kl_uuid_text K (js_job_id job)) (vc_to (kl_job K) job) (kc_ledger s) st'"
      "appended K (T 3) ''job.blocked'' subj v st' st''" for st' st'' subj v
    using recovers_irrelevant [OF recovers_less [OF recovers_proposed [OF K s that(1)]] _ other_types(7)] that(2) by simp
  show ?thesis
    unfolding durable_def submit_job_gated_def Let_def using s
    by (auto simp: wp_simps simp del: One_nat_def split: option.split sum.split intro: adm blk)
qed

lemma durable_submit_job:
  assumes K: "recovery_lib K" and s: "recovers K {} s" and j: "job_is_new job s"
  shows "durable K {} (submit_job K E T J job) s"
  using durable_submit_job_gated [OF assms, of E T J] s
  by (auto simp: durable_def submit_job_def wp_simps split: sum.split)

lemma place_shards_length:
  "place_shards S offers policy now loc B acc jobs = Inr ps \<Longrightarrow> length ps = length acc + length jobs"
proof (induction jobs arbitrary: B acc)
  case (Cons job jobs)
  then show ?case by (fastforce split: option.splits)
qed simp

lemma plan_length: "plan_shard_set S offers rs policy now loc = Inr ps \<Longrightarrow> length ps = length (ss_shards S)"
  unfolding plan_shard_set_def by (drule place_shards_length) simp

lemma map_of_distinct:
  "distinct (map f xs) \<Longrightarrow> x \<in> set xs \<Longrightarrow> map_of (rev (map (\<lambda>x. (f x, x)) xs)) (f x) = Some x"
  by (rule map_of_is_SomeI) (auto simp: comp_def simp flip: rev_map)

text \<open>Replaying the leases of a plan makes the assignments the handler makes.\<close>

lemma agrees_assign:
  assumes "agrees env s acc" "js_job_id job |\<notin>| fmdom (kc_assignments s)" "cl_job_id lease = js_job_id job"
    "jobs (js_job_id job) = Some job"
  shows "agrees env (assign job lease n s) (replay_lease env jobs lease acc)"
  using assms by (simp add: agrees_def replay_lease_def live_updates)

lemma agrees_assign_all:
  assumes "list_all2 (\<lambda>job lease. cl_job_id lease = js_job_id job \<and> jobs (js_job_id job) = Some job) js leases"
    and "length ps = length js" "distinct (map js_job_id js)"
    and "\<forall>job \<in> set js. js_job_id job |\<notin>| fmdom (kc_assignments s)" "agrees env s acc"
  shows "agrees env (assign_all (zip js (zip leases ps)) s) (foldl (\<lambda>acc lease. replay_lease env jobs lease acc) acc leases)"
  using assms
proof (induction arbitrary: ps s acc rule: list_all2_induct)
  case (Cons job js lease leases)
  obtain p ps' where ps: "ps = p # ps'" using Cons.prems(1) by (cases ps) auto
  have "agrees env (assign job lease (sp_node_id p) s) (replay_lease env jobs lease acc)"
    using Cons by (intro agrees_assign) auto
  then have "agrees env (assign_all (zip js (zip leases ps')) (assign job lease (sp_node_id p) s))
      (foldl (\<lambda>acc lease. replay_lease env jobs lease acc) (replay_lease env jobs lease acc) leases)"
    using Cons.prems by (intro Cons.IH) (auto simp: ps image_iff)
  then show ?case by (simp add: ps)
qed simp

lemma parse_leases_recorded: "recovery_lib K \<Longrightarrow> parse_leases K (JArray (map (vc_to (kl_lease K)) leases)) = Inr leases"
  by (simp add: parse_payload_def recovery_libD comp_def)

lemma recovers_admitted:
  assumes K: "recovery_lib K" and s: "recovers K {} s" and f: "json_value pj"
    and a: "appended K now ''shard_set.admitted'' subj (JObject [(''leases'', JArray (map (vc_to (kl_lease K)) leases)),
        (''placements'', pj), (''set'', vc_to (kl_shard_set K) sset)]) (kc_ledger s) st'"
    and l: "list_all2 (\<lambda>job lease. cl_job_id lease = js_job_id job) (ss_shards sset) leases"
      "length ps = length (ss_shards sset)" "distinct (map js_job_id (ss_shards sset))"
      "\<forall>job \<in> set (ss_shards sset). js_job_id job |\<notin>| fmdom (kc_assignments s)"
    and s'': "s'' = assign_all (zip (ss_shards sset) (zip leases ps)) (drop_expired_reservations t (s\<lparr>kc_ledger := st'\<rparr>))"
  shows "recovers K {} (s''\<lparr>kc_shard_sets := fmupd (ss_set_id sset) \<lparr>sr_spec = sset, sr_leases = leases\<rparr> (kc_shard_sets s'')\<rparr>)"
proof (rule recovers_relevant [OF K s a restore_types(7)])
  let ?v = "JObject [(''leases'', JArray (map (vc_to (kl_lease K)) leases)), (''placements'', pj), (''set'', vc_to (kl_shard_set K) sset)]"
  let ?jobs = "map_of (rev (map (\<lambda>job. (js_job_id job, job)) (ss_shards sset)))"
  fix env acc and e :: ledger_event
  assume acc: "agrees env s acc" and e: "le_event_type e = ''shard_set.admitted''" "json_similar ?v (le_payload e)"
  have "json_get ''set'' (le_payload e) = Some (vc_to (kl_shard_set K) sset)"
    "json_get ''leases'' (le_payload e) = Some (JArray (map (vc_to (kl_lease K)) leases))"
    by (rule similar_get_exact [OF e(2)]; simp add: f recovery_libD [OF K])+
  then have r: "replay_event K env e acc = Inr ((foldl (\<lambda>acc lease. replay_lease env ?jobs lease acc) acc leases)\<lparr>ra_shard_sets :=
      fmupd (ss_set_id sset) \<lparr>sr_spec = sset, sr_leases = leases\<rparr>
        (ra_shard_sets (foldl (\<lambda>acc lease. replay_lease env ?jobs lease acc) acc leases))\<rparr>)"
    by (simp add: replay_event_types e(1) replay_admitted_def parse_leases_recorded [OF K] and_then_def Let_def
        parse_payload_def [of "kl_shard_set K"] recovery_libD [OF K] del: parse_leases.simps)
  have "agrees env (drop_expired_reservations t (s\<lparr>kc_ledger := st'\<rparr>)) acc" using acc by (simp add: agrees_def)
  moreover have "list_all2 (\<lambda>job lease. cl_job_id lease = js_job_id job \<and> ?jobs (js_job_id job) = Some job) (ss_shards sset) leases"
    using l(1) map_of_distinct [OF l(3)] by (auto simp: list_all2_conv_all_nth)
  ultimately have "agrees env s'' (foldl (\<lambda>acc lease. replay_lease env ?jobs lease acc) acc leases)"
    unfolding s'' using l by (intro agrees_assign_all) auto
  then show "\<exists>acc'. replay_event K env e acc = Inr acc' \<and>
      agrees env (s''\<lparr>kc_shard_sets := fmupd (ss_set_id sset) \<lparr>sr_spec = sset, sr_leases = leases\<rparr> (kc_shard_sets s'')\<rparr>) acc' \<and>
      (\<forall>job \<in> {}. fmlookup (ra_proposed_jobs acc') (js_job_id job) = Some job)"
    using r by (simp add: agrees_def)
qed (simp_all add: s'' f recovery_libD [OF K] byte_def)

definition shards_are_new :: "shard_set \<Rightarrow> 'sk controller \<Rightarrow> bool" where
  "shards_are_new sset s \<longleftrightarrow> (\<forall>job \<in> set (ss_shards sset). js_job_id job |\<notin>| fmdom (kc_assignments s))"

lemma durable_admit_shards:
  assumes K: "recovery_lib K" and s: "recovers K {} s" and f: "json_value pj"
    and l: "length ps = length (ss_shards sset)" "distinct (map js_job_id (ss_shards sset))" "shards_are_new sset s"
  shows "durable K {} (admit_shards K E env pj sset offers ps) s"
  unfolding durable_def
proof (rule wp_admit_shards)
  let ?jobs = "zip (ss_shards sset) ps"
  have st: "wp (stage_shards K E (sn_jobs env) 0 offers ?jobs)
      (\<lambda>x s'. recovers K {} s' \<and> authority_state s' = authority_state s)
      (\<lambda>e s'. (reject_status e \<noteq> 500 \<longrightarrow> recovers K {} s') \<and> authority_state s' = authority_state s) s"
    using durable_stage_shards [OF K s] unfolding durable_def
    by (rule wp_carry) (rule frame_stage_shards, simp)
  let ?Q = "\<lambda>leases. recovers K {}" and ?E = "\<lambda>(e::http_reject) s. reject_status e \<noteq> 500 \<longrightarrow> recovers K {} s"
  have new: "\<forall>job \<in> set (ss_shards sset). js_job_id job |\<notin>| fmdom (kc_assignments s')" if "authority_state s' = authority_state s" for s'
    using authority_state_eqD(5) [OF that] l(3) by (simp add: shards_are_new_def)
  have ids: "list_all2 (\<lambda>job lease. cl_job_id lease = js_job_id job) (ss_shards sset) leases"
    if "list_all2 (\<lambda>(job, p) lease. issued_for K s' job (sp_node_id p) lease
        \<and> (\<exists>offer. offer_of offers (sp_node_id p) = Some offer)) ?jobs leases" for leases s'
  proof -
    have "list_all2 (\<lambda>jp lease. cl_job_id lease = js_job_id (fst jp)) ?jobs leases"
      using that by (rule list_all2_mono) (auto dest!: issued_for_lease intro: issued_lease_job)
    then show ?thesis using l(1) by (simp add: list_all2_conv_all_nth)
  qed
  have adm: "recovers K {} (assign_all (zip (ss_shards sset) (zip leases ps)) (drop_expired_reservations t (s'\<lparr>kc_ledger := st'\<rparr>))
      \<lparr>kc_shard_sets := fmupd (ss_set_id sset) \<lparr>sr_spec = sset, sr_leases = leases\<rparr> (kc_shard_sets s')\<rparr>)"
    if "recovers K {} s'" "authority_state s' = authority_state s"
      "list_all2 (\<lambda>(job, p) lease. issued_for K s' job (sp_node_id p) lease
        \<and> (\<exists>offer. offer_of offers (sp_node_id p) = Some offer)) ?jobs leases"
      "appended K now ''shard_set.admitted'' subj (JObject [(''leases'', JArray (map (vc_to (kl_lease K)) leases)),
        (''placements'', pj), (''set'', vc_to (kl_shard_set K) sset)]) (kc_ledger s') st'" for s' leases t st' now subj
    using recovers_admitted [OF K that(1) f that(4) ids [OF that(3)] l(1,2) new [OF that(2)] refl] by simp
  show "wp (stage_shards K E (sn_jobs env) 0 offers ?jobs)
      (\<lambda>_ s'. (\<forall>leases. list_all2 (\<lambda>(job, p) lease. issued_for K s' job (sp_node_id p) lease
               \<and> (\<exists>offer. offer_of offers (sp_node_id p) = Some offer)) ?jobs leases
           \<longrightarrow> (\<forall>st'. appended K (sn_append env) ''shard_set.admitted'' (kl_uuid_text K (ss_set_id sset))
                (JObject [(''leases'', JArray (map (vc_to (kl_lease K)) leases)), (''placements'', pj),
                  (''set'', vc_to (kl_shard_set K) sset)]) (kc_ledger s') st'
              \<longrightarrow> (let s'' = assign_all (zip (ss_shards sset) (zip leases ps))
                     (drop_expired_reservations (sn_now env) (s'\<lparr>kc_ledger := st'\<rparr>))
                   in recovers K {} (s''\<lparr>kc_shard_sets := fmupd (ss_set_id sset) \<lparr>sr_spec = sset, sr_leases = leases\<rparr>
                        (kc_shard_sets s'')\<rparr>))))
         \<and> (\<forall>e. ?E e s')) ?E s"
    by (rule wp_mono [OF st]) (auto simp: Let_def intro: adm)
qed (use s in simp)

lemma durable_submit_shard_set_gated:
  assumes K: "recovery_lib K" and s: "recovers K {} s" and f: "\<And>ps. json_value (pj ps)"
    and n: "shards_are_new sset s" and v: "shard_set_validate_at sset t = Inr ()"
  shows "durable K {} (submit_shard_set_gated K E env pj sset) s"
proof -
  have "wp (admit_shards K E env (pj ps) sset offers ps) (\<lambda>_. recovers K {}) (\<lambda>e s. reject_status e \<noteq> 500 \<longrightarrow> recovers K {} s) s"
    if "plan_shard_set sset offers rs policy now loc = Inr ps" for ps offers rs policy now loc
    using durable_admit_shards [OF K s f plan_length [OF that(1)] _ n] v by (simp add: durable_def shard_set_accepted)
  then show ?thesis
    unfolding durable_def submit_shard_set_gated_def Let_def using s
    by (auto simp: wp_simps split: option.split sum.split)
qed

lemma durable_submit_shard_set:
  assumes "recovery_lib K" "recovers K {} s" "\<And>ps. json_value (pj ps)" "shards_are_new sset s"
  shows "durable K {} (submit_shard_set K E env pj sset) s"
  using durable_submit_shard_set_gated [OF assms] assms(2)
  by (auto simp: durable_def submit_shard_set_def wp_simps split: sum.split)

section \<open>Claims and receipts\<close>

lemma durable_claim_work:
  assumes K: "recovery_lib K" and s: "recovers K {} s" and ok: "controller_ok K UNIV s"
  shows "durable K {} (claim_work K T busy n) s"
proof -
  have "recovers K {} (s\<lparr>kc_assignments := fmupd k (a\<lparr>as_claimed := True\<rparr>) (kc_assignments s), kc_ledger := st'\<rparr>)"
    if c: "next_claim K n (T 0) s = Some (k, a)" and a: "appended K (T 1) ''job.claimed'' (kl_uuid_text K (js_job_id (as_job a)))
        (vc_to (kl_claim K) (work_claim_of K s a)) (kc_ledger s) st'" for k a st'
  proof (rule recovers_relevant [OF K s a restore_types(8)])
    have k: "fmlookup (kc_assignments s) k = Some a" "js_job_id (as_job a) = k"
      using next_claim_sound [OF c] ok by (auto simp: controller_ok_def assignments_ok_def)
    fix env acc and e :: ledger_event
    assume acc: "agrees env s acc" and e: "le_event_type e = ''job.claimed''" "le_subject_id e = kl_uuid_text K (js_job_id (as_job a))"
    have "live_assignments env (fmupd k (a\<lparr>as_claimed := True\<rparr>) (kc_assignments s)) =
        (if lease_is_live env (as_lease a) then fmupd k (a\<lparr>as_claimed := True\<rparr>) (live_assignments env (kc_assignments s))
         else live_assignments env (kc_assignments s))"
      using k(1) by (intro fmap_ext) (auto simp: live_lookup)
    then show "\<exists>acc'. replay_event K env e acc = Inr acc' \<and>
        agrees env (s\<lparr>kc_assignments := fmupd k (a\<lparr>as_claimed := True\<rparr>) (kc_assignments s), kc_ledger := st'\<rparr>) acc' \<and>
        (\<forall>job \<in> {}. fmlookup (ra_proposed_jobs acc') (js_job_id job) = Some job)"
      using acc k by (simp add: replay_event_types e replay_claimed_def recovery_libD [OF K] agrees_def live_lookup)
  qed (simp_all add: recovery_libD [OF K])
  then show ?thesis
    unfolding durable_def claim_work_def using s
    by (auto simp: wp_simps simp del: One_nat_def split: option.split)
qed

lemma durable_record_outputs:
  assumes K: "recovery_lib K" and s: "recovers K {} s"
  shows "durable K {} (record_outputs K T n r outputs) s"
  using s
proof (induction outputs arbitrary: n s)
  case (Cons x xs)
  let ?v = "JObject [(''artifact'', vc_to (kl_artifact K) x), (''job_id'', JString (kl_uuid_text K (er_job_id r))),
      (''node_id'', JString (kl_uuid_text K (er_node_id r)))]"
  have "recovers K {} (s\<lparr>kc_artifact_replicas := fmupd (ar_digest x, er_node_id r) x (kc_artifact_replicas s), kc_ledger := st'\<rparr>)"
    if "appended K (T n) ''artifact.output.recorded'' (ar_digest x) ?v (kc_ledger s) st'" for st'
    by (rule recovers_replica [OF K Cons.prems that]) (simp_all add: replica_event_types_def recovery_libD [OF K] byte_def)
  with Cons show ?case by (simp add: durable_def wp_simps)
qed (auto intro: durable_atoms)

lemma durable_settle_receipt:
  assumes K: "recovery_lib K" and s: "recovers K {} s" and v: "vc_from (kl_receipt K) v = Some r"
  shows "durable K {} (settle_receipt K T r) s"
proof -
  let ?done = "\<lambda>a st'. (complete_job r a s)\<lparr>kc_ledger := st',
      kc_completed_receipts := fmupd (er_receipt_id r) (er_job_id r) (kc_completed_receipts s)\<rparr>"
  have "recovers K {} (?done a st')"
    if a: "appended K (T 0) ''job.receipted'' (kl_uuid_text K (er_job_id r)) (vc_to (kl_receipt K) r) (kc_ledger s) st'" for a st'
  proof (rule recovers_relevant [OF K s a restore_types(9)])
    fix env acc and e :: ledger_event
    assume acc: "agrees env s acc" and e: "le_event_type e = ''job.receipted''" "le_subject_id e = kl_uuid_text K (er_job_id r)"
      "json_similar (vc_to (kl_receipt K) r) (le_payload e)"
    obtain r' where "vc_from (kl_receipt K) (le_payload e) = Some r'" "er_receipt_id r' = er_receipt_id r" "er_job_id r' = er_job_id r"
      using recovery_libD(24) [OF K v e(3)] by blast
    then show "\<exists>acc'. replay_event K env e acc = Inr acc' \<and> agrees env (?done a st') acc' \<and>
        (\<forall>job \<in> {}. fmlookup (ra_proposed_jobs acc') (js_job_id job) = Some job)"
      using acc by (simp add: replay_event_types e(1,2) replay_receipted_def recovery_libD [OF K] agrees_def complete_job_def live_updates)
  qed (simp_all add: recovery_libD(23) [OF K v])
  then have "durable K {} (record_outputs K T 1 r (er_outputs r)) (?done a st')"
    if "appended K (T 0) ''job.receipted'' (kl_uuid_text K (er_job_id r)) (vc_to (kl_receipt K) r) (kc_ledger s) st'" for a st'
    using that by (intro durable_record_outputs [OF K]) blast
  then have "wp (accept_receipt K T r a) (\<lambda>_. recovers K {}) (\<lambda>e s. reject_status e \<noteq> 500 \<longrightarrow> recovers K {} s) s" for a
    unfolding accept_receipt_def durable_def by (auto simp: wp_simps complete_job_def)
  then show ?thesis
    unfolding durable_def settle_receipt_def using s by (auto simp: wp_simps split: option.split sum.split)
qed

lemma durable_submit_receipt:
  assumes "recovery_lib K" "recovers K {} s" "vc_from (kl_receipt K) v = Some r"
  shows "durable K {} (submit_receipt K T busy r) s"
  using durable_settle_receipt [OF assms, of T] assms(2)
  by (auto simp: durable_def submit_receipt_def wp_simps split: option.split sum.split)

section \<open>Artifacts\<close>

text \<open>Storing and retrieving an artifact records nothing that is replayed.\<close>

lemma keeps_on_store: "(\<And>s x. I s \<Longrightarrow> I (s\<lparr>kc_artifact_store := x\<rparr>)) \<Longrightarrow> keeps_prop I (on_store K f)"
  by (auto simp: keeps_prop_def on_store_def split: prod.split sum.split)

locale artifact_frame =
  fixes I :: "'sk controller \<Rightarrow> bool" and K :: "'sk control_lib"
  assumes events: "t \<in> {''storage.lease.issued'', ''artifact.stored.local'', ''artifact.retrieved''}
      \<Longrightarrow> keeps_prop I (record_event K now t subj v)"
    and fields: "I s \<Longrightarrow> I (s\<lparr>kc_artifact_store := x\<rparr>)" "I s \<Longrightarrow> I (s\<lparr>kc_replica_evidence := y\<rparr>)"
begin

lemma keeps_put_artifact: "keeps_prop I (put_artifact_handler K G env request)"
  unfolding put_artifact_handler_def
  by (intro handler_keeps keeps_with_state_all keeps_on_store fields(1) events) simp_all

lemma keeps_probe: "keeps_prop I (probe_replica K E env offer artifact)"
  unfolding probe_replica_def Let_def
  by (auto split: option.split prod.split intro!: handler_keeps keeps_with_state_all events)

lemma keeps_retrieval_lease: "keeps_prop I (issue_retrieval_lease K env n offer artifact)"
  unfolding issue_retrieval_lease_def by (intro handler_keeps keeps_with_state_all events) simp

lemma keeps_fetch: "keeps_prop I (fetch_chunks K env offer artifact sink session_id lease position missing)"
  by (induction missing arbitrary: lease position)
    (auto split: prod.split intro!: handler_keeps keeps_on_store fields(1) keeps_retrieval_lease)

lemma keeps_retrieve: "keeps_prop I (retrieve_artifact K E env digest node_id)"
  unfolding retrieve_artifact_def retrieve_from_def remote_offer_def Let_def
  by (auto split: prod.split intro!: handler_keeps keeps_with_state_all keeps_on_store fields keeps_retrieval_lease
      keeps_fetch keeps_probe events)

end

interpretation restored: artifact_frame "recovers K jobs" K for K jobs
  by unfold_locales (auto simp: other_types intro!: handler_keeps elim: recovers_same)

lemma durable_replicate_artifact:
  assumes K: "recovery_lib K" and s: "recovers K {} s"
  shows "durable K {} (replicate_artifact K E now endpoint_now env request) s"
proof -
  let ?n = "aj_node_id request"
  let ?f = "\<lambda>outcome. bind_h (modify (note_replica (ar_digest (rp_artifact outcome), ?n) (rp_artifact outcome) (rp_receipt outcome))) (\<lambda>_.
     bind_h (record_event K (sg_recorded_now env) ''artifact.replicated'' (ar_digest (rp_artifact outcome))
        (JObject (replica_payload K ?n outcome))) (\<lambda>_. answer outcome))"
  have rec: "recovers K {} (s\<lparr>kc_artifact_replicas := fmupd (ar_digest (rp_artifact outcome), ?n) (rp_artifact outcome) (kc_artifact_replicas s),
      kc_replica_evidence := ev, kc_ledger := st2\<rparr>)"
    if l: "appended K t1 ''storage.lease.issued'' subj v (kc_ledger s) st1"
      and a: "appended K t2 ''artifact.replicated'' d (JObject (replica_payload K ?n outcome)) st1 st2" for t1 subj v st1 t2 d outcome st2 ev
  proof -
    let ?s1 = "s\<lparr>kc_ledger := st1\<rparr>"
    have s1: "recovers K {} ?s1" by (rule recovers_irrelevant [OF s l other_types(6)])
    have "recovers K {} (?s1\<lparr>kc_artifact_replicas := fmupd (ar_digest (rp_artifact outcome), ?n)
        (rp_artifact outcome) (kc_artifact_replicas ?s1), kc_ledger := st2\<rparr>)"
      using a by (intro recovers_replica [OF K s1])
        (auto simp: replica_event_types_def replica_payload_def recovery_libD [OF K] byte_def)
    then show ?thesis by (rule recovers_same) simp_all
  qed
  have "durable K {} (bind_h (map_error (\<lambda>e. Reject 502 e []) (replicate_to_offer K env offer source cls)) ?f) s" for offer source cls
    unfolding durable_def wp_bind wp_map_error
  proof (rule wp_replicate_to_offer)
    fix lease st1
    assume l: "appended K (sg_append_now env) ''storage.lease.issued'' (kl_uuid_text K (sl_lease_id lease))
        (vc_to (kl_storage_lease K) lease) (kc_ledger s) st1"
    have "recovers K {} (s\<lparr>kc_ledger := st1\<rparr>)" by (rule recovers_irrelevant [OF s l other_types(6)])
    then show "case transfer_replica K env s offer lease source cls of
        Inl e \<Rightarrow> reject_status (Reject 502 e []) \<noteq> 500 \<longrightarrow> recovers K {} (s\<lparr>kc_ledger := st1\<rparr>)
      | Inr x \<Rightarrow> wp (modify (note_replica (ar_digest (rp_artifact x), ?n) (rp_artifact x) (rp_receipt x)))
          (\<lambda>_. wp (record_event K (sg_recorded_now env) ''artifact.replicated'' (ar_digest (rp_artifact x))
             (JObject (replica_payload K ?n x))) (\<lambda>_. wp (answer x) (\<lambda>_. recovers K {}) (\<lambda>e s. reject_status e \<noteq> 500 \<longrightarrow> recovers K {} s))
             (\<lambda>e s. reject_status e \<noteq> 500 \<longrightarrow> recovers K {} s)) (\<lambda>e s. reject_status e \<noteq> 500 \<longrightarrow> recovers K {} s) (s\<lparr>kc_ledger := st1\<rparr>)"
      using rec [OF l] by (auto simp: wp_simps note_replica_def split: sum.split)
  qed (use s in simp)
  then show ?thesis
    unfolding replicate_artifact_def remote_offer_def durable_def using s
    by (auto simp: wp_simps durable_def split: sum.split option.split)
qed

text \<open>All three leave the authority of the daemon alone.\<close>

lemma kept_record: "keeps_prop (authority_kept s0) (record_event K now t subj v)"
  by (intro keeps_record_event) (auto simp: authority_kept_def dest: appended_epoch)

interpretation kept: artifact_frame "authority_kept s0" K for s0 K
  by unfold_locales (rule kept_record, simp_all add: authority_kept_def)

lemma kept_replicate: "keeps_prop (authority_kept s0) (replicate_artifact K E now endpoint_now env request)"
proof -
  have "keeps_prop (authority_kept s0) (replicate_to_offer K env offer source cls)" for offer source cls
    unfolding replicate_to_offer_def by (intro handler_keeps keeps_with_state_all kept_record)
  moreover have "authority_kept s0 (note_replica key a r s)" if "authority_kept s0 s" for key a r s
    using that by (simp add: authority_kept_def note_replica_def)
  ultimately show ?thesis
    unfolding replicate_artifact_def remote_offer_def
    by (auto split: prod.split intro!: handler_keeps keeps_with_state_all kept_record)
qed

section \<open>Durable runs\<close>

text \<open>A run in which no handler reports a failure of the ledger or the file system, and no job identifier is
  submitted anew while the daemon still holds it.\<close>

definition failed :: "http_reject + 'a \<Rightarrow> bool" where
  "failed r \<longleftrightarrow> (\<exists>e. r = Inl e \<and> reject_status e = 500)"

inductive durable_step :: "'sk control_lib \<Rightarrow> ('i, 'r) endpoint_lib \<Rightarrow> 'sk controller \<Rightarrow> 'sk controller \<Rightarrow> bool"
  for K :: "'sk control_lib" and E :: "('i, 'r) endpoint_lib" where
  durable_invite: "create_invite K T i secret s = (r, s') \<Longrightarrow> \<not> failed r \<Longrightarrow> durable_step K E s s'"
| durable_enroll: "enroll_node K T q s = (r, s') \<Longrightarrow> \<not> failed r \<Longrightarrow> durable_step K E s s'"
| durable_revoke: "revoke_node K T D n c s = (r, s') \<Longrightarrow> \<not> failed r \<Longrightarrow> durable_step K E s s'"
| durable_offer: "register_offer K T offer s = (r, s') \<Longrightarrow> durable_step K E s s'"
| durable_stop: "local_stop K T env s = (r, s') \<Longrightarrow> durable_step K E s s'"
| durable_resume: "local_resume K T env c s = (r, s') \<Longrightarrow> durable_step K E s s'"
| durable_job: "submit_job K E T J job s = (r, s') \<Longrightarrow> \<not> failed r \<Longrightarrow> job_is_new job s \<Longrightarrow> durable_step K E s s'"
| durable_shards: "submit_shard_set K E senv pj sset s = (r, s') \<Longrightarrow> \<not> failed r
    \<Longrightarrow> (\<And>ps. json_value (pj ps)) \<Longrightarrow> shards_are_new sset s \<Longrightarrow> durable_step K E s s'"
| durable_job_gated: "job_validate_at job now = Inr () \<Longrightarrow> submit_job_gated K E T J job s = (r, s') \<Longrightarrow> \<not> failed r
    \<Longrightarrow> job_is_new job s \<Longrightarrow> durable_step K E s s'"
| durable_shards_gated: "shard_set_validate_at sset (sn_now senv) = Inr () \<Longrightarrow> submit_shard_set_gated K E senv pj sset s = (r, s')
    \<Longrightarrow> \<not> failed r \<Longrightarrow> (\<And>ps. json_value (pj ps)) \<Longrightarrow> shards_are_new sset s \<Longrightarrow> durable_step K E s s'"
| durable_claim: "claim_work K T busy n s = (r, s') \<Longrightarrow> \<not> failed r \<Longrightarrow> durable_step K E s s'"
| durable_receipt: "vc_from (kl_receipt K) v = Some er \<Longrightarrow> submit_receipt K T busy er s = (r, s') \<Longrightarrow> \<not> failed r
    \<Longrightarrow> durable_step K E s s'"
| durable_settle: "receipt_shape_ok er \<Longrightarrow> vc_from (kl_receipt K) v = Some er \<Longrightarrow> settle_receipt K T er s = (r, s')
    \<Longrightarrow> \<not> failed r \<Longrightarrow> durable_step K E s s'"
| durable_offer_evidence: "record_offer_evidence K T offer s = (r, s') \<Longrightarrow> durable_step K E s s'"
| durable_store_offer: "check_offer K T offer s0 = (Inr (), s0) \<Longrightarrow> store_offer offer s = (r, s') \<Longrightarrow> durable_step K E s s'"
| durable_diagnostics: "refresh_diagnostics K T D s = (r, s') \<Longrightarrow> durable_step K E s s'"
| durable_put: "put_artifact_handler K G penv request s = (r, s') \<Longrightarrow> durable_step K E s s'"
| durable_retrieve: "retrieve_artifact K E renv digest n s = (r, s') \<Longrightarrow> durable_step K E s s'"
| durable_replicate: "replicate_artifact K E now later genv copy s = (r, s') \<Longrightarrow> \<not> failed r \<Longrightarrow> durable_step K E s s'"
| durable_record: "record_event K now t subj v s = (r, s') \<Longrightarrow> t \<notin> set restore_event_types \<Longrightarrow> durable_step K E s s'"

lemma kept_step: "keeps_prop (authority_kept s) m \<Longrightarrow> m s = (r, s') \<Longrightarrow> handler_step K E s s'"
  by (rule step_other) (auto simp: authority_kept_def dest: keepsD)

lemma durable_is_step: "durable_step K E s s' \<Longrightarrow> controller_step K E s s'"
  by (induction rule: durable_step.induct)
    (auto intro: controller_step.intros handler_step.intros kept_step [OF kept.keeps_put_artifact] kept_step [OF kept.keeps_retrieve]
      kept_step [OF kept_replicate])

lemma durable_run:
  assumes "durable K {} m s" "m s = (r, s')" "\<not> failed r"
  shows "recovers K {} s'"
  using assms wp_run [of m "\<lambda>_. recovers K {}" _ s] by (cases r) (auto simp: durable_def failed_def)

lemma recovers_step:
  assumes K: "recovery_lib K" and "durable_step K E s s'" and s: "recovers K {} s" and ok: "controller_ok K UNIV s"
  shows "recovers K {} s'"
  using assms(2) s ok
  by cases (blast intro: durable_run durable_create_invite [OF K s] durable_enroll_node [OF K s] durable_revoke_node [OF K s]
      durable_submit_job [OF K s] durable_submit_shard_set [OF K s] durable_claim_work [OF K s ok] durable_submit_receipt [OF K s]
      durable_submit_job_gated [OF K s] durable_submit_shard_set_gated [OF K s] durable_settle_receipt [OF K s]
      durable_replicate_artifact [OF K s] keepsD [OF recovers_register_offer _ s] keepsD [OF recovers_local_stop _ s]
      keepsD [OF recovers_local_resume _ s] keepsD [OF keeps_recovers_record _ s] keepsD [OF recovers_offer_evidence _ s]
      keepsD [OF recovers_store_offer _ s] keepsD [OF recovers_refresh _ s] keepsD [OF restored.keeps_put_artifact _ s]
      keepsD [OF restored.keeps_retrieve _ s])+

interpretation recovery: invariant_system "durable_step K E"
    "\<lambda>s. fresh_controller s \<and> recovers K {} s" "\<lambda>s. recovery_lib K \<longrightarrow> controller_ok K UNIV s \<and> recovers K {} s" for K E
proof unfold_locales
  fix s assume "fresh_controller s \<and> recovers K {} s"
  then show "recovery_lib K \<longrightarrow> controller_ok K UNIV s \<and> recovers K {} s" using daemon.inv_start by blast
next
  fix s t assume "recovery_lib K \<longrightarrow> controller_ok K UNIV s \<and> recovers K {} s" "durable_step K E s t"
  then show "recovery_lib K \<longrightarrow> controller_ok K UNIV t \<and> recovers K {} t"
    using recovers_step controller_ok_step durable_is_step by blast
qed

text \<open>A daemon on a new ledger.\<close>

definition new_controller :: "'sk controller \<Rightarrow> bool" where
  "new_controller s \<longleftrightarrow> fresh_controller s \<and> kc_ledger s = open_ledger"

lemma new_controller_recovers: "new_controller s \<Longrightarrow> recovers K {} s"
  by (auto simp: new_controller_def fresh_controller_def recovers_def log_ok_def open_ledger_def numbered_def authority_def
      replayed_events_def agrees_def restored_empty_def live_assignments_def intro: fmap_ext)

lemma reachable_recovers:
  "recovery_lib K \<Longrightarrow> new_controller s0 \<Longrightarrow> (durable_step K E)\<^sup>*\<^sup>* s0 s \<Longrightarrow> controller_ok K UNIV s \<and> recovers K {} s"
  using recovery.inv_reachable [of s0 K E s] new_controller_recovers [of s0 K] by (auto simp: new_controller_def)

end
