(* ===== verification/Rampage_Daemon_Demo.thy ===== *)
theory Rampage_Daemon_Demo
  imports Rampage_Recovery Rampage_Audit Rampage_Execution "HOL-Library.Countable"
begin

text \<open>
  A concrete controller daemon: libraries that behave as documented, one worker, one offer, one job. The
  witnesses of the daemon's properties run on it.
\<close>

section \<open>Libraries that read back what they wrote\<close>

instance word :: (len) countable
  by (rule countable_classI [of unat]) (simp add: word_unat_eq_iff)

instance json :: countable by countable_datatype

instance device_kind :: countable by countable_datatype

instance resource_class :: countable by countable_datatype

instance storage_class :: countable by countable_datatype

instance workload_trust :: countable by countable_datatype

definition rank_request :: "resource_request \<Rightarrow> nat" where
  "rank_request r = to_nat (rr_class r, rr_minimum r, rr_preferred r, rr_unit r, rr_required_labels r)"

definition rank_quantity :: "resource_quantity \<Rightarrow> nat" where
  "rank_quantity q = to_nat (rq_class q, rq_capacity q, rq_available q, rq_unit q, rq_labels q)"

definition rank_artifact :: "artifact_ref \<Rightarrow> nat" where
  "rank_artifact a = to_nat (ar_schema a, ar_digest a, ar_size_bytes a, ar_media_type a, ar_storage_class a, ar_encrypted a)"

definition rank_identity :: "node_identity \<Rightarrow> nat" where
  "rank_identity i = to_nat (ni_schema i, ni_node_id i, ni_owner_id i, ni_display_name i, ni_device_kind i, ni_platform i,
     ni_public_key i, ni_enrolled_at i, ni_fencing_epoch i)"

definition rank_job :: "job_spec \<Rightarrow> nat" where
  "rank_job j = to_nat (js_schema j, js_job_id j, js_project_id j, js_submitted_by j, js_adapter j, js_operation j,
     js_arguments j, map rank_artifact (js_inputs j), map rank_request (js_requests j), js_trust j, js_restart_tolerant j,
     js_network_allowlist j, js_deadline j, js_idempotency_key j)"

definition rank_set :: "shard_set \<Rightarrow> nat" where
  "rank_set s = to_nat (ss_schema s, ss_set_id s, ss_project_id s, ss_submitted_by s, map rank_job (ss_shards s),
     ss_minimum_successes s, ss_deadline s, ss_idempotency_key s)"

definition rank_lease :: "capability_lease \<Rightarrow> nat" where
  "rank_lease l = to_nat (cl_schema l, cl_lease_id l, cl_job_id l, cl_node_id l, cl_project_id l, cl_adapter l, cl_operation l,
     cl_input_digests l, map rank_quantity (cl_granted l), cl_network_allowlist l, cl_issued_at l, cl_expires_at l, cl_nonce l,
     cl_fencing_epoch l, cl_signature l)"

lemma rank_inj:
  "inj rank_request" "inj rank_quantity" "inj rank_artifact" "inj rank_identity"
  by (auto simp: inj_def rank_request_def rank_quantity_def rank_artifact_def rank_identity_def)

lemma rank_inj_nested: "inj rank_job" "inj rank_lease"
  using rank_inj by (auto simp: inj_def rank_job_def rank_lease_def inj_map_eq_map [OF rank_inj(1)]
      inj_map_eq_map [OF rank_inj(2)] inj_map_eq_map [OF rank_inj(3)])

lemma rank_inj_set: "inj rank_set"
  by (auto simp: inj_def rank_set_def inj_map_eq_map [OF rank_inj_nested(1)])

text \<open>A value as a JSON string that encodes its rank.\<close>

definition rank_codec :: "('a \<Rightarrow> nat) \<Rightarrow> 'a value_codec" where
  "rank_codec f = \<lparr>vc_to = (\<lambda>x. JString (replicate (f x) (CHR ''1''))),
     vc_from = (\<lambda>v. map_option (\<lambda>s. inv f (length s)) (json_as_str v))\<rparr>"

lemma rank_codec_exact: "inj f \<Longrightarrow> codec_exact (rank_codec f)"
  by (simp add: codec_exact_def codec_ok_def rank_codec_def)

definition blank_codec :: "'a value_codec" where
  "blank_codec = \<lparr>vc_to = (\<lambda>_. JNull), vc_from = (\<lambda>_. None)\<rparr>"

text \<open>The receipt a document names; of a receipt the recovery needs its identifiers only.\<close>

definition blank_receipt :: execution_receipt where
  "blank_receipt = \<lparr>er_schema = [], er_receipt_id = 0, er_lease_id = 0, er_job_id = 0, er_node_id = 0, er_state = Failed,
     er_started_at = 0, er_finished_at = 0, er_outputs = [], er_metrics = fmempty, er_stdout_digest = None,
     er_stderr_digest = None, er_result = None, er_signature = []\<rparr>"

definition demo_receipt_codec :: "execution_receipt value_codec" where
  "demo_receipt_codec =
     \<lparr>vc_to = (\<lambda>r. JString (replicate (to_nat (er_receipt_id r, er_job_id r)) (CHR ''1''))),
      vc_from = (\<lambda>v. map_option (\<lambda>s. case from_nat (length s) of (i, j) \<Rightarrow>
        blank_receipt\<lparr>er_receipt_id := i, er_job_id := j\<rparr>) (json_as_str v))\<rparr>"

lemma similar_string: "json_similar (JString x) w \<Longrightarrow> w = JString x"
  by (rule similar_float_free) simp_all

lemma demo_receipt_codec_ok: "receipt_codec_ok demo_receipt_codec"
  by (auto simp: receipt_codec_ok_def demo_receipt_codec_def dest!: similar_string)

definition exact_ledger_lib :: ledger_lib where
  "exact_ledger_lib = \<lparr>ll_sha256_hex = id, ll_to_rfc3339 = demo_print_time,
     ll_to_rfc3339_nanos = (\<lambda>t. demo_print_time t @ ''Z''), ll_parse_rfc3339 = demo_parse_time,
     ll_json_to_string = (\<lambda>v. replicate (to_nat v) (CHR ''1'')), ll_json_from_str = (\<lambda>s. Some (from_nat (length s)))\<rparr>"

lemma exact_ledger_lib_ok: "time_format_ok exact_ledger_lib" "json_reads_back exact_ledger_lib"
  using demo_time_no_Z
  by (auto simp: time_format_ok_def json_reads_back_def exact_ledger_lib_def intro: similar_refl)

definition demo_control :: "unit control_lib" where
  "demo_control = \<lparr>kl_crypto = demo_crypto, kl_ledger = exact_ledger_lib, kl_cas = demo_cas,
     kl_uuid_text = (\<lambda>u. replicate (unat u) (CHR ''1'')), kl_parse_uuid = (\<lambda>s. Some (of_nat (length s))),
     kl_time_text = demo_print_time, kl_identity = rank_codec rank_identity, kl_job = rank_codec rank_job,
     kl_lease = rank_codec rank_lease, kl_shard_set = rank_codec rank_set, kl_receipt = demo_receipt_codec,
     kl_artifact = rank_codec rank_artifact, kl_replica_receipt = blank_codec, kl_offer = blank_codec,
     kl_benchmark = blank_codec, kl_claim = blank_codec, kl_score = blank_codec, kl_storage_lease = blank_codec,
     kl_assignment_order = (\<lambda>m. sorted_list_of_fset (fmdom m)), kl_offer_order = (\<lambda>m. sorted_list_of_fset (fmdom m)),
     kl_endpoint_id = ''controller'', kl_direct_addresses = [], kl_relay_urls = [],
     kl_ledger_text = (\<lambda>_. ''ledger''), kl_store_text = (\<lambda>_. ''store''), kl_mesh_text = (\<lambda>_. ''mesh'')\<rparr>"

lemma demo_recovery_lib: "recovery_lib demo_control"
  by (simp add: recovery_lib_def demo_control_def exact_ledger_lib_ok rank_codec_exact rank_inj rank_inj_nested rank_inj_set
      demo_receipt_codec_ok blank_codec_def) (simp add: exact_ledger_lib_def)

section \<open>Recording always succeeds here\<close>

text \<open>The digest of this library is the identity, so the number of an event is readable in its hash.\<close>

definition open_log :: "ledger \<Rightarrow> bool" where
  "open_log st \<longleftrightarrow> \<not> l_poisoned st \<and> numbered st \<and> length (l_rows st) < 1000
     \<and> (\<forall>r \<in> set (l_rows st). take 8 (lr_event_hash r) = to_be_bytes (lr_sequence r))"

lemma append_open_log:
  assumes "open_log st" "length (l_rows st) < 999"
  shows "\<exists>e st'. append_in_transaction exact_ledger_lib now t subj (Some v) st = Inr (e, st')
     \<and> open_log st' \<and> length (l_rows st') = Suc (length (l_rows st)) \<and> l_epochs st' = l_epochs st"
proof -
  let ?n = "l_autoincrement st + 1"
  have num: "numbered st" and hash: "\<forall>r \<in> set (l_rows st). take 8 (lr_event_hash r) = to_be_bytes (lr_sequence r)"
    and p: "\<not> l_poisoned st" using assms(1) by (simp_all add: open_log_def)
  have seq: "(case (if l_rows st = [] then None else Some (last (l_rows st))) of None \<Rightarrow> 1 | Some r \<Rightarrow> lr_sequence r + 1) = ?n"
    using numbered_last [OF num] numbered_empty [OF num] by simp
  have auto: "unat (l_autoincrement st) = length (l_rows st)" using num by (simp add: numbered_def)
  have small: "\<not> i64_max_u64 \<le> l_autoincrement st"
    using auto assms(2) by (simp add: word_le_nat_alt i64_max_def)
  have un: "unat ?n = Suc (length (l_rows st))" using auto assms(2) by (simp add: unat_word_ariths)
  have fresh: "h \<notin> lr_event_hash ` set (l_rows st)" if "take 8 h = to_be_bytes ?n" for h
  proof
    assume "h \<in> lr_event_hash ` set (l_rows st)"
    then obtain i where i: "i < length (l_rows st)" "h = lr_event_hash (l_rows st ! i)" by (auto simp: in_set_conv_nth)
    then have "to_be_bytes (lr_sequence (l_rows st ! i)) = to_be_bytes ?n" using hash that by simp
    then have "unat (lr_sequence (l_rows st ! i)) = unat ?n" using to_be_bytes_inject by metis
    then show False using numbered_nth [OF num i(1)] un i(1) by simp
  qed
  let ?h = "\<lambda>prev. calculate_hash exact_ledger_lib ?n now t subj (ll_json_to_string exact_ledger_lib v) prev"
  have take: "take 8 (?h prev) = to_be_bytes ?n" for prev
    by (simp add: calculate_hash_def hash_preimage_def exact_ledger_lib_def)
  obtain e st' where a: "append_in_transaction exact_ledger_lib now t subj (Some v) st = Inr (e, st')"
    unfolding append_in_transaction_def Let_def seq using small fresh [OF take] by (simp add: seq)
  obtain r where r: "l_rows st' = l_rows st @ [r]" "lr_sequence r = ?n"
      "lr_event_hash r = calculate_hash exact_ledger_lib (lr_sequence r) now t subj (ll_json_to_string exact_ledger_lib v)
         (tail_hash GENESIS_HASH (l_rows st))"
    using append_in_transaction_Inr(1) [OF a num] by blast
  have "\<not> l_poisoned st'" using a p by (auto simp: append_in_transaction_def Let_def split: if_splits)
  with r hash assms(2) take append_numbered [OF a num] have "open_log st'" by (auto simp: open_log_def)
  then show ?thesis using a r append_epochs [OF a] by simp
qed

text \<open>Room for \<open>n\<close> more events.\<close>

definition room :: "nat \<Rightarrow> ledger \<Rightarrow> bool" where
  "room n st \<longleftrightarrow> open_log st \<and> length (l_rows st) + n < 999"

lemma room_Suc: "room (Suc n) st \<Longrightarrow> room n st"
  by (simp add: room_def)

lemma demo_record:
  assumes "room (Suc n) (kc_ledger s)"
  obtains st' where "record_event demo_control now t subj v s = (Inr (), s\<lparr>kc_ledger := st'\<rparr>)" "room n st'"
    "l_epochs st' = l_epochs (kc_ledger s)"
proof -
  have o: "open_log (kc_ledger s)" "length (l_rows (kc_ledger s)) < 999" using assms by (auto simp: room_def)
  obtain e st' where st': "append_in_transaction exact_ledger_lib now t subj (Some v) (kc_ledger s) = Inr (e, st')" "open_log st'"
      "length (l_rows st') = Suc (length (l_rows (kc_ledger s)))" "l_epochs st' = l_epochs (kc_ledger s)"
    using append_open_log [OF o] by blast
  have "record_event demo_control now t subj v s = (Inr (), s\<lparr>kc_ledger := st'\<rparr>)"
    using st'(1) o(1) by (simp add: record_event_def append_event_def demo_control_def open_log_def)
  then show thesis using st' assms by (intro that [of st']) (auto simp: room_def)
qed

section \<open>One worker, one offer, one job\<close>

definition demo_daemon :: "unit controller" where
  "demo_daemon = \<lparr>kc_ledger = open_ledger, kc_governor = demo_governor False, kc_offers = fmempty,
     kc_offer_evidence_recorded_at = fmempty, kc_nodes = fmempty, kc_invites = fmempty, kc_assignments = fmempty,
     kc_idempotency = fmempty, kc_local_enrollment_enabled = True, kc_kill_latch = NoLatch, kc_stop_marker = None,
     kc_reservations = [], kc_admission_policy = admission_policy_default, kc_completed_receipts = fmempty,
     kc_shard_sets = fmempty, kc_artifact_replicas = fmempty, kc_replica_evidence = fmempty, kc_artifact_store = demo_store,
     kc_fencing_epoch = 0, kc_model_cancellations = fmempty, kc_excluded_nodes = {||}, kc_remote_desktop_sessions = fmempty\<rparr>"

definition demo_enrollment :: enrollment_request where
  "demo_enrollment = sign_enrollment demo_crypto () \<lparr>en_schema = ''rampage.enrollment-request.v1'', en_invite_id = 5,
     en_enrollment_code = replicate 32 (CHR ''0''), en_identity = demo_identity, en_signature = []\<rparr>"

definition demo_worker_offer :: resource_offer where
  "demo_worker_offer = sign_offer demo_crypto () ((demo_offer [demo_cpu ''core'' (fmap_of_list [(''device_kind'', ''laptop'')])])
     \<lparr>ro_mesh_endpoint := None\<rparr>)"

definition demo_work_job :: job_spec where
  "demo_work_job = (demo_job [demo_request fmempty])\<lparr>js_arguments := fmap_of_list [(''value'', ''x'')]\<rparr>"

definition demo_work_lease :: capability_lease where
  "demo_work_lease = (case authorize_job_at_epoch demo_crypto (demo_governor False) 0 1 ''n'' demo_work_job demo_worker_offer 7 0 of
     Some (Inr lease) \<Rightarrow> lease)"

definition demo_member :: "ledger \<Rightarrow> unit controller" where
  "demo_member st = demo_daemon\<lparr>kc_nodes := fmupd 7 demo_identity fmempty, kc_ledger := st\<rparr>"

definition demo_offering :: "ledger \<Rightarrow> unit controller" where
  "demo_offering st = (demo_member st)\<lparr>kc_offers := fmupd 7 demo_worker_offer fmempty,
     kc_offer_evidence_recorded_at := fmupd 7 0 fmempty\<rparr>"

definition demo_assigned :: "bool \<Rightarrow> ledger \<Rightarrow> unit controller" where
  "demo_assigned claimed st = (demo_offering st)\<lparr>kc_idempotency := fmupd ''k'' 11 fmempty,
     kc_assignments := fmupd 11 \<lparr>as_job = demo_work_job, as_lease = demo_work_lease, as_claimed = claimed\<rparr> fmempty,
     kc_reservations := job_reservations demo_work_job 7 (cl_expires_at demo_work_lease)\<rparr>"

lemmas demo_states = demo_assigned_def demo_offering_def demo_member_def demo_daemon_def

abbreviation noon :: clock where
  "noon \<equiv> (\<lambda>_. 0)"

lemma demo_new: "new_controller demo_daemon"
  by (simp add: new_controller_def fresh_controller_def demo_daemon_def stored_epoch_def open_ledger_def unwrap_or_def)

lemma demo_room: "room 900 (kc_ledger demo_daemon)"
  by (simp add: room_def open_log_def demo_daemon_def open_ledger_def numbered_def)

lemma demo_crypto_of: "kl_crypto demo_control = demo_crypto"
  by (simp add: demo_control_def)

lemma demo_enrollment_verifies: "verify_enrollment demo_crypto demo_enrollment = Inr ()"
proof -
  have "verify_contract_signature demo_crypto (public_hex demo_crypto ()) (sign_hex demo_crypto () m) m = Inr ()" for m
    by (rule sign_hex_verifies [OF demo_crypto_ok])
  moreover have "length (public_hex demo_crypto ()) = 64" "list_all is_lower_hex_digit (public_hex demo_crypto ())"
    by (simp_all add: public_hex_def crypto_laws [OF demo_crypto_ok])
  moreover from this(2) have "list_all is_ascii_hexdigit (public_hex demo_crypto ())"
    by (rule list.pred_mono_strong) (auto simp: is_lower_hex_digit_def is_ascii_hexdigit_def)
  moreover have "is_ascii_hexdigit (CHR ''0'')"
    by (simp add: is_lower_hex_digit_def is_ascii_hexdigit_def is_ascii_digit_def byte_def)
  ultimately show ?thesis
    by (simp add: verify_enrollment_def demo_enrollment_def sign_enrollment_def is_valid_for_enrollment_def demo_identity_def
        is_ascii_def ws1_def ws2_def ws3_def byte_def)
qed

text \<open>Runs that answer.\<close>

lemma wp_answers: "wp m Q (\<lambda>_ _. False) s \<Longrightarrow> \<exists>x s'. m s = (Inr x, s') \<and> Q x s'"
  by (auto simp: wp_def split: prod.splits sum.splits)

lemma wp_demo_record:
  assumes "room (Suc n) (kc_ledger s)"
    and "\<And>st'. room n st' \<Longrightarrow> l_epochs st' = l_epochs (kc_ledger s) \<Longrightarrow> Q () (s\<lparr>kc_ledger := st'\<rparr>)"
  shows "wp (record_event demo_control now t subj v) Q E s"
proof -
  obtain st' where "record_event demo_control now t subj v s = (Inr (), s\<lparr>kc_ledger := st'\<rparr>)" "room n st'"
    "l_epochs st' = l_epochs (kc_ledger s)" using demo_record [OF assms(1)] .
  then show ?thesis using assms(2) by (simp add: wp_def)
qed

lemmas demo_wp = wp_atoms wp_require wp_from_option wp_from_result wp_bind wp_map_error wp_if

lemma not_failed_Inr [simp]: "\<not> failed (Inr x)"
  by (simp add: failed_def)

text \<open>The worker joins.\<close>

lemma demo_invited:
  "wp (create_invite demo_control noon 5 secret)
     (\<lambda>_ s'. \<exists>st. room 899 st \<and> l_epochs st = Map.empty \<and> s' = demo_daemon\<lparr>kc_invites :=
        fmupd 5 \<lparr>iv_secret_hash = hash_secret demo_control secret, iv_expires_at = seconds 600\<rparr> fmempty, kc_ledger := st\<rparr>)
     (\<lambda>_ _. False) demo_daemon"
  unfolding create_invite_def store_invite_def Let_def
  by (simp add: demo_wp demo_daemon_def) (rule wp_demo_record [of 899], use demo_room in \<open>auto simp: demo_daemon_def open_ledger_def\<close>)

lemma fmdrop_single: "fmdrop k (fmupd k v fmempty) = fmempty"
  by (rule fmap_ext) simp

lemma demo_enrolled:
  assumes "room 899 st"
  shows "wp (enroll_node demo_control noon demo_enrollment)
     (\<lambda>_ s'. \<exists>st'. room 897 st' \<and> l_epochs st' = l_epochs st \<and> s' = demo_member st') (\<lambda>_ _. False)
     (demo_daemon\<lparr>kc_invites := fmupd 5 \<lparr>iv_secret_hash = hash_secret demo_control (replicate 32 (CHR ''0'')), iv_expires_at = seconds 600\<rparr>
        fmempty, kc_ledger := st\<rparr>)" (is "wp _ _ _ ?s")
proof -
  have e: "en_schema demo_enrollment = ''rampage.enrollment-request.v1''" "en_invite_id demo_enrollment = 5"
    "en_enrollment_code demo_enrollment = replicate 32 (CHR ''0'')" "en_identity demo_enrollment = demo_identity"
    by (simp_all add: demo_enrollment_def sign_enrollment_def)
  have i: "ni_node_id demo_identity = 7" by (simp add: demo_identity_def)
  have take: "wp (take_invite 5) Q E ?s = Q \<lparr>iv_secret_hash = hash_secret demo_control (replicate 32 (CHR ''0'')), iv_expires_at = seconds 600\<rparr>
      (demo_daemon\<lparr>kc_ledger := st\<rparr>)" for Q E
    by (simp add: wp_def take_invite_def from_option_def answer_def demo_daemon_def fmdrop_single)
  have t: "0 < seconds 600" by (simp add: seconds_def nanos_per_second_def)
  show ?thesis
    unfolding enroll_node_def store_identity_def Let_def
    by (simp add: demo_wp take e demo_crypto_of demo_enrollment_verifies t i)
      (rule wp_demo_record [of 898], use assms in simp,
       simp add: demo_wp, rule wp_demo_record [of 897], simp,
       auto simp: demo_states)
qed

text \<open>It offers its processors.\<close>

lemma demo_offer_fields:
  "ro_node_id demo_worker_offer = 7" "ro_mesh_endpoint demo_worker_offer = None" "ro_link_benchmark demo_worker_offer = None"
  "ro_expires_at demo_worker_offer = seconds 30" "ro_workload_capabilities demo_worker_offer = []"
  "ro_model_runtimes demo_worker_offer = []" "ro_signature demo_worker_offer \<noteq> []"
  "ro_resources demo_worker_offer = [demo_cpu ''core'' (fmap_of_list [(''device_kind'', ''laptop'')])]"
  "ro_adapters demo_worker_offer = {|''rampage.hash.v1'', ''rampage.remote-assist.v1'', ''rampage.ollama.v1''|}"
  "ro_availability demo_worker_offer = demo_availability"
  by (simp_all add: demo_worker_offer_def sign_offer_def demo_offer_def sign_hex_nonempty [OF demo_crypto_ok])

lemma demo_offer_verifies: "verify_offer demo_crypto demo_identity demo_worker_offer = Inr ()"
  using sign_hex_verifies [OF demo_crypto_ok]
  by (simp add: verify_offer_def demo_worker_offer_def sign_offer_def demo_offer_def demo_identity_def)

lemma demo_offered:
  assumes "room 897 st"
  shows "wp (register_offer demo_control noon demo_worker_offer)
     (\<lambda>_ s'. \<exists>st'. room 896 st' \<and> l_epochs st' = l_epochs st \<and> s' = demo_offering st') (\<lambda>_ _. False) (demo_member st)"
proof -
  have t: "0 < seconds 30" by (simp add: seconds_def nanos_per_second_def)
  have v: "validate_offer_identity_binding demo_identity demo_worker_offer = Inr ()"
    by (simp add: validate_offer_identity_binding_def demo_offer_fields demo_cpu_def demo_identity_def)
  have m: "validate_model_runtime_contracts demo_worker_offer = Inr ()"
    by (simp add: validate_model_runtime_contracts_def demo_offer_fields)
  have s: "fmlookup (kc_nodes (demo_member st)) 7 = Some demo_identity"
    "kc_offer_evidence_recorded_at (demo_member st) = fmempty" "kc_ledger (demo_member st) = st" by (simp_all add: demo_states)
  show ?thesis
    unfolding register_offer_def store_offer_def check_offer_def check_offer_endpoint_def record_offer_evidence_def
    by (simp add: demo_wp demo_offer_fields t v m s demo_crypto_of demo_offer_verifies should_record_offer_evidence_def)
      (rule wp_demo_record [of 896], use assms in \<open>simp add: s\<close>, auto simp: demo_wp demo_states)
qed

text \<open>The owner submits a job.\<close>

lemma demo_job_fields:
  "js_job_id demo_work_job = 11" "js_inputs demo_work_job = []" "js_requests demo_work_job = [demo_request fmempty]"
  "js_idempotency_key demo_work_job = ''k''" "js_adapter demo_work_job = ''rampage.hash.v1''"
  "js_operation demo_work_job = ''hash''" "js_arguments demo_work_job = fmap_of_list [(''value'', ''x'')]"
  by (simp_all add: demo_work_job_def demo_job_def)

lemma demo_job_valid: "job_validate_at demo_work_job 0 = Inr ()"
  by (simp add: job_validate_at_def demo_work_job_def demo_job_def demo_request_def ws1_def byte_def)
    (simp add: seconds_def nanos_per_second_def)

lemma demo_work_admitted: "check_job_at (gov_config (demo_governor False)) demo_work_job demo_worker_offer 7 0 = Inr ()"
  using demo_job_valid
  by (simp add: admission_defs(1,3-8) demo_offer_fields demo_job_fields demo_cpu_def demo_request_def demo_governor_def
      governor_config_default_def demo_availability_def)
    (simp add: demo_work_job_def demo_job_def seconds_def nanos_per_second_def)

lemma demo_work_authorized:
  "authorize_job_at_epoch demo_crypto (demo_governor False) 0 1 ''n'' demo_work_job demo_worker_offer 7 0 = Some (Inr demo_work_lease)"
proof -
  obtain lease where "authorize_job_at_epoch demo_crypto (demo_governor False) 0 1 ''n'' demo_work_job demo_worker_offer 7 0 = Some (Inr lease)"
    using demo_work_admitted grants_exist [OF demo_work_admitted] by (auto simp: authorize_job_at_epoch_def Let_def)
  then show ?thesis by (simp add: demo_work_lease_def)
qed

lemmas demo_lease_facts = authorize_job_cases [OF demo_work_authorized]

lemma demo_offer_fits:
  "\<exists>score. choose_offer_with_topology demo_work_job [demo_worker_offer] [] admission_policy_default 0 loc = Some (demo_worker_offer, score)"
proof -
  have "ps_satisfies (score_offer_with_admission demo_work_job demo_worker_offer [] admission_policy_default 0)"
    by (simp add: admission_exact demo_offer_fields demo_job_fields request_fits_def offered_resource_def demo_cpu_def
        demo_request_def labels_match_def free_amount_def booked_def guardband_def owner_reserve_def
        admission_policy_default_def sat_mul_def unwrap_or_def)
  then show ?thesis by (simp add: choose_offer_with_topology_def choose_best_def topology_satisfies)
qed

lemma sorted_single [simp]: "sorted_list_of_fset {|x|} = [x]"
  by (simp add: sorted_list_of_fset.rep_eq)

text \<open>The part under the gate looks neither at the latch nor at the registry of nodes.\<close>

lemma wp_demo_submit_gated:
  assumes "room 896 st"
  shows "wp (submit_job_gated demo_control E noon \<lparr>jb_lease_id = 1, jb_nonce = ''n'', jb_stage = stages\<rparr> demo_work_job)
     (\<lambda>r s'. r = (True, demo_work_lease) \<and> (\<exists>st'. room 894 st' \<and> l_epochs st' = l_epochs st
        \<and> s' = (demo_assigned False st')\<lparr>kc_nodes := nodes, kc_kill_latch := latch\<rparr>))
     (\<lambda>_ _. False) ((demo_offering st)\<lparr>kc_nodes := nodes, kc_kill_latch := latch\<rparr>)"
proof -
  let ?s = "(demo_offering st)\<lparr>kc_nodes := nodes, kc_kill_latch := latch\<rparr>"
  have o: "placement_offers demo_control ?s = [demo_worker_offer]"
    by (simp add: placement_offers_def values_in_order_def demo_states demo_control_def List.map_filter_def)
  obtain score where c: "choose_offer_with_topology demo_work_job [demo_worker_offer] [] admission_policy_default 0
      (input_locality ?s [demo_worker_offer] demo_work_job) = Some (demo_worker_offer, score)"
    using demo_offer_fits by blast
  have s: "existing_assignment demo_work_job ?s = None" "kc_reservations ?s = []"
    "kc_admission_policy ?s = admission_policy_default" "kc_ledger ?s = st"
    by (simp_all add: existing_assignment_def demo_states)
  let ?Q = "\<lambda>r s'. r = (True, demo_work_lease) \<and> (\<exists>st'. room 894 st' \<and> l_epochs st' = l_epochs st
        \<and> s' = (demo_assigned False st')\<lparr>kc_nodes := nodes, kc_kill_latch := latch\<rparr>)"
  have adm: "wp (admit_job demo_control E noon \<lparr>jb_lease_id = 1, jb_nonce = ''n'', jb_stage = stages\<rparr> demo_work_job demo_worker_offer score)
      ?Q (\<lambda>_ _. False) (?s\<lparr>kc_ledger := st1\<rparr>)" if "room 895 st1" "l_epochs st1 = l_epochs st" for st1
    using that
    by (simp add: admit_job_def demo_wp wp_authorize_or_refuse demo_crypto_of demo_states demo_work_authorized demo_offer_fields
        stage_job_inputs_def demo_job_fields)
      (rule wp_demo_record [of 894], simp,
       auto simp: demo_wp demo_states assign_def drop_expired_reservations_def demo_job_fields demo_lease_facts)
  show ?thesis
    unfolding submit_job_gated_def Let_def wp_atoms(5) s(1-3) o c option.case prod.case wp_bind
    by (rule wp_demo_record [of 895]) (use assms s(4) adm in simp_all)
qed

lemma wp_demo_submit:
  assumes "room 896 st"
  shows "wp (submit_job demo_control E noon \<lparr>jb_lease_id = 1, jb_nonce = ''n'', jb_stage = stages\<rparr> demo_work_job)
     (\<lambda>r s'. r = (True, demo_work_lease) \<and> (\<exists>st'. room 894 st' \<and> l_epochs st' = l_epochs st \<and> s' = demo_assigned False st'))
     (\<lambda>_ _. False) (demo_offering st)"
proof -
  have "\<not> kill_latch_is_file (demo_offering st)" by (simp add: kill_latch_is_file_def demo_states)
  moreover have "(demo_offering st)\<lparr>kc_nodes := fmupd 7 demo_identity fmempty, kc_kill_latch := NoLatch\<rparr> = demo_offering st"
    "(demo_assigned False st')\<lparr>kc_nodes := fmupd 7 demo_identity fmempty, kc_kill_latch := NoLatch\<rparr> = demo_assigned False st'" for st'
    by (simp_all add: demo_states)
  ultimately show ?thesis
    using wp_demo_submit_gated [OF assms, of E stages NoLatch "fmupd 7 demo_identity fmempty"]
    by (simp add: submit_job_def wp_atoms(5) wp_bind wp_require wp_from_result demo_job_valid)
qed

text \<open>The worker claims it, executes it, and reports.\<close>

lemma demo_claimable: "claimable 7 0 (demo_assigned False st) \<lparr>as_job = demo_work_job, as_lease = demo_work_lease, as_claimed = False\<rparr>"
  using job_lease_authentic_window [OF demo_crypto_ok demo_work_authorized, of 0 0] expires_after_now [OF demo_work_admitted]
  by (simp add: claimable_def demo_states demo_lease_facts seconds_def nanos_per_second_def)

lemma wp_demo_claim:
  assumes "room 894 st"
  shows "wp (claim_work demo_control noon False 7)
     (\<lambda>r s'. r = Some (work_claim_of demo_control (demo_assigned False st)
           \<lparr>as_job = demo_work_job, as_lease = demo_work_lease, as_claimed = False\<rparr>)
        \<and> (\<exists>st'. room 893 st' \<and> l_epochs st' = l_epochs st \<and> s' = demo_assigned True st'))
     (\<lambda>_ _. False) (demo_assigned False st)"
proof -
  let ?s = "demo_assigned False st"
  have n: "next_claim demo_control 7 0 ?s = Some (11, \<lparr>as_job = demo_work_job, as_lease = demo_work_lease, as_claimed = False\<rparr>)"
    using demo_claimable [of st] unfolding next_claim_def
    by (simp add: demo_assigned_def demo_control_def List.map_filter_def)
  have s: "\<not> kill_latch_is_file ?s" "7 |\<in>| fmdom (kc_nodes ?s)" "kc_ledger ?s = st"
    by (simp_all add: kill_latch_is_file_def demo_states)
  show ?thesis
    unfolding claim_work_def
    by (simp add: demo_wp s n) (rule wp_demo_record [of 893], use assms in \<open>simp add: s\<close>, auto simp: demo_wp demo_states intro: fmap_ext)
qed

lemma demo_work_claim_checks:
  "check_claim demo_worker_lib (work_claim_of demo_control (demo_assigned False st)
     \<lparr>as_job = demo_work_job, as_lease = demo_work_lease, as_claimed = False\<rparr>) 7 0 0 = Inr ()"
  using demo_claimable [of st] job_lease_authentic_window [OF demo_crypto_ok demo_work_authorized, of 0 0]
  by (simp add: check_claim_def work_claim_of_def demo_control_def demo_worker_lib_def demo_lease_facts claimable_def demo_states)

text \<open>The whole way from a new daemon to a claimed job.\<close>

definition demo_endpoints :: "(unit, unit) endpoint_lib" where
  "demo_endpoints = \<lparr>el_parse_id = (\<lambda>_. Some ()), el_parse_relay = (\<lambda>_. Some ())\<rparr>"

definition demo_stage :: stage_env where
  "demo_stage = \<lparr>sg_now = 0, sg_append_now = 0, sg_verify_now = 0, sg_recorded_now = 0, sg_lease_id = 2, sg_nonce = ''s'',
     sg_request = (\<lambda>_. 3), sg_challenge = (\<lambda>_. ''c''), sg_begin = (\<lambda>_ _. Inl Transport), sg_chunk = (\<lambda>_ _ _. Inl Transport),
     sg_commit = (\<lambda>_ _. Inl Transport)\<rparr>"

definition demo_job_env :: job_env where
  "demo_job_env = \<lparr>jb_lease_id = 1, jb_nonce = ''n'', jb_stage = (\<lambda>_. demo_stage)\<rparr>"

lemma demo_daemon_run:
  obtains st3 st4 st5 where "(durable_step demo_control demo_endpoints)\<^sup>*\<^sup>* demo_daemon (demo_offering st3)"
    "(durable_step demo_control demo_endpoints)\<^sup>*\<^sup>* demo_daemon (demo_assigned False st4)"
    "(durable_step demo_control demo_endpoints)\<^sup>*\<^sup>* demo_daemon (demo_assigned True st5)"
    "submit_job demo_control demo_endpoints noon demo_job_env demo_work_job (demo_offering st3)
       = (Inr (True, demo_work_lease), demo_assigned False st4)"
    "claim_work demo_control noon False 7 (demo_assigned False st4) = (Inr (Some (work_claim_of demo_control (demo_assigned False st4)
       \<lparr>as_job = demo_work_job, as_lease = demo_work_lease, as_claimed = False\<rparr>)), demo_assigned True st5)"
    "room 896 st3" "room 894 st4" "room 893 st5" "l_epochs st3 = Map.empty" "l_epochs st4 = Map.empty" "l_epochs st5 = Map.empty"
    "(handler_step demo_control demo_endpoints)\<^sup>*\<^sup>* demo_daemon (demo_offering st3)"
proof -
  let ?S = "durable_step demo_control demo_endpoints" and ?H = "handler_step demo_control demo_endpoints"
  let ?zeros = "replicate 32 (CHR ''0'')"
  obtain x1 s1 st1 where r1: "create_invite demo_control noon 5 ?zeros demo_daemon = (Inr x1, s1)" "room 899 st1" "l_epochs st1 = Map.empty"
    and s1: "s1 = demo_daemon\<lparr>kc_invites :=
        fmupd 5 \<lparr>iv_secret_hash = hash_secret demo_control ?zeros, iv_expires_at = seconds 600\<rparr> fmempty, kc_ledger := st1\<rparr>"
    using wp_answers [OF demo_invited [of ?zeros]] by blast
  obtain x2 st2 where r2: "enroll_node demo_control noon demo_enrollment s1 = (Inr x2, demo_member st2)" "room 897 st2"
      "l_epochs st2 = Map.empty"
    using wp_answers [OF demo_enrolled [OF r1(2)]] r1(3) unfolding s1 by auto
  obtain x3 st3 where r3: "register_offer demo_control noon demo_worker_offer (demo_member st2) = (Inr x3, demo_offering st3)" "room 896 st3"
      "l_epochs st3 = Map.empty"
    using wp_answers [OF demo_offered [OF r2(2)]] r2(3) by auto
  obtain st4 where r4: "submit_job demo_control demo_endpoints noon demo_job_env demo_work_job
      (demo_offering st3) = (Inr (True, demo_work_lease), demo_assigned False st4)" "room 894 st4" "l_epochs st4 = Map.empty"
    using wp_answers [OF wp_demo_submit [OF r3(2), where E = demo_endpoints and stages = "\<lambda>_. demo_stage"]] r3(3)
    by (auto simp: demo_job_env_def)
  obtain st5 where r5: "claim_work demo_control noon False 7 (demo_assigned False st4) =
      (Inr (Some (work_claim_of demo_control (demo_assigned False st4)
       \<lparr>as_job = demo_work_job, as_lease = demo_work_lease, as_claimed = False\<rparr>)), demo_assigned True st5)" "room 893 st5"
      "l_epochs st5 = Map.empty"
    using wp_answers [OF wp_demo_claim [OF r4(2)]] r4(3) by auto
  have new: "job_is_new demo_work_job (demo_offering st3)" by (simp add: job_is_new_def demo_states)
  have "?S demo_daemon s1" using r1(1) by (rule durable_invite) simp
  moreover have "?S s1 (demo_member st2)" using r2(1) by (rule durable_enroll) simp
  moreover have "?S (demo_member st2) (demo_offering st3)" using r3(1) by (rule durable_offer)
  ultimately have 3: "?S\<^sup>*\<^sup>* demo_daemon (demo_offering st3)" by auto
  have "?H demo_daemon s1" "?H s1 (demo_member st2)" "?H (demo_member st2) (demo_offering st3)"
    using step_invite [OF r1(1)] step_enroll [OF r2(1)] step_offer [OF r3(1)] .
  then have H: "?H\<^sup>*\<^sup>* demo_daemon (demo_offering st3)" by auto
  have 34: "?S (demo_offering st3) (demo_assigned False st4)" using r4(1) by (rule durable_job) (simp, rule new)
  have 45: "?S (demo_assigned False st4) (demo_assigned True st5)" using r5(1) by (rule durable_claim) simp
  show thesis
    using r3(2,3) r4 r5 3 H rtranclp.rtrancl_into_rtrancl [OF 3 34]
      rtranclp.rtrancl_into_rtrancl [OF rtranclp.rtrancl_into_rtrancl [OF 3 34] 45] by (intro that)
qed

lemma demo_history:
  obtains st H where "daemon_run demo_control demo_endpoints H (demo_assigned True st)"
proof -
  let ?H = "handler_step demo_control demo_endpoints"
  obtain st3 st4 st5 where d: "(durable_step demo_control demo_endpoints)\<^sup>*\<^sup>* demo_daemon (demo_offering st3)"
      "submit_job demo_control demo_endpoints noon demo_job_env demo_work_job (demo_offering st3)
       = (Inr (True, demo_work_lease), demo_assigned False st4)"
      "claim_work demo_control noon False 7 (demo_assigned False st4) = (Inr (Some (work_claim_of demo_control (demo_assigned False st4)
       \<lparr>as_job = demo_work_job, as_lease = demo_work_lease, as_claimed = False\<rparr>)), demo_assigned True st5)"
      "?H\<^sup>*\<^sup>* demo_daemon (demo_offering st3)"
    using demo_daemon_run by metis
  have "?H (demo_offering st3) (demo_assigned False st4)" "?H (demo_assigned False st4) (demo_assigned True st5)"
    using step_job [OF d(2)] step_claim [OF d(3)] .
  then have "?H\<^sup>*\<^sup>* demo_daemon (demo_assigned True st5)" using d(4) by auto
  then show thesis
    using handler_steps_run [of demo_control demo_endpoints demo_daemon] demo_new that by (auto simp: new_controller_def)
qed

lemma steps_are_steps: "(durable_step K E)\<^sup>*\<^sup>* s s' \<Longrightarrow> (controller_step K E)\<^sup>*\<^sup>* s s'"
  by (induction rule: rtranclp_induct) (auto intro: rtranclp.rtrancl_into_rtrancl durable_is_step)

text \<open>The owner stops the fabric.\<close>

definition demo_disk :: latch_env where
  "demo_disk = \<lparr>xe_create_latch = None, xe_latch_left = False, xe_write_marker = None, xe_marker_left = None,
     xe_remove_marker = None, xe_remove_latch = None\<rparr>"

lemma wp_demo_advance:
  assumes "room (Suc n) (kc_ledger s)" "l_epochs (kc_ledger s) = Map.empty"
    and "\<And>st'. room n st' \<Longrightarrow> Q 1 (s\<lparr>kc_ledger := st', kc_fencing_epoch := 1\<rparr>)"
  shows "wp (advance_epoch demo_control now) Q E s"
proof -
  let ?st = "(kc_ledger s)\<lparr>l_epochs := [''controller'' \<mapsto> 1]\<rparr>"
  have o: "open_log ?st" "length (l_rows ?st) < 999" "\<not> l_poisoned (kc_ledger s)"
    using assms(1) by (auto simp: room_def open_log_def)
  obtain e st' where st': "append_in_transaction exact_ledger_lib now ''authority.epoch.advanced'' ''controller'' (Some (epoch_payload 1)) ?st
      = Inr (e, st')" "open_log st'" "length (l_rows st') = Suc (length (l_rows (kc_ledger s)))"
    using append_open_log [OF o(1,2), of now "''authority.epoch.advanced''" "''controller''" "epoch_payload 1"] by auto
  have "checked_add (0 :: u64) 1 = Some 1" by (simp add: checked_add_def)
  moreover have "(1 :: u64) \<le> i64_max_u64" by (simp add: i64_max_u64_def)
  ultimately have "advance_fencing_epoch exact_ledger_lib now ''controller'' (kc_ledger s) = Inr (1, st')"
    using st'(1) o(3) assms(2) by (simp add: advance_fencing_epoch_def)
  then have "advance_epoch demo_control now s = (Inr 1, s\<lparr>kc_ledger := st', kc_fencing_epoch := 1\<rparr>)"
    by (simp add: advance_epoch_def demo_control_def)
  moreover have "room n st'" using st'(2,3) assms(1) by (simp add: room_def)
  ultimately show ?thesis using assms(3) by (simp add: wp_def)
qed

lemma demo_stop:
  assumes "room 893 st" "l_epochs st = Map.empty"
  shows "\<exists>s'. local_stop demo_control noon demo_disk (demo_assigned c st) = (Inr (False, 1), s')"
proof -
  have "wp (local_stop demo_control noon demo_disk) (\<lambda>r _. r = (False, 1)) (\<lambda>_ _. False) (demo_assigned c st)"
    unfolding local_stop_def set_kill_latch_def write_stop_epoch_marker_def
    by (simp add: demo_wp demo_disk_def kill_latch_is_file_def demo_states)
      (rule wp_demo_advance [of 892], use assms in simp, use assms in simp, simp add: demo_wp, rule wp_demo_record [of 891], simp, simp add: demo_wp)
  from wp_answers [OF this] show ?thesis by auto
qed

end
