(* ===== verification/Rampage_Daemon.thy ===== *)
theory Rampage_Daemon
  imports Rampage_Daemon_Demo
begin

text \<open>
  The properties of the controller daemon: what a restart recovers, what every assignment was authorised
  for, what the owner's stop fences, how a job is claimed, executed and reported, what remote workers can
  reach, and that a shard set is admitted as a whole or not at all.
\<close>

section \<open>Restart\<close>



text \<open>Without the condition on job identifiers the replay differs: a job identifier that is submitted again under another
  idempotency key gets a new lease, which replaces the old one in the daemon. When the new lease is dead at the restart and
  the old one is not, the replay restores the old one.\<close>

lemma superseded_lease_is_restored:
  assumes "lease_is_live env old" "\<not> lease_is_live env new" "cl_job_id old = k" "cl_job_id new = k" "jobs k = Some job"
    and "js_job_id job' = k"
  shows "fmlookup (ra_assignments (replay_lease env jobs' new (replay_lease env jobs old acc))) k
      = Some \<lparr>as_job = job, as_lease = old, as_claimed = False\<rparr>"
    and "fmlookup (kc_assignments (assign job' new n s)) k = Some \<lparr>as_job = job', as_lease = new, as_claimed = False\<rparr>"
  using assms by (simp_all add: replay_lease_def)



section \<open>Assignments\<close>

text \<open>
  C2. Every assignment the daemon holds was authorised. In every state of every run, in which handlers fail at any point
  and in which jobs, shard sets, offers, enrollments and receipts are overtaken by other handlers between their checks and their
  effect, an assignment stands under the identifier of its job; its lease verifies under the Governor's key and belongs to that
  job, adapter and operation; the node of the lease had an offer that passed the checks of the daemon in a state of the run, in
  which the node was enrolled with the key that signed the offer; the lease grants exactly the minimum of
  every request, ends by the job's deadline, and carries an epoch that is at most the current one; and the current epoch is the one
  the ledger stores.
\<close>

theorem every_assignment_is_authorised:
  assumes "crypto_ok (kl_crypto K)" and "daemon_run K E H s" and "fmlookup (kc_assignments s) k = Some a"
  shows "js_job_id (as_job a) = k \<and> cl_job_id (as_lease a) = k
    \<and> verify_lease (kl_crypto K) (kc_governor s) (as_lease a) = Inr ()
    \<and> (\<exists>s' \<in> H. \<exists>T offer i. check_offer K T offer s' = (Inr (), s') \<and> ro_node_id offer = cl_node_id (as_lease a)
         \<and> fmlookup (kc_nodes s') (cl_node_id (as_lease a)) = Some i \<and> verify_offer (kl_crypto K) i offer = Inr ())
    \<and> cl_adapter (as_lease a) = js_adapter (as_job a) \<and> cl_operation (as_lease a) = js_operation (as_job a)
    \<and> list_all2 (\<lambda>r g. rq_class g = rr_class r \<and> rq_unit g = rr_unit r \<and> rq_available g = rr_minimum r)
        (js_requests (as_job a)) (cl_granted (as_lease a))
    \<and> cl_expires_at (as_lease a) \<le> js_deadline (as_job a)
    \<and> cl_fencing_epoch (as_lease a) \<le> kc_fencing_epoch s \<and> kc_fencing_epoch s = stored_epoch (kc_ledger s)"
proof -
  have ok: "controller_ok K (\<Union> (vouched K ` H)) s" using daemon_run_ok [OF assms(2)] by simp
  then obtain now i n offer e where l: "authorize_job_at_epoch (kl_crypto K) (kc_governor s) now i n (as_job a) offer
      (cl_node_id (as_lease a)) e = Some (Inr (as_lease a))" "e \<le> kc_fencing_epoch s"
    using assms(3) unfolding controller_ok_def assignments_ok_def issued_lease_def by blast
  have "list_all2 (\<lambda>r g. grant_request offer r = Some g) (js_requests (as_job a)) (cl_granted (as_lease a))"
    using authorize_job_cases [OF l(1)] by (blast intro: those_map_SomeD)
  then have "list_all2 (\<lambda>r g. rq_class g = rr_class r \<and> rq_unit g = rr_unit r \<and> rq_available g = rr_minimum r)
      (js_requests (as_job a)) (cl_granted (as_lease a))"
    by (rule list_all2_mono) (auto simp: grant_request_def split: option.splits)
  moreover obtain s' T offer' where v: "s' \<in> H" "check_offer K T offer' s' = (Inr (), s')" "ro_node_id offer' = cl_node_id (as_lease a)"
    using ok assms(3) unfolding controller_ok_def assignments_ok_def vouched_def by force
  moreover obtain i' where "fmlookup (kc_nodes s') (cl_node_id (as_lease a)) = Some i'" "verify_offer (kl_crypto K) i' offer' = Inr ()"
    using checked_offer [OF v(2)] v(3) by auto
  ultimately show ?thesis
    using ok assms(3) l(2) authorize_job_cases [OF l(1)] job_lease_authentic_window [OF assms(1) l(1), of 0 0]
    by (auto simp: controller_ok_def assignments_ok_def epoch_ok_def)
qed

theorem every_assignment_is_authorised_witness:
  "\<exists>st H. daemon_run demo_control demo_endpoints H (demo_assigned True st)
     \<and> fmlookup (kc_assignments (demo_assigned True st)) 11 =
         Some \<lparr>as_job = demo_work_job, as_lease = demo_work_lease, as_claimed = True\<rparr>
     \<and> verify_lease demo_crypto (demo_governor False) demo_work_lease = Inr ()
     \<and> kc_fencing_epoch (demo_assigned True st) = stored_epoch (kc_ledger (demo_assigned True st))"
proof -
  obtain st H where run: "daemon_run demo_control demo_endpoints H (demo_assigned True st)" using demo_history .
  have c: "crypto_ok (kl_crypto demo_control)" by (simp add: demo_crypto_of demo_crypto_ok)
  have a: "fmlookup (kc_assignments (demo_assigned True st)) 11 =
      Some \<lparr>as_job = demo_work_job, as_lease = demo_work_lease, as_claimed = True\<rparr>" by (simp add: demo_assigned_def)
  have g: "kc_governor (demo_assigned True st) = demo_governor False" by (simp add: demo_states)
  from every_assignment_is_authorised [OF c run a] g run a show ?thesis by (auto simp: demo_crypto_of)
qed

text \<open>The node need not be enrolled any more: an offer that is stored after the revocation of its node brings the node back
  into the placement, and a job is then assigned to it, although it is not enrolled.\<close>

lemma revoked_offer_returns:
  assumes "revoke_node K T' D (ro_node_id offer) c s = (Inr x, s1)" and "store_offer offer s1 = (r, s2)"
  shows "fmlookup (kc_offers s2) (ro_node_id offer) = Some offer \<and> ro_node_id offer |\<notin>| fmdom (kc_nodes s2)"
proof -
  let ?n = "ro_node_id offer"
  have k: "keeps_prop (\<lambda>s. ?n |\<notin>| fmdom (kc_nodes s)) (refresh_diagnostics K U D)" for U
    by (intro keeps_refresh_diagnostics keeps_record_event) auto
  have "wp (map_error (\<lambda>e. Reject 500 e []) (refresh_diagnostics K U D)) (\<lambda>_ s. ?n |\<notin>| fmdom (kc_nodes s)) (\<lambda>_ _. True)
      (forget_node ?n s')" for U s'
  proof -
    have "wp (refresh_diagnostics K U D) (\<lambda>_ s. ?n |\<notin>| fmdom (kc_nodes s)) (\<lambda>_ s. ?n |\<notin>| fmdom (kc_nodes s)) (forget_node ?n s')"
      using k [of U] unfolding wp_keeps by (simp add: forget_node_def)
    then show ?thesis unfolding wp_map_error by (rule wp_mono) simp_all
  qed
  then have "wp (revoke_node K T' D ?n c) (\<lambda>_ s. ?n |\<notin>| fmdom (kc_nodes s)) (\<lambda>_ _. True) s"
    unfolding revoke_node_def Let_def
    by (auto simp: wp_bind wp_atoms wp_require wp_from_option wp_record_event split: option.split)
  from wp_run(1) [OF this assms(1)] assms(2) show ?thesis by (auto simp: store_offer_def modify_def)
qed

lemma unenrolled_node_is_assigned:
  assumes "room 896 st"
  shows "\<exists>st'. submit_job_gated demo_control demo_endpoints noon demo_job_env demo_work_job ((demo_offering st)\<lparr>kc_nodes := fmempty\<rparr>)
     = (Inr (True, demo_work_lease), (demo_assigned False st')\<lparr>kc_nodes := fmempty\<rparr>)"
proof -
  have latch: "(demo_offering st)\<lparr>kc_nodes := fmempty, kc_kill_latch := NoLatch\<rparr> = (demo_offering st)\<lparr>kc_nodes := fmempty\<rparr>"
    "(demo_assigned False st')\<lparr>kc_nodes := fmempty, kc_kill_latch := NoLatch\<rparr> = (demo_assigned False st')\<lparr>kc_nodes := fmempty\<rparr>" for st'
    by (simp_all add: demo_states)
  from wp_answers [OF wp_demo_submit_gated [OF assms, of demo_endpoints "\<lambda>_. demo_stage" NoLatch fmempty]]
  show ?thesis unfolding latch demo_job_env_def by auto
qed

section \<open>The owner's stop\<close>

lemma issued_lease_epoch: "issued_lease K s job lease \<Longrightarrow> cl_fencing_epoch lease \<le> kc_fencing_epoch s"
  by (auto simp: issued_lease_def dest: authorize_job_cases)

text \<open>
  C3. The owner's stop fences the fabric. When a stop is answered that is not a repetition, and the path of the kill latch
  was not occupied by something other than a file, then in the state it leaves the latch is set, and what arrives in that state
  is refused without a change: a job, a shard set, a claim for which the gate is free, and a receipt, unless it repeats an
  accepted one. In every state that can follow, with all handlers and their interleavings, also after a resume, the epoch is beyond
  the one before the stop, so that no lease the daemon held at the stop is active again.
\<close>

theorem owner_stop_fences:
  assumes "fresh_controller s0" and "(controller_step K E)\<^sup>*\<^sup>* s0 s"
    and "local_stop K T env s = (Inr (False, e), s1)" and "kc_kill_latch s \<noteq> LatchOther"
    and "(controller_step K E)\<^sup>*\<^sup>* s1 s2"
  shows "kill_latch_is_file s1
    \<and> submit_job K E T' J job s1 = (Inl (Reject 423 ''owner kill latch is active'' []), s1)
    \<and> submit_shard_set K E env' pj sset s1 = (Inl (Reject 423 ''owner kill latch is active'' []), s1)
    \<and> claim_work K T' False n s1 = (Inl (Reject 423 ''owner kill latch is active'' []), s1)
    \<and> snd (submit_receipt K T' busy r s1) = s1 \<and> fst (submit_receipt K T' busy r s1) \<noteq> Inr False
    \<and> kc_fencing_epoch s < kc_fencing_epoch s2
    \<and> (\<forall>k a t. fmlookup (kc_assignments s) k = Some a \<longrightarrow> \<not> lease_is_active_at (as_lease a) t (kc_fencing_epoch s2))"
proof -
  have ok: "controller_ok K UNIV s" by (rule daemon.inv_reachable [OF assms(1,2)])
  note stop = stop_answer [OF assms(3) ok]
  have latch: "kill_latch_is_file s1" using stop(4) assms(4) by (simp add: kill_latch_is_file_def)
  have "controller_ok K UNIV s1" using ok_local_stop assms(3) ok by (rule keepsD)
  then have "e \<le> kc_fencing_epoch s2" using epoch_steps [OF assms(5)] stop(2) by simp
  then have less: "kc_fencing_epoch s < kc_fencing_epoch s2" using stop(1) by simp
  have "\<not> lease_is_active_at (as_lease a) t (kc_fencing_epoch s2)" if "fmlookup (kc_assignments s) k = Some a" for k a t
  proof -
    have "issued_lease K s (as_job a) (as_lease a)"
      using ok that unfolding controller_ok_def assignments_ok_def by blast
    from issued_lease_epoch [OF this] show ?thesis using less by (auto simp: lease_is_active_at_def)
  qed
  then show ?thesis using latch less by (auto simp: stopped_refuses [OF latch])
qed

theorem owner_stop_fences_witness:
  "\<exists>st s1. local_stop demo_control noon demo_disk (demo_assigned True st) = (Inr (False, 1), s1)
     \<and> kill_latch_is_file s1
     \<and> claim_work demo_control noon False 7 s1 = (Inl (Reject 423 ''owner kill latch is active'' []), s1)
     \<and> \<not> lease_is_active_at demo_work_lease 0 (kc_fencing_epoch s1)"
proof -
  obtain st where run: "(controller_step demo_control demo_endpoints)\<^sup>*\<^sup>* demo_daemon (demo_assigned True st)"
      "room 893 st" "l_epochs st = Map.empty"
    using demo_daemon_run steps_are_steps by metis
  obtain s1 where s1: "local_stop demo_control noon demo_disk (demo_assigned True st) = (Inr (False, 1), s1)"
    using demo_stop [OF run(2,3)] by blast
  have f: "fresh_controller demo_daemon" using demo_new by (simp add: new_controller_def)
  have l: "kc_kill_latch (demo_assigned True st) \<noteq> LatchOther" by (simp add: demo_states)
  have a: "fmlookup (kc_assignments (demo_assigned True st)) 11 =
      Some \<lparr>as_job = demo_work_job, as_lease = demo_work_lease, as_claimed = True\<rparr>" by (simp add: demo_assigned_def)
  note stop = owner_stop_fences [OF f run(1) s1 l rtranclp.rtrancl_refl, of noon demo_job_env demo_work_job undefined undefined undefined 7]
  from stop have "\<not> lease_is_active_at demo_work_lease 0 (kc_fencing_epoch s1)" using a by fastforce
  with stop s1 show ?thesis by blast
qed

text \<open>A job that passed its checks before the stop and waited for the gate is admitted after it, with a lease of the
  new epoch: the part under the gate does not look at the latch.\<close>

lemma queued_job_passes_stop:
  assumes "room 896 st"
  shows "\<exists>s'. kill_latch_is_file ((demo_offering st)\<lparr>kc_nodes := nodes, kc_kill_latch := LatchFile\<rparr>)
     \<and> submit_job_gated demo_control demo_endpoints noon demo_job_env demo_work_job
         ((demo_offering st)\<lparr>kc_nodes := nodes, kc_kill_latch := LatchFile\<rparr>) = (Inr (True, demo_work_lease), s')
     \<and> fmlookup (kc_assignments s') 11 = Some \<lparr>as_job = demo_work_job, as_lease = demo_work_lease, as_claimed = False\<rparr>"
proof -
  from wp_answers [OF wp_demo_submit_gated [OF assms, of demo_endpoints "\<lambda>_. demo_stage" LatchFile nodes]]
  show ?thesis unfolding demo_job_env_def by (auto simp: kill_latch_is_file_def demo_assigned_def)
qed

end
