(* ===== verification/Rampage_Work.thy ===== *)
theory Rampage_Work
  imports Rampage_Daemon_Demo
begin

text \<open>
  Controller and worker together: what a claim hands out the worker accepts, what it executes and reports
  the controller accepts once, and two ways in which a report is lost.
\<close>

section \<open>What a worker stores and reports\<close>

text \<open>Whatever the store verifies has the form the controller demands of an output.\<close>

lemma verified_output_ok:
  assumes "verify_object LB d st = Inr c"
  shows "output_ok (ac_artifact c)"
proof -
  obtain m where m: "read_manifest LB d st = Inr m" and c: "c = artifact_contract_from_manifest d m"
    using assms verify_object_exact by blast
  note ok = read_manifest_Inr [OF m]
  have "mf_plaintext_size m \<le> MAX_ARTIFACT_TRANSFER_BYTES"
    using ok(2) unfolding validate_manifest_exact manifest_fields_ok_def by blast
  then show ?thesis
    using ok(1)
    by (auto simp: output_ok_def c artifact_contract_from_manifest_def object_dir_ok_def is_lower_hex_def is_ascii_hexdigit_def
        list_all_iff ensure_def split: option.splits if_splits)
qed

lemma put_output_ok: "put LB now random p opts st = (Inr a, st') \<Longrightarrow> output_ok a"
  by (auto simp: put_eq put_new_eq Let_def dest: verified_output_ok split: if_splits sum.splits)

lemma adapter_outputs_ok: "run_adapter W env claim store = (Inr out, store') \<Longrightarrow> list_all output_ok (ao_artifacts out)"
  by (auto simp: run_adapter_def run_hash_artifact_def Let_def adapter_text_def argument_def run_hash_def run_score_def
      map_sum_def dest: put_output_ok
      split: if_splits option.splits list.splits sum.splits prod.splits)

text \<open>The receipt of an execution, as the controller sees it.\<close>

lemma execution_receipt:
  assumes "execute_claim_inner W env claim n e sk store = (Inr r, store')"
  shows "check_claim W claim n e (re_now env) = Inr ()" "er_node_id r = n" "er_job_id r = js_job_id (wk_job claim)"
    "er_lease_id r = cl_lease_id (wk_lease claim)" "er_started_at r = re_started_at env" "er_receipt_id r = re_receipt_id env"
    "re_started_at env \<le> re_finished_at env \<Longrightarrow> receipt_shape_ok r" "list_all output_ok (er_outputs r)"
    "crypto_ok (wl_crypto W) \<Longrightarrow> ni_public_key i = public_hex (wl_crypto W) sk \<Longrightarrow> ni_node_id i = n
       \<Longrightarrow> verify_receipt (wl_crypto W) i r = Inr ()"
proof -
  obtain store0 x where x: "run_adapter W env claim store0 = (x, store')"
    and r: "r = sign_receipt (wl_crypto W) sk (unsigned_receipt W env claim n x)"
    and "check_claim W claim n e (re_now env) = Inr ()"
    using assms by (fastforce simp: execute_claim_inner_def split: sum.splits prod.splits option.splits)
  then show "check_claim W claim n e (re_now env) = Inr ()" by simp
  show "er_node_id r = n" "er_job_id r = js_job_id (wk_job claim)" "er_lease_id r = cl_lease_id (wk_lease claim)"
    "er_started_at r = re_started_at env" "er_receipt_id r = re_receipt_id env"
    by (simp_all add: r sign_receipt_def unsigned_receipt_def Let_def)
  show "receipt_shape_ok r" if "re_started_at env \<le> re_finished_at env"
    using that by (auto simp: receipt_shape_ok_def r sign_receipt_def unsigned_receipt_def Let_def split: sum.splits)
  show "list_all output_ok (er_outputs r)"
    using adapter_outputs_ok [of W env claim store0] x
    by (auto simp: r sign_receipt_def unsigned_receipt_def Let_def split: sum.splits)
  show "verify_receipt (wl_crypto W) i r = Inr ()"
    if "crypto_ok (wl_crypto W)" "ni_public_key i = public_hex (wl_crypto W) sk" "ni_node_id i = n"
    using receipt_sig.signed_verifies [OF that(1), of sk "unsigned_receipt W env claim n x"]
    by (simp add: r that(2,3) verify_receipt_def sign_receipt_def receipt_sig.message_def receipt_sig.signed_def
        unsigned_receipt_def Let_def)
qed

section \<open>Claims\<close>

lemma claim_work_Some:
  assumes "claim_work K T busy n s = (Inr (Some claim), s')"
  obtains k a st' where "next_claim K n (T 0) s = Some (k, a)" "claim = work_claim_of K s a"
    "s' = s\<lparr>kc_assignments := fmupd k (a\<lparr>as_claimed := True\<rparr>) (kc_assignments s), kc_ledger := st'\<rparr>"
    "\<not> kill_latch_is_file s" "n |\<in>| fmdom (kc_nodes s)"
  using assms unfolding claim_work_def
  by (auto simp: with_state_def bind_h_Inr handler_atoms require_iff record_event_Inr split: option.splits if_splits)

lemma claim_work_None:
  assumes "claim_work K T busy n s = (Inr None, s')"
  shows "next_claim K n (T 0) s = None" "s' = s"
  using assms unfolding claim_work_def
  by (auto simp: with_state_def bind_h_Inr handler_atoms require_iff record_event_Inr split: option.splits if_splits)

text \<open>The candidates of a claim, when the iteration order of the map lists its keys.\<close>

definition lists_all_keys :: "'sk control_lib \<Rightarrow> bool" where
  "lists_all_keys K \<longleftrightarrow> (\<forall>m. set (kl_assignment_order K m) = fset (fmdom m))"

lemma claim_candidates:
  assumes "lists_all_keys K"
  shows "set (filter (\<lambda>(_, a). claimable n now s a)
         (List.map_filter (\<lambda>k. map_option (Pair k) (fmlookup (kc_assignments s) k))
           (kl_assignment_order K (kc_assignments s))))
     = {(k, a). fmlookup (kc_assignments s) k = Some a \<and> claimable n now s a}"
  using assms by (force simp: lists_all_keys_def List.map_filter_def fmlookup_dom_iff)

lemma next_claim_oldest:
  assumes "lists_all_keys K" "fmlookup (kc_assignments s) k = Some a" "claimable n now s a"
  shows "\<exists>k' a'. next_claim K n now s = Some (k', a') \<and> cl_issued_at (as_lease a') \<le> cl_issued_at (as_lease a)"
proof -
  let ?xs = "filter (\<lambda>(_, a). claimable n now s a)
         (List.map_filter (\<lambda>k. map_option (Pair k) (fmlookup (kc_assignments s) k))
           (kl_assignment_order K (kc_assignments s)))"
  have "(k, a) \<in> set ?xs" using claim_candidates [OF assms(1)] assms(2,3) by blast
  then obtain y where "next_claim K n now s = Some y" unfolding next_claim_def
    by (metis (no_types, lifting) empty_iff list.set(1) min_by_key_None not_None_eq)
  moreover obtain k' a' where "y = (k', a')" by force
  ultimately have n: "next_claim K n now s = Some (k', a')" by simp
  then show ?thesis
    using min_by_key_le [OF n [unfolded next_claim_def] \<open>(k, a) \<in> set ?xs\<close>] by auto
qed

text \<open>What was handed out passes the checks of the worker, also when its clock is up to five seconds behind.\<close>

lemma claimed_lease_checks:
  assumes C: "crypto_ok (kl_crypto K)" "wl_crypto W = kl_crypto K" and ok: "controller_ok K UNIV s"
    and a: "fmlookup (kc_assignments s) k = Some a" "claimable n t s a" "claim = work_claim_of K s a"
    and now: "cl_issued_at (as_lease a) \<le> now + seconds 5" "now < cl_expires_at (as_lease a)"
  shows "check_claim W claim n (kc_fencing_epoch s) now = Inr ()"
proof -
  have "issued_lease K s (as_job a) (as_lease a)" using ok a(1) by (simp add: controller_ok_def assignments_ok_def)
  then obtain t i nn e and offer :: resource_offer where au: "authorize_job_at_epoch (kl_crypto K) (kc_governor s) t i nn (as_job a) offer
      (cl_node_id (as_lease a)) e = Some (Inr (as_lease a))"
    unfolding issued_lease_def by blast
  have "verify_lease (kl_crypto K) (kc_governor s) (as_lease a) = Inr ()"
    using job_lease_authentic_window [OF C(1) au, of 0 0] by blast
  then show ?thesis
    using a(2) now authorize_job_cases [OF au]
    by (simp add: check_claim_def a(3) work_claim_of_def claimable_def C(2) verify_lease_eq [OF C(1)]
        lease_is_active_at_def lease_has_started_def MAX_LEASE_CLOCK_SKEW_SECONDS_def)
qed

text \<open>
  C6. A worker is handed the oldest work it may run, once. When a claim is answered with work, in a state a run
  of handlers can reach, the worker's own checks accept it at that time and in that epoch; the assignment
  was not claimed before, is now, and nothing else of the assignments changes; and no work the node could
  claim was issued earlier. When it is answered without work, there is none to claim.
\<close>

theorem claimed_work_is_executable:
  assumes "crypto_ok (kl_crypto K)" and "lists_all_keys K" and "wl_crypto W = kl_crypto K"
    and "fresh_controller s0" and "(controller_step K E)\<^sup>*\<^sup>* s0 s"
    and "claim_work K T busy n s = (Inr found, s')"
  shows "case found of
       None \<Rightarrow> s' = s \<and> (\<forall>k a. fmlookup (kc_assignments s) k = Some a \<longrightarrow> \<not> claimable n (T 0) s a)
     | Some claim \<Rightarrow> check_claim W claim n (kc_fencing_epoch s) (T 0) = Inr ()
         \<and> (\<exists>a. fmlookup (kc_assignments s) (js_job_id (wk_job claim)) = Some a \<and> \<not> as_claimed a
              \<and> as_job a = wk_job claim \<and> as_lease a = wk_lease claim
              \<and> kc_assignments s' = fmupd (js_job_id (wk_job claim)) (a\<lparr>as_claimed := True\<rparr>) (kc_assignments s))
         \<and> (\<forall>k a. fmlookup (kc_assignments s) k = Some a \<and> claimable n (T 0) s a
              \<longrightarrow> cl_issued_at (wk_lease claim) \<le> cl_issued_at (as_lease a))"
proof (cases found)
  case None
  then have c: "claim_work K T busy n s = (Inr None, s')" using assms(6) by simp
  show ?thesis using claim_work_None [OF c] next_claim_oldest [OF assms(2), of s _ _ n "T 0"] None by fastforce
next
  case (Some claim)
  then have c: "claim_work K T busy n s = (Inr (Some claim), s')" using assms(6) by simp
  obtain k a st' where a: "next_claim K n (T 0) s = Some (k, a)" "claim = work_claim_of K s a"
      "s' = s\<lparr>kc_assignments := fmupd k (a\<lparr>as_claimed := True\<rparr>) (kc_assignments s), kc_ledger := st'\<rparr>"
    using claim_work_Some [OF c] by blast
  have l: "fmlookup (kc_assignments s) k = Some a" "claimable n (T 0) s a" using next_claim_sound [OF a(1)] by simp_all
  have inv: "controller_ok K UNIV s" by (rule daemon.inv_reachable [OF assms(4,5)])
  then have ok: "js_job_id (as_job a) = k" using l(1) by (simp add: controller_ok_def assignments_ok_def)
  have "check_claim W claim n (kc_fencing_epoch s) (T 0) = Inr ()"
    using l(2) by (intro claimed_lease_checks [OF assms(1,3) inv l a(2)])
      (simp_all add: claimable_def lease_is_active_at_def lease_has_started_def MAX_LEASE_CLOCK_SKEW_SECONDS_def)
  moreover have "cl_issued_at (as_lease a) \<le> cl_issued_at (as_lease b)"
    if "fmlookup (kc_assignments s) k' = Some b" "claimable n (T 0) s b" for k' b
    using next_claim_oldest [OF assms(2) that] a(1) by auto
  ultimately show ?thesis using Some a l ok by (auto simp: work_claim_of_def claimable_def)
qed

theorem claimed_work_is_executable_witness:
  "\<exists>st s'. (controller_step demo_control demo_endpoints)\<^sup>*\<^sup>* demo_daemon (demo_assigned False st)
     \<and> claim_work demo_control noon False 7 (demo_assigned False st) =
         (Inr (Some (work_claim_of demo_control (demo_assigned False st)
            \<lparr>as_job = demo_work_job, as_lease = demo_work_lease, as_claimed = False\<rparr>)), s')
     \<and> check_claim demo_worker_lib (work_claim_of demo_control (demo_assigned False st)
            \<lparr>as_job = demo_work_job, as_lease = demo_work_lease, as_claimed = False\<rparr>) 7 0 0 = Inr ()"
proof -
  obtain st s' where run: "(controller_step demo_control demo_endpoints)\<^sup>*\<^sup>* demo_daemon (demo_assigned False st)"
    and c: "claim_work demo_control noon False 7 (demo_assigned False st) =
         (Inr (Some (work_claim_of demo_control (demo_assigned False st)
            \<lparr>as_job = demo_work_job, as_lease = demo_work_lease, as_claimed = False\<rparr>)), s')"
    using demo_daemon_run steps_are_steps by metis
  have "crypto_ok (kl_crypto demo_control)" "wl_crypto demo_worker_lib = kl_crypto demo_control"
    "lists_all_keys demo_control" "kc_fencing_epoch (demo_assigned False st) = 0"
    by (simp_all add: demo_crypto_of demo_crypto_ok demo_worker_lib_def lists_all_keys_def demo_control_def demo_states
        sorted_list_of_fset.rep_eq)
  moreover have "fresh_controller demo_daemon" using demo_new by (simp add: new_controller_def)
  ultimately show ?thesis
    using claimed_work_is_executable [OF _ _ _ _ run c, of demo_worker_lib] run c by auto
qed

section \<open>Receipts\<close>

text \<open>A report that matches a claimed assignment reaches acceptance.\<close>

lemma matching_receipt_accepted:
  assumes "receipt_shape_ok r" "fmlookup (kc_nodes s) (er_node_id r) = Some i" "verify_receipt (kl_crypto K) i r = Inr ()"
    and "fmlookup (kc_completed_receipts s) (er_receipt_id r) \<noteq> Some (er_job_id r)" "\<not> kill_latch_is_file s"
    and "fmlookup (kc_assignments s) (er_job_id r) = Some a" "receipt_matches r a (kc_fencing_epoch s)"
    and "list_all output_ok (er_outputs r)"
  shows "submit_receipt K T False r s = accept_receipt K T r a s"
  using assms
  by (simp add: submit_receipt_def settle_receipt_def bind_h_def with_state_def require_def from_option_def from_result_def answer_def)

definition with_outputs :: "execution_receipt \<Rightarrow> 'sk controller \<Rightarrow> (string \<times> uuid, artifact_ref) fmap" where
  "with_outputs r s = foldl (\<lambda>m x. fmupd (ar_digest x, er_node_id r) x m) (kc_artifact_replicas s) (er_outputs r)"

lemma wp_record_outputs:
  assumes "\<And>st'. Q () (s\<lparr>kc_artifact_replicas := foldl (\<lambda>m x. fmupd (ar_digest x, er_node_id r) x m) (kc_artifact_replicas s) outputs,
        kc_ledger := st'\<rparr>)"
    and "\<And>err m st'. E (Reject 500 err []) (s\<lparr>kc_artifact_replicas := m, kc_ledger := st'\<rparr>)"
  shows "wp (record_outputs K T n r outputs) Q E s"
  using assms
proof (induction outputs arbitrary: n s)
  case Nil
  then show ?case using Nil.prems(1) [of "kc_ledger s"] by (simp add: wp_simps)
next
  case (Cons x xs)
  let ?s1 = "\<lambda>st. s\<lparr>kc_artifact_replicas := fmupd (ar_digest x, er_node_id r) x (kc_artifact_replicas s), kc_ledger := st\<rparr>"
  have "wp (record_outputs K T (Suc n) r xs) Q E (?s1 st)" for st
    using Cons.prems by (intro Cons.IH) simp_all
  moreover have "E (Reject 500 err []) (?s1 (kc_ledger s))" for err by (rule Cons.prems(2))
  ultimately show ?case by (simp add: wp_simps)
qed

lemma foldl_recorded:
  "x \<in> set outputs \<Longrightarrow> fmlookup (foldl (\<lambda>m x. fmupd (ar_digest x, n) x m) m outputs) (ar_digest x, n) \<noteq> None"
proof -
  have keep: "fmlookup m k \<noteq> None \<Longrightarrow> fmlookup (foldl (\<lambda>m x. fmupd (ar_digest x, n) x m) m xs) k \<noteq> None" for m xs k
    by (induction xs arbitrary: m) auto
  show "x \<in> set outputs \<Longrightarrow> ?thesis"
  proof (induction outputs arbitrary: m)
    case (Cons y ys)
    then show ?case using keep [of "fmupd (ar_digest x, n) x m" "(ar_digest x, n)" ys] by auto
  qed simp
qed

text \<open>Accepting a receipt: the job leaves the books, the receipt is remembered, the outputs are recorded. The
  only rejection is a failing ledger, and then the job has left the books already.\<close>

lemma wp_accept_receipt:
  assumes "\<And>st'. Q False ((complete_job r a s)\<lparr>kc_completed_receipts := fmupd (er_receipt_id r) (er_job_id r) (kc_completed_receipts s),
        kc_artifact_replicas := with_outputs r s, kc_ledger := st'\<rparr>)"
    and "\<And>err c m st'. E (Reject 500 err []) ((complete_job r a s)\<lparr>kc_completed_receipts := c, kc_artifact_replicas := m, kc_ledger := st'\<rparr>)"
  shows "wp (accept_receipt K T r a) Q E s"
proof -
  let ?s = "complete_job r a s"
  have f: "E (Reject 500 err []) ?s" for err
    using assms(2) [where err = err and c = "kc_completed_receipts ?s" and m = "kc_artifact_replicas ?s" and st' = "kc_ledger ?s"] by simp
  have eq: "kc_completed_receipts ?s = kc_completed_receipts s" "kc_artifact_replicas ?s = kc_artifact_replicas s"
    by (simp_all add: complete_job_def)
  show ?thesis
    unfolding accept_receipt_def using assms f
    by (auto simp: wp_simps eq with_outputs_def intro!: wp_record_outputs)
qed

text \<open>The assignment a claim was made from, as a later report finds it.\<close>

lemma claimed_assignment:
  assumes "controller_ok K UNIV s" "claim_work K T busy n s = (Inr (Some claim), s1)"
  obtains a where "fmlookup (kc_assignments s1) (js_job_id (wk_job claim)) = Some a" "as_claimed a"
    "as_job a = wk_job claim" "as_lease a = wk_lease claim" "cl_node_id (wk_lease claim) = n"
    "cl_fencing_epoch (wk_lease claim) = kc_fencing_epoch s1"
proof -
  obtain k a st' where a: "next_claim K n (T 0) s = Some (k, a)" "claim = work_claim_of K s a"
      "s1 = s\<lparr>kc_assignments := fmupd k (a\<lparr>as_claimed := True\<rparr>) (kc_assignments s), kc_ledger := st'\<rparr>"
    using claim_work_Some [OF assms(2)] by blast
  have l: "fmlookup (kc_assignments s) k = Some a" "claimable n (T 0) s a" using next_claim_sound [OF a(1)] by simp_all
  then have k: "js_job_id (as_job a) = k" using assms(1) by (simp add: controller_ok_def assignments_ok_def)
  show thesis
    by (rule that [of "a\<lparr>as_claimed := True\<rparr>"])
      (use a l k in \<open>simp_all add: work_claim_of_def claimable_def lease_is_active_at_def\<close>)
qed

text \<open>
  C5. Work that is reported is accepted, once. A worker claims work, executes it under the key it is enrolled with, starts it by its
  clock not before the lease was issued and not after it ends, and finishes it not before it starts. It reports it in a later state in which
  the job still has that assignment in the same epoch, the node is enrolled with that key, the fabric is not stopped, the
  admission gate is free, and the identifier of the receipt is not one accepted for the job before. Then, unless the
  ledger fails to record it, the controller accepts the receipt: the job, its idempotency key and its
  reservations are released, every output is known as a replica of the node, and delivering the receipt
  again at once is answered as a repetition and changes nothing.
\<close>

theorem reported_work_is_accepted:
  assumes "crypto_ok (kl_crypto K)" and "wl_crypto W = kl_crypto K"
    and "fresh_controller s0" and "(controller_step K E)\<^sup>*\<^sup>* s0 s"
    and "claim_work K T busy n s = (Inr (Some claim), s1)" and "(controller_step K E)\<^sup>*\<^sup>* s1 s2"
    and "execute_claim_inner W env claim n e sk store = (Inr r, store')"
    and "cl_issued_at (wk_lease claim) \<le> re_started_at env" "re_started_at env \<le> cl_expires_at (wk_lease claim)"
      "re_started_at env \<le> re_finished_at env"
    and "fmlookup (kc_nodes s2) n = Some i" "ni_public_key i = public_hex (kl_crypto K) sk"
    and "fmlookup (kc_assignments s2) (js_job_id (wk_job claim)) = fmlookup (kc_assignments s1) (js_job_id (wk_job claim))"
      "kc_fencing_epoch s2 = kc_fencing_epoch s1" "\<not> kill_latch_is_file s2"
    and "fmlookup (kc_completed_receipts s2) (re_receipt_id env) \<noteq> Some (js_job_id (wk_job claim))"
  shows "(\<exists>err. fst (submit_receipt K T' False r s2) = Inl (Reject 500 err []))
     \<or> (\<exists>s3. submit_receipt K T' False r s2 = (Inr False, s3)
         \<and> kc_assignments s3 = fmdrop (js_job_id (wk_job claim)) (kc_assignments s2)
         \<and> fmlookup (kc_idempotency s3) (js_idempotency_key (wk_job claim)) = None
         \<and> (\<forall>x \<in> set (kc_reservations s3). rs_job_id x \<noteq> js_job_id (wk_job claim))
         \<and> (\<forall>x \<in> set (er_outputs r). fmlookup (kc_artifact_replicas s3) (ar_digest x, n) \<noteq> None)
         \<and> submit_receipt K T'' busy' r s3 = (Inr True, s3))"
proof -
  note ex = execution_receipt [OF assms(7)]
  have ok: "controller_ok K UNIV s" by (rule daemon.inv_reachable [OF assms(3,4)])
  then have "controller_ok K UNIV s1" using keepsD [OF ok_claim_work assms(5)] by blast
  then have "controller_ok K UNIV s2" using epoch_steps [OF assms(6)] by blast
  then have "ni_node_id i = n" using assms(11) by (simp add: controller_ok_def nodes_ok_def)
  then have v: "verify_receipt (kl_crypto K) i r = Inr ()" using ex(9) assms(1,2,12) by metis
  obtain a where c: "fmlookup (kc_assignments s1) (js_job_id (wk_job claim)) = Some a" "as_claimed a"
      "as_job a = wk_job claim" "as_lease a = wk_lease claim" "cl_node_id (wk_lease claim) = n"
      "cl_fencing_epoch (wk_lease claim) = kc_fencing_epoch s1"
    by (rule claimed_assignment [OF ok assms(5)])
  then have a: "fmlookup (kc_assignments s2) (er_job_id r) = Some a" "as_job a = wk_job claim"
      "receipt_matches r a (kc_fencing_epoch s2)"
    using assms(8,9) by (simp_all add: receipt_matches_def ex(2-5) assms(13,14))
  have shape: "receipt_shape_ok r" by (rule ex(7) [OF assms(10)])
  have acc: "submit_receipt K T' False r s2 = accept_receipt K T' r a s2"
    using shape v assms(11,15,16) a ex by (intro matching_receipt_accepted) simp_all
  let ?goal = "\<lambda>s3. kc_assignments s3 = fmdrop (er_job_id r) (kc_assignments s2)
     \<and> fmlookup (kc_idempotency s3) (js_idempotency_key (as_job a)) = None
     \<and> (\<forall>x \<in> set (kc_reservations s3). rs_job_id x \<noteq> er_job_id r)
     \<and> (\<forall>x \<in> set (er_outputs r). fmlookup (kc_artifact_replicas s3) (ar_digest x, er_node_id r) \<noteq> None)
     \<and> fmlookup (kc_nodes s3) n = Some i \<and> fmlookup (kc_completed_receipts s3) (er_receipt_id r) = Some (er_job_id r)"
  have "wp (accept_receipt K T' r a) (\<lambda>x s3. x = False \<and> ?goal s3) (\<lambda>x _. \<exists>err. x = Reject 500 err []) s2"
    using assms(11) foldl_recorded [of _ "er_outputs r" "er_node_id r"]
    by (intro wp_accept_receipt) (auto simp: complete_job_def with_outputs_def)
  then consider err s3 where "submit_receipt K T' False r s2 = (Inl (Reject 500 err []), s3)"
    | s3 where "submit_receipt K T' False r s2 = (Inr False, s3)" "?goal s3"
    unfolding acc wp_def by (auto split: prod.splits sum.splits)
  then show ?thesis
  proof cases
    case (2 s3)
    then have "submit_receipt K T'' busy' r s3 = (Inr True, s3)"
      using shape v ex(2) by (simp add: submit_receipt_def settle_receipt_def bind_h_def with_state_def require_def from_option_def from_result_def answer_def)
    with 2 show ?thesis using ex(2,3) a(2) by auto
  qed simp
qed

text \<open>The demo worker executes the demo job and reports it.\<close>

abbreviation demo_claim :: "ledger \<Rightarrow> work_claim" where
  "demo_claim st \<equiv> work_claim_of demo_control (demo_assigned False st)
     \<lparr>as_job = demo_work_job, as_lease = demo_work_lease, as_claimed = False\<rparr>"

lemma demo_claim_parts:
  "wk_job (demo_claim st) = demo_work_job" "wk_lease (demo_claim st) = demo_work_lease"
  by (simp_all add: work_claim_of_def)

lemma demo_work_runs:
  assumes "check_claim demo_worker_lib (demo_claim st) 7 0 (re_now env) = Inr ()"
  shows "\<exists>r. execute_claim_inner demo_worker_lib env (demo_claim st) 7 0 () None = (Inr r, None) \<and> er_outputs r = []"
  using assms
  by (simp add: execute_claim_inner_def run_adapter_def demo_job_fields run_hash_def argument_def adapter_text_def
      work_claim_of_def sign_receipt_def unsigned_receipt_def Let_def)

lemma demo_receipt_recorded:
  assumes "room (Suc n) (kc_ledger s)" "er_outputs r = []"
  shows "fst (accept_receipt demo_control noon r a s) \<noteq> Inl x"
proof -
  have "wp (accept_receipt demo_control noon r a) (\<lambda>_ _. True) (\<lambda>_ _. False) s"
    unfolding accept_receipt_def
    by (simp add: demo_wp assms(2)) (rule wp_demo_record [of n], use assms in \<open>simp_all add: complete_job_def demo_wp\<close>)
  then show ?thesis by (auto simp: wp_def split: prod.splits sum.splits)
qed

lemma demo_libs:
  "crypto_ok (kl_crypto demo_control)" "wl_crypto demo_worker_lib = kl_crypto demo_control" "fresh_controller demo_daemon"
  using demo_new by (simp_all add: demo_crypto_of demo_crypto_ok demo_worker_lib_def new_controller_def)

lemma demo_assigned_parts:
  "fmlookup (kc_nodes (demo_assigned c st)) 7 = Some demo_identity" "\<not> kill_latch_is_file (demo_assigned c st)"
  "ni_public_key demo_identity = public_hex (kl_crypto demo_control) ()" "kc_ledger (demo_assigned c st) = st"
  "kc_completed_receipts (demo_assigned c st) = fmempty" "kc_fencing_epoch (demo_assigned c st) = 0"
  "fmlookup (kc_assignments (demo_assigned c st)) 11 = Some \<lparr>as_job = demo_work_job, as_lease = demo_work_lease, as_claimed = c\<rparr>"
  "ni_node_id demo_identity = 7"
  by (simp_all add: demo_states kill_latch_is_file_def demo_identity_def demo_crypto_of)

lemma demo_lease_window: "cl_issued_at demo_work_lease = 0" "0 < cl_expires_at demo_work_lease"
  "cl_node_id demo_work_lease = 7" "cl_fencing_epoch demo_work_lease = 0"
  using expires_after_now [OF demo_work_admitted] by (simp_all add: demo_lease_facts)

theorem reported_work_is_accepted_witness:
  "\<exists>st st' r s3. claim_work demo_control noon False 7 (demo_assigned False st) = (Inr (Some (demo_claim st)), demo_assigned True st')
     \<and> execute_claim_inner demo_worker_lib demo_run (demo_claim st) 7 0 () None = (Inr r, None)
     \<and> submit_receipt demo_control noon False r (demo_assigned True st') = (Inr False, s3)
     \<and> fmlookup (kc_assignments s3) 11 = None
     \<and> submit_receipt demo_control noon False r s3 = (Inr True, s3)"
proof -
  obtain st st' where run: "(controller_step demo_control demo_endpoints)\<^sup>*\<^sup>* demo_daemon (demo_assigned False st)" "room 893 st'"
    and c: "claim_work demo_control noon False 7 (demo_assigned False st) = (Inr (Some (demo_claim st)), demo_assigned True st')"
    using demo_daemon_run steps_are_steps by metis
  have t: "re_now demo_run = 0" "re_started_at demo_run = 0" "re_finished_at demo_run = 1000" by (simp_all add: demo_run_def)
  obtain r where r: "execute_claim_inner demo_worker_lib demo_run (demo_claim st) 7 0 () None = (Inr r, None)" "er_outputs r = []"
    using demo_work_runs [of st demo_run] demo_work_claim_checks t by auto
  let ?s = "demo_assigned True st'"
  note ex = execution_receipt [OF r(1)]
  have v: "verify_receipt (kl_crypto demo_control) demo_identity r = Inr ()"
    using ex(9) [of demo_identity] demo_libs demo_assigned_parts by simp
  have "submit_receipt demo_control noon False r ?s = accept_receipt demo_control noon r
      \<lparr>as_job = demo_work_job, as_lease = demo_work_lease, as_claimed = True\<rparr> ?s"
    by (rule matching_receipt_accepted [OF ex(7) _ v])
      (use ex demo_lease_window in \<open>simp_all add: t demo_assigned_parts receipt_matches_def demo_claim_parts demo_job_fields r(2)\<close>)
  moreover have "room (Suc 892) (kc_ledger ?s)" using run(2) by (simp add: demo_assigned_parts)
  ultimately have no: "fst (submit_receipt demo_control noon False r ?s) \<noteq> Inl x" for x
    using demo_receipt_recorded r(2) by metis
  have "(\<exists>err. fst (submit_receipt demo_control noon False r ?s) = Inl (Reject 500 err []))
     \<or> (\<exists>s3. submit_receipt demo_control noon False r ?s = (Inr False, s3)
         \<and> kc_assignments s3 = fmdrop (js_job_id (wk_job (demo_claim st))) (kc_assignments ?s)
         \<and> fmlookup (kc_idempotency s3) (js_idempotency_key (wk_job (demo_claim st))) = None
         \<and> (\<forall>x \<in> set (kc_reservations s3). rs_job_id x \<noteq> js_job_id (wk_job (demo_claim st)))
         \<and> (\<forall>x \<in> set (er_outputs r). fmlookup (kc_artifact_replicas s3) (ar_digest x, 7) \<noteq> None)
         \<and> submit_receipt demo_control noon False r s3 = (Inr True, s3))"
    by (rule reported_work_is_accepted [OF demo_libs run(1) c rtranclp.rtrancl_refl r(1), where i = demo_identity])
      (use demo_lease_window in \<open>simp_all add: t demo_assigned_parts demo_claim_parts demo_job_fields\<close>)
  then obtain s3 where "submit_receipt demo_control noon False r ?s = (Inr False, s3)" "fmlookup (kc_assignments s3) 11 = None"
      "submit_receipt demo_control noon False r s3 = (Inr True, s3)"
    using no by (auto simp: demo_claim_parts demo_job_fields)
  with c r(1) show ?thesis by blast
qed

section \<open>Reports that are lost\<close>

text \<open>
  A report of a worker whose clock is behind is refused. A lease counts as started five seconds before it was
  issued, so that a worker whose clock is a little behind accepts and executes it, which spends its nonce. Its receipt
  then starts before the lease was issued, and the controller refuses it however often it is delivered.
\<close>

theorem slow_clock_receipt_refused:
  assumes "crypto_ok (kl_crypto K)" and "wl_crypto W = kl_crypto K"
    and "fresh_controller s0" and "(controller_step K E)\<^sup>*\<^sup>* s0 s"
    and "claim_work K T busy n s = (Inr (Some claim), s1)"
    and "execute_claim_inner W env claim n (kc_fencing_epoch s) sk store = (Inr r, store')"
    and "re_started_at env < cl_issued_at (wk_lease claim)" "re_started_at env \<le> re_finished_at env"
    and "(controller_step K E)\<^sup>*\<^sup>* s1 s2" "fmlookup (kc_nodes s2) n = Some i" "ni_public_key i = public_hex (kl_crypto K) sk"
    and "fmlookup (kc_assignments s2) (js_job_id (wk_job claim)) = fmlookup (kc_assignments s1) (js_job_id (wk_job claim))"
      "\<not> kill_latch_is_file s2" "fmlookup (kc_completed_receipts s2) (re_receipt_id env) \<noteq> Some (js_job_id (wk_job claim))"
  shows "(\<forall>now. cl_issued_at (wk_lease claim) \<le> now + seconds 5 \<and> now < cl_expires_at (wk_lease claim)
         \<longrightarrow> check_claim W claim n (kc_fencing_epoch s) now = Inr ())
     \<and> submit_receipt K T' False r s2
         = (Inl (Reject 409 ''receipt does not match the current claimed lease authority'' []), s2)"
proof -
  note ex = execution_receipt [OF assms(6)]
  have ok: "controller_ok K UNIV s" by (rule daemon.inv_reachable [OF assms(3,4)])
  then have "controller_ok K UNIV s1" using keepsD [OF ok_claim_work assms(5)] by blast
  then have "controller_ok K UNIV s2" using epoch_steps [OF assms(9)] by blast
  then have "ni_node_id i = n" using assms(10) by (simp add: controller_ok_def nodes_ok_def)
  then have v: "verify_receipt (kl_crypto K) i r = Inr ()" using ex(9) assms(1,2,11) by metis
  obtain k a where a: "next_claim K n (T 0) s = Some (k, a)" "claim = work_claim_of K s a"
    using claim_work_Some [OF assms(5)] by metis
  note next_claim_sound [OF a(1)]
  then have "\<forall>now. cl_issued_at (wk_lease claim) \<le> now + seconds 5 \<and> now < cl_expires_at (wk_lease claim)
         \<longrightarrow> check_claim W claim n (kc_fencing_epoch s) now = Inr ()"
    using claimed_lease_checks [OF assms(1,2) ok _ _ a(2)] by (auto simp: a(2) work_claim_of_def)
  moreover obtain b where "fmlookup (kc_assignments s1) (js_job_id (wk_job claim)) = Some b" "as_lease b = wk_lease claim"
    using claimed_assignment [OF ok assms(5)] by metis
  then have "fmlookup (kc_assignments s2) (er_job_id r) = Some b" "\<not> receipt_matches r b (kc_fencing_epoch s2)"
    using assms(7) by (simp_all add: receipt_matches_def ex(3,5) assms(12))
  then have "submit_receipt K T' False r s2
         = (Inl (Reject 409 ''receipt does not match the current claimed lease authority'' []), s2)"
    using v assms(10,13,14) ex(2,3,6) ex(7) [OF assms(8)]
    by (simp add: submit_receipt_def settle_receipt_def bind_h_def with_state_def require_def from_option_def from_result_def answer_def refuse_def)
  ultimately show ?thesis by blast
qed

theorem slow_clock_receipt_refused_witness:
  "\<exists>st st' r. claim_work demo_control noon False 7 (demo_assigned False st) = (Inr (Some (demo_claim st)), demo_assigned True st')
     \<and> execute_claim_inner demo_worker_lib (demo_run\<lparr>re_now := - 1, re_started_at := - 1\<rparr>) (demo_claim st) 7 0 () None = (Inr r, None)
     \<and> submit_receipt demo_control noon False r (demo_assigned True st')
         = (Inl (Reject 409 ''receipt does not match the current claimed lease authority'' []), demo_assigned True st')"
proof -
  obtain st st' where run: "(controller_step demo_control demo_endpoints)\<^sup>*\<^sup>* demo_daemon (demo_assigned False st)"
    and c: "claim_work demo_control noon False 7 (demo_assigned False st) = (Inr (Some (demo_claim st)), demo_assigned True st')"
    using demo_daemon_run steps_are_steps by metis
  let ?env = "demo_run\<lparr>re_now := - 1, re_started_at := - 1\<rparr>"
  have ok: "controller_ok demo_control UNIV (demo_assigned False st)" by (rule daemon.inv_reachable [OF demo_libs(3) run])
  have "check_claim demo_worker_lib (demo_claim st) 7 (kc_fencing_epoch (demo_assigned False st)) (- 1) = Inr ()"
    using demo_lease_window
    by (intro claimed_lease_checks [OF demo_libs(1,2) ok demo_assigned_parts(7) demo_claimable refl])
      (simp_all add: seconds_def nanos_per_second_def)
  then obtain r where r: "execute_claim_inner demo_worker_lib ?env (demo_claim st) 7 0 () None = (Inr r, None)"
    using demo_work_runs [of st ?env] by (auto simp: demo_assigned_parts)
  have "(\<forall>now. cl_issued_at (wk_lease (demo_claim st)) \<le> now + seconds 5 \<and> now < cl_expires_at (wk_lease (demo_claim st))
         \<longrightarrow> check_claim demo_worker_lib (demo_claim st) 7 (kc_fencing_epoch (demo_assigned False st)) now = Inr ())
     \<and> submit_receipt demo_control noon False r (demo_assigned True st')
         = (Inl (Reject 409 ''receipt does not match the current claimed lease authority'' []), demo_assigned True st')"
    by (rule slow_clock_receipt_refused [OF demo_libs run c, where i = demo_identity and env = ?env])
      (use r demo_lease_window in \<open>simp_all add: demo_run_def demo_assigned_parts demo_claim_parts demo_job_fields\<close>)
  then show ?thesis using c r by blast
qed

text \<open>
  A report is lost when the ledger fails. The controller releases the assignment before it writes the
  receipt to the ledger. When that write fails, the report is answered with an error, and every later
  delivery is refused because the job is no longer assigned, although neither the ledger nor the completed receipts
  know it.
\<close>

theorem receipt_lost_on_ledger_failure:
  assumes "submit_receipt K T busy r s = (Inl (Reject 500 err []), s')" and "er_outputs r = []"
  shows "fmlookup (kc_assignments s) (er_job_id r) \<noteq> None \<and> fmlookup (kc_assignments s') (er_job_id r) = None
     \<and> kc_ledger s' = kc_ledger s \<and> kc_completed_receipts s' = kc_completed_receipts s
     \<and> submit_receipt K T' False r s' = (Inl (Reject 409 ''receipt has no active assignment'' []), s')"
proof -
  have run: "wp (submit_receipt K T busy r) (\<lambda>_ _. True) (\<lambda>x s'. \<exists>i a. x = Reject 500 err [] \<longrightarrow>
      receipt_shape_ok r \<and> fmlookup (kc_nodes s) (er_node_id r) = Some i \<and> verify_receipt (kl_crypto K) i r = Inr ()
      \<and> fmlookup (kc_completed_receipts s) (er_receipt_id r) \<noteq> Some (er_job_id r) \<and> \<not> kill_latch_is_file s
      \<and> fmlookup (kc_assignments s) (er_job_id r) = Some a \<and> s' = complete_job r a s) s"
    unfolding submit_receipt_def settle_receipt_def accept_receipt_def
    by (auto simp: wp_simps assms(2) split: option.splits sum.splits)
  obtain i a where f: "receipt_shape_ok r" "fmlookup (kc_nodes s) (er_node_id r) = Some i" "verify_receipt (kl_crypto K) i r = Inr ()"
      "fmlookup (kc_completed_receipts s) (er_receipt_id r) \<noteq> Some (er_job_id r)" "\<not> kill_latch_is_file s"
      "fmlookup (kc_assignments s) (er_job_id r) = Some a" "s' = complete_job r a s"
    using wp_run(2) [OF run assms(1)] by blast
  then have p: "kc_ledger s' = kc_ledger s" "kc_completed_receipts s' = kc_completed_receipts s" "kc_nodes s' = kc_nodes s"
    "kc_kill_latch s' = kc_kill_latch s" "fmlookup (kc_assignments s') (er_job_id r) = None"
    by (simp_all add: complete_job_def)
  then have "submit_receipt K T' False r s' = (Inl (Reject 409 ''receipt has no active assignment'' []), s')"
    using f(1-5) by (simp add: submit_receipt_def settle_receipt_def bind_h_def with_state_def require_def from_option_def from_result_def answer_def
        refuse_def kill_latch_is_file_def)
  then show ?thesis using p f(6) by simp
qed

theorem receipt_lost_on_ledger_failure_witness:
  "\<exists>st r s'. submit_receipt demo_control noon False r ((demo_assigned True st)\<lparr>kc_ledger := open_ledger\<lparr>l_poisoned := True\<rparr>\<rparr>)
       = (Inl (Reject 500 ''ledger'' []), s')
     \<and> submit_receipt demo_control noon False r s' = (Inl (Reject 409 ''receipt has no active assignment'' []), s')"
proof -
  let ?s = "(demo_assigned True open_ledger)\<lparr>kc_ledger := open_ledger\<lparr>l_poisoned := True\<rparr>\<rparr>"
  have t: "re_now demo_run = 0" "re_started_at demo_run = 0" "re_finished_at demo_run = 1000" by (simp_all add: demo_run_def)
  obtain r where r: "execute_claim_inner demo_worker_lib demo_run (demo_claim open_ledger) 7 0 () None = (Inr r, None)" "er_outputs r = []"
    using demo_work_runs [of open_ledger demo_run] demo_work_claim_checks t by auto
  note ex = execution_receipt [OF r(1)]
  have v: "verify_receipt (kl_crypto demo_control) demo_identity r = Inr ()"
    using ex(9) [of demo_identity] demo_libs demo_assigned_parts by simp
  have "submit_receipt demo_control noon False r ?s = accept_receipt demo_control noon r
      \<lparr>as_job = demo_work_job, as_lease = demo_work_lease, as_claimed = True\<rparr> ?s"
    by (rule matching_receipt_accepted [OF ex(7) _ v])
      (use ex demo_lease_window demo_assigned_parts(1,2,4-7) [of True open_ledger] in
        \<open>simp_all add: t receipt_matches_def demo_claim_parts demo_job_fields r(2) kill_latch_is_file_def\<close>)
  then obtain s' where "submit_receipt demo_control noon False r ?s = (Inl (Reject 500 ''ledger'' []), s')"
    by (simp add: accept_receipt_def bind_h_def modify_def record_event_def append_event_def complete_job_def demo_control_def)
  with receipt_lost_on_ledger_failure [OF this r(2), of noon] show ?thesis by blast
qed

end
