(* ===== verification/Rampage_Remote.thy ===== *)
theory Rampage_Remote
  imports Rampage_Daemon_Demo
begin

text \<open>
  What a remote peer can do to the controller through the mesh gateway: of another node it can change
  nothing but, with an open invitation, the identity.
\<close>

section \<open>What belongs to a node\<close>

definition untouched :: "uuid \<Rightarrow> 'sk controller \<Rightarrow> 'sk controller \<Rightarrow> bool" where
  "untouched n s s' \<longleftrightarrow> kc_kill_latch s' = kc_kill_latch s \<and> kc_stop_marker s' = kc_stop_marker s
     \<and> kc_fencing_epoch s' = kc_fencing_epoch s \<and> kc_governor s' = kc_governor s \<and> kc_shard_sets s' = kc_shard_sets s
     \<and> fmlookup (kc_offers s') n = fmlookup (kc_offers s) n
     \<and> (\<forall>k a. cl_node_id (as_lease a) = n \<longrightarrow>
          fmlookup (kc_assignments s') k = Some a \<longleftrightarrow> fmlookup (kc_assignments s) k = Some a)
     \<and> (\<forall>d. fmlookup (kc_artifact_replicas s') (d, n) = fmlookup (kc_artifact_replicas s) (d, n))"

lemma untouched_refl [simp]: "untouched n s s"
  by (simp add: untouched_def)

definition keeps_others :: "uuid \<Rightarrow> 'sk controller \<Rightarrow> 'sk controller \<Rightarrow> bool" where
  "keeps_others n s s' \<longleftrightarrow> untouched n s s' \<and> kc_nodes s' = kc_nodes s"

lemma others_record [handler_keeps]:
  "keeps_prop (untouched n s) (record_event K now t subj v)" "keeps_prop (keeps_others n s) (record_event K now t subj v)"
  by (auto intro!: keeps_record_event simp: untouched_def keeps_others_def)

lemma not_its_assignment:
  "keeps_others n s s1 \<Longrightarrow> fmlookup (kc_assignments s1) k = Some a \<Longrightarrow> cl_node_id (as_lease a) \<noteq> n
     \<Longrightarrow> fmlookup (kc_assignments s) k = Some b \<Longrightarrow> cl_node_id (as_lease b) \<noteq> n"
  unfolding keeps_others_def untouched_def by (metis option.inject)

lemma others_register_offer:
  assumes "ro_node_id offer \<noteq> n"
  shows "keeps_prop (keeps_others n s) (register_offer K T offer)"
proof -
  have "keeps_prop (keeps_others n s) (check_offer K T offer)" unfolding wp_keeps by (auto intro: wp_check_offer)
  moreover have "keeps_prop (keeps_others n s) (record_offer_evidence K T offer)"
    unfolding record_offer_evidence_def
    by (intro handler_keeps keeps_with_state_all)
      (auto split: option.splits intro!: handler_keeps simp: keeps_others_def untouched_def)
  moreover have "keeps_others n s s1 \<Longrightarrow> keeps_others n s (s1\<lparr>kc_offers := fmupd (ro_node_id offer) offer (kc_offers s1)\<rparr>)" for s1
    using assms by (simp add: keeps_others_def untouched_def)
  ultimately show ?thesis
    unfolding register_offer_def store_offer_def by (intro handler_keeps)
qed

lemma others_claim_work:
  assumes "m \<noteq> n"
  shows "keeps_prop (keeps_others n s) (claim_work K T busy m)"
  unfolding wp_keeps
proof (intro allI impI)
  fix s1 assume I: "keeps_others n s s1"
  have up: "keeps_others n s (s1\<lparr>kc_assignments := fmupd k (a\<lparr>as_claimed := True\<rparr>) (kc_assignments s1), kc_ledger := st\<rparr>)"
    if "next_claim K m (T 0) s1 = Some (k, a)" for k a st
    using next_claim_sound [OF that] assms not_its_assignment [OF I, of k a] I
    by (auto simp: keeps_others_def untouched_def claimable_def)
  then have up': "keeps_others n s (s1\<lparr>kc_assignments := fmupd k (a\<lparr>as_claimed := True\<rparr>) (kc_assignments s1)\<rparr>)"
    if "next_claim K m (T 0) s1 = Some (k, a)" for k a
    using up [OF that, of "kc_ledger s1"] by simp
  show "wp (claim_work K T busy m) (\<lambda>_. keeps_others n s) (\<lambda>_. keeps_others n s) s1"
    unfolding claim_work_def using I up up' by (auto simp: wp_simps split: option.split)
qed

lemma others_submit_receipt:
  assumes "er_node_id r \<noteq> n"
  shows "keeps_prop (keeps_others n s) (submit_receipt K T busy r)"
  unfolding wp_keeps
proof (intro allI impI)
  fix s1 assume I: "keeps_others n s s1"
  have out: "keeps_prop (keeps_others n s) (record_outputs K T i r outputs)" for i outputs
    by (induction outputs arbitrary: i)
      (use assms in \<open>auto intro!: handler_keeps simp: keeps_others_def untouched_def\<close>)
  have acc: "wp (accept_receipt K T r a) (\<lambda>_. keeps_others n s) (\<lambda>_. keeps_others n s) s1"
    if "fmlookup (kc_assignments s1) (er_job_id r) = Some a" "receipt_matches r a (kc_fencing_epoch s1)" for a
  proof -
    have "keeps_others n s (complete_job r a s1)"
      using that assms not_its_assignment [OF I, of "er_job_id r" a] I
      by (auto simp: keeps_others_def untouched_def complete_job_def receipt_matches_def)
    moreover have "keeps_prop (keeps_others n s) (bind_h (record_event K (T 0) ''job.receipted'' (kl_uuid_text K (er_job_id r)) (vc_to (kl_receipt K) r)) (\<lambda>_.
       bind_h (modify (\<lambda>s. s\<lparr>kc_completed_receipts := fmupd (er_receipt_id r) (er_job_id r) (kc_completed_receipts s)\<rparr>)) (\<lambda>_.
       bind_h (record_outputs K T 1 r (er_outputs r)) (\<lambda>_. answer False))))"
      by (intro handler_keeps out) (simp add: keeps_others_def untouched_def)
    ultimately show ?thesis unfolding accept_receipt_def wp_bind wp_keeps by (simp add: wp_atoms)
  qed
  show "wp (submit_receipt K T busy r) (\<lambda>_. keeps_others n s) (\<lambda>_. keeps_others n s) s1"
    unfolding submit_receipt_def settle_receipt_def using I by (auto simp: wp_simps split: option.split sum.split intro: acc)
qed

text \<open>Enrollment leaves everything of the node alone but its identity, which it replaces only by consuming an
  open invitation whose code the request knows.\<close>

definition replaced_by_invite :: "'sk control_lib \<Rightarrow> clock \<Rightarrow> string \<Rightarrow> uuid \<Rightarrow> 'sk controller \<Rightarrow> 'sk controller \<Rightarrow> bool" where
  "replaced_by_invite K T peer n s s' \<longleftrightarrow> (\<exists>k iv code identity. fmlookup (kc_invites s) k = Some iv \<and> fmlookup (kc_invites s') k = None
     \<and> T 0 < iv_expires_at iv \<and> iv_secret_hash iv = hash_secret K code
     \<and> fmlookup (kc_nodes s') n = Some identity \<and> ni_public_key identity = peer)"

lemma others_enroll_node:
  "wp (enroll_node K T q)
     (\<lambda>_ s'. untouched n s s' \<and> (kc_nodes s' = kc_nodes s \<or> ni_node_id (en_identity q) \<noteq> n \<and> fmlookup (kc_nodes s') n = fmlookup (kc_nodes s) n
        \<or> replaced_by_invite K T (ni_public_key (en_identity q)) n s s'))
     (\<lambda>_ s'. untouched n s s' \<and> (kc_nodes s' = kc_nodes s \<or> ni_node_id (en_identity q) \<noteq> n \<and> fmlookup (kc_nodes s') n = fmlookup (kc_nodes s) n
        \<or> replaced_by_invite K T (ni_public_key (en_identity q)) n s s')) s"
proof -
  have take: "wp (take_invite i) Q E s = (case fmlookup (kc_invites s) i of
      None \<Rightarrow> E (Reject 401 ''unknown or already consumed invite'' []) (s\<lparr>kc_invites := fmdrop i (kc_invites s)\<rparr>)
    | Some iv \<Rightarrow> Q iv (s\<lparr>kc_invites := fmdrop i (kc_invites s)\<rparr>))" for i Q E
    by (simp add: wp_def take_invite_def from_option_def answer_def refuse_def split: option.splits)
  show ?thesis
    unfolding enroll_node_def store_identity_def Let_def
    by (auto simp: wp_simps take untouched_def replaced_by_invite_def split: option.split sum.split)
qed

section \<open>The gateway\<close>

text \<open>A peer sends a JSON value; the forwarded text is read back up to the rounding of fractions, from which
  the parsers read the same identifiers.\<close>

definition reads_same :: "'a value_codec \<Rightarrow> ('a \<Rightarrow> 'b) \<Rightarrow> bool" where
  "reads_same c f \<longleftrightarrow> (\<forall>v w x y. json_similar v w \<and> vc_from c v = Some x \<and> vc_from c w = Some y \<longrightarrow> f x = f y)"

definition gateway_lib_ok :: "'sk control_lib \<Rightarrow> gateway_lib \<Rightarrow> bool" where
  "gateway_lib_ok K G \<longleftrightarrow> json_reads_back (kl_ledger K) \<and> reads_same (gl_enrollment G) en_identity
     \<and> reads_same (kl_offer K) ro_node_id \<and> reads_same (kl_receipt K) er_node_id"

lemma read_body_keeps:
  assumes "json_reads_back (kl_ledger K)" "reads_same c f" "body_as c what (Some v) = Inr x" "json_value v"
    and "\<And>y. f y = f x \<Longrightarrow> I (snd (g y s))" and "I s"
  shows "I (snd (read_body K G c (Some v) g s))"
proof -
  obtain w where w: "ll_json_from_str (kl_ledger K) (ll_json_to_string (kl_ledger K) v) = Some w" "json_similar v w"
    using assms(1,4) unfolding json_reads_back_def by blast
  have "vc_from c v = Some x" using assms(3) by (auto simp: body_as_def split: option.splits)
  then have "f y = f x" if "vc_from c w = Some y" for y using assms(2) w(2) that unfolding reads_same_def by metis
  then show ?thesis using w(1) assms(5,6) by (auto simp: read_body_def split: option.split)
qed

lemma snd_respond: "snd (respond K f h s) = snd (h s)"
  by (auto simp: respond_def split: prod.splits sum.splits)

text \<open>The effect of one admitted request on a node whose key is not the peer's.\<close>

definition harmless :: "'sk control_lib \<Rightarrow> clock \<Rightarrow> string \<Rightarrow> uuid \<Rightarrow> 'sk controller \<Rightarrow> 'sk controller \<Rightarrow> bool" where
  "harmless K T peer n s s' \<longleftrightarrow> untouched n s s'
     \<and> (fmlookup (kc_nodes s') n = fmlookup (kc_nodes s) n \<or> replaced_by_invite K T peer n s s')"

lemma harmless_refl: "harmless K T peer n s s"
  by (simp add: harmless_def)

lemma harmless_others:
  assumes "keeps_prop (keeps_others n s) h"
  shows "harmless K T peer n s (snd (respond K f h s))"
proof -
  have "keeps_others n s (snd (h s))" using assms by (simp add: keeps_prop_def keeps_others_def)
  then show ?thesis by (simp add: snd_respond harmless_def keeps_others_def)
qed

lemma harmless_enroll:
  "ni_public_key (en_identity q) = peer \<Longrightarrow> harmless K T peer n s (snd (respond K f (enroll_node K T q) s))"
  using others_enroll_node [of K T q n s] unfolding wp_snd by (auto simp: snd_respond harmless_def)

lemma harmless_probe: "harmless K T peer n s (snd (respond K f (link_probe K G r) s))"
  by (rule harmless_others) (auto simp: link_probe_def Let_def intro!: handler_keeps)

text \<open>The node a request is bound to is not the node of another key.\<close>

lemma require_mesh_node_other:
  "require_mesh_node s peer m = Inr () \<Longrightarrow> fmlookup (kc_nodes s) n = Some i \<Longrightarrow> ni_public_key i \<noteq> peer \<Longrightarrow> m \<noteq> n"
  by (auto simp: require_mesh_node_def split: option.splits if_splits)

lemma first_route:
  "(if p0 then Inl e0 else if p1 then Inr () else if p2 then x2 else if p3 then x3 else if p4 then x4 else if p5 then x5
     else if p6 then x6 else Inl e1) = Inr ()
   \<Longrightarrow> p1 \<or> p2 \<and> x2 = Inr () \<or> p3 \<and> x3 = Inr () \<or> p4 \<and> x4 = Inr () \<or> p5 \<or> p6 \<and> x6 = Inr ()"
  by (simp split: if_splits)

lemmas authorized_routes = first_route [OF trans [OF authorize_mesh_control_def [unfolded Let_def, symmetric]]]

lemma body_as_Inr:
  assumes "body_as c what body = Inr x"
  obtains v where "body = Some v" "body_as c what (Some v) = Inr x"
  using assms by (cases body) (auto simp: body_as_def)

lemma admitted_route_harmless:
  assumes lib: "gateway_lib_ok K G" and n: "fmlookup (kc_nodes s) n = Some i" "ni_public_key i \<noteq> peer"
    and a: "authorize_mesh_control K G s peer q = Inr ()" and v: "\<And>v. cq_body q = Some v \<Longrightarrow> json_value v"
    and h: "(cq_method q, cq_path q) \<noteq> (''GET'', ''/health'')"
  shows "harmless K T peer n s (snd (protected_route K G T busy other (cq_method q) (cq_path q) (cq_body q) s))"
proof -
  have json: "json_reads_back (kl_ledger K)" using lib by (simp add: gateway_lib_ok_def)
  note node = require_mesh_node_other [OF _ n]
  from authorized_routes [OF a] h show ?thesis
  proof (elim disjE conjE)
    assume r: "(cq_method q, cq_path q) = (''POST'', ''/v1/nodes/enroll'')"
      and "and_then (body_as (gl_enrollment G) ''enrollment'' (cq_body q)) (\<lambda>enrollment.
        if ni_public_key (en_identity enrollment) = peer then Inr ()
        else Inl ''transport identity and enrollment identity differ'') = Inr ()"
    then obtain x where x: "body_as (gl_enrollment G) ''enrollment'' (cq_body q) = Inr x" "ni_public_key (en_identity x) = peer"
      by (auto simp: and_then_Inr split: if_splits)
    obtain b where b: "cq_body q = Some b" "body_as (gl_enrollment G) ''enrollment'' (Some b) = Inr x" by (rule body_as_Inr [OF x(1)])
    have "harmless K T peer n s (snd (read_body K G (gl_enrollment G) (Some b) (\<lambda>r. respond K (enrolled_body K) (enroll_node K T r)) s))"
      by (rule read_body_keeps [OF json _ b(2), where f = en_identity and I = "harmless K T peer n s"])
        (use lib x(2) v [OF b(1)] in \<open>auto simp: gateway_lib_ok_def harmless_refl intro: harmless_enroll\<close>)
    then show ?thesis using r b(1) by (simp add: protected_route_def)
  next
    assume r: "(cq_method q, cq_path q) = (''POST'', ''/v1/offers'')"
      and "and_then (body_as (kl_offer K) ''offer'' (cq_body q)) (\<lambda>offer.
        if ro_mesh_endpoint offer = None then Inl ''remote worker offer requires a signed mesh endpoint''
        else require_mesh_node s peer (ro_node_id offer)) = Inr ()"
    then obtain x where x: "body_as (kl_offer K) ''offer'' (cq_body q) = Inr x" "ro_node_id x \<noteq> n"
      using node by (auto simp: and_then_Inr split: if_splits)
    obtain b where b: "cq_body q = Some b" "body_as (kl_offer K) ''offer'' (Some b) = Inr x" by (rule body_as_Inr [OF x(1)])
    have "harmless K T peer n s (snd (read_body K G (kl_offer K) (Some b) (\<lambda>x. respond K (registered_body K) (register_offer K T x)) s))"
      by (rule read_body_keeps [OF json _ b(2), where f = ro_node_id and I = "harmless K T peer n s"])
        (use lib x(2) v [OF b(1)] in \<open>auto simp: gateway_lib_ok_def harmless_refl intro!: harmless_others others_register_offer\<close>)
    then show ?thesis using r b(1) by (simp add: protected_route_def)
  next
    assume r: "(cq_method q, cq_path q) = (''POST'', ''/v1/receipts'')"
      and "and_then (body_as (kl_receipt K) ''receipt'' (cq_body q)) (\<lambda>receipt.
        require_mesh_node s peer (er_node_id receipt)) = Inr ()"
    then obtain x where x: "body_as (kl_receipt K) ''receipt'' (cq_body q) = Inr x" "er_node_id x \<noteq> n"
      using node by (auto simp: and_then_Inr)
    obtain b where b: "cq_body q = Some b" "body_as (kl_receipt K) ''receipt'' (Some b) = Inr x" by (rule body_as_Inr [OF x(1)])
    have "harmless K T peer n s (snd (read_body K G (kl_receipt K) (Some b) (\<lambda>r. respond K (receipt_body K r) (submit_receipt K T busy r)) s))"
      by (rule read_body_keeps [OF json _ b(2), where f = er_node_id and I = "harmless K T peer n s"])
        (use lib x(2) v [OF b(1)] in \<open>auto simp: gateway_lib_ok_def harmless_refl intro!: harmless_others others_submit_receipt\<close>)
    then show ?thesis using r b(1) by (simp add: protected_route_def)
  next
    assume "(cq_method q, cq_path q) = (''POST'', ''/v1/benchmarks/link'')"
    then show ?thesis
      by (auto simp: protected_route_def read_body_def harmless_refl intro: harmless_probe split: option.split)
  next
    assume r: "cq_method q = ''GET''" "starts_with claim_path (cq_path q)"
      and "(case claim_node K (cq_path q) of None \<Rightarrow> Inl ''claim node id is invalid''
         | Some node_id \<Rightarrow> require_mesh_node s peer node_id) = Inr ()"
    then obtain m where m: "claim_node K (cq_path q) = Some m" "m \<noteq> n" using node by (auto split: option.splits)
    then show ?thesis using r by (simp add: protected_route_def harmless_others others_claim_work)
  qed simp
qed

text \<open>
  C7. A remote peer touches only its own node. Whatever a peer of the mesh asks of the controller, a node that is
  enrolled under another key keeps its offer, its assignments and its replicas; the stop latch, the epoch, the
  Governor and the shard sets stay; and the identity of the node stays, unless the request is an enrollment that
  consumes an open and unexpired invitation whose code it knows, in which case the peer has taken its place.
\<close>

theorem remote_peer_touches_only_its_node:
  assumes "gateway_lib_ok K G" and "fmlookup (kc_nodes s) n = Some i" "ni_public_key i \<noteq> peer"
    and "\<And>v. cq_body q = Some v \<Longrightarrow> json_value v"
    and "process_mesh_control K G T busy other H peer q s = (response, s')"
  shows "kc_kill_latch s' = kc_kill_latch s \<and> kc_fencing_epoch s' = kc_fencing_epoch s \<and> kc_governor s' = kc_governor s
     \<and> kc_shard_sets s' = kc_shard_sets s \<and> fmlookup (kc_offers s') n = fmlookup (kc_offers s) n
     \<and> (\<forall>k a. cl_node_id (as_lease a) = n \<longrightarrow>
          fmlookup (kc_assignments s') k = Some a \<longleftrightarrow> fmlookup (kc_assignments s) k = Some a)
     \<and> (\<forall>d. fmlookup (kc_artifact_replicas s') (d, n) = fmlookup (kc_artifact_replicas s) (d, n))
     \<and> (fmlookup (kc_nodes s') n = Some i
        \<or> (\<exists>k iv code identity. fmlookup (kc_invites s) k = Some iv \<and> fmlookup (kc_invites s') k = None
             \<and> T 1 < iv_expires_at iv \<and> iv_secret_hash iv = hash_secret K code
             \<and> fmlookup (kc_nodes s') n = Some identity \<and> ni_public_key identity = peer))"
proof -
  have rec: "harmless K (\<lambda>n. T (n + 1)) peer n s (snd (record_event K now t subj v s))" for now t subj v
    using others_record(2) [of n s K now t subj v] by (auto simp: keeps_prop_def keeps_others_def harmless_def)
  have loc: "harmless K (\<lambda>n. T (n + 1)) peer n s (snd (local_service K G (\<lambda>n. T (n + 1)) busy other token
      (cq_method q) (cq_path q) (cq_body q) s))" if "authorize_mesh_control K G s peer q = Inr ()" for token
    using admitted_route_harmless [OF assms(1-3) that assms(4), of "\<lambda>n. T (n + 1)" busy other]
    by (auto simp: local_service_def harmless_refl)
  have "harmless K (\<lambda>n. T (n + 1)) peer n s s'"
    using assms(5) rec loc
    by (fastforce simp: process_mesh_control_def deny_mesh_control_def harmless_refl split: if_splits sum.splits prod.splits
        dest: arg_cong [where f = snd])
  then show ?thesis using assms(2) by (auto simp: harmless_def untouched_def replaced_by_invite_def)
qed

text \<open>A peer without a node asks for the work of the demo node.\<close>

definition demo_gateway :: gateway_lib where
  "demo_gateway = \<lparr>gl_request = (\<lambda>_. None), gl_enrollment = blank_codec, gl_probe = blank_codec, gl_base64_decode = Some,
     gl_base64_encode = id, gl_local_api_token = ''token'', gl_version = ''1'', gl_mesh_mode = ''direct'', gl_mesh_sockets = [],
     gl_body_rejection = (422, [])\<rparr>"

definition demo_theft :: mesh_control_request where
  "demo_theft = \<lparr>cq_schema = mesh_control_request_SCHEMA, cq_request_id = 1, cq_method = ''GET'',
     cq_path = ''/v1/work/claim?node_id=1111111'', cq_body = None\<rparr>"

definition demo_http :: local_http where
  "demo_http = \<lparr>lh_sent = True, lh_receive = (\<lambda>t. Some \<lparr>la_content_length = None, la_chunks = [t], la_broken = False\<rparr>)\<rparr>"

theorem remote_peer_touches_only_its_node_witness:
  "\<exists>st response s'. process_mesh_control demo_control demo_gateway noon False (\<lambda>_ _ _ s. ((404, []), s)) demo_http ''intruder'' demo_theft
       (demo_assigned False st) = (response, s')
     \<and> fmlookup (kc_assignments s') 11 = Some \<lparr>as_job = demo_work_job, as_lease = demo_work_lease, as_claimed = False\<rparr>
     \<and> fmlookup (kc_nodes s') 7 = Some demo_identity"
proof -
  obtain response s' where r: "process_mesh_control demo_control demo_gateway noon False (\<lambda>_ _ _ s. ((404, []), s)) demo_http
      ''intruder'' demo_theft (demo_assigned False open_ledger) = (response, s')" by force
  have "er_node_id x = 0" if "vc_from demo_receipt_codec v = Some x" for v x
    using that by (cases "json_as_str v") (auto simp: demo_receipt_codec_def blank_receipt_def case_prod_beta)
  then have "reads_same demo_receipt_codec er_node_id" unfolding reads_same_def by metis
  then have lib: "gateway_lib_ok demo_control demo_gateway"
    by (simp add: gateway_lib_ok_def demo_control_def demo_gateway_def exact_ledger_lib_ok)
      (simp add: reads_same_def blank_codec_def)
  have n: "fmlookup (kc_nodes (demo_assigned False open_ledger)) 7 = Some demo_identity" by (simp add: demo_states)
  have "length (ni_public_key demo_identity) = 64" by (simp add: demo_identity_def public_hex_def crypto_laws [OF demo_crypto_ok])
  then have k: "ni_public_key demo_identity \<noteq> ''intruder''" by auto
  have b: "json_value v" if "cq_body demo_theft = Some v" for v using that by (simp add: demo_theft_def)
  have i: "kc_invites (demo_assigned False open_ledger) = fmempty" by (simp add: demo_states)
  have a: "fmlookup (kc_assignments (demo_assigned False open_ledger)) 11
      = Some \<lparr>as_job = demo_work_job, as_lease = demo_work_lease, as_claimed = False\<rparr>" "cl_node_id demo_work_lease = 7"
    by (simp_all add: demo_states demo_lease_facts)
  have "fmlookup (kc_assignments s') 11 = Some \<lparr>as_job = demo_work_job, as_lease = demo_work_lease, as_claimed = False\<rparr>
     \<and> fmlookup (kc_nodes s') 7 = Some demo_identity"
    using remote_peer_touches_only_its_node [OF lib n k b r] i a by auto
  with r show ?thesis by blast
qed

end
