(* ===== verification/Rampage_Shard_Sets.thy ===== *)
theory Rampage_Shard_Sets
  imports Rampage_Daemon_Demo Rampage_Shards
begin

text \<open>
  The submission of a shard set to the controller daemon: it is admitted as a whole or not at all.
\<close>

lemma assign_all_others:
  "k \<notin> (\<lambda>x. js_job_id (fst x)) ` set xs \<Longrightarrow> fmlookup (kc_assignments (assign_all xs s)) k = fmlookup (kc_assignments s) k"
  "key \<notin> (\<lambda>x. js_idempotency_key (fst x)) ` set xs \<Longrightarrow> fmlookup (kc_idempotency (assign_all xs s)) key = fmlookup (kc_idempotency s) key"
  by (induction xs s rule: assign_all.induct) (auto simp: assign_def)

lemma assign_all_assigns:
  assumes "distinct (map (\<lambda>x. js_job_id (fst x)) xs)" "(job, lease, p) \<in> set xs"
  shows "fmlookup (kc_assignments (assign_all xs s)) (js_job_id job) = Some \<lparr>as_job = job, as_lease = lease, as_claimed = False\<rparr>"
  using assms
proof (induction xs s rule: assign_all.induct)
  case (2 j l q rest s)
  then show ?case
    using assign_all_others(1) [of "js_job_id job" rest "assign j l (sp_node_id q) s"] by force
qed simp

lemma assign_all_keys:
  assumes "distinct (map (\<lambda>x. js_idempotency_key (fst x)) xs)" "(job, lease, p) \<in> set xs"
  shows "fmlookup (kc_idempotency (assign_all xs s)) (js_idempotency_key job) = Some (js_job_id job)"
  using assms
proof (induction xs s rule: assign_all.induct)
  case (2 j l q rest s)
  then show ?case
    using assign_all_others(2) [of "js_idempotency_key job" rest "assign j l (sp_node_id q) s"] by (force simp: assign_def)
qed simp

text \<open>What an answer and a rejection leave behind.\<close>

definition all_assigned :: "shard_set \<Rightarrow> capability_lease list \<Rightarrow> 'sk controller \<Rightarrow> 'sk controller \<Rightarrow> bool" where
  "all_assigned sset leases s s' \<longleftrightarrow> length leases = length (ss_shards sset)
     \<and> (\<forall>(job, lease) \<in> set (zip (ss_shards sset) leases). cl_job_id lease = js_job_id job
          \<and> fmlookup (kc_assignments s') (js_job_id job) = Some \<lparr>as_job = job, as_lease = lease, as_claimed = False\<rparr>
          \<and> fmlookup (kc_idempotency s') (js_idempotency_key job) = Some (js_job_id job))
     \<and> (\<forall>k. k \<notin> js_job_id ` set (ss_shards sset) \<longrightarrow> fmlookup (kc_assignments s') k = fmlookup (kc_assignments s) k)
     \<and> kc_shard_sets s' = fmupd (ss_set_id sset) \<lparr>sr_spec = sset, sr_leases = leases\<rparr> (kc_shard_sets s)"

lemma assign_all_whole:
  assumes l: "list_all2 (\<lambda>(job, p) lease. cl_job_id lease = js_job_id job) (zip (ss_shards sset) ps) leases"
    and len: "length ps = length (ss_shards sset)"
    and d: "distinct (map js_job_id (ss_shards sset))" "distinct (map js_idempotency_key (ss_shards sset))"
    and s: "kc_assignments s1 = kc_assignments s" "kc_shard_sets s1 = kc_shard_sets s"
    and s': "s2 = assign_all (zip (ss_shards sset) (zip leases ps)) s1"
  shows "all_assigned sset leases s (s2\<lparr>kc_shard_sets := fmupd (ss_set_id sset) \<lparr>sr_spec = sset, sr_leases = leases\<rparr> (kc_shard_sets s2)\<rparr>)"
proof -
  let ?xs = "zip (ss_shards sset) (zip leases ps)"
  have n: "length leases = length (ss_shards sset)" using list_all2_lengthD [OF l] len by simp
  have fst: "map fst ?xs = ss_shards sset" using n len by simp
  then have m: "map (\<lambda>x. f (fst x)) ?xs = map f (ss_shards sset)" for f :: "job_spec \<Rightarrow> 'c"
    by (metis (no_types, lifting) comp_apply list.map_comp list.map_cong0)
  have tri: "\<exists>p. (job, lease, p) \<in> set ?xs \<and> cl_job_id lease = js_job_id job"
    if jl: "(job, lease) \<in> set (zip (ss_shards sset) leases)" for job lease
  proof -
    obtain i where "i < length leases" "job = ss_shards sset ! i" "lease = leases ! i" using jl by (auto simp: set_zip)
    then show ?thesis using list_all2_nthD2 [OF l, of i] n len by (intro exI [of _ "ps ! i"]) (auto simp: set_zip)
  qed
  have "js_job_id ` set (ss_shards sset) = (\<lambda>x. js_job_id (fst x)) ` set ?xs" using m [of js_job_id] by (metis list.set_map)
  then have others: "k \<notin> js_job_id ` set (ss_shards sset) \<Longrightarrow> fmlookup (kc_assignments s2) k = fmlookup (kc_assignments s) k" for k
    unfolding s' using assign_all_others(1) [of k ?xs s1] s(1) by simp
  have each: "cl_job_id lease = js_job_id job
          \<and> fmlookup (kc_assignments s2) (js_job_id job) = Some \<lparr>as_job = job, as_lease = lease, as_claimed = False\<rparr>
          \<and> fmlookup (kc_idempotency s2) (js_idempotency_key job) = Some (js_job_id job)"
    if "(job, lease) \<in> set (zip (ss_shards sset) leases)" for job lease
    using tri [OF that] assign_all_assigns [of ?xs job lease _ s1] assign_all_keys [of ?xs job lease _ s1] d
    unfolding m s' by blast
  show ?thesis using n each others s(2) by (auto simp: all_assigned_def s')
qed

lemma existing_shard_set_Some:
  assumes "existing_shard_set sset (values_in_order m ks) = Some x"
  shows "\<exists>k. fmlookup m k = Some x \<and> ss_idempotency_key (sr_spec x) = ss_idempotency_key sset"
proof -
  have "x \<in> set (values_in_order m ks)" "ss_idempotency_key (sr_spec x) = ss_idempotency_key sset"
    using assms unfolding existing_shard_set_def by (metis (mono_tags, lifting) find_Some_iff nth_mem)+
  then show ?thesis by (auto simp: values_in_order_def List.map_filter_def)
qed

definition whole_answer :: "shard_set \<Rightarrow> 'sk controller \<Rightarrow> bool \<times> capability_lease list \<Rightarrow> 'sk controller \<Rightarrow> bool" where
  "whole_answer sset s r s' \<longleftrightarrow> (if fst r then all_assigned sset (snd r) s s' else s' = s \<and> (\<exists>k x. fmlookup (kc_shard_sets s) k = Some x
     \<and> sr_leases x = snd r \<and> ss_idempotency_key (sr_spec x) = ss_idempotency_key sset))"

lemma admit_shards_whole:
  assumes valid: "shard_set_validate_at sset (sn_now env) = Inr ()" and len: "length ps = length (ss_shards sset)"
  shows "wp (admit_shards K E env x sset offers ps) (whole_answer sset s) (\<lambda>_ s'. authority_state s' = authority_state s) s"
proof (rule wp_admit_shards)
  have d: "distinct (map js_job_id (ss_shards sset))" "distinct (map js_idempotency_key (ss_shards sset))"
    using valid by (simp_all add: shard_set_validate_exact)
  show "wp (stage_shards K E (sn_jobs env) 0 offers (zip (ss_shards sset) ps))
    (\<lambda>_ s'. (\<forall>leases. list_all2 (\<lambda>(job, p) lease. issued_for K s' job (sp_node_id p) lease
             \<and> (\<exists>offer. offer_of offers (sp_node_id p) = Some offer)) (zip (ss_shards sset) ps) leases
         \<longrightarrow> (\<forall>st'. appended K (sn_append env) ''shard_set.admitted'' (kl_uuid_text K (ss_set_id sset))
              (JObject [(''leases'', JArray (map (vc_to (kl_lease K)) leases)), (''placements'', x),
                (''set'', vc_to (kl_shard_set K) sset)]) (kc_ledger s') st'
            \<longrightarrow> (let s'' = assign_all (zip (ss_shards sset) (zip leases ps))
                   (drop_expired_reservations (sn_now env) (s'\<lparr>kc_ledger := st'\<rparr>))
                 in whole_answer sset s (True, leases) (s''\<lparr>kc_shard_sets := fmupd (ss_set_id sset) \<lparr>sr_spec = sset, sr_leases = leases\<rparr>
                      (kc_shard_sets s'')\<rparr>))))
       \<and> (\<forall>e :: http_reject. authority_state s' = authority_state s)) (\<lambda>_ s'. authority_state s' = authority_state s) s"
  proof (rule frame_wp [OF frame_stage_shards refl])
    fix s' assume s': "authority_state s' = authority_state s"
    have job: "cl_job_id lease = js_job_id job" if "issued_for K s' job n lease" for job n lease
      using issued_for_lease [OF that] issued_lease_job by blast
    have w: "all_assigned sset leases s (s''\<lparr>kc_shard_sets := fmupd (ss_set_id sset) \<lparr>sr_spec = sset, sr_leases = leases\<rparr>
          (kc_shard_sets s'')\<rparr>)"
      if l: "list_all2 (\<lambda>(job, p) lease. issued_for K s' job (sp_node_id p) lease
             \<and> (\<exists>offer. offer_of offers (sp_node_id p) = Some offer)) (zip (ss_shards sset) ps) leases"
        and "s'' = assign_all (zip (ss_shards sset) (zip leases ps)) (drop_expired_reservations (sn_now env) (s'\<lparr>kc_ledger := st'\<rparr>))"
      for leases s'' st'
    proof -
      have "list_all2 (\<lambda>(job, p) lease. cl_job_id lease = js_job_id job) (zip (ss_shards sset) ps) leases"
        by (rule list_all2_mono [OF l]) (auto dest: job)
      from assign_all_whole [OF this len d _ _ that(2)] show ?thesis
        using authority_state_eqD(5,10) [OF s'] by simp
    qed
    show "(\<forall>leases. list_all2 (\<lambda>(job, p) lease. issued_for K s' job (sp_node_id p) lease
             \<and> (\<exists>offer. offer_of offers (sp_node_id p) = Some offer)) (zip (ss_shards sset) ps) leases
         \<longrightarrow> (\<forall>st'. appended K (sn_append env) ''shard_set.admitted'' (kl_uuid_text K (ss_set_id sset))
              (JObject [(''leases'', JArray (map (vc_to (kl_lease K)) leases)), (''placements'', x),
                (''set'', vc_to (kl_shard_set K) sset)]) (kc_ledger s') st'
            \<longrightarrow> (let s'' = assign_all (zip (ss_shards sset) (zip leases ps))
                   (drop_expired_reservations (sn_now env) (s'\<lparr>kc_ledger := st'\<rparr>))
                 in whole_answer sset s (True, leases) (s''\<lparr>kc_shard_sets := fmupd (ss_set_id sset) \<lparr>sr_spec = sset, sr_leases = leases\<rparr>
                      (kc_shard_sets s'')\<rparr>))))
       \<and> (\<forall>e :: http_reject. authority_state s' = authority_state s)"
      using w s' by (simp add: Let_def whole_answer_def)
  qed simp
qed simp

text \<open>
  C8. A shard set is admitted as a whole or not at all. A rejected submission, for whatever reason and at
  whatever point, leaves assignments, idempotency keys, reservations, shard sets, members, offers and the epoch as they
  were. A new admission assigns every shard of the set under a lease of its own job, binds its idempotency key,
  touches no other assignment and records the set; the repetition of an admitted set returns its leases and
  changes nothing.
\<close>

theorem shard_set_all_or_nothing:
  "case submit_shard_set K E env pj sset s of
     (Inl e, s') \<Rightarrow> kc_assignments s' = kc_assignments s \<and> kc_idempotency s' = kc_idempotency s
       \<and> kc_reservations s' = kc_reservations s \<and> kc_shard_sets s' = kc_shard_sets s \<and> kc_nodes s' = kc_nodes s
       \<and> kc_offers s' = kc_offers s \<and> kc_fencing_epoch s' = kc_fencing_epoch s
   | (Inr (True, leases), s') \<Rightarrow> length leases = length (ss_shards sset)
       \<and> (\<forall>(job, lease) \<in> set (zip (ss_shards sset) leases). cl_job_id lease = js_job_id job
            \<and> fmlookup (kc_assignments s') (js_job_id job) = Some \<lparr>as_job = job, as_lease = lease, as_claimed = False\<rparr>
            \<and> fmlookup (kc_idempotency s') (js_idempotency_key job) = Some (js_job_id job))
       \<and> (\<forall>k. k \<notin> js_job_id ` set (ss_shards sset) \<longrightarrow> fmlookup (kc_assignments s') k = fmlookup (kc_assignments s) k)
       \<and> kc_shard_sets s' = fmupd (ss_set_id sset) \<lparr>sr_spec = sset, sr_leases = leases\<rparr> (kc_shard_sets s)
   | (Inr (False, leases), s') \<Rightarrow> s' = s \<and> (\<exists>k r. fmlookup (kc_shard_sets s) k = Some r \<and> sr_leases r = leases
       \<and> ss_idempotency_key (sr_spec r) = ss_idempotency_key sset)"
proof -
  have again: "whole_answer sset s (False, sr_leases x) s"
    if "existing_shard_set sset (values_in_order (kc_shard_sets s) ks) = Some x" for x ks
    using existing_shard_set_Some [OF that] by (auto simp: whole_answer_def)
  have "wp (submit_shard_set K E env pj sset) (whole_answer sset s) (\<lambda>_ s'. authority_state s' = authority_state s) s"
    unfolding submit_shard_set_def submit_shard_set_gated_def Let_def
    by (auto simp: wp_simps split: option.split sum.split dest: plan_length intro!: admit_shards_whole again)
  then show ?thesis
    using authority_state_eqD(2,3,5,6,8,10,11) [of "snd (submit_shard_set K E env pj sset s)" s]
    by (auto simp: wp_def whole_answer_def all_assigned_def split: prod.splits sum.splits bool.splits)
qed

text \<open>A set of one shard on the demo worker.\<close>

definition demo_shards :: shard_set where
  "demo_shards = \<lparr>ss_schema = shard_set_SCHEMA, ss_set_id = 21, ss_project_id = 12, ss_submitted_by = 13,
     ss_shards = [demo_work_job], ss_minimum_successes = 1, ss_deadline = seconds 600, ss_idempotency_key = ''set''\<rparr>"

definition demo_shard_env :: shard_env where
  "demo_shard_env = \<lparr>sn_now = 0, sn_check = noon, sn_authorize = noon, sn_append = 0, sn_jobs = (\<lambda>_. demo_job_env),
     sn_order = (\<lambda>m. sorted_list_of_fset (fmdom m))\<rparr>"

lemma demo_shards_valid: "shard_set_validate_at demo_shards 0 = Inr ()"
  unfolding shard_set_validate_exact
  by (simp add: demo_shards_def demo_job_valid)
    (simp add: demo_work_job_def demo_job_def seconds_def nanos_per_second_def ws1_def ws3_def byte_def)

lemma demo_shards_planned:
  "\<exists>score. plan_shard_set demo_shards [demo_worker_offer] [] admission_policy_default 0 loc
     = Inr [\<lparr>sp_job_id = 11, sp_node_id = 7, sp_score = score\<rparr>]"
proof -
  obtain score where "choose_offer_with_topology demo_work_job [demo_worker_offer] [] admission_policy_default 0 Map.empty = Some (demo_worker_offer, score)"
    using demo_offer_fits by blast
  then have "ps_satisfies (score_offer_with_admission demo_work_job demo_worker_offer [] admission_policy_default 0)"
    by (auto simp: choose_offer_with_topology_def choose_best_def topology_satisfies split: if_splits)
  from place_shards_single [OF this, of demo_shards loc "[]" "[]"] show ?thesis
    by (auto simp: plan_shard_set_def demo_shards_def demo_job_fields demo_offer_fields)
qed

lemma demo_shards_admitted:
  assumes "room 896 st"
  shows "wp (submit_shard_set demo_control demo_endpoints demo_shard_env (\<lambda>_. JNull) demo_shards)
     (\<lambda>r _. r = (True, [demo_work_lease])) (\<lambda>_ _. False) (demo_offering st)"
proof -
  let ?s = "demo_offering st"
  have o: "placement_offers demo_control ?s = [demo_worker_offer]"
    by (simp add: placement_offers_def values_in_order_def demo_states demo_control_def List.map_filter_def)
  obtain score where p: "plan_shard_set demo_shards [demo_worker_offer] [] admission_policy_default 0
      (shard_input_locality ?s [demo_worker_offer] demo_shards) = Inr [\<lparr>sp_job_id = 11, sp_node_id = 7, sp_score = score\<rparr>]"
    using demo_shards_planned by blast
  have s: "\<not> kill_latch_is_file ?s" "kc_reservations ?s = []" "kc_admission_policy ?s = admission_policy_default" "kc_ledger ?s = st"
    "kc_fencing_epoch ?s = 0" "kc_governor ?s = demo_governor False" "kc_shard_sets ?s = fmempty" "\<not> shard_key_conflict demo_shards ?s"
    by (simp_all add: kill_latch_is_file_def demo_states shard_key_conflict_def demo_shards_def)
  have e: "existing_shard_set demo_shards (values_in_order fmempty ks) = None" for ks
    by (simp add: existing_shard_set_def values_in_order_def List.map_filter_def)
  have n: "sn_now demo_shard_env = 0" "sn_check demo_shard_env = noon" "sn_authorize demo_shard_env = noon" "sn_append demo_shard_env = 0"
    "sn_jobs demo_shard_env = (\<lambda>_. demo_job_env)" "ss_shards demo_shards = [demo_work_job]"
    by (simp_all add: demo_shard_env_def demo_shards_def)
  have f: "offer_of [demo_worker_offer] 7 = Some demo_worker_offer" by (simp add: offer_of_def demo_offer_fields)
  show ?thesis
    unfolding submit_shard_set_def submit_shard_set_gated_def Let_def admit_shards_def
    by (simp add: demo_wp s demo_shards_valid n e o p f demo_work_admitted stage_job_inputs_def demo_job_fields
        wp_authorize_or_refuse demo_crypto_of demo_work_authorized demo_job_env_def)
      (rule wp_demo_record [of 895], use assms in \<open>simp_all add: s demo_wp\<close>)
qed

theorem shard_set_all_or_nothing_witness:
  "\<exists>st s'. submit_shard_set demo_control demo_endpoints demo_shard_env (\<lambda>_. JNull) demo_shards (demo_offering st)
       = (Inr (True, [demo_work_lease]), s')
     \<and> fmlookup (kc_assignments s') 11 = Some \<lparr>as_job = demo_work_job, as_lease = demo_work_lease, as_claimed = False\<rparr>"
proof -
  obtain st where "room 896 st" using demo_daemon_run by metis
  from wp_answers [OF demo_shards_admitted [OF this]] obtain s' where
    r: "submit_shard_set demo_control demo_endpoints demo_shard_env (\<lambda>_. JNull) demo_shards (demo_offering st)
       = (Inr (True, [demo_work_lease]), s')" by auto
  have "ss_shards demo_shards = [demo_work_job]" by (simp add: demo_shards_def)
  then show ?thesis
    using shard_set_all_or_nothing [where K = demo_control and E = demo_endpoints and env = demo_shard_env and pj = "\<lambda>_. JNull"
        and sset = demo_shards and s = "demo_offering st"] r
    by (auto simp: demo_job_fields)
qed

end
