(* ===== verification/Rampage_Agent.thy ===== *)
theory Rampage_Agent
  imports Rampage_Edge
begin

text \<open>
  The worker daemon (\<open>crates/rampage-agent/src/main.rs\<close>): the pinned controller and the route to it, the estimate
  of the controller's clock, the link benchmark, and the two ways of working, \<open>--work-once\<close> and the serving
  loop with its three threads. A request to the controller is an \<open>exchange\<close>: when it was sent, how long it took
  and what came back, a failure or a status with a JSON body; the clock readings, identifiers and file errors
  of one turn of the loop are the record \<open>turn_env\<close>. The libraries are the parameter \<open>agent_lib\<close>.
\<close>

record ('sk, 'i, 'r) agent_lib =
  gt_worker :: "'sk worker_lib"
  gt_endpoint :: "('i, 'r) endpoint_lib"
  gt_uuid_text :: "uuid \<Rightarrow> string"
  gt_parse_uuid :: "string \<Rightarrow> string + uuid"
  gt_parse_time :: "string \<Rightarrow> datetime option"
  gt_parse_claim :: "json \<Rightarrow> string + work_claim option"
  gt_base64_decode :: "string \<Rightarrow> string option"
  gt_base64_encode :: "string \<Rightarrow> string"
  gt_mesh_text :: "mesh_error \<Rightarrow> string"
  gt_reject_text :: "u16 \<Rightarrow> json \<Rightarrow> string"

abbreviation gt_crypto :: "('sk, 'i, 'r) agent_lib \<Rightarrow> 'sk crypto" where
  "gt_crypto L \<equiv> wl_crypto (gt_worker L)"

definition OFFER_LIFETIME :: int where
  "OFFER_LIFETIME = seconds 45"

definition OFFER_HEARTBEAT_INTERVAL :: int where
  "OFFER_HEARTBEAT_INTERVAL = seconds 5"

definition CAPABILITY_REFRESH_INTERVAL :: int where
  "CAPABILITY_REFRESH_INTERVAL = seconds 30"

definition MAX_TRUSTED_CLOCK_OFFSET_SECONDS :: int where
  "MAX_TRUSTED_CLOCK_OFFSET_SECONDS = 24 * 60 * 60"

section \<open>Requests and the controller's clock\<close>

type_synonym reply = "string + u16 \<times> json"

record exchange =
  xg_sent_at :: datetime
  xg_elapsed :: int
  xg_reply :: reply

definition response_controller_time :: "('sk, 'i, 'r) agent_lib \<Rightarrow> json \<Rightarrow> datetime option" where
  "response_controller_time L body =
     Option.bind (Option.bind (case json_get ''controller_time'' body of
         None \<Rightarrow> json_get ''generated_at'' body | Some v \<Rightarrow> Some v) json_as_str) (gt_parse_time L)"

text \<open>\<open>Duration::from_std\<close> fails above the largest chrono duration, \<open>i64::MAX\<close> milliseconds.\<close>

definition estimated_controller_clock_offset :: "datetime \<Rightarrow> int \<Rightarrow> datetime \<Rightarrow> int option" where
  "estimated_controller_clock_offset local_sent_at round_trip controller_time =
     (let half_round_trip = round_trip div 2
      in if half_round_trip > int i64_max * 1000000 then None
         else Some (controller_time - (local_sent_at + half_round_trip)))"

definition observe_time :: "('sk, 'i, 'r) agent_lib \<Rightarrow> exchange \<Rightarrow> int \<Rightarrow> int" where
  "observe_time L x current =
     (case xg_reply x of
        Inl _ \<Rightarrow> current
      | Inr (_, body) \<Rightarrow>
          (case Option.bind (response_controller_time L body)
                  (estimated_controller_clock_offset (xg_sent_at x) (xg_elapsed x)) of
             None \<Rightarrow> current
           | Some offset \<Rightarrow>
               if \<bar>num_seconds offset\<bar> \<le> MAX_TRUSTED_CLOCK_OFFSET_SECONDS then offset else current))"

text \<open>\<open>post_json_with_deadline\<close> and \<open>get_json_with_deadline\<close>, after the exchange.\<close>

definition posted :: "('sk, 'i, 'r) agent_lib \<Rightarrow> reply \<Rightarrow> string + unit" where
  "posted L answer =
     (case answer of
        Inl e \<Rightarrow> Inl e
      | Inr (status, body) \<Rightarrow> if is_success status then Inr () else Inl (gt_reject_text L status body))"

definition fetched :: "('sk, 'i, 'r) agent_lib \<Rightarrow> reply \<Rightarrow> string + work_claim option" where
  "fetched L answer =
     (case answer of
        Inl e \<Rightarrow> Inl e
      | Inr (status, body) \<Rightarrow>
          if is_success status then gt_parse_claim L body else Inl (gt_reject_text L status body))"

section \<open>The route to the controller\<close>

record local_network =
  nw_ip :: ip_addr
  nw_netmask :: ip_addr

definition be32 :: "u8 \<Rightarrow> u8 \<Rightarrow> u8 \<Rightarrow> u8 \<Rightarrow> u32" where
  "be32 a b c d = word_of_nat (((unat a * 256 + unat b) * 256 + unat c) * 256 + unat d)"

definition ipv4_is_same_subnet :: "u32 \<Rightarrow> u32 \<Rightarrow> u32 \<Rightarrow> bool" where
  "ipv4_is_same_subnet local remote netmask = (netmask \<noteq> 0 \<and> and local netmask = and remote netmask)"

fun on_network :: "ip_addr \<Rightarrow> local_network \<Rightarrow> bool" where
  "on_network (V4 a b c d) n =
     (case (nw_ip n, nw_netmask n) of
        (V4 p q r s, V4 t u v w) \<Rightarrow> ipv4_is_same_subnet (be32 p q r s) (be32 a b c d) (be32 t u v w)
      | _ \<Rightarrow> False)"
| "on_network (V6 gs) n = False"

fun ip_of :: "'r transport_addr \<Rightarrow> ip_addr option" where
  "ip_of (Ip address) = Some (sa_ip address)"
| "ip_of (Relay _) = None"

fun is_relay :: "'r transport_addr \<Rightarrow> bool" where
  "is_relay (Relay _) = True"
| "is_relay (Ip _) = False"

text \<open>The set of addresses of an endpoint is a list here; extending it keeps it free of repetitions.\<close>

definition select_controller_destination_for ::
  "('i, 'r) endpoint_addr \<Rightarrow> ('i, 'r) endpoint_addr list \<Rightarrow> local_network list \<Rightarrow> ('i, 'r) endpoint_addr" where
  "select_controller_destination_for aggregate candidates local_networks =
     (case List.find (\<lambda>candidate. list_ex (\<lambda>ip. list_ex (on_network ip) local_networks)
             (List.map_filter ip_of (ea_addrs candidate))) candidates of
        None \<Rightarrow> aggregate
      | Some preferred \<Rightarrow>
          preferred\<lparr>ea_addrs := ea_addrs preferred
            @ filter (\<lambda>a. is_relay a \<and> a \<notin> set (ea_addrs preferred)) (ea_addrs aggregate)\<rparr>)"

definition validate_controller_pin :: "('sk, 'i, 'r) agent_lib \<Rightarrow> pinned_controller \<Rightarrow> string + unit" where
  "validate_controller_pin L pin =
     (if pc_schema pin \<noteq> ''rampage.pinned-controller.v1'' then Inl ''unsupported controller pin schema''
      else if \<not> (length (me_endpoint_id (pc_endpoint pin)) = 64
                 \<and> list_all is_ascii_hexdigit (me_endpoint_id (pc_endpoint pin))
                 \<and> length (pc_governor_public_key pin) = 64
                 \<and> list_all is_ascii_hexdigit (pc_governor_public_key pin))
      then Inl ''controller pin contains a malformed identity''
      else case verify_pinned_mesh_endpoint_with_key (gt_crypto L) (pc_governor_public_key pin) (pc_endpoint pin) of
        Inl _ \<Rightarrow> Inl ''stored controller route signature is invalid''
      | Inr _ \<Rightarrow>
     case endpoint_addr_from_pinned_record (gt_endpoint L) (pc_endpoint pin) of
        Inl e \<Rightarrow> Inl (gt_mesh_text L e)
      | Inr _ \<Rightarrow> Inr ())"

definition pin_from_invitation ::
  "('sk, 'i, 'r) agent_lib \<Rightarrow> datetime \<Rightarrow> enrollment_invite \<Rightarrow> string + pinned_controller" where
  "pin_from_invitation L now invitation =
     (case ei_controller_mesh invitation of
        None \<Rightarrow> Inl ''invitation omitted its controller mesh endpoint''
      | Some endpoint \<Rightarrow>
     case ei_governor_public_key invitation of
        None \<Rightarrow> Inl ''invitation omitted its Governor public key''
      | Some governor_public_key \<Rightarrow>
          let pin = \<lparr>pc_schema = ''rampage.pinned-controller.v1'', pc_endpoint = endpoint,
                pc_governor_public_key = governor_public_key, pc_enrolled_at = now\<rparr>
          in case validate_controller_pin L pin of Inl e \<Rightarrow> Inl e | Inr _ \<Rightarrow> Inr pin)"

definition mesh_config_for_controller :: "('sk, 'i, 'r) agent_lib \<Rightarrow> mesh_endpoint \<Rightarrow> string + mesh_config" where
  "mesh_config_for_controller L r =
     (let config = \<lparr>mc_schema = ''rampage.mesh-config.v1'',
            mc_mode = (if me_relay_urls r = [] then LocalOnly else PrivateRelay (me_relay_urls r)),
            mc_allowed_peer_keys = {|me_endpoint_id r|}\<rparr>
      in case mesh_config_validate (el_parse_relay (gt_endpoint L)) config of
           Inl e \<Rightarrow> Inl (gt_mesh_text L e) | Inr _ \<Rightarrow> Inr config)"

datatype remote_controller = Invitation enrollment_invite | Pinned pinned_controller

text \<open>What \<open>ControllerTransport::new\<close> settles before it binds its endpoint: whom the mesh admits, where the
  requests go, and whose signature the worker's gateway asks for. \<open>T\<close> are the clock readings of the fresh case.\<close>

record ('i, 'r) controller_link =
  ck_endpoint_id :: string
  ck_governor_key :: string
  ck_destination :: "('i, 'r) endpoint_addr"
  ck_config :: mesh_config

definition controller_record ::
  "('sk, 'i, 'r) agent_lib \<Rightarrow> (nat \<Rightarrow> datetime) \<Rightarrow> remote_controller
     \<Rightarrow> string + mesh_endpoint \<times> string \<times> ('i, 'r) endpoint_addr \<times> ('i, 'r) endpoint_addr list" where
  "controller_record L T remote =
     (case remote of
        Invitation invitation \<Rightarrow>
          if \<not> (ei_schema invitation = ''rampage.enrollment-invite.v1'' \<and> ei_expires_at invitation > T 0)
          then Inl ''invite is expired or has an unsupported schema''
          else (case ei_controller_mesh invitation of
             None \<Rightarrow> Inl ''invite does not contain a mesh endpoint''
           | Some mesh_record \<Rightarrow>
          case ei_governor_public_key invitation of
             None \<Rightarrow> Inl ''invite does not contain a Governor public key''
           | Some governor_key \<Rightarrow>
          case verify_mesh_endpoint_with_key (gt_crypto L) (T 1) (T 2) governor_key mesh_record of
             Inl _ \<Rightarrow> Inl ''invite mesh endpoint signature is invalid''
           | Inr _ \<Rightarrow>
          case endpoint_addr_from_record (gt_endpoint L) (T 3) mesh_record of
             Inl e \<Rightarrow> Inl (gt_mesh_text L e)
           | Inr aggregate \<Rightarrow>
          case endpoint_addr_candidates_from_record (gt_endpoint L) (T 4) mesh_record of
             Inl e \<Rightarrow> Inl (gt_mesh_text L e)
           | Inr candidates \<Rightarrow> Inr (mesh_record, governor_key, aggregate, candidates))
      | Pinned pin \<Rightarrow>
          (case validate_controller_pin L pin of
             Inl e \<Rightarrow> Inl e
           | Inr _ \<Rightarrow>
          case endpoint_addr_from_pinned_record (gt_endpoint L) (pc_endpoint pin) of
             Inl e \<Rightarrow> Inl (gt_mesh_text L e)
           | Inr aggregate \<Rightarrow>
          case endpoint_addr_candidates_from_pinned_record (gt_endpoint L) (pc_endpoint pin) of
             Inl e \<Rightarrow> Inl (gt_mesh_text L e)
           | Inr candidates \<Rightarrow> Inr (pc_endpoint pin, pc_governor_public_key pin, aggregate, candidates)))"

definition controller_link_of ::
  "('sk, 'i, 'r) agent_lib \<Rightarrow> (nat \<Rightarrow> datetime) \<Rightarrow> local_network list \<Rightarrow> remote_controller
     \<Rightarrow> string + ('i, 'r) controller_link" where
  "controller_link_of L T local_networks remote =
     (case controller_record L T remote of
        Inl e \<Rightarrow> Inl e
      | Inr (mesh_record, governor_key, aggregate, candidates) \<Rightarrow>
     case mesh_config_for_controller L mesh_record of
        Inl e \<Rightarrow> Inl e
      | Inr config \<Rightarrow>
          Inr \<lparr>ck_endpoint_id = me_endpoint_id mesh_record, ck_governor_key = governor_key,
            ck_destination = select_controller_destination_for aggregate candidates local_networks,
            ck_config = config\<rparr>)"

section \<open>The link benchmark\<close>

definition effective_bps :: "u64 \<Rightarrow> u64 \<Rightarrow> u64 \<Rightarrow> u64" where
  "effective_bps bytes elapsed_micros rtt_micros =
     (let transfer_micros = max (sat_sub elapsed_micros rtt_micros) 1000
      in max (sat_mul (sat_mul bytes 8) 1000000 div transfer_micros) 1)"

fun json_as_u64 :: "json \<Rightarrow> u64 option" where
  "json_as_u64 (JPosInt n) = Some n"
| "json_as_u64 _ = None"

definition hex_sha256 :: "('sk, 'i, 'r) agent_lib \<Rightarrow> string \<Rightarrow> string" where
  "hex_sha256 L b = cr_hex_encode (gt_crypto L) (cr_sha256 (gt_crypto L) b)"

definition validate_probe_response ::
  "('sk, 'i, 'r) agent_lib \<Rightarrow> u16 \<times> json \<Rightarrow> uuid \<Rightarrow> uuid \<Rightarrow> u64 \<Rightarrow> string \<Rightarrow> u64 \<Rightarrow> string + unit" where
  "validate_probe_response L response node_id nonce expected_upload_bytes expected_upload_digest expected_download_bytes =
     (case response of (status, body) \<Rightarrow>
      if status \<noteq> 200 then Inl ''link probe was rejected''
      else if \<not> (json_str ''schema'' body = Some ''rampage.link-probe-response.v1''
                 \<and> json_str ''node_id'' body = Some (gt_uuid_text L node_id)
                 \<and> json_str ''nonce'' body = Some (gt_uuid_text L nonce)
                 \<and> Option.bind (json_get ''upload_bytes'' body) json_as_u64 = Some expected_upload_bytes
                 \<and> json_str ''upload_sha256'' body = Some expected_upload_digest)
      then Inl ''link probe response did not match its request''
      else case json_str ''download_base64'' body of
        None \<Rightarrow> Inl ''link probe response omitted download payload''
      | Some encoded \<Rightarrow>
     case gt_base64_decode L encoded of
        None \<Rightarrow> Inl ''invalid base64''
      | Some downloaded \<Rightarrow>
          if word_of_nat (length downloaded) = expected_download_bytes
             \<and> json_str ''download_sha256'' body = Some (hex_sha256 L downloaded)
          then Inr ()
          else Inl ''link probe download payload failed integrity validation'')"

text \<open>One measurement: three health requests with their durations in microseconds, an upload and a download.
  The path of the connection is what the transport reports.\<close>

record link_env =
  lk_health :: "nat \<Rightarrow> u64 \<times> reply"
  lk_upload_nonce :: uuid
  lk_upload :: "json \<Rightarrow> u64 \<times> reply"
  lk_download_nonce :: uuid
  lk_download :: "json \<Rightarrow> u64 \<times> reply"
  lk_path :: "observed_link_path option"

fun rtt_samples :: "(u64 \<times> reply) list \<Rightarrow> string + u64 list" where
  "rtt_samples [] = Inr []"
| "rtt_samples ((elapsed, answer) # rest) =
     (case answer of
        Inl e \<Rightarrow> Inl e
      | Inr (status, _) \<Rightarrow>
          if status \<noteq> 200 then Inl ''controller health probe was rejected''
          else map_sum id ((#) elapsed) (rtt_samples rest))"

definition probe_body :: "('sk, 'i, 'r) agent_lib \<Rightarrow> uuid \<Rightarrow> uuid \<Rightarrow> string \<Rightarrow> u64 \<Rightarrow> json" where
  "probe_body L node_id nonce upload download_bytes =
     JObject [(''download_bytes'', JPosInt download_bytes), (''node_id'', JString (gt_uuid_text L node_id)),
       (''nonce'', JString (gt_uuid_text L nonce)), (''upload_base64'', JString upload)]"

definition measure_link ::
  "('sk, 'i, 'r) agent_lib \<Rightarrow> link_env \<Rightarrow> string \<Rightarrow> uuid \<Rightarrow> datetime \<Rightarrow> string + link_benchmark" where
  "measure_link L env controller_endpoint_id node_id observed_at =
     (case rtt_samples (map (lk_health env) [0, 1, 2]) of
        Inl e \<Rightarrow> Inl e
      | Inr samples \<Rightarrow>
      let rtt_micros_p50 = max (sort samples ! 1) 1;
          probe = replicate (unat LINK_BENCHMARK_TRANSFER_BYTES) (CHR 0x3C)
      in case lk_upload env (probe_body L node_id (lk_upload_nonce env) (gt_base64_encode L probe) 0) of
        (_, Inl e) \<Rightarrow> Inl e
      | (upload_elapsed, Inr upload_response) \<Rightarrow>
     case validate_probe_response L upload_response node_id (lk_upload_nonce env) LINK_BENCHMARK_TRANSFER_BYTES
            (hex_sha256 L probe) 0 of
        Inl e \<Rightarrow> Inl e
      | Inr _ \<Rightarrow>
     case lk_download env (probe_body L node_id (lk_download_nonce env) [] LINK_BENCHMARK_TRANSFER_BYTES) of
        (_, Inl e) \<Rightarrow> Inl e
      | (download_elapsed, Inr download_response) \<Rightarrow>
     case validate_probe_response L download_response node_id (lk_download_nonce env) 0 (hex_sha256 L [])
            LINK_BENCHMARK_TRANSFER_BYTES of
        Inl e \<Rightarrow> Inl e
      | Inr _ \<Rightarrow>
          Inr \<lparr>lb_schema = link_benchmark_SCHEMA, lb_controller_endpoint_id = controller_endpoint_id,
            lb_observed_at = observed_at, lb_expires_at = observed_at + minutes 2, lb_rtt_micros_p50 = rtt_micros_p50,
            lb_uplink_bps = effective_bps LINK_BENCHMARK_TRANSFER_BYTES upload_elapsed rtt_micros_p50,
            lb_downlink_bps = effective_bps LINK_BENCHMARK_TRANSFER_BYTES download_elapsed rtt_micros_p50,
            lb_transfer_bytes = LINK_BENCHMARK_TRANSFER_BYTES, lb_samples = 3, lb_transport = ''authenticated_quic'',
            lb_observed_path = lk_path env\<rparr>)"

section \<open>The node's own identifiers\<close>

definition load_or_create_identity_ids ::
  "uuid \<Rightarrow> uuid \<Rightarrow> uuid option \<Rightarrow> uuid option \<Rightarrow> (uuid \<times> uuid) stored \<Rightarrow> string option
     \<Rightarrow> (string + uuid \<times> uuid) \<times> (uuid \<times> uuid) stored" where
  "load_or_create_identity_ids fresh_node fresh_owner requested_node_id requested_owner_id file write_error =
     (if file_present file
      then (case read_stored file of
              Inl e \<Rightarrow> (Inl e, file)
            | Inr (node_id, owner_id) \<Rightarrow>
                if (requested_node_id \<noteq> None \<and> requested_node_id \<noteq> Some node_id)
                   \<or> (requested_owner_id \<noteq> None \<and> requested_owner_id \<noteq> Some owner_id)
                then (Inl ''requested identity conflicts with the persistent agent identity'', file)
                else (Inr (node_id, owner_id), file))
      else
        let ids = (case requested_node_id of None \<Rightarrow> fresh_node | Some v \<Rightarrow> v,
                   case requested_owner_id of None \<Rightarrow> fresh_owner | Some v \<Rightarrow> v)
        in case write_error of Some e \<Rightarrow> (Inl e, file) | None \<Rightarrow> (Inr ids, Stored ids))"

section \<open>Work once\<close>

record once_env =
  oe_post_pending :: "execution_receipt \<Rightarrow> reply"
  oe_get_claim :: reply
  oe_run :: run_env
  oe_write_error :: "string option"
  oe_post_receipt :: "execution_receipt \<Rightarrow> reply"
  oe_remove_error :: "string option"

text \<open>The receipt of an earlier run goes first; the flag of the result tells whether a claim was executed.\<close>

definition deliver_pending ::
  "('sk, 'i, 'r) agent_lib \<Rightarrow> once_env \<Rightarrow> execution_receipt stored \<Rightarrow> (string + unit) \<times> execution_receipt stored" where
  "deliver_pending L env outbox =
     (if \<not> file_present outbox then (Inr (), outbox)
      else case read_stored outbox of
        Inl e \<Rightarrow> (Inl e, outbox)
      | Inr pending \<Rightarrow>
     case posted L (oe_post_pending env pending) of
        Inl e \<Rightarrow> (Inl e, outbox)
      | Inr _ \<Rightarrow> (case oe_remove_error env of Some e \<Rightarrow> (Inl e, outbox) | None \<Rightarrow> (Inr (), Absent)))"

definition execute_one_work_item ::
  "('sk, 'i, 'r) agent_lib \<Rightarrow> once_env \<Rightarrow> uuid \<Rightarrow> 'sk \<Rightarrow> execution_receipt stored \<Rightarrow> cas_store
     \<Rightarrow> (string + bool) \<times> execution_receipt stored \<times> cas_store" where
  "execute_one_work_item L env node_id signing_key outbox store =
     (case deliver_pending L env outbox of
        (Inl e, outbox) \<Rightarrow> (Inl e, outbox, store)
      | (Inr _, outbox) \<Rightarrow>
     case fetched L (oe_get_claim env) of
        Inl e \<Rightarrow> (Inl e, outbox, store)
      | Inr None \<Rightarrow> (Inr False, outbox, store)
      | Inr (Some claim) \<Rightarrow>
     case execute_claim_with_store (gt_worker L) (oe_run env) claim node_id (cl_fencing_epoch (wk_lease claim))
            signing_key store of
        (Inl e, store) \<Rightarrow> (Inl (execution_error_text e), outbox, store)
      | (Inr receipt, store) \<Rightarrow>
     case oe_write_error env of
        Some e \<Rightarrow> (Inl e, outbox, store)
      | None \<Rightarrow>
     case posted L (oe_post_receipt env receipt) of
        Inl e \<Rightarrow> (Inl e, Stored receipt, store)
      | Inr _ \<Rightarrow>
     case oe_remove_error env of
        Some e \<Rightarrow> (Inl e, Stored receipt, store)
      | None \<Rightarrow> (Inr True, Absent, store))"

end
