(* ===== verification/Rampage_Serve.thy ===== *)
theory Rampage_Serve
  imports Rampage_Agent
begin

text \<open>
  The serving loop of the worker daemon (\<open>main\<close> with \<open>--serve\<close> in \<open>crates/rampage-agent/src/main.rs\<close>). The loop
  shares three channels with the threads it starts: one executes a claim, one refreshes the capabilities, one
  measures the link. A turn of the loop is the function \<open>serve_turn\<close>, a composition of the stages the code runs
  in order; \<open>agent_step\<close> interleaves the turns with the three threads. The receipt outbox is the file beside
  the key.
\<close>

section \<open>State\<close>

record 'sk agent_config =
  ag_signing_key :: 'sk
  ag_node_id :: uuid
  ag_controller_id :: "string option"

record agent_loop =
  al_offer :: resource_offer
  al_outbox :: "execution_receipt stored"
  al_work_in_flight :: bool
  al_refresh_in_flight :: bool
  al_probe_in_flight :: bool
  al_ready :: bool
  al_reconnect_delay :: int
  al_next_offer_at :: int
  al_next_work_poll_at :: int
  al_next_link_probe_at :: int
  al_next_refresh_at :: int
  al_clock_offset :: int
  al_executing :: "work_claim option"
  al_results :: "(execution_error + execution_receipt) list"
  al_refreshing :: "resource_offer option"
  al_refreshed :: "resource_offer list"
  al_probing :: "datetime option"
  al_probed :: "(string + link_benchmark option) list"
  al_store :: cas_store

text \<open>The loop's initial state for a signed offer, an outbox and a store left by earlier runs, and the
  readings of the monotonic clock at its start.\<close>

definition serve_start ::
  "int \<Rightarrow> int \<Rightarrow> resource_offer \<Rightarrow> execution_receipt stored \<Rightarrow> cas_store \<Rightarrow> agent_loop" where
  "serve_start now offset offer outbox store =
     \<lparr>al_offer = offer, al_outbox = outbox, al_work_in_flight = False, al_refresh_in_flight = False,
      al_probe_in_flight = False, al_ready = False, al_reconnect_delay = seconds 1, al_next_offer_at = now,
      al_next_work_poll_at = now, al_next_link_probe_at = now,
      al_next_refresh_at = now + CAPABILITY_REFRESH_INTERVAL, al_clock_offset = offset, al_executing = None,
      al_results = [], al_refreshing = None, al_refreshed = [], al_probing = None, al_probed = [], al_store = store\<rparr>"

text \<open>What a turn reads from outside: the kill latch, the monotonic clock in the order of its readings, the
  wall clock, a fresh identifier, the addresses of the own endpoint, the controller's answers, and the
  errors of files, of the standard output and of starting a thread.\<close>

record turn_env =
  tn_kill :: bool
  tn_instant :: "nat \<Rightarrow> int"
  tn_offer_now :: datetime
  tn_probe_now :: datetime
  tn_offer_id :: uuid
  tn_endpoint_id :: string
  tn_direct_addresses :: "string list"
  tn_relay_urls :: "string list"
  tn_post_offer :: "resource_offer \<Rightarrow> exchange"
  tn_post_receipt :: "execution_receipt \<Rightarrow> exchange"
  tn_get_claim :: exchange
  tn_flush_error :: "string option"
  tn_write_error :: "string option"
  tn_remove_error :: "string option"
  tn_spawn_error :: "string option"

datatype turn = Stopped | Broken string agent_loop | Retry agent_loop | Again agent_loop

text \<open>The early returns and the \<open>continue\<close> of the loop body end the turn; otherwise the next stage runs.\<close>

fun and_stage :: "turn \<Rightarrow> (agent_loop \<Rightarrow> turn) \<Rightarrow> turn" where
  "and_stage (Again s) f = f s"
| "and_stage Stopped f = Stopped"
| "and_stage (Broken e s) f = Broken e s"
| "and_stage (Retry s) f = Retry s"

text \<open>The state the loop goes on with, if it does.\<close>

fun turn_state :: "turn \<Rightarrow> agent_loop option" where
  "turn_state Stopped = None"
| "turn_state (Broken e s) = None"
| "turn_state (Retry s) = Some s"
| "turn_state (Again s) = Some s"

text \<open>A request over the mesh corrects the estimate of the controller's clock; the loopback client does not.\<close>

definition heard ::
  "('sk, 'i, 'r) agent_lib \<Rightarrow> 'sk agent_config \<Rightarrow> exchange \<Rightarrow> agent_loop \<Rightarrow> agent_loop" where
  "heard L c x s =
     (if ag_controller_id c = None then s else s\<lparr>al_clock_offset := observe_time L x (al_clock_offset s)\<rparr>)"

definition controller_now :: "'sk agent_config \<Rightarrow> datetime \<Rightarrow> agent_loop \<Rightarrow> datetime" where
  "controller_now c now s = (if ag_controller_id c = None then now else now + al_clock_offset s)"

section \<open>The stages of a turn\<close>

definition take_refreshed :: "agent_loop \<Rightarrow> agent_loop" where
  "take_refreshed s =
     (case al_refreshed s of
        [] \<Rightarrow> s
      | refreshed # rest \<Rightarrow>
          s\<lparr>al_offer := (al_offer s)\<lparr>ro_adapters := ro_adapters refreshed,
                ro_model_runtimes := ro_model_runtimes refreshed,
                ro_workload_capabilities := ro_workload_capabilities refreshed\<rparr>,
            al_refresh_in_flight := False, al_refreshed := rest\<rparr>)"

definition take_probed :: "turn_env \<Rightarrow> agent_loop \<Rightarrow> agent_loop" where
  "take_probed env s =
     (case al_probed s of
        [] \<Rightarrow> s
      | Inr benchmark # rest \<Rightarrow>
          s\<lparr>al_probe_in_flight := False, al_probed := rest,
            al_offer := (al_offer s)\<lparr>ro_link_benchmark := benchmark\<rparr>,
            al_next_link_probe_at := tn_instant env 0 + seconds 60\<rparr>
      | Inl _ # rest \<Rightarrow>
          s\<lparr>al_probe_in_flight := False, al_probed := rest,
            al_offer := (al_offer s)\<lparr>ro_link_benchmark := None\<rparr>,
            al_next_link_probe_at := tn_instant env 0 + seconds 30\<rparr>)"

definition start_refresh :: "turn_env \<Rightarrow> agent_loop \<Rightarrow> turn" where
  "start_refresh env s =
     (if \<not> al_refresh_in_flight s \<and> tn_instant env 1 \<ge> al_next_refresh_at s
      then case tn_spawn_error env of
             Some e \<Rightarrow> Broken e s
           | None \<Rightarrow> Again (s\<lparr>al_refreshing := Some (al_offer s), al_refresh_in_flight := True,
               al_next_refresh_at := tn_instant env 2 + CAPABILITY_REFRESH_INTERVAL\<rparr>)
      else Again s)"

text \<open>\<open>signed_worker_endpoint\<close>: only a worker on the mesh has one.\<close>

definition signed_worker_endpoint ::
  "('sk, 'i, 'r) agent_lib \<Rightarrow> 'sk agent_config \<Rightarrow> turn_env \<Rightarrow> datetime \<Rightarrow> datetime \<Rightarrow> mesh_endpoint option" where
  "signed_worker_endpoint L c env issued_at expires_at =
     (if ag_controller_id c = None then None
      else Some (sign_mesh_endpoint (gt_crypto L) (ag_signing_key c)
        \<lparr>me_schema = mesh_endpoint_SCHEMA, me_endpoint_id = tn_endpoint_id env,
         me_direct_addresses = tn_direct_addresses env, me_relay_urls = tn_relay_urls env,
         me_issued_at = issued_at, me_expires_at = expires_at, me_signature = []\<rparr>))"

definition fresh_offer ::
  "('sk, 'i, 'r) agent_lib \<Rightarrow> 'sk agent_config \<Rightarrow> turn_env \<Rightarrow> datetime \<Rightarrow> resource_offer \<Rightarrow> resource_offer" where
  "fresh_offer L c env now offer =
     (let expires_at = now + OFFER_LIFETIME
      in sign_offer (gt_crypto L) (ag_signing_key c)
           (offer\<lparr>ro_offer_id := tn_offer_id env, ro_observed_at := now, ro_expires_at := expires_at,
              ro_link_benchmark := (case ro_link_benchmark offer of
                  None \<Rightarrow> None
                | Some b \<Rightarrow> if lb_expires_at b < expires_at then None else Some b),
              ro_mesh_endpoint := signed_worker_endpoint L c env now expires_at\<rparr>))"

definition heartbeat ::
  "('sk, 'i, 'r) agent_lib \<Rightarrow> 'sk agent_config \<Rightarrow> turn_env \<Rightarrow> agent_loop \<Rightarrow> turn" where
  "heartbeat L c env s =
     (if tn_instant env 3 < al_next_offer_at s then Again s
      else
        let offer = fresh_offer L c env (controller_now c (tn_offer_now env) s) (al_offer s);
            x = tn_post_offer env offer;
            s1 = heard L c x (s\<lparr>al_offer := offer\<rparr>)
        in case posted L (xg_reply x) of
             Inl _ \<Rightarrow> Retry (s1\<lparr>al_reconnect_delay := min (al_reconnect_delay s1 * 2) (seconds 10),
                 al_next_offer_at := tn_instant env 4\<rparr>)
           | Inr _ \<Rightarrow>
               let s2 = s1\<lparr>al_reconnect_delay := seconds 1,
                     al_next_offer_at := tn_instant env 4 + OFFER_HEARTBEAT_INTERVAL\<rparr>
               in (case tn_flush_error env of Some e \<Rightarrow> Broken e s2 | None \<Rightarrow> Again (s2\<lparr>al_ready := True\<rparr>)))"

definition deliver_outbox ::
  "('sk, 'i, 'r) agent_lib \<Rightarrow> 'sk agent_config \<Rightarrow> turn_env \<Rightarrow> agent_loop \<Rightarrow> turn" where
  "deliver_outbox L c env s =
     (if \<not> file_present (al_outbox s) then Again s
      else case read_stored (al_outbox s) of
        Inl e \<Rightarrow> Broken e s
      | Inr pending \<Rightarrow>
          let x = tn_post_receipt env pending;
              s1 = heard L c x s
          in case posted L (xg_reply x) of
               Inl _ \<Rightarrow> Again s1
             | Inr _ \<Rightarrow>
                 (case tn_remove_error env of Some e \<Rightarrow> Broken e s1 | None \<Rightarrow> Again (s1\<lparr>al_outbox := Absent\<rparr>)))"

text \<open>The channel of results is never disconnected, since the loop keeps a sender of its own.\<close>

definition collect_result :: "turn_env \<Rightarrow> agent_loop \<Rightarrow> turn" where
  "collect_result env s =
     (case al_results s of
        [] \<Rightarrow> Again s
      | Inr receipt # rest \<Rightarrow>
          (case tn_write_error env of
             Some e \<Rightarrow> Broken e (s\<lparr>al_results := rest\<rparr>)
           | None \<Rightarrow> Again (s\<lparr>al_results := rest, al_outbox := Stored receipt, al_work_in_flight := False\<rparr>))
      | Inl _ # rest \<Rightarrow> Again (s\<lparr>al_results := rest, al_work_in_flight := False\<rparr>))"

definition poll_work ::
  "('sk, 'i, 'r) agent_lib \<Rightarrow> 'sk agent_config \<Rightarrow> turn_env \<Rightarrow> agent_loop \<Rightarrow> turn" where
  "poll_work L c env s =
     (if al_work_in_flight s \<or> tn_instant env 5 < al_next_work_poll_at s then Again s
      else
        let s1 = heard L c (tn_get_claim env) s
        in case fetched L (xg_reply (tn_get_claim env)) of
             Inr (Some claim) \<Rightarrow>
               (case tn_spawn_error env of
                  Some e \<Rightarrow> Broken e s1
                | None \<Rightarrow> Again (s1\<lparr>al_executing := Some claim, al_work_in_flight := True,
                    al_next_work_poll_at := tn_instant env 6\<rparr>))
           | Inr None \<Rightarrow> Again (s1\<lparr>al_next_work_poll_at := tn_instant env 6 + seconds 2\<rparr>)
           | Inl _ \<Rightarrow> Again (s1\<lparr>al_next_work_poll_at := tn_instant env 6 + seconds 2\<rparr>))"

definition link_probe_due :: "bool \<Rightarrow> int \<Rightarrow> int \<Rightarrow> datetime option \<Rightarrow> datetime \<Rightarrow> bool" where
  "link_probe_due ready_announced now next_probe_at benchmark_expires_at offer_expires_at =
     (ready_announced \<and> now \<ge> next_probe_at
      \<and> (case benchmark_expires_at of None \<Rightarrow> True | Some t \<Rightarrow> t < offer_expires_at))"

definition start_probe :: "'sk agent_config \<Rightarrow> turn_env \<Rightarrow> agent_loop \<Rightarrow> turn" where
  "start_probe c env s =
     (if \<not> al_work_in_flight s \<and> \<not> al_probe_in_flight s
         \<and> link_probe_due (al_ready s) (tn_instant env 7) (al_next_link_probe_at s)
             (map_option lb_expires_at (ro_link_benchmark (al_offer s))) (ro_expires_at (al_offer s))
      then case tn_spawn_error env of
             Some e \<Rightarrow> Broken e s
           | None \<Rightarrow> Again (s\<lparr>al_probing := Some (controller_now c (tn_probe_now env) s), al_probe_in_flight := True\<rparr>)
      else Again s)"

definition serve_turn ::
  "('sk, 'i, 'r) agent_lib \<Rightarrow> 'sk agent_config \<Rightarrow> turn_env \<Rightarrow> agent_loop \<Rightarrow> turn" where
  "serve_turn L c env s =
     (if tn_kill env then Stopped
      else
        and_stage (and_stage (and_stage (and_stage (and_stage
          (start_refresh env (take_probed env (take_refreshed s)))
          (heartbeat L c env)) (deliver_outbox L c env)) (collect_result env)) (poll_work L c env)) (start_probe c env))"

section \<open>The threads\<close>

definition execute_in_thread ::
  "('sk, 'i, 'r) agent_lib \<Rightarrow> 'sk agent_config \<Rightarrow> run_env \<Rightarrow> work_claim \<Rightarrow> agent_loop \<Rightarrow> agent_loop" where
  "execute_in_thread L c run claim s =
     (case execute_claim_with_store (gt_worker L) run claim (ag_node_id c) (cl_fencing_epoch (wk_lease claim))
             (ag_signing_key c) (al_store s) of
        (result, store) \<Rightarrow> s\<lparr>al_executing := None, al_results := al_results s @ [result], al_store := store\<rparr>)"

text \<open>\<open>refresh_dynamic_capabilities\<close>: what the discovery finds is a parameter.\<close>

record capability_env =
  cp_ollama :: bool
  cp_remote_assist :: bool
  cp_model_runtimes :: "model_runtime_offer list"
  cp_capabilities :: "string fset \<Rightarrow> model_runtime_offer list \<Rightarrow> workload_capability list"

definition set_adapter :: "bool \<Rightarrow> string \<Rightarrow> string fset \<Rightarrow> string fset" where
  "set_adapter present a A = (if present then finsert a A else A |-| {|a|})"

definition refresh_dynamic_capabilities :: "capability_env \<Rightarrow> resource_offer \<Rightarrow> resource_offer" where
  "refresh_dynamic_capabilities env offer =
     (let adapters = set_adapter (cp_remote_assist env) ''rampage.remote-assist.v1''
            (set_adapter (cp_ollama env) ''rampage.ollama.v1'' (ro_adapters offer))
      in offer\<lparr>ro_adapters := adapters, ro_model_runtimes := cp_model_runtimes env,
           ro_workload_capabilities := cp_capabilities env adapters (cp_model_runtimes env)\<rparr>)"

text \<open>A measurement over the loopback client has no result.\<close>

definition measured ::
  "('sk, 'i, 'r) agent_lib \<Rightarrow> 'sk agent_config \<Rightarrow> link_env \<Rightarrow> datetime \<Rightarrow> string + link_benchmark option" where
  "measured L c env observed_at =
     (case ag_controller_id c of
        None \<Rightarrow> Inr None
      | Some controller_id \<Rightarrow> map_sum id Some (measure_link L env controller_id (ag_node_id c) observed_at))"

inductive agent_step ::
  "('sk, 'i, 'r) agent_lib \<Rightarrow> 'sk agent_config \<Rightarrow> agent_loop \<Rightarrow> agent_loop \<Rightarrow> bool" for L c where
  turn: "serve_turn L c env s = Again s' \<Longrightarrow> agent_step L c s s'"
| retry: "serve_turn L c env s = Retry s' \<Longrightarrow> agent_step L c s s'"
| execute: "al_executing s = Some claim \<Longrightarrow> agent_step L c s (execute_in_thread L c run claim s)"
| refresh: "al_refreshing s = Some offer
    \<Longrightarrow> agent_step L c s (s\<lparr>al_refreshing := None,
          al_refreshed := al_refreshed s @ [refresh_dynamic_capabilities caps offer]\<rparr>)"
| probe_request: "al_probing s \<noteq> None \<Longrightarrow> agent_step L c s (heard L c x s)"
| probe: "al_probing s = Some observed_at
    \<Longrightarrow> agent_step L c s (s\<lparr>al_probing := None, al_probed := al_probed s @ [measured L c link observed_at]\<rparr>)"

end
