(* ===== verification/Rampage_Serving.thy ===== *)
theory Rampage_Serving
  imports Rampage_Serve Rampage_Daemon_Demo
begin

text \<open>
  What the serving loop of the worker daemon keeps: one claim at a time, a bounded reconnection delay, and
  offers the controller admits; what becomes of a receipt in a turn; and the estimate of the controller's clock.
\<close>

section \<open>Stages that keep a predicate\<close>

definition turn_keeps :: "(agent_loop \<Rightarrow> bool) \<Rightarrow> turn \<Rightarrow> bool" where
  "turn_keeps P t = (case turn_state t of None \<Rightarrow> True | Some s \<Rightarrow> P s)"

lemma turn_keeps_simps [simp]:
  "turn_keeps P Stopped" "turn_keeps P (Broken e s)" "turn_keeps P (Retry s) = P s" "turn_keeps P (Again s) = P s"
  by (simp_all add: turn_keeps_def)

lemma turn_keeps_stage: "turn_keeps P t \<Longrightarrow> (\<And>s. P s \<Longrightarrow> turn_keeps P (f s)) \<Longrightarrow> turn_keeps P (and_stage t f)"
  by (cases t) auto

lemma turn_keeps_serve:
  assumes "P s" and "\<And>s. P s \<Longrightarrow> P (take_refreshed s)" "\<And>s. P s \<Longrightarrow> P (take_probed env s)"
    and "\<And>s. P s \<Longrightarrow> turn_keeps P (start_refresh env s)" "\<And>s. P s \<Longrightarrow> turn_keeps P (heartbeat L c env s)"
    and "\<And>s. P s \<Longrightarrow> turn_keeps P (deliver_outbox L c env s)" "\<And>s. P s \<Longrightarrow> turn_keeps P (collect_result env s)"
    and "\<And>s. P s \<Longrightarrow> turn_keeps P (poll_work L c env s)" "\<And>s. P s \<Longrightarrow> turn_keeps P (start_probe c env s)"
  shows "turn_keeps P (serve_turn L c env s)"
  unfolding serve_turn_def using assms by (auto intro!: turn_keeps_stage)

lemmas stage_defs = take_refreshed_def take_probed_def start_refresh_def heartbeat_def deliver_outbox_def
  collect_result_def poll_work_def start_probe_def Let_def heard_def

text \<open>An answer of the controller moves the estimate of its clock and nothing else.\<close>

lemma heard_frame [simp]:
  "al_offer (heard L c x s) = al_offer s" "al_outbox (heard L c x s) = al_outbox s"
  "al_work_in_flight (heard L c x s) = al_work_in_flight s" "al_refresh_in_flight (heard L c x s) = al_refresh_in_flight s"
  "al_probe_in_flight (heard L c x s) = al_probe_in_flight s" "al_ready (heard L c x s) = al_ready s"
  "al_reconnect_delay (heard L c x s) = al_reconnect_delay s" "al_executing (heard L c x s) = al_executing s"
  "al_results (heard L c x s) = al_results s" "al_refreshing (heard L c x s) = al_refreshing s"
  "al_refreshed (heard L c x s) = al_refreshed s" "al_probing (heard L c x s) = al_probing s"
  "al_probed (heard L c x s) = al_probed s" "al_store (heard L c x s) = al_store s"
  by (simp_all add: heard_def)

section \<open>One claim at a time\<close>

definition in_flight :: "bool \<Rightarrow> 'a option \<Rightarrow> 'b list \<Rightarrow> bool" where
  "in_flight flag running results = (of_bool (running \<noteq> None) + length results = (of_bool flag :: nat))"

lemma in_flight_cases:
  "in_flight f r xs \<Longrightarrow> (f \<longleftrightarrow> r \<noteq> None \<or> xs \<noteq> []) \<and> (r = None \<or> xs = []) \<and> length xs \<le> 1"
  by (cases xs; cases f; cases r) (auto simp: in_flight_def)

definition threads_ok :: "agent_loop \<Rightarrow> bool" where
  "threads_ok s = (in_flight (al_work_in_flight s) (al_executing s) (al_results s)
     \<and> in_flight (al_refresh_in_flight s) (al_refreshing s) (al_refreshed s)
     \<and> in_flight (al_probe_in_flight s) (al_probing s) (al_probed s)
     \<and> seconds 1 \<le> al_reconnect_delay s \<and> al_reconnect_delay s \<le> seconds 10)"

lemma in_flight_takes: "in_flight f r (x # xs) \<Longrightarrow> in_flight False r xs"
  by (cases f) (auto simp: in_flight_def)

lemma in_flight_starts: "in_flight False r xs \<Longrightarrow> in_flight True (Some y) xs"
  by (auto simp: in_flight_def split: if_splits)

lemma in_flight_sends: "in_flight f (Some y) xs \<Longrightarrow> in_flight f None (xs @ [x])"
  by (cases f) (auto simp: in_flight_def)

lemma in_flight_idle: "in_flight False r xs \<Longrightarrow> r = None \<and> xs = []"
  by (auto simp: in_flight_def split: if_splits)

lemma threads_ok_stages:
  assumes "threads_ok s"
  shows "threads_ok (take_refreshed s)" "threads_ok (take_probed env s)" "turn_keeps threads_ok (start_refresh env s)"
    and "turn_keeps threads_ok (deliver_outbox L c env s)" "turn_keeps threads_ok (collect_result env s)"
    and "turn_keeps threads_ok (poll_work L c env s)" "turn_keeps threads_ok (start_probe c env s)"
  using assms by (auto simp: stage_defs threads_ok_def intro: in_flight_takes in_flight_starts
    split: list.split sum.split option.split)

lemma threads_ok_heartbeat: "threads_ok s \<Longrightarrow> turn_keeps threads_ok (heartbeat L c env s)"
  by (auto simp: stage_defs threads_ok_def seconds_def nanos_per_second_def split: sum.split option.split)

lemma threads_ok_turn: "threads_ok s \<Longrightarrow> turn_keeps threads_ok (serve_turn L c env s)"
  by (rule turn_keeps_serve) (auto intro: threads_ok_stages threads_ok_heartbeat)

lemma threads_ok_step:
  assumes "threads_ok s" and "agent_step L c s t"
  shows "threads_ok t"
  using assms(2,1)
proof cases
  case (turn env)
  then show ?thesis using threads_ok_turn [OF assms(1), of L c env] by simp
next
  case (retry env)
  then show ?thesis using threads_ok_turn [OF assms(1), of L c env] by simp
qed (auto simp: threads_ok_def execute_in_thread_def intro: in_flight_sends split: prod.splits)

interpretation serving: invariant_system "agent_step L c" "\<lambda>s. \<exists>now offset offer outbox store. s = serve_start now offset offer outbox store"
  threads_ok for L c
proof
  fix s assume "\<exists>now offset offer outbox store. s = serve_start now offset offer outbox store"
  then show "threads_ok s" by (auto simp: serve_start_def threads_ok_def in_flight_def seconds_def nanos_per_second_def)
qed (rule threads_ok_step)

lemma serve_start_simps [simp]:
  "al_outbox (serve_start now offset offer outbox store) = outbox" "al_results (serve_start now offset offer outbox store) = []"
  "\<not> al_work_in_flight (serve_start now offset offer outbox store)" "al_store (serve_start now offset offer outbox store) = store"
  "al_next_work_poll_at (serve_start now offset offer outbox store) = now" "al_offer (serve_start now offset offer outbox store) = offer"
  by (simp_all add: serve_start_def)

lemma claim_is_kept:
  assumes "threads_ok s" and "agent_step L c s t" and "al_executing s = Some claim"
  shows "al_executing t = Some claim \<or> al_executing t = None"
proof -
  have busy: "al_work_in_flight s"
    using assms(1,3) in_flight_idle by (cases "al_work_in_flight s") (auto simp: threads_ok_def)
  have idle: "al_results s = []" using assms(1,3) by (cases "al_results s") (auto simp: threads_ok_def in_flight_def busy)
  let ?P = "\<lambda>t. al_executing t = Some claim \<and> al_work_in_flight t \<and> al_results t = []"
  have "turn_keeps ?P (serve_turn L c env s)" for env
    by (rule turn_keeps_serve) (use assms(3) busy idle in \<open>auto simp: stage_defs split: list.split sum.split option.split\<close>)
  note keeps = this
  from assms(2) show ?thesis
  proof cases
    case (turn env)
    then show ?thesis using keeps [of env] by simp
  next
    case (retry env)
    then show ?thesis using keeps [of env] by simp
  qed (use assms(3) in \<open>auto simp: execute_in_thread_def split: prod.splits\<close>)
qed

section \<open>Receipts\<close>

lemma and_stage_Again: "and_stage t f = Again s' \<longleftrightarrow> (\<exists>s1. t = Again s1 \<and> f s1 = Again s')"
  by (cases t) auto

definition delivered :: "('sk, 'i, 'r) agent_lib \<Rightarrow> turn_env \<Rightarrow> execution_receipt stored \<Rightarrow> bool" where
  "delivered L env outbox = (case outbox of Stored r \<Rightarrow> posted L (xg_reply (tn_post_receipt env r)) = Inr () | _ \<Rightarrow> False)"

lemma before_delivery:
  assumes "and_stage (start_refresh env (take_probed env (take_refreshed s))) (heartbeat L c env) = Again s1"
  shows "al_outbox s1 = al_outbox s" "al_results s1 = al_results s"
  using assms by (auto simp: and_stage_Again stage_defs split: list.splits sum.splits option.splits if_splits)

lemma delivery:
  assumes "deliver_outbox L c env s1 = Again s2"
  shows "al_outbox s2 = (if delivered L env (al_outbox s1) then Absent else al_outbox s1)" "al_results s2 = al_results s1"
  using assms by (cases "al_outbox s1"; force simp: deliver_outbox_def delivered_def heard_def Let_def
    split: sum.splits option.splits if_splits)+

lemma after_delivery:
  assumes "and_stage (and_stage (collect_result env s2) (poll_work L c env)) (start_probe c env) = Again s'"
  shows "al_outbox s' = (case al_results s2 of Inr r # _ \<Rightarrow> Stored r | _ \<Rightarrow> al_outbox s2)"
  using assms by (auto simp: and_stage_Again collect_result_def poll_work_def start_probe_def Let_def heard_def
    split: list.splits sum.splits option.splits if_splits)

lemma turn_outbox:
  assumes "serve_turn L c env s = Again s'"
  shows "al_outbox s' = (case al_results s of Inr r # _ \<Rightarrow> Stored r
           | _ \<Rightarrow> if delivered L env (al_outbox s) then Absent else al_outbox s)"
proof -
  obtain s1 s2 where s1: "and_stage (start_refresh env (take_probed env (take_refreshed s))) (heartbeat L c env) = Again s1"
    and s2: "deliver_outbox L c env s1 = Again s2"
    and s': "and_stage (and_stage (collect_result env s2) (poll_work L c env)) (start_probe c env) = Again s'"
    using assms by (auto simp: serve_turn_def and_stage_Again split: if_splits)
  show ?thesis by (simp only: after_delivery [OF s'] delivery [OF s2] before_delivery [OF s1])
qed

definition smooth_turn :: "('sk, 'i, 'r) agent_lib \<Rightarrow> turn_env \<Rightarrow> bool" where
  "smooth_turn L env = (\<not> tn_kill env \<and> (\<forall>offer. posted L (xg_reply (tn_post_offer env offer)) = Inr ())
     \<and> tn_flush_error env = None \<and> tn_write_error env = None \<and> tn_remove_error env = None \<and> tn_spawn_error env = None)"

lemma smooth_turn_goes_on:
  assumes "smooth_turn L env" and "al_outbox s = Stored r"
  shows "\<exists>s'. serve_turn L c env s = Again s'"
proof -
  let ?s = "take_probed env (take_refreshed s)"
  have "\<exists>s1. and_stage (start_refresh env ?s) (heartbeat L c env) = Again s1"
    using assms(1) by (auto simp: smooth_turn_def start_refresh_def heartbeat_def Let_def)
  then obtain s1 where s1: "and_stage (start_refresh env ?s) (heartbeat L c env) = Again s1" by blast
  have "\<exists>s2. deliver_outbox L c env s1 = Again s2"
    using assms before_delivery(1) [OF s1] by (auto simp: smooth_turn_def deliver_outbox_def Let_def split: sum.split)
  moreover have "\<exists>s3. collect_result env s2 = Again s3" for s2
    using assms(1) by (auto simp: smooth_turn_def collect_result_def split: list.split sum.split)
  moreover have "\<exists>s4. poll_work L c env s3 = Again s4" for s3
    using assms(1) by (auto simp: smooth_turn_def poll_work_def Let_def split: option.split sum.split)
  moreover have "\<exists>s5. start_probe c env s4 = Again s5" for s4
    using assms(1) by (auto simp: smooth_turn_def start_probe_def)
  ultimately show ?thesis
    using assms(1) s1 by (simp add: serve_turn_def smooth_turn_def and_stage_Again) metis
qed

lemma turn_claims:
  assumes "serve_turn L c env s = Again s'" and "\<not> al_work_in_flight s" "al_results s = []"
    and "al_next_work_poll_at s \<le> tn_instant env 5" "fetched L (xg_reply (tn_get_claim env)) = Inr (Some claim)"
  shows "al_executing s' = Some claim" "al_results s' = []" "al_store s' = al_store s"
proof -
  let ?P = "\<lambda>t. \<not> al_work_in_flight t \<and> al_results t = [] \<and> al_next_work_poll_at t = al_next_work_poll_at s \<and> al_store t = al_store s"
  obtain s3 s4 where s3: "and_stage (and_stage (and_stage (start_refresh env (take_probed env (take_refreshed s)))
        (heartbeat L c env)) (deliver_outbox L c env)) (collect_result env) = Again s3"
    and s4: "poll_work L c env s3 = Again s4" and s': "start_probe c env s4 = Again s'"
    using assms(1) by (auto simp: serve_turn_def and_stage_Again split: if_splits)
  have "turn_keeps ?P (Again s3)" unfolding s3 [symmetric]
    by (intro turn_keeps_stage) (use assms(2,3) in \<open>auto simp: stage_defs split: list.split sum.split option.split\<close>)
  then show "al_executing s' = Some claim" "al_results s' = []" "al_store s' = al_store s"
    using s4 s' assms(4,5) by (auto simp: poll_work_def start_probe_def Let_def heard_def split: option.splits if_splits)
qed

section \<open>A demonstration worker\<close>

definition demo_agent_lib :: "(unit, string, string) agent_lib" where
  "demo_agent_lib = \<lparr>gt_worker = demo_worker_lib, gt_endpoint = \<lparr>el_parse_id = Some, el_parse_relay = Some\<rparr>,
     gt_uuid_text = kl_uuid_text demo_control, gt_parse_uuid = (\<lambda>_. Inl []), gt_parse_time = (\<lambda>t. Some (int (length t))),
     gt_parse_claim = (\<lambda>_. Inr (Some demo_echo)), gt_base64_decode = Some, gt_base64_encode = id,
     gt_mesh_text = (\<lambda>_. []), gt_reject_text = (\<lambda>_ _. ''refused'')\<rparr>"

definition demo_agent :: "unit agent_config" where
  "demo_agent = \<lparr>ag_signing_key = (), ag_node_id = 7, ag_controller_id = None\<rparr>"

definition demo_exchange :: "reply \<Rightarrow> exchange" where
  "demo_exchange x = \<lparr>xg_sent_at = 0, xg_elapsed = 0, xg_reply = x\<rparr>"

definition demo_turn :: "reply \<Rightarrow> turn_env" where
  "demo_turn receipts = \<lparr>tn_kill = False, tn_instant = (\<lambda>_. 0), tn_offer_now = 0, tn_probe_now = 0, tn_offer_id = 1,
     tn_endpoint_id = public_hex demo_crypto (), tn_direct_addresses = [], tn_relay_urls = [],
     tn_post_offer = (\<lambda>_. demo_exchange (Inr (200, JNull))), tn_post_receipt = (\<lambda>_. demo_exchange receipts),
     tn_get_claim = demo_exchange (Inr (200, JNull)), tn_flush_error = None, tn_write_error = None,
     tn_remove_error = None, tn_spawn_error = None\<rparr>"

lemma demo_turn_smooth: "smooth_turn demo_agent_lib (demo_turn receipts)"
  by (simp add: smooth_turn_def demo_turn_def demo_exchange_def posted_def is_success_def)

section \<open>Properties\<close>

text \<open>
  C14. The serving worker runs one claim at a time. In every state the loop reaches, under any interleaving with
  its threads, a claim is in flight exactly when it is executing or its result waits to be collected, never both,
  at most one result waits, and no step replaces the claim that is executing by another. The delay before a
  reconnection stays between one and ten seconds.
\<close>

theorem worker_runs_one_claim:
  assumes "(agent_step L c)\<^sup>*\<^sup>* (serve_start now offset offer outbox store) s"
  shows "(al_work_in_flight s \<longleftrightarrow> al_executing s \<noteq> None \<or> al_results s \<noteq> [])
     \<and> (al_executing s = None \<or> al_results s = []) \<and> length (al_results s) \<le> 1
     \<and> (\<forall>claim t. al_executing s = Some claim \<and> agent_step L c s t \<longrightarrow> al_executing t = Some claim \<or> al_executing t = None)
     \<and> seconds 1 \<le> al_reconnect_delay s \<and> al_reconnect_delay s \<le> seconds 10"
proof -
  have ok: "threads_ok s" using serving.inv_reachable [OF _ assms] by blast
  then have "in_flight (al_work_in_flight s) (al_executing s) (al_results s)" by (simp add: threads_ok_def)
  note work = in_flight_cases [OF this]
  have "seconds 1 \<le> al_reconnect_delay s \<and> al_reconnect_delay s \<le> seconds 10"
    using ok by (simp add: threads_ok_def)
  then show ?thesis using work claim_is_kept [OF ok, where L = L and c = c] by auto
qed

theorem worker_runs_one_claim_witness:
  "\<exists>s. (agent_step demo_agent_lib demo_agent)\<^sup>*\<^sup>* (serve_start 0 0 demo_worker_offer (Stored (demo_receipt 1)) demo_store) s
     \<and> al_executing s = Some demo_echo \<and> al_work_in_flight s"
proof -
  let ?s = "serve_start 0 0 demo_worker_offer (Stored (demo_receipt 1)) demo_store" and ?env = "demo_turn (Inr (200, JNull))"
  obtain s where s: "serve_turn demo_agent_lib demo_agent ?env ?s = Again s"
    using smooth_turn_goes_on [OF demo_turn_smooth serve_start_simps(1)] by blast
  have "al_executing s = Some demo_echo"
    by (rule turn_claims(1) [OF s])
      (simp_all add: demo_turn_def demo_exchange_def fetched_def is_success_def demo_agent_lib_def)
  moreover have run: "(agent_step demo_agent_lib demo_agent)\<^sup>*\<^sup>* ?s s" using agent_step.turn [OF s] by blast
  ultimately show ?thesis using worker_runs_one_claim [OF run] by auto
qed

text \<open>
  What becomes of a receipt in a turn that goes on. The outbox holds the receipt that the turn collected
  from the executor, whatever it held before; when the turn collected none, it is empty if the controller
  accepted the receipt it held, and unchanged otherwise.
\<close>

theorem outbox_after_turn:
  assumes "serve_turn L c env s = Again s'"
  shows "al_outbox s' = (case al_results s of Inr r # _ \<Rightarrow> Stored r
           | _ \<Rightarrow> if (\<exists>r. al_outbox s = Stored r \<and> posted L (xg_reply (tn_post_receipt env r)) = Inr ()) then Absent
               else al_outbox s)"
  using turn_outbox [OF assms] by (auto simp: delivered_def split: stored.splits)

theorem outbox_after_turn_witness:
  "\<exists>s. serve_turn demo_agent_lib demo_agent (demo_turn (Inr (200, JNull))) (serve_start 0 0 demo_worker_offer (Stored (demo_receipt 1)) demo_store) = Again s
     \<and> al_outbox s = Absent"
proof -
  let ?s = "serve_start 0 0 demo_worker_offer (Stored (demo_receipt 1)) demo_store"
  obtain s where s: "serve_turn demo_agent_lib demo_agent (demo_turn (Inr (200, JNull))) ?s = Again s"
    using smooth_turn_goes_on [OF demo_turn_smooth serve_start_simps(1)] by blast
  show ?thesis using outbox_after_turn [OF s] s
    by (simp add: demo_turn_def demo_exchange_def posted_def is_success_def)
qed

text \<open>
  C23. A receipt that was not delivered is overwritten. The loop keeps a receipt the controller did not accept
  in its one outbox file, yet goes on to claim work; the receipt of that work replaces the older one, which is
  then nowhere. (\<open>execute_one_work_item\<close>, by contrast, delivers first.)
\<close>

theorem undelivered_receipt_is_overwritten:
  assumes "(agent_step L c)\<^sup>*\<^sup>* (serve_start now offset offer outbox store) s"
    and "al_outbox s = Stored r" "\<not> al_work_in_flight s"
    and "smooth_turn L env" "al_next_work_poll_at s \<le> tn_instant env 5"
    and "posted L (xg_reply (tn_post_receipt env r)) = Inl e" "fetched L (xg_reply (tn_get_claim env)) = Inr (Some claim)"
    and "execute_claim_with_store (gt_worker L) run claim (ag_node_id c) (cl_fencing_epoch (wk_lease claim))
           (ag_signing_key c) (al_store s) = (Inr r', store')"
    and "smooth_turn L env'" "posted L (xg_reply (tn_post_receipt env' r)) = Inl e'"
  shows "\<exists>s1 s2. serve_turn L c env s = Again s1 \<and> al_outbox s1 = Stored r \<and> al_executing s1 = Some claim
     \<and> serve_turn L c env' (execute_in_thread L c run claim s1) = Again s2 \<and> al_outbox s2 = Stored r'"
proof -
  have idle: "al_results s = []"
    using serving.inv_reachable [OF _ assms(1)] assms(3) in_flight_idle by (fastforce simp: threads_ok_def)
  obtain s1 where s1: "serve_turn L c env s = Again s1" using smooth_turn_goes_on [OF assms(4,2)] by blast
  have o: "al_outbox s1 = Stored r" using turn_outbox [OF s1] assms(2,6) by (simp add: idle delivered_def)
  note claims = turn_claims [OF s1 assms(3) idle assms(5,7)]
  let ?s = "execute_in_thread L c run claim s1"
  have x: "al_results ?s = [Inr r']" "al_outbox ?s = Stored r"
    using assms(8) o claims by (simp_all add: execute_in_thread_def)
  obtain s2 where s2: "serve_turn L c env' ?s = Again s2" using smooth_turn_goes_on [OF assms(9) x(2)] by blast
  show ?thesis using s1 o claims(1) s2 turn_outbox [OF s2] x(1) by simp
qed

theorem undelivered_receipt_is_overwritten_witness:
  "\<exists>s1 s2 r'. serve_turn demo_agent_lib demo_agent (demo_turn (Inl ''offline'')) (serve_start 0 0 demo_worker_offer (Stored (demo_receipt 1)) demo_store) = Again s1
     \<and> al_outbox s1 = Stored (demo_receipt 1)
     \<and> serve_turn demo_agent_lib demo_agent (demo_turn (Inl ''offline'')) (execute_in_thread demo_agent_lib demo_agent demo_run demo_echo s1) = Again s2
     \<and> al_outbox s2 = Stored r'"
proof -
  let ?s = "serve_start 0 0 demo_worker_offer (Stored (demo_receipt 1)) demo_store"
  obtain r' st where x: "execute_claim_with_store demo_worker_lib demo_run demo_echo 7 1 () demo_store = (Inr r', st)"
    using demo_echo_runs by blast
  have e: "cl_fencing_epoch (wk_lease demo_echo) = 1" by (simp add: demo_echo_def demo_work_def)
  have "\<exists>s1 s2. serve_turn demo_agent_lib demo_agent (demo_turn (Inl ''offline'')) ?s = Again s1
     \<and> al_outbox s1 = Stored (demo_receipt 1) \<and> al_executing s1 = Some demo_echo
     \<and> serve_turn demo_agent_lib demo_agent (demo_turn (Inl ''offline'')) (execute_in_thread demo_agent_lib demo_agent demo_run demo_echo s1) = Again s2
     \<and> al_outbox s2 = Stored r'"
    by (rule undelivered_receipt_is_overwritten [OF rtranclp.rtrancl_refl _ _ demo_turn_smooth _ _ _ _ demo_turn_smooth])
      (use x in \<open>simp_all add: demo_turn_def demo_exchange_def posted_def fetched_def is_success_def
         demo_agent_lib_def demo_agent_def e\<close>)
  then show ?thesis by blast
qed

end
