(* ===== verification/Rampage_Presence.thy ===== *)
theory Rampage_Presence
  imports Rampage_Serving Rampage_Gateway
begin

text \<open>
  How a worker keeps its place in the fabric: the offers of its loop are the ones the controller admits, its link
  benchmark is the one the controller's probe answers, its clock estimate is bounded by the round trip, and
  its requests go to the controller it has pinned and to no other.
\<close>

section \<open>Benchmarks and offers\<close>

definition benchmark_good :: "'sk agent_config \<Rightarrow> link_benchmark option \<Rightarrow> bool" where
  "benchmark_good c b = (case b of None \<Rightarrow> True
     | Some b \<Rightarrow> (\<exists>cid. ag_controller_id c = Some cid \<and> link_benchmark_is_valid_for b cid (lb_observed_at b) (lb_expires_at b)))"

lemma effective_bps_pos: "0 < effective_bps bytes elapsed rtt"
  by (simp add: effective_bps_def Let_def max_def not_le word_le_nat_alt word_less_nat_alt)

lemma measured_good: "measured L c env t = Inr b \<Longrightarrow> benchmark_good c b"
proof -
  have "0 < max (x :: u64) 1" for x by (simp add: max_def word_le_nat_alt word_less_nat_alt)
  then show "measured L c env t = Inr b \<Longrightarrow> benchmark_good c b"
    by (cases "ag_controller_id c") (auto simp: measured_def measure_link_def Let_def benchmark_good_def link_benchmark_is_valid_for_def
      effective_bps_pos split: sum.splits prod.splits)
qed

definition offer_ok :: "'sk agent_config \<Rightarrow> resource_offer \<Rightarrow> agent_loop \<Rightarrow> bool" where
  "offer_ok c offer s = (benchmark_good c (ro_link_benchmark (al_offer s))
     \<and> (\<forall>b. Inr b \<in> set (al_probed s) \<longrightarrow> benchmark_good c b)
     \<and> ro_node_id (al_offer s) = ro_node_id offer \<and> ro_resources (al_offer s) = ro_resources offer
     \<and> ro_availability (al_offer s) = ro_availability offer)"

lemma fresh_offer_fields [simp]:
  "ro_node_id (fresh_offer L c env now offer) = ro_node_id offer" "ro_resources (fresh_offer L c env now offer) = ro_resources offer"
  "ro_availability (fresh_offer L c env now offer) = ro_availability offer" "ro_adapters (fresh_offer L c env now offer) = ro_adapters offer"
  "ro_model_runtimes (fresh_offer L c env now offer) = ro_model_runtimes offer"
  "ro_workload_capabilities (fresh_offer L c env now offer) = ro_workload_capabilities offer"
  "ro_observed_at (fresh_offer L c env now offer) = now" "ro_expires_at (fresh_offer L c env now offer) = now + OFFER_LIFETIME"
  "ro_mesh_endpoint (fresh_offer L c env now offer) = signed_worker_endpoint L c env now (now + OFFER_LIFETIME)"
  "ro_link_benchmark (fresh_offer L c env now offer) = (case ro_link_benchmark offer of
     None \<Rightarrow> None | Some b \<Rightarrow> if lb_expires_at b < now + OFFER_LIFETIME then None else Some b)"
  by (simp_all add: fresh_offer_def sign_offer_def Let_def)

lemma benchmark_good_fresh:
  "benchmark_good c b \<Longrightarrow> benchmark_good c (case b of None \<Rightarrow> None | Some b \<Rightarrow> if lb_expires_at b < t then None else Some b)"
  by (cases b) (auto simp: benchmark_good_def)

lemma benchmark_good_None [simp]: "benchmark_good c None"
  by (simp add: benchmark_good_def)

lemma offer_ok_turn: "offer_ok c offer s \<Longrightarrow> turn_keeps (offer_ok c offer) (serve_turn L c env s)"
  by (rule turn_keeps_serve)
    (auto simp: stage_defs offer_ok_def benchmark_good_fresh split: list.split sum.split option.split)

lemma offer_ok_step:
  assumes "offer_ok c offer s" and "agent_step L c s t"
  shows "offer_ok c offer t"
  using assms(2,1)
proof cases
  case (turn env)
  then show ?thesis using offer_ok_turn [OF assms(1), of L env] by simp
next
  case (retry env)
  then show ?thesis using offer_ok_turn [OF assms(1), of L env] by simp
qed (auto simp: offer_ok_def execute_in_thread_def dest: sym measured_good split: prod.splits)

interpretation offering: invariant_system "agent_step L c"
  "\<lambda>s. \<exists>now offset outbox store. s = serve_start now offset offer outbox store \<and> ro_link_benchmark offer = None"
  "offer_ok c offer" for L c offer
proof
  fix s assume "\<exists>now offset outbox store. s = serve_start now offset offer outbox store \<and> ro_link_benchmark offer = None"
  then show "offer_ok c offer s" by (auto simp: offer_ok_def serve_start_def)
qed (rule offer_ok_step)

text \<open>What the controller asks of the runtimes depends on the resources, adapters and profiles of the offer only.\<close>

lemma capabilities_ok_cong: "ro_adapters o1 = ro_adapters o2 \<Longrightarrow> capabilities_ok o1 seen cs = capabilities_ok o2 seen cs"
  by (induction cs arbitrary: seen) auto

lemma validate_runtimes_cong:
  "ro_adapters o1 = ro_adapters o2 \<Longrightarrow> ro_resources o1 = ro_resources o2
    \<Longrightarrow> validate_runtimes o1 seen rs = validate_runtimes o2 seen rs"
proof (induction rs arbitrary: seen)
  case (Cons r rs)
  have "available_bytes o1 = available_bytes o2" by (rule ext) (simp add: available_bytes_def Cons.prems)
  then have "runtime_profile_ok o1 seen r = runtime_profile_ok o2 seen r"
    by (cases "mr_memory_kind r") (simp_all add: runtime_profile_ok_def runtime_capacity_from_offer_def Cons.prems)
  then show ?case using Cons by simp
qed simp

lemma fresh_offer_contracts:
  "validate_model_runtime_contracts (fresh_offer L c env now offer) = validate_model_runtime_contracts offer"
  using capabilities_ok_cong [of "fresh_offer L c env now offer" offer] validate_runtimes_cong [of "fresh_offer L c env now offer" offer]
  by (simp add: validate_model_runtime_contracts_def)

lemma fresh_offer_verifies:
  assumes "crypto_ok (gt_crypto L)" and "ni_node_id i = ro_node_id offer" "ni_public_key i = public_hex (gt_crypto L) (ag_signing_key c)"
  shows "verify_offer (gt_crypto L) i (fresh_offer L c env now offer) = Inr ()" "ro_signature (fresh_offer L c env now offer) \<noteq> []"
  using assms sign_hex_verifies [OF assms(1)] sign_hex_nonempty [OF assms(1)]
  by (simp_all add: verify_offer_def) (simp_all add: fresh_offer_def sign_offer_def Let_def)

lemma worker_endpoint_verifies:
  assumes "crypto_ok (gt_crypto L)" and "signed_worker_endpoint L c env now expires = Some e" "now \<le> t2" "t1 < expires"
  shows "verify_mesh_endpoint_with_key (gt_crypto L) t1 t2 (public_hex (gt_crypto L) (ag_signing_key c)) e = Inr ()"
    "me_endpoint_id e = tn_endpoint_id env" "me_expires_at e = expires"
  using assms sign_hex_verifies [OF assms(1)]
  by (auto simp: signed_worker_endpoint_def verify_mesh_endpoint_with_key_def verify_pinned_mesh_endpoint_with_key_def
    sign_mesh_endpoint_def split: if_splits)

text \<open>A runtime whose adapter the offer does not list spoils the offer.\<close>

lemma validate_runtimes_adapter:
  "validate_runtimes offer seen rs = Inr () \<Longrightarrow> r \<in> set rs \<Longrightarrow> mr_adapter r |\<in>| ro_adapters offer"
  by (induction rs arbitrary: seen) (auto simp: runtime_profile_ok_def split: if_splits)

lemma check_offer_cases:
  "check_offer K T offer k = (Inr (), k) \<or> (\<exists>e. check_offer K T offer k = (Inl e, k) \<and> reject_status e \<in> {400, 401})"
  by (auto simp: check_offer_def check_offer_endpoint_def bind_h_def require_def from_option_def from_result_def answer_def
    refuse_def with_state_def split: sum.split option.split)

lemma check_offer_contracts:
  "check_offer K T offer k = (Inr (), k) \<Longrightarrow> validate_model_runtime_contracts offer = Inr ()"
  by (auto simp: check_offer_def bind_h_def require_def from_option_def from_result_def answer_def
    refuse_def with_state_def split: sum.splits option.splits if_splits)

definition offer_reply :: "'sk control_lib \<Rightarrow> clock \<Rightarrow> 'sk controller \<Rightarrow> resource_offer \<Rightarrow> reply" where
  "offer_reply K T k offer = (case check_offer K T offer k of
     (Inl e, _) \<Rightarrow> Inr (reject_status e, rejection_body e) | (Inr _, _) \<Rightarrow> Inr (202, JNull))"

lemma offer_refused:
  assumes "r \<in> set (ro_model_runtimes offer)" and "mr_adapter r |\<notin>| ro_adapters offer"
  shows "\<exists>e. posted L (offer_reply K T k offer) = Inl e"
proof -
  have "validate_model_runtime_contracts offer \<noteq> Inr ()"
    using assms validate_runtimes_adapter [of offer "[]"] by (auto simp: validate_model_runtime_contracts_def split: if_splits)
  then obtain e where "check_offer K T offer k = (Inl e, k)" "reject_status e \<in> {400, 401}"
    using check_offer_cases check_offer_contracts by metis
  then show ?thesis by (auto simp: offer_reply_def posted_def is_success_def)
qed

lemma start_refresh_goes_on:
  "tn_spawn_error env = None \<Longrightarrow> \<exists>s2. start_refresh env s = Again s2 \<and> al_offer s2 = al_offer s \<and> al_outbox s2 = al_outbox s
     \<and> al_results s2 = al_results s \<and> al_next_offer_at s2 = al_next_offer_at s"
  by (simp add: start_refresh_def)

section \<open>The clock of the controller\<close>

lemma num_seconds_abs: "\<bar>d\<bar> \<le> seconds n \<Longrightarrow> \<bar>num_seconds d\<bar> \<le> n"
  by (auto simp: num_seconds_def seconds_def nanos_per_second_def)

lemma clock_estimate:
  assumes "estimated_controller_clock_offset sent elapsed (u + d) = Some o'" and "sent \<le> u" "u \<le> sent + elapsed"
  shows "\<bar>o' - d\<bar> \<le> (elapsed + 1) div 2"
  using assms by (auto simp: estimated_controller_clock_offset_def Let_def split: if_splits)

section \<open>The link probe\<close>

definition probe_reply :: "'sk control_lib \<Rightarrow> gateway_lib \<Rightarrow> 'sk controller \<Rightarrow> json \<Rightarrow> reply" where
  "probe_reply K G k body = (case vc_from (gl_probe G) body of
     None \<Rightarrow> Inr (fst (gl_body_rejection G), JNull)
   | Some request \<Rightarrow> (case link_probe K G request k of
       (Inl e, _) \<Rightarrow> Inr (reject_status e, rejection_body e) | (Inr v, _) \<Rightarrow> Inr (200, v)))"

text \<open>The worker and the controller share the libraries, and serde reads the probe the worker wrote.\<close>

definition probe_libs :: "('sk, 'i, 'r) agent_lib \<Rightarrow> 'sk control_lib \<Rightarrow> gateway_lib \<Rightarrow> bool" where
  "probe_libs L K G = (gt_crypto L = kl_crypto K \<and> gt_uuid_text L = kl_uuid_text K
     \<and> (\<forall>b. gl_base64_decode G (gt_base64_encode L b) = Some b) \<and> (\<forall>b. gt_base64_decode L (gl_base64_encode G b) = Some b)
     \<and> gl_base64_decode G [] = Some []
     \<and> (\<forall>n m u d. vc_from (gl_probe G) (probe_body L n m u d)
           = Some \<lparr>lq_node_id = n, lq_nonce = m, lq_upload_base64 = u, lq_download_bytes = d\<rparr>))"

lemma probe_reply_valid:
  assumes "probe_libs L K G" and "gl_base64_decode G upload = Some up" "length up \<le> unat LINK_BENCHMARK_TRANSFER_BYTES" "d \<le> LINK_BENCHMARK_TRANSFER_BYTES"
  obtains body where "probe_reply K G k (probe_body L n m upload d) = Inr (200, body)"
    and "validate_probe_response L (200, body) n m (word_of_nat (length up)) (hex_sha256 L up) d = Inr ()"
  using assms that
  by (simp add: probe_libs_def probe_reply_def link_probe_def bind_h_def from_option_def require_def answer_def Let_def
    validate_probe_response_def json_str_def hex_sha256_def)

section \<open>The route\<close>

lemma controller_record_Inr:
  assumes "controller_record L T remote = Inr (r, key, aggregate, candidates)"
  shows "case remote of Pinned pin \<Rightarrow> r = pc_endpoint pin \<and> key = pc_governor_public_key pin
      | Invitation invite \<Rightarrow> ei_controller_mesh invite = Some r \<and> ei_governor_public_key invite = Some key"
    and "verify_pinned_mesh_endpoint_with_key (gt_crypto L) key r = Inr ()"
    and "endpoint_addr_from_record_inner (gt_endpoint L) r = Inr aggregate"
    and "endpoint_addr_candidates_inner (gt_endpoint L) r = Inr candidates"
  using assms by (auto simp: controller_record_def validate_controller_pin_def verify_mesh_endpoint_with_key_def
    endpoint_addr_from_record_def endpoint_addr_candidates_from_record_def endpoint_addr_from_pinned_record_def
    endpoint_addr_candidates_from_pinned_record_def split: remote_controller.splits option.splits sum.splits if_splits)

lemma set_direct_routes: "set (direct_routes ds) = set ds"
  by (force simp: direct_routes_def in_set_enumerate_eq in_set_conv_nth set_zip enumerate_eq_zip)

lemma destination_of_record:
  assumes "endpoint_addr_from_record_inner E r = Inr aggregate" and "endpoint_addr_candidates_inner E r = Inr candidates"
  shows "el_parse_id E (me_endpoint_id r) = Some (ea_id (select_controller_destination_for aggregate candidates nets))"
    and "set (ea_addrs (select_controller_destination_for aggregate candidates nets)) \<subseteq> set (ea_addrs aggregate)"
    and "\<forall>a \<in> set (ea_addrs aggregate). is_relay a \<longrightarrow> a \<in> set (ea_addrs (select_controller_destination_for aggregate candidates nets))"
proof -
  have id: "el_parse_id E (me_endpoint_id r) = Some (ea_id aggregate)"
    using assms(1) by (auto simp: endpoint_addr_from_record_inner_def Let_def split: option.splits sum.splits if_splits)
  have c: "ea_id x = ea_id aggregate \<and> set (ea_addrs x) \<subseteq> set (ea_addrs aggregate)" if "x \<in> set candidates" for x
    using that assms by (auto simp: endpoint_addr_candidates_inner_def endpoint_addr_from_record_inner_def Let_def
      set_direct_routes split: option.splits sum.splits if_splits)
  then show "el_parse_id E (me_endpoint_id r) = Some (ea_id (select_controller_destination_for aggregate candidates nets))"
    "set (ea_addrs (select_controller_destination_for aggregate candidates nets)) \<subseteq> set (ea_addrs aggregate)"
    "\<forall>a \<in> set (ea_addrs aggregate). is_relay a \<longrightarrow> a \<in> set (ea_addrs (select_controller_destination_for aggregate candidates nets))"
    using id by (auto simp: select_controller_destination_for_def dest!: find_SomeD split: option.split)
qed

section \<open>Properties\<close>

text \<open>
  C15. The offers of the serving loop fail at most by their runtimes. In every state the loop reaches, the controller that holds the
  worker's identity answers the offer of the next heartbeat exactly by the check of its runtime profiles: it refuses the offer
  with that check's error and status 400 if it has one, and lets the offer pass otherwise, because the signature and the endpoint verify, the
  benchmark is valid for this controller and outlives the offer, and the expiries agree. This holds within the offer's forty-five
  seconds, for a worker whose first offer has no benchmark and resources that name the enrolled device class, whose endpoint is
  its identity, and whose estimate of the controller's clock is neither ahead of the controller nor behind its last benchmark.
\<close>

theorem serving_offer_is_admitted:
  assumes "crypto_ok (kl_crypto K)" "gt_crypto L = kl_crypto K" "ag_controller_id c \<in> {None, Some (kl_endpoint_id K)}"
    and "(agent_step L c)\<^sup>*\<^sup>* (serve_start now0 offset offer outbox store) s" "ro_link_benchmark offer = None"
    and "fmlookup (kc_nodes k) (ro_node_id offer) = Some i" "ni_node_id i = ro_node_id offer"
    and "ni_public_key i = public_hex (kl_crypto K) (ag_signing_key c)" "tn_endpoint_id env = ni_public_key i"
    and "validate_offer_identity_binding i offer = Inr ()"
    and "\<forall>b. ro_link_benchmark (al_offer s) = Some b \<longrightarrow> lb_observed_at b \<le> now"
    and "\<forall>n \<le> 2. now \<le> T n \<and> T n < now + OFFER_LIFETIME"
  shows "check_offer K T (fresh_offer L c env now (al_offer s)) k =
     (case validate_model_runtime_contracts (al_offer s) of Inl e \<Rightarrow> (Inl (Reject 400 e []), k) | Inr _ \<Rightarrow> (Inr (), k))"
proof -
  let ?offer = "fresh_offer L c env now (al_offer s)"
  have ok: "offer_ok c offer s" using offering.inv_reachable [OF _ assms(4), of offer] assms(5) by blast
  then have f: "ro_node_id (al_offer s) = ro_node_id offer" "ro_resources (al_offer s) = ro_resources offer"
    "ro_availability (al_offer s) = ro_availability offer" by (simp_all add: offer_ok_def)
  have "validate_offer_identity_binding i ?offer = Inr ()"
    using assms(10) by (simp add: validate_offer_identity_binding_def f split: if_splits)
  moreover have "case ro_link_benchmark ?offer of None \<Rightarrow> True
      | Some b \<Rightarrow> link_benchmark_is_valid_for b (kl_endpoint_id K) (ro_observed_at ?offer) (ro_expires_at ?offer)"
    using ok assms(3,11) by (auto simp: offer_ok_def benchmark_good_def link_benchmark_is_valid_for_def split: option.split)
  moreover have "check_offer_endpoint K T i ?offer k = (Inr (), k)"
    using worker_endpoint_verifies [of L c env now _ _ "T 2" "T 1"] assms(1,2,8,9,12)
    by (cases "signed_worker_endpoint L c env now (now + OFFER_LIFETIME)")
      (auto simp: check_offer_endpoint_def bind_h_def require_def from_result_def answer_def)
  moreover have "T 0 < now + OFFER_LIFETIME" using assms(12) by simp
  ultimately show ?thesis
    using assms(1,2,6-8) fresh_offer_verifies [of L i "al_offer s" c env now]
    by (simp add: check_offer_def bind_h_def require_def from_option_def from_result_def answer_def refuse_def with_state_def
      f fresh_offer_contracts split: sum.split)
qed

theorem serving_offer_is_admitted_witness:
  "check_offer demo_control noon (fresh_offer demo_agent_lib demo_agent (demo_turn (Inl [])) 0 demo_worker_offer) (demo_member open_ledger)
     = (Inr (), demo_member open_ledger)"
proof -
  let ?s = "serve_start 0 0 demo_worker_offer Absent demo_store"
  have v: "validate_offer_identity_binding demo_identity demo_worker_offer = Inr ()" "validate_model_runtime_contracts demo_worker_offer = Inr ()"
    "ro_link_benchmark demo_worker_offer = None"
    by (simp_all add: validate_offer_identity_binding_def validate_model_runtime_contracts_def demo_offer_fields demo_cpu_def demo_identity_def)
  have "check_offer demo_control noon (fresh_offer demo_agent_lib demo_agent (demo_turn (Inl [])) 0 (al_offer ?s)) (demo_member open_ledger)
     = (case validate_model_runtime_contracts (al_offer ?s) of Inl e \<Rightarrow> (Inl (Reject 400 e []), demo_member open_ledger)
        | Inr _ \<Rightarrow> (Inr (), demo_member open_ledger))"
    by (rule serving_offer_is_admitted [OF _ _ _ rtranclp.rtrancl_refl, where i = demo_identity])
      (simp_all add: demo_crypto_of demo_crypto_ok demo_agent_lib_def demo_worker_lib_def demo_agent_def demo_offer_fields demo_states
        demo_identity_def demo_turn_def v [unfolded demo_identity_def] OFFER_LIFETIME_def seconds_def nanos_per_second_def)
  then show ?thesis by (simp add: v)
qed

text \<open>
  A runtime that appears late silences its worker. At its start the daemon adds the adapters of the discovered
  runtimes to its offer; the refresh of the capabilities replaces the runtimes and does not. When the refresh
  finds a runtime whose adapter was not offered before, the controller refuses the next offer, and the turn
  ends there: no receipt is delivered and no result collected, and the offer stays one that is refused.
\<close>

theorem late_runtime_silences_worker:
  assumes "al_refreshed s = refresh_dynamic_capabilities caps offer # rest"
    and "r \<in> set (cp_model_runtimes caps)" "mr_adapter r |\<notin>| ro_adapters offer"
    and "mr_adapter r \<notin> {''rampage.ollama.v1'', ''rampage.remote-assist.v1''}"
    and "\<not> tn_kill env" "tn_spawn_error env = None" "al_next_offer_at s \<le> tn_instant env 3"
    and "\<forall>offer. xg_reply (tn_post_offer env offer) = offer_reply K T k offer"
  shows "\<exists>s'. serve_turn L c env s = Retry s' \<and> al_outbox s' = al_outbox s \<and> al_results s' = al_results s
     \<and> r \<in> set (ro_model_runtimes (al_offer s')) \<and> mr_adapter r |\<notin>| ro_adapters (al_offer s')"
proof -
  let ?s1 = "take_probed env (take_refreshed s)"
  have a: "r \<in> set (ro_model_runtimes (al_offer ?s1)) \<and> mr_adapter r |\<notin>| ro_adapters (al_offer ?s1)"
    "al_outbox ?s1 = al_outbox s" "al_results ?s1 = al_results s" "al_next_offer_at ?s1 = al_next_offer_at s"
    using assms(1-4) by (auto simp: take_probed_def take_refreshed_def refresh_dynamic_capabilities_def set_adapter_def Let_def
      split: list.split sum.split)
  obtain s2 where s2: "start_refresh env ?s1 = Again s2" "al_offer s2 = al_offer ?s1" "al_outbox s2 = al_outbox s"
    "al_results s2 = al_results s" "al_next_offer_at s2 = al_next_offer_at s"
    using start_refresh_goes_on [OF assms(6), of ?s1] a(2-4) by metis
  let ?offer = "fresh_offer L c env (controller_now c (tn_offer_now env) s2) (al_offer s2)"
  obtain e where "posted L (xg_reply (tn_post_offer env ?offer)) = Inl e"
    using offer_refused [of r ?offer L K T k] a(1) s2(2) assms(8) by auto
  then have "\<exists>s'. heartbeat L c env s2 = Retry s' \<and> al_outbox s' = al_outbox s \<and> al_results s' = al_results s
     \<and> r \<in> set (ro_model_runtimes (al_offer s')) \<and> mr_adapter r |\<notin>| ro_adapters (al_offer s')"
    using assms(7) a(1) s2(2-5) by (simp add: heartbeat_def Let_def heard_def)
  then show ?thesis using assms(5) s2(1) by (auto simp: serve_turn_def)
qed

theorem late_runtime_silences_worker_witness:
  "\<exists>s s' r. al_outbox s = Stored (demo_receipt 1)
     \<and> serve_turn demo_agent_lib demo_agent ((demo_turn (Inr (200, JNull)))\<lparr>tn_post_offer := \<lambda>offer. demo_exchange (offer_reply demo_control noon (demo_member open_ledger) offer)\<rparr>) s
         = Retry s'
     \<and> al_outbox s' = Stored (demo_receipt 1) \<and> r \<in> set (ro_model_runtimes (al_offer s')) \<and> mr_adapter r |\<notin>| ro_adapters (al_offer s')"
proof -
  let ?r = "demo_runtime\<lparr>mr_adapter := ''rampage.exo-mlx.v1''\<rparr>"
  let ?caps = "\<lparr>cp_ollama = False, cp_remote_assist = False, cp_model_runtimes = [?r], cp_capabilities = \<lambda>_ _. []\<rparr>"
  let ?s = "(serve_start 0 0 demo_worker_offer (Stored (demo_receipt 1)) demo_store)\<lparr>al_refreshed := [refresh_dynamic_capabilities ?caps demo_worker_offer]\<rparr>"
  let ?env = "(demo_turn (Inr (200, JNull)))\<lparr>tn_post_offer := \<lambda>offer. demo_exchange (offer_reply demo_control noon (demo_member open_ledger) offer)\<rparr>"
  have "\<exists>s'. serve_turn demo_agent_lib demo_agent ?env ?s = Retry s' \<and> al_outbox s' = al_outbox ?s \<and> al_results s' = al_results ?s
     \<and> ?r \<in> set (ro_model_runtimes (al_offer s')) \<and> mr_adapter ?r |\<notin>| ro_adapters (al_offer s')"
    by (rule late_runtime_silences_worker [where caps = ?caps and offer = demo_worker_offer and rest = "[]" and K = demo_control
          and T = noon and k = "demo_member open_ledger"])
      (simp_all add: demo_turn_def demo_exchange_def serve_start_def demo_worker_offer_def sign_offer_def demo_offer_def)
  then obtain s' where "serve_turn demo_agent_lib demo_agent ?env ?s = Retry s'" "al_outbox s' = Stored (demo_receipt 1)"
    "?r \<in> set (ro_model_runtimes (al_offer s'))" "mr_adapter ?r |\<notin>| ro_adapters (al_offer s')" by auto
  then show ?thesis by - (rule exI [of _ ?s], rule exI [of _ s'], rule exI [of _ ?r], simp)
qed

text \<open>
  The worker's estimate of the controller's clock is off by at most half a round trip. An answer that the controller
  stamped, at some moment between the sending of the request and the arrival of the answer, with a clock that is
  ahead of the worker's by \<open>d\<close>, moves the worker's estimate to within half the duration of the exchange,
  provided the two clocks are less than a day apart; an estimate further off is not adopted.
\<close>

theorem controller_clock_error:
  assumes "ag_controller_id c \<noteq> None" "xg_reply x = Inr (status, body)" "response_controller_time L body = Some (u + d)"
    and "xg_sent_at x \<le> u" "u \<le> xg_sent_at x + xg_elapsed x" "\<bar>d\<bar> + xg_elapsed x \<le> seconds (24 * 60 * 60)"
  shows "\<bar>controller_now c now (heard L c x s) - (now + d)\<bar> \<le> (xg_elapsed x + 1) div 2"
proof -
  have e: "0 \<le> xg_elapsed x" "xg_elapsed x \<le> seconds (24 * 60 * 60)" using assms(4-6) by linarith+
  then have "xg_elapsed x div 2 \<le> int i64_max * 1000000" by (simp add: i64_max_def seconds_def nanos_per_second_def)
  then obtain est where est: "estimated_controller_clock_offset (xg_sent_at x) (xg_elapsed x) (u + d) = Some est"
    by (simp add: estimated_controller_clock_offset_def Let_def)
  note bound = clock_estimate [OF est assms(4,5)]
  have "\<bar>est\<bar> \<le> seconds (24 * 60 * 60)" using bound e assms(6) by linarith
  then have "\<bar>num_seconds est\<bar> \<le> MAX_TRUSTED_CLOCK_OFFSET_SECONDS"
    using num_seconds_abs by (simp add: MAX_TRUSTED_CLOCK_OFFSET_SECONDS_def)
  then have "observe_time L x (al_clock_offset s) = est" using assms(2,3) est by (simp add: observe_time_def)
  then have "controller_now c now (heard L c x s) - (now + d) = est - d" using assms(1) by (auto simp: controller_now_def heard_def)
  then show ?thesis using bound by simp
qed

theorem controller_clock_error_witness:
  "\<bar>controller_now (demo_agent\<lparr>ag_controller_id := Some []\<rparr>) 50
      (heard demo_agent_lib (demo_agent\<lparr>ag_controller_id := Some []\<rparr>)
        \<lparr>xg_sent_at = 0, xg_elapsed = 4, xg_reply = Inr (200, JObject [(''generated_at'', JString ''noon'')])\<rparr>
        (serve_start 0 0 demo_worker_offer Absent demo_store)) - (50 + 3)\<bar> \<le> 2"
proof -
  have "\<bar>controller_now (demo_agent\<lparr>ag_controller_id := Some []\<rparr>) 50
      (heard demo_agent_lib (demo_agent\<lparr>ag_controller_id := Some []\<rparr>)
        \<lparr>xg_sent_at = 0, xg_elapsed = 4, xg_reply = Inr (200, JObject [(''generated_at'', JString ''noon'')])\<rparr>
        (serve_start 0 0 demo_worker_offer Absent demo_store)) - (50 + 3)\<bar> \<le> (4 + 1) div 2"
    using controller_clock_error [where c = "demo_agent\<lparr>ag_controller_id := Some []\<rparr>" and L = demo_agent_lib and u = 1 and d = 3
        and x = "\<lparr>xg_sent_at = 0, xg_elapsed = 4, xg_reply = Inr (200, JObject [(''generated_at'', JString ''noon'')])\<rparr>"
        and status = 200 and body = "JObject [(''generated_at'', JString ''noon'')]" and now = 50
        and s = "serve_start 0 0 demo_worker_offer Absent demo_store"]
    by (simp add: response_controller_time_def demo_agent_lib_def seconds_def nanos_per_second_def)
  then show ?thesis by simp
qed

text \<open>
  C21. A link measurement against the controller succeeds. When the controller answers three health requests and the
  two probes, the worker accepts both answers, and the benchmark it records is one that the controller's check of
  an offer accepts.
\<close>

theorem link_measurement_succeeds:
  assumes "probe_libs L K G" and "\<forall>n. \<exists>body. snd (lk_health env n) = Inr (200, body)"
    and "\<forall>body. snd (lk_upload env body) = probe_reply K G k body" "\<forall>body. snd (lk_download env body) = probe_reply K G k' body"
  shows "\<exists>b. measure_link L env (kl_endpoint_id K) node_id observed_at = Inr b
     \<and> link_benchmark_is_valid_for b (kl_endpoint_id K) observed_at (observed_at + minutes 2)"
proof -
  have z: "0 < max (x :: u64) 1" for x by (simp add: max_def word_le_nat_alt word_less_nat_alt)
  have "\<exists>samples. rtt_samples (map (lk_health env) ns) = Inr samples" for ns
  proof (induction ns)
    case (Cons n ns)
    obtain t body where "lk_health env n = (t, Inr (200, body))" using assms(2) by (metis prod.collapse)
    then show ?case using Cons by auto
  qed simp
  then obtain samples where samples: "rtt_samples (map (lk_health env) [0, 1, 2]) = Inr samples" by metis
  let ?probe = "replicate (unat LINK_BENCHMARK_TRANSFER_BYTES) (CHR 0x3C)"
  have lib: "gl_base64_decode G (gt_base64_encode L ?probe) = Some ?probe" "gl_base64_decode G [] = Some []"
    using assms(1) by (simp_all add: probe_libs_def)
  obtain up where up: "probe_reply K G k (probe_body L node_id (lk_upload_nonce env) (gt_base64_encode L ?probe) 0) = Inr (200, up)"
    "validate_probe_response L (200, up) node_id (lk_upload_nonce env) (word_of_nat (length ?probe)) (hex_sha256 L ?probe) 0 = Inr ()"
    by (rule probe_reply_valid [OF assms(1) lib(1) _ word_zero_le]) simp_all
  obtain down where down: "probe_reply K G k' (probe_body L node_id (lk_download_nonce env) [] LINK_BENCHMARK_TRANSFER_BYTES) = Inr (200, down)"
    "validate_probe_response L (200, down) node_id (lk_download_nonce env) (word_of_nat (length [])) (hex_sha256 L []) LINK_BENCHMARK_TRANSFER_BYTES = Inr ()"
    by (rule probe_reply_valid [OF assms(1) lib(2) _ order_refl]) simp_all
  obtain a b where ab: "lk_upload env (probe_body L node_id (lk_upload_nonce env) (gt_base64_encode L ?probe) 0) = (a, Inr (200, up))"
    "lk_download env (probe_body L node_id (lk_download_nonce env) [] LINK_BENCHMARK_TRANSFER_BYTES) = (b, Inr (200, down))"
    using assms(3,4) up(1) down(1) by (metis prod.collapse)
  show ?thesis unfolding measure_link_def samples sum.case Let_def ab prod.case
    using up(2) down(2) by (simp add: link_benchmark_is_valid_for_def effective_bps_pos z)
qed

definition demo_probe_codec :: "link_probe_request value_codec" where
  "demo_probe_codec = \<lparr>vc_to = (\<lambda>_. JNull),
     vc_from = (\<lambda>v. case (json_str ''node_id'' v, json_str ''nonce'' v, json_str ''upload_base64'' v, json_get ''download_bytes'' v) of
       (Some n, Some m, Some u, Some (JPosInt d)) \<Rightarrow>
         Some \<lparr>lq_node_id = of_nat (length n), lq_nonce = of_nat (length m), lq_upload_base64 = u, lq_download_bytes = d\<rparr>
     | _ \<Rightarrow> None)\<rparr>"

definition demo_probe_gateway :: gateway_lib where
  "demo_probe_gateway = \<lparr>gl_request = (\<lambda>_. None), gl_enrollment = blank_codec, gl_probe = demo_probe_codec, gl_base64_decode = Some,
     gl_base64_encode = id, gl_local_api_token = ''token'', gl_version = ''1'', gl_mesh_mode = ''direct'', gl_mesh_sockets = [],
     gl_body_rejection = (422, [])\<rparr>"

definition demo_link :: link_env where
  "demo_link = \<lparr>lk_health = (\<lambda>_. (5, Inr (200, JNull))), lk_upload_nonce = 1,
     lk_upload = (\<lambda>body. (9, probe_reply demo_control demo_probe_gateway (demo_member open_ledger) body)), lk_download_nonce = 2,
     lk_download = (\<lambda>body. (9, probe_reply demo_control demo_probe_gateway (demo_member open_ledger) body)), lk_path = None\<rparr>"

theorem link_measurement_succeeds_witness:
  "\<exists>b. measure_link demo_agent_lib demo_link ''controller'' 7 0 = Inr b \<and> link_benchmark_is_valid_for b ''controller'' 0 (minutes 2)"
proof -
  have "probe_libs demo_agent_lib demo_control demo_probe_gateway"
    by (simp add: probe_libs_def demo_agent_lib_def demo_control_def demo_worker_lib_def demo_probe_gateway_def demo_probe_codec_def
      probe_body_def json_str_def)
  from link_measurement_succeeds [OF this, of demo_link "demo_member open_ledger" "demo_member open_ledger" 7 0] show ?thesis
    by (simp add: demo_link_def demo_control_def)
qed

text \<open>
  C22. A worker reaches its controller and no other. The link it sets up, from a fresh invitation or a stored pin,
  goes to the endpoint named by a record that the Governor's key of the same invitation or pin has signed; its mesh
  admits that endpoint alone; every address it uses comes from the record; and choosing the address on the local
  network keeps every relay of the owner.
\<close>

theorem worker_link_is_pinned:
  assumes "controller_link_of L T nets remote = Inr k"
    and "controller_record L T remote = Inr (r, key, aggregate, candidates)"
  shows "(case remote of Pinned pin \<Rightarrow> r = pc_endpoint pin \<and> key = pc_governor_public_key pin
           | Invitation invite \<Rightarrow> ei_controller_mesh invite = Some r \<and> ei_governor_public_key invite = Some key)
     \<and> verify_pinned_mesh_endpoint_with_key (gt_crypto L) key r = Inr ()
     \<and> ck_governor_key k = key \<and> ck_endpoint_id k = me_endpoint_id r
     \<and> (\<forall>peer. authorize_peer (ck_config k) peer = Inr () \<longleftrightarrow> peer = me_endpoint_id r)
     \<and> el_parse_id (gt_endpoint L) (me_endpoint_id r) = Some (ea_id (ck_destination k))
     \<and> set (ea_addrs (ck_destination k)) \<subseteq> set (ea_addrs aggregate)
     \<and> (\<forall>a \<in> set (ea_addrs aggregate). is_relay a \<longrightarrow> a \<in> set (ea_addrs (ck_destination k)))"
proof -
  obtain config where config: "mesh_config_for_controller L r = Inr config"
    and k: "k = \<lparr>ck_endpoint_id = me_endpoint_id r, ck_governor_key = key,
        ck_destination = select_controller_destination_for aggregate candidates nets, ck_config = config\<rparr>"
    using assms by (auto simp: controller_link_of_def split: sum.splits)
  have c: "mc_allowed_peer_keys config = {|me_endpoint_id r|}"
    using config by (auto simp: mesh_config_for_controller_def Let_def split: sum.splits)
  note r = controller_record_Inr [OF assms(2)]
  have "el_parse_id (gt_endpoint L) (me_endpoint_id r) = Some (ea_id (ck_destination k))
     \<and> set (ea_addrs (ck_destination k)) \<subseteq> set (ea_addrs aggregate)
     \<and> (\<forall>a \<in> set (ea_addrs aggregate). is_relay a \<longrightarrow> a \<in> set (ea_addrs (ck_destination k)))"
    unfolding k using destination_of_record [OF r(3,4)] by simp
  then show ?thesis using r(1,2) by (simp add: k authorize_peer_def c)
qed

definition demo_route :: mesh_endpoint where
  "demo_route = sign_mesh_endpoint demo_crypto () \<lparr>me_schema = mesh_endpoint_SCHEMA, me_endpoint_id = public_hex demo_crypto (),
     me_direct_addresses = [], me_relay_urls = [''https://relay''], me_issued_at = 0, me_expires_at = 1, me_signature = []\<rparr>"

definition demo_pin :: pinned_controller where
  "demo_pin = \<lparr>pc_schema = ''rampage.pinned-controller.v1'', pc_endpoint = demo_route,
     pc_governor_public_key = public_hex demo_crypto (), pc_enrolled_at = 0\<rparr>"

theorem worker_link_is_pinned_witness:
  "\<exists>k. controller_link_of demo_agent_lib (\<lambda>_. 0) [] (Pinned demo_pin) = Inr k \<and> ea_id (ck_destination k) = public_hex demo_crypto ()"
proof -
  have key: "length (public_hex demo_crypto ()) = 64" "list_all is_ascii_hexdigit (public_hex demo_crypto ())"
    using crypto_okD(2,3,5) [OF demo_crypto_ok]
    by (auto simp: public_hex_def is_ascii_hexdigit_def is_lower_hex_digit_def is_ascii_digit_def list_all_iff)
  have f: "me_schema demo_route = mesh_endpoint_SCHEMA" "me_endpoint_id demo_route = public_hex demo_crypto ()"
    "me_direct_addresses demo_route = []" "me_relay_urls demo_route = [''https://relay'']"
    by (simp_all add: demo_route_def sign_mesh_endpoint_def)
  have sig: "verify_pinned_mesh_endpoint_with_key demo_crypto (public_hex demo_crypto ()) demo_route = Inr ()"
    using sign_hex_verifies [OF demo_crypto_ok] by (simp add: verify_pinned_mesh_endpoint_with_key_def demo_route_def sign_mesh_endpoint_def)
  have L: "gt_crypto demo_agent_lib = demo_crypto" "gt_endpoint demo_agent_lib = \<lparr>el_parse_id = Some, el_parse_relay = Some\<rparr>"
    by (simp_all add: demo_agent_lib_def demo_worker_lib_def)
  have a: "endpoint_addr_from_pinned_record (gt_endpoint demo_agent_lib) demo_route
      = Inr \<lparr>ea_id = public_hex demo_crypto (), ea_addrs = [Relay ''https://relay'']\<rparr>"
    "endpoint_addr_candidates_from_pinned_record (gt_endpoint demo_agent_lib) demo_route
      = Inr [\<lparr>ea_id = public_hex demo_crypto (), ea_addrs = [Relay ''https://relay'']\<rparr>]"
    by (simp_all add: L f endpoint_addr_from_pinned_record_def endpoint_addr_candidates_from_pinned_record_def
      endpoint_addr_from_record_inner_def endpoint_addr_candidates_inner_def endpoint_record_shape_is_valid_def direct_routes_def)
  have pin: "validate_controller_pin demo_agent_lib demo_pin = Inr ()"
    by (simp add: validate_controller_pin_def demo_pin_def f key L(1) sig a)
  have rec: "controller_record demo_agent_lib (\<lambda>_. 0) (Pinned demo_pin)
      = Inr (demo_route, public_hex demo_crypto (), \<lparr>ea_id = public_hex demo_crypto (), ea_addrs = [Relay ''https://relay'']\<rparr>,
          [\<lparr>ea_id = public_hex demo_crypto (), ea_addrs = [Relay ''https://relay'']\<rparr>])"
    using pin by (simp add: controller_record_def) (simp add: demo_pin_def a)
  have "\<exists>k. controller_link_of demo_agent_lib (\<lambda>_. 0) [] (Pinned demo_pin) = Inr k"
    by (simp add: controller_link_of_def rec mesh_config_for_controller_def mesh_config_validate_def f L Let_def starts_with_def)
  then obtain k where k: "controller_link_of demo_agent_lib (\<lambda>_. 0) [] (Pinned demo_pin) = Inr k" by blast
  from worker_link_is_pinned [OF k rec] k show ?thesis by (auto simp: L f)
qed

end
