(* ===== verification/Rampage_Artifact_Server.thy ===== *)
theory Rampage_Artifact_Server
  imports Rampage_Worker Rampage_Mesh Rampage_Control
begin

text \<open>
  The worker's side of an artifact transfer (\<open>serve_worker_gateway\<close> and its helpers in
  \<open>crates/rampage-agent/src/main.rs\<close>): who may connect, the check of the storage lease, and the six actions on
  the worker's content store, with the signed replica receipt of a commit and of a head request.
\<close>

record 'sk gateway_config =
  gw_controller_endpoint_id :: string
  gw_node_id :: uuid
  gw_governor_public_key :: string
  gw_signing_key :: 'sk

text \<open>The readings of the clock, the random bytes and the identifier of one request.\<close>

record server_env =
  sv_now :: datetime
  sv_begin_now :: datetime
  sv_chunk_now :: datetime
  sv_random :: "string option"
  sv_commit_now :: datetime
  sv_accept_now :: datetime
  sv_verified_at :: datetime
  sv_receipt_id :: uuid

record artifact_operation_result =
  op_artifact :: "artifact_ref option"
  op_progress :: "artifact_transfer_progress option"
  op_chunk_index :: "u32 option"
  op_chunk_digest :: "string option"
  op_replica_receipt :: "artifact_replica_receipt option"
  op_payload :: string

text \<open>\<open>Uuid::simple\<close>: the sixteen bytes in hexadecimal.\<close>

definition uuid_simple :: "'sk crypto \<Rightarrow> uuid \<Rightarrow> string" where
  "uuid_simple C u = cr_hex_encode C (uuid_bytes u)"

definition resumable_spec :: "'sk crypto \<Rightarrow> artifact_transfer_request \<Rightarrow> resumable_put_spec" where
  "resumable_spec C request =
     \<lparr>rs_session_id = uuid_simple C (at_session_id request), rs_lease_id = uuid_simple C (sl_lease_id (at_lease request)),
      rs_authority_scope = ''governor'', rs_fencing_epoch = sl_fencing_epoch (at_lease request),
      rs_authority_nonce = sl_nonce (at_lease request), rs_expires_at = sl_expires_at (at_lease request),
      rs_digest = sl_digest (at_lease request), rs_size_bytes = sl_size_bytes (at_lease request),
      rs_media_type = at_media_type request, rs_storage_class = sl_storage_class (at_lease request),
      rs_required_replicas = (if sl_storage_class (at_lease request) = Protected then 2 else 1),
      rs_chunk_size = at_chunk_size request\<rparr>"

definition transfer_progress :: "uuid \<Rightarrow> resumable_put_status \<Rightarrow> artifact_transfer_progress" where
  "transfer_progress session_id status =
     \<lparr>ap_schema = artifact_transfer_progress_SCHEMA, ap_session_id = session_id, ap_digest = st_digest status,
      ap_size_bytes = st_size_bytes status, ap_chunk_size = st_chunk_size status, ap_chunk_count = st_chunk_count status,
      ap_received_chunks = st_received_chunks status, ap_missing_chunks = st_missing_chunks status,
      ap_complete = st_complete status\<rparr>"

definition signed_replica_receipt ::
  "'sk crypto \<Rightarrow> server_env \<Rightarrow> artifact_transfer_request \<Rightarrow> uuid \<Rightarrow> 'sk \<Rightarrow> artifact_replica_receipt" where
  "signed_replica_receipt C env request node_id signing_key =
     sign_artifact_replica_receipt C signing_key
       \<lparr>rc_schema = artifact_replica_receipt_SCHEMA, rc_receipt_id = sv_receipt_id env,
        rc_session_id = at_session_id request, rc_lease_id = sl_lease_id (at_lease request), rc_node_id = node_id,
        rc_digest = sl_digest (at_lease request), rc_size_bytes = sl_size_bytes (at_lease request),
        rc_storage_class = sl_storage_class (at_lease request), rc_challenge_nonce = at_challenge_nonce request,
        rc_verified_at = sv_verified_at env, rc_expires_at = sv_verified_at env + minutes 10,
        rc_fencing_epoch = sl_fencing_epoch (at_lease request), rc_signature = []\<rparr>"

definition progress_result :: "uuid \<Rightarrow> resumable_put_status \<Rightarrow> artifact_operation_result" where
  "progress_result session_id status =
     \<lparr>op_artifact = None, op_progress = Some (transfer_progress session_id status), op_chunk_index = None,
      op_chunk_digest = None, op_replica_receipt = None, op_payload = []\<rparr>"

section \<open>The six actions\<close>

type_synonym served = "(string + artifact_operation_result) \<times> cas_store"

definition serve_begin :: "'sk worker_lib \<Rightarrow> server_env \<Rightarrow> artifact_transfer_request \<Rightarrow> cas_store \<Rightarrow> served" where
  "serve_begin W env request store =
     (case begin_resumable_put (resumable_spec (wl_crypto W) request) (sv_begin_now env) store of
        (Inl e, store) \<Rightarrow> (Inl (wl_error_text W e), store)
      | (Inr status, store) \<Rightarrow> (Inr (progress_result (at_session_id request) status), store))"

text \<open>The two \<open>expect\<close>s on the index and the digest hold for a validated request.\<close>

definition serve_put_chunk ::
  "'sk worker_lib \<Rightarrow> server_env \<Rightarrow> artifact_transfer_request \<Rightarrow> string \<Rightarrow> cas_store \<Rightarrow> served" where
  "serve_put_chunk W env request payload store =
     (case begin_resumable_put (resumable_spec (wl_crypto W) request) (sv_begin_now env) store of
        (Inl e, store) \<Rightarrow> (Inl (wl_error_text W e), store)
      | (Inr _, store) \<Rightarrow>
     case put_resumable_chunk (wl_cas W) (uuid_simple (wl_crypto W) (at_session_id request)) (the (at_chunk_index request))
            (the (at_chunk_digest request)) payload (sv_chunk_now env) (sv_random env) store of
        (Inl e, store) \<Rightarrow> (Inl (wl_error_text W e), store)
      | (Inr status, store) \<Rightarrow>
          (Inr ((progress_result (at_session_id request) status)\<lparr>op_chunk_index := at_chunk_index request,
             op_chunk_digest := at_chunk_digest request\<rparr>), store))"

definition serve_commit ::
  "'sk worker_lib \<Rightarrow> server_env \<Rightarrow> 'sk gateway_config \<Rightarrow> artifact_transfer_request \<Rightarrow> cas_store \<Rightarrow> served" where
  "serve_commit W env g request store =
     (let session = uuid_simple (wl_crypto W) (at_session_id request)
      in case begin_resumable_put (resumable_spec (wl_crypto W) request) (sv_begin_now env) store of
        (Inl e, store) \<Rightarrow> (Inl (wl_error_text W e), store)
      | (Inr _, store) \<Rightarrow>
     case commit_resumable_put (wl_cas W) session (sv_commit_now env) store of
        (Inl e, store) \<Rightarrow> (Inl (wl_error_text W e), store)
      | (Inr artifact, store) \<Rightarrow>
          if \<not> (ar_digest artifact = sl_digest (at_lease request) \<and> ar_size_bytes artifact = sl_size_bytes (at_lease request))
          then (Inl ''stored artifact did not match its lease'', store)
          else case resumable_put_status_of session store of
            Inl e \<Rightarrow> (Inl (wl_error_text W e), store)
          | Inr status \<Rightarrow>
              (Inr ((progress_result (at_session_id request) status)\<lparr>op_artifact := Some artifact,
                 op_replica_receipt :=
                   Some (signed_replica_receipt (wl_crypto W) env request (gw_node_id g) (gw_signing_key g))\<rparr>), store))"

definition metadata_matches :: "artifact_ref \<Rightarrow> storage_lease \<Rightarrow> bool" where
  "metadata_matches stored lease =
     (ar_storage_class stored = sl_storage_class lease \<and> ar_size_bytes stored = sl_size_bytes lease)"

definition accept_lease :: "server_env \<Rightarrow> storage_lease \<Rightarrow> cas_store \<Rightarrow> (storage_error + unit) \<times> cas_store" where
  "accept_lease env lease store =
     accept_authority ''governor'' (sl_fencing_epoch lease) (sl_nonce lease) (sl_expires_at lease) (sv_accept_now env) store"

definition serve_get_chunk ::
  "'sk worker_lib \<Rightarrow> server_env \<Rightarrow> artifact_transfer_request \<Rightarrow> cas_store \<Rightarrow> served" where
  "serve_get_chunk W env request store =
     (case accept_lease env (at_lease request) store of
        (Inl e, store) \<Rightarrow> (Inl (wl_error_text W e), store)
      | (Inr _, store) \<Rightarrow>
     case head (wl_cas W) (sl_digest (at_lease request)) store of
        Inl e \<Rightarrow> (Inl (wl_error_text W e), store)
      | Inr stored \<Rightarrow>
          if \<not> metadata_matches stored (at_lease request)
          then (Inl ''stored artifact metadata did not match its lease'', store)
          else case get_chunk (wl_cas W) (sl_digest (at_lease request)) (the (at_chunk_index request)) store of
            Inl e \<Rightarrow> (Inl (wl_error_text W e), store)
          | Inr chunk \<Rightarrow>
              (Inr \<lparr>op_artifact = Some stored, op_progress = None, op_chunk_index = at_chunk_index request,
                 op_chunk_digest = Some (''sha256:'' @ cr_hex_encode (wl_crypto W) (cr_sha256 (wl_crypto W) chunk)),
                 op_replica_receipt = None, op_payload = chunk\<rparr>, store))"

definition serve_head ::
  "'sk worker_lib \<Rightarrow> server_env \<Rightarrow> 'sk gateway_config \<Rightarrow> artifact_transfer_request \<Rightarrow> cas_store \<Rightarrow> served" where
  "serve_head W env g request store =
     (case accept_lease env (at_lease request) store of
        (Inl e, store) \<Rightarrow> (Inl (wl_error_text W e), store)
      | (Inr _, store) \<Rightarrow>
     case verify (wl_cas W) (sl_digest (at_lease request)) store of
        Inl e \<Rightarrow> (Inl (wl_error_text W e), store)
      | Inr stored \<Rightarrow>
          if \<not> metadata_matches stored (at_lease request)
          then (Inl ''stored artifact metadata did not match its lease'', store)
          else (Inr \<lparr>op_artifact = Some stored, op_progress = None, op_chunk_index = None, op_chunk_digest = None,
                  op_replica_receipt =
                    Some (signed_replica_receipt (wl_crypto W) env request (gw_node_id g) (gw_signing_key g)),
                  op_payload = []\<rparr>, store))"

section \<open>A request\<close>

definition lease_admitted :: "'sk worker_lib \<Rightarrow> server_env \<Rightarrow> 'sk gateway_config \<Rightarrow> storage_lease \<Rightarrow> string + unit" where
  "lease_admitted W env g lease =
     (case verify_storage_lease_with_key (wl_crypto W) (gw_governor_public_key g) lease of
        Inl e \<Rightarrow> Inl (denial_to_string e)
      | Inr _ \<Rightarrow>
          if sl_node_id lease = gw_node_id g \<and> storage_lease_is_active_at lease (sv_now env) (sl_fencing_epoch lease)
          then Inr () else Inl ''storage lease is not active for this node'')"

definition artifact_operation ::
  "'sk worker_lib \<Rightarrow> server_env \<Rightarrow> 'sk gateway_config \<Rightarrow> artifact_transfer_request \<Rightarrow> string \<Rightarrow> cas_store \<Rightarrow> served" where
  "artifact_operation W env g request payload store =
     (case lease_admitted W env g (at_lease request) of
        Inl e \<Rightarrow> (Inl e, store)
      | Inr _ \<Rightarrow>
     case at_action request of
        Begin \<Rightarrow> serve_begin W env request store
      | Status \<Rightarrow> serve_begin W env request store
      | PutChunk \<Rightarrow> serve_put_chunk W env request payload store
      | Commit \<Rightarrow> serve_commit W env g request store
      | GetChunk \<Rightarrow> serve_get_chunk W env request store
      | Head \<Rightarrow> serve_head W env g request store)"

definition artifact_response :: "uuid \<Rightarrow> string + artifact_operation_result \<Rightarrow> artifact_transfer_response \<times> string" where
  "artifact_response request_id result =
     (case result of
        Inr r \<Rightarrow>
          (\<lparr>as_schema = artifact_transfer_response_SCHEMA, as_request_id = request_id, as_status = 200,
            as_artifact = op_artifact r, as_progress = op_progress r, as_chunk_index = op_chunk_index r,
            as_chunk_digest = op_chunk_digest r, as_payload_size = of_nat (length (op_payload r)),
            as_replica_receipt = op_replica_receipt r, as_error = None\<rparr>, op_payload r)
      | Inl e \<Rightarrow>
          (\<lparr>as_schema = artifact_transfer_response_SCHEMA, as_request_id = request_id, as_status = 400,
            as_artifact = None, as_progress = None, as_chunk_index = None, as_chunk_digest = None, as_payload_size = 0,
            as_replica_receipt = None, as_error = Some e\<rparr>, []))"

text \<open>One stream of a connection: the request as it was read, or the error of reading it, under the nil identifier.\<close>

definition serve_artifact_stream ::
  "'sk worker_lib \<Rightarrow> (mesh_error \<Rightarrow> string) \<Rightarrow> server_env \<Rightarrow> 'sk gateway_config
     \<Rightarrow> mesh_error + artifact_transfer_request \<times> string \<Rightarrow> cas_store
     \<Rightarrow> (artifact_transfer_response \<times> string) \<times> cas_store" where
  "serve_artifact_stream W mesh_text env g parsed store =
     (case parsed of
        Inl e \<Rightarrow> (artifact_response 0 (Inl (mesh_text e)), store)
      | Inr (request, payload) \<Rightarrow>
          (case artifact_operation W env g request payload store of
             (result, store) \<Rightarrow> (artifact_response (at_request_id request) result, store)))"

datatype worker_protocol = ModelProtocol | RemoteDesktopProtocol | ArtifactProtocol | OtherProtocol

text \<open>A connection: a peer other than the pinned controller is closed before any of its streams is read.\<close>

definition admit_connection :: "'sk gateway_config \<Rightarrow> string \<Rightarrow> worker_protocol \<Rightarrow> string + worker_protocol" where
  "admit_connection g peer alpn =
     (if peer \<noteq> gw_controller_endpoint_id g then Inl ''worker peer denied''
      else if alpn = OtherProtocol then Inl ''worker protocol denied'' else Inr alpn)"

end
