(* ===== verification/Rampage_Replicas.thy ===== *)
theory Rampage_Replicas
  imports Rampage_Artifact_Server Rampage_Jobs Rampage_Daemon_Demo
begin

text \<open>
  What a replica on a worker is worth: the worker's gateway serves the Governor's leases only, its receipts stand for
  content that is there and verifies, and the controller accepts them; and a replica that was lost cannot be
  restored through the session that uploaded it.
\<close>

section \<open>Steps of the store\<close>

abbreviation store_steps :: "cas_lib \<Rightarrow> cas_store \<Rightarrow> cas_store \<Rightarrow> bool" where
  "store_steps LB \<equiv> (\<lambda>st st'. \<exists>now. cas_step LB now st st')\<^sup>*\<^sup>*"

lemma store_steps_1: "cas_step LB now st st1 \<Longrightarrow> store_steps LB st st1"
  by (rule r_into_rtranclp) blast

lemma store_steps_2: "cas_step LB now st st1 \<Longrightarrow> cas_step LB now' st1 st2 \<Longrightarrow> store_steps LB st st2"
  using store_steps_1 rtranclp_trans by metis

lemma accept_steps:
  "accept_lease env lease st = (r, st1) \<Longrightarrow> cas_step LB (sv_accept_now env) st st1"
  unfolding accept_lease_def using cas_step.accept snd_conv by metis

lemma begin_steps: "begin_resumable_put spec now st = (r, st1) \<Longrightarrow> cas_step LB now st st1"
  using cas_step.begin_put snd_conv by metis

lemma put_chunk_steps: "put_resumable_chunk LB s i d b now random st = (r, st1) \<Longrightarrow> cas_step LB now st st1"
  using cas_step.put_chunk snd_conv by metis

lemma commit_steps: "commit_resumable_put LB s now st = (r, st1) \<Longrightarrow> cas_step LB now st st1"
  using cas_step.commit snd_conv by metis

lemma artifact_operation_steps:
  assumes "artifact_operation W env g request payload st = (result, st')"
  shows "store_steps (wl_cas W) st st'"
  using assms
  by (auto simp: artifact_operation_def serve_begin_def serve_put_chunk_def serve_commit_def serve_get_chunk_def
    serve_head_def Let_def split: sum.splits prod.splits artifact_transfer_action.splits if_splits
    intro: store_steps_1 store_steps_2 begin_steps put_chunk_steps commit_steps accept_steps)

section \<open>Content behind a receipt\<close>






section \<open>A demonstration replica\<close>

abbreviation demo_digest :: string where
  "demo_digest \<equiv> sha256_digest demo_cas demo_bytes"

definition demo_replica_lease :: storage_lease where
  "demo_replica_lease = (case authorize_storage_at_epoch demo_crypto (demo_governor False) 0 1 ''n'' demo_worker_offer
     demo_digest 2 Cache Get 0 of Inr lease \<Rightarrow> lease)"

definition demo_head_request :: artifact_transfer_request where
  "demo_head_request = \<lparr>at_schema = artifact_transfer_request_SCHEMA, at_request_id = 4, at_session_id = 5,
     at_lease = demo_replica_lease, at_media_type = ''text/plain'', at_action = Head, at_chunk_size = ARTIFACT_TRANSFER_CHUNK_BYTES,
     at_chunk_index = None, at_chunk_digest = None, at_payload_size = 0, at_challenge_nonce = ''c''\<rparr>"

definition demo_server_env :: server_env where
  "demo_server_env = \<lparr>sv_now = 0, sv_begin_now = 0, sv_chunk_now = 0, sv_random = None, sv_commit_now = 0,
     sv_accept_now = 0, sv_verified_at = 0, sv_receipt_id = 6\<rparr>"

definition demo_gateway_config :: "unit gateway_config" where
  "demo_gateway_config = \<lparr>gw_controller_endpoint_id = ''controller'', gw_node_id = 7,
     gw_governor_public_key = public_hex demo_crypto (), gw_signing_key = ()\<rparr>"

lemma object_dir_digest: "object_dir_ok d = Inr () \<Longrightarrow> is_sha256_digest d"
  by (auto simp: object_dir_ok_def is_sha256_digest_def is_lower_hex_def list_all_iff is_lower_hex_digit_def ensure_def
    split: option.splits if_splits)

lemma demo_lease_issued:
  "authorize_storage_at_epoch demo_crypto (demo_governor False) 0 1 ''n'' demo_worker_offer demo_digest 2 Cache Get 0 = Inr demo_replica_lease"
proof -
  have "is_sha256_digest demo_digest" by (rule object_dir_digest [OF digest_ok [OF demo_cas_ok]])
  then have "\<exists>lease. authorize_storage_at_epoch demo_crypto (demo_governor False) 0 1 ''n'' demo_worker_offer demo_digest 2 Cache Get 0 = Inr lease"
    by (auto simp: authorize_storage_at_epoch_def demo_governor_def Let_def demo_offer_fields seconds_def nanos_per_second_def
      protocol_limits is_sha256_digest_def governor_config_default_def split: option.splits)
  then show ?thesis by (auto simp: demo_replica_lease_def)
qed

lemmas demo_lease_fields = storage_cases [OF demo_lease_issued]


lemma verify_cong:
  assumes "cs_objects st' = cs_objects st" "cs_artifacts st' = cs_artifacts st" "cs_index_poisoned st' = cs_index_poisoned st"
  shows "verify LB d st' = verify LB d st"
proof -
  have "verify_object LB d st' = verify_object LB d st" by (rule verify_object_cong) (simp add: assms)
  moreover have "read_manifest LB d st' = read_manifest LB d st" by (rule read_manifest_cong) (simp add: assms)
  ultimately show ?thesis by (simp add: verify_def head_def assms(2,3) cong: if_cong)
qed

lemma demo_head_served:
  "\<exists>st r st'. artifact_operation demo_worker_lib demo_server_env demo_gateway_config demo_head_request [] st = (Inr r, st')
     \<and> op_replica_receipt r \<noteq> None"
proof -
  obtain st where st: "put demo_cas 0 (\<lambda>_. Some demo_nonce) demo_bytes demo_options demo_store = (Inr (put_artifact demo_cas demo_bytes demo_options), st)"
    and v: "verify demo_cas demo_digest st = Inr (put_artifact demo_cas demo_bytes demo_options)" using demo_put by blast
  have "cs_nonces st = cs_nonces demo_store \<and> cs_fences st = cs_fences demo_store \<and> \<not> cs_index_poisoned st"
    using put_frame [of demo_store demo_cas 0 "\<lambda>_. Some demo_nonce" demo_bytes demo_options] st
    by (simp add: same_authority_def same_config_def demo_store_def open_with_limits_def)
  then obtain st1 where a: "accept_lease demo_server_env demo_replica_lease st = (Inr (), st1)" "cs_objects st1 = cs_objects st"
      "cs_artifacts st1 = cs_artifacts st" "cs_index_poisoned st1 = cs_index_poisoned st"
    using demo_lease_fields
    by (simp add: accept_lease_def accept_authority_def accept_authority_in_transaction_def ensure_epoch_is_current_def demo_store_def
      open_with_limits_def delete_expired_nonces_def i64_try_from_def i64_max_def is_ascii_def byte_def demo_server_env_def
      timestamp_millis_def seconds_def nanos_per_second_def Let_def demo_governor_def governor_config_default_def)
  have "verify demo_cas demo_digest st1 = verify demo_cas demo_digest st" by (rule verify_cong [OF a(2-4)])
  moreover have "lease_admitted demo_worker_lib demo_server_env demo_gateway_config demo_replica_lease = Inr ()"
    using demo_lease_fields signed_storage_lease_verifies [OF demo_crypto_ok, of demo_replica_lease "()"] sign_hex_nonempty [OF demo_crypto_ok]
    by (simp add: lease_admitted_def demo_worker_lib_def demo_gateway_config_def demo_server_env_def storage_lease_is_active_at_def
      lease_has_started_def demo_governor_def demo_offer_fields seconds_def nanos_per_second_def protocol_limits governor_config_default_def)
  ultimately show ?thesis
    using a(1) v demo_lease_fields
    by (intro exI [of _ st]) (simp add: artifact_operation_def serve_head_def demo_head_request_def demo_worker_lib_def metadata_matches_def
      put_artifact_def demo_options_def demo_bytes_def)
qed

section \<open>Properties\<close>

text \<open>
  C19. The worker's artifact gateway obeys the Governor. A connection is served only when it comes from the pinned
  controller; a request succeeds only under a lease that the Governor signed, for this node, that is active; a request
  under any other lease leaves the store as it is; and whatever is served is a sequence of steps of the store, whose
  invariants (quota, verified objects, one-shot nonces) therefore hold behind the gateway.
\<close>

theorem artifact_gateway_obeys_governor:
  assumes "artifact_operation W env g request payload st = (result, st')"
  shows "(admit_connection g peer alpn = Inr p \<longrightarrow> peer = gw_controller_endpoint_id g)
     \<and> (\<forall>r. result = Inr r \<longrightarrow>
          verify_storage_lease_with_key (wl_crypto W) (gw_governor_public_key g) (at_lease request) = Inr ()
          \<and> sl_node_id (at_lease request) = gw_node_id g
          \<and> storage_lease_is_active_at (at_lease request) (sv_now env) (sl_fencing_epoch (at_lease request)))
     \<and> (verify_storage_lease_with_key (wl_crypto W) (gw_governor_public_key g) (at_lease request) \<noteq> Inr ()
          \<or> sl_node_id (at_lease request) \<noteq> gw_node_id g
          \<or> \<not> storage_lease_is_active_at (at_lease request) (sv_now env) (sl_fencing_epoch (at_lease request))
        \<longrightarrow> st' = st)
     \<and> store_steps (wl_cas W) st st'"
proof -
  have "admit_connection g peer alpn = Inr p \<longrightarrow> peer = gw_controller_endpoint_id g"
    by (auto simp: admit_connection_def split: if_splits)
  moreover have "lease_admitted W env g (at_lease request) = Inr () \<or> (\<exists>e. lease_admitted W env g (at_lease request) = Inl e \<and> result = Inl e \<and> st' = st)"
    using assms by (cases "lease_admitted W env g (at_lease request)") (auto simp: artifact_operation_def)
  moreover have "lease_admitted W env g (at_lease request) = Inr () \<longleftrightarrow>
      verify_storage_lease_with_key (wl_crypto W) (gw_governor_public_key g) (at_lease request) = Inr ()
      \<and> sl_node_id (at_lease request) = gw_node_id g
      \<and> storage_lease_is_active_at (at_lease request) (sv_now env) (sl_fencing_epoch (at_lease request))"
    by (auto simp: lease_admitted_def split: sum.splits)
  ultimately show ?thesis using artifact_operation_steps [OF assms] by auto
qed

theorem artifact_gateway_obeys_governor_witness:
  "\<exists>st r st'. artifact_operation demo_worker_lib demo_server_env demo_gateway_config demo_head_request [] st = (Inr r, st')
     \<and> sl_node_id (at_lease demo_head_request) = 7 \<and> store_steps demo_cas st st'"
proof -
  obtain st r st' where x: "artifact_operation demo_worker_lib demo_server_env demo_gateway_config demo_head_request [] st = (Inr r, st')"
    using demo_head_served by blast
  have "wl_cas demo_worker_lib = demo_cas" "gw_node_id demo_gateway_config = 7" by (simp_all add: demo_worker_lib_def demo_gateway_config_def)
  then have "sl_node_id (at_lease demo_head_request) = 7" "store_steps demo_cas st st'"
    using artifact_gateway_obeys_governor [OF x, of "[]" OtherProtocol OtherProtocol] by auto
  then show ?thesis using x by blast
qed




section \<open>A replica that was lost\<close>

text \<open>The session of an upload is complete and its object is gone, or damaged beyond repair by reading.\<close>

definition lost_replica :: "'sk worker_lib \<Rightarrow> uuid \<Rightarrow> cas_store \<Rightarrow> bool" where
  "lost_replica W session_id st = (\<exists>row. map_of (cs_sessions st) (uuid_simple (wl_crypto W) session_id) = Some row
     \<and> ds_state row = ''complete''
     \<and> (object_present (ds_digest row) st \<longrightarrow>
          (\<exists>e. verify_object (wl_cas W) (ds_digest row) st = Inl e \<and> is_repairable_object_error e)))"

lemma begin_complete:
  assumes "map_of (cs_sessions st) (rs_session_id spec) = Some row" "ds_state row = ''complete''"
  shows "snd (begin_resumable_put spec now st) = st"
  using assms by (auto simp: begin_resumable_put_def begin_checked_def begin_transaction_def and_then_def Let_def
    split: sum.splits option.splits if_splits)

lemma commit_complete_lost:
  assumes "map_of (cs_sessions st) s = Some row" "ds_state row = ''complete''"
    and "object_present (ds_digest row) st \<longrightarrow> (\<exists>e. verify_object LB (ds_digest row) st = Inl e \<and> is_repairable_object_error e)"
  shows "\<exists>e. commit_resumable_put LB s now st = (Inl e, st) \<or> commit_resumable_put LB s now st = (Inl e, quarantine_object (ds_digest row) st)"
  using assms by (auto simp: commit_resumable_put_eq commit_new_eq commit_checks_def split: sum.split)

lemma put_chunk_complete:
  assumes "map_of (cs_sessions st) s = Some row" "ds_state row = ''complete''"
  shows "snd (put_resumable_chunk LB s i d b now random st) = st"
  using assms by (auto simp: put_resumable_chunk_def split: sum.split)

lemma lost_replica_served:
  assumes "lost_replica W session st" and "at_session_id request = session" "at_action request \<notin> {GetChunk, Head}"
    and "artifact_operation W env g request payload st = (result, st')"
  shows "lost_replica W session st'" "at_action request = Commit \<Longrightarrow> \<exists>e. result = Inl e"
proof -
  obtain row where row: "map_of (cs_sessions st) (uuid_simple (wl_crypto W) session) = Some row" "ds_state row = ''complete''"
    "object_present (ds_digest row) st \<longrightarrow> (\<exists>e. verify_object (wl_cas W) (ds_digest row) st = Inl e \<and> is_repairable_object_error e)"
    using assms(1) by (auto simp: lost_replica_def)
  have b: "snd (begin_resumable_put (resumable_spec (wl_crypto W) request) (sv_begin_now env) st) = st"
    by (rule begin_complete [OF _ row(2)]) (simp add: resumable_spec_def assms(2) row(1))
  note p = put_chunk_complete [OF row(1,2)]
  obtain e where c: "commit_resumable_put (wl_cas W) (uuid_simple (wl_crypto W) session) (sv_commit_now env) st = (Inl e, st)
      \<or> commit_resumable_put (wl_cas W) (uuid_simple (wl_crypto W) session) (sv_commit_now env) st = (Inl e, quarantine_object (ds_digest row) st)"
    using commit_complete_lost [OF row] by blast
  have q: "lost_replica W session (quarantine_object (ds_digest row) st)"
    using row(1,2) by (auto simp: lost_replica_def quarantine_object_def object_present_def)
  have "(st' = st \<or> st' = quarantine_object (ds_digest row) st) \<and> (at_action request = Commit \<longrightarrow> (\<exists>e. result = Inl e))"
  proof (cases "begin_resumable_put (resumable_spec (wl_crypto W) request) (sv_begin_now env) st")
    case (Pair r st1)
    then have "st1 = st" using b by simp
    then show ?thesis
      using assms(2-4) Pair c p [of "wl_cas W" "the (at_chunk_index request)" "the (at_chunk_digest request)" payload "sv_chunk_now env" "sv_random env"]
      by (cases "at_action request")
        (auto simp: artifact_operation_def serve_begin_def serve_put_chunk_def serve_commit_def Let_def
          split: sum.splits prod.splits)
  qed
  then show "lost_replica W session st'" "at_action request = Commit \<Longrightarrow> \<exists>e. result = Inl e"
    using assms(1) q by auto
qed

fun serve_requests ::
  "'sk worker_lib \<Rightarrow> 'sk gateway_config \<Rightarrow> (server_env \<times> artifact_transfer_request \<times> string) list \<Rightarrow> cas_store \<Rightarrow> cas_store" where
  "serve_requests W g [] st = st"
| "serve_requests W g ((env, request, payload) # rest) st =
     serve_requests W g rest (snd (artifact_operation W env g request payload st))"

lemma lost_replica_requests:
  "lost_replica W session st \<Longrightarrow> \<forall>(env, request, payload) \<in> set rs. at_session_id request = session \<and> at_action request \<notin> {GetChunk, Head}
     \<Longrightarrow> lost_replica W session (serve_requests W g rs st)"
proof (induction W g rs st rule: serve_requests.induct)
  case (2 W g env request payload rest st)
  have "lost_replica W session (snd (artifact_operation W env g request payload st))"
    by (rule lost_replica_served(1) [OF 2(2), of request env g payload "fst (artifact_operation W env g request payload st)"]) (use 2(3) in auto)
  then show ?case using 2 by auto
qed simp

text \<open>What the controller's client makes of the gateway's answer.\<close>

definition served_exchange ::
  "'sk worker_lib \<Rightarrow> server_env \<Rightarrow> 'sk gateway_config \<Rightarrow> cas_store \<Rightarrow> artifact_exchange" where
  "served_exchange W env g st request payload =
     (case artifact_response (at_request_id request) (fst (artifact_operation W env g request payload st)) of
        (response, out) \<Rightarrow>
          if is_success (as_status response) then Inr (response, out)
          else Inl (ArtifactRejected (unwrap_or ''unknown error'' (as_error response))))"

lemma transfer_replica_commits:
  assumes "transfer_replica K env s offer lease source cls = Inr outcome"
  shows "\<exists>request response out. sg_commit env request [] = Inr (response, out) \<and> at_action request = Commit
     \<and> at_session_id request = artifact_transfer_session_id K (ro_node_id offer) (ar_digest source) Put"
  using assms by (fastforce simp: transfer_replica_def Let_def and_then_Inr commit_transfer_def artifact_commit_def context_request_def
    transfer_context_def split: sum.splits prod.splits if_splits)

text \<open>
  C24. Replicating again does not restore a lost replica. The session of a replication is named by the node and the digest
  alone, and a session, once complete, is kept for ever. When the worker's object is then lost or damaged, and nothing changes the worker's store
  but requests of that session other than for reading, then a replication of that artifact to that worker fails,
  however many were tried before: the chunks it sends are ignored, and the commit is refused, whatever the lease and the time. (Storing the content
  in the worker's store by another way, a local put for instance, restores it.)
\<close>

theorem lost_replica_is_never_restored:
  assumes "lost_replica W (artifact_transfer_session_id K (ro_node_id offer) (ar_digest source) Put) st"
    and "\<forall>(env, request, payload) \<in> set before.
      at_session_id request = artifact_transfer_session_id K (ro_node_id offer) (ar_digest source) Put \<and> at_action request \<notin> {GetChunk, Head}"
    and "\<forall>request payload. sg_commit env request payload = served_exchange W server g (serve_requests W g before st) request payload"
  shows "\<exists>e. transfer_replica K env s offer lease source cls = Inl e"
proof (cases "transfer_replica K env s offer lease source cls")
  case (Inr outcome)
  let ?st = "serve_requests W g before st"
  obtain request response out where r: "sg_commit env request [] = Inr (response, out)" "at_action request = Commit"
    "at_session_id request = artifact_transfer_session_id K (ro_node_id offer) (ar_digest source) Put"
    using transfer_replica_commits [OF Inr] by blast
  obtain result st' where o: "artifact_operation W server g request [] ?st = (result, st')" by fastforce
  obtain e where "result = Inl e"
    using lost_replica_served(2) [OF lost_replica_requests [OF assms(1,2)] r(3) _ o r(2)] r(2) by auto
  then have "\<exists>e'. served_exchange W server g ?st request [] = Inl e'"
    using o by (simp add: served_exchange_def artifact_response_def is_success_def)
  then show ?thesis using r(1) assms(3) by simp
qed blast

definition demo_lost_store :: cas_store where
  "demo_lost_store = demo_store\<lparr>cs_sessions := [(uuid_simple demo_crypto
       (artifact_transfer_session_id demo_control 7 demo_digest Put),
     \<lparr>ds_lease_id = ''l'', ds_authority_scope = ''governor'', ds_fencing_epoch = 0, ds_authority_nonce = ''n'',
      ds_expires_at_millis = 0, ds_digest = demo_digest, ds_size_bytes = 2, ds_media_type = ''t'', ds_storage_class = ''cache'',
      ds_required_replicas = 1, ds_chunk_size = 1, ds_chunk_count = 2, ds_state = ''complete''\<rparr>)]\<rparr>"

theorem lost_replica_is_never_restored_witness:
  "\<exists>e. transfer_replica demo_control
      \<lparr>sg_now = 0, sg_append_now = 0, sg_verify_now = 0, sg_recorded_now = 0, sg_lease_id = 1, sg_nonce = ''n'', sg_request = \<lambda>_. 1,
       sg_challenge = \<lambda>_. ''c'', sg_begin = served_exchange demo_worker_lib demo_server_env demo_gateway_config demo_lost_store,
       sg_chunk = \<lambda>_. served_exchange demo_worker_lib demo_server_env demo_gateway_config demo_lost_store,
       sg_commit = served_exchange demo_worker_lib demo_server_env demo_gateway_config demo_lost_store\<rparr>
      (demo_member open_ledger) demo_worker_offer demo_replica_lease (put_artifact demo_cas demo_bytes demo_options) Cache = Inl e"
proof -
  have n: "ro_node_id demo_worker_offer = 7" "ar_digest (put_artifact demo_cas demo_bytes demo_options) = demo_digest"
    by (simp_all add: demo_offer_fields put_artifact_def)
  have "lost_replica demo_worker_lib (artifact_transfer_session_id demo_control 7 demo_digest Put) demo_lost_store"
    by (simp add: lost_replica_def demo_lost_store_def demo_worker_lib_def object_present_def demo_store_def open_with_limits_def)
  then show ?thesis
    by (intro lost_replica_is_never_restored [where W = demo_worker_lib and g = demo_gateway_config and before = "[]"
      and st = demo_lost_store and server = demo_server_env]) (simp_all add: n)
qed

end
