(* ===== verification/Rampage_Retrieval.thy ===== *)
theory Rampage_Retrieval
  imports Rampage_Artifacts Rampage_Replicas Rampage_Handlers
begin

text \<open>
  What the controller's artifact operations guarantee: a retrieved artifact is the one that was asked for, whatever
  the worker sends; the registries of replicas stay well formed; a reconciliation cycle is bounded and gains no
  authority; its rotation reaches every stale replica that is small, and not every one that is large.
\<close>

section \<open>The rotation of the probes\<close>

lemma select_loop_keeps: "set selected \<subseteq> set (select_loop cs bytes selected)"
proof (induction cs bytes selected rule: select_loop.induct)
  case (2 key artifact rest bytes selected)
  then show ?case by (auto simp: subset_iff split: option.splits)
qed simp

lemma select_loop_from: "set (select_loop cs bytes selected) \<subseteq> set selected \<union> fst ` set cs"
proof (induction cs bytes selected rule: select_loop.induct)
  case (2 key artifact rest bytes selected)
  then show ?case by (fastforce split: option.splits if_splits)
qed simp

lemma select_loop_length:
  "length selected \<le> MAX_REPLICA_PROBES_PER_CYCLE \<Longrightarrow> length (select_loop cs bytes selected) \<le> MAX_REPLICA_PROBES_PER_CYCLE"
proof (induction cs bytes selected rule: select_loop.induct)
  case (2 key artifact rest bytes selected)
  then show ?case by (auto simp: List.insert_def split: option.splits)
qed simp

lemma select_loop_nonempty: "cs \<noteq> [] \<Longrightarrow> select_loop cs 0 [] \<noteq> []"
proof (cases cs)
  case (Cons c rest)
  obtain key artifact where [simp]: "c = (key, artifact)" by (cases c)
  have "checked_add 0 (ar_size_bytes artifact) = Some (ar_size_bytes artifact)" using unsigned_less [of "ar_size_bytes artifact"] by (simp add: checked_add_def)
  then show ?thesis
    using select_loop_keeps [of "[key]" rest "ar_size_bytes artifact"] Cons
    by (auto simp: MAX_REPLICA_PROBES_PER_CYCLE_def)
qed simp

text \<open>Candidates of at most a quarter of the byte budget are selected four in a row.\<close>

abbreviation probe_share :: nat where
  "probe_share \<equiv> 32 * 1024 * 1024"

lemma select_loop_small:
  assumes "\<forall>(_, a) \<in> set cs. unat (ar_size_bytes a) \<le> probe_share" "distinct (map fst cs)" "set selected \<inter> fst ` set cs = {}"
    and "unat bytes \<le> probe_share * length selected" "length selected \<le> 4"
  shows "fst ` set (take (4 - length selected) cs) \<subseteq> set (select_loop cs bytes selected)"
  using assms
proof (induction cs arbitrary: bytes selected)
  case (Cons c rest)
  obtain key a where [simp]: "c = (key, a)" by (cases c)
  show ?case
  proof (cases "length selected = 4")
    case False
    then have l: "length selected \<le> 3" using Cons(6) by simp
    have "unat bytes + unat (ar_size_bytes a) \<le> probe_share * Suc (length selected)" using Cons(2,5) by auto
    moreover have "probe_share * Suc (length selected) \<le> 128 * 1024 * 1024" using l by simp
    ultimately have s: "unat bytes + unat (ar_size_bytes a) \<le> 128 * 1024 * 1024"
      and m: "unat bytes + unat (ar_size_bytes a) \<le> probe_share * Suc (length selected)" by linarith+
    then have a: "checked_add bytes (ar_size_bytes a) = Some (bytes + ar_size_bytes a)"
      and u: "unat (bytes + ar_size_bytes a) = unat bytes + unat (ar_size_bytes a)"
      by (simp_all add: checked_add_def unat_word_ariths(1))
    have "\<not> MAX_REPLICA_VERIFICATION_BYTES_PER_CYCLE < bytes + ar_size_bytes a"
      using s u by (simp add: MAX_REPLICA_VERIFICATION_BYTES_PER_CYCLE_def word_less_nat_alt)
    moreover have "key \<notin> set selected" using Cons(4) by auto
    ultimately have step: "select_loop (c # rest) bytes selected = select_loop rest (bytes + ar_size_bytes a) (key # selected)"
      using l a by (simp add: MAX_REPLICA_PROBES_PER_CYCLE_def List.insert_def)
    have "fst ` set (take (4 - length (key # selected)) rest) \<subseteq> set (select_loop rest (bytes + ar_size_bytes a) (key # selected))"
      by (rule Cons(1)) (use Cons(2-4) u m l in auto)
    moreover have "key \<in> set (select_loop rest (bytes + ar_size_bytes a) (key # selected))"
      using select_loop_keeps [of "key # selected"] by auto
    moreover have "4 - length selected = Suc (4 - length (key # selected))" using l by simp
    ultimately show ?thesis unfolding step by simp
  qed simp
qed simp

lemma rotation_window:
  assumes "i < n" obtains k j where "k < n" "j < (4::nat)" "j < n" "((c + 4 * k) mod n + j) mod n = i"
proof -
  define m where "m = (i + n - c mod n) mod n"
  have n: "0 < n" using assms by simp
  have "(c + m) mod n = (c mod n + (i + n - c mod n)) mod n" unfolding m_def by (simp add: mod_simps)
  also have "\<dots> = (i + n) mod n" using mod_less_divisor [OF n, of c] by simp
  finally have e: "(c + m) mod n = i" using assms by simp
  have "c + 4 * (m div 4) + m mod 4 = c + m" by simp
  then have "((c + 4 * (m div 4)) mod n + m mod 4) mod n = i" using e by (simp add: mod_simps add.commute)
  moreover have "m < n" using n by (simp add: m_def)
  moreover from this have "m div 4 < n" "m mod 4 < n" by (auto intro: le_less_trans [OF div_le_dividend] le_less_trans [OF mod_less_eq_dividend])
  ultimately show thesis using that [of "m div 4" "m mod 4"] by auto
qed

lemma in_take_rotate:
  assumes "j < 4" "j < length xs" "(r + j) mod length xs = i"
  shows "xs ! i \<in> set (take 4 (rotate r xs))"
proof -
  have "rotate r xs ! j = xs ! i" using assms by (simp add: nth_rotate add.commute)
  moreover have "j < length (take 4 (rotate r xs))" using assms by simp
  ultimately show ?thesis by (metis nth_take nth_mem assms(1))
qed

section \<open>Properties of the rotation\<close>

text \<open>
  The rotation of the probes is bounded and fair. A cycle selects at least one stale replica if there is one, and never
  more than four. While the stale replicas stay the same and none is larger than 32 MiB, every one of them is selected
  within as many cycles as there are of them.
\<close>

theorem probe_rotation_is_fair:
  assumes "cs \<noteq> []" "distinct (map fst cs)" "\<forall>(_, a) \<in> set cs. unat (ar_size_bytes a) \<le> probe_share"
    and "unat cursor + 4 * length cs < 2 ^ 64"
  shows "select_replica_probes cs cursor \<noteq> [] \<and> length (select_replica_probes cs cursor) \<le> MAX_REPLICA_PROBES_PER_CYCLE
     \<and> set (select_replica_probes cs cursor) \<subseteq> fst ` set cs
     \<and> (\<forall>key \<in> fst ` set cs. \<exists>k < length cs. key \<in> set (select_replica_probes cs (cursor + 4 * of_nat k)))"
proof (intro conjI ballI)
  have r: "rotate m cs \<noteq> []" for m using assms(1) by simp
  show "select_replica_probes cs cursor \<noteq> []" using assms(1) select_loop_nonempty [OF r] by (simp add: select_replica_probes_def)
  show "length (select_replica_probes cs cursor) \<le> MAX_REPLICA_PROBES_PER_CYCLE"
    using select_loop_length [of "[]"] by (simp add: select_replica_probes_def)
  show "set (select_replica_probes cs cursor) \<subseteq> fst ` set cs"
    using select_loop_from [of "rotate (unat cursor mod length cs) cs" 0 "[]"] by (simp add: select_replica_probes_def)
  fix key
  assume "key \<in> fst ` set cs"
  then obtain i where i: "i < length cs" "key = fst (cs ! i)" by (auto simp: in_set_conv_nth)
  obtain k j where k: "k < length cs" "j < 4" "j < length cs" "((unat cursor + 4 * k) mod length cs + j) mod length cs = i"
    using rotation_window [OF i(1)] .
  have u: "unat (cursor + 4 * of_nat k :: u64) = unat cursor + 4 * k"
    using assms(4) k(1) by (simp add: unat_word_ariths unat_of_nat mod_simps)
  let ?r = "rotate ((unat cursor + 4 * k) mod length cs) cs"
  have "fst ` set (take (4 - length ([] :: (string \<times> uuid) list)) ?r) \<subseteq> set (select_loop ?r 0 [])"
    by (rule select_loop_small) (use assms(2,3) in \<open>simp_all add: rotate_map [symmetric]\<close>)
  moreover have "cs ! i \<in> set (take 4 ?r)" by (rule in_take_rotate [OF k(2-4)])
  ultimately have "key \<in> set (select_replica_probes cs (cursor + 4 * of_nat k))"
    using assms(1) i(2) u by (auto simp: select_replica_probes_def)
  then show "\<exists>k < length cs. key \<in> set (select_replica_probes cs (cursor + 4 * of_nat k))" using k(1) by blast
qed

definition demo_protected :: "u64 \<Rightarrow> artifact_ref" where
  "demo_protected bytes = \<lparr>ar_schema = ''rampage.artifact-ref.v1'', ar_digest = ''d'', ar_size_bytes = bytes, ar_media_type = ''t'',
     ar_storage_class = Protected, ar_encrypted = True\<rparr>"

lemma demo_protected_size [simp]: "ar_size_bytes (demo_protected bytes) = bytes"
  by (simp add: demo_protected_def)

theorem probe_rotation_is_fair_witness:
  "\<exists>k < 5. (''d'', 5 :: uuid) \<in> set (select_replica_probes (map (\<lambda>n. ((''d'', n), demo_protected 9)) [1, 2, 3, 4, 5]) (4 * of_nat k))"
proof -
  define cs where "cs = map (\<lambda>n :: uuid. ((''d'', n), demo_protected 9)) [1, 2, 3, 4, 5]"
  have cs: "cs \<noteq> []" "distinct (map fst cs)" "\<forall>(_, a) \<in> set cs. unat (ar_size_bytes a) \<le> probe_share" "length cs = 5"
    "(''d'', 5) \<in> fst ` set cs" by (auto simp: cs_def)
  have "unat (0 :: u64) + 4 * length cs < 2 ^ 64" using cs(4) by simp
  from probe_rotation_is_fair [OF cs(1-3) this] cs(5)
  have "\<exists>k < length cs. (''d'', 5) \<in> set (select_replica_probes cs (0 + 4 * of_nat k))" by blast
  then show ?thesis unfolding cs(4) unfolding cs_def by simp
qed

section \<open>Large replicas\<close>

lemma select_two_large:
  assumes "distinct [k1, k2, k3, k4]" "\<forall>a \<in> {a1, a2, a3, a4}. ar_size_bytes a = MAX_ARTIFACT_TRANSFER_BYTES"
  shows "select_replica_probes [(k1, a1), (k2, a2), (k3, a3), (k4, a4)] (4 * k) = [k2, k1]"
proof -
  have "unat (4 * k :: u64) mod 4 = 0" by (simp add: unat_word_ariths mod_mod_cancel)
  moreover have "checked_add 0 (0x4000000 :: u64) = Some 0x4000000" "checked_add (0x4000000 :: u64) 0x4000000 = Some 0x8000000"
    "checked_add (0x8000000 :: u64) 0x4000000 = Some 0xC000000" by (simp_all add: checked_add_def)
  moreover have "k2 \<noteq> k1" using assms(1) by auto
  ultimately show ?thesis
    using assms by (simp add: select_replica_probes_def protocol_limits MAX_REPLICA_PROBES_PER_CYCLE_def
      MAX_REPLICA_VERIFICATION_BYTES_PER_CYCLE_def List.insert_def)
qed

lemma bind_answer [simp]: "bind_h (answer x) f = f x"
  by (simp add: bind_h_def answer_def fun_eq_iff)

lemma find_none_iff: "find P xs = None \<longleftrightarrow> (\<forall>x \<in> set xs. \<not> P x)"
  by (auto simp: find_None_iff)

text \<open>
  C25. Large stale replicas can starve. The cursor of the rotation moves by four each cycle, but two replicas of 64 MiB use up the byte
  budget of a cycle. When a protected artifact of that size has four stale replicas and the two nodes that come first are
  away, then every cycle selects those two, probes nothing, and repairs nothing, since the
  verification of the other two is not complete: the state never changes, although their nodes may be present, and so may others.
\<close>

theorem large_stale_replicas_starve:
  assumes "protected_replicas s = [((d, n1), a1), ((d, n2), a2), ((d, n3), a3), ((d, n4), a4)]"
    and "distinct [n1, n2, n3, n4]" "\<forall>a \<in> {a1, a2, a3, a4}. ar_size_bytes a = MAX_ARTIFACT_TRANSFER_BYTES"
    and "\<forall>n \<in> {n1, n2, n3, n4}. fmlookup (kc_replica_evidence s) (d, n) = None"
    and "\<forall>offer \<in> set (current_mesh_offers K (cy_now env) s). ro_node_id offer \<notin> {n1, n2}"
  shows "reconcile_protected_artifacts K E env (4 * k) s = (Inr (), s)"
proof -
  have "stale_replicas (cy_now env) s = protected_replicas s"
    using assms(1,4) by (simp add: stale_replicas_def has_fresh_receipt_def)
  then have sel: "select_replica_probes (stale_replicas (cy_now env) s) (4 * k) = [(d, n2), (d, n1)]"
    using select_two_large [of "(d, n1)" "(d, n2)" "(d, n3)" "(d, n4)" a1 a2 a3 a4 k] assms(1-3) by simp
  have away: "find (\<lambda>offer. ro_node_id offer = n1) (current_mesh_offers K (cy_now env) s) = None"
    "find (\<lambda>offer. ro_node_id offer = n2) (current_mesh_offers K (cy_now env) s) = None"
    using assms(5) by (auto simp: find_none_iff)
  have "n2 \<noteq> n1" "n3 \<notin> {n1, n2}" "n4 \<notin> {n1, n2}" using assms(2) by auto
  then have "reconcile_all K E env (current_mesh_offers K (cy_now env) s) (kc_replica_evidence s) [(d, n2), (d, n1)]
      (by_digest (protected_replicas s)) 0 = answer 0"
    using assms(2,4) unfolding assms(1) by (simp add: by_digest_def reconcile_digest_def has_fresh_receipt_def away Let_def)
  then show ?thesis
    unfolding reconcile_protected_artifacts_def with_state_def sel by (cases "kill_latch_is_file s") (simp_all add: answer_def)
qed

text \<open>Four replicas of one large artifact, of which node 7 is present.\<close>

definition demo_large :: "unit controller" where
  "demo_large = (demo_offering open_ledger)\<lparr>kc_artifact_replicas := fmap_of_list (map (\<lambda>n. ((''d'', n), demo_protected MAX_ARTIFACT_TRANSFER_BYTES))
     [1, 2, 7, 8]),
     kc_offers := fmupd 7 (demo_worker_offer\<lparr>ro_mesh_endpoint := ro_mesh_endpoint (demo_offer [])\<rparr>) fmempty\<rparr>"

lemma demo_large_replicas:
  "protected_replicas demo_large = map (\<lambda>n. ((''d'', n), demo_protected MAX_ARTIFACT_TRANSFER_BYTES)) [1, 2, 7, 8]"
proof -
  let ?m = "fmap_of_list (map (\<lambda>n. ((''d'', n), demo_protected MAX_ARTIFACT_TRANSFER_BYTES)) [1, 2, 7, 8 :: uuid])"
  have "fset (fmdom ?m) = set (map (Pair ''d'') [1, 2, 7, 8 :: uuid])" by auto
  moreover have "sorted (map (Pair ''d'') [1, 2, 7, 8 :: uuid])" "distinct (map (Pair ''d'') [1, 2, 7, 8 :: uuid])" by auto
  ultimately have "sorted_list_of_fset (fmdom ?m) = map (Pair ''d'') [1, 2, 7, 8]"
    unfolding sorted_list_of_fset.rep_eq by (metis sorted_list_of_set.idem_if_sorted_distinct)
  then show ?thesis by (simp add: protected_replicas_def demo_large_def demo_protected_def List.map_filter_def fmlookup_of_list)
qed

definition demo_cycle :: cycle_env where
  "demo_cycle = (let head_now = \<lparr>pb_endpoint_now = 0, pb_now = 0, pb_append_now = 0, pb_verify_now = 0, pb_lease_id = 1, pb_nonce = ''n'',
       pb_request = 1, pb_challenge = ''c'', pb_exchange = sg_begin demo_stage\<rparr>
     in \<lparr>cy_now = 0, cy_probe = (\<lambda>_. head_now), cy_endpoint_now = (\<lambda>_. 0), cy_repair = (\<lambda>_. demo_stage), cy_event_now = (\<lambda>_. 0),
         cy_blocked_now = (\<lambda>_. 0)\<rparr>)"

theorem large_stale_replicas_starve_witness:
  "\<forall>k. reconcile_protected_artifacts demo_control demo_endpoints demo_cycle (4 * k) demo_large = (Inr (), demo_large)
     \<and> map ro_node_id (current_mesh_offers demo_control 0 demo_large) = [7]"
proof -
  have o: "map ro_node_id (current_mesh_offers demo_control 0 demo_large) = [7]"
    by (simp add: current_mesh_offers_def demo_large_def demo_control_def values_in_order_def List.map_filter_def demo_offer_fields
      demo_offer_def seconds_def nanos_per_second_def)
  have "\<forall>offer \<in> set (current_mesh_offers demo_control 0 demo_large). ro_node_id offer \<notin> {1, 2}"
  proof
    fix offer
    assume "offer \<in> set (current_mesh_offers demo_control 0 demo_large)"
    then have "ro_node_id offer \<in> set (map ro_node_id (current_mesh_offers demo_control 0 demo_large))" by simp
    then show "ro_node_id offer \<notin> {1, 2}" unfolding o by simp
  qed
  moreover have "cy_now demo_cycle = 0" by (simp add: demo_cycle_def)
  moreover have "kc_replica_evidence demo_large = fmempty" by (simp add: demo_large_def demo_states)
  ultimately have "reconcile_protected_artifacts demo_control demo_endpoints demo_cycle (4 * k) demo_large = (Inr (), demo_large)" for k
    using demo_large_replicas
    by (intro large_stale_replicas_starve [of demo_large "''d''" 1 "demo_protected MAX_ARTIFACT_TRANSFER_BYTES" 2
      "demo_protected MAX_ARTIFACT_TRANSFER_BYTES" 7 "demo_protected MAX_ARTIFACT_TRANSFER_BYTES" 8
      "demo_protected MAX_ARTIFACT_TRANSFER_BYTES"]) simp_all
  then show ?thesis using o by blast
qed

section \<open>What the artifact operations leave alone\<close>

text \<open>Only the ledger, the evidence and, along its own steps, the store have moved.\<close>

definition moved :: "cas_lib \<Rightarrow> 'sk controller \<Rightarrow> 'sk controller \<Rightarrow> bool" where
  "moved LB s0 s = (s\<lparr>kc_ledger := kc_ledger s0, kc_artifact_store := kc_artifact_store s0, kc_replica_evidence := kc_replica_evidence s0\<rparr> = s0
     \<and> store_steps LB (kc_artifact_store s0) (kc_artifact_store s))"

lemma moved_refl: "moved LB s s"
  by (simp add: moved_def)

lemma moved_updates:
  "moved LB s0 s \<Longrightarrow> moved LB s0 (s\<lparr>kc_ledger := l\<rparr>)"
  "moved LB s0 s \<Longrightarrow> moved LB s0 (s\<lparr>kc_replica_evidence := e\<rparr>)"
  "moved LB s0 s \<Longrightarrow> cas_step LB now (kc_artifact_store s) st \<Longrightarrow> moved LB s0 (s\<lparr>kc_artifact_store := st\<rparr>)"
proof -
  assume m: "moved LB s0 s"
  then show "moved LB s0 (s\<lparr>kc_ledger := l\<rparr>)" "moved LB s0 (s\<lparr>kc_replica_evidence := e\<rparr>)" by (simp_all add: moved_def)
  show "moved LB s0 (s\<lparr>kc_artifact_store := st\<rparr>)" if "cas_step LB now (kc_artifact_store s) st"
  proof -
    have "store_steps LB (kc_artifact_store s0) st"
      by (rule rtranclp_trans [OF _ store_steps_1 [OF that]]) (use m in \<open>simp add: moved_def\<close>)
    then show ?thesis using m by (simp add: moved_def)
  qed
qed

named_theorems moved_keeps "operations that move the store and the evidence only"

lemma moved_record_event [moved_keeps]: "keeps_prop (moved LB s0) (record_event K now t subj v)"
  by (rule keeps_record_event) (rule moved_updates(1))

lemma moved_on_store [moved_keeps]:
  assumes "\<And>st. \<exists>now. cas_step (kl_cas K) now st (snd (f st))"
  shows "keeps_prop (moved (kl_cas K) s0) (on_store K f)"
  unfolding keeps_prop_def
proof (intro allI impI)
  fix s
  assume m: "moved (kl_cas K) s0 s"
  obtain r st where f: "f (kc_artifact_store s) = (r, st)" by fastforce
  obtain now where "cas_step (kl_cas K) now (kc_artifact_store s) st" using assms [of "kc_artifact_store s"] f by auto
  from moved_updates(3) [OF m this] show "moved (kl_cas K) s0 (snd (on_store K f s))"
    using f by (cases r) (simp_all add: on_store_def)
qed

lemma moved_probe [moved_keeps]: "keeps_prop (moved LB s0) (probe_replica K E env offer artifact)"
  unfolding probe_replica_def
  by (intro keeps_with_state_all) (auto simp: Let_def split: option.splits prod.splits intro!: handler_keeps moved_keeps)

lemma moved_lease [moved_keeps]: "keeps_prop (moved LB s0) (issue_retrieval_lease K env n offer artifact)"
  unfolding issue_retrieval_lease_def by (intro keeps_with_state_all) (auto intro!: handler_keeps moved_keeps)

lemma moved_fetch [moved_keeps]:
  "keeps_prop (moved (kl_cas K) s0) (fetch_chunks K env offer artifact sink session_id lease position missing)"
proof (induction missing arbitrary: lease position)
  case (Cons index rest)
  show ?case
    by (auto intro!: handler_keeps moved_keeps Cons exI cas_step.begin_put cas_step.put_chunk split: prod.splits)
qed (auto intro!: handler_keeps)

lemma moved_retrieve: "keeps_prop (moved (kl_cas K) s0) (retrieve_artifact K E env digest node_id)"
  unfolding retrieve_artifact_def remote_offer_def retrieve_from_def Let_def
  by (auto intro!: handler_keeps moved_keeps keeps_with_state_all exI cas_step.begin_put cas_step.commit moved_updates split: prod.splits)

section \<open>What a retrieval brings\<close>

lemma wp_any: "(\<And>x s'. Q x s') \<Longrightarrow> (\<And>e s'. E e s') \<Longrightarrow> wp m Q E s"
  by (auto simp: wp_def split: prod.splits sum.splits)

lemma map_sum_Inr_iff: "map_sum f id r = Inr x \<longleftrightarrow> r = Inr x"
  by (cases r) auto

lemma wp_on_store [wp_simps]:
  "wp (on_store K f) Q E s = (case f (kc_artifact_store s) of
     (Inl e, st) \<Rightarrow> E (Reject 500 (kl_store_text K e) []) (s\<lparr>kc_artifact_store := st\<rparr>)
   | (Inr v, st) \<Rightarrow> Q v (s\<lparr>kc_artifact_store := st\<rparr>))"
  by (auto simp: wp_def on_store_def split: prod.splits sum.splits)

text \<open>The evidence a probe yields is signed by the offer's node and bound to the artifact.\<close>

definition vouches :: "'sk control_lib \<Rightarrow> datetime \<Rightarrow> 'sk controller \<Rightarrow> resource_offer \<Rightarrow> artifact_ref \<Rightarrow> artifact_replica_receipt \<Rightarrow> bool" where
  "vouches K now s offer artifact receipt =
     (\<exists>i. fmlookup (kc_nodes s) (ro_node_id offer) = Some i \<and> verify_artifact_replica_receipt (kl_crypto K) now i receipt = Inr ()
      \<and> rc_node_id receipt = ro_node_id offer \<and> rc_digest receipt = ar_digest artifact
      \<and> rc_size_bytes receipt = ar_size_bytes artifact \<and> rc_storage_class receipt = ar_storage_class artifact)"

lemma verified_vouches:
  assumes "verify_replica_evidence K now s offer lease session_id challenge receipt = Inr ()"
    and "storage_lease_for K t i n offer artifact s = Inr lease"
  shows "vouches K now s offer artifact receipt"
  using assms storage_cases [OF assms(2) [unfolded storage_lease_for_def]]
  by (auto simp: verify_replica_evidence_def vouches_def split: option.splits sum.splits if_splits)

lemma wp_probe_replica:
  assumes "\<And>receipt st. vouches K (pb_verify_now env) s offer artifact receipt \<Longrightarrow> Q receipt (s\<lparr>kc_ledger := st\<rparr>)"
    and "\<And>e st. E' e (s\<lparr>kc_ledger := st\<rparr>)"
  shows "wp (probe_replica K E env offer artifact) Q E' s"
proof -
  have e: "E' e s" for e using assms(2) [of e "kc_ledger s"] by simp
  show ?thesis
    unfolding probe_replica_def
    by (auto simp: wp_simps Let_def e map_sum_Inr_iff intro!: assms verified_vouches split: option.splits sum.splits prod.splits if_splits)
qed

lemma wp_retrieve_from:
  "wp (retrieve_from K E env node_id offer artifact sink)
     (\<lambda>(local_ref, payload) s'. ar_digest local_ref = ar_digest artifact \<and> sha256_digest (kl_cas K) payload = ar_digest artifact
        \<and> (\<exists>receipt. fmlookup (kc_replica_evidence s') (ar_digest artifact, node_id) = Some receipt
             \<and> vouches K (pb_verify_now (rt_probe env)) s' offer artifact receipt))
     (\<lambda>_ _. True) s"
  unfolding retrieve_from_def Let_def
  by (auto simp: wp_simps get_exact vouches_def intro!: wp_any [where m = "fetch_chunks _ _ _ _ _ _ _ _ _"]
    wp_any [where m = "issue_retrieval_lease _ _ _ _ _"] wp_probe_replica split: sum.splits prod.splits)

section \<open>The registries of replicas\<close>

text \<open>Every entry stands under the digest of its artifact, and every receipt under its own digest and node.\<close>

definition registries_ok :: "'sk controller \<Rightarrow> bool" where
  "registries_ok s = ((\<forall>d n a. fmlookup (kc_artifact_replicas s) (d, n) = Some a \<longrightarrow> ar_digest a = d)
     \<and> (\<forall>d n r. fmlookup (kc_replica_evidence s) (d, n) = Some r \<longrightarrow> rc_digest r = d \<and> rc_node_id r = n)
     \<and> (\<forall>n offer. fmlookup (kc_offers s) n = Some offer \<longrightarrow> ro_node_id offer = n))"

lemma registries_note:
  assumes "registries_ok s" "ar_digest artifact = d" "rc_digest receipt = d" "rc_node_id receipt = n"
  shows "registries_ok (note_replica (d, n) artifact receipt s)"
    and "registries_ok (s\<lparr>kc_replica_evidence := fmupd (d, n) receipt (kc_replica_evidence s)\<rparr>)"
  using assms by (auto simp: registries_ok_def note_replica_def)

lemma registries_updates [simp]:
  "registries_ok (s\<lparr>kc_ledger := l\<rparr>) = registries_ok s" "registries_ok (s\<lparr>kc_artifact_store := st\<rparr>) = registries_ok s"
  by (simp_all add: registries_ok_def)

lemma head_digest: "head LB d st = Inr a \<Longrightarrow> ar_digest a = d"
  by (auto simp: head_def and_then_Inr Let_def artifact_contract_from_manifest_def split: if_splits option.splits)

text \<open>What a replication yields: an artifact and a receipt of the source's digest, from the offer's node.\<close>

definition faithful :: "artifact_ref \<Rightarrow> resource_offer \<Rightarrow> replication_outcome \<Rightarrow> bool" where
  "faithful source offer outcome = (ar_digest (rp_artifact outcome) = ar_digest source
     \<and> rc_digest (rp_receipt outcome) = ar_digest source \<and> rc_node_id (rp_receipt outcome) = ro_node_id offer)"

lemma transfer_faithful:
  assumes "transfer_replica K env s offer lease source cls = Inr outcome" "sl_digest lease = ar_digest source"
  shows "faithful source offer outcome"
proof -
  obtain progress artifact receipt session challenge n where
    c: "commit_transfer K env lease source cls session n = Inr (artifact, receipt)"
    and v: "verify_replica_evidence K (sg_verify_now env) s offer lease session challenge receipt = Inr ()"
    and o: "rp_artifact outcome = artifact" "rp_receipt outcome = receipt"
    using assms(1) by (auto simp: transfer_replica_def Let_def and_then_Inr)
  have "ar_digest artifact = ar_digest source" using c by (auto simp: commit_transfer_def split: sum.splits if_splits)
  moreover have "rc_digest receipt = sl_digest lease \<and> rc_node_id receipt = ro_node_id offer"
    using v by (auto simp: verify_replica_evidence_def split: sum.splits option.splits if_splits)
  ultimately show ?thesis using o assms(2) by (simp add: faithful_def)
qed

lemma wp_replicate_faithful:
  assumes "\<And>outcome st. faithful source offer outcome \<Longrightarrow> Q outcome (s\<lparr>kc_ledger := st\<rparr>)" and "\<And>e st. E e (s\<lparr>kc_ledger := st\<rparr>)"
  shows "wp (replicate_to_offer K env offer source cls) Q E s"
proof (rule wp_replicate_to_offer)
  show "E e s" for e using assms(2) [of e "kc_ledger s"] by simp
qed (auto split: sum.splits intro!: assms dest!: storage_cases transfer_faithful)

lemma keeps_from_wp: "(\<And>s. I s \<Longrightarrow> wp m (\<lambda>_. I) (\<lambda>_. I) s) \<Longrightarrow> keeps_prop I m"
  by (simp add: wp_keeps)

lemma registries_replicate: "keeps_prop registries_ok (replicate_artifact K E now endpoint_now env request)"
proof (rule keeps_from_wp)
  fix s :: "'a controller"
  assume ok: "registries_ok s"
  then have "fmlookup (kc_offers s) n = Some offer \<Longrightarrow> ro_node_id offer = n" for n offer by (simp add: registries_ok_def)
  then show "wp (replicate_artifact K E now endpoint_now env request) (\<lambda>_. registries_ok) (\<lambda>_. registries_ok) s"
    unfolding replicate_artifact_def remote_offer_def using ok
    by (auto simp: wp_simps faithful_def intro!: wp_replicate_faithful registries_note split: sum.splits option.splits prod.splits)
qed

lemma registries_stage: "keeps_prop registries_ok (stage_input K E env offer job input)"
proof (rule keeps_from_wp)
  fix s :: "'a controller"
  assume ok: "registries_ok s"
  then show "wp (stage_input K E env offer job input) (\<lambda>_. registries_ok) (\<lambda>_. registries_ok) s"
    unfolding stage_input_def
    by (auto simp: wp_simps faithful_def Let_def registries_ok_def intro!: wp_replicate_faithful split: sum.splits option.splits prod.splits)
qed

lemma registries_record_event: "keeps_prop registries_ok (record_event K now t subj v)"
  by (rule keeps_record_event) simp

lemma registries_outputs: "keeps_prop registries_ok (record_outputs K T n r outputs)"
  by (induction outputs arbitrary: n) (auto intro!: handler_keeps registries_record_event simp: registries_ok_def)

lemma registries_on_store: "keeps_prop registries_ok (on_store K f)"
  by (rule keeps_from_wp) (auto simp: wp_simps split: prod.splits sum.splits)

lemma registries_lease: "keeps_prop registries_ok (issue_retrieval_lease K env n offer artifact)"
  unfolding issue_retrieval_lease_def by (intro keeps_with_state_all) (auto intro!: handler_keeps registries_record_event)

lemma registries_fetch: "keeps_prop registries_ok (fetch_chunks K env offer artifact sink session_id lease position missing)"
proof (induction missing arbitrary: lease position)
  case (Cons index rest)
  show ?case by (auto intro!: handler_keeps registries_on_store registries_lease Cons split: prod.splits)
qed (auto intro!: handler_keeps)

text \<open>The possession proof and the note of its receipt.\<close>

lemma registries_prove:
  assumes "ro_node_id offer = node_id" "\<And>receipt. keeps_prop registries_ok (g receipt)"
  shows "keeps_prop registries_ok (bind_h (map_error f (probe_replica K E env offer artifact)) (\<lambda>receipt.
     bind_h (modify (\<lambda>s. s\<lparr>kc_replica_evidence := fmupd (ar_digest artifact, node_id) receipt (kc_replica_evidence s)\<rparr>)) (\<lambda>_. g receipt)))"
proof (rule keeps_from_wp)
  fix s :: "'a controller"
  assume "registries_ok s"
  then have "registries_ok (s\<lparr>kc_ledger := st, kc_replica_evidence := fmupd (ar_digest artifact, node_id) receipt (kc_replica_evidence s)\<rparr>)"
    if "vouches K (pb_verify_now env) s offer artifact receipt" for receipt st
    using that assms(1) by (auto simp: vouches_def registries_ok_def)
  then show "wp (bind_h (map_error f (probe_replica K E env offer artifact)) (\<lambda>receipt.
     bind_h (modify (\<lambda>s. s\<lparr>kc_replica_evidence := fmupd (ar_digest artifact, node_id) receipt (kc_replica_evidence s)\<rparr>)) (\<lambda>_. g receipt)))
     (\<lambda>_. registries_ok) (\<lambda>_. registries_ok) s"
    using assms(2) \<open>registries_ok s\<close> unfolding wp_keeps by (auto simp: wp_simps intro!: wp_probe_replica)
qed

lemma registries_retrieve_from:
  assumes "ro_node_id offer = node_id"
  shows "keeps_prop registries_ok (retrieve_from K E env node_id offer artifact sink)"
  unfolding retrieve_from_def Let_def
  by (rule registries_prove [OF assms] registries_on_store registries_lease registries_fetch registries_record_event
    keeps_with_state_all keeps_atoms keeps_bind)+

lemma registries_retrieve: "keeps_prop registries_ok (retrieve_artifact K E env digest node_id)"
proof (rule keeps_from_wp)
  fix s :: "'a controller"
  assume ok: "registries_ok s"
  then have n: "fmlookup (kc_offers s) node_id = Some offer \<Longrightarrow> ro_node_id offer = node_id" for offer by (simp add: registries_ok_def)
  have r: "wp (retrieve_from K E env node_id offer artifact sink) (\<lambda>_. registries_ok) (\<lambda>_. registries_ok) s"
    if "fmlookup (kc_offers s) node_id = Some offer" for offer artifact sink
    using registries_retrieve_from [OF n [OF that], unfolded wp_keeps] ok by blast
  show "wp (retrieve_artifact K E env digest node_id) (\<lambda>_. registries_ok) (\<lambda>_. registries_ok) s"
    unfolding retrieve_artifact_def remote_offer_def using ok
    by (auto simp: wp_simps intro!: r split: sum.splits option.splits prod.splits if_splits)
qed

lemma registries_put: "keeps_prop registries_ok (put_artifact_handler K G env request)"
  unfolding put_artifact_handler_def
  by (intro keeps_with_state_all) (auto intro!: handler_keeps registries_on_store registries_record_event)

section \<open>The reconciliation cycle\<close>

text \<open>Well formed, with the authority of the start, and with at most \<open>r\<close> replicas more than at the start.\<close>

definition cycle_ok :: "'sk controller \<Rightarrow> nat \<Rightarrow> 'sk controller \<Rightarrow> bool" where
  "cycle_ok s0 r s = (registries_ok s \<and> authority_state s = authority_state s0
     \<and> fmdom (kc_artifact_replicas s0) |\<subseteq>| fmdom (kc_artifact_replicas s)
     \<and> fcard (fmdom (kc_artifact_replicas s)) \<le> fcard (fmdom (kc_artifact_replicas s0)) + r \<and> r \<le> MAX_AUTONOMOUS_REPAIRS_PER_CYCLE)"

lemma cycle_weaken: "cycle_ok s0 r s \<Longrightarrow> cycle_ok s0 MAX_AUTONOMOUS_REPAIRS_PER_CYCLE s"
  by (simp add: cycle_ok_def)

lemma authority_evidence [simp]: "authority_state (s\<lparr>kc_replica_evidence := e\<rparr>) = authority_state s"
  by (simp add: authority_state_def)

lemma cycle_ledger [simp]:
  "cycle_ok s0 r (s\<lparr>kc_ledger := l\<rparr>) = cycle_ok s0 r s"
  "cycle_ok s0 r (s\<lparr>kc_ledger := l, kc_replica_evidence := e\<rparr>) = cycle_ok s0 r (s\<lparr>kc_replica_evidence := e\<rparr>)"
  by (simp_all add: cycle_ok_def registries_ok_def)

lemma wp_attempt [wp_simps]: "wp (attempt m) Q E s = wp m (\<lambda>x. Q (Inr x)) (\<lambda>e. Q (Inl e)) s"
  by (auto simp: wp_def attempt_def split: prod.splits sum.splits)

lemma wp_cycle_event:
  assumes "\<And>st. Q () (s\<lparr>kc_ledger := st\<rparr>)" "\<And>e. E e s" shows "wp (cycle_event K now t d entries) Q E s"
  using assms by (simp add: cycle_event_def wp_simps)

lemma cycle_evidence:
  assumes "cycle_ok s0 r s"
  shows "rc_digest receipt = d \<Longrightarrow> rc_node_id receipt = n
      \<Longrightarrow> cycle_ok s0 r (s\<lparr>kc_replica_evidence := fmupd (d, n) receipt (kc_replica_evidence s)\<rparr>)"
    and "cycle_ok s0 r (s\<lparr>kc_replica_evidence := fmdrop k (kc_replica_evidence s)\<rparr>)"
  using assms registries_note(2) [of s _ d receipt n] by (auto simp: cycle_ok_def registries_ok_def)

lemma cycle_note:
  assumes "cycle_ok s0 r s" "r < MAX_AUTONOMOUS_REPAIRS_PER_CYCLE" "ar_digest artifact = d" "rc_digest receipt = d" "rc_node_id receipt = n"
  shows "cycle_ok s0 (Suc r) (note_replica (d, n) artifact receipt s)"
proof -
  have "fcard (finsert (d, n) (fmdom (kc_artifact_replicas s))) \<le> Suc (fcard (fmdom (kc_artifact_replicas s)))"
    by (simp add: fcard_finsert_if)
  then show ?thesis
    using assms registries_note(1) [of s artifact d receipt n] by (auto simp: cycle_ok_def note_replica_def)
qed

lemma wp_probe_and_note:
  assumes "cycle_ok s0 r s" "ar_digest artifact = digest" "ro_node_id offer = node_id"
  shows "wp (probe_and_note K E env digest artifact node_id offer verified) (\<lambda>_. cycle_ok s0 r) (\<lambda>_. cycle_ok s0 r) s"
  unfolding probe_and_note_def wp_simps
  using assms by (intro wp_probe_replica)
    (auto simp: wp_simps invalidate_replica_def vouches_def intro!: wp_cycle_event cycle_evidence)

lemma keeps_probe_nodes:
  assumes "ar_digest artifact = digest"
  shows "keeps_prop (cycle_ok s0 r) (probe_nodes K E env offers selected digest artifact nodes verified)"
proof (induction nodes arbitrary: verified)
  case (Cons node_id rest)
  have "keeps_prop (cycle_ok s0 r) (probe_and_note K E env digest artifact node_id offer verified)"
    if "find (\<lambda>offer. ro_node_id offer = node_id) offers = Some offer" for offer
    using that by (intro keeps_from_wp wp_probe_and_note assms) (auto simp: find_Some_iff)
  then show ?case by (auto intro!: handler_keeps Cons split: option.splits)
qed (auto intro!: handler_keeps)

lemma wp_repair_on:
  assumes "cycle_ok s0 r s" "r < MAX_AUTONOMOUS_REPAIRS_PER_CYCLE" "ar_digest source = digest"
  shows "wp (repair_on K E env digest source offer) (\<lambda>placed. cycle_ok s0 (case placed of None \<Rightarrow> r | Some _ \<Rightarrow> Suc r))
     (\<lambda>_. cycle_ok s0 MAX_AUTONOMOUS_REPAIRS_PER_CYCLE) s"
proof -
  have note_ok: "cycle_ok s0 (Suc r) (note_replica (digest, ro_node_id offer) (rp_artifact outcome) (rp_receipt outcome) (s\<lparr>kc_ledger := st\<rparr>))"
    if "faithful source offer outcome" for outcome st
    using that assms by (intro cycle_note) (auto simp: faithful_def)
  show ?thesis
    using assms(1) cycle_weaken [OF assms(1)] note_ok cycle_weaken [OF note_ok]
    by (auto simp: repair_on_def wp_simps Let_def intro!: wp_replicate_faithful wp_cycle_event split: option.splits sum.splits)
qed

lemma wp_repair_nodes:
  assumes "ar_digest source = digest"
  shows "cycle_ok s0 r s \<Longrightarrow> wp (repair_nodes K E env digest source offers verified r) (cycle_ok s0)
     (\<lambda>_. cycle_ok s0 MAX_AUTONOMOUS_REPAIRS_PER_CYCLE) s"
proof (induction offers arbitrary: verified r s)
  case (Cons offer rest)
  show ?case
  proof (cases "2 \<le> length verified \<or> MAX_AUTONOMOUS_REPAIRS_PER_CYCLE \<le> r")
    case False
    then have "r < MAX_AUTONOMOUS_REPAIRS_PER_CYCLE" by simp
    from wp_repair_on [OF Cons(2) this assms, of K E env offer] show ?thesis
      using False by (auto simp: wp_simps elim!: wp_mono intro!: Cons(1) split: option.splits)
  qed (use Cons(2) in \<open>simp add: wp_simps\<close>)
qed (simp add: wp_simps)

lemma wp_reconcile_digest:
  assumes "cycle_ok s0 r s" "ar_digest (fst (snd entry)) = fst entry"
  shows "wp (reconcile_digest K E env offers evidence selected entry r) (cycle_ok s0) (\<lambda>_. cycle_ok s0 MAX_AUTONOMOUS_REPAIRS_PER_CYCLE) s"
proof -
  obtain digest artifact nodes where [simp]: "entry = (digest, artifact, nodes)" by (cases entry)
  let ?v = "filter (\<lambda>node_id. has_fresh_receipt (cy_now env) evidence (digest, node_id)) nodes"
  have "wp (probe_nodes K E env offers selected digest artifact nodes ?v) (\<lambda>_. cycle_ok s0 r) (\<lambda>_. cycle_ok s0 r) s"
    using keeps_probe_nodes [of artifact digest s0 r K E env offers selected nodes ?v] assms unfolding wp_keeps by simp
  then show ?thesis
    by (auto simp: reconcile_digest_def Let_def wp_simps elim!: wp_mono intro!: wp_cycle_event wp_repair_nodes head_digest
      intro: cycle_weaken split: sum.splits)
qed

lemma wp_reconcile_all:
  "cycle_ok s0 r s \<Longrightarrow> \<forall>entry \<in> set entries. ar_digest (fst (snd entry)) = fst entry
     \<Longrightarrow> wp (reconcile_all K E env offers evidence selected entries r) (cycle_ok s0) (\<lambda>_. cycle_ok s0 MAX_AUTONOMOUS_REPAIRS_PER_CYCLE) s"
proof (induction entries arbitrary: r s)
  case (Cons entry rest)
  then show ?case
    using wp_reconcile_digest [OF Cons(2), of entry K E env offers evidence selected] by (auto simp: wp_simps elim!: wp_mono)
qed (simp add: wp_simps)

lemma by_digest_keyed:
  assumes "registries_ok s" "entry \<in> set (by_digest (protected_replicas s))"
  shows "ar_digest (fst (snd entry)) = fst entry"
proof -
  have k: "\<forall>((d, n), a) \<in> set (protected_replicas s). ar_digest a = d"
    using assms(1) by (auto simp: protected_replicas_def registries_ok_def List.map_filter_def split: option.splits)
  obtain d n a where e: "((d, n), a) \<in> set (protected_replicas s)" "fst entry = d"
      "fst (snd entry) = snd (hd (filter (\<lambda>((d', _), _). d' = d) (protected_replicas s)))"
    using assms(2) by (auto simp: by_digest_def Let_def)
  then have "filter (\<lambda>((d', _), _). d' = d) (protected_replicas s) \<noteq> []" by (auto simp: filter_empty_conv)
  from hd_in_set [OF this] show ?thesis using k e(2,3) by (auto simp: case_prod_beta)
qed

lemma reconcile_cycle:
  assumes "registries_ok s"
  shows "wp (reconcile_protected_artifacts K E env cursor) (\<lambda>_. cycle_ok s MAX_AUTONOMOUS_REPAIRS_PER_CYCLE)
     (\<lambda>_. cycle_ok s MAX_AUTONOMOUS_REPAIRS_PER_CYCLE) s"
proof -
  have "cycle_ok s 0 s" using assms by (simp add: cycle_ok_def)
  from wp_reconcile_all [OF this, of "by_digest (protected_replicas s)"] by_digest_keyed [OF assms]
  have "wp (reconcile_all K E env (current_mesh_offers K (cy_now env) s) (kc_replica_evidence s)
      (select_replica_probes (stale_replicas (cy_now env) s) cursor) (by_digest (protected_replicas s)) 0)
      (cycle_ok s) (\<lambda>_. cycle_ok s MAX_AUTONOMOUS_REPAIRS_PER_CYCLE) s" by blast
  then show ?thesis
    using \<open>cycle_ok s 0 s\<close> by (auto simp: reconcile_protected_artifacts_def wp_simps elim!: wp_mono intro: cycle_weaken)
qed

text \<open>Of the answers to probes, a cycle depends only on those of the selected replicas.\<close>

lemma probe_unselected:
  assumes "\<forall>key \<in> set selected. probe key = cy_probe env key"
  shows "probe_nodes K E (env\<lparr>cy_probe := probe\<rparr>) offers selected digest artifact nodes verified
     = probe_nodes K E env offers selected digest artifact nodes verified"
proof (induction nodes arbitrary: verified)
  case (Cons node_id rest)
  have "probe_and_note K E (env\<lparr>cy_probe := probe\<rparr>) digest artifact node_id offer v
      = probe_and_note K E env digest artifact node_id offer v" if "(digest, node_id) \<in> set selected" for offer v
    using that assms by (simp add: probe_and_note_def cong: sum.case_cong)
  moreover have "probe_nodes K E (env\<lparr>cy_probe := probe\<rparr>) offers selected digest artifact rest
      = probe_nodes K E env offers selected digest artifact rest" by (rule ext) (rule Cons)
  ultimately show ?case by (simp cong: option.case_cong)
qed simp

lemma repair_any_probe:
  "repair_nodes K E (env\<lparr>cy_probe := probe\<rparr>) digest source offers verified repairs
     = repair_nodes K E env digest source offers verified repairs"
proof (induction offers arbitrary: verified repairs)
  case (Cons offer rest)
  have "repair_on K E (env\<lparr>cy_probe := probe\<rparr>) digest source offer = repair_on K E env digest source offer"
    by (simp add: repair_on_def Let_def cong: sum.case_cong option.case_cong)
  then show ?case by (simp add: Cons)
qed simp

lemma reconcile_unselected:
  assumes "\<forall>key \<in> set selected. probe key = cy_probe env key"
  shows "reconcile_all K E (env\<lparr>cy_probe := probe\<rparr>) offers evidence selected entries repairs
     = reconcile_all K E env offers evidence selected entries repairs"
proof (induction entries arbitrary: repairs)
  case (Cons entry rest)
  have "reconcile_digest K E (env\<lparr>cy_probe := probe\<rparr>) offers evidence selected entry repairs
      = reconcile_digest K E env offers evidence selected entry repairs"
    by (cases entry) (simp add: reconcile_digest_def probe_unselected [OF assms] repair_any_probe Let_def cong: if_cong sum.case_cong)
  moreover have "reconcile_all K E (env\<lparr>cy_probe := probe\<rparr>) offers evidence selected rest
      = reconcile_all K E env offers evidence selected rest" by (rule ext) (rule Cons)
  ultimately show ?case by simp
qed simp

section \<open>Steps of the artifact operations\<close>

lemma registries_offer: "keeps_prop registries_ok (register_offer K T offer)"
  unfolding register_offer_def store_offer_def check_offer_def check_offer_endpoint_def record_offer_evidence_def
  by (auto intro!: handler_keeps keeps_with_state_all registries_record_event simp: registries_ok_def split: option.splits)

text \<open>The operations that write a registry, and the owner's removal of a node.\<close>

inductive artifact_step :: "'sk control_lib \<Rightarrow> ('i, 'r) endpoint_lib \<Rightarrow> 'sk controller \<Rightarrow> 'sk controller \<Rightarrow> bool" for K E where
  local_put: "artifact_step K E s (snd (put_artifact_handler K G put_env put_request s))"
| offered: "artifact_step K E s (snd (register_offer K clock offer s))"
| replicated: "artifact_step K E s (snd (replicate_artifact K E now endpoint_now stage replicate_request s))"
| retrieved: "artifact_step K E s (snd (retrieve_artifact K E retrieve digest node_id s))"
| reconciled: "artifact_step K E s (snd (reconcile_protected_artifacts K E cycle cursor s))"
| staged: "artifact_step K E s (snd (stage_input K E stage offer job input s))"
| outputs: "artifact_step K E s (snd (record_outputs K clock n receipt refs s))"
| forgotten: "artifact_step K E s (forget_node node s)"

lemma keeps_snd: "keeps_prop I m \<Longrightarrow> I s \<Longrightarrow> I (snd (m s))"
  by (simp add: keeps_prop_def)

lemma registries_forget: "registries_ok s \<Longrightarrow> registries_ok (forget_node node s)"
  by (auto simp: registries_ok_def forget_node_def drop_replicas_of_def split: if_splits)

lemma registries_reconcile: "registries_ok s \<Longrightarrow> registries_ok (snd (reconcile_protected_artifacts K E cycle cursor s))"
  using reconcile_cycle [of s K E cycle cursor] by (auto simp: wp_def cycle_ok_def split: prod.splits sum.splits)

interpretation registries: invariant_system "artifact_step K E" "\<lambda>s. kc_artifact_replicas s = fmempty
    \<and> kc_replica_evidence s = fmempty \<and> kc_offers s = fmempty" registries_ok for K E
proof
  fix s t :: "'a controller"
  assume ok: "registries_ok s" and "artifact_step K E s t"
  from this(2) show "registries_ok t"
  proof cases
    case reconciled
    then show ?thesis using registries_reconcile [OF ok] by simp
  next
    case forgotten
    then show ?thesis using registries_forget [OF ok] by simp
  qed (auto intro: ok keeps_snd [OF registries_put] keeps_snd [OF registries_offer] keeps_snd [OF registries_replicate]
      keeps_snd [OF registries_retrieve] keeps_snd [OF registries_stage] keeps_snd [OF registries_outputs])
qed (simp add: registries_ok_def)

section \<open>Properties of the artifact operations\<close>

text \<open>
  C17. The registries of replicas are well formed in every state that the artifact operations reach: each recorded replica stands under
  the digest of its artifact, each piece of evidence under the digest and the node of its receipt, and each offer under its node.
  No answer of a worker can record a replica of one artifact, or a receipt of one node, as that of another.
\<close>

theorem replica_registries_well_formed:
  assumes "(artifact_step K E)\<^sup>*\<^sup>* s s'" and "registries_ok s"
  shows "(\<forall>d n a. fmlookup (kc_artifact_replicas s') (d, n) = Some a \<longrightarrow> ar_digest a = d)
     \<and> (\<forall>d n r. fmlookup (kc_replica_evidence s') (d, n) = Some r \<longrightarrow> rc_digest r = d \<and> rc_node_id r = n)
     \<and> (\<forall>n offer. fmlookup (kc_offers s') n = Some offer \<longrightarrow> ro_node_id offer = n)"
  using registries.inv_steps [OF assms] unfolding registries_ok_def .

lemma demo_large_ok: "registries_ok demo_large"
  by (auto simp: registries_ok_def demo_large_def demo_states demo_offer_fields demo_protected_def fmlookup_of_list split: if_splits)

theorem replica_registries_well_formed_witness:
  "\<exists>s'. artifact_step demo_control demo_endpoints demo_large s'
     \<and> s' = forget_node 8 demo_large \<and> (\<exists>a. fmlookup (kc_artifact_replicas s') (''d'', 7) = Some a \<and> ar_digest a = ''d'')"
proof -
  have s: "artifact_step demo_control demo_endpoints demo_large (forget_node 8 demo_large)" by (rule artifact_step.forgotten)
  obtain a where a: "fmlookup (kc_artifact_replicas (forget_node 8 demo_large)) (''d'', 7) = Some a"
    by (simp add: forget_node_def demo_large_def drop_replicas_of_def fmlookup_of_list)
  from replica_registries_well_formed [OF r_into_rtranclp [of "artifact_step demo_control demo_endpoints", OF s] demo_large_ok]
  have "ar_digest a = ''d''" using a by blast
  then show ?thesis using s a by blast
qed

text \<open>
  C16. A retrieval brings the recorded artifact or nothing. Whatever the worker answers, the bytes that are returned have the digest of
  the artifact recorded for that node, the local copy has that digest too, and the evidence on file is a valid receipt of the node for
  exactly that artifact. Succeed or fail, a retrieval touches nothing but the ledger, the evidence and the store, and the store
  only by its own steps; while the owner's stop is in force it touches nothing at all.
\<close>

theorem retrieval_is_content_addressed:
  "case retrieve_artifact K E env digest node_id s of (result, s') \<Rightarrow>
     moved (kl_cas K) s s'
     \<and> (if kill_latch_is_file s then s' = s \<and> result = Inl (Reject 423 ''owner kill latch is active'' [])
        else case result of Inl _ \<Rightarrow> True
        | Inr (local_ref, payload) \<Rightarrow>
            (\<exists>artifact offer receipt. fmlookup (kc_artifact_replicas s) (digest, node_id) = Some artifact
               \<and> fmlookup (kc_offers s) node_id = Some offer
               \<and> ar_digest local_ref = ar_digest artifact \<and> sha256_digest (kl_cas K) payload = ar_digest artifact
               \<and> fmlookup (kc_replica_evidence s') (ar_digest artifact, node_id) = Some receipt
               \<and> vouches K (pb_verify_now (rt_probe env)) s' offer artifact receipt))"
proof -
  obtain result s' where r: "retrieve_artifact K E env digest node_id s = (result, s')" by fastforce
  have m: "moved (kl_cas K) s s'" using keepsD [OF moved_retrieve r moved_refl] .
  show ?thesis
  proof (cases "kill_latch_is_file s")
    case True
    then have "retrieve_artifact K E env digest node_id s = (Inl (Reject 423 ''owner kill latch is active'' []), s)"
      by (simp add: retrieve_artifact_def with_state_def require_def refuse_def)
    then show ?thesis using m r True by simp
  next
    case False
    have "wp (retrieve_artifact K E env digest node_id)
      (\<lambda>(local_ref, payload) s'. \<exists>artifact offer receipt. fmlookup (kc_artifact_replicas s) (digest, node_id) = Some artifact
         \<and> fmlookup (kc_offers s) node_id = Some offer
         \<and> ar_digest local_ref = ar_digest artifact \<and> sha256_digest (kl_cas K) payload = ar_digest artifact
         \<and> fmlookup (kc_replica_evidence s') (ar_digest artifact, node_id) = Some receipt
         \<and> vouches K (pb_verify_now (rt_probe env)) s' offer artifact receipt) (\<lambda>_ _. True) s"
      unfolding retrieve_artifact_def remote_offer_def
      by (auto simp: wp_simps intro!: wp_mono [OF wp_retrieve_from] split: sum.splits option.splits prod.splits if_splits)
    then show ?thesis using m r False by (auto simp: wp_def split: sum.splits)
  qed
qed

text \<open>
  C18. A reconciliation cycle gains no authority and does bounded work. It leaves everything but the ledger and the registries
  as it was, the local store included; it forgets no recorded replica and adds at most four. Its result does not depend on what a
  replica outside the selection would answer to a probe, and the selection has at most four replicas. While the owner's stop is in
  force it does nothing.
\<close>

theorem reconciliation_is_bounded:
  assumes "registries_ok s" and "reconcile_protected_artifacts K E env cursor s = (result, s')"
  shows "authority_state s' = authority_state s
     \<and> fmdom (kc_artifact_replicas s) |\<subseteq>| fmdom (kc_artifact_replicas s')
     \<and> fcard (fmdom (kc_artifact_replicas s')) \<le> fcard (fmdom (kc_artifact_replicas s)) + 4
     \<and> (let selected = select_replica_probes (stale_replicas (cy_now env) s) cursor
        in length selected \<le> 4
           \<and> (\<forall>probe. (\<forall>key \<in> set selected. probe key = cy_probe env key)
                \<longrightarrow> reconcile_protected_artifacts K E (env\<lparr>cy_probe := probe\<rparr>) cursor s = (result, s')))
     \<and> (kill_latch_is_file s \<longrightarrow> s' = s \<and> result = Inr () \<and> next_cursor s cursor = cursor)"
proof -
  have "cycle_ok s MAX_AUTONOMOUS_REPAIRS_PER_CYCLE s'"
    using reconcile_cycle [OF assms(1), of K E env cursor] assms(2) by (auto simp: wp_def split: sum.splits)
  moreover have "length (select_replica_probes (stale_replicas (cy_now env) s) cursor) \<le> 4"
    using select_loop_length [of "[]"] by (simp add: select_replica_probes_def MAX_REPLICA_PROBES_PER_CYCLE_def)
  moreover have "reconcile_protected_artifacts K E (env\<lparr>cy_probe := probe\<rparr>) cursor s = (result, s')"
    if "\<forall>key \<in> set (select_replica_probes (stale_replicas (cy_now env) s) cursor). probe key = cy_probe env key" for probe
    using assms(2) by (auto simp: reconcile_protected_artifacts_def with_state_def reconcile_unselected [OF that])
  moreover have "kill_latch_is_file s \<longrightarrow> s' = s \<and> result = Inr () \<and> next_cursor s cursor = cursor"
    using assms(2) by (auto simp: reconcile_protected_artifacts_def with_state_def answer_def next_cursor_def)
  ultimately show ?thesis
    unfolding Let_def cycle_ok_def MAX_AUTONOMOUS_REPAIRS_PER_CYCLE_def by blast
qed

theorem reconciliation_is_bounded_witness:
  "\<exists>result s'. reconcile_protected_artifacts demo_control demo_endpoints demo_cycle 3 demo_large = (result, s')
     \<and> authority_state s' = authority_state demo_large \<and> fcard (fmdom (kc_artifact_replicas s')) \<le> 8
     \<and> length (select_replica_probes (stale_replicas 0 demo_large) 3) \<le> 4"
proof -
  obtain result s' where r: "reconcile_protected_artifacts demo_control demo_endpoints demo_cycle 3 demo_large = (result, s')" by fastforce
  have "fcard (fmdom (kc_artifact_replicas demo_large)) \<le> 4"
    by (simp add: demo_large_def fcard_finsert_if)
  moreover have "cy_now demo_cycle = 0" by (simp add: demo_cycle_def)
  ultimately show ?thesis using r reconciliation_is_bounded [OF demo_large_ok r] by (auto simp: Let_def)
qed

end
