(* ===== verification/Rampage_Model_Serve.thy ===== *)
theory Rampage_Model_Serve
  imports Rampage_Artifact_Server Rampage_Agent
begin

text \<open>
  Model sessions on a worker (\<open>crates/rampage-agent/src/main.rs\<close>): the check of a session's authority and of the installed
  model, the conversation with the local model server, the stream of frames and the signed receipt. The model server's answers,
  JSON parsing and the connection to the controller are parameters; texts are UTF-8 bytes.
\<close>

section \<open>Bounded text\<close>

text \<open>\<open>chars().take(n)\<close>: a continuation byte belongs to the character before it.\<close>

fun take_chars :: "nat \<Rightarrow> string \<Rightarrow> string" where
  "take_chars n [] = []"
| "take_chars n (c # s) =
     (if cont c then c # take_chars n s else case n of 0 \<Rightarrow> [] | Suc m \<Rightarrow> c # take_chars m s)"

definition bounded_error :: "string \<Rightarrow> string" where
  "bounded_error e = take_chars 512 e"

definition is_char_boundary :: "string \<Rightarrow> nat \<Rightarrow> bool" where
  "is_char_boundary s i = (i = 0 \<or> i = length s \<or> i < length s \<and> \<not> cont (s ! i))"

text \<open>The inner loop, which moves the end of a piece back to a boundary, and the length of the first character.\<close>

fun back_to_boundary :: "string \<Rightarrow> nat \<Rightarrow> nat" where
  "back_to_boundary s 0 = 0"
| "back_to_boundary s (Suc e) = (if is_char_boundary s (Suc e) then Suc e else back_to_boundary s e)"

definition first_char_length :: "string \<Rightarrow> nat" where
  "first_char_length s = Suc (length (takeWhile cont (tl s)))"

definition piece_length :: "nat \<Rightarrow> string \<Rightarrow> nat" where
  "piece_length max_bytes s =
     (let e = back_to_boundary s (min max_bytes (length s)) in if e = 0 then first_char_length s else e)"

lemma piece_length_pos: "0 < piece_length max_bytes s"
  by (simp add: piece_length_def first_char_length_def Let_def)

text \<open>The outer loop, on the text from \<open>start\<close> on.\<close>

function utf8_pieces :: "nat \<Rightarrow> string \<Rightarrow> string list" where
  "utf8_pieces max_bytes s =
     (if s = [] then []
      else take (piece_length max_bytes s) s # utf8_pieces max_bytes (drop (piece_length max_bytes s) s))"
  by auto
termination by (relation "measure (length \<circ> snd)") (auto simp: piece_length_pos)

declare utf8_pieces.simps [simp del]

definition utf8_chunks :: "string \<Rightarrow> nat \<Rightarrow> string list" where
  "utf8_chunks value max_bytes = (if length value \<le> max_bytes then [value] else utf8_pieces max_bytes value)"

section \<open>The local model server\<close>

record ollama_chat_chunk =
  oc_model :: "string option"
  oc_message :: "string option"
  oc_done :: bool
  oc_done_reason :: "string option"
  oc_prompt_eval_count :: "u64 option"
  oc_eval_count :: "u64 option"
  oc_error :: "string option"

record ollama_completion =
  ox_finish_reason :: string
  ox_usage :: "model_usage option"

record ollama_chat_request =
  og_model :: string
  og_messages :: "model_chat_message list"
  og_stream :: bool
  og_think :: bool
  og_num_predict :: u32
  og_temperature :: "f32 option"
  og_top_p :: "f32 option"

text \<open>A body arrives in chunks and may end in an error.\<close>

record http_body =
  hb_chunks :: "string list"
  hb_error :: "string option"

record model_host =
  oh_request :: "model_invocation_request codec"
  oh_frame :: "model_invocation_frame codec"
  oh_parse_chunk :: "string \<Rightarrow> string + ollama_chat_chunk"
  oh_parse_json :: "string \<Rightarrow> string + json"
  oh_mesh_text :: "mesh_error \<Rightarrow> string"
  oh_status_text :: "u16 \<Rightarrow> string"
  oh_lossy :: "string \<Rightarrow> string"

text \<open>The clock, the answers of the model server, and whether the connection takes the next frame after what was written.\<close>

record model_env =
  oe_now :: datetime
  oe_tags :: "string + u16 \<times> http_body"
  oe_accept_now :: datetime
  oe_started_at :: datetime
  oe_chat :: "ollama_chat_request \<Rightarrow> string + u16 \<times> http_body"
  oe_finished_at :: datetime
  oe_receipt_id :: uuid
  oe_writes :: "string \<Rightarrow> bool"

definition MAX_MODEL_OUTPUT_BYTES :: u64 where
  "MAX_MODEL_OUTPUT_BYTES = 16 * 1024 * 1024"

fun bounded_bytes :: "nat \<Rightarrow> string list \<Rightarrow> string \<Rightarrow> string + string" where
  "bounded_bytes max_bytes [] bytes = Inr bytes"
| "bounded_bytes max_bytes (chunk # rest) bytes =
     (if length bytes + length chunk \<le> max_bytes then bounded_bytes max_bytes rest (bytes @ chunk)
      else Inl ''loopback service response exceeded its bounded size'')"

definition bounded_json :: "model_host \<Rightarrow> http_body \<Rightarrow> nat \<Rightarrow> string + json" where
  "bounded_json H body max_bytes =
     and_then (bounded_bytes max_bytes (hb_chunks body) []) (\<lambda>bytes.
     case hb_error body of Some e \<Rightarrow> Inl e | None \<Rightarrow> oh_parse_json H bytes)"

text \<open>The loop stops when 4096 bytes are there.\<close>

definition bounded_http_error :: "model_host \<Rightarrow> http_body \<Rightarrow> string" where
  "bounded_http_error H body = bounded_error (oh_lossy H (take 4096 (concat (hb_chunks body))))"

section \<open>The installed model\<close>

definition advertised_digest :: "string \<Rightarrow> string" where
  "advertised_digest value =
     (if starts_with ''sha256:'' value then to_ascii_lowercase value else ''sha256:'' @ to_ascii_lowercase value)"

definition installed_entry_matches :: "model_session_lease \<Rightarrow> json \<Rightarrow> bool" where
  "installed_entry_matches lease entry =
     (Option.bind (case json_get ''model'' entry of None \<Rightarrow> json_get ''name'' entry | found \<Rightarrow> found) json_as_str = Some (ml_model_id lease)
      \<and> map_option advertised_digest (json_str ''digest'' entry) = Some (ml_model_digest lease)
      \<and> (case Option.bind (json_get ''size'' entry) json_as_u64 of None \<Rightarrow> False | Some n \<Rightarrow> n > 0))"

definition verify_local_ollama_model :: "model_host \<Rightarrow> model_env \<Rightarrow> model_invocation_request \<Rightarrow> string + unit" where
  "verify_local_ollama_model H env request =
     (case oe_tags env of
        Inl e \<Rightarrow> Inl e
      | Inr (status, body) \<Rightarrow>
          if 400 \<le> status \<and> status < 600 then Inl (oh_status_text H status)
          else and_then (bounded_json H body (1024 * 1024)) (\<lambda>payload.
            if (case json_get ''models'' payload of
                  Some (JArray models) \<Rightarrow> list_ex (installed_entry_matches (mi_lease request)) models
                | _ \<Rightarrow> False)
            then Inr () else Inl ''the leased Ollama model is not installed with the advertised digest''))"

section \<open>Streaming\<close>

text \<open>What was written to the controller, the answer so far, and the number of the next frame.\<close>

record model_out =
  mo_written :: string
  mo_output :: string
  mo_sequence :: u64

definition idle_out :: model_out where
  "idle_out = \<lparr>mo_written = [], mo_output = [], mo_sequence = 0\<rparr>"

type_synonym 'a emission = "(string + 'a) \<times> model_out"

definition send_frame :: "model_host \<Rightarrow> model_env \<Rightarrow> model_invocation_frame \<Rightarrow> model_out \<Rightarrow> unit emission" where
  "send_frame H env frame st =
     (case write_model_frame (oh_frame H) frame of
        Inl e \<Rightarrow> (Inl (oh_mesh_text H e), st)
      | Inr bytes \<Rightarrow>
          if oe_writes env (mo_written st) then (Inr (), st\<lparr>mo_written := mo_written st @ bytes\<rparr>)
          else (Inl (oh_mesh_text H Transport), st))"

definition delta_frame :: "model_invocation_request \<Rightarrow> u64 \<Rightarrow> string \<Rightarrow> model_invocation_frame" where
  "delta_frame request sequence content =
     \<lparr>model_invocation_frame.mf_schema = model_invocation_frame_SCHEMA, mf_request_id = mi_request_id request, mf_sequence = sequence, mf_kind = Delta,
      mf_content = content, mf_finish_reason = None, mf_error = None, mf_receipt = None\<rparr>"

fun send_deltas :: "model_host \<Rightarrow> model_env \<Rightarrow> model_invocation_request \<Rightarrow> string list \<Rightarrow> model_out \<Rightarrow> unit emission" where
  "send_deltas H env request [] st = (Inr (), st)"
| "send_deltas H env request (content # rest) st =
     (case send_frame H env (delta_frame request (mo_sequence st) content) st of
        (Inl e, st) \<Rightarrow> (Inl e, st)
      | (Inr _, st) \<Rightarrow> send_deltas H env request rest (st\<lparr>mo_sequence := sat_add (mo_sequence st) 1\<rparr>))"

definition completion_of :: "ollama_chat_chunk \<Rightarrow> ollama_completion option" where
  "completion_of chunk =
     (if oc_done chunk
      then Some \<lparr>ox_finish_reason = unwrap_or ''stop'' (oc_done_reason chunk),
          ox_usage = (case (oc_prompt_eval_count chunk, oc_eval_count chunk) of
             (Some p, Some c) \<Rightarrow> Some \<lparr>mu_prompt_tokens = p, mu_completion_tokens = c\<rparr> | _ \<Rightarrow> None)\<rparr>
      else None)"

definition process_ollama_line ::
  "model_host \<Rightarrow> model_env \<Rightarrow> model_invocation_request \<Rightarrow> string \<Rightarrow> model_out \<Rightarrow> ollama_completion option emission" where
  "process_ollama_line H env request line st =
     (case oh_parse_chunk H line of
        Inl e \<Rightarrow> (Inl e, st)
      | Inr chunk \<Rightarrow>
     case oc_error chunk of
        Some e \<Rightarrow> (Inl (''Ollama stream failed: '' @ bounded_error e), st)
      | None \<Rightarrow>
     if (case oc_model chunk of None \<Rightarrow> False | Some m \<Rightarrow> m \<noteq> ml_model_id (mi_lease request))
     then (Inl ''Ollama response model differs from its lease'', st)
     else let content = unwrap_or [] (oc_message chunk)
     in if content = [] then (Inr (completion_of chunk), st)
     else if length (mo_output st) + length content > unat MAX_MODEL_OUTPUT_BYTES
     then (Inl ''model output exceeded the bounded response size'', st)
     else case send_deltas H env request (utf8_chunks content (16 * 1024)) (st\<lparr>mo_output := mo_output st @ content\<rparr>) of
        (Inl e, st) \<Rightarrow> (Inl e, st)
      | (Inr _, st) \<Rightarrow> (Inr (completion_of chunk), st))"

definition is_ascii_whitespace :: "char \<Rightarrow> bool" where
  "is_ascii_whitespace c = (byte c \<in> {9, 10, 12, 13, 32})"

definition blank_line :: "string \<Rightarrow> bool" where
  "blank_line s = list_all is_ascii_whitespace s"

lemma split_once_shorter: "split_once c s = Some (a, b) \<Longrightarrow> length b < length s"
  by (induction s arbitrary: a) (auto split: if_splits option.splits)

text \<open>The loop over the complete lines of the buffer.\<close>

function drain_lines ::
  "model_host \<Rightarrow> model_env \<Rightarrow> model_invocation_request \<Rightarrow> string \<Rightarrow> model_out \<Rightarrow> (ollama_completion option \<times> string) emission" where
  "drain_lines H env request buffered st =
     (case split_once (CHR 0x0A) buffered of
        None \<Rightarrow> (Inr (None, buffered), st)
      | Some (line, rest) \<Rightarrow>
          if blank_line line then drain_lines H env request rest st
          else case process_ollama_line H env request line st of
             (Inl e, st) \<Rightarrow> (Inl e, st)
           | (Inr (Some completion), st) \<Rightarrow> (Inr (Some completion, rest), st)
           | (Inr None, st) \<Rightarrow> drain_lines H env request rest st)"
  by auto
termination by (relation "measure (\<lambda>(H, env, request, buffered, st). length buffered)") (auto dest: split_once_shorter)

declare drain_lines.simps [simp del]

fun pull_chunks ::
  "model_host \<Rightarrow> model_env \<Rightarrow> model_invocation_request \<Rightarrow> string option \<Rightarrow> string list \<Rightarrow> string \<Rightarrow> model_out
     \<Rightarrow> (ollama_completion option \<times> string) emission" where
  "pull_chunks H env request end_error [] buffered st =
     (case end_error of Some e \<Rightarrow> (Inl e, st) | None \<Rightarrow> (Inr (None, buffered), st))"
| "pull_chunks H env request end_error (chunk # rest) buffered st =
     (if length (buffered @ chunk) > 256 * 1024 then (Inl ''Ollama emitted an oversized frame'', st)
      else case drain_lines H env request (buffered @ chunk) st of
         (Inl e, st) \<Rightarrow> (Inl e, st)
       | (Inr (Some completion, buffered), st) \<Rightarrow> (Inr (Some completion, buffered), st)
       | (Inr (None, buffered), st) \<Rightarrow> pull_chunks H env request end_error rest buffered st)"

definition finish_chat :: "ollama_completion option \<Rightarrow> model_out \<Rightarrow> string + ollama_completion" where
  "finish_chat completion st =
     (case completion of
        None \<Rightarrow> Inl ''Ollama stream ended without a terminal frame''
      | Some c \<Rightarrow> if mo_output st = [] then Inl ''Ollama completed without user-visible answer text'' else Inr c)"

definition execute_chat ::
  "model_host \<Rightarrow> model_env \<Rightarrow> model_invocation_request \<Rightarrow> http_body \<Rightarrow> model_out \<Rightarrow> ollama_completion emission" where
  "execute_chat H env request body st =
     (case pull_chunks H env request (hb_error body) (hb_chunks body) [] st of
        (Inl e, st) \<Rightarrow> (Inl e, st)
      | (Inr (completion, buffered), st) \<Rightarrow>
          if completion = None \<and> \<not> blank_line buffered
          then case process_ollama_line H env request buffered st of
             (Inl e, st) \<Rightarrow> (Inl e, st)
           | (Inr completion, st) \<Rightarrow> (finish_chat completion st, st)
          else (finish_chat completion st, st))"

definition model_receipt ::
  "'sk worker_lib \<Rightarrow> model_env \<Rightarrow> 'sk \<Rightarrow> model_invocation_request \<Rightarrow> string + ollama_completion \<Rightarrow> string \<Rightarrow> model_execution_receipt" where
  "model_receipt W env signing_key request execution output =
     sign_model_receipt (wl_crypto W) signing_key
       \<lparr>mx_schema = ''rampage.model-execution-receipt.v1'', mx_receipt_id = oe_receipt_id env, mx_lease_id = ml_lease_id (mi_lease request),
        mx_session_id = ml_session_id (mi_lease request), mx_request_id = mi_request_id request, mx_node_id = ml_node_id (mi_lease request),
        mx_state = (case execution of Inl _ \<Rightarrow> Failed | Inr _ \<Rightarrow> Succeeded), mx_started_at = oe_started_at env,
        mx_finished_at = oe_finished_at env,
        mx_output_digest = ''sha256:'' @ cr_hex_encode (wl_crypto W) (cr_sha256 (wl_crypto W) output),
        mx_output_bytes = of_nat (length output), mx_usage = (case execution of Inl _ \<Rightarrow> None | Inr c \<Rightarrow> ox_usage c),
        mx_error = (case execution of Inl e \<Rightarrow> Some (bounded_error e) | Inr _ \<Rightarrow> None), mx_signature = []\<rparr>"

definition terminal_frame ::
  "'sk worker_lib \<Rightarrow> model_env \<Rightarrow> 'sk \<Rightarrow> model_invocation_request \<Rightarrow> string + ollama_completion \<Rightarrow> model_out \<Rightarrow> model_invocation_frame" where
  "terminal_frame W env signing_key request execution st =
     \<lparr>model_invocation_frame.mf_schema = model_invocation_frame_SCHEMA, mf_request_id = mi_request_id request, mf_sequence = mo_sequence st,
      mf_kind = (case execution of Inl _ \<Rightarrow> FrameError | Inr _ \<Rightarrow> FrameComplete), mf_content = [],
      mf_finish_reason = (case execution of Inl _ \<Rightarrow> None | Inr c \<Rightarrow> Some (ox_finish_reason c)),
      mf_error = (case execution of Inl e \<Rightarrow> Some (bounded_error e) | Inr _ \<Rightarrow> None),
      mf_receipt = Some (model_receipt W env signing_key request execution (mo_output st))\<rparr>"

definition chat_request :: "model_invocation_request \<Rightarrow> ollama_chat_request" where
  "chat_request request =
     \<lparr>og_model = ml_model_id (mi_lease request), og_messages = mi_messages request, og_stream = True, og_think = False,
      og_num_predict = mi_max_output_tokens request, og_temperature = mi_temperature request, og_top_p = mi_top_p request\<rparr>"

definition run_ollama_invocation ::
  "model_host \<Rightarrow> 'sk worker_lib \<Rightarrow> model_env \<Rightarrow> 'sk \<Rightarrow> model_invocation_request \<Rightarrow> model_out \<Rightarrow> unit emission" where
  "run_ollama_invocation H W env signing_key request st =
     (case oe_chat env (chat_request request) of
        Inl e \<Rightarrow> (Inl e, st)
      | Inr (status, body) \<Rightarrow>
          if \<not> is_success status
          then (Inl (''local Ollama rejected the model session ('' @ oh_status_text H status @ ''): '' @ bounded_http_error H body), st)
          else case execute_chat H env request body st of
            (execution, st) \<Rightarrow> send_frame H env (terminal_frame W env signing_key request execution st) st)"

section \<open>A session\<close>

definition session_admitted :: "'sk worker_lib \<Rightarrow> model_env \<Rightarrow> 'sk gateway_config \<Rightarrow> model_invocation_request \<Rightarrow> string + unit" where
  "session_admitted W env g request =
     (case verify_model_session_lease_with_key (wl_crypto W) (gw_governor_public_key g) (mi_lease request) of
        Inl e \<Rightarrow> Inl (denial_to_string e)
      | Inr _ \<Rightarrow>
          if model_lease_is_active_at (mi_lease request) (oe_now env) (ml_fencing_epoch (mi_lease request))
             \<and> model_invocation_is_valid_for request (gw_node_id g) (gw_controller_endpoint_id g)
          then Inr () else Inl ''model invocation is outside its signed authority'')"

definition serve_invocation ::
  "model_host \<Rightarrow> 'sk worker_lib \<Rightarrow> model_env \<Rightarrow> 'sk gateway_config \<Rightarrow> model_invocation_request \<Rightarrow> cas_store
     \<Rightarrow> unit emission \<times> cas_store" where
  "serve_invocation H W env g request store =
     (case and_then (session_admitted W env g request) (\<lambda>_. verify_local_ollama_model H env request) of
        Inl e \<Rightarrow> ((Inl e, idle_out), store)
      | Inr _ \<Rightarrow>
     case accept_authority ''governor'' (ml_fencing_epoch (mi_lease request)) (ml_nonce (mi_lease request))
            (ml_expires_at (mi_lease request)) (oe_accept_now env) store of
        (Inl e, store) \<Rightarrow> ((Inl (wl_error_text W e), idle_out), store)
      | (Inr _, store) \<Rightarrow> (run_ollama_invocation H W env (gw_signing_key g) request idle_out, store))"

definition error_frame :: "uuid \<Rightarrow> string \<Rightarrow> model_invocation_frame" where
  "error_frame request_id e =
     \<lparr>model_invocation_frame.mf_schema = model_invocation_frame_SCHEMA, mf_request_id = request_id, mf_sequence = 0, mf_kind = FrameError, mf_content = [],
      mf_finish_reason = None, mf_error = Some (bounded_error e), mf_receipt = None\<rparr>"

text \<open>One stream: what is written to the controller, and the store.\<close>

definition serve_model_stream ::
  "model_host \<Rightarrow> 'sk worker_lib \<Rightarrow> model_env \<Rightarrow> 'sk gateway_config \<Rightarrow> string \<Rightarrow> cas_store \<Rightarrow> string \<times> cas_store" where
  "serve_model_stream H W env g received store =
     (case read_model_request (oh_request H) received of
        Inl e \<Rightarrow>
          (mo_written (snd (send_frame H env (error_frame 0 (oh_mesh_text H e)) idle_out)), store)
      | Inr (request, _) \<Rightarrow>
          (case serve_invocation H W env g request store of
             ((Inr _, st), store) \<Rightarrow> (mo_written st, store)
           | ((Inl e, st), store) \<Rightarrow> (mo_written (snd (send_frame H env (error_frame (mi_request_id request) e) st)), store)))"

end
