(* ===== verification/Rampage_Model_Gateway.thy ===== *)
theory Rampage_Model_Gateway
  imports Rampage_Jobs Rampage_Gateway Rampage_Model_Serve "HOL-Library.List_Lexorder" "HOL-Library.Char_ord"
begin

text \<open>
  The controller's model API (\<open>crates/rampage-controller/src/main.rs\<close>): the OpenAI and Anthropic compatible requests, the catalogue
  of installed models, the session lease and the invocation of a worker, the consumption of its frames up to the signed
  receipt, and the answers and event streams to the client. A poisoned lock is not modelled.
\<close>

section \<open>Requests and failures\<close>

record openai_chat_request =
  oq_model :: string
  oq_messages :: "model_chat_message list"
  oq_stream :: bool
  oq_max_tokens :: "u32 option"
  oq_max_completion_tokens :: "u32 option"
  oq_temperature :: "f32 option"
  oq_top_p :: "f32 option"

record anthropic_text_block =
  ab_type :: string
  ab_text :: string

datatype anthropic_content = TextContent string | BlockContent "anthropic_text_block list"

record anthropic_message =
  am_role :: string
  am_content :: anthropic_content

record anthropic_messages_request =
  an_model :: string
  an_max_tokens :: u32
  an_messages :: "anthropic_message list"
  an_system :: "anthropic_content option"
  an_stream :: bool
  an_temperature :: "f32 option"
  an_top_p :: "f32 option"

record gateway_failure =
  gf_status :: u16
  gf_kind :: string
  gf_code :: string
  gf_message :: string

definition invalid_model_request :: "string \<Rightarrow> gateway_failure" where
  "invalid_model_request message =
     \<lparr>gf_status = 400, gf_kind = ''invalid_request_error'', gf_code = ''invalid_model_request'', gf_message = message\<rparr>"

definition invalid_worker_stream :: "string \<Rightarrow> gateway_failure" where
  "invalid_worker_stream message =
     \<lparr>gf_status = 502, gf_kind = ''server_error'', gf_code = ''invalid_worker_stream'', gf_message = message\<rparr>"

definition model_timeout :: gateway_failure where
  "model_timeout = \<lparr>gf_status = 504, gf_kind = ''server_error'', gf_code = ''model_session_timeout'',
     gf_message = ''model session lease expired before completion''\<rparr>"

definition server_failure :: "u16 \<Rightarrow> string \<Rightarrow> string \<Rightarrow> gateway_failure" where
  "server_failure status code message = \<lparr>gf_status = status, gf_kind = ''server_error'', gf_code = code, gf_message = message\<rparr>"

definition bounded_gateway_error :: "string \<Rightarrow> string" where
  "bounded_gateway_error e = take_chars 512 e"

definition anthropic_content_text :: "anthropic_content \<Rightarrow> gateway_failure + string" where
  "anthropic_content_text content =
     and_then (case content of
        TextContent t \<Rightarrow> Inr t
      | BlockContent blocks \<Rightarrow>
          if blocks = [] \<or> list_ex (\<lambda>b. ab_type b \<noteq> ''text'' \<or> ab_text b = []) blocks
          then Inl (invalid_model_request ''only non-empty Anthropic text content blocks are supported'')
          else Inr (concat (map ab_text blocks))) (\<lambda>t.
     if t = [] then Inl (invalid_model_request ''Anthropic message content must not be empty'') else Inr t)"

fun translate_messages :: "anthropic_message list \<Rightarrow> gateway_failure + model_chat_message list" where
  "translate_messages [] = Inr []"
| "translate_messages (m # rest) =
     (if am_role m \<notin> {''user'', ''assistant''}
      then Inl (invalid_model_request ''Anthropic messages support only user and assistant roles'')
      else and_then (anthropic_content_text (am_content m)) (\<lambda>content.
        and_then (translate_messages rest) (\<lambda>messages. Inr (\<lparr>cm_role = am_role m, cm_content = content\<rparr> # messages))))"

definition translate_anthropic_request :: "anthropic_messages_request \<Rightarrow> gateway_failure + openai_chat_request" where
  "translate_anthropic_request request =
     (if an_max_tokens request = 0
      then Inl (invalid_model_request ''max_tokens must be positive; prompt-cache-only requests are not supported'')
      else and_then (case an_system request of
          None \<Rightarrow> Inr []
        | Some system \<Rightarrow> and_then (anthropic_content_text system) (\<lambda>content. Inr [\<lparr>cm_role = ''system'', cm_content = content\<rparr>])) (\<lambda>first.
      and_then (translate_messages (an_messages request)) (\<lambda>messages.
      Inr \<lparr>oq_model = an_model request, oq_messages = first @ messages, oq_stream = an_stream request, oq_max_tokens = None,
        oq_max_completion_tokens = Some (an_max_tokens request), oq_temperature = an_temperature request, oq_top_p = an_top_p request\<rparr>)))"

definition message_bytes :: "model_chat_message list \<Rightarrow> u64" where
  "message_bytes messages = foldl (\<lambda>total_bytes m. sat_add (sat_add total_bytes (of_nat (length (cm_role m))))
     (of_nat (length (cm_content m)))) 0 messages"

definition validate_openai_request :: "openai_chat_request \<Rightarrow> gateway_failure + u32" where
  "validate_openai_request request =
     (if trim (oq_model request) = [] \<or> length (oq_model request) > 200 \<or> \<not> is_ascii (oq_model request)
      then Inl (invalid_model_request ''model must be a non-empty ASCII identifier'')
      else if oq_messages request = [] \<or> length (oq_messages request) > 256
      then Inl (invalid_model_request ''messages must contain between 1 and 256 entries'')
      else if list_ex (\<lambda>m. cm_role m \<notin> {''system'', ''user'', ''assistant''} \<or> cm_content m = []) (oq_messages request)
      then Inl (invalid_model_request ''only non-empty system, user, and assistant text messages are supported'')
      else if message_bytes (oq_messages request) > MAX_MODEL_PROMPT_BYTES
      then Inl \<lparr>gf_status = 413, gf_kind = ''invalid_request_error'', gf_code = ''prompt_too_large'',
        gf_message = ''message text exceeds Rampage's one MiB prompt limit''\<rparr>
      else if oq_max_tokens request \<noteq> None \<and> oq_max_completion_tokens request \<noteq> None
          \<and> oq_max_tokens request \<noteq> oq_max_completion_tokens request
      then Inl (invalid_model_request ''max_tokens and max_completion_tokens conflict'')
      else let max_output_tokens = unwrap_or 512
             (case oq_max_completion_tokens request of None \<Rightarrow> oq_max_tokens request | found \<Rightarrow> found)
      in if max_output_tokens = 0 \<or> max_output_tokens > MAX_MODEL_OUTPUT_TOKENS
      then Inl (invalid_model_request ''requested output token limit is outside the supported range'')
      else if (case oq_temperature request of None \<Rightarrow> False | Some v \<Rightarrow> \<not> f32_between_0_and 0x40000000 v)
           \<or> (case oq_top_p request of None \<Rightarrow> False | Some v \<Rightarrow> \<not> f32_between_0_and 0x3F800000 v)
      then Inl (invalid_model_request ''temperature or top_p is outside the supported range'')
      else Inr max_output_tokens)"

section \<open>The catalogue\<close>

record model_candidate =
  md_offer :: resource_offer
  md_runtime :: model_runtime_offer
  md_model :: installed_model

definition offers_models :: "datetime \<Rightarrow> uuid fset \<Rightarrow> resource_offer \<Rightarrow> bool" where
  "offers_models now excluded offer =
     (ro_expires_at offer > now \<and> ro_node_id offer |\<notin>| excluded \<and> ro_mesh_endpoint offer \<noteq> None
      \<and> av_foreground_allowed (ro_availability offer) \<and> av_thermal_headroom_percent (ro_availability offer) \<ge> 15
      \<and> (av_on_ac_power (ro_availability offer) \<or> unwrap_or 100 (av_battery_percent (ro_availability offer)) \<ge> 50))"

definition serves_models :: "resource_offer \<Rightarrow> model_runtime_offer \<Rightarrow> bool" where
  "serves_models offer runtime =
     (mr_schema runtime = model_runtime_offer_SCHEMA \<and> mr_backend runtime = LocalOllama \<and> mr_status runtime = ShippedLocal
      \<and> mr_adapter runtime = ''rampage.ollama.v1'' \<and> mr_adapter runtime |\<in>| ro_adapters offer
      \<and> WholeModel |\<in>| mr_supported_parallelism runtime)"

definition model_fits :: "resource_offer \<Rightarrow> model_runtime_offer \<Rightarrow> installed_model \<Rightarrow> bool" where
  "model_fits offer runtime model =
     (installed_model_is_valid model
      \<and> \<not> runtime_capacity_from_offer offer runtime < sat_add (im_artifact_size_bytes model) (im_artifact_size_bytes model div 5))"

definition catalog_entries :: "'sk control_lib \<Rightarrow> datetime \<Rightarrow> 'sk controller \<Rightarrow> model_candidate list" where
  "catalog_entries K now s =
     concat (map (\<lambda>offer.
       concat (map (\<lambda>runtime.
         map (\<lambda>model. \<lparr>md_offer = offer, md_runtime = runtime, md_model = model\<rparr>)
           (filter (model_fits offer runtime) (mr_installed_models runtime)))
         (filter (serves_models offer) (ro_model_runtimes offer))))
       (filter (offers_models now (kc_excluded_nodes s)) (values_in_order (kc_offers s) (kl_offer_order K (kc_offers s)))))"

text \<open>The entry of a model, kept when every candidate has the same digest.\<close>

definition live_model_catalog :: "'sk control_lib \<Rightarrow> datetime \<Rightarrow> 'sk controller \<Rightarrow> string \<Rightarrow> model_candidate list option" where
  "live_model_catalog K now s model_id =
     (let candidates = filter (\<lambda>c. im_model_id (md_model c) = model_id) (catalog_entries K now s)
      in if length (remdups (map (im_artifact_digest \<circ> md_model) candidates)) = 1 then Some candidates else None)"

section \<open>Starting a session\<close>

record model_gateway_lib =
  mg_request :: "model_invocation_request codec"
  mg_frame :: "model_invocation_frame codec"
  mg_lease :: "model_session_lease value_codec"
  mg_receipt :: "model_execution_receipt value_codec"

record active_invocation =
  ai_request_id :: uuid
  ai_lease :: model_session_lease
  ai_stream :: model_response_stream

record start_env =
  sx_now :: datetime
  sx_lease_now :: datetime
  sx_lease_id :: uuid
  sx_session_id :: uuid
  sx_nonce :: string
  sx_endpoint_now :: datetime
  sx_request_id :: uuid
  sx_append_now :: datetime
  sx_timeout :: bool
  sx_peer :: peer

definition gateway_event ::
  "'sk control_lib \<Rightarrow> datetime \<Rightarrow> string \<Rightarrow> uuid \<Rightarrow> json \<Rightarrow> ('sk controller, gateway_failure, unit) action" where
  "gateway_event K now event_type session_id payload =
     map_error (\<lambda>e. server_failure 500 ''evidence_write_failed'' (reject_text e))
       (record_event K now event_type (kl_uuid_text K session_id) payload)"

definition or_fail :: "bool \<Rightarrow> gateway_failure \<Rightarrow> ('s, gateway_failure, unit) action" where
  "or_fail b failure = lift (if b then Inr () else Inl failure)"

definition choose_candidate :: "model_candidate list option \<Rightarrow> gateway_failure + model_candidate" where
  "choose_candidate candidates =
     (case Option.bind candidates (max_by_key (\<lambda>c. mr_available_model_bytes (md_runtime c))) of
        None \<Rightarrow> Inl \<lparr>gf_status = 404, gf_kind = ''invalid_request_error'', gf_code = ''model_not_found'',
          gf_message = ''model is not consistently installed on an eligible contributor''\<rparr>
      | Some c \<Rightarrow> Inr c)"

definition session_lease ::
  "'sk control_lib \<Rightarrow> start_env \<Rightarrow> openai_chat_request \<Rightarrow> u32 \<Rightarrow> model_candidate \<Rightarrow> 'sk controller \<Rightarrow> denial + model_session_lease" where
  "session_lease K env request max_output_tokens c s =
     authorize_model_session_at_epoch (kl_crypto K) (kc_governor s) (sx_lease_now env) (sx_lease_id env) (sx_session_id env) (sx_nonce env)
       (md_offer c) (md_runtime c) (md_model c) (kl_endpoint_id K)
       \<lparr>msl_max_prompt_bytes = max (message_bytes (oq_messages request)) 1, msl_max_output_tokens = max_output_tokens\<rparr> (kc_fencing_epoch s)"

lemma authorized_session_fields:
  assumes "authorize_model_session_at_epoch C gov now i sid n offer runtime model ep limits e = Inr lease"
  shows "ml_signature lease = sign_hex C (gov_signing_key gov) (model_session_lease_message C lease)"
    "ml_schema lease = model_session_lease_SCHEMA" "ml_backend lease = LocalOllama" "ml_parallelism lease = WholeModel"
    "ml_controller_endpoint_id lease = ep" "ep \<noteq> []" "is_ascii ep" "ml_nonce lease = n"
    "\<not> blank (ml_model_id lease)" "is_sha256_digest (ml_model_digest lease)" "ml_node_id lease = ro_node_id offer"
    "0 < ml_max_prompt_bytes lease" "ml_max_prompt_bytes lease \<le> MAX_MODEL_PROMPT_BYTES"
    "0 < ml_max_output_tokens lease" "ml_max_output_tokens lease \<le> MAX_MODEL_OUTPUT_TOKENS"
    "ml_session_id lease = sid" "ml_max_prompt_bytes lease = msl_max_prompt_bytes limits" "ml_max_output_tokens lease = msl_max_output_tokens limits"
    "ml_model_id lease = im_model_id model" "ml_model_digest lease = im_artifact_digest model" "ml_issued_at lease = now"
    "ml_runtime_digest lease = mr_runtime_digest runtime" "ml_fencing_epoch lease = e"
    "ml_expires_at lease = now + seconds (max (gc_lease_ttl_seconds (gov_config gov)) 1)"
  using assms by (auto simp: authorize_model_session_at_epoch_def model_session_lease_message_def Let_def not_less
    word_gt_0 installed_model_is_valid_def split: if_splits)

definition invocation_of :: "start_env \<Rightarrow> openai_chat_request \<Rightarrow> u32 \<Rightarrow> model_session_lease \<Rightarrow> model_invocation_request" where
  "invocation_of env request max_output_tokens lease =
     \<lparr>mi_schema = model_invocation_request_SCHEMA, mi_request_id = sx_request_id env, mi_lease = lease, mi_messages = oq_messages request,
      mi_max_output_tokens = max_output_tokens, mi_stream = oq_stream request, mi_temperature = oq_temperature request,
      mi_top_p = oq_top_p request\<rparr>"

definition start_model_invocation ::
  "'sk control_lib \<Rightarrow> ('i, 'r) endpoint_lib \<Rightarrow> model_gateway_lib \<Rightarrow> start_env \<Rightarrow> openai_chat_request \<Rightarrow> u32
     \<Rightarrow> ('sk controller, gateway_failure, active_invocation) action" where
  "start_model_invocation K E M env request max_output_tokens =
     with_state (\<lambda>s.
     bind_h (or_fail (\<not> kill_latch_is_file s) (server_failure 423 ''owner_stop_active'' ''owner STOP is active'')) (\<lambda>_.
     bind_h (lift (choose_candidate (live_model_catalog K (sx_now env) s (oq_model request)))) (\<lambda>c.
     bind_h (lift (map_sum (\<lambda>e. server_failure 403 ''model_authority_denied'' (denial_to_string e)) id
        (session_lease K env request max_output_tokens c s))) (\<lambda>lease.
     bind_h (lift (case ro_mesh_endpoint (md_offer c) of
          None \<Rightarrow> Inl (server_failure 0 ''panic'' ''catalog requires a mesh endpoint'')
        | Some r \<Rightarrow> map_sum (\<lambda>e. server_failure 502 ''worker_endpoint_invalid'' (kl_mesh_text K e)) id
            (endpoint_addr_from_record E (sx_endpoint_now env) r))) (\<lambda>_.
     let invocation = invocation_of env request max_output_tokens lease in
     bind_h (or_fail (model_invocation_is_valid_for invocation (ro_node_id (md_offer c)) (kl_endpoint_id K))
        \<lparr>gf_status = 400, gf_kind = ''invalid_request_error'', gf_code = ''invalid_model_request'',
         gf_message = ''request does not fit its bounded model-session authority''\<rparr>) (\<lambda>_.
     bind_h (gateway_event K (sx_append_now env) ''model.session.lease.issued'' (ml_session_id lease)
        (JObject [(''lease'', vc_to (mg_lease M) lease), (''model_digest'', JString (im_artifact_digest (md_model c))),
          (''node_id'', JString (kl_uuid_text K (ro_node_id (md_offer c)))), (''request_id'', JString (kl_uuid_text K (sx_request_id env)))])) (\<lambda>_.
     bind_h (or_fail (\<not> sx_timeout env)
        (server_failure 504 ''worker_connect_timeout'' ''timed out connecting to the selected model worker'')) (\<lambda>_.
     bind_h (lift (map_sum (\<lambda>e. server_failure 502 ''worker_unavailable'' (bounded_gateway_error (kl_mesh_text K e))) id
        (invoke_model (mg_request M) (sx_peer env) invocation))) (\<lambda>stream.
     bind_h (modify (\<lambda>s. s\<lparr>kc_model_cancellations := fmupd (ml_session_id lease) False (kc_model_cancellations s)\<rparr>)) (\<lambda>_.
     answer \<lparr>ai_request_id = sx_request_id env, ai_lease = lease, ai_stream = stream\<rparr>))))))))))"

section \<open>Consuming the stream of a worker\<close>

datatype stream_format = OpenAi | Anthropic

datatype sse_event = OpenAiEvent json | AnthropicEvent string json | DoneEvent

record gateway_completion =
  gm_content :: string
  gm_finish_reason :: string
  gm_usage :: "model_usage option"

text \<open>The readings of the clock, whether a cancellation or the timer comes first, and whether the client still takes events, by turn.\<close>

record consume_env =
  cn_now :: "nat \<Rightarrow> datetime"
  cn_cancelled :: "nat \<Rightarrow> bool"
  cn_timeout :: "nat \<Rightarrow> bool"
  cn_client :: "nat \<Rightarrow> bool"
  cn_append_now :: datetime

definition json_of_int :: "int \<Rightarrow> json" where
  "json_of_int i = (if 0 \<le> i then JPosInt (of_int i) else JNegInt i)"

definition uuid_simple_text :: "'sk control_lib \<Rightarrow> uuid \<Rightarrow> string" where
  "uuid_simple_text K u = cr_hex_encode (kl_crypto K) (uuid_bytes u)"

definition openai_chunk :: "'sk control_lib \<Rightarrow> uuid \<Rightarrow> datetime \<Rightarrow> string \<Rightarrow> json \<Rightarrow> json \<Rightarrow> sse_event" where
  "openai_chunk K request_id issued_at model_id delta finish_reason =
     OpenAiEvent (JObject [(''choices'', JArray [JObject [(''delta'', delta), (''finish_reason'', finish_reason), (''index'', JPosInt 0)]]),
       (''created'', json_of_int (issued_at div nanos_per_second)), (''id'', JString (''chatcmpl-'' @ uuid_simple_text K request_id)),
       (''model'', JString model_id), (''object'', JString ''chat.completion.chunk'')])"

definition delta_event :: "'sk control_lib \<Rightarrow> active_invocation \<Rightarrow> stream_format \<Rightarrow> string \<Rightarrow> sse_event" where
  "delta_event K invocation format content =
     (case format of
        OpenAi \<Rightarrow> openai_chunk K (ai_request_id invocation) (ml_issued_at (ai_lease invocation)) (ml_model_id (ai_lease invocation))
          (JObject [(''content'', JString content)]) JNull
      | Anthropic \<Rightarrow> AnthropicEvent ''content_block_delta'' (JObject
          [(''delta'', JObject [(''text'', JString content), (''type'', JString ''text_delta'')]), (''index'', JPosInt 0),
           (''type'', JString ''content_block_delta'')]))"

definition verify_terminal_model_receipt ::
  "'sk control_lib \<Rightarrow> 'sk controller \<Rightarrow> active_invocation \<Rightarrow> model_execution_receipt \<Rightarrow> string \<Rightarrow> gateway_failure + unit" where
  "verify_terminal_model_receipt K s invocation receipt output =
     (case fmlookup (kc_nodes s) (mx_node_id receipt) of
        None \<Rightarrow> Inl (invalid_worker_stream ''model receipt signer is not enrolled'')
      | Some identity \<Rightarrow>
     case verify_model_receipt (kl_crypto K) identity receipt of
        Inl _ \<Rightarrow> Inl (invalid_worker_stream ''model receipt signature is invalid'')
      | Inr _ \<Rightarrow>
          if mx_schema receipt \<noteq> ''rampage.model-execution-receipt.v1'' \<or> mx_lease_id receipt \<noteq> ml_lease_id (ai_lease invocation)
             \<or> mx_session_id receipt \<noteq> ml_session_id (ai_lease invocation) \<or> mx_request_id receipt \<noteq> ai_request_id invocation
             \<or> mx_node_id receipt \<noteq> ml_node_id (ai_lease invocation) \<or> mx_state receipt \<notin> {Succeeded, Failed, Cancelled}
             \<or> mx_finished_at receipt < mx_started_at receipt
             \<or> mx_output_digest receipt \<noteq> ''sha256:'' @ cr_hex_encode (kl_crypto K) (cr_sha256 (kl_crypto K) output)
             \<or> mx_output_bytes receipt \<noteq> of_nat (length output)
          then Inl (invalid_worker_stream ''model receipt does not match the invocation transcript'') else Inr ())"

text \<open>The arm of the terminal frames.\<close>

definition conclude_invocation ::
  "'sk control_lib \<Rightarrow> model_gateway_lib \<Rightarrow> consume_env \<Rightarrow> active_invocation \<Rightarrow> model_invocation_frame \<Rightarrow> u64 \<Rightarrow> string
     \<Rightarrow> ('sk controller, gateway_failure, gateway_completion) action" where
  "conclude_invocation K M env invocation frame expected_sequence output =
     bind_h (or_fail (mf_content frame = []) (invalid_worker_stream ''terminal model frame contains output text'')) (\<lambda>_.
     case mf_receipt frame of
        None \<Rightarrow>
          lift (Inl (if mf_kind frame = FrameError \<and> expected_sequence = 0 \<and> output = []
            then server_failure 502 ''worker_rejected_session'' (unwrap_or ''model worker rejected the session'' (mf_error frame))
            else invalid_worker_stream ''terminal model frame omitted its signed receipt''))
      | Some receipt \<Rightarrow>
     with_state (\<lambda>s.
     bind_h (lift (verify_terminal_model_receipt K s invocation receipt output)) (\<lambda>_.
     bind_h (or_fail (\<not> (mf_kind frame = FrameComplete \<and> mx_state receipt \<noteq> Succeeded
          \<or> mf_kind frame = FrameError \<and> mx_state receipt = Succeeded))
        (invalid_worker_stream ''terminal frame and signed receipt disagree on execution state'')) (\<lambda>_.
     bind_h (or_fail (\<not> ((case mf_finish_reason frame of None \<Rightarrow> False | Some reason \<Rightarrow> length reason > 64 \<or> \<not> is_ascii reason)
          \<or> mx_state receipt = Succeeded \<and> mx_error receipt \<noteq> None))
        (invalid_worker_stream ''terminal model metadata is malformed'')) (\<lambda>_.
     bind_h (gateway_event K (cn_append_now env) ''model.session.receipted'' (ml_session_id (ai_lease invocation))
        (vc_to (mg_receipt M) receipt)) (\<lambda>_.
     lift (if mf_kind frame = FrameError
       then Inl (server_failure 502 ''model_execution_failed'' (unwrap_or ''model execution failed''
         (case mf_error frame of None \<Rightarrow> mx_error receipt | found \<Rightarrow> found)))
       else Inr \<lparr>gm_content = output, gm_finish_reason = unwrap_or ''stop'' (mf_finish_reason frame), gm_usage = mx_usage receipt\<rparr>)))))))"

lemma next_frame_shorter: "next_frame C stream = Inr (frame, stream') \<Longrightarrow> length (rst_receive stream') < length (rst_receive stream)"
  by (auto simp: next_frame_def read_header_def read_exact_def Let_def split: sum.splits if_splits option.splits prod.splits)

text \<open>The loop; it returns the events sent to the client beside the result.\<close>

function consume_frames ::
  "'sk control_lib \<Rightarrow> model_gateway_lib \<Rightarrow> consume_env \<Rightarrow> active_invocation \<Rightarrow> stream_format option \<Rightarrow> nat \<Rightarrow> model_response_stream
     \<Rightarrow> u64 \<Rightarrow> string \<Rightarrow> sse_event list \<Rightarrow> 'sk controller
     \<Rightarrow> ((gateway_failure + gateway_completion) \<times> sse_event list) \<times> 'sk controller" where
  "consume_frames K M env invocation format n stream expected_sequence output sent s =
     (if ml_expires_at (ai_lease invocation) < cn_now env n then ((Inl model_timeout, sent), s)
      else if cn_cancelled env n
      then ((Inl (server_failure 408 ''model_session_cancelled'' ''model session was cancelled''), sent), s)
      else if cn_timeout env n then ((Inl model_timeout, sent), s)
      else case next_frame (mg_frame M) stream of
        Inl e \<Rightarrow> ((Inl (server_failure 502 ''invalid_worker_stream'' (bounded_gateway_error (kl_mesh_text K e))), sent), s)
      | Inr (frame, stream) \<Rightarrow>
     if mf_sequence frame \<noteq> expected_sequence
     then ((Inl (invalid_worker_stream ''model frame sequence is not contiguous''), sent), s)
     else if mf_kind frame = Delta
     then if mf_receipt frame \<noteq> None \<or> mf_error frame \<noteq> None \<or> mf_finish_reason frame \<noteq> None
       then ((Inl (invalid_worker_stream ''model delta contains terminal fields''), sent), s)
       else if length (output @ mf_content frame) > unat MAX_MODEL_OUTPUT_BYTES
       then ((Inl (invalid_worker_stream ''model output exceeds the transcript limit''), sent), s)
       else (case format of
           None \<Rightarrow> consume_frames K M env invocation format (Suc n) stream (sat_add expected_sequence 1) (output @ mf_content frame) sent s
         | Some f \<Rightarrow>
             if cn_client env n
             then consume_frames K M env invocation format (Suc n) stream (sat_add expected_sequence 1) (output @ mf_content frame)
                    (sent @ [delta_event K invocation f (mf_content frame)]) s
             else ((Inl (server_failure 408 ''client_disconnected'' ''streaming client disconnected''), sent), s))
     else (case conclude_invocation K M env invocation frame expected_sequence output s of (result, s) \<Rightarrow> ((result, sent), s)))"
  by auto
termination by (relation "measure (\<lambda>(K, M, env, invocation, format, n, stream, e, output, sent, s). length (rst_receive stream))")
  (auto dest: next_frame_shorter)

declare consume_frames.simps [simp del]

definition consume_model_invocation ::
  "'sk control_lib \<Rightarrow> model_gateway_lib \<Rightarrow> consume_env \<Rightarrow> active_invocation \<Rightarrow> stream_format option \<Rightarrow> 'sk controller
     \<Rightarrow> ((gateway_failure + gateway_completion) \<times> sse_event list) \<times> 'sk controller" where
  "consume_model_invocation K M env invocation format s =
     consume_frames K M env invocation format 0 (ai_stream invocation) 0 [] [] s"

section \<open>Answers\<close>

definition openai_error :: "u16 \<Rightarrow> string \<Rightarrow> string \<Rightarrow> string option \<Rightarrow> string \<Rightarrow> u16 \<times> json" where
  "openai_error status message kind param code =
     (status, JObject [(''error'', JObject [(''code'', JString code), (''message'', JString message),
       (''param'', case param of None \<Rightarrow> JNull | Some p \<Rightarrow> JString p), (''type'', JString kind)])])"

definition anthropic_error :: "u16 \<Rightarrow> string \<Rightarrow> string \<Rightarrow> u16 \<times> json" where
  "anthropic_error status message kind =
     (status, JObject [(''error'', JObject [(''message'', JString message), (''type'', JString kind)]), (''type'', JString ''error'')])"

definition anthropic_stop_reason :: "string \<Rightarrow> string" where
  "anthropic_stop_reason finish_reason = (if finish_reason = ''length'' then ''max_tokens'' else ''end_turn'')"

definition anthropic_failure_kind :: "u16 \<Rightarrow> string" where
  "anthropic_failure_kind status =
     (if status = 400 \<or> status = 413 then ''invalid_request_error'' else if status = 401 then ''authentication_error''
      else if status = 403 then ''permission_error'' else if status = 404 then ''not_found_error''
      else if status = 429 then ''rate_limit_error'' else ''api_error'')"

definition gateway_failure_response :: "gateway_failure \<Rightarrow> u16 \<times> json" where
  "gateway_failure_response e = openai_error (gf_status e) (bounded_gateway_error (gf_message e)) (gf_kind e) None (gf_code e)"

definition anthropic_gateway_failure_response :: "gateway_failure \<Rightarrow> u16 \<times> json" where
  "anthropic_gateway_failure_response e =
     anthropic_error (gf_status e) (bounded_gateway_error (gf_message e)) (anthropic_failure_kind (gf_status e))"

text \<open>An answer is a status with a body, or a stream of events; a session that was started is named in a header.\<close>

datatype chat_response = JsonAnswer "uuid option" "u16 \<times> json" | EventStream uuid "sse_event list"

definition end_session :: "uuid \<Rightarrow> 'sk controller \<Rightarrow> 'sk controller" where
  "end_session session_id s = s\<lparr>kc_model_cancellations := fmdrop session_id (kc_model_cancellations s)\<rparr>"

definition openai_last_events ::
  "'sk control_lib \<Rightarrow> uuid \<Rightarrow> datetime \<Rightarrow> string \<Rightarrow> gateway_failure + gateway_completion \<Rightarrow> sse_event list" where
  "openai_last_events K request_id issued_at model_id result =
     [case result of
        Inr c \<Rightarrow> openai_chunk K request_id issued_at model_id (JObject []) (JString (gm_finish_reason c))
      | Inl e \<Rightarrow> OpenAiEvent (JObject [(''error'', JObject [(''code'', JString (gf_code e)), (''message'', JString (gf_message e)),
          (''param'', JNull), (''type'', JString (gf_kind e))])]),
      DoneEvent]"

definition openai_completion :: "'sk control_lib \<Rightarrow> uuid \<Rightarrow> datetime \<Rightarrow> string \<Rightarrow> gateway_completion \<Rightarrow> json" where
  "openai_completion K request_id issued_at model_id c =
     JObject ([(''choices'', JArray [JObject [(''finish_reason'', JString (gm_finish_reason c)), (''index'', JPosInt 0),
         (''message'', JObject [(''content'', JString (gm_content c)), (''role'', JString ''assistant'')])]]),
       (''created'', json_of_int (issued_at div nanos_per_second)), (''id'', JString (''chatcmpl-'' @ uuid_simple_text K request_id)),
       (''model'', JString model_id), (''object'', JString ''chat.completion'')]
       @ (case gm_usage c of None \<Rightarrow> []
          | Some u \<Rightarrow> [(''usage'', JObject [(''completion_tokens'', JPosInt (mu_completion_tokens u)),
              (''prompt_tokens'', JPosInt (mu_prompt_tokens u)),
              (''total_tokens'', JPosInt (sat_add (mu_prompt_tokens u) (mu_completion_tokens u)))])]))"

definition openai_chat_completions ::
  "'sk control_lib \<Rightarrow> ('i, 'r) endpoint_lib \<Rightarrow> model_gateway_lib \<Rightarrow> start_env \<Rightarrow> consume_env \<Rightarrow> string + openai_chat_request
     \<Rightarrow> 'sk controller \<Rightarrow> chat_response \<times> 'sk controller" where
  "openai_chat_completions K E M env cenv payload s =
     (case payload of
        Inl e \<Rightarrow> (JsonAnswer None (openai_error 400 (bounded_gateway_error e) ''invalid_request_error'' None ''invalid_json''), s)
      | Inr request \<Rightarrow>
     case validate_openai_request request of
        Inl e \<Rightarrow> (JsonAnswer None (gateway_failure_response e), s)
      | Inr max_output_tokens \<Rightarrow>
     case start_model_invocation K E M env request max_output_tokens s of
        (Inl e, s) \<Rightarrow> (JsonAnswer None (gateway_failure_response e), s)
      | (Inr invocation, s) \<Rightarrow>
     let session_id = ml_session_id (ai_lease invocation); request_id = ai_request_id invocation;
         issued_at = ml_issued_at (ai_lease invocation); model_id = oq_model request
     in if oq_stream request
     then case consume_model_invocation K M cenv invocation (Some OpenAi) s of
        ((result, sent), s) \<Rightarrow>
          (EventStream session_id (openai_chunk K request_id issued_at model_id (JObject [(''role'', JString ''assistant'')]) JNull
             # sent @ openai_last_events K request_id issued_at model_id result), end_session session_id s)
     else case consume_model_invocation K M cenv invocation None s of
        ((Inl e, _), s) \<Rightarrow> (JsonAnswer None (gateway_failure_response e), end_session session_id s)
      | ((Inr c, _), s) \<Rightarrow> (JsonAnswer (Some session_id) (200, openai_completion K request_id issued_at model_id c), end_session session_id s))"

text \<open>The Anthropic message interface over the same session.\<close>

definition anthropic_first_events :: "string \<Rightarrow> string \<Rightarrow> sse_event list" where
  "anthropic_first_events message_id model_id =
     [AnthropicEvent ''message_start'' (JObject
        [(''message'', JObject [(''content'', JArray []), (''id'', JString message_id), (''model'', JString model_id),
            (''role'', JString ''assistant''), (''stop_reason'', JNull), (''stop_sequence'', JNull), (''type'', JString ''message''),
            (''usage'', JObject [(''input_tokens'', JPosInt 0), (''output_tokens'', JPosInt 0)])]),
         (''type'', JString ''message_start'')]),
      AnthropicEvent ''content_block_start'' (JObject
        [(''content_block'', JObject [(''text'', JString []), (''type'', JString ''text'')]), (''index'', JPosInt 0),
         (''type'', JString ''content_block_start'')])]"

definition anthropic_error_event :: "string \<Rightarrow> string \<Rightarrow> sse_event" where
  "anthropic_error_event kind message =
     AnthropicEvent ''error'' (JObject [(''error'', JObject [(''message'', JString message), (''type'', JString kind)]), (''type'', JString ''error'')])"

definition usage_json :: "model_usage \<Rightarrow> json" where
  "usage_json u = JObject [(''input_tokens'', JPosInt (mu_prompt_tokens u)), (''output_tokens'', JPosInt (mu_completion_tokens u))]"

definition anthropic_last_events :: "gateway_failure + gateway_completion \<Rightarrow> sse_event list" where
  "anthropic_last_events result =
     (case result of
        Inl e \<Rightarrow> [anthropic_error_event (anthropic_failure_kind (gf_status e)) (bounded_gateway_error (gf_message e))]
      | Inr c \<Rightarrow>
          (case gm_usage c of
             None \<Rightarrow> [anthropic_error_event ''api_error'' ''worker omitted required verified token usage'']
           | Some u \<Rightarrow>
               [AnthropicEvent ''content_block_stop'' (JObject [(''index'', JPosInt 0), (''type'', JString ''content_block_stop'')]),
                AnthropicEvent ''message_delta'' (JObject
                  [(''delta'', JObject [(''stop_reason'', JString (anthropic_stop_reason (gm_finish_reason c))), (''stop_sequence'', JNull)]),
                   (''type'', JString ''message_delta''), (''usage'', usage_json u)]),
                AnthropicEvent ''message_stop'' (JObject [(''type'', JString ''message_stop'')])]))"

definition anthropic_message_answer :: "string \<Rightarrow> string \<Rightarrow> gateway_completion \<Rightarrow> model_usage \<Rightarrow> json" where
  "anthropic_message_answer message_id model_id c u =
     JObject [(''content'', JArray [JObject [(''text'', JString (gm_content c)), (''type'', JString ''text'')]]),
       (''id'', JString message_id), (''model'', JString model_id), (''role'', JString ''assistant''),
       (''stop_reason'', JString (anthropic_stop_reason (gm_finish_reason c))), (''stop_sequence'', JNull), (''type'', JString ''message''),
       (''usage'', usage_json u)]"

definition anthropic_messages ::
  "'sk control_lib \<Rightarrow> ('i, 'r) endpoint_lib \<Rightarrow> model_gateway_lib \<Rightarrow> start_env \<Rightarrow> consume_env \<Rightarrow> string + anthropic_messages_request
     \<Rightarrow> 'sk controller \<Rightarrow> chat_response \<times> 'sk controller" where
  "anthropic_messages K E M env cenv payload s =
     (case payload of
        Inl e \<Rightarrow> (JsonAnswer None (anthropic_error 400 (bounded_gateway_error e) ''invalid_request_error''), s)
      | Inr request \<Rightarrow>
     case and_then (translate_anthropic_request request) (\<lambda>r. and_then (validate_openai_request r) (\<lambda>limit. Inr (r, limit))) of
        Inl e \<Rightarrow> (JsonAnswer None (anthropic_gateway_failure_response e), s)
      | Inr (openai_request, max_output_tokens) \<Rightarrow>
     case start_model_invocation K E M env openai_request max_output_tokens s of
        (Inl e, s) \<Rightarrow> (JsonAnswer None (anthropic_gateway_failure_response e), s)
      | (Inr invocation, s) \<Rightarrow>
     let session_id = ml_session_id (ai_lease invocation); message_id = ''msg_'' @ uuid_simple_text K (ai_request_id invocation);
         model_id = an_model request
     in if an_stream request
     then case consume_model_invocation K M cenv invocation (Some Anthropic) s of
        ((result, sent), s) \<Rightarrow>
          (EventStream session_id (anthropic_first_events message_id model_id @ sent @ anthropic_last_events result), end_session session_id s)
     else case consume_model_invocation K M cenv invocation None s of
        ((Inl e, _), s) \<Rightarrow> (JsonAnswer None (anthropic_gateway_failure_response e), end_session session_id s)
      | ((Inr c, _), s) \<Rightarrow>
          (case gm_usage c of
             None \<Rightarrow> (JsonAnswer None (anthropic_error 502 ''worker omitted required verified token usage'' ''api_error''), end_session session_id s)
           | Some u \<Rightarrow> (JsonAnswer (Some session_id) (200, anthropic_message_answer message_id model_id c u), end_session session_id s)))"

section \<open>The other routes\<close>

text \<open>The owner's cancellation; an event that cannot be recorded is ignored.\<close>

definition cancel_model_session :: "'sk control_lib \<Rightarrow> datetime \<Rightarrow> uuid \<Rightarrow> 'sk controller \<Rightarrow> (u16 \<times> json) \<times> 'sk controller" where
  "cancel_model_session K now session_id s =
     (if fmlookup (kc_model_cancellations s) session_id = None
      then (openai_error 404 ''model session is not active'' ''invalid_request_error'' (Some ''session_id'') ''session_not_found'', s)
      else ((202, JObject [(''cancelled'', JBool True), (''session_id'', JString (kl_uuid_text K session_id))]),
        snd (record_event K now ''model.session.cancel.requested'' (kl_uuid_text K session_id)
          (JObject [(''source'', JString ''local-openai-api'')])
          (s\<lparr>kc_model_cancellations := fmupd session_id True (kc_model_cancellations s)\<rparr>))))"

definition openai_models :: "'sk control_lib \<Rightarrow> datetime \<Rightarrow> 'sk controller \<Rightarrow> json" where
  "openai_models K now s =
     JObject [(''data'', JArray (List.map_filter (\<lambda>model_id.
         map_option (\<lambda>candidates. JObject
             [(''created'', json_of_int (Max (set (map (\<lambda>c. ro_observed_at (md_offer c) div nanos_per_second) candidates)))),
              (''id'', JString model_id), (''object'', JString ''model''), (''owned_by'', JString ''rampage-fabric'')])
           (live_model_catalog K now s model_id))
         (sort (remdups (map (im_model_id \<circ> md_model) (catalog_entries K now s)))))),
       (''object'', JString ''list'')]"

text \<open>The token of the interface: the header \<open>x-api-key\<close> or a bearer token, compared by digest.\<close>

record gateway_headers =
  gh_authorization :: "string option"
  gh_api_key :: "string option"
  gh_path :: string

definition supplied_token :: "gateway_headers \<Rightarrow> string" where
  "supplied_token h =
     (let bearer = (case Option.bind (gh_authorization h) (split_once (CHR '' '')) of
             None \<Rightarrow> [] | Some (scheme, token) \<Rightarrow> if eq_ignore_ascii_case scheme ''bearer'' then token else [])
      in case gh_api_key h of None \<Rightarrow> bearer | Some key \<Rightarrow> if key = [] then bearer else key)"

definition require_gateway_token :: "'sk control_lib \<Rightarrow> string \<Rightarrow> gateway_headers \<Rightarrow> (u16 \<times> json) option" where
  "require_gateway_token K expected h =
     (if cr_sha256 (kl_crypto K) expected = cr_sha256 (kl_crypto K) (supplied_token h) then None
      else if gh_path h = ''/v1/messages''
      then Some (anthropic_error 401 ''valid Rampage API key required'' ''authentication_error'')
      else Some (openai_error 401 ''valid Rampage bearer token required'' ''authentication_error'' None ''invalid_api_key''))"

end
