(* ===== verification/Rampage_Model_Demo.thy ===== *)
theory Rampage_Model_Demo
  imports Rampage_Model_Gateway Rampage_Execution Rampage_Daemon_Demo
begin

text \<open>
  A concrete model session: a controller with one member that offers a small model, a question to it, and the worker's host, whose
  model server answers in one line.
\<close>

definition demo_model_mesh :: mesh_endpoint where
  "demo_model_mesh = demo_mesh\<lparr>me_relay_urls := [''r'']\<rparr>"

definition demo_model_offer :: resource_offer where
  "demo_model_offer = (demo_offer [\<lparr>rq_class = RamWorkingSet, rq_capacity = 4000, rq_available = 4000, rq_unit = ''byte'', rq_labels = fmempty\<rparr>])
     \<lparr>ro_model_runtimes := [demo_runtime], ro_mesh_endpoint := Some demo_model_mesh\<rparr>"

definition demo_modelling :: "ledger \<Rightarrow> unit controller" where
  "demo_modelling st = (demo_member st)\<lparr>kc_offers := fmupd 7 demo_model_offer fmempty\<rparr>"

definition demo_question :: "string \<Rightarrow> openai_chat_request" where
  "demo_question text = \<lparr>oq_model = ''qwen3:4b'', oq_messages = [\<lparr>cm_role = ''user'', cm_content = text\<rparr>], oq_stream = True,
     oq_max_tokens = None, oq_max_completion_tokens = None, oq_temperature = None, oq_top_p = None\<rparr>"

definition demo_session_lease :: model_session_lease where
  "demo_session_lease = (case authorize_model_session_at_epoch demo_crypto (demo_governor False) 0 1 2 ''n'' demo_model_offer demo_runtime demo_model
     ''controller'' \<lparr>msl_max_prompt_bytes = 9, msl_max_output_tokens = 512\<rparr> 0 of Inr lease \<Rightarrow> lease)"

definition demo_invocation :: model_invocation_request where
  "demo_invocation = \<lparr>mi_schema = model_invocation_request_SCHEMA, mi_request_id = 3, mi_lease = demo_session_lease,
     mi_messages = [\<lparr>cm_role = ''user'', cm_content = ''hello''\<rparr>], mi_max_output_tokens = 512, mi_stream = True, mi_temperature = None,
     mi_top_p = None\<rparr>"

section \<open>The worker's side\<close>

definition demo_chunk :: ollama_chat_chunk where
  "demo_chunk = \<lparr>oc_model = None, oc_message = Some ''hi'', oc_done = True, oc_done_reason = None, oc_prompt_eval_count = Some 1,
     oc_eval_count = Some 1, oc_error = None\<rparr>"

definition demo_done :: ollama_completion where
  "demo_done = \<lparr>ox_finish_reason = ''stop'', ox_usage = Some \<lparr>mu_prompt_tokens = 1, mu_completion_tokens = 1\<rparr>\<rparr>"

definition demo_body :: http_body where
  "demo_body = \<lparr>hb_chunks = [''x''], hb_error = None\<rparr>"

definition demo_model_env :: model_env where
  "demo_model_env = \<lparr>oe_now = 0, oe_tags = Inr (200, demo_body), oe_accept_now = 0, oe_started_at = 0, oe_chat = (\<lambda>_. Inr (200, demo_body)),
     oe_finished_at = 1, oe_receipt_id = 9, oe_writes = (\<lambda>_. True)\<rparr>"

definition demo_final :: model_invocation_frame where
  "demo_final = terminal_frame demo_worker_lib demo_model_env () demo_invocation (Inr demo_done) \<lparr>mo_written = [], mo_output = ''hi'', mo_sequence = 1\<rparr>"

text \<open>Only the two frames of the session fit a header.\<close>

definition demo_too_long :: string where
  "demo_too_long = replicate 65537 (CHR ''2'')"

definition demo_frames :: "model_invocation_frame codec" where
  "demo_frames = \<lparr>to_vec = (\<lambda>f. if f = delta_frame demo_invocation 0 ''hi'' then ''0'' else if f = demo_final then ''1'' else demo_too_long),
     from_slice = (\<lambda>b. if b = ''0'' then Some (delta_frame demo_invocation 0 ''hi'') else if b = ''1'' then Some demo_final else None)\<rparr>"

definition demo_catalog :: json where
  "demo_catalog = JObject [(''models'', JArray [JObject [(''model'', JString ''qwen3:4b''),
     (''digest'', JString (im_artifact_digest demo_model)), (''size'', JPosInt 1000)]])]"

definition demo_host :: model_host where
  "demo_host = \<lparr>oh_request = \<lparr>to_vec = (\<lambda>_. ''q''), from_slice = (\<lambda>_. Some demo_invocation)\<rparr>, oh_frame = demo_frames,
     oh_parse_chunk = (\<lambda>_. Inr demo_chunk), oh_parse_json = (\<lambda>_. Inr demo_catalog), oh_mesh_text = (\<lambda>_. ''mesh''),
     oh_status_text = (\<lambda>_. ''status''), oh_lossy = (\<lambda>s. s)\<rparr>"

definition demo_session_config :: "unit gateway_config" where
  "demo_session_config = \<lparr>gw_controller_endpoint_id = ''controller'', gw_node_id = 7,
     gw_governor_public_key = public_hex demo_crypto (), gw_signing_key = ()\<rparr>"

definition demo_written :: string where
  "demo_written = be_bytes4 1 @ ''0'' @ be_bytes4 1 @ ''1''"

section \<open>The controller's side\<close>

text \<open>The request of a session reads back; any other is written in full.\<close>

definition demo_gateway_lib :: model_gateway_lib where
  "demo_gateway_lib = \<lparr>mg_request = \<lparr>to_vec = (\<lambda>r. if r = demo_invocation then ''query'' else concat (map cm_content (mi_messages r))),
       from_slice = (\<lambda>_. Some demo_invocation)\<rparr>, mg_frame = demo_frames, mg_lease = blank_codec, mg_receipt = blank_codec\<rparr>"

definition demo_start :: start_env where
  "demo_start = \<lparr>sx_now = 0, sx_lease_now = 0, sx_lease_id = 1, sx_session_id = 2, sx_nonce = ''n'', sx_endpoint_now = 0, sx_request_id = 3,
     sx_append_now = 0, sx_timeout = False, sx_peer = (\<lambda>_. Some demo_written)\<rparr>"

definition demo_consume :: consume_env where
  "demo_consume = \<lparr>cn_now = (\<lambda>_. 0), cn_cancelled = (\<lambda>_. False), cn_timeout = (\<lambda>_. False), cn_client = (\<lambda>_. True), cn_append_now = 0\<rparr>"

definition demo_active :: active_invocation where
  "demo_active = \<lparr>ai_request_id = 3, ai_lease = demo_session_lease, ai_stream = \<lparr>rst_receive = demo_written, rst_request_id = 3\<rparr>\<rparr>"

section \<open>The session runs\<close>

lemma demo_runtime_fields:
  "mr_schema demo_runtime = model_runtime_offer_SCHEMA" "mr_available_model_bytes demo_runtime = 1200" "im_artifact_size_bytes demo_model = 1000"
  "mr_adapter demo_runtime = ''rampage.ollama.v1''" "mr_backend demo_runtime = LocalOllama" "mr_memory_kind demo_runtime = Host"
  "mr_status demo_runtime = ShippedLocal" "WholeModel |\<in>| mr_supported_parallelism demo_runtime" "mr_installed_models demo_runtime = [demo_model]"
  "im_model_id demo_model = ''qwen3:4b''" "mr_runtime_digest demo_runtime = ''r''"
  by (simp_all add: demo_runtime_def demo_model_def)

lemma demo_model_offer_fields:
  "ro_node_id demo_model_offer = 7" "ro_expires_at demo_model_offer = seconds 30" "ro_mesh_endpoint demo_model_offer = Some demo_model_mesh"
  "ro_model_runtimes demo_model_offer = [demo_runtime]" "ro_availability demo_model_offer = demo_availability"
  "''rampage.ollama.v1'' |\<in>| ro_adapters demo_model_offer" "available_bytes demo_model_offer RamWorkingSet = 4000"
  by (simp_all add: demo_model_offer_def demo_offer_def available_bytes_def)

lemma demo_session_authorized:
  "authorize_model_session_at_epoch demo_crypto (demo_governor False) 0 1 2 ''n'' demo_model_offer demo_runtime demo_model
     ''controller'' \<lparr>msl_max_prompt_bytes = 9, msl_max_output_tokens = 512\<rparr> 0 = Inr demo_session_lease"
proof -
  have "exact_runtime demo_model_offer demo_runtime demo_model"
    by (simp add: exact_runtime_def demo_model_offer_fields demo_runtime_fields)
  then have "\<exists>lease. authorize_model_session_at_epoch demo_crypto (demo_governor False) 0 1 2 ''n'' demo_model_offer demo_runtime demo_model
     ''controller'' \<lparr>msl_max_prompt_bytes = 9, msl_max_output_tokens = 512\<rparr> 0 = Inr lease"
    using demo_model_valid demo_runtime_fields demo_model_offer_fields
    by (simp add: authorize_model_session_at_epoch_def Let_def demo_governor_def governor_config_default_def
        protocol_limits is_ascii_def byte_def sat_add_def demo_availability_def seconds_def nanos_per_second_def)
  then show ?thesis by (auto simp: demo_session_lease_def)
qed

lemma demo_session_lease_fields:
  "ml_node_id demo_session_lease = 7" "ml_session_id demo_session_lease = 2" "ml_controller_endpoint_id demo_session_lease = ''controller''"
  "ml_max_prompt_bytes demo_session_lease = 9" "ml_max_output_tokens demo_session_lease = 512" "ml_model_id demo_session_lease = ''qwen3:4b''"
  "ml_model_digest demo_session_lease = im_artifact_digest demo_model" "ml_issued_at demo_session_lease = 0" "0 < ml_expires_at demo_session_lease"
  "ml_runtime_digest demo_session_lease = ''r''" "ml_nonce demo_session_lease = ''n''" "ml_fencing_epoch demo_session_lease = 0"
  "ml_expires_at demo_session_lease = seconds (max (gc_lease_ttl_seconds (gov_config (demo_governor False))) 1)"
  using authorized_session_fields [OF demo_session_authorized]
  by (simp_all add: demo_runtime_fields demo_model_offer_fields seconds_def nanos_per_second_def)

lemma demo_catalog_entry:
  "live_model_catalog demo_control 0 (demo_modelling st) ''qwen3:4b''
     = Some [\<lparr>md_offer = demo_model_offer, md_runtime = demo_runtime, md_model = demo_model\<rparr>]"
proof -
  have "offers_models 0 {||} demo_model_offer" "serves_models demo_model_offer demo_runtime"
    by (simp_all add: offers_models_def serves_models_def demo_runtime_fields demo_model_offer_fields demo_availability_def seconds_def nanos_per_second_def)
  moreover have "model_fits demo_model_offer demo_runtime demo_model"
    by (simp add: model_fits_def runtime_capacity_from_offer_def demo_runtime_fields demo_model_offer_fields demo_model_valid sat_add_def)
  ultimately show ?thesis
    by (simp add: live_model_catalog_def catalog_entries_def demo_modelling_def values_in_order_def demo_control_def demo_states
      List.map_filter_def demo_runtime_fields demo_model_offer_fields)
qed

lemma demo_invocation_valid: "model_invocation_is_valid_for demo_invocation 7 ''controller''"
  by (simp add: model_invocation_is_valid_for_def demo_invocation_def demo_session_lease_fields prompt_bytes_def sat_add_def)

lemma demo_invocation_of: "invocation_of demo_start (demo_question ''hello'') 512 demo_session_lease = demo_invocation"
  by (simp add: invocation_of_def demo_start_def demo_question_def demo_invocation_def)

lemma demo_session_starts:
  "\<exists>st. start_model_invocation demo_control demo_endpoints demo_gateway_lib demo_start (demo_question ''hello'') 512 (demo_modelling open_ledger)
     = (Inr demo_active, (demo_modelling st)\<lparr>kc_model_cancellations := fmupd 2 False fmempty\<rparr>) \<and> room 1 st"
proof -
  let ?c = "\<lparr>md_offer = demo_model_offer, md_runtime = demo_runtime, md_model = demo_model\<rparr>"
  let ?s = "demo_modelling open_ledger"
  have k: "kl_crypto demo_control = demo_crypto" "kl_endpoint_id demo_control = ''controller''" by (simp_all add: demo_control_def)
  have s: "\<not> kill_latch_is_file ?s" "kc_governor ?s = demo_governor False" "kc_fencing_epoch ?s = 0" "kc_ledger ?s = open_ledger"
    by (simp_all add: demo_modelling_def demo_states kill_latch_is_file_def)
  have "message_bytes (oq_messages (demo_question ''hello'')) = 9" by (simp add: message_bytes_def demo_question_def sat_add_def)
  then have l: "session_lease demo_control demo_start (demo_question ''hello'') 512 ?c ?s = Inr demo_session_lease"
    using demo_session_authorized by (simp add: session_lease_def k s demo_start_def)
  have "endpoint_addr_from_record demo_endpoints 0 demo_model_mesh = Inr \<lparr>ea_id = (), ea_addrs = [Relay ()]\<rparr>"
    by (simp add: endpoint_addr_from_record_def record_is_fresh_def endpoint_addr_from_record_inner_def endpoint_record_shape_is_valid_def
      demo_model_mesh_def demo_mesh_def demo_endpoints_def seconds_def nanos_per_second_def)
  moreover have "room (Suc 1) (kc_ledger ?s)" unfolding s(4) by (simp add: room_def open_log_def open_ledger_def numbered_def)
  then obtain st where st: "record_event demo_control 0 ''model.session.lease.issued'' (kl_uuid_text demo_control 2)
      (JObject [(''lease'', JNull), (''model_digest'', JString (im_artifact_digest demo_model)),
        (''node_id'', JString (kl_uuid_text demo_control 7)), (''request_id'', JString (kl_uuid_text demo_control 3))]) ?s
      = (Inr (), ?s\<lparr>kc_ledger := st\<rparr>)" "room 1 st" by (rule demo_record)
  moreover have "?s\<lparr>kc_ledger := st\<rparr> = demo_modelling st" by (simp add: demo_modelling_def demo_states)
  moreover have "choose_candidate (live_model_catalog demo_control 0 ?s ''qwen3:4b'') = Inr ?c"
    by (simp add: choose_candidate_def demo_catalog_entry)
  moreover have "invoke_model (mg_request demo_gateway_lib) (sx_peer demo_start) demo_invocation = Inr (ai_stream demo_active)"
    by (simp add: invoke_model_def demo_gateway_lib_def write_header_def MAX_ARTIFACT_HEADER_BYTES_def demo_start_def demo_active_def)
      (simp add: demo_invocation_def)
  moreover have "sx_now demo_start = 0" "sx_endpoint_now demo_start = 0" "sx_append_now demo_start = 0" "\<not> sx_timeout demo_start" "sx_request_id demo_start = 3"
    "oq_model (demo_question ''hello'') = ''qwen3:4b''" by (simp_all add: demo_start_def demo_question_def)
  moreover have "kc_model_cancellations (demo_modelling st) = fmempty" by (simp add: demo_modelling_def demo_states)
  moreover have "demo_active = \<lparr>ai_request_id = 3, ai_lease = demo_session_lease, ai_stream = ai_stream demo_active\<rparr>" by (simp add: demo_active_def)
  ultimately show ?thesis
    using s(1) l demo_invocation_of demo_invocation_valid k(2)
    by (intro exI [of _ st]) (simp add: start_model_invocation_def with_state_def bind_h_def or_fail_def lift_def modify_def answer_def gateway_event_def map_error_def
      demo_model_offer_fields demo_session_lease_fields demo_gateway_lib_def blank_codec_def)
qed

lemma demo_executes:
  "execute_chat demo_host demo_model_env demo_invocation demo_body idle_out
     = (Inr demo_done, \<lparr>mo_written = be_bytes4 1 @ ''0'', mo_output = ''hi'', mo_sequence = 1\<rparr>)"
proof -
  have c: "utf8_chunks ''hi'' 16384 = [''hi'']" by (simp add: utf8_chunks_def)
  have "send_frame demo_host demo_model_env (delta_frame demo_invocation 0 ''hi'') \<lparr>mo_written = [], mo_output = ''hi'', mo_sequence = 0\<rparr>
      = (Inr (), \<lparr>mo_written = be_bytes4 1 @ ''0'', mo_output = ''hi'', mo_sequence = 0\<rparr>)"
    by (simp add: send_frame_def write_model_frame_def write_header_def demo_host_def demo_frames_def demo_model_env_def MAX_ARTIFACT_HEADER_BYTES_def)
      (simp add: delta_frame_def)
  then have "send_deltas demo_host demo_model_env demo_invocation [''hi''] \<lparr>mo_written = [], mo_output = ''hi'', mo_sequence = 0\<rparr>
      = (Inr (), \<lparr>mo_written = be_bytes4 1 @ ''0'', mo_output = ''hi'', mo_sequence = 1\<rparr>)"
    by (simp add: sat_add_def)
  moreover have "oh_parse_chunk demo_host ''x'' = Inr demo_chunk" by (simp add: demo_host_def)
  moreover have "completion_of demo_chunk = Some demo_done" by (simp add: completion_of_def demo_chunk_def demo_done_def unwrap_or_def)
  moreover have "oc_error demo_chunk = None" "oc_model demo_chunk = None" "oc_message demo_chunk = Some ''hi''" by (simp_all add: demo_chunk_def)
  ultimately have "process_ollama_line demo_host demo_model_env demo_invocation ''x'' idle_out
      = (Inr (Some demo_done), \<lparr>mo_written = be_bytes4 1 @ ''0'', mo_output = ''hi'', mo_sequence = 1\<rparr>)"
    by (simp add: process_ollama_line_def idle_out_def MAX_MODEL_OUTPUT_BYTES_def c unwrap_or_def Let_def)
  then show ?thesis
    by (simp add: execute_chat_def demo_body_def drain_lines.simps [of _ _ _ "''x''"] blank_line_def is_ascii_whitespace_def byte_def finish_chat_def)
qed

lemma demo_runs:
  "run_ollama_invocation demo_host demo_worker_lib demo_model_env () demo_invocation idle_out
     = (Inr (), \<lparr>mo_written = demo_written, mo_output = ''hi'', mo_sequence = 1\<rparr>)"
proof -
  have "terminal_frame demo_worker_lib demo_model_env () demo_invocation (Inr demo_done) \<lparr>mo_written = be_bytes4 1 @ ''0'', mo_output = ''hi'', mo_sequence = 1\<rparr> = demo_final"
    "demo_final \<noteq> delta_frame demo_invocation 0 ''hi''"
    by (simp_all add: demo_final_def terminal_frame_def delta_frame_def)
  moreover have "model_invocation_frame.mf_schema demo_final = model_invocation_frame_SCHEMA" by (simp add: demo_final_def terminal_frame_def)
  ultimately show ?thesis
    using demo_executes
    by (simp add: run_ollama_invocation_def demo_model_env_def is_success_def send_frame_def write_model_frame_def write_header_def
      demo_host_def demo_frames_def MAX_ARTIFACT_HEADER_BYTES_def demo_written_def)
qed

end
