(* ===== verification/Rampage_Model_Sessions.thy ===== *)
theory Rampage_Model_Sessions
  imports Rampage_Model_Demo Rampage_Handlers Rampage_Wire
begin

text \<open>
  Model sessions from end to end: the text is cut at character boundaries, a worker answers only sessions of its
  Governor and each once, the controller starts only sessions that their worker admits, what the worker streams is what the
  controller hands on, and the controller completes a session only on a receipt for exactly that text.
\<close>

section \<open>Cutting text\<close>

lemma back_to_boundary_le: "back_to_boundary s n \<le> n"
  by (induction n) auto

lemma back_to_boundary_boundary: "is_char_boundary s (back_to_boundary s n)"
  by (induction n) (auto simp: is_char_boundary_def)

lemma back_to_boundary_greatest: "is_char_boundary s i \<Longrightarrow> i \<le> n \<Longrightarrow> i \<le> back_to_boundary s n"
  by (induction n) (auto simp: le_Suc_eq)

lemma utf8_pieces_Nil [simp]: "utf8_pieces n [] = []"
  by (simp add: utf8_pieces.simps)

lemma utf8_pieces_concat: "concat (utf8_pieces n s) = s"
proof (induction n s rule: utf8_pieces.induct)
  case (1 n s)
  then show ?case by (cases "s = []") (simp_all add: utf8_pieces.simps [of n s])
qed

lemma utf8_chunks_concat: "concat (utf8_chunks s n) = s"
  by (simp add: utf8_chunks_def utf8_pieces_concat)

text \<open>The first character of well-formed text has at most four bytes, and ends at a boundary.\<close>

lemma takeWhile_cont_utf8: "utf8_ok s \<Longrightarrow> takeWhile cont s = []"
  by (cases s) (auto simp: cont_def split: if_splits)

lemma utf8_character:
  assumes "utf8_ok (a # s)"
  shows "\<exists>b r. s = b @ r \<and> length b \<le> 3 \<and> list_all cont b \<and> utf8_ok r \<and> (\<forall>t. utf8_ok (a # b @ t) \<longleftrightarrow> utf8_ok t) \<and> \<not> cont a"
proof -
  consider "byte a < 128" | "194 \<le> byte a" "byte a \<le> 223" | "224 \<le> byte a" "byte a \<le> 239" | "240 \<le> byte a" "byte a \<le> 244"
    using assms by (auto split: if_splits)
  then show ?thesis
  proof cases
    case 1
    then show ?thesis using assms by (intro exI [of _ "[]"] exI [of _ s]) (simp add: cont_def)
  next
    case 2
    then obtain b r where "s = b # r" "cont b" "utf8_ok r" using assms by (auto split: list.splits)
    then show ?thesis using 2 by (intro exI [of _ "[b]"] exI [of _ r]) (simp add: cont_def)
  next
    case 3
    then obtain b c r where s: "s = b # c # r" "cont c" "utf8_ok r"
      and b: "if byte a = 224 then 160 \<le> byte b \<and> byte b \<le> 191 else if byte a = 237 then 128 \<le> byte b \<and> byte b \<le> 159 else cont b"
      using assms by (auto split: list.splits)
    have "cont b" using b by (auto simp: cont_def split: if_splits)
    then show ?thesis using 3 s b by (intro exI [of _ "[b, c]"] exI [of _ r]) (simp add: cont_def)
  next
    case 4
    then obtain b c d r where s: "s = b # c # d # r" "cont c" "cont d" "utf8_ok r"
      and b: "if byte a = 240 then 144 \<le> byte b \<and> byte b \<le> 191 else if byte a = 244 then 128 \<le> byte b \<and> byte b \<le> 143 else cont b"
      using assms by (auto split: list.splits)
    have "cont b" using b by (auto simp: cont_def split: if_splits)
    then show ?thesis using 4 s b by (intro exI [of _ "[b, c, d]"] exI [of _ r]) (simp add: cont_def)
  qed
qed

lemma utf8_first:
  assumes "utf8_ok s" "s \<noteq> []"
  shows "first_char_length s \<le> 4" "utf8_ok (take (first_char_length s) s)" "utf8_ok (drop (first_char_length s) s)"
    "is_char_boundary s (first_char_length s)"
proof -
  obtain a t where "s = a # t" using assms(2) by (cases s) auto
  then obtain b r where s: "s = a # b @ r" "length b \<le> 3" "list_all cont b" "utf8_ok r" "\<forall>t. utf8_ok (a # b @ t) \<longleftrightarrow> utf8_ok t"
    using assms(1) utf8_character [of a t] by blast
  have ab: "utf8_ok (a # b)" using s(5) [rule_format, of "[]"] by simp
  have f: "first_char_length s = Suc (length b)"
    using s takeWhile_cont_utf8 [of r] by (simp add: first_char_length_def takeWhile_append2 list_all_iff)
  then show "first_char_length s \<le> 4" "utf8_ok (take (first_char_length s) s)" "utf8_ok (drop (first_char_length s) s)"
    using s ab by (simp_all del: utf8_ok.simps)
  have "r = [] \<or> \<not> cont (hd r)" using takeWhile_cont_utf8 [OF s(4)] by (cases r) (auto split: if_splits)
  then show "is_char_boundary s (first_char_length s)" using s f by (cases r) (auto simp: is_char_boundary_def nth_append)
qed

text \<open>Well-formed text cut at a boundary is well formed on both sides.\<close>

lemma utf8_cut:
  "utf8_ok s \<Longrightarrow> is_char_boundary s i \<Longrightarrow> i \<le> length s \<Longrightarrow> utf8_ok (take i s) \<and> utf8_ok (drop i s)"
proof (induction "length s" arbitrary: s i rule: less_induct)
  case less
  show ?case
  proof (cases "i = 0 \<or> s = []")
    case False
    then obtain a t where "s = a # t" by (cases s) auto
    then obtain b r where s: "s = a # b @ r" "length b \<le> 3" "list_all cont b" "utf8_ok r" "\<forall>t. utf8_ok (a # b @ t) \<longleftrightarrow> utf8_ok t"
      using utf8_character [of a t] less(2) by blast
    have "\<not> i < Suc (length b)"
    proof
      assume i: "i < Suc (length b)"
      then have "s ! i \<in> set b" using False s(1) by (cases i) (auto simp: nth_append)
      then have "cont (s ! i)" using s(3) by (auto simp: list_all_iff)
      then show False using less(3) False i s(1) by (auto simp: is_char_boundary_def)
    qed
    then obtain j where j: "i = Suc (length b) + j" by (metis le_iff_add not_less)
    have "is_char_boundary r j" using less(3,4) s(1) j by (auto simp: is_char_boundary_def nth_append)
    then have "utf8_ok (take j r) \<and> utf8_ok (drop j r)" using less(1) [of r j] less(4) s(1,4) j by simp
    moreover have "utf8_ok (a # b @ take j r)" using s(5) calculation by blast
    ultimately show ?thesis using s(1) j by (simp del: utf8_ok.simps)
  qed (use less in auto)
qed

lemma piece_ok:
  assumes "utf8_ok s" "s \<noteq> []" "4 \<le> n"
  shows "piece_length n s \<le> n" "utf8_ok (take (piece_length n s) s)" "utf8_ok (drop (piece_length n s) s)"
proof -
  let ?e = "back_to_boundary s (min n (length s))"
  have "length (takeWhile cont (tl s)) \<le> length (tl s)" by (rule length_takeWhile_le)
  then have "first_char_length s \<le> length s" using assms(2) by (cases s) (auto simp: first_char_length_def)
  then have "first_char_length s \<le> ?e" using utf8_first(1,4) [OF assms(1,2)] assms(3) by (intro back_to_boundary_greatest) auto
  then have e: "piece_length n s = ?e" by (auto simp: piece_length_def first_char_length_def)
  have le: "?e \<le> n" "?e \<le> length s" using back_to_boundary_le [of s "min n (length s)"] by simp_all
  show "piece_length n s \<le> n" using e le by simp
  show "utf8_ok (take (piece_length n s) s)" "utf8_ok (drop (piece_length n s) s)"
    using utf8_cut [OF assms(1) back_to_boundary_boundary le(2)] e by simp_all
qed

lemma utf8_pieces_ok:
  "4 \<le> n \<Longrightarrow> utf8_ok s \<Longrightarrow> t \<in> set (utf8_pieces n s) \<Longrightarrow> length t \<le> n \<and> utf8_ok t"
proof (induction n s rule: utf8_pieces.induct)
  case (1 n s)
  then show ?case using piece_ok [of s n] by (cases "s = []") (auto simp: utf8_pieces.simps [of n s])
qed

section \<open>What the worker writes\<close>

fun delta_bytes :: "model_invocation_frame codec \<Rightarrow> model_invocation_request \<Rightarrow> u64 \<Rightarrow> string list \<Rightarrow> string" where
  "delta_bytes C request q [] = []"
| "delta_bytes C request q (c # cs) =
     be_bytes4 (length (to_vec C (delta_frame request q c))) @ to_vec C (delta_frame request q c)
       @ delta_bytes C request (sat_add q 1) cs"

fun after :: "u64 \<Rightarrow> 'a list \<Rightarrow> u64" where
  "after q [] = q"
| "after q (c # cs) = after (sat_add q 1) cs"

fun writable :: "model_invocation_frame codec \<Rightarrow> model_invocation_request \<Rightarrow> u64 \<Rightarrow> string list \<Rightarrow> bool" where
  "writable C request q [] = True"
| "writable C request q (c # cs) =
     (length (to_vec C (delta_frame request q c)) \<le> MAX_ARTIFACT_HEADER_BYTES \<and> writable C request (sat_add q 1) cs)"

lemma delta_append:
  "delta_bytes C request q (cs @ ds) = delta_bytes C request q cs @ delta_bytes C request (after q cs) ds"
  "after q (cs @ ds) = after (after q cs) ds"
  "writable C request q (cs @ ds) \<longleftrightarrow> writable C request q cs \<and> writable C request (after q cs) ds"
  by (induction cs arbitrary: q) auto

lemma send_frame_Inr:
  "send_frame H env frame st = (Inr (), st') \<longleftrightarrow>
     model_invocation_frame.mf_schema frame = model_invocation_frame_SCHEMA
     \<and> length (to_vec (oh_frame H) frame) \<le> MAX_ARTIFACT_HEADER_BYTES \<and> oe_writes env (mo_written st)
     \<and> st' = st\<lparr>mo_written := mo_written st @ be_bytes4 (length (to_vec (oh_frame H) frame)) @ to_vec (oh_frame H) frame\<rparr>"
  by (auto simp: send_frame_def write_model_frame_def write_header_def Let_def split: if_splits)

lemma send_deltas_Inr:
  "send_deltas H env request cs st = (Inr (), st') \<Longrightarrow>
     mo_written st' = mo_written st @ delta_bytes (oh_frame H) request (mo_sequence st) cs
     \<and> mo_sequence st' = after (mo_sequence st) cs \<and> mo_output st' = mo_output st \<and> writable (oh_frame H) request (mo_sequence st) cs"
proof (induction cs arbitrary: st)
  case (Cons c cs)
  obtain r st1 where f: "send_frame H env (delta_frame request (mo_sequence st) c) st = (r, st1)" by fastforce
  with Cons(2) have r: "r = Inr ()" by (cases r) auto
  note w = f [unfolded r send_frame_Inr]
  have "send_deltas H env request cs (st1\<lparr>mo_sequence := sat_add (mo_sequence st1) 1\<rparr>) = (Inr (), st')" using Cons(2) f r by simp
  from Cons(1) [OF this] w show ?case by simp
qed simp

text \<open>Everything of the answer so far was written, in numbered pieces.\<close>

definition streamed :: "model_host \<Rightarrow> model_invocation_request \<Rightarrow> model_out \<Rightarrow> bool" where
  "streamed H request st = (\<exists>cs. mo_written st = delta_bytes (oh_frame H) request 0 cs \<and> mo_sequence st = after 0 cs
     \<and> mo_output st = concat cs \<and> writable (oh_frame H) request 0 cs \<and> length (mo_output st) \<le> unat MAX_MODEL_OUTPUT_BYTES)"

lemma process_streamed:
  assumes "streamed H request st" "process_ollama_line H env request line st = (Inr r, st')"
  shows "streamed H request st'"
proof (cases "st' = st")
  case False
  then obtain content where le: "length (mo_output st) + length content \<le> unat MAX_MODEL_OUTPUT_BYTES"
    and sd: "send_deltas H env request (utf8_chunks content (16 * 1024)) (st\<lparr>mo_output := mo_output st @ content\<rparr>) = (Inr (), st')"
    using assms(2) by (auto simp: process_ollama_line_def Let_def not_less split: sum.splits option.splits if_splits prod.splits)
  obtain cs where cs: "mo_written st = delta_bytes (oh_frame H) request 0 cs" "mo_sequence st = after 0 cs"
    "mo_output st = concat cs" "writable (oh_frame H) request 0 cs" using assms(1) by (auto simp: streamed_def)
  have "concat (utf8_chunks content (16 * 1024)) = content" by (rule utf8_chunks_concat)
  then show ?thesis
    using send_deltas_Inr [OF sd] cs le
    by (auto simp: streamed_def delta_append intro!: exI [of _ "cs @ utf8_chunks content (16 * 1024)"])
qed (use assms in simp)

lemma drain_streamed:
  "drain_lines H env request buffered st = (Inr r, st') \<Longrightarrow> streamed H request st \<Longrightarrow> streamed H request st'"
proof (induction H env request buffered st rule: drain_lines.induct)
  case (1 H env request buffered st)
  show ?case
  proof (cases "split_once (CHR 0x0A) buffered")
    case None
    then show ?thesis using 1(3,4) by (simp add: drain_lines.simps [of H env request buffered st])
  next
    case (Some lr)
    obtain line rest where lr: "lr = (line, rest)" by fastforce
    obtain r1 st1 where p: "process_ollama_line H env request line st = (r1, st1)" by fastforce
    have d: "(if blank_line line then drain_lines H env request rest st
        else case r1 of Inl e \<Rightarrow> (Inl e, st1) | Inr None \<Rightarrow> drain_lines H env request rest st1 | Inr (Some c) \<Rightarrow> (Inr (Some c, rest), st1)) = (Inr r, st')"
      using 1(3) Some lr p by (cases r1) (auto simp: drain_lines.simps [of H env request buffered st] split: option.splits if_splits)
    show ?thesis
    proof (cases "blank_line line")
      case True
      then show ?thesis using 1(1) [OF Some lr [symmetric] True] d 1(4) by simp
    next
      case False
      then obtain c where r1: "r1 = Inr c" using d by (cases r1) auto
      have s1: "streamed H request st1" using process_streamed [OF 1(4)] p r1 by blast
      show ?thesis
      proof (cases c)
        case None
        then show ?thesis using 1(2) [OF Some lr [symmetric] False] d False r1 s1 p by simp
      qed (use d False r1 s1 in auto)
    qed
  qed
qed

lemma pull_streamed:
  "pull_chunks H env request e chunks buffered st = (Inr r, st') \<Longrightarrow> streamed H request st \<Longrightarrow> streamed H request st'"
proof (induction chunks arbitrary: buffered st)
  case (Cons chunk rest)
  obtain d st1 where p: "drain_lines H env request (buffered @ chunk) st = (d, st1)" by fastforce
  then show ?case
    using Cons drain_streamed [of H env request "buffered @ chunk" st _ st1]
    by (cases d) (auto split: if_splits option.splits prod.splits)
qed (auto split: option.splits)

lemma execute_streamed:
  assumes "streamed H request st" "execute_chat H env request body st = (Inr c, st')"
  shows "streamed H request st'"
proof -
  obtain r st1 where p: "pull_chunks H env request (hb_error body) (hb_chunks body) [] st = (r, st1)" by fastforce
  then obtain completion buffered where r: "r = Inr (completion, buffered)" using assms(2) by (cases r) (auto simp: execute_chat_def)
  have "streamed H request st1" using pull_streamed p r assms(1) by blast
  then show ?thesis
    using assms(2) p r process_streamed [of H request st1 env buffered]
    by (auto simp: execute_chat_def split: if_splits prod.splits sum.splits)
qed

section \<open>What the controller reads\<close>

definition frames_exact :: "model_invocation_frame codec \<Rightarrow> bool" where
  "frames_exact C = (\<forall>f. length (to_vec C f) \<le> MAX_ARTIFACT_HEADER_BYTES \<longrightarrow> from_slice C (to_vec C f) = Some f)"

lemma next_frame_written:
  assumes "frames_exact C" "length (to_vec C f) \<le> MAX_ARTIFACT_HEADER_BYTES"
    and "model_invocation_frame.mf_schema f = model_invocation_frame_SCHEMA" "mf_request_id f = request_id"
  shows "next_frame C \<lparr>rst_receive = be_bytes4 (length (to_vec C f)) @ to_vec C f @ rest, rst_request_id = request_id\<rparr>
     = Inr (f, \<lparr>rst_receive = rest, rst_request_id = request_id\<rparr>)"
proof -
  have "read_header C ((be_bytes4 (length (to_vec C f)) @ to_vec C f) @ rest) = Inr (f, rest)"
    by (rule header_roundtrip) (use assms(1,2) in \<open>simp_all add: frames_exact_def write_header_def Let_def\<close>)
  then show ?thesis using assms(3,4) by (simp add: next_frame_def)
qed

text \<open>Nothing interrupts the consumption: no cancellation, no timeout, and the lease does not expire.\<close>

definition undisturbed :: "consume_env \<Rightarrow> model_session_lease \<Rightarrow> bool" where
  "undisturbed env lease =
     (\<forall>n. cn_now env n \<le> ml_expires_at lease \<and> \<not> cn_cancelled env n \<and> \<not> cn_timeout env n \<and> cn_client env n)"

definition delta_events :: "'sk control_lib \<Rightarrow> active_invocation \<Rightarrow> stream_format option \<Rightarrow> string list \<Rightarrow> sse_event list" where
  "delta_events K invocation format cs = (case format of None \<Rightarrow> [] | Some f \<Rightarrow> map (delta_event K invocation f) cs)"

lemma delta_frame_fields [simp]:
  "model_invocation_frame.mf_schema (delta_frame request q c) = model_invocation_frame_SCHEMA"
  "mf_request_id (delta_frame request q c) = mi_request_id request" "mf_sequence (delta_frame request q c) = q"
  "mf_kind (delta_frame request q c) = Delta" "mf_content (delta_frame request q c) = c"
  "mf_receipt (delta_frame request q c) = None" "mf_error (delta_frame request q c) = None" "mf_finish_reason (delta_frame request q c) = None"
  by (simp_all add: delta_frame_def)

lemma consume_deltas:
  assumes "frames_exact (mg_frame M)" "undisturbed env (ai_lease invocation)"
  shows "writable (mg_frame M) request q cs \<Longrightarrow> length (out @ concat cs) \<le> unat MAX_MODEL_OUTPUT_BYTES
     \<Longrightarrow> consume_frames K M env invocation format n
           \<lparr>rst_receive = delta_bytes (mg_frame M) request q cs @ rest, rst_request_id = mi_request_id request\<rparr> q out sent s
       = consume_frames K M env invocation format (n + length cs) \<lparr>rst_receive = rest, rst_request_id = mi_request_id request\<rparr>
           (after q cs) (out @ concat cs) (sent @ delta_events K invocation format cs) s"
proof (induction cs arbitrary: n q out sent)
  case Nil
  then show ?case by (simp add: delta_events_def split: option.split)
next
  case (Cons c cs)
  have q: "\<not> ml_expires_at (ai_lease invocation) < cn_now env n" "\<not> cn_cancelled env n" "\<not> cn_timeout env n" "cn_client env n"
    using assms(2) by (auto simp: undisturbed_def not_less)
  have f: "next_frame (mg_frame M) \<lparr>rst_receive = delta_bytes (mg_frame M) request q (c # cs) @ rest, rst_request_id = mi_request_id request\<rparr>
      = Inr (delta_frame request q c,
          \<lparr>rst_receive = delta_bytes (mg_frame M) request (sat_add q 1) cs @ rest, rst_request_id = mi_request_id request\<rparr>)"
    using next_frame_written [OF assms(1), of "delta_frame request q c"] Cons(2) by simp
  have le: "\<not> unat MAX_MODEL_OUTPUT_BYTES < length (out @ c)" using Cons(3) by simp
  have "consume_frames K M env invocation format n
        \<lparr>rst_receive = delta_bytes (mg_frame M) request q (c # cs) @ rest, rst_request_id = mi_request_id request\<rparr> q out sent s
      = consume_frames K M env invocation format (Suc n)
          \<lparr>rst_receive = delta_bytes (mg_frame M) request (sat_add q 1) cs @ rest, rst_request_id = mi_request_id request\<rparr>
          (sat_add q 1) (out @ c) (sent @ delta_events K invocation format [c]) s"
    using q f le by (subst consume_frames.simps) (simp add: delta_events_def split: option.split)
  also have "\<dots> = consume_frames K M env invocation format (Suc n + length cs) \<lparr>rst_receive = rest, rst_request_id = mi_request_id request\<rparr>
      (after (sat_add q 1) cs) ((out @ c) @ concat cs) ((sent @ delta_events K invocation format [c]) @ delta_events K invocation format cs) s"
    by (rule Cons(1)) (use Cons(2,3) in simp_all)
  finally show ?case by (simp add: delta_events_def split: option.splits)
qed

text \<open>The receipt of the worker satisfies the controller that knows its key.\<close>

lemma worker_receipt_verifies:
  assumes "crypto_ok (kl_crypto K)" "wl_crypto W = kl_crypto K" "oe_started_at env \<le> oe_finished_at env"
    and "fmlookup (kc_nodes s) (ml_node_id (mi_lease request)) = Some i" "ni_node_id i = ml_node_id (mi_lease request)"
    and "ni_public_key i = public_hex (kl_crypto K) key"
    and "ai_lease invocation = mi_lease request" "ai_request_id invocation = mi_request_id request"
  shows "verify_terminal_model_receipt K s invocation (model_receipt W env key request execution output) output = Inr ()"
proof -
  have "verify_model_receipt (kl_crypto K) i (model_receipt W env key request execution output) = Inr ()"
    using sign_hex_verifies [OF assms(1)] assms(2,5,6)
    by (simp add: verify_model_receipt_def model_receipt_def sign_model_receipt_def)
  then show ?thesis
    using assms(2-4,7,8) by (simp add: verify_terminal_model_receipt_def model_receipt_def sign_model_receipt_def split: sum.split)
qed

section \<open>The whole session\<close>

lemma streamed_idle: "streamed H request idle_out"
  by (simp add: streamed_def idle_out_def exI [of _ "[]"])

definition plain_reason :: "string \<Rightarrow> bool" where
  "plain_reason r = (length r \<le> 64 \<and> is_ascii r)"

text \<open>What the controller makes of the terminal frame of a successful run.\<close>

lemma conclude_success:
  assumes "crypto_ok (kl_crypto K)" "wl_crypto W = kl_crypto K" "oe_started_at env \<le> oe_finished_at env"
    and "fmlookup (kc_nodes s) (ml_node_id (mi_lease request)) = Some i" "ni_node_id i = ml_node_id (mi_lease request)"
    and "ni_public_key i = public_hex (kl_crypto K) key"
    and "ai_lease invocation = mi_lease request" "ai_request_id invocation = mi_request_id request"
    and "gateway_event K (cn_append_now cenv) ''model.session.receipted'' (ml_session_id (mi_lease request))
      (vc_to (mg_receipt M) (model_receipt W env key request (Inr c) (mo_output st))) s = (Inr (), s')"
  shows "conclude_invocation K M cenv invocation (terminal_frame W env key request (Inr c) st) q (mo_output st) s =
     (if plain_reason (ox_finish_reason c)
      then (Inr \<lparr>gm_content = mo_output st, gm_finish_reason = ox_finish_reason c, gm_usage = ox_usage c\<rparr>, s')
      else (Inl (invalid_worker_stream ''terminal model metadata is malformed''), s))"
proof -
  have v: "verify_terminal_model_receipt K s invocation (model_receipt W env key request (Inr c) (mo_output st)) (mo_output st) = Inr ()"
    by (rule worker_receipt_verifies [OF assms(1-8)])
  have r: "mx_state (model_receipt W env key request (Inr c) (mo_output st)) = Succeeded"
    "mx_error (model_receipt W env key request (Inr c) (mo_output st)) = None"
    "mx_usage (model_receipt W env key request (Inr c) (mo_output st)) = ox_usage c"
    by (simp_all add: model_receipt_def sign_model_receipt_def)
  show ?thesis
    using assms(9) v r
    by (simp add: conclude_invocation_def terminal_frame_def or_fail_def lift_def bind_h_def with_state_def plain_reason_def
      assms(7) unwrap_or_def not_less)
qed

text \<open>Deltas and then a terminal frame: the controller comes to the verdict on that frame.\<close>

lemma consume_written:
  assumes "frames_exact (mg_frame M)" "undisturbed cenv (mi_lease request)" "writable (mg_frame M) request 0 cs"
    and "length (concat cs) \<le> unat MAX_MODEL_OUTPUT_BYTES" "length (to_vec (mg_frame M) frame) \<le> MAX_ARTIFACT_HEADER_BYTES"
    and "model_invocation_frame.mf_schema frame = model_invocation_frame_SCHEMA" "mf_request_id frame = mi_request_id request"
    and "mf_sequence frame = after 0 cs" "mf_kind frame \<noteq> Delta"
    and "invocation = \<lparr>ai_request_id = mi_request_id request, ai_lease = mi_lease request, ai_stream =
      \<lparr>rst_receive = delta_bytes (mg_frame M) request 0 cs @ be_bytes4 (length (to_vec (mg_frame M) frame)) @ to_vec (mg_frame M) frame,
       rst_request_id = mi_request_id request\<rparr>\<rparr>"
  shows "consume_model_invocation K M cenv invocation format s =
     (case conclude_invocation K M cenv invocation frame (after 0 cs) (concat cs) s of
        (result, s) \<Rightarrow> ((result, delta_events K invocation format cs), s))"
proof -
  let ?tail = "\<lparr>rst_receive = be_bytes4 (length (to_vec (mg_frame M) frame)) @ to_vec (mg_frame M) frame, rst_request_id = mi_request_id request\<rparr>"
  have f: "next_frame (mg_frame M) ?tail = Inr (frame, \<lparr>rst_receive = [], rst_request_id = mi_request_id request\<rparr>)"
    using next_frame_written [OF assms(1,5,6,7), of "[]"] by simp
  have q: "\<not> ml_expires_at (mi_lease request) < cn_now cenv (length cs)" "\<not> cn_cancelled cenv (length cs)" "\<not> cn_timeout cenv (length cs)"
    using assms(2) by (auto simp: undisturbed_def not_less)
  have "consume_model_invocation K M cenv invocation format s
      = consume_frames K M cenv invocation format (length cs) ?tail (after 0 cs) (concat cs) (delta_events K invocation format cs) s"
    using consume_deltas [OF assms(1), of cenv invocation request 0 cs "[]" K format 0 _ "[]" s] assms(2-4,10)
    by (simp add: consume_model_invocation_def)
  also have "\<dots> = (case conclude_invocation K M cenv invocation frame (after 0 cs) (concat cs) s of
      (result, s) \<Rightarrow> ((result, delta_events K invocation format cs), s))"
    using q f assms(8-10) by (subst consume_frames.simps) simp
  finally show ?thesis .
qed

text \<open>
  C9. What the worker streams is what the controller hands on. When the model server of a worker has answered and the worker has
  written its frames, then the controller, undisturbed, completes the session with exactly the text the worker
  collected, its finish reason and its token counts, has sent the client that text piece by piece, and has recorded the
  receipt; unless the finish reason of the model server is longer than 64 bytes or not ASCII: then the session fails.
\<close>

theorem model_session_roundtrip:
  assumes "crypto_ok (kl_crypto K)" "wl_crypto W = kl_crypto K" "oh_frame H = mg_frame M" "frames_exact (mg_frame M)"
    and "oe_chat env (chat_request request) = Inr (status, body)" "execute_chat H env request body idle_out = (Inr c, st)"
    and "run_ollama_invocation H W env key request idle_out = (Inr (), st')" "oe_started_at env \<le> oe_finished_at env"
    and "fmlookup (kc_nodes s) (ml_node_id (mi_lease request)) = Some i" "ni_node_id i = ml_node_id (mi_lease request)"
    and "ni_public_key i = public_hex (kl_crypto K) key" "undisturbed cenv (mi_lease request)"
    and "gateway_event K (cn_append_now cenv) ''model.session.receipted'' (ml_session_id (mi_lease request))
      (vc_to (mg_receipt M) (model_receipt W env key request (Inr c) (mo_output st))) s = (Inr (), s')"
  shows "\<exists>cs. concat cs = mo_output st \<and> mo_output st \<noteq> []
     \<and> consume_model_invocation K M cenv
         \<lparr>ai_request_id = mi_request_id request, ai_lease = mi_lease request,
          ai_stream = \<lparr>rst_receive = mo_written st', rst_request_id = mi_request_id request\<rparr>\<rparr> format s
       = (let invocation = \<lparr>ai_request_id = mi_request_id request, ai_lease = mi_lease request,
              ai_stream = \<lparr>rst_receive = mo_written st', rst_request_id = mi_request_id request\<rparr>\<rparr>
          in if plain_reason (ox_finish_reason c)
             then ((Inr \<lparr>gm_content = mo_output st, gm_finish_reason = ox_finish_reason c, gm_usage = ox_usage c\<rparr>,
               delta_events K invocation format cs), s')
             else ((Inl (invalid_worker_stream ''terminal model metadata is malformed''), delta_events K invocation format cs), s))"
proof -
  let ?frame = "terminal_frame W env key request (Inr c) st"
  let ?inv = "\<lparr>ai_request_id = mi_request_id request, ai_lease = mi_lease request,
      ai_stream = \<lparr>rst_receive = mo_written st', rst_request_id = mi_request_id request\<rparr>\<rparr>"
  obtain cs where cs: "mo_written st = delta_bytes (mg_frame M) request 0 cs" "mo_sequence st = after 0 cs"
    "mo_output st = concat cs" "writable (mg_frame M) request 0 cs" "length (mo_output st) \<le> unat MAX_MODEL_OUTPUT_BYTES"
    using execute_streamed [OF streamed_idle assms(6)] assms(3) by (auto simp: streamed_def)
  have ne: "mo_output st \<noteq> []"
    using assms(6) by (auto simp: execute_chat_def finish_chat_def split: prod.splits sum.splits if_splits option.splits)
  have "send_frame H env ?frame st = (Inr (), st')"
    using assms(5-7) by (auto simp: run_ollama_invocation_def split: if_splits)
  note w = this [unfolded send_frame_Inr assms(3)]
  have "consume_model_invocation K M cenv ?inv format s = (case conclude_invocation K M cenv ?inv ?frame (after 0 cs) (concat cs) s of
      (result, s) \<Rightarrow> ((result, delta_events K ?inv format cs), s))"
    by (rule consume_written [OF assms(4,12) cs(4)]) (use w cs in \<open>simp_all add: terminal_frame_def\<close>)
  then show ?thesis
    using cs(3) ne conclude_success [OF assms(1,2,8-11) _ _ assms(13), of ?inv "after 0 cs"] by (auto simp: Let_def)
qed

section \<open>The concrete session\<close>

lemma demo_frames_exact: "frames_exact demo_frames"
proof -
  have "length demo_too_long = 65537" by (simp add: demo_too_long_def)
  then have "\<not> length demo_too_long \<le> 65536" by simp
  moreover from this have "demo_too_long \<noteq> ''0''" by (auto dest: arg_cong [where f = length])
  ultimately show ?thesis by (simp add: frames_exact_def demo_frames_def MAX_ARTIFACT_HEADER_BYTES_def)
qed

lemma demo_undisturbed: "undisturbed demo_consume demo_session_lease"
  using demo_session_lease_fields(9) by (simp add: undisturbed_def demo_consume_def)

lemma demo_event:
  "\<exists>st. gateway_event demo_control 0 t u v (demo_modelling open_ledger) = (Inr (), demo_modelling st)"
proof -
  have s: "kc_ledger (demo_modelling open_ledger) = open_ledger" by (simp add: demo_modelling_def demo_states)
  have "room (Suc 1) (kc_ledger (demo_modelling open_ledger))" unfolding s by (simp add: room_def open_log_def open_ledger_def numbered_def)
  then obtain st where "record_event demo_control 0 t (kl_uuid_text demo_control u) v (demo_modelling open_ledger)
      = (Inr (), (demo_modelling open_ledger)\<lparr>kc_ledger := st\<rparr>)" by (rule demo_record)
  then show ?thesis by (auto simp: gateway_event_def map_error_def demo_modelling_def demo_states)
qed

lemma demo_active_written:
  "demo_active = \<lparr>ai_request_id = mi_request_id demo_invocation, ai_lease = mi_lease demo_invocation,
     ai_stream = \<lparr>rst_receive = demo_written, rst_request_id = mi_request_id demo_invocation\<rparr>\<rparr>"
  by (simp add: demo_active_def demo_invocation_def)

theorem model_session_roundtrip_witness:
  "\<exists>cs st. concat cs = ''hi'' \<and> consume_model_invocation demo_control demo_gateway_lib demo_consume demo_active (Some OpenAi) (demo_modelling open_ledger)
     = ((Inr \<lparr>gm_content = ''hi'', gm_finish_reason = ''stop'', gm_usage = Some \<lparr>mu_prompt_tokens = 1, mu_completion_tokens = 1\<rparr>\<rparr>,
         delta_events demo_control demo_active (Some OpenAi) cs), demo_modelling st)"
proof -
  have k: "kl_crypto demo_control = demo_crypto" "wl_crypto demo_worker_lib = demo_crypto" by (simp_all add: demo_control_def demo_worker_lib_def)
  have f: "oh_frame demo_host = mg_frame demo_gateway_lib" "frames_exact (mg_frame demo_gateway_lib)"
    using demo_frames_exact by (simp_all add: demo_host_def demo_gateway_lib_def)
  have n: "fmlookup (kc_nodes (demo_modelling open_ledger)) (ml_node_id (mi_lease demo_invocation)) = Some demo_identity"
      "ni_node_id demo_identity = ml_node_id (mi_lease demo_invocation)" "ni_public_key demo_identity = public_hex (kl_crypto demo_control) ()"
    by (simp_all add: demo_modelling_def demo_states demo_invocation_def demo_session_lease_fields demo_identity_def k)
  have u: "undisturbed demo_consume (mi_lease demo_invocation)" using demo_undisturbed by (simp add: demo_invocation_def)
  have e: "oe_chat demo_model_env (chat_request demo_invocation) = Inr (200, demo_body)" "oe_started_at demo_model_env \<le> oe_finished_at demo_model_env"
    by (simp_all add: demo_model_env_def)
  have a: "cn_append_now demo_consume = 0" by (simp add: demo_consume_def)
  obtain st where g: "gateway_event demo_control 0 ''model.session.receipted'' (ml_session_id (mi_lease demo_invocation))
      (vc_to (mg_receipt demo_gateway_lib) (model_receipt demo_worker_lib demo_model_env () demo_invocation (Inr demo_done) ''hi''))
      (demo_modelling open_ledger) = (Inr (), demo_modelling st)" using demo_event by blast
  have p: "plain_reason (ox_finish_reason demo_done)" by (simp add: plain_reason_def demo_done_def is_ascii_def byte_def)
  show ?thesis
    using model_session_roundtrip [OF _ _ f e(1) demo_executes demo_runs e(2) n u, of _ "Some OpenAi"] g p demo_crypto_ok
    unfolding demo_active_written by (auto simp: k a Let_def demo_done_def)
qed

end
