(* ===== verification/Rampage_Model_Trust.thy ===== *)
theory Rampage_Model_Trust
  imports Rampage_Model_Sessions
begin

text \<open>
  What the two sides of a model session may rely on: the controller completes a session only on a signed receipt for exactly
  the text it hands on; the worker serves only sessions of its Governor, and each once; a session the controller starts is one
  its worker admits; and a prompt above 64 KiB, which the interface accepts, never reaches a worker.
\<close>

section \<open>The controller\<close>

lemma or_fail_Inr [simp]: "or_fail b e s = (Inr u, s') \<longleftrightarrow> b \<and> s' = s"
  by (auto simp: or_fail_def lift_def)

lemma map_sum_id [simp]: "map_sum f id x = Inr y \<longleftrightarrow> x = Inr y" "map_sum f id x = Inl e \<longleftrightarrow> (\<exists>d. x = Inl d \<and> e = f d)"
  by (cases x; auto)+

lemma verify_terminal_Inr:
  "verify_terminal_model_receipt K s invocation receipt output = Inr u \<Longrightarrow>
     \<exists>identity. fmlookup (kc_nodes s) (ml_node_id (ai_lease invocation)) = Some identity
       \<and> verify_model_receipt (kl_crypto K) identity receipt = Inr () \<and> mx_lease_id receipt = ml_lease_id (ai_lease invocation)
       \<and> mx_session_id receipt = ml_session_id (ai_lease invocation) \<and> mx_request_id receipt = ai_request_id invocation
       \<and> mx_node_id receipt = ml_node_id (ai_lease invocation)
       \<and> mx_output_digest receipt = ''sha256:'' @ cr_hex_encode (kl_crypto K) (cr_sha256 (kl_crypto K) output)
       \<and> mx_output_bytes receipt = of_nat (length output)"
  by (auto simp: verify_terminal_model_receipt_def split: option.splits sum.splits if_splits)

text \<open>What a receipt for the output of an invocation is.\<close>

definition receipt_for :: "'sk control_lib \<Rightarrow> 'sk controller \<Rightarrow> active_invocation \<Rightarrow> gateway_completion \<Rightarrow> model_execution_receipt \<Rightarrow> bool" where
  "receipt_for K s invocation c receipt =
     ((\<exists>identity. fmlookup (kc_nodes s) (ml_node_id (ai_lease invocation)) = Some identity
        \<and> verify_model_receipt (kl_crypto K) identity receipt = Inr ())
      \<and> mx_lease_id receipt = ml_lease_id (ai_lease invocation) \<and> mx_session_id receipt = ml_session_id (ai_lease invocation)
      \<and> mx_request_id receipt = ai_request_id invocation \<and> mx_node_id receipt = ml_node_id (ai_lease invocation)
      \<and> mx_state receipt = Succeeded \<and> mx_error receipt = None \<and> mx_usage receipt = gm_usage c
      \<and> mx_output_digest receipt = ''sha256:'' @ cr_hex_encode (kl_crypto K) (cr_sha256 (kl_crypto K) (gm_content c))
      \<and> unat (mx_output_bytes receipt) = length (gm_content c))"

lemma conclude_Inr:
  assumes "conclude_invocation K M env invocation frame q output s = (Inr c, s')" "length output \<le> unat MAX_MODEL_OUTPUT_BYTES"
    and "mf_kind frame \<noteq> Delta"
  shows "gm_content c = output \<and> (\<exists>receipt st'. receipt_for K s invocation c receipt
     \<and> appended K (cn_append_now env) ''model.session.receipted'' (kl_uuid_text K (ml_session_id (ai_lease invocation)))
         (vc_to (mg_receipt M) receipt) (kc_ledger s) st' \<and> s' = s\<lparr>kc_ledger := st'\<rparr>)"
proof -
  obtain receipt where r: "mf_receipt frame = Some receipt" "verify_terminal_model_receipt K s invocation receipt output = Inr ()"
    "mf_kind frame \<noteq> FrameError" "mx_state receipt = Succeeded" "mx_error receipt = None"
    "gateway_event K (cn_append_now env) ''model.session.receipted'' (ml_session_id (ai_lease invocation)) (vc_to (mg_receipt M) receipt) s = (Inr (), s')"
    "gm_content c = output" "gm_usage c = mx_usage receipt"
    using assms(1,3)
    by (cases "mf_receipt frame"; cases "mf_kind frame")
      (auto simp: conclude_invocation_def bind_h_def with_state_def lift_def split: prod.splits sum.splits)
  have "unat (of_nat (length output) :: u64) = length output"
    using assms(2) by (simp add: MAX_MODEL_OUTPUT_BYTES_def unat_of_nat)
  then have "receipt_for K s invocation c receipt"
    using r verify_terminal_Inr [OF r(2)] by (auto simp: receipt_for_def)
  moreover have "\<exists>st'. appended K (cn_append_now env) ''model.session.receipted'' (kl_uuid_text K (ml_session_id (ai_lease invocation)))
         (vc_to (mg_receipt M) receipt) (kc_ledger s) st' \<and> s' = s\<lparr>kc_ledger := st'\<rparr>"
    using r(6) by (auto simp: gateway_event_def map_error_def record_event_def appended_def split: sum.splits prod.splits)
  ultimately show ?thesis using r(7) by blast
qed

lemma delta_events_snoc: "delta_events K invocation format (cs @ [c]) = delta_events K invocation format cs @ delta_events K invocation format [c]"
  by (simp add: delta_events_def split: option.split)

lemma consume_Inr:
  "consume_frames K M env invocation format n stream q out sent s = ((Inr c, sent'), s')
     \<Longrightarrow> out = concat cs \<Longrightarrow> sent = delta_events K invocation format cs \<Longrightarrow> length out \<le> unat MAX_MODEL_OUTPUT_BYTES
     \<Longrightarrow> \<exists>cs. gm_content c = concat cs \<and> sent' = delta_events K invocation format cs \<and> length (gm_content c) \<le> unat MAX_MODEL_OUTPUT_BYTES
        \<and> (\<exists>receipt st'. receipt_for K s invocation c receipt
           \<and> appended K (cn_append_now env) ''model.session.receipted'' (kl_uuid_text K (ml_session_id (ai_lease invocation)))
               (vc_to (mg_receipt M) receipt) (kc_ledger s) st' \<and> s' = s\<lparr>kc_ledger := st'\<rparr>)"
proof (induction "length (rst_receive stream)" arbitrary: n stream q out sent cs rule: less_induct)
  case less
  obtain frame stream1 where f: "next_frame (mg_frame M) stream = Inr (frame, stream1)"
    using less(2) by (subst (asm) consume_frames.simps) (auto split: if_splits sum.splits)
  show ?case
  proof (cases "mf_kind frame = Delta")
    case True
    have le: "length (out @ mf_content frame) \<le> unat MAX_MODEL_OUTPUT_BYTES"
      and step: "consume_frames K M env invocation format (Suc n) stream1 (sat_add q 1) (out @ mf_content frame)
        (sent @ delta_events K invocation format [mf_content frame]) s = ((Inr c, sent'), s')"
      using less(2) f True
      by (subst (asm) (1) consume_frames.simps, auto simp: delta_events_def not_less split: if_splits option.splits)+
    have "out @ mf_content frame = concat (cs @ [mf_content frame])" using less(3) by simp
    moreover have "sent @ delta_events K invocation format [mf_content frame] = delta_events K invocation format (cs @ [mf_content frame])"
      using less(4) by (simp add: delta_events_snoc)
    ultimately show ?thesis by (rule less(1) [OF next_frame_shorter [OF f] step _ _ le])
  next
    case False
    then have "conclude_invocation K M env invocation frame q out s = (Inr c, s')" "sent' = sent"
      using less(2) f by (subst (asm) consume_frames.simps, auto split: if_splits prod.splits)+
    from conclude_Inr [OF this(1) less(5) False] this(2) less(3-5) show ?thesis by auto
  qed
qed

text \<open>A session that was started: what was checked, recorded and sent.\<close>

lemma start_Inr:
  assumes "start_model_invocation K E M env request limit s = (Inr invocation, s')"
  obtains c bytes receive where "\<not> kill_latch_is_file s" "choose_candidate (live_model_catalog K (sx_now env) s (oq_model request)) = Inr c"
    "session_lease K env request limit c s = Inr (ai_lease invocation)"
    "model_invocation_is_valid_for (invocation_of env request limit (ai_lease invocation)) (ro_node_id (md_offer c)) (kl_endpoint_id K)"
    "write_header (mg_request M) (invocation_of env request limit (ai_lease invocation)) = Inr bytes" "sx_peer env bytes = Some receive"
    "ai_request_id invocation = sx_request_id env" "ai_stream invocation = \<lparr>rst_receive = receive, rst_request_id = sx_request_id env\<rparr>"
proof -
  obtain c lease where c: "\<not> kill_latch_is_file s" "choose_candidate (live_model_catalog K (sx_now env) s (oq_model request)) = Inr c"
    "session_lease K env request limit c s = Inr lease"
    "model_invocation_is_valid_for (invocation_of env request limit lease) (ro_node_id (md_offer c)) (kl_endpoint_id K)"
    and i: "invoke_model (mg_request M) (sx_peer env) (invocation_of env request limit lease) = Inr (ai_stream invocation)"
    "ai_request_id invocation = sx_request_id env" "ai_lease invocation = lease"
    using assms
    by (auto simp: start_model_invocation_def with_state_def bind_h_def lift_def modify_def Let_def answer_def
      split: prod.splits sum.splits option.splits if_splits)
  then show ?thesis
    using that by (auto simp: invoke_model_def invocation_of_def split: if_splits sum.splits option.splits)
qed

section \<open>The worker\<close>

lemma serve_invocation_admitted:
  assumes "serve_invocation H W env g request store = ((r, st), store')" "r = Inr () \<or> mo_written st \<noteq> []"
  shows "session_admitted W env g request = Inr ()" "verify_local_ollama_model H env request = Inr ()"
    "accept_authority ''governor'' (ml_fencing_epoch (mi_lease request)) (ml_nonce (mi_lease request))
       (ml_expires_at (mi_lease request)) (oe_accept_now env) store = (Inr (), store')"
  using assms by (auto simp: serve_invocation_def and_then_def idle_out_def split: sum.splits prod.splits)

lemma serve_invocation_refused:
  assumes "fst (accept_authority ''governor'' (ml_fencing_epoch (mi_lease request)) (ml_nonce (mi_lease request))
       (ml_expires_at (mi_lease request)) (oe_accept_now env) store) \<noteq> Inr ()"
  shows "\<exists>e store'. serve_invocation H W env g request store = ((Inl e, idle_out), store')"
  using assms by (auto simp: serve_invocation_def split: sum.splits prod.splits)

lemma session_admitted_Inr:
  "session_admitted W env g request = Inr () \<longleftrightarrow>
     verify_model_session_lease_with_key (wl_crypto W) (gw_governor_public_key g) (mi_lease request) = Inr ()
     \<and> model_lease_is_active_at (mi_lease request) (oe_now env) (ml_fencing_epoch (mi_lease request))
     \<and> model_invocation_is_valid_for request (gw_node_id g) (gw_controller_endpoint_id g)"
  by (auto simp: session_admitted_def split: sum.splits)

section \<open>Properties\<close>

text \<open>
  C10. A completion is receipted. When the controller completes a session, for whichever interface and whatever the worker sent,
  it holds a receipt for this lease, session, request and node, signed by the enrolled key of that node, that reports success
  and the length and digest of exactly the text it returns, which is at most 16 MiB and is what it sent the client piece by
  piece; the receipt is in the ledger, and nothing else of the controller changed.
\<close>

theorem completion_is_receipted:
  assumes "consume_model_invocation K M env invocation format s = ((Inr c, sent), s')"
  shows "\<exists>cs receipt st'. gm_content c = concat cs \<and> sent = delta_events K invocation format cs
     \<and> length (gm_content c) \<le> 16 * 1024 * 1024 \<and> receipt_for K s invocation c receipt
     \<and> appended K (cn_append_now env) ''model.session.receipted'' (kl_uuid_text K (ml_session_id (ai_lease invocation)))
         (vc_to (mg_receipt M) receipt) (kc_ledger s) st' \<and> s' = s\<lparr>kc_ledger := st'\<rparr>"
proof -
  have b: "unat MAX_MODEL_OUTPUT_BYTES = 16 * 1024 * 1024" by (simp add: MAX_MODEL_OUTPUT_BYTES_def)
  have "[] = delta_events K invocation format []" by (simp add: delta_events_def split: option.split)
  from consume_Inr [OF assms [unfolded consume_model_invocation_def], of "[]"] this b show ?thesis by (metis concat.simps(1) le0 list.size(3))
qed

text \<open>
  C11. A worker serves the sessions of its Governor, and each once. When a worker answers an invocation, or writes anything
  of an answer, then the session lease carries the signature of the pinned Governor, names this node and the pinned
  controller, is within its time, covers the prompt and the tokens asked for, and names a model that the local server has with that digest; and
  after that, and after any further operations of the store at times up to the reading of the clock, an invocation under the same lease
  is refused before anything is written.
\<close>

theorem worker_serves_governor_sessions:
  assumes "serve_invocation H W env g request store = ((r, st), store1)" "r = Inr () \<or> mo_written st \<noteq> []"
    and "cas_run (wl_cas W) (oe_accept_now env') store1 store2" "mi_lease request' = mi_lease request"
  shows "verify_model_session_lease_with_key (wl_crypto W) (gw_governor_public_key g) (mi_lease request) = Inr ()
     \<and> ml_node_id (mi_lease request) = gw_node_id g \<and> ml_controller_endpoint_id (mi_lease request) = gw_controller_endpoint_id g
     \<and> lease_has_started (ml_issued_at (mi_lease request)) (oe_now env) \<and> oe_now env < ml_expires_at (mi_lease request)
     \<and> prompt_bytes request \<le> ml_max_prompt_bytes (mi_lease request)
     \<and> mi_max_output_tokens request \<le> ml_max_output_tokens (mi_lease request)
     \<and> verify_local_ollama_model H env request = Inr ()
     \<and> (\<exists>e store3. serve_invocation H' W env' g' request' store2 = ((Inl e, idle_out), store3))"
proof -
  note a = serve_invocation_admitted [OF assms(1,2)]
  have run: "vault.run (wl_cas W) (oe_accept_now env') store1 store2" using assms(3) by (simp add: vault_run)
  have spent: "cs_nonces store1 (''governor'', ml_nonce (mi_lease request)) = Some (timestamp_millis (ml_expires_at (mi_lease request)))"
    using accept_Inr(1) [OF accept_authority_Inr(1) [OF a(3)]] by simp
  have "fst (accept_authority ''governor'' (ml_fencing_epoch (mi_lease request')) (ml_nonce (mi_lease request'))
       (ml_expires_at (mi_lease request')) (oe_accept_now env') store2) \<noteq> Inr ()"
    using vault.spent_while_live [OF run spent] spent_refused [of store2 "''governor''" "ml_nonce (mi_lease request)"] assms(4)
    by (cases "timestamp_millis (oe_accept_now env') < timestamp_millis (ml_expires_at (mi_lease request))")
      (simp_all add: accept_authority_def)
  from serve_invocation_refused [OF this] a(1,2) show ?thesis
    by (auto simp: session_admitted_Inr model_lease_is_active_at_def model_invocation_is_valid_for_def)
qed

text \<open>
  C12. A session that is started is one its worker admits. When the controller has started a session, the bytes it sent are
  read by the worker of the leased node as an invocation that its checks admit, if the worker has pinned this controller and the
  key of its Governor, knows the digest of its runtime, and its clock is inside the lease.
\<close>

theorem started_session_is_admitted:
  assumes "crypto_ok (kl_crypto K)" "wl_crypto W = kl_crypto K"
    and "start_model_invocation K E M env request limit s = (Inr invocation, s')"
    and "from_slice (mg_request M) (to_vec (mg_request M) (invocation_of env request limit (ai_lease invocation)))
      = Some (invocation_of env request limit (ai_lease invocation))"
    and "sx_nonce env \<noteq> []" "length (sx_nonce env) \<le> 128" "is_ascii (sx_nonce env)" "\<not> blank (ml_runtime_digest (ai_lease invocation))"
    and "gw_governor_public_key g = public_hex (kl_crypto K) (gov_signing_key (kc_governor s))"
    and "gw_node_id g = ml_node_id (ai_lease invocation)" "gw_controller_endpoint_id g = kl_endpoint_id K"
    and "lease_has_started (ml_issued_at (ai_lease invocation)) (oe_now wenv)" "oe_now wenv < ml_expires_at (ai_lease invocation)"
  shows "\<exists>bytes receive r. sx_peer env bytes = Some receive \<and> rst_receive (ai_stream invocation) = receive
     \<and> read_model_request (mg_request M) bytes = Inr (r, []) \<and> mi_lease r = ai_lease invocation \<and> mi_messages r = oq_messages request
     \<and> session_admitted W wenv g r = Inr ()"
proof -
  let ?r = "invocation_of env request limit (ai_lease invocation)"
  obtain c bytes receive where c: "session_lease K env request limit c s = Inr (ai_lease invocation)"
    "model_invocation_is_valid_for ?r (ro_node_id (md_offer c)) (kl_endpoint_id K)"
    "write_header (mg_request M) ?r = Inr bytes" "sx_peer env bytes = Some receive"
    "ai_stream invocation = \<lparr>rst_receive = receive, rst_request_id = sx_request_id env\<rparr>"
    using assms(3) by (rule start_Inr)
  have "read_header (mg_request M) (bytes @ []) = Inr (?r, [])" by (rule header_roundtrip [OF assms(4) c(3)])
  then have "read_model_request (mg_request M) bytes = Inr (?r, [])" by (simp add: read_model_request_def invocation_of_def)
  moreover have "session_admitted W wenv g ?r = Inr ()"
  proof -
    let ?l = "ai_lease invocation"
    note l = authorized_session_fields [OF c(1) [unfolded session_lease_def]]
    have "verify_model_session_lease_with_key (wl_crypto W) (gw_governor_public_key g) ?l = Inr ()"
      using signed_model_lease_verifies [OF assms(1) l(1)] assms(2,9) by simp
    moreover have "model_lease_is_active_at ?l (oe_now wenv) (ml_fencing_epoch ?l)"
      using l assms(5-8,12,13) sign_hex_nonempty [OF assms(1)] by (simp add: model_lease_is_active_at_def)
    ultimately show ?thesis using c(2) l assms(10,11) by (simp add: session_admitted_Inr invocation_of_def)
  qed
  ultimately show ?thesis using c(4,5) by (intro exI [of _ bytes] exI [of _ receive] exI [of _ ?r]) (simp add: invocation_of_def)
qed

text \<open>A request is encoded with the text of its messages in full.\<close>

definition text_in_full :: "model_invocation_request codec \<Rightarrow> bool" where
  "text_in_full C = (\<forall>r. length (concat (map cm_content (mi_messages r))) \<le> length (to_vec C r))"

lemma long_prompt_not_written:
  assumes "text_in_full C" "65536 < length (concat (map cm_content (mi_messages r)))"
  shows "write_header C r = Inl InvalidArtifactHeader"
proof -
  have "65536 < length (to_vec C r)" using assms by (auto simp: text_in_full_def intro: less_le_trans)
  then show ?thesis by (simp add: write_header_def MAX_ARTIFACT_HEADER_BYTES_def)
qed

lemma start_ignores_peer:
  assumes "text_in_full (mg_request M)" "65536 < length (concat (map cm_content (oq_messages request)))"
  shows "start_model_invocation K E M (env\<lparr>sx_peer := peer\<rparr>) request limit = start_model_invocation K E M env request limit"
proof -
  have i: "invocation_of (env\<lparr>sx_peer := peer\<rparr>) request limit = invocation_of env request limit"
    "session_lease K (env\<lparr>sx_peer := peer\<rparr>) request limit = session_lease K env request limit"
    by (simp_all add: invocation_of_def session_lease_def fun_eq_iff)
  have "write_header (mg_request M) (invocation_of env request limit lease) = Inl InvalidArtifactHeader" for lease
    by (rule long_prompt_not_written) (use assms in \<open>simp_all add: invocation_of_def\<close>)
  then have "invoke_model (mg_request M) p (invocation_of env request limit lease) = Inl InvalidArtifactHeader" for p lease
    by (simp add: invoke_model_def) (simp add: invocation_of_def)
  then show ?thesis by (simp add: start_model_invocation_def i Let_def cong: option.case_cong)
qed

lemma start_statuses:
  "start_model_invocation K E M env request limit s = (Inl e, s') \<Longrightarrow> gf_status e \<noteq> 200"
  by (auto simp: start_model_invocation_def with_state_def bind_h_def lift_def modify_def Let_def answer_def or_fail_def server_failure_def
    choose_candidate_def gateway_event_def map_error_def split: prod.splits sum.splits option.splits if_splits)

lemma validate_statuses: "validate_openai_request request = Inl e \<Longrightarrow> gf_status e \<noteq> 200"
  by (auto simp: validate_openai_request_def invalid_model_request_def Let_def split: if_splits)

lemma long_prompt_not_started:
  assumes "text_in_full (mg_request M)" "65536 < length (concat (map cm_content (oq_messages request)))"
  shows "\<exists>e s'. start_model_invocation K E M env request limit s = (Inl e, s') \<and> gf_status e \<noteq> 200"
proof -
  obtain r s' where r: "start_model_invocation K E M env request limit s = (r, s')" by fastforce
  then show ?thesis
  proof (cases r)
    case (Inr invocation)
    obtain bytes where "write_header (mg_request M) (invocation_of env request limit (ai_lease invocation)) = Inr bytes"
      using r [unfolded Inr] by (rule start_Inr)
    then show ?thesis using long_prompt_not_written [OF assms(1), of "invocation_of env request limit (ai_lease invocation)"] assms(2)
      by (simp add: invocation_of_def)
  qed (use r start_statuses in blast)
qed

text \<open>
  C13. A prompt above 64 KiB never reaches a worker. The interface accepts prompts of up to one MiB, but the invocation
  travels in one header of at most 64 KiB: when the messages have more text than that, the answer is an error, whatever the worker at the other end would do.
\<close>

theorem long_prompt_never_reaches_worker:
  assumes "text_in_full (mg_request M)" "65536 < length (concat (map cm_content (oq_messages request)))"
  shows "\<exists>status body s'. status \<noteq> 200 \<and> openai_chat_completions K E M env cenv (Inr request) s = (JsonAnswer None (status, body), s')
     \<and> openai_chat_completions K E M (env\<lparr>sx_peer := peer\<rparr>) cenv (Inr request) s = (JsonAnswer None (status, body), s')"
proof (cases "validate_openai_request request")
  case (Inl e)
  then show ?thesis
    using validate_statuses by (auto simp: openai_chat_completions_def gateway_failure_response_def openai_error_def)
next
  case (Inr limit)
  obtain e s' where "start_model_invocation K E M env request limit s = (Inl e, s')" "gf_status e \<noteq> 200"
    using long_prompt_not_started [OF assms] by blast
  then show ?thesis
    using Inr by (simp add: openai_chat_completions_def start_ignores_peer [OF assms] gateway_failure_response_def openai_error_def)
qed

section \<open>Witnesses\<close>

lemma demo_session_libs:
  "kl_crypto demo_control = demo_crypto" "wl_crypto demo_worker_lib = demo_crypto" "wl_cas demo_worker_lib = demo_cas" "kl_endpoint_id demo_control = ''controller''"
  by (simp_all add: demo_control_def demo_worker_lib_def)

theorem started_session_is_admitted_witness:
  "\<exists>bytes r. read_model_request (mg_request demo_gateway_lib) bytes = Inr (r, []) \<and> mi_lease r = demo_session_lease
     \<and> session_admitted demo_worker_lib demo_model_env demo_session_config r = Inr ()"
proof -
  obtain s' where st: "start_model_invocation demo_control demo_endpoints demo_gateway_lib demo_start (demo_question ''hello'') 512
     (demo_modelling open_ledger) = (Inr demo_active, s')" using demo_session_starts by blast
  have l: "ai_lease demo_active = demo_session_lease" by (simp add: demo_active_def)
  have n: "sx_nonce demo_start = ''n''" by (simp add: demo_start_def)
  have "\<exists>bytes receive r. sx_peer demo_start bytes = Some receive \<and> rst_receive (ai_stream demo_active) = receive
     \<and> read_model_request (mg_request demo_gateway_lib) bytes = Inr (r, []) \<and> mi_lease r = ai_lease demo_active
     \<and> mi_messages r = oq_messages (demo_question ''hello'') \<and> session_admitted demo_worker_lib demo_model_env demo_session_config r = Inr ()"
    by (rule started_session_is_admitted [OF _ _ st])
      (simp_all add: demo_session_libs l demo_crypto_ok demo_session_lease_fields demo_invocation_of demo_session_config_def demo_model_env_def lease_has_started_def
        protocol_limits seconds_def nanos_per_second_def n is_ascii_def byte_def ws1_def ws2_def ws3_def demo_modelling_def demo_states
        demo_governor_def demo_gateway_lib_def)
  then show ?thesis unfolding l by blast
qed

text \<open>The session of the demo, consumed.\<close>

lemma demo_consumed:
  "\<exists>c sent s'. consume_model_invocation demo_control demo_gateway_lib demo_consume demo_active None (demo_modelling open_ledger) = ((Inr c, sent), s')
     \<and> gm_content c = ''hi''"
proof -
  let ?out = "\<lparr>mo_written = [], mo_output = ''hi'', mo_sequence = 1\<rparr>"
  have f: "mg_frame demo_gateway_lib = demo_frames" by (simp add: demo_gateway_lib_def)
  have ne: "demo_final \<noteq> delta_frame demo_invocation 0 ''hi''" by (simp add: demo_final_def terminal_frame_def delta_frame_def)
  have "consume_model_invocation demo_control demo_gateway_lib demo_consume demo_active None (demo_modelling open_ledger)
     = (case conclude_invocation demo_control demo_gateway_lib demo_consume demo_active demo_final (after 0 [''hi'']) (concat [''hi'']) (demo_modelling open_ledger) of
        (result, s) \<Rightarrow> ((result, delta_events demo_control demo_active None [''hi'']), s))"
    by (rule consume_written [where request = demo_invocation])
      (use ne demo_frames_exact demo_undisturbed in \<open>simp_all add: f demo_active_def demo_written_def demo_frames_def MAX_ARTIFACT_HEADER_BYTES_def
        MAX_MODEL_OUTPUT_BYTES_def demo_invocation_def demo_final_def terminal_frame_def sat_add_def\<close>)
  moreover obtain st where "gateway_event demo_control 0 ''model.session.receipted'' (ml_session_id (mi_lease demo_invocation))
      (vc_to (mg_receipt demo_gateway_lib) (model_receipt demo_worker_lib demo_model_env () demo_invocation (Inr demo_done) ''hi''))
      (demo_modelling open_ledger) = (Inr (), demo_modelling st)" using demo_event by blast
  moreover have "cn_append_now demo_consume = 0" "plain_reason (ox_finish_reason demo_done)"
    by (simp_all add: demo_consume_def plain_reason_def demo_done_def is_ascii_def byte_def)
  ultimately show ?thesis
    using conclude_success [of demo_control demo_worker_lib demo_model_env "demo_modelling open_ledger" demo_invocation demo_identity "()" demo_active
      demo_consume demo_gateway_lib demo_done ?out]
    by (simp add: demo_session_libs demo_crypto_ok demo_final_def demo_modelling_def demo_states demo_invocation_def demo_session_lease_fields demo_identity_def
      demo_active_def demo_model_env_def)
qed

theorem completion_is_receipted_witness:
  "\<exists>c receipt. gm_content c = ''hi'' \<and> receipt_for demo_control (demo_modelling open_ledger) demo_active c receipt"
proof -
  obtain c sent s' where c: "consume_model_invocation demo_control demo_gateway_lib demo_consume demo_active None (demo_modelling open_ledger) = ((Inr c, sent), s')"
    "gm_content c = ''hi''" using demo_consumed by blast
  from completion_is_receipted [OF c(1)] c(2) show ?thesis by blast
qed

lemma demo_digest_advertised: "advertised_digest (im_artifact_digest demo_model) = im_artifact_digest demo_model"
  by (simp add: advertised_digest_def demo_model_def starts_with_def to_ascii_lowercase_def byte_def)

lemma demo_serves:
  "\<exists>store. serve_invocation demo_host demo_worker_lib demo_model_env demo_session_config demo_invocation demo_store
     = ((Inr (), \<lparr>mo_written = demo_written, mo_output = ''hi'', mo_sequence = 1\<rparr>), store)"
proof -
  have i: "mi_lease demo_invocation = demo_session_lease" by (simp add: demo_invocation_def)
  have "verify_model_session_lease_with_key demo_crypto (public_hex demo_crypto ()) demo_session_lease = Inr ()"
    using signed_model_lease_verifies [OF demo_crypto_ok] authorized_session_fields(1) [OF demo_session_authorized] by (simp add: demo_governor_def)
  moreover have "model_lease_is_active_at demo_session_lease 0 (ml_fencing_epoch demo_session_lease)"
    using authorized_session_fields [OF demo_session_authorized] sign_hex_nonempty [OF demo_crypto_ok] demo_session_lease_fields(9)
    by (simp add: model_lease_is_active_at_def lease_has_started_def protocol_limits seconds_def nanos_per_second_def demo_runtime_fields
      is_ascii_def byte_def ws1_def ws2_def ws3_def)
  ultimately have "session_admitted demo_worker_lib demo_model_env demo_session_config demo_invocation = Inr ()"
    using demo_invocation_valid by (simp add: session_admitted_Inr demo_session_libs demo_session_config_def demo_model_env_def i)
  moreover have "verify_local_ollama_model demo_host demo_model_env demo_invocation = Inr ()"
    using demo_session_lease_fields
    by (simp add: verify_local_ollama_model_def demo_host_def demo_model_env_def demo_body_def bounded_json_def demo_catalog_def json_str_def
      installed_entry_matches_def i demo_digest_advertised)
  moreover obtain store where "accept_authority ''governor'' 0 ''n'' (ml_expires_at demo_session_lease) 0 demo_store = (Inr (), store)"
    using demo_session_lease_fields(13)
    by (simp add: accept_authority_def accept_authority_in_transaction_def ensure_epoch_is_current_def
        demo_store_def open_with_limits_def delete_expired_nonces_def i64_try_from_def i64_max_def is_ascii_def byte_def
        timestamp_millis_def seconds_def nanos_per_second_def Let_def demo_governor_def governor_config_default_def)
  ultimately show ?thesis
    using demo_runs by (simp add: serve_invocation_def i demo_session_lease_fields demo_session_config_def) (simp add: demo_model_env_def)
qed

theorem worker_serves_governor_sessions_witness:
  "\<exists>store e store'. serve_invocation demo_host demo_worker_lib demo_model_env demo_session_config demo_invocation demo_store
     = ((Inr (), \<lparr>mo_written = demo_written, mo_output = ''hi'', mo_sequence = 1\<rparr>), store)
     \<and> serve_invocation demo_host demo_worker_lib demo_model_env demo_session_config demo_invocation store = ((Inl e, idle_out), store')"
proof -
  obtain store where x: "serve_invocation demo_host demo_worker_lib demo_model_env demo_session_config demo_invocation demo_store
     = ((Inr (), \<lparr>mo_written = demo_written, mo_output = ''hi'', mo_sequence = 1\<rparr>), store)" using demo_serves by blast
  have "cas_run (wl_cas demo_worker_lib) (oe_accept_now demo_model_env) store store" by (simp add: cas_run_def)
  from worker_serves_governor_sessions [OF x _ this refl, of demo_host demo_session_config] x show ?thesis by blast
qed

definition demo_long :: string where
  "demo_long = replicate 70000 (CHR ''a'')"

theorem long_prompt_never_reaches_worker_witness:
  "\<exists>status body s'. validate_openai_request (demo_question demo_long) = Inr 512 \<and> status \<noteq> 200
     \<and> openai_chat_completions demo_control demo_endpoints demo_gateway_lib demo_start demo_consume (Inr (demo_question demo_long)) (demo_modelling open_ledger)
       = (JsonAnswer None (status, body), s')"
proof -
  have n: "length demo_long = 70000" "demo_long \<noteq> []" by (simp_all add: demo_long_def flip: length_greater_0_conv del: length_greater_0_conv)
  have "text_in_full (mg_request demo_gateway_lib)"
    by (simp add: text_in_full_def demo_gateway_lib_def) (simp add: demo_invocation_def)
  moreover have "65536 < length (concat (map cm_content (oq_messages (demo_question demo_long))))" by (simp add: demo_question_def n)
  moreover have "validate_openai_request (demo_question demo_long) = Inr 512"
    by (simp add: validate_openai_request_def demo_question_def n is_ascii_def byte_def ws1_def ws2_def ws3_def message_bytes_def sat_add_def
      protocol_limits unwrap_or_def Let_def trim_def)
  ultimately show ?thesis using long_prompt_never_reaches_worker [of demo_gateway_lib "demo_question demo_long"] by blast
qed

end
