(* ===== verification/Spec2Isabelle.thy ===== *)
theory Spec2Isabelle
  imports Rampage_Governor Rampage_Contracts Rampage_Audit Rampage_Store Rampage_Shards
    Rampage_Session_Plans Rampage_Relay_Access Rampage_Wire
    Rampage_Pairing_Flow Rampage_Execution Rampage_Edge_Runtime Rampage_Daemon
    Rampage_Work Rampage_Remote Rampage_Shard_Sets Rampage_Presence Rampage_Replicas Rampage_Retrieval Rampage_Model_Trust
begin

text \<open>
  Rampage is a private compute fabric: the machines of one owner lend each other processors, memory,
  storage, models and, with consent, their screens. One machine, the \<^emph>\<open>owner\<close>, runs the controller;
  the others are \<^emph>\<open>workers\<close>, among them phones and tablets. This library models the parts of the
  repository (\<open>src/\<close>) that decide who may do what, and proves what makes those decisions correct.

  \<^bold>\<open>How the parts interact.\<close> A machine joins through nearby pairing and becomes a worker. It sends signed
  offers of resources to the controller. The controller plans a job, or a set of shards, on the
  offers; the Governor of the policy crate admits it and signs a lease of bounded time, amount and
  fencing epoch. The worker claims the job, verifies the lease, spends its nonce, executes an allowlisted adapter
  and signs a receipt, which the controller accepts as evidence. Every such event goes into a
  hash-chained ledger. Artifacts lie encrypted in a content-addressed store with quotas; machines
  speak over a mesh, where needed through a relay that admits only endpoints of the fabric.

  \<^bold>\<open>Where the parts are.\<close>
  \<^item> \<open>Rampage_Prelude\<close>, \<open>Rampage_Text\<close>, \<open>Rampage_Net\<close>: machine integers at their width with saturating and
    checked arithmetic, times in nanoseconds, strings as bytes, selection by key, JSON values, addresses. The
    shared lemmas are there.
  \<^item> \<open>crates/rampage-protocol\<close>: \<open>Rampage_Protocol\<close> (records and validation), \<open>Rampage_Contracts\<close> (shard sets,
    chunk arithmetic, leases and epochs).
  \<^item> \<open>crates/rampage-policy\<close>: \<open>Rampage_Signing\<close> (signing and verifying every contract, through the locale
    \<open>signable\<close> and one interpretation per contract), \<open>Rampage_Policy\<close> (the Governor), \<open>Rampage_Governor\<close>
    (what its leases guarantee).
  \<^item> \<open>crates/rampage-ledger\<close>: \<open>Rampage_Ledger\<close> (tables and operations), \<open>Rampage_Evidence\<close> (the chain and the
    invariant of reachable ledgers), \<open>Rampage_Audit\<close> (its properties).
  \<^item> \<open>crates/rampage-storage\<close>: \<open>Rampage_Storage\<close> (objects, manifests, sessions, authority), \<open>Rampage_Vault\<close> and
    \<open>Rampage_Quota\<close> (steps and invariants), \<open>Rampage_Custody\<close> and \<open>Rampage_Resume\<close> (contents and uploads),
    \<open>Rampage_Store\<close> (the properties).
  \<^item> \<open>crates/rampage-controller/src/lib.rs\<close>: \<open>Rampage_Scheduler\<close>, \<open>Rampage_Placement\<close>, \<open>Rampage_Shards\<close> (placement of jobs and
    shard sets), \<open>Rampage_Sessions\<close>, \<open>Rampage_Session_Plans\<close> (model sessions).
  \<^item> \<open>crates/rampage-relay\<close>: \<open>Rampage_Relay\<close>, \<open>Rampage_Relay_Access\<close>. \<open>crates/rampage-mesh\<close>: \<open>Rampage_Mesh\<close>, \<open>Rampage_Wire\<close>.
  \<^item> \<open>crates/rampage-agent/src/lib.rs\<close>: \<open>Rampage_Worker\<close>, \<open>Rampage_Execution\<close>. \<open>crates/rampage-edge\<close>: \<open>Rampage_Edge\<close>,
    \<open>Rampage_Edge_Runtime\<close>.
  \<^item> \<open>crates/rampage-controller/src/main.rs\<close>, the controller daemon: \<open>Rampage_Control\<close> (its state, handlers as state-passing
    actions), \<open>Rampage_Membership\<close> (invites, enrollment, revocation with its diagnostic refresh, offers, stop and resume), \<open>Rampage_Jobs\<close> (admission, shard sets, claims,
    receipts), \<open>Rampage_Restore\<close> (the start from the ledger), \<open>Rampage_Gateway\<close> (remote workers over the mesh). \<open>Rampage_Handlers\<close>
    has their weakest preconditions; \<open>Rampage_Lifecycle\<close> (the invariant of reachable controllers), \<open>Rampage_Replay\<close> and \<open>Rampage_Recovery\<close>
    (restart), \<open>Rampage_Daemon\<close>, \<open>Rampage_Work\<close>, \<open>Rampage_Remote\<close> and \<open>Rampage_Shard_Sets\<close> have the properties;
    \<open>Rampage_Daemon_Demo\<close> is a concrete controller for the witnesses.
  \<^item> \<open>crates/rampage-agent/src/main.rs\<close>, the worker daemon: \<open>Rampage_Agent\<close> (link, clock, measurement, offers), \<open>Rampage_Serve\<close> (the serving
    loop and its threads), \<open>Rampage_Serving\<close> and \<open>Rampage_Presence\<close> (its properties).
  \<^item> Artifacts across both daemons: \<open>Rampage_Artifact_Server\<close> (the worker's gateway), \<open>Rampage_Artifacts\<close> (the controller's side:
    replication, retrieval, possession proofs, reconciliation), \<open>Rampage_Replicas\<close> and \<open>Rampage_Retrieval\<close> (the properties).
  \<^item> Model sessions across both daemons: \<open>Rampage_Model_Serve\<close> (the worker and its model server), \<open>Rampage_Model_Gateway\<close> (the two
    HTTP interfaces, catalogue, lease, invocation and answers), \<open>Rampage_Model_Demo\<close> (a concrete session), \<open>Rampage_Model_Sessions\<close>
    and \<open>Rampage_Model_Trust\<close> (the properties).
  \<^item> \<open>apps/desktop/src-tauri/src\<close>: \<open>Rampage_Setup\<close>, \<open>Rampage_Enrollment\<close> (\<open>lib.rs\<close>: the runtime directory and the roles),
    \<open>Rampage_Pairing\<close>, \<open>Rampage_Pairing_Flow\<close> (\<open>pairing.rs\<close>).

  \<^bold>\<open>How code becomes definitions.\<close> A struct is a record whose fields carry a short prefix, an enum a
  datatype, a method a definition of nearly the same name. Fallible code returns a sum whose left side is the
  source's error; a panic is \<open>None\<close>. State is passed explicitly: a handler maps the state to an
  answer and the next state. Integers keep their width (\<open>u8\<close> to \<open>u128\<close>). The clock, random bytes and
  fresh identifiers are arguments, one for each reading. Libraries that are not part of the
  repository (SHA-256, Ed25519, X25519, ChaCha20-Poly1305, AES-GCM, SQLite's date functions, JSON text, URL and key
  parsers, the operating system's answers) are arguments too; what a theorem needs of them is a named predicate
  such as \<open>crypto_ok\<close>, and each such theorem has a witness on a concrete library.

  \<^bold>\<open>Concurrency and faults.\<close> The daemon serves requests concurrently. A handler that takes the admission gate is split where it does:
  \<open>submit_job_gated\<close>, \<open>submit_shard_set_gated\<close> and \<open>settle_receipt\<close> are what runs under the gate, and the whole handler is the
  check of the latch followed by it. A handler that holds no gate is split between its checks and its writes (\<open>store_offer\<close>,
  \<open>store_invite\<close>, \<open>store_identity\<close>). The relation \<open>handler_step\<close> of \<open>Rampage_Lifecycle\<close> has the whole handlers and their sections, each
  in any state, \<open>controller_step\<close> adds the storing of an offer that passed its checks in an earlier state, and \<open>daemon_run\<close>
  keeps the states of the run. So other handlers run between the check and the effect of a handler; a section itself is one step. The
  durable runs of \<open>Rampage_Recovery\<close> have the same sections, but enrollments and invitations are whole, no write of the ledger fails, job
  identifiers that are assigned are not reused, and the reconciliation of artifacts does not run. In \<open>Rampage_Storage\<close> an argument of type
  \<open>store_fault\<close> tells whether promoting, syncing or indexing a new object fails; \<open>put\<close> and \<open>commit_resumable_put\<close>, of which the store's
  runs are made, are the runs without a fault, and \<open>interrupted_put_evades_quota\<close> shows what a fault does.

  \<^bold>\<open>What is shown.\<close> Leases: exactly bounded, authentic, revoked by a new epoch, none under the kill latch.
  Ledger: verification accepts exactly the hash chains, every ledger of payloads that survive their printing verifies, the last
  hash pins the history. Store: quotas in every state reached without a disk fault, one-shot authority, what is read
  is what was addressed, uploads round trip. Planning: exact choice, no overdraft when shards do not repeat a class, what the scheduler
  chooses the Governor admits. Relay: the counters refine a multiset of connections. Mesh: framed
  exchanges are faithful, and the client trusts no peer. Desktop: enrollment is all or nothing unless its rollback is refused, a confirmed owner stays
  one. Pairing: both sides derive one key, an approval gets through a lossy network, nobody enters without the owner. Worker
  and phone: a claim executes at most once, its receipt is evidence, and on a phone it is not lost once it is written. Controller daemon: every assignment was authorised when its node's offer was checked, the owner's stop fences every lease held at it, a
  restart recovers the authority from the ledger alone, a remote worker touches only its own node, and what it claims, executes in time and reports is
  accepted. Worker daemon: one claim at a time in every interleaving, offers the controller admits but for their runtime profiles, a link to the pinned controller
  only. Artifacts: receipts stand for stored bytes, a retrieval returns what was addressed, a reconciliation is bounded. Model
  sessions: a session the controller starts its worker admits once, what the worker streams is what the client gets, and a
  completion rests on a signed receipt for exactly that text. Some theorems
  state where the code falls short of its intent; they are the findings of the manifest.

  \<^bold>\<open>Bounds.\<close> Recursions are structural or have a measure; the loops over files, rows, fragments and
  shards are recursions over the lists they iterate. The polling loops are lists of events, so a
  statement about a loop holds for every number of turns; no fuel is used.

  \<^bold>\<open>Not modelled.\<close> Sockets, processes, windows, screen capture, hardware probes, HTTP routing and SQL
  text are the platform's; command-line clients, bindings and the relay's executable only call the modelled
  crates. The floating-point planners of the controller (break-even, network autopilot) are left out, and of its daemon the
  content of the diagnostic and economy reports, which is read from the state (that a refresh records a report and replaces the excluded nodes
  is modelled, with the report as an argument), the desktop sessions, which relay frames, and the start-up. Of the worker's
  daemon hardware discovery, Remote Assist (screen and input) and the start-up are left out. Locks are not poisoned.
\<close>

end
